(* ===== verification/Prelude.thy ===== *)
theory Prelude
  imports Main "HOL-Library.AList" "HOL-Library.Multiset" "HOL-Library.Signed_Division"
    "HOL-Library.List_Lexorder" "HOL-Library.Char_ord"
begin

text \<open>
  What the component theories share: Go's error returns and run-time panics as values, truncating
  division, maps as association lists with distinct keys, stable sorting by a comparison function
  (\<open>sort.SliceStable\<close>), decimal printing, and the lemmas on sums and updates of lists
  that carry the component proofs.
\<close>

named_theorems money_simps \<open>equations about sums of amounts over lists of players\<close>

section \<open>Errors and panics\<close>

text \<open>
  \<open>Err s\<close> is an error built by \<open>fmt.Errorf\<close>, \<open>s\<close> being its format string;
  \<open>Panic s\<close> is a run-time panic (division by zero, index out of range).
\<close>

datatype go_error = Err string | Panic string

type_synonym 'a res = "go_error + 'a"

definition is_ok :: "'a res \<Rightarrow> bool" where
  "is_ok r = (case r of Inl _ \<Rightarrow> False | Inr _ \<Rightarrow> True)"

definition no_panic :: "'a res \<Rightarrow> bool" where
  "no_panic r = (case r of Inl (Panic _) \<Rightarrow> False | _ \<Rightarrow> True)"

text \<open>Go's \<open>%\<close> truncates towards zero and panics on a zero divisor.\<close>

definition go_mod :: "int \<Rightarrow> int \<Rightarrow> int res" where
  "go_mod a b = (if b = 0 then Inl (Panic ''integer divide by zero'') else Inr (a smod b))"

text \<open>A slice read \<open>xs[i]\<close>, which panics outside the range.\<close>

definition go_index :: "'a list \<Rightarrow> int \<Rightarrow> 'a res" where
  "go_index xs i =
     (if 0 \<le> i \<and> i < int (length xs) then Inr (xs ! nat i)
      else Inl (Panic ''index out of range''))"

lemma smod_nonneg [simp]: "0 \<le> a \<Longrightarrow> 0 < b \<Longrightarrow> (a::int) smod b = a mod b"
  by (simp add: signed_modulo_int_def signed_divide_int_def minus_mult_div_eq_mod sgn_if)

lemma sdiv_nonneg [simp]: "0 \<le> a \<Longrightarrow> 0 < b \<Longrightarrow> (a::int) sdiv b = a div b"
  by (simp add: signed_divide_int_def sgn_if)

lemma go_mod_nonneg [simp]: "0 \<le> a \<Longrightarrow> 0 < b \<Longrightarrow> go_mod a b = Inr (a mod b)"
  by (simp add: go_mod_def)

lemma go_index_in [simp]: "0 \<le> i \<Longrightarrow> i < int (length xs) \<Longrightarrow> go_index xs i = Inr (xs ! nat i)"
  by (simp add: go_index_def)

lemma is_ok_simps [simp]: "\<not> is_ok (Inl e)" "is_ok (Inr x)"
  by (simp_all add: is_ok_def)

lemma is_ok_iff: "is_ok r \<longleftrightarrow> (\<exists>x. r = Inr x)"
  by (cases r) auto

lemma no_panic_simps [simp]: "no_panic (Inl (Err s))" "\<not> no_panic (Inl (Panic s))" "no_panic (Inr x)"
  by (simp_all add: no_panic_def)

lemma is_ok_no_panic: "is_ok r \<Longrightarrow> no_panic r"
  by (auto simp: is_ok_iff)

section \<open>Maps\<close>

text \<open>
  A Go map is an association list with distinct keys, kept in the order of first insertion.
  Reading a missing key of an integer map gives 0.
\<close>

type_synonym ('k, 'v) gomap = "('k \<times> 'v) list"

definition mget :: "('k, int) gomap \<Rightarrow> 'k \<Rightarrow> int" where
  "mget m k = (case map_of m k of None \<Rightarrow> 0 | Some v \<Rightarrow> v)"

definition madd :: "'k \<Rightarrow> int \<Rightarrow> ('k, int) gomap \<Rightarrow> ('k, int) gomap" where
  "madd k v m = AList.update k (mget m k + v) m"

definition msum :: "('k, int) gomap \<Rightarrow> int" where
  "msum m = sum_list (map snd m)"

definition keys :: "('k, 'v) gomap \<Rightarrow> 'k list" where
  "keys m = map fst m"

lemma mget_Nil [simp]: "mget [] k = 0"
  by (simp add: mget_def)

lemma mget_update [simp]: "mget (AList.update k v m) k' = (if k' = k then v else mget m k')"
  by (simp add: mget_def update_conv')

lemma mget_madd [simp]: "mget (madd k v m) k' = (if k' = k then mget m k + v else mget m k')"
  by (simp add: madd_def)

lemma mget_notin: "k \<notin> fst ` set m \<Longrightarrow> mget m k = 0"
  by (simp add: mget_def map_of_eq_None_iff [THEN iffD2] split: option.split)

lemma distinct_madd [simp]: "distinct (map fst m) \<Longrightarrow> distinct (map fst (madd k v m))"
  by (simp add: madd_def distinct_update)

lemma keys_madd [simp]: "fst ` set (madd k v m) = insert k (fst ` set m)"
  using dom_update [of k "mget m k + v" m] by (simp add: madd_def dom_map_of_conv_image_fst)

lemma map_snd_update_new: "k \<notin> fst ` set m \<Longrightarrow> AList.update k v m = m @ [(k, v)]"
  by (induction m) auto

lemma msum_update: "distinct (map fst m) \<Longrightarrow> msum (AList.update k v m) = msum m - mget m k + v"
proof (induction m)
  case (Cons a m)
  then show ?case by (cases a) (auto simp: msum_def mget_def map_of_eq_None_iff [THEN iffD2])
qed (simp add: msum_def)

lemma msum_madd [money_simps]: "distinct (map fst m) \<Longrightarrow> msum (madd k v m) = msum m + v"
  by (simp add: madd_def msum_update)

lemma mget_Cons: "mget (a # m) k = (if fst a = k then snd a else mget m k)"
  by (auto simp: mget_def)

section \<open>Decimal printing\<close>

text \<open>\<open>strconv.Itoa\<close>, and \<open>%02d\<close> of \<open>fmt.Sprintf\<close>.\<close>

fun nat_digits :: "nat \<Rightarrow> string" where
  "nat_digits n =
     (if n < 10 then [char_of (48 + n)] else nat_digits (n div 10) @ [char_of (48 + n mod 10)])"

declare nat_digits.simps [simp del]

definition itoa :: "int \<Rightarrow> string" where
  "itoa i = (if i < 0 then CHR ''-'' # nat_digits (nat (- i)) else nat_digits (nat i))"

definition itoa2 :: "int \<Rightarrow> string" where
  "itoa2 i = (let s = itoa i in if length s < 2 then CHR ''0'' # s else s)"

section \<open>Stable sorting by a comparison\<close>

text \<open>
  \<open>sort.SliceStable(xs, less)\<close>: the result is determined by \<open>less\<close> whenever it is a
  strict weak order, so any stable algorithm gives it; here insertion from the right.
\<close>

fun insert_by :: "('a \<Rightarrow> 'a \<Rightarrow> bool) \<Rightarrow> 'a \<Rightarrow> 'a list \<Rightarrow> 'a list" where
  "insert_by lt x [] = [x]"
| "insert_by lt x (y # ys) = (if lt y x then y # insert_by lt x ys else x # y # ys)"

definition slice_stable :: "('a \<Rightarrow> 'a \<Rightarrow> bool) \<Rightarrow> 'a list \<Rightarrow> 'a list" where
  "slice_stable lt xs = foldr (insert_by lt) xs []"

lemma slice_stable_simps [simp]:
  "slice_stable lt [] = []"
  "slice_stable lt (x # xs) = insert_by lt x (slice_stable lt xs)"
  by (simp_all add: slice_stable_def)

lemma mset_insert_by [simp]: "mset (insert_by lt x ys) = add_mset x (mset ys)"
  by (induction ys) auto

lemma mset_slice_stable [simp]: "mset (slice_stable lt xs) = mset xs"
  by (induction xs) auto

lemma set_slice_stable [simp]: "set (slice_stable lt xs) = set xs"
  using mset_eq_setD [OF mset_slice_stable] .

lemma length_slice_stable [simp]: "length (slice_stable lt xs) = length xs"
  using mset_eq_length [OF mset_slice_stable] .

lemma distinct_slice_stable [simp]: "distinct (slice_stable lt xs) = distinct xs"
  by (metis mset_eq_imp_distinct_iff mset_slice_stable)

lemma slice_stable_Nil_iff [simp]: "slice_stable lt xs = [] \<longleftrightarrow> xs = []"
  by (metis length_0_conv length_slice_stable)

text \<open>The contract of a comparison: a strict weak order. Every \<open>less\<close> the code passes to
  the \<open>sort\<close> package is shown to be one.\<close>

locale strict_weak =
  fixes lt :: "'a \<Rightarrow> 'a \<Rightarrow> bool"
  assumes less_irrefl: "\<not> lt x x"
    and less_trans: "lt x y \<Longrightarrow> lt y z \<Longrightarrow> lt x z"
    and incomp_trans: "\<not> lt x y \<Longrightarrow> \<not> lt y z \<Longrightarrow> \<not> lt x z"
begin

lemma less_asym: "lt x y \<Longrightarrow> \<not> lt y x"
  using less_irrefl less_trans by blast

lemma set_insert_by: "set (insert_by lt x ys) = insert x (set ys)"
  using mset_insert_by [of lt x ys] by (metis set_mset_add_mset_insert set_mset_mset)

lemma sorted_insert_by:
  "sorted_wrt (\<lambda>a b. \<not> lt b a) ys \<Longrightarrow> sorted_wrt (\<lambda>a b. \<not> lt b a) (insert_by lt x ys)"
proof (induction ys)
  case (Cons y ys)
  show ?case
  proof (cases "lt y x")
    case True
    then have "\<not> lt x y" by (rule less_asym)
    with True Cons show ?thesis by (simp add: set_insert_by)
  next
    case False
    then have "\<forall>z\<in>set ys. \<not> lt z x" using Cons.prems incomp_trans [of _ y x] by auto
    with False Cons.prems show ?thesis by simp
  qed
qed simp

lemma sorted_slice: "sorted_wrt (\<lambda>a b. \<not> lt b a) (slice_stable lt xs)"
  by (induction xs) (auto intro: sorted_insert_by)

lemma slice_hd_le: "x \<in> set xs \<Longrightarrow> \<not> lt x (hd (slice_stable lt xs))"
  using sorted_slice [of xs] less_irrefl
  by (cases "slice_stable lt xs") (auto simp flip: set_slice_stable [of lt xs])

lemma slice_sorted_id: "sorted_wrt (\<lambda>a b. \<not> lt b a) xs \<Longrightarrow> slice_stable lt xs = xs"
proof (induction xs)
  case (Cons x xs)
  then show ?case by (cases xs) auto
qed simp

lemma slice_idem: "slice_stable lt (slice_stable lt xs) = slice_stable lt xs"
  by (rule slice_sorted_id) (rule sorted_slice)

end

text \<open>A comparison by a key is one, and then the sort is the library's \<open>sort_key\<close>.\<close>

lemma insert_by_key: "insert_by (\<lambda>a b. f a < f b) x ys = insort_key f x ys"
  by (induction ys) auto

lemma slice_stable_key: "slice_stable (\<lambda>a b. f a < f b) xs = sort_key f xs"
  by (induction xs) (simp_all add: insert_by_key)

lemma strict_weak_key: "strict_weak (\<lambda>a b. (f a :: 'k::linorder) < f b)"
  by unfold_locales auto

text \<open>Sorting with a key that is injective on the elements forgets the order of the input.\<close>

lemma slice_stable_perm:
  assumes inj: "inj_on f (set xs)" and perm: "mset xs = mset ys"
  shows "slice_stable (\<lambda>a b. (f a :: 'k::linorder) < f b) xs = slice_stable (\<lambda>a b. f a < f b) ys"
proof -
  have sorted_eq: "map f (sort_key f zs) = sort (map f zs)" for zs
    by (rule properties_for_sort [symmetric]) simp_all
  have "map f (sort_key f xs) = map f (sort_key f ys)"
    unfolding sorted_eq using perm by (intro properties_for_sort) simp_all
  moreover have "set (sort_key f xs) \<union> set (sort_key f ys) = set xs"
    using mset_eq_setD [OF perm] by simp
  ultimately have "sort_key f xs = sort_key f ys"
    using inj by (intro map_inj_on [of f]) auto
  then show ?thesis by (simp add: slice_stable_key)
qed

section \<open>Three-way comparisons\<close>

text \<open>
  The contract of a comparison that returns \<open>-1\<close>, \<open>0\<close> or \<open>1\<close>: a total preorder. Keeping the larger
  of two values while scanning a list then finds a largest one.
\<close>

locale three_way_compare =
  fixes cmp :: "'a \<Rightarrow> 'a \<Rightarrow> int"
  assumes cmp_range: "cmp x y = -1 \<or> cmp x y = 0 \<or> cmp x y = 1"
    and cmp_swap: "cmp y x = - cmp x y"
    and cmp_trans: "0 \<le> cmp x y \<Longrightarrow> 0 \<le> cmp y z \<Longrightarrow> 0 \<le> cmp x z"
begin

lemma cmp_refl: "cmp x x = 0"
  using cmp_swap [of x x] by simp

lemma cmp_total: "0 \<le> cmp x y \<or> 0 \<le> cmp y x"
  using cmp_swap [of x y] by linarith

lemma cmp_eq_trans: "cmp x y = 0 \<Longrightarrow> cmp y z = 0 \<Longrightarrow> cmp x z = 0"
  using cmp_trans [of x y z] cmp_trans [of z y x] cmp_swap [of x y] cmp_swap [of y z] cmp_swap [of x z]
  by linarith

definition keep_best :: "'a \<Rightarrow> 'a \<Rightarrow> 'a" where
  "keep_best b x = (if 0 < cmp x b then x else b)"

lemma keep_best_ge: "0 \<le> cmp (keep_best b x) b \<and> 0 \<le> cmp (keep_best b x) x"
  using cmp_refl cmp_swap [of b x] by (auto simp: keep_best_def)

lemma fold_keep_best:
  "foldl keep_best b xs \<in> insert b (set xs) \<and> (\<forall>x \<in> insert b (set xs). 0 \<le> cmp (foldl keep_best b xs) x)"
proof (induction xs arbitrary: b)
  case (Cons x xs)
  let ?m = "foldl keep_best (keep_best b x) xs"
  have m: "?m \<in> insert (keep_best b x) (set xs)" "\<forall>y \<in> insert (keep_best b x) (set xs). 0 \<le> cmp ?m y"
    using Cons [of "keep_best b x"] by auto
  then have "0 \<le> cmp ?m b" "0 \<le> cmp ?m x" using keep_best_ge [of b x] cmp_trans by blast+
  moreover have "keep_best b x \<in> {b, x}" by (simp add: keep_best_def)
  ultimately show ?case using m by auto
qed (simp add: cmp_refl)

end

sublocale three_way_compare \<subseteq> by_cmp: strict_weak "\<lambda>x y. cmp x y < 0"
proof
  fix x y z
  show "\<not> cmp x x < 0" by (simp add: cmp_refl)
  show "cmp x z < 0" if "cmp x y < 0" "cmp y z < 0"
    using that cmp_trans [of z y x] cmp_trans [of x z y] cmp_swap [of x y] cmp_swap [of y z] cmp_swap [of x z]
    by linarith
  show "\<not> cmp x z < 0" if "\<not> cmp x y < 0" "\<not> cmp y z < 0"
    using that cmp_trans [of x y z] by linarith
qed

section \<open>Sums over lists with an updated element\<close>

lemma sum_list_update [money_simps]:
  "i < length xs \<Longrightarrow> sum_list (map f (xs[i := y])) = sum_list (map f xs) - f (xs ! i) + (f y :: int)"
  by (induction xs arbitrary: i) (auto split: nat.split)

lemma sum_list_nonneg_int: "(\<And>x. x \<in> set xs \<Longrightarrow> 0 \<le> f x) \<Longrightarrow> 0 \<le> sum_list (map f xs :: int list)"
  by (rule sum_list_nonneg) auto

lemma elem_le_sum_int:
  assumes "x \<in> set xs" and "\<And>y. y \<in> set xs \<Longrightarrow> 0 \<le> f y"
  shows "f x \<le> (sum_list (map f xs) :: int)"
  using assms
proof (induction xs)
  case (Cons y ys)
  then have "0 \<le> sum_list (map f ys)" by (intro sum_list_nonneg_int) simp
  with Cons show ?case by force
qed simp

end
