(* ===== verification/Custody_Types.thy ===== *)
theory Custody_Types
  imports Prelude "HOL-Library.Word"
begin

text \<open>
  The data of \<open>internal/tablecustody/types.go\<close>: one record per struct, with the source's field
  names behind a prefix of the struct, and one datatype per string enumeration, whose last
  constructor stands for any other string a peer may send. Amounts are unbounded integers; the
  bounds lemmas of the hand engine show that no amount it computes leaves the range of the
  source's 64-bit integers.
\<close>

datatype TimeoutPolicy =
    TimeoutPolicyAutoCheckOrFold
  | TimeoutPolicyAutoFold
  | TimeoutPolicyOther string

datatype TransitionKind =
    TransitionKindBuyInLock
  | TransitionKindBlindPost
  | TransitionKindAction
  | TransitionKindTimeout
  | TransitionKindTurnChallengeOpen
  | TransitionKindTurnChallengeEscape
  | TransitionKindShowdownPayout
  | TransitionKindCashOut
  | TransitionKindEmergencyExit
  | TransitionKindCarryForward
  | TransitionKindOther string

fun timeout_policy_str :: "TimeoutPolicy \<Rightarrow> string" where
  "timeout_policy_str TimeoutPolicyAutoCheckOrFold = ''auto-check-or-fold''"
| "timeout_policy_str TimeoutPolicyAutoFold = ''auto-fold''"
| "timeout_policy_str (TimeoutPolicyOther s) = s"

fun transition_kind_str :: "TransitionKind \<Rightarrow> string" where
  "transition_kind_str TransitionKindBuyInLock = ''buy-in-lock''"
| "transition_kind_str TransitionKindBlindPost = ''blind-post''"
| "transition_kind_str TransitionKindAction = ''action''"
| "transition_kind_str TransitionKindTimeout = ''timeout''"
| "transition_kind_str TransitionKindTurnChallengeOpen = ''turn-challenge-open''"
| "transition_kind_str TransitionKindTurnChallengeEscape = ''turn-challenge-escape''"
| "transition_kind_str TransitionKindShowdownPayout = ''showdown-payout''"
| "transition_kind_str TransitionKindCashOut = ''cash-out''"
| "transition_kind_str TransitionKindEmergencyExit = ''emergency-exit''"
| "transition_kind_str TransitionKindCarryForward = ''carry-forward''"
| "transition_kind_str (TransitionKindOther s) = s"

definition AllTransitionKinds :: "TransitionKind list" where
  "AllTransitionKinds =
     [TransitionKindBuyInLock, TransitionKindBlindPost, TransitionKindAction, TransitionKindTimeout,
      TransitionKindTurnChallengeOpen, TransitionKindTurnChallengeEscape,
      TransitionKindShowdownPayout, TransitionKindCashOut, TransitionKindEmergencyExit,
      TransitionKindCarryForward]"

record VTXORef =
  vr_AmountSats :: int
  vr_ArkIntentID :: string
  vr_ArkTxID :: string
  vr_ExpiresAt :: string
  vr_OwnerPlayerID :: string
  vr_Script :: string
  vr_Tapscripts :: "string list"
  vr_TxID :: string
  vr_VOut :: "32 word"

record StackClaim =
  sc_AllIn :: bool
  sc_AmountSats :: int
  sc_Folded :: bool
  sc_PlayerID :: string
  sc_ReservedFeeSats :: int
  sc_RoundContributionSats :: int
  sc_SeatIndex :: int
  sc_Status :: string
  sc_TotalContributionSats :: int
  sc_VTXORefs :: "VTXORef list"

record PotSlice =
  ps_CapSats :: int
  ps_ContributedPlayerIDs :: "string list"
  ps_Contributions :: "(string, int) gomap"
  ps_EligiblePlayerIDs :: "string list"
  ps_OddChipPlayerIDs :: "string list"
  ps_PotID :: string
  ps_Sequence :: int
  ps_Status :: string
  ps_TotalSats :: int
  ps_VTXORefs :: "VTXORef list"
  ps_WinnerPlayerIDs :: "string list"

record TimeoutResolution =
  tr_ActionType :: string
  tr_ActingPlayerID :: string
  tr_DeadPlayerIDs :: "string list"
  tr_LostEligibilityPlayerIDs :: "string list"
  tr_Policy :: TimeoutPolicy
  tr_Reason :: string

record CustodySignature =
  cg_ApprovalHash :: string
  cg_PlayerID :: string
  cg_SignatureHex :: string
  cg_SignedAt :: string
  cg_WalletPubkeyHex :: string

text \<open>
  A node of the Ark library's flat transaction tree: the two fields the daemon reads, and the rest
  of the node as one opaque string.
\<close>

record TxTreeNode =
  tn_Txid :: string
  tn_Children :: "(32 word, string) gomap"
  tn_Rest :: string

record CustodySettlementWitness =
  sw_ArkIntentID :: string
  sw_ArkTxID :: string
  sw_FinalizedAt :: string
  sw_ProofPSBT :: string
  sw_CommitmentTx :: string
  sw_BatchExpiryType :: string
  sw_BatchExpiryValue :: "32 word"
  sw_VtxoTree :: "TxTreeNode list"
  sw_ConnectorTree :: "TxTreeNode list"

record CandidateIntentAck =
  ca_AcceptedAt :: string
  ca_CandidateHash :: string
  ca_DecisionIndex :: int
  ca_Epoch :: int
  ca_HandID :: string
  ca_IntentID :: string
  ca_OperatorPubkeyHex :: string
  ca_OperatorSignatureHex :: string
  ca_PrevCustodyStateHash :: string
  ca_TableID :: string
  ca_TurnAnchorHash :: string

record SelectionAuth =
  sa_ActionDeadlineAt :: string
  sa_CandidateHash :: string
  sa_DecisionIndex :: int
  sa_Epoch :: int
  sa_HandID :: string
  sa_PlayerID :: string
  sa_PrevCustodyStateHash :: string
  sa_SignedAt :: string
  sa_SignatureHex :: string
  sa_TableID :: string
  sa_TurnAnchorHash :: string

record ActionLockedAck =
  al_ActionDeadlineAt :: string
  al_CandidateHash :: string
  al_DecisionIndex :: int
  al_Epoch :: int
  al_HandID :: string
  al_HostPeerID :: string
  al_LockedAt :: string
  al_PrevCustodyStateHash :: string
  al_SignatureHex :: string
  al_TableID :: string
  al_TurnAnchorHash :: string

record CustodyRecoveryOutput =
  ro_AmountSats :: int
  ro_OwnerPlayerID :: string
  ro_Script :: string
  ro_Tapscripts :: "string list"

record CustodyRecoveryBundle =
  rb_AuthorizedOutputs :: "CustodyRecoveryOutput list"
  rb_BundleHash :: string
  rb_EarliestExecuteAt :: string
  rb_Kind :: TransitionKind
  rb_SignedPSBT :: string
  rb_SourcePotRefs :: "VTXORef list"
  rb_TimeoutResolution :: "TimeoutResolution option"

record CustodyRecoveryWitness =
  rw_BroadcastTxIDs :: "string list"
  rw_BundleHash :: string
  rw_ExecutedAt :: string
  rw_RecoveryTxID :: string
  rw_SourceTransitionHash :: string

record CustodyExitTransaction =
  et_TransactionHex :: string
  et_TransactionID :: string

record CustodyExitWitness =
  ew_BroadcastTransactions :: "CustodyExitTransaction list"
  ew_SweepTransaction :: "CustodyExitTransaction option"

record CustodyChallengeOutput =
  co_AmountSats :: int
  co_ClaimKey :: string
  co_OwnerPlayerID :: string
  co_Script :: string
  co_Tapscripts :: "string list"

record CustodyChallengeBundle =
  cb_AuthorizedOutputs :: "CustodyChallengeOutput list"
  cb_BundleHash :: string
  cb_Kind :: TransitionKind
  cb_OptionID :: string
  cb_SignedPSBT :: string
  cb_SourceRefs :: "VTXORef list"
  cb_TimeoutResolution :: "TimeoutResolution option"
  cb_TxLocktime :: "32 word"

record CustodyChallengeWitness =
  cw_BroadcastTxIDs :: "string list"
  cw_BundleHash :: string
  cw_ExecutedAt :: string
  cw_TransactionID :: string

record CustodyProof =
  cp_ArkIntentID :: string
  cp_ArkTxID :: string
  cp_CandidateIntentAck :: "CandidateIntentAck option"
  cp_ChallengeBundle :: "CustodyChallengeBundle option"
  cp_ChallengeWitness :: "CustodyChallengeWitness option"
  cp_ExitProofRef :: string
  cp_ExitWitness :: "CustodyExitWitness option"
  cp_FinalizedAt :: string
  cp_RequestHash :: string
  cp_RecoveryBundles :: "CustodyRecoveryBundle list"
  cp_RecoveryWitness :: "CustodyRecoveryWitness option"
  cp_ReplayValidated :: bool
  cp_SettlementWitness :: "CustodySettlementWitness option"
  cp_Signatures :: "CustodySignature list"
  cp_StateHash :: string
  cp_TurnAnchorHash :: string
  cp_TurnCandidateHash :: string
  cp_TransitionHash :: string
  cp_VTXORefs :: "VTXORef list"

record CustodyState =
  cs_ActionDeadlineAt :: string
  cs_ActingPlayerID :: string
  cs_ChallengeAnchor :: string
  cs_CreatedAt :: string
  cs_CustodySeq :: int
  cs_DecisionIndex :: int
  cs_Epoch :: int
  cs_HandID :: string
  cs_HandNumber :: int
  cs_LegalActionsHash :: string
  cs_PotSlices :: "PotSlice list"
  cs_PrevStateHash :: string
  cs_PublicStateHash :: string
  cs_StackClaims :: "StackClaim list"
  cs_StateHash :: string
  cs_TableID :: string
  cs_TimeoutPolicy :: TimeoutPolicy
  cs_TranscriptRoot :: string

record ActionDescriptor =
  ad_TotalSats :: int
  ad_Type :: string

record CustodyTransition =
  ct_Action :: "ActionDescriptor option"
  ct_ActingPlayerID :: string
  ct_Approvals :: "CustodySignature list"
  ct_ArkIntentID :: string
  ct_ArkTxID :: string
  ct_CustodySeq :: int
  ct_DecisionIndex :: int
  ct_Kind :: TransitionKind
  ct_NextState :: CustodyState
  ct_NextStateHash :: string
  ct_PrevStateHash :: string
  ct_Proof :: CustodyProof
  ct_ProposedAt :: string
  ct_ProposedBy :: string
  ct_TableID :: string
  ct_TimeoutResolution :: "TimeoutResolution option"
  ct_TransitionID :: string

record StateBinding =
  sb_ActionDeadlineAt :: string
  sb_ActingPlayerID :: string
  sb_ChallengeAnchor :: string
  sb_CreatedAt :: string
  sb_DecisionIndex :: int
  sb_Epoch :: int
  sb_HandID :: string
  sb_HandNumber :: int
  sb_LegalActionsHash :: string
  sb_PublicStateHash :: string
  sb_TableID :: string
  sb_TimeoutPolicy :: TimeoutPolicy
  sb_TranscriptRoot :: string

record PlayerBalance =
  pb_AllIn :: bool
  pb_Folded :: bool
  pb_PlayerID :: string
  pb_ReservedFeeSats :: int
  pb_RoundContributionSats :: int
  pb_SeatIndex :: int
  pb_StackSats :: int
  pb_Status :: string
  pb_TotalContributionSats :: int
  pb_VTXORefs :: "VTXORef list"

record SliceParticipant =
  sp_ContributionSats :: int
  sp_Folded :: bool
  sp_PlayerID :: string
  sp_SeatIndex :: int

record PayoutCandidate =
  pc_PlayerID :: string
  pc_SeatIndex :: int

end
