(* ===== verification/Side_Pots.thy ===== *)
theory Side_Pots
  imports Custody_Types
begin

text \<open>
  \<open>internal/tablecustody/sidepots.go\<close>: the split of the players' contributions into a main pot
  and side pots, and the division of a pot among its winners.
\<close>

section \<open>The operations\<close>

record PotDerivation =
  pd_MatchedContributionSats :: "(string, int) gomap"
  pd_Slices :: "PotSlice list"
  pd_UnmatchedContributionSats :: "(string, int) gomap"

definition sortedStrings :: "string list \<Rightarrow> string list" where
  "sortedStrings values = sort values"

text \<open>
  The loop that collects the distinct positive contributions. The set \<open>seenCaps\<close> holds the
  elements of \<open>distinctCaps\<close>, so the list alone represents both.
\<close>

fun distinct_caps :: "SliceParticipant list \<Rightarrow> int list \<Rightarrow> int list res" where
  "distinct_caps [] distinctCaps = Inr distinctCaps"
| "distinct_caps (participant # rest) distinctCaps =
     (if sp_PlayerID participant = [] then Inl (Err ''pot participant is missing player id'')
      else if sp_ContributionSats participant < 0
        then Inl (Err ''pot participant %s has negative contribution'')
      else if sp_ContributionSats participant = 0 then distinct_caps rest distinctCaps
      else if sp_ContributionSats participant \<in> set distinctCaps
        then distinct_caps rest distinctCaps
      else distinct_caps rest (distinctCaps @ [sp_ContributionSats participant]))"

definition slice_of :: "SliceParticipant list \<Rightarrow> int \<Rightarrow> int \<Rightarrow> nat \<Rightarrow> PotSlice" where
  "slice_of contributors capSats previousCap sequence =
     \<lparr>ps_CapSats = capSats,
      ps_ContributedPlayerIDs = sortedStrings (map sp_PlayerID contributors),
      ps_Contributions =
        fold (\<lambda>p m. AList.update (sp_PlayerID p) (capSats - previousCap) m) contributors [],
      ps_EligiblePlayerIDs =
        sortedStrings (map sp_PlayerID (filter (\<lambda>p. \<not> sp_Folded p) contributors)),
      ps_OddChipPlayerIDs = [],
      ps_PotID = ''pot-'' @ itoa2 (int sequence),
      ps_Sequence = int sequence,
      ps_Status = ''open'',
      ps_TotalSats = (capSats - previousCap) * int (length contributors),
      ps_VTXORefs = [],
      ps_WinnerPlayerIDs = []\<rparr>"

text \<open>The loop over the sorted caps; \<open>break\<close> is the branch that returns the derivation.\<close>

fun slice_loop :: "SliceParticipant list \<Rightarrow> int list \<Rightarrow> int \<Rightarrow> PotDerivation \<Rightarrow> PotDerivation" where
  "slice_loop participants [] previousCap derivation = derivation"
| "slice_loop participants (capSats # caps) previousCap derivation =
     (let contributors = filter (\<lambda>p. \<not> sp_ContributionSats p < capSats) participants in
      if contributors = [] then slice_loop participants caps previousCap derivation
      else if length contributors < 2 then derivation
      else
        let totalSats = (capSats - previousCap) * int (length contributors) in
        if totalSats \<le> 0 then slice_loop participants caps capSats derivation
        else slice_loop participants caps capSats
          (derivation\<lparr>
             pd_MatchedContributionSats :=
               fold (\<lambda>p m. madd (sp_PlayerID p) (capSats - previousCap) m) contributors
                 (pd_MatchedContributionSats derivation),
             pd_Slices := pd_Slices derivation @
               [slice_of contributors capSats previousCap (length (pd_Slices derivation))]\<rparr>))"

definition unmatched_contributions ::
  "SliceParticipant list \<Rightarrow> (string, int) gomap \<Rightarrow> (string, int) gomap" where
  "unmatched_contributions participants matched =
     fold (\<lambda>p m.
         let unmatched = sp_ContributionSats p - mget matched (sp_PlayerID p)
         in if unmatched > 0 then AList.update (sp_PlayerID p) unmatched m else m)
       participants []"

definition empty_derivation :: PotDerivation where
  "empty_derivation =
     \<lparr>pd_MatchedContributionSats = [], pd_Slices = [], pd_UnmatchedContributionSats = []\<rparr>"

definition DerivePotStructure :: "SliceParticipant list \<Rightarrow> PotDerivation res" where
  "DerivePotStructure participants =
     (if participants = [] then Inr empty_derivation
      else case distinct_caps participants [] of
        Inl e \<Rightarrow> Inl e
      | Inr distinctCaps \<Rightarrow>
          let derivation = slice_loop participants (sort distinctCaps) 0 empty_derivation
          in Inr (derivation\<lparr>pd_UnmatchedContributionSats :=
               unmatched_contributions participants (pd_MatchedContributionSats derivation)\<rparr>))"

definition DerivePotSlices :: "SliceParticipant list \<Rightarrow> PotSlice list res" where
  "DerivePotSlices participants =
     (case DerivePotStructure participants of
        Inl e \<Rightarrow> Inl e
      | Inr derivation \<Rightarrow> Inr (pd_Slices derivation))"

definition payout_modulus :: "PayoutCandidate list \<Rightarrow> int \<Rightarrow> int" where
  "payout_modulus winners dealerSeatIndex =
     fold (\<lambda>w m. if pc_SeatIndex w > m then pc_SeatIndex w else m) winners dealerSeatIndex + 1"

definition seatDistanceFromDealer :: "int \<Rightarrow> int \<Rightarrow> int \<Rightarrow> PayoutCandidate list \<Rightarrow> int" where
  "seatDistanceFromDealer leftSeatIndex rightSeatIndex dealerSeatIndex winners =
     (if winners = [] then
        (if leftSeatIndex < rightSeatIndex then -1
         else if leftSeatIndex > rightSeatIndex then 1 else 0)
      else
        let modulus = payout_modulus winners dealerSeatIndex;
            leftDistance = (leftSeatIndex - dealerSeatIndex + modulus) smod modulus;
            rightDistance = (rightSeatIndex - dealerSeatIndex + modulus) smod modulus in
        if leftDistance < rightDistance then -1
        else if leftDistance > rightDistance then 1
        else if leftSeatIndex < rightSeatIndex then -1
        else if leftSeatIndex > rightSeatIndex then 1 else 0)"

definition payout_less :: "PayoutCandidate list \<Rightarrow> int \<Rightarrow> PayoutCandidate \<Rightarrow> PayoutCandidate \<Rightarrow> bool" where
  "payout_less winners dealerSeatIndex left right =
     (seatDistanceFromDealer (pc_SeatIndex left) (pc_SeatIndex right) dealerSeatIndex winners < 0)"

text \<open>
  The comparison divides by the modulus, so sorting two or more winners panics when it is zero
  (a dealer index of \<open>-1\<close>); that branch is the first one below.
\<close>

definition SplitAmount ::
  "int \<Rightarrow> PayoutCandidate list \<Rightarrow> int \<Rightarrow> ((string, int) gomap \<times> string list) res" where
  "SplitAmount totalSats winners dealerSeatIndex =
     (if totalSats \<le> 0 \<or> winners = [] then Inr ([], [])
      else if 2 \<le> length winners \<and> payout_modulus winners dealerSeatIndex = 0
        then Inl (Panic ''integer divide by zero'')
      else
        let ordered = slice_stable (payout_less winners dealerSeatIndex) winners;
            share = totalSats sdiv int (length ordered);
            remainder = totalSats smod int (length ordered);
            shares = fold (\<lambda>w m. madd (pc_PlayerID w) share m) ordered [];
            lucky = take (nat remainder) ordered
        in Inr (fold (\<lambda>w m. madd (pc_PlayerID w) 1 m) lucky shares, map pc_PlayerID lucky))"

section \<open>Folds that add to a map\<close>

lemma mget_fold_madd:
  "mget (fold (\<lambda>p m. madd (f p) k m) xs m) x = mget m x + k * int (length (filter (\<lambda>p. f p = x) xs))"
  by (induction xs arbitrary: m) (auto simp: algebra_simps)

lemma distinct_fold_madd [simp]:
  "distinct (map fst m) \<Longrightarrow> distinct (map fst (fold (\<lambda>p m. madd (f p) (k p) m) xs m))"
  by (induction xs arbitrary: m) auto

lemma keys_fold_madd:
  "fst ` set (fold (\<lambda>p m. madd (f p) (k p) m) xs m) = fst ` set m \<union> f ` set xs"
  by (induction xs arbitrary: m) auto

lemma msum_fold_madd:
  "distinct (map fst m) \<Longrightarrow>
   msum (fold (\<lambda>p m. madd (f p) (k p) m) xs m) = msum m + sum_list (map k xs)"
  by (induction xs arbitrary: m) (auto simp: msum_madd)

lemma filter_eq_single:
  "distinct (map f xs) \<Longrightarrow> x \<in> set xs \<Longrightarrow>
   length (filter (\<lambda>p. f p = f x) (filter P xs)) = (if P x then 1 else 0)"
proof (induction xs)
  case (Cons a xs)
  show ?case
  proof (cases "x = a")
    case True
    with Cons.prems have "filter (\<lambda>p. f p = f x) (filter P xs) = []"
      by (auto simp: filter_empty_conv) (metis imageI)
    then show ?thesis using True by simp
  next
    case False
    with Cons show ?thesis by (auto simp: image_iff)
  qed
qed simp

lemma fold_update_const:
  "distinct (map f xs) \<Longrightarrow> fold (\<lambda>p m. AList.update (f p) (k p) m) xs [] = map (\<lambda>p. (f p, k p)) xs"
proof (induction xs rule: rev_induct)
  case (snoc x xs)
  then show ?case by (simp add: map_snd_update_new image_image)
qed simp

lemma length_filter_mono:
  "(\<And>x. x \<in> set xs \<Longrightarrow> P x \<Longrightarrow> Q x) \<Longrightarrow> length (filter P xs) \<le> length (filter Q xs)"
  by (induction xs) force+

section \<open>Which contributions are accepted\<close>

lemma distinct_caps_ok:
  "distinct_caps ps acc = Inr caps \<Longrightarrow> distinct acc \<Longrightarrow>
     distinct caps \<and> set caps = set acc \<union> {c \<in> sp_ContributionSats ` set ps. 0 < c} \<and>
     (\<forall>p \<in> set ps. sp_PlayerID p \<noteq> [] \<and> 0 \<le> sp_ContributionSats p)"
proof (induction ps arbitrary: acc)
  case (Cons p ps)
  let ?c = "sp_ContributionSats p"
  from Cons.prems have id: "sp_PlayerID p \<noteq> []" and nonneg: "0 \<le> ?c"
    by (auto split: if_splits)
  define acc' where "acc' = (if ?c = 0 \<or> ?c \<in> set acc then acc else acc @ [?c])"
  have "distinct_caps ps acc' = Inr caps" and "distinct acc'"
    using Cons.prems id nonneg by (auto simp: acc'_def split: if_splits)
  from Cons.IH [OF this] show ?case
    using id nonneg by (auto simp: acc'_def split: if_splits)
qed simp

lemma distinct_caps_total:
  "(\<forall>p \<in> set ps. sp_PlayerID p \<noteq> [] \<and> 0 \<le> sp_ContributionSats p) \<Longrightarrow> \<exists>caps. distinct_caps ps acc = Inr caps"
  by (induction ps acc rule: distinct_caps.induct) auto

section \<open>Layers\<close>

text \<open>
  The specification of the slices: from the cap \<open>lo\<close> to the cap \<open>hi\<close> they are stacked layers, each
  paid by every participant that reaches its cap, at least two of them, and no contribution
  ends inside a layer.
\<close>

abbreviation reaching :: "SliceParticipant list \<Rightarrow> int \<Rightarrow> SliceParticipant list" where
  "reaching ps cap \<equiv> filter (\<lambda>p. \<not> sp_ContributionSats p < cap) ps"

fun layered :: "SliceParticipant list \<Rightarrow> int \<Rightarrow> nat \<Rightarrow> PotSlice list \<Rightarrow> int \<Rightarrow> bool" where
  "layered ps lo n [] hi = (lo = hi)"
| "layered ps lo n (s # ss) hi =
     (lo < ps_CapSats s \<and> 2 \<le> length (reaching ps (ps_CapSats s)) \<and>
      s = slice_of (reaching ps (ps_CapSats s)) (ps_CapSats s) lo n \<and>
      (\<forall>p \<in> set ps. sp_ContributionSats p < ps_CapSats s \<longrightarrow> sp_ContributionSats p \<le> lo) \<and>
      layered ps (ps_CapSats s) (Suc n) ss hi)"

lemma layered_append:
  "layered ps lo n (ss @ ts) hi \<longleftrightarrow> (\<exists>mid. layered ps lo n ss mid \<and> layered ps mid (n + length ss) ts hi)"
  by (induction ss arbitrary: lo n) auto

lemma layered_le: "layered ps lo n ss hi \<Longrightarrow> lo \<le> hi"
  by (induction ss arbitrary: lo n) force+

lemma sum_layer:
  assumes "lo < cap" and "\<forall>p \<in> set ps. sp_ContributionSats p < cap \<longrightarrow> sp_ContributionSats p \<le> lo"
  shows "(cap - lo) * int (length (reaching ps cap)) =
    (\<Sum>p\<leftarrow>ps. min (sp_ContributionSats p) cap) - (\<Sum>p\<leftarrow>ps. min (sp_ContributionSats p) lo)"
  using assms(2)
proof (induction ps)
  case (Cons p ps)
  then show ?case using assms(1) by (auto simp: algebra_simps min_def)
qed simp

lemma layered_total:
  "layered ps lo n ss hi \<Longrightarrow> (\<Sum>s\<leftarrow>ss. ps_TotalSats s) =
     (\<Sum>p\<leftarrow>ps. min (sp_ContributionSats p) hi) - (\<Sum>p\<leftarrow>ps. min (sp_ContributionSats p) lo)"
proof (induction ss arbitrary: lo n)
  case (Cons s ss)
  let ?cap = "ps_CapSats s"
  have "ps_TotalSats s = (?cap - lo) * int (length (reaching ps ?cap))"
    using Cons.prems by (metis PotSlice.select_convs(9) layered.simps(2) slice_of_def)
  with Cons sum_layer [of lo ?cap ps] show ?case by auto
qed simp


section \<open>The loop builds the layers\<close>

definition loop_inv :: "SliceParticipant list \<Rightarrow> int \<Rightarrow> PotDerivation \<Rightarrow> bool" where
  "loop_inv ps prev d \<longleftrightarrow>
     layered ps 0 0 (pd_Slices d) prev \<and>
     (\<forall>p \<in> set ps. mget (pd_MatchedContributionSats d) (sp_PlayerID p) = min (sp_ContributionSats p) prev)"

lemma loop_inv_step:
  assumes ids: "distinct (map sp_PlayerID ps)" and inv: "loop_inv ps prev d"
    and cap: "prev < cap" and two: "2 \<le> length (reaching ps cap)"
    and gap: "\<forall>p \<in> set ps. sp_ContributionSats p < cap \<longrightarrow> sp_ContributionSats p \<le> prev"
  shows "loop_inv ps cap (d\<lparr>
      pd_MatchedContributionSats :=
        fold (\<lambda>p m. madd (sp_PlayerID p) (cap - prev) m) (reaching ps cap) (pd_MatchedContributionSats d),
      pd_Slices := pd_Slices d @ [slice_of (reaching ps cap) cap prev (length (pd_Slices d))]\<rparr>)"
proof -
  have "layered ps prev (length (pd_Slices d)) [slice_of (reaching ps cap) cap prev (length (pd_Slices d))] cap"
    using cap two gap by (simp add: slice_of_def)
  then have "layered ps 0 0 (pd_Slices d @ [slice_of (reaching ps cap) cap prev (length (pd_Slices d))]) cap"
    using inv by (auto simp: loop_inv_def layered_append)
  moreover have "mget (fold (\<lambda>p m. madd (sp_PlayerID p) (cap - prev) m) (reaching ps cap)
      (pd_MatchedContributionSats d)) (sp_PlayerID p) = min (sp_ContributionSats p) cap"
    if "p \<in> set ps" for p
    using filter_eq_single [OF ids that, of "\<lambda>p. \<not> sp_ContributionSats p < cap"] that inv cap gap
    by (auto simp: mget_fold_madd loop_inv_def min_def)
  ultimately show ?thesis by (simp add: loop_inv_def)
qed

lemma slice_loop_inv:
  assumes ids: "distinct (map sp_PlayerID ps)"
  shows "loop_inv ps prev d \<Longrightarrow> sorted_wrt (<) caps \<Longrightarrow>
    \<forall>c \<in> set caps. prev < c \<and> c \<in> sp_ContributionSats ` set ps \<Longrightarrow>
    \<forall>p \<in> set ps. prev < sp_ContributionSats p \<longrightarrow> sp_ContributionSats p \<in> set caps \<Longrightarrow>
    \<exists>hi \<ge> prev. loop_inv ps hi (slice_loop ps caps prev d) \<and>
      (hi = prev \<or> hi \<in> sp_ContributionSats ` set ps \<and> 2 \<le> length (reaching ps hi)) \<and>
      (\<forall>c \<in> set caps. hi < c \<longrightarrow> length (reaching ps c) < 2)"
proof (induction caps arbitrary: prev d)
  case Nil
  then show ?case by auto
next
  case (Cons cap caps)
  then obtain q where q: "q \<in> set ps" "sp_ContributionSats q = cap" by auto
  then have ne: "reaching ps cap \<noteq> []" by (auto simp: filter_empty_conv)
  have less: "\<forall>c \<in> set caps. cap < c" using Cons.prems by simp
  show ?case
  proof (cases "length (reaching ps cap) < 2")
    case True
    have "length (reaching ps c) \<le> length (reaching ps cap)" if "c \<in> set caps" for c
      using less that by (intro length_filter_mono) auto
    with True ne Cons.prems(1) show ?thesis by (intro exI [of _ prev]) fastforce
  next
    case False
    have gap: "\<forall>p \<in> set ps. sp_ContributionSats p < cap \<longrightarrow> sp_ContributionSats p \<le> prev"
      using Cons.prems(4) less by fastforce
    have pos: "prev < cap" using Cons.prems by simp
    let ?d = "d\<lparr>pd_MatchedContributionSats :=
        fold (\<lambda>p m. madd (sp_PlayerID p) (cap - prev) m) (reaching ps cap) (pd_MatchedContributionSats d),
      pd_Slices := pd_Slices d @ [slice_of (reaching ps cap) cap prev (length (pd_Slices d))]\<rparr>"
    have step: "loop_inv ps cap ?d"
      using ids Cons.prems(1) pos False gap by (intro loop_inv_step) auto
    have cover: "\<forall>p \<in> set ps. cap < sp_ContributionSats p \<longrightarrow> sp_ContributionSats p \<in> set caps"
      using Cons.prems(4) pos by fastforce
    have "sorted_wrt (<) caps" "\<forall>c \<in> set caps. cap < c \<and> c \<in> sp_ContributionSats ` set ps"
      using Cons.prems(2,3) less by simp_all
    from Cons.IH [OF step this cover] obtain hi
      where hi: "cap \<le> hi" "loop_inv ps hi (slice_loop ps caps cap ?d)"
        "hi = cap \<or> hi \<in> sp_ContributionSats ` set ps \<and> 2 \<le> length (reaching ps hi)"
        "\<forall>c \<in> set caps. hi < c \<longrightarrow> length (reaching ps c) < 2"
      by blast
    have "\<not> (cap - prev) * int (length (reaching ps cap)) \<le> 0"
      using ne pos by (simp add: not_le)
    then have "slice_loop ps (cap # caps) prev d = slice_loop ps caps cap ?d"
      using False ne by (simp add: Let_def)
    then show ?thesis using hi q False pos by (intro exI [of _ hi]) auto
  qed
qed


section \<open>The derivation as a whole\<close>

text \<open>The highest contribution that at least two participants reach.\<close>

definition matched_cap :: "SliceParticipant list \<Rightarrow> int" where
  "matched_cap ps =
     Max (insert 0 (set (filter (\<lambda>c. 2 \<le> length (reaching ps c)) (map sp_ContributionSats ps))))"

definition participants_ok :: "SliceParticipant list \<Rightarrow> bool" where
  "participants_ok ps \<longleftrightarrow>
     distinct (map sp_PlayerID ps) \<and>
     (\<forall>p \<in> set ps. sp_PlayerID p \<noteq> [] \<and> 0 \<le> sp_ContributionSats p)"

lemma matched_capI:
  assumes "0 \<le> hi" and "hi = 0 \<or> hi \<in> sp_ContributionSats ` set ps \<and> 2 \<le> length (reaching ps hi)"
    and "\<And>c. c \<in> sp_ContributionSats ` set ps \<Longrightarrow> hi < c \<Longrightarrow> length (reaching ps c) < 2"
  shows "matched_cap ps = hi"
  unfolding matched_cap_def
proof (rule Max_eqI)
  fix c assume "c \<in> insert 0 (set (filter (\<lambda>c. 2 \<le> length (reaching ps c)) (map sp_ContributionSats ps)))"
  then show "c \<le> hi" using assms(1) assms(3) [of c] by (cases "hi < c") auto
qed (use assms(2) in auto)

lemma unmatched_eq:
  "distinct (map sp_PlayerID ps) \<Longrightarrow> unmatched_contributions ps m =
     map (\<lambda>p. (sp_PlayerID p, sp_ContributionSats p - mget m (sp_PlayerID p)))
       (filter (\<lambda>p. 0 < sp_ContributionSats p - mget m (sp_PlayerID p)) ps)"
proof (induction ps rule: rev_induct)
  case (snoc q qs)
  let ?g = "\<lambda>p. sp_ContributionSats p - mget m (sp_PlayerID p)"
  have "sp_PlayerID q \<notin> fst ` set (map (\<lambda>p. (sp_PlayerID p, ?g p)) (filter (\<lambda>p. 0 < ?g p) qs))"
    using snoc.prems by auto
  with snoc show ?case
    by (auto simp: unmatched_contributions_def Let_def map_snd_update_new)
qed (simp add: unmatched_contributions_def)

lemma map_of_keyed:
  "distinct (map f xs) \<Longrightarrow> x \<in> set xs \<Longrightarrow> map_of (map (\<lambda>p. (f p, g p)) xs) (f x) = Some (g x)"
  by (induction xs) (auto simp: image_iff)

lemma mget_keyed_filter:
  assumes "distinct (map f xs)" and "x \<in> set xs"
  shows "mget (map (\<lambda>p. (f p, g p)) (filter P xs)) (f x) = (if P x then g x else 0)"
proof (cases "P x")
  case True
  with assms show ?thesis by (simp add: mget_def map_of_keyed distinct_map_filter)
next
  case False
  with assms have "f x \<notin> f ` set (filter P xs)" by (auto simp: distinct_map inj_on_def)
  with False show ?thesis by (simp add: mget_notin image_image)
qed

lemma unmatched_spec:
  "distinct (map sp_PlayerID ps) \<Longrightarrow> p \<in> set ps \<Longrightarrow>
   mget (unmatched_contributions ps m) (sp_PlayerID p) = max 0 (sp_ContributionSats p - mget m (sp_PlayerID p))"
  using mget_keyed_filter [of sp_PlayerID ps p "\<lambda>p. sp_ContributionSats p - mget m (sp_PlayerID p)"
      "\<lambda>p. 0 < sp_ContributionSats p - mget m (sp_PlayerID p)"]
  by (simp add: unmatched_eq)

lemma sum_filter_pos:
  "sum_list (map f (filter (\<lambda>x. 0 < f x) xs)) = (\<Sum>x\<leftarrow>xs. max 0 (f x :: int))"
  by (induction xs) auto

lemma msum_unmatched:
  "distinct (map sp_PlayerID ps) \<Longrightarrow>
   msum (unmatched_contributions ps m) = (\<Sum>p\<leftarrow>ps. max 0 (sp_ContributionSats p - mget m (sp_PlayerID p)))"
  using sum_filter_pos [of "\<lambda>p. sp_ContributionSats p - mget m (sp_PlayerID p)" ps]
  by (simp add: unmatched_eq msum_def comp_def)

lemma derive_structure:
  assumes "DerivePotStructure ps = Inr d" and ids: "distinct (map sp_PlayerID ps)"
  shows "participants_ok ps"
    and "layered ps 0 0 (pd_Slices d) (matched_cap ps)"
    and "p \<in> set ps \<Longrightarrow> mget (pd_MatchedContributionSats d) (sp_PlayerID p)
          = min (sp_ContributionSats p) (matched_cap ps)"
    and "pd_UnmatchedContributionSats d = unmatched_contributions ps (pd_MatchedContributionSats d)"
proof -
  have "participants_ok ps \<and> layered ps 0 0 (pd_Slices d) (matched_cap ps) \<and>
    (\<forall>p \<in> set ps. mget (pd_MatchedContributionSats d) (sp_PlayerID p)
          = min (sp_ContributionSats p) (matched_cap ps)) \<and>
    pd_UnmatchedContributionSats d = unmatched_contributions ps (pd_MatchedContributionSats d)"
  proof (cases "ps = []")
    case True
    with assms(1) show ?thesis
      by (auto simp: DerivePotStructure_def empty_derivation_def participants_ok_def matched_cap_def
          unmatched_contributions_def)
  next
    case False
    with assms(1) obtain caps where caps: "distinct_caps ps [] = Inr caps"
      by (auto simp: DerivePotStructure_def split: sum.splits)
    let ?d = "slice_loop ps (sort caps) 0 empty_derivation"
    from distinct_caps_ok [OF caps] have dcaps: "distinct caps"
      and set_caps: "set caps = {c \<in> sp_ContributionSats ` set ps. 0 < c}"
      and ok: "\<forall>p \<in> set ps. sp_PlayerID p \<noteq> [] \<and> 0 \<le> sp_ContributionSats p" by auto
    have d: "d = ?d\<lparr>pd_UnmatchedContributionSats :=
        unmatched_contributions ps (pd_MatchedContributionSats ?d)\<rparr>"
      using assms(1) False caps by (simp add: DerivePotStructure_def Let_def)
    have "loop_inv ps 0 empty_derivation"
      using ok by (simp add: loop_inv_def empty_derivation_def)
    moreover have "sorted_wrt (<) (sort caps)"
      using dcaps by (simp add: strict_sorted_iff)
    ultimately obtain hi where hi: "0 \<le> hi" "loop_inv ps hi ?d"
        "hi = 0 \<or> hi \<in> sp_ContributionSats ` set ps \<and> 2 \<le> length (reaching ps hi)"
        "\<forall>c \<in> set (sort caps). hi < c \<longrightarrow> length (reaching ps c) < 2"
      using slice_loop_inv [OF ids, of 0 empty_derivation "sort caps"] set_caps by auto
    have "matched_cap ps = hi"
      using hi set_caps by (intro matched_capI) auto
    with hi(2) d ids ok show ?thesis by (auto simp: loop_inv_def participants_ok_def)
  qed
  then show "participants_ok ps" "layered ps 0 0 (pd_Slices d) (matched_cap ps)"
    "p \<in> set ps \<Longrightarrow> mget (pd_MatchedContributionSats d) (sp_PlayerID p)
          = min (sp_ContributionSats p) (matched_cap ps)"
    "pd_UnmatchedContributionSats d = unmatched_contributions ps (pd_MatchedContributionSats d)"
    by auto
qed


section \<open>Dividing a pot\<close>

definition payout_key :: "PayoutCandidate list \<Rightarrow> int \<Rightarrow> PayoutCandidate \<Rightarrow> int \<times> int" where
  "payout_key ws dealer w =
     (if ws = [] then 0 else (pc_SeatIndex w - dealer + payout_modulus ws dealer) smod payout_modulus ws dealer,
      pc_SeatIndex w)"

lemma payout_less_key:
  "payout_less ws dealer l r \<longleftrightarrow>
     fst (payout_key ws dealer l) < fst (payout_key ws dealer r) \<or>
     fst (payout_key ws dealer l) = fst (payout_key ws dealer r) \<and>
     snd (payout_key ws dealer l) < snd (payout_key ws dealer r)"
  by (auto simp: payout_less_def payout_key_def seatDistanceFromDealer_def Let_def)

interpretation payout: strict_weak "payout_less ws dealer" for ws dealer
  by unfold_locales (auto simp: payout_less_key)

lemma split_amount_ok:
  assumes "0 < amount" and "ws \<noteq> []" and "SplitAmount amount ws dealer = Inr (pay, oddIds)"
  defines "n \<equiv> int (length ws)" and "ordered \<equiv> slice_stable (payout_less ws dealer) ws"
  shows "pay = fold (\<lambda>w m. madd (pc_PlayerID w) 1 m) (take (nat (amount mod n)) ordered)
            (fold (\<lambda>w m. madd (pc_PlayerID w) (amount div n) m) ordered [])"
    and "oddIds = map pc_PlayerID (take (nat (amount mod n)) ordered)"
  using assms by (auto simp: SplitAmount_def Let_def split: if_splits)

lemma split_amount_get:
  assumes "0 < amount" and "ws \<noteq> []" and split: "SplitAmount amount ws dealer = Inr (pay, oddIds)"
    and ids: "distinct (map pc_PlayerID ws)" and w: "w \<in> set ws"
  shows "mget pay (pc_PlayerID w) =
    amount div int (length ws) + (if pc_PlayerID w \<in> set oddIds then 1 else 0)"
proof -
  let ?o = "slice_stable (payout_less ws dealer) ws" and ?k = "nat (amount mod int (length ws))"
  have "mset (map pc_PlayerID ?o) = mset (map pc_PlayerID ws)" by simp
  then have d: "distinct (map pc_PlayerID ?o)" using ids by (metis mset_eq_imp_distinct_iff)
  have "length (filter (\<lambda>p. pc_PlayerID p = pc_PlayerID w) ?o) = 1"
    using filter_eq_single [OF d, of w "\<lambda>_. True"] w by simp
  moreover have "length (filter (\<lambda>p. pc_PlayerID p = pc_PlayerID w) (take ?k ?o)) =
      (if pc_PlayerID w \<in> set oddIds then 1 else 0)"
  proof (cases "pc_PlayerID w \<in> set oddIds")
    case True
    then obtain v where v: "v \<in> set (take ?k ?o)" "pc_PlayerID v = pc_PlayerID w"
      using split_amount_ok(2) [OF assms(1,2) split] by auto
    have "distinct (map pc_PlayerID (take ?k ?o))" using d by (simp add: take_map [symmetric])
    from filter_eq_single [OF this v(1), of "\<lambda>_. True"] True v(2) show ?thesis by simp
  next
    case False
    then show ?thesis using split_amount_ok(2) [OF assms(1,2) split]
      by (auto simp: filter_empty_conv) (metis imageI)
  qed
  ultimately show ?thesis
    using split_amount_ok(1) [OF assms(1,2) split] by (simp add: mget_fold_madd)
qed

lemma split_amount_sum:
  assumes "0 < amount" and "ws \<noteq> []" and split: "SplitAmount amount ws dealer = Inr (pay, oddIds)"
  shows "msum pay = amount"
proof -
  let ?n = "int (length ws)"
  have n: "0 < ?n" using assms(2) by simp
  have "nat (amount mod ?n) < length ws"
    using pos_mod_bound [OF n, of amount] pos_mod_sign [OF n, of amount] by (simp add: nat_less_iff)
  then have "msum pay = amount mod ?n + ?n * (amount div ?n)"
    using split_amount_ok(1) [OF assms(1,2) split] n
    by (simp add: msum_fold_madd sum_list_triv min_def) (simp add: msum_def)
  then show ?thesis by simp
qed


lemma split_amount_total:
  "0 \<le> dealer \<Longrightarrow> \<exists>r. SplitAmount amount ws dealer = Inr r"
proof -
  have "dealer \<le> fold (\<lambda>w m. if pc_SeatIndex w > m then pc_SeatIndex w else m) ws dealer" for dealer
    by (induction ws arbitrary: dealer) (auto intro: order_trans less_imp_le)
  from this [of dealer] show "0 \<le> dealer \<Longrightarrow> ?thesis"
    by (auto simp: SplitAmount_def payout_modulus_def Let_def)
qed

lemma split_amount_order:
  assumes "0 < amount" and "ws \<noteq> []" and split: "SplitAmount amount ws dealer = Inr (pay, oddIds)"
    and ids: "distinct (map pc_PlayerID ws)"
    and w: "w \<in> set ws" "pc_PlayerID w \<in> set oddIds" and v: "v \<in> set ws" "pc_PlayerID v \<notin> set oddIds"
  shows "\<not> payout_less ws dealer v w"
proof -
  let ?o = "slice_stable (payout_less ws dealer) ws" and ?k = "nat (amount mod int (length ws))"
  have o: "oddIds = map pc_PlayerID (take ?k ?o)" by (rule split_amount_ok(2) [OF assms(1,2) split])
  have "w \<in> set (take ?k ?o)"
  proof -
    obtain u where u: "u \<in> set (take ?k ?o)" "pc_PlayerID u = pc_PlayerID w" using w o by auto
    then have "u \<in> set ws" by (metis in_set_takeD set_slice_stable)
    then show ?thesis using u ids w(1) by (metis distinct_map inj_onD)
  qed
  moreover have "v \<in> set (drop ?k ?o)"
  proof -
    have "v \<in> set (take ?k ?o @ drop ?k ?o)" using v(1) by simp
    moreover have "v \<notin> set (take ?k ?o)" using v(2) o by auto
    ultimately show ?thesis by (metis Un_iff set_append)
  qed
  moreover have "sorted_wrt (\<lambda>a b. \<not> payout_less ws dealer b a) (take ?k ?o @ drop ?k ?o)"
    using payout.sorted_slice [of ws dealer ws] by simp
  ultimately show ?thesis by (simp only: sorted_wrt_append) blast
qed

lemma layered_nth:
  "layered ps lo n ss hi \<Longrightarrow> i < length ss \<Longrightarrow>
   \<exists>prev \<ge> lo. prev < ps_CapSats (ss ! i) \<and> 2 \<le> length (reaching ps (ps_CapSats (ss ! i))) \<and>
     ss ! i = slice_of (reaching ps (ps_CapSats (ss ! i))) (ps_CapSats (ss ! i)) prev (n + i)"
proof (induction ss arbitrary: lo n i)
  case (Cons s ss)
  show ?case
  proof (cases i)
    case 0
    with Cons.prems show ?thesis by (intro exI [of _ lo]) simp
  next
    case (Suc j)
    with Cons.prems obtain prev where "ps_CapSats s \<le> prev" "prev < ps_CapSats (ss ! j)"
      "2 \<le> length (reaching ps (ps_CapSats (ss ! j)))"
      "ss ! j = slice_of (reaching ps (ps_CapSats (ss ! j))) (ps_CapSats (ss ! j)) prev (Suc n + j)"
      using Cons.IH [of "ps_CapSats s" "Suc n" j] by auto
    moreover have "lo < ps_CapSats s" using Cons.prems by simp
    ultimately show ?thesis using Suc by (intro exI [of _ prev]) simp
  qed
qed simp

lemma layered_sorted:
  "layered ps lo n ss hi \<Longrightarrow> sorted_wrt (<) (map ps_CapSats ss) \<and> (\<forall>s \<in> set ss. lo < ps_CapSats s)"
  by (induction ss arbitrary: lo n) force+

lemma slice_of_simps [simp]:
  "ps_TotalSats (slice_of cs cap prev n) = (cap - prev) * int (length cs)"
  "ps_Sequence (slice_of cs cap prev n) = int n"
  "ps_ContributedPlayerIDs (slice_of cs cap prev n) = sort (map sp_PlayerID cs)"
  "ps_EligiblePlayerIDs (slice_of cs cap prev n) = sort (map sp_PlayerID (filter (\<lambda>p. \<not> sp_Folded p) cs))"
  "distinct (map sp_PlayerID cs) \<Longrightarrow>
     ps_Contributions (slice_of cs cap prev n) = map (\<lambda>p. (sp_PlayerID p, cap - prev)) cs"
  by (simp_all add: slice_of_def sortedStrings_def fold_update_const)

lemma msum_const: "msum (map (\<lambda>p. (f p, k)) xs) = k * int (length xs)"
  by (induction xs) (auto simp: msum_def algebra_simps)

definition three_way :: "SliceParticipant list" where
  "three_way =
     [\<lparr>sp_ContributionSats = 100, sp_Folded = False, sp_PlayerID = ''a'', sp_SeatIndex = 0\<rparr>,
      \<lparr>sp_ContributionSats = 40, sp_Folded = False, sp_PlayerID = ''b'', sp_SeatIndex = 1\<rparr>,
      \<lparr>sp_ContributionSats = 70, sp_Folded = True, sp_PlayerID = ''c'', sp_SeatIndex = 2\<rparr>]"

lemma three_way_ids: "distinct (map sp_PlayerID three_way)"
  by (simp add: three_way_def)

lemma three_way_derives: "\<exists>d. DerivePotStructure three_way = Inr d"
proof -
  have "is_ok (DerivePotStructure three_way)" by code_simp
  then show ?thesis by (simp add: is_ok_iff)
qed

section \<open>Properties\<close>

text \<open>Side pots conserve value: when every participant has its own id, the totals of the pot slices
  together with the unmatched contributions add up to exactly what the participants put in.\<close>

theorem pots_conserve_contributions:
  assumes "DerivePotStructure participants = Inr derivation"
    and "distinct (map sp_PlayerID participants)"
  shows "(\<Sum>s\<leftarrow>pd_Slices derivation. ps_TotalSats s) + msum (pd_UnmatchedContributionSats derivation)
    = (\<Sum>p\<leftarrow>participants. sp_ContributionSats p)"
proof -
  note spec = derive_structure [OF assms]
  have "(\<Sum>p\<leftarrow>participants. max 0 (sp_ContributionSats p - mget (pd_MatchedContributionSats derivation) (sp_PlayerID p)))
      = (\<Sum>p\<leftarrow>participants. sp_ContributionSats p - min (sp_ContributionSats p) (matched_cap participants))"
    by (intro arg_cong [where f = sum_list] map_cong) (auto simp: spec(3))
  moreover have "(\<Sum>p\<leftarrow>participants. min (sp_ContributionSats p) 0) = (\<Sum>p\<leftarrow>participants. 0)"
    using spec(1) by (intro arg_cong [where f = sum_list] map_cong) (auto simp: participants_ok_def)
  ultimately show ?thesis
    using layered_total [OF spec(2)] msum_unmatched [OF assms(2), of "pd_MatchedContributionSats derivation"]
    by (simp add: spec(4) sum_list_subtractf)
qed

theorem pots_conserve_contributions_witness:
  "\<exists>d. DerivePotStructure three_way = Inr d \<and>
     (\<Sum>s\<leftarrow>pd_Slices d. ps_TotalSats s) + msum (pd_UnmatchedContributionSats d) = 210"
proof -
  obtain d where d: "DerivePotStructure three_way = Inr d" using three_way_derives by blast
  from pots_conserve_contributions [OF d three_way_ids] d show ?thesis by (simp add: three_way_def)
qed

text \<open>A participant's matched contribution is what it paid up to the highest level that a second
  participant also reached, and the rest of its contribution is unmatched; so at most one
  participant has an unmatched contribution.\<close>

theorem pots_match_up_to_second_highest:
  assumes "DerivePotStructure participants = Inr derivation"
    and "distinct (map sp_PlayerID participants)" and "p \<in> set participants"
  shows "mget (pd_MatchedContributionSats derivation) (sp_PlayerID p)
      = min (sp_ContributionSats p) (matched_cap participants)
    \<and> mget (pd_UnmatchedContributionSats derivation) (sp_PlayerID p)
      = sp_ContributionSats p - min (sp_ContributionSats p) (matched_cap participants)
    \<and> (\<forall>q \<in> set participants. 0 < mget (pd_UnmatchedContributionSats derivation) (sp_PlayerID p) \<longrightarrow>
         0 < mget (pd_UnmatchedContributionSats derivation) (sp_PlayerID q) \<longrightarrow> q = p)"
proof -
  let ?ps = participants and ?M = "matched_cap participants"
  note spec = derive_structure [OF assms(1,2)]
  have un: "mget (pd_UnmatchedContributionSats derivation) (sp_PlayerID q)
      = sp_ContributionSats q - min (sp_ContributionSats q) ?M" if "q \<in> set ?ps" for q
    using spec(3) [OF that] unmatched_spec [OF assms(2) that] by (simp add: spec(4))
  have "q = p" if q: "q \<in> set ?ps" and over: "?M < sp_ContributionSats p" "?M < sp_ContributionSats q" for q
  proof (rule ccontr)
    assume "q \<noteq> p"
    let ?c = "min (sp_ContributionSats p) (sp_ContributionSats q)"
    have "{p, q} \<subseteq> set (reaching ?ps ?c)" using q assms(3) by auto
    then have "card {p, q} \<le> card (set (reaching ?ps ?c))" by (intro card_mono) auto
    then have "2 \<le> length (reaching ?ps ?c)"
      using \<open>q \<noteq> p\<close> card_length [of "reaching ?ps ?c"] by simp
    moreover have "?c \<in> sp_ContributionSats ` set ?ps" using q assms(3) by (auto simp: min_def)
    ultimately have "?c \<le> ?M" unfolding matched_cap_def by (intro Max_ge) auto
    with over show False by linarith
  qed
  with un [OF assms(3)] un spec(3) [OF assms(3)] show ?thesis by auto
qed

theorem pots_match_up_to_second_highest_witness:
  "\<exists>d. DerivePotStructure three_way = Inr d \<and> matched_cap three_way = 70 \<and>
     mget (pd_UnmatchedContributionSats d) ''a'' = 30"
proof -
  obtain d where d: "DerivePotStructure three_way = Inr d" using three_way_derives by blast
  have "matched_cap three_way = 70" by code_simp
  moreover have "mget (pd_UnmatchedContributionSats d) (sp_PlayerID (hd three_way))
      = sp_ContributionSats (hd three_way) - min (sp_ContributionSats (hd three_way)) (matched_cap three_way)"
    using pots_match_up_to_second_highest [OF d three_way_ids, of "hd three_way"]
    by (simp add: three_way_def)
  ultimately show ?thesis using d by (simp add: three_way_def)
qed

text \<open>The slices are stacked layers: their caps increase, slice \<open>i\<close> has sequence number \<open>i\<close>, its total is
  positive and is the sum of the contributions it records, it is paid by exactly the
  participants whose contribution reaches its cap (at least two), and those of them that have not
  folded are the ones eligible to win it.\<close>

theorem pot_slices_are_layers:
  assumes "DerivePotStructure participants = Inr derivation"
    and "distinct (map sp_PlayerID participants)" and "i < length (pd_Slices derivation)"
  defines "s \<equiv> pd_Slices derivation ! i"
  shows "sorted_wrt (<) (map ps_CapSats (pd_Slices derivation))
    \<and> ps_Sequence s = int i \<and> 0 < ps_TotalSats s \<and> msum (ps_Contributions s) = ps_TotalSats s
    \<and> 2 \<le> length (ps_ContributedPlayerIDs s)
    \<and> set (ps_ContributedPlayerIDs s)
        = {sp_PlayerID p | p. p \<in> set participants \<and> ps_CapSats s \<le> sp_ContributionSats p}
    \<and> set (ps_EligiblePlayerIDs s)
        = {sp_PlayerID p | p. p \<in> set participants \<and> ps_CapSats s \<le> sp_ContributionSats p \<and> \<not> sp_Folded p}"
proof -
  note spec = derive_structure [OF assms(1,2)]
  let ?cs = "reaching participants (ps_CapSats s)"
  from layered_nth [OF spec(2) assms(3)] obtain prev where prev: "prev < ps_CapSats s" "2 \<le> length ?cs"
    and s: "s = slice_of ?cs (ps_CapSats s) prev i"
    unfolding s_def by auto
  have "distinct (map sp_PlayerID ?cs)" using assms(2) by (rule distinct_map_filter)
  then have "ps_Contributions s = map (\<lambda>p. (sp_PlayerID p, ps_CapSats s - prev)) ?cs"
    by (subst s) simp
  moreover have "ps_TotalSats s = (ps_CapSats s - prev) * int (length ?cs)" by (subst s) simp
  moreover have "ps_Sequence s = int i" by (subst s) simp
  moreover have "ps_ContributedPlayerIDs s = sort (map sp_PlayerID ?cs)" by (subst s) simp
  moreover have "ps_EligiblePlayerIDs s = sort (map sp_PlayerID (filter (\<lambda>p. \<not> sp_Folded p) ?cs))"
    by (subst s) simp
  moreover have "sorted_wrt (<) (map ps_CapSats (pd_Slices derivation))"
    using layered_sorted [OF spec(2)] by simp
  moreover have "0 < (ps_CapSats s - prev) * int (length ?cs)"
    using prev by (intro mult_pos_pos) auto
  ultimately show ?thesis using prev(2) by (auto simp: msum_const)
qed

theorem pot_slices_are_layers_witness:
  "\<exists>d. DerivePotStructure three_way = Inr d \<and> 1 < length (pd_Slices d) \<and>
     msum (ps_Contributions (pd_Slices d ! 1)) = ps_TotalSats (pd_Slices d ! 1)"
proof -
  obtain d where d: "DerivePotStructure three_way = Inr d" using three_way_derives by blast
  have "case DerivePotStructure three_way of Inl _ \<Rightarrow> False | Inr d \<Rightarrow> 1 < length (pd_Slices d)"
    by code_simp
  then have len: "1 < length (pd_Slices d)" using d by simp
  from pot_slices_are_layers [OF d three_way_ids len] d len show ?thesis by blast
qed

text \<open>Deriving the pots fails exactly when some participant has an empty id or a negative
  contribution.\<close>

theorem pots_reject_bad_participants:
  "is_ok (DerivePotStructure participants) \<longleftrightarrow>
     (\<forall>p \<in> set participants. sp_PlayerID p \<noteq> [] \<and> 0 \<le> sp_ContributionSats p)"
proof (cases "participants = []")
  case False
  show ?thesis
  proof
    assume "is_ok (DerivePotStructure participants)"
    with False obtain caps where "distinct_caps participants [] = Inr caps"
      by (auto simp: DerivePotStructure_def is_ok_iff split: sum.splits)
    then show "\<forall>p \<in> set participants. sp_PlayerID p \<noteq> [] \<and> 0 \<le> sp_ContributionSats p"
      using distinct_caps_ok by fastforce
  next
    assume "\<forall>p \<in> set participants. sp_PlayerID p \<noteq> [] \<and> 0 \<le> sp_ContributionSats p"
    from distinct_caps_total [OF this, of "[]"] False
    show "is_ok (DerivePotStructure participants)"
      by (auto simp: DerivePotStructure_def is_ok_iff Let_def)
  qed
qed (simp add: DerivePotStructure_def)

theorem pots_reject_bad_participants_witness:
  "is_ok (DerivePotStructure three_way) \<and>
   \<not> is_ok (DerivePotStructure [\<lparr>sp_ContributionSats = - 1, sp_Folded = False, sp_PlayerID = ''a'', sp_SeatIndex = 0\<rparr>])"
  unfolding pots_reject_bad_participants by (simp add: three_way_def)

text \<open>A pot is divided without loss and evenly: the payouts add up to the pot, every winner gets the
  rounded-down equal share or one satoshi more, as many winners as the remainder get the extra one,
  and none of those sits farther from the dealer than a winner that does not get it.\<close>

theorem split_amount_fair:
  assumes "0 < amount" and "winners \<noteq> []" and "distinct (map pc_PlayerID winners)"
    and "SplitAmount amount winners dealer = Inr (payouts, oddChips)"
  shows "msum payouts = amount
    \<and> (\<forall>w \<in> set winners. mget payouts (pc_PlayerID w) =
         amount div int (length winners) + (if pc_PlayerID w \<in> set oddChips then 1 else 0))
    \<and> int (length oddChips) = amount mod int (length winners)
    \<and> (\<forall>w \<in> set winners. \<forall>v \<in> set winners.
         pc_PlayerID w \<in> set oddChips \<longrightarrow> pc_PlayerID v \<notin> set oddChips \<longrightarrow>
         fst (payout_key winners dealer w) \<le> fst (payout_key winners dealer v))"
proof -
  let ?n = "int (length winners)"
  have n: "0 < ?n" using assms(2) by simp
  have "nat (amount mod ?n) \<le> length winners"
    using pos_mod_bound [OF n, of amount] by linarith
  then have "int (length oddChips) = amount mod ?n"
    using split_amount_ok(2) [OF assms(1,2,4)] pos_mod_sign [OF n, of amount] by simp
  moreover have "fst (payout_key winners dealer w) \<le> fst (payout_key winners dealer v)"
    if "w \<in> set winners" "v \<in> set winners" "pc_PlayerID w \<in> set oddChips" "pc_PlayerID v \<notin> set oddChips" for w v
    using split_amount_order [OF assms(1,2,4,3) that(1,3,2,4)] by (auto simp: payout_less_key)
  ultimately show ?thesis
    using split_amount_sum [OF assms(1,2,4)] split_amount_get [OF assms(1,2,4,3)] by blast
qed

theorem split_amount_fair_witness:
  "\<exists>p c. SplitAmount 101 [\<lparr>pc_PlayerID = ''a'', pc_SeatIndex = 0\<rparr>, \<lparr>pc_PlayerID = ''b'', pc_SeatIndex = 2\<rparr>] 1
     = Inr (p, c) \<and> msum p = 101 \<and> length c = 1"
proof -
  let ?ws = "[\<lparr>pc_PlayerID = ''a'', pc_SeatIndex = 0\<rparr>, \<lparr>pc_PlayerID = ''b'', pc_SeatIndex = 2\<rparr>]"
  have "\<exists>r. SplitAmount 101 ?ws 1 = Inr r" by (rule split_amount_total) simp
  then obtain p c where r: "SplitAmount 101 ?ws 1 = Inr (p, c)" by auto
  from split_amount_fair [OF _ _ _ r] r show ?thesis by simp
qed

end
