(* ===== verification/Cards.thy ===== *)
theory Cards
  imports Prelude
begin

text \<open>
  \<open>internal/game/cards.go\<close>: card codes such as \<open>Th\<close>, their parsing and the 52-card deck.
\<close>

type_synonym CardCode = string

definition suits :: "string list" where
  "suits = [''c'', ''d'', ''h'', ''s'']"

definition ranks :: "string list" where
  "ranks = [''2'', ''3'', ''4'', ''5'', ''6'', ''7'', ''8'', ''9'', ''T'', ''J'', ''Q'', ''K'', ''A'']"

record Card =
  cd_Code :: CardCode
  cd_Rank :: string
  cd_Suit :: string
  cd_RankValue :: int

definition rankValueByRank :: "(string, int) gomap" where
  "rankValueByRank =
     [(''2'', 2), (''3'', 3), (''4'', 4), (''5'', 5), (''6'', 6), (''7'', 7), (''8'', 8), (''9'', 9),
      (''T'', 10), (''J'', 11), (''Q'', 12), (''K'', 13), (''A'', 14)]"

text \<open>\<open>string(b)\<close> of a byte is the UTF-8 encoding of that code point: two bytes from 128 on.\<close>

definition string_of_byte :: "char \<Rightarrow> string" where
  "string_of_byte c =
     (let n = (of_char c :: nat) in
      if n < 128 then [c] else [char_of (192 + n div 64), char_of (128 + n mod 64)])"

definition ParseCard :: "CardCode \<Rightarrow> Card" where
  "ParseCard code =
     (if length code \<noteq> 2 then \<lparr>cd_Code = code, cd_Rank = [], cd_Suit = [], cd_RankValue = 0\<rparr>
      else
        let rank = string_of_byte (code ! 0); suit = string_of_byte (code ! 1)
        in \<lparr>cd_Code = code, cd_Rank = rank, cd_Suit = suit, cd_RankValue = mget rankValueByRank rank\<rparr>)"

definition CreateDeck :: "Card list" where
  "CreateDeck = concat (map (\<lambda>suit. map (\<lambda>rank. ParseCard (rank @ suit)) ranks) suits)"

lemma ParseCard_code [simp]: "cd_Code (ParseCard code) = code"
  by (simp add: ParseCard_def Let_def)

lemma rank_value_range: "cd_RankValue (ParseCard code) \<in> insert 0 {2..14}"
  by (auto simp: ParseCard_def Let_def mget_def rankValueByRank_def split: option.split if_splits)

definition valid_code :: "CardCode \<Rightarrow> bool" where
  "valid_code code \<longleftrightarrow> code \<in> set (map cd_Code CreateDeck)"

lemma deck_codes: "map cd_Code CreateDeck = concat (map (\<lambda>suit. map (\<lambda>rank. rank @ suit) ranks) suits)"
  by (simp add: CreateDeck_def map_concat comp_def)

lemma valid_code_eq: "valid_code code \<longleftrightarrow> (\<exists>s \<in> set suits. \<exists>r \<in> set ranks. code = r @ s)"
  by (auto simp: valid_code_def deck_codes)

definition parses_back :: "CardCode \<Rightarrow> bool" where
  "parses_back code \<longleftrightarrow>
     (let c = ParseCard code in cd_Rank c @ cd_Suit c = code \<and> cd_Rank c \<in> set ranks \<and>
        cd_Suit c \<in> set suits \<and> 2 \<le> cd_RankValue c \<and> cd_RankValue c \<le> 14)"

lemma deck_parses_back: "list_all parses_back (map cd_Code CreateDeck)"
  by code_simp

lemma valid_code_parse:
  assumes "valid_code code"
  shows "cd_Rank (ParseCard code) @ cd_Suit (ParseCard code) = code"
    and "cd_Rank (ParseCard code) \<in> set ranks" and "cd_Suit (ParseCard code) \<in> set suits"
    and "2 \<le> cd_RankValue (ParseCard code)" and "cd_RankValue (ParseCard code) \<le> 14"
proof -
  have "parses_back code"
    using assms deck_parses_back by (auto simp: valid_code_def list_all_iff)
  then show "cd_Rank (ParseCard code) @ cd_Suit (ParseCard code) = code"
    "cd_Rank (ParseCard code) \<in> set ranks" "cd_Suit (ParseCard code) \<in> set suits"
    "2 \<le> cd_RankValue (ParseCard code)" "cd_RankValue (ParseCard code) \<le> 14"
    by (simp_all add: parses_back_def Let_def)
qed

text \<open>The deck holds 52 cards with pairwise different codes, one for each rank and suit, and parsing a
  card's code gives back its rank letter, its suit letter and its rank value.\<close>

theorem deck_is_complete:
  "length CreateDeck = 52 \<and> distinct (map cd_Code CreateDeck)
    \<and> set (map cd_Code CreateDeck) = {r @ s | r s. r \<in> set ranks \<and> s \<in> set suits}
    \<and> map (\<lambda>c. cd_Rank c @ cd_Suit c) CreateDeck = map cd_Code CreateDeck
    \<and> map cd_RankValue CreateDeck = concat (replicate 4 [2..14])
    \<and> map (ParseCard \<circ> cd_Code) CreateDeck = CreateDeck"
proof -
  have "length CreateDeck = 52" and "distinct (map cd_Code CreateDeck)"
    and "map (\<lambda>c. cd_Rank c @ cd_Suit c) CreateDeck = map cd_Code CreateDeck"
    and "map cd_RankValue CreateDeck = concat (replicate 4 [2..14])"
    and "map (ParseCard \<circ> cd_Code) CreateDeck = CreateDeck"
    by code_simp+
  moreover have "set (map cd_Code CreateDeck) = {r @ s | r s. r \<in> set ranks \<and> s \<in> set suits}"
    using valid_code_eq unfolding valid_code_def by blast
  ultimately show ?thesis by blast
qed

end
