(* ===== verification/Evaluator.thy ===== *)
theory Evaluator
  imports Cards "HOL-Library.Sublist" "HOL-Library.Product_Lexorder"
begin

text \<open>
  \<open>internal/game/evaluator.go\<close>: scoring five cards, comparing scores, and the best five of seven.
\<close>

section \<open>The operations\<close>

record HandScore =
  hs_Category :: int
  hs_RankValues :: "int list"
  hs_BestFive :: "CardCode list"
  hs_Label :: string

definition handLabels :: "string list" where
  "handLabels =
     [''high-card'', ''pair'', ''two-pair'', ''three-of-a-kind'', ''straight'', ''flush'',
      ''full-house'', ''four-of-a-kind'', ''straight-flush'']"

definition rank_at :: "int list \<Rightarrow> nat \<Rightarrow> int" where
  "rank_at values index = (if index < length values then values ! index else 0)"

fun compare_ranks :: "int list \<Rightarrow> int list \<Rightarrow> nat list \<Rightarrow> int" where
  "compare_ranks left right [] = 0"
| "compare_ranks left right (index # rest) =
     (if rank_at left index > rank_at right index then 1
      else if rank_at left index < rank_at right index then -1
      else compare_ranks left right rest)"

definition compareRankArrays :: "int list \<Rightarrow> int list \<Rightarrow> int" where
  "compareRankArrays left right = compare_ranks left right [0..<max (length left) (length right)]"

definition sortCardsDesc :: "Card list \<Rightarrow> Card list" where
  "sortCardsDesc cards = slice_stable (\<lambda>l r. cd_RankValue l > cd_RankValue r) cards"

text \<open>
  The loop of \<open>getStraightHigh\<close> over the indices of \<open>ranksCopy\<close> but the last. A run of five ends
  at an index of at least 3, so the read at \<open>index - 3\<close> is in range.
\<close>

fun straight_loop :: "int list \<Rightarrow> nat list \<Rightarrow> nat \<Rightarrow> int option \<Rightarrow> int option" where
  "straight_loop rs [] run bestHigh = bestHigh"
| "straight_loop rs (index # rest) run bestHigh =
     (if rs ! index = rs ! (index + 1) + 1 then
        straight_loop rs rest (run + 1) (if run + 1 \<ge> 5 then Some (rs ! (index - 3)) else bestHigh)
      else straight_loop rs rest 1 bestHigh)"

definition getStraightHigh :: "int list \<Rightarrow> int option" where
  "getStraightHigh sortedDistinctRanksDesc =
     (let rs = (if length sortedDistinctRanksDesc > 0 \<and> sortedDistinctRanksDesc ! 0 = 14
                then sortedDistinctRanksDesc @ [1] else sortedDistinctRanksDesc)
      in straight_loop rs [0..<length rs - 1] 1 None)"

definition compareFiveCardHands :: "HandScore \<Rightarrow> HandScore \<Rightarrow> int" where
  "compareFiveCardHands left right =
     (if hs_Category left > hs_Category right then 1
      else if hs_Category left < hs_Category right then -1
      else compareRankArrays (hs_RankValues left) (hs_RankValues right))"

text \<open>An entry is a pair of a rank and the number of cards of that rank.\<close>

definition entry_less :: "int \<times> int \<Rightarrow> int \<times> int \<Rightarrow> bool" where
  "entry_less left right =
     (if snd left \<noteq> snd right then snd left > snd right else fst left > fst right)"

definition rank_counts :: "Card list \<Rightarrow> (int, int) gomap" where
  "rank_counts cards = fold (\<lambda>c m. madd (cd_RankValue c) 1 m) cards []"

definition hand_score :: "nat \<Rightarrow> int list \<Rightarrow> CardCode list \<Rightarrow> HandScore" where
  "hand_score category rankValues bestFive =
     \<lparr>hs_Category = int category, hs_RankValues = rankValues, hs_BestFive = bestFive,
      hs_Label = handLabels ! category\<rparr>"

definition sort_desc :: "int list \<Rightarrow> int list" where
  "sort_desc xs = slice_stable (\<lambda>l r. l > r) xs"

definition evaluateFiveCardHand :: "Card list \<Rightarrow> HandScore res" where
  "evaluateFiveCardHand cards =
     (let sorted = sortCardsDesc cards;
          isFlush = length (remdups (map cd_Suit sorted)) = 1;
          counts = rank_counts sorted;
          entries = slice_stable entry_less counts;
          distinctRanksDesc = sort_desc (map fst counts);
          straightHigh = getStraightHigh distinctRanksDesc;
          bestFive = map cd_Code sorted;
          count = (\<lambda>i. snd (entries ! i));
          rank = (\<lambda>i. fst (entries ! i)) in
      if isFlush \<and> straightHigh \<noteq> None then
        Inr (hand_score 8 [the straightHigh] bestFive)
      else if length entries > 0 \<and> count 0 = 4 then
        (case go_index entries 1 of Inl e \<Rightarrow> Inl e
         | Inr kicker \<Rightarrow> Inr (hand_score 7 [rank 0, fst kicker] bestFive))
      else if length entries > 1 \<and> count 0 = 3 \<and> count 1 = 2 then
        Inr (hand_score 6 [rank 0, rank 1] bestFive)
      else if isFlush then
        Inr (hand_score 5 (map cd_RankValue sorted) bestFive)
      else if straightHigh \<noteq> None then
        Inr (hand_score 4 [the straightHigh] bestFive)
      else if length entries > 0 \<and> count 0 = 3 then
        Inr (hand_score 3 (rank 0 # sort_desc (map fst (tl entries))) bestFive)
      else if length entries > 1 \<and> count 0 = 2 \<and> count 1 = 2 then
        (let pairs = sort_desc [rank 0, rank 1] in
         case go_index entries 2 of Inl e \<Rightarrow> Inl e
         | Inr kicker \<Rightarrow> Inr (hand_score 2 [pairs ! 0, pairs ! 1, fst kicker] bestFive))
      else if length entries > 0 \<and> count 0 = 2 then
        Inr (hand_score 1 (rank 0 # sort_desc (map fst (tl entries))) bestFive)
      else Inr (hand_score 0 (map cd_RankValue sorted) bestFive))"

fun combinations :: "'a list \<Rightarrow> nat \<Rightarrow> 'a list list" where
  "combinations items 0 = [[]]"
| "combinations [] (Suc k) = []"
| "combinations (head # tail) (Suc k) =
     (if length (head # tail) < Suc k then []
      else map (\<lambda>c. head # c) (combinations tail k) @ combinations tail (Suc k))"

fun best_score :: "CardCode list list \<Rightarrow> HandScore option \<Rightarrow> HandScore option res" where
  "best_score [] best = Inr best"
| "best_score (candidate # rest) best =
     (case evaluateFiveCardHand (map ParseCard candidate) of
        Inl e \<Rightarrow> Inl e
      | Inr score \<Rightarrow>
          best_score rest
            (case best of
               None \<Rightarrow> Some score
             | Some b \<Rightarrow> if compareFiveCardHands score b > 0 then Some score else Some b))"

definition ScoreSevenCardHand :: "CardCode list \<Rightarrow> HandScore res" where
  "ScoreSevenCardHand cardCodes =
     (if length cardCodes \<noteq> 7 then Inl (Err ''expected 7 cards, received %d'')
      else case best_score (combinations cardCodes 5) None of
        Inl e \<Rightarrow> Inl e
      | Inr None \<Rightarrow> Inl (Err ''could not score seven card hand'')
      | Inr (Some best) \<Rightarrow> Inr best)"

definition CompareScoredHands :: "HandScore \<Rightarrow> HandScore \<Rightarrow> int" where
  "CompareScoredHands left right = compareFiveCardHands left right"


section \<open>Comparing scores\<close>

lemma compare_ranks_swap: "compare_ranks right left is = - compare_ranks left right is"
  by (induction "is") auto

lemma compare_ranks_range: "compare_ranks left right is \<in> {-1, 0, 1}"
  by (induction "is") auto

lemma compare_ranks_trans:
  "0 \<le> compare_ranks x y is \<Longrightarrow> 0 \<le> compare_ranks y z is \<Longrightarrow> 0 \<le> compare_ranks x z is"
  by (induction "is") (auto split: if_splits)

lemma compare_ranks_append:
  "compare_ranks x y (is @ js) = (if compare_ranks x y is = 0 then compare_ranks x y js else compare_ranks x y is)"
  by (induction "is") auto

lemma compare_ranks_beyond:
  "\<forall>i \<in> set is. length x \<le> i \<and> length y \<le> i \<Longrightarrow> compare_ranks x y is = 0"
  by (induction "is") (auto simp: rank_at_def)

lemma compareRankArrays_upto:
  assumes "length left \<le> n" and "length right \<le> n"
  shows "compareRankArrays left right = compare_ranks left right [0..<n]"
proof -
  let ?m = "max (length left) (length right)"
  have "[0..<n] = [0..<?m] @ [?m..<n]"
    using assms by (metis le_add_diff_inverse max.boundedI upt_add_eq_append zero_le)
  moreover have "compare_ranks left right [?m..<n] = 0"
    by (rule compare_ranks_beyond) auto
  ultimately show ?thesis
    by (auto simp: compareRankArrays_def compare_ranks_append)
qed

interpretation ranks_cmp: three_way_compare compareRankArrays
proof
  fix x y z :: "int list"
  show "compareRankArrays x y = - 1 \<or> compareRankArrays x y = 0 \<or> compareRankArrays x y = 1"
    using compare_ranks_range [of x y] by (auto simp: compareRankArrays_def)
  show "compareRankArrays y x = - compareRankArrays x y"
    by (simp add: compareRankArrays_def compare_ranks_swap [of y x] max.commute)
  let ?n = "max (length x) (max (length y) (length z))"
  show "0 \<le> compareRankArrays x z" if "0 \<le> compareRankArrays x y" "0 \<le> compareRankArrays y z"
    using that compare_ranks_trans [of x y "[0..<?n]" z]
    by (simp add: compareRankArrays_upto [of _ ?n])
qed

interpretation hand_cmp: three_way_compare compareFiveCardHands
proof
  fix x y z :: HandScore
  show "compareFiveCardHands x y = - 1 \<or> compareFiveCardHands x y = 0 \<or> compareFiveCardHands x y = 1"
    using ranks_cmp.cmp_range by (auto simp: compareFiveCardHands_def)
  show "compareFiveCardHands y x = - compareFiveCardHands x y"
    using ranks_cmp.cmp_swap [of "hs_RankValues y" "hs_RankValues x"]
    by (simp add: compareFiveCardHands_def)
  show "0 \<le> compareFiveCardHands x z" if "0 \<le> compareFiveCardHands x y" "0 \<le> compareFiveCardHands y z"
    using that ranks_cmp.cmp_trans [of "hs_RankValues x" "hs_RankValues y" "hs_RankValues z"]
    by (simp add: compareFiveCardHands_def split: if_splits)
qed

section \<open>Enumerating the five-card hands\<close>

lemma set_combinations: "set (combinations xs k) = {ys. subseq ys xs \<and> length ys = k}"
proof (induction xs k rule: combinations.induct)
  case (3 x xs k)
  show ?case
  proof (cases "length (x # xs) < Suc k")
    case True
    then have "\<not> (subseq ys (x # xs) \<and> length ys = Suc k)" for ys
      using list_emb_length by fastforce
    with True show ?thesis by auto
  next
    case False
    have "subseq ys (x # xs) \<and> length ys = Suc k \<longleftrightarrow>
        (\<exists>zs. ys = x # zs \<and> subseq zs xs \<and> length zs = k) \<or> (subseq ys xs \<and> length ys = Suc k)" for ys
      by (cases ys) (auto dest: subseq_Cons')
    with False "3.IH" show ?thesis by auto
  qed
qed auto

lemma length_combinations: "length (combinations xs k) = length xs choose k"
  by (induction xs k rule: combinations.induct) (auto simp: binomial_eq_0)

section \<open>Scoring five cards never fails\<close>

lemma distinct_rank_counts: "distinct (map fst (rank_counts cs))"
  unfolding rank_counts_def by (induction cs rule: rev_induct) auto

lemma mget_rank_counts: "mget (rank_counts cs) r = int (length (filter (\<lambda>c. cd_RankValue c = r) cs))"
  unfolding rank_counts_def by (induction cs rule: rev_induct) auto

lemma keys_rank_counts: "fst ` set (rank_counts cs) = cd_RankValue ` set cs"
  unfolding rank_counts_def by (induction cs rule: rev_induct) auto

lemma msum_rank_counts: "msum (rank_counts cs) = int (length cs)"
  unfolding rank_counts_def
  by (induction cs rule: rev_induct) (simp_all add: msum_madd distinct_rank_counts [unfolded rank_counts_def],
      simp add: msum_def)

lemma sum_entries: "sum_list (map snd (slice_stable entry_less (rank_counts cs))) = int (length cs)"
proof -
  have "sum_list (map snd (slice_stable entry_less (rank_counts cs))) = sum_mset (image_mset snd (mset (rank_counts cs)))"
    by (simp flip: sum_mset_sum_list)
  also have "\<dots> = msum (rank_counts cs)" by (simp add: msum_def flip: sum_mset_sum_list)
  finally show ?thesis by (simp add: msum_rank_counts)
qed

lemma evaluate_five_ok:
  assumes "length cards = 5"
  shows "\<exists>s. evaluateFiveCardHand cards = Inr s"
proof -
  define entries where "entries = slice_stable entry_less (rank_counts (sortCardsDesc cards))"
  have sum: "sum_list (map snd entries) = 5"
    using assms by (simp add: entries_def sum_entries sortCardsDesc_def)
  have "snd (entries ! 0) = 4 \<Longrightarrow> length entries > 0 \<Longrightarrow> 1 < length entries"
    using sum by (cases entries rule: list.exhaust; cases "tl entries") auto
  moreover have "snd (entries ! 0) = 2 \<Longrightarrow> snd (entries ! 1) = 2 \<Longrightarrow> length entries > 1 \<Longrightarrow> 2 < length entries"
    using sum by (cases entries; cases "tl entries"; cases "tl (tl entries)") auto
  ultimately show ?thesis
    by (auto simp: evaluateFiveCardHand_def Let_def entries_def [symmetric])
qed


section \<open>The best five of seven\<close>

definition score_of :: "CardCode list \<Rightarrow> HandScore" where
  "score_of codes =
     (case evaluateFiveCardHand (map ParseCard codes) of Inl _ \<Rightarrow> undefined | Inr s \<Rightarrow> s)"

lemma score_of_eq: "length codes = 5 \<Longrightarrow> evaluateFiveCardHand (map ParseCard codes) = Inr (score_of codes)"
  using evaluate_five_ok [of "map ParseCard codes"] by (auto simp: score_of_def)

lemma best_score_fold:
  "\<forall>c \<in> set cs. length c = 5 \<Longrightarrow>
   best_score cs (Some b) = Inr (Some (foldl hand_cmp.keep_best b (map score_of cs)))"
  by (induction cs arbitrary: b) (auto simp: score_of_eq hand_cmp.keep_best_def)

lemma score_seven_ok:
  assumes "length codes = 7"
  shows "\<exists>best. ScoreSevenCardHand codes = Inr best \<and>
    best \<in> score_of ` {c. subseq c codes \<and> length c = 5} \<and>
    (\<forall>c. subseq c codes \<and> length c = 5 \<longrightarrow> 0 \<le> compareFiveCardHands best (score_of c))"
proof -
  have "length (combinations codes 5) \<noteq> 0"
    by (simp add: length_combinations assms binomial_eq_0_iff del: length_0_conv)
  then obtain c cs where cs: "combinations codes 5 = c # cs" by (cases "combinations codes 5") auto
  have members: "c' \<in> set (c # cs) \<longleftrightarrow> subseq c' codes \<and> length c' = 5" for c'
    using set_combinations [of codes 5] by (simp add: cs)
  have five: "\<forall>c' \<in> set (c # cs). length c' = 5" using members by blast
  let ?best = "foldl hand_cmp.keep_best (score_of c) (map score_of cs)"
  have "ScoreSevenCardHand codes = Inr ?best"
    using assms five best_score_fold [of cs "score_of c"]
    by (simp add: ScoreSevenCardHand_def cs score_of_eq)
  moreover have "?best \<in> score_of ` set (c # cs)" and "\<forall>x \<in> score_of ` set (c # cs). 0 \<le> compareFiveCardHands ?best x"
    using hand_cmp.fold_keep_best [of "score_of c" "map score_of cs"] by auto
  ultimately show ?thesis using members by (intro exI [of _ ?best]) blast
qed

section \<open>A score does not depend on the order of the cards\<close>

definition core_score :: "bool \<Rightarrow> (int \<times> int) list \<Rightarrow> int list \<Rightarrow> int list \<Rightarrow> (int \<times> int list) res" where
  "core_score isFlush entries distinctRanks rankValues =
     (let straightHigh = getStraightHigh distinctRanks; count = (\<lambda>i. snd (entries ! i)); rank = (\<lambda>i. fst (entries ! i)) in
      if isFlush \<and> straightHigh \<noteq> None then Inr (8, [the straightHigh])
      else if length entries > 0 \<and> count 0 = 4 then
        (case go_index entries 1 of Inl e \<Rightarrow> Inl e | Inr kicker \<Rightarrow> Inr (7, [rank 0, fst kicker]))
      else if length entries > 1 \<and> count 0 = 3 \<and> count 1 = 2 then Inr (6, [rank 0, rank 1])
      else if isFlush then Inr (5, rankValues)
      else if straightHigh \<noteq> None then Inr (4, [the straightHigh])
      else if length entries > 0 \<and> count 0 = 3 then Inr (3, rank 0 # sort_desc (map fst (tl entries)))
      else if length entries > 1 \<and> count 0 = 2 \<and> count 1 = 2 then
        (case go_index entries 2 of Inl e \<Rightarrow> Inl e
         | Inr kicker \<Rightarrow> Inr (2, [sort_desc [rank 0, rank 1] ! 0, sort_desc [rank 0, rank 1] ! 1, fst kicker]))
      else if length entries > 0 \<and> count 0 = 2 then Inr (1, rank 0 # sort_desc (map fst (tl entries)))
      else Inr (0, rankValues))"

abbreviation is_flush :: "Card list \<Rightarrow> bool" where
  "is_flush cs \<equiv> length (remdups (map cd_Suit cs)) = 1"

abbreviation entries_of :: "Card list \<Rightarrow> (int \<times> int) list" where
  "entries_of cs \<equiv> slice_stable entry_less (rank_counts cs)"

definition score_view :: "HandScore res \<Rightarrow> (int \<times> int list) res" where
  "score_view = map_sum id (\<lambda>s. (hs_Category s, hs_RankValues s))"

lemma score_view_simps:
  "score_view (Inl e) = Inl e"
  "score_view (Inr (hand_score category rankValues bestFive)) = Inr (int category, rankValues)"
  "score_view (if b then x else y) = (if b then score_view x else score_view y)"
  "score_view (case r of Inl e \<Rightarrow> Inl e | Inr k \<Rightarrow> f k) = (case r of Inl e \<Rightarrow> Inl e | Inr k \<Rightarrow> score_view (f k))"
  by (simp_all add: score_view_def hand_score_def split: sum.split)

lemma score_view_Inr: "score_view (Inr s) = Inr (hs_Category s, hs_RankValues s)"
  by (simp add: score_view_def)

lemma evaluate_core:
  "score_view (evaluateFiveCardHand cs) =
     core_score (is_flush (sortCardsDesc cs)) (entries_of (sortCardsDesc cs))
       (sort_desc (map fst (rank_counts (sortCardsDesc cs)))) (map cd_RankValue (sortCardsDesc cs))"
  unfolding evaluateFiveCardHand_def core_score_def Let_def score_view_simps
  by (simp only: of_nat_numeral of_nat_0 of_nat_1)

lemma entry_less_key: "entry_less = (\<lambda>l r. (- snd l, - fst l) < (- snd r, - fst r))"
  by (intro ext) (auto simp: entry_less_def)

interpretation entry_ord: strict_weak entry_less
  unfolding entry_less_key by (rule strict_weak_key)

interpretation desc_ord: strict_weak "\<lambda>l r :: int. l > r"
  by unfold_locales auto

interpretation card_ord: strict_weak "\<lambda>l r. cd_RankValue l > cd_RankValue r"
  by unfold_locales auto

lemma sort_desc_perm: "mset xs = mset ys \<Longrightarrow> sort_desc xs = sort_desc ys"
  using slice_stable_perm [of uminus xs ys] by (simp add: sort_desc_def)

lemma map_sortCardsDesc: "map cd_RankValue (sortCardsDesc cs) = sort_desc (map cd_RankValue cs)"
proof -
  have "map cd_RankValue (insert_by (\<lambda>l r. cd_RankValue l > cd_RankValue r) c xs)
      = insert_by (\<lambda>l r. l > r) (cd_RankValue c) (map cd_RankValue xs)" for c :: Card and xs
    by (induction xs) auto
  then show ?thesis unfolding sortCardsDesc_def sort_desc_def by (induction cs) simp_all
qed

lemma mset_rank_counts:
  assumes "mset (map cd_RankValue cs) = mset (map cd_RankValue ds)"
  shows "mset (rank_counts cs) = mset (rank_counts ds)"
proof -
  have char: "set (rank_counts xs) = (\<lambda>r. (r, int (count (mset (map cd_RankValue xs)) r))) ` set (map cd_RankValue xs)" for xs
  proof -
    have get: "mget (rank_counts xs) r = int (count (mset (map cd_RankValue xs)) r)" for r
      by (induction xs) (simp_all add: mget_rank_counts)
    have "(r, v) \<in> set (rank_counts xs) \<Longrightarrow> v = mget (rank_counts xs) r" for r v
      using distinct_rank_counts [of xs] by (simp add: mget_def)
    moreover have "r \<in> cd_RankValue ` set xs \<Longrightarrow> \<exists>v. (r, v) \<in> set (rank_counts xs)" for r
      using keys_rank_counts [of xs] by force
    moreover have "(r, v) \<in> set (rank_counts xs) \<Longrightarrow> r \<in> cd_RankValue ` set xs" for r v
      using keys_rank_counts [of xs] by force
    ultimately show ?thesis unfolding get [symmetric] by (auto simp: image_iff) metis
  qed
  have "set (rank_counts cs) = set (rank_counts ds)"
    using assms mset_eq_setD [OF assms] by (simp add: char)
  moreover have "distinct (rank_counts xs)" for xs
    using distinct_rank_counts [of xs] by (simp add: distinct_map)
  ultimately show ?thesis by (simp add: set_eq_iff_mset_eq_distinct)
qed

lemma evaluate_perm:
  assumes "mset cs = mset ds"
  shows "score_view (evaluateFiveCardHand cs) = score_view (evaluateFiveCardHand ds)"
proof -
  let ?s = "sortCardsDesc cs" and ?t = "sortCardsDesc ds"
  have st: "mset ?s = mset ?t" using assms by (simp add: sortCardsDesc_def)
  then have ranks: "mset (map cd_RankValue ?s) = mset (map cd_RankValue ?t)" by simp
  have "set (map cd_Suit ?s) = set (map cd_Suit ?t)" using mset_eq_setD [OF st] by simp
  then have "is_flush ?s = is_flush ?t" by (metis length_remdups_card_conv)
  moreover have counts: "mset (rank_counts ?s) = mset (rank_counts ?t)"
    by (rule mset_rank_counts [OF ranks])
  have "entries_of ?s = entries_of ?t"
    unfolding entry_less_key using counts by (intro slice_stable_perm) (auto simp: inj_on_def)
  moreover have "sort_desc (map fst (rank_counts ?s)) = sort_desc (map fst (rank_counts ?t))"
    by (rule sort_desc_perm) (simp add: counts)
  moreover have "map cd_RankValue ?s = map cd_RankValue ?t"
    unfolding map_sortCardsDesc by (rule sort_desc_perm) (simp add: assms)
  ultimately show ?thesis unfolding evaluate_core by simp
qed

lemma score_of_perm:
  assumes "length c = 5" and "mset c = mset d"
  shows "compareFiveCardHands (score_of c) (score_of d) = 0 \<and> hs_Category (score_of c) = hs_Category (score_of d)"
proof -
  have "length d = 5" using assms mset_eq_length by metis
  moreover have "mset (map ParseCard c) = mset (map ParseCard d)" using assms(2) by simp
  ultimately have "hs_Category (score_of c) = hs_Category (score_of d) \<and>
      hs_RankValues (score_of c) = hs_RankValues (score_of d)"
    using evaluate_perm [of "map ParseCard c" "map ParseCard d"] assms(1) by (simp add: score_of_eq score_view_Inr)
  then show ?thesis by (simp add: compareFiveCardHands_def ranks_cmp.cmp_refl)
qed

lemma subseq_mset: "subseq c xs \<Longrightarrow> mset c \<subseteq># mset xs"
  by (induction rule: list_emb.induct) (auto intro: subset_mset.order_trans)

lemma mset_subseq: "M \<subseteq># mset xs \<Longrightarrow> \<exists>d. subseq d xs \<and> mset d = M"
proof (induction xs arbitrary: M)
  case (Cons x xs)
  show ?case
  proof (cases "x \<in># M")
    case True
    then obtain N where N: "M = add_mset x N" by (metis insert_DiffM)
    with Cons.prems Cons.IH [of N] obtain d where "subseq d xs" "mset d = N" by auto
    then show ?thesis using N by (intro exI [of _ "x # d"]) simp
  next
    case False
    have "count M a \<le> count (mset xs) a" for a
      using mset_subset_eq_count [OF Cons.prems, of a] False by (cases "a = x") (auto simp: not_in_iff)
    then have "M \<subseteq># mset xs" by (rule mset_subset_eqI)
    with Cons.IH [of M] show ?thesis by (meson list_emb_Cons)
  qed
qed simp

lemma subseq_perm: "mset xs = mset ys \<Longrightarrow> subseq c xs \<Longrightarrow> \<exists>d. subseq d ys \<and> mset d = mset c"
  using subseq_mset [of c xs] mset_subseq [of "mset c" ys] by simp


section \<open>The categories of poker\<close>

text \<open>The rules of poker, stated directly on the five cards.\<close>

definition n_of :: "int \<Rightarrow> Card list \<Rightarrow> nat" where
  "n_of r cs = length (filter (\<lambda>c. cd_RankValue c = r) cs)"

definition flush :: "Card list \<Rightarrow> bool" where
  "flush cs \<longleftrightarrow> (\<exists>s. \<forall>c \<in> set cs. cd_Suit c = s)"

definition straight :: "Card list \<Rightarrow> bool" where
  "straight cs \<longleftrightarrow> (\<exists>h. 6 \<le> h \<and> cd_RankValue ` set cs = {h - 4..h}) \<or> cd_RankValue ` set cs = {14, 2, 3, 4, 5}"

definition poker_category :: "Card list \<Rightarrow> int" where
  "poker_category cs =
     (if flush cs \<and> straight cs then 8
      else if \<exists>r. n_of r cs = 4 then 7
      else if (\<exists>r. n_of r cs = 3) \<and> (\<exists>r. n_of r cs = 2) then 6
      else if flush cs then 5
      else if straight cs then 4
      else if \<exists>r. n_of r cs = 3 then 3
      else if \<exists>r s. r \<noteq> s \<and> n_of r cs = 2 \<and> n_of s cs = 2 then 2
      else if \<exists>r. n_of r cs = 2 then 1
      else 0)"

lemma straight_high_five:
  assumes "14 \<ge> a" "a > b" "b > c" "c > d" "d > e" "e \<ge> 2"
  shows "getStraightHigh [a, b, c, d, e] =
    (if a = e + 4 then Some a else if a = 14 \<and> b = 5 then Some 5 else None)"
proof -
  have "[0..<4] = [0, 1, 2, 3::nat]" "[0..<5] = [0, 1, 2, 3, 4::nat]" by code_simp+
  then show ?thesis using assms by (auto simp: getStraightHigh_def Let_def)
qed

lemma straight_high_short:
  assumes "sorted_wrt (>) rs" "length rs < 5" "\<forall>r \<in> set rs. 2 \<le> r \<and> r \<le> 14"
  shows "getStraightHigh rs = None"
proof -
  have u: "[0..<4] = [0, 1, 2, 3::nat]" "[0..<3] = [0, 1, 2::nat]" "[0..<2] = [0, 1::nat]" by code_simp+
  have "length rs = 0 \<or> length rs = 1 \<or> length rs = 2 \<or> length rs = 3 \<or> length rs = 4"
    using assms(2) by linarith
  then consider "rs = []" | a where "rs = [a]" | a b where "rs = [a, b]" | a b c where "rs = [a, b, c]"
    | a b c d where "rs = [a, b, c, d]"
    by (auto simp: length_Suc_conv numeral_eq_Suc)
  then show ?thesis using assms by cases (auto simp: getStraightHigh_def Let_def u)
qed


lemma partitions_of_five:
  assumes "sorted_wrt (\<ge>) xs" "\<forall>x \<in> set xs. 1 \<le> x" "sum_list xs = (5::int)"
  shows "xs = [5] \<or> xs = [4, 1] \<or> xs = [3, 2] \<or> xs = [3, 1, 1] \<or> xs = [2, 2, 1] \<or>
    xs = [2, 1, 1, 1] \<or> xs = [1, 1, 1, 1, 1]"
proof -
  have le: "int (length ys) \<le> sum_list ys" if "\<forall>y \<in> set ys. 1 \<le> y" for ys :: "int list"
    using that by (induction ys) auto
  have "length xs = 0 \<or> length xs = 1 \<or> length xs = 2 \<or> length xs = 3 \<or> length xs = 4 \<or> length xs = 5"
    using le [OF assms(2)] assms(3) by linarith
  then consider "xs = []" | a where "xs = [a]" | a b where "xs = [a, b]" | a b c where "xs = [a, b, c]"
    | a b c d where "xs = [a, b, c, d]" | a b c d e where "xs = [a, b, c, d, e]"
    by (auto simp: length_Suc_conv numeral_eq_Suc)
  then show ?thesis
  proof cases
    case (3 a b)
    have "a = 4 \<and> b = 1 \<or> a = 3 \<and> b = 2" using assms unfolding 3 by simp presburger
    then show ?thesis using 3 by simp
  next
    case (4 a b c)
    have "a = 3 \<and> b = 1 \<and> c = 1 \<or> a = 2 \<and> b = 2 \<and> c = 1" using assms unfolding 4 by simp presburger
    then show ?thesis using 4 by simp
  next
    case (5 a b c d)
    have "a = 2 \<and> b = 1 \<and> c = 1 \<and> d = 1" using assms unfolding 5 by simp
    then show ?thesis using 5 by simp
  next
    case (6 a b c d e)
    have "a = 1 \<and> b = 1 \<and> c = 1 \<and> d = 1 \<and> e = 1" using assms unfolding 6 by simp
    then show ?thesis using 6 by simp
  qed (use assms in simp_all)
qed

lemma mget_perm:
  assumes "distinct (map fst m)" and "mset m = mset m'"
  shows "mget m k = mget m' k"
proof -
  have "distinct (map fst m')" using assms by (metis mset_eq_imp_distinct_iff mset_map)
  then have "map_of m k = Some v \<longleftrightarrow> map_of m' k = Some v" for v
    using assms(1) mset_eq_setD [OF assms(2)] by simp
  then have "map_of m k = map_of m' k" by (metis option.exhaust)
  then show ?thesis by (simp add: mget_def)
qed

lemma entries_facts:
  assumes "length cs = 5" and "E = entries_of cs"
  shows "distinct (map fst E)" and "sorted_wrt (\<ge>) (map snd E)" and "\<forall>x \<in> set (map snd E). 1 \<le> x"
    and "sum_list (map snd E) = 5" and "int (n_of r cs) = mget E r"
    and "fst ` set E = cd_RankValue ` set cs"
proof -
  have perm: "mset E = mset (rank_counts cs)" by (simp add: assms(2))
  show d: "distinct (map fst E)"
    using distinct_rank_counts [of cs] perm by (metis mset_eq_imp_distinct_iff mset_map)
  show get: "int (n_of r cs) = mget E r" for r
    using mget_perm [OF d perm] by (simp add: mget_rank_counts n_of_def)
  show keys: "fst ` set E = cd_RankValue ` set cs"
    using mset_eq_setD [OF perm] by (simp add: keys_rank_counts)
  show "sum_list (map snd E) = 5" using assms by (simp add: sum_entries)
  have "sorted_wrt (\<lambda>a b. \<not> entry_less b a) E" unfolding assms(2) by (rule entry_ord.sorted_slice)
  then show "sorted_wrt (\<ge>) (map snd E)"
    unfolding sorted_wrt_map by (rule sorted_wrt_mono_rel [rotated]) (auto simp: entry_less_def split: if_splits)
  have "1 \<le> v" if "(r, v) \<in> set E" for r v
  proof -
    have "mget E r = v" using that d by (simp add: mget_def)
    moreover have "filter (\<lambda>c. cd_RankValue c = r) cs \<noteq> []"
      using that keys by (force simp: filter_empty_conv)
    ultimately show ?thesis using get [of r] by (simp add: n_of_def) (metis length_greater_0_conv of_nat_0_less_iff zero_less_imp_eq_int int_one_le_iff_zero_less)
  qed
  then show "\<forall>x \<in> set (map snd E). 1 \<le> x" by auto
qed

lemma strict_desc: "sorted_wrt (\<lambda>a b :: int. \<not> b > a) xs \<Longrightarrow> distinct xs \<Longrightarrow> sorted_wrt (>) xs"
  by (induction xs) (auto simp: not_less less_le)

lemma distinct_ranks_desc:
  "sorted_wrt (>) (sort_desc (map fst (rank_counts cs)))"
  "set (sort_desc (map fst (rank_counts cs))) = cd_RankValue ` set cs"
  "length (sort_desc (map fst (rank_counts cs))) = length (rank_counts cs)"
proof -
  let ?rs = "sort_desc (map fst (rank_counts cs))"
  have "sorted_wrt (\<lambda>a b :: int. \<not> b > a) ?rs" unfolding sort_desc_def by (rule desc_ord.sorted_slice)
  moreover have "distinct ?rs" using distinct_rank_counts by (simp add: sort_desc_def)
  ultimately show "sorted_wrt (>) ?rs" by (rule strict_desc)
  show "set ?rs = cd_RankValue ` set cs" by (simp add: sort_desc_def keys_rank_counts)
  show "length ?rs = length (rank_counts cs)" by (simp add: sort_desc_def)
qed


lemma straight_high_iff:
  assumes "\<forall>c \<in> set cs. 2 \<le> cd_RankValue c \<and> cd_RankValue c \<le> 14" and "length (rank_counts cs) \<le> 5"
  shows "getStraightHigh (sort_desc (map fst (rank_counts cs))) \<noteq> None \<longleftrightarrow> straight cs"
proof -
  let ?rs = "sort_desc (map fst (rank_counts cs))"
  note rs = distinct_ranks_desc [of cs]
  have range: "\<forall>r \<in> set ?rs. 2 \<le> r \<and> r \<le> 14" using assms(1) rs(2) by auto
  show ?thesis
  proof (cases "length ?rs < 5")
    case True
    have "card (cd_RankValue ` set cs) < 5"
      using True rs(2) card_length [of ?rs] by simp
    moreover have "card {h - 4..h} = 5" for h :: int by simp
    ultimately have "\<not> straight cs" by (auto simp: straight_def)
    with straight_high_short [OF rs(1) True range] show ?thesis by simp
  next
    case False
    then have "length ?rs = 5" using rs(3) assms(2) by simp
    then obtain a b c d e where abc: "?rs = [a, b, c, d, e]"
      by (auto simp: length_Suc_conv numeral_eq_Suc)
    with rs(1) range have ord: "14 \<ge> a" "a > b" "b > c" "c > d" "d > e" "e \<ge> 2" by simp_all
    have set_eq: "cd_RankValue ` set cs = {a, b, c, d, e}" using rs(2) abc by simp
    have "{a, b, c, d, e} = {h - 4..h} \<longleftrightarrow> h = a \<and> a = e + 4" for h
    proof
      assume eq: "{a, b, c, d, e} = {h - 4..h}"
      have "h \<in> {a, b, c, d, e}" "h - 4 \<in> {a, b, c, d, e}" "a \<in> {h - 4..h}" "e \<in> {h - 4..h}"
        using eq by auto
      then show "h = a \<and> a = e + 4" using ord by auto
    next
      assume "h = a \<and> a = e + 4"
      then show "{a, b, c, d, e} = {h - 4..h}" using ord by auto
    qed
    moreover have "{a, b, c, d, e} = {14, 2, 3, 4, 5} \<longleftrightarrow> a = 14 \<and> b = 5"
    proof
      assume eq: "{a, b, c, d, e} = {14, 2, 3, 4, 5}"
      have "a \<in> {14, 2, 3, 4, 5}" "b \<in> {14, 2, 3, 4, 5}" "14 \<in> {a, b, c, d, e}"
        using eq by blast+
      moreover have "5 \<in> {a, b, c, d, e}" using eq by blast
      ultimately show "a = 14 \<and> b = 5" using ord by auto
    next
      assume "a = 14 \<and> b = 5"
      then have "c = 4" "d = 3" "e = 2" using ord by auto
      then show "{a, b, c, d, e} = {14, 2, 3, 4, 5}" using \<open>a = 14 \<and> b = 5\<close> by auto
    qed
    ultimately show ?thesis
      using straight_high_five [OF ord] ord by (auto simp: straight_def abc set_eq)
  qed
qed

lemma flush_iff: "cs \<noteq> [] \<Longrightarrow> is_flush cs \<longleftrightarrow> flush cs"
proof -
  assume "cs \<noteq> []"
  then obtain c where c: "c \<in> set cs" by (cases cs) auto
  have "is_flush cs \<longleftrightarrow> card (cd_Suit ` set cs) = 1" by (simp add: length_remdups_card_conv)
  also have "\<dots> \<longleftrightarrow> (\<exists>s. cd_Suit ` set cs = {s})" by (simp add: card_1_singleton_iff)
  also have "\<dots> \<longleftrightarrow> flush cs" using c by (auto simp: flush_def)
  finally show ?thesis .
qed

lemma mget_pairs:
  "map snd E = c # cs \<Longrightarrow> \<exists>r E'. E = (r, c) # E' \<and> map snd E' = cs"
  by (cases E) auto

lemma count_patterns:
  assumes "distinct (map fst E)"
    and parts: "map snd E = [5] \<or> map snd E = [4, 1] \<or> map snd E = [3, 2] \<or> map snd E = [3, 1, 1] \<or>
      map snd E = [2, 2, 1] \<or> map snd E = [2, 1, 1, 1] \<or> map snd E = [1, 1, 1, 1, 1]"
  shows "(\<exists>r. mget E r = 4) \<longleftrightarrow> length E > 0 \<and> snd (E ! 0) = 4"
    and "(\<exists>r. mget E r = 3) \<longleftrightarrow> length E > 0 \<and> snd (E ! 0) = 3"
    and "(\<exists>r. mget E r = 3) \<and> (\<exists>r. mget E r = 2) \<longleftrightarrow> length E > 1 \<and> snd (E ! 0) = 3 \<and> snd (E ! 1) = 2"
    and "(\<exists>r s. r \<noteq> s \<and> mget E r = 2 \<and> mget E s = 2) \<longleftrightarrow> length E > 1 \<and> snd (E ! 0) = 2 \<and> snd (E ! 1) = 2"
    and "(\<exists>r. mget E r = 3) \<or> (\<exists>r. mget E r = 2) \<longleftrightarrow> length E > 0 \<and> (snd (E ! 0) = 2 \<or> snd (E ! 0) = 3)"
proof -
  consider (five) a where "E = [(a, 5)]" | (four) a b where "E = [(a, 4), (b, 1)]"
    | (full) a b where "E = [(a, 3), (b, 2)]" | (three) a b c where "E = [(a, 3), (b, 1), (c, 1)]"
    | (pairs) a b c where "E = [(a, 2), (b, 2), (c, 1)]"
    | (pair) a b c d where "E = [(a, 2), (b, 1), (c, 1), (d, 1)]"
    | (none) a b c d e where "E = [(a, 1), (b, 1), (c, 1), (d, 1), (e, 1)]"
    using parts by (auto dest!: mget_pairs)
  note cases = this
  show "(\<exists>r. mget E r = 4) \<longleftrightarrow> length E > 0 \<and> snd (E ! 0) = 4"
    using cases assms(1) by cases (auto simp: mget_Cons)
  show "(\<exists>r. mget E r = 3) \<longleftrightarrow> length E > 0 \<and> snd (E ! 0) = 3"
    using cases assms(1) by cases (auto simp: mget_Cons)
  show "(\<exists>r. mget E r = 3) \<and> (\<exists>r. mget E r = 2) \<longleftrightarrow> length E > 1 \<and> snd (E ! 0) = 3 \<and> snd (E ! 1) = 2"
    using cases assms(1) by cases (auto simp: mget_Cons)
  show "(\<exists>r s. r \<noteq> s \<and> mget E r = 2 \<and> mget E s = 2) \<longleftrightarrow> length E > 1 \<and> snd (E ! 0) = 2 \<and> snd (E ! 1) = 2"
    using cases
  proof cases
    case (pairs a b c)
    then have "a \<noteq> b" "mget E a = 2" "mget E b = 2" using assms(1) by (auto simp: mget_Cons)
    with pairs show ?thesis by auto
  qed (simp_all add: mget_Cons)
  show "(\<exists>r. mget E r = 3) \<or> (\<exists>r. mget E r = 2) \<longleftrightarrow> length E > 0 \<and> (snd (E ! 0) = 2 \<or> snd (E ! 0) = 3)"
    using cases assms(1) by cases (auto simp: mget_Cons)
qed

lemma core_category:
  assumes "length cs = 5" and "\<forall>c \<in> set cs. 2 \<le> cd_RankValue c \<and> cd_RankValue c \<le> 14"
    and core: "core_score (is_flush cs) (entries_of cs) (sort_desc (map fst (rank_counts cs))) rv = Inr (k, vs)"
  shows "k = poker_category cs"
proof -
  define E where "E = entries_of cs"
  note E = entries_facts [OF assms(1) E_def]
  have len: "length (rank_counts cs) = length E" by (simp add: E_def)
  note parts = partitions_of_five [OF E(2-4)]
  note pats = count_patterns [OF E(1) parts]
  have "length E \<le> 5" using parts by (auto dest!: arg_cong [where f = length])
  then have st: "getStraightHigh (sort_desc (map fst (rank_counts cs))) \<noteq> None \<longleftrightarrow> straight cs"
    using straight_high_iff [OF assms(2)] len by simp
  have fl: "is_flush cs \<longleftrightarrow> flush cs" using assms(1) by (intro flush_iff) auto
  have n: "n_of r cs = numeral v \<longleftrightarrow> mget E r = numeral v" for r v using E(5) [of r] by (metis of_nat_eq_iff of_nat_numeral)
  show ?thesis
    using core unfolding core_score_def Let_def st fl E_def [symmetric] poker_category_def n
    using pats by (auto split: if_splits sum.splits)
qed


lemma category_of_five:
  assumes "length codes = 5" and "\<forall>c \<in> set codes. valid_code c"
  shows "hs_Category (score_of codes) = poker_category (map ParseCard codes)"
proof -
  let ?cs = "map ParseCard codes" and ?s = "sortCardsDesc (map ParseCard codes)"
  have perm: "mset ?s = mset ?cs" by (simp add: sortCardsDesc_def)
  have five: "length ?s = 5" using assms(1) by (simp add: sortCardsDesc_def)
  have range: "\<forall>c \<in> set ?s. 2 \<le> cd_RankValue c \<and> cd_RankValue c \<le> 14"
    using assms(2) valid_code_parse(4,5) by (auto simp: sortCardsDesc_def)
  have "score_view (evaluateFiveCardHand ?cs) = Inr (hs_Category (score_of codes), hs_RankValues (score_of codes))"
    by (simp add: score_of_eq [OF assms(1)] score_view_Inr)
  then have "hs_Category (score_of codes) = poker_category ?s"
    unfolding evaluate_core by (rule core_category [OF five range])
  also have "\<dots> = poker_category ?cs"
  proof -
    have "n_of r ?s = n_of r ?cs" for r
      unfolding n_of_def by (rule mset_eq_length) (simp only: mset_filter perm)
    moreover have "set ?s = set ?cs" using mset_eq_setD [OF perm] .
    ultimately show ?thesis unfolding poker_category_def flush_def straight_def by (simp only:)
  qed
  finally show ?thesis .
qed

section \<open>Properties\<close>

text \<open>The comparison of scored hands is a total preorder: it returns \<open>-1\<close>, \<open>0\<close> or \<open>1\<close>, swapping the hands
  negates the result, and "at least as good" is transitive, although the two rank lists may have
  different lengths.\<close>

theorem hand_comparison_is_total_preorder:
  "CompareScoredHands x y \<in> {- 1, 0, 1} \<and> CompareScoredHands y x = - CompareScoredHands x y
    \<and> (0 \<le> CompareScoredHands x y \<longrightarrow> 0 \<le> CompareScoredHands y z \<longrightarrow> 0 \<le> CompareScoredHands x z)"
  using hand_cmp.cmp_range [of x y] hand_cmp.cmp_swap [of x y] hand_cmp.cmp_trans [of x y z]
  unfolding CompareScoredHands_def by auto

theorem hand_comparison_is_total_preorder_witness:
  "0 \<le> CompareScoredHands (hand_score 8 [14] []) (hand_score 1 [9, 8] [])
    \<and> 0 \<le> CompareScoredHands (hand_score 1 [9, 8] []) (hand_score 1 [9, 7, 2] [])
    \<and> 0 \<le> CompareScoredHands (hand_score 8 [14] []) (hand_score 1 [9, 7, 2] [])"
proof -
  have "0 \<le> CompareScoredHands (hand_score 8 [14] []) (hand_score 1 [9, 8] [])"
    and "0 \<le> CompareScoredHands (hand_score 1 [9, 8] []) (hand_score 1 [9, 7, 2] [])" by code_simp+
  with hand_comparison_is_total_preorder [of "hand_score 8 [14] []" "hand_score 1 [9, 8] []" "hand_score 1 [9, 7, 2] []"]
  show ?thesis by simp
qed

text \<open>The enumeration of five-card hands is complete and without repetition of positions: the
  combinations of a list are exactly its subsequences of the given length, and there are as many as
  the binomial coefficient says.\<close>

theorem combinations_enumerate_subsequences:
  "set (combinations items k) = {c. subseq c items \<and> length c = k}
    \<and> length (combinations items k) = length items choose k"
  by (simp add: set_combinations length_combinations)

text \<open>C39. Scoring seven cards always succeeds and returns the score of some five of them that no other five
  of them beat; any other number of cards is an error.\<close>

theorem seven_card_score_is_best:
  "(length codes = 7 \<longrightarrow> (\<exists>best. ScoreSevenCardHand codes = Inr best
      \<and> (\<exists>five. subseq five codes \<and> length five = 5 \<and> evaluateFiveCardHand (map ParseCard five) = Inr best)
      \<and> (\<forall>five s. subseq five codes \<longrightarrow> length five = 5 \<longrightarrow>
           evaluateFiveCardHand (map ParseCard five) = Inr s \<longrightarrow> 0 \<le> CompareScoredHands best s)))
    \<and> (length codes \<noteq> 7 \<longrightarrow> ScoreSevenCardHand codes = Inl (Err ''expected 7 cards, received %d''))"
proof (cases "length codes = 7")
  case True
  with score_seven_ok [OF True] show ?thesis
    by (fastforce simp: score_of_eq CompareScoredHands_def)
qed (simp add: ScoreSevenCardHand_def)

theorem seven_card_score_is_best_witness:
  "\<exists>best. ScoreSevenCardHand [''Ah'', ''Kh'', ''Qh'', ''2c'', ''Jh'', ''Th'', ''2d''] = Inr best
    \<and> 0 \<le> CompareScoredHands best (score_of [''Ah'', ''Kh'', ''2c'', ''Th'', ''2d''])"
proof -
  let ?codes = "[''Ah'', ''Kh'', ''Qh'', ''2c'', ''Jh'', ''Th'', ''2d'']"
  let ?five = "[''Ah'', ''Kh'', ''2c'', ''Th'', ''2d'']"
  have "subseq ?five ?codes" and "length ?five = 5" and seven: "length ?codes = 7" by code_simp+
  moreover have "evaluateFiveCardHand (map ParseCard ?five) = Inr (score_of ?five)" by (rule score_of_eq) simp
  ultimately show ?thesis
    using seven_card_score_is_best [of ?codes, THEN conjunct1, rule_format, OF seven] by blast
qed

text \<open>The score of seven cards does not depend on the order in which hole cards and board are given: two
  arrangements of the same cards have the same category and tie.\<close>

theorem seven_card_score_ignores_order:
  assumes "length codes = 7" and "mset codes = mset codes'"
    and "ScoreSevenCardHand codes = Inr s" and "ScoreSevenCardHand codes' = Inr t"
  shows "CompareScoredHands s t = 0 \<and> hs_Category s = hs_Category t"
proof -
  have le: "0 \<le> compareFiveCardHands t' s'"
    if len: "length xs = 7" and perm: "mset xs = mset ys"
      and s': "ScoreSevenCardHand xs = Inr s'" and t': "ScoreSevenCardHand ys = Inr t'" for xs ys s' t'
  proof -
    have "length ys = 7" using len perm mset_eq_length by metis
    note T = score_seven_ok [OF this, unfolded t'] and S = score_seven_ok [OF len, unfolded s']
    from S obtain c where c: "subseq c xs" "length c = 5" "s' = score_of c" by auto
    from subseq_perm [OF perm c(1)] obtain d where d: "subseq d ys" "mset d = mset c" by auto
    have "length d = 5" using c(2) d(2) mset_eq_length by metis
    with T d(1) have "0 \<le> compareFiveCardHands t' (score_of d)" by auto
    moreover have "compareFiveCardHands (score_of d) s' = 0"
      using score_of_perm [OF \<open>length d = 5\<close> d(2)] c(3) by simp
    ultimately show ?thesis using hand_cmp.cmp_trans [of t' "score_of d" s'] by simp
  qed
  have "length codes' = 7" using assms mset_eq_length by metis
  then have "compareFiveCardHands s t = 0"
    using le [OF assms] le [OF _ assms(2) [symmetric] assms(4,3)] hand_cmp.cmp_swap [of s t] by simp
  then show ?thesis by (auto simp: CompareScoredHands_def compareFiveCardHands_def split: if_splits)
qed

theorem seven_card_score_ignores_order_witness:
  "\<exists>s t. ScoreSevenCardHand [''Ah'', ''Kh'', ''Qh'', ''2c'', ''Jh'', ''Th'', ''2d''] = Inr s
    \<and> ScoreSevenCardHand [''2d'', ''Kh'', ''Qh'', ''2c'', ''Jh'', ''Th'', ''Ah''] = Inr t
    \<and> CompareScoredHands s t = 0"
proof -
  let ?xs = "[''Ah'', ''Kh'', ''Qh'', ''2c'', ''Jh'', ''Th'', ''2d'']"
  let ?ys = "[''2d'', ''Kh'', ''Qh'', ''2c'', ''Jh'', ''Th'', ''Ah'']"
  obtain s where s: "ScoreSevenCardHand ?xs = Inr s" using score_seven_ok [of ?xs] by auto
  obtain t where t: "ScoreSevenCardHand ?ys = Inr t" using score_seven_ok [of ?ys] by auto
  from seven_card_score_ignores_order [OF _ _ s t] s t show ?thesis by simp
qed

text \<open>C40. The category given to five cards of the deck is the one the rules of poker give them: straight
  flush, four of a kind, full house, flush, straight (the ace also counts as one), three of a kind,
  two pair, pair, high card, in this order.\<close>

theorem category_follows_poker_rules:
  assumes "length codes = 5" and "\<forall>c \<in> set codes. valid_code c"
    and "evaluateFiveCardHand (map ParseCard codes) = Inr s"
  shows "hs_Category s = poker_category (map ParseCard codes)"
  using category_of_five [OF assms(1,2)] assms(3) by (simp add: score_of_eq [OF assms(1)])

theorem category_follows_poker_rules_witness:
  "\<exists>s. evaluateFiveCardHand (map ParseCard [''Ah'', ''2h'', ''3h'', ''4c'', ''5h'']) = Inr s
    \<and> hs_Category s = 4 \<and> poker_category (map ParseCard [''Ah'', ''2h'', ''3h'', ''4c'', ''5h'']) = 4"
proof -
  let ?codes = "[''Ah'', ''2h'', ''3h'', ''4c'', ''5h'']"
  have valid: "\<forall>c \<in> set ?codes. valid_code c"
    by (simp add: valid_code_eq suits_def ranks_def)
  have s: "evaluateFiveCardHand (map ParseCard ?codes) = Inr (score_of ?codes)" by (rule score_of_eq) simp
  have "hs_Category (score_of ?codes) = 4" by code_simp
  with category_follows_poker_rules [OF _ valid s] s show ?thesis by simp
qed

end
