(* ===== verification/Holdem_Types.thy ===== *)
theory Holdem_Types
  imports Side_Pots Evaluator
begin

text \<open>
  The hand engine's data, from \<open>internal/game/types.go\<close>: streets, actions, seats, the state of one
  hand and the shapes derived from it. A \<open>*int\<close> is an \<open>int option\<close>.
\<close>

datatype Street =
    StreetCommitment
  | StreetReveal
  | StreetFinalization
  | StreetPrivateDelivery
  | StreetPreflop
  | StreetFlopReveal
  | StreetFlop
  | StreetTurnReveal
  | StreetTurn
  | StreetRiverReveal
  | StreetRiver
  | StreetShowdownReveal
  | StreetSettled
  | StreetAborted
  | StreetOther string

fun street_str :: "Street \<Rightarrow> string" where
  "street_str StreetCommitment = ''commitment''"
| "street_str StreetReveal = ''reveal''"
| "street_str StreetFinalization = ''finalization''"
| "street_str StreetPrivateDelivery = ''private-delivery''"
| "street_str StreetPreflop = ''preflop''"
| "street_str StreetFlopReveal = ''flop-reveal''"
| "street_str StreetFlop = ''flop''"
| "street_str StreetTurnReveal = ''turn-reveal''"
| "street_str StreetTurn = ''turn''"
| "street_str StreetRiverReveal = ''river-reveal''"
| "street_str StreetRiver = ''river''"
| "street_str StreetShowdownReveal = ''showdown-reveal''"
| "street_str StreetSettled = ''settled''"
| "street_str StreetAborted = ''aborted''"
| "street_str (StreetOther s) = s"

datatype ActionType = ActionFold | ActionCheck | ActionCall | ActionBet | ActionRaise | ActionOther string

fun action_type_str :: "ActionType \<Rightarrow> string" where
  "action_type_str ActionFold = ''fold''"
| "action_type_str ActionCheck = ''check''"
| "action_type_str ActionCall = ''call''"
| "action_type_str ActionBet = ''bet''"
| "action_type_str ActionRaise = ''raise''"
| "action_type_str (ActionOther s) = s"

datatype PlayerStatus =
  PlayerStatusActive | PlayerStatusFolded | PlayerStatusAllIn | PlayerStatusOther string

fun player_status_str :: "PlayerStatus \<Rightarrow> string" where
  "player_status_str PlayerStatusActive = ''active''"
| "player_status_str PlayerStatusFolded = ''folded''"
| "player_status_str PlayerStatusAllIn = ''all-in''"
| "player_status_str (PlayerStatusOther s) = s"

record Action =
  ac_Type :: ActionType
  ac_TotalSats :: int

record LegalAction =
  la_Type :: ActionType
  la_MinTotalSats :: "int option"
  la_MaxTotalSats :: "int option"

record HoldemSeatConfig =
  hsc_PlayerID :: string
  hsc_StackSats :: int

record HoldemPlayerState =
  hp_PlayerID :: string
  hp_SeatIndex :: int
  hp_StackSats :: int
  hp_Status :: PlayerStatus
  hp_RoundContributionSats :: int
  hp_TotalContributionSats :: int
  hp_ActedThisRound :: bool

record HoldemWinner =
  hw_PlayerID :: string
  hw_SeatIndex :: int
  hw_AmountSats :: int
  hw_HandScore :: "HandScore option"

record HoldemActionRecord =
  ar_ActorPlayerID :: string
  ar_Action :: Action
  ar_Phase :: Street

record HoldemHandConfig =
  hc_HandID :: string
  hc_HandNumber :: int
  hc_DealerSeatIndex :: int
  hc_SmallBlindSats :: int
  hc_BigBlindSats :: int
  hc_Seats :: "HoldemSeatConfig list"

record HoldemState =
  st_HandID :: string
  st_HandNumber :: int
  st_Phase :: Street
  st_DealerSeatIndex :: int
  st_ActingSeatIndex :: "int option"
  st_SmallBlindSats :: int
  st_BigBlindSats :: int
  st_CurrentBetSats :: int
  st_MinRaiseToSats :: int
  st_LastFullRaiseSats :: int
  st_RaiseLockedSeatIndex :: "int option"
  st_PotSats :: int
  st_Board :: "CardCode list"
  st_Players :: "HoldemPlayerState list"
  st_Winners :: "HoldemWinner list"
  st_ShowdownScores :: "(string, HandScore) gomap"
  st_ActionLog :: "HoldemActionRecord list"

record HoldemDealPlan =
  dp_BoardPositionsByPhase :: "(Street, int list) gomap"
  dp_HoleCardPositionsBySeat :: "(int, int list) gomap"

record CheckpointShape =
  cp_Phase :: Street
  cp_ActingSeatIndex :: "int option"
  cp_DealerSeatIndex :: int
  cp_Board :: "CardCode list"
  cp_PlayerStacks :: "(string, int) gomap"
  cp_RoundContributions :: "(string, int) gomap"
  cp_TotalContributions :: "(string, int) gomap"
  cp_PotSats :: int
  cp_CurrentBetSats :: int
  cp_MinRaiseToSats :: int

end
