(* ===== verification/Holdem.thy ===== *)
theory Holdem
  imports Holdem_Types
begin

text \<open>
  \<open>internal/game/holdem.go\<close>: creating a hand, betting, dealing the board and settling it. A state
  is a value, so \<open>cloneState\<close> copies it by passing it on; a helper that takes a \<open>*HoldemState\<close>
  returns the updated state. Maps are walked in the order of first insertion; the theory of the
  hand invariant shows that the order does not matter.
\<close>

section \<open>Seats\<close>

definition nextSeat :: "int \<Rightarrow> int \<Rightarrow> int res" where
  "nextSeat totalPlayers seatIndex = go_mod (seatIndex + 1) totalPlayers"

definition copyIntPointer :: "int option \<Rightarrow> int option" where
  "copyIntPointer value = (case value of None \<Rightarrow> None | Some clone \<Rightarrow> Some clone)"

definition minInt :: "int \<Rightarrow> int \<Rightarrow> int" where
  "minInt left right = (if left < right then left else right)"

definition maxInt :: "int \<Rightarrow> int \<Rightarrow> int" where
  "maxInt left right = (if left > right then left else right)"

definition cloneState :: "HoldemState \<Rightarrow> HoldemState" where
  "cloneState state =
     state\<lparr>st_ActingSeatIndex := copyIntPointer (st_ActingSeatIndex state),
       st_RaiseLockedSeatIndex := copyIntPointer (st_RaiseLockedSeatIndex state)\<rparr>"

definition recomputePot :: "HoldemPlayerState list \<Rightarrow> int" where
  "recomputePot players = foldl (\<lambda>acc player. acc + hp_TotalContributionSats player) 0 players"

definition getActivePlayers :: "HoldemState \<Rightarrow> HoldemPlayerState list" where
  "getActivePlayers state = filter (\<lambda>player. hp_Status player \<noteq> PlayerStatusFolded) (st_Players state)"

definition getPlayersAbleToAct :: "HoldemState \<Rightarrow> HoldemPlayerState list" where
  "getPlayersAbleToAct state = filter (\<lambda>player. hp_Status player = PlayerStatusActive) (st_Players state)"

abbreviation seat_count :: "HoldemState \<Rightarrow> int" where
  "seat_count state \<equiv> int (length (st_Players state))"

definition smallBlindSeatIndex :: "HoldemState \<Rightarrow> int res" where
  "smallBlindSeatIndex state =
     (if length (st_Players state) = 2 then Inr (st_DealerSeatIndex state)
      else nextSeat (seat_count state) (st_DealerSeatIndex state))"

definition bigBlindSeatIndex :: "HoldemState \<Rightarrow> int res" where
  "bigBlindSeatIndex state =
     (if length (st_Players state) = 2 then nextSeat (seat_count state) (st_DealerSeatIndex state)
      else case smallBlindSeatIndex state of Inl e \<Rightarrow> Inl e | Inr sb \<Rightarrow> nextSeat (seat_count state) sb)"

definition firstToActForStreet :: "HoldemState \<Rightarrow> Street \<Rightarrow> int res" where
  "firstToActForStreet state phase =
     (if length (st_Players state) = 2 then
        (if phase = StreetPreflop then smallBlindSeatIndex state else bigBlindSeatIndex state)
      else if phase = StreetPreflop then
        (case bigBlindSeatIndex state of Inl e \<Rightarrow> Inl e | Inr bb \<Rightarrow> nextSeat (seat_count state) bb)
      else smallBlindSeatIndex state)"

definition needs_action :: "int \<Rightarrow> HoldemPlayerState \<Rightarrow> bool" where
  "needs_action currentBet player \<longleftrightarrow>
     \<not> hp_ActedThisRound player \<or> hp_RoundContributionSats player \<noteq> currentBet"

fun seat_loop :: "HoldemState \<Rightarrow> int \<Rightarrow> int list \<Rightarrow> int option res" where
  "seat_loop state lastActorSeatIndex [] = Inr None"
| "seat_loop state lastActorSeatIndex (offset # rest) =
     (case go_mod (lastActorSeatIndex + offset) (seat_count state) of
        Inl e \<Rightarrow> Inl e
      | Inr seatIndex \<Rightarrow>
          (case go_index (st_Players state) seatIndex of
             Inl e \<Rightarrow> Inl e
           | Inr player \<Rightarrow>
               if hp_Status player \<noteq> PlayerStatusActive then seat_loop state lastActorSeatIndex rest
               else if needs_action (st_CurrentBetSats state) player then Inr (Some seatIndex)
               else seat_loop state lastActorSeatIndex rest))"

definition nextSeatRequiringAction :: "HoldemState \<Rightarrow> int \<Rightarrow> int option res" where
  "nextSeatRequiringAction state lastActorSeatIndex =
     (if st_Players state = [] then Inr None
      else seat_loop state lastActorSeatIndex [1..seat_count state])"

section \<open>Paying out\<close>

definition payoutCandidatesForSlice :: "HoldemState \<Rightarrow> HoldemWinner list \<Rightarrow> PayoutCandidate list" where
  "payoutCandidatesForSlice state winners =
     map (\<lambda>w. \<lparr>pc_PlayerID = hw_PlayerID w, pc_SeatIndex = hw_SeatIndex w\<rparr>) winners"

text \<open>The loops that update the first player with a given id and then leave the loop.\<close>

fun update_player ::
  "string \<Rightarrow> (HoldemPlayerState \<Rightarrow> HoldemPlayerState) \<Rightarrow> HoldemPlayerState list \<Rightarrow> HoldemPlayerState list" where
  "update_player playerID f [] = []"
| "update_player playerID f (p # ps) =
     (if hp_PlayerID p = playerID then f p # ps else p # update_player playerID f ps)"

definition pay_player :: "int \<Rightarrow> HoldemPlayerState \<Rightarrow> HoldemPlayerState" where
  "pay_player amount p = p\<lparr>hp_StackSats := hp_StackSats p + amount\<rparr>"

definition clear_contributions :: "HoldemPlayerState \<Rightarrow> HoldemPlayerState" where
  "clear_contributions p = p\<lparr>hp_RoundContributionSats := 0, hp_TotalContributionSats := 0,
     hp_ActedThisRound := (hp_Status p \<noteq> PlayerStatusActive)\<rparr>"

definition awardPotPayouts ::
  "HoldemState \<Rightarrow> (string, int) gomap \<Rightarrow> (string, HoldemWinner) gomap \<Rightarrow> HoldemState" where
  "awardPotPayouts state payouts winnersByPlayerID =
     (let paid = fold (\<lambda>(playerID, amount). update_player playerID (pay_player amount)) payouts (st_Players state);
          winners = map (\<lambda>(playerID, winner). winner\<lparr>hw_AmountSats := mget payouts playerID\<rparr>) winnersByPlayerID
      in state\<lparr>
           st_Players := map clear_contributions paid,
           st_Winners := slice_stable (\<lambda>l r. hw_SeatIndex l < hw_SeatIndex r) winners,
           st_CurrentBetSats := 0, st_PotSats := 0, st_Phase := StreetSettled,
           st_ActingSeatIndex := None, st_RaiseLockedSeatIndex := None\<rparr>)"

definition refund_player :: "int \<Rightarrow> HoldemPlayerState \<Rightarrow> HoldemPlayerState" where
  "refund_player amountSats p =
     p\<lparr>hp_StackSats := hp_StackSats p + amountSats,
       hp_TotalContributionSats := maxInt 0 (hp_TotalContributionSats p - amountSats),
       hp_RoundContributionSats := maxInt 0 (hp_RoundContributionSats p - amountSats)\<rparr>"

definition refundContribution :: "HoldemState \<Rightarrow> string \<Rightarrow> int \<Rightarrow> HoldemState" where
  "refundContribution state playerID amountSats =
     (if amountSats \<le> 0 then state
      else state\<lparr>st_Players := update_player playerID (refund_player amountSats) (st_Players state)\<rparr>)"

definition refund_all :: "(string, int) gomap \<Rightarrow> HoldemState \<Rightarrow> HoldemState" where
  "refund_all refunds state = fold (\<lambda>(playerID, amount) s. refundContribution s playerID amount) refunds state"

definition participant_of :: "HoldemPlayerState \<Rightarrow> SliceParticipant" where
  "participant_of player =
     \<lparr>sp_ContributionSats = hp_TotalContributionSats player,
      sp_Folded = (hp_Status player = PlayerStatusFolded),
      sp_PlayerID = hp_PlayerID player, sp_SeatIndex = hp_SeatIndex player\<rparr>"

type_synonym ledger = "HoldemState \<times> (string, int) gomap \<times> (string, HoldemWinner) gomap"

fun fold_slices :: "HoldemPlayerState list \<Rightarrow> PotSlice list \<Rightarrow> ledger \<Rightarrow> ledger" where
  "fold_slices remaining [] acc = acc"
| "fold_slices remaining (potSlice # rest) (state, payouts, winners) =
     (case ps_EligiblePlayerIDs potSlice of
        [] \<Rightarrow> fold_slices remaining rest (refund_all (ps_Contributions potSlice) state, payouts, winners)
      | winnerID # _ \<Rightarrow>
          fold_slices remaining rest
            (state, madd winnerID (ps_TotalSats potSlice) payouts,
             (case find (\<lambda>player. hp_PlayerID player = winnerID) remaining of
                None \<Rightarrow> winners
              | Some player \<Rightarrow>
                  AList.update winnerID
                    \<lparr>hw_PlayerID = hp_PlayerID player, hw_SeatIndex = hp_SeatIndex player,
                     hw_AmountSats = 0, hw_HandScore = None\<rparr> winners)))"

definition settleByFold :: "HoldemState \<Rightarrow> HoldemState res" where
  "settleByFold state =
     (let remaining = getActivePlayers state in
      if length remaining \<noteq> 1 then Inl (Err ''fold settlement requires exactly one remaining player'')
      else case DerivePotStructure (map participant_of (st_Players state)) of
        Inl e \<Rightarrow> Inl e
      | Inr derivation \<Rightarrow>
          (case fold_slices remaining (pd_Slices derivation)
                  (refund_all (pd_UnmatchedContributionSats derivation) state, [], []) of
             (state', payouts, winners) \<Rightarrow> Inr (awardPotPayouts state' payouts winners)))"

section \<open>Showdown\<close>

definition zero_score :: HandScore where
  "zero_score = \<lparr>hs_Category = 0, hs_RankValues = [], hs_BestFive = [], hs_Label = []\<rparr>"

fun containsPlayerID :: "string list \<Rightarrow> string \<Rightarrow> bool" where
  "containsPlayerID [] target = False"
| "containsPlayerID (value # values) target = (if value = target then True else containsPlayerID values target)"

text \<open>
  The loop that scores the contenders. The local \<open>scoresByPlayerID\<close> and the state's
  \<open>ShowdownScores\<close> receive the same entries; the latter may hold older ones.
\<close>

fun score_contenders ::
  "CardCode list \<Rightarrow> (string, CardCode \<times> CardCode) gomap \<Rightarrow> HoldemPlayerState list \<Rightarrow>
     (string, HandScore) gomap \<times> (string, HandScore) gomap \<Rightarrow>
     ((string, HandScore) gomap \<times> (string, HandScore) gomap) res" where
  "score_contenders board holeCards [] acc = Inr acc"
| "score_contenders board holeCards (player # rest) (showdownScores, scores) =
     (case map_of holeCards (hp_PlayerID player) of
        None \<Rightarrow> Inl (Err ''missing showdown reveal for %s'')
      | Some (first, second) \<Rightarrow>
          (case ScoreSevenCardHand ([first, second] @ board) of
             Inl e \<Rightarrow> Inl e
           | Inr score \<Rightarrow>
               score_contenders board holeCards rest
                 (AList.update (hp_PlayerID player) score showdownScores,
                  AList.update (hp_PlayerID player) score scores)))"

definition eligible_winners ::
  "HoldemPlayerState list \<Rightarrow> (string, HandScore) gomap \<Rightarrow> string list \<Rightarrow> HoldemWinner list" where
  "eligible_winners contenders scores eligibleIDs =
     map (\<lambda>c. \<lparr>hw_PlayerID = hp_PlayerID c, hw_SeatIndex = hp_SeatIndex c, hw_AmountSats = 0,
          hw_HandScore = Some (case map_of scores (hp_PlayerID c) of None \<Rightarrow> zero_score | Some s \<Rightarrow> s)\<rparr>)
       (filter (\<lambda>c. containsPlayerID eligibleIDs (hp_PlayerID c)) contenders)"

abbreviation winner_cmp :: "HoldemWinner \<Rightarrow> HoldemWinner \<Rightarrow> int" where
  "winner_cmp x y \<equiv> CompareScoredHands (the (hw_HandScore x)) (the (hw_HandScore y))"

definition best_winner :: "HoldemWinner \<Rightarrow> HoldemWinner list \<Rightarrow> HoldemWinner" where
  "best_winner first rest = foldl (\<lambda>best c. if winner_cmp c best > 0 then c else best) first rest"

definition record_winner ::
  "(string, int) gomap \<Rightarrow> HoldemWinner \<Rightarrow> (string, int) gomap \<times> (string, HoldemWinner) gomap \<Rightarrow>
     (string, int) gomap \<times> (string, HoldemWinner) gomap" where
  "record_winner slicePayouts winner acc =
     (case acc of (payouts, winners) \<Rightarrow>
        (madd (hw_PlayerID winner) (mget slicePayouts (hw_PlayerID winner)) payouts,
         (case map_of winners (hw_PlayerID winner) of
            None \<Rightarrow> AList.update (hw_PlayerID winner) winner winners
          | Some existing \<Rightarrow>
              if hw_PlayerID existing = [] then AList.update (hw_PlayerID winner) winner winners
              else winners)))"

fun showdown_slices ::
  "HoldemPlayerState list \<Rightarrow> (string, HandScore) gomap \<Rightarrow> PotSlice list \<Rightarrow> ledger \<Rightarrow> ledger res" where
  "showdown_slices contenders scores [] acc = Inr acc"
| "showdown_slices contenders scores (potSlice # rest) (state, payouts, winnersByID) =
     (case eligible_winners contenders scores (ps_EligiblePlayerIDs potSlice) of
        [] \<Rightarrow> showdown_slices contenders scores rest
               (refund_all (ps_Contributions potSlice) state, payouts, winnersByID)
      | first # others \<Rightarrow>
          let best = best_winner first others;
              winners = filter (\<lambda>c. winner_cmp c best = 0) (first # others) in
          (case SplitAmount (ps_TotalSats potSlice) (payoutCandidatesForSlice state winners)
                  (st_DealerSeatIndex state) of
             Inl e \<Rightarrow> Inl e
           | Inr (slicePayouts, _) \<Rightarrow>
               showdown_slices contenders scores rest
                 (state, fold (record_winner slicePayouts) winners (payouts, winnersByID))))"

definition settleShowdown ::
  "HoldemState \<Rightarrow> (string, CardCode \<times> CardCode) gomap \<Rightarrow> HoldemState res" where
  "settleShowdown state holeCardsByPlayerID =
     (let contenders = getActivePlayers state in
      if contenders = [] then Inl (Err ''showdown requires at least one contender'')
      else case score_contenders (st_Board state) holeCardsByPlayerID contenders (st_ShowdownScores state, []) of
        Inl e \<Rightarrow> Inl e
      | Inr (showdownScores, scores) \<Rightarrow>
          (case DerivePotStructure (map participant_of (st_Players state)) of
             Inl e \<Rightarrow> Inl e
           | Inr derivation \<Rightarrow>
               (case showdown_slices contenders scores (pd_Slices derivation)
                       (refund_all (pd_UnmatchedContributionSats derivation)
                          (state\<lparr>st_ShowdownScores := showdownScores\<rparr>), [], []) of
                  Inl e \<Rightarrow> Inl e
                | Inr (state', payouts, winners) \<Rightarrow> Inr (awardPotPayouts state' payouts winners))))"

section \<open>Streets\<close>

fun streetRevealPhase :: "Street \<Rightarrow> Street res" where
  "streetRevealPhase StreetPreflop = Inr StreetFlopReveal"
| "streetRevealPhase StreetFlop = Inr StreetTurnReveal"
| "streetRevealPhase StreetTurn = Inr StreetRiverReveal"
| "streetRevealPhase StreetRiver = Inr StreetShowdownReveal"
| "streetRevealPhase _ = Inl (Err ''phase %s does not advance to a reveal phase'')"

definition street_player :: "HoldemPlayerState \<Rightarrow> HoldemPlayerState" where
  "street_player p =
     p\<lparr>hp_RoundContributionSats := 0, hp_ActedThisRound := (hp_Status p \<noteq> PlayerStatusActive)\<rparr>"

text \<open>The seat before \<open>seatIndex\<close>, from which the search for the next actor starts.\<close>

definition seat_before :: "HoldemState \<Rightarrow> int \<Rightarrow> int res" where
  "seat_before state seatIndex = go_mod (seatIndex + seat_count state - 1) (seat_count state)"

definition open_street :: "HoldemState \<Rightarrow> Street \<Rightarrow> HoldemState res" where
  "open_street state phase =
     (case firstToActForStreet state phase of
        Inl e \<Rightarrow> Inl e
      | Inr firstActorSeatIndex \<Rightarrow>
          (case seat_before state firstActorSeatIndex of
             Inl e \<Rightarrow> Inl e
           | Inr before \<Rightarrow>
               (case nextSeatRequiringAction state before of
                  Inl e \<Rightarrow> Inl e
                | Inr nextActor \<Rightarrow> Inr (state\<lparr>st_ActingSeatIndex := nextActor\<rparr>))))"

definition resetStreetState :: "HoldemState \<Rightarrow> Street \<Rightarrow> HoldemState res" where
  "resetStreetState state phase =
     open_street
       (state\<lparr>st_Players := map street_player (st_Players state),
          st_CurrentBetSats := 0,
          st_LastFullRaiseSats := st_BigBlindSats state,
          st_MinRaiseToSats := st_BigBlindSats state,
          st_RaiseLockedSeatIndex := None,
          st_Phase := phase\<rparr>) phase"

definition close_round :: "HoldemState \<Rightarrow> HoldemState res" where
  "close_round state =
     (case streetRevealPhase (st_Phase state) of
        Inl e \<Rightarrow> Inl e
      | Inr nextPhase \<Rightarrow>
          Inr (state\<lparr>st_Phase := nextPhase, st_ActingSeatIndex := None, st_RaiseLockedSeatIndex := None\<rparr>))"

definition closeActionRoundIfNeeded :: "HoldemState \<Rightarrow> int \<Rightarrow> HoldemState res" where
  "closeActionRoundIfNeeded state lastActorSeatIndex =
     (if length (getActivePlayers state) = 1 then settleByFold state
      else
        let ableToAct = getPlayersAbleToAct state in
        if ableToAct = [] then close_round state
        else if \<forall>player \<in> set ableToAct. \<not> needs_action (st_CurrentBetSats state) player
          then close_round state
        else case nextSeatRequiringAction state lastActorSeatIndex of
          Inl e \<Rightarrow> Inl e
        | Inr nextActor \<Rightarrow> Inr (state\<lparr>st_ActingSeatIndex := nextActor\<rparr>))"

fun deal_hole :: "nat list \<Rightarrow> int \<Rightarrow> (int, int list) gomap \<Rightarrow> (int, int list) gomap res" where
  "deal_hole [] dealSeat positions = Inr positions"
| "deal_hole (deckIndex # rest) dealSeat positions =
     (case nextSeat 2 dealSeat of
        Inl e \<Rightarrow> Inl e
      | Inr dealSeat' \<Rightarrow>
          deal_hole rest dealSeat'
            (AList.update dealSeat
              ((case map_of positions dealSeat of None \<Rightarrow> [] | Some xs \<Rightarrow> xs) @ [int deckIndex]) positions))"

definition HoldemDealPositions :: "int \<Rightarrow> HoldemDealPlan res" where
  "HoldemDealPositions dealerSeatIndex =
     (if dealerSeatIndex \<noteq> 0 \<and> dealerSeatIndex \<noteq> 1 then Inl (Err ''dealer seat index must be 0 or 1'')
      else case deal_hole [0..<4] dealerSeatIndex [(0, []), (1, [])] of
        Inl e \<Rightarrow> Inl e
      | Inr positions \<Rightarrow>
          Inr \<lparr>dp_BoardPositionsByPhase =
                 [(StreetFlopReveal, [5, 6, 7]), (StreetTurnReveal, [9]), (StreetRiverReveal, [11])],
               dp_HoleCardPositionsBySeat = positions\<rparr>)"

definition PhaseAllowsActions :: "Street \<Rightarrow> bool" where
  "PhaseAllowsActions phase \<longleftrightarrow> phase \<in> {StreetPreflop, StreetFlop, StreetTurn, StreetRiver}"

section \<open>The operations on a hand\<close>

definition new_player :: "int \<Rightarrow> HoldemSeatConfig \<Rightarrow> HoldemPlayerState" where
  "new_player seatIndex seat =
     \<lparr>hp_PlayerID = hsc_PlayerID seat, hp_SeatIndex = seatIndex, hp_StackSats = hsc_StackSats seat,
      hp_Status = PlayerStatusActive, hp_RoundContributionSats = 0, hp_TotalContributionSats = 0,
      hp_ActedThisRound = False\<rparr>"

definition post_blind :: "int \<Rightarrow> HoldemPlayerState \<Rightarrow> HoldemPlayerState" where
  "post_blind committed p =
     (let p' = p\<lparr>hp_StackSats := hp_StackSats p - committed,
                hp_RoundContributionSats := committed, hp_TotalContributionSats := committed\<rparr>
      in if hp_StackSats p' = 0 then p'\<lparr>hp_Status := PlayerStatusAllIn\<rparr> else p')"

abbreviation update_seat ::
  "int \<Rightarrow> (HoldemPlayerState \<Rightarrow> HoldemPlayerState) \<Rightarrow> HoldemPlayerState list \<Rightarrow> HoldemPlayerState list" where
  "update_seat seat f players \<equiv> players[nat seat := f (players ! nat seat)]"

definition initial_hand :: "HoldemHandConfig \<Rightarrow> HoldemState" where
  "initial_hand config =
     \<lparr>st_HandID = hc_HandID config, st_HandNumber = hc_HandNumber config, st_Phase = StreetCommitment,
      st_DealerSeatIndex = hc_DealerSeatIndex config, st_ActingSeatIndex = None,
      st_SmallBlindSats = hc_SmallBlindSats config, st_BigBlindSats = hc_BigBlindSats config,
      st_CurrentBetSats = 0, st_MinRaiseToSats = 0, st_LastFullRaiseSats = 0,
      st_RaiseLockedSeatIndex = None, st_PotSats = 0, st_Board = [],
      st_Players = map (\<lambda>(i, seat). new_player (int i) seat) (enumerate 0 (hc_Seats config)),
      st_Winners = [], st_ShowdownScores = [], st_ActionLog = []\<rparr>"

definition CreateHoldemHand :: "HoldemHandConfig \<Rightarrow> HoldemState res" where
  "CreateHoldemHand config =
     (if length (hc_Seats config) < 2 then Inl (Err ''at least two seats are required'')
      else if hc_DealerSeatIndex config < 0 \<or> hc_DealerSeatIndex config \<ge> int (length (hc_Seats config))
        then Inl (Err ''dealer seat index %d is out of range'')
      else if hc_SmallBlindSats config \<le> 0 \<or> hc_BigBlindSats config \<le> 0
        then Inl (Err ''blinds must be positive'')
      else
        let state = initial_hand config in
        case smallBlindSeatIndex state of Inl e \<Rightarrow> Inl e
        | Inr smallBlindSeat \<Rightarrow>
          (case bigBlindSeatIndex state of Inl e \<Rightarrow> Inl e
           | Inr bigBlindSeat \<Rightarrow>
             (case go_index (st_Players state) smallBlindSeat of Inl e \<Rightarrow> Inl e
              | Inr smallBlindPlayer \<Rightarrow>
                (case go_index (st_Players state) bigBlindSeat of Inl e \<Rightarrow> Inl e
                 | Inr bigBlindPlayer \<Rightarrow>
                   let committedSmallBlind = minInt (hp_StackSats smallBlindPlayer) (hc_SmallBlindSats config);
                       committedBigBlind = minInt (hp_StackSats bigBlindPlayer) (hc_BigBlindSats config)
                   in Inr (state\<lparr>
                        st_Players :=
                          update_seat bigBlindSeat (post_blind committedBigBlind)
                            (update_seat smallBlindSeat (post_blind committedSmallBlind) (st_Players state)),
                        st_CurrentBetSats := committedBigBlind,
                        st_MinRaiseToSats := committedBigBlind + hc_BigBlindSats config,
                        st_LastFullRaiseSats := hc_BigBlindSats config,
                        st_PotSats := committedSmallBlind + committedBigBlind\<rparr>)))))"

definition ActivateHoldemHand :: "HoldemState \<Rightarrow> HoldemState res" where
  "ActivateHoldemHand state =
     (if st_Phase state \<notin> {StreetCommitment, StreetReveal, StreetFinalization, StreetPrivateDelivery}
      then Inl (Err ''hand cannot start betting from phase %s'')
      else open_street ((cloneState state)\<lparr>st_Phase := StreetPreflop\<rparr>) StreetPreflop)"

definition deal_board :: "HoldemState \<Rightarrow> CardCode list \<Rightarrow> HoldemState res" where
  "deal_board next cards =
     (case st_Phase next of
        StreetFlopReveal \<Rightarrow>
          if length cards \<noteq> 3 then Inl (Err ''flop reveal requires 3 cards'')
          else resetStreetState (next\<lparr>st_Board := cards\<rparr>) StreetFlop
      | StreetTurnReveal \<Rightarrow>
          if length cards \<noteq> 1 then Inl (Err ''turn reveal requires 1 card'')
          else resetStreetState (next\<lparr>st_Board := st_Board next @ [cards ! 0]\<rparr>) StreetTurn
      | StreetRiverReveal \<Rightarrow>
          if length cards \<noteq> 1 then Inl (Err ''river reveal requires 1 card'')
          else resetStreetState (next\<lparr>st_Board := st_Board next @ [cards ! 0]\<rparr>) StreetRiver
      | _ \<Rightarrow> Inl (Err ''board cards cannot be applied while phase is %s''))"

definition ApplyBoardCards :: "HoldemState \<Rightarrow> CardCode list \<Rightarrow> HoldemState res" where
  "ApplyBoardCards state cards =
     (case deal_board (cloneState state) cards of
        Inl e \<Rightarrow> Inl e
      | Inr next \<Rightarrow>
          if getPlayersAbleToAct next = [] then closeActionRoundIfNeeded next (st_DealerSeatIndex next)
          else Inr next)"

definition ForceFoldSeat :: "HoldemState \<Rightarrow> int \<Rightarrow> HoldemState res" where
  "ForceFoldSeat state seatIndex =
     (if st_Phase state = StreetSettled \<or> st_Phase state = StreetAborted
      then Inl (Err ''hand is already closed'')
      else if seatIndex < 0 \<or> seatIndex \<ge> seat_count state then Inl (Err ''seat %d is out of range'')
      else
        let next = cloneState state in
        if hp_Status (st_Players next ! nat seatIndex) = PlayerStatusFolded
        then Inl (Err ''seat %d already folded'')
        else settleByFold
          (next\<lparr>st_Players :=
              update_seat seatIndex (\<lambda>p. p\<lparr>hp_Status := PlayerStatusFolded, hp_ActedThisRound := True\<rparr>)
                (st_Players next),
             st_ActingSeatIndex := None\<rparr>))"

definition SettleHoldemShowdown ::
  "HoldemState \<Rightarrow> (string, CardCode \<times> CardCode) gomap \<Rightarrow> HoldemState res" where
  "SettleHoldemShowdown state holeCardsByPlayerID =
     (if st_Phase state \<noteq> StreetShowdownReveal then Inl (Err ''showdown requires phase %s, got %s'')
      else settleShowdown (cloneState state) holeCardsByPlayerID)"

definition plain_action :: "ActionType \<Rightarrow> LegalAction" where
  "plain_action t = \<lparr>la_Type = t, la_MinTotalSats = None, la_MaxTotalSats = None\<rparr>"

definition sized_action :: "ActionType \<Rightarrow> int \<Rightarrow> int \<Rightarrow> LegalAction" where
  "sized_action t minTotal maxTotal =
     \<lparr>la_Type = t, la_MinTotalSats = Some minTotal, la_MaxTotalSats = Some maxTotal\<rparr>"

definition GetLegalActions :: "HoldemState \<Rightarrow> int option \<Rightarrow> LegalAction list" where
  "GetLegalActions state seatIndex =
     (if \<not> PhaseAllowsActions (st_Phase state) then []
      else
        let targetSeat = (if seatIndex \<noteq> None then seatIndex else st_ActingSeatIndex state) in
        case targetSeat of None \<Rightarrow> []
        | Some seat \<Rightarrow>
          if seat < 0 \<or> seat \<ge> seat_count state then []
          else
            let player = st_Players state ! nat seat in
            if hp_Status player \<noteq> PlayerStatusActive then []
            else
              let toCall = maxInt 0 (st_CurrentBetSats state - hp_RoundContributionSats player);
                  maxTotalSats = hp_RoundContributionSats player + hp_StackSats player in
              if toCall = 0 then
                [plain_action ActionCheck] @
                (if hp_StackSats player > 0
                 then [sized_action ActionBet
                         (hp_RoundContributionSats player + maxInt (st_BigBlindSats state) 1) maxTotalSats]
                 else [])
              else
                [plain_action ActionFold, plain_action ActionCall] @
                (if hp_StackSats player > toCall \<and> st_RaiseLockedSeatIndex state \<noteq> Some seat
                 then [sized_action ActionRaise (minInt (st_MinRaiseToSats state) maxTotalSats) maxTotalSats]
                 else []))"

definition expectLegal :: "HoldemState \<Rightarrow> int \<Rightarrow> Action \<Rightarrow> unit res" where
  "expectLegal state seatIndex action =
     (case find (\<lambda>l. la_Type l = ac_Type action) (GetLegalActions state (Some seatIndex)) of
        None \<Rightarrow> Inl (Err ''illegal %s action for seat %d'')
      | Some legal \<Rightarrow>
          if ac_Type action = ActionBet \<or> ac_Type action = ActionRaise then
            (if la_MinTotalSats legal \<noteq> None \<and> ac_TotalSats action < the (la_MinTotalSats legal)
             then Inl (Err ''action total %d is below minimum %d'')
             else if la_MaxTotalSats legal \<noteq> None \<and> ac_TotalSats action > the (la_MaxTotalSats legal)
             then Inl (Err ''action total %d exceeds maximum %d'')
             else Inr ())
          else Inr ())"

definition markOtherPlayersPending :: "HoldemState \<Rightarrow> int \<Rightarrow> HoldemState" where
  "markOtherPlayersPending next actorSeatIndex =
     next\<lparr>st_Players := map (\<lambda>(index, p).
         if int index = actorSeatIndex then p
         else if hp_Status p = PlayerStatusActive then p\<lparr>hp_ActedThisRound := False\<rparr> else p)
       (enumerate 0 (st_Players next))\<rparr>"

text \<open>Moving \<open>paid\<close> from the stack into the pot, and the all-in status of an emptied stack.\<close>

definition pay_in :: "int \<Rightarrow> HoldemPlayerState \<Rightarrow> HoldemPlayerState" where
  "pay_in paid p =
     p\<lparr>hp_StackSats := hp_StackSats p - paid,
       hp_RoundContributionSats := hp_RoundContributionSats p + paid,
       hp_TotalContributionSats := hp_TotalContributionSats p + paid,
       hp_ActedThisRound := True\<rparr>"

definition mark_all_in :: "HoldemPlayerState \<Rightarrow> HoldemPlayerState" where
  "mark_all_in p = (if hp_StackSats p = 0 then p\<lparr>hp_Status := PlayerStatusAllIn\<rparr> else p)"

definition call_amount :: "int \<Rightarrow> HoldemPlayerState \<Rightarrow> int" where
  "call_amount currentBet p = minInt (maxInt 0 (currentBet - hp_RoundContributionSats p)) (hp_StackSats p)"

definition pay_to :: "int \<Rightarrow> HoldemPlayerState \<Rightarrow> HoldemPlayerState" where
  "pay_to totalSats p =
     (let paid = totalSats - hp_RoundContributionSats p in
      p\<lparr>hp_StackSats := hp_StackSats p - paid,
        hp_RoundContributionSats := totalSats,
        hp_TotalContributionSats := hp_TotalContributionSats p + paid,
        hp_ActedThisRound := True\<rparr>)"

text \<open>The last active opponent of a two-player table, whose option to raise again is locked.\<close>

definition locked_opponent :: "HoldemState \<Rightarrow> int \<Rightarrow> int option" where
  "locked_opponent next seatIndex =
     foldl (\<lambda>locked index.
         if int index = seatIndex then locked
         else if hp_Status (st_Players next ! index) = PlayerStatusActive then Some (int index) else locked)
       (st_RaiseLockedSeatIndex next) [0..<length (st_Players next)]"

definition raise_bookkeeping :: "HoldemState \<Rightarrow> int \<Rightarrow> int \<Rightarrow> HoldemState" where
  "raise_bookkeeping next seatIndex raiseSize =
     (if raiseSize \<ge> st_LastFullRaiseSats next
      then next\<lparr>st_LastFullRaiseSats := raiseSize, st_RaiseLockedSeatIndex := None\<rparr>
      else if hp_StackSats (st_Players next ! nat seatIndex) = 0 \<and> length (st_Players next) = 2
      then next\<lparr>st_RaiseLockedSeatIndex := locked_opponent next seatIndex\<rparr>
      else next)"

definition apply_action :: "HoldemState \<Rightarrow> int \<Rightarrow> Action \<Rightarrow> HoldemState" where
  "apply_action next seatIndex action =
     (let at_seat = (\<lambda>f (s::HoldemState). s\<lparr>st_Players := update_seat seatIndex f (st_Players s)\<rparr>);
          total = ac_TotalSats action in
      case ac_Type action of
        ActionFold \<Rightarrow> at_seat (\<lambda>p. p\<lparr>hp_Status := PlayerStatusFolded, hp_ActedThisRound := True\<rparr>) next
      | ActionCheck \<Rightarrow> at_seat (\<lambda>p. p\<lparr>hp_ActedThisRound := True\<rparr>) next
      | ActionCall \<Rightarrow> at_seat (\<lambda>p. mark_all_in (pay_in (call_amount (st_CurrentBetSats next) p) p)) next
      | ActionBet \<Rightarrow>
          at_seat mark_all_in
            (markOtherPlayersPending
              ((at_seat (pay_to total) next)\<lparr>
                 st_CurrentBetSats := total, st_LastFullRaiseSats := total,
                 st_MinRaiseToSats := total + total, st_RaiseLockedSeatIndex := None\<rparr>) seatIndex)
      | ActionRaise \<Rightarrow>
          let raiseSize = total - st_CurrentBetSats next;
              paid = (at_seat (pay_to total) next)\<lparr>st_CurrentBetSats := total\<rparr>;
              booked = raise_bookkeeping paid seatIndex raiseSize
          in at_seat mark_all_in
               (markOtherPlayersPending
                 (booked\<lparr>st_MinRaiseToSats := st_CurrentBetSats booked + st_LastFullRaiseSats booked\<rparr>) seatIndex)
      | ActionOther _ \<Rightarrow> next)"

definition ApplyHoldemAction :: "HoldemState \<Rightarrow> int \<Rightarrow> Action \<Rightarrow> HoldemState res" where
  "ApplyHoldemAction state seatIndex action =
     (if st_Phase state = StreetSettled then Inl (Err ''hand already settled'')
      else if \<not> PhaseAllowsActions (st_Phase state) then Inl (Err ''hand is still starting'')
      else case st_ActingSeatIndex state of
        None \<Rightarrow> Inl (Err ''seat %d cannot act while no seat is up'')
      | Some acting \<Rightarrow>
          if acting \<noteq> seatIndex then Inl (Err ''seat %d cannot act while seat %d is up'')
          else case expectLegal state seatIndex action of
            Inl e \<Rightarrow> Inl e
          | Inr _ \<Rightarrow>
              let next = cloneState state;
                  logged = next\<lparr>st_ActionLog := st_ActionLog next @
                    [\<lparr>ar_ActorPlayerID = hp_PlayerID (st_Players next ! nat seatIndex),
                      ar_Action = action, ar_Phase = st_Phase next\<rparr>]\<rparr>;
                  acted = apply_action logged seatIndex action
              in closeActionRoundIfNeeded
                   (acted\<lparr>st_PotSats := recomputePot (st_Players acted)\<rparr>) seatIndex)"

definition ToCheckpointShape :: "HoldemState \<Rightarrow> CheckpointShape" where
  "ToCheckpointShape state =
     (let collect = (\<lambda>f. fold (\<lambda>p m. AList.update (hp_PlayerID p) (f p) m) (st_Players state) []) in
      \<lparr>cp_Phase = st_Phase state, cp_ActingSeatIndex = st_ActingSeatIndex state,
       cp_DealerSeatIndex = st_DealerSeatIndex state, cp_Board = st_Board state,
       cp_PlayerStacks = collect hp_StackSats,
       cp_RoundContributions = collect hp_RoundContributionSats,
       cp_TotalContributions = collect hp_TotalContributionSats,
       cp_PotSats = st_PotSats state, cp_CurrentBetSats = st_CurrentBetSats state,
       cp_MinRaiseToSats = st_MinRaiseToSats state\<rparr>)"

end
