(* ===== verification/Holdem_Settlement.thy ===== *)
theory Holdem_Settlement
  imports Holdem
begin

text \<open>
  What settling a hand does to the players: the refunds, the payouts of every pot slice and the
  clearing of the contributions, folded into one payment per player. The contract of a rule that
  divides a slice is the locale \<open>pot_division\<close>, met by the fold settlement and by the showdown.
\<close>

lemma minInt_min [simp]: "minInt x y = min x y"
  by (simp add: minInt_def min_def)

lemma maxInt_max [simp]: "maxInt x y = max x y"
  by (simp add: maxInt_def max_def)

lemma copyIntPointer_id [simp]: "copyIntPointer v = v"
  by (simp add: copyIntPointer_def split: option.split)

lemma cloneState_id [simp]: "cloneState s = s"
  by (simp add: cloneState_def)

lemma containsPlayerID_set [simp]: "containsPlayerID ids x \<longleftrightarrow> x \<in> set ids"
  by (induction ids) auto

abbreviation player_ids :: "HoldemPlayerState list \<Rightarrow> string list" where
  "player_ids ps \<equiv> map hp_PlayerID ps"

section \<open>Updating players through a map\<close>

lemma update_player_map:
  "distinct (player_ids ps) \<Longrightarrow>
   update_player k f ps = map (\<lambda>p. if hp_PlayerID p = k then f p else p) ps"
proof (induction ps)
  case (Cons p ps)
  then have "hp_PlayerID p = k \<Longrightarrow> map (\<lambda>p. if hp_PlayerID p = k then f p else p) ps = ps"
    by (intro map_idI) (auto simp: rev_image_eqI)
  with Cons show ?case by auto
qed simp

lemma fold_update_players:
  assumes "distinct (map fst m)" and "distinct (player_ids ps)"
    and "\<And>a p. hp_PlayerID (f a p) = hp_PlayerID p"
  shows "fold (\<lambda>(k, a). update_player k (f a)) m ps =
    map (\<lambda>p. case map_of m (hp_PlayerID p) of None \<Rightarrow> p | Some a \<Rightarrow> f a p) ps"
  using assms(1,2)
proof (induction m arbitrary: ps)
  case (Cons e m)
  obtain k a where e: "e = (k, a)" by fastforce
  let ?ps = "map (\<lambda>p. if hp_PlayerID p = k then f a p else p) ps"
  have ids: "player_ids ?ps = player_ids ps" using assms(3) by (induction ps) auto
  have fresh: "map_of m k = None" using Cons.prems(1) e by (simp add: map_of_eq_None_iff)
  have "fold (\<lambda>(k, a). update_player k (f a)) (e # m) ps = fold (\<lambda>(k, a). update_player k (f a)) m ?ps"
    by (simp add: e update_player_map Cons.prems(2))
  also have "\<dots> = map (\<lambda>p. case map_of m (hp_PlayerID p) of None \<Rightarrow> p | Some a \<Rightarrow> f a p) ?ps"
    using Cons.IH [of ?ps] Cons.prems by (simp only: ids) simp
  also have "\<dots> = map (\<lambda>p. case map_of (e # m) (hp_PlayerID p) of None \<Rightarrow> p | Some a \<Rightarrow> f a p) ps"
    using fresh assms(3) by (auto simp: e)
  finally show ?case .
qed simp

lemma pay_player_simps [simp]:
  "hp_PlayerID (pay_player a p) = hp_PlayerID p" "hp_SeatIndex (pay_player a p) = hp_SeatIndex p"
  "hp_Status (pay_player a p) = hp_Status p" "hp_StackSats (pay_player a p) = hp_StackSats p + a"
  "pay_player 0 p = p"
  by (simp_all add: pay_player_def)

lemma fold_pay_players:
  assumes "distinct (map fst m)" and "distinct (player_ids ps)"
  shows "fold (\<lambda>(k, a). update_player k (pay_player a)) m ps = map (\<lambda>p. pay_player (mget m (hp_PlayerID p)) p) ps"
  unfolding fold_update_players [OF assms pay_player_simps(1)]
  by (intro map_cong refl) (simp add: mget_def split: option.split)

lemma refund_player_simps [simp]:
  "hp_PlayerID (refund_player a p) = hp_PlayerID p" "hp_SeatIndex (refund_player a p) = hp_SeatIndex p"
  "hp_Status (refund_player a p) = hp_Status p" "hp_StackSats (refund_player a p) = hp_StackSats p + a"
  by (simp_all add: refund_player_def)

definition money_nonneg :: "HoldemPlayerState \<Rightarrow> bool" where
  "money_nonneg p \<longleftrightarrow> 0 \<le> hp_RoundContributionSats p \<and> 0 \<le> hp_TotalContributionSats p"

lemma refund_player_zero [simp]: "money_nonneg p \<Longrightarrow> refund_player 0 p = p"
  by (simp add: refund_player_def money_nonneg_def)

lemma refund_player_nonneg [simp]: "money_nonneg (refund_player a p)"
  by (simp add: refund_player_def money_nonneg_def)

lemma refund_player_add: "0 \<le> a \<Longrightarrow> 0 \<le> b \<Longrightarrow> refund_player a (refund_player b p) = refund_player (b + a) p"
  by (auto simp: refund_player_def max_def)

definition map_nonneg :: "('k, int) gomap \<Rightarrow> bool" where
  "map_nonneg m \<longleftrightarrow> distinct (map fst m) \<and> (\<forall>e \<in> set m. 0 \<le> snd e)"

lemma map_nonneg_mget: "map_nonneg m \<Longrightarrow> 0 \<le> mget m k"
  by (auto simp: map_nonneg_def mget_def split: option.split dest: map_of_SomeD)

lemma update_player_id: "update_player k (\<lambda>p. p) ps = ps"
  by (induction ps) auto

lemma refund_all_fold:
  "refund_all m s = s\<lparr>st_Players := fold (\<lambda>(k, a). update_player k (if a \<le> 0 then (\<lambda>p. p) else refund_player a)) m (st_Players s)\<rparr>"
  unfolding refund_all_def
  by (induction m arbitrary: s) (auto simp: refundContribution_def update_player_id)

lemma refund_all_map:
  assumes m: "map_nonneg m" and ids: "distinct (player_ids (st_Players s))"
    and pos: "\<forall>p \<in> set (st_Players s). money_nonneg p"
  shows "refund_all m s = s\<lparr>st_Players := map (\<lambda>p. refund_player (mget m (hp_PlayerID p)) p) (st_Players s)\<rparr>"
proof -
  have d: "distinct (map fst m)" using m by (simp add: map_nonneg_def)
  have "(case map_of m (hp_PlayerID p) of None \<Rightarrow> p | Some a \<Rightarrow> (if a \<le> 0 then (\<lambda>p. p) else refund_player a) p)
      = refund_player (mget m (hp_PlayerID p)) p" if "p \<in> set (st_Players s)" for p
    using that pos map_nonneg_mget [OF m, of "hp_PlayerID p"] by (auto simp: mget_def split: option.split)
  then show ?thesis
    unfolding refund_all_fold by (subst fold_update_players [OF d ids]) (auto split: if_splits cong: map_cong)
qed

lemma clear_pay_refund: "clear_contributions (pay_player a (refund_player b p)) = clear_contributions (pay_player (b + a) p)"
  by (simp add: clear_contributions_def pay_player_def refund_player_def)

section \<open>Sums over the players\<close>

lemma sum_mget_players:
  assumes "distinct (map fst m)" and "distinct (player_ids ps)" and "fst ` set m \<subseteq> set (player_ids ps)"
  shows "(\<Sum>p\<leftarrow>ps. mget m (hp_PlayerID p)) = msum m"
  using assms
proof (induction m)
  case Nil
  then show ?case by (simp add: msum_def)
next
  case (Cons e m)
  then obtain q where q: "q \<in> set ps" "fst e = hp_PlayerID q" by auto
  have "mget (e # m) (hp_PlayerID p) = mget m (hp_PlayerID p) + (if hp_PlayerID p = hp_PlayerID q then snd e else 0)" for p :: HoldemPlayerState
    using Cons.prems(1) q(2) by (auto simp: mget_Cons mget_notin)
  then have "(\<Sum>p\<leftarrow>ps. mget (e # m) (hp_PlayerID p)) =
      (\<Sum>p\<leftarrow>ps. mget m (hp_PlayerID p)) + (\<Sum>p\<leftarrow>ps. if hp_PlayerID p = hp_PlayerID q then snd e else 0)"
    by (simp only: sum_list_addf)
  moreover have "(\<Sum>p\<leftarrow>ps. if hp_PlayerID p = hp_PlayerID q then snd e else 0) = snd e"
    using filter_eq_single [OF Cons.prems(2) q(1), of "\<lambda>_. True"]
    by (simp add: sum_list_map_filter' [symmetric] sum_list_triv)
  ultimately show ?case using Cons by (simp add: msum_def)
qed

lemma sum_indicator_players:
  "distinct (player_ids ps) \<Longrightarrow> k \<in> set (player_ids ps) \<Longrightarrow> (\<Sum>p\<leftarrow>ps. if hp_PlayerID p = k then v else 0) = (v::int)"
  using sum_mget_players [of "[(k, v)]" ps]
  by (simp add: mget_def msum_def if_distrib [of "case_option _ _"] eq_commute cong: if_cong)

section \<open>The slices of a table\<close>

definition settleable :: "HoldemPlayerState list \<Rightarrow> bool" where
  "settleable ps \<longleftrightarrow> distinct (player_ids ps) \<and> [] \<notin> set (player_ids ps) \<and> (\<forall>p \<in> set ps. money_nonneg p)"

definition derived :: "HoldemPlayerState list \<Rightarrow> PotDerivation \<Rightarrow> bool" where
  "derived ps d \<longleftrightarrow> settleable ps \<and> DerivePotStructure (map participant_of ps) = Inr d"

lemma participant_of_simps [simp]:
  "sp_PlayerID (participant_of p) = hp_PlayerID p"
  "sp_ContributionSats (participant_of p) = hp_TotalContributionSats p"
  "sp_Folded (participant_of p) \<longleftrightarrow> hp_Status p = PlayerStatusFolded"
  by (simp_all add: participant_of_def)

lemma participant_ids [simp]: "map (sp_PlayerID \<circ> participant_of) ps = player_ids ps"
  by simp

lemma derived_exists: "settleable ps \<Longrightarrow> \<exists>d. derived ps d"
  using distinct_caps_total [of "map participant_of ps" "[]"]
  by (fastforce simp: derived_def DerivePotStructure_def settleable_def money_nonneg_def Let_def image_iff
      split: sum.splits)

lemma derived_slice:
  assumes "derived ps d" and "sl \<in> set (pd_Slices d)"
  obtains cap prev n where "sl = slice_of (reaching (map participant_of ps) cap) cap prev n" and "prev < cap"
    and "2 \<le> length (reaching (map participant_of ps) cap)"
proof -
  have ids: "distinct (map sp_PlayerID (map participant_of ps))"
    using assms(1) by (simp add: derived_def settleable_def comp_def)
  obtain i where i: "i < length (pd_Slices d)" "pd_Slices d ! i = sl"
    using assms(2) by (auto simp: in_set_conv_nth)
  have "layered (map participant_of ps) 0 0 (pd_Slices d) (matched_cap (map participant_of ps))"
    using assms(1) derive_structure(2) [OF _ ids] by (simp add: derived_def)
  from layered_nth [OF this i(1)] i(2) show ?thesis using that by metis
qed

lemma slice_facts:
  assumes d: "derived ps d" and sl: "sl \<in> set (pd_Slices d)"
  shows "map_nonneg (ps_Contributions sl)" and "fst ` set (ps_Contributions sl) \<subseteq> set (player_ids ps)"
    and "msum (ps_Contributions sl) = ps_TotalSats sl" and "0 < ps_TotalSats sl"
    and "set (ps_EligiblePlayerIDs sl) =
      hp_PlayerID ` {p \<in> set ps. hp_Status p \<noteq> PlayerStatusFolded \<and> ps_CapSats sl \<le> hp_TotalContributionSats p}"
proof -
  let ?P = "map participant_of ps"
  obtain cap prev n where s: "sl = slice_of (reaching ?P cap) cap prev n" and lt: "prev < cap"
    and two: "2 \<le> length (reaching ?P cap)" by (rule derived_slice [OF d sl])
  have ids: "distinct (map sp_PlayerID (reaching ?P cap))"
    using d distinct_map_filter [of sp_PlayerID ?P] by (simp add: derived_def settleable_def comp_def)
  have c: "ps_Contributions sl = map (\<lambda>p. (sp_PlayerID p, cap - prev)) (reaching ?P cap)"
    using ids by (simp add: s)
  show "map_nonneg (ps_Contributions sl)" using ids lt by (auto simp: c map_nonneg_def comp_def)
  show "fst ` set (ps_Contributions sl) \<subseteq> set (player_ids ps)" by (auto simp: c)
  show "msum (ps_Contributions sl) = ps_TotalSats sl" by (simp add: c msum_const) (simp add: s)
  show "0 < ps_TotalSats sl" using lt two by (simp add: s del: length_greater_0_conv length_map)
  have "ps_CapSats sl = cap" by (simp add: s slice_of_def)
  then show "set (ps_EligiblePlayerIDs sl) =
      hp_PlayerID ` {p \<in> set ps. hp_Status p \<noteq> PlayerStatusFolded \<and> ps_CapSats sl \<le> hp_TotalContributionSats p}"
    by (auto simp: s filter_map comp_def)
qed

lemma unmatched_facts:
  assumes d: "derived ps d"
  shows "map_nonneg (pd_UnmatchedContributionSats d)"
    and "fst ` set (pd_UnmatchedContributionSats d) \<subseteq> set (player_ids ps)"
    and "msum (pd_UnmatchedContributionSats d) + (\<Sum>sl\<leftarrow>pd_Slices d. ps_TotalSats sl)
      = (\<Sum>p\<leftarrow>ps. hp_TotalContributionSats p)"
    and "p \<in> set ps \<Longrightarrow> mget (pd_UnmatchedContributionSats d) (hp_PlayerID p)
      = hp_TotalContributionSats p - min (hp_TotalContributionSats p) (matched_cap (map participant_of ps))"
proof -
  let ?P = "map participant_of ps"
  have ids: "distinct (map sp_PlayerID ?P)" using d by (simp add: derived_def settleable_def comp_def)
  have D: "DerivePotStructure ?P = Inr d" using d by (simp add: derived_def)
  note S = derive_structure [OF D ids]
  have pos: "0 \<le> hp_TotalContributionSats p" if "p \<in> set ps" for p
    using d that by (simp add: derived_def settleable_def money_nonneg_def)
  show "map_nonneg (pd_UnmatchedContributionSats d)"
    using distinct_map_filter [OF ids] by (auto simp: S(4) unmatched_eq [OF ids] map_nonneg_def comp_def)
  show "fst ` set (pd_UnmatchedContributionSats d) \<subseteq> set (player_ids ps)"
    by (auto simp: S(4) unmatched_eq [OF ids])
  have get: "mget (pd_MatchedContributionSats d) (hp_PlayerID p) =
      min (hp_TotalContributionSats p) (matched_cap ?P)" if "p \<in> set ps" for p
    using S(3) [of "participant_of p"] that by simp
  then show "p \<in> set ps \<Longrightarrow> mget (pd_UnmatchedContributionSats d) (hp_PlayerID p)
      = hp_TotalContributionSats p - min (hp_TotalContributionSats p) (matched_cap ?P)"
    using unmatched_spec [OF ids, of "participant_of p"] by (simp add: S(4))
  have "(\<Sum>p\<leftarrow>ps. min (hp_TotalContributionSats p) 0) = 0" using pos by (induction ps) auto
  then have "(\<Sum>sl\<leftarrow>pd_Slices d. ps_TotalSats sl) = (\<Sum>p\<leftarrow>ps. min (hp_TotalContributionSats p) (matched_cap ?P))"
    using layered_total [OF S(2)] by (simp add: comp_def)
  moreover have "msum (pd_UnmatchedContributionSats d) =
      (\<Sum>p\<leftarrow>ps. hp_TotalContributionSats p - min (hp_TotalContributionSats p) (matched_cap ?P))"
    using get by (simp add: S(4) msum_unmatched [OF ids] comp_def cong: map_cong)
  ultimately show "msum (pd_UnmatchedContributionSats d) + (\<Sum>sl\<leftarrow>pd_Slices d. ps_TotalSats sl)
      = (\<Sum>p\<leftarrow>ps. hp_TotalContributionSats p)"
    by (simp add: sum_list_subtractf)
qed

section \<open>Rules that divide a slice\<close>

text \<open>
  The contract of a settlement rule: it gives each player a share of a slice, never a negative one,
  and the shares of the players add up to the slice.
\<close>

locale pot_division =
  fixes share :: "HoldemPlayerState list \<Rightarrow> PotSlice \<Rightarrow> string \<Rightarrow> int"
  assumes share_nonneg: "derived ps d \<Longrightarrow> sl \<in> set (pd_Slices d) \<Longrightarrow> 0 \<le> share ps sl k"
    and share_total: "derived ps d \<Longrightarrow> sl \<in> set (pd_Slices d) \<Longrightarrow>
      (\<Sum>p\<leftarrow>ps. share ps sl (hp_PlayerID p)) = ps_TotalSats sl"

definition gain ::
  "(HoldemPlayerState list \<Rightarrow> PotSlice \<Rightarrow> string \<Rightarrow> int) \<Rightarrow> HoldemPlayerState list \<Rightarrow> PotDerivation \<Rightarrow> string \<Rightarrow> int" where
  "gain share ps d k = mget (pd_UnmatchedContributionSats d) k + (\<Sum>sl\<leftarrow>pd_Slices d. share ps sl k)"

text \<open>The state after a settlement in which every player is paid its gain.\<close>

definition settled_state ::
  "(HoldemPlayerState list \<Rightarrow> PotSlice \<Rightarrow> string \<Rightarrow> int) \<Rightarrow> PotDerivation \<Rightarrow> HoldemWinner list \<Rightarrow> HoldemState \<Rightarrow> HoldemState" where
  "settled_state share d winners s =
     s\<lparr>st_Players := map (\<lambda>p. clear_contributions (pay_player (gain share (st_Players s) d (hp_PlayerID p)) p)) (st_Players s),
       st_Winners := winners, st_CurrentBetSats := 0, st_PotSats := 0, st_Phase := StreetSettled,
       st_ActingSeatIndex := None, st_RaiseLockedSeatIndex := None\<rparr>"

lemma sum_list_swap: "(\<Sum>x\<leftarrow>xs. \<Sum>y\<leftarrow>ys. f x y) = (\<Sum>y\<leftarrow>ys. \<Sum>x\<leftarrow>xs. f x y :: int)"
  by (induction xs) (simp_all add: sum_list_addf)

context pot_division
begin

lemma gain_nonneg: "derived ps d \<Longrightarrow> 0 \<le> gain share ps d k"
  unfolding gain_def using map_nonneg_mget [OF unmatched_facts(1)]
  by (intro add_nonneg_nonneg sum_list_nonneg_int share_nonneg) auto

lemma gain_total:
  assumes d: "derived ps d"
  shows "(\<Sum>p\<leftarrow>ps. gain share ps d (hp_PlayerID p)) = (\<Sum>p\<leftarrow>ps. hp_TotalContributionSats p)"
proof -
  have "(\<Sum>p\<leftarrow>ps. \<Sum>sl\<leftarrow>pd_Slices d. share ps sl (hp_PlayerID p)) = (\<Sum>sl\<leftarrow>pd_Slices d. ps_TotalSats sl)"
    by (subst sum_list_swap) (simp add: share_total [OF d] cong: map_cong)
  moreover have "(\<Sum>p\<leftarrow>ps. mget (pd_UnmatchedContributionSats d) (hp_PlayerID p)) = msum (pd_UnmatchedContributionSats d)"
    using d unmatched_facts(1,2) [OF d]
    by (intro sum_mget_players) (auto simp: derived_def settleable_def map_nonneg_def)
  ultimately show ?thesis
    using unmatched_facts(3) [OF d] by (simp add: gain_def sum_list_addf)
qed

end

section \<open>The fold settlement\<close>

definition fold_share :: "HoldemPlayerState list \<Rightarrow> PotSlice \<Rightarrow> string \<Rightarrow> int" where
  "fold_share ps sl k =
     (case ps_EligiblePlayerIDs sl of [] \<Rightarrow> mget (ps_Contributions sl) k
      | w # _ \<Rightarrow> if k = w then ps_TotalSats sl else 0)"

lemma sum_contributions:
  assumes "derived ps d" and "sl \<in> set (pd_Slices d)"
  shows "(\<Sum>p\<leftarrow>ps. mget (ps_Contributions sl) (hp_PlayerID p)) = ps_TotalSats sl"
  using sum_mget_players [of "ps_Contributions sl" ps] slice_facts(1-3) [OF assms] assms(1)
  by (simp add: derived_def settleable_def map_nonneg_def)

interpretation by_fold: pot_division fold_share
proof
  fix ps d sl k
  assume d: "derived ps d" "sl \<in> set (pd_Slices d)"
  show "0 \<le> fold_share ps sl k"
    using map_nonneg_mget [OF slice_facts(1) [OF d]] slice_facts(4) [OF d]
    by (auto simp: fold_share_def split: list.split)
  show "(\<Sum>p\<leftarrow>ps. fold_share ps sl (hp_PlayerID p)) = ps_TotalSats sl"
  proof (cases "ps_EligiblePlayerIDs sl")
    case Nil
    then show ?thesis using sum_contributions [OF d] by (simp add: fold_share_def)
  next
    case (Cons w ws)
    then have "w \<in> set (player_ids ps)" using slice_facts(5) [OF d] by auto
    with Cons d(1) show ?thesis
      using sum_indicator_players [of ps w "ps_TotalSats sl"]
      by (simp add: fold_share_def derived_def settleable_def)
  qed
qed

text \<open>
  The slices are worked off by refunds and payouts that add up to the shares; \<open>r\<close> is what is
  refunded on the way.
\<close>

lemma fold_slices_shares:
  assumes "settleable (st_Players s)" and "\<forall>sl \<in> set sls. map_nonneg (ps_Contributions sl)"
    and "distinct (map fst pay)"
  shows "\<exists>r pay' win'. fold_slices rem sls (s, pay, win) =
      (s\<lparr>st_Players := map (\<lambda>p. refund_player (r (hp_PlayerID p)) p) (st_Players s)\<rparr>, pay', win') \<and>
    (\<forall>k. 0 \<le> r k \<and> r k + mget pay' k = mget pay k + (\<Sum>sl\<leftarrow>sls. fold_share ps sl k)) \<and> distinct (map fst pay')"
  using assms
proof (induction sls arbitrary: s pay win)
  case Nil
  then have "map (\<lambda>p. refund_player 0 p) (st_Players s) = st_Players s"
    by (intro map_idI) (simp add: settleable_def)
  with Nil show ?case by (intro exI [of _ "\<lambda>_. 0"]) simp
next
  case (Cons sl sls)
  show ?case
  proof (cases "ps_EligiblePlayerIDs sl = []")
    case True
    let ?c = "mget (ps_Contributions sl)"
    let ?s = "s\<lparr>st_Players := map (\<lambda>p. refund_player (?c (hp_PlayerID p)) p) (st_Players s)\<rparr>"
    have s': "refund_all (ps_Contributions sl) s = ?s"
      using Cons.prems by (intro refund_all_map) (auto simp: settleable_def)
    have "settleable (st_Players ?s)" using Cons.prems by (auto simp: settleable_def comp_def)
    from Cons.IH [OF this _ Cons.prems(3), of win] Cons.prems(2) obtain r pay' win'
      where r: "fold_slices rem sls (?s, pay, win) =
        (?s\<lparr>st_Players := map (\<lambda>p. refund_player (r (hp_PlayerID p)) p) (st_Players ?s)\<rparr>, pay', win')"
        "\<forall>k. 0 \<le> r k \<and> r k + mget pay' k = mget pay k + (\<Sum>sl\<leftarrow>sls. fold_share ps sl k)" "distinct (map fst pay')"
      by auto
    have pos: "0 \<le> ?c k" for k using Cons.prems(2) by (auto intro: map_nonneg_mget)
    show ?thesis
      using r True pos
      by (intro exI [of _ "\<lambda>k. ?c k + r k"] exI [of _ pay'] exI [of _ win'])
        (simp add: s' fold_share_def refund_player_add comp_def)
  next
    case False
    then obtain w ws where w: "ps_EligiblePlayerIDs sl = w # ws" by (cases "ps_EligiblePlayerIDs sl") auto
    have "distinct (map fst (madd w (ps_TotalSats sl) pay))" using Cons.prems(3) by simp
    obtain win2 where step: "fold_slices rem (sl # sls) (s, pay, win)
        = fold_slices rem sls (s, madd w (ps_TotalSats sl) pay, win2)" by (simp add: w)
    from Cons.IH [OF Cons.prems(1) _ \<open>distinct (map fst (madd w (ps_TotalSats sl) pay))\<close>, of win2] Cons.prems(2)
    obtain r pay' win' where "fold_slices rem sls (s, madd w (ps_TotalSats sl) pay, win2) =
        (s\<lparr>st_Players := map (\<lambda>p. refund_player (r (hp_PlayerID p)) p) (st_Players s)\<rparr>, pay', win')"
      "\<forall>k. 0 \<le> r k \<and> r k + mget pay' k = mget (madd w (ps_TotalSats sl) pay) k + (\<Sum>sl\<leftarrow>sls. fold_share ps sl k)"
      "distinct (map fst pay')" by auto
    then show ?thesis unfolding step
      by (intro exI [of _ r] exI [of _ pay'] exI [of _ win']) (auto simp: w fold_share_def)
  qed
qed

lemma settle_by_fold:
  assumes ok: "settleable (st_Players s)" and one: "length (getActivePlayers s) = 1"
  shows "\<exists>d winners. derived (st_Players s) d \<and> settleByFold s = Inr (settled_state fold_share d winners s)"
proof -
  let ?ps = "st_Players s"
  obtain d where d: "derived ?ps d" using derived_exists [OF ok] by blast
  let ?U = "mget (pd_UnmatchedContributionSats d)"
  let ?s = "s\<lparr>st_Players := map (\<lambda>p. refund_player (?U (hp_PlayerID p)) p) ?ps\<rparr>"
  have s': "refund_all (pd_UnmatchedContributionSats d) s = ?s"
    using ok unmatched_facts(1) [OF d] by (intro refund_all_map) (auto simp: settleable_def)
  have "settleable (st_Players ?s)" using ok by (auto simp: settleable_def comp_def)
  from fold_slices_shares [OF this, of "pd_Slices d" "[]" "getActivePlayers s" "[]" ?ps] slice_facts(1) [OF d]
  obtain r pay win where r: "fold_slices (getActivePlayers s) (pd_Slices d) (?s, [], []) =
      (?s\<lparr>st_Players := map (\<lambda>p. refund_player (r (hp_PlayerID p)) p) (st_Players ?s)\<rparr>, pay, win)"
    "\<forall>k. 0 \<le> r k \<and> r k + mget pay k = (\<Sum>sl\<leftarrow>pd_Slices d. fold_share ?ps sl k)" "distinct (map fst pay)"
    by auto
  have "clear_contributions (pay_player (mget pay k) (refund_player (r k) (refund_player (?U k) p)))
      = clear_contributions (pay_player (gain fold_share ?ps d k) p)" for k p
    using r(2) by (simp add: clear_pay_refund gain_def add.assoc)
  moreover have "distinct (player_ids ?ps)" using ok by (simp add: settleable_def)
  ultimately have "awardPotPayouts (?s\<lparr>st_Players := map (\<lambda>p. refund_player (r (hp_PlayerID p)) p) (st_Players ?s)\<rparr>) pay win
      = settled_state fold_share d (st_Winners (awardPotPayouts s pay win)) s"
    using r(3) by (simp add: awardPotPayouts_def settled_state_def Let_def fold_pay_players comp_def)
  then show ?thesis
    using d one r(1) by (intro exI [of _ d]) (auto simp: settleByFold_def derived_def s')
qed

section \<open>The showdown\<close>

definition slice_winners :: "HoldemWinner list \<Rightarrow> HoldemWinner list" where
  "slice_winners eligible = filter (\<lambda>c. winner_cmp c (best_winner (hd eligible) (tl eligible)) = 0) eligible"

definition contenders :: "HoldemPlayerState list \<Rightarrow> HoldemPlayerState list" where
  "contenders ps = filter (\<lambda>p. hp_Status p \<noteq> PlayerStatusFolded) ps"

definition candidates :: "HoldemWinner list \<Rightarrow> PayoutCandidate list" where
  "candidates ws = map (\<lambda>w. \<lparr>pc_PlayerID = hw_PlayerID w, pc_SeatIndex = hw_SeatIndex w\<rparr>) ws"

definition showdown_share ::
  "(string, HandScore) gomap \<Rightarrow> nat \<Rightarrow> HoldemPlayerState list \<Rightarrow> PotSlice \<Rightarrow> string \<Rightarrow> int" where
  "showdown_share scores dealer ps sl k =
     (let eligible = eligible_winners (contenders ps) scores (ps_EligiblePlayerIDs sl) in
      if eligible = [] then mget (ps_Contributions sl) k
      else case SplitAmount (ps_TotalSats sl) (candidates (slice_winners eligible)) (int dealer) of
        Inl _ \<Rightarrow> 0
      | Inr (pay, _) \<Rightarrow> mget pay k)"

lemma winner_cmp_best:
  "best_winner w ws \<in> insert w (set ws) \<and> (\<forall>x \<in> insert w (set ws). 0 \<le> winner_cmp (best_winner w ws) x)"
proof (induction ws arbitrary: w)
  case Nil
  then show ?case by (simp add: best_winner_def CompareScoredHands_def hand_cmp.cmp_refl)
next
  case (Cons x ws)
  let ?b = "if winner_cmp x w > 0 then x else w"
  have b: "best_winner w (x # ws) = best_winner ?b ws" by (simp add: best_winner_def)
  have m: "best_winner ?b ws \<in> insert ?b (set ws)" "\<forall>y \<in> insert ?b (set ws). 0 \<le> winner_cmp (best_winner ?b ws) y"
    using Cons [of ?b] by auto
  have "0 \<le> winner_cmp ?b w" "0 \<le> winner_cmp ?b x"
    using hand_cmp.cmp_swap [of "the (hw_HandScore x)" "the (hw_HandScore w)"]
    by (auto simp: CompareScoredHands_def hand_cmp.cmp_refl)
  then have "0 \<le> winner_cmp (best_winner ?b ws) w" "0 \<le> winner_cmp (best_winner ?b ws) x"
    using m(2) hand_cmp.cmp_trans unfolding CompareScoredHands_def by blast+
  then show ?case using m unfolding b by (auto split: if_splits)
qed

lemma slice_winners_spec:
  assumes "eligible \<noteq> []"
  shows "slice_winners eligible \<noteq> []"
    and "w \<in> set (slice_winners eligible) \<longleftrightarrow> w \<in> set eligible \<and> (\<forall>x \<in> set eligible. 0 \<le> winner_cmp w x)"
proof -
  obtain e es where e: "eligible = e # es" using assms by (cases eligible) auto
  let ?b = "best_winner e es"
  have b: "?b \<in> set eligible" "\<forall>x \<in> set eligible. 0 \<le> winner_cmp ?b x"
    using winner_cmp_best [of e es] by (auto simp: e)
  have tie: "winner_cmp x ?b = 0 \<longleftrightarrow> (\<forall>y \<in> set eligible. 0 \<le> winner_cmp x y)" if "x \<in> set eligible" for x
  proof -
    have "winner_cmp x ?b = - winner_cmp ?b x"
      unfolding CompareScoredHands_def by (rule hand_cmp.cmp_swap)
    then show ?thesis
      using b that hand_cmp.cmp_trans [of "the (hw_HandScore x)" "the (hw_HandScore ?b)"]
      unfolding CompareScoredHands_def by fastforce
  qed
  have "winner_cmp ?b ?b = 0" by (simp add: CompareScoredHands_def hand_cmp.cmp_refl)
  then show "slice_winners eligible \<noteq> []" using b(1) by (auto simp: slice_winners_def filter_empty_conv e)
  show "w \<in> set (slice_winners eligible) \<longleftrightarrow> w \<in> set eligible \<and> (\<forall>x \<in> set eligible. 0 \<le> winner_cmp w x)"
    using tie [of w] by (auto simp: slice_winners_def e)
qed

lemma split_facts:
  assumes pos: "0 < amount" and ne: "ws \<noteq> []" and ids: "distinct (map pc_PlayerID ws)"
    and split: "SplitAmount amount ws dealer = Inr (pay, oddIds)"
  shows "map_nonneg pay" and "fst ` set pay = pc_PlayerID ` set ws" and "msum pay = amount"
proof -
  let ?o = "slice_stable (payout_less ws dealer) ws" and ?k = "nat (amount mod int (length ws))"
  note P = split_amount_ok(1) [OF pos ne split]
  have d: "distinct (map fst pay)" by (simp add: P)
  have "set (take ?k ?o) \<subseteq> set ws" using set_take_subset [of ?k ?o] by simp
  then show keys: "fst ` set pay = pc_PlayerID ` set ws" by (auto simp: P keys_fold_madd)
  have "0 \<le> v" if "(k, v) \<in> set pay" for k v
  proof -
    have "v = mget pay k" using that d by (simp add: mget_def)
    moreover have "k \<in> fst ` set pay" using that by (rule image_eqI [rotated]) simp
    then obtain w where "w \<in> set ws" "k = pc_PlayerID w" unfolding keys by blast
    moreover have "0 \<le> amount div int (length ws)" using pos by (intro div_int_pos_iff [THEN iffD2]) simp
    ultimately show ?thesis using split_amount_get [OF pos ne split ids] by simp
  qed
  with d show "map_nonneg pay" by (auto simp: map_nonneg_def)
  show "msum pay = amount" by (rule split_amount_sum [OF pos ne split])
qed

lemma eligible_winners_facts:
  assumes "distinct (player_ids ps)"
  shows "distinct (map hw_PlayerID (eligible_winners (contenders ps) scores ids))"
    and "hw_PlayerID ` set (eligible_winners (contenders ps) scores ids) \<subseteq> set (player_ids ps)"
    and "set ids = hp_PlayerID ` {p \<in> set ps. hp_Status p \<noteq> PlayerStatusFolded \<and> Q p} \<Longrightarrow>
      hw_PlayerID ` set (eligible_winners (contenders ps) scores ids) = set ids"
proof -
  have "map hw_PlayerID (eligible_winners (contenders ps) scores ids) =
      player_ids (filter (\<lambda>p. hp_Status p \<noteq> PlayerStatusFolded \<and> hp_PlayerID p \<in> set ids) ps)"
    by (simp add: eligible_winners_def contenders_def comp_def)
  moreover from this have "hw_PlayerID ` set (eligible_winners (contenders ps) scores ids) =
      hp_PlayerID ` {p \<in> set ps. hp_Status p \<noteq> PlayerStatusFolded \<and> hp_PlayerID p \<in> set ids}"
    by (metis list.set_map set_filter)
  ultimately show "distinct (map hw_PlayerID (eligible_winners (contenders ps) scores ids))"
    and "hw_PlayerID ` set (eligible_winners (contenders ps) scores ids) \<subseteq> set (player_ids ps)"
    and "set ids = hp_PlayerID ` {p \<in> set ps. hp_Status p \<noteq> PlayerStatusFolded \<and> Q p} \<Longrightarrow>
      hw_PlayerID ` set (eligible_winners (contenders ps) scores ids) = set ids"
    using assms by (auto simp: distinct_map_filter)
qed

lemma candidates_simps [simp]:
  "map pc_PlayerID (candidates ws) = map hw_PlayerID ws" "pc_PlayerID ` set (candidates ws) = hw_PlayerID ` set ws"
  "candidates ws = [] \<longleftrightarrow> ws = []" "payoutCandidatesForSlice s ws = candidates ws"
  by (auto simp: candidates_def payoutCandidatesForSlice_def image_image)

lemma slice_winners_ids:
  assumes "distinct (map hw_PlayerID eligible)"
  shows "distinct (map hw_PlayerID (slice_winners eligible))"
    and "hw_PlayerID ` set (slice_winners eligible) \<subseteq> hw_PlayerID ` set eligible"
  using assms by (auto simp: slice_winners_def distinct_map_filter)

text \<open>The split of one slice at the showdown: it exists, and pays the winners exactly the slice.\<close>

lemma showdown_split:
  assumes d: "derived ps d" "sl \<in> set (pd_Slices d)"
    and el: "eligible_winners (contenders ps) scores (ps_EligiblePlayerIDs sl) = eligible" "eligible \<noteq> []"
  obtains pay oddIds where "SplitAmount (ps_TotalSats sl) (candidates (slice_winners eligible)) (int dealer) = Inr (pay, oddIds)"
    and "map_nonneg pay" and "fst ` set pay = hw_PlayerID ` set (slice_winners eligible)"
    and "msum pay = ps_TotalSats sl" and "distinct (map hw_PlayerID (slice_winners eligible))"
    and "hw_PlayerID ` set (slice_winners eligible) \<subseteq> set (player_ids ps)"
proof -
  have ids: "distinct (player_ids ps)" using d(1) by (simp add: derived_def settleable_def)
  note E = eligible_winners_facts(1,2) [OF ids, of scores "ps_EligiblePlayerIDs sl", unfolded el(1)]
  note W = slice_winners_ids [OF E(1)]
  obtain pay oddIds where split: "SplitAmount (ps_TotalSats sl) (candidates (slice_winners eligible)) (int dealer) = Inr (pay, oddIds)"
    using split_amount_total [of "int dealer" "ps_TotalSats sl" "candidates (slice_winners eligible)"] by force
  have "candidates (slice_winners eligible) \<noteq> []" using slice_winners_spec(1) [OF el(2)] by simp
  from split_facts [OF slice_facts(4) [OF d] this _ split] W E(2) split show ?thesis
    by (intro that) auto
qed

interpretation by_showdown: pot_division "showdown_share scores dealer" for scores dealer
proof
  fix ps d sl k
  assume d: "derived ps d" "sl \<in> set (pd_Slices d)"
  let ?el = "eligible_winners (contenders ps) scores (ps_EligiblePlayerIDs sl)"
  have ids: "distinct (player_ids ps)" using d(1) by (simp add: derived_def settleable_def)
  have "0 \<le> showdown_share scores dealer ps sl k \<and>
      (\<Sum>p\<leftarrow>ps. showdown_share scores dealer ps sl (hp_PlayerID p)) = ps_TotalSats sl"
  proof (cases "?el = []")
    case True
    then show ?thesis
      using map_nonneg_mget [OF slice_facts(1) [OF d]] sum_contributions [OF d] by (simp add: showdown_share_def)
  next
    case False
    obtain pay oddIds where
      P: "SplitAmount (ps_TotalSats sl) (candidates (slice_winners ?el)) (int dealer) = Inr (pay, oddIds)"
        "map_nonneg pay" "fst ` set pay = hw_PlayerID ` set (slice_winners ?el)" "msum pay = ps_TotalSats sl"
        "hw_PlayerID ` set (slice_winners ?el) \<subseteq> set (player_ids ps)"
      by (rule showdown_split [OF d refl False, of dealer]) blast
    have "showdown_share scores dealer ps sl = mget pay" using False P(1) by (intro ext) (simp add: showdown_share_def)
    then show ?thesis
      using sum_mget_players [of pay ps] ids P map_nonneg_mget [OF P(2)] by (simp add: map_nonneg_def)
  qed
  then show "0 \<le> showdown_share scores dealer ps sl k"
    and "(\<Sum>p\<leftarrow>ps. showdown_share scores dealer ps sl (hp_PlayerID p)) = ps_TotalSats sl" by auto
qed

lemma record_winners:
  assumes "distinct (map hw_PlayerID ws)" and "distinct (map fst pay)"
  shows "\<exists>pay' win'. fold (record_winner sp) ws (pay, win) = (pay', win') \<and> distinct (map fst pay') \<and>
    (\<forall>k. mget pay' k = mget pay k + (if k \<in> hw_PlayerID ` set ws then mget sp k else 0))"
  using assms
proof (induction ws arbitrary: pay win)
  case (Cons w ws)
  let ?pay = "madd (hw_PlayerID w) (mget sp (hw_PlayerID w)) pay"
  obtain win2 where step: "record_winner sp w (pay, win) = (?pay, win2)" by (simp add: record_winner_def)
  from Cons.IH [of ?pay win2] Cons.prems show ?case by (auto simp: step)
qed simp

lemma showdown_slices_shares:
  assumes "settleable (st_Players s)" and "st_DealerSeatIndex s = int dealer" and "distinct (map fst pay)"
    and d: "derived ps d" and "set sls \<subseteq> set (pd_Slices d)"
  shows "\<exists>r pay' win'. showdown_slices (contenders ps) scores sls (s, pay, win) =
      Inr (s\<lparr>st_Players := map (\<lambda>p. refund_player (r (hp_PlayerID p)) p) (st_Players s)\<rparr>, pay', win') \<and>
    (\<forall>k. 0 \<le> r k \<and> r k + mget pay' k = mget pay k + (\<Sum>sl\<leftarrow>sls. showdown_share scores dealer ps sl k)) \<and>
    distinct (map fst pay')"
  using assms(1-3,5)
proof (induction sls arbitrary: s pay win)
  case Nil
  then have "map (\<lambda>p. refund_player 0 p) (st_Players s) = st_Players s"
    by (intro map_idI) (simp add: settleable_def)
  with Nil show ?case by (intro exI [of _ "\<lambda>_. 0"]) simp
next
  case (Cons sl sls)
  let ?el = "eligible_winners (contenders ps) scores (ps_EligiblePlayerIDs sl)"
  have sl: "sl \<in> set (pd_Slices d)" and sub: "set sls \<subseteq> set (pd_Slices d)" using Cons.prems by auto
  show ?case
  proof (cases "?el = []")
    case True
    let ?c = "mget (ps_Contributions sl)"
    let ?s = "s\<lparr>st_Players := map (\<lambda>p. refund_player (?c (hp_PlayerID p)) p) (st_Players s)\<rparr>"
    have s': "refund_all (ps_Contributions sl) s = ?s"
      using Cons.prems slice_facts(1) [OF d sl] by (intro refund_all_map) (auto simp: settleable_def)
    have "settleable (st_Players ?s)" using Cons.prems by (auto simp: settleable_def comp_def)
    from Cons.IH [OF this _ Cons.prems(3) sub, of win] Cons.prems(2) obtain r pay' win'
      where r: "showdown_slices (contenders ps) scores sls (?s, pay, win) =
        Inr (?s\<lparr>st_Players := map (\<lambda>p. refund_player (r (hp_PlayerID p)) p) (st_Players ?s)\<rparr>, pay', win')"
        "\<forall>k. 0 \<le> r k \<and> r k + mget pay' k = mget pay k + (\<Sum>sl\<leftarrow>sls. showdown_share scores dealer ps sl k)"
        "distinct (map fst pay')"
      by auto
    have pos: "0 \<le> ?c k" for k by (rule map_nonneg_mget [OF slice_facts(1) [OF d sl]])
    show ?thesis
      using r True pos
      by (intro exI [of _ "\<lambda>k. ?c k + r k"] exI [of _ pay'] exI [of _ win'])
        (simp add: s' showdown_share_def refund_player_add comp_def)
  next
    case False
    then obtain e es where e: "?el = e # es" by (cases ?el) auto
    obtain sp oddIds where
      P: "SplitAmount (ps_TotalSats sl) (candidates (slice_winners ?el)) (int dealer) = Inr (sp, oddIds)"
        "fst ` set sp = hw_PlayerID ` set (slice_winners ?el)" "distinct (map hw_PlayerID (slice_winners ?el))"
      by (rule showdown_split [OF d sl refl False, of dealer]) blast
    obtain pay2 win2 where R: "fold (record_winner sp) (slice_winners ?el) (pay, win) = (pay2, win2)"
      "distinct (map fst pay2)"
      "\<forall>k. mget pay2 k = mget pay k + (if k \<in> hw_PlayerID ` set (slice_winners ?el) then mget sp k else 0)"
      using record_winners [OF P(3) Cons.prems(3), of sp win] by blast
    have share: "mget pay2 k = mget pay k + showdown_share scores dealer ps sl k" for k
      using R(3) P(1,2) False mget_notin [of k sp] by (auto simp: showdown_share_def)
    have step: "showdown_slices (contenders ps) scores (sl # sls) (s, pay, win)
        = showdown_slices (contenders ps) scores sls (s, pay2, win2)"
      using P(1) R(1) Cons.prems(2) by (simp add: e Let_def slice_winners_def)
    from Cons.IH [OF Cons.prems(1,2) R(2) sub, of win2] show ?thesis
      unfolding step by (auto simp: share algebra_simps)
  qed
qed

lemma getActivePlayers_contenders: "getActivePlayers s = contenders (st_Players s)"
  by (simp add: getActivePlayers_def contenders_def)

lemma settle_showdown:
  assumes ok: "settleable (st_Players s)" and dealer: "st_DealerSeatIndex s = int dealer"
    and ne: "contenders (st_Players s) \<noteq> []"
    and scored: "score_contenders (st_Board s) holeCards (contenders (st_Players s)) (st_ShowdownScores s, []) = Inr (shown, scores)"
  shows "\<exists>d winners. derived (st_Players s) d \<and>
    settleShowdown s holeCards = Inr (settled_state (showdown_share scores dealer) d winners (s\<lparr>st_ShowdownScores := shown\<rparr>))"
proof -
  let ?ps = "st_Players s" and ?t = "s\<lparr>st_ShowdownScores := shown\<rparr>"
  obtain d where d: "derived ?ps d" using derived_exists [OF ok] by blast
  let ?U = "mget (pd_UnmatchedContributionSats d)" and ?share = "showdown_share scores dealer"
  let ?s = "?t\<lparr>st_Players := map (\<lambda>p. refund_player (?U (hp_PlayerID p)) p) ?ps\<rparr>"
  have s': "refund_all (pd_UnmatchedContributionSats d) ?t = ?s"
    using ok unmatched_facts(1) [OF d] refund_all_map [of "pd_UnmatchedContributionSats d" ?t]
    by (auto simp: settleable_def)
  have "settleable (st_Players ?s)" using ok by (auto simp: settleable_def comp_def)
  from showdown_slices_shares [OF this _ _ d subset_refl, of dealer "[]" scores "[]"] dealer
  obtain r pay win where r: "showdown_slices (contenders ?ps) scores (pd_Slices d) (?s, [], []) =
      Inr (?s\<lparr>st_Players := map (\<lambda>p. refund_player (r (hp_PlayerID p)) p) (st_Players ?s)\<rparr>, pay, win)"
    "\<forall>k. 0 \<le> r k \<and> r k + mget pay k = (\<Sum>sl\<leftarrow>pd_Slices d. ?share ?ps sl k)" "distinct (map fst pay)"
    by auto
  have "clear_contributions (pay_player (mget pay k) (refund_player (r k) (refund_player (?U k) p)))
      = clear_contributions (pay_player (gain ?share ?ps d k) p)" for k p
    using r(2) by (simp add: clear_pay_refund gain_def add.assoc)
  moreover have "distinct (player_ids ?ps)" using ok by (simp add: settleable_def)
  ultimately have "awardPotPayouts (?s\<lparr>st_Players := map (\<lambda>p. refund_player (r (hp_PlayerID p)) p) (st_Players ?s)\<rparr>) pay win
      = settled_state ?share d (st_Winners (awardPotPayouts s pay win)) ?t"
    using r(3) by (simp add: awardPotPayouts_def settled_state_def Let_def fold_pay_players comp_def)
  then show ?thesis
    using d ne r(1) scored
    by (intro exI [of _ d]) (auto simp: settleShowdown_def derived_def s' getActivePlayers_contenders)
qed

lemma settle_showdown_Inr:
  assumes ok: "settleable (st_Players s)" and dealer: "st_DealerSeatIndex s = int dealer"
    and fin: "settleShowdown s holeCards = Inr s'"
  shows "\<exists>d winners shown scores. derived (st_Players s) d \<and>
    score_contenders (st_Board s) holeCards (contenders (st_Players s)) (st_ShowdownScores s, []) = Inr (shown, scores) \<and>
    s' = settled_state (showdown_share scores dealer) d winners (s\<lparr>st_ShowdownScores := shown\<rparr>)"
proof -
  have ne: "contenders (st_Players s) \<noteq> []"
    using fin by (auto simp: settleShowdown_def getActivePlayers_contenders)
  then obtain shown scores where sc: "score_contenders (st_Board s) holeCards (contenders (st_Players s))
      (st_ShowdownScores s, []) = Inr (shown, scores)"
    using fin by (auto simp: settleShowdown_def getActivePlayers_contenders Let_def split: sum.splits)
  from settle_showdown [OF ok dealer ne sc] fin sc show ?thesis by auto
qed

end
