(* ===== verification/Holdem_Invariant.thy ===== *)
theory Holdem_Invariant
  imports Holdem_Settlement
begin

text \<open>
  The invariant of a hand, kept by every operation of \<open>internal/game/holdem.go\<close>, and what follows
  from it: chips are conserved, no operation panics, the seat to act exists and may act.
\<close>

section \<open>The invariant\<close>

definition stacks :: "HoldemState \<Rightarrow> int" where
  "stacks s = (\<Sum>p\<leftarrow>st_Players s. hp_StackSats p)"

definition contributions :: "HoldemState \<Rightarrow> int" where
  "contributions s = (\<Sum>p\<leftarrow>st_Players s. hp_TotalContributionSats p)"

definition chips :: "HoldemState \<Rightarrow> int" where
  "chips s = stacks s + contributions s"

definition seats_ok :: "HoldemState \<Rightarrow> bool" where
  "seats_ok s \<longleftrightarrow>
     2 \<le> length (st_Players s) \<and> 0 \<le> st_DealerSeatIndex s \<and> st_DealerSeatIndex s < seat_count s \<and>
     distinct (player_ids (st_Players s)) \<and> [] \<notin> set (player_ids (st_Players s)) \<and>
     map hp_SeatIndex (st_Players s) = map int [0..<length (st_Players s)] \<and> 0 < st_BigBlindSats s"

definition player_ok :: "HoldemPlayerState \<Rightarrow> bool" where
  "player_ok p \<longleftrightarrow>
     0 \<le> hp_StackSats p \<and> 0 \<le> hp_RoundContributionSats p \<and>
     hp_RoundContributionSats p \<le> hp_TotalContributionSats p \<and>
     hp_Status p \<in> {PlayerStatusActive, PlayerStatusFolded, PlayerStatusAllIn}"

text \<open>While the hand runs, exactly the emptied stacks of players still in the hand are all-in.\<close>

definition live_ok :: "HoldemPlayerState \<Rightarrow> bool" where
  "live_ok p \<longleftrightarrow>
     (hp_Status p = PlayerStatusActive \<longrightarrow> 0 < hp_StackSats p) \<and>
     (hp_Status p = PlayerStatusAllIn \<longrightarrow> hp_StackSats p = 0)"

fun board_size :: "Street \<Rightarrow> nat option" where
  "board_size StreetCommitment = Some 0"
| "board_size StreetReveal = Some 0"
| "board_size StreetFinalization = Some 0"
| "board_size StreetPrivateDelivery = Some 0"
| "board_size StreetPreflop = Some 0"
| "board_size StreetFlopReveal = Some 0"
| "board_size StreetFlop = Some 3"
| "board_size StreetTurnReveal = Some 3"
| "board_size StreetTurn = Some 4"
| "board_size StreetRiverReveal = Some 4"
| "board_size StreetRiver = Some 5"
| "board_size StreetShowdownReveal = Some 5"
| "board_size _ = None"

definition running :: "HoldemState \<Rightarrow> bool" where
  "running s \<longleftrightarrow>
     seats_ok s \<and> (\<forall>p \<in> set (st_Players s). player_ok p \<and> live_ok p) \<and>
     st_PotSats s = contributions s \<and> 0 \<le> st_CurrentBetSats s \<and> 0 < st_LastFullRaiseSats s \<and>
     st_MinRaiseToSats s = st_CurrentBetSats s + st_LastFullRaiseSats s \<and>
     board_size (st_Phase s) = Some (length (st_Board s)) \<and> getActivePlayers s \<noteq> []"

definition starting_phases :: "Street set" where
  "starting_phases = {StreetCommitment, StreetReveal, StreetFinalization, StreetPrivateDelivery}"

definition turn_ok :: "HoldemState \<Rightarrow> bool" where
  "turn_ok s \<longleftrightarrow>
     (case st_ActingSeatIndex s of
        None \<Rightarrow>
          (PhaseAllowsActions (st_Phase s) \<longrightarrow> st_Phase s = StreetPreflop \<and> getPlayersAbleToAct s = []) \<and>
          (st_Phase s \<in> starting_phases \<longrightarrow> (\<forall>p \<in> set (getPlayersAbleToAct s). \<not> hp_ActedThisRound p))
      | Some i \<Rightarrow> PhaseAllowsActions (st_Phase s) \<and> 0 \<le> i \<and> i < seat_count s \<and>
          hp_Status (st_Players s ! nat i) = PlayerStatusActive \<and>
          needs_action (st_CurrentBetSats s) (st_Players s ! nat i))"

definition settled :: "HoldemState \<Rightarrow> bool" where
  "settled s \<longleftrightarrow>
     seats_ok s \<and> (\<forall>p \<in> set (st_Players s). player_ok p \<and> hp_TotalContributionSats p = 0) \<and>
     st_PotSats s = 0 \<and> st_CurrentBetSats s = 0 \<and> st_ActingSeatIndex s = None"

definition hand_inv :: "HoldemState \<Rightarrow> bool" where
  "hand_inv s \<longleftrightarrow>
     (if st_Phase s = StreetSettled then settled s
      else running s \<and> turn_ok s \<and> 2 \<le> length (getActivePlayers s))"

section \<open>Finding the next seat\<close>

abbreviation wants_turn :: "HoldemState \<Rightarrow> HoldemPlayerState \<Rightarrow> bool" where
  "wants_turn s p \<equiv> hp_Status p = PlayerStatusActive \<and> needs_action (st_CurrentBetSats s) p"

lemma seat_mod [simp]: "st_Players s \<noteq> [] \<Longrightarrow> 0 \<le> a \<Longrightarrow> go_mod a (seat_count s) = Inr (a mod seat_count s)"
  by (rule go_mod_nonneg) simp_all

lemma seat_mod_range [simp]:
  "st_Players s \<noteq> [] \<Longrightarrow> 0 \<le> a mod seat_count s" "st_Players s \<noteq> [] \<Longrightarrow> a mod seat_count s < seat_count s"
  by simp_all

lemma seats_ok_ne: "seats_ok s \<Longrightarrow> st_Players s \<noteq> []"
  by (auto simp: seats_ok_def)

lemma seat_loop_find:
  assumes "st_Players s \<noteq> []" and "0 \<le> lastActor" and "\<forall>off \<in> set offsets. 0 \<le> off"
  shows "seat_loop s lastActor offsets =
    Inr (map_option (\<lambda>off. (lastActor + off) mod seat_count s)
      (find (\<lambda>off. wants_turn s (st_Players s ! nat ((lastActor + off) mod seat_count s))) offsets))"
  using assms(3)
proof (induction offsets)
  case (Cons off offsets)
  have "0 < seat_count s" using assms(1) by simp
  then have "0 \<le> (lastActor + off) mod seat_count s" "(lastActor + off) mod seat_count s < seat_count s"
    by simp_all
  with Cons assms(1,2) show ?case by (auto split: if_splits)
qed simp

lemma next_seat_spec:
  assumes ne: "st_Players s \<noteq> []" and lastActor: "0 \<le> lastActor"
  obtains r where "nextSeatRequiringAction s lastActor = Inr r"
    and "r = None \<Longrightarrow> \<forall>p \<in> set (st_Players s). \<not> wants_turn s p"
    and "\<And>i. r = Some i \<Longrightarrow> 0 \<le> i \<and> i < seat_count s \<and> wants_turn s (st_Players s ! nat i)"
proof -
  let ?n = "seat_count s"
  let ?seat = "\<lambda>off. (lastActor + off) mod ?n"
  let ?P = "\<lambda>off. wants_turn s (st_Players s ! nat (?seat off))"
  have n: "0 < ?n" using ne by simp
  have eq: "nextSeatRequiringAction s lastActor = Inr (map_option ?seat (find ?P [1..?n]))"
    unfolding nextSeatRequiringAction_def using ne lastActor by (simp add: seat_loop_find)
  show ?thesis
  proof (rule that [OF eq])
    assume "map_option ?seat (find ?P [1..?n]) = None"
    then have none: "\<not> ?P off" if "1 \<le> off" "off \<le> ?n" for off using that by (auto simp: find_None_iff)
    show "\<forall>p \<in> set (st_Players s). \<not> wants_turn s p"
    proof
      fix p assume "p \<in> set (st_Players s)"
      then obtain j where j: "j < length (st_Players s)" "st_Players s ! j = p" by (auto simp: in_set_conv_nth)
      define k where "k = (int j - lastActor - 1) mod ?n + 1"
      have "1 \<le> k" "k \<le> ?n" using n by (simp_all add: k_def add1_zle_eq)
      moreover have "?seat k = int j"
      proof -
        have "(lastActor + k) mod ?n = (lastActor + 1 + (int j - lastActor - 1)) mod ?n"
          unfolding k_def by (metis (no_types, opaque_lifting) add.assoc add.commute mod_add_right_eq)
        then show ?thesis using j(1) by simp
      qed
      ultimately show "\<not> wants_turn s p" using none [of k] j(2) by simp
    qed
  next
    fix i assume "map_option ?seat (find ?P [1..?n]) = Some i"
    then show "0 \<le> i \<and> i < ?n \<and> wants_turn s (st_Players s ! nat i)"
      using n by (auto simp: find_Some_iff)
  qed
qed

lemma wants_turn_able: "wants_turn s p \<Longrightarrow> p \<in> set (st_Players s) \<Longrightarrow> getPlayersAbleToAct s \<noteq> []"
  by (auto simp: getPlayersAbleToAct_def filter_empty_conv)

section \<open>Seats of the blinds\<close>

lemma blind_seats:
  assumes "seats_ok s"
  obtains sb bb where "smallBlindSeatIndex s = Inr sb" and "bigBlindSeatIndex s = Inr bb"
    and "0 \<le> sb" "sb < seat_count s" "0 \<le> bb" "bb < seat_count s" "sb \<noteq> bb"
proof -
  let ?n = "seat_count s" and ?d = "st_DealerSeatIndex s"
  have n: "2 \<le> ?n" "0 \<le> ?d" "?d < ?n" using assms by (auto simp: seats_ok_def)
  have ne: "(x + 1) mod ?n \<noteq> x" if "0 \<le> x" "x < ?n" for x
  proof (cases "x + 1 < ?n")
    case False
    with that have "x + 1 = ?n" by simp
    then have "(x + 1) mod ?n = 0" by (metis mod_self)
    then show ?thesis using \<open>x + 1 = ?n\<close> n(1) by linarith
  qed (use that in simp)
  show ?thesis
  proof (cases "length (st_Players s) = 2")
    case True
    then show ?thesis using n ne [of ?d]
      by (intro that [of ?d "(?d + 1) mod ?n"]) (auto simp: smallBlindSeatIndex_def bigBlindSeatIndex_def nextSeat_def)
  next
    case False
    have sb: "0 \<le> (?d + 1) mod ?n" "(?d + 1) mod ?n < ?n" using seats_ok_ne [OF assms] by simp_all
    with False n ne [OF sb] seats_ok_ne [OF assms] show ?thesis
      by (intro that [of "(?d + 1) mod ?n" "((?d + 1) mod ?n + 1) mod ?n"])
        (auto simp: smallBlindSeatIndex_def bigBlindSeatIndex_def nextSeat_def)
  qed
qed

lemma first_to_act:
  assumes "seats_ok s"
  obtains i where "firstToActForStreet s phase = Inr i" and "0 \<le> i" "i < seat_count s"
proof -
  obtain sb bb where b: "smallBlindSeatIndex s = Inr sb" "bigBlindSeatIndex s = Inr bb"
    "0 \<le> sb" "sb < seat_count s" "0 \<le> bb" "bb < seat_count s"
    using blind_seats [OF assms] by metis
  then have "nextSeat (seat_count s) bb = Inr ((bb + 1) mod seat_count s)"
    using seats_ok_ne [OF assms] by (simp add: nextSeat_def)
  with b seats_ok_ne [OF assms] show ?thesis
    by (cases "length (st_Players s) = 2"; cases "phase = StreetPreflop")
      (auto intro!: that simp: firstToActForStreet_def)
qed

lemma open_street_ok:
  assumes ok: "seats_ok s" and phase: "PhaseAllowsActions (st_Phase s)"
  obtains r where "open_street s street = Inr (s\<lparr>st_ActingSeatIndex := r\<rparr>)"
    and "r = None \<Longrightarrow> \<forall>p \<in> set (st_Players s). \<not> wants_turn s p"
    and "\<And>i. r = Some i \<Longrightarrow> 0 \<le> i \<and> i < seat_count s \<and> wants_turn s (st_Players s ! nat i)"
proof -
  obtain i where i: "firstToActForStreet s street = Inr i" "0 \<le> i" "i < seat_count s"
    using first_to_act [OF ok, of street] by metis
  let ?before = "(i + seat_count s - 1) mod seat_count s"
  have ne: "st_Players s \<noteq> []" by (rule seats_ok_ne [OF ok])
  have before: "seat_before s i = Inr ?before" using i ne by (simp add: seat_before_def)
  have pos: "0 \<le> ?before" using ne by simp
  show ?thesis
  proof (rule next_seat_spec [OF ne pos])
    fix r
    assume "nextSeatRequiringAction s ?before = Inr r"
      and "r = None \<Longrightarrow> \<forall>p \<in> set (st_Players s). \<not> wants_turn s p"
      and "\<And>j. r = Some j \<Longrightarrow> 0 \<le> j \<and> j < seat_count s \<and> wants_turn s (st_Players s ! nat j)"
    then show ?thesis using i(1) before by (intro that [of r]) (auto simp: open_street_def)
  qed
qed

section \<open>Settling keeps the invariant\<close>

lemma money_nonneg_ok: "player_ok p \<Longrightarrow> money_nonneg p"
  by (auto simp: player_ok_def money_nonneg_def)

lemma running_settleable: "running s \<Longrightarrow> settleable (st_Players s)"
  by (auto simp: running_def seats_ok_def settleable_def money_nonneg_ok)

lemma clear_contributions_simps [simp]:
  "hp_PlayerID (clear_contributions p) = hp_PlayerID p" "hp_SeatIndex (clear_contributions p) = hp_SeatIndex p"
  "hp_StackSats (clear_contributions p) = hp_StackSats p" "hp_TotalContributionSats (clear_contributions p) = 0"
  "hp_RoundContributionSats (clear_contributions p) = 0" "hp_Status (clear_contributions p) = hp_Status p"
  by (simp_all add: clear_contributions_def)

context pot_division
begin

lemma settled_state_inv:
  assumes ok: "seats_ok s" "\<forall>p \<in> set (st_Players s). player_ok p" and d: "derived (st_Players s) d"
  shows "settled (settled_state share d winners s)" and "chips (settled_state share d winners s) = chips s"
proof -
  show "settled (settled_state share d winners s)"
    using ok gain_nonneg [OF d]
    by (auto simp: settled_def settled_state_def seats_ok_def player_ok_def comp_def)
  show "chips (settled_state share d winners s) = chips s"
    using gain_total [OF d]
    by (simp add: chips_def stacks_def contributions_def settled_state_def comp_def sum_list_addf)
qed

end

lemma settle_by_fold_ok:
  assumes ok: "running s" and one: "length (getActivePlayers s) = 1"
  shows "\<exists>s'. settleByFold s = Inr s' \<and> hand_inv s' \<and> chips s' = chips s \<and> st_Phase s' = StreetSettled"
proof -
  obtain d winners where d: "derived (st_Players s) d" "settleByFold s = Inr (settled_state fold_share d winners s)"
    using settle_by_fold [OF running_settleable [OF ok] one] by blast
  have ph: "st_Phase (settled_state fold_share d winners s) = StreetSettled" by (simp add: settled_state_def)
  have "seats_ok s" "\<forall>p \<in> set (st_Players s). player_ok p" using ok by (auto simp: running_def)
  from by_fold.settled_state_inv [OF this d(1), of winners] d(2) ph show ?thesis
    by (simp add: hand_inv_def)
qed

lemma reveal_phase:
  assumes "PhaseAllowsActions phase"
  obtains r where "streetRevealPhase phase = Inr r" and "board_size r = board_size phase"
    and "\<not> PhaseAllowsActions r" and "r \<noteq> StreetSettled" and "r \<notin> starting_phases"
  using assms by (auto simp: PhaseAllowsActions_def starting_phases_def)

lemma close_round_ok:
  assumes ok: "running s" "2 \<le> length (getActivePlayers s)" and phase: "PhaseAllowsActions (st_Phase s)"
  shows "\<exists>s'. close_round s = Inr s' \<and> hand_inv s' \<and> chips s' = chips s"
proof -
  obtain r where r: "streetRevealPhase (st_Phase s) = Inr r" "board_size r = board_size (st_Phase s)"
    "\<not> PhaseAllowsActions r" "r \<noteq> StreetSettled" "r \<notin> starting_phases" by (rule reveal_phase [OF phase])
  let ?s = "s\<lparr>st_Phase := r, st_ActingSeatIndex := None, st_RaiseLockedSeatIndex := None\<rparr>"
  have "running ?s" using ok(1) r(2) by (simp add: running_def seats_ok_def contributions_def getActivePlayers_def)
  then have "hand_inv ?s" using ok(2) r(3-5) by (simp add: hand_inv_def turn_ok_def getActivePlayers_def)
  then show ?thesis using r(1) by (simp add: close_round_def chips_def stacks_def contributions_def)
qed

lemma acting_irrelevant:
  "running (s\<lparr>st_ActingSeatIndex := r\<rparr>) = running s" "chips (s\<lparr>st_ActingSeatIndex := r\<rparr>) = chips s"
  "getActivePlayers (s\<lparr>st_ActingSeatIndex := r\<rparr>) = getActivePlayers s"
  "getPlayersAbleToAct (s\<lparr>st_ActingSeatIndex := r\<rparr>) = getPlayersAbleToAct s"
  by (simp_all add: running_def seats_ok_def contributions_def stacks_def chips_def getActivePlayers_def
      getPlayersAbleToAct_def)

lemma set_acting_ok:
  assumes ok: "running s" "2 \<le> length (getActivePlayers s)" "PhaseAllowsActions (st_Phase s)"
    and none: "r = None \<Longrightarrow> st_Phase s = StreetPreflop \<and> getPlayersAbleToAct s = []"
    and some: "\<And>i. r = Some i \<Longrightarrow> 0 \<le> i \<and> i < seat_count s \<and> wants_turn s (st_Players s ! nat i)"
  shows "hand_inv (s\<lparr>st_ActingSeatIndex := r\<rparr>)" and "chips (s\<lparr>st_ActingSeatIndex := r\<rparr>) = chips s"
proof -
  let ?s = "s\<lparr>st_ActingSeatIndex := r\<rparr>"
  have "running ?s" using ok(1) by (simp add: acting_irrelevant)
  moreover have "turn_ok ?s"
    using none some ok(3)
    by (cases r) (auto simp: turn_ok_def getPlayersAbleToAct_def PhaseAllowsActions_def starting_phases_def)
  moreover have "st_Phase s \<noteq> StreetSettled" using ok(3) by (auto simp: PhaseAllowsActions_def)
  ultimately show "hand_inv ?s" using ok(2) by (simp add: hand_inv_def acting_irrelevant)
  show "chips ?s = chips s" by (simp add: acting_irrelevant)
qed

lemma close_action_round_ok:
  assumes ok: "running s" and phase: "PhaseAllowsActions (st_Phase s)" and lastActor: "0 \<le> lastActor"
  shows "\<exists>s'. closeActionRoundIfNeeded s lastActor = Inr s' \<and> hand_inv s' \<and> chips s' = chips s"
proof (cases "length (getActivePlayers s) = 1")
  case True
  then show ?thesis using settle_by_fold_ok [OF ok True] by (auto simp: closeActionRoundIfNeeded_def)
next
  case False
  moreover have "getActivePlayers s \<noteq> []" using ok by (simp add: running_def)
  then have "length (getActivePlayers s) \<noteq> 0" by simp
  ultimately have two: "2 \<le> length (getActivePlayers s)" by linarith
  show ?thesis
  proof (cases "\<forall>p \<in> set (getPlayersAbleToAct s). \<not> needs_action (st_CurrentBetSats s) p")
    case True
    then show ?thesis using close_round_ok [OF ok two phase] False by (auto simp: closeActionRoundIfNeeded_def Let_def)
  next
    case open_round: False
    have ne: "st_Players s \<noteq> []" using ok seats_ok_ne by (simp add: running_def)
    show ?thesis
    proof (rule next_seat_spec [OF ne lastActor])
      fix r
      assume r: "nextSeatRequiringAction s lastActor = Inr r"
        "r = None \<Longrightarrow> \<forall>p \<in> set (st_Players s). \<not> wants_turn s p"
        "\<And>i. r = Some i \<Longrightarrow> 0 \<le> i \<and> i < seat_count s \<and> wants_turn s (st_Players s ! nat i)"
      have "r \<noteq> None" using r(2) open_round by (auto simp: getPlayersAbleToAct_def)
      then have "hand_inv (s\<lparr>st_ActingSeatIndex := r\<rparr>)" "chips (s\<lparr>st_ActingSeatIndex := r\<rparr>) = chips s"
        using set_acting_ok [OF ok two phase] r(3) by auto
      moreover have "closeActionRoundIfNeeded s lastActor = Inr (s\<lparr>st_ActingSeatIndex := r\<rparr>)"
        using False open_round r(1) by (auto simp: closeActionRoundIfNeeded_def Let_def)
      ultimately show ?thesis by blast
    qed
  qed
qed

section \<open>Legal actions\<close>

text \<open>What a legal action is, on the player that acts: the five cases of the rules.\<close>

fun allowed :: "HoldemState \<Rightarrow> int \<Rightarrow> HoldemPlayerState \<Rightarrow> ActionType \<Rightarrow> int \<Rightarrow> bool" where
  "allowed s i p ActionFold t \<longleftrightarrow> hp_RoundContributionSats p < st_CurrentBetSats s"
| "allowed s i p ActionCall t \<longleftrightarrow> hp_RoundContributionSats p < st_CurrentBetSats s"
| "allowed s i p ActionCheck t \<longleftrightarrow> st_CurrentBetSats s \<le> hp_RoundContributionSats p"
| "allowed s i p ActionBet t \<longleftrightarrow>
     st_CurrentBetSats s \<le> hp_RoundContributionSats p \<and> 0 < hp_StackSats p \<and>
     hp_RoundContributionSats p + max (st_BigBlindSats s) 1 \<le> t \<and>
     t \<le> hp_RoundContributionSats p + hp_StackSats p"
| "allowed s i p ActionRaise t \<longleftrightarrow>
     hp_RoundContributionSats p < st_CurrentBetSats s \<and>
     st_CurrentBetSats s < hp_RoundContributionSats p + hp_StackSats p \<and>
     st_RaiseLockedSeatIndex s \<noteq> Some i \<and>
     min (st_MinRaiseToSats s) (hp_RoundContributionSats p + hp_StackSats p) \<le> t \<and>
     t \<le> hp_RoundContributionSats p + hp_StackSats p"
| "allowed s i p (ActionOther x) t \<longleftrightarrow> False"

lemma expect_legal_iff:
  assumes "PhaseAllowsActions (st_Phase s)"
  shows "expectLegal s i a = Inr () \<longleftrightarrow>
    0 \<le> i \<and> i < seat_count s \<and> hp_Status (st_Players s ! nat i) = PlayerStatusActive \<and>
    allowed s i (st_Players s ! nat i) (ac_Type a) (ac_TotalSats a)"
  using assms
  by (cases "ac_Type a")
    (auto simp: expectLegal_def GetLegalActions_def Let_def plain_action_def sized_action_def max_def)

lemma expect_legal_error: "expectLegal s i a = Inl e \<Longrightarrow> \<exists>m. e = Err m"
  by (auto simp: expectLegal_def split: option.splits if_splits)

section \<open>One player acts\<close>

definition acting_player :: "HoldemState \<Rightarrow> Action \<Rightarrow> HoldemPlayerState \<Rightarrow> HoldemPlayerState" where
  "acting_player s a p =
     (case ac_Type a of
        ActionFold \<Rightarrow> p\<lparr>hp_Status := PlayerStatusFolded, hp_ActedThisRound := True\<rparr>
      | ActionCheck \<Rightarrow> p\<lparr>hp_ActedThisRound := True\<rparr>
      | ActionCall \<Rightarrow> mark_all_in (pay_in (call_amount (st_CurrentBetSats s) p) p)
      | ActionBet \<Rightarrow> mark_all_in (pay_to (ac_TotalSats a) p)
      | ActionRaise \<Rightarrow> mark_all_in (pay_to (ac_TotalSats a) p)
      | ActionOther _ \<Rightarrow> p)"

definition waiting_player :: "Action \<Rightarrow> HoldemPlayerState \<Rightarrow> HoldemPlayerState" where
  "waiting_player a p =
     (if ac_Type a \<in> {ActionBet, ActionRaise} \<and> hp_Status p = PlayerStatusActive
      then p\<lparr>hp_ActedThisRound := False\<rparr> else p)"

lemma nth_mark_pending:
  "j < length (st_Players s) \<Longrightarrow> st_Players (markOtherPlayersPending s i) ! j =
     (let p = st_Players s ! j in
      if int j = i \<or> hp_Status p \<noteq> PlayerStatusActive then p else p\<lparr>hp_ActedThisRound := False\<rparr>)"
  by (simp add: markOtherPlayersPending_def nth_enumerate_eq Let_def)

lemma mark_pending_simps [simp]:
  "length (st_Players (markOtherPlayersPending s i)) = length (st_Players s)"
  "st_Phase (markOtherPlayersPending s i) = st_Phase s"
  "st_DealerSeatIndex (markOtherPlayersPending s i) = st_DealerSeatIndex s"
  "st_BigBlindSats (markOtherPlayersPending s i) = st_BigBlindSats s"
  "st_CurrentBetSats (markOtherPlayersPending s i) = st_CurrentBetSats s"
  "st_LastFullRaiseSats (markOtherPlayersPending s i) = st_LastFullRaiseSats s"
  "st_MinRaiseToSats (markOtherPlayersPending s i) = st_MinRaiseToSats s"
  "st_Board (markOtherPlayersPending s i) = st_Board s"
  by (simp_all add: markOtherPlayersPending_def)

lemma raise_bookkeeping_simps [simp]:
  "st_Players (raise_bookkeeping s i r) = st_Players s"
  "st_Phase (raise_bookkeeping s i r) = st_Phase s"
  "st_DealerSeatIndex (raise_bookkeeping s i r) = st_DealerSeatIndex s"
  "st_BigBlindSats (raise_bookkeeping s i r) = st_BigBlindSats s"
  "st_CurrentBetSats (raise_bookkeeping s i r) = st_CurrentBetSats s"
  "st_LastFullRaiseSats (raise_bookkeeping s i r) = max r (st_LastFullRaiseSats s)"
  "st_Board (raise_bookkeeping s i r) = st_Board s"
  by (simp_all add: raise_bookkeeping_def max_def)

lemma apply_action_fields:
  "st_Phase (apply_action s i a) = st_Phase s" "st_DealerSeatIndex (apply_action s i a) = st_DealerSeatIndex s"
  "st_BigBlindSats (apply_action s i a) = st_BigBlindSats s" "st_Board (apply_action s i a) = st_Board s"
  "st_CurrentBetSats (apply_action s i a) =
     (if ac_Type a \<in> {ActionBet, ActionRaise} then ac_TotalSats a else st_CurrentBetSats s)"
  "st_LastFullRaiseSats (apply_action s i a) =
     (if ac_Type a = ActionBet then ac_TotalSats a
      else if ac_Type a = ActionRaise then max (ac_TotalSats a - st_CurrentBetSats s) (st_LastFullRaiseSats s)
      else st_LastFullRaiseSats s)"
  "st_MinRaiseToSats (apply_action s i a) =
     (if ac_Type a \<in> {ActionBet, ActionRaise}
      then st_CurrentBetSats (apply_action s i a) + st_LastFullRaiseSats (apply_action s i a)
      else st_MinRaiseToSats s)"
  "length (st_Players (apply_action s i a)) = length (st_Players s)"
  by (simp_all add: apply_action_def Let_def split: ActionType.splits)

lemma apply_action_nth:
  assumes "0 \<le> i" and "j < length (st_Players s)"
  shows "st_Players (apply_action s i a) ! j =
    (if int j = i then acting_player s a (st_Players s ! j) else waiting_player a (st_Players s ! j))"
  using assms
  by (cases "ac_Type a")
    (auto simp: apply_action_def Let_def acting_player_def waiting_player_def nth_mark_pending nth_list_update)

lemma acting_player_ids [simp]:
  "hp_PlayerID (acting_player s a p) = hp_PlayerID p" "hp_SeatIndex (acting_player s a p) = hp_SeatIndex p"
  by (simp_all add: acting_player_def mark_all_in_def pay_in_def pay_to_def Let_def split: ActionType.split)

lemma waiting_player_simps [simp]:
  "hp_PlayerID (waiting_player a p) = hp_PlayerID p" "hp_SeatIndex (waiting_player a p) = hp_SeatIndex p"
  "hp_StackSats (waiting_player a p) = hp_StackSats p" "hp_Status (waiting_player a p) = hp_Status p"
  "hp_TotalContributionSats (waiting_player a p) = hp_TotalContributionSats p"
  "hp_RoundContributionSats (waiting_player a p) = hp_RoundContributionSats p"
  by (simp_all add: waiting_player_def)

text \<open>A legal action moves chips from the actor's stack into the pot and keeps the player sound.\<close>

lemma acting_player_money:
  assumes "player_ok p" "hp_Status p = PlayerStatusActive" "0 < hp_StackSats p"
    and "allowed s i p (ac_Type a) (ac_TotalSats a)" "0 < st_BigBlindSats s" "0 < st_LastFullRaiseSats s"
    and "st_MinRaiseToSats s = st_CurrentBetSats s + st_LastFullRaiseSats s"
  defines "q \<equiv> acting_player s a p"
  shows "player_ok q" and "live_ok q"
    and "hp_StackSats q + hp_TotalContributionSats q = hp_StackSats p + hp_TotalContributionSats p"
    and "hp_StackSats q \<le> hp_StackSats p"
    and "ac_Type a \<in> {ActionCall, ActionBet, ActionRaise} \<Longrightarrow> hp_StackSats q < hp_StackSats p"
    and "ac_Type a \<in> {ActionBet, ActionRaise} \<Longrightarrow> st_CurrentBetSats s < ac_TotalSats a \<and> hp_RoundContributionSats q = ac_TotalSats a"
    and "hp_ActedThisRound q"
    and "hp_Status q = PlayerStatusFolded \<longleftrightarrow> ac_Type a = ActionFold"
    and "hp_RoundContributionSats p \<le> hp_RoundContributionSats q"
    and "ac_Type a = ActionCall \<Longrightarrow> hp_RoundContributionSats q \<le> st_CurrentBetSats s"
    and "ac_Type a = ActionCall \<Longrightarrow> hp_Status q = PlayerStatusActive \<Longrightarrow> hp_RoundContributionSats q = st_CurrentBetSats s"
    and "ac_Type a \<in> {ActionFold, ActionCheck} \<Longrightarrow> hp_RoundContributionSats q = hp_RoundContributionSats p"
  using assms(1-7) unfolding q_def
  by (cases "ac_Type a";
      auto simp: acting_player_def player_ok_def live_ok_def mark_all_in_def pay_in_def pay_to_def
        call_amount_def Let_def min_def max_def split: if_splits)+

lemma apply_action_map:
  assumes "0 \<le> i" and "\<And>p. f (waiting_player a p) = f p"
  shows "map f (st_Players (apply_action s i a)) =
    (map f (st_Players s))[nat i := f (acting_player s a (st_Players s ! nat i))]"
  using assms by (intro nth_equalityI) (auto simp: apply_action_fields apply_action_nth nth_list_update)

lemma apply_action_set:
  assumes "0 \<le> i"
  shows "set (st_Players (apply_action s i a)) \<subseteq>
    insert (acting_player s a (st_Players s ! nat i)) (waiting_player a ` set (st_Players s))"
  using assms nth_mem by (fastforce simp: set_conv_nth apply_action_fields apply_action_nth)

lemma apply_action_same:
  assumes "0 \<le> i" "\<And>p. f (waiting_player a p) = f p" "\<And>p. f (acting_player s a p) = f p"
  shows "map f (st_Players (apply_action s i a)) = map f (st_Players s)"
  using assms by (intro nth_equalityI) (auto simp: apply_action_fields apply_action_nth)

lemma recomputePot_sum: "recomputePot ps = (\<Sum>p\<leftarrow>ps. hp_TotalContributionSats p)"
proof -
  have "foldl (\<lambda>acc p. acc + hp_TotalContributionSats p) n ps = n + (\<Sum>p\<leftarrow>ps. hp_TotalContributionSats p)" for n
    by (induction ps arbitrary: n) auto
  then show ?thesis by (simp add: recomputePot_def)
qed

lemma count_active: "length (getActivePlayers s) = length (filter (\<lambda>f. \<not> f) (map (\<lambda>p. hp_Status p = PlayerStatusFolded) (st_Players s)))"
  by (simp add: getActivePlayers_def filter_map comp_def)

lemma length_filter_update:
  "i < length bs \<Longrightarrow> length (filter P bs) \<le> length (filter P (bs[i := b])) + 1"
proof (induction bs arbitrary: i)
  case (Cons x xs)
  show ?case
  proof (cases i)
    case (Suc k)
    with Cons.IH [of k] Cons.prems show ?thesis by auto
  qed simp
qed simp

abbreviation with_pot :: "HoldemState \<Rightarrow> HoldemState" where
  "with_pot s \<equiv> s\<lparr>st_PotSats := recomputePot (st_Players s)\<rparr>"

lemma apply_action_running:
  assumes ok: "running s" "2 \<le> length (getActivePlayers s)"
    and i: "0 \<le> i" "i < seat_count s" "hp_Status (st_Players s ! nat i) = PlayerStatusActive"
    and legal: "allowed s i (st_Players s ! nat i) (ac_Type a) (ac_TotalSats a)"
  shows "running (with_pot (apply_action s i a))" and "chips (with_pot (apply_action s i a)) = chips s"
proof -
  let ?p = "st_Players s ! nat i" and ?s = "apply_action s i a"
  have k: "nat i < length (st_Players s)" using i by simp
  then have p: "player_ok ?p" "live_ok ?p" using ok(1) by (auto simp: running_def)
  then have pos: "0 < hp_StackSats ?p" using i(3) by (simp add: live_ok_def)
  have conf: "0 < st_BigBlindSats s" "0 < st_LastFullRaiseSats s" "0 \<le> st_CurrentBetSats s"
    "st_MinRaiseToSats s = st_CurrentBetSats s + st_LastFullRaiseSats s"
    using ok(1) by (auto simp: running_def seats_ok_def)
  note M = acting_player_money [OF p(1) i(3) pos legal conf(1,2,4)]
  have "\<forall>q \<in> set (st_Players ?s). player_ok q \<and> live_ok q"
  proof
    fix q assume "q \<in> set (st_Players ?s)"
    then consider "q = acting_player s a ?p" | r where "r \<in> set (st_Players s)" "q = waiting_player a r"
      using apply_action_set [OF i(1)] by blast
    then show "player_ok q \<and> live_ok q"
      using M(1,2) ok(1) by cases (auto simp: running_def player_ok_def live_ok_def)
  qed
  moreover have "seats_ok ?s"
    using ok(1) apply_action_same [OF i(1), of hp_PlayerID a s] apply_action_same [OF i(1), of hp_SeatIndex a s]
    by (simp add: running_def seats_ok_def apply_action_fields)
  moreover have "getActivePlayers ?s \<noteq> []"
  proof -
    have "length (getActivePlayers s) \<le> length (getActivePlayers ?s) + 1"
      unfolding count_active apply_action_map [OF i(1), of "\<lambda>p. hp_Status p = PlayerStatusFolded", simplified]
      using k by (intro length_filter_update) simp
    with ok(2) show ?thesis by auto
  qed
  moreover have "0 \<le> st_CurrentBetSats ?s \<and> 0 < st_LastFullRaiseSats ?s \<and>
      st_MinRaiseToSats ?s = st_CurrentBetSats ?s + st_LastFullRaiseSats ?s"
    using conf M(6) by (auto simp: apply_action_fields)
  ultimately show "running (with_pot ?s)"
    using ok(1)
    by (auto simp: running_def seats_ok_def contributions_def recomputePot_sum getActivePlayers_def apply_action_fields)
  have sums: "(\<Sum>q\<leftarrow>st_Players ?s. f q) = (\<Sum>q\<leftarrow>st_Players s. f q) - f ?p + f (acting_player s a ?p)"
    if "\<And>q. f (waiting_player a q) = f q" for f :: "HoldemPlayerState \<Rightarrow> int"
    using k apply_action_map [where f = f, OF i(1)] that by (simp add: sum_list_update flip: map_update)
  show "chips (with_pot ?s) = chips s"
    using sums [of hp_StackSats] sums [of hp_TotalContributionSats] M(3)
    by (simp add: chips_def stacks_def contributions_def)
qed

lemma log_running:
  "running (s\<lparr>st_ActionLog := l\<rparr>) = running s" "chips (s\<lparr>st_ActionLog := l\<rparr>) = chips s"
  "getActivePlayers (s\<lparr>st_ActionLog := l\<rparr>) = getActivePlayers s"
  "allowed (s\<lparr>st_ActionLog := l\<rparr>) i p t v = allowed s i p t v"
proof -
  show "allowed (s\<lparr>st_ActionLog := l\<rparr>) i p t v = allowed s i p t v" by (cases t) simp_all
qed (simp_all add: running_def seats_ok_def contributions_def getActivePlayers_def chips_def stacks_def)

lemma apply_holdem_action_ok:
  assumes inv: "hand_inv s" and phase: "PhaseAllowsActions (st_Phase s)" and acting: "st_ActingSeatIndex s = Some i"
    and legal: "allowed s i (st_Players s ! nat i) (ac_Type a) (ac_TotalSats a)"
  shows "\<exists>s'. ApplyHoldemAction s i a = Inr s' \<and> hand_inv s' \<and> chips s' = chips s"
proof -
  have ns: "st_Phase s \<noteq> StreetSettled" using phase by (auto simp: PhaseAllowsActions_def)
  then have ok: "running s" "2 \<le> length (getActivePlayers s)"
    and i: "0 \<le> i" "i < seat_count s" "hp_Status (st_Players s ! nat i) = PlayerStatusActive"
    using inv acting by (auto simp: hand_inv_def turn_ok_def)
  define logged where "logged = s\<lparr>st_ActionLog := st_ActionLog s @
    [\<lparr>ar_ActorPlayerID = hp_PlayerID (st_Players s ! nat i), ar_Action = a, ar_Phase = st_Phase s\<rparr>]\<rparr>"
  have L: "running (with_pot (apply_action logged i a))" "chips (with_pot (apply_action logged i a)) = chips s"
    using apply_action_running [of logged i a] ok i legal by (simp_all add: logged_def log_running)
  have "expectLegal s i a = Inr ()" using expect_legal_iff [OF phase] i legal by blast
  then have "ApplyHoldemAction s i a = closeActionRoundIfNeeded (with_pot (apply_action logged i a)) i"
    using ns phase acting by (simp add: ApplyHoldemAction_def Let_def logged_def)
  moreover have "PhaseAllowsActions (st_Phase (with_pot (apply_action logged i a)))"
    using phase by (simp add: apply_action_fields logged_def)
  ultimately show ?thesis using close_action_round_ok [OF L(1) _ i(1)] L(2) by simp
qed

lemma apply_holdem_action_Inr:
  assumes "hand_inv s" and "ApplyHoldemAction s i a = Inr s'"
  shows "PhaseAllowsActions (st_Phase s)" and "st_ActingSeatIndex s = Some i"
    and "allowed s i (st_Players s ! nat i) (ac_Type a) (ac_TotalSats a)"
    and "hand_inv s'" and "chips s' = chips s"
proof -
  show p: "PhaseAllowsActions (st_Phase s)" and t: "st_ActingSeatIndex s = Some i"
    using assms(2) by (auto simp: ApplyHoldemAction_def split: if_splits option.splits)
  have "expectLegal s i a = Inr ()"
    using assms(2) by (auto simp: ApplyHoldemAction_def split: if_splits option.splits sum.splits)
  then show l: "allowed s i (st_Players s ! nat i) (ac_Type a) (ac_TotalSats a)"
    using expect_legal_iff [OF p] by blast
  show "hand_inv s'" "chips s' = chips s" using apply_holdem_action_ok [OF assms(1) p t l] assms(2) by auto
qed

end
