(* ===== verification/Holdem_Hands.thy ===== *)
theory Holdem_Hands
  imports Holdem_Invariant
begin

text \<open>
  The life of a hand: every operation of the engine keeps the invariant and conserves the chips
  (locale \<open>hand_operation\<close>, interpreted on each of them), the step relation made of the operations
  and of the protocol's phase changes, and the states reachable from a new hand.
\<close>

section \<open>Creating a hand\<close>

definition config_ok :: "HoldemHandConfig \<Rightarrow> bool" where
  "config_ok c \<longleftrightarrow>
     (\<forall>seat \<in> set (hc_Seats c). 0 < hsc_StackSats seat \<and> hsc_PlayerID seat \<noteq> []) \<and>
     distinct (map hsc_PlayerID (hc_Seats c))"

definition buy_ins :: "HoldemHandConfig \<Rightarrow> int" where
  "buy_ins c = (\<Sum>seat\<leftarrow>hc_Seats c. hsc_StackSats seat)"

definition config_accepted :: "HoldemHandConfig \<Rightarrow> bool" where
  "config_accepted c \<longleftrightarrow>
     2 \<le> length (hc_Seats c) \<and> 0 \<le> hc_DealerSeatIndex c \<and> hc_DealerSeatIndex c < int (length (hc_Seats c)) \<and>
     0 < hc_SmallBlindSats c \<and> 0 < hc_BigBlindSats c"

lemma initial_players:
  "length (st_Players (initial_hand c)) = length (hc_Seats c)"
  "j < length (hc_Seats c) \<Longrightarrow> st_Players (initial_hand c) ! j = new_player (int j) (hc_Seats c ! j)"
  by (simp_all add: initial_hand_def nth_enumerate_eq)

lemma map_initial_players:
  "(\<And>j seat. f (new_player j seat) = g seat) \<Longrightarrow> map f (st_Players (initial_hand c)) = map g (hc_Seats c)"
  by (intro nth_equalityI) (simp_all add: initial_players)

lemma new_player_simps [simp]:
  "hp_PlayerID (new_player j seat) = hsc_PlayerID seat" "hp_SeatIndex (new_player j seat) = j"
  "hp_StackSats (new_player j seat) = hsc_StackSats seat" "hp_TotalContributionSats (new_player j seat) = 0"
  "hp_RoundContributionSats (new_player j seat) = 0" "hp_Status (new_player j seat) = PlayerStatusActive"
  "\<not> hp_ActedThisRound (new_player j seat)"
  by (simp_all add: new_player_def)

lemma initial_seats_ok: "config_ok c \<Longrightarrow> config_accepted c \<Longrightarrow> seats_ok (initial_hand c)"
proof -
  assume c: "config_ok c" "config_accepted c"
  have "player_ids (st_Players (initial_hand c)) = map hsc_PlayerID (hc_Seats c)"
    by (rule map_initial_players) simp
  moreover have "map hp_SeatIndex (st_Players (initial_hand c)) = map int [0..<length (hc_Seats c)]"
    by (intro nth_equalityI) (simp_all add: initial_players)
  ultimately show ?thesis using c
    unfolding seats_ok_def initial_players(1) by (auto simp: config_ok_def config_accepted_def initial_hand_def)
qed

lemma post_blind_simps [simp]:
  "hp_PlayerID (post_blind b p) = hp_PlayerID p" "hp_SeatIndex (post_blind b p) = hp_SeatIndex p"
  "hp_StackSats (post_blind b p) = hp_StackSats p - b" "hp_TotalContributionSats (post_blind b p) = b"
  "hp_RoundContributionSats (post_blind b p) = b" "hp_ActedThisRound (post_blind b p) = hp_ActedThisRound p"
  "hp_Status (post_blind b p) = (if hp_StackSats p = b then PlayerStatusAllIn else hp_Status p)"
  by (simp_all add: post_blind_def Let_def)

definition posted ::
  "HoldemPlayerState list \<Rightarrow> int \<Rightarrow> int \<Rightarrow> int \<Rightarrow> int \<Rightarrow> HoldemPlayerState list" where
  "posted ps sb x bb y = update_seat bb (post_blind y) (update_seat sb (post_blind x) ps)"

lemma length_posted [simp]: "length (posted ps sb x bb y) = length ps"
  by (simp add: posted_def)

lemma nth_posted:
  assumes "0 \<le> sb" "0 \<le> bb" "sb \<noteq> bb" "j < length ps"
  shows "posted ps sb x bb y ! j =
    (if int j = bb then post_blind y (ps ! j) else if int j = sb then post_blind x (ps ! j) else ps ! j)"
  using assms by (auto simp: posted_def nth_list_update nat_eq_iff2)

lemma sum_posted:
  assumes "0 \<le> sb" "sb < int (length ps)" "0 \<le> bb" "bb < int (length ps)" "sb \<noteq> bb"
  shows "(\<Sum>p\<leftarrow>posted ps sb x bb y. f p) = (\<Sum>p\<leftarrow>ps. f p) + (f (post_blind x (ps ! nat sb)) - f (ps ! nat sb))
    + (f (post_blind y (ps ! nat bb)) - f (ps ! nat bb) :: int)"
proof -
  have "nat sb \<noteq> nat bb" "nat sb < length ps" "nat bb < length ps" using assms by auto
  then show ?thesis by (simp add: posted_def sum_list_update nth_list_update del: map_update)
qed

text \<open>A new hand: the configuration is accepted, and the stacks are split between stack and blinds.\<close>

lemma create_hand_eq:
  assumes c: "config_ok c" "config_accepted c"
  obtains sb bb x y where "CreateHoldemHand c = Inr ((initial_hand c)\<lparr>
      st_Players := posted (st_Players (initial_hand c)) sb x bb y,
      st_CurrentBetSats := y, st_MinRaiseToSats := y + hc_BigBlindSats c,
      st_LastFullRaiseSats := hc_BigBlindSats c, st_PotSats := x + y\<rparr>)"
    and "smallBlindSeatIndex (initial_hand c) = Inr sb" and "bigBlindSeatIndex (initial_hand c) = Inr bb"
    and "0 \<le> sb" "sb < int (length (hc_Seats c))" "0 \<le> bb" "bb < int (length (hc_Seats c))" "sb \<noteq> bb"
    and "x = min (hsc_StackSats (hc_Seats c ! nat sb)) (hc_SmallBlindSats c)"
    and "y = min (hsc_StackSats (hc_Seats c ! nat bb)) (hc_BigBlindSats c)"
proof -
  obtain sb bb where b: "smallBlindSeatIndex (initial_hand c) = Inr sb" "bigBlindSeatIndex (initial_hand c) = Inr bb"
    "0 \<le> sb" "sb < int (length (hc_Seats c))" "0 \<le> bb" "bb < int (length (hc_Seats c))" "sb \<noteq> bb"
    using blind_seats [OF initial_seats_ok [OF c]] initial_players(1) by metis
  have ix: "go_index (st_Players (initial_hand c)) sb = Inr (new_player sb (hc_Seats c ! nat sb))"
    "go_index (st_Players (initial_hand c)) bb = Inr (new_player bb (hc_Seats c ! nat bb))"
    using b by (simp_all add: initial_players nat_less_iff)
  show ?thesis
    by (rule that [where sb = sb and bb = bb, OF _ b refl refl])
      (use c(2) b(1,2) ix in \<open>simp add: CreateHoldemHand_def Let_def config_accepted_def posted_def\<close>)
qed

definition new_hand_ok :: "HoldemPlayerState \<Rightarrow> bool" where
  "new_hand_ok q \<longleftrightarrow> player_ok q \<and> live_ok q \<and> \<not> hp_ActedThisRound q \<and> hp_Status q \<noteq> PlayerStatusFolded"

lemma post_blind_new:
  "0 < b \<Longrightarrow> b \<le> hsc_StackSats seat \<Longrightarrow> new_hand_ok (post_blind b (new_player j seat))"
  "0 < hsc_StackSats seat \<Longrightarrow> new_hand_ok (new_player j seat)"
  by (auto simp: new_hand_ok_def player_ok_def live_ok_def)

lemma create_hand_ok:
  assumes c: "config_ok c" "config_accepted c"
  shows "\<exists>s. CreateHoldemHand c = Inr s \<and> hand_inv s \<and> chips s = buy_ins c \<and> st_Phase s = StreetCommitment \<and>
    length (st_Players s) = length (hc_Seats c)"
proof (rule create_hand_eq [OF c])
  fix sb bb x y
  let ?i = "initial_hand c"
  let ?ps = "posted (st_Players ?i) sb x bb y"
  let ?s = "?i\<lparr>st_Players := ?ps, st_CurrentBetSats := y, st_MinRaiseToSats := y + hc_BigBlindSats c,
      st_LastFullRaiseSats := hc_BigBlindSats c, st_PotSats := x + y\<rparr>"
  assume eq: "CreateHoldemHand c = Inr ?s"
    and b: "0 \<le> sb" "sb < int (length (hc_Seats c))" "0 \<le> bb" "bb < int (length (hc_Seats c))" "sb \<noteq> bb"
    and xy: "x = min (hsc_StackSats (hc_Seats c ! nat sb)) (hc_SmallBlindSats c)"
      "y = min (hsc_StackSats (hc_Seats c ! nat bb)) (hc_BigBlindSats c)"
  have seat: "0 < hsc_StackSats (hc_Seats c ! j)" if "j < length (hc_Seats c)" for j
    using c(1) that by (simp add: config_ok_def)
  have pos: "0 < x" "0 < y" "x \<le> hsc_StackSats (hc_Seats c ! nat sb)" "y \<le> hsc_StackSats (hc_Seats c ! nat bb)"
    using c seat b xy by (auto simp: config_accepted_def nat_less_iff)
  have nth: "?ps ! j = (if int j = bb then post_blind y (new_player bb (hc_Seats c ! j))
      else if int j = sb then post_blind x (new_player sb (hc_Seats c ! j))
      else new_player (int j) (hc_Seats c ! j))" if "j < length (hc_Seats c)" for j
    using that b by (simp add: nth_posted initial_players)
  have ok: "new_hand_ok q" if "q \<in> set ?ps" for q
    using that pos seat by (auto simp: in_set_conv_nth initial_players(1) nth post_blind_new)
  have sums: "stacks ?s = buy_ins c - x - y" "contributions ?s = x + y"
  proof -
    have "map hp_StackSats (st_Players ?i) = map hsc_StackSats (hc_Seats c)"
      "map hp_TotalContributionSats (st_Players ?i) = map (\<lambda>_. 0) (hc_Seats c)"
      by (rule map_initial_players; simp)+
    then show "stacks ?s = buy_ins c - x - y" "contributions ?s = x + y"
      using b by (simp_all add: stacks_def contributions_def buy_ins_def sum_posted initial_players nat_less_iff)
  qed
  have "player_ids ?ps = player_ids (st_Players ?i)" "map hp_SeatIndex ?ps = map hp_SeatIndex (st_Players ?i)"
    using b by (auto intro!: nth_equalityI simp: nth_posted)
  then have "seats_ok ?s" using initial_seats_ok [OF c] by (simp add: seats_ok_def initial_hand_def)
  moreover have "getActivePlayers ?s = ?ps"
    unfolding getActivePlayers_def using ok by (simp add: filter_id_conv new_hand_ok_def)
  moreover have "2 \<le> length ?ps" using c(2) by (simp add: initial_players(1) config_accepted_def)
  moreover from this have "?ps \<noteq> []" by (metis list.size(3) not_numeral_le_zero)
  ultimately have "running ?s"
    using ok sums(2) pos(2) c(2) by (auto simp: running_def new_hand_ok_def config_accepted_def initial_hand_def)
  moreover have "turn_ok ?s"
    using ok by (auto simp: turn_ok_def initial_hand_def PhaseAllowsActions_def getPlayersAbleToAct_def new_hand_ok_def)
  ultimately have "hand_inv ?s"
    using \<open>getActivePlayers ?s = ?ps\<close> \<open>2 \<le> length ?ps\<close> by (simp add: hand_inv_def initial_hand_def)
  then show ?thesis using eq sums by (simp add: chips_def initial_hand_def)
qed

section \<open>Starting, dealing and closing a hand\<close>

text \<open>What no operation changes: who sits where, the dealer and the blinds.\<close>

definition table_of :: "HoldemState \<Rightarrow> (string \<times> int) list \<times> int \<times> int \<times> int" where
  "table_of s = (map (\<lambda>p. (hp_PlayerID p, hp_SeatIndex p)) (st_Players s), st_DealerSeatIndex s,
     st_SmallBlindSats s, st_BigBlindSats s)"

lemma getPlayersAbleToAct_wants:
  "\<forall>p \<in> set (st_Players s). hp_Status p = PlayerStatusActive \<longrightarrow> \<not> hp_ActedThisRound p \<Longrightarrow>
   \<forall>p \<in> set (st_Players s). \<not> wants_turn s p \<Longrightarrow> getPlayersAbleToAct s = []"
  by (auto simp: getPlayersAbleToAct_def filter_empty_conv needs_action_def)

lemma activate_ok:
  assumes inv: "hand_inv s" and phase: "st_Phase s \<in> starting_phases"
  shows "\<exists>s'. ActivateHoldemHand s = Inr s' \<and> hand_inv s' \<and> chips s' = chips s"
proof -
  let ?s = "s\<lparr>st_Phase := StreetPreflop\<rparr>"
  have ns: "st_Phase s \<noteq> StreetSettled" using phase by (auto simp: starting_phases_def)
  then have run: "running s" "2 \<le> length (getActivePlayers s)" and t: "turn_ok s" using inv by (auto simp: hand_inv_def)
  have "board_size (st_Phase s) = Some 0" using phase by (auto simp: starting_phases_def)
  then have ok: "running ?s" "2 \<le> length (getActivePlayers ?s)" "PhaseAllowsActions (st_Phase ?s)" "chips ?s = chips s"
    using run by (auto simp: running_def seats_ok_def contributions_def stacks_def chips_def getActivePlayers_def
        PhaseAllowsActions_def)
  have fresh: "\<forall>p \<in> set (st_Players ?s). hp_Status p = PlayerStatusActive \<longrightarrow> \<not> hp_ActedThisRound p"
    using t phase by (auto simp: turn_ok_def getPlayersAbleToAct_def PhaseAllowsActions_def starting_phases_def
        split: option.splits)
  have seats: "seats_ok ?s" using ok(1) by (simp add: running_def)
  show ?thesis
  proof (rule open_street_ok [OF seats ok(3), of StreetPreflop])
    fix r
    assume r: "open_street ?s StreetPreflop = Inr (?s\<lparr>st_ActingSeatIndex := r\<rparr>)"
      "r = None \<Longrightarrow> \<forall>p \<in> set (st_Players ?s). \<not> wants_turn ?s p"
      "\<And>i. r = Some i \<Longrightarrow> 0 \<le> i \<and> i < seat_count ?s \<and> wants_turn ?s (st_Players ?s ! nat i)"
    have "hand_inv (?s\<lparr>st_ActingSeatIndex := r\<rparr>)" "chips (?s\<lparr>st_ActingSeatIndex := r\<rparr>) = chips ?s"
      using set_acting_ok [OF ok(1-3) _ r(3)] getPlayersAbleToAct_wants [OF fresh] r(2) by auto
    with r(1) ok(4) phase show ?thesis by (auto simp: ActivateHoldemHand_def starting_phases_def)
  qed
qed

lemma street_player_simps [simp]:
  "hp_PlayerID (street_player p) = hp_PlayerID p" "hp_SeatIndex (street_player p) = hp_SeatIndex p"
  "hp_StackSats (street_player p) = hp_StackSats p" "hp_Status (street_player p) = hp_Status p"
  "hp_TotalContributionSats (street_player p) = hp_TotalContributionSats p"
  "hp_RoundContributionSats (street_player p) = 0"
  "hp_ActedThisRound (street_player p) \<longleftrightarrow> hp_Status p \<noteq> PlayerStatusActive"
  by (simp_all add: street_player_def)

definition new_street :: "HoldemState \<Rightarrow> Street \<Rightarrow> CardCode list \<Rightarrow> HoldemState" where
  "new_street s phase board =
     s\<lparr>st_Board := board, st_Players := map street_player (st_Players s), st_CurrentBetSats := 0,
       st_LastFullRaiseSats := st_BigBlindSats s, st_MinRaiseToSats := st_BigBlindSats s,
       st_RaiseLockedSeatIndex := None, st_Phase := phase\<rparr>"

lemma new_street_simps [simp]:
  "st_Players (new_street s phase board) = map street_player (st_Players s)"
  "st_Phase (new_street s phase board) = phase" "st_Board (new_street s phase board) = board"
  "st_CurrentBetSats (new_street s phase board) = 0" "st_DealerSeatIndex (new_street s phase board) = st_DealerSeatIndex s"
  by (simp_all add: new_street_def)

lemma new_street_ok:
  assumes "running s" and "2 \<le> length (getActivePlayers s)" and "board_size phase = Some (length board)"
  shows "running (new_street s phase board)" and "2 \<le> length (getActivePlayers (new_street s phase board))"
    and "chips (new_street s phase board) = chips s"
proof -
  have act: "getActivePlayers (new_street s phase board) = map street_player (getActivePlayers s)"
    by (simp add: getActivePlayers_def filter_map comp_def)
  then show "2 \<le> length (getActivePlayers (new_street s phase board))" using assms(2) by simp
  show "running (new_street s phase board)"
    using assms act by (auto simp: running_def seats_ok_def new_street_def contributions_def comp_def player_ok_def live_ok_def)
  show "chips (new_street s phase board) = chips s"
    by (simp add: chips_def stacks_def contributions_def comp_def)
qed

text \<open>The streets a board can be dealt for, with the cards each takes and the board it gives.\<close>

fun deals :: "HoldemState \<Rightarrow> CardCode list \<Rightarrow> (Street \<times> CardCode list) option" where
  "deals s cards =
     (case st_Phase s of
        StreetFlopReveal \<Rightarrow> if length cards = 3 then Some (StreetFlop, cards) else None
      | StreetTurnReveal \<Rightarrow> if length cards = 1 then Some (StreetTurn, st_Board s @ cards) else None
      | StreetRiverReveal \<Rightarrow> if length cards = 1 then Some (StreetRiver, st_Board s @ cards) else None
      | _ \<Rightarrow> None)"

declare deals.simps [simp del]

lemma deal_board_eq:
  "deal_board s cards = (case deals s cards of None \<Rightarrow> deal_board s cards
     | Some (phase, board) \<Rightarrow> open_street (new_street s phase board) phase)"
  by (auto simp: deals.simps deal_board_def resetStreetState_def new_street_def length_Suc_conv
      split: Street.split)

lemma deal_board_error: "deals s cards = None \<Longrightarrow> \<exists>m. deal_board s cards = Inl (Err m)"
  by (auto simp: deals.simps deal_board_def split: Street.splits if_splits)

lemma deals_phase:
  "deals s cards = Some (phase, board) \<Longrightarrow> PhaseAllowsActions phase \<and> phase \<noteq> StreetPreflop \<and>
     (board_size (st_Phase s) = Some (length (st_Board s)) \<longrightarrow> board_size phase = Some (length board))"
  by (auto simp: deals.simps PhaseAllowsActions_def split: Street.splits if_splits)

lemma apply_board_ok:
  assumes inv: "hand_inv s" and deal: "deals s cards = Some (phase, board)"
  shows "\<exists>s'. ApplyBoardCards s cards = Inr s' \<and> hand_inv s' \<and> chips s' = chips s"
proof -
  let ?s = "new_street s phase board"
  have "st_Phase s \<noteq> StreetSettled" using deal by (auto simp: deals.simps)
  then have run: "running s" "2 \<le> length (getActivePlayers s)" using inv by (auto simp: hand_inv_def)
  have ph: "PhaseAllowsActions phase" "board_size phase = Some (length board)"
    using deals_phase [OF deal] run(1) by (auto simp: running_def)
  note ok = new_street_ok [OF run ph(2)]
  have seats: "seats_ok ?s" using ok(1) by (simp add: running_def)
  have fresh: "\<forall>p \<in> set (st_Players ?s). hp_Status p = PlayerStatusActive \<longrightarrow> \<not> hp_ActedThisRound p" by simp
  show ?thesis
  proof (rule open_street_ok [OF seats, of phase])
    show "PhaseAllowsActions (st_Phase ?s)" using ph(1) by simp
    fix r
    assume r: "open_street ?s phase = Inr (?s\<lparr>st_ActingSeatIndex := r\<rparr>)"
      "r = None \<Longrightarrow> \<forall>p \<in> set (st_Players ?s). \<not> wants_turn ?s p"
      "\<And>i. r = Some i \<Longrightarrow> 0 \<le> i \<and> i < seat_count ?s \<and> wants_turn ?s (st_Players ?s ! nat i)"
    let ?t = "?s\<lparr>st_ActingSeatIndex := r\<rparr>"
    have dealt: "deal_board (cloneState s) cards = Inr ?t" using deal r(1) by (subst deal_board_eq) simp
    show ?thesis
    proof (cases "getPlayersAbleToAct ?s = []")
      case True
      have "0 \<le> st_DealerSeatIndex ?t" using seats by (simp add: seats_ok_def)
      then show ?thesis
        using close_action_round_ok [of ?t "st_DealerSeatIndex ?t"] ph(1) ok(1,3) True dealt
        by (simp add: ApplyBoardCards_def acting_irrelevant)
    next
      case False
      then have "r \<noteq> None" using getPlayersAbleToAct_wants [OF fresh] r(2) by blast
      then have "hand_inv ?t" using set_acting_ok [OF ok(1,2) _ _ r(3)] ph(1) by auto
      with dealt False ok(3) show ?thesis by (simp add: ApplyBoardCards_def acting_irrelevant)
    qed
  qed
qed

lemma folded_seat_running:
  assumes "running s" and "0 \<le> i" "i < seat_count s"
  defines "t \<equiv> s\<lparr>st_Players := update_seat i (\<lambda>p. p\<lparr>hp_Status := PlayerStatusFolded, hp_ActedThisRound := True\<rparr>)
      (st_Players s), st_ActingSeatIndex := None\<rparr>"
  assumes "getActivePlayers t \<noteq> []"
  shows "running t" and "chips t = chips s"
proof -
  let ?q = "(st_Players s ! nat i)\<lparr>hp_Status := PlayerStatusFolded, hp_ActedThisRound := True\<rparr>"
  have k: "nat i < length (st_Players s)" using assms(2,3) by simp
  have same: "map f (st_Players t) = map f (st_Players s)" if "f ?q = f (st_Players s ! nat i)" for f :: "HoldemPlayerState \<Rightarrow> 'b"
    using k that by (simp add: t_def map_update) (metis list_update_id length_map nth_map)
  have "player_ok q \<and> live_ok q" if "q \<in> set (st_Players t)" for q
  proof -
    have "q = ?q \<or> q \<in> set (st_Players s)" using that set_update_subset_insert by (fastforce simp: t_def)
    moreover have "player_ok (st_Players s ! nat i)" using assms(1) k by (simp add: running_def)
    ultimately show ?thesis using assms(1) by (auto simp: running_def player_ok_def live_ok_def)
  qed
  moreover have "seats_ok t"
    using assms(1) same [of hp_PlayerID] same [of hp_SeatIndex] by (simp add: running_def seats_ok_def t_def)
  moreover have totals: "contributions t = contributions s" "stacks t = stacks s"
    using same [of hp_TotalContributionSats] same [of hp_StackSats] by (simp_all add: contributions_def stacks_def)
  ultimately show "running t" using assms(1,5) by (simp add: running_def) (simp add: t_def)
  show "chips t = chips s" using totals by (simp add: chips_def)
qed

lemma force_fold_ok:
  assumes inv: "hand_inv s" and fin: "ForceFoldSeat s i = Inr s'"
  shows "hand_inv s'" and "chips s' = chips s" and "st_Phase s' = StreetSettled"
proof -
  let ?t = "s\<lparr>st_Players := update_seat i (\<lambda>p. p\<lparr>hp_Status := PlayerStatusFolded, hp_ActedThisRound := True\<rparr>)
      (st_Players s), st_ActingSeatIndex := None\<rparr>"
  have i: "0 \<le> i" "i < seat_count s" and ns: "st_Phase s \<noteq> StreetSettled" and t: "settleByFold ?t = Inr s'"
    using fin by (auto simp: ForceFoldSeat_def Let_def split: if_splits)
  then have run: "running s" using inv by (simp add: hand_inv_def)
  have one: "length (getActivePlayers ?t) = 1" using t by (auto simp: settleByFold_def Let_def split: if_splits)
  then have ne: "getActivePlayers ?t \<noteq> []" by auto
  note ok = folded_seat_running [OF run i ne]
  show "hand_inv s'" "chips s' = chips s" "st_Phase s' = StreetSettled"
    using settle_by_fold_ok [OF ok(1) one] ok(2) t by auto
qed

section \<open>The showdown\<close>

text \<open>With a full board and the hole cards of every contender the scoring succeeds.\<close>

lemma score_contenders_ok:
  assumes "length board = 5" and "\<forall>p \<in> set cs. map_of holeCards (hp_PlayerID p) \<noteq> None"
    and "distinct (player_ids cs)"
  shows "\<exists>shown' scores'. score_contenders board holeCards cs (shown, scores) = Inr (shown', scores') \<and>
    (\<forall>p \<in> set cs. \<exists>a b score. map_of holeCards (hp_PlayerID p) = Some (a, b) \<and>
       ScoreSevenCardHand ([a, b] @ board) = Inr score \<and> map_of scores' (hp_PlayerID p) = Some score) \<and>
    (\<forall>k. k \<notin> set (player_ids cs) \<longrightarrow> map_of scores' k = map_of scores k)"
  using assms(2,3)
proof (induction cs arbitrary: shown scores)
  case (Cons p cs)
  obtain a b where ab: "map_of holeCards (hp_PlayerID p) = Some (a, b)" using Cons.prems by fastforce
  obtain score where sc: "ScoreSevenCardHand ([a, b] @ board) = Inr score"
    using score_seven_ok [of "[a, b] @ board"] assms(1) by auto
  let ?shown = "AList.update (hp_PlayerID p) score shown" and ?scores = "AList.update (hp_PlayerID p) score scores"
  have step: "score_contenders board holeCards (p # cs) (shown, scores) = score_contenders board holeCards cs (?shown, ?scores)"
    using ab sc by simp
  from Cons.IH [of ?shown ?scores] Cons.prems obtain shown' scores' where
    IH: "score_contenders board holeCards cs (?shown, ?scores) = Inr (shown', scores')"
      "\<forall>p \<in> set cs. \<exists>a b score. map_of holeCards (hp_PlayerID p) = Some (a, b) \<and>
         ScoreSevenCardHand ([a, b] @ board) = Inr score \<and> map_of scores' (hp_PlayerID p) = Some score"
      "\<forall>k. k \<notin> set (player_ids cs) \<longrightarrow> map_of scores' k = map_of ?scores k"
    by auto
  have "map_of scores' (hp_PlayerID p) = Some score" using IH(3) Cons.prems(2) by (simp add: update_conv')
  then show ?case unfolding step using IH ab sc by (intro exI [of _ shown'] exI [of _ scores']) (auto simp: update_conv')
qed simp

lemma score_contenders_error:
  "length board = 5 \<Longrightarrow> score_contenders board holeCards cs acc = Inl e \<Longrightarrow> \<exists>m. e = Err m"
proof (induction cs arbitrary: acc)
  case (Cons p cs)
  obtain shown scores where acc: "acc = (shown, scores)" by fastforce
  show ?case
  proof (cases "map_of holeCards (hp_PlayerID p)")
    case (Some ab)
    obtain a b where ab: "ab = (a, b)" by fastforce
    obtain score where "ScoreSevenCardHand ([a, b] @ board) = Inr score"
      using score_seven_ok [of "[a, b] @ board"] Cons.prems(1) by auto
    then show ?thesis using Cons.IH [OF Cons.prems(1)] Cons.prems(2) Some by (simp add: acc ab)
  qed (use Cons.prems(2) in \<open>auto simp: acc\<close>)
qed simp

definition dealer_nat :: "HoldemState \<Rightarrow> nat" where
  "dealer_nat s = nat (st_DealerSeatIndex s)"

lemma showdown_facts:
  assumes "hand_inv s" and "st_Phase s = StreetShowdownReveal"
  shows "settleable (st_Players s)" and "st_DealerSeatIndex s = int (dealer_nat s)"
    and "contenders (st_Players s) \<noteq> []" and "length (st_Board s) = 5"
    and "seats_ok s" and "\<forall>p \<in> set (st_Players s). player_ok p" and "distinct (player_ids (contenders (st_Players s)))"
  using assms running_settleable [of s]
  by (auto simp: hand_inv_def running_def seats_ok_def dealer_nat_def getActivePlayers_contenders
      contenders_def distinct_map_filter)

lemma settle_showdown_ok:
  assumes inv: "hand_inv s" and fin: "SettleHoldemShowdown s holeCards = Inr s'"
  shows "hand_inv s'" and "chips s' = chips s" and "st_Phase s' = StreetSettled"
proof -
  have ph: "st_Phase s = StreetShowdownReveal" and t: "settleShowdown s holeCards = Inr s'"
    using fin by (auto simp: SettleHoldemShowdown_def split: if_splits)
  note F = showdown_facts [OF inv ph]
  obtain d winners shown scores where d: "derived (st_Players s) d"
    "s' = settled_state (showdown_share scores (dealer_nat s)) d winners (s\<lparr>st_ShowdownScores := shown\<rparr>)"
    using settle_showdown_Inr [OF F(1,2) t] by blast
  let ?s = "s\<lparr>st_ShowdownScores := shown\<rparr>"
  have "seats_ok ?s" "\<forall>p \<in> set (st_Players ?s). player_ok p" "derived (st_Players ?s) d"
    using F(5,6) d(1) by (simp_all add: seats_ok_def)
  note S = by_showdown.settled_state_inv [OF this, of scores "dealer_nat s" winners]
  show ph': "st_Phase s' = StreetSettled" by (simp add: d(2) settled_state_def)
  show "hand_inv s'" using S(1) ph' by (simp add: hand_inv_def d(2))
  show "chips s' = chips s" using S(2) by (simp add: d(2) chips_def stacks_def contributions_def)
qed

section \<open>The contract of an operation\<close>

text \<open>
  What a client of the engine relies on: an operation applied to a sound hand either refuses with an
  error or returns a sound hand with the same chips at the same seats; it never panics.
\<close>

lemma settled_contributions: "settled s \<Longrightarrow> contributions s = 0"
  by (simp add: contributions_def settled_def cong: map_cong)

locale hand_operation =
  fixes op :: "HoldemState \<Rightarrow> HoldemState res"
  assumes keeps_inv: "hand_inv s \<Longrightarrow> op s = Inr s' \<Longrightarrow> hand_inv s'"
    and keeps_chips: "hand_inv s \<Longrightarrow> op s = Inr s' \<Longrightarrow> chips s' = chips s"
    and never_panics: "hand_inv s \<Longrightarrow> no_panic (op s)"
begin

lemma refuses_or_keeps:
  assumes "hand_inv s"
  shows "(\<exists>m. op s = Inl (Err m)) \<or> (\<exists>s'. op s = Inr s' \<and> hand_inv s' \<and> chips s' = chips s)"
proof (cases "op s")
  case (Inl e)
  then show ?thesis using never_panics [OF assms] by (cases e) auto
next
  case (Inr s')
  then show ?thesis using keeps_inv [OF assms] keeps_chips [OF assms] by blast
qed

lemma after_settlement:
  "hand_inv s \<Longrightarrow> op s = Inr s' \<Longrightarrow> st_Phase s' = StreetSettled \<Longrightarrow> stacks s' = chips s \<and> st_PotSats s' = 0"
proof -
  assume "hand_inv s" "op s = Inr s'" "st_Phase s' = StreetSettled"
  moreover from this have "settled s'" using keeps_inv by (auto simp: hand_inv_def)
  ultimately show ?thesis
    using keeps_chips [of s s'] settled_contributions [of s'] by (simp add: chips_def settled_def)
qed

end

lemma hand_operationI:
  assumes "\<And>s. hand_inv s \<Longrightarrow> (\<exists>m. f s = Inl (Err m)) \<or> (\<exists>s'. f s = Inr s' \<and> hand_inv s' \<and> chips s' = chips s)"
  shows "hand_operation f"
proof
  fix s s'
  assume inv: "hand_inv s"
  show "no_panic (f s)" using assms [OF inv] by auto
  show "hand_inv s'" "chips s' = chips s" if "f s = Inr s'" using assms [OF inv] that by auto
qed

interpretation activate: hand_operation ActivateHoldemHand
proof (rule hand_operationI)
  fix s assume "hand_inv s"
  then show "(\<exists>m. ActivateHoldemHand s = Inl (Err m)) \<or>
      (\<exists>s'. ActivateHoldemHand s = Inr s' \<and> hand_inv s' \<and> chips s' = chips s)"
    using activate_ok [of s]
    by (cases "st_Phase s \<in> starting_phases") (auto simp: ActivateHoldemHand_def starting_phases_def)
qed

interpretation board: hand_operation "\<lambda>s. ApplyBoardCards s cards" for cards
proof (rule hand_operationI)
  fix s assume inv: "hand_inv s"
  show "(\<exists>m. ApplyBoardCards s cards = Inl (Err m)) \<or>
      (\<exists>s'. ApplyBoardCards s cards = Inr s' \<and> hand_inv s' \<and> chips s' = chips s)"
  proof (cases "deals s cards")
    case None
    then show ?thesis using deal_board_error [of s cards] by (auto simp: ApplyBoardCards_def)
  qed (use apply_board_ok [OF inv] in auto)
qed

interpretation force_fold: hand_operation "\<lambda>s. ForceFoldSeat s i" for i
proof (rule hand_operationI)
  fix s assume inv: "hand_inv s"
  show "(\<exists>m. ForceFoldSeat s i = Inl (Err m)) \<or> (\<exists>s'. ForceFoldSeat s i = Inr s' \<and> hand_inv s' \<and> chips s' = chips s)"
  proof (cases "ForceFoldSeat s i")
    case (Inl e)
    let ?t = "s\<lparr>st_Players := update_seat i (\<lambda>p. p\<lparr>hp_Status := PlayerStatusFolded, hp_ActedThisRound := True\<rparr>)
        (st_Players s), st_ActingSeatIndex := None\<rparr>"
    show ?thesis
    proof (cases "st_Phase s \<noteq> StreetSettled \<and> 0 \<le> i \<and> i < seat_count s \<and> length (getActivePlayers ?t) = 1")
      case True
      then have "running s" and "getActivePlayers ?t \<noteq> []" using inv by (auto simp: hand_inv_def)
      then have "running ?t" using folded_seat_running(1) True by blast
      then have "is_ok (settleByFold ?t)" using settle_by_fold_ok [of ?t] True by (auto simp: is_ok_iff)
      then show ?thesis using Inl True by (auto simp: ForceFoldSeat_def Let_def is_ok_iff split: if_splits)
    qed (use Inl in \<open>auto simp: ForceFoldSeat_def Let_def settleByFold_def split: if_splits\<close>)
  qed (use force_fold_ok [OF inv] in blast)
qed

interpretation showdown: hand_operation "\<lambda>s. SettleHoldemShowdown s holeCards" for holeCards
proof (rule hand_operationI)
  fix s assume inv: "hand_inv s"
  show "(\<exists>m. SettleHoldemShowdown s holeCards = Inl (Err m)) \<or>
      (\<exists>s'. SettleHoldemShowdown s holeCards = Inr s' \<and> hand_inv s' \<and> chips s' = chips s)"
  proof (cases "st_Phase s = StreetShowdownReveal")
    case True
    note F = showdown_facts [OF inv True]
    show ?thesis
    proof (cases "score_contenders (st_Board s) holeCards (contenders (st_Players s)) (st_ShowdownScores s, [])")
      case (Inl e)
      then show ?thesis
        using score_contenders_error [OF F(4) Inl] F(3) True
        by (auto simp: SettleHoldemShowdown_def settleShowdown_def getActivePlayers_contenders Let_def)
    next
      case (Inr r)
      then obtain shown scores where "score_contenders (st_Board s) holeCards (contenders (st_Players s))
          (st_ShowdownScores s, []) = Inr (shown, scores)" by (cases r) auto
      from settle_showdown [OF F(1-3) this] settle_showdown_ok [OF inv, of holeCards] True show ?thesis
        by (auto simp: SettleHoldemShowdown_def)
    qed
  qed (simp add: SettleHoldemShowdown_def)
qed

lemma action_refused:
  assumes "hand_inv s" and "ApplyHoldemAction s i a = Inl e"
  shows "\<exists>m. e = Err m"
proof (cases "PhaseAllowsActions (st_Phase s) \<and> st_ActingSeatIndex s = Some i \<and> expectLegal s i a = Inr ()")
  case True
  then have "allowed s i (st_Players s ! nat i) (ac_Type a) (ac_TotalSats a)" using expect_legal_iff by blast
  with apply_holdem_action_ok [OF assms(1), of i a] True assms(2) show ?thesis by auto
next
  case False
  with assms(2) expect_legal_error show ?thesis
    by (auto simp: ApplyHoldemAction_def PhaseAllowsActions_def split: if_splits option.splits sum.splits)
qed

interpretation act: hand_operation "\<lambda>s. ApplyHoldemAction s i a" for i a
proof (rule hand_operationI)
  fix s assume inv: "hand_inv s"
  show "(\<exists>m. ApplyHoldemAction s i a = Inl (Err m)) \<or> (\<exists>s'. ApplyHoldemAction s i a = Inr s' \<and> hand_inv s' \<and> chips s' = chips s)"
    using action_refused [OF inv, of i a] apply_holdem_action_Inr(4,5) [OF inv, of i a]
    by (cases "ApplyHoldemAction s i a") auto
qed

section \<open>Reachable hands\<close>

text \<open>
  The steps of a hand: the engine's operations and the two phase changes the card protocol makes
  before the betting starts (\<open>advanceHandProtocolLocked\<close> in \<open>internal/meshruntime/hand.go\<close>).
\<close>

inductive hand_step :: "HoldemState \<Rightarrow> HoldemState \<Rightarrow> bool" where
  reveal: "st_Phase s = StreetCommitment \<Longrightarrow> hand_step s (s\<lparr>st_Phase := StreetReveal\<rparr>)"
| deliver: "st_Phase s = StreetReveal \<Longrightarrow> hand_step s (s\<lparr>st_Phase := StreetPrivateDelivery\<rparr>)"
| activate: "ActivateHoldemHand s = Inr s' \<Longrightarrow> hand_step s s'"
| act: "ApplyHoldemAction s i a = Inr s' \<Longrightarrow> hand_step s s'"
| board: "ApplyBoardCards s cards = Inr s' \<Longrightarrow> hand_step s s'"
| force_fold: "ForceFoldSeat s i = Inr s' \<Longrightarrow> hand_step s s'"
| showdown: "SettleHoldemShowdown s holeCards = Inr s' \<Longrightarrow> hand_step s s'"

inductive reachable :: "HoldemHandConfig \<Rightarrow> HoldemState \<Rightarrow> bool" for c where
  create: "CreateHoldemHand c = Inr s \<Longrightarrow> reachable c s"
| step: "reachable c s \<Longrightarrow> hand_step s s' \<Longrightarrow> reachable c s'"

lemma protocol_phase_ok:
  assumes "hand_inv s" "st_Phase s \<in> starting_phases" "phase \<in> starting_phases"
  shows "hand_inv (s\<lparr>st_Phase := phase\<rparr>)" and "chips (s\<lparr>st_Phase := phase\<rparr>) = chips s"
proof -
  have "st_Phase s \<noteq> StreetSettled" "phase \<noteq> StreetSettled" "board_size phase = board_size (st_Phase s)"
    "\<not> PhaseAllowsActions phase" "\<not> PhaseAllowsActions (st_Phase s)"
    using assms(2,3) by (auto simp: starting_phases_def PhaseAllowsActions_def)
  then show "hand_inv (s\<lparr>st_Phase := phase\<rparr>)"
    using assms
    by (auto simp: hand_inv_def running_def seats_ok_def contributions_def getActivePlayers_def turn_ok_def
        getPlayersAbleToAct_def split: option.splits)
qed (simp add: chips_def stacks_def contributions_def)

lemma hand_step_inv: "hand_step s s' \<Longrightarrow> hand_inv s \<Longrightarrow> hand_inv s' \<and> chips s' = chips s"
proof (induction rule: hand_step.induct)
  case (reveal s)
  then show ?case using protocol_phase_ok [of s StreetReveal] by (simp add: starting_phases_def)
next
  case (deliver s)
  then show ?case using protocol_phase_ok [of s StreetPrivateDelivery] by (simp add: starting_phases_def)
qed (blast intro: activate.keeps_inv activate.keeps_chips act.keeps_inv act.keeps_chips board.keeps_inv
    board.keeps_chips force_fold.keeps_inv force_fold.keeps_chips showdown.keeps_inv showdown.keeps_chips)+

lemma create_accepted: "CreateHoldemHand c = Inr s \<Longrightarrow> config_accepted c"
  by (auto simp: CreateHoldemHand_def config_accepted_def split: if_splits)

lemma reachable_inv:
  assumes "config_ok c" and "reachable c s"
  shows "hand_inv s \<and> chips s = buy_ins c"
  using assms(2)
proof (induction rule: reachable.induct)
  case (create s)
  then show ?case using create_hand_ok [OF assms(1) create_accepted [OF create]] by auto
next
  case (step s s')
  then show ?case using hand_step_inv by metis
qed

section \<open>The deal plan of the two dealer seats\<close>

definition deal_plan :: "int \<Rightarrow> HoldemDealPlan" where
  "deal_plan dealer = \<lparr>dp_BoardPositionsByPhase =
        [(StreetFlopReveal, [5, 6, 7]), (StreetTurnReveal, [9]), (StreetRiverReveal, [11])],
      dp_HoleCardPositionsBySeat = (if dealer = 0 then [(0, [0, 2]), (1, [1, 3])] else [(0, [1, 3]), (1, [0, 2])])\<rparr>"

lemma deal_plan: "dealer \<in> {0, 1} \<Longrightarrow> HoldemDealPositions dealer = Inr (deal_plan dealer)"
proof -
  assume "dealer \<in> {0, 1}"
  then consider "dealer = 0" | "dealer = 1" by blast
  then show ?thesis by cases (simp; code_simp)+
qed

section \<open>An example hand\<close>

text \<open>
  A heads-up hand from the blinds to the showdown: a limp, a bet and a call on the flop, two checked
  streets. An operation that refuses leaves the state, so the states are reachable by construction.
\<close>

definition ok_of :: "HoldemState res \<Rightarrow> HoldemState \<Rightarrow> HoldemState" where
  "ok_of r s = (case r of Inl _ \<Rightarrow> s | Inr s' \<Rightarrow> s')"

lemma reachable_ok_of:
  assumes "reachable c s"
  shows "reachable c (ok_of (ActivateHoldemHand s) s)" and "reachable c (ok_of (ApplyHoldemAction s i a) s)"
    and "reachable c (ok_of (ApplyBoardCards s cards) s)" and "reachable c (ok_of (SettleHoldemShowdown s holeCards) s)"
  using assms by (auto simp: ok_of_def split: sum.split intro: reachable.step hand_step.intros)

definition move :: "ActionType \<Rightarrow> int \<Rightarrow> int \<Rightarrow> HoldemState \<Rightarrow> HoldemState" where
  "move t amount i s = ok_of (ApplyHoldemAction s i \<lparr>ac_Type = t, ac_TotalSats = amount\<rparr>) s"

definition demo_config :: HoldemHandConfig where
  "demo_config =
     \<lparr>hc_HandID = ''hand-1'', hc_HandNumber = 1, hc_DealerSeatIndex = 0, hc_SmallBlindSats = 50,
      hc_BigBlindSats = 100,
      hc_Seats = [\<lparr>hsc_PlayerID = ''alice'', hsc_StackSats = 1000\<rparr>, \<lparr>hsc_PlayerID = ''bob'', hsc_StackSats = 600\<rparr>]\<rparr>"

definition demo_new :: HoldemState where
  "demo_new = ok_of (CreateHoldemHand demo_config) (initial_hand demo_config)"

definition demo_open :: HoldemState where
  "demo_open = ok_of (ActivateHoldemHand demo_new) demo_new"

definition demo_flop :: HoldemState where
  "demo_flop =
     (let s = move ActionCheck 0 1 (move ActionCall 0 0 demo_open)
      in ok_of (ApplyBoardCards s [''2c'', ''7d'', ''Th'']) s)"

definition demo_showdown :: HoldemState where
  "demo_showdown =
     (let s = move ActionCall 0 0 (move ActionBet 200 1 demo_flop);
          t = ok_of (ApplyBoardCards s [''Js'']) s;
          u = move ActionCheck 0 0 (move ActionCheck 0 1 t);
          v = ok_of (ApplyBoardCards u [''3c'']) u
      in move ActionCheck 0 0 (move ActionCheck 0 1 v))"

lemma demo_config_ok: "config_ok demo_config" and demo_config_accepted: "config_accepted demo_config"
  by (simp_all add: config_ok_def config_accepted_def demo_config_def)

lemma demo_created: "CreateHoldemHand demo_config = Inr demo_new"
  by code_simp

lemma demo_reachable:
  "reachable demo_config demo_new" "reachable demo_config demo_open" "reachable demo_config demo_flop"
  "reachable demo_config demo_showdown"
proof -
  show new: "reachable demo_config demo_new" by (rule reachable.create [OF demo_created])
  show opened: "reachable demo_config demo_open" unfolding demo_open_def by (rule reachable_ok_of(1) [OF new])
  show flop: "reachable demo_config demo_flop"
    unfolding demo_flop_def Let_def move_def by (intro reachable_ok_of opened)
  show "reachable demo_config demo_showdown"
    unfolding demo_showdown_def Let_def move_def by (intro reachable_ok_of flop)
qed

lemma demo_phases:
  "st_Phase demo_open = StreetPreflop" "st_ActingSeatIndex demo_open = Some 0" "st_Phase demo_showdown = StreetShowdownReveal"
  by code_simp+

end
