(* ===== verification/Holdem_Termination.thy ===== *)
theory Holdem_Termination
  imports Holdem_Hands
begin

text \<open>
  Every hand ends. Each step makes a weight smaller that counts the streets to come, the chips still
  in the stacks and the players who have yet to act. The argument needs every contribution of the
  round to be at most the current bet; a big blind that is all-in for less than the small blind
  breaks that, and then a check can repeat for ever.
\<close>

section \<open>The weight of a hand\<close>

fun phase_rank :: "Street \<Rightarrow> nat" where
  "phase_rank StreetCommitment = 13"
| "phase_rank StreetReveal = 12"
| "phase_rank StreetFinalization = 11"
| "phase_rank StreetPrivateDelivery = 10"
| "phase_rank StreetPreflop = 9"
| "phase_rank StreetFlopReveal = 8"
| "phase_rank StreetFlop = 7"
| "phase_rank StreetTurnReveal = 6"
| "phase_rank StreetTurn = 5"
| "phase_rank StreetRiverReveal = 4"
| "phase_rank StreetRiver = 3"
| "phase_rank StreetShowdownReveal = 2"
| "phase_rank _ = 0"

definition pending :: "HoldemState \<Rightarrow> nat" where
  "pending s = length (filter (wants_turn s) (st_Players s))"

definition weight :: "HoldemState \<Rightarrow> nat" where
  "weight s =
     (if st_Phase s = StreetSettled then 0
      else 1 + (phase_rank (st_Phase s) + nat (stacks s)) * (length (st_Players s) + 1) +
        (if PhaseAllowsActions (st_Phase s) then pending s else 0))"

definition level :: "HoldemState \<Rightarrow> bool" where
  "level s \<longleftrightarrow> (\<forall>p \<in> set (st_Players s). hp_RoundContributionSats p \<le> st_CurrentBetSats s)"

lemma pending_le: "pending s \<le> length (st_Players s)"
  by (simp add: pending_def)

text \<open>A lower rank or smaller stacks outweigh any number of pending players.\<close>

lemma weight_less:
  assumes "st_Phase s \<noteq> StreetSettled" and "length (st_Players s') = length (st_Players s)"
    and "phase_rank (st_Phase s') + nat (stacks s') < phase_rank (st_Phase s) + nat (stacks s)"
  shows "weight s' < weight s"
proof -
  let ?n = "length (st_Players s) + 1"
  have "pending s' < ?n" using pending_le [of s'] assms(2) by simp
  moreover have "(phase_rank (st_Phase s') + nat (stacks s') + 1) * ?n \<le> (phase_rank (st_Phase s) + nat (stacks s)) * ?n"
    using assms(3) by (intro mult_right_mono) auto
  ultimately show ?thesis using assms(1,2) by (simp add: weight_def algebra_simps)
qed

section \<open>What closing a round leaves\<close>

lemma award_phase [simp]: "st_Phase (awardPotPayouts s pay win) = StreetSettled"
  by (simp add: awardPotPayouts_def Let_def)

lemma settle_by_fold_phase: "settleByFold s = Inr s' \<Longrightarrow> st_Phase s' = StreetSettled"
  by (auto simp: settleByFold_def Let_def split: if_splits sum.splits prod.splits)

lemma close_cases:
  assumes "closeActionRoundIfNeeded t i = Inr s'"
  obtains "st_Phase s' = StreetSettled"
  | r where "streetRevealPhase (st_Phase t) = Inr r"
      and "s' = t\<lparr>st_Phase := r, st_ActingSeatIndex := None, st_RaiseLockedSeatIndex := None\<rparr>"
  | r where "s' = t\<lparr>st_ActingSeatIndex := r\<rparr>"
proof (cases "length (getActivePlayers t) = 1")
  case True
  then have "settleByFold t = Inr s'" using assms by (simp add: closeActionRoundIfNeeded_def)
  then show ?thesis using settle_by_fold_phase that(1) by blast
next
  case False
  then consider "close_round t = Inr s'" | r where "s' = t\<lparr>st_ActingSeatIndex := r\<rparr>"
    using assms by (auto simp: closeActionRoundIfNeeded_def Let_def split: if_splits sum.splits)
  then show ?thesis
    using that(2,3) by cases (auto simp: close_round_def split: sum.splits)
qed

lemma reveal_rank:
  "streetRevealPhase phase = Inr r \<Longrightarrow> phase_rank r < phase_rank phase \<and> \<not> PhaseAllowsActions r"
  by (cases phase) (auto simp: PhaseAllowsActions_def)

lemma stacks_cong: "map hp_StackSats (st_Players s) = map hp_StackSats (st_Players t) \<Longrightarrow> stacks s = stacks t"
  by (simp add: stacks_def)

section \<open>Each step\<close>

lemma open_street_Inr:
  "open_street s phase = Inr s' \<Longrightarrow> \<exists>r. s' = s\<lparr>st_ActingSeatIndex := r\<rparr>"
  by (auto simp: open_street_def split: sum.splits)

lemma activate_weight:
  assumes "ActivateHoldemHand s = Inr s'"
  shows "weight s' < weight s" and "level s \<Longrightarrow> level s'"
proof -
  have ph: "st_Phase s \<in> starting_phases"
    using assms by (auto simp: ActivateHoldemHand_def starting_phases_def split: if_splits)
  obtain r where r: "s' = s\<lparr>st_Phase := StreetPreflop, st_ActingSeatIndex := r\<rparr>"
    using assms open_street_Inr by (fastforce simp: ActivateHoldemHand_def split: if_splits)
  show "weight s' < weight s"
    using ph by (intro weight_less) (auto simp: r starting_phases_def stacks_def)
  show "level s \<Longrightarrow> level s'" by (simp add: r level_def)
qed

lemma board_weight:
  assumes "ApplyBoardCards s cards = Inr s'"
  shows "weight s' < weight s" and "st_Phase s' \<noteq> StreetSettled \<Longrightarrow> level s'"
proof -
  obtain phase board where deal: "deals s cards = Some (phase, board)"
    using assms deal_board_error [of s cards] by (cases "deals s cards") (auto simp: ApplyBoardCards_def)
  let ?s = "new_street s phase board"
  have rank: "phase_rank phase < phase_rank (st_Phase s)" and ns: "st_Phase s \<noteq> StreetSettled"
    using deal by (auto simp: deals.simps split: Street.splits if_splits)
  obtain t where dealt: "open_street ?s phase = Inr t"
    and t: "(if getPlayersAbleToAct t = [] then closeActionRoundIfNeeded t (st_DealerSeatIndex t) else Inr t) = Inr s'"
    using assms deal by (subst (asm) ApplyBoardCards_def, subst (asm) deal_board_eq) (auto split: sum.splits)
  obtain r where r: "t = ?s\<lparr>st_ActingSeatIndex := r\<rparr>" using open_street_Inr [OF dealt] by blast
  have t_ok: "length (st_Players t) = length (st_Players s)" "stacks t = stacks s" "st_Phase t = phase" "level t"
    by (auto simp: r stacks_def comp_def level_def)
  consider "st_Phase s' = StreetSettled"
    | q where "streetRevealPhase (st_Phase t) = Inr q"
        "s' = t\<lparr>st_Phase := q, st_ActingSeatIndex := None, st_RaiseLockedSeatIndex := None\<rparr>"
    | q where "s' = t\<lparr>st_ActingSeatIndex := q\<rparr>"
  proof (cases "getPlayersAbleToAct t = []")
    case True
    with t have "closeActionRoundIfNeeded t (st_DealerSeatIndex t) = Inr s'" by simp
    then show ?thesis using that by (rule close_cases)
  next
    case False
    with t have "s' = t\<lparr>st_ActingSeatIndex := st_ActingSeatIndex t\<rparr>" by simp
    then show ?thesis using that(3) by blast
  qed
  then have "weight s' < weight s \<and> (st_Phase s' \<noteq> StreetSettled \<longrightarrow> level s')"
  proof cases
    case 1
    then show ?thesis using ns by (simp add: weight_def)
  next
    case (2 q)
    have "weight s' < weight s"
      using ns t_ok rank reveal_rank [OF 2(1)] by (intro weight_less) (auto simp: 2(2) stacks_def)
    then show ?thesis using t_ok(4) by (simp add: 2(2) level_def)
  next
    case (3 q)
    have "weight s' < weight s" using ns t_ok rank by (intro weight_less) (auto simp: 3 stacks_def)
    then show ?thesis using t_ok(4) by (simp add: 3 level_def)
  qed
  then show "weight s' < weight s" "st_Phase s' \<noteq> StreetSettled \<Longrightarrow> level s'" by auto
qed

lemma action_unfold:
  assumes "ApplyHoldemAction s i a = Inr s'"
  shows "\<exists>l. closeActionRoundIfNeeded (with_pot (apply_action (s\<lparr>st_ActionLog := l\<rparr>) i a)) i = Inr s'"
  using assms by (auto simp: ApplyHoldemAction_def Let_def split: if_splits option.splits sum.splits)

lemma length_filter_drop:
  "k < length xs \<Longrightarrow> P (xs ! k) \<Longrightarrow> \<not> P y \<Longrightarrow> length (filter P (xs[k := y])) < length (filter P xs)"
proof (induction xs arbitrary: k)
  case (Cons x xs)
  then show ?case by (cases k) auto
qed simp

lemma acting_player_log [simp]: "acting_player (s\<lparr>st_ActionLog := l\<rparr>) a p = acting_player s a p"
  by (simp add: acting_player_def split: ActionType.split)

lemma action_effect:
  assumes inv: "hand_inv s" and fin: "ApplyHoldemAction s i a = Inr s'"
  defines "t l \<equiv> with_pot (apply_action (s\<lparr>st_ActionLog := l\<rparr>) i a)"
  shows "stacks (t l) \<le> stacks s"
    and "ac_Type a \<in> {ActionCall, ActionBet, ActionRaise} \<Longrightarrow> stacks (t l) < stacks s"
    and "level s \<Longrightarrow> level (t l)"
    and "level s \<Longrightarrow> ac_Type a \<in> {ActionFold, ActionCheck} \<Longrightarrow> pending (t l) < pending s"
    and "ac_Type a \<in> {ActionFold, ActionCheck, ActionCall, ActionBet, ActionRaise}"
    and "0 \<le> stacks (t l)"
proof -
  note A = apply_holdem_action_Inr [OF inv fin]
  let ?p = "st_Players s ! nat i"
  let ?q = "acting_player s a ?p"
  have "st_Phase s \<noteq> StreetSettled" using A(1) by (auto simp: PhaseAllowsActions_def)
  then have run: "running s" and i: "0 \<le> i" "i < seat_count s" "wants_turn s ?p"
    using inv A(2) by (auto simp: hand_inv_def turn_ok_def)
  have k: "nat i < length (st_Players s)" using i by simp
  then have p: "player_ok ?p" "0 < hp_StackSats ?p" using run i(3) by (auto simp: running_def live_ok_def)
  have conf: "0 < st_BigBlindSats s" "0 < st_LastFullRaiseSats s"
    "st_MinRaiseToSats s = st_CurrentBetSats s + st_LastFullRaiseSats s"
    using run by (auto simp: running_def seats_ok_def)
  note M = acting_player_money [OF p(1) conjunct1 [OF i(3)] p(2) A(3) conf]
  show types: "ac_Type a \<in> {ActionFold, ActionCheck, ActionCall, ActionBet, ActionRaise}"
    using A(3) by (cases "ac_Type a") auto
  have sum: "stacks (t l) = stacks s - hp_StackSats ?p + hp_StackSats ?q"
    using k apply_action_map [OF i(1), of hp_StackSats a "s\<lparr>st_ActionLog := l\<rparr>"]
    by (simp add: t_def stacks_def sum_list_update flip: map_update)
  show "stacks (t l) \<le> stacks s" using sum M(4) by simp
  show "ac_Type a \<in> {ActionCall, ActionBet, ActionRaise} \<Longrightarrow> stacks (t l) < stacks s" using sum M(5) by simp
  have "hp_StackSats ?p \<le> stacks s" unfolding stacks_def
    using k run by (intro elem_le_sum_int) (auto simp: running_def player_ok_def)
  then show "0 \<le> stacks (t l)" using sum M(1) by (simp add: player_ok_def)
  have up: "st_CurrentBetSats s \<le> st_CurrentBetSats (t l)"
    using M(6) by (auto simp: t_def apply_action_fields)
  show "level (t l)" if lev: "level s"
  proof -
    have "hp_RoundContributionSats ?p \<le> st_CurrentBetSats s" using lev k by (simp add: level_def)
    then have "hp_RoundContributionSats ?q \<le> st_CurrentBetSats (t l)"
      using M(6,10,12) types by (auto simp: t_def apply_action_fields)
    moreover have "hp_RoundContributionSats r \<le> st_CurrentBetSats (t l)" if "r \<in> set (st_Players s)" for r
      using lev up that by (force simp: level_def)
    ultimately show ?thesis
      using apply_action_set [OF i(1), of "s\<lparr>st_ActionLog := l\<rparr>" a] by (auto simp: level_def t_def)
  qed
  show "pending (t l) < pending s" if lev: "level s" and still: "ac_Type a \<in> {ActionFold, ActionCheck}"
  proof -
    have "st_Players (t l) = (st_Players s)[nat i := ?q]"
      using apply_action_map [OF i(1), of "\<lambda>p. p" a "s\<lparr>st_ActionLog := l\<rparr>"] still
      by (auto simp: t_def waiting_player_def)
    moreover have "\<not> wants_turn s ?q"
      using still A(3) M(7) lev k i(3) M(8,12) by (auto simp: needs_action_def level_def order.antisym)
    moreover have "st_CurrentBetSats (t l) = st_CurrentBetSats s" using still by (auto simp: t_def apply_action_fields)
    ultimately show ?thesis using length_filter_drop [of "nat i" "st_Players s" "wants_turn s" ?q] k i(3)
      by (simp add: pending_def)
  qed
qed

lemma action_weight:
  assumes inv: "hand_inv s" and lev: "level s" and fin: "ApplyHoldemAction s i a = Inr s'"
  shows "weight s' < weight s \<and> (st_Phase s' \<noteq> StreetSettled \<longrightarrow> level s')"
proof -
  obtain l where close: "closeActionRoundIfNeeded (with_pot (apply_action (s\<lparr>st_ActionLog := l\<rparr>) i a)) i = Inr s'"
    using action_unfold [OF fin] by blast
  let ?t = "with_pot (apply_action (s\<lparr>st_ActionLog := l\<rparr>) i a)"
  note E = action_effect(1-4,6) [OF inv fin, of l] and types = action_effect(5) [OF inv fin]
  have t: "length (st_Players ?t) = length (st_Players s)" "st_Phase ?t = st_Phase s"
    by (simp_all add: apply_action_fields)
  have ph: "PhaseAllowsActions (st_Phase s)" by (rule apply_holdem_action_Inr(1) [OF inv fin])
  then have ns: "st_Phase s \<noteq> StreetSettled" by (auto simp: PhaseAllowsActions_def)
  from close show ?thesis
  proof (cases rule: close_cases)
    case 1
    then show ?thesis using ns by (simp add: weight_def)
  next
    case (2 r)
    have "stacks s' = stacks ?t" by (simp add: 2(2) stacks_def)
    then have "weight s' < weight s"
      using ns t reveal_rank [OF 2(1)] E(1,5) by (intro weight_less) (auto simp: 2(2))
    then show ?thesis using E(3) [OF lev] by (simp add: 2(2) level_def)
  next
    case (3 r)
    have s': "stacks s' = stacks ?t" "pending s' = pending ?t" "st_Phase s' = st_Phase s"
      "length (st_Players s') = length (st_Players s)"
      using t by (simp_all add: 3 stacks_def pending_def)
    have "weight s' < weight s"
    proof (cases "ac_Type a \<in> {ActionFold, ActionCheck}")
      case True
      have "nat (stacks s') \<le> nat (stacks s)" using E(1) s'(1) by simp
      then have "(phase_rank (st_Phase s') + nat (stacks s')) * (length (st_Players s) + 1)
          \<le> (phase_rank (st_Phase s) + nat (stacks s)) * (length (st_Players s) + 1)"
        using s'(3) by (intro mult_right_mono) auto
      then show ?thesis using E(4) [OF lev True] ns ph s' by (simp add: weight_def)
    next
      case False
      then have "stacks s' < stacks s" using E(2) types s'(1) by auto
      then show ?thesis using ns s' E(5) by (intro weight_less) auto
    qed
    then show ?thesis using E(3) [OF lev] by (simp add: 3 level_def)
  qed
qed

lemma hand_step_weight:
  assumes "hand_step s s'" and "hand_inv s" and "level s \<or> st_Phase s = StreetSettled"
  shows "weight s' < weight s \<and> (level s' \<or> st_Phase s' = StreetSettled)"
  using assms
proof (induction rule: hand_step.induct)
  case (act s i a s')
  have "PhaseAllowsActions (st_Phase s)" by (rule apply_holdem_action_Inr(1) [OF act(2,1)])
  then have "level s" using act(3) by (auto simp: PhaseAllowsActions_def)
  then show ?case using action_weight [OF act(2) _ act(1)] by auto
next
  case (activate s s')
  then have "st_Phase s \<noteq> StreetSettled" by (auto simp: ActivateHoldemHand_def)
  then show ?case using activate activate_weight [OF activate(1)] by auto
next
  case (board s cards s')
  then show ?case using board_weight [OF board(1)] by auto
next
  case (force_fold s i s')
  then have "st_Phase s \<noteq> StreetSettled" by (auto simp: ForceFoldSeat_def)
  then show ?case using force_fold_ok(3) [OF force_fold(2,1)] by (simp add: weight_def)
next
  case (showdown s holeCards s')
  then have "st_Phase s \<noteq> StreetSettled" by (auto simp: SettleHoldemShowdown_def split: if_splits)
  then show ?case using settle_showdown_ok(3) [OF showdown(2,1)] by (simp add: weight_def)
next
  case (reveal s)
  then have "weight (s\<lparr>st_Phase := StreetReveal\<rparr>) < weight s" by (intro weight_less) (auto simp: stacks_def)
  with reveal show ?case by (auto simp: level_def)
next
  case (deliver s)
  then have "weight (s\<lparr>st_Phase := StreetPrivateDelivery\<rparr>) < weight s" by (intro weight_less) (auto simp: stacks_def)
  with deliver show ?case by (auto simp: level_def)
qed

section \<open>Runs of steps\<close>

lemma created_level:
  assumes "config_ok c" "CreateHoldemHand c = Inr s" and "hc_SmallBlindSats c \<le> hc_BigBlindSats c"
    and "\<forall>seat \<in> set (hc_Seats c). hc_SmallBlindSats c \<le> hsc_StackSats seat"
  shows "level s"
proof (rule create_hand_eq [OF assms(1) create_accepted [OF assms(2)]])
  fix sb bb x y
  let ?ps = "posted (st_Players (initial_hand c)) sb x bb y"
  assume eq: "CreateHoldemHand c = Inr ((initial_hand c)\<lparr>st_Players := ?ps, st_CurrentBetSats := y,
      st_MinRaiseToSats := y + hc_BigBlindSats c, st_LastFullRaiseSats := hc_BigBlindSats c, st_PotSats := x + y\<rparr>)"
    and b: "0 \<le> sb" "sb < int (length (hc_Seats c))" "0 \<le> bb" "bb < int (length (hc_Seats c))" "sb \<noteq> bb"
    and xy: "x = min (hsc_StackSats (hc_Seats c ! nat sb)) (hc_SmallBlindSats c)"
      "y = min (hsc_StackSats (hc_Seats c ! nat bb)) (hc_BigBlindSats c)"
  have seat: "hc_SmallBlindSats c \<le> hsc_StackSats (hc_Seats c ! nat bb)" using assms(4) b by (simp add: nat_less_iff)
  have "0 < hc_SmallBlindSats c" using create_accepted [OF assms(2)] by (simp add: config_accepted_def)
  then have "x \<le> y" "0 \<le> y" using seat assms(3) xy by auto
  then show ?thesis
    using assms(2) b eq by (auto simp: level_def in_set_conv_nth nth_posted initial_players)
qed

lemma run_weight:
  "(hand_step ^^ k) s s' \<Longrightarrow> hand_inv s \<Longrightarrow> level s \<or> st_Phase s = StreetSettled \<Longrightarrow> k + weight s' \<le> weight s"
proof (induction k arbitrary: s')
  case (Suc k)
  have inv: "hand_inv t \<and> (level t \<or> st_Phase t = StreetSettled)" if "(hand_step ^^ j) s t" for j t
    using that
  proof (induction j arbitrary: t)
    case (Suc j)
    then obtain r where "(hand_step ^^ j) s r" "hand_step r t" by auto
    with Suc.IH [of r] hand_step_inv [of r t] hand_step_weight [of r t] show ?case by blast
  qed (use Suc.prems in simp)
  obtain t where t: "(hand_step ^^ k) s t" "hand_step t s'" using Suc.prems(1) by auto
  have "weight s' < weight t" using hand_step_weight [OF t(2)] inv [OF t(1)] by blast
  with Suc.IH [OF t(1)] Suc.prems show ?case by simp
qed simp

section \<open>A bet above the current bet\<close>

text \<open>
  The acting player has more in the round than the current bet and nobody else is due: the state a
  big blind produces that is all-in for less than the small blind.
\<close>

definition overposted :: "HoldemState \<Rightarrow> int \<Rightarrow> bool" where
  "overposted s i \<longleftrightarrow>
     PhaseAllowsActions (st_Phase s) \<and> st_ActingSeatIndex s = Some i \<and>
     st_CurrentBetSats s < hp_RoundContributionSats (st_Players s ! nat i) \<and>
     (\<forall>j < length (st_Players s). int j \<noteq> i \<longrightarrow> \<not> wants_turn s (st_Players s ! j))"

abbreviation check :: Action where
  "check \<equiv> \<lparr>ac_Type = ActionCheck, ac_TotalSats = 0\<rparr>"

lemma check_repeats:
  assumes inv: "hand_inv s" and over: "overposted s i"
  shows "\<exists>s'. ApplyHoldemAction s i check = Inr s' \<and> hand_inv s' \<and> overposted s' i \<and> st_Phase s' = st_Phase s"
proof -
  let ?p = "st_Players s ! nat i"
  have ph: "PhaseAllowsActions (st_Phase s)" and acting: "st_ActingSeatIndex s = Some i"
    and more: "st_CurrentBetSats s < hp_RoundContributionSats ?p"
    and others: "\<And>j. j < length (st_Players s) \<Longrightarrow> int j \<noteq> i \<Longrightarrow> \<not> wants_turn s (st_Players s ! j)"
    using over by (auto simp: overposted_def)
  then have "st_Phase s \<noteq> StreetSettled" by (auto simp: PhaseAllowsActions_def)
  then have two: "2 \<le> length (getActivePlayers s)" and i: "0 \<le> i" "i < seat_count s" "hp_Status ?p = PlayerStatusActive"
    using inv acting by (auto simp: hand_inv_def turn_ok_def)
  have "allowed s i ?p (ac_Type check) (ac_TotalSats check)" using more by simp
  from apply_holdem_action_ok [OF inv ph acting this] obtain s' where s': "ApplyHoldemAction s i check = Inr s'" "hand_inv s'"
    by blast
  obtain l where close: "closeActionRoundIfNeeded (with_pot (apply_action (s\<lparr>st_ActionLog := l\<rparr>) i check)) i = Inr s'"
    using action_unfold [OF s'(1)] by blast
  let ?t = "with_pot (apply_action (s\<lparr>st_ActionLog := l\<rparr>) i check)"
  have nth: "st_Players ?t ! j = (if int j = i then (st_Players s ! j)\<lparr>hp_ActedThisRound := True\<rparr> else st_Players s ! j)"
    if "j < length (st_Players s)" for j
    using that apply_action_nth [OF i(1), of j "s\<lparr>st_ActionLog := l\<rparr>" check]
    by (auto simp: acting_player_def waiting_player_def)
  have t: "length (st_Players ?t) = length (st_Players s)" "st_CurrentBetSats ?t = st_CurrentBetSats s"
    "st_Phase ?t = st_Phase s" by (simp_all add: apply_action_fields)
  have due: "wants_turn ?t (st_Players ?t ! j) \<longleftrightarrow> int j = i" if "j < length (st_Players ?t)" for j
    using that others [of j] nth [of j] more i t by (auto simp: needs_action_def)
  have "hp_Status (st_Players ?t ! j) = hp_Status (st_Players s ! j)" if "j < length (st_Players s)" for j
    using nth [OF that] by (cases "int j = i") simp_all
  then have "map (\<lambda>p. hp_Status p = PlayerStatusFolded) (st_Players ?t)
      = map (\<lambda>p. hp_Status p = PlayerStatusFolded) (st_Players s)"
    by (intro nth_equalityI) (simp_all add: t(1) [simplified])
  then have "length (getActivePlayers ?t) \<noteq> 1" using two unfolding count_active by simp
  moreover have "\<exists>q \<in> set (getPlayersAbleToAct ?t). needs_action (st_CurrentBetSats ?t) q"
  proof
    have k: "nat i < length (st_Players ?t)" using i t(1) by simp
    then show "needs_action (st_CurrentBetSats ?t) (st_Players ?t ! nat i)" using due [OF k] i(1) by simp
    show "st_Players ?t ! nat i \<in> set (getPlayersAbleToAct ?t)"
      using due [OF k] i(1) nth_mem [OF k] by (simp add: getPlayersAbleToAct_def)
  qed
  ultimately obtain r where r: "s' = ?t\<lparr>st_ActingSeatIndex := r\<rparr>"
    using close by (auto simp: closeActionRoundIfNeeded_def Let_def split: sum.splits if_splits)
  have "st_Phase s' = st_Phase s" using t(3) by (simp add: r)
  then have "turn_ok s'" using s'(2) \<open>st_Phase s \<noteq> StreetSettled\<close> by (simp add: hand_inv_def)
  then have "r = Some i"
  proof (cases r)
    case None
    then have "getPlayersAbleToAct s' = []"
      using \<open>turn_ok s'\<close> ph \<open>st_Phase s' = st_Phase s\<close> by (auto simp: turn_ok_def r)
    then show ?thesis
      using \<open>\<exists>q \<in> set (getPlayersAbleToAct ?t). _ q\<close> by (auto simp: r getPlayersAbleToAct_def)
  next
    case (Some j)
    then have "0 \<le> j" "nat j < length (st_Players ?t)" "wants_turn ?t (st_Players ?t ! nat j)"
      using \<open>turn_ok s'\<close> by (auto simp: turn_ok_def r)
    then show ?thesis using due [of "nat j"] Some by simp
  qed
  then have "overposted s' i"
    using ph more due t nth [of "nat i"] i by (auto simp: overposted_def r)
  with s' \<open>st_Phase s' = st_Phase s\<close> show ?thesis by blast
qed

definition short_config :: HoldemHandConfig where
  "short_config = demo_config\<lparr>hc_Seats :=
     [\<lparr>hsc_PlayerID = ''alice'', hsc_StackSats = 1000\<rparr>, \<lparr>hsc_PlayerID = ''bob'', hsc_StackSats = 30\<rparr>]\<rparr>"

definition short_open :: HoldemState where
  "short_open =
     (let s = ok_of (CreateHoldemHand short_config) (initial_hand short_config) in ok_of (ActivateHoldemHand s) s)"

lemma short_open_overposted: "overposted short_open 0"
proof -
  have "PhaseAllowsActions (st_Phase short_open)" "st_ActingSeatIndex short_open = Some 0"
    "st_CurrentBetSats short_open < hp_RoundContributionSats (st_Players short_open ! nat 0)"
    "length (st_Players short_open) = 2" "hp_Status (st_Players short_open ! 1) = PlayerStatusAllIn"
    by code_simp+
  then show ?thesis by (auto simp: overposted_def less_2_cases_iff numeral_2_eq_2 less_Suc_eq)
qed

lemma short_open_reachable: "config_ok short_config" "reachable short_config short_open"
proof -
  show "config_ok short_config" by (simp add: config_ok_def short_config_def)
  have "CreateHoldemHand short_config = Inr (ok_of (CreateHoldemHand short_config) (initial_hand short_config))" by code_simp
  then show "reachable short_config short_open"
    unfolding short_open_def Let_def by (intro reachable_ok_of(1) reachable.create)
qed

section \<open>Properties\<close>



text \<open>C6. A hand that is not settled can always continue: some step is possible, except before the flop
  when the blinds have put every player still in the hand all-in.\<close>

theorem hand_progresses:
  assumes "config_ok c" and "reachable c s" and "st_Phase s \<noteq> StreetSettled"
    and "st_Phase s = StreetPreflop \<longrightarrow> getPlayersAbleToAct s \<noteq> []"
  shows "\<exists>s'. hand_step s s'"
proof -
  have inv: "hand_inv s" using reachable_inv [OF assms(1,2)] by simp
  then have run: "running s" and turn: "turn_ok s" using assms(3) by (auto simp: hand_inv_def)
  have "board_size (st_Phase s) \<noteq> None" using run by (simp add: running_def)
  then consider "st_Phase s \<in> starting_phases" | "PhaseAllowsActions (st_Phase s)"
    | "st_Phase s \<in> {StreetFlopReveal, StreetTurnReveal, StreetRiverReveal}" | "st_Phase s = StreetShowdownReveal"
    by (cases "st_Phase s") (auto simp: starting_phases_def PhaseAllowsActions_def)
  then show ?thesis
  proof cases
    case 1
    then show ?thesis using activate_ok [OF inv] hand_step.activate by blast
  next
    case 2
    then obtain i where i: "st_ActingSeatIndex s = Some i"
      using turn assms(4) by (auto simp: turn_ok_def split: option.splits)
    let ?p = "st_Players s ! nat i"
    let ?a = "\<lparr>ac_Type = if hp_RoundContributionSats ?p < st_CurrentBetSats s then ActionFold else ActionCheck, ac_TotalSats = 0\<rparr>"
    have "allowed s i ?p (ac_Type ?a) (ac_TotalSats ?a)" by simp
    then show ?thesis using apply_holdem_action_ok [OF inv 2 i] hand_step.act by blast
  next
    case 3
    then obtain n where "\<exists>phase board. deals s (replicate n []) = Some (phase, board)"
      by (auto simp: deals.simps intro: that [of 3] that [of 1])
    then show ?thesis using apply_board_ok [OF inv] hand_step.board by blast
  next
    case 4
    note F = showdown_facts [OF inv 4]
    let ?cs = "contenders (st_Players s)"
    let ?hole = "map (\<lambda>p. (hp_PlayerID p, ([], []))) ?cs"
    have "\<forall>p \<in> set ?cs. map_of ?hole (hp_PlayerID p) \<noteq> None"
      by (auto simp: map_of_eq_None_iff image_image)
    from score_contenders_ok [OF F(4) this F(7)] obtain shown scores where
      "score_contenders (st_Board s) ?hole ?cs (st_ShowdownScores s, []) = Inr (shown, scores)" by blast
    from settle_showdown [OF F(1-3) this] 4 obtain s' where "SettleHoldemShowdown s ?hole = Inr s'"
      by (auto simp: SettleHoldemShowdown_def)
    then show ?thesis using hand_step.showdown by blast
  qed
qed

theorem hand_progresses_witness: "\<exists>s'. hand_step demo_showdown s'"
  by (rule hand_progresses [OF demo_config_ok demo_reachable(4)]) (simp_all add: demo_phases)

text \<open>When the acting player has put in more than the current bet and nobody else is due, as after a big
  blind that is all-in for less than the small blind, a check is accepted any number of times, the
  street does not end and the same seat stays up: the automatic check of a timeout never
  finishes the round.\<close>

theorem short_big_blind_check_loops:
  assumes "config_ok c" and "reachable c s" and "overposted s i"
  shows "\<exists>s'. ((\<lambda>x y. ApplyHoldemAction x i check = Inr y) ^^ n) s s' \<and> st_Phase s' = st_Phase s
    \<and> st_ActingSeatIndex s' = Some i"
proof -
  have "\<exists>s'. ((\<lambda>x y. ApplyHoldemAction x i check = Inr y) ^^ n) s s' \<and> hand_inv s' \<and> overposted s' i \<and> st_Phase s' = st_Phase s"
  proof (induction n)
    case 0
    then show ?case using reachable_inv [OF assms(1,2)] assms(3) by auto
  next
    case (Suc n)
    then obtain t where t: "((\<lambda>x y. ApplyHoldemAction x i check = Inr y) ^^ n) s t" "hand_inv t" "overposted t i"
      "st_Phase t = st_Phase s" by blast
    from check_repeats [OF t(2,3)] t(1,4) show ?case by auto
  qed
  then show ?thesis by (auto simp: overposted_def)
qed

theorem short_big_blind_check_loops_witness:
  "reachable short_config short_open \<and>
   (\<exists>s'. ((\<lambda>x y. ApplyHoldemAction x 0 check = Inr y) ^^ 1000) short_open s' \<and> st_Phase s' = st_Phase short_open
     \<and> st_ActingSeatIndex s' = Some 0)"
  using short_big_blind_check_loops [OF short_open_reachable short_open_overposted] short_open_reachable(2) by blast

text \<open>When the blinds put both players all-in, activating the hand leaves it before the flop with no seat
  to act; every action, board card and showdown is then refused, so the hand cannot be played out.\<close>

theorem blinds_all_in_deadlock:
  assumes "config_ok c" and "reachable c s" and "st_Phase s = StreetPreflop" and "getPlayersAbleToAct s = []"
  shows "\<not> is_ok (ApplyHoldemAction s i a) \<and> \<not> is_ok (ApplyBoardCards s cards) \<and>
    \<not> is_ok (SettleHoldemShowdown s holeCards) \<and> \<not> is_ok (ActivateHoldemHand s)"
proof -
  have inv: "hand_inv s" using reachable_inv [OF assms(1,2)] by simp
  then have "st_ActingSeatIndex s = None"
    using assms(3,4) by (auto simp: hand_inv_def turn_ok_def getPlayersAbleToAct_def filter_empty_conv split: option.splits)
  then show ?thesis
    using assms(3)
    by (auto simp: ApplyHoldemAction_def ApplyBoardCards_def deal_board_def SettleHoldemShowdown_def
        ActivateHoldemHand_def is_ok_iff)
qed

definition broke_config :: HoldemHandConfig where
  "broke_config = demo_config\<lparr>hc_Seats :=
     [\<lparr>hsc_PlayerID = ''alice'', hsc_StackSats = 50\<rparr>, \<lparr>hsc_PlayerID = ''bob'', hsc_StackSats = 100\<rparr>]\<rparr>"

definition broke_open :: HoldemState where
  "broke_open =
     (let s = ok_of (CreateHoldemHand broke_config) (initial_hand broke_config) in ok_of (ActivateHoldemHand s) s)"

theorem blinds_all_in_deadlock_witness:
  "reachable broke_config broke_open \<and> \<not> is_ok (ApplyHoldemAction broke_open 0 check)"
proof -
  have c: "config_ok broke_config" by (simp add: config_ok_def broke_config_def)
  have "CreateHoldemHand broke_config = Inr (ok_of (CreateHoldemHand broke_config) (initial_hand broke_config))" by code_simp
  then have r: "reachable broke_config broke_open"
    unfolding broke_open_def Let_def by (intro reachable_ok_of(1) reachable.create)
  have "st_Phase broke_open = StreetPreflop" "getPlayersAbleToAct broke_open = []" by code_simp+
  from blinds_all_in_deadlock [OF c r this] r show ?thesis by blast
qed

end
