(* ===== verification/Holdem_Properties.thy ===== *)
theory Holdem_Properties
  imports Holdem_Termination
begin

text \<open>
  The properties of the hand engine over all reachable hands: conservation of chips, turns, legal
  actions, the size of raises, the closing of a round, the dealing order and the checkpoints.
\<close>

section \<open>Supporting facts\<close>

lemma reachable_running:
  "config_ok c \<Longrightarrow> reachable c s \<Longrightarrow> st_Phase s \<noteq> StreetSettled \<Longrightarrow> running s \<and> turn_ok s"
  using reachable_inv [of c s] by (auto simp: hand_inv_def)

lemma legal_iff_allowed:
  assumes "PhaseAllowsActions (st_Phase s)" "0 \<le> i" "i < seat_count s"
    and "hp_Status (st_Players s ! nat i) = PlayerStatusActive"
  shows "(\<exists>l \<in> set (GetLegalActions s (Some i)). la_Type l = ac_Type a \<and>
      (\<forall>m. la_MinTotalSats l = Some m \<longrightarrow> m \<le> ac_TotalSats a) \<and> (\<forall>m. la_MaxTotalSats l = Some m \<longrightarrow> ac_TotalSats a \<le> m))
    \<longleftrightarrow> allowed s i (st_Players s ! nat i) (ac_Type a) (ac_TotalSats a)"
  using assms
  by (cases "ac_Type a") (auto simp: GetLegalActions_def Let_def plain_action_def sized_action_def max_def)

lemma round_closed:
  assumes "closeActionRoundIfNeeded t i = Inr s'" and "st_Phase s' \<noteq> StreetSettled" and "st_Phase s' \<noteq> st_Phase t"
  shows "\<forall>p \<in> set (st_Players s'). hp_Status p = PlayerStatusActive \<longrightarrow>
      hp_ActedThisRound p \<and> hp_RoundContributionSats p = st_CurrentBetSats s'"
    and "streetRevealPhase (st_Phase t) = Inr (st_Phase s')" and "st_ActingSeatIndex s' = None"
proof -
  have ne1: "length (getActivePlayers t) \<noteq> 1"
    using assms(1,2) settle_by_fold_phase by (auto simp: closeActionRoundIfNeeded_def)
  have "close_round t = Inr s' \<and> (\<forall>p \<in> set (getPlayersAbleToAct t). \<not> needs_action (st_CurrentBetSats t) p)"
    using assms(1,3) ne1 by (auto simp: closeActionRoundIfNeeded_def Let_def split: if_splits sum.splits)
  then show "\<forall>p \<in> set (st_Players s'). hp_Status p = PlayerStatusActive \<longrightarrow>
      hp_ActedThisRound p \<and> hp_RoundContributionSats p = st_CurrentBetSats s'"
    "streetRevealPhase (st_Phase t) = Inr (st_Phase s')" "st_ActingSeatIndex s' = None"
    by (auto simp: close_round_def needs_action_def getPlayersAbleToAct_def split: sum.splits)
qed

lemma mget_map_of_players:
  assumes "distinct (player_ids ps)" and "p \<in> set ps"
  shows "mget (fold (\<lambda>p m. AList.update (hp_PlayerID p) (f p) m) ps []) (hp_PlayerID p) = f p"
  using assms by (simp add: fold_update_const mget_def map_of_keyed)

section \<open>Properties\<close>

text \<open>C1. In every state a hand can reach the chips of the table are conserved: stacks and contributions add up
  to the buy-ins, the pot is the sum of the contributions, no amount is negative, and once the hand is
  settled the stacks alone hold all the buy-ins.\<close>

theorem chips_conserved:
  assumes "config_ok c" and "reachable c s"
  shows "(\<Sum>p\<leftarrow>st_Players s. hp_StackSats p) + (\<Sum>p\<leftarrow>st_Players s. hp_TotalContributionSats p)
      = (\<Sum>seat\<leftarrow>hc_Seats c. hsc_StackSats seat)
    \<and> st_PotSats s = (\<Sum>p\<leftarrow>st_Players s. hp_TotalContributionSats p)
    \<and> (\<forall>p \<in> set (st_Players s). 0 \<le> hp_StackSats p \<and> 0 \<le> hp_RoundContributionSats p
        \<and> hp_RoundContributionSats p \<le> hp_TotalContributionSats p)
    \<and> (st_Phase s = StreetSettled \<longrightarrow>
        (\<Sum>p\<leftarrow>st_Players s. hp_StackSats p) = (\<Sum>seat\<leftarrow>hc_Seats c. hsc_StackSats seat))"
proof (intro conjI ballI impI)
  have inv: "hand_inv s" and total: "chips s = buy_ins c" using reachable_inv [OF assms] by auto
  show "(\<Sum>p\<leftarrow>st_Players s. hp_StackSats p) + (\<Sum>p\<leftarrow>st_Players s. hp_TotalContributionSats p)
      = (\<Sum>seat\<leftarrow>hc_Seats c. hsc_StackSats seat)"
    using total by (simp add: chips_def stacks_def contributions_def buy_ins_def)
  show "st_PotSats s = (\<Sum>p\<leftarrow>st_Players s. hp_TotalContributionSats p)"
    using inv settled_contributions [of s]
    by (auto simp: hand_inv_def running_def settled_def contributions_def split: if_splits)
  have ok: "player_ok p" if "p \<in> set (st_Players s)" for p
    using inv that by (auto simp: hand_inv_def running_def settled_def split: if_splits)
  fix p assume "p \<in> set (st_Players s)"
  then show "0 \<le> hp_StackSats p" "0 \<le> hp_RoundContributionSats p"
    "hp_RoundContributionSats p \<le> hp_TotalContributionSats p" using ok by (simp_all add: player_ok_def)
next
  have inv: "hand_inv s" and total: "chips s = buy_ins c" using reachable_inv [OF assms] by auto
  show "(\<Sum>p\<leftarrow>st_Players s. hp_StackSats p) = (\<Sum>seat\<leftarrow>hc_Seats c. hsc_StackSats seat)"
    if "st_Phase s = StreetSettled"
    using inv total settled_contributions [of s] that by (simp add: hand_inv_def chips_def stacks_def buy_ins_def)
qed

theorem chips_conserved_witness:
  "(\<Sum>p\<leftarrow>st_Players demo_showdown. hp_StackSats p) + (\<Sum>p\<leftarrow>st_Players demo_showdown. hp_TotalContributionSats p) = 1600
    \<and> st_PotSats demo_showdown = 600"
proof -
  have "(\<Sum>seat\<leftarrow>hc_Seats demo_config. hsc_StackSats seat) = 1600" by (simp add: demo_config_def)
  moreover have "st_PotSats demo_showdown = 600" by code_simp
  ultimately show ?thesis using chips_conserved [OF demo_config_ok demo_reachable(4)] by simp
qed

text \<open>C5. Whose turn it is: outside the betting streets no seat is up; on a betting street the seat that is up
  exists, belongs to an active player with chips who has not acted or not matched the bet, and has an
  action it may take; only when the blinds left nobody able to act is no seat up.\<close>

theorem turn_belongs_to_active_player:
  assumes "config_ok c" and "reachable c s"
  shows "case st_ActingSeatIndex s of
      None \<Rightarrow> PhaseAllowsActions (st_Phase s) \<longrightarrow> getPlayersAbleToAct s = []
    | Some i \<Rightarrow> PhaseAllowsActions (st_Phase s) \<and> 0 \<le> i \<and> i < int (length (st_Players s))
        \<and> (let p = st_Players s ! nat i in
             hp_Status p = PlayerStatusActive \<and> 0 < hp_StackSats p
             \<and> (\<not> hp_ActedThisRound p \<or> hp_RoundContributionSats p \<noteq> st_CurrentBetSats s))
        \<and> GetLegalActions s None \<noteq> []"
proof (cases "st_Phase s = StreetSettled")
  case True
  then show ?thesis
    using reachable_inv [OF assms] by (auto simp: hand_inv_def settled_def PhaseAllowsActions_def)
next
  case False
  then have run: "running s" "turn_ok s" using reachable_running [OF assms] by auto
  show ?thesis
  proof (cases "st_ActingSeatIndex s")
    case None
    then show ?thesis using run(2) by (auto simp: turn_ok_def)
  next
    case (Some i)
    then have i: "PhaseAllowsActions (st_Phase s)" "0 \<le> i" "i < seat_count s" "wants_turn s (st_Players s ! nat i)"
      using run(2) by (auto simp: turn_ok_def)
    then have "st_Players s ! nat i \<in> set (st_Players s)" by simp
    then have "0 < hp_StackSats (st_Players s ! nat i)" using run(1) i(4) by (auto simp: running_def live_ok_def)
    then show ?thesis using Some i by (auto simp: GetLegalActions_def needs_action_def Let_def)
  qed
qed

theorem turn_belongs_to_active_player_witness:
  "st_ActingSeatIndex demo_open = Some 0 \<and> 0 < hp_StackSats (st_Players demo_open ! 0)
    \<and> GetLegalActions demo_open None \<noteq> []"
  using turn_belongs_to_active_player [OF demo_config_ok demo_reachable(2)] demo_phases(2) by (simp add: Let_def)



lemma accepted_iff_listed:
  assumes "config_ok c" and "reachable c s" and "PhaseAllowsActions (st_Phase s)"
  shows "is_ok (ApplyHoldemAction s i a) \<longleftrightarrow>
    st_ActingSeatIndex s = Some i \<and>
    (\<exists>l \<in> set (GetLegalActions s (Some i)). la_Type l = ac_Type a
      \<and> (\<forall>m. la_MinTotalSats l = Some m \<longrightarrow> m \<le> ac_TotalSats a)
      \<and> (\<forall>m. la_MaxTotalSats l = Some m \<longrightarrow> ac_TotalSats a \<le> m))"
proof -
  have inv: "hand_inv s" using reachable_inv [OF assms(1,2)] by simp
  have "st_Phase s \<noteq> StreetSettled" using assms(3) by (auto simp: PhaseAllowsActions_def)
  then have turn: "turn_ok s" using reachable_running [OF assms(1,2)] by simp
  show ?thesis
  proof (cases "st_ActingSeatIndex s = Some i")
    case True
    then have "0 \<le> i" "i < seat_count s" "hp_Status (st_Players s ! nat i) = PlayerStatusActive"
      using turn by (auto simp: turn_ok_def)
    from legal_iff_allowed [OF assms(3) this, of a] True
      apply_holdem_action_ok [OF inv assms(3) True, of a] apply_holdem_action_Inr(3) [OF inv, of i a]
    show ?thesis by (auto simp: is_ok_iff)
  next
    case False
    then show ?thesis using apply_holdem_action_Inr(2) [OF inv, of i a] by (auto simp: is_ok_iff)
  qed
qed

text \<open>C4. The list of legal actions is exact: an action is accepted if and only if it comes from the seat that is
  up, its type is in the list and its total lies within the listed limits.\<close>

theorem legal_actions_exactly_accepted:
  assumes "config_ok c" and "reachable c s" and "PhaseAllowsActions (st_Phase s)"
  shows "is_ok (ApplyHoldemAction s i a) \<longleftrightarrow>
    st_ActingSeatIndex s = Some i \<and>
    (\<exists>l \<in> set (GetLegalActions s (Some i)). la_Type l = ac_Type a
      \<and> (\<forall>m. la_MinTotalSats l = Some m \<longrightarrow> m \<le> ac_TotalSats a)
      \<and> (\<forall>m. la_MaxTotalSats l = Some m \<longrightarrow> ac_TotalSats a \<le> m))"
  by (rule accepted_iff_listed [OF assms])

theorem legal_actions_exactly_accepted_witness:
  "is_ok (ApplyHoldemAction demo_open 0 \<lparr>ac_Type = ActionRaise, ac_TotalSats = 200\<rparr>)
    \<and> \<not> is_ok (ApplyHoldemAction demo_open 1 \<lparr>ac_Type = ActionCheck, ac_TotalSats = 0\<rparr>)"
proof -
  have ph: "PhaseAllowsActions (st_Phase demo_open)" by (simp add: demo_phases PhaseAllowsActions_def)
  have "GetLegalActions demo_open (Some 0) =
      [plain_action ActionFold, plain_action ActionCall, sized_action ActionRaise 200 1000]" by code_simp
  with legal_actions_exactly_accepted [OF demo_config_ok demo_reachable(2) ph, of 0 "\<lparr>ac_Type = ActionRaise, ac_TotalSats = 200\<rparr>"]
    legal_actions_exactly_accepted [OF demo_config_ok demo_reachable(2) ph, of 1 "\<lparr>ac_Type = ActionCheck, ac_TotalSats = 0\<rparr>"]
  show ?thesis by (simp add: demo_phases sized_action_def)
qed

text \<open>A raise that is accepted is above the current bet and is either at least the last full raise above it or
  the player's whole stack; it becomes the current bet, and the next minimum raise is the new bet plus
  the largest full raise so far.\<close>

theorem raise_is_full_or_all_in:
  assumes "config_ok c" and "reachable c s" and "ac_Type a = ActionRaise" and "ApplyHoldemAction s i a = Inr s'"
  shows "st_CurrentBetSats s < ac_TotalSats a \<and>
    (st_CurrentBetSats s + st_LastFullRaiseSats s \<le> ac_TotalSats a \<or>
     ac_TotalSats a = hp_RoundContributionSats (st_Players s ! nat i) + hp_StackSats (st_Players s ! nat i)) \<and>
    (st_Phase s' = st_Phase s \<longrightarrow> st_CurrentBetSats s' = ac_TotalSats a \<and>
       st_LastFullRaiseSats s' = max (ac_TotalSats a - st_CurrentBetSats s) (st_LastFullRaiseSats s) \<and>
       st_MinRaiseToSats s' = st_CurrentBetSats s' + st_LastFullRaiseSats s')"
proof -
  have inv: "hand_inv s" using reachable_inv [OF assms(1,2)] by simp
  note A = apply_holdem_action_Inr [OF inv assms(4)]
  have ns: "st_Phase s \<noteq> StreetSettled" using A(1) by (auto simp: PhaseAllowsActions_def)
  then have min: "st_MinRaiseToSats s = st_CurrentBetSats s + st_LastFullRaiseSats s" "0 < st_LastFullRaiseSats s"
    using reachable_running [OF assms(1,2)] by (auto simp: running_def)
  obtain l where close: "closeActionRoundIfNeeded (with_pot (apply_action (s\<lparr>st_ActionLog := l\<rparr>) i a)) i = Inr s'"
    using action_unfold [OF assms(4)] by blast
  have "st_Phase s' = st_Phase s \<longrightarrow> st_CurrentBetSats s' = ac_TotalSats a \<and>
       st_LastFullRaiseSats s' = max (ac_TotalSats a - st_CurrentBetSats s) (st_LastFullRaiseSats s) \<and>
       st_MinRaiseToSats s' = st_CurrentBetSats s' + st_LastFullRaiseSats s'"
    using close
  proof (cases rule: close_cases)
    case 1
    then show ?thesis using ns by simp
  qed (auto simp: apply_action_fields assms(3))
  then show ?thesis using A(3) assms(3) min by (auto simp: min_def split: if_splits)
qed

theorem raise_is_full_or_all_in_witness:
  "\<exists>s'. ApplyHoldemAction demo_open 0 \<lparr>ac_Type = ActionRaise, ac_TotalSats = 300\<rparr> = Inr s' \<and> st_MinRaiseToSats s' = 500"
proof -
  let ?a = "\<lparr>ac_Type = ActionRaise, ac_TotalSats = 300\<rparr>"
  obtain s' where s': "ApplyHoldemAction demo_open 0 ?a = Inr s'"
    "st_Phase s' = st_Phase demo_open" "st_CurrentBetSats demo_open = 100" "st_LastFullRaiseSats demo_open = 100"
  proof -
    have "case ApplyHoldemAction demo_open 0 ?a of Inl _ \<Rightarrow> False | Inr s' \<Rightarrow> st_Phase s' = st_Phase demo_open"
      "st_CurrentBetSats demo_open = 100" "st_LastFullRaiseSats demo_open = 100" by code_simp+
    then show ?thesis using that by (auto split: sum.splits)
  qed
  from raise_is_full_or_all_in [OF demo_config_ok demo_reachable(2) _ s'(1)] s' show ?thesis by simp
qed

text \<open>A street ends only when the betting is done: if an action moves the hand to a reveal phase, it is the next
  one in order, no seat is up, and every player still able to act has acted and has matched the
  current bet.\<close>

theorem street_ends_when_bets_match:
  assumes "ApplyHoldemAction s i a = Inr s'" and "st_Phase s' \<noteq> st_Phase s" and "st_Phase s' \<noteq> StreetSettled"
  shows "streetRevealPhase (st_Phase s) = Inr (st_Phase s') \<and> st_ActingSeatIndex s' = None \<and>
    (\<forall>p \<in> set (st_Players s'). hp_Status p = PlayerStatusActive \<longrightarrow>
       hp_ActedThisRound p \<and> hp_RoundContributionSats p = st_CurrentBetSats s')"
proof -
  obtain l where close: "closeActionRoundIfNeeded (with_pot (apply_action (s\<lparr>st_ActionLog := l\<rparr>) i a)) i = Inr s'"
    using action_unfold [OF assms(1)] by blast
  have ph: "st_Phase (with_pot (apply_action (s\<lparr>st_ActionLog := l\<rparr>) i a)) = st_Phase s" by (simp add: apply_action_fields)
  from round_closed [OF close assms(3)] assms(2) show ?thesis unfolding ph by auto
qed

theorem street_ends_when_bets_match_witness:
  "\<exists>s'. ApplyHoldemAction (move ActionCall 0 0 demo_open) 1 \<lparr>ac_Type = ActionCheck, ac_TotalSats = 0\<rparr> = Inr s'
    \<and> st_Phase s' = StreetFlopReveal \<and> st_ActingSeatIndex s' = None"
proof -
  let ?s = "move ActionCall 0 0 demo_open" and ?a = "\<lparr>ac_Type = ActionCheck, ac_TotalSats = 0\<rparr>"
  have "case ApplyHoldemAction ?s 1 ?a of Inl _ \<Rightarrow> False | Inr s' \<Rightarrow> st_Phase s' = StreetFlopReveal"
    and ph: "st_Phase ?s = StreetPreflop" by code_simp+
  then obtain s' where s': "ApplyHoldemAction ?s 1 ?a = Inr s'" "st_Phase s' = StreetFlopReveal"
    by (auto split: sum.splits)
  from street_ends_when_bets_match [OF s'(1)] s' ph show ?thesis by simp
qed

end
