(* ===== verification/Holdem_Payouts.thy ===== *)
theory Holdem_Payouts
  imports Holdem_Properties
begin

text \<open>
  Who is paid what: the fold settlement in closed form, the showdown slice by slice, the size of the
  amounts, and the independence of the order in which maps are walked.
\<close>

section \<open>Slices below and above a contribution\<close>

lemma slice_total: "layered ps lo n (sl # sls) hi \<Longrightarrow> ps_TotalSats sl =
    (\<Sum>p\<leftarrow>ps. min (sp_ContributionSats p) (ps_CapSats sl)) - (\<Sum>p\<leftarrow>ps. min (sp_ContributionSats p) lo)"
  using sum_layer [of lo "ps_CapSats sl" ps] by (metis layered.simps(2) slice_of_simps(1))

lemma layered_below:
  assumes "p \<in> set ps" and "sp_ContributionSats p = c"
  shows "layered ps lo n sls hi \<Longrightarrow> (\<Sum>sl\<leftarrow>filter (\<lambda>sl. ps_CapSats sl \<le> c) sls. ps_TotalSats sl) =
    (\<Sum>q\<leftarrow>ps. min (sp_ContributionSats q) (max lo (min c hi))) - (\<Sum>q\<leftarrow>ps. min (sp_ContributionSats q) lo)"
proof (induction sls arbitrary: lo n)
  case Nil
  then show ?case by (simp add: max_def)
next
  case (Cons sl sls)
  let ?cap = "ps_CapSats sl"
  have lt: "lo < ?cap" and rest: "layered ps ?cap (Suc n) sls hi" and gap: "c < ?cap \<Longrightarrow> c \<le> lo"
    using Cons.prems assms by auto
  have "?cap \<le> hi" by (rule layered_le [OF rest])
  show ?case
  proof (cases "?cap \<le> c")
    case True
    then have "max lo (min c hi) = max ?cap (min c hi)" using lt \<open>?cap \<le> hi\<close> by (simp add: max_def min_def)
    then show ?thesis using Cons.IH [OF rest] slice_total [OF Cons.prems] True by simp
  next
    case False
    then have "max ?cap (min c hi) = ?cap" "max lo (min c hi) = lo" using gap \<open>?cap \<le> hi\<close> by auto
    then show ?thesis using Cons.IH [OF rest] False by simp
  qed
qed

lemma layered_above:
  assumes ids: "distinct (map sp_PlayerID ps)" and p: "p \<in> set ps" "sp_ContributionSats p = c" and q: "q \<in> set ps"
  shows "layered ps lo n sls hi \<Longrightarrow>
    (\<Sum>sl\<leftarrow>filter (\<lambda>sl. \<not> ps_CapSats sl \<le> c) sls. mget (ps_Contributions sl) (sp_PlayerID q)) =
    min (sp_ContributionSats q) hi - min (sp_ContributionSats q) (max lo (min c hi))"
proof (induction sls arbitrary: lo n)
  case Nil
  then show ?case by (simp add: max_def)
next
  case (Cons sl sls)
  let ?cap = "ps_CapSats sl" and ?R = "reaching ps (ps_CapSats sl)"
  have lt: "lo < ?cap" and rest: "layered ps ?cap (Suc n) sls hi" and gap: "c < ?cap \<Longrightarrow> c \<le> lo"
    and gapq: "sp_ContributionSats q < ?cap \<Longrightarrow> sp_ContributionSats q \<le> lo" and s: "sl = slice_of ?R ?cap lo n"
    using Cons.prems p q by auto
  have "?cap \<le> hi" by (rule layered_le [OF rest])
  have "distinct (map sp_PlayerID ?R)" using ids by (rule distinct_map_filter)
  then have "ps_Contributions sl = map (\<lambda>p. (sp_PlayerID p, ?cap - lo)) ?R" by (subst s) simp
  then have get: "mget (ps_Contributions sl) (sp_PlayerID q) = (if sp_ContributionSats q < ?cap then 0 else ?cap - lo)"
    using mget_keyed_filter [OF ids q, of "\<lambda>_. ?cap - lo"] by simp
  show ?case
  proof (cases "?cap \<le> c")
    case True
    then have "max lo (min c hi) = max ?cap (min c hi)" using lt \<open>?cap \<le> hi\<close> by (simp add: max_def min_def)
    then show ?thesis using Cons.IH [OF rest] True by simp
  next
    case False
    then have "max ?cap (min c hi) = ?cap" "max lo (min c hi) = lo" using gap \<open>?cap \<le> hi\<close> by auto
    then show ?thesis using Cons.IH [OF rest] False get gapq lt by auto
  qed
qed

section \<open>The last player standing\<close>

abbreviation paid_in :: "HoldemPlayerState \<Rightarrow> int" where
  "paid_in \<equiv> hp_TotalContributionSats"

lemma matched_pair:
  assumes "p \<in> set ps" "q \<in> set ps" "p \<noteq> q" "\<forall>r \<in> set ps. 0 \<le> sp_ContributionSats r"
  shows "min (sp_ContributionSats p) (sp_ContributionSats q) \<le> matched_cap ps"
proof -
  let ?m = "min (sp_ContributionSats p) (sp_ContributionSats q)"
  have "{p, q} \<subseteq> set (reaching ps ?m)" using assms by auto
  then have "card {p, q} \<le> card (set (reaching ps ?m))" by (intro card_mono) auto
  also have "\<dots> \<le> length (reaching ps ?m)" by (rule card_length)
  finally have "2 \<le> length (reaching ps ?m)" using assms(3) by simp
  moreover have "?m \<in> sp_ContributionSats ` set ps" using assms by (auto simp: min_def)
  ultimately show ?thesis unfolding matched_cap_def by (intro Max_ge) auto
qed

lemma sum_split_filter:
  "(\<Sum>x\<leftarrow>xs. f x) = (\<Sum>x\<leftarrow>filter P xs. f x) + (\<Sum>x\<leftarrow>filter (\<lambda>x. \<not> P x) xs. f x :: int)"
  by (induction xs) auto

lemma fold_gain:
  assumes d: "derived ps d" and w: "contenders ps = [w]" and p: "p \<in> set ps"
  shows "gain fold_share ps d (hp_PlayerID p) =
    (if p = w then \<Sum>q\<leftarrow>ps. min (paid_in q) (paid_in w) else paid_in p - min (paid_in p) (paid_in w))"
proof -
  let ?P = "map participant_of ps" and ?sls = "pd_Slices d" and ?c = "paid_in w"
  let ?below = "\<lambda>sl. ps_CapSats sl \<le> ?c"
  have lone: "{q \<in> set ps. hp_Status q \<noteq> PlayerStatusFolded} = {w}"
    using arg_cong [OF w, of set] by (simp add: contenders_def)
  then have ws: "w \<in> set ps" "hp_Status w \<noteq> PlayerStatusFolded"
    by blast+
  have ids: "distinct (map sp_PlayerID ?P)" and inj: "distinct (player_ids ps)"
    and pos: "\<forall>q \<in> set ps. 0 \<le> paid_in q"
    using d by (auto simp: derived_def settleable_def comp_def money_nonneg_def)
  have lay: "layered ?P 0 0 ?sls (matched_cap ?P)"
    using d derive_structure(2) [OF _ ids] by (simp add: derived_def)
  have idp: "hp_PlayerID p = hp_PlayerID w \<longleftrightarrow> p = w" using inj p ws(1) by (auto simp: distinct_map inj_on_def)
  have share: "fold_share ps sl (hp_PlayerID p) =
      (if ?below sl then (if p = w then ps_TotalSats sl else 0) else mget (ps_Contributions sl) (hp_PlayerID p))"
    if "sl \<in> set ?sls" for sl
  proof -
    have E: "set (ps_EligiblePlayerIDs sl) = (if ?below sl then {hp_PlayerID w} else {})"
    proof -
      have "{q \<in> set ps. hp_Status q \<noteq> PlayerStatusFolded \<and> ps_CapSats sl \<le> paid_in q} = {q \<in> {w}. ps_CapSats sl \<le> paid_in q}"
        using lone by blast
      then show ?thesis unfolding slice_facts(5) [OF d that] by auto
    qed
    then show ?thesis using idp by (cases "ps_EligiblePlayerIDs sl") (auto simp: fold_share_def split: if_splits)
  qed
  have "(\<Sum>sl\<leftarrow>?sls. fold_share ps sl (hp_PlayerID p)) =
      (if p = w then \<Sum>sl\<leftarrow>filter ?below ?sls. ps_TotalSats sl else 0) +
      (\<Sum>sl\<leftarrow>filter (\<lambda>sl. \<not> ?below sl) ?sls. mget (ps_Contributions sl) (hp_PlayerID p))"
  proof -
    have b: "map (\<lambda>sl. fold_share ps sl (hp_PlayerID p)) (filter ?below ?sls) =
        map (\<lambda>sl. if p = w then ps_TotalSats sl else 0) (filter ?below ?sls)"
      by (intro map_cong refl) (auto simp: share)
    have a: "map (\<lambda>sl. fold_share ps sl (hp_PlayerID p)) (filter (\<lambda>sl. \<not> ?below sl) ?sls) =
        map (\<lambda>sl. mget (ps_Contributions sl) (hp_PlayerID p)) (filter (\<lambda>sl. \<not> ?below sl) ?sls)"
      by (intro map_cong refl) (auto simp: share)
    show ?thesis
      unfolding sum_split_filter [of "\<lambda>sl. fold_share ps sl (hp_PlayerID p)" ?sls ?below] b a by (simp add: sum_list_triv)
  qed
  moreover have "(\<Sum>sl\<leftarrow>filter ?below ?sls. ps_TotalSats sl) = (\<Sum>q\<leftarrow>ps. min (paid_in q) (min ?c (matched_cap ?P)))"
  proof -
    have "0 \<le> min ?c (matched_cap ?P)" using pos ws(1) layered_le [OF lay] by simp
    moreover have "(\<Sum>q\<leftarrow>ps. min (paid_in q) 0) = 0" using pos by (induction ps) auto
    ultimately show ?thesis
      using layered_below [OF _ _ lay, of "participant_of w" ?c] ws(1) by (simp add: comp_def max_def)
  qed
  moreover have "(\<Sum>sl\<leftarrow>filter (\<lambda>sl. \<not> ?below sl) ?sls. mget (ps_Contributions sl) (hp_PlayerID p)) =
      min (paid_in p) (matched_cap ?P) - min (paid_in p) (min ?c (matched_cap ?P))"
    using layered_above [OF ids _ _ _ lay, of "participant_of w" ?c "participant_of p"] ws(1) p pos layered_le [OF lay]
    by (auto simp: max_def)
  moreover have capped: "min (paid_in q) (min ?c (matched_cap ?P)) = min (paid_in q) ?c" if "q \<in> set ps" "q \<noteq> w" for q
  proof -
    have "participant_of q \<noteq> participant_of w"
      using inj that ws(1) by (metis (no_types, lifting) distinct_map inj_onD participant_of_simps(1))
    from matched_pair [OF _ _ this, of ?P] that ws(1) pos show ?thesis
      by (simp add: min.assoc [symmetric] min.absorb1)
  qed
  moreover have "(\<Sum>q\<leftarrow>ps. min (paid_in q) (min ?c (matched_cap ?P))) =
      (\<Sum>q\<leftarrow>ps. min (paid_in q) ?c) - (?c - min ?c (matched_cap ?P))"
  proof -
    have "min (paid_in q) ?c = min (paid_in q) (min ?c (matched_cap ?P)) +
        (if hp_PlayerID q = hp_PlayerID w then ?c - min ?c (matched_cap ?P) else 0)" if "q \<in> set ps" for q
      using capped [OF that] that inj ws(1) by (cases "q = w") (auto simp: distinct_map inj_on_def)
    then have "(\<Sum>q\<leftarrow>ps. min (paid_in q) ?c) = (\<Sum>q\<leftarrow>ps. min (paid_in q) (min ?c (matched_cap ?P))) +
        (\<Sum>q\<leftarrow>ps. if hp_PlayerID q = hp_PlayerID w then ?c - min ?c (matched_cap ?P) else 0)"
      by (simp add: sum_list_addf [symmetric] cong: map_cong)
    then show ?thesis using sum_indicator_players [OF inj, of "hp_PlayerID w"] ws(1) by simp
  qed
  ultimately show ?thesis
    using unmatched_facts(4) [OF d p] capped [OF p] by (cases "p = w") (simp_all add: gain_def)
qed

section \<open>The showdown, slice by slice\<close>

text \<open>The score of a contender, as the showdown computes it from its hole cards and the board.\<close>

definition has_score :: "HoldemState \<Rightarrow> (string, CardCode \<times> CardCode) gomap \<Rightarrow> HoldemPlayerState \<Rightarrow> HandScore \<Rightarrow> bool" where
  "has_score s holeCards p score \<longleftrightarrow>
     (\<exists>a b. map_of holeCards (hp_PlayerID p) = Some (a, b) \<and> ScoreSevenCardHand ([a, b] @ st_Board s) = Inr score)"

definition plays_for :: "PotSlice \<Rightarrow> HoldemPlayerState \<Rightarrow> bool" where
  "plays_for sl p \<longleftrightarrow> hp_Status p \<noteq> PlayerStatusFolded \<and> ps_CapSats sl \<le> hp_TotalContributionSats p"

definition wins :: "HoldemState \<Rightarrow> (string, CardCode \<times> CardCode) gomap \<Rightarrow> PotSlice \<Rightarrow> HoldemPlayerState \<Rightarrow> bool" where
  "wins s holeCards sl p \<longleftrightarrow> plays_for sl p \<and>
     (\<forall>q \<in> set (st_Players s). plays_for sl q \<longrightarrow>
        (\<forall>x y. has_score s holeCards p x \<longrightarrow> has_score s holeCards q y \<longrightarrow> 0 \<le> CompareScoredHands x y))"

lemma score_contenders_Inr:
  "score_contenders board holeCards cs acc = Inr r \<Longrightarrow> \<forall>p \<in> set cs. map_of holeCards (hp_PlayerID p) \<noteq> None"
proof (induction cs arbitrary: acc)
  case (Cons p cs)
  obtain shown scores where "acc = (shown, scores)" by fastforce
  with Cons show ?case by (auto split: option.splits sum.splits prod.splits)
qed simp

lemma showdown_winner_ids:
  assumes d: "derived ps d" "sl \<in> set (pd_Slices d)"
    and scores: "\<And>p. p \<in> set (contenders ps) \<Longrightarrow> map_of scores (hp_PlayerID p) = Some (score p)"
    and some: "\<exists>p \<in> set ps. plays_for sl p"
  defines "el \<equiv> eligible_winners (contenders ps) scores (ps_EligiblePlayerIDs sl)"
  shows "el \<noteq> []" and "p \<in> set ps \<Longrightarrow> hp_PlayerID p \<in> hw_PlayerID ` set (slice_winners el) \<longleftrightarrow>
      plays_for sl p \<and> (\<forall>q \<in> set ps. plays_for sl q \<longrightarrow> 0 \<le> CompareScoredHands (score p) (score q))"
proof -
  have inj: "inj_on hp_PlayerID (set ps)" using d(1) by (auto simp: derived_def settleable_def distinct_map)
  have E: "set (ps_EligiblePlayerIDs sl) = hp_PlayerID ` {p \<in> set ps. plays_for sl p}"
    unfolding plays_for_def by (rule slice_facts(5) [OF d])
  define w where "w p = \<lparr>hw_PlayerID = hp_PlayerID p, hw_SeatIndex = hp_SeatIndex p, hw_AmountSats = 0,
      hw_HandScore = Some (score p)\<rparr>" for p :: HoldemPlayerState
  have el: "set el = w ` {p \<in> set ps. plays_for sl p}"
  proof -
    have "{p \<in> set (contenders ps). hp_PlayerID p \<in> set (ps_EligiblePlayerIDs sl)} = {p \<in> set ps. plays_for sl p}"
      unfolding E using inj by (auto simp: contenders_def plays_for_def inj_on_def)
    moreover have "set el = w ` {p \<in> set (contenders ps). hp_PlayerID p \<in> set (ps_EligiblePlayerIDs sl)}"
      using scores by (auto simp: el_def eligible_winners_def w_def image_iff)
    ultimately show ?thesis by simp
  qed
  then show ne: "el \<noteq> []" using some by auto
  show "hp_PlayerID p \<in> hw_PlayerID ` set (slice_winners el) \<longleftrightarrow>
      plays_for sl p \<and> (\<forall>q \<in> set ps. plays_for sl q \<longrightarrow> 0 \<le> CompareScoredHands (score p) (score q))"
    if p: "p \<in> set ps"
  proof -
    have pick: "{x \<in> w ` A. \<forall>y \<in> w ` A. 0 \<le> winner_cmp x y} =
        w ` {q \<in> A. \<forall>r \<in> A. 0 \<le> CompareScoredHands (score q) (score r)}" for A
      by (auto simp: w_def)
    have "set (slice_winners el) = {x \<in> set el. \<forall>y \<in> set el. 0 \<le> winner_cmp x y}"
      using slice_winners_spec(2) [OF ne] by blast
    then have "hw_PlayerID ` set (slice_winners el) = hp_PlayerID ` {q \<in> {q \<in> set ps. plays_for sl q}.
        \<forall>r \<in> {r \<in> set ps. plays_for sl r}. 0 \<le> CompareScoredHands (score q) (score r)}"
      unfolding el pick by (simp add: w_def image_image)
    then show ?thesis using p inj by (auto simp: inj_on_def)
  qed
qed

lemma length_candidates [simp]: "length (candidates ws) = length ws"
  by (simp add: candidates_def)

text \<open>
  What a slice pays at the showdown: with nobody left to play for it the contributions go back;
  otherwise its winners, and only they, are paid, in shares that differ by at most one.
\<close>

lemma showdown_share_spec:
  fixes dealer :: nat
  assumes d: "derived ps d" "sl \<in> set (pd_Slices d)"
    and scores: "\<And>p. p \<in> set (contenders ps) \<Longrightarrow> map_of scores (hp_PlayerID p) = Some (score p)"
    and p: "p \<in> set ps"
  defines "best q \<equiv> plays_for sl q \<and> (\<forall>r \<in> set ps. plays_for sl r \<longrightarrow> 0 \<le> CompareScoredHands (score q) (score r))"
    and "paid q \<equiv> showdown_share scores dealer ps sl (hp_PlayerID q)"
  shows "\<exists>q \<in> set ps. plays_for sl q \<Longrightarrow> 0 < paid p \<longleftrightarrow> best p"
    and "\<exists>q \<in> set ps. plays_for sl q \<Longrightarrow> q \<in> set ps \<Longrightarrow> best p \<Longrightarrow> best q \<Longrightarrow> \<bar>paid p - paid q\<bar> \<le> 1"
    and "\<forall>q \<in> set ps. \<not> plays_for sl q \<Longrightarrow> paid p = mget (ps_Contributions sl) (hp_PlayerID p)"
proof -
  let ?el = "eligible_winners (contenders ps) scores (ps_EligiblePlayerIDs sl)"
  have ids: "distinct (player_ids ps)" using d(1) by (simp add: derived_def settleable_def)
  show "paid p = mget (ps_Contributions sl) (hp_PlayerID p)" if "\<forall>q \<in> set ps. \<not> plays_for sl q"
  proof -
    have "set (ps_EligiblePlayerIDs sl) = {}" unfolding slice_facts(5) [OF d] using that by (auto simp: plays_for_def)
    then have "?el = []" by (simp add: eligible_winners_def)
    then show ?thesis by (simp add: paid_def showdown_share_def)
  qed
  assume some: "\<exists>q \<in> set ps. plays_for sl q"
  have W: "?el \<noteq> []" "\<And>q. q \<in> set ps \<Longrightarrow> hp_PlayerID q \<in> hw_PlayerID ` set (slice_winners ?el) \<longleftrightarrow> best q"
    unfolding best_def using showdown_winner_ids [OF d _ some, of scores score] scores by simp_all
  obtain pay oddIds where P: "SplitAmount (ps_TotalSats sl) (candidates (slice_winners ?el)) (int dealer) = Inr (pay, oddIds)"
      "map_nonneg pay" "fst ` set pay = hw_PlayerID ` set (slice_winners ?el)"
      "distinct (map hw_PlayerID (slice_winners ?el))"
    by (rule showdown_split [OF d refl W(1), of dealer]) blast
  have paid: "paid q = mget pay (hp_PlayerID q)" for q using W(1) P(1) by (simp add: paid_def showdown_share_def)
  have get: "mget pay (hp_PlayerID q) = ps_TotalSats sl div int (length (slice_winners ?el)) +
      (if hp_PlayerID q \<in> set oddIds then 1 else 0)" if "q \<in> set ps" "best q" for q
  proof -
    have "hp_PlayerID q \<in> pc_PlayerID ` set (candidates (slice_winners ?el))" using W(2) that by simp
    then obtain c where "c \<in> set (candidates (slice_winners ?el))" "pc_PlayerID c = hp_PlayerID q" by (metis imageE)
    from split_amount_get [OF slice_facts(4) [OF d] _ P(1) _ this(1)] this(2) P(4) show ?thesis
      using slice_winners_spec(1) [OF W(1)] by simp
  qed
  show "\<bar>paid p - paid q\<bar> \<le> 1" if "q \<in> set ps" "best p" "best q" using get [OF p] get that by (simp add: paid)
  have zero: "mget pay (hp_PlayerID p) = 0" if "\<not> best p"
    using W(2) [OF p] P(3) that by (intro mget_notin) simp
  have "int (length (slice_winners ?el)) \<le> ps_TotalSats sl"
  proof -
    obtain cap prev n where s: "sl = slice_of (reaching (map participant_of ps) cap) cap prev n" "prev < cap"
      by (rule derived_slice [OF d])
    have "length (slice_winners ?el) = card (hw_PlayerID ` set (slice_winners ?el))"
      using P(4) by (metis distinct_card length_map set_map)
    also have "hw_PlayerID ` set (slice_winners ?el) \<subseteq> hp_PlayerID ` set (filter (\<lambda>q. \<not> paid_in q < cap) ps)"
    proof
      fix k assume k: "k \<in> hw_PlayerID ` set (slice_winners ?el)"
      then have "k \<in> set (player_ids ps)"
        using slice_winners_ids(2) [OF eligible_winners_facts(1) [OF ids]] eligible_winners_facts(2) [OF ids] by blast
      then obtain q where q: "q \<in> set ps" "k = hp_PlayerID q" by auto
      then have "plays_for sl q" using W(2) k by (simp add: best_def)
      then show "k \<in> hp_PlayerID ` set (filter (\<lambda>q. \<not> paid_in q < cap) ps)"
        using q s(1) by (auto simp: plays_for_def slice_of_def)
    qed
    then have "card (hw_PlayerID ` set (slice_winners ?el)) \<le> card (hp_PlayerID ` set (filter (\<lambda>q. \<not> paid_in q < cap) ps))"
      by (intro card_mono) auto
    also have "\<dots> \<le> length (filter (\<lambda>q. \<not> paid_in q < cap) ps)" by (metis card_length length_map set_map)
    finally have "int (length (slice_winners ?el)) \<le> int (length (reaching (map participant_of ps) cap))"
      by (simp add: filter_map comp_def)
    also have "\<dots> \<le> (cap - prev) * int (length (reaching (map participant_of ps) cap))"
      using mult_right_mono [of 1 "cap - prev" "int (length (reaching (map participant_of ps) cap))"] s(2) by simp
    finally show ?thesis using s(1) by simp
  qed
  moreover have "0 < int (length (slice_winners ?el))" using slice_winners_spec(1) [OF W(1)] by simp
  ultimately have "1 \<le> ps_TotalSats sl div int (length (slice_winners ?el))"
    by (metis div_self order_less_irrefl zdiv_mono1)
  then show "0 < paid p \<longleftrightarrow> best p" using get [OF p] zero by (cases "best p") (auto simp: paid)
qed

section \<open>Properties\<close>

text \<open>When all but one player have folded, the survivor takes from every player at most what it has put in
  itself, and whatever a folded player put in beyond that goes back to it.\<close>

theorem fold_settlement_pays_survivor:
  assumes "settleable (st_Players s)" and "getActivePlayers s = [w]"
  shows "\<exists>s'. settleByFold s = Inr s' \<and> length (st_Players s') = length (st_Players s) \<and>
    (\<forall>i < length (st_Players s). let p = st_Players s ! i in
       hp_StackSats (st_Players s' ! i) = hp_StackSats p +
         (if p = w then \<Sum>q\<leftarrow>st_Players s. min (hp_TotalContributionSats q) (hp_TotalContributionSats w)
          else hp_TotalContributionSats p - min (hp_TotalContributionSats p) (hp_TotalContributionSats w)))"
proof -
  have w: "contenders (st_Players s) = [w]" using assms(2) by (simp add: getActivePlayers_contenders)
  obtain d winners where d: "derived (st_Players s) d" "settleByFold s = Inr (settled_state fold_share d winners s)"
    using settle_by_fold [OF assms(1)] assms(2) by auto
  then show ?thesis
    using fold_gain [OF d(1) w] by (simp add: settled_state_def Let_def)
qed

definition folded_table :: HoldemState where
  "folded_table = demo_new\<lparr>st_Players :=
     [\<lparr>hp_PlayerID = ''alice'', hp_SeatIndex = 0, hp_StackSats = 900, hp_Status = PlayerStatusFolded,
        hp_RoundContributionSats = 100, hp_TotalContributionSats = 100, hp_ActedThisRound = True\<rparr>,
      \<lparr>hp_PlayerID = ''bob'', hp_SeatIndex = 1, hp_StackSats = 0, hp_Status = PlayerStatusAllIn,
        hp_RoundContributionSats = 30, hp_TotalContributionSats = 30, hp_ActedThisRound = True\<rparr>]\<rparr>"

theorem fold_settlement_pays_survivor_witness:
  "\<exists>s'. settleByFold folded_table = Inr s' \<and> hp_StackSats (st_Players s' ! 0) = 970 \<and> hp_StackSats (st_Players s' ! 1) = 60"
proof -
  have "settleable (st_Players folded_table)" by (simp add: settleable_def folded_table_def money_nonneg_def)
  moreover have "getActivePlayers folded_table = [st_Players folded_table ! 1]"
    by (simp add: getActivePlayers_def folded_table_def)
  ultimately obtain s' where s': "settleByFold folded_table = Inr s'"
    "\<forall>i < length (st_Players folded_table). let p = st_Players folded_table ! i in
       hp_StackSats (st_Players s' ! i) = hp_StackSats p +
         (if p = st_Players folded_table ! 1 then \<Sum>q\<leftarrow>st_Players folded_table. min (paid_in q) (paid_in (st_Players folded_table ! 1))
          else paid_in p - min (paid_in p) (paid_in (st_Players folded_table ! 1)))"
    using fold_settlement_pays_survivor by blast
  from s'(2) [rule_format, of 0] s'(2) [rule_format, of 1] s'(1) show ?thesis by (simp add: folded_table_def Let_def)
qed

text \<open>C2. The showdown pays each player its unmatched excess and its share of every slice: the shares of a slice
  add up to it; if nobody who is still in the hand plays for the slice, its contributions go back;
  otherwise exactly the players with the best hand among those who play for it are paid, and their
  shares differ by at most one.\<close>

theorem showdown_pays_best_hands:
  assumes "config_ok c" and "reachable c s" and "SettleHoldemShowdown s holeCards = Inr s'"
  shows "\<exists>d share. DerivePotStructure (map participant_of (st_Players s)) = Inr d \<and>
    (\<forall>i < length (st_Players s). hp_StackSats (st_Players s' ! i) = hp_StackSats (st_Players s ! i) +
       mget (pd_UnmatchedContributionSats d) (hp_PlayerID (st_Players s ! i)) +
       (\<Sum>sl\<leftarrow>pd_Slices d. share sl (st_Players s ! i))) \<and>
    (\<forall>sl \<in> set (pd_Slices d).
       (\<Sum>p\<leftarrow>st_Players s. share sl p) = ps_TotalSats sl \<and>
       (if \<exists>p \<in> set (st_Players s). plays_for sl p
        then (\<forall>p \<in> set (st_Players s). 0 < share sl p \<longleftrightarrow> wins s holeCards sl p) \<and>
          (\<forall>p \<in> set (st_Players s). \<forall>q \<in> set (st_Players s).
             wins s holeCards sl p \<and> wins s holeCards sl q \<longrightarrow> \<bar>share sl p - share sl q\<bar> \<le> 1)
        else \<forall>p \<in> set (st_Players s). share sl p = mget (ps_Contributions sl) (hp_PlayerID p)))"
proof -
  let ?ps = "st_Players s"
  have inv: "hand_inv s" using reachable_inv [OF assms(1,2)] by simp
  have ph: "st_Phase s = StreetShowdownReveal" and t: "settleShowdown s holeCards = Inr s'"
    using assms(3) by (auto simp: SettleHoldemShowdown_def split: if_splits)
  note F = showdown_facts [OF inv ph]
  obtain d winners shown scores where d: "derived ?ps d"
    and sc: "score_contenders (st_Board s) holeCards (contenders ?ps) (st_ShowdownScores s, []) = Inr (shown, scores)"
    and s': "s' = settled_state (showdown_share scores (dealer_nat s)) d winners (s\<lparr>st_ShowdownScores := shown\<rparr>)"
    using settle_showdown_Inr [OF F(1,2) t] by blast
  define score where "score p = the (map_of scores (hp_PlayerID p))" for p :: HoldemPlayerState
  have scored: "map_of scores (hp_PlayerID p) = Some (score p)" "has_score s holeCards p x \<longleftrightarrow> x = score p"
    if "p \<in> set (contenders ?ps)" for p x
    using score_contenders_ok [OF F(4) score_contenders_Inr [OF sc] F(7), of "st_ShowdownScores s" "[]"] sc that
    by (fastforce simp: score_def has_score_def)+
  have wins: "wins s holeCards sl p \<longleftrightarrow> plays_for sl p \<and>
      (\<forall>r \<in> set ?ps. plays_for sl r \<longrightarrow> 0 \<le> CompareScoredHands (score p) (score r))" if "p \<in> set ?ps" for sl p
    using scored(2) that by (auto simp: wins_def plays_for_def contenders_def)
  let ?share = "\<lambda>sl p. showdown_share scores (dealer_nat s) ?ps sl (hp_PlayerID p)"
  have "\<forall>sl \<in> set (pd_Slices d). (\<Sum>p\<leftarrow>?ps. ?share sl p) = ps_TotalSats sl \<and>
       (if \<exists>p \<in> set ?ps. plays_for sl p
        then (\<forall>p \<in> set ?ps. 0 < ?share sl p \<longleftrightarrow> wins s holeCards sl p) \<and>
          (\<forall>p \<in> set ?ps. \<forall>q \<in> set ?ps.
             wins s holeCards sl p \<and> wins s holeCards sl q \<longrightarrow> \<bar>?share sl p - ?share sl q\<bar> \<le> 1)
        else \<forall>p \<in> set ?ps. ?share sl p = mget (ps_Contributions sl) (hp_PlayerID p))"
  proof
    fix sl assume sl: "sl \<in> set (pd_Slices d)"
    note S = showdown_share_spec [OF d sl scored(1), where dealer = "dealer_nat s"]
    show "(\<Sum>p\<leftarrow>?ps. ?share sl p) = ps_TotalSats sl \<and>
       (if \<exists>p \<in> set ?ps. plays_for sl p
        then (\<forall>p \<in> set ?ps. 0 < ?share sl p \<longleftrightarrow> wins s holeCards sl p) \<and>
          (\<forall>p \<in> set ?ps. \<forall>q \<in> set ?ps.
             wins s holeCards sl p \<and> wins s holeCards sl q \<longrightarrow> \<bar>?share sl p - ?share sl q\<bar> \<le> 1)
        else \<forall>p \<in> set ?ps. ?share sl p = mget (ps_Contributions sl) (hp_PlayerID p))"
      using by_showdown.share_total [OF d sl] S wins by auto
  qed
  moreover have "\<forall>i < length ?ps. hp_StackSats (st_Players s' ! i) = hp_StackSats (?ps ! i) +
       mget (pd_UnmatchedContributionSats d) (hp_PlayerID (?ps ! i)) + (\<Sum>sl\<leftarrow>pd_Slices d. ?share sl (?ps ! i))"
    by (simp add: s' settled_state_def gain_def)
  ultimately show ?thesis
    using d by (intro exI [of _ d] exI [of _ ?share]) (simp add: derived_def)
qed

definition demo_cards :: "(string, CardCode \<times> CardCode) gomap" where
  "demo_cards = [(''alice'', (''Ah'', ''Kd'')), (''bob'', (''Tc'', ''4s''))]"

lemma demo_showdown_scores: "\<exists>s'. SettleHoldemShowdown demo_showdown demo_cards = Inr s'"
proof -
  have inv: "hand_inv demo_showdown" using reachable_inv [OF demo_config_ok demo_reachable(4)] by simp
  note F = showdown_facts [OF inv demo_phases(3)]
  have "player_ids (contenders (st_Players demo_showdown)) = [''alice'', ''bob'']" by code_simp
  then have "\<forall>k \<in> set (player_ids (contenders (st_Players demo_showdown))). map_of demo_cards k \<noteq> None"
    by (simp add: demo_cards_def)
  then have "\<forall>p \<in> set (contenders (st_Players demo_showdown)). map_of demo_cards (hp_PlayerID p) \<noteq> None" by simp
  from score_contenders_ok [OF F(4) this F(7)] obtain shown scores where
    "score_contenders (st_Board demo_showdown) demo_cards (contenders (st_Players demo_showdown))
       (st_ShowdownScores demo_showdown, []) = Inr (shown, scores)" by blast
  from settle_showdown [OF F(1-3) this] show ?thesis by (auto simp: SettleHoldemShowdown_def demo_phases)
qed

theorem showdown_pays_best_hands_witness:
  "\<exists>s' d share. SettleHoldemShowdown demo_showdown demo_cards = Inr s' \<and>
    DerivePotStructure (map participant_of (st_Players demo_showdown)) = Inr d \<and>
    hp_StackSats (st_Players s' ! 0) = hp_StackSats (st_Players demo_showdown ! 0) +
      mget (pd_UnmatchedContributionSats d) ''alice'' + (\<Sum>sl\<leftarrow>pd_Slices d. share sl (st_Players demo_showdown ! 0))"
proof -
  obtain s' where s': "SettleHoldemShowdown demo_showdown demo_cards = Inr s'" using demo_showdown_scores by blast
  have "length (st_Players demo_showdown) = 2" "hp_PlayerID (st_Players demo_showdown ! 0) = ''alice''" by code_simp+
  with showdown_pays_best_hands [OF demo_config_ok demo_reachable(4) s'] s' show ?thesis by (metis zero_less_numeral)
qed

text \<open>C8. The showdown of a hand that has reached it succeeds as soon as the hole cards of every player still in
  the hand are known, and fails with an error, not a payout, if one is missing.\<close>

theorem showdown_needs_exactly_the_reveals:
  assumes "config_ok c" and "reachable c s" and "st_Phase s = StreetShowdownReveal"
  shows "is_ok (SettleHoldemShowdown s holeCards) \<longleftrightarrow>
    (\<forall>p \<in> set (st_Players s). hp_Status p \<noteq> PlayerStatusFolded \<longrightarrow> map_of holeCards (hp_PlayerID p) \<noteq> None)"
proof -
  have inv: "hand_inv s" using reachable_inv [OF assms(1,2)] by simp
  note F = showdown_facts [OF inv assms(3)]
  have all: "(\<forall>p \<in> set (st_Players s). hp_Status p \<noteq> PlayerStatusFolded \<longrightarrow> map_of holeCards (hp_PlayerID p) \<noteq> None)
      \<longleftrightarrow> (\<forall>p \<in> set (contenders (st_Players s)). map_of holeCards (hp_PlayerID p) \<noteq> None)" by (auto simp: contenders_def)
  show ?thesis
  proof
    assume "is_ok (SettleHoldemShowdown s holeCards)"
    then obtain s' where "settleShowdown s holeCards = Inr s'" using assms(3) by (auto simp: SettleHoldemShowdown_def is_ok_iff)
    from settle_showdown_Inr [OF F(1,2) this] show "\<forall>p \<in> set (st_Players s). hp_Status p \<noteq> PlayerStatusFolded \<longrightarrow> map_of holeCards (hp_PlayerID p) \<noteq> None"
      unfolding all using score_contenders_Inr by blast
  next
    assume "\<forall>p \<in> set (st_Players s). hp_Status p \<noteq> PlayerStatusFolded \<longrightarrow> map_of holeCards (hp_PlayerID p) \<noteq> None"
    then obtain shown scores where
      "score_contenders (st_Board s) holeCards (contenders (st_Players s)) (st_ShowdownScores s, []) = Inr (shown, scores)"
      unfolding all using score_contenders_ok [OF F(4) _ F(7)] by blast
    from settle_showdown [OF F(1-3) this] assms(3) show "is_ok (SettleHoldemShowdown s holeCards)"
      by (auto simp: SettleHoldemShowdown_def is_ok_iff)
  qed
qed

theorem showdown_needs_exactly_the_reveals_witness: "\<not> is_ok (SettleHoldemShowdown demo_showdown [])"
proof -
  have "\<exists>p \<in> set (st_Players demo_showdown). hp_Status p \<noteq> PlayerStatusFolded" by code_simp
  with showdown_needs_exactly_the_reveals [OF demo_config_ok demo_reachable(4) demo_phases(3), of "[]"] show ?thesis by auto
qed

section \<open>Order of maps\<close>

lemma map_of_perm: "distinct (map fst m) \<Longrightarrow> mset m = mset m' \<Longrightarrow> map_of m = map_of m'"
  by (metis map_of_inject_set mset_eq_imp_distinct_iff mset_eq_setD mset_map)

text \<open>Go walks a map in no fixed order; the settlement does not depend on it. Refunds applied in any order give
  the same state, and so do payouts and winners as long as no two winners share a seat.\<close>

theorem settlement_ignores_map_order:
  assumes "settleable (st_Players s)" and "map_nonneg refunds" and "mset refunds = mset refunds'"
    and "distinct (map fst pay)" and "mset pay = mset pay'" and "mset win = mset win'"
    and "inj_on (hw_SeatIndex \<circ> snd) (set win)" and "distinct (map fst win)"
  shows "refund_all refunds s = refund_all refunds' s \<and> awardPotPayouts s pay win = awardPotPayouts s pay' win'"
proof
  have nn: "map_nonneg refunds'"
    using assms(2,3) mset_eq_setD [OF assms(3)] mset_eq_imp_distinct_iff [of "map fst refunds" "map fst refunds'"]
    by (simp add: map_nonneg_def)
  have "mget refunds = mget refunds'"
    using map_of_perm [OF _ assms(3)] assms(2) by (intro ext) (simp add: mget_def map_nonneg_def)
  then show "refund_all refunds s = refund_all refunds' s"
    using refund_all_map [OF assms(2)] refund_all_map [OF nn] assms(1) by (simp add: settleable_def)
  have pay: "mget pay = mget pay'" using map_of_perm [OF assms(4,5)] by (intro ext) (simp add: mget_def)
  have "distinct (map fst pay')" using assms(4,5) mset_eq_imp_distinct_iff [of "map fst pay" "map fst pay'"] by simp
  then have "fold (\<lambda>(k, a). update_player k (pay_player a)) pay (st_Players s)
      = fold (\<lambda>(k, a). update_player k (pay_player a)) pay' (st_Players s)"
    using assms(1,4) by (simp add: fold_pay_players settleable_def pay)
  moreover have "slice_stable (\<lambda>l r. hw_SeatIndex l < hw_SeatIndex r)
        (map (\<lambda>(k, w). w\<lparr>hw_AmountSats := mget pay k\<rparr>) win)
      = slice_stable (\<lambda>l r. hw_SeatIndex l < hw_SeatIndex r) (map (\<lambda>(k, w). w\<lparr>hw_AmountSats := mget pay' k\<rparr>) win')"
  proof (rule slice_stable_perm)
    show "inj_on hw_SeatIndex (set (map (\<lambda>(k, w). w\<lparr>hw_AmountSats := mget pay k\<rparr>) win))"
      using assms(7) by (fastforce simp: inj_on_def)
  qed (simp add: assms(6) pay)
  ultimately show "awardPotPayouts s pay win = awardPotPayouts s pay' win'" by (simp add: awardPotPayouts_def)
qed

theorem settlement_ignores_map_order_witness:
  "refund_all [(''alice'', 10), (''bob'', 5)] folded_table = refund_all [(''bob'', 5), (''alice'', 10)] folded_table
    \<and> awardPotPayouts folded_table [(''alice'', 1), (''bob'', 2)] [] = awardPotPayouts folded_table [(''bob'', 2), (''alice'', 1)] []"
proof -
  have "settleable (st_Players folded_table)" by (simp add: settleable_def folded_table_def money_nonneg_def)
  from settlement_ignores_map_order [OF this, of "[(''alice'', 10), (''bob'', 5)]" "[(''bob'', 5), (''alice'', 10)]"
      "[(''alice'', 1), (''bob'', 2)]" "[(''bob'', 2), (''alice'', 1)]" "[]" "[]"]
  show ?thesis by (simp add: map_nonneg_def add_mset_commute)
qed

end
