(* ===== verification/Holdem_Bounds.thy ===== *)
theory Holdem_Bounds
  imports Holdem_Payouts
begin

text \<open>
  The size of the amounts: everything a hand computes stays within a small multiple of the chips on
  the table, so the source's 64-bit integers never overflow and unbounded integers model them.
  The deal plan and the checkpoint of a state close the engine.
\<close>

section \<open>Bet sizes\<close>

definition sized :: "int \<Rightarrow> int \<Rightarrow> HoldemState \<Rightarrow> bool" where
  "sized limit blind s \<longleftrightarrow>
     st_BigBlindSats s = blind \<and> 0 \<le> st_CurrentBetSats s \<and> st_CurrentBetSats s \<le> limit \<and>
     0 \<le> st_LastFullRaiseSats s \<and> st_LastFullRaiseSats s \<le> max blind limit \<and>
     0 \<le> st_MinRaiseToSats s \<and> st_MinRaiseToSats s \<le> limit + max blind limit"

lemma sized_acting [simp]: "sized limit blind (s\<lparr>st_ActingSeatIndex := r\<rparr>) = sized limit blind s"
  "sized limit blind (s\<lparr>st_Phase := ph\<rparr>) = sized limit blind s"
  "sized limit blind (s\<lparr>st_RaiseLockedSeatIndex := q\<rparr>) = sized limit blind s"
  "sized limit blind (s\<lparr>st_ShowdownScores := sc\<rparr>) = sized limit blind s"
  "sized limit blind (s\<lparr>st_PotSats := pt\<rparr>) = sized limit blind s"
  by (simp_all add: sized_def)

lemma sized_settled: "sized limit blind s \<Longrightarrow> sized limit blind (settled_state share d winners s)"
  by (simp add: sized_def settled_state_def)

lemma close_sized:
  assumes "running t" "sized limit blind t" "closeActionRoundIfNeeded t i = Inr s'"
  shows "sized limit blind s'"
proof (cases "length (getActivePlayers t) = 1")
  case True
  then have "settleByFold t = Inr s'" using assms(3) by (simp add: closeActionRoundIfNeeded_def)
  then show ?thesis using settle_by_fold [OF running_settleable [OF assms(1)] True] sized_settled [OF assms(2)] by auto
next
  case False
  then show ?thesis
    using assms(2,3) by (auto simp: closeActionRoundIfNeeded_def close_round_def Let_def split: if_splits sum.splits)
qed

lemma contribution_le_chips:
  assumes "running s" and "p \<in> set (st_Players s)"
  shows "hp_TotalContributionSats p \<le> chips s" and "hp_RoundContributionSats p \<le> chips s" and "hp_StackSats p \<le> chips s"
proof -
  have ok: "\<forall>p \<in> set (st_Players s). player_ok p" using assms(1) by (simp add: running_def)
  have "hp_TotalContributionSats p \<le> contributions s" "hp_StackSats p \<le> stacks s" "0 \<le> stacks s" "0 \<le> contributions s"
    unfolding contributions_def stacks_def using ok assms(2)
    by (auto intro!: elem_le_sum_int sum_list_nonneg_int simp: player_ok_def)
  moreover have "hp_RoundContributionSats p \<le> hp_TotalContributionSats p" using ok assms(2) by (simp add: player_ok_def)
  ultimately show "hp_TotalContributionSats p \<le> chips s" "hp_RoundContributionSats p \<le> chips s" "hp_StackSats p \<le> chips s"
    by (simp_all add: chips_def)
qed

lemma action_sized:
  assumes inv: "hand_inv s" and fin: "ApplyHoldemAction s i a = Inr s'" and sz: "sized (chips s) blind s"
  shows "sized (chips s) blind s'"
proof -
  note A = apply_holdem_action_Inr [OF inv fin]
  have ns: "st_Phase s \<noteq> StreetSettled" using A(1) by (auto simp: PhaseAllowsActions_def)
  have run: "running s" "2 \<le> length (getActivePlayers s)" and i: "0 \<le> i" "i < seat_count s"
    and act: "hp_Status (st_Players s ! nat i) = PlayerStatusActive"
    using inv A(2) ns by (auto simp: hand_inv_def turn_ok_def)
  obtain l where close: "closeActionRoundIfNeeded (with_pot (apply_action (s\<lparr>st_ActionLog := l\<rparr>) i a)) i = Inr s'"
    using action_unfold [OF fin] by blast
  let ?t = "apply_action (s\<lparr>st_ActionLog := l\<rparr>) i a"
  have run_t: "running (with_pot ?t)"
    using apply_action_running [of "s\<lparr>st_ActionLog := l\<rparr>" i a] run i act A(3) by (simp add: log_running)
  let ?p = "st_Players s ! nat i"
  have p: "?p \<in> set (st_Players s)" using i by simp
  have "0 < st_LastFullRaiseSats s" "0 \<le> st_CurrentBetSats s"
    "st_MinRaiseToSats s = st_CurrentBetSats s + st_LastFullRaiseSats s" "0 < st_BigBlindSats s"
    "0 \<le> hp_RoundContributionSats ?p"
    using run(1) p by (auto simp: running_def seats_ok_def player_ok_def)
  moreover have "hp_RoundContributionSats ?p + hp_StackSats ?p \<le> chips s"
  proof -
    have "hp_TotalContributionSats ?p \<le> contributions s" "hp_StackSats ?p \<le> stacks s"
      unfolding contributions_def stacks_def using run(1) p
      by (auto intro!: elem_le_sum_int simp: running_def player_ok_def)
    moreover have "hp_RoundContributionSats ?p \<le> hp_TotalContributionSats ?p"
      using run(1) p by (auto simp: running_def player_ok_def)
    ultimately show ?thesis by (simp add: chips_def)
  qed
  ultimately have "sized (chips s) blind ?t"
    using sz A(3) by (cases "ac_Type a") (auto simp: sized_def apply_action_fields max_def min_def split: if_splits)
  then show ?thesis using close_sized [OF run_t _ close] by simp
qed

lemma board_sized:
  assumes inv: "hand_inv s" and fin: "ApplyBoardCards s cards = Inr s'" and sz: "sized (chips s) blind s"
  shows "sized (chips s) blind s'"
proof -
  obtain phase board where deal: "deals s cards = Some (phase, board)"
    using fin deal_board_error [of s cards] by (cases "deals s cards") (auto simp: ApplyBoardCards_def)
  let ?s = "new_street s phase board"
  have "st_Phase s \<noteq> StreetSettled" using deal by (auto simp: deals.simps)
  then have run: "running s" "2 \<le> length (getActivePlayers s)" using inv by (auto simp: hand_inv_def)
  have "board_size phase = Some (length board)" using deals_phase [OF deal] run(1) by (auto simp: running_def)
  note ok = new_street_ok [OF run this]
  have "0 \<le> chips s" using sz by (simp add: sized_def)
  then have szs: "sized (chips s) blind ?s" using sz run(1) by (auto simp: sized_def new_street_def running_def seats_ok_def)
  obtain t where dealt: "open_street ?s phase = Inr t"
    and t: "(if getPlayersAbleToAct t = [] then closeActionRoundIfNeeded t (st_DealerSeatIndex t) else Inr t) = Inr s'"
    using fin deal by (subst (asm) ApplyBoardCards_def, subst (asm) deal_board_eq) (auto split: sum.splits)
  obtain r where r: "t = ?s\<lparr>st_ActingSeatIndex := r\<rparr>" using open_street_Inr [OF dealt] by blast
  show ?thesis
    using t szs close_sized [of t "chips s" blind "st_DealerSeatIndex t" s'] ok(1)
    by (auto simp: r acting_irrelevant split: if_splits)
qed

lemma step_sized:
  assumes "hand_step s s'" "hand_inv s" "sized (chips s) blind s"
  shows "sized (chips s) blind s'"
  using assms
proof (induction rule: hand_step.induct)
  case (activate s s')
  then show ?case using open_street_Inr by (fastforce simp: ActivateHoldemHand_def split: if_splits)
next
  case (act s i a s')
  then show ?case using action_sized by blast
next
  case (board s cards s')
  then show ?case using board_sized by blast
next
  case (force_fold s i s')
  let ?t = "s\<lparr>st_Players := update_seat i (\<lambda>p. p\<lparr>hp_Status := PlayerStatusFolded, hp_ActedThisRound := True\<rparr>)
      (st_Players s), st_ActingSeatIndex := None\<rparr>"
  have i: "0 \<le> i" "i < seat_count s" and ns: "st_Phase s \<noteq> StreetSettled" and t: "settleByFold ?t = Inr s'"
    using force_fold(1) by (auto simp: ForceFoldSeat_def Let_def split: if_splits)
  have one: "length (getActivePlayers ?t) = 1" using t by (auto simp: settleByFold_def Let_def split: if_splits)
  then have ne: "getActivePlayers ?t \<noteq> []" by force
  have "running s" using force_fold(2) ns by (simp add: hand_inv_def)
  then have "running ?t" by (rule folded_seat_running(1) [OF _ i ne])
  moreover have "sized (chips s) blind ?t" using force_fold(3) by (simp add: sized_def)
  ultimately show ?case using settle_by_fold [OF running_settleable one] t sized_settled by auto
next
  case (showdown s holeCards s')
  have ph: "st_Phase s = StreetShowdownReveal" and t: "settleShowdown s holeCards = Inr s'"
    using showdown(1) by (auto simp: SettleHoldemShowdown_def split: if_splits)
  note F = showdown_facts [OF showdown(2) ph]
  from settle_showdown_Inr [OF F(1,2) t] showdown(3) show ?case by (auto intro!: sized_settled)
qed simp_all

lemma reachable_sized:
  assumes "config_ok c" and "reachable c s"
  shows "sized (buy_ins c) (hc_BigBlindSats c) s"
  using assms(2)
proof (induction rule: reachable.induct)
  case (create s)
  note acc = create_accepted [OF create]
  have run: "running s" and total: "chips s = buy_ins c"
    using create_hand_ok [OF assms(1) acc] create by (auto simp: hand_inv_def)
  show ?case
  proof (rule create_hand_eq [OF assms(1) acc])
    fix sb bb x y
    let ?ps = "posted (st_Players (initial_hand c)) sb x bb y"
    assume eq: "CreateHoldemHand c = Inr ((initial_hand c)\<lparr>st_Players := ?ps, st_CurrentBetSats := y,
        st_MinRaiseToSats := y + hc_BigBlindSats c, st_LastFullRaiseSats := hc_BigBlindSats c, st_PotSats := x + y\<rparr>)"
      and b: "0 \<le> sb" "sb < int (length (hc_Seats c))" "0 \<le> bb" "bb < int (length (hc_Seats c))" "sb \<noteq> bb"
    have s: "st_CurrentBetSats s = y" "st_MinRaiseToSats s = y + hc_BigBlindSats c" "st_LastFullRaiseSats s = hc_BigBlindSats c"
      "st_BigBlindSats s = hc_BigBlindSats c" "st_Players s = ?ps"
      using create eq by (auto simp: initial_hand_def)
    have "?ps ! nat bb = post_blind y (st_Players (initial_hand c) ! nat bb)"
      using b by (simp add: nth_posted initial_players nat_less_iff)
    then have "hp_RoundContributionSats (st_Players s ! nat bb) = y" by (simp add: s(5))
    moreover have "nat bb < length (st_Players s)" using b by (simp add: s(5) initial_players nat_less_iff)
    ultimately have "y \<le> buy_ins c" using contribution_le_chips(2) [OF run] total by (metis nth_mem)
    then show ?thesis using s acc run by (auto simp: sized_def config_accepted_def running_def)
  qed
next
  case (step s s')
  then show ?case using step_sized [OF step(2)] reachable_inv [OF assms(1) step(1)] by simp
qed

section \<open>Properties\<close>

text \<open>C9. No amount of a hand overflows: with chips and big blind below \<open>2 ^ 61\<close> every stack, contribution, bet, minimum raise
  and pot of every reachable state, and the sums and differences the engine forms of them, stay within
  the range of a signed 64-bit integer.\<close>

theorem amounts_fit_64_bits:
  assumes "config_ok c" and "reachable c s" and "buy_ins c \<le> 2 ^ 61" and "hc_BigBlindSats c \<le> 2 ^ 61"
    and "p \<in> set (st_Players s)"
  shows "{hp_StackSats p, hp_RoundContributionSats p, hp_TotalContributionSats p, hp_RoundContributionSats p + hp_StackSats p,
      hp_RoundContributionSats p + max (st_BigBlindSats s) 1,
      st_PotSats s, st_CurrentBetSats s, st_LastFullRaiseSats s, st_MinRaiseToSats s,
      st_CurrentBetSats s - hp_RoundContributionSats p, 2 * st_CurrentBetSats s} \<subseteq> {- (2 ^ 63) .. 2 ^ 63 - 1}"
proof -
  have inv: "hand_inv s" and total: "chips s = buy_ins c" using reachable_inv [OF assms(1,2)] by auto
  have ok: "player_ok q" if "q \<in> set (st_Players s)" for q
    using inv that by (auto simp: hand_inv_def running_def settled_def split: if_splits)
  then have pos: "0 \<le> hp_StackSats q" "0 \<le> hp_TotalContributionSats q" if "q \<in> set (st_Players s)" for q
    using that by (fastforce simp: player_ok_def)+
  then have sums: "hp_TotalContributionSats p \<le> contributions s" "hp_StackSats p \<le> stacks s" "0 \<le> stacks s" "0 \<le> contributions s"
    unfolding contributions_def stacks_def using assms(5)
    by (auto intro!: elem_le_sum_int sum_list_nonneg_int)
  have "st_PotSats s = contributions s"
    using inv settled_contributions [of s] by (auto simp: hand_inv_def running_def settled_def split: if_splits)
  moreover have "0 < st_BigBlindSats s" using inv by (auto simp: hand_inv_def running_def settled_def seats_ok_def split: if_splits)
  moreover have "0 \<le> hp_StackSats p" "0 \<le> hp_RoundContributionSats p" "hp_RoundContributionSats p \<le> hp_TotalContributionSats p"
    using ok [OF assms(5)] by (simp_all add: player_ok_def)
  moreover have "sized (buy_ins c) (hc_BigBlindSats c) s" by (rule reachable_sized [OF assms(1,2)])
  ultimately show ?thesis using sums total assms(3,4) by (auto simp: chips_def sized_def)
qed

theorem amounts_fit_64_bits_witness: "st_MinRaiseToSats demo_open \<in> {- (2 ^ 63) .. 2 ^ 63 - 1}"
proof -
  have "st_Players demo_open ! 0 \<in> set (st_Players demo_open)" by code_simp
  moreover have "buy_ins demo_config \<le> 2 ^ 61" "hc_BigBlindSats demo_config \<le> 2 ^ 61"
    by (simp_all add: buy_ins_def demo_config_def)
  ultimately show ?thesis using amounts_fit_64_bits [OF demo_config_ok demo_reachable(2)] by blast
qed

text \<open>The deal plan exists exactly for dealer seats 0 and 1; it gives the dealer deck positions 0 and 2 and the
  other seat 1 and 3, burns one card before each street, and uses no position of the deck twice.\<close>

theorem deal_plan_positions:
  "if dealer \<in> {0, 1} then
     \<exists>plan. HoldemDealPositions dealer = Inr plan \<and>
       map_of (dp_HoleCardPositionsBySeat plan) dealer = Some [0, 2] \<and>
       map_of (dp_HoleCardPositionsBySeat plan) (1 - dealer) = Some [1, 3] \<and>
       dp_BoardPositionsByPhase plan = [(StreetFlopReveal, [5, 6, 7]), (StreetTurnReveal, [9]), (StreetRiverReveal, [11])] \<and>
       distinct (concat (map snd (dp_HoleCardPositionsBySeat plan)) @ concat (map snd (dp_BoardPositionsByPhase plan)))
   else \<not> is_ok (HoldemDealPositions dealer)"
proof -
  show ?thesis
  proof (cases "dealer \<in> {0, 1}")
    case True
    then show ?thesis using deal_plan [OF True] by (auto simp: deal_plan_def)
  qed (simp add: HoldemDealPositions_def)
qed

text \<open>The checkpoint of a hand states each player's stack and contributions as they are, so the chips of the
  checkpoint add up to the buy-ins.\<close>

theorem checkpoint_states_all_chips:
  assumes "config_ok c" and "reachable c s"
  shows "(\<forall>p \<in> set (st_Players s).
      mget (cp_PlayerStacks (ToCheckpointShape s)) (hp_PlayerID p) = hp_StackSats p \<and>
      mget (cp_RoundContributions (ToCheckpointShape s)) (hp_PlayerID p) = hp_RoundContributionSats p \<and>
      mget (cp_TotalContributions (ToCheckpointShape s)) (hp_PlayerID p) = hp_TotalContributionSats p) \<and>
    msum (cp_PlayerStacks (ToCheckpointShape s)) + msum (cp_TotalContributions (ToCheckpointShape s)) = buy_ins c"
proof -
  have inv: "hand_inv s" and total: "chips s = buy_ins c" using reachable_inv [OF assms] by auto
  then have ids: "distinct (player_ids (st_Players s))"
    by (auto simp: hand_inv_def running_def settled_def seats_ok_def split: if_splits)
  have "msum (fold (\<lambda>p m. AList.update (hp_PlayerID p) (f p) m) (st_Players s) []) = (\<Sum>p\<leftarrow>st_Players s. f p)"
    for f :: "HoldemPlayerState \<Rightarrow> int"
    using ids by (simp add: fold_update_const msum_def comp_def)
  then show ?thesis
    using mget_map_of_players [OF ids] total
    by (simp add: ToCheckpointShape_def Let_def chips_def stacks_def contributions_def)
qed

theorem checkpoint_states_all_chips_witness:
  "msum (cp_PlayerStacks (ToCheckpointShape demo_showdown)) + msum (cp_TotalContributions (ToCheckpointShape demo_showdown)) = 1600"
  using checkpoint_states_all_chips [OF demo_config_ok demo_reachable(4)] by (simp add: buy_ins_def demo_config_def)

end
