(* ===== verification/Sha256.thy ===== *)
theory Sha256
  imports Prelude "HOL-Library.Word"
begin

text \<open>
  The parts of Go's standard library that every digest of the daemon goes through:
  \<open>crypto/sha256.Sum256\<close> and \<open>encoding/hex\<close>. A Go string or byte slice is a list of
  8-bit characters. The hash is the real one, block by block on 32-bit words, so a digest can be
  evaluated; the development never assumes that it has no collisions, and states what a digest
  binds as ``equal inputs, or a collision''.
\<close>

unbundle bit_operations_syntax

section \<open>SHA-256\<close>

type_synonym word32 = "32 word"

text \<open>The constants of the algorithm are the first 32 bits of the fractional parts of the cube
  roots of the first 64 primes and of the square roots of the first eight; they are computed here
  from the primes, bit by bit, as integer roots.\<close>

fun int_root :: "nat \<Rightarrow> nat \<Rightarrow> int \<Rightarrow> int \<Rightarrow> int" where
  "int_root k 0 n r = r"
| "int_root k (Suc b) n r = int_root k b n (if (r + 2 ^ b) ^ k \<le> n then r + 2 ^ b else r)"

definition root_fraction :: "nat \<Rightarrow> int \<Rightarrow> word32" where
  "root_fraction k p = word_of_int (int_root k 36 (p * 2 ^ (32 * k)) 0)"

definition sha_primes :: "int list" where
  "sha_primes =
     [2, 3, 5, 7, 11, 13, 17, 19, 23, 29, 31, 37, 41, 43, 47, 53, 59, 61, 67, 71, 73, 79,
      83, 89, 97, 101, 103, 107, 109, 113, 127, 131, 137, 139, 149, 151, 157, 163, 167, 173, 179, 181, 191, 193,
      197, 199, 211, 223, 227, 229, 233, 239, 241, 251, 257, 263, 269, 271, 277, 281, 283, 293, 307, 311]"

definition sha_k :: "word32 list" where
  "sha_k = map (root_fraction 3) sha_primes"

definition sha_init :: "word32 list" where
  "sha_init = map (root_fraction 2) (take 8 sha_primes)"

definition rotr32 :: "nat \<Rightarrow> word32 \<Rightarrow> word32" where
  "rotr32 n x = drop_bit n x OR push_bit (32 - n) x"

definition small_sigma0 :: "word32 \<Rightarrow> word32" where
  "small_sigma0 x = rotr32 7 x XOR rotr32 18 x XOR drop_bit 3 x"

definition small_sigma1 :: "word32 \<Rightarrow> word32" where
  "small_sigma1 x = rotr32 17 x XOR rotr32 19 x XOR drop_bit 10 x"

definition big_sigma0 :: "word32 \<Rightarrow> word32" where
  "big_sigma0 x = rotr32 2 x XOR rotr32 13 x XOR rotr32 22 x"

definition big_sigma1 :: "word32 \<Rightarrow> word32" where
  "big_sigma1 x = rotr32 6 x XOR rotr32 11 x XOR rotr32 25 x"

text \<open>The message schedule, newest word first.\<close>

fun sha_schedule :: "nat \<Rightarrow> word32 list \<Rightarrow> word32 list" where
  "sha_schedule 0 ws = ws"
| "sha_schedule (Suc n) ws =
     sha_schedule n
       ((small_sigma1 (ws ! 1) + ws ! 6 + small_sigma0 (ws ! 14) + ws ! 15) # ws)"

fun sha_round :: "word32 list \<Rightarrow> word32 \<times> word32 \<Rightarrow> word32 list" where
  "sha_round [a, b, c, d, e, f, g, h] (k, w) =
     (let t1 = h + big_sigma1 e + ((e AND f) XOR (NOT e AND g)) + k + w;
          t2 = big_sigma0 a + ((a AND b) XOR (a AND c) XOR (b AND c))
      in [t1 + t2, a, b, c, d + t1, e, f, g])"
| "sha_round hs _ = hs"

definition sha_block :: "word32 list \<Rightarrow> word32 list \<Rightarrow> word32 list" where
  "sha_block hs block =
     map2 (+) hs (foldl sha_round hs (zip sha_k (rev (sha_schedule 48 (rev block)))))"

fun bytes_to_words :: "string \<Rightarrow> word32 list" where
  "bytes_to_words (a # b # c # d # s) =
     word_of_int (((of_char a * 256 + of_char b) * 256 + of_char c) * 256 + of_char d)
       # bytes_to_words s"
| "bytes_to_words _ = []"

fun int_to_bytes :: "nat \<Rightarrow> int \<Rightarrow> string" where
  "int_to_bytes 0 i = []"
| "int_to_bytes (Suc n) i = int_to_bytes n (i div 256) @ [char_of (i mod 256)]"

definition word_to_bytes :: "word32 \<Rightarrow> string" where
  "word_to_bytes w = int_to_bytes 4 (uint w)"

definition sha_pad :: "string \<Rightarrow> string" where
  "sha_pad s =
     s @ CHR 0x80 # replicate (nat ((55 - int (length s)) mod 64)) (CHR 0x00)
       @ int_to_bytes 8 (8 * int (length s))"

fun sha_blocks :: "nat \<Rightarrow> word32 list \<Rightarrow> word32 list \<Rightarrow> word32 list" where
  "sha_blocks 0 hs ws = hs"
| "sha_blocks (Suc n) hs ws = sha_blocks n (sha_block hs (take 16 ws)) (drop 16 ws)"

definition Sum256 :: "string \<Rightarrow> string" where
  "Sum256 s =
     (let ws = bytes_to_words (sha_pad s)
      in concat (map word_to_bytes (sha_blocks (length ws div 16) sha_init ws)))"

lemma length_sha_init [simp]: "length sha_init = 8"
  by (simp add: sha_init_def sha_primes_def)

lemma length_sha_round [simp]: "length (sha_round hs kw) = length hs"
  by (cases "(hs, kw)" rule: sha_round.cases) (simp_all add: Let_def)

lemma length_foldl_sha_round [simp]: "length (foldl sha_round hs kws) = length hs"
  by (induction kws arbitrary: hs) simp_all

lemma length_sha_block [simp]: "length (sha_block hs block) = length hs"
  by (simp add: sha_block_def)

lemma length_sha_blocks [simp]: "length (sha_blocks n hs ws) = length hs"
  by (induction n arbitrary: hs ws) simp_all

lemma length_int_to_bytes [simp]: "length (int_to_bytes n i) = n"
  by (induction n arbitrary: i) simp_all

lemma length_Sum256 [simp]: "length (Sum256 s) = 32"
  by (simp add: Sum256_def Let_def length_concat comp_def word_to_bytes_def sum_list_triv)

section \<open>Hexadecimal strings\<close>

definition hex_digit :: "nat \<Rightarrow> char" where
  "hex_digit n = (if n < 10 then char_of (48 + n) else char_of (87 + n))"

definition hex_value :: "char \<Rightarrow> nat option" where
  "hex_value c =
     (let n = of_char c in
      if 48 \<le> n \<and> n \<le> 57 then Some (n - 48)
      else if 97 \<le> n \<and> n \<le> 102 then Some (n - 87)
      else if 65 \<le> n \<and> n \<le> 70 then Some (n - 55)
      else None)"

definition hex_byte :: "char \<Rightarrow> string" where
  "hex_byte c = [hex_digit (of_char c div 16), hex_digit (of_char c mod 16)]"

text \<open>\<open>hex.EncodeToString\<close>.\<close>

definition EncodeToString :: "string \<Rightarrow> string" where
  "EncodeToString s = concat (map hex_byte s)"

text \<open>\<open>hex.DecodeString\<close>: an invalid digit is reported before an odd length.\<close>

fun hex_pairs :: "string \<Rightarrow> string res" where
  "hex_pairs [] = Inr []"
| "hex_pairs [a] =
     (case hex_value a of
        None \<Rightarrow> Inl (Err ''encoding/hex: invalid byte: %#U'')
      | Some _ \<Rightarrow> Inl (Err ''encoding/hex: odd length hex string''))"
| "hex_pairs (a # b # s) =
     (case hex_value a of
        None \<Rightarrow> Inl (Err ''encoding/hex: invalid byte: %#U'')
      | Some x \<Rightarrow>
         (case hex_value b of
            None \<Rightarrow> Inl (Err ''encoding/hex: invalid byte: %#U'')
          | Some y \<Rightarrow>
             (case hex_pairs s of
                Inl e \<Rightarrow> Inl e
              | Inr cs \<Rightarrow> Inr (char_of (x * 16 + y) # cs))))"

definition DecodeString :: "string \<Rightarrow> string res" where
  "DecodeString s = hex_pairs s"

lemma hex_value_digit [simp]: "n < 16 \<Longrightarrow> hex_value (hex_digit n) = Some n"
  by (auto simp: hex_digit_def hex_value_def Let_def)

lemma decode_encode [simp]: "DecodeString (EncodeToString s) = Inr s"
proof (induction s)
  case (Cons c s)
  have "(of_char c :: nat) div 16 < 16" using nat_of_char_less_256 [of c] by linarith
  with Cons show ?case by (simp add: DecodeString_def EncodeToString_def hex_byte_def)
qed (simp add: DecodeString_def EncodeToString_def)

lemma length_EncodeToString [simp]: "length (EncodeToString s) = 2 * length s"
  by (simp add: EncodeToString_def length_concat comp_def hex_byte_def sum_list_triv)

lemma EncodeToString_inj [simp]: "EncodeToString s = EncodeToString t \<longleftrightarrow> s = t"
  by (metis decode_encode sum.inject(2))

section \<open>Digests\<close>

text \<open>The lower-case hexadecimal digest of a string, which is how the daemon stores every hash.\<close>

definition digest_hex :: "string \<Rightarrow> string" where
  "digest_hex s = EncodeToString (Sum256 s)"

definition sha_collision :: "string \<Rightarrow> string \<Rightarrow> bool" where
  "sha_collision s t \<longleftrightarrow> s \<noteq> t \<and> Sum256 s = Sum256 t"

lemma length_digest_hex [simp]: "length (digest_hex s) = 64"
  by (simp add: digest_hex_def)

lemma digest_hex_not_Nil [simp]: "digest_hex s \<noteq> []"
  using length_digest_hex [of s] by fastforce

lemma Nil_not_digest_hex [simp]: "[] \<noteq> digest_hex s"
  using digest_hex_not_Nil [of s] by metis

lemma digest_hex_binds: "digest_hex s = digest_hex t \<Longrightarrow> s = t \<or> sha_collision s t"
  by (auto simp: digest_hex_def sha_collision_def)

end
