(* ===== verification/Go_Json.thy ===== *)
theory Go_Json
  imports Sha256
begin

text \<open>
  \<open>encoding/json.Marshal\<close> of Go's standard library on the values the daemon hashes and signs:
  the JSON value a Go value stands for, the rendering with Go's string escaping (HTML characters,
  line separators and invalid UTF-8 included), and the proof that rendering loses nothing on
  well-formed values. Objects are lists of members in the order they are written: the field order
  for a struct, the sorted keys for a map.
\<close>

section \<open>Strings\<close>

definition byte_in :: "nat \<Rightarrow> nat \<Rightarrow> char \<Rightarrow> bool" where
  "byte_in lo hi c \<longleftrightarrow> lo \<le> of_char c \<and> of_char c \<le> hi"

text \<open>
  \<open>utf8.DecodeRuneInString\<close>: the ranges of the continuation bytes a first byte asks for, and the
  length of the UTF-8 sequence a string starts with, 0 when it starts with none.
\<close>

definition continuation_ranges :: "char \<Rightarrow> (nat \<times> nat) list option" where
  "continuation_ranges c =
     (if byte_in 0x00 0x7F c then Some []
      else if byte_in 0xC2 0xDF c then Some [(0x80, 0xBF)]
      else if c = CHR 0xE0 then Some [(0xA0, 0xBF), (0x80, 0xBF)]
      else if c = CHR 0xED then Some [(0x80, 0x9F), (0x80, 0xBF)]
      else if byte_in 0xE1 0xEF c then Some [(0x80, 0xBF), (0x80, 0xBF)]
      else if c = CHR 0xF0 then Some [(0x90, 0xBF), (0x80, 0xBF), (0x80, 0xBF)]
      else if byte_in 0xF1 0xF3 c then Some [(0x80, 0xBF), (0x80, 0xBF), (0x80, 0xBF)]
      else if c = CHR 0xF4 then Some [(0x80, 0x8F), (0x80, 0xBF), (0x80, 0xBF)]
      else None)"

fun rune_size :: "string \<Rightarrow> nat" where
  "rune_size [] = 0"
| "rune_size (c # s) =
     (case continuation_ranges c of
        None \<Rightarrow> 0
      | Some rs \<Rightarrow>
         if list_all2 (\<lambda>(lo, hi) d. byte_in lo hi d) rs (take (length rs) s)
         then Suc (length rs) else 0)"

declare rune_size.simps(2) [simp del]

definition backslash :: char where
  "backslash = CHR 0x5C"

definition unicode_escape :: "string \<Rightarrow> string" where
  "unicode_escape digits = backslash # CHR ''u'' # digits"

definition escape_byte :: "char \<Rightarrow> string" where
  "escape_byte c =
     (if c = CHR 0x22 \<or> c = backslash then [backslash, c]
      else if c = CHR 0x08 then [backslash, CHR ''b'']
      else if c = CHR 0x0C then [backslash, CHR ''f'']
      else if c = CHR 0x0A then [backslash, CHR ''n'']
      else if c = CHR 0x0D then [backslash, CHR ''r'']
      else if c = CHR 0x09 then [backslash, CHR ''t'']
      else if byte_in 0x00 0x1F c \<or> c \<in> set ''<>&'' then unicode_escape (''00'' @ hex_byte c)
      else [c])"

definition escape_rune :: "string \<Rightarrow> string" where
  "escape_rune cs =
     (if cs = [CHR 0xE2, CHR 0x80, CHR 0xA8] then unicode_escape ''2028''
      else if cs = [CHR 0xE2, CHR 0x80, CHR 0xA9] then unicode_escape ''2029''
      else case cs of [c] \<Rightarrow> escape_byte c | _ \<Rightarrow> cs)"

fun json_escape :: "string \<Rightarrow> string" where
  "json_escape [] = []"
| "json_escape (c # s) =
     (let n = rune_size (c # s) in
      if n = 0 then unicode_escape ''fffd'' @ json_escape s
      else escape_rune (take n (c # s)) @ json_escape (drop (n - 1) s))"

fun valid_utf8 :: "string \<Rightarrow> bool" where
  "valid_utf8 [] = True"
| "valid_utf8 (c # s) =
     (let n = rune_size (c # s) in n \<noteq> 0 \<and> valid_utf8 (drop (n - 1) s))"

definition quoted :: "string \<Rightarrow> string" where
  "quoted s = CHR 0x22 # json_escape s @ [CHR 0x22]"

declare json_escape.simps(2) [simp del] valid_utf8.simps(2) [simp del]

section \<open>Values\<close>

text \<open>A number is its text: an integer's decimal form, or the text of a float or
  \<open>json.Number\<close>.\<close>

datatype json =
    JNull
  | JBool bool
  | JNum string
  | JStr string
  | JArr "json list"
  | JObj "(string \<times> json) list"

definition JInt :: "int \<Rightarrow> json" where
  "JInt i = JNum (itoa i)"

text \<open>\<open>strings.Join\<close>.\<close>

fun join :: "string \<Rightarrow> string list \<Rightarrow> string" where
  "join sep [] = []"
| "join sep (x # xs) = x @ concat (map ((@) sep) xs)"

fun json_text :: "json \<Rightarrow> string" where
  "json_text JNull = ''null''"
| "json_text (JBool b) = (if b then ''true'' else ''false'')"
| "json_text (JNum n) = n"
| "json_text (JStr s) = quoted s"
| "json_text (JArr vs) = ''['' @ join '','' (map json_text vs) @ '']''"
| "json_text (JObj kvs) =
     ''{'' @ join '','' (map (\<lambda>(k, v). quoted k @ '':'' @ json_text v) kvs) @ ''}''"

definition number_char :: "char \<Rightarrow> bool" where
  "number_char c \<longleftrightarrow> c \<in> set ''0123456789+-.eE''"

text \<open>Values whose strings are valid UTF-8 and whose numbers are numeric texts.\<close>

fun wf_json :: "json \<Rightarrow> bool" where
  "wf_json JNull = True"
| "wf_json (JBool b) = True"
| "wf_json (JNum n) = (n \<noteq> [] \<and> list_all number_char n \<and> hd n \<in> set ''-0123456789'')"
| "wf_json (JStr s) = valid_utf8 s"
| "wf_json (JArr vs) = list_all wf_json vs"
| "wf_json (JObj kvs) = list_all (\<lambda>(k, v). valid_utf8 k \<and> wf_json v) kvs"

lemma valid_utf8_ascii: "list_all (byte_in 0x00 0x7F) s \<Longrightarrow> valid_utf8 s"
  by (induction s) (auto simp: valid_utf8.simps rune_size.simps continuation_ranges_def Let_def)

lemma valid_utf8_hex [simp]: "valid_utf8 (EncodeToString s)"
proof (rule valid_utf8_ascii)
  have "byte_in 0x00 0x7F (hex_digit n)" if "n < 16" for n
    using that by (auto simp: hex_digit_def byte_in_def)
  moreover have "(of_char c :: nat) div 16 < 16" for c using nat_of_char_less_256 [of c] by linarith
  ultimately show "list_all (byte_in 0x00 0x7F) (EncodeToString s)"
    by (induction s) (auto simp: EncodeToString_def hex_byte_def)
qed

lemma valid_utf8_digest [simp]: "valid_utf8 (digest_hex s)"
  by (simp add: digest_hex_def)

section \<open>Strings are recovered from their quoted form\<close>

definition unescape_unicode :: "string \<Rightarrow> string" where
  "unescape_unicode ds =
     (if ds = ''2028'' then [CHR 0xE2, CHR 0x80, CHR 0xA8]
      else if ds = ''2029'' then [CHR 0xE2, CHR 0x80, CHR 0xA9]
      else case hex_pairs ds of Inr [_, c] \<Rightarrow> [c] | _ \<Rightarrow> [])"

definition unescape_simple :: "char \<Rightarrow> char" where
  "unescape_simple c =
     (if c = CHR ''b'' then CHR 0x08 else if c = CHR ''f'' then CHR 0x0C
      else if c = CHR ''n'' then CHR 0x0A else if c = CHR ''r'' then CHR 0x0D
      else if c = CHR ''t'' then CHR 0x09 else c)"

definition onto_first :: "string \<Rightarrow> (string \<times> string) option \<Rightarrow> (string \<times> string) option" where
  "onto_first cs = map_option (\<lambda>(t, r). (cs @ t, r))"

fun unquote :: "string \<Rightarrow> (string \<times> string) option" where
  "unquote [] = None"
| "unquote (c # s) =
     (if c = CHR 0x22 then Some ([], s)
      else if c = backslash then
        (case s of
           [] \<Rightarrow> None
         | d # s1 \<Rightarrow>
            if d = CHR ''u'' then
              onto_first (unescape_unicode (take 4 s1)) (unquote (drop 4 s1))
            else onto_first [unescape_simple d] (unquote s1))
      else onto_first [c] (unquote s))"

declare unquote.simps(2) [simp del]

lemma onto_first_simps [simp]:
  "onto_first cs (Some (t, r)) = Some (cs @ t, r)"
  "onto_first cs (onto_first ds x) = onto_first (cs @ ds) x"
  by (cases x; auto simp: onto_first_def)+

lemma onto_first_Nil [simp]: "onto_first [] x = x"
  by (cases x) (auto simp: onto_first_def)

lemma unquote_end [simp]: "unquote (CHR 0x22 # t) = Some ([], t)"
  by (simp add: unquote.simps)

lemma unquote_unicode [simp]:
  "length ds = 4 \<Longrightarrow>
   unquote (unicode_escape ds @ t) = onto_first (unescape_unicode ds) (unquote t)"
  by (simp add: unquote.simps unicode_escape_def backslash_def)

lemma unquote_simple [simp]:
  "d \<noteq> CHR ''u'' \<Longrightarrow> unquote (backslash # d # t) = onto_first [unescape_simple d] (unquote t)"
  by (simp add: unquote.simps backslash_def)

lemma unquote_char: "c \<noteq> CHR 0x22 \<Longrightarrow> c \<noteq> backslash \<Longrightarrow> unquote (c # t) = onto_first [c] (unquote t)"
  by (simp add: unquote.simps)

lemma unquote_plain:
  "\<forall>c\<in>set cs. c \<noteq> CHR 0x22 \<and> c \<noteq> backslash \<Longrightarrow> unquote (cs @ t) = onto_first cs (unquote t)"
  by (induction cs) (simp_all add: unquote_char)

lemma unescape_hex_byte [simp]: "unescape_unicode (''00'' @ hex_byte c) = [c]"
proof -
  have "(of_char c :: nat) div 16 < 16" using nat_of_char_less_256 [of c] by linarith
  moreover have "hex_value (CHR ''0'') = Some 0" by (simp add: hex_value_def)
  ultimately show ?thesis by (simp add: unescape_unicode_def hex_byte_def)
qed

lemma escape_byte_special:
  "escape_byte (CHR 0x22) = [backslash, CHR 0x22]" "escape_byte backslash = [backslash, backslash]"
  "escape_byte (CHR 0x08) = [backslash, CHR ''b'']" "escape_byte (CHR 0x0C) = [backslash, CHR ''f'']"
  "escape_byte (CHR 0x0A) = [backslash, CHR ''n'']" "escape_byte (CHR 0x0D) = [backslash, CHR ''r'']"
  "escape_byte (CHR 0x09) = [backslash, CHR ''t'']"
  by (simp_all add: escape_byte_def backslash_def)

lemma unescape_special:
  "unescape_simple (CHR 0x22) = CHR 0x22" "unescape_simple backslash = backslash"
  "unescape_simple (CHR ''b'') = CHR 0x08" "unescape_simple (CHR ''f'') = CHR 0x0C"
  "unescape_simple (CHR ''n'') = CHR 0x0A" "unescape_simple (CHR ''r'') = CHR 0x0D"
  "unescape_simple (CHR ''t'') = CHR 0x09" "backslash \<noteq> CHR ''u''"
  by (simp_all add: unescape_simple_def backslash_def)

lemma unquote_escape_byte: "unquote (escape_byte c @ t) = onto_first [c] (unquote t)"
proof -
  have "length (''00'' @ hex_byte c) = 4" by (simp add: hex_byte_def)
  from unquote_unicode [OF this, of t]
  have u: "unquote (unicode_escape (CHR ''0'' # CHR ''0'' # hex_byte c) @ t) = onto_first [c] (unquote t)"
    using unescape_hex_byte [of c] by simp
  consider "c = CHR 0x22" | "c = backslash" | "c = CHR 0x08" | "c = CHR 0x0C" | "c = CHR 0x0A"
    | "c = CHR 0x0D" | "c = CHR 0x09"
    | "escape_byte c = unicode_escape (''00'' @ hex_byte c)"
    | "escape_byte c = [c]" "c \<noteq> CHR 0x22" "c \<noteq> backslash"
    unfolding escape_byte_def by argo
  then show ?thesis
    by cases (simp_all add: u unquote_char escape_byte_special unescape_special)
qed

lemma rune_sizeE:
  assumes "rune_size (c # s) \<noteq> 0"
  obtains rs where "continuation_ranges c = Some rs" "rune_size (c # s) = Suc (length rs)"
    "list_all2 (\<lambda>(lo, hi) d. byte_in lo hi d) rs (take (length rs) s)"
  using assms that by (auto simp: rune_size.simps split: option.splits if_splits)

lemma continuation_ranges_high:
  assumes "continuation_ranges c = Some rs" "rs \<noteq> []"
  shows "byte_in 0x80 0xFF c \<and> (\<forall>r \<in> set rs. 0x80 \<le> fst r)"
  using assms by (auto simp: continuation_ranges_def byte_in_def split: if_splits)

lemma byte_in_not_special:
  "byte_in lo hi c \<Longrightarrow> 0x80 \<le> lo \<Longrightarrow> c \<noteq> CHR 0x22 \<and> c \<noteq> backslash"
  by (auto simp: byte_in_def backslash_def)

lemma rune_cases:
  assumes "rune_size (c # s) \<noteq> 0"
  shows "take (rune_size (c # s)) (c # s) = [c] \<or>
    (\<forall>d \<in> set (take (rune_size (c # s)) (c # s)). d \<noteq> CHR 0x22 \<and> d \<noteq> backslash)"
proof -
  obtain rs where rs: "continuation_ranges c = Some rs" "rune_size (c # s) = Suc (length rs)"
    "list_all2 (\<lambda>(lo, hi) d. byte_in lo hi d) rs (take (length rs) s)"
    using rune_sizeE [OF assms] .
  show ?thesis
  proof (cases rs)
    case (Cons r rs')
    with rs have high: "byte_in 0x80 0xFF c" "\<forall>r \<in> set rs. 0x80 \<le> fst r"
      using continuation_ranges_high by blast+
    have "d \<noteq> CHR 0x22 \<and> d \<noteq> backslash" if d: "d \<in> set (take (length rs) s)" for d
    proof -
      obtain i where i: "i < length (take (length rs) s)" "d = take (length rs) s ! i"
        using d unfolding in_set_conv_nth by blast
      then have "i < length rs" "byte_in (fst (rs ! i)) (snd (rs ! i)) d"
        using rs(3) by (auto dest: list_all2_lengthD list_all2_nthD2 simp: split_beta)
      then show ?thesis using high(2) byte_in_not_special nth_mem by blast
    qed
    then show ?thesis using rs(2) byte_in_not_special [OF high(1)] by simp
  qed (simp add: rs)
qed

lemma escape_rune_plain:
  "length cs \<noteq> 1 \<Longrightarrow> cs \<noteq> [CHR 0xE2, CHR 0x80, CHR 0xA8] \<Longrightarrow> cs \<noteq> [CHR 0xE2, CHR 0x80, CHR 0xA9]
    \<Longrightarrow> escape_rune cs = cs"
  by (auto simp: escape_rune_def split: list.split)

lemma unquote_rune_bytes:
  assumes "cs = [c] \<or> (\<forall>d \<in> set cs. d \<noteq> CHR 0x22 \<and> d \<noteq> backslash)"
  shows "unquote (escape_rune cs @ t) = onto_first cs (unquote t)"
proof -
  consider (ls) "cs = [CHR 0xE2, CHR 0x80, CHR 0xA8]" | (ps) "cs = [CHR 0xE2, CHR 0x80, CHR 0xA9]"
    | (single) d where "cs = [d]"
    | (more) "escape_rune cs = cs" "\<forall>d \<in> set cs. d \<noteq> CHR 0x22 \<and> d \<noteq> backslash"
    using assms escape_rune_plain [of cs] by (metis One_nat_def length_0_conv length_Suc_conv)
  then show ?thesis
    by cases (simp_all add: escape_rune_def unescape_unicode_def unquote_escape_byte unquote_plain)
qed

lemmas unquote_rune = unquote_rune_bytes [OF rune_cases]

lemma unquote_escape:
  "valid_utf8 s \<Longrightarrow> unquote (json_escape s @ CHR 0x22 # r) = Some (s, r)"
proof (induction s rule: json_escape.induct)
  case (2 c s)
  let ?n = "rune_size (c # s)"
  have n: "?n \<noteq> 0" using "2.prems" by (simp add: Let_def valid_utf8.simps)
  then have "take ?n (c # s) @ drop (?n - 1) s = c # s" by (cases ?n) auto
  with 2 n show ?case by (simp add: Let_def unquote_rune json_escape.simps valid_utf8.simps)
qed simp

lemma quoted_inj:
  assumes "valid_utf8 s" "valid_utf8 t" "quoted s @ x = quoted t @ y"
  shows "s = t \<and> x = y"
proof -
  have "json_escape s @ CHR 0x22 # x = json_escape t @ CHR 0x22 # y"
    using assms(3) by (simp add: quoted_def)
  from arg_cong [OF this, of unquote] show ?thesis
    by (simp only: unquote_escape [OF assms(1)] unquote_escape [OF assms(2)] option.inject prod.inject)
qed

section \<open>Rendering loses nothing\<close>

text \<open>What follows a value never continues a number.\<close>

definition ends_number :: "string \<Rightarrow> bool" where
  "ends_number r \<longleftrightarrow> (case r of [] \<Rightarrow> True | c # _ \<Rightarrow> \<not> number_char c)"

lemma ends_number_simps [simp]:
  "ends_number []" "ends_number (c # r) \<longleftrightarrow> \<not> number_char c"
  by (simp_all add: ends_number_def)

lemma number_char_delims [simp]:
  "\<not> number_char (CHR '','')" "\<not> number_char (CHR '']'')" "\<not> number_char (CHR ''}'')"
  by (simp_all add: number_char_def)

lemma number_inj:
  assumes "list_all number_char m" "list_all number_char n" "m @ r = n @ s"
    "ends_number r" "ends_number s"
  shows "m = n \<and> r = s"
  using assms
proof (induction m arbitrary: n)
  case Nil
  then show ?case by (cases n) auto
next
  case (Cons c m)
  then show ?case by (cases n) auto
qed

text \<open>An encoding of elements that can be told apart in front of any text that ends a number.\<close>

definition uniquely_read :: "('a \<Rightarrow> string) \<Rightarrow> 'a \<Rightarrow> 'a set \<Rightarrow> bool" where
  "uniquely_read f v W \<longleftrightarrow>
     (\<forall>w\<in>W. \<forall>r s. f v @ r = f w @ s \<longrightarrow> ends_number r \<longrightarrow> ends_number s \<longrightarrow> v = w \<and> r = s)"

lemma uniquely_readD:
  "uniquely_read f v W \<Longrightarrow> w \<in> W \<Longrightarrow> f v @ r = f w @ s \<Longrightarrow> ends_number r \<Longrightarrow> ends_number s
    \<Longrightarrow> v = w \<and> r = s"
  unfolding uniquely_read_def by blast

lemma tail_elements_inj:
  assumes "\<forall>v\<in>set vs. uniquely_read f v W" "set ws \<subseteq> W" "close \<noteq> CHR '',''" "\<not> number_char close"
    "concat (map (\<lambda>u. CHR '','' # f u) vs) @ close # r = concat (map (\<lambda>u. CHR '','' # f u) ws) @ close # s"
  shows "vs = ws \<and> r = s"
  using assms
proof (induction vs arbitrary: ws)
  case Nil
  then show ?case by (cases ws) auto
next
  case (Cons v vs)
  then obtain w ws' where ws: "ws = w # ws'" by (cases ws) auto
  let ?tail = "\<lambda>us x. concat (map (\<lambda>u. CHR '','' # f u) us) @ close # x"
  have ends: "ends_number (?tail us x)" for us x
    using Cons.prems by (cases us) auto
  have "f v @ ?tail vs r = f w @ ?tail ws' s"
    using Cons.prems by (simp add: ws)
  then have "v = w \<and> ?tail vs r = ?tail ws' s"
    using Cons.prems ends by (intro uniquely_readD [of f v W]) (auto simp: ws)
  then have "v = w" "?tail vs r = ?tail ws' s" by blast+
  moreover from this(2) have "vs = ws' \<and> r = s"
    using Cons.prems by (intro Cons.IH) (auto simp: ws)
  ultimately show ?case by (simp add: ws)
qed

lemma elements_inj:
  assumes "\<forall>v\<in>set vs. uniquely_read f v W" "set ws \<subseteq> W" "close \<noteq> CHR '',''" "\<not> number_char close"
    and starts: "\<And>v x. v \<in> set vs \<union> W \<Longrightarrow> \<exists>c y. f v = c # y \<and> c \<noteq> close"
    and eq: "join '','' (map f vs) @ close # r = join '','' (map f ws) @ close # s"
  shows "vs = ws \<and> r = s"
proof (cases vs)
  case Nil
  show ?thesis
  proof (cases ws)
    case (Cons w ws')
    then obtain c y where "f w = c # y" "c \<noteq> close" using starts [of w] assms(2) by auto
    then show ?thesis using eq Nil Cons by auto
  qed (use eq Nil in auto)
next
  case vs: (Cons v vs')
  then obtain c y where cy: "f v = c # y" "c \<noteq> close" using starts [of v] by auto
  then obtain w ws' where ws: "ws = w # ws'" using eq vs by (cases ws) auto
  have ends: "ends_number (concat (map (\<lambda>u. CHR '','' # f u) us) @ close # x)" for us x
    using assms(4) by (cases us) auto
  have "v = w \<and> concat (map (\<lambda>u. CHR '','' # f u) vs') @ close # r
      = concat (map (\<lambda>u. CHR '','' # f u) ws') @ close # s"
    using eq assms(1,2) ends by (intro uniquely_readD [of f v W]) (auto simp: vs ws comp_def)
  then show ?thesis
    using tail_elements_inj [of vs' f W ws' close r s] assms by (auto simp: vs ws)
qed

definition member_text :: "string \<times> json \<Rightarrow> string" where
  "member_text kv = quoted (fst kv) @ '':'' @ json_text (snd kv)"

lemma json_text_JObj: "json_text (JObj kvs) = ''{'' @ join '','' (map member_text kvs) @ ''}''"
  by (simp add: member_text_def [abs_def] split_beta')

lemma json_text_starts:
  "wf_json v \<Longrightarrow> \<exists>c y. json_text v = c # y \<and> c \<noteq> CHR '']''"
  by (cases v) (auto simp: quoted_def neq_Nil_conv)

lemma member_text_starts: "\<exists>c y. member_text kv = c # y \<and> c \<noteq> CHR ''}''"
  by (auto simp: member_text_def quoted_def)

definition leading :: "json \<Rightarrow> string" where
  "leading v = (case v of JNull \<Rightarrow> ''n'' | JBool b \<Rightarrow> (if b then ''t'' else ''f'') | JNum _ \<Rightarrow> ''-0123456789''
     | JStr _ \<Rightarrow> [CHR 0x22] | JArr _ \<Rightarrow> ''['' | JObj _ \<Rightarrow> ''{'')"

lemma hd_json_text: "wf_json v \<Longrightarrow> hd (json_text v @ r) \<in> set (leading v)"
  by (cases v) (auto simp: leading_def quoted_def hd_append)

lemma leading_disjoint:
  "c \<in> set (leading v) \<Longrightarrow> c \<in> set (leading w) \<Longrightarrow> leading v = leading w"
  by (cases v; cases w) (auto simp: leading_def split: if_splits)

lemma same_leading:
  "wf_json v \<Longrightarrow> wf_json w \<Longrightarrow> json_text v @ r = json_text w @ s \<Longrightarrow> leading v = leading w"
  using leading_disjoint hd_json_text by metis

lemma json_readI:
  assumes "wf_json v" "\<And>w r s. wf_json w \<Longrightarrow> leading v = leading w \<Longrightarrow> json_text v @ r = json_text w @ s
    \<Longrightarrow> ends_number r \<Longrightarrow> ends_number s \<Longrightarrow> v = w \<and> r = s"
  shows "uniquely_read json_text v {w. wf_json w}"
  using assms same_leading unfolding uniquely_read_def by blast

lemma leading_cases:
  "leading JNull = leading w \<longleftrightarrow> w = JNull"
  "leading (JBool b) = leading w \<longleftrightarrow> w = JBool b"
  "leading (JNum n) = leading w \<longleftrightarrow> (\<exists>m. w = JNum m)"
  "leading (JStr t) = leading w \<longleftrightarrow> (\<exists>u. w = JStr u)"
  "leading (JArr vs) = leading w \<longleftrightarrow> (\<exists>ws. w = JArr ws)"
  "leading (JObj kvs) = leading w \<longleftrightarrow> (\<exists>kws. w = JObj kws)"
  by (cases w; auto simp: leading_def)+

lemma read_JArr:
  assumes wf: "wf_json (JArr vs)" and read: "\<And>v. v \<in> set vs \<Longrightarrow> uniquely_read json_text v {w. wf_json w}"
  shows "uniquely_read json_text (JArr vs) {w. wf_json w}"
proof (rule json_readI [OF wf])
  fix w r s
  assume *: "wf_json w" "leading (JArr vs) = leading w" "json_text (JArr vs) @ r = json_text w @ s"
  then obtain ws where w: "w = JArr ws" by (auto simp: leading_cases)
  have "vs = ws \<and> r = s"
  proof (rule elements_inj [of vs json_text "{w. wf_json w}"])
    show "\<exists>c y. json_text v = c # y \<and> c \<noteq> CHR '']''" if "v \<in> set vs \<union> {w. wf_json w}" for v
      using that wf by (intro json_text_starts) (auto simp: list_all_iff)
  qed (use * w read in \<open>auto simp: list_all_iff\<close>)
  then show "JArr vs = w \<and> r = s" by (simp add: w)
qed

lemma read_member:
  assumes "valid_utf8 (fst kv)" "uniquely_read json_text (snd kv) {w. wf_json w}"
  shows "uniquely_read member_text kv {kw. valid_utf8 (fst kw) \<and> wf_json (snd kw)}"
  unfolding uniquely_read_def
proof (intro ballI allI impI)
  fix kw r s
  assume *: "kw \<in> {kw. valid_utf8 (fst kw) \<and> wf_json (snd kw)}"
    "member_text kv @ r = member_text kw @ s" "ends_number r" "ends_number s"
  then have eq: "fst kv = fst kw
      \<and> CHR '':'' # json_text (snd kv) @ r = CHR '':'' # json_text (snd kw) @ s"
    using assms by (intro quoted_inj) (auto simp: member_text_def)
  then have "snd kv = snd kw \<and> r = s"
    using * by (intro uniquely_readD [OF assms(2)]) auto
  with eq show "kv = kw \<and> r = s" by (simp add: prod_eq_iff)
qed

lemma read_JObj:
  assumes wf: "wf_json (JObj kvs)"
    and read: "\<And>k v. (k, v) \<in> set kvs \<Longrightarrow> uniquely_read json_text v {w. wf_json w}"
  shows "uniquely_read json_text (JObj kvs) {w. wf_json w}"
proof (rule json_readI [OF wf])
  fix w r s
  assume *: "wf_json w" "leading (JObj kvs) = leading w" "json_text (JObj kvs) @ r = json_text w @ s"
  then obtain kws where w: "w = JObj kws" by (auto simp: leading_cases)
  let ?W = "{kw. valid_utf8 (fst kw) \<and> wf_json (snd kw)}"
  have members: "\<forall>kv\<in>set kvs. uniquely_read member_text kv ?W"
    using wf read by (auto intro!: read_member simp: list_all_iff)
  have "kvs = kws \<and> r = s"
  proof (rule elements_inj [of kvs member_text ?W kws "CHR ''}''"])
    show "join '','' (map member_text kvs) @ CHR ''}'' # r
        = join '','' (map member_text kws) @ CHR ''}'' # s"
      using *(3) by (simp add: w json_text_JObj del: json_text.simps)
  qed (use members member_text_starts * w in \<open>auto simp: list_all_iff\<close>)
  then show "JObj kvs = w \<and> r = s" by (simp add: w)
qed

lemma read_JNum: "wf_json (JNum n) \<Longrightarrow> uniquely_read json_text (JNum n) {w. wf_json w}"
proof (rule json_readI)
  fix w r s
  assume wf: "wf_json (JNum n)" and *: "wf_json w" "leading (JNum n) = leading w"
    "json_text (JNum n) @ r = json_text w @ s" "ends_number r" "ends_number s"
  then obtain m where "w = JNum m" by (auto simp: leading_cases)
  with wf * show "JNum n = w \<and> r = s" using number_inj [of n m r s] by simp
qed

lemma read_JStr: "wf_json (JStr t) \<Longrightarrow> uniquely_read json_text (JStr t) {w. wf_json w}"
proof (rule json_readI)
  fix w r s
  assume wf: "wf_json (JStr t)" and *: "wf_json w" "leading (JStr t) = leading w"
    "json_text (JStr t) @ r = json_text w @ s"
  then obtain u where "w = JStr u" by (auto simp: leading_cases)
  with wf * show "JStr t = w \<and> r = s" using quoted_inj [of t u r s] by simp
qed

lemma json_text_read: "wf_json v \<Longrightarrow> uniquely_read json_text v {w. wf_json w}"
proof (induction v)
  case (JArr vs)
  then show ?case by (intro read_JArr) (auto simp: list_all_iff)
next
  case (JObj kvs)
  then show ?case by (intro read_JObj) (auto simp: list_all_iff)
next
  case JNull
  then show ?case by (intro json_readI) (auto simp: leading_cases)
next
  case (JBool b)
  then show ?case by (intro json_readI) (auto simp: leading_cases)
qed (erule read_JNum, erule read_JStr)

lemma json_text_inj: "wf_json v \<Longrightarrow> wf_json w \<Longrightarrow> json_text v = json_text w \<longleftrightarrow> v = w"
  using uniquely_readD [OF json_text_read, of v w "[]" "[]"] by auto

section \<open>Integers\<close>

definition digits_value :: "string \<Rightarrow> nat" where
  "digits_value s = foldl (\<lambda>n c. 10 * n + (of_char c - 48)) 0 s"

lemma digits_value_nat_digits [simp]: "digits_value (nat_digits n) = n"
proof (induction n rule: nat_digits.induct)
  case (1 n)
  then show ?case
    by (subst nat_digits.simps) (auto simp: digits_value_def)
qed

lemma nat_digits_chars: "list_all (\<lambda>c. c \<in> set ''0123456789'') (nat_digits n)"
proof (induction n rule: nat_digits.induct)
  case (1 n)
  have "\<forall>m \<in> set [0..<10]. char_of (48 + m :: nat) \<in> set ''0123456789''" by code_simp
  then have "char_of (48 + m) \<in> set ''0123456789''" if "m < 10" for m :: nat
    using that by simp
  with 1 show ?case by (subst nat_digits.simps) auto
qed

lemma nat_digits_not_Nil [simp]: "nat_digits n \<noteq> []"
  by (subst nat_digits.simps) simp

lemma nat_digits_no_sign: "nat_digits n \<noteq> CHR ''-'' # s"
  using nat_digits_chars [of n] by auto

lemma itoa_inj [simp]: "itoa i = itoa j \<longleftrightarrow> i = j"
proof
  assume eq: "itoa i = itoa j"
  have inj: "nat_digits m = nat_digits n \<Longrightarrow> m = n" for m n
    using digits_value_nat_digits by metis
  show "i = j"
    using eq inj nat_digits_no_sign nat_digits_no_sign [symmetric]
    by (auto simp: itoa_def split: if_splits dest!: inj)
qed simp

lemma JInt_inj [simp]: "JInt i = JInt j \<longleftrightarrow> i = j"
  by (simp add: JInt_def)

lemma wf_JInt [simp]: "wf_json (JInt i)"
proof -
  have "list_all number_char (nat_digits n)" for n
    using nat_digits_chars by (rule list.pred_mono_strong) (auto simp: number_char_def)
  moreover have "hd (nat_digits n) \<in> set ''-0123456789''" for n
    using nat_digits_chars [of n] by (cases "nat_digits n") auto
  ultimately show ?thesis
    by (auto simp: JInt_def itoa_def number_char_def)
qed

section \<open>Structs and maps\<close>

text \<open>
  A struct is written field by field; a field tagged \<open>omitempty\<close> is left out when it has its
  type's zero value. \<open>None\<close> stands for a field that is left out.
\<close>

type_synonym json_field = "string \<times> json option"

definition present :: "(string \<times> 'v option) list \<Rightarrow> (string \<times> 'v) list" where
  "present fs = concat (map (\<lambda>(k, v). case v of None \<Rightarrow> [] | Some j \<Rightarrow> [(k, j)]) fs)"

definition struct_json :: "json_field list \<Rightarrow> json" where
  "struct_json fs = JObj (present fs)"

definition str_omit :: "string \<Rightarrow> json option" where
  "str_omit s = (if s = [] then None else Some (JStr s))"

definition int_omit :: "int \<Rightarrow> json option" where
  "int_omit i = (if i = 0 then None else Some (JInt i))"

definition bool_omit :: "bool \<Rightarrow> json option" where
  "bool_omit b = (if b then Some (JBool True) else None)"

definition list_omit :: "('a \<Rightarrow> json) \<Rightarrow> 'a list \<Rightarrow> json option" where
  "list_omit f xs = (if xs = [] then None else Some (JArr (map f xs)))"

text \<open>A slice without \<open>omitempty\<close> that the code has built by appending to \<open>nil\<close>: the empty one
  is \<open>nil\<close>, written \<open>null\<close>.\<close>

definition list_or_null :: "('a \<Rightarrow> json) \<Rightarrow> 'a list \<Rightarrow> json" where
  "list_or_null f xs = (if xs = [] then JNull else JArr (map f xs))"

definition uint32_json :: "32 word \<Rightarrow> json" where
  "uint32_json w = JInt (uint w)"

definition uint32_omit :: "32 word \<Rightarrow> json option" where
  "uint32_omit w = int_omit (uint w)"

text \<open>A map with string keys, written in the order of its keys.\<close>

definition map_json :: "('v \<Rightarrow> json) \<Rightarrow> (string, 'v) gomap \<Rightarrow> json" where
  "map_json f m = JObj (map (\<lambda>(k, v). (k, f v)) (slice_stable (\<lambda>a b. fst a < fst b) m))"

lemma present_simps [simp]:
  "present [] = []"
  "present ((k, None) # fs) = present fs"
  "present ((k, Some j) # fs) = (k, j) # present fs"
  by (simp_all add: present_def)

lemma present_keys: "fst ` set (present fs) \<subseteq> fst ` set fs"
  by (force simp: present_def split: option.splits)

lemma key_absent: "k \<notin> fst ` set xs \<Longrightarrow> (k, j) # ys \<noteq> xs"
  by auto

lemma present_inj:
  "map fst fs = map fst gs \<Longrightarrow> distinct (map fst fs) \<Longrightarrow> present fs = present gs \<Longrightarrow> fs = gs"
proof (induction fs arbitrary: gs)
  case (Cons f fs)
  then obtain k v w gs' where fg: "f = (k, v)" "gs = (k, w) # gs'" by (cases f; cases gs) auto
  have absent: "k \<notin> fst ` set (present fs)" "k \<notin> fst ` set (present gs')"
    using Cons.prems present_keys [of fs] present_keys [of gs'] fg
    by (auto simp flip: set_map)
  then have "v = w \<and> present fs = present gs'"
    using Cons.prems(3) fg by (cases v; cases w) (auto simp: key_absent key_absent [symmetric])
  then show ?case using Cons fg by auto
qed simp

lemma present_members: "(k, j) \<in> set (present fs) \<longleftrightarrow> (k, Some j) \<in> set fs"
  by (force simp: present_def split: option.splits)

lemma present_distinct: "distinct (map fst fs) \<Longrightarrow> distinct (map fst (present fs))"
proof (induction fs)
  case (Cons f fs)
  then show ?case using present_keys [of fs] by (cases f; cases "snd f") auto
qed simp

lemma present_set_inj:
  assumes keys: "map fst fs = map fst gs" "distinct (map fst fs)" and members: "set (present fs) = set (present gs)"
  shows "fs = gs"
proof (rule nth_equalityI)
  show len: "length fs = length gs" using keys(1) map_eq_imp_length_eq by blast
  fix i assume i: "i < length fs"
  have "fst (fs ! i) = fst (gs ! i)" using keys(1) i len by (metis nth_map)
  moreover have "snd (fs ! i) = Some j \<longleftrightarrow> snd (gs ! i) = Some j" for j
  proof -
    have "snd (hs ! i) = Some j \<longleftrightarrow> (fst (hs ! i), j) \<in> set (present hs)"
      if "i < length hs" "distinct (map fst hs)" for hs :: "(string \<times> 'a option) list"
      unfolding present_members using that nth_mem [OF that(1)] eq_key_imp_eq_value [OF that(2)]
      by (metis prod.collapse)
    with i len keys members \<open>fst (fs ! i) = fst (gs ! i)\<close> show ?thesis by metis
  qed
  ultimately show "fs ! i = gs ! i" by (metis not_None_eq prod_eq_iff)
qed

lemma struct_json_inj:
  "map fst fs = map fst gs \<Longrightarrow> distinct (map fst fs) \<Longrightarrow> struct_json fs = struct_json gs \<longleftrightarrow> fs = gs"
  using present_inj [of fs gs] by (auto simp: struct_json_def)

lemma omit_inj [simp]:
  "str_omit s = str_omit t \<longleftrightarrow> s = t"
  "int_omit i = int_omit j \<longleftrightarrow> i = j"
  "bool_omit b = bool_omit c \<longleftrightarrow> b = c"
  "uint32_json u = uint32_json w \<longleftrightarrow> u = w"
  "uint32_omit u = uint32_omit w \<longleftrightarrow> u = w"
  by (auto simp: str_omit_def int_omit_def bool_omit_def uint32_json_def uint32_omit_def
      intro: word_uint_eqI)

lemma list_omit_inj: "inj_on f (set xs \<union> set ys) \<Longrightarrow> list_omit f xs = list_omit f ys \<longleftrightarrow> xs = ys"
  by (auto simp: list_omit_def dest: map_inj_on)

lemma list_or_null_inj: "inj_on f (set xs \<union> set ys) \<Longrightarrow> list_or_null f xs = list_or_null f ys \<longleftrightarrow> xs = ys"
  by (auto simp: list_or_null_def dest: map_inj_on)

lemma map_option_inj: "inj f \<Longrightarrow> map_option f x = map_option f y \<longleftrightarrow> x = y"
  by (simp add: inj_eq option.inj_map)

definition wf_field :: "json_field \<Rightarrow> bool" where
  "wf_field f \<longleftrightarrow> valid_utf8 (fst f) \<and> pred_option wf_json (snd f)"

lemma wf_struct_json: "list_all wf_field fs \<Longrightarrow> wf_json (struct_json fs)"
  by (auto simp: struct_json_def list_all_iff present_def wf_field_def split: option.splits)

lemma wf_omit [simp]:
  "pred_option wf_json (str_omit s) \<longleftrightarrow> valid_utf8 s"
  "pred_option wf_json (int_omit i)"
  "pred_option wf_json (bool_omit b)"
  "wf_json (uint32_json w)"
  "pred_option wf_json (uint32_omit w)"
  "pred_option wf_json (list_omit f xs) \<longleftrightarrow> list_all (wf_json \<circ> f) xs"
  "wf_json (list_or_null f xs) \<longleftrightarrow> list_all (wf_json \<circ> f) xs"
  by (auto simp: str_omit_def int_omit_def bool_omit_def uint32_json_def uint32_omit_def
      list_omit_def list_or_null_def list.pred_map)

section \<open>What a digest identifies\<close>

text \<open>
  The contract of a digest taken of the JSON text of a value: the encoding is well formed and two
  encodings agree exactly when the contents do. Then two digests agree exactly when the contents
  do, a collision of SHA-256 on the two texts apart.
\<close>

locale content_digest =
  fixes encode :: "'a \<Rightarrow> json" and content :: "'a \<Rightarrow> 'c" and admissible :: "'a \<Rightarrow> bool"
  assumes wf_encode: "admissible x \<Longrightarrow> wf_json (encode x)"
    and encode_eq_iff: "admissible x \<Longrightarrow> admissible y \<Longrightarrow> encode x = encode y \<longleftrightarrow> content x = content y"
begin

definition text_of :: "'a \<Rightarrow> string" where
  "text_of x = json_text (encode x)"

lemma text_eq_iff: "admissible x \<Longrightarrow> admissible y \<Longrightarrow> text_of x = text_of y \<longleftrightarrow> content x = content y"
  by (simp add: text_of_def json_text_inj wf_encode encode_eq_iff)

lemma digest_eq_iff:
  assumes "admissible x" "admissible y"
  shows "digest_hex (text_of x) = digest_hex (text_of y)
     \<longleftrightarrow> content x = content y \<or> sha_collision (text_of x) (text_of y)"
  using text_eq_iff [OF assms] digest_hex_binds [of "text_of x" "text_of y"]
  by (auto simp: sha_collision_def digest_hex_def)

end

end
