(* ===== verification/Settlement_Core.thy ===== *)
theory Settlement_Core
  imports Go_Json
begin

text \<open>
  \<open>internal/settlementcore/core.go\<close>: the canonical form of structured data, by reflection, that every
  signed or hashed message goes through; identities derived from keys; signatures; and identity
  bindings. The secp256k1 library is a parameter, a record of the functions the code calls. Random
  bytes and the clock are arguments.
\<close>

section \<open>Reflected values\<close>

text \<open>
  A \<open>reflect.Value\<close> by its kind. \<open>VRef None\<close> is a nil pointer or interface, \<open>VSlice None\<close> and
  \<open>VMap None\<close> are nil; a finite float is its JSON text and \<open>VFloat None\<close> is a NaN or an infinity;
  \<open>VOther\<close> is a kind with no case of its own, with the value its \<open>MarshalJSON\<close> decodes to, if any.
  A struct field has its Go name, its \<open>json\<close> tag and whether it is exported. Map keys are the kinds
  the daemon uses: strings, integers and nil.
\<close>

record gotime =
  gt_Year :: int
  gt_Month :: int
  gt_Day :: int
  gt_Hour :: int
  gt_Minute :: int
  gt_Second :: int
  gt_Nanosecond :: int
  gt_ZeroStruct :: bool

datatype gokey = KString string | KInt int | KNil

datatype goval =
    VInvalid
  | VRef "goval option"
  | VTime gotime
  | VNumber string
  | VString string
  | VBool bool
  | VInt int
  | VUint nat
  | VFloat "string option"
  | VSlice "goval list option"
  | VBytes "string option"
  | VArray "goval list"
  | VByteArray string
  | VMap "(gokey \<times> goval) list option"
  | VStruct "(string \<times> string \<times> bool \<times> goval) list"
  | VOther "goval option"

definition pad :: "nat \<Rightarrow> int \<Rightarrow> string" where
  "pad n i = (let s = itoa i in replicate (n - length s) (CHR ''0'') @ s)"

text \<open>\<open>UTC().Truncate(time.Millisecond).Format(jsTimestampLayout)\<close> of a time given by its UTC fields.\<close>

definition js_timestamp :: "gotime \<Rightarrow> string" where
  "js_timestamp t =
     pad 4 (gt_Year t) @ ''-'' @ pad 2 (gt_Month t) @ ''-'' @ pad 2 (gt_Day t) @ ''T'' @ pad 2 (gt_Hour t)
     @ '':'' @ pad 2 (gt_Minute t) @ '':'' @ pad 2 (gt_Second t) @ ''.''
     @ pad 3 (gt_Nanosecond t div 1000000) @ ''Z''"

fun keyToString :: "gokey \<Rightarrow> string" where
  "keyToString KNil = []"
| "keyToString (KString s) = s"
| "keyToString (KInt i) = itoa i"

text \<open>\<open>strings.Split(tag, \<^emph>\<open>comma\<close>)\<close>.\<close>

fun split_commas :: "string \<Rightarrow> string list" where
  "split_commas [] = [[]]"
| "split_commas (c # s) =
     (if c = CHR '','' then [] # split_commas s
      else case split_commas s of [] \<Rightarrow> [[c]] | p # ps \<Rightarrow> (c # p) # ps)"

definition parseJSONTag :: "string \<Rightarrow> string \<times> bool \<times> bool" where
  "parseJSONTag tag =
     (if tag = [] then ([], False, False)
      else
        let parts = split_commas tag;
            name = hd parts;
            omitEmpty = list_ex (\<lambda>part. part = ''omitempty'') (tl parts) in
        if name = ''-'' then ([], False, True) else (name, omitEmpty, False))"

text \<open>\<open>reflect.Value.IsZero\<close>.\<close>

fun is_zero :: "goval \<Rightarrow> bool" where
  "is_zero VInvalid = True"
| "is_zero (VRef v) = (v = None)"
| "is_zero (VTime t) = gt_ZeroStruct t"
| "is_zero (VNumber s) = (s = [])"
| "is_zero (VString s) = (s = [])"
| "is_zero (VBool b) = (\<not> b)"
| "is_zero (VInt i) = (i = 0)"
| "is_zero (VUint n) = (n = 0)"
| "is_zero (VFloat f) = (f = Some ''0'')"
| "is_zero (VSlice vs) = (vs = None)"
| "is_zero (VBytes s) = (s = None)"
| "is_zero (VArray vs) = list_all is_zero vs"
| "is_zero (VByteArray s) = list_all (\<lambda>c. c = CHR 0x00) s"
| "is_zero (VMap m) = (m = None)"
| "is_zero (VStruct fs) = list_all (\<lambda>(_, _, _, v). is_zero v) fs"
| "is_zero (VOther _) = False"

section \<open>Canonical form\<close>

text \<open>A \<open>map[string]any\<close> filled in the given order (a later key overwrites) and written with its keys
  sorted.\<close>

definition object_of :: "(string \<times> json) list \<Rightarrow> json" where
  "object_of kvs =
     JObj (slice_stable (\<lambda>a b. fst a < fst b) (fold (\<lambda>(k, v). AList.update k v) kvs []))"

definition struct_member :: "string \<Rightarrow> string \<Rightarrow> bool \<Rightarrow> bool \<Rightarrow> json \<Rightarrow> (string \<times> json) list" where
  "struct_member fieldName tag exported zero canonical =
     (if \<not> exported then []
      else case parseJSONTag tag of (name, omitEmpty, skip) \<Rightarrow>
        if skip then []
        else if omitEmpty \<and> zero then []
        else [(if name = [] then fieldName else name, canonical)])"

fun canonicalizeValue :: "goval \<Rightarrow> json" where
  "canonicalizeValue VInvalid = JNull"
| "canonicalizeValue (VRef None) = JNull"
| "canonicalizeValue (VRef (Some v)) = canonicalizeValue v"
| "canonicalizeValue (VTime t) = JStr (js_timestamp t)"
| "canonicalizeValue (VNumber s) = JNum (if s = [] then ''0'' else s)"
| "canonicalizeValue (VString s) = JStr s"
| "canonicalizeValue (VBool b) = JBool b"
| "canonicalizeValue (VInt i) = JInt i"
| "canonicalizeValue (VUint n) = JInt (int n)"
| "canonicalizeValue (VFloat None) = JNull"
| "canonicalizeValue (VFloat (Some f)) = JNum f"
| "canonicalizeValue (VSlice None) = JNull"
| "canonicalizeValue (VSlice (Some vs)) = JArr (map canonicalizeValue vs)"
| "canonicalizeValue (VBytes None) = JNull"
| "canonicalizeValue (VBytes (Some s)) = JStr (EncodeToString s)"
| "canonicalizeValue (VArray vs) = JArr (map canonicalizeValue vs)"
| "canonicalizeValue (VByteArray s) = JStr (EncodeToString s)"
| "canonicalizeValue (VMap None) = JNull"
| "canonicalizeValue (VMap (Some m)) =
     object_of (map (\<lambda>(k, v). (keyToString k, canonicalizeValue v)) 
       (slice_stable (\<lambda>a b. keyToString (fst a) < keyToString (fst b)) m))"
| "canonicalizeValue (VStruct fs) =
     object_of (concat (map (\<lambda>(name, tag, exported, v).
       struct_member name tag exported (is_zero v) (canonicalizeValue v)) fs))"
| "canonicalizeValue (VOther None) = JNull"
| "canonicalizeValue (VOther (Some v)) = canonicalizeValue v"

definition CanonicalizeStructuredData :: "goval \<Rightarrow> json" where
  "CanonicalizeStructuredData input = canonicalizeValue input"

text \<open>\<open>json.Marshal\<close> refuses a \<open>json.Number\<close> that is not a number literal; nothing else of a canonical
  value can fail.\<close>

definition is_digit :: "char \<Rightarrow> bool" where
  "is_digit c \<longleftrightarrow> c \<in> set ''0123456789''"

definition digits_then :: "(string \<Rightarrow> bool) \<Rightarrow> string \<Rightarrow> bool" where
  "digits_then rest s \<longleftrightarrow> s \<noteq> [] \<and> is_digit (hd s) \<and> rest (dropWhile is_digit s)"

definition exponent_part :: "string \<Rightarrow> bool" where
  "exponent_part s =
     (case s of
        [] \<Rightarrow> True
      | c # r \<Rightarrow> c \<in> set ''eE'' \<and>
          digits_then (\<lambda>x. x = []) (if r \<noteq> [] \<and> hd r \<in> set ''+-'' then tl r else r))"

definition fraction_part :: "string \<Rightarrow> bool" where
  "fraction_part s =
     (case s of [] \<Rightarrow> True | c # r \<Rightarrow> if c = CHR ''.'' then digits_then exponent_part r else exponent_part s)"

definition valid_number :: "string \<Rightarrow> bool" where
  "valid_number s =
     (let t = (if s \<noteq> [] \<and> hd s = CHR ''-'' then tl s else s) in
      case t of
        [] \<Rightarrow> False
      | c # r \<Rightarrow> if c = CHR ''0'' then fraction_part r else digits_then fraction_part t)"

fun numbers_ok :: "json \<Rightarrow> bool" where
  "numbers_ok (JNum n) = valid_number n"
| "numbers_ok (JArr vs) = list_all numbers_ok vs"
| "numbers_ok (JObj kvs) = list_all (\<lambda>(_, v). numbers_ok v) kvs"
| "numbers_ok _ = True"

definition StableStringify :: "goval \<Rightarrow> string res" where
  "StableStringify input =
     (let canonical = CanonicalizeStructuredData input in
      if numbers_ok canonical then Inr (json_text canonical)
      else Inl (Err ''json: invalid number literal, trying to marshal %q''))"

definition HashMessage :: "string \<Rightarrow> string" where
  "HashMessage message = Sum256 message"

definition HashStructuredDataHex :: "goval \<Rightarrow> string res" where
  "HashStructuredDataHex input =
     (case StableStringify input of Inl e \<Rightarrow> Inl e | Inr canonical \<Rightarrow> Inr (EncodeToString (Sum256 canonical)))"

definition HashCheckpoint :: "goval \<Rightarrow> string res" where
  "HashCheckpoint checkpoint = HashStructuredDataHex checkpoint"

section \<open>Identities\<close>

datatype IdentityScope =
    WalletIdentityScope
  | ProtocolIdentityScope
  | PeerIdentityScope
  | IdentityScopeOther string

record LocalIdentity =
  li_PlayerID :: string
  li_PrivateKeyHex :: string
  li_PublicKeyHex :: string

record ScopedIdentity =
  si_ID :: string
  si_PrivateKeyHex :: string
  si_PublicKeyHex :: string
  si_Scope :: IdentityScope

record IdentityBinding =
  ib_PeerID :: string
  ib_PeerURL :: string
  ib_ProtocolID :: string
  ib_ProtocolPubkeyHex :: string
  ib_SignedAt :: string
  ib_SignatureHex :: string
  ib_TableID :: string
  ib_WalletPlayerID :: string
  ib_WalletPubkeyHex :: string

fun scope_str :: "IdentityScope \<Rightarrow> string" where
  "scope_str WalletIdentityScope = ''wallet''"
| "scope_str ProtocolIdentityScope = ''protocol''"
| "scope_str PeerIdentityScope = ''peer''"
| "scope_str (IdentityScopeOther s) = s"

definition scopePrefix :: "IdentityScope \<Rightarrow> string" where
  "scopePrefix scope =
     (let s = scope_str scope in
      if s = ''wallet'' then ''player'' else if s = ''protocol'' then ''proto''
      else if s = ''peer'' then ''peer'' else s)"

definition DeriveScopedID :: "IdentityScope \<Rightarrow> string \<Rightarrow> string res" where
  "DeriveScopedID scope publicKeyHex =
     (if scope_str scope \<notin> set [''wallet'', ''protocol'', ''peer'']
      then Inl (Err ''unsupported identity scope %q'')
      else case DecodeString publicKeyHex of
        Inl e \<Rightarrow> Inl (Err ''decode public key: %w'')
      | Inr publicKeyBytes \<Rightarrow>
          Inr (scopePrefix scope @ ''-'' @ take 20 (EncodeToString (Sum256 publicKeyBytes))))"

definition DerivePlayerID :: "string \<Rightarrow> string res" where
  "DerivePlayerID publicKeyHex =
     (case DecodeString publicKeyHex of
        Inl e \<Rightarrow> Inl (Err ''decode public key: %w'')
      | Inr publicKeyBytes \<Rightarrow> Inr (''player-'' @ take 20 (EncodeToString (Sum256 publicKeyBytes))))"

section \<open>Keys and signatures\<close>

text \<open>
  What the code uses of the secp256k1 library: a private key from bytes, the compressed public key of
  a private key, parsing a public key, the scalars \<open>r\<close> and \<open>s\<close> of a signature as 32 bytes each,
  whether 32 bytes are a nonzero scalar below the group order, and verification.
\<close>

record ('sk, 'pk) secp256k1 =
  PrivKeyFromBytes :: "string \<Rightarrow> 'sk"
  SerializeCompressed :: "'sk \<Rightarrow> string"
  ParsePubKey :: "string \<Rightarrow> 'pk res"
  SignScalars :: "'sk \<Rightarrow> string \<Rightarrow> (string \<times> string) option"
  ScalarOk :: "string \<Rightarrow> bool"
  VerifyScalars :: "string \<times> string \<Rightarrow> string \<Rightarrow> 'pk \<Rightarrow> bool"

definition RandomHex :: "(nat \<Rightarrow> string res) \<Rightarrow> int \<Rightarrow> string res" where
  "RandomHex random byteLength =
     (if byteLength < 0 then Inl (Err ''byte length must be non-negative'')
      else case random (nat byteLength) of Inl e \<Rightarrow> Inl e | Inr bytes \<Rightarrow> Inr (EncodeToString bytes))"

definition privateKeyAndPublicKeyHex ::
    "('sk, 'pk) secp256k1 \<Rightarrow> (nat \<Rightarrow> string res) \<Rightarrow> string \<Rightarrow> (string \<times> 'sk \<times> string) res" where
  "privateKeyAndPublicKeyHex curve random seedHex =
     (case (if seedHex = [] then RandomHex random 32 else Inr seedHex) of
        Inl e \<Rightarrow> Inl e
      | Inr seed \<Rightarrow>
         (case DecodeString seed of
            Inl e \<Rightarrow> Inl (Err ''decode private key: %w'')
          | Inr seedBytes \<Rightarrow>
             (let privateKey = PrivKeyFromBytes curve seedBytes
              in Inr (seed, privateKey, EncodeToString (SerializeCompressed curve privateKey)))))"

definition CreateLocalIdentity ::
    "('sk, 'pk) secp256k1 \<Rightarrow> (nat \<Rightarrow> string res) \<Rightarrow> string \<Rightarrow> LocalIdentity res" where
  "CreateLocalIdentity curve random seedHex =
     (case privateKeyAndPublicKeyHex curve random seedHex of
        Inl e \<Rightarrow> Inl e
      | Inr (privateKeyHex, _, publicKeyHex) \<Rightarrow>
         (case DerivePlayerID publicKeyHex of
            Inl e \<Rightarrow> Inl e
          | Inr playerID \<Rightarrow> Inr \<lparr>li_PlayerID = playerID, li_PrivateKeyHex = privateKeyHex,
                               li_PublicKeyHex = publicKeyHex\<rparr>))"

definition CreateScopedIdentity ::
    "('sk, 'pk) secp256k1 \<Rightarrow> (nat \<Rightarrow> string res) \<Rightarrow> IdentityScope \<Rightarrow> string \<Rightarrow> ScopedIdentity res" where
  "CreateScopedIdentity curve random scope seedHex =
     (case privateKeyAndPublicKeyHex curve random seedHex of
        Inl e \<Rightarrow> Inl e
      | Inr (privateKeyHex, _, publicKeyHex) \<Rightarrow>
         (case DeriveScopedID scope publicKeyHex of
            Inl e \<Rightarrow> Inl e
          | Inr id1 \<Rightarrow> Inr \<lparr>si_ID = id1, si_PrivateKeyHex = privateKeyHex,
                          si_PublicKeyHex = publicKeyHex, si_Scope = scope\<rparr>))"

definition signCompactHex ::
    "('sk, 'pk) secp256k1 \<Rightarrow> (nat \<Rightarrow> string res) \<Rightarrow> string \<Rightarrow> string \<Rightarrow> string res" where
  "signCompactHex curve random privateKeyHex hash =
     (case privateKeyAndPublicKeyHex curve random privateKeyHex of
        Inl e \<Rightarrow> Inl e
      | Inr (_, privateKey, _) \<Rightarrow>
         (case SignScalars curve privateKey hash of
            None \<Rightarrow> Inl (Err ''failed to sign message'')
          | Some (r, s) \<Rightarrow> Inr (EncodeToString (r @ s))))"

definition parseCompactSignature :: "('sk, 'pk) secp256k1 \<Rightarrow> string \<Rightarrow> (string \<times> string) res" where
  "parseCompactSignature curve signature =
     (if length signature \<noteq> 64 then Inl (Err ''invalid compact signature length %d'')
      else if \<not> ScalarOk curve (take 32 signature) then Inl (Err ''invalid signature r value'')
      else if \<not> ScalarOk curve (drop 32 signature) then Inl (Err ''invalid signature s value'')
      else Inr (take 32 signature, drop 32 signature))"

text \<open>The part \<open>VerifyMessage\<close> and \<open>VerifyStructuredData\<close> share.\<close>

definition verify_digest ::
    "('sk, 'pk) secp256k1 \<Rightarrow> string \<Rightarrow> string \<Rightarrow> string \<Rightarrow> bool res" where
  "verify_digest curve publicKeyHex digest signatureHex =
     (case DecodeString publicKeyHex of
        Inl e \<Rightarrow> Inl (Err ''decode public key: %w'')
      | Inr publicKeyBytes \<Rightarrow>
         (case ParsePubKey curve publicKeyBytes of
            Inl e \<Rightarrow> Inl e
          | Inr pubKey \<Rightarrow>
             (case DecodeString signatureHex of
                Inl e \<Rightarrow> Inl (Err ''decode signature: %w'')
              | Inr signatureBytes \<Rightarrow>
                 (case parseCompactSignature curve signatureBytes of
                    Inl e \<Rightarrow> Inl e
                  | Inr sig \<Rightarrow> Inr (VerifyScalars curve sig digest pubKey)))))"

definition SignMessage ::
    "('sk, 'pk) secp256k1 \<Rightarrow> (nat \<Rightarrow> string res) \<Rightarrow> string \<Rightarrow> string \<Rightarrow> string res" where
  "SignMessage curve random privateKeyHex message =
     signCompactHex curve random privateKeyHex (HashMessage message)"

definition VerifyMessage :: "('sk, 'pk) secp256k1 \<Rightarrow> string \<Rightarrow> string \<Rightarrow> string \<Rightarrow> bool res" where
  "VerifyMessage curve publicKeyHex message signatureHex =
     verify_digest curve publicKeyHex (HashMessage message) signatureHex"

definition SignStructuredData ::
    "('sk, 'pk) secp256k1 \<Rightarrow> (nat \<Rightarrow> string res) \<Rightarrow> string \<Rightarrow> goval \<Rightarrow> string res" where
  "SignStructuredData curve random privateKeyHex input =
     (case StableStringify input of
        Inl e \<Rightarrow> Inl e
      | Inr stableText \<Rightarrow> signCompactHex curve random privateKeyHex (HashMessage stableText))"

definition VerifyStructuredData :: "('sk, 'pk) secp256k1 \<Rightarrow> string \<Rightarrow> goval \<Rightarrow> string \<Rightarrow> bool res" where
  "VerifyStructuredData curve publicKeyHex input signatureHex =
     (case StableStringify input of
        Inl e \<Rightarrow> Inl e
      | Inr stableText \<Rightarrow> verify_digest curve publicKeyHex (HashMessage stableText) signatureHex)"

section \<open>Identity bindings\<close>

definition string_map :: "(string \<times> string) list \<Rightarrow> goval" where
  "string_map m = VMap (Some (map (\<lambda>(k, v). (KString k, VRef (Some (VString v)))) m))"

definition unsigned_binding ::
    "string \<Rightarrow> string \<Rightarrow> string \<Rightarrow> string \<Rightarrow> string \<Rightarrow> string \<Rightarrow> string \<Rightarrow> string \<Rightarrow> goval" where
  "unsigned_binding peerID peerURL protocolID protocolPubkeyHex signedAt tableID walletPlayerID walletPubkeyHex =
     string_map
      [(''peerId'', peerID), (''peerUrl'', peerURL), (''protocolId'', protocolID),
       (''protocolPubkeyHex'', protocolPubkeyHex), (''signedAt'', signedAt), (''tableId'', tableID),
       (''walletPlayerId'', walletPlayerID), (''walletPubkeyHex'', walletPubkeyHex)]"

definition nowISO :: "gotime \<Rightarrow> string" where
  "nowISO now = js_timestamp now"

definition BuildIdentityBinding ::
    "('sk, 'pk) secp256k1 \<Rightarrow> (nat \<Rightarrow> string res) \<Rightarrow> gotime \<Rightarrow> string \<Rightarrow> string \<Rightarrow> string \<Rightarrow> ScopedIdentity
     \<Rightarrow> LocalIdentity \<Rightarrow> string \<Rightarrow> IdentityBinding res" where
  "BuildIdentityBinding curve random now tableID peerID peerURL protocolIdentity walletIdentity signedAt0 =
     (let signedAt = (if signedAt0 = [] then nowISO now else signedAt0);
          unsigned = unsigned_binding peerID peerURL (si_ID protocolIdentity) (si_PublicKeyHex protocolIdentity)
            signedAt tableID (li_PlayerID walletIdentity) (li_PublicKeyHex walletIdentity) in
      case SignStructuredData curve random (li_PrivateKeyHex walletIdentity) unsigned of
        Inl e \<Rightarrow> Inl e
      | Inr signatureHex \<Rightarrow>
          Inr \<lparr>ib_PeerID = peerID, ib_PeerURL = peerURL, ib_ProtocolID = si_ID protocolIdentity,
               ib_ProtocolPubkeyHex = si_PublicKeyHex protocolIdentity, ib_SignedAt = signedAt,
               ib_SignatureHex = signatureHex, ib_TableID = tableID,
               ib_WalletPlayerID = li_PlayerID walletIdentity,
               ib_WalletPubkeyHex = li_PublicKeyHex walletIdentity\<rparr>)"

definition binding_payload :: "IdentityBinding \<Rightarrow> goval" where
  "binding_payload b = unsigned_binding (ib_PeerID b) (ib_PeerURL b) (ib_ProtocolID b) (ib_ProtocolPubkeyHex b)
     (ib_SignedAt b) (ib_TableID b) (ib_WalletPlayerID b) (ib_WalletPubkeyHex b)"

definition VerifyIdentityBinding :: "('sk, 'pk) secp256k1 \<Rightarrow> IdentityBinding \<Rightarrow> bool res" where
  "VerifyIdentityBinding curve b =
     VerifyStructuredData curve (ib_WalletPubkeyHex b) (binding_payload b) (ib_SignatureHex b)"

section \<open>Canonical strings\<close>

lemma object_of_distinct:
  assumes "distinct (map fst kvs)"
  shows "object_of kvs = JObj (slice_stable (\<lambda>a b. fst a < fst b) kvs)"
proof -
  have "fold (\<lambda>(k, v). AList.update k v) kvs m = m @ kvs"
    if "distinct (map fst kvs)" "fst ` set m \<inter> fst ` set kvs = {}" for m
    using that
  proof (induction kvs arbitrary: m)
    case (Cons kv kvs)
    obtain k v where kv: "kv = (k, v)" by (cases kv)
    with Cons.prems have "AList.update k v m = m @ [(k, v)]"
      by (intro map_snd_update_new) auto
    with Cons kv show ?case by auto
  qed simp
  with assms show ?thesis by (simp add: object_of_def)
qed

text \<open>The canonical text of a map does not depend on the order in which the map is enumerated.\<close>

lemma stable_string_ignores_order:
  assumes "mset m = mset n" "inj_on (keyToString \<circ> fst) (set m)"
  shows "StableStringify (VMap (Some m)) = StableStringify (VMap (Some n))"
proof -
  have "slice_stable (\<lambda>a b. keyToString (fst a) < keyToString (fst b)) m
      = slice_stable (\<lambda>a b. keyToString (fst a) < keyToString (fst b)) n"
    using slice_stable_perm [of "keyToString \<circ> fst" m n] assms by simp
  then show ?thesis by (simp add: StableStringify_def CanonicalizeStructuredData_def)
qed

text \<open>A map written with its keys already in order is its list of members.\<close>

lemma canonical_string_map:
  assumes "sorted_wrt (<) (map fst m)"
  shows "canonicalizeValue (string_map m) = JObj (map (\<lambda>(k, v). (k, JStr v)) m)"
proof -
  let ?entries = "map (\<lambda>(k, v). (KString k, VRef (Some (VString v)))) m"
  have dist: "distinct (map fst m)" using assms strict_sorted_iff by blast
  have "sorted_wrt (\<lambda>a b. \<not> keyToString (fst b) < keyToString (fst a)) ?entries"
    using assms by (auto simp: sorted_wrt_map sorted_wrt_iff_nth_less split_beta dest: order.asym)
  then have "slice_stable (\<lambda>a b. keyToString (fst a) < keyToString (fst b)) ?entries = ?entries"
    by (intro strict_weak.slice_sorted_id [OF strict_weak_key [of "keyToString \<circ> fst", unfolded comp_def]])
  moreover have "sorted_wrt (\<lambda>a b. \<not> fst b < fst a) (map (\<lambda>(k, v). (k, JStr v)) m)"
    using assms by (auto simp: sorted_wrt_map sorted_wrt_iff_nth_less split_beta dest: order.asym)
  then have "slice_stable (\<lambda>a b. fst a < fst b) (map (\<lambda>(k, v). (k, JStr v)) m) = map (\<lambda>(k, v). (k, JStr v)) m"
    by (intro strict_weak.slice_sorted_id [OF strict_weak_key])
  moreover have "distinct (map fst (map (\<lambda>(k, v). (k, JStr v)) m))"
    using dist by (simp add: comp_def split_beta)
  ultimately show ?thesis
    by (simp add: string_map_def comp_def case_prod_unfold object_of_distinct)
qed

lemma canonical_binding:
  "canonicalizeValue (binding_payload b) = JObj
     [(''peerId'', JStr (ib_PeerID b)), (''peerUrl'', JStr (ib_PeerURL b)),
      (''protocolId'', JStr (ib_ProtocolID b)), (''protocolPubkeyHex'', JStr (ib_ProtocolPubkeyHex b)),
      (''signedAt'', JStr (ib_SignedAt b)), (''tableId'', JStr (ib_TableID b)),
      (''walletPlayerId'', JStr (ib_WalletPlayerID b)), (''walletPubkeyHex'', JStr (ib_WalletPubkeyHex b))]"
proof -
  have "sorted_wrt (<) [''peerId'', ''peerUrl'', ''protocolId'', ''protocolPubkeyHex'', ''signedAt'', ''tableId'',
      ''walletPlayerId'', ''walletPubkeyHex'']"
    by code_simp
  then show ?thesis
    unfolding binding_payload_def unsigned_binding_def by (subst canonical_string_map) simp_all
qed

definition binding_text_ok :: "IdentityBinding \<Rightarrow> bool" where
  "binding_text_ok b \<longleftrightarrow> list_all valid_utf8
     [ib_PeerID b, ib_PeerURL b, ib_ProtocolID b, ib_ProtocolPubkeyHex b, ib_SignedAt b, ib_TableID b,
      ib_WalletPlayerID b, ib_WalletPubkeyHex b]"

interpretation binding_digest:
  content_digest "\<lambda>b. canonicalizeValue (binding_payload b)" "\<lambda>b. b\<lparr>ib_SignatureHex := []\<rparr>" binding_text_ok
proof
  show "wf_json (canonicalizeValue (binding_payload b))" if "binding_text_ok b" for b
  proof -
    have "list_all valid_utf8 [''peerId'', ''peerUrl'', ''protocolId'', ''protocolPubkeyHex'', ''signedAt'',
        ''tableId'', ''walletPlayerId'', ''walletPubkeyHex'']"
      by code_simp
    with that show ?thesis by (simp add: canonical_binding binding_text_ok_def)
  qed
  show "canonicalizeValue (binding_payload b) = canonicalizeValue (binding_payload b')
      \<longleftrightarrow> b\<lparr>ib_SignatureHex := []\<rparr> = b'\<lparr>ib_SignatureHex := []\<rparr>" for b b'
    unfolding canonical_binding by (cases b; cases b') auto
qed

definition binding_text :: "IdentityBinding \<Rightarrow> string" where
  "binding_text b = json_text (canonicalizeValue (binding_payload b))"

lemma binding_digest_text: "binding_digest.text_of = binding_text"
  by (rule ext) (simp only: binding_digest.text_of_def binding_text_def)

lemma stringify_binding: "StableStringify (binding_payload b) = Inr (binding_text b)"
proof -
  have "numbers_ok (canonicalizeValue (binding_payload b))" by (simp add: canonical_binding)
  then show ?thesis
    by (simp only: StableStringify_def CanonicalizeStructuredData_def binding_text_def Let_def if_True)
qed

lemma nat_digits_hd: "0 < n \<Longrightarrow> hd (nat_digits n) \<noteq> CHR ''0''"
proof (induction n rule: nat_digits.induct)
  case (1 n)
  show ?case
  proof (cases "n < 10")
    case True
    then have "(of_char (char_of (48 + n) :: char) :: nat) = 48 + n" by simp
    moreover have "(of_char (CHR ''0'') :: nat) = 48" by simp
    ultimately have "char_of (48 + n) \<noteq> CHR ''0''" using 1 by (metis add_eq_self_zero less_numeral_extra(3))
    with True show ?thesis by (subst nat_digits.simps) simp
  next
    case False
    with 1 show ?thesis by (subst nat_digits.simps) (simp add: hd_append)
  qed
qed

lemma valid_nat_digits: "valid_number (nat_digits n)"
proof -
  have digits: "list_all is_digit (nat_digits n)"
    using nat_digits_chars [of n] by (simp add: is_digit_def [abs_def])
  obtain c r where n: "nat_digits n = c # r" by (cases "nat_digits n") auto
  have "c \<noteq> CHR ''-''" using nat_digits_no_sign [of n r] n by auto
  moreover have "r = []" if "c = CHR ''0''"
  proof -
    have "n = 0" using nat_digits_hd [of n] n that by (cases "n = 0") auto
    then show ?thesis using n by (simp add: nat_digits.simps)
  qed
  moreover have empty: "fraction_part []" by (simp add: fraction_part_def)
  moreover have "dropWhile is_digit r = []" using digits n by (auto simp: list_all_iff dropWhile_eq_Nil_conv)
  then have "fraction_part (dropWhile is_digit r)" using empty by metis
  ultimately show ?thesis
    using digits n by (auto simp: valid_number_def digits_then_def)
qed

lemma valid_itoa [simp]: "valid_number (itoa i)"
proof (cases "i < 0")
  case True
  have "nat_digits (nat (- i)) \<noteq> [] \<and> hd (nat_digits (nat (- i))) \<noteq> CHR ''-''"
    using nat_digits_no_sign [of "nat (- i)"] by (cases "nat_digits (nat (- i))") auto
  with True show ?thesis
    using valid_nat_digits [of "nat (- i)"] by (simp add: itoa_def valid_number_def)
qed (simp add: itoa_def valid_nat_digits)

lemma numbers_ok_JInt [simp]: "numbers_ok (JInt i)"
  by (simp add: JInt_def)

section \<open>Signing and verifying\<close>

text \<open>What is relied on of secp256k1: the compressed form of a public key parses, signing succeeds with
  two 32-byte nonzero scalars, and a signature verifies under the key's own public key.\<close>

definition curve_laws :: "('sk, 'pk) secp256k1 \<Rightarrow> bool" where
  "curve_laws curve \<longleftrightarrow>
     (\<forall>sk. \<exists>pk. ParsePubKey curve (SerializeCompressed curve sk) = Inr pk \<and>
       (\<forall>h. \<exists>r s. SignScalars curve sk h = Some (r, s) \<and> length r = 32 \<and> length s = 32
          \<and> ScalarOk curve r \<and> ScalarOk curve s \<and> VerifyScalars curve (r, s) h pk))"

lemma sign_then_verify:
  assumes "curve_laws curve" "privateKeyAndPublicKeyHex curve random key = Inr (seed, sk, pub)" "seed \<noteq> []"
  shows "\<exists>sig. signCompactHex curve random' seed h = Inr sig \<and> verify_digest curve pub h sig = Inr True"
proof -
  obtain bytes where bytes: "DecodeString seed = Inr bytes" "sk = PrivKeyFromBytes curve bytes"
    "pub = EncodeToString (SerializeCompressed curve sk)"
    using assms(2) by (auto simp: privateKeyAndPublicKeyHex_def Let_def split: sum.splits if_splits)
  obtain pk r s where laws: "ParsePubKey curve (SerializeCompressed curve sk) = Inr pk"
    "SignScalars curve sk h = Some (r, s)" "length r = 32" "length s = 32"
    "ScalarOk curve r" "ScalarOk curve s" "VerifyScalars curve (r, s) h pk"
    using assms(1) unfolding curve_laws_def by metis
  have "signCompactHex curve random' seed h = Inr (EncodeToString (r @ s))"
    using assms(3) bytes laws by (simp add: signCompactHex_def privateKeyAndPublicKeyHex_def Let_def)
  moreover have "verify_digest curve pub h (EncodeToString (r @ s)) = Inr True"
    using bytes laws by (simp add: verify_digest_def parseCompactSignature_def)
  ultimately show ?thesis by blast
qed

lemma local_identityD:
  assumes "CreateLocalIdentity curve random seedHex = Inr w"
  obtains sk where "privateKeyAndPublicKeyHex curve random seedHex = Inr (li_PrivateKeyHex w, sk, li_PublicKeyHex w)"
  using assms that by (auto simp: CreateLocalIdentity_def split: sum.splits)

lemma seed_kept:
  "privateKeyAndPublicKeyHex curve random seedHex = Inr (seed, sk, pub) \<Longrightarrow> seedHex \<noteq> [] \<Longrightarrow> seed = seedHex"
  by (auto simp: privateKeyAndPublicKeyHex_def Let_def split: sum.splits)

text \<open>An identity binding made by a wallet verifies, and its signature covers every field. For a
  wallet identity created from a seed, \<open>BuildIdentityBinding\<close> succeeds and \<open>VerifyIdentityBinding\<close>
  accepts its result, for any library that meets the laws of an ECDSA scheme. The digest that is
  signed is shared with another binding only if all eight signed fields agree or the two texts are
  a collision of SHA-256.\<close>

theorem identity_binding_verifies:
  assumes "curve_laws curve" and "seedHex \<noteq> []"
    and "CreateLocalIdentity curve random seedHex = Inr wallet"
  shows "\<exists>b. BuildIdentityBinding curve random' now tableID peerID peerURL protocol wallet signedAt = Inr b
    \<and> VerifyIdentityBinding curve b = Inr True
    \<and> ib_TableID b = tableID \<and> ib_PeerID b = peerID \<and> ib_WalletPlayerID b = li_PlayerID wallet
    \<and> ib_ProtocolID b = si_ID protocol \<and> (signedAt \<noteq> [] \<longrightarrow> ib_SignedAt b = signedAt)
    \<and> (\<forall>b'. binding_text_ok b \<longrightarrow> binding_text_ok b' \<longrightarrow>
         digest_hex (binding_text b) = digest_hex (binding_text b') \<longrightarrow>
         b\<lparr>ib_SignatureHex := []\<rparr> = b'\<lparr>ib_SignatureHex := []\<rparr>
         \<or> sha_collision (binding_text b) (binding_text b'))"
proof -
  obtain sk where key: "privateKeyAndPublicKeyHex curve random seedHex
      = Inr (li_PrivateKeyHex wallet, sk, li_PublicKeyHex wallet)"
    using local_identityD [OF assms(3)] .
  have "li_PrivateKeyHex wallet \<noteq> []" using seed_kept [OF key assms(2)] assms(2) by simp
  note signing = sign_then_verify [OF assms(1) key this, of random']
  define at where "at = (if signedAt = [] then nowISO now else signedAt)"
  define unsealed where "unsealed sig = \<lparr>ib_PeerID = peerID, ib_PeerURL = peerURL, ib_ProtocolID = si_ID protocol,
     ib_ProtocolPubkeyHex = si_PublicKeyHex protocol, ib_SignedAt = at, ib_SignatureHex = sig, ib_TableID = tableID,
     ib_WalletPlayerID = li_PlayerID wallet, ib_WalletPubkeyHex = li_PublicKeyHex wallet\<rparr>" for sig
  have payload: "binding_payload (unsealed sig) = binding_payload (unsealed [])" for sig
    by (simp add: binding_payload_def unsealed_def)
  obtain sig where sig: "SignStructuredData curve random' (li_PrivateKeyHex wallet) (binding_payload (unsealed [])) = Inr sig"
    "VerifyStructuredData curve (li_PublicKeyHex wallet) (binding_payload (unsealed [])) sig = Inr True"
    using signing [of "HashMessage (binding_text (unsealed []))"]
    by (auto simp: SignStructuredData_def VerifyStructuredData_def stringify_binding)
  have "BuildIdentityBinding curve random' now tableID peerID peerURL protocol wallet signedAt = Inr (unsealed sig)"
    using sig(1) by (simp add: BuildIdentityBinding_def Let_def binding_payload_def unsealed_def at_def)
  moreover have "VerifyIdentityBinding curve (unsealed sig) = Inr True"
    using sig(2) payload [of sig] by (simp add: VerifyIdentityBinding_def) (simp add: unsealed_def)
  moreover have "unsealed sig\<lparr>ib_SignatureHex := []\<rparr> = b'\<lparr>ib_SignatureHex := []\<rparr>
      \<or> sha_collision (binding_text (unsealed sig)) (binding_text b')"
    if "binding_text_ok (unsealed sig)" "binding_text_ok b'"
      "digest_hex (binding_text (unsealed sig)) = digest_hex (binding_text b')" for b'
    using binding_digest.digest_eq_iff [OF that(1,2)] that(3) by (simp add: binding_digest_text)
  ultimately show ?thesis
    by (intro exI [of _ "unsealed sig"] conjI allI impI) (auto simp: unsealed_def at_def)
qed

definition demo_curve :: "(string, string) secp256k1" where
  "demo_curve = \<lparr>PrivKeyFromBytes = (\<lambda>b. b), SerializeCompressed = (\<lambda>sk. sk), ParsePubKey = Inr,
     SignScalars = (\<lambda>sk h. Some (Sum256 h, Sum256 (sk @ h))), ScalarOk = (\<lambda>_. True),
     VerifyScalars = (\<lambda>(r, s) h pk. r = Sum256 h \<and> s = Sum256 (pk @ h))\<rparr>"

lemma demo_curve_laws: "curve_laws demo_curve"
  by (simp add: curve_laws_def demo_curve_def)

definition demo_protocol :: ScopedIdentity where
  "demo_protocol = \<lparr>si_ID = ''proto-1'', si_PrivateKeyHex = ''02'', si_PublicKeyHex = ''02'', si_Scope = ProtocolIdentityScope\<rparr>"

definition demo_time :: gotime where
  "demo_time = \<lparr>gt_Year = 2026, gt_Month = 1, gt_Day = 2, gt_Hour = 3, gt_Minute = 4, gt_Second = 5,
     gt_Nanosecond = 6000000, gt_ZeroStruct = False\<rparr>"

theorem identity_binding_verifies_witness:
  "\<exists>w b. CreateLocalIdentity demo_curve (\<lambda>_. Inl (Err [])) ''0a'' = Inr w
     \<and> BuildIdentityBinding demo_curve (\<lambda>_. Inl (Err [])) demo_time ''t'' ''p'' ''u'' demo_protocol w ''now'' = Inr b
     \<and> VerifyIdentityBinding demo_curve b = Inr True \<and> ib_SignedAt b = ''now''"
proof -
  have "DecodeString ''0a'' = Inr [CHR 0x0A]" by code_simp
  then have "\<exists>w. CreateLocalIdentity demo_curve (\<lambda>_. Inl (Err [])) ''0a'' = Inr w"
    by (simp add: CreateLocalIdentity_def privateKeyAndPublicKeyHex_def DerivePlayerID_def demo_curve_def Let_def)
  then obtain w where w: "CreateLocalIdentity demo_curve (\<lambda>_. Inl (Err [])) ''0a'' = Inr w" ..
  have "''0a'' \<noteq> []" by simp
  from identity_binding_verifies [OF demo_curve_laws this w, of "\<lambda>_. Inl (Err [])" demo_time "''t''" "''p''" "''u''"
      demo_protocol "''now''"] w
  show ?thesis by auto
qed

end
