(* ===== verification/Transcript.thy ===== *)
theory Transcript
  imports Settlement_Core Cards
begin

text \<open>
  \<open>internal/game/transcript.go\<close>: the transcript of a dealerless hand, a hash chain of the protocol
  records (commitments, reveals, deck stages, partial decryptions). The locale \<open>hash_chain\<close> is the
  contract of such a chain and holds the argument that a root binds every record; the transcript
  interprets it with the texts the code hashes.
\<close>

section \<open>Hash chains\<close>

locale hash_chain =
  fixes step_text :: "nat \<Rightarrow> 'r \<Rightarrow> string"
    and link_text :: "nat \<Rightarrow> string \<Rightarrow> string \<Rightarrow> string"
    and content :: "'r \<Rightarrow> 'c"
    and admissible :: "'r \<Rightarrow> bool"
  assumes step_text_inj: "admissible r \<Longrightarrow> admissible s \<Longrightarrow> step_text i r = step_text i s \<longleftrightarrow> content r = content s"
    and link_text_inj: "valid_utf8 p \<Longrightarrow> valid_utf8 p' \<Longrightarrow> valid_utf8 h \<Longrightarrow> valid_utf8 h' \<Longrightarrow>
      link_text i p h = link_text j p' h' \<longleftrightarrow> i = j \<and> p = p' \<and> h = h'"
begin

definition next_root :: "nat \<Rightarrow> string \<Rightarrow> 'r \<Rightarrow> string" where
  "next_root i root r = digest_hex (link_text i root (digest_hex (step_text i r)))"

fun roots_from :: "nat \<Rightarrow> string \<Rightarrow> 'r list \<Rightarrow> string" where
  "roots_from i root [] = root"
| "roots_from i root (r # rs) = roots_from (Suc i) (next_root i root r) rs"

definition root_of :: "'r list \<Rightarrow> string" where
  "root_of rs = roots_from 0 [] rs"

fun texts_from :: "nat \<Rightarrow> string \<Rightarrow> 'r list \<Rightarrow> string list" where
  "texts_from i root [] = []"
| "texts_from i root (r # rs) =
     step_text i r # link_text i root (digest_hex (step_text i r)) # texts_from (Suc i) (next_root i root r) rs"

definition texts_of :: "'r list \<Rightarrow> string list" where
  "texts_of rs = texts_from 0 [] rs"

lemma roots_from_snoc:
  "roots_from i root (rs @ [r]) = next_root (i + length rs) (roots_from i root rs) r"
  by (induction rs arbitrary: i root) auto

lemma texts_from_snoc:
  "set (texts_from i root (rs @ [r])) = set (texts_from i root rs) \<union> {step_text (i + length rs) r,
     link_text (i + length rs) (roots_from i root rs) (digest_hex (step_text (i + length rs) r))}"
  by (induction rs arbitrary: i root) auto

lemma root_of_snoc [simp]: "root_of (rs @ [r]) = next_root (length rs) (root_of rs) r"
  by (simp add: root_of_def roots_from_snoc)

lemma root_of_Nil [simp]: "root_of [] = []"
  by (simp add: root_of_def)

lemma texts_of_snoc: "set (texts_of (rs @ [r])) = set (texts_of rs) \<union> {step_text (length rs) r,
     link_text (length rs) (root_of rs) (digest_hex (step_text (length rs) r))}"
  by (simp add: texts_of_def root_of_def texts_from_snoc)

lemma valid_root [simp]: "valid_utf8 (root_of rs)"
  by (cases rs rule: rev_cases) (simp_all add: next_root_def)

lemma root_binds:
  "list_all admissible rs \<Longrightarrow> list_all admissible ss \<Longrightarrow> root_of rs = root_of ss \<Longrightarrow>
   map content rs = map content ss \<or> (\<exists>x \<in> set (texts_of rs). \<exists>y \<in> set (texts_of ss). sha_collision x y)"
proof (induction rs arbitrary: ss rule: rev_induct)
  case Nil
  then show ?case by (cases ss rule: rev_cases) (auto simp: next_root_def)
next
  case (snoc r rs)
  then obtain s ss' where ss: "ss = ss' @ [s]"
    by (cases ss rule: rev_cases) (auto simp: next_root_def)
  let ?x = "link_text (length rs) (root_of rs) (digest_hex (step_text (length rs) r))"
  let ?y = "link_text (length ss') (root_of ss') (digest_hex (step_text (length ss') s))"
  have "?x = ?y \<or> sha_collision ?x ?y"
    using snoc.prems(3) digest_hex_binds [of ?x ?y] by (simp add: ss next_root_def)
  then show ?case
  proof
    assume "?x = ?y"
    then have eqs: "length rs = length ss' \<and> root_of rs = root_of ss'
        \<and> digest_hex (step_text (length rs) r) = digest_hex (step_text (length ss') s)"
      using link_text_inj [OF valid_root valid_root valid_utf8_digest valid_utf8_digest, THEN iffD1] by blast
    then have len: "length rs = length ss'" and root: "root_of rs = root_of ss'"
      and "digest_hex (step_text (length rs) r) = digest_hex (step_text (length ss') s)"
      by blast+
    then consider "content r = content s" | "sha_collision (step_text (length rs) r) (step_text (length ss') s)"
      using digest_hex_binds [of "step_text (length rs) r" "step_text (length ss') s"] step_text_inj [of r s]
        snoc.prems ss by auto
    then show ?thesis
      using snoc.IH [of ss'] snoc.prems root by cases (auto simp: ss texts_of_snoc)
  qed (auto simp: ss texts_of_snoc)
qed

end

section \<open>The transcript\<close>

record HandTranscriptRecord =
  hr_Index :: int
  hr_Kind :: string
  hr_Phase :: string
  hr_PlayerID :: string
  hr_SeatIndex :: "int option"
  hr_CommitmentHash :: string
  hr_ShuffleSeedHex :: string
  hr_LockPublicExponentHex :: string
  hr_DeckStage :: "string list"
  hr_DeckStageRoot :: string
  hr_RecipientSeatIndex :: "int option"
  hr_CardPositions :: "int list"
  hr_PartialCiphertexts :: "string list"
  hr_Cards :: "CardCode list"
  hr_Reason :: string
  hr_StepHash :: string
  hr_RootHash :: string

record HandTranscript =
  ht_HandID :: string
  ht_HandNumber :: int
  ht_Records :: "HandTranscriptRecord list"
  ht_RootHash :: string
  ht_TableID :: string

text \<open>Copies share nothing with the original; as values they are equal.\<close>

definition copySeatPointer :: "int option \<Rightarrow> int option" where
  "copySeatPointer value1 = (case value1 of None \<Rightarrow> None | Some clone \<Rightarrow> Some clone)"

definition cloneTranscriptRecord :: "HandTranscriptRecord \<Rightarrow> HandTranscriptRecord" where
  "cloneTranscriptRecord r = r\<lparr>hr_SeatIndex := copySeatPointer (hr_SeatIndex r),
     hr_RecipientSeatIndex := copySeatPointer (hr_RecipientSeatIndex r)\<rparr>"

text \<open>A \<open>map[string]any\<close> literal; \<open>None\<close> is a key that is not set.\<close>

definition any_map :: "(string \<times> goval option) list \<Rightarrow> goval" where
  "any_map fs = VMap (Some (map (\<lambda>(k, v). (KString k, v)) (present fs)))"

definition set_string :: "string \<Rightarrow> goval option" where
  "set_string s = (if s \<noteq> [] then Some (VString s) else None)"

definition set_list :: "('a \<Rightarrow> goval) \<Rightarrow> 'a list \<Rightarrow> goval option" where
  "set_list f xs = (if xs \<noteq> [] then Some (VSlice (Some (map f xs))) else None)"

definition transcriptUnsignedRecord :: "string \<Rightarrow> string \<Rightarrow> int \<Rightarrow> HandTranscriptRecord \<Rightarrow> goval" where
  "transcriptUnsignedRecord tableID handID handNumber r =
     any_map
      [(''handId'', Some (VString handID)),
       (''handNumber'', Some (VInt handNumber)),
       (''index'', Some (VInt (hr_Index r))),
       (''kind'', Some (VString (hr_Kind r))),
       (''phase'', Some (VString (hr_Phase r))),
       (''tableId'', Some (VString tableID)),
       (''type'', Some (VString ''dealerless-hand-transcript-record'')),
       (''playerId'', set_string (hr_PlayerID r)),
       (''seatIndex'', map_option VInt (hr_SeatIndex r)),
       (''commitmentHash'', set_string (hr_CommitmentHash r)),
       (''shuffleSeedHex'', set_string (hr_ShuffleSeedHex r)),
       (''lockPublicExponentHex'', set_string (hr_LockPublicExponentHex r)),
       (''deckStage'', set_list VString (hr_DeckStage r)),
       (''deckStageRoot'', set_string (hr_DeckStageRoot r)),
       (''recipientSeatIndex'', map_option VInt (hr_RecipientSeatIndex r)),
       (''cardPositions'', set_list VInt (hr_CardPositions r)),
       (''partialCiphertexts'', set_list VString (hr_PartialCiphertexts r)),
       (''cards'', set_list VString (hr_Cards r)),
       (''reason'', set_string (hr_Reason r))]"

definition root_payload :: "string \<Rightarrow> string \<Rightarrow> int \<Rightarrow> int \<Rightarrow> string \<Rightarrow> string \<Rightarrow> goval" where
  "root_payload tableID handID handNumber index prevRoot stepHash =
     any_map
      [(''handId'', Some (VString handID)),
       (''handNumber'', Some (VInt handNumber)),
       (''index'', Some (VInt index)),
       (''prevRoot'', Some (VString prevRoot)),
       (''stepHash'', Some (VString stepHash)),
       (''tableId'', Some (VString tableID)),
       (''type'', Some (VString ''dealerless-hand-transcript-root''))]"

definition AppendTranscriptRecord ::
    "HandTranscript \<Rightarrow> HandTranscriptRecord \<Rightarrow> (HandTranscript \<times> HandTranscriptRecord) res" where
  "AppendTranscriptRecord transcript record0 =
     (let record1 = record0\<lparr>hr_Index := int (length (ht_Records transcript))\<rparr>;
          unsigned = transcriptUnsignedRecord (ht_TableID transcript) (ht_HandID transcript)
            (ht_HandNumber transcript) record1 in
      case HashStructuredDataHex unsigned of
        Inl e \<Rightarrow> Inl e
      | Inr stepHash \<Rightarrow>
         (case HashStructuredDataHex (root_payload (ht_TableID transcript) (ht_HandID transcript)
              (ht_HandNumber transcript) (hr_Index record1) (ht_RootHash transcript) stepHash) of
            Inl e \<Rightarrow> Inl e
          | Inr rootHash \<Rightarrow>
             (let record2 = record1\<lparr>hr_StepHash := stepHash, hr_RootHash := rootHash\<rparr>
              in Inr (transcript\<lparr>ht_Records := ht_Records transcript @ [cloneTranscriptRecord record2],
                        ht_RootHash := rootHash\<rparr>, record2))))"

fun replay_records :: "HandTranscript \<Rightarrow> nat \<Rightarrow> string \<Rightarrow> HandTranscriptRecord list \<Rightarrow> string res" where
  "replay_records transcript index root [] = Inr root"
| "replay_records transcript index root (r # rest) =
     (let clone = (cloneTranscriptRecord r)\<lparr>hr_StepHash := [], hr_RootHash := [], hr_Index := int index\<rparr>;
          unsigned = transcriptUnsignedRecord (ht_TableID transcript) (ht_HandID transcript)
            (ht_HandNumber transcript) clone in
      case HashStructuredDataHex unsigned of
        Inl e \<Rightarrow> Inl e
      | Inr stepHash \<Rightarrow>
         if hr_StepHash r \<noteq> [] \<and> hr_StepHash r \<noteq> stepHash
         then Inl (Err ''transcript step hash mismatch at index %d'')
         else case HashStructuredDataHex (root_payload (ht_TableID transcript) (ht_HandID transcript)
              (ht_HandNumber transcript) (int index) root stepHash) of
            Inl e \<Rightarrow> Inl e
          | Inr nextRoot \<Rightarrow>
             if hr_RootHash r \<noteq> [] \<and> hr_RootHash r \<noteq> nextRoot
             then Inl (Err ''transcript root mismatch at index %d'')
             else replay_records transcript (Suc index) nextRoot rest)"

definition ReplayTranscriptRoot :: "HandTranscript \<Rightarrow> string res" where
  "ReplayTranscriptRoot transcript = replay_records transcript 0 [] (ht_Records transcript)"

section \<open>The canonical text of a map literal\<close>

definition member_values :: "(string \<times> goval option) list \<Rightarrow> (string \<times> json) list" where
  "member_values fs = map (\<lambda>(k, v). (k, canonicalizeValue v)) (present fs)"

lemma canonical_any_map:
  assumes "distinct (map fst fs)"
  shows "canonicalizeValue (any_map fs) = JObj (slice_stable (\<lambda>a b. fst a < fst b) (member_values fs))"
proof -
  let ?es = "map (\<lambda>(k, v). (KString k, v)) (present fs)"
  let ?mem = "\<lambda>(k, v). (keyToString k, canonicalizeValue v)"
  have "map ?mem (slice_stable (\<lambda>a b. keyToString (fst a) < keyToString (fst b)) ?es)
      = slice_stable (\<lambda>a b. fst a < fst b) (map ?mem ?es)"
  proof -
    have "map f (insert_by (\<lambda>a b. keyToString (fst a) < keyToString (fst b)) x ys)
        = insert_by (\<lambda>a b. fst a < fst b) (f x) (map f ys)"
      if "\<And>z. fst (f z) = keyToString (fst z)" for f :: "gokey \<times> goval \<Rightarrow> string \<times> json" and x ys
      by (induction ys) (auto simp: that)
    then have "map f (slice_stable (\<lambda>a b. keyToString (fst a) < keyToString (fst b)) ys)
        = slice_stable (\<lambda>a b. fst a < fst b) (map f ys)"
      if "\<And>z. fst (f z) = keyToString (fst z)" for f :: "gokey \<times> goval \<Rightarrow> string \<times> json" and ys
      using that by (induction ys) auto
    then show ?thesis by (simp add: split_beta)
  qed
  moreover have "map ?mem ?es = member_values fs"
    by (simp add: member_values_def comp_def split_beta)
  moreover have "distinct (map fst (member_values fs))"
    using present_distinct [OF assms] by (simp add: member_values_def comp_def split_beta)
  then have "distinct (map fst (slice_stable (\<lambda>a b. fst a < fst b) (member_values fs)))"
    by (metis distinct_map distinct_slice_stable set_slice_stable)
  ultimately show ?thesis
    using strict_weak.slice_idem [OF strict_weak_key [of "fst :: string \<times> json \<Rightarrow> string"]]
    by (simp add: any_map_def object_of_distinct)
qed

lemma canonical_any_map_inj:
  assumes "map fst fs = map fst gs" "distinct (map fst fs)"
  shows "canonicalizeValue (any_map fs) = canonicalizeValue (any_map gs)
    \<longleftrightarrow> map (\<lambda>(k, v). (k, map_option canonicalizeValue v)) fs
       = map (\<lambda>(k, v). (k, map_option canonicalizeValue v)) gs" (is "?eq \<longleftrightarrow> ?fs = ?gs")
proof -
  have members: "member_values hs = present (map (\<lambda>(k, v). (k, map_option canonicalizeValue v)) hs)" for hs
    by (induction hs) (auto simp: member_values_def present_def split: option.splits)
  have keys: "map fst ?fs = map fst ?gs" "distinct (map fst ?fs)"
    using assms by (simp_all add: comp_def split_beta)
  have dist: "distinct (map fst gs)" using assms by simp
  show ?thesis
  proof
    assume ?eq
    then have "set (member_values fs) = set (member_values gs)"
      using canonical_any_map [OF assms(2)] canonical_any_map [OF dist] by (metis json.inject(5) set_slice_stable)
    then show "?fs = ?gs" unfolding members by (rule present_set_inj [OF keys])
  next
    assume "?fs = ?gs"
    then have "member_values fs = member_values gs" by (simp add: members)
    then show ?eq using canonical_any_map [OF assms(2)] canonical_any_map [OF dist] by simp
  qed
qed

lemma canonical_set [simp]:
  "map_option canonicalizeValue (set_string s) = str_omit s"
  "map_option canonicalizeValue (set_list f xs) = list_omit (canonicalizeValue \<circ> f) xs"
  by (simp_all add: set_string_def str_omit_def set_list_def list_omit_def)

lemma wf_any_map:
  assumes "distinct (map fst fs)" "list_all (\<lambda>(k, v). valid_utf8 k \<and> pred_option (wf_json \<circ> canonicalizeValue) v) fs"
  shows "wf_json (canonicalizeValue (any_map fs))"
  using assms(2) unfolding canonical_any_map [OF assms(1)]
  by (fastforce simp: list_all_iff member_values_def present_members)

lemma numbers_any_map:
  assumes "distinct (map fst fs)" "list_all (\<lambda>(k, v). pred_option (numbers_ok \<circ> canonicalizeValue) v) fs"
  shows "StableStringify (any_map fs) = Inr (json_text (canonicalizeValue (any_map fs)))"
proof -
  have "numbers_ok (canonicalizeValue (any_map fs))"
    using assms(2) unfolding canonical_any_map [OF assms(1)]
    by (fastforce simp: list_all_iff member_values_def present_members)
  then show ?thesis by (simp add: StableStringify_def CanonicalizeStructuredData_def)
qed

section \<open>The transcript is a hash chain\<close>

definition step_value :: "string \<Rightarrow> string \<Rightarrow> int \<Rightarrow> nat \<Rightarrow> HandTranscriptRecord \<Rightarrow> goval" where
  "step_value tableID handID handNumber i r = transcriptUnsignedRecord tableID handID handNumber (r\<lparr>hr_Index := int i\<rparr>)"

definition step_json_text :: "string \<Rightarrow> string \<Rightarrow> int \<Rightarrow> nat \<Rightarrow> HandTranscriptRecord \<Rightarrow> string" where
  "step_json_text tableID handID handNumber i r = json_text (canonicalizeValue (step_value tableID handID handNumber i r))"

definition link_json_text :: "string \<Rightarrow> string \<Rightarrow> int \<Rightarrow> nat \<Rightarrow> string \<Rightarrow> string \<Rightarrow> string" where
  "link_json_text tableID handID handNumber i prevRoot stepHash =
     json_text (canonicalizeValue (root_payload tableID handID handNumber (int i) prevRoot stepHash))"

text \<open>What a record says: everything but its position and its hashes.\<close>

definition record_content :: "HandTranscriptRecord \<Rightarrow> HandTranscriptRecord" where
  "record_content r = r\<lparr>hr_Index := 0, hr_StepHash := [], hr_RootHash := []\<rparr>"

definition record_text_ok :: "HandTranscriptRecord \<Rightarrow> bool" where
  "record_text_ok r \<longleftrightarrow> list_all valid_utf8
     ([hr_Kind r, hr_Phase r, hr_PlayerID r, hr_CommitmentHash r, hr_ShuffleSeedHex r, hr_LockPublicExponentHex r,
       hr_DeckStageRoot r, hr_Reason r] @ hr_DeckStage r @ hr_PartialCiphertexts r @ hr_Cards r)"

lemma keys_valid:
  "list_all valid_utf8 [''handId'', ''handNumber'', ''index'', ''kind'', ''phase'', ''tableId'', ''type'', ''playerId'',
     ''seatIndex'', ''commitmentHash'', ''shuffleSeedHex'', ''lockPublicExponentHex'', ''deckStage'', ''deckStageRoot'',
     ''recipientSeatIndex'', ''cardPositions'', ''partialCiphertexts'', ''cards'', ''reason'', ''prevRoot'', ''stepHash'',
     ''dealerless-hand-transcript-record'', ''dealerless-hand-transcript-root'']"
  by code_simp

definition record_fields :: "string \<Rightarrow> string \<Rightarrow> int \<Rightarrow> nat \<Rightarrow> HandTranscriptRecord \<Rightarrow> json_field list" where
  "record_fields tableID handID handNumber i r =
     [(''handId'', Some (JStr handID)), (''handNumber'', Some (JInt handNumber)), (''index'', Some (JInt (int i))),
      (''kind'', Some (JStr (hr_Kind r))), (''phase'', Some (JStr (hr_Phase r))), (''tableId'', Some (JStr tableID)),
      (''type'', Some (JStr ''dealerless-hand-transcript-record'')), (''playerId'', str_omit (hr_PlayerID r)),
      (''seatIndex'', map_option JInt (hr_SeatIndex r)), (''commitmentHash'', str_omit (hr_CommitmentHash r)),
      (''shuffleSeedHex'', str_omit (hr_ShuffleSeedHex r)),
      (''lockPublicExponentHex'', str_omit (hr_LockPublicExponentHex r)),
      (''deckStage'', list_omit JStr (hr_DeckStage r)), (''deckStageRoot'', str_omit (hr_DeckStageRoot r)),
      (''recipientSeatIndex'', map_option JInt (hr_RecipientSeatIndex r)),
      (''cardPositions'', list_omit JInt (hr_CardPositions r)),
      (''partialCiphertexts'', list_omit JStr (hr_PartialCiphertexts r)), (''cards'', list_omit JStr (hr_Cards r)),
      (''reason'', str_omit (hr_Reason r))]"

text \<open>A map literal by the canonical values of its fields.\<close>

lemma canonical_by_fields:
  assumes "map (\<lambda>(k, v). (k, map_option canonicalizeValue v)) fs = js" "distinct (map fst js)"
  shows "canonicalizeValue (any_map fs) = JObj (slice_stable (\<lambda>a b. fst a < fst b) (present js))"
proof -
  have "distinct (map fst fs)" using assms by (auto simp: comp_def split_beta)
  moreover have "member_values hs = present (map (\<lambda>(k, v). (k, map_option canonicalizeValue v)) hs)" for hs
    by (induction hs) (auto simp: member_values_def present_def split: option.splits)
  ultimately show ?thesis using canonical_any_map [of fs] assms(1) by simp
qed

lemma canonical_fields_inj:
  assumes "map fst js = map fst ks" "distinct (map fst js)"
  shows "JObj (slice_stable (\<lambda>a b. fst a < fst b) (present js)) = JObj (slice_stable (\<lambda>a b. fst a < fst b) (present ks))
    \<longleftrightarrow> js = ks"
  using present_set_inj [OF assms] set_slice_stable by (metis json.inject(5))

lemma record_keys: "map fst (record_fields tableID handID handNumber i r) = map fst (record_fields tableID handID handNumber i s)"
  "distinct (map fst (record_fields tableID handID handNumber i r))"
  by (simp_all add: record_fields_def)

lemma canonical_step:
  "canonicalizeValue (step_value tableID handID handNumber i r)
     = JObj (slice_stable (\<lambda>a b. fst a < fst b) (present (record_fields tableID handID handNumber i r)))"
  unfolding step_value_def transcriptUnsignedRecord_def
proof (rule canonical_by_fields [OF _ record_keys(2)])
  have int_list: "canonicalizeValue \<circ> VInt = JInt" and str_list: "canonicalizeValue \<circ> VString = JStr" by auto
  show "map (\<lambda>(k, v). (k, map_option canonicalizeValue v))
     [(''handId'', Some (VString handID)), (''handNumber'', Some (VInt handNumber)),
      (''index'', Some (VInt (hr_Index (r\<lparr>hr_Index := int i\<rparr>)))),
      (''kind'', Some (VString (hr_Kind (r\<lparr>hr_Index := int i\<rparr>)))),
      (''phase'', Some (VString (hr_Phase (r\<lparr>hr_Index := int i\<rparr>)))), (''tableId'', Some (VString tableID)),
      (''type'', Some (VString ''dealerless-hand-transcript-record'')),
      (''playerId'', set_string (hr_PlayerID (r\<lparr>hr_Index := int i\<rparr>))),
      (''seatIndex'', map_option VInt (hr_SeatIndex (r\<lparr>hr_Index := int i\<rparr>))),
      (''commitmentHash'', set_string (hr_CommitmentHash (r\<lparr>hr_Index := int i\<rparr>))),
      (''shuffleSeedHex'', set_string (hr_ShuffleSeedHex (r\<lparr>hr_Index := int i\<rparr>))),
      (''lockPublicExponentHex'', set_string (hr_LockPublicExponentHex (r\<lparr>hr_Index := int i\<rparr>))),
      (''deckStage'', set_list VString (hr_DeckStage (r\<lparr>hr_Index := int i\<rparr>))),
      (''deckStageRoot'', set_string (hr_DeckStageRoot (r\<lparr>hr_Index := int i\<rparr>))),
      (''recipientSeatIndex'', map_option VInt (hr_RecipientSeatIndex (r\<lparr>hr_Index := int i\<rparr>))),
      (''cardPositions'', set_list VInt (hr_CardPositions (r\<lparr>hr_Index := int i\<rparr>))),
      (''partialCiphertexts'', set_list VString (hr_PartialCiphertexts (r\<lparr>hr_Index := int i\<rparr>))),
      (''cards'', set_list VString (hr_Cards (r\<lparr>hr_Index := int i\<rparr>))),
      (''reason'', set_string (hr_Reason (r\<lparr>hr_Index := int i\<rparr>)))]
    = record_fields tableID handID handNumber i r"
    by (simp add: record_fields_def int_list str_list option.map_comp)
qed

lemma wf_fields: "list_all wf_field js \<Longrightarrow> wf_json (JObj (slice_stable (\<lambda>a b. fst a < fst b) (present js)))"
  by (fastforce simp: list_all_iff present_members wf_field_def)

lemma wf_step:
  assumes "valid_utf8 tableID" "valid_utf8 handID" "record_text_ok r"
  shows "wf_json (canonicalizeValue (step_value tableID handID handNumber i r))"
  unfolding canonical_step
  using assms keys_valid
  by (intro wf_fields) (simp add: record_fields_def wf_field_def record_text_ok_def option.pred_map option.pred_True
      comp_def list_all_iff)

lemma wf_link:
  "valid_utf8 tableID \<Longrightarrow> valid_utf8 handID \<Longrightarrow> valid_utf8 p \<Longrightarrow> valid_utf8 h \<Longrightarrow>
   wf_json (canonicalizeValue (root_payload tableID handID handNumber i p h))"
  unfolding root_payload_def using keys_valid by (intro wf_any_map) auto

lemma record_content_iff:
  "record_content r = record_content s \<longleftrightarrow>
     hr_Kind r = hr_Kind s \<and> hr_Phase r = hr_Phase s \<and> hr_PlayerID r = hr_PlayerID s \<and> hr_SeatIndex r = hr_SeatIndex s
     \<and> hr_CommitmentHash r = hr_CommitmentHash s \<and> hr_ShuffleSeedHex r = hr_ShuffleSeedHex s
     \<and> hr_LockPublicExponentHex r = hr_LockPublicExponentHex s \<and> hr_DeckStage r = hr_DeckStage s
     \<and> hr_DeckStageRoot r = hr_DeckStageRoot s \<and> hr_RecipientSeatIndex r = hr_RecipientSeatIndex s
     \<and> hr_CardPositions r = hr_CardPositions s \<and> hr_PartialCiphertexts r = hr_PartialCiphertexts s
     \<and> hr_Cards r = hr_Cards s \<and> hr_Reason r = hr_Reason s"
  by (cases r; cases s) (simp add: record_content_def)

lemma step_value_inj:
  "canonicalizeValue (step_value tableID handID handNumber i r) = canonicalizeValue (step_value tableID handID handNumber i s)
     \<longleftrightarrow> record_content r = record_content s"
proof -
  have "inj JStr" "inj JInt" by (auto intro: injI)
  then show ?thesis
    unfolding canonical_step canonical_fields_inj [OF record_keys]
    by (simp add: record_fields_def record_content_iff list_omit_inj map_option_inj inj_on_subset)
qed

lemma link_value_inj:
  "canonicalizeValue (root_payload tableID handID handNumber (int i) p h)
     = canonicalizeValue (root_payload tableID handID handNumber (int j) p' h')
     \<longleftrightarrow> i = j \<and> p = p' \<and> h = h'"
  unfolding root_payload_def by (subst canonical_any_map_inj) auto

text \<open>The chain for one table and hand; ids that are not valid UTF-8 are not considered.\<close>

definition utf8_or_empty :: "string \<Rightarrow> string" where
  "utf8_or_empty s = (if valid_utf8 s then s else [])"

lemma utf8_or_empty [simp]: "valid_utf8 (utf8_or_empty s)" "valid_utf8 s \<Longrightarrow> utf8_or_empty s = s"
  by (simp_all add: utf8_or_empty_def)

interpretation transcript_chain:
  hash_chain "step_json_text (utf8_or_empty tableID) (utf8_or_empty handID) handNumber"
    "link_json_text (utf8_or_empty tableID) (utf8_or_empty handID) handNumber" record_content record_text_ok
  for tableID handID :: string and handNumber :: int
  by unfold_locales
    (simp_all add: step_json_text_def link_json_text_def json_text_inj wf_step wf_link step_value_inj link_value_inj)

section \<open>Appending and replaying\<close>

lemma numbers_fields:
  "list_all (\<lambda>(k, v). pred_option numbers_ok v) js
     \<Longrightarrow> numbers_ok (JObj (slice_stable (\<lambda>a b. fst a < fst b) (present js)))"
  by (fastforce simp: list_all_iff present_members)

lemma numbers_list [simp]:
  "pred_option numbers_ok (list_omit JStr xs)" "pred_option numbers_ok (list_omit JInt is1)"
  "pred_option numbers_ok (str_omit s)"
  by (auto simp: list_omit_def str_omit_def list_all_iff)

lemma hash_step:
  "HashStructuredDataHex (transcriptUnsignedRecord tableID handID handNumber (r\<lparr>hr_Index := int i\<rparr>))
     = Inr (digest_hex (step_json_text tableID handID handNumber i r))"
proof -
  have "numbers_ok (canonicalizeValue (step_value tableID handID handNumber i r))"
    unfolding canonical_step
    by (intro numbers_fields) (simp add: record_fields_def option.pred_map option.pred_True comp_def)
  then show ?thesis
    by (simp add: HashStructuredDataHex_def StableStringify_def CanonicalizeStructuredData_def step_json_text_def
        step_value_def digest_hex_def)
qed

lemma hash_link:
  "HashStructuredDataHex (root_payload tableID handID handNumber (int i) p h)
     = Inr (digest_hex (link_json_text tableID handID handNumber i p h))"
proof -
  have "StableStringify (root_payload tableID handID handNumber (int i) p h)
      = Inr (json_text (canonicalizeValue (root_payload tableID handID handNumber (int i) p h)))"
    unfolding root_payload_def by (intro numbers_any_map) simp_all
  then show ?thesis by (simp add: HashStructuredDataHex_def link_json_text_def digest_hex_def)
qed

lemma clone_same [simp]: "cloneTranscriptRecord r = r"
  by (cases r) (simp add: cloneTranscriptRecord_def copySeatPointer_def split: option.split)

lemma unsigned_ignores_hashes:
  "transcriptUnsignedRecord tableID handID handNumber (r\<lparr>hr_StepHash := x, hr_RootHash := y, hr_Index := i\<rparr>)
     = transcriptUnsignedRecord tableID handID handNumber (r\<lparr>hr_Index := i\<rparr>)"
  by (simp add: transcriptUnsignedRecord_def)

abbreviation step_digest :: "HandTranscript \<Rightarrow> nat \<Rightarrow> HandTranscriptRecord \<Rightarrow> string" where
  "step_digest t i r \<equiv> digest_hex (step_json_text (ht_TableID t) (ht_HandID t) (ht_HandNumber t) i r)"

abbreviation link_digest :: "HandTranscript \<Rightarrow> nat \<Rightarrow> string \<Rightarrow> HandTranscriptRecord \<Rightarrow> string" where
  "link_digest t i root r \<equiv>
     digest_hex (link_json_text (ht_TableID t) (ht_HandID t) (ht_HandNumber t) i root (step_digest t i r))"

lemma replay_step:
  "replay_records t i root (r # rs) =
     (if hr_StepHash r \<noteq> [] \<and> hr_StepHash r \<noteq> step_digest t i r
      then Inl (Err ''transcript step hash mismatch at index %d'')
      else if hr_RootHash r \<noteq> [] \<and> hr_RootHash r \<noteq> link_digest t i root r
      then Inl (Err ''transcript root mismatch at index %d'')
      else replay_records t (Suc i) (link_digest t i root r) rs)"
  by (simp add: Let_def unsigned_ignores_hashes hash_step hash_link)

declare replay_records.simps(2) [simp del]

lemma replay_append:
  "replay_records t i root (rs @ ss) =
     (case replay_records t i root rs of Inl e \<Rightarrow> Inl e | Inr root' \<Rightarrow> replay_records t (i + length rs) root' ss)"
  by (induction rs arbitrary: i root) (auto simp: replay_step split: sum.splits)

lemma replay_header:
  "ht_TableID t = ht_TableID u \<Longrightarrow> ht_HandID t = ht_HandID u \<Longrightarrow> ht_HandNumber t = ht_HandNumber u \<Longrightarrow>
   replay_records t i root rs = replay_records u i root rs"
  by (induction rs arbitrary: i root) (simp_all add: replay_step)

lemma append_record:
  "AppendTranscriptRecord t r =
     (let i = length (ht_Records t);
          sealed = r\<lparr>hr_Index := int i, hr_StepHash := step_digest t i r, hr_RootHash := link_digest t i (ht_RootHash t) r\<rparr>
      in Inr (t\<lparr>ht_Records := ht_Records t @ [sealed], ht_RootHash := link_digest t i (ht_RootHash t) r\<rparr>, sealed))"
  by (simp add: AppendTranscriptRecord_def Let_def hash_step hash_link)

lemma digest_ignores_position:
  "step_json_text tableID handID handNumber i (r\<lparr>hr_Index := k, hr_StepHash := x, hr_RootHash := y\<rparr>)
     = step_json_text tableID handID handNumber i r"
  by (cases r) (simp add: step_json_text_def step_value_def transcriptUnsignedRecord_def)

lemma append_keeps_replay:
  assumes "ReplayTranscriptRoot t = Inr (ht_RootHash t)" "AppendTranscriptRecord t r = Inr (t', sealed)"
  shows "ReplayTranscriptRoot t' = Inr (ht_RootHash t')"
proof -
  let ?i = "length (ht_Records t)" and ?root = "link_digest t (length (ht_Records t)) (ht_RootHash t) r"
  have t': "ht_Records t' = ht_Records t @ [sealed]" "ht_RootHash t' = ?root"
    "sealed = r\<lparr>hr_Index := int ?i, hr_StepHash := step_digest t ?i r, hr_RootHash := ?root\<rparr>"
    and header: "ht_TableID t' = ht_TableID t" "ht_HandID t' = ht_HandID t" "ht_HandNumber t' = ht_HandNumber t"
    using assms(2) by (auto simp: append_record Let_def)
  have "replay_records t' 0 [] (ht_Records t) = Inr (ht_RootHash t)"
    using assms(1) replay_header [OF header, of 0 "[]"] by (simp add: ReplayTranscriptRoot_def)
  then show ?thesis
    by (simp add: ReplayTranscriptRoot_def t' replay_append replay_step header digest_ignores_position)
qed

fun append_all :: "HandTranscript \<Rightarrow> HandTranscriptRecord list \<Rightarrow> HandTranscript res" where
  "append_all t [] = Inr t"
| "append_all t (r # rs) = (case AppendTranscriptRecord t r of Inl e \<Rightarrow> Inl e | Inr (t', _) \<Rightarrow> append_all t' rs)"

definition new_transcript :: "string \<Rightarrow> string \<Rightarrow> int \<Rightarrow> HandTranscript" where
  "new_transcript tableID handID handNumber =
     \<lparr>ht_HandID = handID, ht_HandNumber = handNumber, ht_Records = [], ht_RootHash = [], ht_TableID = tableID\<rparr>"

lemma append_all_replays:
  "ReplayTranscriptRoot t = Inr (ht_RootHash t) \<Longrightarrow>
   \<exists>t'. append_all t rs = Inr t' \<and> ReplayTranscriptRoot t' = Inr (ht_RootHash t')
     \<and> map record_content (ht_Records t') = map record_content (ht_Records t @ rs)"
proof (induction rs arbitrary: t)
  case (Cons r rs)
  obtain t' sealed where t': "AppendTranscriptRecord t r = Inr (t', sealed)"
    by (simp add: append_record Let_def)
  then have "map record_content (ht_Records t') = map record_content (ht_Records t) @ [record_content r]"
    by (auto simp: append_record Let_def record_content_def)
  with Cons.IH [OF append_keeps_replay [OF Cons.prems t']] t' show ?case by auto
qed simp

text \<open>A transcript grown by appending replays to its own root. Starting from an empty transcript,
  appending any records succeeds, leaves the records' contents as they were given, in order, and
  \<open>ReplayTranscriptRoot\<close> recomputes every step hash and root and returns the stored root.\<close>

theorem appended_transcript_replays:
  "\<exists>t. append_all (new_transcript tableID handID handNumber) rs = Inr t
     \<and> ReplayTranscriptRoot t = Inr (ht_RootHash t)
     \<and> map record_content (ht_Records t) = map record_content rs"
  using append_all_replays [of "new_transcript tableID handID handNumber" rs]
  by (simp add: new_transcript_def ReplayTranscriptRoot_def)

section \<open>The root binds the records\<close>

definition transcript_texts :: "HandTranscript \<Rightarrow> string list" where
  "transcript_texts t = hash_chain.texts_of (step_json_text (ht_TableID t) (ht_HandID t) (ht_HandNumber t))
     (link_json_text (ht_TableID t) (ht_HandID t) (ht_HandNumber t)) (ht_Records t)"

definition transcript_text_ok :: "HandTranscript \<Rightarrow> bool" where
  "transcript_text_ok t \<longleftrightarrow> valid_utf8 (ht_TableID t) \<and> valid_utf8 (ht_HandID t) \<and> list_all record_text_ok (ht_Records t)"

lemma replay_is_chain_root:
  assumes "transcript_text_ok t"
  shows "replay_records t i root rs = Inr root' \<Longrightarrow>
    root' = transcript_chain.roots_from (ht_TableID t) (ht_HandID t) (ht_HandNumber t) i root rs"
proof -
  have ids: "utf8_or_empty (ht_TableID t) = ht_TableID t" "utf8_or_empty (ht_HandID t) = ht_HandID t"
    using assms by (simp_all add: transcript_text_ok_def)
  note chain = transcript_chain.roots_from.simps [of "ht_TableID t" "ht_HandID t" "ht_HandNumber t", unfolded ids]
    transcript_chain.next_root_def [of "ht_TableID t" "ht_HandID t" "ht_HandNumber t", unfolded ids]
  show "replay_records t i root rs = Inr root' \<Longrightarrow>
    root' = transcript_chain.roots_from (ht_TableID t) (ht_HandID t) (ht_HandNumber t) i root rs"
    by (induction rs arbitrary: i root) (auto simp: ids chain replay_step split: if_splits)
qed

text \<open>A transcript root binds every record. If two transcripts of the same table and hand, with valid
  UTF-8 texts, both replay and to the same root, then they have the same number of records and
  every record says the same, or two of the texts that were hashed on the way are a collision of
  SHA-256.\<close>

theorem transcript_root_binds_records:
  assumes "ReplayTranscriptRoot t = Inr root" and "ReplayTranscriptRoot u = Inr root"
    and "ht_TableID t = ht_TableID u" and "ht_HandID t = ht_HandID u" and "ht_HandNumber t = ht_HandNumber u"
    and "transcript_text_ok t" and "transcript_text_ok u"
  shows "map record_content (ht_Records t) = map record_content (ht_Records u)
    \<or> (\<exists>x \<in> set (transcript_texts t). \<exists>y \<in> set (transcript_texts u). sha_collision x y)"
proof -
  have roots: "transcript_chain.root_of (ht_TableID t) (ht_HandID t) (ht_HandNumber t) (ht_Records t)
      = transcript_chain.root_of (ht_TableID t) (ht_HandID t) (ht_HandNumber t) (ht_Records u)"
    using replay_is_chain_root [OF assms(6)] replay_is_chain_root [OF assms(7)] assms(1-5)
    by (simp add: ReplayTranscriptRoot_def transcript_chain.root_of_def)
  show ?thesis
    using transcript_chain.root_binds [OF _ _ roots] assms(3-7)
    by (simp add: transcript_text_ok_def transcript_texts_def)
qed

definition demo_record :: HandTranscriptRecord where
  "demo_record = \<lparr>hr_Index = 0, hr_Kind = ''commit'', hr_Phase = ''commitment'', hr_PlayerID = ''a'', hr_SeatIndex = Some 0,
     hr_CommitmentHash = ''c0'', hr_ShuffleSeedHex = [], hr_LockPublicExponentHex = [], hr_DeckStage = [],
     hr_DeckStageRoot = [], hr_RecipientSeatIndex = None, hr_CardPositions = [], hr_PartialCiphertexts = [],
     hr_Cards = [], hr_Reason = [], hr_StepHash = [], hr_RootHash = []\<rparr>"

theorem transcript_root_binds_records_witness:
  "\<exists>t sealed u root. AppendTranscriptRecord (new_transcript ''t'' ''h'' 1) demo_record = Inr (t, sealed)
     \<and> u = (new_transcript ''t'' ''h'' 1)\<lparr>ht_Records := [demo_record]\<rparr>
     \<and> ReplayTranscriptRoot t = Inr root \<and> ReplayTranscriptRoot u = Inr root
     \<and> (map record_content (ht_Records t) = map record_content (ht_Records u)
        \<or> (\<exists>x \<in> set (transcript_texts t). \<exists>y \<in> set (transcript_texts u). sha_collision x y))"
proof -
  define new where "new = new_transcript ''t'' ''h'' 1"
  define u where "u = new\<lparr>ht_Records := [demo_record]\<rparr>"
  have empty: "ht_Records new = []" "ht_RootHash new = []" by (simp_all add: new_def new_transcript_def)
  obtain t sealed where t: "AppendTranscriptRecord new demo_record = Inr (t, sealed)"
    by (simp add: append_record Let_def empty)
  have replay: "ReplayTranscriptRoot t = Inr (ht_RootHash t)"
    using append_keeps_replay [OF _ t] by (simp add: ReplayTranscriptRoot_def empty)
  have replay_u: "ReplayTranscriptRoot u = Inr (ht_RootHash t)"
    using t by (auto simp: append_record Let_def empty u_def ReplayTranscriptRoot_def replay_step demo_record_def)
  have "list_all valid_utf8 [''t'', ''h'', ''commit'', ''commitment'', ''a'', ''c0'', []]" by code_simp
  then have ok: "transcript_text_ok t" "transcript_text_ok u"
    using t by (auto simp: append_record Let_def empty u_def new_def new_transcript_def transcript_text_ok_def
        record_text_ok_def demo_record_def)
  have ids: "ht_TableID t = ht_TableID u" "ht_HandID t = ht_HandID u" "ht_HandNumber t = ht_HandNumber u"
    using t by (auto simp: append_record Let_def u_def)
  note binds = transcript_root_binds_records [OF replay replay_u ids ok]
  show ?thesis
    by (intro exI [of _ t] exI [of _ sealed] exI [of _ u] exI [of _ "ht_RootHash t"] conjI)
      (use t replay replay_u binds in \<open>simp_all add: new_def u_def\<close>)
qed

end
