(* ===== verification/Table_Types.thy ===== *)
theory Table_Types
  imports Holdem_Types Transcript
begin

text \<open>
  The table a daemon keeps for every game, from \<open>internal/meshruntime/native_types.go\<close>: its
  configuration, its seats, the hand in progress with the transcript of the dealing protocol, the
  custody chain, the turn menu and the requests peers send. Of the table itself the fields the
  modelled operations never touch are left out (the profile name and invite code of the
  host, the time of the last synchronisation) and the local bundle cache, which is stored apart. A field of type \<open>any\<close> is a reflected
  value.
\<close>

section \<open>Configuration, seats and public data\<close>

record NativePeerAddress =
  pa_Alias :: string
  pa_LastSeenAt :: string
  pa_PeerID :: string
  pa_PeerURL :: string
  pa_ProtocolPubkeyHex :: string
  pa_RelayPeerID :: string
  pa_Roles :: "string list"

record nativeKnownParticipant =
  kn_ProfileName :: string
  kn_Peer :: NativePeerAddress

record ActionMenuPolicy =
  mp_PotFractionBps :: "int list"

record NativeMeshTableConfig =
  tc_ActionMenuPolicy :: ActionMenuPolicy
  tc_ActionTimeoutMS :: int
  tc_BigBlindSats :: int
  tc_BuyInMaxSats :: int
  tc_BuyInMinSats :: int
  tc_CreatedAt :: string
  tc_DealerMode :: string
  tc_HandProtocolTimeoutMS :: int
  tc_HostPeerID :: string
  tc_HostPlaysAllowed :: bool
  tc_Name :: string
  tc_NetworkID :: string
  tc_NextHandDelayMS :: int
  tc_OccupiedSeats :: int
  tc_ProtocolVersion :: string
  tc_PublicSpectatorDelayHands :: int
  tc_SeatCount :: int
  tc_SmallBlindSats :: int
  tc_SpectatorsAllowed :: bool
  tc_Status :: string
  tc_TableID :: string
  tc_TurnChallengeWindowMS :: int
  tc_TurnTimeoutMode :: string
  tc_Visibility :: string

record NativeSeatedPlayer =
  se_ArkAddress :: string
  se_BuyInSats :: int
  se_FundingRefs :: "VTXORef list"
  se_Nickname :: string
  se_PeerID :: string
  se_PlayerID :: string
  se_ProtocolPubkeyHex :: string
  se_SeatIndex :: int
  se_Status :: string
  se_WalletPubkeyHex :: string

text \<open>A seat record embeds the seated player.\<close>

record nativeSeatRecord = NativeSeatedPlayer +
  se_PeerURL :: string
  se_ProfileName :: string

record NativeDealerCommitment =
  dc_CommittedAt :: string
  dc_Mode :: string
  dc_RootHash :: string

record NativePublicTableState =
  pu_ActingSeatIndex :: goval
  pu_Board :: "string list"
  pu_ChipBalances :: "(string, int) gomap"
  pu_CurrentBetSats :: int
  pu_DealerCommitment :: "NativeDealerCommitment option"
  pu_DealerSeatIndex :: goval
  pu_Epoch :: int
  pu_FoldedPlayerIDs :: "string list"
  pu_HandID :: goval
  pu_HandNumber :: int
  pu_LatestEventHash :: goval
  pu_LivePlayerIDs :: "string list"
  pu_MinRaiseToSats :: int
  pu_Phase :: goval
  pu_PotSats :: int
  pu_PreviousSnapshotHash :: goval
  pu_RoundContributions :: "(string, int) gomap"
  pu_SeatedPlayers :: "NativeSeatedPlayer list"
  pu_SnapshotID :: string
  pu_Status :: string
  pu_TableID :: string
  pu_TotalContributions :: "(string, int) gomap"
  pu_UpdatedAt :: string

record NativeTableSnapshotSignature =
  ss_SignatureHex :: string
  ss_SignedAt :: string
  ss_SignerPeerID :: string
  ss_SignerPubkeyHex :: string
  ss_SignerRole :: string

record NativeCooperativeTableSnapshot =
  sn_CreatedAt :: string
  sn_ChipBalances :: "(string, int) gomap"
  sn_DealerCommitmentRoot :: goval
  sn_Epoch :: int
  sn_FoldedPlayerIDs :: "string list"
  sn_HandID :: goval
  sn_HandNumber :: int
  sn_LatestEventHash :: goval
  sn_LivePlayerIDs :: "string list"
  sn_Phase :: goval
  sn_PotSats :: int
  sn_PreviousSnapshotHash :: goval
  sn_ProtocolVersion :: string
  sn_SeatedPlayers :: "NativeSeatedPlayer list"
  sn_SidePots :: "int list"
  sn_Signatures :: "NativeTableSnapshotSignature list"
  sn_SnapshotID :: string
  sn_TableID :: string
  sn_TurnIndex :: goval

record NativeAdvertisement =
  ad_AdExpiresAt :: string
  ad_BuyInMaxSats :: int
  ad_BuyInMinSats :: int
  ad_Currency :: string
  ad_GeographicHint :: string
  ad_HostModeCapabilities :: "string list"
  ad_HostPeerID :: string
  ad_HostPeerURL :: string
  ad_HostProtocolPubkeyHex :: string
  ad_HostSignatureHex :: string
  ad_LatencyHintMS :: int
  ad_NetworkID :: string
  ad_OccupiedSeats :: int
  ad_ProtocolVersion :: string
  ad_SeatCount :: int
  ad_SpectatorsAllowed :: bool
  ad_Stakes :: "(string, int) gomap"
  ad_TableID :: string
  ad_TableName :: string
  ad_Visibility :: string
  ad_WitnessCount :: int

record NativeSignedTableEvent =
  ev_Body :: "(string, goval) gomap option"
  ev_Epoch :: int
  ev_HandID :: goval
  ev_MessageType :: string
  ev_NetworkID :: string
  ev_PrevEventHash :: goval
  ev_ProtocolVersion :: string
  ev_Seq :: int
  ev_SenderPeerID :: string
  ev_SenderProtocolPubkeyHex :: string
  ev_SenderRole :: string
  ev_Signature :: string
  ev_TableID :: string
  ev_Timestamp :: string

section \<open>The hand in progress and the turn\<close>

record nativeHandCardState =
  hd_FinalDeck :: "string list"
  hd_PhaseDeadlineAt :: string
  hd_Transcript :: HandTranscript

record nativeActiveHand =
  ah_Cards :: nativeHandCardState
  ah_State :: HoldemState

record NativeActionMenuOption =
  mo_Action :: Action
  mo_CandidateHash :: string
  mo_OptionID :: string

record nativeActionRequest =
  aq_Action :: Action
  aq_ActionDeadlineAt :: string
  aq_ChallengeAnchor :: string
  aq_DecisionIndex :: int
  aq_Epoch :: int
  aq_HandID :: string
  aq_OptionID :: string
  aq_PlayerID :: string
  aq_PrevCustodyStateHash :: string
  aq_ProfileName :: string
  aq_SignatureHex :: string
  aq_SignedAt :: string
  aq_TableID :: string
  aq_TurnAnchorHash :: string
  aq_TranscriptRoot :: string

record nativeHandMessageRequest =
  hm_CardPositions :: "int list"
  hm_Cards :: "string list"
  hm_CommitmentHash :: string
  hm_DeckStage :: "string list"
  hm_DeckStageRoot :: string
  hm_Epoch :: int
  hm_HandID :: string
  hm_HandNumber :: int
  hm_Kind :: string
  hm_LockPublicExponentHex :: string
  hm_PartialCiphertexts :: "string list"
  hm_Phase :: string
  hm_PlayerID :: string
  hm_ProfileName :: string
  hm_ProtocolVersion :: string
  hm_RecipientSeatIndex :: "int option"
  hm_SeatIndex :: int
  hm_ShuffleSeedHex :: string
  hm_SignatureHex :: string
  hm_SignedAt :: string
  hm_TableID :: string

text \<open>\<open>custodyBatchOutput\<close> of \<open>custody_ark_exec.go\<close>: an output a settlement transaction may pay.\<close>

record custodyBatchOutput =
  bo_AmountSats :: int
  bo_ClaimKey :: string
  bo_Onchain :: bool
  bo_OwnerPlayerID :: string
  bo_Script :: string
  bo_Tapscripts :: "string list"

record NativeTurnCandidateBundle =
  tb_ActionRequest :: "nativeActionRequest option"
  tb_AuthorizedOutputs :: "custodyBatchOutput list"
  tb_CandidateHash :: string
  tb_DerivationPath :: string
  tb_OptionID :: string
  tb_ProofSignerIDs :: "string list"
  tb_RegisterMessage :: string
  tb_SignedProofPSBT :: string
  tb_SignerPubkeys :: "(string, string) gomap"
  tb_TimeoutResolution :: "TimeoutResolution option"
  tb_TurnDeadlineAt :: string
  tb_Transition :: CustodyTransition
  tb_TreeSignerIDs :: "string list"
  tb_TurnAnchorHash :: string

record NativeChallengeEnvelope =
  ce_OpenBundle :: CustodyChallengeBundle
  ce_OpenTransition :: CustodyTransition
  ce_OptionResolutionBundles :: "CustodyChallengeBundle list"
  ce_EscapeBundle :: CustodyChallengeBundle
  ce_TimeoutResolutionBundle :: CustodyChallengeBundle

record NativePendingTurnChallenge =
  tg_ActingPlayerID :: string
  tg_ChallengeRef :: VTXORef
  tg_DecisionIndex :: int
  tg_Epoch :: int
  tg_EscapeEligibleAt :: string
  tg_HandID :: string
  tg_OpenBundleHash :: string
  tg_OpenedAt :: string
  tg_OptionIDs :: "string list"
  tg_SourceStateHash :: string
  tg_Status :: string
  tg_TableID :: string
  tg_TimeoutEligibleAt :: string
  tg_TimeoutResolution :: "TimeoutResolution option"

record nativeActionSettlementRequest =
  as_CandidateHash :: string
  as_PlayerID :: string
  as_ProtocolVersion :: string
  as_SignatureHex :: string
  as_SignedAt :: string
  as_TableID :: string
  as_Transition :: CustodyTransition

record PendingTurnMenuPublic =
  tm_AcceptedIntentAck :: "CandidateIntentAck option"
  tm_ActionDeadlineAt :: string
  tm_ActingPlayerID :: string
  tm_Candidates :: "NativeTurnCandidateBundle list"
  tm_ChallengeEnvelope :: "NativeChallengeEnvelope option"
  tm_DecisionIndex :: int
  tm_DeliveredAt :: string
  tm_Epoch :: int
  tm_HandID :: string
  tm_LockedAt :: string
  tm_Options :: "NativeActionMenuOption list"
  tm_PrevCustodyStateHash :: string
  tm_SelectedBundle :: "NativeTurnCandidateBundle option"
  tm_SelectedCandidateHash :: string
  tm_SettledRequest :: "nativeActionSettlementRequest option"
  tm_SelectionAuth :: "SelectionAuth option"
  tm_SettlementDeadlineAt :: string
  tm_TimeoutCandidate :: "NativeTurnCandidateBundle option"
  tm_TurnAnchorHash :: string

section \<open>The table\<close>

record nativeTableState =
  ts_Advertisement :: "NativeAdvertisement option"
  ts_ActiveHand :: "nativeActiveHand option"
  ts_Config :: NativeMeshTableConfig
  ts_CurrentHost :: nativeKnownParticipant
  ts_CurrentEpoch :: int
  ts_CustodyTransitions :: "CustodyTransition list"
  ts_Events :: "NativeSignedTableEvent list"
  ts_LastEventHash :: string
  ts_LastHostHeartbeatAt :: string
  ts_LatestCustodyState :: "CustodyState option"
  ts_LatestFullySignedSnapshot :: "NativeCooperativeTableSnapshot option"
  ts_LatestSnapshot :: "NativeCooperativeTableSnapshot option"
  ts_ActiveHandStartAt :: string
  ts_NextHandAt :: string
  ts_PendingTurnChallenge :: "NativePendingTurnChallenge option"
  ts_PendingTurnMenu :: "PendingTurnMenuPublic option"
  ts_PublicState :: "NativePublicTableState option"
  ts_Seats :: "nativeSeatRecord list"
  ts_Snapshots :: "NativeCooperativeTableSnapshot list"
  ts_Witnesses :: "nativeKnownParticipant list"

end
