(* ===== verification/Rng.thy ===== *)
theory Rng
  imports Settlement_Core Cards
begin

text \<open>
  \<open>internal/game/rng.go\<close>: the seeded shuffle, the deck commitments and the seed derived from the
  reveals of all seats. \<open>nextRandomFraction\<close> returns the \<open>float64\<close> \<open>u / 2\<^sup>3\<^sup>2\<close> for the 32-bit
  word \<open>u\<close> that opens the digest; the model keeps the numerator \<open>u\<close>. A swap target is the integer
  part of \<open>u / 2\<^sup>3\<^sup>2 * (index + 1)\<close>: both factors and the product are exact in a \<open>float64\<close> as long as
  \<open>index + 1 < 2\<^sup>2\<^sup>1\<close> (the significand has 53 bits), so the target is \<open>u * (index + 1) div 2\<^sup>3\<^sup>2\<close>.
\<close>

section \<open>The shuffle\<close>

definition Sha256Hex :: "string \<Rightarrow> string" where
  "Sha256Hex input = EncodeToString (Sum256 input)"

definition nextRandomFraction :: "string \<Rightarrow> nat \<Rightarrow> nat" where
  "nextRandomFraction seedHex counter =
     unat (hd (bytes_to_words (take 4 (Sum256 (seedHex @ '':'' @ itoa (int counter))))))"

definition random_index :: "string \<Rightarrow> nat \<Rightarrow> nat" where
  "random_index seedHex index = nextRandomFraction seedHex index * (index + 1) div 2 ^ 32"

definition swap :: "nat \<Rightarrow> nat \<Rightarrow> 'a list \<Rightarrow> 'a list" where
  "swap i j xs = xs[i := xs ! j, j := xs ! i]"

text \<open>The loop \<open>for index := len - 1; index > 0; index--\<close> from a given index down.\<close>

fun shuffle_down :: "(nat \<Rightarrow> nat) \<Rightarrow> nat \<Rightarrow> 'a list \<Rightarrow> 'a list" where
  "shuffle_down pick 0 xs = xs"
| "shuffle_down pick (Suc i) xs = shuffle_down pick i (swap (Suc i) (pick (Suc i)) xs)"

definition CreateDeterministicDeck :: "string \<Rightarrow> Card list" where
  "CreateDeterministicDeck seedHex =
     shuffle_down (random_index seedHex) (length CreateDeck - 1) CreateDeck"

section \<open>Commitments and the seed of the deck\<close>

record DeckCommitment =
  dc_SeatIndex :: int
  dc_PlayerID :: string
  dc_CommitmentHash :: string
  dc_RevealSeed :: string

definition BuildCommitmentHash :: "string \<Rightarrow> int \<Rightarrow> string \<Rightarrow> string \<Rightarrow> string" where
  "BuildCommitmentHash tableID seatIndex playerID seedHex =
     Sha256Hex (join '':'' [tableID, itoa seatIndex, playerID, seedHex])"

fun verify_reveals :: "string \<Rightarrow> DeckCommitment list \<Rightarrow> string list res" where
  "verify_reveals tableID [] = Inr []"
| "verify_reveals tableID (reveal # rest) =
     (if dc_RevealSeed reveal = [] then Inl (Err ''missing reveal seed for seat %d'')
      else if BuildCommitmentHash tableID (dc_SeatIndex reveal) (dc_PlayerID reveal) (dc_RevealSeed reveal)
                \<noteq> dc_CommitmentHash reveal
      then Inl (Err ''reveal does not match commitment for seat %d'')
      else case verify_reveals tableID rest of
          Inl e \<Rightarrow> Inl e
        | Inr parts \<Rightarrow>
            Inr (join '':'' [itoa (dc_SeatIndex reveal), dc_PlayerID reveal, dc_CommitmentHash reveal,
                   dc_RevealSeed reveal] # parts))"

definition commitment_part :: "DeckCommitment \<Rightarrow> string" where
  "commitment_part c = join '':'' [itoa (dc_SeatIndex c), dc_PlayerID c, dc_CommitmentHash c]"

text \<open>\<open>sort.Slice\<close> is an insertion sort, hence stable, up to twelve elements; beyond that the order of
  equal seats is unspecified, and the model still keeps them in place.\<close>

definition DeriveDeckSeed :: "string \<Rightarrow> int \<Rightarrow> DeckCommitment list \<Rightarrow> DeckCommitment list \<Rightarrow> string res" where
  "DeriveDeckSeed tableID handNumber commitments reveals =
     (case verify_reveals tableID reveals of
        Inl e \<Rightarrow> Inl e
      | Inr verifiedReveals \<Rightarrow>
         (let sortedCommitments =
                slice_stable (\<lambda>left right. dc_SeatIndex left < dc_SeatIndex right) commitments;
              parts = [tableID, itoa handNumber] @ map commitment_part sortedCommitments
                @ sort verifiedReveals
          in Inr (Sha256Hex (join ''|'' parts))))"

section \<open>Swapping within bounds permutes\<close>

lemma length_swap [simp]: "length (swap i j xs) = length xs"
  by (simp add: swap_def)

lemma mset_swap_in [simp]: "i < length xs \<Longrightarrow> j < length xs \<Longrightarrow> mset (swap i j xs) = mset xs"
  by (simp add: swap_def Multiset.mset_swap)

lemma map_swap: "i < length xs \<Longrightarrow> j < length xs \<Longrightarrow> swap i j (map f xs) = map f (swap i j xs)"
  by (simp add: swap_def map_update)

lemma length_shuffle_down [simp]: "length (shuffle_down pick n xs) = length xs"
  by (induction n arbitrary: xs) simp_all

text \<open>The contract of the shuffle's random source: the target of index \<open>i\<close> is at most \<open>i\<close>. It is
  what keeps the swaps inside the slice.\<close>

locale swap_target =
  fixes pick :: "nat \<Rightarrow> nat"
  assumes pick_le: "pick i \<le> i"
begin

lemma mset_shuffle_down: "n < length xs \<Longrightarrow> mset (shuffle_down pick n xs) = mset xs"
proof (induction n arbitrary: xs)
  case (Suc n)
  then have "pick (Suc n) < length xs" using pick_le [of "Suc n"] by simp
  with Suc show ?case by simp
qed simp

lemma map_shuffle_down: "n < length xs \<Longrightarrow> shuffle_down pick n (map f xs) = map f (shuffle_down pick n xs)"
proof (induction n arbitrary: xs)
  case (Suc n)
  then have "pick (Suc n) < length xs" using pick_le [of "Suc n"] by simp
  with Suc show ?case by (simp add: map_swap)
qed simp

definition permutation :: "nat \<Rightarrow> nat list" where
  "permutation n = shuffle_down pick (n - 1) [0..<n]"

lemma permutation_of_indices: "mset (permutation n) = mset [0..<n]"
  unfolding permutation_def by (cases n) (simp_all add: mset_shuffle_down)

lemma shuffle_by_permutation:
  "shuffle_down pick (length xs - 1) xs = map ((!) xs) (permutation (length xs))"
proof (cases xs)
  case (Cons y ys)
  then have "length xs - 1 < length [0..<length xs]" by simp
  from map_shuffle_down [OF this, of "(!) xs"] show ?thesis
    by (simp add: permutation_def map_nth)
qed (simp add: permutation_def)

end

lemma random_index_le: "random_index seedHex i \<le> i"
proof -
  have "unat w < 2 ^ 32" for w :: word32
    using unsigned_less [of w, where ?'a = nat] by simp
  then have "nextRandomFraction seedHex i < 2 ^ 32"
    by (simp only: nextRandomFraction_def)
  then have "nextRandomFraction seedHex i * (i + 1) < 2 ^ 32 * (i + 1)" by (simp only: mult_less_mono1)
  then have "random_index seedHex i < i + 1"
    unfolding random_index_def by (simp add: div_less_iff_less_mult mult.commute)
  then show ?thesis by simp
qed

interpretation seeded: swap_target "random_index seedHex" for seedHex
  by unfold_locales (rule random_index_le)

lemma deterministic_deck_permutes: "mset (CreateDeterministicDeck seedHex) = mset CreateDeck"
proof -
  have "length CreateDeck - 1 < length CreateDeck" by code_simp
  then show ?thesis unfolding CreateDeterministicDeck_def by (rule seeded.mset_shuffle_down)
qed

section \<open>What the seed of the deck depends on\<close>

definition reveal_opens :: "string \<Rightarrow> DeckCommitment \<Rightarrow> bool" where
  "reveal_opens tableID r \<longleftrightarrow> dc_RevealSeed r \<noteq> []
     \<and> BuildCommitmentHash tableID (dc_SeatIndex r) (dc_PlayerID r) (dc_RevealSeed r) = dc_CommitmentHash r"

definition reveal_part :: "DeckCommitment \<Rightarrow> string" where
  "reveal_part r = join '':'' [itoa (dc_SeatIndex r), dc_PlayerID r, dc_CommitmentHash r, dc_RevealSeed r]"

lemma verify_reveals_eq:
  "verify_reveals tableID rs = Inr parts \<longleftrightarrow> list_all (reveal_opens tableID) rs \<and> parts = map reveal_part rs"
proof (induction rs arbitrary: parts)
  case (Cons r rs)
  show ?case
  proof (cases "verify_reveals tableID rs")
    case (Inl e)
    then have "\<not> list_all (reveal_opens tableID) rs" using Cons.IH [of "map reveal_part rs"] by simp
    with Inl show ?thesis by simp
  next
    case (Inr ps)
    then show ?thesis using Cons.IH [of ps] by (auto simp: reveal_opens_def reveal_part_def)
  qed
qed auto

lemma deck_seed_eq:
  "DeriveDeckSeed tableID handNumber cs rs = Inr seed \<longleftrightarrow>
     list_all (reveal_opens tableID) rs
     \<and> seed = Sha256Hex (join ''|'' ([tableID, itoa handNumber]
         @ map commitment_part (sort_key dc_SeatIndex cs) @ sort (map reveal_part rs)))"
  by (auto simp: DeriveDeckSeed_def Let_def slice_stable_key verify_reveals_eq split: sum.split)
    (metis sum.distinct(1) verify_reveals_eq)

lemma sorted_list_eqI:
  assumes "sorted xs" and "sorted ys" and "mset xs = mset ys"
  shows "xs = (ys :: 'k::linorder list)"
proof -
  have "sort ys = xs" using assms(3) [symmetric] assms(1) by (rule properties_for_sort [OF sym])
  then show ?thesis using assms(2) by (simp add: sorted_sort_id)
qed

lemma sort_key_perm:
  assumes "mset xs = mset ys" and "distinct (map f xs)"
  shows "sort_key f xs = sort_key f ys"
proof -
  have "inj_on f (set (sort_key f xs))" using assms(2) by (simp add: distinct_map)
  moreover have "map f (sort_key f xs) = map f (sort_key f ys)"
    by (rule sorted_list_eqI) (simp_all add: assms(1))
  moreover have "set (sort_key f xs) = set (sort_key f ys)" using assms(1) by (metis set_sort set_mset_mset)
  ultimately show ?thesis by (metis map_inj_on sup.idem)
qed

end
