(* ===== verification/Mental.thy ===== *)
theory Mental
  imports Rng Transcript
begin

text \<open>
  \<open>internal/game/mental.go\<close>: the commutative encryption of the deck. A card is a small integer, a
  lock is exponentiation modulo the prime \<open>2\<^sup>1\<^sup>2\<^sup>7 - 1\<close>, and a seat locks and shuffles the deck the seat
  before it left. \<open>big.Int\<close> values are integers; the texts are hexadecimal without leading zeros.
\<close>

section \<open>Strings and big integers\<close>

text \<open>\<open>strings.TrimSpace\<close>: the UTF-8 encodings of the code points for which \<open>unicode.IsSpace\<close> holds are
  removed from both ends.\<close>

definition space_encodings :: "string list" where
  "space_encodings =
     [[CHR 0x09], [CHR 0x0A], [CHR 0x0B], [CHR 0x0C], [CHR 0x0D], [CHR 0x20],
      [CHR 0xC2, CHR 0x85], [CHR 0xC2, CHR 0xA0], [CHR 0xE1, CHR 0x9A, CHR 0x80]]
     @ map (\<lambda>c. [CHR 0xE2, CHR 0x80, c])
         [CHR 0x80, CHR 0x81, CHR 0x82, CHR 0x83, CHR 0x84, CHR 0x85, CHR 0x86, CHR 0x87, CHR 0x88,
          CHR 0x89, CHR 0x8A, CHR 0xA8, CHR 0xA9, CHR 0xAF]
     @ [[CHR 0xE2, CHR 0x81, CHR 0x9F], [CHR 0xE3, CHR 0x80, CHR 0x80]]"

function trim_front :: "string list \<Rightarrow> string \<Rightarrow> string" where
  "trim_front ws s =
     (case find (\<lambda>w. w \<noteq> [] \<and> take (length w) s = w) ws of
        None \<Rightarrow> s
      | Some w \<Rightarrow> trim_front ws (drop (length w) s))"
  by pat_completeness auto

termination
proof (relation "measure (\<lambda>(ws, s). length s)")
  fix ws s w
  assume "find (\<lambda>w. w \<noteq> [] \<and> take (length w) s = w) ws = Some w"
  then have "w \<noteq> [] \<and> take (length w) s = w" by (auto simp: find_Some_iff)
  then have "0 < length w" "s \<noteq> []" by auto
  then show "((ws, drop (length w) s), ws, s) \<in> measure (\<lambda>(ws, s). length s)" by simp
qed simp

declare trim_front.simps [simp del]

definition TrimSpace :: "string \<Rightarrow> string" where
  "TrimSpace s = rev (trim_front (map rev space_encodings) (rev (trim_front space_encodings s)))"

fun hex_number :: "int \<Rightarrow> string \<Rightarrow> int option" where
  "hex_number acc [] = Some acc"
| "hex_number acc (c # s) =
     (case hex_value c of None \<Rightarrow> None | Some d \<Rightarrow> hex_number (acc * 16 + int d) s)"

text \<open>\<open>SetString(s, 16)\<close>: an optional sign and at least one digit, nothing else.\<close>

definition SetString16 :: "string \<Rightarrow> int option" where
  "SetString16 s =
     (let (neg, digits) =
        (case s of
           [] \<Rightarrow> (False, [])
         | c # r \<Rightarrow> if c = CHR ''-'' then (True, r) else if c = CHR ''+'' then (False, r) else (False, s))
      in if digits = [] then None
         else map_option (\<lambda>n. if neg then - n else n) (hex_number 0 digits))"

fun nat_hex :: "nat \<Rightarrow> string" where
  "nat_hex n = (if n < 16 then [hex_digit n] else nat_hex (n div 16) @ [hex_digit (n mod 16)])"

declare nat_hex.simps [simp del]

definition Text16 :: "int \<Rightarrow> string" where
  "Text16 i = (if i < 0 then CHR ''-'' # nat_hex (nat (- i)) else nat_hex (nat i))"

definition trim_zeros :: "string \<Rightarrow> string" where
  "trim_zeros s = dropWhile (\<lambda>c. c = CHR ''0'') s"

text \<open>\<open>Exp(x, y, m)\<close> for \<open>y \<ge> 0\<close> and \<open>m > 0\<close>, and \<open>ModInverse(g, n)\<close> for positive arguments.\<close>

definition Exp :: "int \<Rightarrow> int \<Rightarrow> int \<Rightarrow> int" where
  "Exp x y m = x ^ nat y mod m"

definition ModInverse :: "int \<Rightarrow> int \<Rightarrow> int option" where
  "ModInverse g n = (if gcd g n \<noteq> 1 then None else Some (fst (bezw (nat g) (nat n)) mod n))"

section \<open>Parameters and cards\<close>

definition mustBigInt :: "string \<Rightarrow> int res" where
  "mustBigInt hexValue =
     (case SetString16 hexValue of None \<Rightarrow> Inl (Panic ''invalid big integer %q'') | Some v \<Rightarrow> Inr v)"

definition mentalPrime :: int where
  "mentalPrime = (case mustBigInt ''7fffffffffffffffffffffffffffffff'' of Inl e \<Rightarrow> 0 | Inr v \<Rightarrow> v)"

definition mentalTotient :: int where
  "mentalTotient = mentalPrime - 1"

definition mentalCardValueByCode :: "(CardCode, int) gomap" where
  "mentalCardValueByCode = map (\<lambda>(index, c). (cd_Code c, int index + 2)) (enumerate 0 CreateDeck)"

definition mentalCardCodeByValue :: "(int, CardCode) gomap" where
  "mentalCardCodeByValue = map (\<lambda>(index, c). (int index + 2, cd_Code c)) (enumerate 0 CreateDeck)"

definition normalizeBigIntHex :: "string \<Rightarrow> string res" where
  "normalizeBigIntHex hexValue =
     (let trimmed = TrimSpace hexValue in
      if trimmed = [] then Inl (Err ''missing bigint hex value'')
      else case SetString16 trimmed of
          None \<Rightarrow> Inl (Err ''invalid bigint hex value %q'')
        | Some v \<Rightarrow>
           if v < 0 \<or> v \<ge> mentalPrime then Inl (Err ''bigint value is out of range'')
           else Inr (trim_zeros (Text16 v)))"

definition encodeMentalValue :: "int option \<Rightarrow> string" where
  "encodeMentalValue v = (case v of None \<Rightarrow> [] | Some n \<Rightarrow> trim_zeros (Text16 n))"

definition decodeMentalValue :: "string \<Rightarrow> int res" where
  "decodeMentalValue hexValue =
     (case normalizeBigIntHex hexValue of
        Inl e \<Rightarrow> Inl e
      | Inr normalized \<Rightarrow>
         (case SetString16 normalized of
            None \<Rightarrow> Inl (Err ''invalid bigint hex value'')
          | Some v \<Rightarrow> Inr v))"

section \<open>Keys\<close>

record MentalKeyPair =
  kp_PrivateExponentHex :: string
  kp_PublicExponentHex :: string

text \<open>The loop draws until a candidate is invertible; the draws of \<open>rand.Int(reader, limit)\<close> are given
  as a list, and \<open>None\<close> says that the loop needs more of them. \<open>random_limit\<close> is the \<open>limit\<close>.\<close>

definition random_limit :: int where
  "random_limit = mentalTotient - 3"

fun GenerateMentalKeyPair :: "int res list \<Rightarrow> MentalKeyPair res option" where
  "GenerateMentalKeyPair [] = None"
| "GenerateMentalKeyPair (draw # draws) =
     (case draw of
        Inl e \<Rightarrow> Some (Inl e)
      | Inr drawn \<Rightarrow>
         (let candidate = drawn + 2 in
          if gcd candidate mentalTotient \<noteq> 1 then GenerateMentalKeyPair draws
          else case ModInverse candidate mentalTotient of
              None \<Rightarrow> GenerateMentalKeyPair draws
            | Some inverse1 \<Rightarrow>
                Some (Inr \<lparr>kp_PrivateExponentHex = encodeMentalValue (Some inverse1),
                           kp_PublicExponentHex = encodeMentalValue (Some candidate)\<rparr>)))"

section \<open>Locking and unlocking values\<close>

definition orderedMentalDeck :: "string list" where
  "orderedMentalDeck =
     map (\<lambda>c. encodeMentalValue (Some (mget mentalCardValueByCode (cd_Code c)))) CreateDeck"

definition EncryptMentalValueHex :: "string \<Rightarrow> string \<Rightarrow> string res" where
  "EncryptMentalValueHex valueHex publicExponentHex =
     (case decodeMentalValue valueHex of
        Inl e \<Rightarrow> Inl e
      | Inr v \<Rightarrow>
         (case decodeMentalValue publicExponentHex of
            Inl e \<Rightarrow> Inl e
          | Inr publicExponent \<Rightarrow> Inr (encodeMentalValue (Some (Exp v publicExponent mentalPrime)))))"

definition DecryptMentalValueHex :: "string \<Rightarrow> string \<Rightarrow> string res" where
  "DecryptMentalValueHex valueHex privateExponentHex =
     (case decodeMentalValue valueHex of
        Inl e \<Rightarrow> Inl e
      | Inr v \<Rightarrow>
         (case decodeMentalValue privateExponentHex of
            Inl e \<Rightarrow> Inl e
          | Inr privateExponent \<Rightarrow> Inr (encodeMentalValue (Some (Exp v privateExponent mentalPrime)))))"

text \<open>\<open>value.Int64()\<close> keeps the low 64 bits, read as a signed integer.\<close>

definition int64 :: "int \<Rightarrow> int" where
  "int64 v = sint (word_of_int v :: 64 word)"

definition DecodeMentalCardHex :: "string \<Rightarrow> CardCode res" where
  "DecodeMentalCardHex valueHex =
     (case decodeMentalValue valueHex of
        Inl e \<Rightarrow> Inl e
      | Inr v \<Rightarrow>
         (case map_of mentalCardCodeByValue (int64 v) of
            None \<Rightarrow> Inl (Err ''mental card value %s is not a card'')
          | Some decoded \<Rightarrow> Inr decoded))"

definition EncodeMentalCard :: "CardCode \<Rightarrow> string res" where
  "EncodeMentalCard code =
     (case map_of mentalCardValueByCode code of
        None \<Rightarrow> Inl (Err ''unknown card %q'')
      | Some v \<Rightarrow> Inr (encodeMentalValue (Some v)))"

section \<open>Stages of the deck\<close>

definition stage_payload :: "string list \<Rightarrow> goval" where
  "stage_payload stage =
     any_map [(''stage'', Some (VSlice (Some (map VString stage)))),
              (''type'', Some (VString ''mental-deck-stage''))]"

definition MentalDeckStageRoot :: "string list \<Rightarrow> string res" where
  "MentalDeckStageRoot stage = HashStructuredDataHex (stage_payload stage)"

definition mentalDeckPermutation :: "string \<Rightarrow> nat \<Rightarrow> nat list res" where
  "mentalDeckPermutation seedHex n =
     (let trimmed = TrimSpace seedHex in
      if trimmed = [] then Inl (Err ''missing shuffle seed'')
      else case DecodeString trimmed of
          Inl e \<Rightarrow> Inl (Err ''invalid shuffle seed: %w'')
        | Inr _ \<Rightarrow> Inr (shuffle_down (random_index trimmed) (n - 1) [0..<n]))"

fun encrypt_all :: "string \<Rightarrow> string list \<Rightarrow> string list res" where
  "encrypt_all publicExponentHex [] = Inr []"
| "encrypt_all publicExponentHex (valueHex # rest) =
     (case EncryptMentalValueHex valueHex publicExponentHex of
        Inl e \<Rightarrow> Inl e
      | Inr nextValueHex \<Rightarrow>
         (case encrypt_all publicExponentHex rest of Inl e \<Rightarrow> Inl e | Inr encrypted \<Rightarrow> Inr (nextValueHex # encrypted)))"

definition ApplyMentalShuffle :: "string list \<Rightarrow> string \<Rightarrow> string \<Rightarrow> string list res" where
  "ApplyMentalShuffle previous publicExponentHex shuffleSeedHex =
     (case encrypt_all publicExponentHex previous of
        Inl e \<Rightarrow> Inl e
      | Inr encrypted \<Rightarrow>
         (case mentalDeckPermutation shuffleSeedHex (length encrypted) of
            Inl e \<Rightarrow> Inl e
          | Inr permutation \<Rightarrow> Inr (map (\<lambda>sourceIndex. encrypted ! sourceIndex) permutation)))"

definition fairness_payload :: "string \<Rightarrow> int \<Rightarrow> int \<Rightarrow> string \<Rightarrow> string \<Rightarrow> string \<Rightarrow> string \<Rightarrow> goval" where
  "fairness_payload tableID handNumber seatIndex playerID phase shuffleSeedHex lockPublicExponentHex =
     any_map
      [(''handNumber'', Some (VInt handNumber)),
       (''lockPublicExponentHex'', Some (VString lockPublicExponentHex)),
       (''phase'', Some (VString phase)),
       (''playerId'', Some (VString playerID)),
       (''seatIndex'', Some (VInt seatIndex)),
       (''shuffleSeedHex'', Some (VString shuffleSeedHex)),
       (''tableId'', Some (VString tableID)),
       (''type'', Some (VString ''dealerless-fairness-commitment''))]"

definition BuildFairnessCommitment ::
    "string \<Rightarrow> int \<Rightarrow> int \<Rightarrow> string \<Rightarrow> string \<Rightarrow> string \<Rightarrow> string \<Rightarrow> string res" where
  "BuildFairnessCommitment tableID handNumber seatIndex playerID phase shuffleSeedHex lockPublicExponentHex =
     HashStructuredDataHex
       (fairness_payload tableID handNumber seatIndex playerID phase shuffleSeedHex lockPublicExponentHex)"

definition VerifyFairnessReveal ::
    "string \<Rightarrow> int \<Rightarrow> int \<Rightarrow> string \<Rightarrow> string \<Rightarrow> string \<Rightarrow> string \<Rightarrow> string \<Rightarrow> unit res" where
  "VerifyFairnessReveal tableID handNumber seatIndex playerID phase commitmentHash shuffleSeedHex
       lockPublicExponentHex =
     (case BuildFairnessCommitment tableID handNumber seatIndex playerID phase shuffleSeedHex
         lockPublicExponentHex of
        Inl e \<Rightarrow> Inl e
      | Inr derived1 \<Rightarrow>
         if derived1 \<noteq> commitmentHash then Inl (Err ''fairness reveal does not match commitment for seat %d'')
         else Inr ())"

section \<open>Replaying the deck\<close>

record MentalDeckReveal =
  mr_PlayerID :: string
  mr_SeatIndex :: int
  mr_ShuffleSeedHex :: string
  mr_LockPublicExponentHex :: string

record MentalDeckReplay =
  md_FinalDeck :: "string list"
  md_RevealStageRoots :: "string list"
  md_RevealStageRootBySeat :: "(int, string) gomap"
  md_RevealStagesBySeat :: "(int, string list) gomap"

fun replay_stages :: "MentalDeckReveal list \<Rightarrow> MentalDeckReplay \<Rightarrow> MentalDeckReplay res" where
  "replay_stages [] replay = Inr replay"
| "replay_stages (reveal # rest) replay =
     (case ApplyMentalShuffle (md_FinalDeck replay) (mr_LockPublicExponentHex reveal) (mr_ShuffleSeedHex reveal) of
        Inl e \<Rightarrow> Inl e
      | Inr nextStage \<Rightarrow>
         (case MentalDeckStageRoot nextStage of
            Inl e \<Rightarrow> Inl e
          | Inr root \<Rightarrow>
              replay_stages rest
                \<lparr>md_FinalDeck = nextStage,
                 md_RevealStageRoots = md_RevealStageRoots replay @ [root],
                 md_RevealStageRootBySeat = AList.update (mr_SeatIndex reveal) root (md_RevealStageRootBySeat replay),
                 md_RevealStagesBySeat = AList.update (mr_SeatIndex reveal) nextStage (md_RevealStagesBySeat replay)\<rparr>))"

definition ReplayMentalDeck :: "MentalDeckReveal list \<Rightarrow> MentalDeckReplay res" where
  "ReplayMentalDeck reveals =
     replay_stages (slice_stable (\<lambda>left right. mr_SeatIndex left < mr_SeatIndex right) reveals)
       \<lparr>md_FinalDeck = orderedMentalDeck, md_RevealStageRoots = [], md_RevealStageRootBySeat = [],
        md_RevealStagesBySeat = []\<rparr>"

end
