(* ===== verification/Custody_Hash.thy ===== *)
theory Custody_Hash
  imports Side_Pots Go_Json "HOL-Library.Product_Lexorder"
begin

text \<open>
  \<open>internal/tablecustody/hash.go\<close>: the canonical form of custody states, transitions, bundles and
  witnesses, their JSON text by the struct tags of \<open>types.go\<close>, and the SHA-256 digests that
  identify them. The encoding of a node of the Ark library's transaction tree is the parameter
  \<open>node_json\<close>. A pot slice's contributions are a non-nil map, as \<open>DerivePotStructure\<close> makes them.
\<close>

section \<open>JSON by the struct tags\<close>

definition VTXORef_json :: "VTXORef \<Rightarrow> json" where
  "VTXORef_json r = struct_json
     [(''amountSats'', Some (JInt (vr_AmountSats r))),
      (''arkIntentId'', str_omit (vr_ArkIntentID r)),
      (''arkTxid'', str_omit (vr_ArkTxID r)),
      (''expiresAt'', str_omit (vr_ExpiresAt r)),
      (''ownerPlayerId'', str_omit (vr_OwnerPlayerID r)),
      (''script'', str_omit (vr_Script r)),
      (''tapscripts'', list_omit JStr (vr_Tapscripts r)),
      (''txid'', Some (JStr (vr_TxID r))),
      (''vout'', Some (uint32_json (vr_VOut r)))]"

definition StackClaim_json :: "StackClaim \<Rightarrow> json" where
  "StackClaim_json c = struct_json
     [(''allIn'', bool_omit (sc_AllIn c)),
      (''amountSats'', Some (JInt (sc_AmountSats c))),
      (''folded'', bool_omit (sc_Folded c)),
      (''playerId'', Some (JStr (sc_PlayerID c))),
      (''reservedFeeSats'', int_omit (sc_ReservedFeeSats c)),
      (''roundContributionSats'', int_omit (sc_RoundContributionSats c)),
      (''seatIndex'', Some (JInt (sc_SeatIndex c))),
      (''status'', str_omit (sc_Status c)),
      (''totalContributionSats'', int_omit (sc_TotalContributionSats c)),
      (''vtxoRefs'', list_omit VTXORef_json (sc_VTXORefs c))]"

definition PotSlice_json :: "PotSlice \<Rightarrow> json" where
  "PotSlice_json p = struct_json
     [(''capSats'', Some (JInt (ps_CapSats p))),
      (''contributedPlayerIds'', list_omit JStr (ps_ContributedPlayerIDs p)),
      (''contributions'', Some (map_json JInt (ps_Contributions p))),
      (''eligiblePlayerIds'', Some (list_or_null JStr (ps_EligiblePlayerIDs p))),
      (''oddChipPlayerIds'', list_omit JStr (ps_OddChipPlayerIDs p)),
      (''potId'', Some (JStr (ps_PotID p))),
      (''sequence'', Some (JInt (ps_Sequence p))),
      (''status'', str_omit (ps_Status p)),
      (''totalSats'', Some (JInt (ps_TotalSats p))),
      (''vtxoRefs'', list_omit VTXORef_json (ps_VTXORefs p)),
      (''winnerPlayerIds'', list_omit JStr (ps_WinnerPlayerIDs p))]"

definition TimeoutResolution_json :: "TimeoutResolution \<Rightarrow> json" where
  "TimeoutResolution_json r = struct_json
     [(''actionType'', str_omit (tr_ActionType r)),
      (''actingPlayerId'', Some (JStr (tr_ActingPlayerID r))),
      (''deadPlayerIds'', list_omit JStr (tr_DeadPlayerIDs r)),
      (''lostEligibilityPlayerIds'', list_omit JStr (tr_LostEligibilityPlayerIDs r)),
      (''policy'', Some (JStr (timeout_policy_str (tr_Policy r)))),
      (''reason'', str_omit (tr_Reason r))]"

definition CustodySignature_json :: "CustodySignature \<Rightarrow> json" where
  "CustodySignature_json g = struct_json
     [(''approvalHash'', str_omit (cg_ApprovalHash g)),
      (''playerId'', Some (JStr (cg_PlayerID g))),
      (''signatureHex'', Some (JStr (cg_SignatureHex g))),
      (''signedAt'', Some (JStr (cg_SignedAt g))),
      (''walletPubkeyHex'', str_omit (cg_WalletPubkeyHex g))]"

definition CustodySettlementWitness_json ::
    "(TxTreeNode \<Rightarrow> json) \<Rightarrow> CustodySettlementWitness \<Rightarrow> json" where
  "CustodySettlementWitness_json node_json w = struct_json
     [(''arkIntentId'', str_omit (sw_ArkIntentID w)),
      (''arkTxid'', str_omit (sw_ArkTxID w)),
      (''finalizedAt'', str_omit (sw_FinalizedAt w)),
      (''proofPsbt'', str_omit (sw_ProofPSBT w)),
      (''commitmentTx'', str_omit (sw_CommitmentTx w)),
      (''batchExpiryType'', str_omit (sw_BatchExpiryType w)),
      (''batchExpiryValue'', uint32_omit (sw_BatchExpiryValue w)),
      (''vtxoTree'', list_omit node_json (sw_VtxoTree w)),
      (''connectorTree'', list_omit node_json (sw_ConnectorTree w))]"

definition CandidateIntentAck_json :: "CandidateIntentAck \<Rightarrow> json" where
  "CandidateIntentAck_json a = struct_json
     [(''acceptedAt'', Some (JStr (ca_AcceptedAt a))),
      (''candidateHash'', Some (JStr (ca_CandidateHash a))),
      (''decisionIndex'', Some (JInt (ca_DecisionIndex a))),
      (''epoch'', Some (JInt (ca_Epoch a))),
      (''handId'', Some (JStr (ca_HandID a))),
      (''intentId'', Some (JStr (ca_IntentID a))),
      (''operatorPubkeyHex'', str_omit (ca_OperatorPubkeyHex a)),
      (''operatorSignatureHex'', str_omit (ca_OperatorSignatureHex a)),
      (''prevCustodyStateHash'', str_omit (ca_PrevCustodyStateHash a)),
      (''tableId'', Some (JStr (ca_TableID a))),
      (''turnAnchorHash'', str_omit (ca_TurnAnchorHash a))]"

definition CustodyRecoveryOutput_json :: "CustodyRecoveryOutput \<Rightarrow> json" where
  "CustodyRecoveryOutput_json out = struct_json
     [(''amountSats'', Some (JInt (ro_AmountSats out))),
      (''ownerPlayerId'', str_omit (ro_OwnerPlayerID out)),
      (''script'', str_omit (ro_Script out)),
      (''tapscripts'', list_omit JStr (ro_Tapscripts out))]"

definition CustodyRecoveryBundle_json :: "CustodyRecoveryBundle \<Rightarrow> json" where
  "CustodyRecoveryBundle_json b = struct_json
     [(''authorizedOutputs'', list_omit CustodyRecoveryOutput_json (rb_AuthorizedOutputs b)),
      (''bundleHash'', str_omit (rb_BundleHash b)),
      (''earliestExecuteAt'', str_omit (rb_EarliestExecuteAt b)),
      (''kind'', Some (JStr (transition_kind_str (rb_Kind b)))),
      (''signedPsbt'', str_omit (rb_SignedPSBT b)),
      (''sourcePotRefs'', list_omit VTXORef_json (rb_SourcePotRefs b)),
      (''timeoutResolution'', map_option TimeoutResolution_json (rb_TimeoutResolution b))]"

definition CustodyRecoveryWitness_json :: "CustodyRecoveryWitness \<Rightarrow> json" where
  "CustodyRecoveryWitness_json w = struct_json
     [(''broadcastTxIds'', list_omit JStr (rw_BroadcastTxIDs w)),
      (''bundleHash'', str_omit (rw_BundleHash w)),
      (''executedAt'', str_omit (rw_ExecutedAt w)),
      (''recoveryTxid'', str_omit (rw_RecoveryTxID w)),
      (''sourceTransitionHash'', str_omit (rw_SourceTransitionHash w))]"

definition CustodyExitTransaction_json :: "CustodyExitTransaction \<Rightarrow> json" where
  "CustodyExitTransaction_json t = struct_json
     [(''transactionHex'', str_omit (et_TransactionHex t)),
      (''transactionId'', str_omit (et_TransactionID t))]"

definition CustodyExitWitness_json :: "CustodyExitWitness \<Rightarrow> json" where
  "CustodyExitWitness_json w = struct_json
     [(''broadcastTransactions'', list_omit CustodyExitTransaction_json (ew_BroadcastTransactions w)),
      (''sweepTransaction'', map_option CustodyExitTransaction_json (ew_SweepTransaction w))]"

definition CustodyChallengeOutput_json :: "CustodyChallengeOutput \<Rightarrow> json" where
  "CustodyChallengeOutput_json out = struct_json
     [(''amountSats'', Some (JInt (co_AmountSats out))),
      (''claimKey'', str_omit (co_ClaimKey out)),
      (''ownerPlayerId'', str_omit (co_OwnerPlayerID out)),
      (''script'', str_omit (co_Script out)),
      (''tapscripts'', list_omit JStr (co_Tapscripts out))]"

definition CustodyChallengeBundle_json :: "CustodyChallengeBundle \<Rightarrow> json" where
  "CustodyChallengeBundle_json b = struct_json
     [(''authorizedOutputs'', list_omit CustodyChallengeOutput_json (cb_AuthorizedOutputs b)),
      (''bundleHash'', str_omit (cb_BundleHash b)),
      (''kind'', Some (JStr (transition_kind_str (cb_Kind b)))),
      (''optionId'', str_omit (cb_OptionID b)),
      (''signedPsbt'', str_omit (cb_SignedPSBT b)),
      (''sourceRefs'', list_omit VTXORef_json (cb_SourceRefs b)),
      (''timeoutResolution'', map_option TimeoutResolution_json (cb_TimeoutResolution b)),
      (''txLocktime'', uint32_omit (cb_TxLocktime b))]"

definition CustodyChallengeWitness_json :: "CustodyChallengeWitness \<Rightarrow> json" where
  "CustodyChallengeWitness_json w = struct_json
     [(''broadcastTxIds'', list_omit JStr (cw_BroadcastTxIDs w)),
      (''bundleHash'', str_omit (cw_BundleHash w)),
      (''executedAt'', str_omit (cw_ExecutedAt w)),
      (''transactionId'', str_omit (cw_TransactionID w))]"

definition CustodyProof_json :: "(TxTreeNode \<Rightarrow> json) \<Rightarrow> CustodyProof \<Rightarrow> json" where
  "CustodyProof_json node_json p = struct_json
     [(''arkIntentId'', str_omit (cp_ArkIntentID p)),
      (''arkTxid'', str_omit (cp_ArkTxID p)),
      (''candidateIntentAck'', map_option CandidateIntentAck_json (cp_CandidateIntentAck p)),
      (''challengeBundle'', map_option CustodyChallengeBundle_json (cp_ChallengeBundle p)),
      (''challengeWitness'', map_option CustodyChallengeWitness_json (cp_ChallengeWitness p)),
      (''exitProofRef'', str_omit (cp_ExitProofRef p)),
      (''exitWitness'', map_option CustodyExitWitness_json (cp_ExitWitness p)),
      (''finalizedAt'', str_omit (cp_FinalizedAt p)),
      (''requestHash'', str_omit (cp_RequestHash p)),
      (''recoveryBundles'', list_omit CustodyRecoveryBundle_json (cp_RecoveryBundles p)),
      (''recoveryWitness'', map_option CustodyRecoveryWitness_json (cp_RecoveryWitness p)),
      (''replayValidated'', Some (JBool (cp_ReplayValidated p))),
      (''settlementWitness'',
        map_option (CustodySettlementWitness_json node_json) (cp_SettlementWitness p)),
      (''signatures'', list_omit CustodySignature_json (cp_Signatures p)),
      (''stateHash'', Some (JStr (cp_StateHash p))),
      (''turnAnchorHash'', str_omit (cp_TurnAnchorHash p)),
      (''turnCandidateHash'', str_omit (cp_TurnCandidateHash p)),
      (''transitionHash'', Some (JStr (cp_TransitionHash p))),
      (''vtxoRefs'', list_omit VTXORef_json (cp_VTXORefs p))]"

definition CustodyState_json :: "CustodyState \<Rightarrow> json" where
  "CustodyState_json s = struct_json
     [(''actionDeadlineAt'', str_omit (cs_ActionDeadlineAt s)),
      (''actingPlayerId'', str_omit (cs_ActingPlayerID s)),
      (''challengeAnchor'', str_omit (cs_ChallengeAnchor s)),
      (''createdAt'', str_omit (cs_CreatedAt s)),
      (''custodySeq'', Some (JInt (cs_CustodySeq s))),
      (''decisionIndex'', Some (JInt (cs_DecisionIndex s))),
      (''epoch'', Some (JInt (cs_Epoch s))),
      (''handId'', str_omit (cs_HandID s)),
      (''handNumber'', Some (JInt (cs_HandNumber s))),
      (''legalActionsHash'', str_omit (cs_LegalActionsHash s)),
      (''potSlices'', Some (list_or_null PotSlice_json (cs_PotSlices s))),
      (''prevStateHash'', str_omit (cs_PrevStateHash s)),
      (''publicStateHash'', str_omit (cs_PublicStateHash s)),
      (''stackClaims'', Some (list_or_null StackClaim_json (cs_StackClaims s))),
      (''stateHash'', Some (JStr (cs_StateHash s))),
      (''tableId'', Some (JStr (cs_TableID s))),
      (''timeoutPolicy'', Some (JStr (timeout_policy_str (cs_TimeoutPolicy s)))),
      (''transcriptRoot'', str_omit (cs_TranscriptRoot s))]"

definition ActionDescriptor_json :: "ActionDescriptor \<Rightarrow> json" where
  "ActionDescriptor_json a = struct_json
     [(''totalSats'', int_omit (ad_TotalSats a)), (''type'', str_omit (ad_Type a))]"

definition CustodyTransition_json :: "(TxTreeNode \<Rightarrow> json) \<Rightarrow> CustodyTransition \<Rightarrow> json" where
  "CustodyTransition_json node_json t = struct_json
     [(''action'', map_option ActionDescriptor_json (ct_Action t)),
      (''actingPlayerId'', str_omit (ct_ActingPlayerID t)),
      (''approvals'', list_omit CustodySignature_json (ct_Approvals t)),
      (''arkIntentId'', str_omit (ct_ArkIntentID t)),
      (''arkTxid'', str_omit (ct_ArkTxID t)),
      (''custodySeq'', Some (JInt (ct_CustodySeq t))),
      (''decisionIndex'', Some (JInt (ct_DecisionIndex t))),
      (''kind'', Some (JStr (transition_kind_str (ct_Kind t)))),
      (''nextState'', Some (CustodyState_json (ct_NextState t))),
      (''nextStateHash'', Some (JStr (ct_NextStateHash t))),
      (''prevStateHash'', str_omit (ct_PrevStateHash t)),
      (''proof'', Some (CustodyProof_json node_json (ct_Proof t))),
      (''proposedAt'', str_omit (ct_ProposedAt t)),
      (''proposedBy'', str_omit (ct_ProposedBy t)),
      (''tableId'', Some (JStr (ct_TableID t))),
      (''timeoutResolution'', map_option TimeoutResolution_json (ct_TimeoutResolution t)),
      (''transitionId'', str_omit (ct_TransitionID t))]"

section \<open>Comparisons and canonical forms\<close>

definition compareVTXORefs :: "VTXORef \<Rightarrow> VTXORef \<Rightarrow> int" where
  "compareVTXORefs left right =
     (if vr_TxID left < vr_TxID right then -1
      else if vr_TxID left > vr_TxID right then 1
      else if vr_VOut left < vr_VOut right then -1
      else if vr_VOut left > vr_VOut right then 1
      else 0)"

definition sorted_refs :: "VTXORef list \<Rightarrow> VTXORef list" where
  "sorted_refs refs = slice_stable (\<lambda>l r. compareVTXORefs l r < 0) refs"

fun compare_ref_lists :: "VTXORef list \<Rightarrow> VTXORef list \<Rightarrow> int" where
  "compare_ref_lists [] [] = 0"
| "compare_ref_lists [] (_ # _) = -1"
| "compare_ref_lists (_ # _) [] = 1"
| "compare_ref_lists (l # ls) (r # rs) =
     (let comparison = compareVTXORefs l r in
      if comparison \<noteq> 0 then comparison else compare_ref_lists ls rs)"

definition compareVTXORefSlices :: "VTXORef list \<Rightarrow> VTXORef list \<Rightarrow> int" where
  "compareVTXORefSlices left right = compare_ref_lists (sorted_refs left) (sorted_refs right)"

definition stack_claim_less :: "StackClaim \<Rightarrow> StackClaim \<Rightarrow> bool" where
  "stack_claim_less left right =
     (if sc_SeatIndex left \<noteq> sc_SeatIndex right then sc_SeatIndex left < sc_SeatIndex right
      else sc_PlayerID left < sc_PlayerID right)"

definition pot_slice_less :: "PotSlice \<Rightarrow> PotSlice \<Rightarrow> bool" where
  "pot_slice_less left right =
     (if ps_Sequence left \<noteq> ps_Sequence right then ps_Sequence left < ps_Sequence right
      else ps_PotID left < ps_PotID right)"

definition signature_less :: "CustodySignature \<Rightarrow> CustodySignature \<Rightarrow> bool" where
  "signature_less left right = (cg_PlayerID left < cg_PlayerID right)"

definition recovery_output_less :: "CustodyRecoveryOutput \<Rightarrow> CustodyRecoveryOutput \<Rightarrow> bool" where
  "recovery_output_less left right =
     (if ro_OwnerPlayerID left \<noteq> ro_OwnerPlayerID right
      then ro_OwnerPlayerID left < ro_OwnerPlayerID right
      else if ro_AmountSats left \<noteq> ro_AmountSats right
      then ro_AmountSats left < ro_AmountSats right
      else ro_Script left < ro_Script right)"

definition challenge_output_less :: "CustodyChallengeOutput \<Rightarrow> CustodyChallengeOutput \<Rightarrow> bool" where
  "challenge_output_less left right =
     (if co_ClaimKey left \<noteq> co_ClaimKey right then co_ClaimKey left < co_ClaimKey right
      else if co_OwnerPlayerID left \<noteq> co_OwnerPlayerID right
      then co_OwnerPlayerID left < co_OwnerPlayerID right
      else if co_AmountSats left \<noteq> co_AmountSats right
      then co_AmountSats left < co_AmountSats right
      else co_Script left < co_Script right)"

definition recovery_bundle_less :: "CustodyRecoveryBundle \<Rightarrow> CustodyRecoveryBundle \<Rightarrow> bool" where
  "recovery_bundle_less left right =
     (let lk = transition_kind_str (rb_Kind left); rk = transition_kind_str (rb_Kind right) in
      if lk \<noteq> rk then lk < rk
      else if rb_BundleHash left \<noteq> rb_BundleHash right
      then rb_BundleHash left < rb_BundleHash right
      else compareVTXORefSlices (rb_SourcePotRefs left) (rb_SourcePotRefs right) < 0)"

definition SortedStackClaims :: "StackClaim list \<Rightarrow> StackClaim list" where
  "SortedStackClaims claims = slice_stable stack_claim_less claims"

definition canonical_claim :: "StackClaim \<Rightarrow> StackClaim" where
  "canonical_claim c = c\<lparr>sc_VTXORefs := sorted_refs (sc_VTXORefs c)\<rparr>"

definition canonical_slice :: "PotSlice \<Rightarrow> PotSlice" where
  "canonical_slice p = p\<lparr>
     ps_EligiblePlayerIDs := sortedStrings (ps_EligiblePlayerIDs p),
     ps_ContributedPlayerIDs := sortedStrings (ps_ContributedPlayerIDs p),
     ps_WinnerPlayerIDs := sortedStrings (ps_WinnerPlayerIDs p),
     ps_VTXORefs := sorted_refs (ps_VTXORefs p)\<rparr>"

definition canonicalState :: "CustodyState \<Rightarrow> CustodyState" where
  "canonicalState state = state\<lparr>
     cs_StackClaims := map canonical_claim (slice_stable stack_claim_less (cs_StackClaims state)),
     cs_PotSlices := map canonical_slice (slice_stable pot_slice_less (cs_PotSlices state))\<rparr>"

definition canonicalTimeoutResolution :: "TimeoutResolution \<Rightarrow> TimeoutResolution" where
  "canonicalTimeoutResolution r = r\<lparr>
     tr_DeadPlayerIDs := sortedStrings (tr_DeadPlayerIDs r),
     tr_LostEligibilityPlayerIDs := sortedStrings (tr_LostEligibilityPlayerIDs r)\<rparr>"

definition canonicalFlatTxTree :: "TxTreeNode list \<Rightarrow> TxTreeNode list" where
  "canonicalFlatTxTree tree = slice_stable (\<lambda>l r. tn_Txid l < tn_Txid r) tree"

definition canonicalSettlementWitness :: "CustodySettlementWitness \<Rightarrow> CustodySettlementWitness" where
  "canonicalSettlementWitness w = w\<lparr>
     sw_VtxoTree := canonicalFlatTxTree (sw_VtxoTree w),
     sw_ConnectorTree := canonicalFlatTxTree (sw_ConnectorTree w)\<rparr>"

definition canonicalRecoveryBundle :: "CustodyRecoveryBundle \<Rightarrow> CustodyRecoveryBundle" where
  "canonicalRecoveryBundle b = b\<lparr>
     rb_AuthorizedOutputs := slice_stable recovery_output_less
       (map (\<lambda>out. out\<lparr>ro_Tapscripts := sort (ro_Tapscripts out)\<rparr>) (rb_AuthorizedOutputs b)),
     rb_SourcePotRefs := sorted_refs (rb_SourcePotRefs b),
     rb_TimeoutResolution := map_option canonicalTimeoutResolution (rb_TimeoutResolution b)\<rparr>"

definition canonicalRecoveryWitness :: "CustodyRecoveryWitness \<Rightarrow> CustodyRecoveryWitness" where
  "canonicalRecoveryWitness w = w\<lparr>rw_BroadcastTxIDs := sort (rw_BroadcastTxIDs w)\<rparr>"

definition canonicalChallengeBundle :: "CustodyChallengeBundle \<Rightarrow> CustodyChallengeBundle" where
  "canonicalChallengeBundle b = b\<lparr>
     cb_AuthorizedOutputs := slice_stable challenge_output_less
       (map (\<lambda>out. out\<lparr>co_Tapscripts := sort (co_Tapscripts out)\<rparr>) (cb_AuthorizedOutputs b)),
     cb_SourceRefs := sorted_refs (cb_SourceRefs b),
     cb_TimeoutResolution := map_option canonicalTimeoutResolution (cb_TimeoutResolution b)\<rparr>"

definition canonicalChallengeWitness :: "CustodyChallengeWitness \<Rightarrow> CustodyChallengeWitness" where
  "canonicalChallengeWitness w = w\<lparr>cw_BroadcastTxIDs := sort (cw_BroadcastTxIDs w)\<rparr>"

definition canonicalExitWitness :: "CustodyExitWitness \<Rightarrow> CustodyExitWitness" where
  "canonicalExitWitness w = w"

definition canonicalCandidateIntentAck :: "CandidateIntentAck \<Rightarrow> CandidateIntentAck" where
  "canonicalCandidateIntentAck ack = ack"

definition canonical_proof :: "CustodyProof \<Rightarrow> CustodyProof" where
  "canonical_proof p = p\<lparr>
     cp_Signatures := slice_stable signature_less (cp_Signatures p),
     cp_SettlementWitness := map_option canonicalSettlementWitness (cp_SettlementWitness p),
     cp_RecoveryBundles :=
       slice_stable recovery_bundle_less (map canonicalRecoveryBundle (cp_RecoveryBundles p)),
     cp_RecoveryWitness := map_option canonicalRecoveryWitness (cp_RecoveryWitness p),
     cp_CandidateIntentAck := map_option canonicalCandidateIntentAck (cp_CandidateIntentAck p),
     cp_ChallengeBundle := map_option canonicalChallengeBundle (cp_ChallengeBundle p),
     cp_ChallengeWitness := map_option canonicalChallengeWitness (cp_ChallengeWitness p),
     cp_ExitWitness := map_option canonicalExitWitness (cp_ExitWitness p),
     cp_VTXORefs := sorted_refs (cp_VTXORefs p)\<rparr>"

definition canonicalTransition :: "CustodyTransition \<Rightarrow> CustodyTransition" where
  "canonicalTransition t = t\<lparr>
     ct_NextState := canonicalState (ct_NextState t),
     ct_Approvals := slice_stable signature_less (ct_Approvals t),
     ct_Proof := canonical_proof (ct_Proof t)\<rparr>"

section \<open>Digests\<close>

text \<open>\<open>json.Marshal\<close> cannot fail on these values, so \<open>mustJSON\<close> never panics.\<close>

definition mustJSON :: "json \<Rightarrow> string" where
  "mustJSON v = json_text v"

definition HashValue :: "json \<Rightarrow> string" where
  "HashValue v = EncodeToString (Sum256 (mustJSON v))"

definition HashLegalActions :: "json \<Rightarrow> string" where
  "HashLegalActions actions = HashValue actions"

definition HashPublicState :: "json \<Rightarrow> string" where
  "HashPublicState v = HashValue v"

definition unsigned_state :: "CustodyState \<Rightarrow> CustodyState" where
  "unsigned_state state = (canonicalState state)\<lparr>cs_StateHash := []\<rparr>"

definition HashCustodyState :: "CustodyState \<Rightarrow> string" where
  "HashCustodyState state = HashValue (CustodyState_json (unsigned_state state))"

definition HashCustodyTransition :: "(TxTreeNode \<Rightarrow> json) \<Rightarrow> CustodyTransition \<Rightarrow> string" where
  "HashCustodyTransition node_json transition =
     (let canonical = canonicalTransition transition;
          unsigned = canonical\<lparr>ct_Proof := (ct_Proof canonical)\<lparr>cp_TransitionHash := []\<rparr>\<rparr>
      in HashValue (CustodyTransition_json node_json unsigned))"

definition HashCustodyRecoveryBundle :: "CustodyRecoveryBundle \<Rightarrow> string" where
  "HashCustodyRecoveryBundle bundle =
     HashValue (CustodyRecoveryBundle_json ((canonicalRecoveryBundle bundle)\<lparr>rb_BundleHash := []\<rparr>))"

definition HashCustodyChallengeBundle :: "CustodyChallengeBundle \<Rightarrow> string" where
  "HashCustodyChallengeBundle bundle =
     HashValue (CustodyChallengeBundle_json ((canonicalChallengeBundle bundle)\<lparr>cb_BundleHash := []\<rparr>))"

definition empty_proof :: CustodyProof where
  "empty_proof = \<lparr>cp_ArkIntentID = [], cp_ArkTxID = [], cp_CandidateIntentAck = None,
     cp_ChallengeBundle = None, cp_ChallengeWitness = None, cp_ExitProofRef = [],
     cp_ExitWitness = None, cp_FinalizedAt = [], cp_RequestHash = [], cp_RecoveryBundles = [],
     cp_RecoveryWitness = None, cp_ReplayValidated = False, cp_SettlementWitness = None,
     cp_Signatures = [], cp_StateHash = [], cp_TurnAnchorHash = [], cp_TurnCandidateHash = [],
     cp_TransitionHash = [], cp_VTXORefs = []\<rparr>"

definition HashCustodyRequest :: "(TxTreeNode \<Rightarrow> json) \<Rightarrow> CustodyTransition \<Rightarrow> string" where
  "HashCustodyRequest node_json transition =
     (let canonical = canonicalTransition transition;
          unsigned = canonical\<lparr>ct_Approvals := [], ct_ArkIntentID := [], ct_ArkTxID := [],
            ct_Proof := (ct_Proof canonical)\<lparr>
              cp_CandidateIntentAck := None, cp_ChallengeBundle := None, cp_ChallengeWitness := None,
              cp_ArkIntentID := [], cp_ArkTxID := [], cp_ExitProofRef := [], cp_ExitWitness := None,
              cp_FinalizedAt := [], cp_RequestHash := [], cp_RecoveryBundles := [],
              cp_RecoveryWitness := None, cp_ReplayValidated := False, cp_SettlementWitness := None,
              cp_StateHash := [], cp_Signatures := [], cp_TurnAnchorHash := [],
              cp_TurnCandidateHash := [], cp_TransitionHash := [], cp_VTXORefs := []\<rparr>\<rparr>
      in HashValue (CustodyTransition_json node_json unsigned))"

lemma HashValue_digest: "HashValue v = digest_hex (json_text v)"
  by (simp add: HashValue_def mustJSON_def digest_hex_def)

lemma HashValue_not_Nil [simp]: "HashValue v \<noteq> []"
  by (simp add: HashValue_digest)

section \<open>The comparisons are orders\<close>

definition ref_key :: "VTXORef \<Rightarrow> string \<times> 32 word" where
  "ref_key r = (vr_TxID r, vr_VOut r)"

definition claim_key :: "StackClaim \<Rightarrow> int \<times> string" where
  "claim_key c = (sc_SeatIndex c, sc_PlayerID c)"

definition slice_key :: "PotSlice \<Rightarrow> int \<times> string" where
  "slice_key p = (ps_Sequence p, ps_PotID p)"

lemma compareVTXORefs_key:
  "compareVTXORefs l r = (if ref_key l < ref_key r then -1 else if ref_key r < ref_key l then 1 else 0)"
  by (auto simp: compareVTXORefs_def ref_key_def less_prod_def')

lemma sorted_refs_key: "sorted_refs = slice_stable (\<lambda>l r. ref_key l < ref_key r)"
proof -
  have "compareVTXORefs l r < 0 \<longleftrightarrow> ref_key l < ref_key r" for l r
    by (simp add: compareVTXORefs_key)
  then show ?thesis by (simp add: sorted_refs_def [abs_def])
qed

lemma stack_claim_less_key: "stack_claim_less = (\<lambda>l r. claim_key l < claim_key r)"
  by (auto simp: stack_claim_less_def claim_key_def less_prod_def' fun_eq_iff)

lemma pot_slice_less_key: "pot_slice_less = (\<lambda>l r. slice_key l < slice_key r)"
  by (auto simp: pot_slice_less_def slice_key_def less_prod_def' fun_eq_iff)

lemma recovery_output_less_key:
  "recovery_output_less =
     (\<lambda>l r. (ro_OwnerPlayerID l, ro_AmountSats l, ro_Script l) < (ro_OwnerPlayerID r, ro_AmountSats r, ro_Script r))"
  by (auto simp: recovery_output_less_def less_prod_def' fun_eq_iff)

lemma challenge_output_less_key:
  "challenge_output_less =
     (\<lambda>l r. (co_ClaimKey l, co_OwnerPlayerID l, co_AmountSats l, co_Script l)
        < (co_ClaimKey r, co_OwnerPlayerID r, co_AmountSats r, co_Script r))"
  by (auto simp: challenge_output_less_def less_prod_def' fun_eq_iff)

lemma compare_ref_lists_key:
  "compare_ref_lists ls rs = (if map ref_key ls < map ref_key rs then -1
     else if map ref_key rs < map ref_key ls then 1 else 0)"
  by (induction ls rs rule: compare_ref_lists.induct)
    (auto simp: compareVTXORefs_key Let_def)

lemma recovery_bundle_less_key:
  "recovery_bundle_less =
     (\<lambda>l r. (transition_kind_str (rb_Kind l), rb_BundleHash l, map ref_key (sorted_refs (rb_SourcePotRefs l)))
        < (transition_kind_str (rb_Kind r), rb_BundleHash r, map ref_key (sorted_refs (rb_SourcePotRefs r))))"
  by (auto simp: recovery_bundle_less_def compareVTXORefSlices_def compare_ref_lists_key less_prod_def'
      Let_def fun_eq_iff)

interpretation refs_order: three_way_compare compareVTXORefs
  by unfold_locales (auto simp: compareVTXORefs_key split: if_splits)

interpretation claims_order: strict_weak stack_claim_less
  unfolding stack_claim_less_key by (rule strict_weak_key)

interpretation slices_order: strict_weak pot_slice_less
  unfolding pot_slice_less_key by (rule strict_weak_key)

interpretation signatures_order: strict_weak signature_less
  unfolding signature_less_def [abs_def] by (rule strict_weak_key)

interpretation recovery_outputs_order: strict_weak recovery_output_less
  unfolding recovery_output_less_key by (rule strict_weak_key)

interpretation challenge_outputs_order: strict_weak challenge_output_less
  unfolding challenge_output_less_key by (rule strict_weak_key)

interpretation recovery_bundles_order: strict_weak recovery_bundle_less
  unfolding recovery_bundle_less_key by (rule strict_weak_key)

section \<open>What a state digest identifies\<close>

text \<open>
  The content of a custody state: the order of its claims, of its pot slices, of the references
  inside them, of the player lists the code sorts and of the contribution map does not matter, and
  neither does the stored hash.
\<close>

definition claim_content :: "StackClaim \<Rightarrow> StackClaim \<times> VTXORef multiset" where
  "claim_content c = (c\<lparr>sc_VTXORefs := []\<rparr>, mset (sc_VTXORefs c))"

definition slice_content where
  "slice_content p =
     (p\<lparr>ps_EligiblePlayerIDs := [], ps_ContributedPlayerIDs := [], ps_WinnerPlayerIDs := [],
        ps_VTXORefs := [], ps_Contributions := []\<rparr>,
      mset (ps_EligiblePlayerIDs p), mset (ps_ContributedPlayerIDs p), mset (ps_WinnerPlayerIDs p),
      mset (ps_VTXORefs p), mset (ps_Contributions p))"

definition state_content where
  "state_content s =
     (s\<lparr>cs_StackClaims := [], cs_PotSlices := [], cs_StateHash := [],
        cs_TimeoutPolicy := TimeoutPolicyOther (timeout_policy_str (cs_TimeoutPolicy s))\<rparr>,
      mset (map claim_content (cs_StackClaims s)), mset (map slice_content (cs_PotSlices s)))"

text \<open>No two claims share seat and player, no two slices share sequence and pot, no two references
  of one owner share an outpoint.\<close>

definition unambiguous :: "CustodyState \<Rightarrow> bool" where
  "unambiguous s \<longleftrightarrow>
     distinct (map claim_key (cs_StackClaims s)) \<and> distinct (map slice_key (cs_PotSlices s)) \<and>
     list_all (\<lambda>c. distinct (map ref_key (sc_VTXORefs c))) (cs_StackClaims s) \<and>
     list_all (\<lambda>p. distinct (map ref_key (ps_VTXORefs p)) \<and> distinct (map fst (ps_Contributions p)))
       (cs_PotSlices s)"

definition sorted_contributions :: "PotSlice \<Rightarrow> PotSlice" where
  "sorted_contributions p =
     p\<lparr>ps_Contributions := slice_stable (\<lambda>a b. fst a < fst b) (ps_Contributions p)\<rparr>"

lemma map_slice_stable:
  "(\<And>a b. lt (f a) (f b) = lt a b) \<Longrightarrow> map f (slice_stable lt xs) = slice_stable lt (map f xs)"
proof -
  assume lt: "\<And>a b. lt (f a) (f b) = lt a b"
  have "map f (insert_by lt x ys) = insert_by lt (f x) (map f ys)" for x ys
    by (induction ys) (auto simp: lt)
  then show ?thesis by (induction xs) simp_all
qed

lemma mset_map_content:
  assumes "mset (map c xs) = mset (map c ys)"
    and "\<And>x y. x \<in> set xs \<Longrightarrow> y \<in> set xs \<union> set ys \<Longrightarrow> c x = c y \<Longrightarrow> nf x = nf y"
  shows "mset (map nf xs) = mset (map nf ys)"
proof -
  define g where "g k = nf (SOME x. x \<in> set xs \<and> c x = k)" for k
  have g: "g (c y) = nf y" if "y \<in> set xs \<union> set ys" for y
  proof -
    have "c y \<in> c ` set xs" using that mset_eq_setD [OF assms(1)] by auto
    then have "\<exists>x. x \<in> set xs \<and> c x = c y" by auto
    from someI_ex [OF this] show ?thesis using assms(2) that by (auto simp: g_def)
  qed
  have "mset (map g (map c zs)) = mset (map nf zs)" if "set zs \<subseteq> set xs \<union> set ys" for zs
    using that g by (intro arg_cong [of _ _ mset]) auto
  moreover have "mset (map g (map c xs)) = mset (map g (map c ys))"
    using assms(1) by (metis mset_map)
  ultimately show ?thesis by simp
qed

lemma normal_forms_sorted:
  assumes "mset (map c xs) = mset (map c ys)"
    and "\<And>x y. x \<in> set xs \<Longrightarrow> y \<in> set xs \<union> set ys \<Longrightarrow> c x = c y \<Longrightarrow> nf x = nf y"
    and key: "\<And>x. key (nf x) = key x" and dist: "distinct (map key xs)"
  shows "map nf (slice_stable (\<lambda>a b. (key a :: 'k::linorder) < key b) xs)
       = map nf (slice_stable (\<lambda>a b. key a < key b) ys)"
proof -
  have "inj_on key (nf ` set xs)"
    using dist key by (auto simp: inj_on_def distinct_map)
  then have "slice_stable (\<lambda>a b. key a < key b) (map nf xs) = slice_stable (\<lambda>a b. key a < key b) (map nf ys)"
    using mset_map_content [OF assms(1,2)] by (intro slice_stable_perm) auto
  then show ?thesis by (simp add: map_slice_stable key)
qed

lemma refs_by_mset: "mset xs = mset ys \<Longrightarrow> distinct (map ref_key xs) \<Longrightarrow> sorted_refs xs = sorted_refs ys"
  unfolding sorted_refs_key by (rule slice_stable_perm) (auto simp: distinct_map)

lemma sort_by_mset: "mset xs = mset ys \<Longrightarrow> sortedStrings xs = sortedStrings ys"
  unfolding sortedStrings_def by (metis properties_for_sort mset_sort sorted_sort)

lemma mset_sorted [simp]: "mset (sorted_refs xs) = mset xs" "mset (sortedStrings ys) = mset ys"
  by (simp_all add: sorted_refs_def sortedStrings_def)

lemma claim_content_normal:
  "claim_content c = claim_content d \<Longrightarrow> distinct (map ref_key (sc_VTXORefs c))
    \<Longrightarrow> canonical_claim c = canonical_claim d"
  using refs_by_mset [of "sc_VTXORefs c" "sc_VTXORefs d"]
  by (cases c; cases d) (simp add: claim_content_def canonical_claim_def)

lemma slice_content_normal:
  "slice_content p = slice_content q \<Longrightarrow> distinct (map ref_key (ps_VTXORefs p))
    \<Longrightarrow> distinct (map fst (ps_Contributions p))
    \<Longrightarrow> sorted_contributions (canonical_slice p) = sorted_contributions (canonical_slice q)"
  using refs_by_mset [of "ps_VTXORefs p" "ps_VTXORefs q"]
    sort_by_mset [of "ps_EligiblePlayerIDs p" "ps_EligiblePlayerIDs q"]
    sort_by_mset [of "ps_ContributedPlayerIDs p" "ps_ContributedPlayerIDs q"]
    sort_by_mset [of "ps_WinnerPlayerIDs p" "ps_WinnerPlayerIDs q"]
    slice_stable_perm [of fst "ps_Contributions p" "ps_Contributions q"]
  by (cases p; cases q) (simp add: slice_content_def sorted_contributions_def canonical_slice_def distinct_map)

lemma PotSlice_json_sorted: "PotSlice_json (sorted_contributions p) = PotSlice_json p"
  using strict_weak.slice_idem [OF strict_weak_key [of "fst :: string \<times> int \<Rightarrow> string"]]
  by (simp add: PotSlice_json_def sorted_contributions_def map_json_def)

lemma VTXORef_json_inj [simp]: "VTXORef_json r = VTXORef_json s \<longleftrightarrow> r = s"
  by (auto simp: VTXORef_json_def struct_json_inj list_omit_inj inj_on_def intro: VTXORef.equality)

lemma StackClaim_json_inj [simp]: "StackClaim_json c = StackClaim_json d \<longleftrightarrow> c = d"
  by (auto simp: StackClaim_json_def struct_json_inj list_omit_inj inj_on_def intro: StackClaim.equality)

lemma map_json_inj: "map_json JInt m = map_json JInt n \<Longrightarrow> mset m = mset n"
proof -
  assume "map_json JInt m = map_json JInt n"
  then have "slice_stable (\<lambda>a b. fst a < fst b) m = slice_stable (\<lambda>a b. fst a < fst b) n"
    unfolding map_json_def json.inject
    by (rule map_injective) (auto intro!: injI)
  then show ?thesis by (metis mset_slice_stable)
qed

lemma PotSlice_json_content:
  "PotSlice_json p = PotSlice_json q \<Longrightarrow> slice_content p = slice_content q"
  by (auto simp: PotSlice_json_def struct_json_inj list_omit_inj list_or_null_inj inj_on_def
      slice_content_def dest: map_json_inj intro: PotSlice.equality)

lemma claim_content_canonical [simp]: "claim_content (canonical_claim c) = claim_content c"
  by (simp add: claim_content_def canonical_claim_def)

lemma slice_content_canonical [simp]: "slice_content (canonical_slice p) = slice_content p"
  by (simp add: slice_content_def canonical_slice_def)

lemma content_unsigned [simp]: "state_content (unsigned_state s) = state_content s"
  by (simp add: state_content_def unsigned_state_def canonicalState_def comp_def)

lemma CustodyState_json_content:
  assumes "CustodyState_json s = CustodyState_json t"
  shows "state_content s = state_content t"
proof -
  have eqs: "list_or_null PotSlice_json (cs_PotSlices s) = list_or_null PotSlice_json (cs_PotSlices t)"
    "s\<lparr>cs_StackClaims := [], cs_PotSlices := [], cs_StateHash := [],
        cs_TimeoutPolicy := TimeoutPolicyOther (timeout_policy_str (cs_TimeoutPolicy s))\<rparr>
     = t\<lparr>cs_StackClaims := [], cs_PotSlices := [], cs_StateHash := [],
        cs_TimeoutPolicy := TimeoutPolicyOther (timeout_policy_str (cs_TimeoutPolicy t))\<rparr>"
    "cs_StackClaims s = cs_StackClaims t"
    using assms
    by (auto simp: CustodyState_json_def struct_json_inj list_or_null_inj inj_on_def
        intro: CustodyState.equality)
  from eqs(1) have "map PotSlice_json (cs_PotSlices s) = map PotSlice_json (cs_PotSlices t)"
    by (auto simp: list_or_null_def split: if_splits)
  then have "map slice_content (cs_PotSlices s) = map slice_content (cs_PotSlices t)"
    by (auto simp: list_eq_iff_nth_eq dest!: PotSlice_json_content map_eq_imp_length_eq)
  with eqs show ?thesis by (simp add: state_content_def)
qed

lemma content_unsigned_json:
  assumes "unambiguous s" "unambiguous t" "state_content s = state_content t"
  shows "CustodyState_json (unsigned_state s) = CustodyState_json (unsigned_state t)"
proof -
  note u = assms(1,2) [unfolded unambiguous_def list_all_iff]
  have claims: "map canonical_claim (slice_stable stack_claim_less (cs_StackClaims s))
      = map canonical_claim (slice_stable stack_claim_less (cs_StackClaims t))"
    unfolding stack_claim_less_key
  proof (rule normal_forms_sorted [where c = claim_content])
    show "claim_key (canonical_claim c) = claim_key c" for c
      by (simp add: claim_key_def canonical_claim_def)
  qed (use u assms(3) claim_content_normal in \<open>auto simp: state_content_def\<close>)
  let ?nf = "sorted_contributions \<circ> canonical_slice"
  have slices: "map ?nf (slice_stable pot_slice_less (cs_PotSlices s))
      = map ?nf (slice_stable pot_slice_less (cs_PotSlices t))"
    unfolding pot_slice_less_key
  proof (rule normal_forms_sorted [where c = slice_content])
    show "slice_key (?nf p) = slice_key p" for p
      by (simp add: slice_key_def canonical_slice_def sorted_contributions_def)
  qed (use u assms(3) slice_content_normal in \<open>auto simp: state_content_def\<close>)
  from arg_cong [OF slices, of "map PotSlice_json"]
  have "map PotSlice_json (cs_PotSlices (unsigned_state s)) = map PotSlice_json (cs_PotSlices (unsigned_state t))"
    by (simp add: PotSlice_json_sorted unsigned_state_def canonicalState_def comp_def)
  then have "list_or_null PotSlice_json (cs_PotSlices (unsigned_state s))
      = list_or_null PotSlice_json (cs_PotSlices (unsigned_state t))"
    by (auto simp: list_or_null_def)
  with claims assms(3) show ?thesis
    by (cases s; cases t)
      (simp add: CustodyState_json_def state_content_def unsigned_state_def canonicalState_def)
qed

definition hashed_text :: "CustodyState \<Rightarrow> string" where
  "hashed_text s = mustJSON (CustodyState_json (unsigned_state s))"

definition hashable :: "CustodyState \<Rightarrow> bool" where
  "hashable s \<longleftrightarrow> unambiguous s \<and> wf_json (CustodyState_json (unsigned_state s))"

interpretation state_digest: content_digest "\<lambda>s. CustodyState_json (unsigned_state s)" state_content hashable
proof
  show "wf_json (CustodyState_json (unsigned_state s))" if "hashable s" for s
    using that by (simp add: hashable_def)
  show "CustodyState_json (unsigned_state s) = CustodyState_json (unsigned_state t)
      \<longleftrightarrow> state_content s = state_content t" if "hashable s" "hashable t" for s t
    using that content_unsigned_json CustodyState_json_content [of "unsigned_state s" "unsigned_state t"]
    by (auto simp: hashable_def)
qed

text \<open>C33. The digest of a custody state identifies exactly its content. For states whose claims,
  pot slices and references have distinct keys and whose strings are valid UTF-8,
  \<open>HashCustodyState\<close> agrees on two states exactly when they have the same fields (the stored hash
  apart) and the same claims, slices, references and contributions in whatever order they are
  listed, or when their two hashed texts are a collision of SHA-256.\<close>

theorem state_hash_identifies_content:
  assumes "hashable s" and "hashable t"
  shows "HashCustodyState s = HashCustodyState t
     \<longleftrightarrow> state_content s = state_content t \<or> sha_collision (hashed_text s) (hashed_text t)"
  using state_digest.digest_eq_iff [OF assms]
  by (simp add: HashCustodyState_def HashValue_digest state_digest.text_of_def hashed_text_def mustJSON_def)

definition demo_ref :: "nat \<Rightarrow> VTXORef" where
  "demo_ref n = \<lparr>vr_AmountSats = 500, vr_ArkIntentID = [], vr_ArkTxID = [], vr_ExpiresAt = [],
     vr_OwnerPlayerID = ''p'', vr_Script = [], vr_Tapscripts = [], vr_TxID = ''tx'', vr_VOut = of_nat n\<rparr>"

definition demo_claim :: "int \<Rightarrow> string \<Rightarrow> VTXORef list \<Rightarrow> StackClaim" where
  "demo_claim seat player refs = \<lparr>sc_AllIn = False, sc_AmountSats = 1000, sc_Folded = False,
     sc_PlayerID = player, sc_ReservedFeeSats = 0, sc_RoundContributionSats = 0, sc_SeatIndex = seat,
     sc_Status = ''active'', sc_TotalContributionSats = 0, sc_VTXORefs = refs\<rparr>"

definition demo_custody :: "StackClaim list \<Rightarrow> string \<Rightarrow> CustodyState" where
  "demo_custody claims h = \<lparr>cs_ActionDeadlineAt = [], cs_ActingPlayerID = [], cs_ChallengeAnchor = [],
     cs_CreatedAt = [], cs_CustodySeq = 1, cs_DecisionIndex = 0, cs_Epoch = 0, cs_HandID = [],
     cs_HandNumber = 0, cs_LegalActionsHash = [], cs_PotSlices = [], cs_PrevStateHash = [],
     cs_PublicStateHash = [], cs_StackClaims = claims, cs_StateHash = h, cs_TableID = ''t'',
     cs_TimeoutPolicy = TimeoutPolicyAutoFold, cs_TranscriptRoot = []\<rparr>"

lemma demo_custody_hashable:
  "hashable (demo_custody [demo_claim 0 ''a'' [demo_ref 1, demo_ref 0], demo_claim 1 ''b'' []] ''h'')"
  "hashable (demo_custody [demo_claim 1 ''b'' [], demo_claim 0 ''a'' [demo_ref 0, demo_ref 1]] [])"
  by code_simp+

theorem state_hash_identifies_content_witness:
  "HashCustodyState (demo_custody [demo_claim 0 ''a'' [demo_ref 1, demo_ref 0], demo_claim 1 ''b'' []] ''h'')
   = HashCustodyState (demo_custody [demo_claim 1 ''b'' [], demo_claim 0 ''a'' [demo_ref 0, demo_ref 1]] [])"
  unfolding state_hash_identifies_content [OF demo_custody_hashable]
  by (intro disjI1) (simp add: state_content_def demo_custody_def demo_claim_def demo_ref_def claim_content_def)

end
