(* ===== verification/Custody_State.thy ===== *)
theory Custody_State
  imports Custody_Hash
begin

text \<open>
  \<open>internal/tablecustody/state.go\<close>: building a custody state from the players' balances, building
  and validating transitions, and the resolution of an expired action deadline. A function that
  returns an \<open>error\<close> is a sum; a validation is the list of its checks in the order of the source,
  of which the first that fails is returned. The encoding of the Ark library's tree nodes is the
  parameter \<open>node_json\<close>.
\<close>

section \<open>Sequences of checks\<close>

definition fail_if :: "bool \<Rightarrow> string \<Rightarrow> unit res" where
  "fail_if b msg = (if b then Inl (Err msg) else Inr ())"

fun first_error :: "unit res list \<Rightarrow> unit res" where
  "first_error [] = Inr ()"
| "first_error (Inl e # _) = Inl e"
| "first_error (Inr _ # cs) = first_error cs"

lemma fail_if_ok [simp]: "fail_if b msg = Inr () \<longleftrightarrow> \<not> b"
  by (simp add: fail_if_def)

lemma first_error_ok: "first_error cs = Inr () \<longleftrightarrow> (\<forall>c \<in> set cs. c = Inr ())"
  by (induction cs rule: first_error.induct) auto

lemma first_error_simps [simp]:
  "first_error (c # cs) = Inr () \<longleftrightarrow> c = Inr () \<and> first_error cs = Inr ()"
  "first_error (cs @ ds) = Inr () \<longleftrightarrow> first_error cs = Inr () \<and> first_error ds = Inr ()"
  by (auto simp: first_error_ok)

section \<open>Validating a state\<close>

text \<open>The loop over the stack claims; the result is the set \<open>seenPlayers\<close>.\<close>

fun scan_claims :: "StackClaim list \<Rightarrow> string list \<Rightarrow> string list res" where
  "scan_claims [] seenPlayers = Inr seenPlayers"
| "scan_claims (stack # rest) seenPlayers =
     (if sc_PlayerID stack = [] then Inl (Err ''custody stack claim is missing player id'')
      else if sc_PlayerID stack \<in> set seenPlayers
        then Inl (Err ''duplicate custody stack claim for %s'')
      else if sc_AmountSats stack < 0 \<or> sc_ReservedFeeSats stack < 0
          \<or> sc_TotalContributionSats stack < 0 \<or> sc_RoundContributionSats stack < 0
        then Inl (Err ''custody stack claim for %s cannot be negative'')
      else if sc_RoundContributionSats stack > sc_TotalContributionSats stack
        then Inl (Err ''custody stack claim round contribution exceeds total for %s'')
      else scan_claims rest (sc_PlayerID stack # seenPlayers))"

text \<open>The loop over one slice's contributions. A Go map is visited in no fixed order, which only
  decides which of the two errors is reported when both apply.\<close>

fun scan_contributions ::
    "string list \<Rightarrow> (string, int) gomap \<Rightarrow> int \<Rightarrow> (string, int) gomap \<Rightarrow> (int \<times> (string, int) gomap) res" where
  "scan_contributions seenPlayers [] acc matched = Inr (acc, matched)"
| "scan_contributions seenPlayers ((playerID, amount) # rest) acc matched =
     (if amount < 0 then Inl (Err ''custody pot slice %s contribution for %s cannot be negative'')
      else if playerID \<notin> set seenPlayers
        then Inl (Err ''custody pot slice %s references unknown player %s'')
      else scan_contributions seenPlayers rest (acc + amount) (madd playerID amount matched))"

fun scan_slices ::
    "string list \<Rightarrow> PotSlice list \<Rightarrow> (string, int) gomap \<Rightarrow> (string, int) gomap res" where
  "scan_slices seenPlayers [] matched = Inr matched"
| "scan_slices seenPlayers (pot # rest) matched =
     (if ps_TotalSats pot < 0 \<or> ps_CapSats pot < 0
        then Inl (Err ''custody pot slice %s cannot be negative'')
      else if ps_EligiblePlayerIDs pot = [] \<and> ps_TotalSats pot > 0
        then Inl (Err ''custody pot slice %s is missing eligible players'')
      else case scan_contributions seenPlayers (ps_Contributions pot) 0 matched of
        Inl e \<Rightarrow> Inl e
      | Inr (acc, matched') \<Rightarrow>
          if acc \<noteq> ps_TotalSats pot then Inl (Err ''custody pot slice %s total mismatch'')
          else scan_slices seenPlayers rest matched')"

definition check_floor :: "(string, int) gomap \<Rightarrow> StackClaim \<Rightarrow> unit res" where
  "check_floor matched stack =
     (let matchedContribution = mget matched (sc_PlayerID stack);
          impliedUnmatched = sc_TotalContributionSats stack - matchedContribution in
      first_error
       [fail_if (matchedContribution > sc_TotalContributionSats stack)
          ''custody pot slices overclaim contributions for %s'',
        fail_if (sc_AmountSats stack < impliedUnmatched)
          ''custody stack claim for %s is below unmatched contribution floor''])"

definition ValidateState :: "CustodyState \<Rightarrow> unit res" where
  "ValidateState state =
     (if cs_TableID state = [] then Inl (Err ''custody state table id is required'')
      else if cs_StackClaims state = [] then Inl (Err ''custody state must contain stack claims'')
      else case scan_claims (cs_StackClaims state) [] of
        Inl e \<Rightarrow> Inl e
      | Inr seenPlayers \<Rightarrow>
         (case scan_slices seenPlayers (cs_PotSlices state) [] of
            Inl e \<Rightarrow> Inl e
          | Inr matched \<Rightarrow>
              if cs_StateHash state \<noteq> [] \<and> cs_StateHash state \<noteq> HashCustodyState state
              then Inl (Err ''custody state hash mismatch'')
              else first_error (map (check_floor matched) (cs_StackClaims state))))"

section \<open>Building a state\<close>

definition totalPotFromSlices :: "PotSlice list \<Rightarrow> int" where
  "totalPotFromSlices slices = (\<Sum>s\<leftarrow>slices. ps_TotalSats s)"

definition validateConservedValue :: "CustodyState \<Rightarrow> int \<Rightarrow> unit res" where
  "validateConservedValue state total1 =
     (let current = totalPotFromSlices (cs_PotSlices state)
        + (\<Sum>c\<leftarrow>cs_StackClaims state. sc_AmountSats c + sc_ReservedFeeSats c)
      in fail_if (current \<noteq> total1) ''custody value is not conserved'')"

definition nextCustodySeq :: "CustodyState option \<Rightarrow> int" where
  "nextCustodySeq previous = (case previous of None \<Rightarrow> 1 | Some p \<Rightarrow> cs_CustodySeq p + 1)"

definition previousStateHash :: "CustodyState option \<Rightarrow> string" where
  "previousStateHash previous = (case previous of None \<Rightarrow> [] | Some p \<Rightarrow> cs_StateHash p)"

text \<open>The loop that checks the balances and collects the participants and the total value.\<close>

fun scan_balances ::
    "PlayerBalance list \<Rightarrow> SliceParticipant list \<Rightarrow> int \<Rightarrow> (SliceParticipant list \<times> int) res" where
  "scan_balances [] participants totalValue = Inr (participants, totalValue)"
| "scan_balances (b # rest) participants totalValue =
     (if pb_PlayerID b = [] then Inl (Err ''custody state is missing player id'')
      else if pb_SeatIndex b < 0 then Inl (Err ''custody state seat index for %s is invalid'')
      else if pb_StackSats b < 0 \<or> pb_ReservedFeeSats b < 0 \<or> pb_TotalContributionSats b < 0
          \<or> pb_RoundContributionSats b < 0
        then Inl (Err ''custody state balance for %s cannot be negative'')
      else scan_balances rest
        (participants @ [\<lparr>sp_ContributionSats = pb_TotalContributionSats b, sp_Folded = pb_Folded b,
            sp_PlayerID = pb_PlayerID b, sp_SeatIndex = pb_SeatIndex b\<rparr>])
        (totalValue + (pb_StackSats b + pb_ReservedFeeSats b + pb_TotalContributionSats b)))"

definition claim_of :: "(string, int) gomap \<Rightarrow> PlayerBalance \<Rightarrow> StackClaim" where
  "claim_of unmatched b =
     \<lparr>sc_AllIn = pb_AllIn b,
      sc_AmountSats = pb_StackSats b + mget unmatched (pb_PlayerID b),
      sc_Folded = pb_Folded b,
      sc_PlayerID = pb_PlayerID b,
      sc_ReservedFeeSats = pb_ReservedFeeSats b,
      sc_RoundContributionSats = pb_RoundContributionSats b,
      sc_SeatIndex = pb_SeatIndex b,
      sc_Status = pb_Status b,
      sc_TotalContributionSats = pb_TotalContributionSats b,
      sc_VTXORefs = pb_VTXORefs b\<rparr>"

definition state_of :: "StateBinding \<Rightarrow> StackClaim list \<Rightarrow> PotSlice list \<Rightarrow> CustodyState option \<Rightarrow> CustodyState" where
  "state_of binding stackClaims slices previous =
     \<lparr>cs_ActionDeadlineAt = sb_ActionDeadlineAt binding,
      cs_ActingPlayerID = sb_ActingPlayerID binding,
      cs_ChallengeAnchor = sb_ChallengeAnchor binding,
      cs_CreatedAt = sb_CreatedAt binding,
      cs_CustodySeq = nextCustodySeq previous,
      cs_DecisionIndex = sb_DecisionIndex binding,
      cs_Epoch = sb_Epoch binding,
      cs_HandID = sb_HandID binding,
      cs_HandNumber = sb_HandNumber binding,
      cs_LegalActionsHash = sb_LegalActionsHash binding,
      cs_PotSlices = slices,
      cs_PrevStateHash = previousStateHash previous,
      cs_PublicStateHash = sb_PublicStateHash binding,
      cs_StackClaims = stackClaims,
      cs_StateHash = [],
      cs_TableID = sb_TableID binding,
      cs_TimeoutPolicy = sb_TimeoutPolicy binding,
      cs_TranscriptRoot = sb_TranscriptRoot binding\<rparr>"

definition BuildState :: "StateBinding \<Rightarrow> PlayerBalance list \<Rightarrow> CustodyState option \<Rightarrow> CustodyState res" where
  "BuildState binding balances previous =
     (if sb_TableID binding = [] then Inl (Err ''custody state is missing table id'')
      else case scan_balances balances [] 0 of
        Inl e \<Rightarrow> Inl e
      | Inr (participants, totalValue) \<Rightarrow>
         (case DerivePotStructure participants of
            Inl e \<Rightarrow> Inl e
          | Inr derivation \<Rightarrow>
             (let stackClaims = map (claim_of (pd_UnmatchedContributionSats derivation)) balances;
                  state = state_of binding stackClaims (pd_Slices derivation) previous in
              case ValidateState state of
                Inl e \<Rightarrow> Inl e
              | Inr _ \<Rightarrow>
                 (let state' = state\<lparr>cs_StateHash := HashCustodyState state\<rparr> in
                  case validateConservedValue state' totalValue of
                    Inl e \<Rightarrow> Inl e
                  | Inr _ \<Rightarrow> Inr state'))))"

section \<open>Validating a transition\<close>

definition count_witnesses :: "CustodyProof \<Rightarrow> nat" where
  "count_witnesses p =
     (if cp_SettlementWitness p \<noteq> None then 1 else 0) + (if cp_RecoveryWitness p \<noteq> None then 1 else 0)
     + (if cp_ChallengeWitness p \<noteq> None then 1 else 0) + (if cp_ExitWitness p \<noteq> None then 1 else 0)"

definition check_previous :: "CustodyState option \<Rightarrow> CustodyTransition \<Rightarrow> unit res list" where
  "check_previous previous t =
     (case previous of
        None \<Rightarrow> []
      | Some p \<Rightarrow>
         [fail_if (ct_PrevStateHash t \<noteq> cs_StateHash p) ''custody transition prev state hash mismatch'',
          fail_if (ct_CustodySeq t \<le> cs_CustodySeq p) ''custody transition seq must advance'',
          fail_if (cs_TableID (ct_NextState t) \<noteq> cs_TableID p) ''custody transition table mismatch''])"

definition check_links :: "CustodyTransition \<Rightarrow> unit res list" where
  "check_links t =
     (let s = ct_NextState t; p = ct_Proof t in
      [fail_if (ct_NextStateHash t \<noteq> cs_StateHash s) ''custody transition next state hash mismatch'',
       fail_if (cs_TableID s \<noteq> ct_TableID t) ''custody transition next state table mismatch'',
       fail_if (cs_PrevStateHash s \<noteq> ct_PrevStateHash t) ''custody transition next state prev hash mismatch'',
       fail_if (cs_CustodySeq s \<noteq> ct_CustodySeq t) ''custody transition seq mismatch'',
       fail_if (cs_DecisionIndex s \<noteq> ct_DecisionIndex t) ''custody transition decision mismatch'',
       fail_if (ct_ActingPlayerID t \<noteq> cs_ActingPlayerID s) ''custody transition acting player mismatch'',
       fail_if (cp_StateHash p \<noteq> [] \<and> cp_StateHash p \<noteq> ct_NextStateHash t)
         ''custody proof state hash mismatch'',
       fail_if (cp_ArkIntentID p \<noteq> [] \<and> ct_ArkIntentID t \<noteq> [] \<and> cp_ArkIntentID p \<noteq> ct_ArkIntentID t)
         ''custody proof intent mismatch'',
       fail_if (cp_ArkTxID p \<noteq> [] \<and> ct_ArkTxID t \<noteq> [] \<and> cp_ArkTxID p \<noteq> ct_ArkTxID t)
         ''custody proof txid mismatch'',
       fail_if (count_witnesses p > 1) ''custody proof cannot carry multiple witness types''])"

definition check_settlement_witness :: "CustodyTransition \<Rightarrow> unit res list" where
  "check_settlement_witness t =
     (let p = ct_Proof t in
      case cp_SettlementWitness p of
        None \<Rightarrow> []
      | Some w \<Rightarrow>
         [fail_if (ct_ArkIntentID t \<noteq> [] \<and> sw_ArkIntentID w \<noteq> ct_ArkIntentID t)
            ''custody settlement witness intent mismatch'',
          fail_if (cp_ArkIntentID p \<noteq> [] \<and> sw_ArkIntentID w \<noteq> cp_ArkIntentID p)
            ''custody proof witness intent mismatch'',
          fail_if (ct_ArkTxID t \<noteq> [] \<and> sw_ArkTxID w \<noteq> ct_ArkTxID t)
            ''custody settlement witness txid mismatch'',
          fail_if (cp_ArkTxID p \<noteq> [] \<and> sw_ArkTxID w \<noteq> cp_ArkTxID p)
            ''custody proof witness txid mismatch'',
          fail_if (cp_FinalizedAt p \<noteq> [] \<and> sw_FinalizedAt w \<noteq> cp_FinalizedAt p)
            ''custody proof witness finalized timestamp mismatch''])"

definition check_recovery_bundle :: "CustodyRecoveryBundle \<Rightarrow> unit res" where
  "check_recovery_bundle b =
     first_error
      [fail_if (transition_kind_str (rb_Kind b) = []) ''custody recovery bundle %d is missing a kind'',
       fail_if (rb_SourcePotRefs b = []) ''custody recovery bundle %d is missing source pot refs'',
       fail_if (rb_AuthorizedOutputs b = []) ''custody recovery bundle %d is missing authorized outputs'',
       fail_if (rb_SignedPSBT b = []) ''custody recovery bundle %d is missing signed psbt'',
       fail_if (rb_BundleHash b \<noteq> [] \<and> rb_BundleHash b \<noteq> HashCustodyRecoveryBundle b)
         ''custody recovery bundle %d hash mismatch'']"

definition no_ark_ids :: "CustodyTransition \<Rightarrow> bool" where
  "no_ark_ids t \<longleftrightarrow> \<not> (ct_ArkIntentID t \<noteq> [] \<or> ct_ArkTxID t \<noteq> []
     \<or> cp_ArkIntentID (ct_Proof t) \<noteq> [] \<or> cp_ArkTxID (ct_Proof t) \<noteq> [])"

definition kind_in :: "TransitionKind \<Rightarrow> TransitionKind list \<Rightarrow> bool" where
  "kind_in k ks \<longleftrightarrow> transition_kind_str k \<in> set (map transition_kind_str ks)"

definition check_recovery_witness :: "CustodyTransition \<Rightarrow> unit res list" where
  "check_recovery_witness t =
     (let p = ct_Proof t in
      case cp_RecoveryWitness p of
        None \<Rightarrow> []
      | Some w \<Rightarrow>
         [fail_if (\<not> kind_in (ct_Kind t) [TransitionKindTimeout, TransitionKindShowdownPayout])
            ''custody recovery witness is only valid for timeout or showdown-payout transitions'',
          fail_if (rw_BundleHash w = []) ''custody recovery witness is missing bundle hash'',
          fail_if (rw_RecoveryTxID w = []) ''custody recovery witness is missing recovery txid'',
          fail_if (rw_BroadcastTxIDs w = []) ''custody recovery witness is missing broadcast txids'',
          fail_if (cp_FinalizedAt p \<noteq> [] \<and> rw_ExecutedAt w \<noteq> [] \<and> rw_ExecutedAt w \<noteq> cp_FinalizedAt p)
            ''custody recovery witness finalized timestamp mismatch'',
          fail_if (\<not> no_ark_ids t) ''custody recovery witness cannot coexist with Ark settlement ids''])"

definition check_challenge_bundle :: "CustodyTransition \<Rightarrow> unit res list" where
  "check_challenge_bundle t =
     (case cp_ChallengeBundle (ct_Proof t) of
        None \<Rightarrow> []
      | Some b \<Rightarrow>
         [fail_if (transition_kind_str (cb_Kind b) = []) ''custody challenge bundle is missing a kind'',
          fail_if (cb_SourceRefs b = []) ''custody challenge bundle is missing source refs'',
          fail_if (cb_AuthorizedOutputs b = []) ''custody challenge bundle is missing authorized outputs'',
          fail_if (cb_SignedPSBT b = []) ''custody challenge bundle is missing signed psbt'',
          fail_if (cb_BundleHash b \<noteq> [] \<and> cb_BundleHash b \<noteq> HashCustodyChallengeBundle b)
            ''custody challenge bundle hash mismatch''])"

definition check_challenge_witness :: "CustodyTransition \<Rightarrow> unit res list" where
  "check_challenge_witness t =
     (let p = ct_Proof t in
      case cp_ChallengeWitness p of
        None \<Rightarrow> []
      | Some w \<Rightarrow>
         [fail_if (\<not> kind_in (ct_Kind t) [TransitionKindAction, TransitionKindTimeout,
              TransitionKindTurnChallengeOpen, TransitionKindTurnChallengeEscape])
            ''custody challenge witness is only valid for action, timeout, turn-challenge-open, or turn-challenge-escape transitions'',
          fail_if (cw_BundleHash w = []) ''custody challenge witness is missing bundle hash'',
          fail_if (cw_TransactionID w = []) ''custody challenge witness is missing transaction id'',
          fail_if (cw_BroadcastTxIDs w = []) ''custody challenge witness is missing broadcast txids'',
          fail_if (cp_FinalizedAt p \<noteq> [] \<and> cw_ExecutedAt w \<noteq> [] \<and> cw_ExecutedAt w \<noteq> cp_FinalizedAt p)
            ''custody challenge witness finalized timestamp mismatch'',
          fail_if (\<not> no_ark_ids t) ''custody challenge witness cannot coexist with Ark settlement ids'',
          fail_if (cp_ChallengeBundle p = None) ''custody challenge witness is missing its bundle'',
          fail_if (case cp_ChallengeBundle p of None \<Rightarrow> False
              | Some b \<Rightarrow> cb_BundleHash b \<noteq> [] \<and> cb_BundleHash b \<noteq> cw_BundleHash w)
            ''custody challenge witness bundle hash mismatch''])"

fun scan_broadcast :: "CustodyExitTransaction list \<Rightarrow> string list \<Rightarrow> string list res" where
  "scan_broadcast [] seenBroadcast = Inr seenBroadcast"
| "scan_broadcast (tx # rest) seenBroadcast =
     (if et_TransactionID tx = []
        then Inl (Err ''custody exit witness broadcast transaction %d is missing a txid'')
      else if et_TransactionHex tx = []
        then Inl (Err ''custody exit witness broadcast transaction %d is missing tx hex'')
      else if et_TransactionID tx \<in> set seenBroadcast
        then Inl (Err ''custody exit witness broadcast transaction %d is duplicated'')
      else scan_broadcast rest (et_TransactionID tx # seenBroadcast))"

definition check_exit_witness :: "CustodyTransition \<Rightarrow> unit res list" where
  "check_exit_witness t =
     (case cp_ExitWitness (ct_Proof t) of
        None \<Rightarrow> []
      | Some w \<Rightarrow>
         [fail_if (\<not> kind_in (ct_Kind t) [TransitionKindEmergencyExit])
            ''custody exit witness is only valid for emergency-exit transitions'',
          fail_if (ew_BroadcastTransactions w = []) ''custody exit witness is missing broadcast transactions'',
          (case scan_broadcast (ew_BroadcastTransactions w) [] of
             Inl e \<Rightarrow> Inl e
           | Inr seenBroadcast \<Rightarrow>
              (case ew_SweepTransaction w of
                 None \<Rightarrow> Inr ()
               | Some sweep \<Rightarrow>
                  first_error
                   [fail_if (et_TransactionID sweep = [])
                      ''custody exit witness sweep transaction is missing a txid'',
                    fail_if (et_TransactionHex sweep = [])
                      ''custody exit witness sweep transaction is missing tx hex'',
                    fail_if (et_TransactionID sweep \<in> set seenBroadcast)
                      ''custody exit witness sweep transaction duplicates a broadcast txid'']))])"

definition ValidateTransition ::
    "(TxTreeNode \<Rightarrow> json) \<Rightarrow> CustodyState option \<Rightarrow> CustodyTransition \<Rightarrow> unit res" where
  "ValidateTransition node_json previous t =
     first_error
      ([fail_if (ct_TableID t = []) ''custody transition table id is required'',
        ValidateState (ct_NextState t)]
       @ check_previous previous t
       @ check_links t
       @ check_settlement_witness t
       @ map check_recovery_bundle (cp_RecoveryBundles (ct_Proof t))
       @ check_recovery_witness t
       @ check_challenge_bundle t
       @ check_challenge_witness t
       @ check_exit_witness t
       @ [fail_if (cp_TransitionHash (ct_Proof t) \<noteq> []
              \<and> cp_TransitionHash (ct_Proof t) \<noteq> HashCustodyTransition node_json t)
            ''custody transition hash mismatch''])"

section \<open>Building a transition\<close>

text \<open>The transition is returned together with the result of its own validation; \<open>None\<close> is the zero
  transition that accompanies an error of \<open>BuildState\<close>.\<close>

definition transition_of ::
    "TransitionKind \<Rightarrow> StateBinding \<Rightarrow> CustodyState \<Rightarrow> ActionDescriptor option \<Rightarrow> TimeoutResolution option
     \<Rightarrow> CustodyTransition" where
  "transition_of kind binding nextState action timeout =
     \<lparr>ct_Action = action, ct_ActingPlayerID = sb_ActingPlayerID binding, ct_Approvals = [],
      ct_ArkIntentID = [], ct_ArkTxID = [], ct_CustodySeq = cs_CustodySeq nextState,
      ct_DecisionIndex = sb_DecisionIndex binding, ct_Kind = kind, ct_NextState = nextState,
      ct_NextStateHash = cs_StateHash nextState, ct_PrevStateHash = cs_PrevStateHash nextState,
      ct_Proof = empty_proof\<lparr>cp_ReplayValidated := True, cp_StateHash := cs_StateHash nextState\<rparr>,
      ct_ProposedAt = [], ct_ProposedBy = [], ct_TableID = sb_TableID binding,
      ct_TimeoutResolution = timeout, ct_TransitionID = []\<rparr>"

definition BuildTransition ::
    "(TxTreeNode \<Rightarrow> json) \<Rightarrow> TransitionKind \<Rightarrow> StateBinding \<Rightarrow> PlayerBalance list \<Rightarrow> CustodyState option
     \<Rightarrow> ActionDescriptor option \<Rightarrow> TimeoutResolution option \<Rightarrow> (CustodyTransition option \<times> unit res)" where
  "BuildTransition node_json kind binding balances previous action timeout =
     (case BuildState binding balances previous of
        Inl e \<Rightarrow> (None, Inl e)
      | Inr nextState \<Rightarrow>
         (let transition = transition_of kind binding nextState action timeout;
            transition' = transition\<lparr>ct_Proof := (ct_Proof transition)
              \<lparr>cp_TransitionHash := HashCustodyTransition node_json transition\<rparr>\<rparr>
          in (Some transition', ValidateTransition node_json previous transition')))"

definition BuildTimeoutResolution ::
    "TimeoutPolicy \<Rightarrow> string \<Rightarrow> string list \<Rightarrow> string list \<Rightarrow> TimeoutResolution" where
  "BuildTimeoutResolution policy actingPlayerID legalActionTypes contestedPlayerIDs =
     (let resolution = \<lparr>tr_ActionType = [], tr_ActingPlayerID = actingPlayerID, tr_DeadPlayerIDs = [],
            tr_LostEligibilityPlayerIDs = [], tr_Policy = policy, tr_Reason = ''action deadline expired''\<rparr>;
          autoCheck = list_ex (\<lambda>actionType. actionType = ''check'') legalActionTypes in
      if timeout_policy_str policy = ''auto-check-or-fold'' \<and> autoCheck
      then resolution\<lparr>tr_ActionType := ''check''\<rparr>
      else resolution\<lparr>tr_ActionType := ''fold'', tr_LostEligibilityPlayerIDs := contestedPlayerIDs,
             tr_DeadPlayerIDs := contestedPlayerIDs\<rparr>)"

text \<open>\<open>None\<close> is a nil slice, written \<open>null\<close>; the keys of the map are written in order.\<close>

definition BuildExitProofRef ::
    "CustodyState \<Rightarrow> string \<Rightarrow> VTXORef list option \<Rightarrow> string list option \<Rightarrow> string" where
  "BuildExitProofRef state playerID refs txids =
     HashValue (JObj
       [(''exitTxids'', case txids of None \<Rightarrow> JNull | Some ts \<Rightarrow> JArr (map JStr ts)),
        (''playerId'', JStr playerID),
        (''refs'', case refs of None \<Rightarrow> JNull | Some rs \<Rightarrow> JArr (map VTXORef_json rs)),
        (''stateHash'', JStr (cs_StateHash state)),
        (''tableId'', JStr (cs_TableID state))])"

end
