(* ===== verification/Hand_Records.thy ===== *)
theory Hand_Records
  imports Table_Types Holdem Mental Custody_State
begin

text \<open>
  \<open>internal/meshruntime/hand.go\<close>, first part: finding records in a hand's transcript, the positions
  of the cards each street needs, and the checks of partial decryptions, showdown reveals and board
  openings against the locked deck. A lookup that returns a record and a flag is an option; reading
  through a nil pointer is a panic.
\<close>

section \<open>Message kinds and phases\<close>

definition nativeHandMessageFairnessCommit :: string where
  "nativeHandMessageFairnessCommit = ''fairness-commit''"

definition nativeHandMessageFairnessReveal :: string where
  "nativeHandMessageFairnessReveal = ''fairness-reveal''"

definition nativeHandMessageFinalization :: string where
  "nativeHandMessageFinalization = ''finalization''"

definition nativeHandMessagePrivateDelivery :: string where
  "nativeHandMessagePrivateDelivery = ''private-delivery-share''"

definition nativeHandMessageBoardShare :: string where
  "nativeHandMessageBoardShare = ''board-share''"

definition nativeHandMessageBoardOpen :: string where
  "nativeHandMessageBoardOpen = ''board-open''"

definition nativeHandMessageShowdownReveal :: string where
  "nativeHandMessageShowdownReveal = ''showdown-reveal''"

lemmas kind_defs = nativeHandMessageFairnessCommit_def nativeHandMessageFairnessReveal_def
  nativeHandMessageFinalization_def nativeHandMessagePrivateDelivery_def nativeHandMessageBoardShare_def
  nativeHandMessageBoardOpen_def nativeHandMessageShowdownReveal_def

lemma kinds_distinct:
  "distinct [nativeHandMessageFairnessCommit, nativeHandMessageFairnessReveal, nativeHandMessageFinalization,
     nativeHandMessagePrivateDelivery, nativeHandMessageBoardShare, nativeHandMessageBoardOpen,
     nativeHandMessageShowdownReveal]"
  by (simp add: kind_defs)

text \<open>The conversion \<open>game.Street(s)\<close>.\<close>

definition known_streets :: "Street list" where
  "known_streets =
     [StreetCommitment, StreetReveal, StreetFinalization, StreetPrivateDelivery, StreetPreflop, StreetFlopReveal,
      StreetFlop, StreetTurnReveal, StreetTurn, StreetRiverReveal, StreetRiver, StreetShowdownReveal,
      StreetSettled, StreetAborted]"

definition street_of :: "string \<Rightarrow> Street" where
  "street_of s = (case find (\<lambda>p. street_str p = s) known_streets of None \<Rightarrow> StreetOther s | Some p \<Rightarrow> p)"

lemma street_of_str: "p \<in> set known_streets \<Longrightarrow> street_of (street_str p) = p"
proof -
  have "list_all (\<lambda>p. street_of (street_str p) = p) known_streets" by code_simp
  then show "p \<in> set known_streets \<Longrightarrow> street_of (street_str p) = p" unfolding list_all_iff by blast
qed

text \<open>A read through a pointer.\<close>

definition deref :: "'a option \<Rightarrow> 'a res" where
  "deref p = (case p of None \<Rightarrow> Inl (Panic ''nil pointer dereference'') | Some x \<Rightarrow> Inr x)"

lemma deref_Some [simp]: "deref (Some x) = Inr x"
  by (simp add: deref_def)

text \<open>An error wrapped by \<open>fmt.Errorf\<close>; a panic is not an error.\<close>

definition wrap_err :: "string \<Rightarrow> 'a res \<Rightarrow> 'a res" where
  "wrap_err msg r = (case r of Inl (Err _) \<Rightarrow> Inl (Err msg) | _ \<Rightarrow> r)"

lemma wrap_err_Inr [simp]: "wrap_err msg r = Inr x \<longleftrightarrow> r = Inr x"
  by (auto simp: wrap_err_def split: sum.splits go_error.splits)

section \<open>Seats and records\<close>

definition otherSeatIndex :: "int \<Rightarrow> int" where
  "otherSeatIndex seatIndex = (if seatIndex = 0 then 1 else 0)"

definition seatRecordByIndex :: "nativeTableState \<Rightarrow> int \<Rightarrow> nativeSeatRecord option" where
  "seatRecordByIndex table seatIndex = find (\<lambda>seat. se_SeatIndex seat = seatIndex) (ts_Seats table)"

definition seatRecordForPlayer :: "nativeTableState \<Rightarrow> string \<Rightarrow> nativeSeatRecord option" where
  "seatRecordForPlayer table playerID = find (\<lambda>seat. se_PlayerID seat = playerID) (ts_Seats table)"

definition seatPlayerID :: "nativeTableState \<Rightarrow> int \<Rightarrow> string" where
  "seatPlayerID table seatIndex =
     (case find (\<lambda>seat. se_SeatIndex seat = seatIndex) (ts_Seats table) of
        None \<Rightarrow> [] | Some seat \<Rightarrow> se_PlayerID seat)"

definition activeHandID :: "nativeTableState \<Rightarrow> string" where
  "activeHandID table = (case ts_ActiveHand table of None \<Rightarrow> [] | Some hand \<Rightarrow> st_HandID (ah_State hand))"

text \<open>The optional conditions of the search: an empty phase and a nil index match every record.\<close>

definition record_matches ::
    "string \<Rightarrow> int option \<Rightarrow> string \<Rightarrow> int option \<Rightarrow> HandTranscriptRecord \<Rightarrow> bool" where
  "record_matches kind seatIndex phase recipientSeatIndex r \<longleftrightarrow>
     hr_Kind r = kind \<and> (phase = [] \<or> hr_Phase r = phase)
     \<and> (seatIndex = None \<or> hr_SeatIndex r = seatIndex)
     \<and> (recipientSeatIndex = None \<or> hr_RecipientSeatIndex r = recipientSeatIndex)"

definition findTranscriptRecord ::
    "HandTranscript \<Rightarrow> string \<Rightarrow> int option \<Rightarrow> string \<Rightarrow> int option \<Rightarrow> HandTranscriptRecord option" where
  "findTranscriptRecord transcript kind seatIndex phase recipientSeatIndex =
     find (record_matches kind seatIndex phase recipientSeatIndex) (ht_Records transcript)"

definition transcriptRecordsByKind :: "HandTranscript \<Rightarrow> string \<Rightarrow> string \<Rightarrow> HandTranscriptRecord list" where
  "transcriptRecordsByKind transcript kind phase =
     filter (\<lambda>r. hr_Kind r = kind \<and> (phase = [] \<or> hr_Phase r = phase)) (ht_Records transcript)"

abbreviation hand_transcript :: "nativeActiveHand \<Rightarrow> HandTranscript" where
  "hand_transcript hand \<equiv> hd_Transcript (ah_Cards hand)"

definition handTranscriptRoot :: "nativeTableState \<Rightarrow> string" where
  "handTranscriptRoot table =
     (case ts_ActiveHand table of None \<Rightarrow> [] | Some hand \<Rightarrow> ht_RootHash (hand_transcript hand))"

definition set_transcript :: "HandTranscript \<Rightarrow> nativeActiveHand \<Rightarrow> nativeActiveHand" where
  "set_transcript transcript hand = hand\<lparr>ah_Cards := (ah_Cards hand)\<lparr>hd_Transcript := transcript\<rparr>\<rparr>"

definition appendHandTranscriptRecord ::
    "nativeTableState \<Rightarrow> HandTranscriptRecord \<Rightarrow> nativeTableState res" where
  "appendHandTranscriptRecord table r =
     (case ts_ActiveHand table of
        None \<Rightarrow> Inl (Err ''hand is not active'')
      | Some hand \<Rightarrow>
         (case AppendTranscriptRecord (hand_transcript hand) r of
            Inl e \<Rightarrow> Inl e
          | Inr (next1, _) \<Rightarrow> Inr (table\<lparr>ts_ActiveHand := Some (set_transcript next1 hand)\<rparr>)))"

definition protocolSeatIndexes :: "nativeTableState \<Rightarrow> int list" where
  "protocolSeatIndexes table = map se_SeatIndex (ts_Seats table)"

definition runtimeSeatIndexes :: "nativeTableState \<Rightarrow> int list" where
  "runtimeSeatIndexes table = map se_SeatIndex (ts_Seats table)"

definition liveShowdownSeatIndexes :: "nativeTableState \<Rightarrow> int list" where
  "liveShowdownSeatIndexes table =
     (case ts_ActiveHand table of
        None \<Rightarrow> []
      | Some hand \<Rightarrow>
          map hp_SeatIndex (filter (\<lambda>player. hp_Status player \<noteq> PlayerStatusFolded) (st_Players (ah_State hand))))"

definition fairnessRevealForSeat :: "nativeActiveHand option \<Rightarrow> int \<Rightarrow> HandTranscriptRecord option" where
  "fairnessRevealForSeat active seatIndex =
     (case active of
        None \<Rightarrow> None
      | Some hand \<Rightarrow>
          findTranscriptRecord (hand_transcript hand) nativeHandMessageFairnessReveal (Some seatIndex)
            (street_str StreetReveal) None)"

definition publicExponentForSeat :: "nativeActiveHand option \<Rightarrow> int \<Rightarrow> string option" where
  "publicExponentForSeat active seatIndex = map_option hr_LockPublicExponentHex (fairnessRevealForSeat active seatIndex)"

definition holdEmPlanFromTable :: "nativeTableState \<Rightarrow> HoldemDealPlan res" where
  "holdEmPlanFromTable table =
     (case ts_ActiveHand table of
        None \<Rightarrow> Inl (Err ''hand is not active'')
      | Some hand \<Rightarrow> HoldemDealPositions (st_DealerSeatIndex (ah_State hand)))"

definition requiredCardPositionsForPhase :: "nativeTableState \<Rightarrow> Street \<Rightarrow> int \<Rightarrow> int list res" where
  "requiredCardPositionsForPhase table phase seatIndex =
     (case holdEmPlanFromTable table of
        Inl e \<Rightarrow> Inl e
      | Inr plan \<Rightarrow>
         (let positions = (\<lambda>found. Inr (case found of None \<Rightarrow> [] | Some ps \<Rightarrow> ps)) in
          case phase of
            StreetPrivateDelivery \<Rightarrow> positions (map_of (dp_HoleCardPositionsBySeat plan) seatIndex)
          | StreetFlopReveal \<Rightarrow> positions (map_of (dp_BoardPositionsByPhase plan) phase)
          | StreetTurnReveal \<Rightarrow> positions (map_of (dp_BoardPositionsByPhase plan) phase)
          | StreetRiverReveal \<Rightarrow> positions (map_of (dp_BoardPositionsByPhase plan) phase)
          | _ \<Rightarrow> Inl (Err ''phase %s does not have card positions'')))"

section \<open>Checks against the locked deck\<close>

fun check_partials :: "string list \<Rightarrow> string \<Rightarrow> int list \<Rightarrow> string list \<Rightarrow> unit res" where
  "check_partials finalDeck publicExponentHex [] partials = Inr ()"
| "check_partials finalDeck publicExponentHex (position # positions) [] = Inl (Panic ''index out of range'')"
| "check_partials finalDeck publicExponentHex (position # positions) (partial # partials) =
     (if position < 0 \<or> position \<ge> int (length finalDeck) then Inl (Err ''card position %d is out of range'')
      else case EncryptMentalValueHex partial publicExponentHex of
          Inl e \<Rightarrow> Inl e
        | Inr reencrypted \<Rightarrow>
           if reencrypted \<noteq> finalDeck ! nat position
           then Inl (Err ''partial ciphertext does not match final deck at position %d'')
           else check_partials finalDeck publicExponentHex positions partials)"

definition verifyPartialCiphertexts ::
    "string list \<Rightarrow> int list \<Rightarrow> string list \<Rightarrow> int \<Rightarrow> nativeActiveHand option \<Rightarrow> unit res" where
  "verifyPartialCiphertexts finalDeck positions partialCiphertexts senderSeatIndex active =
     (if length positions \<noteq> length partialCiphertexts then Inl (Err ''partial ciphertext count mismatch'')
      else case publicExponentForSeat active senderSeatIndex of
          None \<Rightarrow> Inl (Err ''missing public exponent for seat %d'')
        | Some publicExponentHex \<Rightarrow> check_partials finalDeck publicExponentHex positions partialCiphertexts)"

text \<open>The loop over the revealed cards, with the error of the caller.\<close>

fun check_cards :: "string \<Rightarrow> string \<Rightarrow> string list \<Rightarrow> string list \<Rightarrow> unit res" where
  "check_cards msg publicExponentHex [] partials = Inr ()"
| "check_cards msg publicExponentHex (code # codes) [] = Inl (Panic ''index out of range'')"
| "check_cards msg publicExponentHex (code # codes) (partial # partials) =
     (case EncodeMentalCard code of
        Inl e \<Rightarrow> Inl e
      | Inr encoded \<Rightarrow>
         (case EncryptMentalValueHex encoded publicExponentHex of
            Inl e \<Rightarrow> Inl e
          | Inr encrypted \<Rightarrow>
             if encrypted \<noteq> partial then Inl (Err msg)
             else check_cards msg publicExponentHex codes partials))"

definition verifyShowdownReveal :: "nativeActiveHand option \<Rightarrow> int \<Rightarrow> string list \<Rightarrow> unit res" where
  "verifyShowdownReveal active seatIndex cards =
     (case active of
        None \<Rightarrow> Inl (Err ''hand is not active'')
      | Some hand \<Rightarrow>
         (case findTranscriptRecord (hand_transcript hand) nativeHandMessagePrivateDelivery
             (Some (otherSeatIndex seatIndex)) (street_str StreetPrivateDelivery) (Some seatIndex) of
            None \<Rightarrow> Inl (Err ''missing private delivery share for seat %d'')
          | Some opponentShare \<Rightarrow>
             if length cards \<noteq> length (hr_PartialCiphertexts opponentShare)
             then Inl (Err ''showdown reveal card count mismatch'')
             else case publicExponentForSeat active seatIndex of
                 None \<Rightarrow> Inl (Err ''missing public exponent for seat %d'')
               | Some publicExponentHex \<Rightarrow>
                   check_cards ''showdown reveal does not match private delivery share'' publicExponentHex cards
                     (hr_PartialCiphertexts opponentShare)))"

fun check_board_shares :: "nativeActiveHand option \<Rightarrow> string list \<Rightarrow> HandTranscriptRecord list \<Rightarrow> unit res" where
  "check_board_shares active cards [] = Inr ()"
| "check_board_shares active cards (share # shares) =
     (if length (hr_PartialCiphertexts share) \<noteq> length cards then Inl (Err ''board open card count mismatch'')
      else case deref (hr_SeatIndex share) of
          Inl e \<Rightarrow> Inl e
        | Inr seatIndex \<Rightarrow>
           (case publicExponentForSeat active (otherSeatIndex seatIndex) of
              None \<Rightarrow> Inl (Err ''missing public exponent for opposing seat'')
            | Some opponentExponentHex \<Rightarrow>
               (case check_cards ''board open does not match share from seat %d'' opponentExponentHex cards
                   (hr_PartialCiphertexts share) of
                  Inl e \<Rightarrow> Inl e
                | Inr _ \<Rightarrow> check_board_shares active cards shares)))"

definition verifyBoardOpen :: "nativeActiveHand option \<Rightarrow> string \<Rightarrow> string list \<Rightarrow> unit res" where
  "verifyBoardOpen active phase cards =
     (case active of
        None \<Rightarrow> Inl (Err ''hand is not active'')
      | Some hand \<Rightarrow>
         (let shares = transcriptRecordsByKind (hand_transcript hand) nativeHandMessageBoardShare phase in
          if length shares \<noteq> 2 then Inl (Err ''board open requires two board shares'')
          else check_board_shares active cards shares))"

end
