(* ===== verification/Hand_Messages.thy ===== *)
theory Hand_Messages
  imports Hand_Records
begin

text \<open>
  \<open>internal/meshruntime/hand.go\<close>, second part: the keys and slots of protocol records, the replay of the
  mental deck from a transcript, which seats a phase still waits for, the record a daemon contributes,
  and the checks a host makes before it appends a record a peer sent. What the clock says is an
  argument: \<open>elapsed\<close> for \<open>elapsedMillis\<close> and a text for the deadline \<open>addMillis(nowISO(), \<dots>)\<close>.
\<close>

section \<open>Record keys and slots\<close>

definition handMessageCards :: "CardCode list \<Rightarrow> string list" where
  "handMessageCards cards = map (\<lambda>c. c) cards"

definition handMessageRecordPayload :: "string \<Rightarrow> string \<Rightarrow> int \<Rightarrow> HandTranscriptRecord \<Rightarrow> goval" where
  "handMessageRecordPayload tableID handID handNumber r =
     any_map
      [(''handId'', Some (VString handID)),
       (''handNumber'', Some (VInt handNumber)),
       (''kind'', Some (VString (hr_Kind r))),
       (''phase'', Some (VString (hr_Phase r))),
       (''tableId'', Some (VString tableID)),
       (''type'', Some (VString ''dealerless-hand-record-key'')),
       (''playerId'', set_string (hr_PlayerID r)),
       (''seatIndex'', map_option VInt (hr_SeatIndex r)),
       (''commitmentHash'', set_string (hr_CommitmentHash r)),
       (''shuffleSeedHex'', set_string (hr_ShuffleSeedHex r)),
       (''lockPublicExponentHex'', set_string (hr_LockPublicExponentHex r)),
       (''deckStage'', set_list VString (hr_DeckStage r)),
       (''deckStageRoot'', set_string (hr_DeckStageRoot r)),
       (''recipientSeatIndex'', map_option VInt (hr_RecipientSeatIndex r)),
       (''cardPositions'', set_list VInt (hr_CardPositions r)),
       (''partialCiphertexts'', set_list VString (hr_PartialCiphertexts r)),
       (''cards'', set_list VString (handMessageCards (hr_Cards r)))]"

definition handMessageRecordKey :: "string \<Rightarrow> string \<Rightarrow> int \<Rightarrow> HandTranscriptRecord \<Rightarrow> string res" where
  "handMessageRecordKey tableID handID handNumber r =
     HashStructuredDataHex (handMessageRecordPayload tableID handID handNumber r)"

definition handMessageSlotLabel :: "HandTranscriptRecord \<Rightarrow> string" where
  "handMessageSlotLabel r =
     (if hr_Kind r \<in> {nativeHandMessageFairnessCommit, nativeHandMessageFairnessReveal, nativeHandMessageBoardShare,
           nativeHandMessageShowdownReveal} then
        (case hr_SeatIndex r of
           Some seat \<Rightarrow> hr_Kind r @ '' seat='' @ itoa seat @ '' phase='' @ hr_Phase r
         | None \<Rightarrow> hr_Kind r)
      else if hr_Kind r = nativeHandMessagePrivateDelivery then
        (case (hr_SeatIndex r, hr_RecipientSeatIndex r) of
           (Some seat, Some recipient) \<Rightarrow>
             hr_Kind r @ '' seat='' @ itoa seat @ '' recipient='' @ itoa recipient @ '' phase='' @ hr_Phase r
         | _ \<Rightarrow> hr_Kind r)
      else if hr_Kind r = nativeHandMessageBoardOpen then hr_Kind r @ '' phase='' @ hr_Phase r
      else hr_Kind r)"

definition findParticipantHandMessageSlotRecord ::
    "HandTranscript \<Rightarrow> HandTranscriptRecord \<Rightarrow> HandTranscriptRecord option res" where
  "findParticipantHandMessageSlotRecord transcript r =
     (let kind = hr_Kind r;
          by_seat = (\<lambda>phase. case hr_SeatIndex r of
            None \<Rightarrow> Inl (Err ''%s is missing seat index'')
          | Some seat \<Rightarrow> Inr (findTranscriptRecord transcript kind (Some seat) phase None)) in
      if kind = nativeHandMessageFairnessCommit then by_seat (street_str StreetCommitment)
      else if kind = nativeHandMessageFairnessReveal then by_seat (street_str StreetReveal)
      else if kind = nativeHandMessagePrivateDelivery then
        (case (hr_SeatIndex r, hr_RecipientSeatIndex r) of
           (Some seat, Some recipient) \<Rightarrow>
             Inr (findTranscriptRecord transcript kind (Some seat) (street_str StreetPrivateDelivery) (Some recipient))
         | _ \<Rightarrow> Inl (Err ''%s is missing seat indexes''))
      else if kind = nativeHandMessageBoardShare then by_seat (hr_Phase r)
      else if kind = nativeHandMessageBoardOpen then
        Inr (findTranscriptRecord transcript kind None (hr_Phase r) None)
      else if kind = nativeHandMessageShowdownReveal then by_seat (street_str StreetShowdownReveal)
      else Inr None)"

definition handTranscriptHasRecordKey :: "HandTranscript \<Rightarrow> string \<Rightarrow> bool" where
  "handTranscriptHasRecordKey transcript recordKey =
     (if TrimSpace recordKey = [] then False
      else list_ex (\<lambda>r. handMessageRecordKey (ht_TableID transcript) (ht_HandID transcript) (ht_HandNumber transcript) r
             = Inr recordKey) (ht_Records transcript))"

section \<open>What a guest has sent\<close>

record guestContributionSendSnapshot =
  gc_acked :: bool
  gc_handID :: string
  gc_handNumber :: int
  gc_kind :: string
  gc_phase :: string
  gc_recordKey :: string

type_synonym guest_contributions = "(string, guestContributionSendSnapshot) gomap"

definition guestContributionSnapshot ::
    "nativeTableState \<Rightarrow> HandTranscriptRecord \<Rightarrow> string \<Rightarrow> guestContributionSendSnapshot" where
  "guestContributionSnapshot table r recordKey =
     (let snapshot = \<lparr>gc_acked = False, gc_handID = [], gc_handNumber = 0, gc_kind = hr_Kind r,
        gc_phase = hr_Phase r, gc_recordKey = recordKey\<rparr> in
      case ts_ActiveHand table of
        None \<Rightarrow> snapshot
      | Some hand \<Rightarrow> snapshot\<lparr>gc_handID := st_HandID (ah_State hand), gc_handNumber := st_HandNumber (ah_State hand)\<rparr>)"

definition reconcileGuestContribution :: "string \<Rightarrow> nativeTableState \<Rightarrow> guest_contributions \<Rightarrow> guest_contributions" where
  "reconcileGuestContribution tableID table contributions =
     (case map_of contributions tableID of
        None \<Rightarrow> contributions
      | Some previous \<Rightarrow>
         (case ts_ActiveHand table of
            None \<Rightarrow> AList.delete tableID contributions
          | Some hand \<Rightarrow>
             if st_HandID (ah_State hand) \<noteq> gc_handID previous \<or> st_HandNumber (ah_State hand) \<noteq> gc_handNumber previous
             then AList.delete tableID contributions
             else if handTranscriptHasRecordKey (hand_transcript hand) (gc_recordKey previous)
             then AList.delete tableID contributions
             else contributions))"

definition shouldSendGuestContribution ::
    "string \<Rightarrow> guestContributionSendSnapshot \<Rightarrow> guest_contributions \<Rightarrow> guest_contributions \<times> bool" where
  "shouldSendGuestContribution tableID pending contributions =
     (case map_of contributions tableID of
        None \<Rightarrow> (AList.update tableID pending contributions, True)
      | Some previous \<Rightarrow>
          if gc_recordKey previous \<noteq> gc_recordKey pending
          then (AList.update tableID pending contributions, True)
          else (contributions, \<not> gc_acked previous))"

definition markGuestContributionAcked :: "string \<Rightarrow> string \<Rightarrow> guest_contributions \<Rightarrow> guest_contributions" where
  "markGuestContributionAcked tableID recordKey contributions =
     (case map_of contributions tableID of
        None \<Rightarrow> contributions
      | Some previous \<Rightarrow>
          if gc_recordKey previous \<noteq> recordKey then contributions
          else AList.update tableID (previous\<lparr>gc_acked := True\<rparr>) contributions)"

section \<open>Phases\<close>

definition sameInts :: "int list \<Rightarrow> int list \<Rightarrow> bool" where
  "sameInts left right \<longleftrightarrow> length left = length right \<and> list_all (\<lambda>(l, r). l = r) (zip left right)"

definition sameStrings :: "string list \<Rightarrow> string list \<Rightarrow> bool" where
  "sameStrings left right \<longleftrightarrow> length left = length right \<and> list_all (\<lambda>(l, r). l = r) (zip left right)"

lemma zip_same: "length xs = length ys \<and> list_all (\<lambda>(x, y). x = y) (zip xs ys) \<longleftrightarrow> xs = ys"
proof
  assume a: "length xs = length ys \<and> list_all (\<lambda>(x, y). x = y) (zip xs ys)"
  then have "length xs = length ys" ..
  then show "xs = ys" using a by (induction xs ys rule: list_induct2) auto
next
  assume "xs = ys"
  then show "length xs = length ys \<and> list_all (\<lambda>(x, y). x = y) (zip xs ys)" by (induction xs arbitrary: ys) auto
qed

lemma same_iff [simp]: "sameInts ps qs \<longleftrightarrow> ps = qs" "sameStrings xs ys \<longleftrightarrow> xs = ys"
  using zip_same [of ps qs] zip_same [of xs ys] by (simp_all add: sameInts_def sameStrings_def)

definition missing_records :: "int list \<Rightarrow> (int \<Rightarrow> HandTranscriptRecord option) \<Rightarrow> int list" where
  "missing_records seats lookup = filter (\<lambda>seat. lookup seat = None) seats"

definition missingProtocolSeatIndexesForPhase :: "nativeTableState \<Rightarrow> Street \<Rightarrow> int list" where
  "missingProtocolSeatIndexesForPhase table phase =
     (case ts_ActiveHand table of
        None \<Rightarrow> []
      | Some hand \<Rightarrow>
         (let transcript = hand_transcript hand;
              board = missing_records (runtimeSeatIndexes table) (\<lambda>seat. findTranscriptRecord transcript
                nativeHandMessageBoardShare (Some seat) (street_str (st_Phase (ah_State hand))) None) in
          case phase of
            StreetCommitment \<Rightarrow> missing_records (runtimeSeatIndexes table) (\<lambda>seat. findTranscriptRecord transcript
              nativeHandMessageFairnessCommit (Some seat) (street_str StreetCommitment) None)
          | StreetReveal \<Rightarrow> missing_records (runtimeSeatIndexes table) (\<lambda>seat. findTranscriptRecord transcript
              nativeHandMessageFairnessReveal (Some seat) (street_str StreetReveal) None)
          | StreetPrivateDelivery \<Rightarrow> missing_records (runtimeSeatIndexes table) (\<lambda>seat. findTranscriptRecord transcript
              nativeHandMessagePrivateDelivery (Some seat) (street_str StreetPrivateDelivery) (Some (otherSeatIndex seat)))
          | StreetFlopReveal \<Rightarrow> board
          | StreetTurnReveal \<Rightarrow> board
          | StreetRiverReveal \<Rightarrow> board
          | StreetShowdownReveal \<Rightarrow> missing_records (liveShowdownSeatIndexes table) (\<lambda>seat. findTranscriptRecord transcript
              nativeHandMessageShowdownReveal (Some seat) (street_str StreetShowdownReveal) None)
          | _ \<Rightarrow> []))"

definition missingProtocolSeatIndexes :: "nativeTableState \<Rightarrow> int list" where
  "missingProtocolSeatIndexes table =
     (case ts_ActiveHand table of
        None \<Rightarrow> []
      | Some hand \<Rightarrow> missingProtocolSeatIndexesForPhase table (st_Phase (ah_State hand)))"

definition requiresCompletedPrivateDelivery :: "Street \<Rightarrow> bool" where
  "requiresCompletedPrivateDelivery phase \<longleftrightarrow>
     phase \<in> {StreetPreflop, StreetFlopReveal, StreetFlop, StreetTurnReveal, StreetTurn, StreetRiverReveal, StreetRiver,
       StreetShowdownReveal, StreetSettled}"

definition shouldTrackProtocolDeadline :: "Street \<Rightarrow> bool" where
  "shouldTrackProtocolDeadline phase \<longleftrightarrow>
     phase \<in> {StreetCommitment, StreetReveal, StreetPrivateDelivery, StreetFlopReveal, StreetTurnReveal, StreetRiverReveal,
       StreetShowdownReveal}"

definition allFairnessRevealsPresent :: "nativeTableState \<Rightarrow> bool" where
  "allFairnessRevealsPresent table =
     (case ts_ActiveHand table of
        None \<Rightarrow> False
      | Some hand \<Rightarrow>
          length (transcriptRecordsByKind (hand_transcript hand) nativeHandMessageFairnessReveal (street_str StreetReveal))
          = length (ts_Seats table))"

definition transcriptHasBoardOpen :: "nativeActiveHand option \<Rightarrow> Street \<Rightarrow> bool" where
  "transcriptHasBoardOpen active phase =
     (case active of
        None \<Rightarrow> False
      | Some hand \<Rightarrow>
          findTranscriptRecord (hand_transcript hand) nativeHandMessageBoardOpen None (street_str phase) None \<noteq> None)"

definition protocolDeadlineExpired :: "(string \<Rightarrow> int) \<Rightarrow> nativeTableState \<Rightarrow> bool" where
  "protocolDeadlineExpired elapsed table =
     (case ts_ActiveHand table of
        None \<Rightarrow> False
      | Some hand \<Rightarrow>
         if \<not> shouldTrackProtocolDeadline (st_Phase (ah_State hand)) then False
         else if hd_PhaseDeadlineAt (ah_Cards hand) = [] then False
         else elapsed (hd_PhaseDeadlineAt (ah_Cards hand)) \<ge> 0)"

definition set_deadline :: "string \<Rightarrow> nativeActiveHand \<Rightarrow> nativeActiveHand" where
  "set_deadline deadline hand = hand\<lparr>ah_Cards := (ah_Cards hand)\<lparr>hd_PhaseDeadlineAt := deadline\<rparr>\<rparr>"

definition setProtocolDeadline :: "string \<Rightarrow> nativeTableState \<Rightarrow> nativeTableState" where
  "setProtocolDeadline deadline table =
     (case ts_ActiveHand table of
        None \<Rightarrow> table
      | Some hand \<Rightarrow>
          table\<lparr>ts_ActiveHand := Some (set_deadline
            (if shouldTrackProtocolDeadline (st_Phase (ah_State hand)) then deadline else []) hand)\<rparr>)"

section \<open>Replaying the deck of a transcript\<close>

definition reveal_of :: "string \<Rightarrow> int \<Rightarrow> HandTranscriptRecord \<Rightarrow> MentalDeckReveal" where
  "reveal_of playerID seatIndex r =
     \<lparr>mr_PlayerID = playerID, mr_SeatIndex = seatIndex, mr_ShuffleSeedHex = hr_ShuffleSeedHex r,
      mr_LockPublicExponentHex = hr_LockPublicExponentHex r\<rparr>"

fun seat_reveals :: "nativeActiveHand \<Rightarrow> nativeSeatRecord list \<Rightarrow> MentalDeckReveal list res" where
  "seat_reveals hand [] = Inr []"
| "seat_reveals hand (seat # seats) =
     (case fairnessRevealForSeat (Some hand) (se_SeatIndex seat) of
        None \<Rightarrow> Inl (Err ''missing fairness reveal for seat %d'')
      | Some r \<Rightarrow>
         (case seat_reveals hand seats of
            Inl e \<Rightarrow> Inl e
          | Inr rest \<Rightarrow> Inr (reveal_of (se_PlayerID seat) (se_SeatIndex seat) r # rest)))"

definition stage_of_seat :: "MentalDeckReplay \<Rightarrow> int \<Rightarrow> string list" where
  "stage_of_seat replay seatIndex = (case map_of (md_RevealStagesBySeat replay) seatIndex of None \<Rightarrow> [] | Some s \<Rightarrow> s)"

definition stage_root_of_seat :: "MentalDeckReplay \<Rightarrow> int \<Rightarrow> string" where
  "stage_root_of_seat replay seatIndex = (case map_of (md_RevealStageRootBySeat replay) seatIndex of None \<Rightarrow> [] | Some s \<Rightarrow> s)"

fun check_stages :: "nativeActiveHand \<Rightarrow> MentalDeckReplay \<Rightarrow> nativeSeatRecord list \<Rightarrow> unit res" where
  "check_stages hand replay [] = Inr ()"
| "check_stages hand replay (seat # seats) =
     (case fairnessRevealForSeat (Some hand) (se_SeatIndex seat) of
        None \<Rightarrow> Inl (Err ''missing fairness reveal for seat %d'')
      | Some r \<Rightarrow>
         (let stage = stage_of_seat replay (se_SeatIndex seat) in
          if hr_DeckStageRoot r \<noteq> stage_root_of_seat replay (se_SeatIndex seat)
          then Inl (Err ''reveal stage root mismatch for seat %d'')
          else if length (hr_DeckStage r) \<noteq> length stage then Inl (Err ''reveal stage length mismatch for seat %d'')
          else if \<not> sameStrings (hr_DeckStage r) stage then Inl (Err ''reveal stage mismatch for seat %d'')
          else check_stages hand replay seats))"

definition buildMentalReplay :: "nativeTableState \<Rightarrow> MentalDeckReplay res" where
  "buildMentalReplay table =
     (case deref (ts_ActiveHand table) of
        Inl e \<Rightarrow> Inl e
      | Inr hand \<Rightarrow>
         (case seat_reveals hand (ts_Seats table) of
            Inl e \<Rightarrow> Inl e
          | Inr reveals \<Rightarrow>
             (case ReplayMentalDeck reveals of
                Inl e \<Rightarrow> Inl e
              | Inr replay \<Rightarrow>
                 (case check_stages hand replay (ts_Seats table) of Inl e \<Rightarrow> Inl e | Inr _ \<Rightarrow> Inr replay))))"

text \<open>The reveals of the seats up to \<open>seat\<close>, its own being given; \<open>None\<close> when a lower seat has none.\<close>

fun lower_reveals ::
    "nativeActiveHand \<Rightarrow> nativeSeatRecord \<Rightarrow> MentalDeckReveal \<Rightarrow> nativeSeatRecord list \<Rightarrow> MentalDeckReveal list option" where
  "lower_reveals hand seat own [] = Some []"
| "lower_reveals hand seat own (other # seats) =
     (if se_SeatIndex other > se_SeatIndex seat then lower_reveals hand seat own seats
      else if se_SeatIndex other = se_SeatIndex seat
      then map_option (\<lambda>rest. own # rest) (lower_reveals hand seat own seats)
      else case fairnessRevealForSeat (Some hand) (se_SeatIndex other) of
          None \<Rightarrow> None
        | Some r \<Rightarrow>
            map_option (\<lambda>rest. reveal_of (se_PlayerID other) (se_SeatIndex other) r # rest)
              (lower_reveals hand seat own seats))"

end
