(* ===== verification/Hand_Protocol.thy ===== *)
theory Hand_Protocol
  imports Hand_Messages
begin

text \<open>
  \<open>internal/meshruntime/hand.go\<close>, third part: the record a daemon contributes to the dealing protocol, the
  messages that carry it, the checks of the host, and the step that moves a hand to its next phase.
\<close>

section \<open>Local secrets\<close>

record nativeLocalHandSecrets =
  ls_HandID :: string
  ls_HandNumber :: int
  ls_LockPrivateExponentHex :: string
  ls_LockPublicExponentHex :: string
  ls_PlayerID :: string
  ls_SeatIndex :: int
  ls_ShuffleSeedHex :: string

text \<open>The secrets of a hand are made once and then kept: \<open>seedHex\<close> and \<open>keyPair\<close> are what \<open>RandomHex(32)\<close> and
  \<open>GenerateMentalKeyPair()\<close> return. The result is the secrets and the map to be written back.\<close>

definition ensureLocalHandSecrets ::
    "string res \<Rightarrow> MentalKeyPair res \<Rightarrow> string \<Rightarrow> nativeTableState \<Rightarrow> (string, nativeLocalHandSecrets) gomap
     \<Rightarrow> (nativeLocalHandSecrets option \<times> (string, nativeLocalHandSecrets) gomap) res" where
  "ensureLocalHandSecrets seedHex keyPair walletPlayerID table secretsByHandID =
     (case ts_ActiveHand table of
        None \<Rightarrow> Inr (None, secretsByHandID)
      | Some hand \<Rightarrow>
         (case seatRecordForPlayer table walletPlayerID of
            None \<Rightarrow> Inr (None, secretsByHandID)
          | Some seat \<Rightarrow>
             (case map_of secretsByHandID (st_HandID (ah_State hand)) of
                Some secrets \<Rightarrow> Inr (Some secrets, secretsByHandID)
              | None \<Rightarrow>
                 (case seedHex of
                    Inl e \<Rightarrow> Inl e
                  | Inr shuffleSeedHex \<Rightarrow>
                     (case keyPair of
                        Inl e \<Rightarrow> Inl e
                      | Inr k \<Rightarrow>
                         (let secrets = \<lparr>ls_HandID = st_HandID (ah_State hand),
                              ls_HandNumber = st_HandNumber (ah_State hand),
                              ls_LockPrivateExponentHex = kp_PrivateExponentHex k,
                              ls_LockPublicExponentHex = kp_PublicExponentHex k,
                              ls_PlayerID = se_PlayerID seat, ls_SeatIndex = se_SeatIndex seat,
                              ls_ShuffleSeedHex = shuffleSeedHex\<rparr> in
                          Inr (Some secrets, AList.update (ls_HandID secrets) secrets secretsByHandID)))))))"

section \<open>The local contribution\<close>

definition empty_record :: HandTranscriptRecord where
  "empty_record = \<lparr>hr_Index = 0, hr_Kind = [], hr_Phase = [], hr_PlayerID = [], hr_SeatIndex = None,
     hr_CommitmentHash = [], hr_ShuffleSeedHex = [], hr_LockPublicExponentHex = [], hr_DeckStage = [],
     hr_DeckStageRoot = [], hr_RecipientSeatIndex = None, hr_CardPositions = [], hr_PartialCiphertexts = [],
     hr_Cards = [], hr_Reason = [], hr_StepHash = [], hr_RootHash = []\<rparr>"

definition seat_record :: "string \<Rightarrow> Street \<Rightarrow> nativeSeatRecord \<Rightarrow> HandTranscriptRecord" where
  "seat_record kind phase seat = empty_record\<lparr>hr_Kind := kind, hr_Phase := street_str phase,
     hr_PlayerID := se_PlayerID seat, hr_SeatIndex := Some (se_SeatIndex seat)\<rparr>"

fun decrypt_positions :: "string list \<Rightarrow> string \<Rightarrow> int list \<Rightarrow> string list res" where
  "decrypt_positions finalDeck privateExponentHex [] = Inr []"
| "decrypt_positions finalDeck privateExponentHex (position # positions) =
     (case go_index finalDeck position of
        Inl e \<Rightarrow> Inl e
      | Inr ciphertext \<Rightarrow>
         (case DecryptMentalValueHex ciphertext privateExponentHex of
            Inl e \<Rightarrow> Inl e
          | Inr partial \<Rightarrow>
             (case decrypt_positions finalDeck privateExponentHex positions of
                Inl e \<Rightarrow> Inl e
              | Inr partials \<Rightarrow> Inr (partial # partials))))"

fun decryptCardCodes :: "string list \<Rightarrow> string \<Rightarrow> CardCode list res" where
  "decryptCardCodes [] privateExponentHex = Inr []"
| "decryptCardCodes (partialCiphertext # partials) privateExponentHex =
     (case DecryptMentalValueHex partialCiphertext privateExponentHex of
        Inl e \<Rightarrow> Inl e
      | Inr plaintextHex \<Rightarrow>
         (case DecodeMentalCardHex plaintextHex of
            Inl e \<Rightarrow> Inl e
          | Inr code \<Rightarrow>
             (case decryptCardCodes partials privateExponentHex of
                Inl e \<Rightarrow> Inl e
              | Inr codes \<Rightarrow> Inr (code # codes))))"

definition commit_contribution ::
    "nativeTableState \<Rightarrow> nativeActiveHand \<Rightarrow> nativeSeatRecord \<Rightarrow> nativeLocalHandSecrets \<Rightarrow> HandTranscriptRecord option res" where
  "commit_contribution table hand seat secrets =
     (if findTranscriptRecord (hand_transcript hand) nativeHandMessageFairnessCommit (Some (se_SeatIndex seat))
           (street_str StreetCommitment) None \<noteq> None
      then Inr None
      else case BuildFairnessCommitment (tc_TableID (ts_Config table)) (st_HandNumber (ah_State hand)) (se_SeatIndex seat)
          (se_PlayerID seat) (street_str StreetCommitment) (ls_ShuffleSeedHex secrets) (ls_LockPublicExponentHex secrets) of
          Inl e \<Rightarrow> Inl e
        | Inr commitmentHash \<Rightarrow>
            Inr (Some ((seat_record nativeHandMessageFairnessCommit StreetCommitment seat)
              \<lparr>hr_CommitmentHash := commitmentHash\<rparr>)))"

definition reveal_contribution ::
    "nativeTableState \<Rightarrow> nativeActiveHand \<Rightarrow> nativeSeatRecord \<Rightarrow> nativeLocalHandSecrets \<Rightarrow> HandTranscriptRecord option res" where
  "reveal_contribution table hand seat secrets =
     (if fairnessRevealForSeat (Some hand) (se_SeatIndex seat) \<noteq> None then Inr None
      else if list_ex (\<lambda>other. se_SeatIndex other < se_SeatIndex seat
          \<and> fairnessRevealForSeat (Some hand) (se_SeatIndex other) = None) (ts_Seats table)
      then Inr None
      else case lower_reveals hand seat \<lparr>mr_PlayerID = se_PlayerID seat, mr_SeatIndex = se_SeatIndex seat,
            mr_ShuffleSeedHex = ls_ShuffleSeedHex secrets,
            mr_LockPublicExponentHex = ls_LockPublicExponentHex secrets\<rparr> (ts_Seats table) of
          None \<Rightarrow> Inr None
        | Some reveals \<Rightarrow>
           (case ReplayMentalDeck reveals of
              Inl e \<Rightarrow> Inl e
            | Inr replay \<Rightarrow>
                Inr (Some ((seat_record nativeHandMessageFairnessReveal StreetReveal seat)
                  \<lparr>hr_DeckStage := stage_of_seat replay (se_SeatIndex seat),
                   hr_DeckStageRoot := stage_root_of_seat replay (se_SeatIndex seat),
                   hr_LockPublicExponentHex := ls_LockPublicExponentHex secrets,
                   hr_ShuffleSeedHex := ls_ShuffleSeedHex secrets\<rparr>))))"

definition delivery_contribution ::
    "nativeTableState \<Rightarrow> nativeActiveHand \<Rightarrow> nativeSeatRecord \<Rightarrow> nativeLocalHandSecrets \<Rightarrow> HandTranscriptRecord option res" where
  "delivery_contribution table hand seat secrets =
     (let recipientSeatIndex = otherSeatIndex (se_SeatIndex seat) in
      if findTranscriptRecord (hand_transcript hand) nativeHandMessagePrivateDelivery (Some (se_SeatIndex seat))
           (street_str StreetPrivateDelivery) (Some recipientSeatIndex) \<noteq> None
      then Inr None
      else case requiredCardPositionsForPhase table StreetPrivateDelivery recipientSeatIndex of
          Inl e \<Rightarrow> Inl e
        | Inr positions \<Rightarrow>
           (case decrypt_positions (hd_FinalDeck (ah_Cards hand)) (ls_LockPrivateExponentHex secrets) positions of
              Inl e \<Rightarrow> Inl e
            | Inr partials \<Rightarrow>
                Inr (Some ((seat_record nativeHandMessagePrivateDelivery StreetPrivateDelivery seat)
                  \<lparr>hr_CardPositions := positions, hr_PartialCiphertexts := partials,
                   hr_RecipientSeatIndex := Some recipientSeatIndex\<rparr>))))"

definition board_contribution ::
    "nativeTableState \<Rightarrow> nativeActiveHand \<Rightarrow> nativeSeatRecord \<Rightarrow> nativeLocalHandSecrets \<Rightarrow> HandTranscriptRecord option res" where
  "board_contribution table hand seat secrets =
     (let phase = st_Phase (ah_State hand) in
      if findTranscriptRecord (hand_transcript hand) nativeHandMessageBoardShare (Some (se_SeatIndex seat))
           (street_str phase) None = None
      then case requiredCardPositionsForPhase table phase (se_SeatIndex seat) of
          Inl e \<Rightarrow> Inl e
        | Inr positions \<Rightarrow>
           (case decrypt_positions (hd_FinalDeck (ah_Cards hand)) (ls_LockPrivateExponentHex secrets) positions of
              Inl e \<Rightarrow> Inl e
            | Inr partials \<Rightarrow>
                Inr (Some ((seat_record nativeHandMessageBoardShare phase seat)
                  \<lparr>hr_CardPositions := positions, hr_PartialCiphertexts := partials\<rparr>)))
      else if transcriptHasBoardOpen (Some hand) phase then Inr None
      else case findTranscriptRecord (hand_transcript hand) nativeHandMessageBoardShare
            (Some (otherSeatIndex (se_SeatIndex seat))) (street_str phase) None of
          None \<Rightarrow> Inr None
        | Some opponentShare \<Rightarrow>
           (case decryptCardCodes (hr_PartialCiphertexts opponentShare) (ls_LockPrivateExponentHex secrets) of
              Inl e \<Rightarrow> Inl e
            | Inr cards \<Rightarrow>
                Inr (Some ((seat_record nativeHandMessageBoardOpen phase seat)
                  \<lparr>hr_CardPositions := hr_CardPositions opponentShare, hr_Cards := cards\<rparr>))))"

definition showdown_contribution ::
    "nativeActiveHand \<Rightarrow> nativeSeatRecord \<Rightarrow> nativeLocalHandSecrets \<Rightarrow> HandTranscriptRecord option res" where
  "showdown_contribution hand seat secrets =
     (case go_index (st_Players (ah_State hand)) (se_SeatIndex seat) of
        Inl e \<Rightarrow> Inl e
      | Inr player \<Rightarrow>
         if hp_Status player = PlayerStatusFolded then Inr None
         else if findTranscriptRecord (hand_transcript hand) nativeHandMessageShowdownReveal (Some (se_SeatIndex seat))
             (street_str StreetShowdownReveal) None \<noteq> None
         then Inr None
         else case findTranscriptRecord (hand_transcript hand) nativeHandMessagePrivateDelivery
               (Some (otherSeatIndex (se_SeatIndex seat))) (street_str StreetPrivateDelivery) (Some (se_SeatIndex seat)) of
             None \<Rightarrow> Inr None
           | Some opponentShare \<Rightarrow>
              (case decryptCardCodes (hr_PartialCiphertexts opponentShare) (ls_LockPrivateExponentHex secrets) of
                 Inl e \<Rightarrow> Inl e
               | Inr cards \<Rightarrow>
                   Inr (Some ((seat_record nativeHandMessageShowdownReveal StreetShowdownReveal seat)\<lparr>hr_Cards := cards\<rparr>))))"

text \<open>\<open>secrets\<close> is the outcome of \<open>ensureLocalHandSecrets\<close>.\<close>

definition buildLocalContributionRecord ::
    "nativeLocalHandSecrets option res \<Rightarrow> string \<Rightarrow> nativeTableState \<Rightarrow> HandTranscriptRecord option res" where
  "buildLocalContributionRecord ensured walletPlayerID table =
     (case ts_ActiveHand table of
        None \<Rightarrow> Inr None
      | Some hand \<Rightarrow>
         (case seatRecordForPlayer table walletPlayerID of
            None \<Rightarrow> Inr None
          | Some seat \<Rightarrow>
             (case ensured of
                Inl e \<Rightarrow> Inl e
              | Inr None \<Rightarrow> Inr None
              | Inr (Some secrets) \<Rightarrow>
                 (case st_Phase (ah_State hand) of
                    StreetCommitment \<Rightarrow> commit_contribution table hand seat secrets
                  | StreetReveal \<Rightarrow> reveal_contribution table hand seat secrets
                  | StreetPrivateDelivery \<Rightarrow> delivery_contribution table hand seat secrets
                  | StreetFlopReveal \<Rightarrow> board_contribution table hand seat secrets
                  | StreetTurnReveal \<Rightarrow> board_contribution table hand seat secrets
                  | StreetRiverReveal \<Rightarrow> board_contribution table hand seat secrets
                  | StreetShowdownReveal \<Rightarrow> showdown_contribution hand seat secrets
                  | _ \<Rightarrow> Inr None))))"

end
