(* ===== verification/Hand_Host.thy ===== *)
theory Hand_Host
  imports Hand_Protocol
begin

text \<open>
  \<open>internal/meshruntime/hand.go\<close>, fourth part: signed hand messages, the host's checks of a new message,
  the acceptance of a message into the transcript, and the step to the next phase of the hand.
\<close>

section \<open>Messages\<close>

definition nativeProtocolVersion :: string where
  "nativeProtocolVersion = ''poker/v1''"

definition decodeCardCodes :: "string list \<Rightarrow> CardCode list res" where
  "decodeCardCodes cards = Inr (map (\<lambda>c. c) cards)"

definition copyOptionalInt :: "int option \<Rightarrow> int option" where
  "copyOptionalInt p = (case p of None \<Rightarrow> None | Some clone \<Rightarrow> Some clone)"

lemma copyOptionalInt_id [simp]: "copyOptionalInt p = p"
  by (simp add: copyOptionalInt_def split: option.split)

definition transcriptRecordFromHandMessage :: "nativeHandMessageRequest \<Rightarrow> HandTranscriptRecord res" where
  "transcriptRecordFromHandMessage request =
     (let r = empty_record\<lparr>hr_CardPositions := hm_CardPositions request, hr_CommitmentHash := hm_CommitmentHash request,
        hr_DeckStage := hm_DeckStage request, hr_DeckStageRoot := hm_DeckStageRoot request, hr_Kind := hm_Kind request,
        hr_LockPublicExponentHex := hm_LockPublicExponentHex request,
        hr_PartialCiphertexts := hm_PartialCiphertexts request, hr_Phase := hm_Phase request,
        hr_PlayerID := hm_PlayerID request, hr_RecipientSeatIndex := copyOptionalInt (hm_RecipientSeatIndex request),
        hr_SeatIndex := Some (hm_SeatIndex request), hr_ShuffleSeedHex := hm_ShuffleSeedHex request\<rparr> in
      if length (hm_Cards request) > 0
      then case decodeCardCodes (hm_Cards request) of Inl e \<Rightarrow> Inl e | Inr cards \<Rightarrow> Inr (r\<lparr>hr_Cards := cards\<rparr>)
      else Inr r)"

definition handMessageRequestRecordKey :: "nativeHandMessageRequest \<Rightarrow> string res" where
  "handMessageRequestRecordKey request =
     (case transcriptRecordFromHandMessage request of
        Inl e \<Rightarrow> Inl e
      | Inr r \<Rightarrow> handMessageRecordKey (hm_TableID request) (hm_HandID request) (hm_HandNumber request) r)"

definition nativeHandMessageAuthPayload :: "nativeHandMessageRequest \<Rightarrow> goval" where
  "nativeHandMessageAuthPayload request =
     any_map
      [(''epoch'', Some (VInt (hm_Epoch request))),
       (''handId'', Some (VString (hm_HandID request))),
       (''handNumber'', Some (VInt (hm_HandNumber request))),
       (''kind'', Some (VString (hm_Kind request))),
       (''playerId'', Some (VString (hm_PlayerID request))),
       (''phase'', Some (VString (hm_Phase request))),
       (''protocolVersion'', Some (VString (hm_ProtocolVersion request))),
       (''seatIndex'', Some (VInt (hm_SeatIndex request))),
       (''signedAt'', Some (VString (hm_SignedAt request))),
       (''tableId'', Some (VString (hm_TableID request))),
       (''type'', Some (VString ''table-hand-message'')),
       (''commitmentHash'', set_string (hm_CommitmentHash request)),
       (''deckStage'', set_list VString (hm_DeckStage request)),
       (''deckStageRoot'', set_string (hm_DeckStageRoot request)),
       (''lockPublicExponentHex'', set_string (hm_LockPublicExponentHex request)),
       (''cardPositions'', set_list VInt (hm_CardPositions request)),
       (''partialCiphertexts'', set_list VString (hm_PartialCiphertexts request)),
       (''cards'', set_list VString (hm_Cards request)),
       (''recipientSeatIndex'', map_option VInt (hm_RecipientSeatIndex request)),
       (''shuffleSeedHex'', set_string (hm_ShuffleSeedHex request))]"

text \<open>\<open>now\<close> is the text of \<open>nowISO()\<close>; the wallet is the local identity.\<close>

definition buildSignedHandMessageRequest ::
    "('sk, 'pk) secp256k1 \<Rightarrow> (nat \<Rightarrow> string res) \<Rightarrow> string \<Rightarrow> LocalIdentity \<Rightarrow> string \<Rightarrow> nativeTableState
     \<Rightarrow> HandTranscriptRecord \<Rightarrow> nativeHandMessageRequest res" where
  "buildSignedHandMessageRequest curve random now walletID profileName table r =
     (case seatRecordForPlayer table (li_PlayerID walletID) of
        None \<Rightarrow> Inl (Err ''player is not seated'')
      | Some seat \<Rightarrow>
         (case deref (ts_ActiveHand table) of
            Inl e \<Rightarrow> Inl e
          | Inr hand \<Rightarrow>
             (let request = \<lparr>hm_CardPositions = hr_CardPositions r, hm_Cards = handMessageCards (hr_Cards r),
                hm_CommitmentHash = hr_CommitmentHash r, hm_DeckStage = hr_DeckStage r,
                hm_DeckStageRoot = hr_DeckStageRoot r, hm_Epoch = ts_CurrentEpoch table,
                hm_HandID = st_HandID (ah_State hand), hm_HandNumber = st_HandNumber (ah_State hand),
                hm_Kind = hr_Kind r, hm_LockPublicExponentHex = hr_LockPublicExponentHex r,
                hm_PartialCiphertexts = hr_PartialCiphertexts r, hm_Phase = hr_Phase r,
                hm_PlayerID = li_PlayerID walletID, hm_ProfileName = profileName,
                hm_ProtocolVersion = nativeProtocolVersion,
                hm_RecipientSeatIndex = copyOptionalInt (hr_RecipientSeatIndex r),
                hm_SeatIndex = se_SeatIndex seat, hm_ShuffleSeedHex = hr_ShuffleSeedHex r, hm_SignatureHex = [],
                hm_SignedAt = now, hm_TableID = tc_TableID (ts_Config table)\<rparr> in
              case SignStructuredData curve random (li_PrivateKeyHex walletID) (nativeHandMessageAuthPayload request) of
                Inl e \<Rightarrow> Inl e
              | Inr signatureHex \<Rightarrow> Inr (request\<lparr>hm_SignatureHex := signatureHex\<rparr>))))"

definition validateTranscriptRecordPlaintext :: "HandTranscriptRecord \<Rightarrow> unit res" where
  "validateTranscriptRecordPlaintext r =
     (if hr_Cards r = [] then Inr ()
      else if hr_Kind r = nativeHandMessageBoardOpen \<or> hr_Kind r = nativeHandMessageShowdownReveal then Inr ()
      else Inl (Err ''hand transcript %s must not include plaintext cards''))"

definition validateHandMessageRequestIdentity ::
    "('sk, 'pk) secp256k1 \<Rightarrow> nativeTableState \<Rightarrow> nativeSeatRecord \<Rightarrow> nativeHandMessageRequest \<Rightarrow> HandTranscriptRecord res" where
  "validateHandMessageRequestIdentity curve table seat request =
     (if TrimSpace (hm_ProtocolVersion request) \<noteq> nativeProtocolVersion
      then Inl (Err ''hand message protocol version mismatch'')
      else if hm_TableID request \<noteq> tc_TableID (ts_Config table) then Inl (Err ''hand message table mismatch'')
      else if hm_PlayerID request \<noteq> se_PlayerID seat \<or> hm_SeatIndex request \<noteq> se_SeatIndex seat
      then Inl (Err ''hand message seat mismatch'')
      else if hm_HandID request = [] \<or> ts_ActiveHand table = None
        \<or> hm_HandID request \<noteq> st_HandID (ah_State (the (ts_ActiveHand table)))
      then Inl (Err ''hand message hand mismatch'')
      else if hm_HandNumber request \<noteq> st_HandNumber (ah_State (the (ts_ActiveHand table)))
      then Inl (Err ''hand message hand number mismatch'')
      else if hm_SignedAt request = [] \<or> hm_SignatureHex request = []
      then Inl (Err ''hand message is missing signature'')
      else case VerifyStructuredData curve (se_WalletPubkeyHex seat) (nativeHandMessageAuthPayload request)
            (hm_SignatureHex request) of
          Inl e \<Rightarrow> Inl e
        | Inr False \<Rightarrow> Inl (Err ''hand message signature is invalid'')
        | Inr True \<Rightarrow>
           (case transcriptRecordFromHandMessage request of
              Inl e \<Rightarrow> Inl e
            | Inr r \<Rightarrow>
               (case validateTranscriptRecordPlaintext r of Inl e \<Rightarrow> Inl e | Inr _ \<Rightarrow> Inr r)))"

section \<open>The host's checks of a new message\<close>

definition is_board_reveal :: "Street \<Rightarrow> bool" where
  "is_board_reveal phase \<longleftrightarrow> phase = StreetFlopReveal \<or> phase = StreetTurnReveal \<or> phase = StreetRiverReveal"

definition check_new_commit :: "nativeActiveHand \<Rightarrow> nativeHandMessageRequest \<Rightarrow> unit res" where
  "check_new_commit hand request = first_error
     [fail_if (st_Phase (ah_State hand) \<noteq> StreetCommitment) ''hand is not accepting commitments'',
      fail_if (hm_Phase request \<noteq> street_str StreetCommitment) ''commitment phase mismatch'',
      fail_if (TrimSpace (hm_CommitmentHash request) = []) ''commitment hash is required'']"

definition check_new_reveal ::
    "nativeTableState \<Rightarrow> nativeActiveHand \<Rightarrow> nativeSeatRecord \<Rightarrow> nativeHandMessageRequest \<Rightarrow> HandTranscriptRecord \<Rightarrow> unit res" where
  "check_new_reveal table hand seat request r =
     (if st_Phase (ah_State hand) \<noteq> StreetReveal then Inl (Err ''hand is not accepting reveals'')
      else if hm_Phase request \<noteq> street_str StreetReveal then Inl (Err ''reveal phase mismatch'')
      else if list_ex (\<lambda>other. se_SeatIndex other < se_SeatIndex seat
          \<and> fairnessRevealForSeat (Some hand) (se_SeatIndex other) = None) (ts_Seats table)
      then Inl (Err ''waiting for lower seat reveal before seat %d'')
      else case findTranscriptRecord (hand_transcript hand) nativeHandMessageFairnessCommit (Some (se_SeatIndex seat))
            (street_str StreetCommitment) None of
          None \<Rightarrow> Inl (Err ''missing prior commitment for seat %d'')
        | Some commit \<Rightarrow>
           (case VerifyFairnessReveal (tc_TableID (ts_Config table)) (st_HandNumber (ah_State hand)) (se_SeatIndex seat)
               (se_PlayerID seat) (street_str StreetCommitment) (hr_CommitmentHash commit) (hm_ShuffleSeedHex request)
               (hm_LockPublicExponentHex request) of
              Inl e \<Rightarrow> Inl e
            | Inr _ \<Rightarrow>
               (case lower_reveals hand seat \<lparr>mr_PlayerID = se_PlayerID seat, mr_SeatIndex = se_SeatIndex seat,
                     mr_ShuffleSeedHex = hm_ShuffleSeedHex request,
                     mr_LockPublicExponentHex = hm_LockPublicExponentHex request\<rparr> (ts_Seats table) of
                  None \<Rightarrow> Inl (Err ''missing lower reveal for seat %d'')
                | Some reveals \<Rightarrow>
                   (case ReplayMentalDeck reveals of
                      Inl e \<Rightarrow> Inl e
                    | Inr replay \<Rightarrow>
                       (let stage = stage_of_seat replay (se_SeatIndex seat) in
                        first_error
                          [fail_if (length stage \<noteq> length (hr_DeckStage r)) ''reveal stage length mismatch'',
                           fail_if (\<not> sameStrings stage (hr_DeckStage r)) ''reveal stage does not match replay'',
                           fail_if (stage_root_of_seat replay (se_SeatIndex seat) \<noteq> hr_DeckStageRoot r)
                             ''reveal stage root does not match replay''])))))"

definition check_new_share ::
    "nativeTableState \<Rightarrow> nativeActiveHand \<Rightarrow> nativeSeatRecord \<Rightarrow> nativeHandMessageRequest \<Rightarrow> Street \<Rightarrow> int \<Rightarrow> string \<Rightarrow> unit res" where
  "check_new_share table hand seat request phase cardSeat msg =
     (case requiredCardPositionsForPhase table phase cardSeat of
        Inl e \<Rightarrow> Inl e
      | Inr expectedPositions \<Rightarrow>
         if \<not> sameInts expectedPositions (hm_CardPositions request) then Inl (Err msg)
         else verifyPartialCiphertexts (hd_FinalDeck (ah_Cards hand)) (hm_CardPositions request)
                (hm_PartialCiphertexts request) (se_SeatIndex seat) (Some hand))"

definition check_new_delivery ::
    "nativeTableState \<Rightarrow> nativeActiveHand \<Rightarrow> nativeSeatRecord \<Rightarrow> nativeHandMessageRequest \<Rightarrow> unit res" where
  "check_new_delivery table hand seat request =
     (if st_Phase (ah_State hand) \<noteq> StreetPrivateDelivery
      then Inl (Err ''hand is not accepting private delivery shares'')
      else if hm_Phase request \<noteq> street_str StreetPrivateDelivery then Inl (Err ''private delivery phase mismatch'')
      else if hm_RecipientSeatIndex request \<noteq> Some (otherSeatIndex (se_SeatIndex seat))
      then Inl (Err ''private delivery recipient mismatch'')
      else check_new_share table hand seat request StreetPrivateDelivery (otherSeatIndex (se_SeatIndex seat))
             ''private delivery position mismatch'')"

definition check_new_board_share ::
    "nativeTableState \<Rightarrow> nativeActiveHand \<Rightarrow> nativeSeatRecord \<Rightarrow> nativeHandMessageRequest \<Rightarrow> unit res" where
  "check_new_board_share table hand seat request =
     (if \<not> is_board_reveal (st_Phase (ah_State hand)) then Inl (Err ''hand is not accepting board shares'')
      else if hm_Phase request \<noteq> street_str (st_Phase (ah_State hand)) then Inl (Err ''board share phase mismatch'')
      else check_new_share table hand seat request (st_Phase (ah_State hand)) (se_SeatIndex seat)
             ''board share position mismatch'')"

definition check_new_board_open :: "nativeActiveHand \<Rightarrow> nativeHandMessageRequest \<Rightarrow> unit res" where
  "check_new_board_open hand request =
     (if \<not> is_board_reveal (st_Phase (ah_State hand)) then Inl (Err ''hand is not accepting board openings'')
      else if hm_Phase request \<noteq> street_str (st_Phase (ah_State hand)) then Inl (Err ''board open phase mismatch'')
      else verifyBoardOpen (Some hand) (street_str (st_Phase (ah_State hand))) (hm_Cards request))"

definition check_new_showdown :: "nativeActiveHand \<Rightarrow> nativeSeatRecord \<Rightarrow> nativeHandMessageRequest \<Rightarrow> unit res" where
  "check_new_showdown hand seat request =
     (if st_Phase (ah_State hand) \<noteq> StreetShowdownReveal then Inl (Err ''hand is not accepting showdown reveals'')
      else if hm_Phase request \<noteq> street_str StreetShowdownReveal then Inl (Err ''showdown reveal phase mismatch'')
      else verifyShowdownReveal (Some hand) (se_SeatIndex seat) (hm_Cards request))"

definition validateNewHandMessageRequest ::
    "nativeTableState \<Rightarrow> nativeSeatRecord \<Rightarrow> nativeHandMessageRequest \<Rightarrow> HandTranscriptRecord \<Rightarrow> unit res" where
  "validateNewHandMessageRequest table seat request r =
     (if hm_Epoch request \<noteq> ts_CurrentEpoch table then Inl (Err ''hand message epoch mismatch'')
      else if hm_Kind request \<notin> {nativeHandMessageFairnessCommit, nativeHandMessageFairnessReveal,
          nativeHandMessagePrivateDelivery, nativeHandMessageBoardShare, nativeHandMessageBoardOpen,
          nativeHandMessageShowdownReveal}
      then Inl (Err ''unsupported hand message kind %q'')
      else case deref (ts_ActiveHand table) of
          Inl e \<Rightarrow> Inl e
        | Inr hand \<Rightarrow>
           if hm_Kind request = nativeHandMessageFairnessCommit then check_new_commit hand request
           else if hm_Kind request = nativeHandMessageFairnessReveal then check_new_reveal table hand seat request r
           else if hm_Kind request = nativeHandMessagePrivateDelivery then check_new_delivery table hand seat request
           else if hm_Kind request = nativeHandMessageBoardShare then check_new_board_share table hand seat request
           else if hm_Kind request = nativeHandMessageBoardOpen then check_new_board_open hand request
           else check_new_showdown hand seat request)"

section \<open>Accepting a message\<close>

record hand_message_receipt =
  rc_AcceptedTranscriptRoot :: string
  rc_Duplicate :: bool
  rc_RecordKey :: string

text \<open>
  \<open>handleHandMessageFromPeer\<close> under the table lock, up to the append: the table it would go on to advance
  and store, and the receipt. A duplicate leaves the table as it is.
\<close>

definition accept_hand_message ::
    "('sk, 'pk) secp256k1 \<Rightarrow> string \<Rightarrow> nativeTableState \<Rightarrow> nativeHandMessageRequest
     \<Rightarrow> (nativeTableState \<times> hand_message_receipt) res" where
  "accept_hand_message curve selfPeerID table request =
     (if pa_PeerID (kn_Peer (ts_CurrentHost table)) \<noteq> selfPeerID
      then Inl (Err ''hand message request must be sent to the current host'')
      else case ts_ActiveHand table of
          None \<Rightarrow> Inl (Err ''hand is not active'')
        | Some hand \<Rightarrow>
         (case seatRecordForPlayer table (hm_PlayerID request) of
            None \<Rightarrow> Inl (Err ''player is not seated'')
          | Some seat \<Rightarrow>
         (case validateHandMessageRequestIdentity curve table seat request of
            Inl e \<Rightarrow> Inl e
          | Inr r \<Rightarrow>
         (case handMessageRecordKey (hm_TableID request) (hm_HandID request) (hm_HandNumber request) r of
            Inl e \<Rightarrow> Inl e
          | Inr recordKey \<Rightarrow>
         (case findParticipantHandMessageSlotRecord (hand_transcript hand) r of
            Inl e \<Rightarrow> Inl e
          | Inr (Some existing) \<Rightarrow>
             (case handMessageRecordKey (tc_TableID (ts_Config table)) (st_HandID (ah_State hand))
                 (st_HandNumber (ah_State hand)) existing of
                Inl e \<Rightarrow> Inl e
              | Inr existingKey \<Rightarrow>
                  if existingKey = recordKey
                  then Inr (table, \<lparr>rc_AcceptedTranscriptRoot = hr_RootHash existing, rc_Duplicate = True,
                         rc_RecordKey = recordKey\<rparr>)
                  else Inl (Err ''hand message replay conflicts with existing transcript slot %s''))
          | Inr None \<Rightarrow>
         (case validateNewHandMessageRequest table seat request r of
            Inl e \<Rightarrow> Inl e
          | Inr _ \<Rightarrow>
         (case appendHandTranscriptRecord table r of
            Inl e \<Rightarrow> Inl e
          | Inr table' \<Rightarrow>
              Inr (table', \<lparr>rc_AcceptedTranscriptRoot = handTranscriptRoot table', rc_Duplicate = False,
                 rc_RecordKey = recordKey\<rparr>))))))))"

section \<open>The next phase\<close>

text \<open>What the switch of \<open>advanceHandProtocolLocked\<close> did: nothing, a step, or a hand left for
  \<open>finalizeSettledHandLocked\<close>.\<close>

datatype advance_outcome = Unchanged | Advanced | Finalize

definition set_state :: "HoldemState \<Rightarrow> nativeTableState \<Rightarrow> nativeTableState" where
  "set_state state table = table\<lparr>ts_ActiveHand := map_option (\<lambda>hand. hand\<lparr>ah_State := state\<rparr>) (ts_ActiveHand table)\<rparr>"

definition set_final_deck :: "string list \<Rightarrow> nativeTableState \<Rightarrow> nativeTableState" where
  "set_final_deck finalDeck table = table\<lparr>ts_ActiveHand :=
     map_option (\<lambda>hand. hand\<lparr>ah_Cards := (ah_Cards hand)\<lparr>hd_FinalDeck := finalDeck\<rparr>\<rparr>) (ts_ActiveHand table)\<rparr>"

definition stepped :: "string \<Rightarrow> nativeTableState \<Rightarrow> HoldemState res \<Rightarrow> (nativeTableState \<times> advance_outcome) res" where
  "stepped deadline table next1 =
     (case next1 of
        Inl e \<Rightarrow> Inl e
      | Inr state \<Rightarrow> Inr (setProtocolDeadline deadline (set_state state table), Advanced))"

definition finish_reveal :: "string \<Rightarrow> nativeTableState \<Rightarrow> nativeActiveHand \<Rightarrow> (nativeTableState \<times> advance_outcome) res" where
  "finish_reveal deadline table hand =
     (case buildMentalReplay table of
        Inl e \<Rightarrow> Inl e
      | Inr replay \<Rightarrow>
         (case MentalDeckStageRoot (md_FinalDeck replay) of
            Inl e \<Rightarrow> Inl e
          | Inr finalDeckRoot \<Rightarrow>
             (case appendHandTranscriptRecord (set_final_deck (md_FinalDeck replay) table)
                 (empty_record\<lparr>hr_DeckStage := md_FinalDeck replay, hr_DeckStageRoot := finalDeckRoot,
                    hr_Kind := ''finalization'', hr_Phase := street_str StreetFinalization\<rparr>) of
                Inl e \<Rightarrow> Inl e
              | Inr table' \<Rightarrow> stepped deadline table' (Inr ((ah_State hand)\<lparr>st_Phase := StreetPrivateDelivery\<rparr>)))))"

fun showdown_cards ::
    "nativeTableState \<Rightarrow> nativeActiveHand \<Rightarrow> int list \<Rightarrow> (string, CardCode \<times> CardCode) gomap
     \<Rightarrow> (string, CardCode \<times> CardCode) gomap res" where
  "showdown_cards table hand [] holeCards = Inr holeCards"
| "showdown_cards table hand (seatIndex # seats) holeCards =
     (case findTranscriptRecord (hand_transcript hand) nativeHandMessageShowdownReveal (Some seatIndex)
         (street_str StreetShowdownReveal) None of
        None \<Rightarrow> Inl (Err ''missing showdown reveal for seat %d'')
      | Some r \<Rightarrow>
         if length (hr_Cards r) \<noteq> 2 then Inl (Err ''missing showdown reveal for seat %d'')
         else showdown_cards table hand seats
                (AList.update (seatPlayerID table seatIndex) (hr_Cards r ! 0, hr_Cards r ! 1) holeCards))"

definition advance_phase :: "string \<Rightarrow> nativeTableState \<Rightarrow> (nativeTableState \<times> advance_outcome) res" where
  "advance_phase deadline table =
     (case ts_ActiveHand table of
        None \<Rightarrow> Inr (table, Unchanged)
      | Some hand \<Rightarrow>
         (let state = ah_State hand; complete = (missingProtocolSeatIndexes table = []);
              board = (if \<not> complete then Inr (table, Unchanged)
                else case findTranscriptRecord (hand_transcript hand) nativeHandMessageBoardOpen None
                    (street_str (st_Phase state)) None of
                  None \<Rightarrow> Inr (table, Unchanged)
                | Some boardOpen \<Rightarrow> stepped deadline table (ApplyBoardCards state (hr_Cards boardOpen))) in
          case st_Phase state of
            StreetCommitment \<Rightarrow>
              if complete then stepped deadline table (Inr (state\<lparr>st_Phase := StreetReveal\<rparr>)) else Inr (table, Unchanged)
          | StreetReveal \<Rightarrow> if complete then finish_reveal deadline table hand else Inr (table, Unchanged)
          | StreetPrivateDelivery \<Rightarrow>
              if complete then stepped deadline table (ActivateHoldemHand state) else Inr (table, Unchanged)
          | StreetFlopReveal \<Rightarrow> board
          | StreetTurnReveal \<Rightarrow> board
          | StreetRiverReveal \<Rightarrow> board
          | StreetShowdownReveal \<Rightarrow>
              if \<not> complete then Inr (table, Unchanged)
              else (case showdown_cards table hand (liveShowdownSeatIndexes table) [] of
                  Inl e \<Rightarrow> Inl e
                | Inr holeCards \<Rightarrow>
                   (case stepped deadline table (SettleHoldemShowdown state holeCards) of
                      Inl e \<Rightarrow> Inl e
                    | Inr (table', _) \<Rightarrow> Inr (table', Finalize)))
          | StreetSettled \<Rightarrow> Inr (table, Finalize)
          | _ \<Rightarrow> Inr (table, Unchanged)))"

end
