(* ===== verification/Action_Menu.thy ===== *)
theory Action_Menu
  imports Hand_Host
begin

text \<open>
  \<open>internal/meshruntime/action_menu.go\<close>: the finite menu of actions offered to the seat that is up, the anchor that
  binds a menu to a turn, and the hash of a turn candidate; with the predicates of \<open>turn_candidates.go\<close>,
  \<open>turn_challenge.go\<close> and \<open>custody_ark_exec.go\<close> they rest on.
\<close>

section \<open>Policy and modes\<close>

definition actionMenuDefaultHalfPotBps :: int where
  "actionMenuDefaultHalfPotBps = 5000"

definition actionMenuDefaultPotBps :: int where
  "actionMenuDefaultPotBps = 10000"

definition defaultTurnChallengeWindowMS :: int where
  "defaultTurnChallengeWindowMS = 120000"

definition turnTimeoutModeDirect :: string where
  "turnTimeoutModeDirect = ''direct''"

definition turnTimeoutModeChainChallenge :: string where
  "turnTimeoutModeChainChallenge = ''chain-challenge''"

definition defaultActionMenuPolicy :: ActionMenuPolicy where
  "defaultActionMenuPolicy = \<lparr>mp_PotFractionBps = [actionMenuDefaultHalfPotBps, actionMenuDefaultPotBps]\<rparr>"

fun normalize_fractions :: "int list \<Rightarrow> int list \<Rightarrow> int list" where
  "normalize_fractions seen [] = []"
| "normalize_fractions seen (raw # rest) =
     (if raw \<le> 0 then normalize_fractions seen rest
      else
        let bps = (if raw > actionMenuDefaultPotBps then actionMenuDefaultPotBps else raw) in
        if bps \<in> set seen then normalize_fractions seen rest
        else bps # normalize_fractions (bps # seen) rest)"

definition normalizeActionMenuPolicy :: "ActionMenuPolicy \<Rightarrow> ActionMenuPolicy" where
  "normalizeActionMenuPolicy policy0 =
     (let policy = (if length (mp_PotFractionBps policy0) = 0 then defaultActionMenuPolicy else policy0);
          normalized = normalize_fractions [] (mp_PotFractionBps policy) in
      if length normalized = 0 then defaultActionMenuPolicy else \<lparr>mp_PotFractionBps = normalized\<rparr>)"

definition actionMenuPolicyForTable :: "nativeTableState \<Rightarrow> ActionMenuPolicy" where
  "actionMenuPolicyForTable table = normalizeActionMenuPolicy (tc_ActionMenuPolicy (ts_Config table))"

definition normalizeTurnTimeoutMode :: "string \<Rightarrow> string" where
  "normalizeTurnTimeoutMode mode =
     (if TrimSpace mode = turnTimeoutModeChainChallenge then turnTimeoutModeChainChallenge
      else if TrimSpace mode = turnTimeoutModeDirect then turnTimeoutModeDirect
      else turnTimeoutModeDirect)"

definition turnTimeoutModeForTable :: "nativeTableState \<Rightarrow> string" where
  "turnTimeoutModeForTable table = normalizeTurnTimeoutMode (tc_TurnTimeoutMode (ts_Config table))"

definition turnChallengeWindowMSForTable :: "nativeTableState \<Rightarrow> int" where
  "turnChallengeWindowMSForTable table =
     (if tc_TurnChallengeWindowMS (ts_Config table) > 0 then tc_TurnChallengeWindowMS (ts_Config table)
      else defaultTurnChallengeWindowMS)"

section \<open>Options\<close>

definition exactMenuLegalActions :: "PendingTurnMenuPublic option \<Rightarrow> LegalAction list" where
  "exactMenuLegalActions menu =
     (case menu of
        None \<Rightarrow> []
      | Some m \<Rightarrow> map (\<lambda>option.
          if ac_Type (mo_Action option) = ActionBet \<or> ac_Type (mo_Action option) = ActionRaise
          then sized_action (ac_Type (mo_Action option)) (ac_TotalSats (mo_Action option)) (ac_TotalSats (mo_Action option))
          else plain_action (ac_Type (mo_Action option))) (tm_Options m))"

definition clampActionMenuTotal :: "int \<Rightarrow> int \<Rightarrow> int \<Rightarrow> int" where
  "clampActionMenuTotal t minTotal maxTotal =
     (if t < minTotal then minTotal else if t > maxTotal then maxTotal else t)"

definition actionMenuBucketTotal :: "HoldemState \<Rightarrow> int \<Rightarrow> int \<Rightarrow> int res" where
  "actionMenuBucketTotal hand seatIndex fractionBps =
     (case go_index (st_Players hand) seatIndex of
        Inl e \<Rightarrow> Inl e
      | Inr player \<Rightarrow>
         (let toCall = maxInt 0 (st_CurrentBetSats hand - hp_RoundContributionSats player);
              baseTotal = hp_RoundContributionSats player + toCall;
              potBase = st_PotSats hand + toCall in
          Inr (baseTotal + (potBase * fractionBps) sdiv 10000)))"

definition actionMenuOptionID :: "ActionType \<Rightarrow> string \<Rightarrow> string" where
  "actionMenuOptionID actionType label = action_type_str actionType @ ''-'' @ label"

definition menu_option :: "ActionType \<Rightarrow> int \<Rightarrow> string \<Rightarrow> NativeActionMenuOption" where
  "menu_option actionType t optionID =
     \<lparr>mo_Action = \<lparr>ac_Type = actionType, ac_TotalSats = t\<rparr>, mo_CandidateHash = [], mo_OptionID = optionID\<rparr>"

text \<open>The closure \<open>appendOption\<close> run over the labelled totals, with the totals seen so far.\<close>

fun append_options :: "ActionType \<Rightarrow> int \<Rightarrow> int \<Rightarrow> int list \<Rightarrow> (string \<times> int) list \<Rightarrow> NativeActionMenuOption list" where
  "append_options actionType minTotal maxTotal seen [] = []"
| "append_options actionType minTotal maxTotal seen ((label, raw) # rest) =
     (let t = clampActionMenuTotal raw minTotal maxTotal in
      if t \<in> set seen then append_options actionType minTotal maxTotal seen rest
      else menu_option actionType t (actionMenuOptionID actionType label)
        # append_options actionType minTotal maxTotal (t # seen) rest)"

fun bucket_totals :: "HoldemState \<Rightarrow> int \<Rightarrow> int list \<Rightarrow> (string \<times> int) list res" where
  "bucket_totals hand seatIndex [] = Inr []"
| "bucket_totals hand seatIndex (fractionBps # rest) =
     (case actionMenuBucketTotal hand seatIndex fractionBps of
        Inl e \<Rightarrow> Inl e
      | Inr t \<Rightarrow>
         (case bucket_totals hand seatIndex rest of
            Inl e \<Rightarrow> Inl e
          | Inr ts \<Rightarrow> Inr ((''pot-'' @ itoa fractionBps, t) # ts)))"

definition options_of_legal ::
    "HoldemState \<Rightarrow> int \<Rightarrow> ActionMenuPolicy \<Rightarrow> LegalAction \<Rightarrow> NativeActionMenuOption list res" where
  "options_of_legal hand seatIndex policy legal =
     (if la_Type legal \<in> {ActionFold, ActionCheck, ActionCall}
      then Inr [menu_option (la_Type legal) 0 (action_type_str (la_Type legal))]
      else if la_Type legal \<in> {ActionBet, ActionRaise}
      then (case (la_MinTotalSats legal, la_MaxTotalSats legal) of
          (Some minTotal, Some maxTotal) \<Rightarrow>
            (case bucket_totals hand seatIndex (mp_PotFractionBps policy) of
               Inl e \<Rightarrow> Inl e
             | Inr buckets \<Rightarrow>
                 Inr (append_options (la_Type legal) minTotal maxTotal []
                   ((''min'', minTotal) # buckets @ [(''all-in'', maxTotal)])))
        | _ \<Rightarrow> Inl (Err ''action %s is missing its total range''))
      else Inr [])"

fun options_of_all ::
    "HoldemState \<Rightarrow> int \<Rightarrow> ActionMenuPolicy \<Rightarrow> LegalAction list \<Rightarrow> NativeActionMenuOption list res" where
  "options_of_all hand seatIndex policy [] = Inr []"
| "options_of_all hand seatIndex policy (legal # rest) =
     (case options_of_legal hand seatIndex policy legal of
        Inl e \<Rightarrow> Inl e
      | Inr options \<Rightarrow>
         (case options_of_all hand seatIndex policy rest of
            Inl e \<Rightarrow> Inl e
          | Inr others \<Rightarrow> Inr (options @ others)))"

definition deriveFiniteMenuOptions :: "HoldemState \<Rightarrow> nativeTableState \<Rightarrow> NativeActionMenuOption list res" where
  "deriveFiniteMenuOptions hand table =
     (case st_ActingSeatIndex hand of
        None \<Rightarrow> Inr []
      | Some actingSeatIndex \<Rightarrow>
         (let legalActions = GetLegalActions hand (Some actingSeatIndex) in
          if length legalActions = 0 then Inr []
          else options_of_all hand actingSeatIndex (actionMenuPolicyForTable table) legalActions))"

text \<open>The successor states of a menu: \<open>buildPendingTurnMenuForDelivery\<close> builds one candidate per option, in order,
  and each candidate starts with the hand after the option's action; the first error ends the build.\<close>

fun apply_options :: "HoldemState \<Rightarrow> int \<Rightarrow> NativeActionMenuOption list \<Rightarrow> HoldemState list res" where
  "apply_options hand actingSeatIndex [] = Inr []"
| "apply_options hand actingSeatIndex (option # rest) =
     (case ApplyHoldemAction hand actingSeatIndex (mo_Action option) of
        Inl e \<Rightarrow> Inl e
      | Inr nextState \<Rightarrow>
         (case apply_options hand actingSeatIndex rest of
            Inl e \<Rightarrow> Inl e
          | Inr states \<Rightarrow> Inr (nextState # states)))"

definition menu_successors :: "HoldemState \<Rightarrow> nativeTableState \<Rightarrow> HoldemState list res" where
  "menu_successors hand table =
     (case deriveFiniteMenuOptions hand table of
        Inl e \<Rightarrow> Inl e
      | Inr options \<Rightarrow>
         (case deref (st_ActingSeatIndex hand) of
            Inl e \<Rightarrow> Inl e
          | Inr actingSeatIndex \<Rightarrow> apply_options hand actingSeatIndex options))"

definition candidateRequiresIntentAck :: "NativeTurnCandidateBundle \<Rightarrow> bool" where
  "candidateRequiresIntentAck bundle \<longleftrightarrow> TrimSpace (tb_SignedProofPSBT bundle) \<noteq> []"

definition canonicalActionMenuOptions :: "NativeActionMenuOption list \<Rightarrow> NativeActionMenuOption list" where
  "canonicalActionMenuOptions options =
     map (\<lambda>option. \<lparr>mo_Action = mo_Action option, mo_CandidateHash = [], mo_OptionID = mo_OptionID option\<rparr>) options"

section \<open>Looking up options and candidates\<close>

definition findTurnMenuOptionByID :: "PendingTurnMenuPublic option \<Rightarrow> string \<Rightarrow> NativeActionMenuOption option" where
  "findTurnMenuOptionByID menu optionID =
     (case menu of None \<Rightarrow> None | Some m \<Rightarrow> find (\<lambda>option. mo_OptionID option = optionID) (tm_Options m))"

definition findTurnMenuOptionByAction :: "PendingTurnMenuPublic option \<Rightarrow> Action \<Rightarrow> NativeActionMenuOption option" where
  "findTurnMenuOptionByAction menu action =
     (case menu of
        None \<Rightarrow> None
      | Some m \<Rightarrow> find (\<lambda>option. ac_Type (mo_Action option) = ac_Type action
          \<and> (ac_Type (mo_Action option) = ActionBet \<or> ac_Type (mo_Action option) = ActionRaise
             \<longrightarrow> ac_TotalSats (mo_Action option) = ac_TotalSats action)) (tm_Options m))"

definition findTurnMenuOptionByCandidateHash :: "PendingTurnMenuPublic option \<Rightarrow> string \<Rightarrow> NativeActionMenuOption option" where
  "findTurnMenuOptionByCandidateHash menu candidateHash =
     (case menu of None \<Rightarrow> None | Some m \<Rightarrow> find (\<lambda>option. mo_CandidateHash option = candidateHash) (tm_Options m))"

definition find_candidate ::
    "PendingTurnMenuPublic option \<Rightarrow> (NativeTurnCandidateBundle \<Rightarrow> bool) \<Rightarrow> NativeTurnCandidateBundle option" where
  "find_candidate menu wanted =
     (case menu of
        None \<Rightarrow> None
      | Some m \<Rightarrow>
         (case find wanted (tm_Candidates m) of
            Some candidate \<Rightarrow> Some candidate
          | None \<Rightarrow>
             (case tm_TimeoutCandidate m of
                Some candidate \<Rightarrow> if wanted candidate then Some candidate else None
              | None \<Rightarrow> None)))"

definition findTurnCandidateByHash :: "PendingTurnMenuPublic option \<Rightarrow> string \<Rightarrow> NativeTurnCandidateBundle option" where
  "findTurnCandidateByHash menu candidateHash = find_candidate menu (\<lambda>candidate. tb_CandidateHash candidate = candidateHash)"

definition findTurnCandidateByOption :: "PendingTurnMenuPublic option \<Rightarrow> string \<Rightarrow> NativeTurnCandidateBundle option" where
  "findTurnCandidateByOption menu optionID = find_candidate menu (\<lambda>candidate. tb_OptionID candidate = optionID)"

section \<open>The turn a menu belongs to\<close>

definition latestCustodyStateHash :: "nativeTableState \<Rightarrow> string" where
  "latestCustodyStateHash table = (case ts_LatestCustodyState table of None \<Rightarrow> [] | Some state \<Rightarrow> cs_StateHash state)"

definition custodyDecisionIndex :: "HoldemState option \<Rightarrow> int" where
  "custodyDecisionIndex hand = (case hand of None \<Rightarrow> 0 | Some h \<Rightarrow> int (length (st_ActionLog h)))"

definition tableHasActionableTurn :: "nativeTableState \<Rightarrow> bool" where
  "tableHasActionableTurn table =
     (case ts_ActiveHand table of
        None \<Rightarrow> False
      | Some hand \<Rightarrow> PhaseAllowsActions (st_Phase (ah_State hand)) \<and> st_ActingSeatIndex (ah_State hand) \<noteq> None
          \<and> ts_LatestCustodyState table \<noteq> None)"

definition pendingTurnEpoch :: "nativeTableState \<Rightarrow> PendingTurnMenuPublic option \<Rightarrow> int" where
  "pendingTurnEpoch table menu =
     (case menu of
        None \<Rightarrow> ts_CurrentEpoch table
      | Some m \<Rightarrow> if tm_Epoch m > 0 then tm_Epoch m else ts_CurrentEpoch table)"

text \<open>The player whose turn it is, for a table with an actionable turn.\<close>

definition acting_player_id :: "nativeTableState \<Rightarrow> HoldemState \<Rightarrow> string" where
  "acting_player_id table state = seatPlayerID table (the (st_ActingSeatIndex state))"

definition turnChallengeMatchesTable :: "nativeTableState \<Rightarrow> NativePendingTurnChallenge option \<Rightarrow> bool" where
  "turnChallengeMatchesTable table challenge =
     (case (challenge, ts_ActiveHand table) of
        (Some c, Some hand) \<Rightarrow>
          if \<not> tableHasActionableTurn table then False
          else
            (let state = ah_State hand; acting = acting_player_id table state;
                 expectedEpoch =
                   (case ts_PendingTurnMenu table of
                      None \<Rightarrow> ts_CurrentEpoch table
                    | Some m \<Rightarrow>
                        if tm_Epoch m > 0 \<and> tm_HandID m = st_HandID state \<and> tm_DecisionIndex m = custodyDecisionIndex (Some state)
                          \<and> tm_ActingPlayerID m = acting
                        then pendingTurnEpoch table (ts_PendingTurnMenu table)
                        else ts_CurrentEpoch table) in
             tg_TableID c = tc_TableID (ts_Config table) \<and> tg_Epoch c = expectedEpoch \<and> tg_HandID c = st_HandID state
             \<and> tg_DecisionIndex c = custodyDecisionIndex (Some state) \<and> tg_ActingPlayerID c = acting)
      | _ \<Rightarrow> False)"

definition turnMenuSourceStateHash :: "nativeTableState \<Rightarrow> string" where
  "turnMenuSourceStateHash table =
     (case ts_PendingTurnChallenge table of
        Some c \<Rightarrow>
          if turnChallengeMatchesTable table (Some c) \<and> TrimSpace (tg_SourceStateHash c) \<noteq> [] then tg_SourceStateHash c
          else latestCustodyStateHash table
      | None \<Rightarrow> latestCustodyStateHash table)"

section \<open>Hashes\<close>

text \<open>\<open>game.Action\<close> and \<open>game.LegalAction\<close> have no tags, so their members carry the names of the fields.\<close>

definition Action_json :: "Action \<Rightarrow> json" where
  "Action_json a = struct_json
     [(''Type'', Some (JStr (action_type_str (ac_Type a)))), (''TotalSats'', Some (JInt (ac_TotalSats a)))]"

definition int_or_null :: "int option \<Rightarrow> json" where
  "int_or_null i = (case i of None \<Rightarrow> JNull | Some n \<Rightarrow> JInt n)"

definition LegalAction_json :: "LegalAction \<Rightarrow> json" where
  "LegalAction_json l = struct_json
     [(''Type'', Some (JStr (action_type_str (la_Type l)))), (''MinTotalSats'', Some (int_or_null (la_MinTotalSats l))),
      (''MaxTotalSats'', Some (int_or_null (la_MaxTotalSats l)))]"

definition NativeActionMenuOption_json :: "NativeActionMenuOption \<Rightarrow> json" where
  "NativeActionMenuOption_json option = struct_json
     [(''action'', Some (Action_json (mo_Action option))), (''candidateHash'', Some (JStr (mo_CandidateHash option))),
      (''optionId'', Some (JStr (mo_OptionID option)))]"

definition ActionMenuPolicy_json :: "ActionMenuPolicy \<Rightarrow> json" where
  "ActionMenuPolicy_json policy = struct_json [(''potFractionBps'', list_omit JInt (mp_PotFractionBps policy))]"

definition custodyBatchOutput_json :: "custodyBatchOutput \<Rightarrow> json" where
  "custodyBatchOutput_json output = struct_json
     [(''AmountSats'', Some (JInt (bo_AmountSats output))), (''ClaimKey'', Some (JStr (bo_ClaimKey output))),
      (''Onchain'', Some (JBool (bo_Onchain output))), (''OwnerPlayerID'', Some (JStr (bo_OwnerPlayerID output))),
      (''Script'', Some (JStr (bo_Script output))), (''Tapscripts'', Some (list_or_null JStr (bo_Tapscripts output)))]"

definition actionMenuOptionsHash :: "NativeActionMenuOption list \<Rightarrow> string" where
  "actionMenuOptionsHash options = HashValue (JArr (map NativeActionMenuOption_json (canonicalActionMenuOptions options)))"

definition actionMenuOptionsHashForTable :: "nativeTableState \<Rightarrow> string" where
  "actionMenuOptionsHashForTable table =
     (case ts_ActiveHand table of
        None \<Rightarrow> []
      | Some hand \<Rightarrow>
         if st_ActingSeatIndex (ah_State hand) = None then []
         else case deriveFiniteMenuOptions (ah_State hand) table of
             Inl e \<Rightarrow> []
           | Inr options \<Rightarrow> actionMenuOptionsHash options)"

text \<open>A \<open>map[string]any\<close>: the members that are set, ordered by key when it is written.\<close>

definition turnAnchorPayloadForEpoch :: "nativeTableState \<Rightarrow> int \<Rightarrow> (string, json) gomap" where
  "turnAnchorPayloadForEpoch table epoch =
     [(''actionMenuPolicy'', ActionMenuPolicy_json (normalizeActionMenuPolicy (tc_ActionMenuPolicy (ts_Config table)))),
      (''epoch'', JInt epoch),
      (''prevCustodyStateHash'', JStr (turnMenuSourceStateHash table)),
      (''tableId'', JStr (tc_TableID (ts_Config table)))] @
     (case ts_ActiveHand table of
        None \<Rightarrow> [(''decisionIndex'', JInt 0), (''handId'', JStr []), (''legalActionsHash'', JStr [])]
      | Some hand \<Rightarrow>
          [(''decisionIndex'', JInt (custodyDecisionIndex (Some (ah_State hand)))),
           (''handId'', JStr (st_HandID (ah_State hand))),
           (''legalActionsHash'', JStr (HashLegalActions (list_or_null LegalAction_json
              (GetLegalActions (ah_State hand) (st_ActingSeatIndex (ah_State hand)))))),
           (''menuOptionsHash'', JStr (actionMenuOptionsHashForTable table))] @
          (case st_ActingSeatIndex (ah_State hand) of
             None \<Rightarrow> []
           | Some seatIndex \<Rightarrow> [(''actingPlayerId'', JStr (seatPlayerID table seatIndex))]))"

definition turnAnchorPayload :: "nativeTableState \<Rightarrow> (string, json) gomap" where
  "turnAnchorPayload table = turnAnchorPayloadForEpoch table (ts_CurrentEpoch table)"

definition turnAnchorHashForEpoch :: "nativeTableState \<Rightarrow> int \<Rightarrow> string" where
  "turnAnchorHashForEpoch table epoch = HashValue (map_json (\<lambda>j. j) (turnAnchorPayloadForEpoch table epoch))"

definition turnAnchorHash :: "nativeTableState \<Rightarrow> string" where
  "turnAnchorHash table = turnAnchorHashForEpoch table (ts_CurrentEpoch table)"

definition pendingTurnAnchorHash :: "nativeTableState \<Rightarrow> PendingTurnMenuPublic option \<Rightarrow> string" where
  "pendingTurnAnchorHash table menu =
     (case menu of
        Some m \<Rightarrow>
          if TrimSpace (tm_TurnAnchorHash m) \<noteq> [] then tm_TurnAnchorHash m
          else turnAnchorHashForEpoch table (pendingTurnEpoch table menu)
      | None \<Rightarrow> turnAnchorHashForEpoch table (pendingTurnEpoch table menu))"

definition turnMenuMatchesTable :: "nativeTableState \<Rightarrow> PendingTurnMenuPublic option \<Rightarrow> bool" where
  "turnMenuMatchesTable table menu =
     (case (menu, ts_ActiveHand table) of
        (Some m, Some hand) \<Rightarrow>
          tableHasActionableTurn table
          \<and> tm_TurnAnchorHash m = turnAnchorHashForEpoch table (tm_Epoch m)
          \<and> tm_PrevCustodyStateHash m = turnMenuSourceStateHash table
          \<and> tm_HandID m = st_HandID (ah_State hand)
          \<and> tm_DecisionIndex m = custodyDecisionIndex (Some (ah_State hand))
          \<and> tm_ActingPlayerID m = acting_player_id table (ah_State hand)
      | _ \<Rightarrow> False)"

section \<open>Candidates\<close>

definition custodyBatchOutputSemanticKey :: "custodyBatchOutput \<Rightarrow> string" where
  "custodyBatchOutputSemanticKey output =
     bo_ClaimKey output @ ''|'' @ bo_OwnerPlayerID output @ ''|'' @ itoa (bo_AmountSats output) @ ''|'' @
     (if bo_Onchain output then ''true'' else ''false'') @ ''|'' @ bo_Script output @ ''|'' @
     join '','' (bo_Tapscripts output)"

definition canonicalCandidateOutputs :: "custodyBatchOutput list \<Rightarrow> custodyBatchOutput list" where
  "canonicalCandidateOutputs outputs =
     slice_stable (\<lambda>left right. custodyBatchOutputSemanticKey left < custodyBatchOutputSemanticKey right) outputs"

definition cloneTimeoutResolution :: "TimeoutResolution option \<Rightarrow> TimeoutResolution option" where
  "cloneTimeoutResolution resolution = (case resolution of None \<Rightarrow> None | Some cloned \<Rightarrow> Some cloned)"

definition sortTimeoutResolution :: "TimeoutResolution option \<Rightarrow> TimeoutResolution option" where
  "sortTimeoutResolution resolution =
     map_option (\<lambda>r. r\<lparr>tr_DeadPlayerIDs := sort (tr_DeadPlayerIDs r),
       tr_LostEligibilityPlayerIDs := sort (tr_LostEligibilityPlayerIDs r)\<rparr>) resolution"

definition canonicalCandidateTransition :: "CustodyTransition \<Rightarrow> CustodyTransition" where
  "canonicalCandidateTransition transition =
     transition\<lparr>ct_Approvals := [], ct_ArkIntentID := [], ct_ArkTxID := [],
       ct_NextState := (ct_NextState transition)\<lparr>cs_CreatedAt := [], cs_StateHash := []\<rparr>,
       ct_NextStateHash := [], ct_Proof := empty_proof, ct_ProposedAt := [], ct_ProposedBy := [], ct_TransitionID := [],
       ct_TimeoutResolution := sortTimeoutResolution (cloneTimeoutResolution (ct_TimeoutResolution transition))\<rparr>"

definition turnCandidateHash ::
    "(TxTreeNode \<Rightarrow> json) \<Rightarrow> string \<Rightarrow> CustodyTransition \<Rightarrow> custodyBatchOutput list \<Rightarrow> string" where
  "turnCandidateHash node_json anchorHash transition outputs =
     HashValue (map_json (\<lambda>j. j)
       [(''authorizedOutputs'', list_or_null custodyBatchOutput_json (canonicalCandidateOutputs outputs)),
        (''transition'', CustodyTransition_json node_json (canonicalCandidateTransition transition)),
        (''turnAnchorHash'', JStr anchorHash)])"

fun take_output :: "(string, int) gomap \<Rightarrow> custodyBatchOutput list \<Rightarrow> (string, int) gomap res" where
  "take_output counts [] = Inr counts"
| "take_output counts (output # rest) =
     (if mget counts (custodyBatchOutputSemanticKey output) = 0
      then Inl (Err ''custody proof output %s is not authorized by the transition'')
      else take_output (madd (custodyBatchOutputSemanticKey output) (- 1) counts) rest)"

definition validateAuthorizedCustodyBatchOutputs :: "custodyBatchOutput list \<Rightarrow> custodyBatchOutput list \<Rightarrow> unit res" where
  "validateAuthorizedCustodyBatchOutputs expected actual =
     (let expectedCounts = fold (\<lambda>output. madd (custodyBatchOutputSemanticKey output) 1) expected [] in
      if length actual \<noteq> length expected then Inl (Err ''custody proof outputs do not match the authorized transition'')
      else case take_output expectedCounts actual of
          Inl e \<Rightarrow> Inl e
        | Inr counts \<Rightarrow>
            if list_ex (\<lambda>(key, count). count \<noteq> 0) counts then Inl (Err ''custody proof is missing authorized output %s'')
            else Inr ())"

end
