(* ===== verification/Hand_Start.thy ===== *)
theory Hand_Start
  imports Hand_Host
begin

text \<open>
  Starting a hand and replaying an accepted one: \<open>startNextHandLocked\<close> and its helpers from
  \<open>internal/meshruntime/runtime.go\<close>, the balances a hand starts from and the replay of an accepted abort
  from \<open>hand.go\<close>. Values of type \<open>any\<close> come from JSON, so a number is a float by its text.
\<close>

section \<open>Values of type any\<close>

definition is_nil :: "goval \<Rightarrow> bool" where
  "is_nil v \<longleftrightarrow> v = VInvalid \<or> v = VRef None"

text \<open>A string, or a \<open>fmt.Stringer\<close>: of those only \<open>json.Number\<close> comes out of a decoder.\<close>

fun stringValue :: "goval \<Rightarrow> string" where
  "stringValue (VString s) = s"
| "stringValue (VNumber s) = s"
| "stringValue _ = []"

definition split_sign :: "string \<Rightarrow> bool \<times> string" where
  "split_sign s = (case s of [] \<Rightarrow> (False, []) | c # r \<Rightarrow>
     if c = CHR ''-'' then (True, r) else if c = CHR ''+'' then (False, r) else (False, s))"

definition signed_value :: "bool \<Rightarrow> string \<Rightarrow> int" where
  "signed_value neg digits = (if neg then - int (digits_value digits) else int (digits_value digits))"

text \<open>\<open>int(f)\<close> of a float64 given by its JSON text; a value out of range converts to the smallest integer,
  as it does on amd64.\<close>

definition float_to_int :: "string \<Rightarrow> int" where
  "float_to_int s =
     (let (neg, digits) = split_sign s; v = signed_value neg (takeWhile is_digit digits) in
      case dropWhile (\<lambda>c. c \<noteq> CHR ''e'') digits of
        e # sign # _ \<Rightarrow> if sign = CHR ''-'' then 0 else - (2 ^ 63)
      | _ \<Rightarrow> if - (2 ^ 63) \<le> v \<and> v < 2 ^ 63 then v else - (2 ^ 63))"

text \<open>\<open>json.Number.Int64\<close>, the error being ignored: 0 for a text that is no integer, the nearest bound for one out
  of range.\<close>

definition number_to_int :: "string \<Rightarrow> int" where
  "number_to_int s =
     (let (neg, digits) = split_sign s; v = signed_value neg digits in
      if digits = [] \<or> \<not> list_all is_digit digits then 0 else max (- (2 ^ 63)) (min (2 ^ 63 - 1) v))"

definition intFromMap :: "(string, goval) gomap option \<Rightarrow> string \<Rightarrow> int \<Rightarrow> int" where
  "intFromMap input key fallback =
     (case input of
        None \<Rightarrow> fallback
      | Some m \<Rightarrow>
         (case map_of m key of
            Some (VFloat (Some s)) \<Rightarrow> float_to_int s
          | Some (VInt i) \<Rightarrow> i
          | Some (VNumber s) \<Rightarrow> number_to_int s
          | _ \<Rightarrow> fallback))"

section \<open>Starting a hand\<close>

definition terminalCustodySeatStatus :: "string \<Rightarrow> bool" where
  "terminalCustodySeatStatus status \<longleftrightarrow> TrimSpace status \<in> {''completed'', ''exited'', ''pending-exit''}"

definition releaseCompletedActiveHandForNextStart :: "nativeTableState \<Rightarrow> nativeTableState" where
  "releaseCompletedActiveHandForNextStart table =
     (case ts_ActiveHand table of
        None \<Rightarrow> table
      | Some hand \<Rightarrow>
         if st_Phase (ah_State hand) \<noteq> StreetSettled \<and> st_Phase (ah_State hand) \<noteq> StreetAborted then table
         else table\<lparr>ts_ActiveHand := None, ts_ActiveHandStartAt := []\<rparr>)"

definition active_players :: "CustodyState option \<Rightarrow> string list" where
  "active_players custody = (case custody of None \<Rightarrow> [] | Some state \<Rightarrow>
     map sc_PlayerID (filter (\<lambda>claim. \<not> (sc_AmountSats claim \<le> 0 \<or> terminalCustodySeatStatus (sc_Status claim)))
       (cs_StackClaims state)))"

definition reactivateContinuingSeatsForNextHand :: "nativeTableState \<Rightarrow> nativeTableState" where
  "reactivateContinuingSeatsForNextHand table =
     table\<lparr>ts_Seats := map (\<lambda>seat.
       if terminalCustodySeatStatus (se_Status seat) then seat
       else if ts_LatestCustodyState table \<noteq> None
         \<and> se_PlayerID seat \<notin> set (active_players (ts_LatestCustodyState table)) then seat
       else seat\<lparr>se_Status := ''active''\<rparr>) (ts_Seats table)\<rparr>"

definition activeCustodySeatCount :: "nativeTableState \<Rightarrow> nat" where
  "activeCustodySeatCount table =
     (case ts_LatestCustodyState table of
        None \<Rightarrow> length (ts_Seats table)
      | Some state \<Rightarrow>
          length (filter (\<lambda>seat. \<not> (se_Status seat \<noteq> [] \<and> se_Status seat \<noteq> ''active'')
            \<and> list_ex (\<lambda>claim. sc_PlayerID claim = se_PlayerID seat \<and> sc_AmountSats claim > 0) (cs_StackClaims state))
            (ts_Seats table)))"

definition latestCommittedHandNumber :: "nativeTableState \<Rightarrow> int" where
  "latestCommittedHandNumber table =
     fold (\<lambda>candidate latest. if candidate > latest then candidate else latest)
       ((case ts_ActiveHand table of None \<Rightarrow> [] | Some hand \<Rightarrow> [st_HandNumber (ah_State hand)])
        @ (case ts_PublicState table of None \<Rightarrow> [] | Some public \<Rightarrow> [pu_HandNumber public])
        @ (case ts_LatestCustodyState table of None \<Rightarrow> [] | Some state \<Rightarrow> [cs_HandNumber state])
        @ (case ts_LatestSnapshot table of None \<Rightarrow> [] | Some snapshot \<Rightarrow> [sn_HandNumber snapshot])
        @ (case ts_LatestFullySignedSnapshot table of None \<Rightarrow> [] | Some snapshot \<Rightarrow> [sn_HandNumber snapshot])
        @ map (\<lambda>event. intFromMap (ev_Body event) ''handNumber'' 0) (ts_Events table)) 0"

text \<open>\<open>later t ms\<close> stands for \<open>addMillis(t, ms)\<close>.\<close>

definition nativeNextHandDelayMS :: int where
  "nativeNextHandDelayMS = 1000"

definition nextHandDelayMSForTable :: "nativeTableState \<Rightarrow> int" where
  "nextHandDelayMSForTable table =
     (if tc_NextHandDelayMS (ts_Config table) > 0 then tc_NextHandDelayMS (ts_Config table) else nativeNextHandDelayMS)"

definition canonicalNextHandAt :: "(string \<Rightarrow> int \<Rightarrow> string) \<Rightarrow> nativeTableState \<Rightarrow> string" where
  "canonicalNextHandAt later table =
     (let delay = nextHandDelayMSForTable table;
          custody_at = (case ts_LatestCustodyState table of None \<Rightarrow> [] | Some state \<Rightarrow> TrimSpace (cs_CreatedAt state));
          chain_at = (if ts_CustodyTransitions table = [] then []
             else TrimSpace (cs_CreatedAt (ct_NextState (List.last (ts_CustodyTransitions table))))) in
      if TrimSpace (ts_NextHandAt table) \<noteq> [] then TrimSpace (ts_NextHandAt table)
      else if TrimSpace (ts_ActiveHandStartAt table) \<noteq> [] then TrimSpace (ts_ActiveHandStartAt table)
      else if custody_at \<noteq> []
      then later (cs_CreatedAt (the (ts_LatestCustodyState table))) delay
      else if chain_at \<noteq> [] then later chain_at delay
      else [])"

definition claim_amounts :: "StackClaim list \<Rightarrow> (string, int) gomap" where
  "claim_amounts claims = fold (\<lambda>claim m. AList.update (sc_PlayerID claim) (sc_AmountSats claim) m) claims []"

definition start_chips :: "nativeTableState \<Rightarrow> (string, int) gomap" where
  "start_chips table =
     (case ts_LatestCustodyState table of
        Some state \<Rightarrow> claim_amounts (cs_StackClaims state)
      | None \<Rightarrow>
         (case ts_LatestFullySignedSnapshot table of
            Some snapshot \<Rightarrow> fold (\<lambda>(playerID, amount) m. AList.update playerID amount m) (sn_ChipBalances snapshot) []
          | None \<Rightarrow> fold (\<lambda>seat m. AList.update (se_PlayerID seat) (se_BuyInSats seat) m) (ts_Seats table) []))"

definition new_hand_cards :: "string \<Rightarrow> nativeTableState \<Rightarrow> HoldemState \<Rightarrow> nativeHandCardState" where
  "new_hand_cards deadline table hand =
     \<lparr>hd_FinalDeck = [], hd_PhaseDeadlineAt = deadline,
      hd_Transcript = \<lparr>ht_HandID = st_HandID hand, ht_HandNumber = st_HandNumber hand, ht_Records = [], ht_RootHash = [],
        ht_TableID = tc_TableID (ts_Config table)\<rparr>\<rparr>"

text \<open>The configuration of the next hand; \<open>handID\<close> is the fresh identifier.\<close>

definition next_hand_config :: "string \<Rightarrow> nativeTableState \<Rightarrow> HoldemHandConfig" where
  "next_hand_config handID table =
     (let chips = start_chips table; handNumber = latestCommittedHandNumber table + 1;
          stake = (\<lambda>i. \<lparr>hsc_PlayerID = se_PlayerID (ts_Seats table ! i),
             hsc_StackSats = mget chips (se_PlayerID (ts_Seats table ! i))\<rparr>) in
      \<lparr>hc_HandID = handID, hc_HandNumber = handNumber, hc_DealerSeatIndex = (handNumber - 1) smod 2,
       hc_SmallBlindSats = tc_SmallBlindSats (ts_Config table), hc_BigBlindSats = tc_BigBlindSats (ts_Config table),
       hc_Seats = [stake 0, stake 1]\<rparr>)"

text \<open>
  \<open>startNextHandLocked\<close> up to the blind-post transition: \<open>None\<close> when no hand is due, otherwise the table with
  the new hand. \<open>elapsed\<close> is \<open>elapsedMillis\<close> and \<open>deadline\<close> the deadline of the first phase.
\<close>

definition start_next_hand ::
    "(string \<Rightarrow> int) \<Rightarrow> (string \<Rightarrow> int \<Rightarrow> string) \<Rightarrow> string \<Rightarrow> string \<Rightarrow> nativeTableState \<Rightarrow> nativeTableState option res" where
  "start_next_hand elapsed later deadline handID table0 =
     (if ts_NextHandAt table0 \<noteq> [] \<and> elapsed (ts_NextHandAt table0) < 0 then Inr None
      else if (case ts_ActiveHand table0 of None \<Rightarrow> False | Some hand \<Rightarrow>
          st_Phase (ah_State hand) \<noteq> StreetSettled \<and> st_Phase (ah_State hand) \<noteq> StreetAborted)
      then Inr None
      else
        (let table1 = reactivateContinuingSeatsForNextHand (releaseCompletedActiveHandForNextStart table0) in
         if length (ts_Seats table1) < 2 \<or> activeCustodySeatCount table1 < 2 then Inr None
         else
           (let table = table1\<lparr>ts_ActiveHandStartAt := canonicalNextHandAt later table1\<rparr> in
            case CreateHoldemHand (next_hand_config handID table) of
              Inl e \<Rightarrow> Inl e
            | Inr hand \<Rightarrow>
                Inr (Some (table\<lparr>ts_ActiveHand :=
                  Some \<lparr>ah_Cards = new_hand_cards deadline table hand, ah_State = hand\<rparr>\<rparr>)))))"

section \<open>Replaying an accepted hand\<close>

definition first_balances :: "CustodyState list \<Rightarrow> (string, int) gomap option" where
  "first_balances states =
     map_option (\<lambda>state. claim_amounts (cs_StackClaims state))
       (find (\<lambda>state. claim_amounts (cs_StackClaims state) \<noteq> []) states)"

fun best_snapshot ::
    "int \<Rightarrow> NativeCooperativeTableSnapshot list \<Rightarrow> int \<times> (string, int) gomap \<Rightarrow> int \<times> (string, int) gomap" where
  "best_snapshot handNumber [] best = best"
| "best_snapshot handNumber (snapshot # snapshots) best =
     (if sn_HandNumber snapshot \<ge> handNumber \<or> sn_HandNumber snapshot < fst best
      then best_snapshot handNumber snapshots best
      else best_snapshot handNumber snapshots (sn_HandNumber snapshot, sn_ChipBalances snapshot))"

definition startingBalancesForHand :: "nativeTableState \<Rightarrow> int \<Rightarrow> (string, int) gomap" where
  "startingBalancesForHand table handNumber =
     (let before = (\<lambda>states. filter (\<lambda>state. cs_HandNumber state < handNumber) states);
          chain = before (map ct_NextState (rev (ts_CustodyTransitions table)));
          latest = before (case ts_LatestCustodyState table of None \<Rightarrow> [] | Some state \<Rightarrow> [state]) in
      case first_balances (chain @ latest) of
        Some balances \<Rightarrow> balances
      | None \<Rightarrow>
         (case best_snapshot handNumber (ts_Snapshots table) (- 1, []) of
            (bestHandNumber, balances) \<Rightarrow>
              if bestHandNumber \<ge> 0 then balances
              else fold (\<lambda>seat m. AList.update (se_PlayerID seat) (se_BuyInSats seat) m) (ts_Seats table) balances))"

definition acceptedAbortSeatIndex :: "nativeTableState \<Rightarrow> int option" where
  "acceptedAbortSeatIndex table =
     (case ts_ActiveHand table of
        None \<Rightarrow> None
      | Some hand \<Rightarrow>
         (case find (\<lambda>event. \<not> (ev_MessageType event \<noteq> ''HandAbort''
               \<or> stringValue (ev_HandID event) \<noteq> st_HandID (ah_State hand))) (rev (ts_Events table)) of
            None \<Rightarrow> None
          | Some event \<Rightarrow>
             (case ev_Body event of
                None \<Rightarrow> None
              | Some body \<Rightarrow>
                 (case map_of body ''seatIndex'' of
                    None \<Rightarrow> None
                  | Some v \<Rightarrow>
                     if is_nil v then None
                     else (let seatIndex = intFromMap (Some body) ''seatIndex'' (- 1) in
                           if seatIndex < 0 then None else Some seatIndex)))))"

definition replayAcceptedAbortIfPresent :: "nativeTableState \<Rightarrow> HoldemState \<Rightarrow> (HoldemState \<times> bool) res" where
  "replayAcceptedAbortIfPresent table hand =
     (case ts_ActiveHand table of
        None \<Rightarrow> Inr (hand, False)
      | Some active \<Rightarrow>
         if st_Phase (ah_State active) \<noteq> StreetSettled then Inr (hand, False)
         else case acceptedAbortSeatIndex table of
             None \<Rightarrow> Inr (hand, False)
           | Some seatIndex \<Rightarrow>
              (case ForceFoldSeat hand seatIndex of Inl e \<Rightarrow> Inl e | Inr next1 \<Rightarrow> Inr (next1, True)))"

end
