(* ===== verification/Custody_Outputs.thy ===== *)
theory Custody_Outputs
  imports Action_Menu Hand_Start
begin

text \<open>
  The outputs that hold the money of a table, from \<open>internal/meshruntime/custody_ark_helpers.go\<close>: the keys that
  may spend the output of a stack or of a pot, who has to sign a transition, and when an output of the previous
  state is carried over. The Ark script library and the curve library are the record \<open>ark_lib\<close>; a public key is
  its compressed encoding. What the daemon knows beside the table, its identity and the settings of the Ark
  server, is the record \<open>mesh_env\<close>, with the clock at the time of an operation: \<open>me_Now\<close> is \<open>nowISO()\<close>, \<open>me_Later\<close>
  is \<open>addMillis\<close>, \<open>me_Elapsed\<close> is \<open>elapsedMillis\<close> and \<open>me_ParseTime\<close>
  reads a time stamp as nanoseconds. The network of a server, a value of the Ark library, is its name.
\<close>

section \<open>Sequencing\<close>

definition bind_res :: "'a res \<Rightarrow> ('a \<Rightarrow> 'b res) \<Rightarrow> 'b res" where
  "bind_res r f = (case r of Inl e \<Rightarrow> Inl e | Inr x \<Rightarrow> f x)"

fun map_res :: "('a \<Rightarrow> 'b res) \<Rightarrow> 'a list \<Rightarrow> 'b list res" where
  "map_res f [] = Inr []"
| "map_res f (x # xs) = bind_res (f x) (\<lambda>y. bind_res (map_res f xs) (\<lambda>ys. Inr (y # ys)))"

lemma bind_res_simps [simp]: "bind_res (Inl e) f = Inl e" "bind_res (Inr x) f = f x"
  by (simp_all add: bind_res_def)

lemma bind_res_ok: "bind_res r f = Inr y \<longleftrightarrow> (\<exists>x. r = Inr x \<and> f x = Inr y)"
  by (cases r) auto

lemma map_res_ok: "map_res f xs = Inr ys \<longleftrightarrow> list_all2 (\<lambda>x y. f x = Inr y) xs ys"
proof (induction xs arbitrary: ys)
  case (Cons x xs)
  then show ?case by (cases ys) (auto simp: bind_res_ok)
qed auto

section \<open>Keys, closures and the environment\<close>

type_synonym pubkey = string

datatype LocktimeType = LocktimeTypeSecond | LocktimeTypeBlock

record RelativeLocktime =
  rl_Type :: LocktimeType
  rl_Value :: "32 word"

text \<open>The closures of \<open>arkscript\<close>: signatures of all keys, after an absolute time or after a delay.\<close>

datatype closure =
    MultisigClosure "pubkey list"
  | CLTVMultisigClosure "32 word" "pubkey list"
  | CSVMultisigClosure RelativeLocktime "pubkey list"

record ark_lib =
  ark_ParsePubKey :: "string \<Rightarrow> pubkey res"
  ark_SerializePubKey :: "pubkey \<Rightarrow> string"
  ark_NewDefaultVtxoScript :: "pubkey \<Rightarrow> pubkey \<Rightarrow> RelativeLocktime \<Rightarrow> closure list"
  ark_Encode :: "closure list \<Rightarrow> string list res"
  ark_P2TRScript :: "closure list \<Rightarrow> string res"
  ark_ParseVtxoScript :: "string list \<Rightarrow> closure list res"
  ark_ForfeitClosures :: "closure list \<Rightarrow> closure list"
  ark_Script :: "closure \<Rightarrow> string res"
  ark_MerkleProof :: "closure list \<Rightarrow> string \<Rightarrow> string res"
  ark_ToTxOut :: "string \<Rightarrow> int \<Rightarrow> (string \<times> bool) res"
  ark_NodeJson :: "TxTreeNode \<Rightarrow> json"

record CustodyArkConfig =
  ka_ArkServerURL :: string
  ka_CheckpointTapscript :: string
  ka_DustSats :: "64 word"
  ka_ExplorerURL :: string
  ka_ForfeitAddress :: string
  ka_ForfeitPubkeyHex :: string
  ka_Network :: string
  ka_OffchainInputFeeSats :: int
  ka_OffchainOutputFeeSats :: int
  ka_OnchainInputFeeSats :: int
  ka_OnchainOutputFeeSats :: int
  ka_SignerPubkeyHex :: string
  ka_UnilateralExitDelay :: RelativeLocktime

record mesh_env =
  me_UseMockSettlement :: bool
  me_WalletID :: LocalIdentity
  me_ProtocolPublicKeyHex :: string
  me_ArkConfig :: "CustodyArkConfig res"
  me_FeeReserveOverride :: string
  me_ParseTime :: "string \<Rightarrow> int res"
  me_Now :: string
  me_Later :: "string \<Rightarrow> int \<Rightarrow> string"
  me_Elapsed :: "string \<Rightarrow> int"
  me_Ark :: ark_lib

record custodySpendPath =
  path_LeafProof :: string
  path_CSVLocktime :: RelativeLocktime
  path_Locktime :: "32 word"
  path_PKScript :: string
  path_PlayerIDs :: "string list"
  path_SignerXOnlyPubkeys :: "string list"
  path_Script :: string
  path_Tapscripts :: "string list"
  path_UsesCSVLocktime :: bool
  path_UsesCLTVLocktime :: bool

record custodyInputSpec =
  in_ClaimKey :: string
  in_OwnerPlayerID :: string
  in_Ref :: VTXORef
  in_SpendPath :: custodySpendPath

record custodyOutputSpec =
  os_AmountSats :: int
  os_ClaimKey :: string
  os_OwnerPlayerID :: string
  os_Script :: string
  os_Tapscripts :: "string list"

record custodySettlementPlan =
  pl_AuthorizedOutputs :: "custodyBatchOutput list"
  pl_Inputs :: "custodyInputSpec list"
  pl_Outputs :: "custodyOutputSpec list"
  pl_ProofSignerIDs :: "string list"
  pl_TreeSignerIDs :: "string list"

record cachedCustodySpendCandidate =
  cc_Kind :: string
  cc_LeafProof :: string
  cc_Locktime :: "32 word"
  cc_Script :: string
  cc_SignerXOnlyPubkeys :: "string list"
  cc_UsesCLTVLocktime :: bool

record cachedCustodySpendPaths =
  cpp_Candidates :: "cachedCustodySpendCandidate list"
  cpp_PKScript :: string
  cpp_Tapscripts :: "string list"

definition defaultRealCustodyReserveTransitions :: int where
  "defaultRealCustodyReserveTransitions = 8"

definition minimumRealCustodyReserveSats :: int where
  "minimumRealCustodyReserveSats = 10000"

text \<open>Two minutes, in nanoseconds.\<close>

definition custodyTimeoutLocktimeSlack :: int where
  "custodyTimeoutLocktimeSlack = 120000000000"

section \<open>The Ark server's settings and fees\<close>

text \<open>Without the hook that replaces the execution of batches in tests.\<close>

definition arkCustodyConfig :: "mesh_env \<Rightarrow> CustodyArkConfig res" where
  "arkCustodyConfig env =
     bind_res (me_ArkConfig env) (\<lambda>config.
       Inr (config
         \<lparr>ka_SignerPubkeyHex := (if TrimSpace (ka_SignerPubkeyHex config) = [] then me_ProtocolPublicKeyHex env
            else ka_SignerPubkeyHex config),
          ka_ForfeitPubkeyHex := (if TrimSpace (ka_ForfeitPubkeyHex config) = [] then me_ProtocolPublicKeyHex env
            else ka_ForfeitPubkeyHex config),
          ka_UnilateralExitDelay := (if rl_Value (ka_UnilateralExitDelay config) = 0
            then \<lparr>rl_Type = LocktimeTypeBlock, rl_Value = 512\<rparr> else ka_UnilateralExitDelay config)\<rparr>))"

definition estimatedCustodyBatchFee :: "mesh_env \<Rightarrow> int \<Rightarrow> int \<Rightarrow> int \<Rightarrow> int \<Rightarrow> int res" where
  "estimatedCustodyBatchFee env offchainInputs offchainOutputs onchainInputs onchainOutputs =
     bind_res (arkCustodyConfig env) (\<lambda>config.
       Inr (offchainInputs * maxInt 0 (ka_OffchainInputFeeSats config)
          + offchainOutputs * maxInt 0 (ka_OffchainOutputFeeSats config)
          + onchainInputs * maxInt 0 (ka_OnchainInputFeeSats config)
          + onchainOutputs * maxInt 0 (ka_OnchainOutputFeeSats config)))"

text \<open>\<open>strconv.Atoi\<close>.\<close>

definition Atoi :: "string \<Rightarrow> int res" where
  "Atoi s =
     (let (neg, digits) = split_sign s; v = signed_value neg digits in
      if digits = [] \<or> \<not> list_all is_digit digits then Inl (Err ''invalid syntax'')
      else if v < - (2 ^ 63) \<or> 2 ^ 63 \<le> v then Inl (Err ''value out of range'')
      else Inr v)"

definition initialSeatFeeReserveSats :: "mesh_env \<Rightarrow> int res" where
  "initialSeatFeeReserveSats env =
     (if me_UseMockSettlement env then Inr 0
      else if TrimSpace (me_FeeReserveOverride env) \<noteq> []
      then (case Atoi (TrimSpace (me_FeeReserveOverride env)) of
          Inl e \<Rightarrow> Inl (Err ''parse PARKER_CUSTODY_FEE_RESERVE_SATS: %w'')
        | Inr v \<Rightarrow> Inr (maxInt 0 v))
      else bind_res (estimatedCustodyBatchFee env 2 2 0 0) (\<lambda>perTransition.
        Inr (maxInt minimumRealCustodyReserveSats (perTransition * defaultRealCustodyReserveTransitions))))"

definition requiredJoinFundingSats :: "mesh_env \<Rightarrow> int \<Rightarrow> int res" where
  "requiredJoinFundingSats env buyInSats =
     (if me_UseMockSettlement env then Inr buyInSats
      else bind_res (initialSeatFeeReserveSats env) (\<lambda>reserve. Inr (buyInSats + reserve)))"

section \<open>Keys of the players\<close>

text \<open>The caches of the source only save work.\<close>

definition compressedPubkeyFromHex :: "mesh_env \<Rightarrow> string \<Rightarrow> pubkey res" where
  "compressedPubkeyFromHex env v = bind_res (DecodeString (TrimSpace v)) (ark_ParsePubKey (me_Ark env))"

definition xOnlyPubkeyHexFromCompressed :: "mesh_env \<Rightarrow> string \<Rightarrow> string res" where
  "xOnlyPubkeyHexFromCompressed env v =
     bind_res (compressedPubkeyFromHex env v) (\<lambda>pubkey. Inr (EncodeToString (ark_SerializePubKey (me_Ark env) pubkey)))"

definition walletPubkeyHexForPlayer :: "mesh_env \<Rightarrow> nativeTableState \<Rightarrow> string \<Rightarrow> string res" where
  "walletPubkeyHexForPlayer env table playerID =
     (let otherwise =
        (if playerID = li_PlayerID (me_WalletID env) \<and> TrimSpace (li_PublicKeyHex (me_WalletID env)) \<noteq> []
         then Inr (li_PublicKeyHex (me_WalletID env)) else Inl (Err ''missing seat for player %s'')) in
      case seatRecordForPlayer table playerID of
        Some seat \<Rightarrow> if TrimSpace (se_WalletPubkeyHex seat) \<noteq> [] then Inr (se_WalletPubkeyHex seat) else otherwise
      | None \<Rightarrow> otherwise)"

definition player_pubkey :: "mesh_env \<Rightarrow> nativeTableState \<Rightarrow> string \<Rightarrow> pubkey res" where
  "player_pubkey env table playerID =
     bind_res (walletPubkeyHexForPlayer env table playerID) (compressedPubkeyFromHex env)"

text \<open>An empty deadline is refused here and by \<open>parseISOTimestamp\<close>.\<close>

definition timeoutLocktimeFromISO :: "mesh_env \<Rightarrow> string \<Rightarrow> 32 word res" where
  "timeoutLocktimeFromISO env v =
     (if TrimSpace v = [] then Inl (Err ''missing action deadline'')
      else bind_res (me_ParseTime env (TrimSpace v)) (\<lambda>nanos.
        Inr (word_of_int ((nanos - custodyTimeoutLocktimeSlack) div 1000000000))))"

section \<open>Players of a turn challenge\<close>

definition claim_statuses :: "StackClaim list \<Rightarrow> (string, string) gomap" where
  "claim_statuses claims = fold (\<lambda>claim m. AList.update (sc_PlayerID claim) (sc_Status claim) m) claims []"

definition activeTurnChallengePlayerIDsForState :: "nativeTableState \<Rightarrow> CustodyState option \<Rightarrow> string list" where
  "activeTurnChallengePlayerIDsForState table state0 =
     (let state = (case state0 of None \<Rightarrow> ts_LatestCustodyState table | Some s \<Rightarrow> Some s);
          statuses = (case state of None \<Rightarrow> [] | Some s \<Rightarrow> claim_statuses (cs_StackClaims s)) in
      sort (map se_PlayerID (filter (\<lambda>seat. \<not> terminalCustodySeatStatus
        (case map_of statuses (se_PlayerID seat) of Some status \<Rightarrow> status | None \<Rightarrow> se_Status seat)) (ts_Seats table))))"

definition activeTurnChallengePlayerIDs :: "nativeTableState \<Rightarrow> string list" where
  "activeTurnChallengePlayerIDs table = activeTurnChallengePlayerIDsForState table (ts_LatestCustodyState table)"

text \<open>With no extra delay, as every caller of this theory has it.\<close>

definition challengeTxLocktime :: "mesh_env \<Rightarrow> string \<Rightarrow> 32 word res" where
  "challengeTxLocktime env deadlineAt =
     (if TrimSpace deadlineAt = [] then Inl (Err ''missing challenge locktime deadline'')
      else timeoutLocktimeFromISO env (TrimSpace deadlineAt))"

definition turnChallengeOpenLocktime :: "mesh_env \<Rightarrow> string \<Rightarrow> 32 word option res" where
  "turnChallengeOpenLocktime env deadlineAt =
     (if TrimSpace deadlineAt = [] then Inr None
      else bind_res (challengeTxLocktime env deadlineAt) (\<lambda>locktime. Inr (Some locktime)))"

definition turnChallengeOpenLeaf :: "mesh_env \<Rightarrow> nativeTableState \<Rightarrow> CustodyState \<Rightarrow> closure option res" where
  "turnChallengeOpenLeaf env table state =
     (if turnTimeoutModeForTable table \<noteq> turnTimeoutModeChainChallenge then Inr None
      else bind_res (turnChallengeOpenLocktime env (cs_ActionDeadlineAt state)) (\<lambda>found.
        case found of
          None \<Rightarrow> Inr None
        | Some locktime \<Rightarrow>
           (let playerIDs = activeTurnChallengePlayerIDsForState table (Some state) in
            if playerIDs = [] then Inr None
            else bind_res (map_res (player_pubkey env table) playerIDs) (\<lambda>playerPubkeys.
              Inr (Some (CLTVMultisigClosure locktime playerPubkeys))))))"

section \<open>Who signs\<close>

definition excludedCustodySignerIDs :: "CustodyTransition \<Rightarrow> string list" where
  "excludedCustodySignerIDs transition =
     (case ct_TimeoutResolution transition of
        None \<Rightarrow> []
      | Some resolution \<Rightarrow>
          tr_ActingPlayerID resolution # tr_DeadPlayerIDs resolution @ tr_LostEligibilityPlayerIDs resolution)"

definition requiredCustodySigners :: "nativeTableState \<Rightarrow> CustodyTransition \<Rightarrow> string list" where
  "requiredCustodySigners table transition =
     (if ct_Kind transition = TransitionKindBuyInLock then []
      else if (ct_Kind transition = TransitionKindCashOut \<or> ct_Kind transition = TransitionKindEmergencyExit)
        \<and> TrimSpace (ct_ActingPlayerID transition) \<noteq> []
      then [ct_ActingPlayerID transition]
      else
        (let excluded = excludedCustodySignerIDs transition;
             statuses = claim_statuses (cs_StackClaims (ct_NextState transition)) in
         sort (map se_PlayerID (filter (\<lambda>seat.
           \<not> (case map_of statuses (se_PlayerID seat) of
                Some status \<Rightarrow> terminalCustodySeatStatus status
              | None \<Rightarrow> se_Status seat \<noteq> [] \<and> se_Status seat \<noteq> ''active'')
           \<and> se_PlayerID seat \<notin> set excluded) (ts_Seats table)))))"

definition playerIDsFromSeats :: "nativeSeatRecord list \<Rightarrow> string list" where
  "playerIDsFromSeats seats = map se_PlayerID seats"

text \<open>The first occurrence of every value that is not blank, in order.\<close>

definition uniqueSortedPlayerIDs :: "string list \<Rightarrow> string list" where
  "uniqueSortedPlayerIDs vs = sort (remdups (filter (\<lambda>v. TrimSpace v \<noteq> []) vs))"

definition timeoutSignerSets :: "CustodyTransition \<Rightarrow> string list \<Rightarrow> string list list" where
  "timeoutSignerSets transition futureSignerIDs =
     (let signers = uniqueSortedPlayerIDs futureSignerIDs;
          actingPlayerID = (if ct_Kind transition = TransitionKindShowdownPayout then []
            else cs_ActingPlayerID (ct_NextState transition)) in
      if signers = [] then []
      else if TrimSpace actingPlayerID \<noteq> []
      then (let timeoutSigners = filter (\<lambda>playerID. playerID \<noteq> actingPlayerID) signers in
            if timeoutSigners = [] then [] else [timeoutSigners])
      else if length signers < 2 then []
      else filter (\<lambda>timeoutSigners. timeoutSigners \<noteq> [])
        (map (\<lambda>missingPlayerID. filter (\<lambda>playerID. playerID \<noteq> missingPlayerID) signers) signers))"

definition potSpendSignerIDsForTransition :: "nativeTableState \<Rightarrow> CustodyTransition \<Rightarrow> string list" where
  "potSpendSignerIDsForTransition table transition =
     (let signerIDs = requiredCustodySigners table transition in
      uniqueSortedPlayerIDs (if signerIDs = [] then playerIDsFromSeats (ts_Seats table) else signerIDs))"

section \<open>Outputs\<close>

definition stackClaimKey :: "string \<Rightarrow> string" where
  "stackClaimKey playerID = ''stack:'' @ playerID"

definition potClaimKey :: "string \<Rightarrow> string" where
  "potClaimKey potID = ''pot:'' @ potID"

definition stackClaimRefAmount :: "StackClaim \<Rightarrow> int" where
  "stackClaimRefAmount claim = sc_AmountSats claim + sc_ReservedFeeSats claim"

text \<open>The closures of the output of a stack, and the output they encode to.\<close>

definition stack_closures ::
    "mesh_env \<Rightarrow> nativeTableState \<Rightarrow> CustodyTransition option \<Rightarrow> string \<Rightarrow> closure list res" where
  "stack_closures env table transition playerID =
     bind_res (arkCustodyConfig env) (\<lambda>config.
     bind_res (player_pubkey env table playerID) (\<lambda>ownerPubkey.
     bind_res (compressedPubkeyFromHex env (ka_SignerPubkeyHex config)) (\<lambda>signerPubkey.
     bind_res (case transition of None \<Rightarrow> Inr None | Some t \<Rightarrow> turnChallengeOpenLeaf env table (ct_NextState t)) (\<lambda>leaf.
       Inr (case leaf of
         None \<Rightarrow> ark_NewDefaultVtxoScript (me_Ark env) ownerPubkey signerPubkey (ka_UnilateralExitDelay config)
       | Some challengeOpenLeaf \<Rightarrow>
           [MultisigClosure [ownerPubkey, signerPubkey], challengeOpenLeaf,
            CSVMultisigClosure (ka_UnilateralExitDelay config) [ownerPubkey]])))))"

definition encode_output :: "mesh_env \<Rightarrow> int \<Rightarrow> string \<Rightarrow> string \<Rightarrow> closure list \<Rightarrow> custodyOutputSpec res" where
  "encode_output env amountSats claimKey owner closures =
     bind_res (ark_Encode (me_Ark env) closures) (\<lambda>tapscripts.
     bind_res (ark_P2TRScript (me_Ark env) closures) (\<lambda>pkScript.
       Inr \<lparr>os_AmountSats = amountSats, os_ClaimKey = claimKey, os_OwnerPlayerID = owner,
            os_Script = EncodeToString pkScript, os_Tapscripts = tapscripts\<rparr>))"

definition stackOutputSpecForTransition ::
    "mesh_env \<Rightarrow> nativeTableState \<Rightarrow> CustodyTransition option \<Rightarrow> string \<Rightarrow> int \<Rightarrow> custodyOutputSpec res" where
  "stackOutputSpecForTransition env table transition playerID amountSats =
     bind_res (stack_closures env table transition playerID)
       (encode_output env amountSats (stackClaimKey playerID) playerID)"

definition stackOutputSpec :: "mesh_env \<Rightarrow> nativeTableState \<Rightarrow> string \<Rightarrow> int \<Rightarrow> custodyOutputSpec res" where
  "stackOutputSpec env table playerID amountSats = stackOutputSpecForTransition env table None playerID amountSats"

text \<open>The timeout closures of a pot: one for every set of signers, the first of equal joined texts.\<close>

fun first_sets :: "string list \<Rightarrow> string list list \<Rightarrow> string list list" where
  "first_sets seen [] = []"
| "first_sets seen (ids # rest) =
     (let setKey = join '','' ids in
      if setKey \<in> set seen then first_sets seen rest else ids # first_sets (setKey # seen) rest)"

definition timeout_closures ::
    "mesh_env \<Rightarrow> nativeTableState \<Rightarrow> CustodyTransition \<Rightarrow> string list \<Rightarrow> pubkey \<Rightarrow> closure list res" where
  "timeout_closures env table transition futureSignerIDs operatorPubkey =
     (if cs_ActionDeadlineAt (ct_NextState transition) = [] then Inr []
      else bind_res (timeoutLocktimeFromISO env (cs_ActionDeadlineAt (ct_NextState transition))) (\<lambda>locktime.
        bind_res (map_res (map_res (player_pubkey env table))
            (first_sets [] (timeoutSignerSets transition futureSignerIDs))) (\<lambda>keySets.
          Inr (map (\<lambda>timeoutKeys. CLTVMultisigClosure locktime (timeoutKeys @ [operatorPubkey]))
            (filter (\<lambda>timeoutKeys. timeoutKeys \<noteq> []) keySets)))))"

definition exit_keys :: "mesh_env \<Rightarrow> nativeTableState \<Rightarrow> PotSlice \<Rightarrow> pubkey list res" where
  "exit_keys env table pot =
     map_res (\<lambda>seat. compressedPubkeyFromHex env (se_WalletPubkeyHex seat))
       (List.map_filter (seatRecordForPlayer table) (uniqueSortedPlayerIDs (ps_EligiblePlayerIDs pot)))"

definition pot_closures ::
    "mesh_env \<Rightarrow> nativeTableState \<Rightarrow> CustodyTransition \<Rightarrow> PotSlice \<Rightarrow> string list \<Rightarrow> closure list res" where
  "pot_closures env table transition pot futureSignerIDs =
     bind_res (arkCustodyConfig env) (\<lambda>config.
     bind_res (compressedPubkeyFromHex env (ka_SignerPubkeyHex config)) (\<lambda>operatorPubkey.
     bind_res (map_res (player_pubkey env table) futureSignerIDs) (\<lambda>playerPubkeys.
     bind_res (turnChallengeOpenLeaf env table (ct_NextState transition)) (\<lambda>leaf.
     bind_res (timeout_closures env table transition futureSignerIDs operatorPubkey) (\<lambda>timeouts.
     bind_res (exit_keys env table pot) (\<lambda>exitKeys.
       Inr ([MultisigClosure (playerPubkeys @ [operatorPubkey])]
         @ (case leaf of None \<Rightarrow> [] | Some challengeOpenLeaf \<Rightarrow> [challengeOpenLeaf])
         @ timeouts
         @ (if exitKeys = [] then [] else [CSVMultisigClosure (ka_UnilateralExitDelay config) exitKeys]))))))))"

definition potOutputSpec ::
    "mesh_env \<Rightarrow> nativeTableState \<Rightarrow> CustodyTransition \<Rightarrow> PotSlice \<Rightarrow> string list \<Rightarrow> custodyOutputSpec res" where
  "potOutputSpec env table transition pot futureSignerIDs =
     bind_res (pot_closures env table transition pot futureSignerIDs)
       (encode_output env (ps_TotalSats pot) (potClaimKey (ps_PotID pot)) [])"

section \<open>Outputs that are carried over\<close>

definition comparableStackClaim :: "StackClaim \<Rightarrow> StackClaim" where
  "comparableStackClaim claim = claim\<lparr>sc_VTXORefs := []\<rparr>"

definition comparableStackClaimSansReserve :: "StackClaim \<Rightarrow> StackClaim" where
  "comparableStackClaimSansReserve claim = (comparableStackClaim claim)\<lparr>sc_ReservedFeeSats := 0\<rparr>"

definition comparablePotSlice :: "PotSlice \<Rightarrow> PotSlice" where
  "comparablePotSlice pot = pot\<lparr>ps_VTXORefs := []\<rparr>"

definition canonicalStrings :: "string list \<Rightarrow> string list" where
  "canonicalStrings vs = sort vs"

definition sameCanonicalStrings :: "string list \<Rightarrow> string list \<Rightarrow> bool" where
  "sameCanonicalStrings left right \<longleftrightarrow> canonicalStrings left = canonicalStrings right"

definition ref_matches_spec :: "VTXORef \<Rightarrow> custodyOutputSpec \<Rightarrow> bool" where
  "ref_matches_spec ref spec \<longleftrightarrow> vr_AmountSats ref = os_AmountSats spec \<and> vr_Script ref = os_Script spec
     \<and> sameCanonicalStrings (vr_Tapscripts ref) (os_Tapscripts spec)"

definition refs_match :: "VTXORef list \<Rightarrow> custodyOutputSpec res \<Rightarrow> bool" where
  "refs_match refs spec = (case (refs, spec) of ([ref], Inr s) \<Rightarrow> ref_matches_spec ref s | _ \<Rightarrow> False)"

text \<open>Maps are compared as maps: their entries in any order.\<close>

definition same_pot_slice :: "PotSlice \<Rightarrow> PotSlice \<Rightarrow> bool" where
  "same_pot_slice left right \<longleftrightarrow>
     comparablePotSlice left\<lparr>ps_Contributions := []\<rparr> = comparablePotSlice right\<lparr>ps_Contributions := []\<rparr>
     \<and> mset (ps_Contributions left) = mset (ps_Contributions right)"

definition potSliceRefsReusableForTransition ::
    "mesh_env \<Rightarrow> nativeTableState \<Rightarrow> CustodyTransition \<Rightarrow> PotSlice \<Rightarrow> PotSlice \<Rightarrow> bool" where
  "potSliceRefsReusableForTransition env table transition previous nxt \<longleftrightarrow>
     ct_Kind transition \<noteq> TransitionKindAction \<and> same_pot_slice previous nxt
     \<and> refs_match (ps_VTXORefs previous)
         (potOutputSpec env table transition nxt (potSpendSignerIDsForTransition table transition))"

definition stackClaimRefsReusableForTransition ::
    "mesh_env \<Rightarrow> nativeTableState \<Rightarrow> CustodyTransition \<Rightarrow> StackClaim \<Rightarrow> StackClaim \<Rightarrow> bool" where
  "stackClaimRefsReusableForTransition env table transition previous nxt \<longleftrightarrow>
     ct_Kind transition \<noteq> TransitionKindAction
     \<and> sc_PlayerID previous = sc_PlayerID nxt \<and> sc_SeatIndex previous = sc_SeatIndex nxt
     \<and> stackClaimRefAmount previous = stackClaimRefAmount nxt
     \<and> refs_match (sc_VTXORefs previous)
         (stackOutputSpecForTransition env table (Some transition) (sc_PlayerID nxt) (stackClaimRefAmount nxt))"

end
