(* ===== verification/Custody_Plan.thy ===== *)
theory Custody_Plan
  imports Custody_Outputs
begin

text \<open>
  The settlement plan of a transition and its fee, from \<open>internal/meshruntime/custody_ark_helpers.go\<close>: the path
  by which an output of the previous state is spent, the inputs and outputs of the batch that moves the money
  from the previous custody state to the next, the outputs it is allowed to pay, who pays the fee and how the fee
  is taken from the reserves.
\<close>

section \<open>Spend paths\<close>

definition fundingRefKey :: "VTXORef \<Rightarrow> string" where
  "fundingRefKey ref = vr_TxID ref @ '':'' @ itoa (uint (vr_VOut ref))"

definition candidate_of :: "mesh_env \<Rightarrow> closure list \<Rightarrow> closure \<Rightarrow> cachedCustodySpendCandidate option res" where
  "candidate_of env closures c =
     (let build = (\<lambda>kind locktime cltv pubkeys.
        bind_res (ark_Script (me_Ark env) c) (\<lambda>script.
        bind_res (ark_MerkleProof (me_Ark env) closures script) (\<lambda>leafProof.
          Inr (Some \<lparr>cc_Kind = kind, cc_LeafProof = leafProof, cc_Locktime = locktime, cc_Script = script,
            cc_SignerXOnlyPubkeys = map (\<lambda>key. EncodeToString (ark_SerializePubKey (me_Ark env) key)) pubkeys,
            cc_UsesCLTVLocktime = cltv\<rparr>)))) in
      case c of
        MultisigClosure pubkeys \<Rightarrow> build ''*arkscript.MultisigClosure'' 0 False pubkeys
      | CLTVMultisigClosure locktime pubkeys \<Rightarrow> build ''*arkscript.CLTVMultisigClosure'' locktime True pubkeys
      | CSVMultisigClosure _ _ \<Rightarrow> Inr None)"

definition cachedCustodySpendPathsForTapscripts :: "mesh_env \<Rightarrow> string list \<Rightarrow> cachedCustodySpendPaths res" where
  "cachedCustodySpendPathsForTapscripts env tapscripts =
     bind_res (ark_ParseVtxoScript (me_Ark env) tapscripts) (\<lambda>closures.
     bind_res (ark_P2TRScript (me_Ark env) closures) (\<lambda>pkScript.
     bind_res (map_res (candidate_of env closures) (ark_ForfeitClosures (me_Ark env) closures)) (\<lambda>candidates.
       Inr \<lparr>cpp_Candidates = List.map_filter (\<lambda>c. c) candidates, cpp_PKScript = pkScript, cpp_Tapscripts = tapscripts\<rparr>)))"

fun x_only_entries :: "mesh_env \<Rightarrow> (string \<times> string) list \<Rightarrow> (string, string) gomap \<Rightarrow> (string, string) gomap res" where
  "x_only_entries env [] lookup = Inr lookup"
| "x_only_entries env ((pubkeyHex, playerID) # rest) lookup =
     bind_res (xOnlyPubkeyHexFromCompressed env pubkeyHex) (\<lambda>xOnly.
       x_only_entries env rest (AList.update xOnly playerID lookup))"

definition playerIDsByXOnlyPubkey :: "mesh_env \<Rightarrow> nativeTableState \<Rightarrow> (string, string) gomap res" where
  "playerIDsByXOnlyPubkey env table =
     x_only_entries env
       (map (\<lambda>seat. (se_WalletPubkeyHex seat, se_PlayerID seat)) (ts_Seats table)
        @ (if TrimSpace (li_PublicKeyHex (me_WalletID env)) \<noteq> [] \<and> TrimSpace (li_PlayerID (me_WalletID env)) \<noteq> []
           then [(li_PublicKeyHex (me_WalletID env), li_PlayerID (me_WalletID env))] else [])) []"

definition playerIDByXOnlyPubkey :: "mesh_env \<Rightarrow> nativeTableState \<Rightarrow> string \<Rightarrow> string option res" where
  "playerIDByXOnlyPubkey env table xOnlyHex =
     bind_res (playerIDsByXOnlyPubkey env table) (\<lambda>lookup. Inr (map_of lookup xOnlyHex))"

text \<open>\<open>uniqueNonEmptyStrings\<close> of \<open>custody_recovery.go\<close>.\<close>

definition uniqueNonEmptyStrings :: "string list \<Rightarrow> string list" where
  "uniqueNonEmptyStrings vs = sort (remdups (filter (\<lambda>v. v \<noteq> []) (map TrimSpace vs)))"

text \<open>The players whose signatures a closure asks for; a single key of nobody at the table is the owner's.\<close>

definition candidate_players ::
    "(string, string) gomap \<Rightarrow> string \<Rightarrow> VTXORef \<Rightarrow> cachedCustodySpendCandidate \<Rightarrow> string list" where
  "candidate_players byXOnly operatorXOnly ref candidate =
     (let others = filter (\<lambda>xOnly. xOnly \<noteq> operatorXOnly) (cc_SignerXOnlyPubkeys candidate);
          known = List.map_filter (map_of byXOnly) others;
          unmapped = length (filter (\<lambda>xOnly. map_of byXOnly xOnly = None) others) in
      uniqueSortedPlayerIDs
        (if known = [] \<and> unmapped = 1 \<and> TrimSpace (vr_OwnerPlayerID ref) \<noteq> [] then [vr_OwnerPlayerID ref] else known))"

definition selectCustodySpendPath ::
    "mesh_env \<Rightarrow> nativeTableState \<Rightarrow> VTXORef \<Rightarrow> string list \<Rightarrow> bool \<Rightarrow> custodySpendPath res" where
  "selectCustodySpendPath env table ref desiredPlayerIDs preferTimeout =
     (if vr_Tapscripts ref = [] then Inl (Err ''custody ref %s:%d is missing tapscripts'')
      else
        bind_res (cachedCustodySpendPathsForTapscripts env (vr_Tapscripts ref)) (\<lambda>paths.
        bind_res (arkCustodyConfig env) (\<lambda>config.
        bind_res (xOnlyPubkeyHexFromCompressed env (ka_SignerPubkeyHex config)) (\<lambda>operatorXOnly.
        bind_res (playerIDsByXOnlyPubkey env table) (\<lambda>byXOnly.
          let desired = uniqueSortedPlayerIDs desiredPlayerIDs in
          case find (\<lambda>candidate. candidate_players byXOnly operatorXOnly ref candidate = desired
              \<and> (preferTimeout \<longrightarrow> cc_UsesCLTVLocktime candidate)) (cpp_Candidates paths) of
            None \<Rightarrow> Inl (Err ''no custody spend path matches signers %v for %s:%d (owner=%s closures=%v)'')
          | Some best \<Rightarrow>
              Inr \<lparr>path_LeafProof = cc_LeafProof best, path_CSVLocktime = \<lparr>rl_Type = LocktimeTypeSecond, rl_Value = 0\<rparr>,
                path_Locktime = cc_Locktime best, path_PKScript = cpp_PKScript paths,
                path_PlayerIDs = candidate_players byXOnly operatorXOnly ref best,
                path_SignerXOnlyPubkeys = uniqueNonEmptyStrings (cc_SignerXOnlyPubkeys best), path_Script = cc_Script best,
                path_Tapscripts = cpp_Tapscripts paths, path_UsesCSVLocktime = False,
                path_UsesCLTVLocktime = cc_UsesCLTVLocktime best\<rparr>)))))"

section \<open>Inputs and outputs of a settlement\<close>

definition prev_stacks :: "CustodyState option \<Rightarrow> (string, StackClaim) gomap" where
  "prev_stacks previous = (case previous of None \<Rightarrow> [] | Some state \<Rightarrow>
     fold (\<lambda>claim m. AList.update (sc_PlayerID claim) claim m) (cs_StackClaims state) [])"

definition prev_pots :: "CustodyState option \<Rightarrow> (string, PotSlice) gomap" where
  "prev_pots previous = (case previous of None \<Rightarrow> [] | Some state \<Rightarrow>
     fold (\<lambda>pot m. AList.update (ps_PotID pot) pot m) (cs_PotSlices state) [])"

definition inputs_of ::
    "mesh_env \<Rightarrow> nativeTableState \<Rightarrow> string \<Rightarrow> string \<Rightarrow> string \<Rightarrow> string list \<Rightarrow> bool \<Rightarrow> VTXORef list
     \<Rightarrow> custodyInputSpec list res" where
  "inputs_of env table failure claimKey owner signerIDs preferTimeout refs =
     map_res (\<lambda>ref. case selectCustodySpendPath env table ref signerIDs preferTimeout of
         Inl e \<Rightarrow> Inl (Err failure)
       | Inr spendPath \<Rightarrow>
           Inr \<lparr>in_ClaimKey = claimKey, in_OwnerPlayerID = owner, in_Ref = ref, in_SpendPath = spendPath\<rparr>) refs"

text \<open>The refs that back a claim which is not carried over.\<close>

definition claim_input_refs :: "nativeTableState \<Rightarrow> CustodyTransition \<Rightarrow> StackClaim \<Rightarrow> VTXORef list" where
  "claim_input_refs table transition nextClaim =
     (case map_of (prev_stacks (ts_LatestCustodyState table)) (sc_PlayerID nextClaim) of
        Some prevClaim \<Rightarrow> sc_VTXORefs prevClaim
      | None \<Rightarrow>
          if ct_Kind transition = TransitionKindBuyInLock
          then (case seatRecordForPlayer table (sc_PlayerID nextClaim) of
              Some seat \<Rightarrow> se_FundingRefs seat | None \<Rightarrow> [])
          else sc_VTXORefs nextClaim)"

text \<open>
  The inputs and outputs one claim and one pot slice add to the plan. The loops of the source also rewrite the
  refs of their own copy of the transition, which nothing reads.
\<close>

definition plan_claim ::
    "mesh_env \<Rightarrow> nativeTableState \<Rightarrow> CustodyTransition \<Rightarrow> StackClaim \<Rightarrow> (custodyInputSpec list \<times> custodyOutputSpec list) res" where
  "plan_claim env table transition nextClaim =
     (if (case map_of (prev_stacks (ts_LatestCustodyState table)) (sc_PlayerID nextClaim) of
           Some prevClaim \<Rightarrow> stackClaimRefsReusableForTransition env table transition prevClaim nextClaim
         | None \<Rightarrow> False)
      then Inr ([], [])
      else
        bind_res (inputs_of env table ''select stack spend path for %s: %w'' (stackClaimKey (sc_PlayerID nextClaim))
            (sc_PlayerID nextClaim) [sc_PlayerID nextClaim] False (claim_input_refs table transition nextClaim)) (\<lambda>inputs.
        if sc_AmountSats nextClaim > 0 \<or> sc_ReservedFeeSats nextClaim > 0
        then bind_res (stackOutputSpecForTransition env table (Some transition) (sc_PlayerID nextClaim)
            (stackClaimRefAmount nextClaim)) (\<lambda>output. Inr (inputs, [output]))
        else Inr (inputs, [])))"

definition plan_pot ::
    "mesh_env \<Rightarrow> nativeTableState \<Rightarrow> CustodyTransition \<Rightarrow> PotSlice \<Rightarrow> (custodyInputSpec list \<times> custodyOutputSpec list) res" where
  "plan_pot env table transition nextSlice =
     (let potSpendSignerIDs = potSpendSignerIDsForTransition table transition;
          preferTimeout = (ct_TimeoutResolution transition \<noteq> None);
          prevSlice = map_of (prev_pots (ts_LatestCustodyState table)) (ps_PotID nextSlice) in
      if (case prevSlice of
           Some previous \<Rightarrow> potSliceRefsReusableForTransition env table transition previous nextSlice | None \<Rightarrow> False)
      then Inr ([], [])
      else
        bind_res (inputs_of env table ''select pot spend path for %s: %w'' (potClaimKey (ps_PotID nextSlice)) []
            potSpendSignerIDs preferTimeout
            (case prevSlice of Some previous \<Rightarrow> ps_VTXORefs previous | None \<Rightarrow> [])) (\<lambda>inputs.
        if ps_TotalSats nextSlice > 0
        then bind_res (potOutputSpec env table transition nextSlice potSpendSignerIDs) (\<lambda>output. Inr (inputs, [output]))
        else Inr (inputs, [])))"

text \<open>The pots that are gone. The source visits a map in no fixed order; the inputs are sorted afterwards.\<close>

definition removed_pots :: "nativeTableState \<Rightarrow> CustodyTransition \<Rightarrow> (string \<times> PotSlice) list" where
  "removed_pots table transition =
     filter (\<lambda>(potID, _). potID \<notin> ps_PotID ` set (cs_PotSlices (ct_NextState transition)))
       (prev_pots (ts_LatestCustodyState table))"

definition removed_inputs :: "mesh_env \<Rightarrow> nativeTableState \<Rightarrow> CustodyTransition \<Rightarrow> custodyInputSpec list res" where
  "removed_inputs env table transition =
     bind_res (map_res (\<lambda>(potID, pot). inputs_of env table ''select removed-pot spend path for %s: %w'' (potClaimKey potID) []
         (potSpendSignerIDsForTransition table transition) (ct_TimeoutResolution transition \<noteq> None) (ps_VTXORefs pot))
       (removed_pots table transition)) (\<lambda>inputs. Inr (concat inputs))"

section \<open>The outputs a settlement may pay\<close>

definition custodyBatchOutputFromSpec :: "custodyOutputSpec \<Rightarrow> custodyBatchOutput" where
  "custodyBatchOutputFromSpec spec =
     \<lparr>bo_AmountSats = os_AmountSats spec, bo_ClaimKey = os_ClaimKey spec, bo_Onchain = False,
      bo_OwnerPlayerID = os_OwnerPlayerID spec, bo_Script = os_Script spec, bo_Tapscripts = os_Tapscripts spec\<rparr>"

definition custodyBatchOutputFromReceiver ::
    "mesh_env \<Rightarrow> string \<Rightarrow> string \<Rightarrow> string \<Rightarrow> int \<Rightarrow> string list \<Rightarrow> custodyBatchOutput res" where
  "custodyBatchOutputFromReceiver env claimKey ownerPlayerID to_address amount tapscripts =
     bind_res (ark_ToTxOut (me_Ark env) to_address amount) (\<lambda>(pkScript, onchain).
       Inr \<lparr>bo_AmountSats = amount, bo_ClaimKey = claimKey, bo_Onchain = onchain, bo_OwnerPlayerID = ownerPlayerID,
         bo_Script = EncodeToString pkScript, bo_Tapscripts = tapscripts\<rparr>)"

definition latestStackClaimForPlayer :: "CustodyState option \<Rightarrow> string \<Rightarrow> StackClaim option" where
  "latestStackClaimForPlayer state playerID =
     (case state of None \<Rightarrow> None | Some s \<Rightarrow> find (\<lambda>claim. sc_PlayerID claim = playerID) (cs_StackClaims s))"

definition stackClaimBackedAmount :: "StackClaim \<Rightarrow> int" where
  "stackClaimBackedAmount claim = sc_AmountSats claim + sc_ReservedFeeSats claim"

definition cash_out_output ::
    "mesh_env \<Rightarrow> nativeTableState \<Rightarrow> CustodyTransition \<Rightarrow> nat \<Rightarrow> nat \<Rightarrow> custodyBatchOutput res" where
  "cash_out_output env table transition input_count output_count =
     (case latestStackClaimForPlayer (ts_LatestCustodyState table) (ct_ActingPlayerID transition) of
        None \<Rightarrow> Inl (Err ''latest custody state is missing the target stack claim'')
      | Some claim \<Rightarrow>
          if stackClaimBackedAmount claim \<le> 0
          then Inl (Err ''latest custody state has no spendable stack to settle'')
          else case seatRecordForPlayer table (ct_ActingPlayerID transition) of
              None \<Rightarrow> Inl (Err ''missing seat for cash-out player %s'')
            | Some seat \<Rightarrow>
                if TrimSpace (se_ArkAddress seat) = [] then Inl (Err ''seat %s is missing an Ark address'')
                else bind_res (estimatedCustodyBatchFee env (int input_count) (int output_count + 1) 0 0) (\<lambda>feeSats.
                  if stackClaimBackedAmount claim - feeSats \<le> 0
                  then Inl (Err ''custody claim is too small to cover Ark cash-out fees: have %d need %d'')
                  else custodyBatchOutputFromReceiver env ''wallet-return'' (ct_ActingPlayerID transition)
                    (se_ArkAddress seat) (stackClaimBackedAmount claim - feeSats) []))"

definition authorizedCustodyBatchOutputs ::
    "mesh_env \<Rightarrow> nativeTableState \<Rightarrow> CustodyTransition \<Rightarrow> custodySettlementPlan \<Rightarrow> custodyBatchOutput list res" where
  "authorizedCustodyBatchOutputs env table transition plan =
     (let outputs = map custodyBatchOutputFromSpec (pl_Outputs plan) in
      if ct_Kind transition = TransitionKindCashOut
      then bind_res (cash_out_output env table transition (length (pl_Inputs plan)) (length outputs)) (\<lambda>output.
        Inr (outputs @ [output]))
      else Inr outputs)"

section \<open>The plan\<close>

definition tree_signers :: "nativeTableState \<Rightarrow> CustodyTransition \<Rightarrow> string list" where
  "tree_signers table transition =
     (let required = requiredCustodySigners table transition;
          seated = (if required = [] then playerIDsFromSeats (ts_Seats table) else required) in
      uniqueSortedPlayerIDs (if seated = [] then map sc_PlayerID (cs_StackClaims (ct_NextState transition)) else seated))"

definition buildCustodySettlementPlan ::
    "mesh_env \<Rightarrow> nativeTableState \<Rightarrow> CustodyTransition \<Rightarrow> custodySettlementPlan res" where
  "buildCustodySettlementPlan env table transition =
     bind_res (map_res (plan_claim env table transition) (cs_StackClaims (ct_NextState transition))) (\<lambda>claims.
     bind_res (map_res (plan_pot env table transition) (cs_PotSlices (ct_NextState transition))) (\<lambda>pots.
     bind_res (removed_inputs env table transition) (\<lambda>removed.
       let inputs = concat (map fst claims) @ concat (map fst pots) @ removed;
           plan = \<lparr>pl_AuthorizedOutputs = [],
             pl_Inputs = slice_stable (\<lambda>left right. fundingRefKey (in_Ref left) < fundingRefKey (in_Ref right)) inputs,
             pl_Outputs = concat (map snd claims) @ concat (map snd pots),
             pl_ProofSignerIDs = sort (remdups (concat (map (\<lambda>input. path_PlayerIDs (in_SpendPath input)) inputs))),
             pl_TreeSignerIDs = tree_signers table transition\<rparr> in
       bind_res (authorizedCustodyBatchOutputs env table transition plan) (\<lambda>authorizedOutputs.
         Inr (plan\<lparr>pl_AuthorizedOutputs := authorizedOutputs\<rparr>)))))"

section \<open>Fees\<close>

definition custodyFeePayerIDs :: "mesh_env \<Rightarrow> nativeTableState \<Rightarrow> CustodyTransition \<Rightarrow> string list" where
  "custodyFeePayerIDs env table transition =
     (if (ct_Kind transition = TransitionKindCashOut \<or> ct_Kind transition = TransitionKindEmergencyExit)
        \<and> TrimSpace (ct_ActingPlayerID transition) \<noteq> []
      then [ct_ActingPlayerID transition]
      else
        (let previousStacks = prev_stacks (ts_LatestCustodyState table);
             previousPots = prev_pots (ts_LatestCustodyState table);
             changed = uniqueSortedPlayerIDs (map sc_PlayerID (filter (\<lambda>claim.
               case map_of previousStacks (sc_PlayerID claim) of
                 None \<Rightarrow> True
               | Some prevClaim \<Rightarrow> comparableStackClaimSansReserve prevClaim \<noteq> comparableStackClaimSansReserve claim)
               (cs_StackClaims (ct_NextState transition))));
             potsChanged = list_ex (\<lambda>pot. case map_of previousPots (ps_PotID pot) of
                 None \<Rightarrow> True
               | Some prevSlice \<Rightarrow> \<not> potSliceRefsReusableForTransition env table transition prevSlice pot)
               (cs_PotSlices (ct_NextState transition)) in
         if changed \<noteq> [] then changed
         else if \<not> potsChanged then []
         else if TrimSpace (ct_ActingPlayerID transition) \<noteq> [] then [ct_ActingPlayerID transition]
         else []))"

definition with_claims :: "(StackClaim list \<Rightarrow> StackClaim list) \<Rightarrow> CustodyTransition \<Rightarrow> CustodyTransition" where
  "with_claims f transition =
     transition\<lparr>ct_NextState := (ct_NextState transition)\<lparr>cs_StackClaims := f (cs_StackClaims (ct_NextState transition))\<rparr>\<rparr>"

definition previewFeeChargedTransition ::
    "CustodyState option \<Rightarrow> CustodyTransition \<Rightarrow> string list \<Rightarrow> CustodyTransition" where
  "previewFeeChargedTransition previous transition payerIDs =
     (if previous = None \<or> payerIDs = [] then transition
      else with_claims (map (\<lambda>claim.
        if sc_PlayerID claim \<in> set payerIDs
          \<and> (case map_of (prev_stacks previous) (sc_PlayerID claim) of
               None \<Rightarrow> False | Some prevClaim \<Rightarrow> comparableStackClaim prevClaim = comparableStackClaim claim)
        then claim\<lparr>sc_ReservedFeeSats := sc_ReservedFeeSats claim + 1\<rparr> else claim)) transition)"

record payerReserve =
  py_Index :: nat
  py_PlayerID :: string
  py_ReservedSats :: int
  py_SeatIndex :: int

definition reserve_less :: "payerReserve \<Rightarrow> payerReserve \<Rightarrow> bool" where
  "reserve_less left right =
     (if py_ReservedSats left \<noteq> py_ReservedSats right then py_ReservedSats left > py_ReservedSats right
      else if py_SeatIndex left \<noteq> py_SeatIndex right then py_SeatIndex left < py_SeatIndex right
      else py_PlayerID left < py_PlayerID right)"

definition payer_reserves :: "string list \<Rightarrow> StackClaim list \<Rightarrow> payerReserve list" where
  "payer_reserves payerIDs claims =
     map (\<lambda>(index, claim). \<lparr>py_Index = index, py_PlayerID = sc_PlayerID claim, py_ReservedSats = sc_ReservedFeeSats claim,
         py_SeatIndex = sc_SeatIndex claim\<rparr>)
       (filter (\<lambda>(index, claim). sc_PlayerID claim \<in> set payerIDs) (enumerate 0 claims))"

fun deduct :: "payerReserve list \<Rightarrow> int \<Rightarrow> StackClaim list \<Rightarrow> int \<times> StackClaim list" where
  "deduct [] remaining claims = (remaining, claims)"
| "deduct (reserve # rest) remaining claims =
     (if remaining = 0 then (remaining, claims)
      else
        (let deduction = minInt (py_ReservedSats reserve) remaining; claim = claims ! py_Index reserve in
         deduct rest (remaining - deduction)
           (claims[py_Index reserve := claim\<lparr>sc_ReservedFeeSats := sc_ReservedFeeSats claim - deduction\<rparr>])))"

definition allocateCustodyFeeReserve :: "CustodyTransition \<Rightarrow> string list \<Rightarrow> int \<Rightarrow> CustodyTransition res" where
  "allocateCustodyFeeReserve transition payerIDs feeSats =
     (if feeSats \<le> 0 then Inr transition
      else
        (let claims = cs_StackClaims (ct_NextState transition); reserves = payer_reserves payerIDs claims in
         if (\<Sum>reserve\<leftarrow>reserves. py_ReservedSats reserve) < feeSats
         then Inl (Err ''insufficient custody fee reserve: need %d have %d'')
         else
           (let (remaining, paid) = deduct (slice_stable reserve_less reserves) feeSats claims in
            if remaining > 0 then Inl (Err ''custody fee reserve allocation left %d sats unpaid'')
            else Inr (with_claims (\<lambda>_. paid) transition))))"

definition applyRealCustodyFeeReserve ::
    "mesh_env \<Rightarrow> nativeTableState \<Rightarrow> CustodyTransition \<Rightarrow> CustodyTransition res" where
  "applyRealCustodyFeeReserve env table transition =
     (if me_UseMockSettlement env then Inr transition
      else
        (let payerIDs = custodyFeePayerIDs env table transition in
         if payerIDs = [] then Inr transition
         else
           bind_res (buildCustodySettlementPlan env table
               (previewFeeChargedTransition (ts_LatestCustodyState table) transition payerIDs)) (\<lambda>plan.
           bind_res (estimatedCustodyBatchFee env (int (length (pl_Inputs plan))) (int (length (pl_Outputs plan))) 0 0) (\<lambda>feeSats.
             if feeSats \<le> 0 then Inr transition else allocateCustodyFeeReserve transition payerIDs feeSats))))"

end
