(* ===== verification/Table_Custody.thy ===== *)
theory Table_Custody
  imports Custody_Plan
begin

text \<open>
  From the table to its custody chain, \<open>internal/meshruntime/custody.go\<close> and \<open>custody_funds.go\<close>: what a custody
  state binds (hand, turn, deadline, transcript), the balances it is built from, the transitions of a hand, of a
  seat lock, of a cash-out and of a timeout, and how an accepted transition changes the table. Only in tests are
  the time limits of a phase replaced by other values; that replacement is left out.
\<close>

section \<open>Small helpers of the runtime\<close>

definition firstNonEmptyString :: "string list \<Rightarrow> string" where
  "firstNonEmptyString vs = (case find (\<lambda>v. TrimSpace v \<noteq> []) vs of None \<Rightarrow> [] | Some v \<Rightarrow> v)"

definition sumVTXORefs :: "VTXORef list \<Rightarrow> int" where
  "sumVTXORefs refs = (\<Sum>ref\<leftarrow>refs. vr_AmountSats ref)"

definition firstNonEmptyRefs :: "VTXORef list list \<Rightarrow> VTXORef list" where
  "firstNonEmptyRefs vs = (case find (\<lambda>refs. refs \<noteq> []) vs of None \<Rightarrow> [] | Some refs \<Rightarrow> refs)"

definition nativeHandProtocolTimeoutMS :: int where
  "nativeHandProtocolTimeoutMS = 1500"

definition nativeActionTimeoutMS :: int where
  "nativeActionTimeoutMS = 4000"

definition handProtocolTimeoutMS :: "mesh_env \<Rightarrow> int" where
  "handProtocolTimeoutMS env = (if \<not> me_UseMockSettlement env then 20000 else nativeHandProtocolTimeoutMS)"

definition actionTimeoutMS :: "mesh_env \<Rightarrow> int" where
  "actionTimeoutMS env = (if \<not> me_UseMockSettlement env then 16000 else nativeActionTimeoutMS)"

definition actionTimeoutMSForTable :: "mesh_env \<Rightarrow> nativeTableState \<Rightarrow> int" where
  "actionTimeoutMSForTable env table =
     (if tc_ActionTimeoutMS (ts_Config table) > 0 then tc_ActionTimeoutMS (ts_Config table) else actionTimeoutMS env)"

definition handProtocolTimeoutMSForTable :: "mesh_env \<Rightarrow> nativeTableState \<Rightarrow> int" where
  "handProtocolTimeoutMSForTable env table =
     (if tc_HandProtocolTimeoutMS (ts_Config table) > 0 then tc_HandProtocolTimeoutMS (ts_Config table)
      else handProtocolTimeoutMS env)"

definition defaultCustodyTimeoutPolicy :: TimeoutPolicy where
  "defaultCustodyTimeoutPolicy = TimeoutPolicyAutoCheckOrFold"

section \<open>Hashes of the public money state\<close>

definition CheckpointShape_json :: "CheckpointShape \<Rightarrow> json" where
  "CheckpointShape_json c = struct_json
     [(''Phase'', Some (JStr (street_str (cp_Phase c)))), (''ActingSeatIndex'', Some (int_or_null (cp_ActingSeatIndex c))),
      (''DealerSeatIndex'', Some (JInt (cp_DealerSeatIndex c))), (''Board'', Some (list_or_null JStr (cp_Board c))),
      (''PlayerStacks'', Some (map_json JInt (cp_PlayerStacks c))),
      (''RoundContributions'', Some (map_json JInt (cp_RoundContributions c))),
      (''TotalContributions'', Some (map_json JInt (cp_TotalContributions c))),
      (''PotSats'', Some (JInt (cp_PotSats c))), (''CurrentBetSats'', Some (JInt (cp_CurrentBetSats c))),
      (''MinRaiseToSats'', Some (JInt (cp_MinRaiseToSats c)))]"

text \<open>A value of type \<open>any\<close> that the runtime stores in a public state: a text, a number, a flag or nothing.\<close>

fun any_json :: "goval \<Rightarrow> json" where
  "any_json (VString s) = JStr s"
| "any_json (VNumber s) = JNum s"
| "any_json (VFloat (Some s)) = JNum s"
| "any_json (VInt i) = JInt i"
| "any_json (VBool b) = JBool b"
| "any_json (VRef (Some v)) = any_json v"
| "any_json _ = JNull"

definition publicMoneyStateHash :: "nativeTableState \<Rightarrow> HoldemState option \<Rightarrow> string" where
  "publicMoneyStateHash table hand =
     HashPublicState (map_json (\<lambda>j. j)
       ((''tableId'', JStr (tc_TableID (ts_Config table))) #
        (case hand of
           Some h \<Rightarrow>
             [(''checkpoint'', CheckpointShape_json (ToCheckpointShape h)), (''handId'', JStr (st_HandID h)),
              (''handNumber'', JInt (st_HandNumber h))]
         | None \<Rightarrow>
            (case ts_PublicState table of
               None \<Rightarrow> []
             | Some public \<Rightarrow>
                 [(''chipBalances'', map_json JInt (pu_ChipBalances public)), (''handId'', any_json (pu_HandID public)),
                  (''handNumber'', JInt (pu_HandNumber public)), (''potSats'', JInt (pu_PotSats public)),
                  (''roundContributions'', map_json JInt (pu_RoundContributions public)),
                  (''totalContributions'', map_json JInt (pu_TotalContributions public))]))))"

definition legalActionsHash :: "HoldemState option \<Rightarrow> string" where
  "legalActionsHash hand =
     (case hand of
        None \<Rightarrow> HashLegalActions (JArr [])
      | Some h \<Rightarrow>
          if \<not> PhaseAllowsActions (st_Phase h) \<or> st_ActingSeatIndex h = None then HashLegalActions (JArr [])
          else HashLegalActions (list_or_null LegalAction_json (GetLegalActions h (st_ActingSeatIndex h))))"

section \<open>Deadlines\<close>

definition custody_deadline :: "mesh_env \<Rightarrow> nativeTableState \<Rightarrow> string" where
  "custody_deadline env table =
     (case ts_LatestCustodyState table of
        None \<Rightarrow> []
      | Some state \<Rightarrow>
         (let baseDeadline = TrimSpace (cs_ActionDeadlineAt state) in
          case ts_ActiveHand table of
            None \<Rightarrow> baseDeadline
          | Some hand \<Rightarrow>
              if baseDeadline = [] \<or> \<not> PhaseAllowsActions (st_Phase (ah_State hand))
                \<or> st_ActingSeatIndex (ah_State hand) = None
                \<or> cs_PublicStateHash state = publicMoneyStateHash table (Some (ah_State hand))
              then baseDeadline
              else me_Later env baseDeadline (actionTimeoutMSForTable env table)))"

definition currentCustodyActionDeadline :: "mesh_env \<Rightarrow> nativeTableState \<Rightarrow> string" where
  "currentCustodyActionDeadline env table =
     (case ts_PendingTurnMenu table of
        Some menu \<Rightarrow>
          if turnMenuMatchesTable table (Some menu) \<and> TrimSpace (tm_ActionDeadlineAt menu) \<noteq> [] then tm_ActionDeadlineAt menu
          else custody_deadline env table
      | None \<Rightarrow> custody_deadline env table)"

definition base_deadline :: "mesh_env \<Rightarrow> nativeTableState \<Rightarrow> TransitionKind \<Rightarrow> string" where
  "base_deadline env table kind =
     (if kind = TransitionKindBlindPost then canonicalNextHandAt (me_Later env) table
      else
        (let current = currentCustodyActionDeadline env table in
         case ts_LatestCustodyState table of
           Some state \<Rightarrow> if current = [] then TrimSpace (cs_ActionDeadlineAt state) else current
         | None \<Rightarrow> current))"

definition custodyActionDeadline :: "mesh_env \<Rightarrow> nativeTableState \<Rightarrow> TransitionKind \<Rightarrow> HoldemState option \<Rightarrow> string" where
  "custodyActionDeadline env table kind hand0 =
     (case hand0 of
        None \<Rightarrow> []
      | Some hand \<Rightarrow>
         (let baseDeadline = base_deadline env table kind;
              after = (\<lambda>ms. me_Later env (if baseDeadline \<noteq> [] then baseDeadline else me_Now env) ms) in
          if kind = TransitionKindTurnChallengeOpen then baseDeadline
          else if PhaseAllowsActions (st_Phase hand) then after (actionTimeoutMSForTable env table)
          else if shouldTrackProtocolDeadline (st_Phase hand)
          then (case ts_ActiveHand table of
              Some active \<Rightarrow>
                if kind \<noteq> TransitionKindBlindPost \<and> st_HandID (ah_State active) = st_HandID hand
                  \<and> st_Phase (ah_State active) = st_Phase hand \<and> TrimSpace (hd_PhaseDeadlineAt (ah_Cards active)) \<noteq> []
                then hd_PhaseDeadlineAt (ah_Cards active)
                else after (handProtocolTimeoutMSForTable env table)
            | None \<Rightarrow> after (handProtocolTimeoutMSForTable env table))
          else if kind = TransitionKindAction \<or> kind = TransitionKindTimeout then baseDeadline
          else case ts_ActiveHand table of None \<Rightarrow> [] | Some active \<Rightarrow> hd_PhaseDeadlineAt (ah_Cards active)))"

section \<open>Balances\<close>

definition currentCustodyRefsByPlayer :: "nativeTableState \<Rightarrow> (string, VTXORef list) gomap" where
  "currentCustodyRefsByPlayer table =
     (case ts_LatestCustodyState table of None \<Rightarrow> [] | Some state \<Rightarrow>
        fold (\<lambda>claim m. AList.update (sc_PlayerID claim) (sc_VTXORefs claim) m) (cs_StackClaims state) [])"

definition reserve_by_player :: "nativeTableState \<Rightarrow> (string, int) gomap" where
  "reserve_by_player table =
     (case ts_LatestCustodyState table of None \<Rightarrow> [] | Some state \<Rightarrow>
        fold (\<lambda>claim m. AList.update (sc_PlayerID claim) (sc_ReservedFeeSats claim) m) (cs_StackClaims state) [])"

definition balance_between_hands :: "nativeTableState \<Rightarrow> nativeSeatRecord \<Rightarrow> PlayerBalance" where
  "balance_between_hands table seat =
     (let fresh = \<lparr>pb_AllIn = False, pb_Folded = False, pb_PlayerID = se_PlayerID seat,
            pb_ReservedFeeSats = maxInt 0 (sumVTXORefs (se_FundingRefs seat) - se_BuyInSats seat),
            pb_RoundContributionSats = 0, pb_SeatIndex = se_SeatIndex seat, pb_StackSats = se_BuyInSats seat,
            pb_Status = se_Status seat, pb_TotalContributionSats = 0, pb_VTXORefs = se_FundingRefs seat\<rparr> in
      case latestStackClaimForPlayer (ts_LatestCustodyState table) (se_PlayerID seat) of
        None \<Rightarrow> fresh
      | Some claim \<Rightarrow>
          fresh\<lparr>pb_AllIn := sc_AllIn claim, pb_Folded := sc_Folded claim, pb_ReservedFeeSats := sc_ReservedFeeSats claim,
            pb_StackSats := sc_AmountSats claim, pb_Status := firstNonEmptyString [sc_Status claim, se_Status seat],
            pb_VTXORefs := sc_VTXORefs claim\<rparr>)"

definition balance_in_hand :: "nativeTableState \<Rightarrow> HoldemState \<Rightarrow> nativeSeatRecord \<Rightarrow> PlayerBalance res" where
  "balance_in_hand table hand seat =
     bind_res (go_index (st_Players hand) (se_SeatIndex seat)) (\<lambda>playerState.
       Inr \<lparr>pb_AllIn = (hp_Status playerState = PlayerStatusAllIn), pb_Folded = (hp_Status playerState = PlayerStatusFolded),
         pb_PlayerID = se_PlayerID seat, pb_ReservedFeeSats = mget (reserve_by_player table) (se_PlayerID seat),
         pb_RoundContributionSats = hp_RoundContributionSats playerState, pb_SeatIndex = se_SeatIndex seat,
         pb_StackSats = hp_StackSats playerState, pb_Status = player_status_str (hp_Status playerState),
         pb_TotalContributionSats = hp_TotalContributionSats playerState,
         pb_VTXORefs = firstNonEmptyRefs
           [(case map_of (currentCustodyRefsByPlayer table) (se_PlayerID seat) of None \<Rightarrow> [] | Some refs \<Rightarrow> refs),
            se_FundingRefs seat]\<rparr>)"

definition custodyBalancesFromHand :: "nativeTableState \<Rightarrow> HoldemState option \<Rightarrow> PlayerBalance list res" where
  "custodyBalancesFromHand table hand =
     (case hand of
        None \<Rightarrow> Inr (map (balance_between_hands table) (ts_Seats table))
      | Some h \<Rightarrow> map_res (balance_in_hand table h) (ts_Seats table))"

section \<open>What a state binds\<close>

definition custodyActingPlayerID :: "nativeTableState \<Rightarrow> HoldemState option \<Rightarrow> string" where
  "custodyActingPlayerID table hand =
     (case hand of
        None \<Rightarrow> []
      | Some h \<Rightarrow>
         (case st_ActingSeatIndex h of
            None \<Rightarrow> []
          | Some seatIndex \<Rightarrow>
             (case seatRecordByIndex table seatIndex of None \<Rightarrow> [] | Some seat \<Rightarrow> se_PlayerID seat)))"

record custodyBindingOverrides =
  ov_ActionDeadlineAt :: string
  ov_ChallengeAnchor :: string
  ov_TranscriptRoot :: string

definition currentCustodyTranscriptBindings :: "nativeTableState \<Rightarrow> string \<times> string" where
  "currentCustodyTranscriptBindings table =
     (let transcriptRoot = handTranscriptRoot table in
      (firstNonEmptyString [transcriptRoot, ts_LastEventHash table], transcriptRoot))"

definition actionRequestBindingOverrides :: "nativeActionRequest \<Rightarrow> custodyBindingOverrides" where
  "actionRequestBindingOverrides request =
     \<lparr>ov_ActionDeadlineAt = aq_ActionDeadlineAt request, ov_ChallengeAnchor = aq_ChallengeAnchor request,
      ov_TranscriptRoot = aq_TranscriptRoot request\<rparr>"

definition custodyStateBinding ::
    "mesh_env \<Rightarrow> nativeTableState \<Rightarrow> TransitionKind \<Rightarrow> HoldemState option \<Rightarrow> custodyBindingOverrides option \<Rightarrow> StateBinding" where
  "custodyStateBinding env table kind hand overrides =
     (let (handID, handNumber) = (case hand of
            Some h \<Rightarrow> (st_HandID h, st_HandNumber h)
          | None \<Rightarrow> (case ts_PublicState table of
              None \<Rightarrow> ([], 0) | Some public \<Rightarrow> (stringValue (pu_HandID public), pu_HandNumber public)));
          (anchor, root) = currentCustodyTranscriptBindings table;
          override = (\<lambda>f v current. case overrides of
            None \<Rightarrow> current | Some overriding \<Rightarrow> if TrimSpace (f overriding) \<noteq> [] then v (f overriding) else current) in
      \<lparr>sb_ActionDeadlineAt = override ov_ActionDeadlineAt TrimSpace (custodyActionDeadline env table kind hand),
       sb_ActingPlayerID = custodyActingPlayerID table hand,
       sb_ChallengeAnchor = override ov_ChallengeAnchor (\<lambda>v. v) anchor,
       sb_CreatedAt = me_Now env, sb_DecisionIndex = custodyDecisionIndex hand, sb_Epoch = ts_CurrentEpoch table,
       sb_HandID = handID, sb_HandNumber = handNumber, sb_LegalActionsHash = legalActionsHash hand,
       sb_PublicStateHash = publicMoneyStateHash table hand, sb_TableID = tc_TableID (ts_Config table),
       sb_TimeoutPolicy = defaultCustodyTimeoutPolicy,
       sb_TranscriptRoot = override ov_TranscriptRoot (\<lambda>v. v) root\<rparr>)"

section \<open>Building transitions\<close>

text \<open>\<open>BuildTransition\<close> as its callers use it: the transition when there is no error.\<close>

definition built ::
    "mesh_env \<Rightarrow> TransitionKind \<Rightarrow> StateBinding \<Rightarrow> PlayerBalance list \<Rightarrow> CustodyState option \<Rightarrow> ActionDescriptor option
     \<Rightarrow> TimeoutResolution option \<Rightarrow> CustodyTransition res" where
  "built env kind binding balances previous action timeout =
     (case BuildTransition (ark_NodeJson (me_Ark env)) kind binding balances previous action timeout of
        (Some transition, Inr _) \<Rightarrow> Inr transition
      | (_, Inl e) \<Rightarrow> Inl e
      | (None, Inr _) \<Rightarrow> Inl (Panic ''nil transition''))"

definition stackProofRefs :: "CustodyState \<Rightarrow> VTXORef list" where
  "stackProofRefs state = concat (map sc_VTXORefs (cs_StackClaims state))"

definition carry_claim :: "mesh_env \<Rightarrow> nativeTableState \<Rightarrow> CustodyTransition \<Rightarrow> CustodyState \<Rightarrow> StackClaim \<Rightarrow> StackClaim" where
  "carry_claim env table transition previous nextClaim =
     (case map_of (prev_stacks (Some previous)) (sc_PlayerID nextClaim) of
        Some prevClaim \<Rightarrow>
          if stackClaimRefsReusableForTransition env table transition prevClaim nextClaim
          then nextClaim\<lparr>sc_VTXORefs := sc_VTXORefs prevClaim\<rparr> else nextClaim
      | None \<Rightarrow> nextClaim)"

definition carry_pot :: "mesh_env \<Rightarrow> nativeTableState \<Rightarrow> CustodyTransition \<Rightarrow> CustodyState \<Rightarrow> PotSlice \<Rightarrow> PotSlice" where
  "carry_pot env table transition previous nextSlice =
     (case map_of (prev_pots (Some previous)) (ps_PotID nextSlice) of
        Some prevSlice \<Rightarrow>
          if potSliceRefsReusableForTransition env table transition prevSlice nextSlice
          then nextSlice\<lparr>ps_VTXORefs := ps_VTXORefs prevSlice\<rparr> else nextSlice
      | None \<Rightarrow> nextSlice)"

text \<open>Whether a ref is reused does not depend on the refs the loops have already written.\<close>

definition carryForwardUnchangedCustodyRefs :: "mesh_env \<Rightarrow> nativeTableState \<Rightarrow> CustodyTransition \<Rightarrow> CustodyTransition" where
  "carryForwardUnchangedCustodyRefs env table transition =
     (case ts_LatestCustodyState table of
        None \<Rightarrow> transition
      | Some previous \<Rightarrow>
          transition\<lparr>ct_NextState := (ct_NextState transition)
            \<lparr>cs_StackClaims := map (carry_claim env table transition previous) (cs_StackClaims (ct_NextState transition)),
             cs_PotSlices := map (carry_pot env table transition previous) (cs_PotSlices (ct_NextState transition))\<rparr>\<rparr>)"

definition seal_state :: "CustodyTransition \<Rightarrow> CustodyTransition" where
  "seal_state transition =
     (let hash = HashCustodyState (ct_NextState transition);
          state = (ct_NextState transition)\<lparr>cs_StateHash := hash\<rparr> in
      transition\<lparr>ct_NextState := state, ct_NextStateHash := hash,
        ct_Proof := (ct_Proof transition)\<lparr>cp_StateHash := hash, cp_VTXORefs := stackProofRefs state\<rparr>\<rparr>)"

definition buildCustodyTransitionWithOverrides ::
    "mesh_env \<Rightarrow> nativeTableState \<Rightarrow> TransitionKind \<Rightarrow> HoldemState option \<Rightarrow> Action option \<Rightarrow> TimeoutResolution option
     \<Rightarrow> custodyBindingOverrides option \<Rightarrow> CustodyTransition res" where
  "buildCustodyTransitionWithOverrides env table kind hand action timeout overrides =
     (let binding = custodyStateBinding env table kind hand overrides;
          descriptor = map_option (\<lambda>a. \<lparr>ad_TotalSats = ac_TotalSats a, ad_Type = action_type_str (ac_Type a)\<rparr>) action in
      bind_res (custodyBalancesFromHand table hand) (\<lambda>balances.
      bind_res (built env kind binding balances (ts_LatestCustodyState table) descriptor timeout) (\<lambda>transition0.
      bind_res (applyRealCustodyFeeReserve env table transition0) (\<lambda>transition1.
        let transition = seal_state (carryForwardUnchangedCustodyRefs env table transition1) in
        Inr (transition\<lparr>ct_Proof := (ct_Proof transition)
          \<lparr>cp_TransitionHash := HashCustodyTransition (ark_NodeJson (me_Ark env)) transition\<rparr>\<rparr>)))))"

definition buildCustodyTransition ::
    "mesh_env \<Rightarrow> nativeTableState \<Rightarrow> TransitionKind \<Rightarrow> HoldemState option \<Rightarrow> Action option \<Rightarrow> TimeoutResolution option
     \<Rightarrow> CustodyTransition res" where
  "buildCustodyTransition env table kind hand action timeout =
     buildCustodyTransitionWithOverrides env table kind hand action timeout None"

definition buildSeatLockTransition :: "mesh_env \<Rightarrow> nativeTableState \<Rightarrow> CustodyTransition res" where
  "buildSeatLockTransition env table =
     bind_res (custodyBalancesFromHand table None) (\<lambda>balances.
       built env TransitionKindBuyInLock (custodyStateBinding env table TransitionKindBuyInLock None None) balances
         (ts_LatestCustodyState table) None None)"

definition semanticSeatLockTable :: "nativeTableState \<Rightarrow> CustodyTransition \<Rightarrow> nativeTableState" where
  "semanticSeatLockTable table transition =
     table\<lparr>ts_Seats := map (\<lambda>seat.
       if se_Status seat = ''pending-join'' \<and> se_PlayerID seat \<in> sc_PlayerID ` set (cs_StackClaims (ct_NextState transition))
       then seat\<lparr>se_Status := ''active''\<rparr> else seat) (ts_Seats table)\<rparr>"

definition buildFundsCustodyTransitionForPlayer ::
    "mesh_env \<Rightarrow> nativeTableState \<Rightarrow> string \<Rightarrow> TransitionKind \<Rightarrow> string \<Rightarrow> CustodyTransition res" where
  "buildFundsCustodyTransitionForPlayer env table playerID kind finalStatus =
     (if ts_LatestCustodyState table = None then Inl (Err ''latest custody state is unavailable'')
      else
        bind_res (custodyBalancesFromHand table None) (\<lambda>balances.
        if playerID \<notin> pb_PlayerID ` set balances
        then Inl (Err ''latest custody state is missing the target stack claim'')
        else built env kind ((custodyStateBinding env table kind None None)\<lparr>sb_ActingPlayerID := playerID\<rparr>)
          (map (\<lambda>balance. if pb_PlayerID balance = playerID
             then balance\<lparr>pb_StackSats := 0, pb_ReservedFeeSats := 0, pb_Status := finalStatus, pb_VTXORefs := []\<rparr>
             else balance) balances)
          (ts_LatestCustodyState table) None None))"

definition buildFundsCustodyTransition :: "mesh_env \<Rightarrow> nativeTableState \<Rightarrow> TransitionKind \<Rightarrow> string \<Rightarrow> CustodyTransition res" where
  "buildFundsCustodyTransition env table kind finalStatus =
     buildFundsCustodyTransitionForPlayer env table (li_PlayerID (me_WalletID env)) kind finalStatus"

text \<open>With \<open>startingBalancesForHand\<close>; the divisor is the number of seats.\<close>

definition deriveBlindPostCustodyTransitionWithOverrides ::
    "mesh_env \<Rightarrow> nativeTableState \<Rightarrow> string \<Rightarrow> int \<Rightarrow> custodyBindingOverrides option \<Rightarrow> CustodyTransition res" where
  "deriveBlindPostCustodyTransitionWithOverrides env table0 handID handNumber overrides =
     (let table = releaseCompletedActiveHandForNextStart table0 in
      if length (ts_Seats table) < 2 then Inl (Err ''blind-post transition requires two seated players'')
      else
        (let startingBalances = startingBalancesForHand table handNumber;
             stake = (\<lambda>i. \<lparr>hsc_PlayerID = se_PlayerID (ts_Seats table ! i),
               hsc_StackSats = mget startingBalances (se_PlayerID (ts_Seats table ! i))\<rparr>) in
         bind_res (CreateHoldemHand
           \<lparr>hc_HandID = handID, hc_HandNumber = handNumber,
            hc_DealerSeatIndex = (handNumber - 1) smod int (length (ts_Seats table)),
            hc_SmallBlindSats = tc_SmallBlindSats (ts_Config table), hc_BigBlindSats = tc_BigBlindSats (ts_Config table),
            hc_Seats = [stake 0, stake 1]\<rparr>) (\<lambda>hand.
           buildCustodyTransitionWithOverrides env table TransitionKindBlindPost (Some hand) None None overrides)))"

definition deriveBlindPostCustodyTransition :: "mesh_env \<Rightarrow> nativeTableState \<Rightarrow> string \<Rightarrow> int \<Rightarrow> CustodyTransition res" where
  "deriveBlindPostCustodyTransition env table handID handNumber =
     deriveBlindPostCustodyTransitionWithOverrides env table handID handNumber None"

end
