(* ===== verification/Turn_Selection.thy ===== *)
theory Turn_Selection
  imports Table_Custody
begin

text \<open>
  How the action of a turn is chosen and what happens when none is, from \<open>turn_selection.go\<close>, \<open>custody.go\<close> and
  \<open>hand.go\<close>: the player's signed selection, the host's lock of one candidate, the settlement request of the locked
  candidate, the timeout that acts for a silent player, the abort of a hand, and the effect of an accepted
  transition on the table.
\<close>

section \<open>Signed payloads\<close>

definition str_member :: "string \<Rightarrow> string \<Rightarrow> string \<times> goval option" where
  "str_member k v = (k, Some (VString v))"

definition int_member :: "string \<Rightarrow> int \<Rightarrow> string \<times> goval option" where
  "int_member k v = (k, Some (VInt v))"

definition candidateIntentAckPayload :: "CandidateIntentAck \<Rightarrow> goval" where
  "candidateIntentAckPayload ack = any_map
     [str_member ''acceptedAt'' (ca_AcceptedAt ack), str_member ''candidateHash'' (ca_CandidateHash ack),
      int_member ''decisionIndex'' (ca_DecisionIndex ack), int_member ''epoch'' (ca_Epoch ack),
      str_member ''handId'' (ca_HandID ack), str_member ''intentId'' (ca_IntentID ack),
      str_member ''prevCustodyStateHash'' (ca_PrevCustodyStateHash ack), str_member ''tableId'' (ca_TableID ack),
      str_member ''turnAnchorHash'' (ca_TurnAnchorHash ack), str_member ''type'' ''candidate-intent-ack'']"

definition selectionAuthPayload :: "SelectionAuth \<Rightarrow> goval" where
  "selectionAuthPayload auth = any_map
     [str_member ''actionDeadlineAt'' (sa_ActionDeadlineAt auth), str_member ''candidateHash'' (sa_CandidateHash auth),
      int_member ''decisionIndex'' (sa_DecisionIndex auth), int_member ''epoch'' (sa_Epoch auth),
      str_member ''handId'' (sa_HandID auth), str_member ''playerId'' (sa_PlayerID auth),
      str_member ''prevCustodyStateHash'' (sa_PrevCustodyStateHash auth), str_member ''signedAt'' (sa_SignedAt auth),
      str_member ''tableId'' (sa_TableID auth), str_member ''turnAnchorHash'' (sa_TurnAnchorHash auth),
      str_member ''type'' ''selection-auth'']"

definition actionLockedAckPayload :: "ActionLockedAck \<Rightarrow> goval" where
  "actionLockedAckPayload ack = any_map
     [str_member ''actionDeadlineAt'' (al_ActionDeadlineAt ack), str_member ''candidateHash'' (al_CandidateHash ack),
      int_member ''decisionIndex'' (al_DecisionIndex ack), int_member ''epoch'' (al_Epoch ack),
      str_member ''handId'' (al_HandID ack), str_member ''hostPeerId'' (al_HostPeerID ack),
      str_member ''lockedAt'' (al_LockedAt ack), str_member ''prevCustodyStateHash'' (al_PrevCustodyStateHash ack),
      str_member ''tableId'' (al_TableID ack), str_member ''turnAnchorHash'' (al_TurnAnchorHash ack),
      str_member ''type'' ''action-locked-ack'']"

definition actionSettlementTransitionHash :: "mesh_env \<Rightarrow> nativeActionSettlementRequest \<Rightarrow> string" where
  "actionSettlementTransitionHash env request = HashCustodyTransition (ark_NodeJson (me_Ark env)) (as_Transition request)"

definition actionSettlementRequestPayload :: "mesh_env \<Rightarrow> nativeActionSettlementRequest \<Rightarrow> goval" where
  "actionSettlementRequestPayload env request = any_map
     [str_member ''candidateHash'' (as_CandidateHash request), str_member ''playerId'' (as_PlayerID request),
      str_member ''protocolVersion'' (as_ProtocolVersion request), str_member ''signedAt'' (as_SignedAt request),
      str_member ''tableId'' (as_TableID request),
      str_member ''transitionHash'' (actionSettlementTransitionHash env request),
      str_member ''type'' ''action-settlement-request'']"

text \<open>A signature is checked by \<open>VerifyStructuredData\<close>; \<open>failure\<close> is reported when it does not verify.\<close>

definition check_signature ::
    "('sk, 'pk) secp256k1 \<Rightarrow> string \<Rightarrow> string \<Rightarrow> goval \<Rightarrow> string \<Rightarrow> unit res" where
  "check_signature curve failure pubkeyHex payload signatureHex =
     bind_res (VerifyStructuredData curve pubkeyHex payload signatureHex) (\<lambda>ok. fail_if (\<not> ok) failure)"

section \<open>Acknowledged intents\<close>

definition validateCandidateIntentAckMetadata ::
    "nativeTableState \<Rightarrow> NativeTurnCandidateBundle \<Rightarrow> CandidateIntentAck \<Rightarrow> unit res" where
  "validateCandidateIntentAckMetadata table bundle ack =
     (if ca_TableID ack \<noteq> tc_TableID (ts_Config table) then Inl (Err ''candidate intent ack table mismatch'')
      else if ca_Epoch ack \<noteq> ts_CurrentEpoch table then Inl (Err ''candidate intent ack epoch mismatch'')
      else bind_res (deref (ts_ActiveHand table)) (\<lambda>hand. first_error
        [fail_if (ca_HandID ack \<noteq> st_HandID (ah_State hand)) ''candidate intent ack hand mismatch'',
         fail_if (ca_DecisionIndex ack \<noteq> custodyDecisionIndex (Some (ah_State hand))) ''candidate intent ack decision mismatch'',
         fail_if (ca_PrevCustodyStateHash ack \<noteq> latestCustodyStateHash table) ''candidate intent ack prev custody mismatch'',
         fail_if (ca_CandidateHash ack \<noteq> tb_CandidateHash bundle) ''candidate intent ack candidate mismatch'',
         fail_if (ca_TurnAnchorHash ack \<noteq> tb_TurnAnchorHash bundle) ''candidate intent ack turn anchor mismatch'',
         fail_if (TrimSpace (ca_IntentID ack) = [] \<or> TrimSpace (ca_AcceptedAt ack) = [])
           ''candidate intent ack is incomplete'']))"

definition verifyCandidateIntentAck ::
    "('sk, 'pk) secp256k1 \<Rightarrow> mesh_env \<Rightarrow> nativeTableState \<Rightarrow> NativeTurnCandidateBundle \<Rightarrow> CandidateIntentAck \<Rightarrow> unit res" where
  "verifyCandidateIntentAck curve env table bundle ack =
     bind_res (validateCandidateIntentAckMetadata table bundle ack) (\<lambda>_.
       if TrimSpace (ca_OperatorSignatureHex ack) = [] \<or> TrimSpace (ca_OperatorPubkeyHex ack) = []
       then Inl (Err ''candidate intent ack signature is missing'')
       else bind_res (arkCustodyConfig env) (\<lambda>config.
         if ca_OperatorPubkeyHex ack \<noteq> ka_SignerPubkeyHex config
         then Inl (Err ''candidate intent ack operator key mismatch'')
         else check_signature curve ''candidate intent ack signature is invalid'' (ca_OperatorPubkeyHex ack)
           (candidateIntentAckPayload ack) (ca_OperatorSignatureHex ack)))"

section \<open>Selections\<close>

text \<open>Time stamps are compared to the nanosecond; the blank ones are refused before they are read.\<close>

definition acceptedBeforeOrAtDeadline :: "mesh_env \<Rightarrow> string \<Rightarrow> string \<Rightarrow> bool" where
  "acceptedBeforeOrAtDeadline env acceptedAt deadline =
     (if TrimSpace acceptedAt = [] \<or> TrimSpace deadline = [] then False
      else case (me_ParseTime env (TrimSpace acceptedAt), me_ParseTime env (TrimSpace deadline)) of
          (Inr accepted, Inr limit) \<Rightarrow> accepted \<le> limit
        | _ \<Rightarrow> False)"

definition validateLockedCandidateBinding :: "PendingTurnMenuPublic option \<Rightarrow> unit res" where
  "validateLockedCandidateBinding menu0 =
     (case menu0 of
        None \<Rightarrow> Inr ()
      | Some menu \<Rightarrow>
          if TrimSpace (tm_SelectedCandidateHash menu) = [] then Inr ()
          else first_error
            [fail_if (\<exists>auth \<in> set_option (tm_SelectionAuth menu). sa_CandidateHash auth \<noteq> tm_SelectedCandidateHash menu)
               ''pending turn menu selection auth candidate does not match the locked candidate'',
             fail_if (\<exists>bundle \<in> set_option (tm_SelectedBundle menu). tb_CandidateHash bundle \<noteq> tm_SelectedCandidateHash menu)
               ''pending turn menu selected bundle does not match the locked candidate'',
             fail_if (\<exists>auth \<in> set_option (tm_SelectionAuth menu). \<exists>bundle \<in> set_option (tm_SelectedBundle menu).
                 sa_CandidateHash auth \<noteq> tb_CandidateHash bundle)
               ''pending turn menu selection auth does not match the selected bundle'',
             fail_if (\<exists>request \<in> set_option (tm_SettledRequest menu). as_CandidateHash request \<noteq> tm_SelectedCandidateHash menu)
               ''pending turn menu settled request does not match the locked candidate''])"

definition unsigned_selection :: "mesh_env \<Rightarrow> nativeTableState \<Rightarrow> PendingTurnMenuPublic \<Rightarrow> HoldemState \<Rightarrow> string \<Rightarrow> SelectionAuth" where
  "unsigned_selection env table menu hand candidateHash =
     \<lparr>sa_ActionDeadlineAt = tm_ActionDeadlineAt menu, sa_CandidateHash = candidateHash,
      sa_DecisionIndex = custodyDecisionIndex (Some hand), sa_Epoch = pendingTurnEpoch table (Some menu),
      sa_HandID = st_HandID hand, sa_PlayerID = acting_player_id table hand,
      sa_PrevCustodyStateHash = turnMenuSourceStateHash table, sa_SignedAt = me_Now env, sa_SignatureHex = [],
      sa_TableID = tc_TableID (ts_Config table), sa_TurnAnchorHash = tm_TurnAnchorHash menu\<rparr>"

definition buildSelectionAuth ::
    "('sk, 'pk) secp256k1 \<Rightarrow> (nat \<Rightarrow> string res) \<Rightarrow> mesh_env \<Rightarrow> nativeTableState \<Rightarrow> string \<Rightarrow> SelectionAuth res" where
  "buildSelectionAuth curve random env table candidateHash =
     (case ts_ActiveHand table of
        None \<Rightarrow> Inl (Err ''selection auth requires an actionable hand'')
      | Some hand \<Rightarrow>
          if st_ActingSeatIndex (ah_State hand) = None then Inl (Err ''selection auth requires an actionable hand'')
          else bind_res (deref (ts_PendingTurnMenu table)) (\<lambda>menu.
            let auth = unsigned_selection env table menu (ah_State hand) candidateHash in
            bind_res (SignStructuredData curve random (li_PrivateKeyHex (me_WalletID env)) (selectionAuthPayload auth))
              (\<lambda>signatureHex. Inr (auth\<lparr>sa_SignatureHex := signatureHex\<rparr>))))"

definition validateSelectionAuthMetadata :: "mesh_env \<Rightarrow> nativeTableState \<Rightarrow> SelectionAuth \<Rightarrow> unit res" where
  "validateSelectionAuthMetadata env table auth =
     (case ts_PendingTurnMenu table of
        None \<Rightarrow> Inl (Err ''selection auth requires a pending turn menu'')
      | Some menu \<Rightarrow>
          if sa_TableID auth \<noteq> tc_TableID (ts_Config table) then Inl (Err ''selection auth table mismatch'')
          else if sa_Epoch auth \<noteq> tm_Epoch menu then Inl (Err ''selection auth epoch mismatch'')
          else bind_res (deref (ts_ActiveHand table)) (\<lambda>hand. first_error
            [fail_if (sa_HandID auth \<noteq> st_HandID (ah_State hand)) ''selection auth hand mismatch'',
             fail_if (sa_DecisionIndex auth \<noteq> custodyDecisionIndex (Some (ah_State hand))) ''selection auth decision mismatch'',
             fail_if (sa_PrevCustodyStateHash auth \<noteq> turnMenuSourceStateHash table) ''selection auth prev custody mismatch'',
             fail_if (sa_TurnAnchorHash auth \<noteq> tm_TurnAnchorHash menu) ''selection auth turn anchor mismatch'',
             fail_if (sa_ActionDeadlineAt auth \<noteq> tm_ActionDeadlineAt menu) ''selection auth deadline mismatch'',
             fail_if (TrimSpace (sa_CandidateHash auth) = []) ''selection auth candidate hash is missing'',
             fail_if (TrimSpace (sa_SignedAt auth) = []) ''selection auth signed timestamp is missing'',
             fail_if (\<not> acceptedBeforeOrAtDeadline env (sa_SignedAt auth) (sa_ActionDeadlineAt auth))
               ''selection auth was signed after the action deadline'',
             fail_if (st_ActingSeatIndex (ah_State hand) = None) ''selection auth requires an actionable hand'',
             fail_if (sa_PlayerID auth \<noteq> acting_player_id table (ah_State hand)) ''selection auth player mismatch'',
             fail_if (findTurnMenuOptionByCandidateHash (Some menu) (sa_CandidateHash auth) = None)
               ''selection auth candidate is not part of the deterministic turn menu'']))"

definition verifySelectionAuth ::
    "('sk, 'pk) secp256k1 \<Rightarrow> mesh_env \<Rightarrow> nativeTableState \<Rightarrow> SelectionAuth \<Rightarrow> unit res" where
  "verifySelectionAuth curve env table auth =
     bind_res (validateSelectionAuthMetadata env table auth) (\<lambda>_.
       if TrimSpace (sa_SignatureHex auth) = [] then Inl (Err ''selection auth signature is missing'')
       else case seatRecordForPlayer table (sa_PlayerID auth) of
           None \<Rightarrow> Inl (Err ''missing seat for acting player %s'')
         | Some seat \<Rightarrow> check_signature curve ''selection auth signature is invalid'' (se_WalletPubkeyHex seat)
             (selectionAuthPayload auth) (sa_SignatureHex auth))"

section \<open>Locks\<close>

definition unsigned_locked_ack :: "string \<Rightarrow> SelectionAuth \<Rightarrow> string \<Rightarrow> ActionLockedAck" where
  "unsigned_locked_ack selfPeerID auth lockedAt =
     \<lparr>al_ActionDeadlineAt = sa_ActionDeadlineAt auth, al_CandidateHash = sa_CandidateHash auth,
      al_DecisionIndex = sa_DecisionIndex auth, al_Epoch = sa_Epoch auth, al_HandID = sa_HandID auth,
      al_HostPeerID = selfPeerID, al_LockedAt = lockedAt, al_PrevCustodyStateHash = sa_PrevCustodyStateHash auth,
      al_SignatureHex = [], al_TableID = sa_TableID auth, al_TurnAnchorHash = sa_TurnAnchorHash auth\<rparr>"

definition buildActionLockedAck ::
    "('sk, 'pk) secp256k1 \<Rightarrow> (nat \<Rightarrow> string res) \<Rightarrow> string \<Rightarrow> string \<Rightarrow> SelectionAuth \<Rightarrow> string \<Rightarrow> ActionLockedAck res" where
  "buildActionLockedAck curve random selfPeerID protocolPrivateKeyHex auth lockedAt =
     (let ack = unsigned_locked_ack selfPeerID auth lockedAt in
      bind_res (SignStructuredData curve random protocolPrivateKeyHex (actionLockedAckPayload ack)) (\<lambda>signatureHex.
        Inr (ack\<lparr>al_SignatureHex := signatureHex\<rparr>)))"

definition verifyActionLockedAck :: "('sk, 'pk) secp256k1 \<Rightarrow> nativeTableState \<Rightarrow> ActionLockedAck \<Rightarrow> unit res" where
  "verifyActionLockedAck curve table ack =
     (case ts_PendingTurnMenu table of
        None \<Rightarrow> Inl (Err ''action locked ack requires a pending turn menu'')
      | Some menu \<Rightarrow>
          first_error
            [fail_if (TrimSpace (tm_SelectedCandidateHash menu) \<noteq> [] \<and> al_CandidateHash ack \<noteq> tm_SelectedCandidateHash menu)
               ''action locked ack candidate mismatch'',
             fail_if (\<exists>auth \<in> set_option (tm_SelectionAuth menu). al_CandidateHash ack \<noteq> sa_CandidateHash auth)
               ''action locked ack does not match the locked selection auth'',
             fail_if (al_TableID ack \<noteq> tc_TableID (ts_Config table)) ''action locked ack table mismatch'',
             fail_if (al_Epoch ack \<noteq> tm_Epoch menu) ''action locked ack epoch mismatch'',
             fail_if (al_TurnAnchorHash ack \<noteq> tm_TurnAnchorHash menu) ''action locked ack turn anchor mismatch'',
             fail_if (al_ActionDeadlineAt ack \<noteq> tm_ActionDeadlineAt menu) ''action locked ack deadline mismatch'',
             fail_if (al_HostPeerID ack \<noteq> pa_PeerID (kn_Peer (ts_CurrentHost table))) ''action locked ack host mismatch'',
             check_signature curve ''action locked ack signature is invalid''
               (pa_ProtocolPubkeyHex (kn_Peer (ts_CurrentHost table))) (actionLockedAckPayload ack) (al_SignatureHex ack)])"

definition selectionSettlementTimeoutMSForTable :: "mesh_env \<Rightarrow> nativeTableState \<Rightarrow> int" where
  "selectionSettlementTimeoutMSForTable env table =
     maxInt (handProtocolTimeoutMSForTable env table) (actionTimeoutMSForTable env table)"

definition hasTimelySelectedCandidate :: "('sk, 'pk) secp256k1 \<Rightarrow> mesh_env \<Rightarrow> nativeTableState \<Rightarrow> bool" where
  "hasTimelySelectedCandidate curve env table =
     (case ts_PendingTurnMenu table of
        None \<Rightarrow> False
      | Some menu \<Rightarrow>
          turnMenuMatchesTable table (Some menu)
          \<and> (case (tm_SelectionAuth menu, tm_SelectedBundle menu) of
               (Some auth, Some bundle) \<Rightarrow>
                 TrimSpace (tm_SelectedCandidateHash menu) \<noteq> []
                 \<and> validateLockedCandidateBinding (Some menu) = Inr ()
                 \<and> verifySelectionAuth curve env table auth = Inr ()
                 \<and> acceptedBeforeOrAtDeadline env (sa_SignedAt auth) (tm_ActionDeadlineAt menu)
             | _ \<Rightarrow> False))"

record nativeActionChooseRequest =
  cr_CandidateHash :: string
  cr_SelectionAuth :: SelectionAuth
  cr_TableID :: string

text \<open>The bundles a daemon caches for the menu of the turn.\<close>

record LocalTurnBundleCache =
  lb_ActionDeadlineAt :: string
  lb_ActingPlayerID :: string
  lb_Candidates :: "NativeTurnCandidateBundle list"
  lb_ChallengeEnvelope :: "NativeChallengeEnvelope option"
  lb_DecisionIndex :: int
  lb_Epoch :: int
  lb_HandID :: string
  lb_PrevCustodyStateHash :: string
  lb_TableID :: string
  lb_TimeoutCandidate :: "NativeTurnCandidateBundle option"
  lb_TurnAnchorHash :: string

definition turnBundleCacheKey :: "string \<Rightarrow> int \<Rightarrow> string \<Rightarrow> string" where
  "turnBundleCacheKey tableID epoch anchorHash = TrimSpace tableID @ ''|'' @ itoa epoch @ ''|'' @ TrimSpace anchorHash"

definition turnBundleCacheEpoch :: "nativeTableState \<Rightarrow> int" where
  "turnBundleCacheEpoch table = pendingTurnEpoch table (ts_PendingTurnMenu table)"

definition turnBundleCacheAnchorHash :: "nativeTableState \<Rightarrow> string" where
  "turnBundleCacheAnchorHash table = pendingTurnAnchorHash table (ts_PendingTurnMenu table)"

definition localTurnBundleCacheMatchesTable :: "nativeTableState \<Rightarrow> LocalTurnBundleCache option \<Rightarrow> bool" where
  "localTurnBundleCacheMatchesTable table cache0 =
     (case (cache0, ts_ActiveHand table) of
        (Some cache, Some hand) \<Rightarrow>
          tableHasActionableTurn table
          \<and> (let expectedDeadline = (case ts_PendingTurnMenu table of
                 Some menu \<Rightarrow> if turnMenuMatchesTable table (Some menu) then TrimSpace (tm_ActionDeadlineAt menu) else []
               | None \<Rightarrow> []) in
             expectedDeadline = [] \<or> TrimSpace (lb_ActionDeadlineAt cache) = expectedDeadline)
          \<and> TrimSpace (lb_TableID cache) = tc_TableID (ts_Config table)
          \<and> lb_Epoch cache = turnBundleCacheEpoch table
          \<and> lb_HandID cache = st_HandID (ah_State hand)
          \<and> lb_DecisionIndex cache = custodyDecisionIndex (Some (ah_State hand))
          \<and> lb_ActingPlayerID cache = acting_player_id table (ah_State hand)
          \<and> lb_PrevCustodyStateHash cache = turnMenuSourceStateHash table
          \<and> lb_TurnAnchorHash cache = turnBundleCacheAnchorHash table
      | _ \<Rightarrow> False)"

text \<open>\<open>stored\<close> are the caches of the private state on disk; the cache in the table's own memory is left out.\<close>

definition load_turn_bundle_cache ::
    "(string, LocalTurnBundleCache) gomap \<Rightarrow> nativeTableState \<Rightarrow> LocalTurnBundleCache option" where
  "load_turn_bundle_cache stored table =
     (case map_of stored (turnBundleCacheKey (tc_TableID (ts_Config table)) (turnBundleCacheEpoch table)
         (turnBundleCacheAnchorHash table)) of
        None \<Rightarrow> None
      | Some cache \<Rightarrow> if localTurnBundleCacheMatchesTable table (Some cache) then Some cache else None)"

definition store_turn_bundle_cache ::
    "string \<Rightarrow> LocalTurnBundleCache option \<Rightarrow> (string, LocalTurnBundleCache) gomap \<Rightarrow> (string, LocalTurnBundleCache) gomap" where
  "store_turn_bundle_cache tableID cache0 stored =
     (case cache0 of
        None \<Rightarrow> filter (\<lambda>(key, existing). lb_TableID existing \<noteq> tableID) stored
      | Some cache \<Rightarrow>
         (let cacheKey = turnBundleCacheKey tableID (lb_Epoch cache) (lb_TurnAnchorHash cache) in
          AList.update cacheKey cache
            (filter (\<lambda>(key, existing). lb_TableID existing \<noteq> tableID \<or> key = cacheKey) stored)))"

definition findTurnCandidateByHashFromCache ::
    "PendingTurnMenuPublic option \<Rightarrow> LocalTurnBundleCache option \<Rightarrow> string \<Rightarrow> NativeTurnCandidateBundle option" where
  "findTurnCandidateByHashFromCache menu cache0 candidateHash =
     (let cached = (case cache0 of None \<Rightarrow> [] | Some cache \<Rightarrow>
            lb_Candidates cache @ (case lb_TimeoutCandidate cache of None \<Rightarrow> [] | Some candidate \<Rightarrow> [candidate])) in
      case find (\<lambda>candidate. tb_CandidateHash candidate = candidateHash) cached of
        Some candidate \<Rightarrow> Some candidate
      | None \<Rightarrow> findTurnCandidateByHash menu candidateHash)"

definition findTurnCandidateByOptionFromCache ::
    "PendingTurnMenuPublic option \<Rightarrow> LocalTurnBundleCache option \<Rightarrow> string \<Rightarrow> NativeTurnCandidateBundle option" where
  "findTurnCandidateByOptionFromCache menu cache0 optionID =
     (case find (\<lambda>candidate. tb_OptionID candidate = optionID) (case cache0 of None \<Rightarrow> [] | Some cache \<Rightarrow> lb_Candidates cache) of
        Some candidate \<Rightarrow> Some candidate
      | None \<Rightarrow> findTurnCandidateByOption menu optionID)"

text \<open>
  The host's lock of a selected candidate, \<open>handleActionSelectionFromPeer\<close> once the menu of the turn is there: the
  checks, and the table and the acknowledgement that result.
\<close>

definition lock_candidate ::
    "('sk, 'pk) secp256k1 \<Rightarrow> (nat \<Rightarrow> string res) \<Rightarrow> mesh_env \<Rightarrow> string \<Rightarrow> string \<Rightarrow> LocalTurnBundleCache option
     \<Rightarrow> nativeTableState \<Rightarrow> nativeActionChooseRequest \<Rightarrow> (nativeTableState \<times> ActionLockedAck) res" where
  "lock_candidate curve random env selfPeerID protocolPrivateKeyHex cache table request =
     (if cr_CandidateHash request \<noteq> sa_CandidateHash (cr_SelectionAuth request)
      then Inl (Err ''selection auth candidate does not match the requested candidate'')
      else
        bind_res (verifySelectionAuth curve env table (cr_SelectionAuth request)) (\<lambda>_.
        bind_res (deref (ts_PendingTurnMenu table)) (\<lambda>menu.
        case findTurnCandidateByHashFromCache (Some menu) cache (cr_CandidateHash request) of
          None \<Rightarrow> Inl (Err ''selected candidate is not part of the current turn menu'')
        | Some expected \<Rightarrow>
            if TrimSpace (tm_SelectedCandidateHash menu) \<noteq> [] \<and> tm_SelectedCandidateHash menu \<noteq> tb_CandidateHash expected
            then Inl (Err ''a sibling candidate for this turn is already selected'')
            else
              bind_res (buildActionLockedAck curve random selfPeerID protocolPrivateKeyHex (cr_SelectionAuth request) (me_Now env))
                (\<lambda>ack. Inr (table\<lparr>ts_PendingTurnMenu := Some (menu
                   \<lparr>tm_SelectedCandidateHash := tb_CandidateHash expected, tm_SelectionAuth := Some (cr_SelectionAuth request),
                    tm_LockedAt := me_Now env,
                    tm_SettlementDeadlineAt := me_Later env (me_Now env) (selectionSettlementTimeoutMSForTable env table),
                    tm_SelectedBundle := Some expected, tm_SettledRequest := None\<rparr>)\<rparr>, ack)))))"

section \<open>Settlement of a locked candidate\<close>

definition validateSettlementRequestProtocolVersion :: "string \<Rightarrow> unit res" where
  "validateSettlementRequestProtocolVersion version =
     fail_if (TrimSpace version \<noteq> nativeProtocolVersion) ''settlement request protocol version mismatch''"

definition verifyActionSettlementRequest ::
    "('sk, 'pk) secp256k1 \<Rightarrow> mesh_env \<Rightarrow> nativeTableState \<Rightarrow> nativeActionSettlementRequest \<Rightarrow> unit res" where
  "verifyActionSettlementRequest curve env table request =
     (case ts_PendingTurnMenu table of
        None \<Rightarrow> Inl (Err ''action settlement requires a pending turn menu'')
      | Some menu \<Rightarrow>
          first_error
            [fail_if (as_TableID request \<noteq> tc_TableID (ts_Config table)) ''action settlement table mismatch'',
             validateSettlementRequestProtocolVersion (as_ProtocolVersion request),
             fail_if (as_PlayerID request \<noteq> tm_ActingPlayerID menu) ''action settlement player mismatch'',
             fail_if (TrimSpace (as_SignedAt request) = []) ''action settlement signed timestamp is missing'',
             fail_if (TrimSpace (as_SignatureHex request) = []) ''action settlement signature is missing'',
             (case seatRecordForPlayer table (as_PlayerID request) of
                None \<Rightarrow> Inl (Err ''missing seat for action settlement player %s'')
              | Some seat \<Rightarrow> check_signature curve ''action settlement signature is invalid'' (se_WalletPubkeyHex seat)
                  (actionSettlementRequestPayload env request) (as_SignatureHex request))])"

definition signActionSettlementRequest ::
    "('sk, 'pk) secp256k1 \<Rightarrow> (nat \<Rightarrow> string res) \<Rightarrow> mesh_env \<Rightarrow> nativeActionSettlementRequest \<Rightarrow> nativeActionSettlementRequest res" where
  "signActionSettlementRequest curve random env request0 =
     (let request = request0\<lparr>as_SignedAt := me_Now env\<rparr> in
      bind_res (SignStructuredData curve random (li_PrivateKeyHex (me_WalletID env)) (actionSettlementRequestPayload env request))
        (\<lambda>signatureHex. Inr (request\<lparr>as_SignatureHex := signatureHex\<rparr>)))"

definition plain_act :: "ActionType \<Rightarrow> Action" where
  "plain_act t = \<lparr>ac_Type = t, ac_TotalSats = 0\<rparr>"

text \<open>The action that stands for a silent player.\<close>

definition timeout_act :: "TimeoutResolution \<Rightarrow> Action" where
  "timeout_act resolution =
     (if tr_ActionType resolution = action_type_str ActionCheck then plain_act ActionCheck else plain_act ActionFold)"

definition nextHandStateForCandidate :: "nativeTableState \<Rightarrow> NativeTurnCandidateBundle \<Rightarrow> HoldemState res" where
  "nextHandStateForCandidate table bundle =
     (case ts_ActiveHand table of
        None \<Rightarrow> Inl (Err ''selected candidate requires an actionable hand'')
      | Some hand \<Rightarrow>
         (case st_ActingSeatIndex (ah_State hand) of
            None \<Rightarrow> Inl (Err ''selected candidate requires an actionable hand'')
          | Some actingSeatIndex \<Rightarrow>
             (case (tb_ActionRequest bundle, tb_TimeoutResolution bundle) of
                (Some request, _) \<Rightarrow> ApplyHoldemAction (ah_State hand) actingSeatIndex (aq_Action request)
              | (None, Some resolution) \<Rightarrow> ApplyHoldemAction (ah_State hand) actingSeatIndex (timeout_act resolution)
              | (None, None) \<Rightarrow> Inl (Err ''selected candidate is missing its action authorizer''))))"

section \<open>Deadlines carried by a request\<close>

definition tableWithEpoch :: "nativeTableState \<Rightarrow> int \<Rightarrow> nativeTableState" where
  "tableWithEpoch table epoch =
     (if epoch \<le> 0 \<or> ts_CurrentEpoch table = epoch then table else table\<lparr>ts_CurrentEpoch := epoch\<rparr>)"

definition bare_menu :: "string \<Rightarrow> nativeTableState \<Rightarrow> HoldemState \<Rightarrow> PendingTurnMenuPublic" where
  "bare_menu deadline table hand =
     \<lparr>tm_AcceptedIntentAck = None, tm_ActionDeadlineAt = deadline, tm_ActingPlayerID = acting_player_id table hand,
      tm_Candidates = [], tm_ChallengeEnvelope = None, tm_DecisionIndex = custodyDecisionIndex (Some hand),
      tm_DeliveredAt = [], tm_Epoch = pendingTurnEpoch table (ts_PendingTurnMenu table), tm_HandID = st_HandID hand,
      tm_LockedAt = [], tm_Options = [], tm_PrevCustodyStateHash = latestCustodyStateHash table, tm_SelectedBundle = None,
      tm_SelectedCandidateHash = [], tm_SettledRequest = None, tm_SelectionAuth = None, tm_SettlementDeadlineAt = [],
      tm_TimeoutCandidate = None, tm_TurnAnchorHash = pendingTurnAnchorHash table (ts_PendingTurnMenu table)\<rparr>"

definition tableWithTurnDeadline :: "nativeTableState \<Rightarrow> string \<Rightarrow> nativeTableState" where
  "tableWithTurnDeadline table turnDeadlineAt =
     (case ts_ActiveHand table of
        None \<Rightarrow> table
      | Some hand \<Rightarrow>
          if st_ActingSeatIndex (ah_State hand) = None \<or> TrimSpace turnDeadlineAt = [] then table
          else case ts_PendingTurnMenu table of
              Some menu \<Rightarrow>
                if turnMenuMatchesTable table (Some menu)
                then table\<lparr>ts_PendingTurnMenu := Some (menu\<lparr>tm_ActionDeadlineAt := turnDeadlineAt\<rparr>)\<rparr>
                else table\<lparr>ts_PendingTurnMenu := Some (bare_menu turnDeadlineAt table (ah_State hand))\<rparr>
            | None \<Rightarrow> table\<lparr>ts_PendingTurnMenu := Some (bare_menu turnDeadlineAt table (ah_State hand))\<rparr>)"

definition actionRequestValidationTable :: "nativeTableState \<Rightarrow> nativeActionRequest \<Rightarrow> nativeTableState" where
  "actionRequestValidationTable table request =
     tableWithTurnDeadline (tableWithEpoch table (aq_Epoch request)) (aq_ActionDeadlineAt request)"

section \<open>Timeouts\<close>

definition timeoutPolicyFromState :: "CustodyState option \<Rightarrow> TimeoutPolicy" where
  "timeoutPolicyFromState state =
     (case state of
        Some s \<Rightarrow> if timeout_policy_str (cs_TimeoutPolicy s) \<noteq> [] then cs_TimeoutPolicy s else defaultCustodyTimeoutPolicy
      | None \<Rightarrow> defaultCustodyTimeoutPolicy)"

definition turn_timeout_resolution :: "TimeoutPolicy \<Rightarrow> nativeTableState \<Rightarrow> HoldemState \<Rightarrow> int \<Rightarrow> TimeoutResolution" where
  "turn_timeout_resolution policy table hand actingSeatIndex =
     BuildTimeoutResolution policy (seatPlayerID table actingSeatIndex)
       (map (\<lambda>legal. action_type_str (la_Type legal)) (GetLegalActions hand (st_ActingSeatIndex hand)))
       [seatPlayerID table actingSeatIndex]"

text \<open>\<open>menu_complete\<close> is the verdict of \<open>validatePendingTurnMenu\<close> on the menu of the turn.\<close>

definition deriveTimeoutCustodyTransitionWithOptions ::
    "('sk, 'pk) secp256k1 \<Rightarrow> mesh_env \<Rightarrow> bool \<Rightarrow> nativeTableState \<Rightarrow> bool \<Rightarrow> bool \<Rightarrow> CustodyTransition res" where
  "deriveTimeoutCustodyTransitionWithOptions curve env menu_complete table requireElapsed requireCompleteMenu =
     (case ts_ActiveHand table of
        None \<Rightarrow> Inl (Err ''timeout transition requires an active hand'')
      | Some active \<Rightarrow>
         (let hand = ah_State active in
          case st_ActingSeatIndex hand of
            None \<Rightarrow> Inl (Err ''timeout transition requires an actionable hand state'')
          | Some actingSeatIndex \<Rightarrow>
              if \<not> PhaseAllowsActions (st_Phase hand) then Inl (Err ''timeout transition requires an actionable hand state'')
              else if ts_LatestCustodyState table = None then Inl (Err ''timeout transition requires a prior custody state'')
              else if hasTimelySelectedCandidate curve env table
              then Inl (Err ''timeout transition is stale after a valid selected turn candidate'')
              else if requireCompleteMenu \<and> \<not> menu_complete
              then Inl (Err ''timeout transition requires a complete pending turn menu'')
              else if requireElapsed \<and> me_Elapsed env (currentCustodyActionDeadline env table) < 0
              then Inl (Err ''timeout transition is before the custody deadline'')
              else
                (let resolution = turn_timeout_resolution (timeoutPolicyFromState (ts_LatestCustodyState table)) table hand
                       actingSeatIndex;
                     action = timeout_act resolution in
                 bind_res (ApplyHoldemAction hand actingSeatIndex action) (\<lambda>nextState.
                   buildCustodyTransition env table TransitionKindTimeout (Some nextState) (Some action) (Some resolution)))))"

section \<open>The table after a transition\<close>

definition applyCustodyTransition :: "nativeTableState \<Rightarrow> CustodyTransition \<Rightarrow> nativeTableState" where
  "applyCustodyTransition table transition =
     (let applied = table\<lparr>ts_CustodyTransitions := ts_CustodyTransitions table @ [transition],
            ts_LatestCustodyState := Some (ct_NextState transition)\<rparr> in
      if ct_Kind transition = TransitionKindTurnChallengeOpen then applied
      else applied\<lparr>ts_PendingTurnChallenge := None, ts_PendingTurnMenu := None\<rparr>)"

definition latestStackAmount :: "CustodyState option \<Rightarrow> string \<Rightarrow> int" where
  "latestStackAmount state playerID =
     (case latestStackClaimForPlayer state playerID of None \<Rightarrow> 0 | Some claim \<Rightarrow> sc_AmountSats claim)"

definition latestTimeoutResolutionForHand :: "nativeTableState \<Rightarrow> TimeoutResolution option" where
  "latestTimeoutResolutionForHand table =
     (case ts_ActiveHand table of
        None \<Rightarrow> None
      | Some active \<Rightarrow>
         (case find (\<lambda>transition. cs_HandID (ct_NextState transition) = st_HandID (ah_State active)
               \<and> ct_TimeoutResolution transition \<noteq> None) (rev (ts_CustodyTransitions table)) of
            None \<Rightarrow> None | Some transition \<Rightarrow> cloneTimeoutResolution (ct_TimeoutResolution transition)))"

definition tableHasLiveHand :: "nativeTableState \<Rightarrow> bool" where
  "tableHasLiveHand table =
     (case ts_ActiveHand table of None \<Rightarrow> False | Some active \<Rightarrow> st_Phase (ah_State active) \<noteq> StreetSettled)"

definition settledHandPayoutPending :: "nativeTableState \<Rightarrow> bool" where
  "settledHandPayoutPending table =
     (case ts_ActiveHand table of
        None \<Rightarrow> False
      | Some active \<Rightarrow>
          if st_Phase (ah_State active) \<noteq> StreetSettled then False
          else case ts_LatestCustodyState table of
              None \<Rightarrow> True
            | Some state \<Rightarrow> cs_HandID state \<noteq> st_HandID (ah_State active) \<or> cs_HandNumber state \<noteq> st_HandNumber (ah_State active)
                \<or> cs_PublicStateHash state \<noteq> publicMoneyStateHash table (Some (ah_State active)))"

definition fundsSettlementBlockedReason :: "nativeTableState \<Rightarrow> string" where
  "fundsSettlementBlockedReason table =
     (if tableHasLiveHand table then ''funds settlement requires the current hand to be settled first''
      else if settledHandPayoutPending table then ''funds settlement requires the settled hand payout to finalize first''
      else [])"

section \<open>Aborts\<close>

definition zeroContributionsFromPlayers :: "NativeSeatedPlayer list \<Rightarrow> (string, int) gomap" where
  "zeroContributionsFromPlayers players = fold (\<lambda>player m. AList.update (se_PlayerID player) 0 m) players []"

text \<open>\<open>snapshotID\<close> is the fresh identifier.\<close>

definition publicStateFromSnapshot ::
    "string \<Rightarrow> mesh_env \<Rightarrow> nativeTableState \<Rightarrow> NativeCooperativeTableSnapshot \<Rightarrow> NativePublicTableState" where
  "publicStateFromSnapshot snapshotID env table snapshot =
     \<lparr>pu_ActingSeatIndex = sn_TurnIndex snapshot, pu_Board = [], pu_ChipBalances = sn_ChipBalances snapshot,
      pu_CurrentBetSats = 0, pu_DealerCommitment = None, pu_DealerSeatIndex = VInvalid, pu_Epoch = sn_Epoch snapshot,
      pu_FoldedPlayerIDs = sn_FoldedPlayerIDs snapshot, pu_HandID = sn_HandID snapshot,
      pu_HandNumber = sn_HandNumber snapshot, pu_LatestEventHash = sn_LatestEventHash snapshot,
      pu_LivePlayerIDs = sn_LivePlayerIDs snapshot, pu_MinRaiseToSats = tc_BigBlindSats (ts_Config table),
      pu_Phase = sn_Phase snapshot, pu_PotSats = sn_PotSats snapshot,
      pu_PreviousSnapshotHash = sn_PreviousSnapshotHash snapshot,
      pu_RoundContributions = zeroContributionsFromPlayers (sn_SeatedPlayers snapshot),
      pu_SeatedPlayers = sn_SeatedPlayers snapshot, pu_SnapshotID = snapshotID, pu_Status = ''ready'',
      pu_TableID = tc_TableID (ts_Config table),
      pu_TotalContributions = zeroContributionsFromPlayers (sn_SeatedPlayers snapshot), pu_UpdatedAt = me_Now env\<rparr>"

text \<open>
  An abort that blames no seat, the tail of \<open>abortActiveHandLocked\<close>: the hand is dropped, the public state of the
  last fully signed snapshot comes back, the custody state stays.
\<close>

definition abort_without_blame :: "string \<Rightarrow> mesh_env \<Rightarrow> nativeTableState \<Rightarrow> nativeTableState" where
  "abort_without_blame snapshotID env table =
     (let public = (case ts_LatestFullySignedSnapshot table of
            None \<Rightarrow> ts_PublicState table
          | Some snapshot \<Rightarrow> Some ((publicStateFromSnapshot snapshotID env table snapshot)
              \<lparr>pu_LatestEventHash := VString (ts_LastEventHash table)\<rparr>)) in
      table\<lparr>ts_PendingTurnChallenge := None, ts_PendingTurnMenu := None, ts_PublicState := public, ts_ActiveHand := None,
        ts_ActiveHandStartAt := [], ts_Config := (ts_Config table)\<lparr>tc_Status := ''ready''\<rparr>,
        ts_NextHandAt := me_Later env (me_Now env) (nextHandDelayMSForTable table)\<rparr>)"

text \<open>What a protocol timeout decides: nothing, an abort that blames a seat, or one that blames none.\<close>

datatype timeout_decision = NoTimeout | BlameSeat int | BlameNobody

definition protocol_timeout_decision :: "mesh_env \<Rightarrow> nativeTableState \<Rightarrow> timeout_decision" where
  "protocol_timeout_decision env table =
     (case ts_ActiveHand table of
        None \<Rightarrow> NoTimeout
      | Some active \<Rightarrow>
          if hd_PhaseDeadlineAt (ah_Cards active) = [] \<or> me_Elapsed env (hd_PhaseDeadlineAt (ah_Cards active)) < 0
          then NoTimeout
          else case missingProtocolSeatIndexes table of
              [seatIndex] \<Rightarrow> BlameSeat seatIndex
            | _ # _ # _ \<Rightarrow> BlameNobody
            | [] \<Rightarrow>
                if is_board_reveal (st_Phase (ah_State active))
                  \<and> \<not> transcriptHasBoardOpen (Some active) (st_Phase (ah_State active))
                then BlameNobody else NoTimeout)"

end
