(* ===== verification/Mersenne.thy ===== *)
theory Mersenne
  imports Prelude
begin

text \<open>
  The number theory behind the locks of the deck: exponentiation modulo a prime can be undone, and
  \<open>2\<^sup>1\<^sup>2\<^sup>7 - 1\<close> is a prime. The second is the Lucas-Lehmer test: the sequence \<open>4, 4\<^sup>2 - 2, \<dots>\<close> is computed
  modulo the number on binary numerals, and its vanishing at the last step leaves no room for a
  divisor below the square root.
\<close>

section \<open>Arithmetic modulo a prime\<close>

locale prime_modulus =
  fixes p :: int
  assumes gt_one: "1 < p"
    and no_divisor: "0 < d \<Longrightarrow> d dvd p \<Longrightarrow> d = 1 \<or> d = p"
begin

lemma coprime_modulus: "\<not> p dvd v \<Longrightarrow> coprime v p"
proof -
  assume v: "\<not> p dvd v"
  have "gcd v p = 1 \<or> gcd v p = p"
    using no_divisor [of "gcd v p"] gt_one by simp
  moreover have "gcd v p \<noteq> p" using v by (metis gcd_dvd1)
  ultimately show ?thesis by (simp add: coprime_iff_gcd_eq_1)
qed

lemma residue_coprime: "i \<in> {1..<p} \<Longrightarrow> coprime i p"
  by (rule coprime_modulus) (auto dest: zdvd_imp_le)

lemma multiples_permute:
  assumes "\<not> p dvd v"
  shows "bij_betw (\<lambda>i. v * i mod p) {1..<p} {1..<p}"
proof -
  have "inj_on (\<lambda>i. v * i mod p) {1..<p}"
  proof (rule inj_onI)
    fix i j assume ij: "i \<in> {1..<p}" "j \<in> {1..<p}" and "v * i mod p = v * j mod p"
    then have "p dvd v * (i - j)" by (simp add: mod_eq_dvd_iff right_diff_distrib)
    then have "p dvd i - j"
      using coprime_modulus [OF assms] by (simp add: coprime_dvd_mult_right_iff coprime_commute)
    moreover have "\<bar>i - j\<bar> < p" using ij by auto
    ultimately show "i = j" using dvd_imp_le_int [of "i - j" p] gt_one by fastforce
  qed
  moreover have "(\<lambda>i. v * i mod p) ` {1..<p} \<subseteq> {1..<p}"
  proof safe
    fix i assume i: "i \<in> {1..<p}"
    have "\<not> p dvd v * i"
      using coprime_modulus [OF assms] residue_coprime [OF i] gt_one
      by (metis coprime_mult_left_iff coprime_def dvd_refl less_irrefl zdvd1_eq abs_of_pos less_trans zero_less_one)
    then have "v * i mod p \<noteq> 0" by (simp add: dvd_eq_mod_eq_0)
    moreover have "0 \<le> v * i mod p" "v * i mod p < p" using gt_one by simp_all
    ultimately show "v * i mod p \<in> {1..<p}" by simp
  qed
  ultimately show ?thesis by (simp add: bij_betw_def endo_inj_surj)
qed

lemma fermat: "\<not> p dvd v \<Longrightarrow> p dvd v ^ nat (p - 1) - 1"
proof -
  assume v: "\<not> p dvd v"
  let ?f = "\<Prod>i\<in>{1..<p}. i"
  have "(\<Prod>i\<in>{1..<p}. v * i mod p) = ?f"
    by (rule prod.reindex_bij_betw [OF multiples_permute [OF v]])
  then have "(\<Prod>i\<in>{1..<p}. v * i) mod p = ?f mod p"
    using mod_prod_eq [of "\<lambda>i. v * i" p "{1..<p}"] by simp
  then have "p dvd (v ^ nat (p - 1) - 1) * ?f"
    by (simp add: prod.distrib mod_eq_dvd_iff left_diff_distrib)
  moreover have "coprime ?f p" by (rule prod_coprime_left) (rule residue_coprime)
  ultimately show ?thesis by (simp add: coprime_dvd_mult_left_iff coprime_commute)
qed

text \<open>Exponents that multiply to one modulo \<open>p - 1\<close> undo each other.\<close>

lemma power_inverse:
  assumes v: "0 \<le> v" "v < p" and ed: "0 \<le> e" "0 \<le> d" "e * d mod (p - 1) = 1"
  shows "v ^ nat (e * d) mod p = v"
proof (cases "v = 0")
  case True
  have "e * d \<noteq> 0" using ed(3) by auto
  then have "0 < e * d" using ed(1,2) by (simp add: order.strict_iff_order)
  then have "nat (e * d) \<noteq> 0" by linarith
  then show ?thesis using True by (simp add: zero_power)
next
  case False
  then have "\<not> p dvd v" using v by (auto dest: zdvd_imp_le)
  then have one: "v ^ nat (p - 1) mod p = 1"
    using fermat gt_one by (metis mod_eq_dvd_iff mod_pos_pos_trivial zero_le_one)
  define k where "k = nat (e * d div (p - 1))"
  have nonneg: "0 \<le> e * d" using ed(1,2) by simp
  have "e * d = (p - 1) * (e * d div (p - 1)) + 1"
    using ed(3) by (metis mult_div_mod_eq)
  moreover have k: "int k = e * d div (p - 1)"
    using nonneg gt_one by (simp add: k_def pos_imp_zdiv_nonneg_iff)
  ultimately have "int (nat (e * d)) = int (nat (p - 1) * k + 1)" using nonneg gt_one by simp
  then have "nat (e * d) = nat (p - 1) * k + 1" by (simp only: of_nat_eq_iff)
  then have "v ^ nat (e * d) = (v ^ nat (p - 1)) ^ k * v" by (simp add: power_mult)
  also have "\<dots> mod p = (v ^ nat (p - 1) mod p) ^ k mod p * v mod p"
    by (simp add: power_mod mod_mult_left_eq)
  also have "\<dots> = v" using one v gt_one by simp
  finally show ?thesis .
qed

end

section \<open>The powers of \<open>2 + \<surd>3\<close>\<close>

text \<open>\<open>pell n\<close> holds the two coordinates of the \<open>n\<close>-th power.\<close>

primrec pell :: "nat \<Rightarrow> int \<times> int" where
  "pell 0 = (1, 0)"
| "pell (Suc n) = (2 * fst (pell n) + 3 * snd (pell n), fst (pell n) + 2 * snd (pell n))"

abbreviation pa :: "nat \<Rightarrow> int" where "pa n \<equiv> fst (pell n)"

abbreviation pb :: "nat \<Rightarrow> int" where "pb n \<equiv> snd (pell n)"

lemma pell_add:
  "pa (m + n) = pa m * pa n + 3 * (pb m * pb n)"
  "pb (m + n) = pa m * pb n + pb m * pa n"
  by (induction m) (simp_all add: algebra_simps)

lemma pell_norm: "pa n * pa n - 3 * (pb n * pb n) = 1"
proof (induction n)
  case (Suc n)
  have "pa (Suc n) * pa (Suc n) - 3 * (pb (Suc n) * pb (Suc n)) = pa n * pa n - 3 * (pb n * pb n)"
    by (simp add: algebra_simps)
  with Suc show ?case by simp
qed simp

lemma pell_double: "pa (2 * n) = 2 * (pa n * pa n) - 1" "pb (2 * n) = 2 * (pa n * pb n)"
  using pell_add [of n n] pell_norm [of n] by (simp_all add: mult_2 [of n])

definition period :: "int \<Rightarrow> nat \<Rightarrow> bool" where
  "period q n \<longleftrightarrow> q dvd pa n - 1 \<and> q dvd pb n"

lemma period_diff:
  assumes "q dvd pa j - pa i" "q dvd pb j - pb i" "i \<le> j"
  shows "period q (j - i)"
proof -
  define d where "d = j - i"
  have j: "j = d + i" using assms(3) by (simp add: d_def)
  have n: "pa i * pa i - 3 * (pb i * pb i) = 1" by (rule pell_norm)
  have "pa j * pa i - 3 * (pb j * pb i) = pa d"
    "pb j * pa i - pa j * pb i = pb d"
    using arg_cong [OF n, of "\<lambda>x. pa d * x"] arg_cong [OF n, of "\<lambda>x. pb d * x"]
    unfolding j pell_add by (simp_all add: algebra_simps)
  moreover have "pa j * pa i - 3 * (pb j * pb i) - 1 = (pa j - pa i) * pa i - 3 * ((pb j - pb i) * pb i)"
    unfolding n [symmetric] by (simp add: algebra_simps)
  moreover have "pb j * pa i - pa j * pb i = (pb j - pb i) * pa i - (pa j - pa i) * pb i"
    by (simp add: algebra_simps)
  moreover have "q dvd (pa j - pa i) * pa i - 3 * ((pb j - pb i) * pb i)"
    "q dvd (pb j - pb i) * pa i - (pa j - pa i) * pb i"
    using assms(1,2) by (auto intro!: dvd_diff dvd_mult dvd_mult2)
  ultimately show ?thesis by (simp only: period_def d_def [symmetric])
qed

lemma period_sub: "period q (m + n) \<Longrightarrow> period q n \<Longrightarrow> period q m"
  using period_diff [of q "m + n" n]
  by (auto simp: period_def intro: dvd_diff [of q "pa (m + n) - 1" "pa n - 1", simplified])

lemma period_add:
  assumes "period q m" "period q n"
  shows "period q (m + n)"
proof -
  have "pa (m + n) - 1 = (pa m - 1) * pa n + (pa n - 1) + 3 * (pb m * pb n)"
    by (simp add: pell_add algebra_simps)
  moreover have "q dvd (pa m - 1) * pa n + (pa n - 1) + 3 * (pb m * pb n)"
    using assms unfolding period_def by (intro dvd_add dvd_mult dvd_mult2) simp_all
  ultimately have "q dvd pa (m + n) - 1" by (simp only:)
  then show ?thesis using assms unfolding period_def pell_add(2) by simp
qed

lemma period_mult: "period q n \<Longrightarrow> period q (k * n)"
proof (induction k)
  case (Suc k)
  then show ?case using period_add [of q n "k * n"] by simp
qed (simp add: period_def)

lemma period_gcd: "period q m \<Longrightarrow> period q n \<Longrightarrow> period q (gcd m n)"
proof (induction m n rule: gcd_nat_induct)
  case (step m n)
  have "period q (m mod n + m div n * n)" using step.prems by simp
  then have "period q (m mod n)"
    using period_mult [OF step.prems(2)] by (rule period_sub)
  then have "period q (gcd n (m mod n))" using step by blast
  then show ?case using step.hyps by (metis gcd_red_nat)
qed simp

lemma half_of_two_power:
  assumes "g dvd 2 ^ Suc n" "g \<noteq> 2 ^ Suc n"
  shows "g dvd (2 ^ n :: nat)"
proof -
  from assms(1) obtain h where h: "2 ^ Suc n = g * h" ..
  have "even h"
  proof (rule ccontr)
    assume "odd h"
    then have "coprime h (2 ^ Suc n)" by simp
    moreover have "h dvd 2 ^ Suc n" unfolding h by simp
    ultimately have "h = 1" by (metis coprime_absorb_left nat_dvd_1_iff_1)
    with h assms(2) show False by simp
  qed
  then obtain h' where "h = 2 * h'" ..
  with h have "2 ^ n = g * h'" by simp
  then show ?thesis ..
qed

section \<open>The Lucas-Lehmer test is sufficient\<close>

primrec lucas :: "nat \<Rightarrow> int" where
  "lucas 0 = 4"
| "lucas (Suc n) = lucas n * lucas n - 2"

lemma lucas_pell: "lucas n = 2 * pa (2 ^ n)"
  by (induction n) (simp_all add: pell_double)

lemma no_small_divisor:
  assumes "q dvd lucas n" "odd q" "1 < q"
  shows "2 ^ (n + 2) \<le> q * q"
proof -
  let ?N = "2 ^ (n + 2) :: nat"
  have "q dvd pa (2 ^ n)"
    using assms(1,2) by (simp add: lucas_pell coprime_dvd_mult_right_iff)
  then have minus: "q dvd pa (2 ^ (n + 1)) + 1" and zero: "q dvd pb (2 ^ (n + 1))"
    by (simp_all add: pell_double)
  have "pa ?N - 1 = 2 * ((pa (2 ^ (n + 1)) + 1) * (pa (2 ^ (n + 1)) - 1))"
    using pell_double(1) [of "2 ^ (n + 1)"] by (simp add: algebra_simps)
  then have whole: "period q ?N"
    using minus zero pell_double(2) [of "2 ^ (n + 1)"] by (simp add: period_def)
  have "inj_on (\<lambda>i. (pa i mod q, pb i mod q)) {..<?N}"
  proof (rule linorder_inj_onI)
    fix i j assume ij: "i < j" "i \<in> {..<?N}" "j \<in> {..<?N}"
    show "(pa i mod q, pb i mod q) \<noteq> (pa j mod q, pb j mod q)"
    proof
      assume "(pa i mod q, pb i mod q) = (pa j mod q, pb j mod q)"
      then have "q dvd pa j - pa i" "q dvd pb j - pb i" by (metis Pair_inject mod_eq_dvd_iff)+
      then have "period q (j - i)" using ij by (intro period_diff) simp_all
      then have g: "period q (gcd (j - i) ?N)" using whole by (rule period_gcd)
      have "gcd (j - i) ?N \<le> j - i" using ij by (intro gcd_le1_nat) simp
      moreover have "j - i < ?N" using ij by auto
      ultimately have "gcd (j - i) ?N \<noteq> ?N" by linarith
      then have "gcd (j - i) ?N dvd 2 ^ (n + 1)" using half_of_two_power [of "gcd (j - i) ?N" "n + 1"] by simp
      then obtain k where "2 ^ (n + 1) = k * gcd (j - i) ?N" by (metis dvdE mult.commute)
      then have "period q (2 ^ (n + 1))" using period_mult [OF g, of k] by metis
      then have "q dvd (pa (2 ^ (n + 1)) + 1) - (pa (2 ^ (n + 1)) - 1)"
        using minus unfolding period_def by (metis dvd_diff)
      then have "q dvd 2" by simp
      then have "q = 2" using assms(3) zdvd_imp_le [of q 2] by simp
      with assms(2) show False by simp
    qed
  qed auto
  moreover have "(\<lambda>i. (pa i mod q, pb i mod q)) ` {..<?N} \<subseteq> {0..<q} \<times> {0..<q}"
    using assms(3) by auto
  ultimately have "card {..<?N} \<le> card ({0..<q} \<times> {0..<q})"
    by (rule card_inj_on_le) simp
  then have "?N \<le> nat q * nat q" by (simp add: card_cartesian_product)
  then have "int ?N \<le> int (nat q * nat q)" by (simp only: zle_int)
  then show ?thesis using assms(3) by simp
qed

lemma lucas_lehmer:
  assumes "2 ^ (n + 2) - 1 dvd lucas n" "0 < d" "d dvd 2 ^ (n + 2) - 1"
  shows "d = 1 \<or> d = 2 ^ (n + 2) - (1 :: int)"
proof (rule ccontr)
  assume proper: "\<not> (d = 1 \<or> d = 2 ^ (n + 2) - (1 :: int))"
  let ?p = "2 ^ (n + 2) - (1 :: int)"
  obtain e where e: "?p = d * e" using assms(3) ..
  have "(1 :: int) < 2 ^ (n + 2)" by (rule one_less_power) simp_all
  then have "0 < ?p" by linarith
  then have pos: "0 < e" using assms(2) unfolding e by (simp add: zero_less_mult_iff)
  have "1 < d" "1 < e" using proper assms(2) pos e by (auto simp: order.strict_iff_order)
  have "odd ?p" by simp
  then have "odd d" "odd e" using e by (metis even_mult_iff)+
  have "d dvd lucas n" "e dvd lucas n" using assms(1) e by (metis dvd_mult_left dvd_mult_right)+
  then have "2 ^ (n + 2) \<le> d * d" "2 ^ (n + 2) \<le> e * e"
    using no_small_divisor \<open>odd d\<close> \<open>odd e\<close> \<open>1 < d\<close> \<open>1 < e\<close> by blast+
  moreover have "d * d < 2 ^ (n + 2) \<or> e * e < 2 ^ (n + 2)"
  proof (cases "d \<le> e")
    case True
    then have "d * d \<le> d * e" using assms(2) by simp
    then show ?thesis using e by linarith
  next
    case False
    then have "e * e \<le> d * e" using pos by simp
    then show ?thesis using e by linarith
  qed
  ultimately show False by linarith
qed

section \<open>Running the test on binary numerals\<close>

fun high :: "nat \<Rightarrow> num \<Rightarrow> num option" where
  "high 0 n = Some n"
| "high (Suc k) num.One = None"
| "high (Suc k) (num.Bit0 n) = high k n"
| "high (Suc k) (num.Bit1 n) = high k n"

fun low :: "nat \<Rightarrow> num \<Rightarrow> num option" where
  "low 0 n = None"
| "low (Suc k) num.One = Some num.One"
| "low (Suc k) (num.Bit0 n) = map_option num.Bit0 (low k n)"
| "low (Suc k) (num.Bit1 n) = Some (case low k n of None \<Rightarrow> num.One | Some m \<Rightarrow> num.Bit1 m)"

text \<open>Modulo \<open>2\<^sup>k - 1\<close> the high part and the low part of a number may be added.\<close>

definition wrap :: "nat \<Rightarrow> num \<Rightarrow> num" where
  "wrap k x =
     (case high k x of
        None \<Rightarrow> x
      | Some h \<Rightarrow> (case low k x of None \<Rightarrow> h | Some l \<Rightarrow> h + l))"

fun lucas_steps :: "nat \<Rightarrow> nat \<Rightarrow> num \<Rightarrow> num \<Rightarrow> num" where
  "lucas_steps k 0 c s = s"
| "lucas_steps k (Suc n) c s = lucas_steps k n c (wrap k (wrap k (Num.sqr s + c)))"

fun all_ones :: "nat \<Rightarrow> num" where
  "all_ones 0 = num.One"
| "all_ones (Suc n) = num.Bit1 (all_ones n)"

text \<open>The integer of a numeral, kept from the simplifier's own arithmetic.\<close>

definition num_int :: "num \<Rightarrow> int" where
  "num_int n = numeral n"

lemma num_int_simps:
  "num_int num.One = 1" "num_int (num.Bit0 n) = 2 * num_int n" "num_int (num.Bit1 n) = 2 * num_int n + 1"
  "num_int (m + n) = num_int m + num_int n" "num_int (Num.sqr n) = num_int n * num_int n"
  using numeral_Bit0 [of n, where ?'a = int] numeral_Bit1 [of n, where ?'a = int]
    numeral_mult [of n n, where ?'a = int]
  by (simp_all only: num_int_def numeral_One numeral_add Num.sqr_conv_mult mult_2)

lemma num_int_all_ones: "num_int (all_ones n) = 2 ^ Suc n - 1"
  by (induction n) (simp_all add: num_int_simps)

definition num_val :: "num option \<Rightarrow> int" where
  "num_val m = (case m of None \<Rightarrow> 0 | Some n \<Rightarrow> num_int n)"

lemma high_low: "num_int n = 2 ^ k * num_val (high k n) + num_val (low k n)"
proof (induction k n rule: high.induct)
  case (3 k n)
  have "num_val (low (Suc k) (num.Bit0 n)) = 2 * num_val (low k n)"
    by (simp add: num_val_def num_int_simps split: option.split)
  with 3 show ?case by (simp add: num_int_simps)
next
  case (4 k n)
  have "num_val (low (Suc k) (num.Bit1 n)) = 2 * num_val (low k n) + 1"
    by (simp add: num_val_def num_int_simps split: option.split)
  with 4 show ?case by (simp add: num_int_simps)
qed (simp_all add: num_val_def num_int_simps)

lemma wrap_cong: "2 ^ k - 1 dvd num_int x - num_int (wrap k x)"
proof (cases "high k x")
  case (Some h)
  have "num_int (wrap k x) = num_val (high k x) + num_val (low k x)"
    using Some by (simp add: wrap_def num_val_def num_int_simps split: option.split)
  then have "num_int x - num_int (wrap k x) = (2 ^ k - 1) * num_val (high k x)"
    using high_low [of x k] by (simp add: algebra_simps)
  then show ?thesis by simp
qed (simp add: wrap_def)

lemma lucas_steps_cong:
  assumes "num_int c = 2 ^ k - 3"
  shows "2 ^ k - 1 dvd lucas j - num_int s \<Longrightarrow> 2 ^ k - 1 dvd lucas (j + n) - num_int (lucas_steps k n c s)"
proof (induction n arbitrary: j s)
  case (Suc n)
  let ?p = "2 ^ k - 1 :: int"
  let ?x = "Num.sqr s + c"
  have "lucas (Suc j) - num_int ?x = (lucas j - num_int s) * (lucas j + num_int s) - ?p"
    using assms by (simp add: num_int_simps algebra_simps)
  moreover have "?p dvd (lucas j - num_int s) * (lucas j + num_int s) - ?p"
    by (rule dvd_diff [OF dvd_mult2 [OF Suc.prems] dvd_refl])
  ultimately have "?p dvd lucas (Suc j) - num_int ?x" by (simp only:)
  then have "?p dvd (lucas (Suc j) - num_int ?x)
      + ((num_int ?x - num_int (wrap k ?x)) + (num_int (wrap k ?x) - num_int (wrap k (wrap k ?x))))"
    by (intro dvd_add wrap_cong)
  then have "?p dvd lucas (Suc j) - num_int (wrap k (wrap k ?x))" by (simp only: diff_add_cancel add_diff_eq)
  from Suc.IH [OF this] show ?case by simp
qed simp

lemma lucas_run:
  "lucas_steps 127 125 (num.Bit1 (num.Bit0 (all_ones 124))) (num.Bit0 (num.Bit0 num.One)) = all_ones 126"
  by code_simp

lemma lucas_vanishes: "2 ^ 127 - 1 dvd lucas 125"
proof -
  have "num_int (num.Bit1 (num.Bit0 (all_ones 124))) = 2 ^ 127 - 3"
    using num_int_all_ones [of 124] by (simp add: num_int_simps)
  moreover have "2 ^ 127 - 1 dvd lucas 0 - num_int (num.Bit0 (num.Bit0 num.One))" by (simp add: num_int_simps)
  ultimately have "2 ^ 127 - 1 dvd lucas (0 + 125)
      - num_int (lucas_steps 127 125 (num.Bit1 (num.Bit0 (all_ones 124))) (num.Bit0 (num.Bit0 num.One)))"
    by (rule lucas_steps_cong)
  then have "2 ^ 127 - 1 dvd lucas 125 - (2 ^ Suc 126 - 1)"
    by (simp only: lucas_run num_int_all_ones add_0)
  then have "2 ^ 127 - 1 dvd lucas 125 - (2 ^ 127 - 1) + (2 ^ 127 - 1)"
    by (intro dvd_add dvd_refl) (simp only: Suc_numeral Num.add_num_simps)
  then show ?thesis by (simp only: diff_add_cancel)
qed

lemma mersenne_127_prime: "prime_modulus (2 ^ 127 - 1)"
proof
  show "d = 1 \<or> d = 2 ^ 127 - 1" if "0 < d" "d dvd 2 ^ 127 - 1" for d :: int
    using lucas_lehmer [of 125 d] lucas_vanishes that by simp
qed simp

end
