(* ===== verification/Mental_Values.thy ===== *)
theory Mental_Values
  imports Mental Mersenne
begin

text \<open>
  Values of the mental deck: the hexadecimal texts stand for the residues \<open>1, \<dots>, mentalPrime - 1\<close>,
  locks are permutations of those residues that commute with each other, and generated key pairs
  undo each other.
\<close>

section \<open>Hexadecimal texts\<close>

lemma mentalPrime_eq: "mentalPrime = 2 ^ 127 - 1"
  by code_simp

interpretation mental: prime_modulus mentalPrime
  unfolding mentalPrime_eq by (rule mersenne_127_prime)

lemma mentalPrime_pos [simp]: "0 < mentalPrime" "1 < mentalPrime"
  using mental.gt_one by simp_all

definition lower_hex :: string where
  "lower_hex = ''0123456789abcdef''"

lemma hex_digit_lower: "n < 16 \<Longrightarrow> hex_digit n \<in> set lower_hex"
proof -
  assume "n < 16"
  then have "n \<in> set [0..<16]" by simp
  moreover have "list_all (\<lambda>n. hex_digit n \<in> set lower_hex) [0..<16]" by code_simp
  ultimately show ?thesis unfolding list_all_iff by blast
qed

lemma hex_digit_zero: "n < 16 \<Longrightarrow> hex_digit n = CHR ''0'' \<longleftrightarrow> n = 0"
proof -
  assume "n < 16"
  then have "n \<in> set [0..<16]" by simp
  moreover have "list_all (\<lambda>n. (hex_digit n = CHR ''0'') = (n = 0)) [0..<16]" by code_simp
  ultimately show ?thesis unfolding list_all_iff by blast
qed

lemma nat_hex_chars: "set (nat_hex n) \<subseteq> set lower_hex"
proof (induction n rule: nat_hex.induct)
  case (1 n)
  then show ?case by (subst nat_hex.simps) (auto simp: hex_digit_lower)
qed

lemma nat_hex_not_Nil [simp]: "nat_hex n \<noteq> []"
  by (subst nat_hex.simps) simp

lemma nat_hex_hd: "0 < n \<Longrightarrow> hd (nat_hex n) \<noteq> CHR ''0''"
proof (induction n rule: nat_hex.induct)
  case (1 n)
  then show ?case by (subst nat_hex.simps) (auto simp: hex_digit_zero hd_append)
qed

lemma hex_number_append:
  "hex_number a (s @ t) = (case hex_number a s of None \<Rightarrow> None | Some b \<Rightarrow> hex_number b t)"
  by (induction s arbitrary: a) (auto split: option.splits)

lemma hex_number_nat_hex: "hex_number 0 (nat_hex n) = Some (int n)"
proof (induction n rule: nat_hex.induct)
  case (1 n)
  show ?case
  proof (cases "n < 16")
    case True
    then show ?thesis by (subst nat_hex.simps) simp
  next
    case False
    have "int (n div 16) * 16 + int (n mod 16) = int n" by presburger
    with 1 False show ?thesis by (subst nat_hex.simps) (simp add: hex_number_append)
  qed
qed

lemma spaces_not_hex:
  "list_all (\<lambda>w. w = [] \<or> hd w \<notin> set lower_hex) (space_encodings @ map rev space_encodings)"
  by code_simp

lemma trim_front_hex:
  assumes "set s \<subseteq> set lower_hex" "set ws \<subseteq> set (space_encodings @ map rev space_encodings)"
  shows "trim_front ws s = s"
proof -
  have "\<not> (w \<noteq> [] \<and> take (length w) s = w)" if "w \<in> set ws" for w
  proof
    assume w: "w \<noteq> [] \<and> take (length w) s = w"
    then have "hd w \<in> set s" by (metis hd_in_set in_set_takeD)
    then have "hd w \<in> set lower_hex" using assms(1) by blast
    moreover have "w \<in> set (space_encodings @ map rev space_encodings)" using that assms(2) by blast
    ultimately show False using spaces_not_hex w unfolding list_all_iff by blast
  qed
  then have "find (\<lambda>w. w \<noteq> [] \<and> take (length w) s = w) ws = None" by (simp add: find_None_iff)
  then show ?thesis by (subst trim_front.simps) simp
qed

lemma TrimSpace_hex: "set s \<subseteq> set lower_hex \<Longrightarrow> TrimSpace s = s"
  by (simp add: TrimSpace_def trim_front_hex)

lemma SetString16_nat_hex: "SetString16 (nat_hex n) = Some (int n)"
proof -
  obtain c r where cr: "nat_hex n = c # r" by (cases "nat_hex n") auto
  then have "c \<in> set lower_hex" using nat_hex_chars [of n] by simp
  then have "c \<noteq> CHR ''-''" "c \<noteq> CHR ''+''" by (auto simp: lower_hex_def)
  then show ?thesis using hex_number_nat_hex [of n] cr by (simp add: SetString16_def)
qed

lemma trim_zeros_nat_hex: "0 < n \<Longrightarrow> trim_zeros (nat_hex n) = nat_hex n"
  using nat_hex_hd [of n] by (cases "nat_hex n") (simp_all add: trim_zeros_def)

section \<open>Residues and their texts\<close>

definition residue :: "int \<Rightarrow> bool" where
  "residue v \<longleftrightarrow> 0 < v \<and> v < mentalPrime"

definition mental_text :: "int \<Rightarrow> string" where
  "mental_text v = encodeMentalValue (Some v)"

lemma mental_text_hex: "0 < v \<Longrightarrow> mental_text v = nat_hex (nat v)"
  by (simp add: mental_text_def encodeMentalValue_def Text16_def trim_zeros_nat_hex)

lemma encode_nonpositive: "encodeMentalValue (Some 0) = []"
  by code_simp

lemma decode_text [simp]: "residue v \<Longrightarrow> decodeMentalValue (mental_text v) = Inr v"
  using nat_hex_chars [of "nat v"]
  by (simp add: residue_def mental_text_hex decodeMentalValue_def normalizeBigIntHex_def TrimSpace_hex
      SetString16_nat_hex Let_def Text16_def trim_zeros_nat_hex)

lemma decode_residue: "decodeMentalValue h = Inr v \<Longrightarrow> residue v"
proof -
  assume h: "decodeMentalValue h = Inr v"
  then obtain w where w: "0 \<le> w" "w < mentalPrime" "SetString16 (trim_zeros (Text16 w)) = Some v"
    by (auto simp: decodeMentalValue_def normalizeBigIntHex_def Let_def not_less not_le
        split: option.splits sum.splits if_splits)
  have "w \<noteq> 0"
  proof
    assume "w = 0"
    moreover have "SetString16 (trim_zeros (Text16 0)) = None" by code_simp
    ultimately show False using w(3) by simp
  qed
  then have "0 < w" using w(1) by simp
  then have "v = w" using w(3) by (simp add: Text16_def trim_zeros_nat_hex SetString16_nat_hex)
  then show "residue v" using \<open>0 < w\<close> w(2) by (simp add: residue_def)
qed

lemma mental_text_inj: "residue v \<Longrightarrow> residue w \<Longrightarrow> mental_text v = mental_text w \<longleftrightarrow> v = w"
  by (metis decode_text sum.inject(2))

section \<open>Locks\<close>

lemma residue_power: "residue v \<Longrightarrow> residue (v ^ n mod mentalPrime)"
proof -
  assume v: "residue v"
  have "coprime v mentalPrime" using v by (intro mental.residue_coprime) (simp add: residue_def)
  then have "\<not> mentalPrime dvd v ^ n"
    using coprime_common_divisor [of "v ^ n" mentalPrime mentalPrime] mentalPrime_pos(2) by auto
  then have "v ^ n mod mentalPrime \<noteq> 0" by (simp add: dvd_eq_mod_eq_0)
  moreover have "0 \<le> v ^ n mod mentalPrime" "v ^ n mod mentalPrime < mentalPrime" by simp_all
  ultimately show "residue (v ^ n mod mentalPrime)" unfolding residue_def by linarith
qed

lemma encrypt_text:
  assumes "residue v" "decodeMentalValue h = Inr e"
  shows "EncryptMentalValueHex (mental_text v) h = Inr (mental_text (v ^ nat e mod mentalPrime))"
    and "DecryptMentalValueHex (mental_text v) h = Inr (mental_text (v ^ nat e mod mentalPrime))"
  using assms by (simp_all add: EncryptMentalValueHex_def DecryptMentalValueHex_def Exp_def mental_text_def [symmetric])

text \<open>Locking a value under several exponents, and unlocking it.\<close>

fun lock_all :: "string list \<Rightarrow> string \<Rightarrow> string res" where
  "lock_all [] h = Inr h"
| "lock_all (e # es) h = (case EncryptMentalValueHex h e of Inl err \<Rightarrow> Inl err | Inr h' \<Rightarrow> lock_all es h')"

fun unlock_all :: "string list \<Rightarrow> string \<Rightarrow> string res" where
  "unlock_all [] h = Inr h"
| "unlock_all (d # ds) h = (case DecryptMentalValueHex h d of Inl err \<Rightarrow> Inl err | Inr h' \<Rightarrow> unlock_all ds h')"

text \<open>The exponent a text stands for.\<close>

definition exponent :: "string \<Rightarrow> int" where
  "exponent h = (case decodeMentalValue h of Inl e \<Rightarrow> 0 | Inr v \<Rightarrow> v)"

definition lock_ok :: "string \<Rightarrow> bool" where
  "lock_ok h \<longleftrightarrow> is_ok (decodeMentalValue h)"

lemma lock_ok_exponent: "lock_ok h \<Longrightarrow> decodeMentalValue h = Inr (exponent h)"
  by (auto simp: lock_ok_def is_ok_iff exponent_def)

lemma exponent_pos: "lock_ok h \<Longrightarrow> 0 < exponent h"
  using decode_residue lock_ok_exponent residue_def by blast

lemma locks_multiply:
  assumes "list_all lock_ok hs" "residue v"
  shows "lock_all hs (mental_text v) = Inr (mental_text (v ^ nat (prod_list (map exponent hs)) mod mentalPrime))
    \<and> unlock_all hs (mental_text v) = Inr (mental_text (v ^ nat (prod_list (map exponent hs)) mod mentalPrime))"
  using assms
proof (induction hs arbitrary: v)
  case Nil
  then show ?case by (simp add: residue_def)
next
  case (Cons h hs)
  let ?e = "exponent h" and ?w = "v ^ nat (exponent h) mod mentalPrime"
  have "(?w) ^ n mod mentalPrime = v ^ (nat ?e * n) mod mentalPrime" for n
    by (simp add: power_mod power_mult)
  moreover have "nat (?e * prod_list (map exponent hs)) = nat ?e * nat (prod_list (map exponent hs))"
    using exponent_pos [of h] Cons.prems by (simp add: nat_mult_distrib)
  ultimately show ?case
    using Cons.IH [of ?w] Cons.prems residue_power [of v "nat ?e"]
      encrypt_text [OF Cons.prems(2) lock_ok_exponent, of h]
    by simp
qed

section \<open>Key pairs\<close>

definition key_ok :: "MentalKeyPair \<Rightarrow> bool" where
  "key_ok k \<longleftrightarrow> lock_ok (kp_PublicExponentHex k) \<and> lock_ok (kp_PrivateExponentHex k)
     \<and> exponent (kp_PublicExponentHex k) * exponent (kp_PrivateExponentHex k) mod mentalTotient = 1"

lemma exponent_text: "residue v \<Longrightarrow> exponent (mental_text v) = v \<and> lock_ok (mental_text v)"
  by (simp add: exponent_def lock_ok_def)

lemma ModInverse_inverts:
  assumes "0 < g" "1 < n" "ModInverse g n = Some d"
  shows "0 < d \<and> d < n \<and> g * d mod n = 1"
proof -
  have coprime: "gcd g n = 1" and d: "d = fst (bezw (nat g) (nat n)) mod n"
    using assms(3) by (auto simp: ModInverse_def split: if_splits)
  have "int (gcd (nat g) (nat n)) = fst (bezw (nat g) (nat n)) * int (nat g) + snd (bezw (nat g) (nat n)) * int (nat n)"
    by (simp add: bezw_aux)
  moreover have "int (gcd (nat g) (nat n)) = 1"
    using coprime assms(1,2) by (metis gcd_int_def int_nat_eq nat_abs_int_diff abs_of_pos less_trans zero_less_one)
  ultimately have "fst (bezw (nat g) (nat n)) * g + snd (bezw (nat g) (nat n)) * n = 1"
    using assms(1,2) by simp
  then have "(fst (bezw (nat g) (nat n)) * g + snd (bezw (nat g) (nat n)) * n) mod n = 1 mod n" by simp
  then have inv: "g * d mod n = 1" using assms(2) by (simp add: d mod_mult_right_eq mult.commute)
  moreover have "0 \<le> d" "d < n" using assms(2) by (simp_all add: d)
  moreover have "d \<noteq> 0" using inv by auto
  ultimately show ?thesis by simp
qed

lemma totient_eq: "mentalTotient = 2 ^ 127 - 2" "random_limit = 2 ^ 127 - 5"
  by (simp_all add: mentalTotient_def random_limit_def mentalPrime_eq)

lemma generated_key_ok:
  assumes "\<And>x. Inr x \<in> set draws \<Longrightarrow> 0 \<le> x \<and> x < random_limit" "GenerateMentalKeyPair draws = Some (Inr k)"
  shows "key_ok k"
  using assms
proof (induction draws)
  case (Cons draw draws)
  show ?case
  proof (cases draw)
    case (Inr x)
    show ?thesis
    proof (cases "\<exists>d. gcd (x + 2) mentalTotient = 1 \<and> ModInverse (x + 2) mentalTotient = Some d")
      case False
      then show ?thesis using Cons Inr by (auto simp: Let_def split: if_splits option.splits)
    next
      case True
      then obtain d where gcd1: "gcd (x + 2) mentalTotient = 1" and d: "ModInverse (x + 2) mentalTotient = Some d"
        by (elim exE conjE)
      have x: "0 \<le> x" "x < random_limit" using Cons.prems(1) [of x] Inr by simp_all
      have "0 < d \<and> d < mentalTotient \<and> (x + 2) * d mod mentalTotient = 1"
        using ModInverse_inverts [OF _ _ d] x(1) by (simp add: totient_eq)
      moreover have "residue (x + 2)" using x by (simp add: residue_def mentalPrime_eq totient_eq)
      moreover have "residue d" using calculation by (simp add: residue_def mentalTotient_def)
      moreover have "k = \<lparr>kp_PrivateExponentHex = mental_text d, kp_PublicExponentHex = mental_text (x + 2)\<rparr>"
        using Cons.prems(2) Inr gcd1 d by (simp add: mental_text_def)
      ultimately show ?thesis by (simp add: key_ok_def exponent_text)
    qed
  qed (use Cons in simp)
qed simp

lemma generation_ends:
  assumes "list_all is_ok draws" "Inr x \<in> set draws" "coprime (x + 2) mentalTotient"
  shows "\<exists>k. GenerateMentalKeyPair draws = Some (Inr k)"
  using assms
proof (induction draws)
  case (Cons draw draws)
  then obtain y where y: "draw = Inr y" by (auto simp: is_ok_iff)
  show ?case
  proof (cases "gcd (y + 2) mentalTotient = 1")
    case True
    then show ?thesis using y by (simp add: ModInverse_def Let_def)
  next
    case False
    then have "y \<noteq> x" using Cons.prems(3) by (auto simp: coprime_iff_gcd_eq_1)
    then show ?thesis using Cons y False by simp
  qed
qed simp

text \<open>Locking under some keys and unlocking with their private exponents, in any order.\<close>

lemma exponents_cancel:
  "list_all key_ok ks \<Longrightarrow>
   (prod_list (map (\<lambda>k. exponent (kp_PublicExponentHex k)) ks)
      * prod_list (map (\<lambda>k. exponent (kp_PrivateExponentHex k)) ks)) mod mentalTotient = 1"
proof (induction ks)
  case (Cons k ks)
  let ?e = "exponent (kp_PublicExponentHex k)" and ?d = "exponent (kp_PrivateExponentHex k)"
  let ?E = "prod_list (map (\<lambda>k. exponent (kp_PublicExponentHex k)) ks)"
  let ?D = "prod_list (map (\<lambda>k. exponent (kp_PrivateExponentHex k)) ks)"
  have "(?e * ?E) * (?d * ?D) = (?e * ?d) * (?E * ?D)" by (simp add: algebra_simps)
  also have "\<dots> mod mentalTotient = (?e * ?d mod mentalTotient) * (?E * ?D mod mentalTotient) mod mentalTotient"
    by (simp add: mod_mult_eq)
  also have "?e * ?d mod mentalTotient = 1" using Cons.prems by (simp add: key_ok_def)
  also have "?E * ?D mod mentalTotient = 1" using Cons.IH Cons.prems by simp
  finally show ?case by (simp add: totient_eq comp_def)
qed (simp add: totient_eq)

lemma prod_exponents_nonneg: "list_all lock_ok hs \<Longrightarrow> 0 \<le> prod_list (map exponent hs)"
  by (induction hs) (auto dest: exponent_pos)

lemma unlock_recovers:
  assumes "list_all key_ok ks" "mset ds = mset (map kp_PrivateExponentHex ks)" "residue v"
    "lock_all (map kp_PublicExponentHex ks) (mental_text v) = Inr c"
  shows "unlock_all ds c = Inr (mental_text v)"
proof -
  let ?es = "map kp_PublicExponentHex ks"
  let ?E = "prod_list (map exponent ?es)" and ?D = "prod_list (map exponent ds)"
  have es: "list_all lock_ok ?es" using assms(1) by (auto simp: list_all_iff key_ok_def)
  have "set ds = set (map kp_PrivateExponentHex ks)" using assms(2) by (metis set_mset_mset)
  then have ds: "list_all lock_ok ds" using assms(1) by (auto simp: list_all_iff key_ok_def)
  have "?D = prod_list (map exponent (map kp_PrivateExponentHex ks))"
    using assms(2) by (metis mset_map prod_mset_prod_list)
  then have one: "?E * ?D mod (mentalPrime - 1) = 1"
    using exponents_cancel [OF assms(1)] by (simp add: mentalTotient_def comp_def)
  have nonneg: "0 \<le> ?E" "0 \<le> ?D" using es ds by (simp_all only: prod_exponents_nonneg)
  have c: "c = mental_text (v ^ nat ?E mod mentalPrime)" using locks_multiply [OF es assms(3)] assms(4) by simp
  have "unlock_all ds c = Inr (mental_text ((v ^ nat ?E mod mentalPrime) ^ nat ?D mod mentalPrime))"
    using locks_multiply [OF ds residue_power [OF assms(3)]] c by simp
  also have "(v ^ nat ?E mod mentalPrime) ^ nat ?D mod mentalPrime = v ^ nat (?E * ?D) mod mentalPrime"
    using nonneg by (simp add: power_mod power_mult nat_mult_distrib)
  also have "\<dots> = v"
    using mental.power_inverse [OF _ _ nonneg one] assms(3) by (simp add: residue_def)
  finally show ?thesis .
qed

end
