(* ===== verification/Mental_Deck.thy ===== *)
theory Mental_Deck
  imports Mental_Values
begin

text \<open>
  The deck of mental poker: cards and their values, the stages a replay of the reveals goes through,
  what unlocking a position gives, and what the commitments to the shuffles bind.
\<close>

section \<open>Cards and their values\<close>

definition card_text :: "nat \<Rightarrow> string" where
  "card_text j = mental_text (int j + 2)"

lemma card_values:
  "map (\<lambda>c. map_of mentalCardValueByCode (cd_Code c)) CreateDeck = map Some [2..53]"
  "map (map_of mentalCardCodeByValue) [2..53] = map (Some \<circ> cd_Code) CreateDeck"
  "map int64 [2..53] = [2..53]"
  "length CreateDeck = 52"
  by code_simp+

lemma card_value_nth:
  assumes "j < 52"
  shows "map_of mentalCardValueByCode (cd_Code (CreateDeck ! j)) = Some (int j + 2)"
    and "map_of mentalCardCodeByValue (int j + 2) = Some (cd_Code (CreateDeck ! j))"
    and "int64 (int j + 2) = int j + 2"
  using arg_cong [OF card_values(1), of "\<lambda>xs. xs ! j"] arg_cong [OF card_values(2), of "\<lambda>xs. xs ! j"]
    arg_cong [OF card_values(3), of "\<lambda>xs. xs ! j"] assms
  by (simp_all add: card_values(4) nth_upto add.commute del: upto_rec_numeral)

lemma card_residue [simp]: "j < 52 \<Longrightarrow> residue (int j + 2)"
  by (simp add: residue_def mentalPrime_eq)

lemma ordered_deck: "orderedMentalDeck = map card_text [0..<52]"
proof (rule nth_equalityI)
  show "length orderedMentalDeck = length (map card_text [0..<52])"
    by (simp add: orderedMentalDeck_def card_values(4))
  fix j assume "j < length orderedMentalDeck"
  then have "j < 52" by (simp add: orderedMentalDeck_def card_values(4))
  then show "orderedMentalDeck ! j = map card_text [0..<52] ! j"
    by (simp add: orderedMentalDeck_def card_values(4) mget_def card_value_nth card_text_def mental_text_def)
qed

lemma decode_card: "j < 52 \<Longrightarrow> DecodeMentalCardHex (card_text j) = Inr (cd_Code (CreateDeck ! j))"
  by (simp add: DecodeMentalCardHex_def card_text_def card_value_nth)

lemma encode_card: "j < 52 \<Longrightarrow> EncodeMentalCard (cd_Code (CreateDeck ! j)) = Inr (card_text j)"
  by (simp add: EncodeMentalCard_def card_value_nth card_text_def mental_text_def)

lemma valid_code_index: "valid_code code \<Longrightarrow> \<exists>j < 52. code = cd_Code (CreateDeck ! j)"
  by (auto simp: valid_code_def in_set_conv_nth card_values(4))

section \<open>Stages of a replay\<close>

definition seed_ok :: "string \<Rightarrow> bool" where
  "seed_ok seed \<longleftrightarrow> TrimSpace seed \<noteq> [] \<and> is_ok (DecodeString (TrimSpace seed))"

definition reveal_ok :: "MentalDeckReveal \<Rightarrow> bool" where
  "reveal_ok r \<longleftrightarrow> lock_ok (mr_LockPublicExponentHex r) \<and> seed_ok (mr_ShuffleSeedHex r)"

text \<open>The permutation a seed gives, and the order of the cards after several of them.\<close>

definition seed_permutation :: "string \<Rightarrow> nat \<Rightarrow> nat list" where
  "seed_permutation seed n = shuffle_down (random_index (TrimSpace seed)) (n - 1) [0..<n]"

fun deal_order :: "nat list \<Rightarrow> string list \<Rightarrow> nat list" where
  "deal_order order [] = order"
| "deal_order order (seed # seeds) =
     deal_order (map (\<lambda>j. order ! j) (seed_permutation seed (length order))) seeds"

definition locked :: "int \<Rightarrow> nat \<Rightarrow> string" where
  "locked e j = mental_text ((int j + 2) ^ nat e mod mentalPrime)"

lemma permutation_result:
  "mentalDeckPermutation seed n =
     (if seed_ok seed then Inr (seed_permutation seed n)
      else if TrimSpace seed = [] then Inl (Err ''missing shuffle seed'')
      else Inl (Err ''invalid shuffle seed: %w''))"
  by (auto simp: mentalDeckPermutation_def seed_ok_def seed_permutation_def Let_def is_ok_iff split: sum.splits)

lemma seed_permutation_permutes: "mset (seed_permutation seed n) = mset [0..<n]"
  using seeded.permutation_of_indices [of "TrimSpace seed" n]
  by (simp add: seeded.permutation_def seed_permutation_def)

lemma seed_permutation_props [simp]:
  "length (seed_permutation seed n) = n" "set (seed_permutation seed n) = {0..<n}"
  using mset_eq_length [OF seed_permutation_permutes] mset_eq_setD [OF seed_permutation_permutes] by simp_all

lemma reorder_permutes:
  assumes "mset order = mset [0..<n]"
  shows "mset (map (\<lambda>j. order ! j) (seed_permutation seed (length order))) = mset [0..<n]"
proof -
  have "mset (map ((!) order) (seed_permutation seed (length order))) = mset (map ((!) order) [0..<length order])"
    by (simp only: mset_map seed_permutation_permutes)
  then show ?thesis using assms by (simp add: map_nth)
qed

lemma deal_order_permutes: "mset order = mset [0..<n] \<Longrightarrow> mset (deal_order order seeds) = mset [0..<n]"
proof (induction seeds arbitrary: order)
  case (Cons seed seeds)
  from Cons.IH [OF reorder_permutes [OF Cons.prems]] show ?case by simp
qed simp

lemma encrypt_all_stage:
  assumes "list_all (\<lambda>j. j < 52) order" "0 \<le> e" "lock_ok h"
  shows "encrypt_all h (map (locked e) order) = Inr (map (locked (e * exponent h)) order)"
  using assms(1)
proof (induction order)
  case (Cons j order)
  let ?v = "(int j + 2) ^ nat e mod mentalPrime"
  have "residue ?v" using Cons.prems by (intro residue_power card_residue) simp
  then have "EncryptMentalValueHex (locked e j) h = Inr (mental_text (?v ^ nat (exponent h) mod mentalPrime))"
    unfolding locked_def by (rule encrypt_text(1) [OF _ lock_ok_exponent [OF assms(3)]])
  also have "?v ^ nat (exponent h) mod mentalPrime = (int j + 2) ^ nat (e * exponent h) mod mentalPrime"
    using assms(2) by (simp add: power_mod power_mult nat_mult_distrib)
  finally show ?case using Cons by (simp add: locked_def)
qed simp

lemma decode_errors: "decodeMentalValue h = Inl x \<Longrightarrow> \<exists>e. x = Err e"
  by (auto simp: decodeMentalValue_def normalizeBigIntHex_def Let_def split: sum.splits option.splits if_splits)

lemma encrypt_errors: "encrypt_all h xs = Inl x \<Longrightarrow> \<exists>e. x = Err e"
  by (induction xs arbitrary: x) (auto simp: EncryptMentalValueHex_def dest: decode_errors split: sum.splits)

lemma shuffle_errors: "ApplyMentalShuffle stage h seed = Inl x \<Longrightarrow> \<exists>e. x = Err e"
  by (auto simp: ApplyMentalShuffle_def permutation_result dest: encrypt_errors split: sum.splits if_splits)

lemma shuffle_stage:
  assumes "mset order = mset [0..<52]" "0 \<le> e" "lock_ok h" "seed_ok seed"
  shows "ApplyMentalShuffle (map (locked e) order) h seed
    = Inr (map (locked (e * exponent h)) (map (\<lambda>j. order ! j) (seed_permutation seed (length order))))"
proof -
  have "set order = {0..<52}" using mset_eq_setD [OF assms(1)] by simp
  then have "list_all (\<lambda>j. j < 52) order" by (simp add: list_all_iff)
  from encrypt_all_stage [OF this assms(2,3)] show ?thesis
    using assms(4) by (simp add: ApplyMentalShuffle_def permutation_result comp_def)
qed

lemma shuffle_rejects:
  assumes "stage \<noteq> []" "\<not> (lock_ok h \<and> seed_ok seed)"
  shows "\<not> is_ok (ApplyMentalShuffle stage h seed)"
proof (cases "lock_ok h")
  case True
  then show ?thesis using assms(2) by (auto simp: ApplyMentalShuffle_def permutation_result is_ok_iff split: sum.splits)
next
  case False
  have "\<not> is_ok (encrypt_all h stage)"
    using assms(1) False
    by (cases stage) (auto simp: EncryptMentalValueHex_def lock_ok_def is_ok_iff split: sum.splits)
  then show ?thesis by (auto simp: ApplyMentalShuffle_def is_ok_iff split: sum.splits)
qed

lemma stage_root_ok: "\<exists>root. MentalDeckStageRoot stage = Inr root"
proof -
  have "distinct [''stage'', ''type'']" by simp
  then have "StableStringify (stage_payload stage) = Inr (json_text (canonicalizeValue (stage_payload stage)))"
    unfolding stage_payload_def by (intro numbers_any_map) (simp_all add: list_all_iff)
  then show ?thesis by (simp add: MentalDeckStageRoot_def HashStructuredDataHex_def)
qed

text \<open>A stage holds the texts of 52 residues.\<close>

definition stage_ok :: "string list \<Rightarrow> bool" where
  "stage_ok stage \<longleftrightarrow> length stage = 52 \<and> list_all (\<lambda>h. \<exists>v. residue v \<and> h = mental_text v) stage"

lemma locked_stage_ok: "mset order = mset [0..<52] \<Longrightarrow> stage_ok (map (locked e) order)"
proof -
  assume m: "mset order = mset [0..<52]"
  have "set order = {0..<52}" using mset_eq_setD [OF m] by simp
  moreover have "\<exists>v. residue v \<and> locked e j = mental_text v" if "j < 52" for j
    unfolding locked_def using residue_power [OF card_residue [OF that]] by blast
  ultimately show ?thesis using mset_eq_length [OF m] by (auto simp: stage_ok_def list_all_iff)
qed

lemma replay_stages_ok:
  assumes "list_all reveal_ok rs" "md_FinalDeck replay = map (locked e) order" "0 \<le> e"
    "mset order = mset [0..<52]" "list_all stage_ok (map snd (md_RevealStagesBySeat replay))"
  shows "\<exists>replay'. replay_stages rs replay = Inr replay'
    \<and> md_FinalDeck replay' = map (locked (e * prod_list (map (exponent \<circ> mr_LockPublicExponentHex) rs)))
        (deal_order order (map mr_ShuffleSeedHex rs))
    \<and> length (md_RevealStageRoots replay') = length (md_RevealStageRoots replay) + length rs
    \<and> list_all stage_ok (map snd (md_RevealStagesBySeat replay'))"
  using assms
proof (induction rs arbitrary: replay e order)
  case (Cons r rs)
  let ?h = "mr_LockPublicExponentHex r"
  let ?order = "map (\<lambda>j. order ! j) (seed_permutation (mr_ShuffleSeedHex r) (length order))"
  let ?e = "e * exponent ?h"
  have r: "lock_ok ?h" "seed_ok (mr_ShuffleSeedHex r)" using Cons.prems(1) by (simp_all add: reveal_ok_def)
  have stage: "ApplyMentalShuffle (md_FinalDeck replay) ?h (mr_ShuffleSeedHex r) = Inr (map (locked ?e) ?order)"
    unfolding Cons.prems(2) by (rule shuffle_stage [OF Cons.prems(4,3) r])
  obtain root where root: "MentalDeckStageRoot (map (locked ?e) ?order) = Inr root" using stage_root_ok by blast
  have order: "mset ?order = mset [0..<52]" by (rule reorder_permutes [OF Cons.prems(4)])
  have e: "0 \<le> ?e" using Cons.prems(3) exponent_pos [OF r(1)] by simp
  let ?replay = "\<lparr>md_FinalDeck = map (locked ?e) ?order, md_RevealStageRoots = md_RevealStageRoots replay @ [root],
     md_RevealStageRootBySeat = AList.update (mr_SeatIndex r) root (md_RevealStageRootBySeat replay),
     md_RevealStagesBySeat = AList.update (mr_SeatIndex r) (map (locked ?e) ?order) (md_RevealStagesBySeat replay)\<rparr>"
  have "set (map snd (AList.update k v m)) \<subseteq> insert v (set (map snd m))" for k v and m :: "(int, string list) gomap"
    by (induction m) auto
  then have stages: "list_all stage_ok (map snd (md_RevealStagesBySeat ?replay))"
    using Cons.prems(5) locked_stage_ok [OF order] unfolding list_all_iff by fastforce
  have "replay_stages (r # rs) replay = replay_stages rs ?replay" using stage root by simp
  then show ?case
    using Cons.IH [of ?replay ?e ?order] Cons.prems(1) e order stages by (simp add: mult.assoc)
qed simp

lemma replay_stages_bad:
  assumes "\<not> list_all reveal_ok rs" "length (md_FinalDeck replay) = 52"
  shows "\<exists>e. replay_stages rs replay = Inl (Err e)"
  using assms
proof (induction rs arbitrary: replay)
  case (Cons r rs)
  let ?next = "ApplyMentalShuffle (md_FinalDeck replay) (mr_LockPublicExponentHex r) (mr_ShuffleSeedHex r)"
  have stage: "md_FinalDeck replay \<noteq> []" using Cons.prems(2) by auto
  show ?case
  proof (cases ?next)
    case (Inl x)
    then show ?thesis using shuffle_errors [OF Inl] by auto
  next
    case (Inr s)
    then have "reveal_ok r" using shuffle_rejects [OF stage] unfolding reveal_ok_def by (metis is_ok_simps(2))
    obtain root where root: "MentalDeckStageRoot s = Inr root" using stage_root_ok by blast
    have "length (encs :: string list) = length xs" if "encrypt_all h xs = Inr encs" for h xs encs
      using that by (induction xs arbitrary: encs) (auto split: sum.splits)
    then have "length s = 52"
      using Inr Cons.prems(2) by (auto simp: ApplyMentalShuffle_def permutation_result split: sum.splits if_splits)
    then show ?thesis using Inr root Cons \<open>reveal_ok r\<close> by simp
  qed
qed simp

section \<open>Replaying the reveals\<close>

abbreviation by_seat :: "MentalDeckReveal list \<Rightarrow> MentalDeckReveal list" where
  "by_seat reveals \<equiv> slice_stable (\<lambda>left right. mr_SeatIndex left < mr_SeatIndex right) reveals"

lemma ordered_deck_locked: "orderedMentalDeck = map (locked 1) [0..<52]"
  unfolding ordered_deck
  by (rule map_cong [OF refl]) (simp add: locked_def card_text_def mentalPrime_eq)

definition final_order :: "MentalDeckReveal list \<Rightarrow> nat list" where
  "final_order reveals = deal_order [0..<52] (map mr_ShuffleSeedHex (by_seat reveals))"

lemma replay_ok:
  assumes "list_all reveal_ok reveals"
  obtains replay where "ReplayMentalDeck reveals = Inr replay"
    "md_FinalDeck replay = map (locked (prod_list (map (exponent \<circ> mr_LockPublicExponentHex) (by_seat reveals))))
       (final_order reveals)"
    "length (md_RevealStageRoots replay) = length reveals"
    "list_all stage_ok (map snd (md_RevealStagesBySeat replay))"
proof -
  let ?start = "\<lparr>md_FinalDeck = orderedMentalDeck, md_RevealStageRoots = [], md_RevealStageRootBySeat = [],
     md_RevealStagesBySeat = []\<rparr>"
  have "list_all reveal_ok (by_seat reveals)" using assms by (simp add: list_all_iff)
  from replay_stages_ok [OF this, of ?start 1 "[0..<52]"]
  obtain replay where "replay_stages (by_seat reveals) ?start = Inr replay"
    "md_FinalDeck replay = map (locked (prod_list (map (exponent \<circ> mr_LockPublicExponentHex) (by_seat reveals))))
       (final_order reveals)"
    "length (md_RevealStageRoots replay) = length reveals"
    "list_all stage_ok (map snd (md_RevealStagesBySeat replay))"
    unfolding final_order_def by (auto simp: ordered_deck_locked)
  then show ?thesis using that by (simp add: ReplayMentalDeck_def)
qed

lemma replay_bad: "\<not> list_all reveal_ok reveals \<Longrightarrow> \<exists>e. ReplayMentalDeck reveals = Inl (Err e)"
proof -
  assume "\<not> list_all reveal_ok reveals"
  then have "\<not> list_all reveal_ok (by_seat reveals)" by (simp add: list_all_iff)
  from replay_stages_bad [OF this] show ?thesis
    by (simp add: ReplayMentalDeck_def ordered_deck)
qed

lemma final_order_permutes: "mset (final_order reveals) = mset [0..<52]"
  unfolding final_order_def by (rule deal_order_permutes) (rule refl)

lemma final_order_props: "length (final_order reveals) = 52" "set (final_order reveals) = {0..<52}"
  using mset_eq_length [OF final_order_permutes] mset_eq_setD [OF final_order_permutes] by simp_all

section \<open>The collapse of the deck under an exponent that is not invertible\<close>

lemma totient_power: "residue v \<Longrightarrow> v ^ nat mentalTotient mod mentalPrime = 1"
proof -
  assume "residue v"
  then have "\<not> mentalPrime dvd v" by (auto simp: residue_def dest: zdvd_imp_le)
  then show ?thesis
    using mental.fermat [of v] mentalPrime_pos(2)
    by (metis mentalTotient_def mod_eq_dvd_iff mod_pos_pos_trivial zero_le_one)
qed

lemma mental_text_one: "mental_text 1 = ''1''"
  by code_simp

text \<open>The exponent \<open>mentalPrime - 1\<close> is in range, so a reveal may carry it; every card is then locked to
  the value one and no private exponent brings it back.\<close>

lemma collapsing_exponent:
  assumes "seed_ok seed"
  shows "\<exists>replay. ReplayMentalDeck [\<lparr>mr_PlayerID = player, mr_SeatIndex = seat, mr_ShuffleSeedHex = seed,
      mr_LockPublicExponentHex = mental_text mentalTotient\<rparr>] = Inr replay
    \<and> md_FinalDeck replay = replicate 52 ''1''"
proof -
  have t: "residue mentalTotient" by (simp add: residue_def totient_eq mentalPrime_eq)
  let ?r = "\<lparr>mr_PlayerID = player, mr_SeatIndex = seat, mr_ShuffleSeedHex = seed,
      mr_LockPublicExponentHex = mental_text mentalTotient\<rparr>"
  have "list_all reveal_ok [?r]" using assms exponent_text [OF t] by (simp add: reveal_ok_def)
  then obtain replay where replay: "ReplayMentalDeck [?r] = Inr replay"
    "md_FinalDeck replay = map (locked (prod_list (map (exponent \<circ> mr_LockPublicExponentHex) (by_seat [?r]))))
       (final_order [?r])"
    by (rule replay_ok)
  have one: "locked mentalTotient j = ''1''" if "j < 52" for j
    using totient_power [OF card_residue [OF that]] mental_text_one by (simp add: locked_def)
  have "md_FinalDeck replay = map (locked mentalTotient) (final_order [?r])"
    using replay(2) exponent_text [OF t] by simp
  also have "\<dots> = map (\<lambda>_. ''1'') (final_order [?r])"
    using final_order_props [of "[?r]"] one by (intro map_cong [OF refl]) auto
  also have "\<dots> = replicate 52 ''1''" by (simp add: map_replicate_const final_order_props)
  finally show ?thesis using replay(1) by blast
qed

text \<open>\<open>DecodeMentalCardHex\<close> looks at the low 64 bits only.\<close>

lemma truncated_value_decodes:
  "DecodeMentalCardHex (mental_text (2 ^ 64 + 2)) = Inr ''2c''"
proof -
  have "residue (2 ^ 64 + 2)" by (simp add: residue_def mentalPrime_eq)
  moreover have "map_of mentalCardCodeByValue (int64 (2 ^ 64 + 2)) = Some ''2c''" by code_simp
  ultimately show ?thesis by (simp add: DecodeMentalCardHex_def)
qed

end
