(* ===== verification/Mental_Properties.thy ===== *)
theory Mental_Properties
  imports Mental_Deck
begin

text \<open>
  The properties of the mental deck: key generation, commutativity of the locks, the outcome of a
  replay, what the published reveals say about the dealt cards, and the binding of the commitments.
\<close>

section \<open>Keys and locks\<close>

text \<open>A key pair that \<open>GenerateMentalKeyPair\<close> can return on draws of \<open>rand.Int\<close> in their range.\<close>

definition draws_in_range :: "int res list \<Rightarrow> bool" where
  "draws_in_range draws \<longleftrightarrow> list_all (\<lambda>d. case d of Inl e \<Rightarrow> True | Inr x \<Rightarrow> 0 \<le> x \<and> x < random_limit) draws"

definition generated :: "MentalKeyPair \<Rightarrow> bool" where
  "generated k \<longleftrightarrow> (\<exists>draws. draws_in_range draws \<and> GenerateMentalKeyPair draws = Some (Inr k))"

lemma draws_in_rangeD: "draws_in_range draws \<Longrightarrow> Inr x \<in> set draws \<Longrightarrow> 0 \<le> x \<and> x < random_limit"
  by (auto simp: draws_in_range_def list_all_iff)

lemma generated_ok: "generated k \<Longrightarrow> key_ok k"
  unfolding generated_def using generated_key_ok draws_in_rangeD by blast

lemma all_generated_ok: "list_all generated ks \<Longrightarrow> list_all key_ok ks"
  by (auto simp: list_all_iff generated_ok)

text \<open>Key generation ends and its keys undo each other. The modulus of the locks is a prime. As soon
  as the random source has delivered a draw that is coprime to the totient, and no error before,
  \<open>GenerateMentalKeyPair\<close> returns; the two exponents it returns decode to numbers between 1 and the
  modulus whose product is 1 modulo the totient, so that raising any value of the field to the one
  power and then to the other gives the value back.\<close>

theorem generated_keys_invert:
  assumes "draws_in_range draws" and "list_all is_ok draws" and "Inr x \<in> set draws"
    and "coprime (x + 2) mentalTotient"
  shows "{d. 0 < d \<and> d dvd mentalPrime} = {1, mentalPrime}
    \<and> (\<exists>k e d. GenerateMentalKeyPair draws = Some (Inr k)
        \<and> decodeMentalValue (kp_PublicExponentHex k) = Inr e \<and> decodeMentalValue (kp_PrivateExponentHex k) = Inr d
        \<and> 0 < e \<and> e < mentalPrime \<and> 0 < d \<and> d < mentalPrime \<and> e * d mod mentalTotient = 1
        \<and> (\<forall>v \<in> {0..<mentalPrime}. Exp (Exp v e mentalPrime) d mentalPrime = v))"
proof
  show "{d. 0 < d \<and> d dvd mentalPrime} = {1, mentalPrime}" using mental.no_divisor by auto
  obtain k where k: "GenerateMentalKeyPair draws = Some (Inr k)" using generation_ends assms(2,3,4) by blast
  let ?e = "exponent (kp_PublicExponentHex k)" and ?d = "exponent (kp_PrivateExponentHex k)"
  have "key_ok k" using assms(1) k by (intro generated_ok) (auto simp: generated_def)
  then have e: "decodeMentalValue (kp_PublicExponentHex k) = Inr ?e" and d: "decodeMentalValue (kp_PrivateExponentHex k) = Inr ?d"
    and ed: "?e * ?d mod mentalTotient = 1"
    by (simp_all add: key_ok_def lock_ok_exponent)
  have re: "residue ?e" "residue ?d" using decode_residue e d by blast+
  have "Exp (Exp v ?e mentalPrime) ?d mentalPrime = v" if "v \<in> {0..<mentalPrime}" for v
  proof -
    have "Exp (Exp v ?e mentalPrime) ?d mentalPrime = v ^ nat (?e * ?d) mod mentalPrime"
      using re by (simp add: Exp_def power_mod power_mult nat_mult_distrib residue_def)
    also have "\<dots> = v"
      using mental.power_inverse [of v ?e ?d] that ed re by (simp add: residue_def mentalTotient_def)
    finally show ?thesis .
  qed
  then show "\<exists>k e d. GenerateMentalKeyPair draws = Some (Inr k)
        \<and> decodeMentalValue (kp_PublicExponentHex k) = Inr e \<and> decodeMentalValue (kp_PrivateExponentHex k) = Inr d
        \<and> 0 < e \<and> e < mentalPrime \<and> 0 < d \<and> d < mentalPrime \<and> e * d mod mentalTotient = 1
        \<and> (\<forall>v \<in> {0..<mentalPrime}. Exp (Exp v e mentalPrime) d mentalPrime = v)"
    using k e d ed re unfolding residue_def by blast
qed

definition demo_draws :: "int \<Rightarrow> int res list" where
  "demo_draws x = [Inr 0, Inr x]"

lemma demo_draws_ok:
  "draws_in_range (demo_draws 3)" "draws_in_range (demo_draws 9)" "list_all is_ok (demo_draws x)"
  "coprime (3 + 2) mentalTotient" "coprime (9 + 2) mentalTotient"
proof -
  show "draws_in_range (demo_draws 3)" "draws_in_range (demo_draws 9)"
    by (simp_all add: draws_in_range_def demo_draws_def totient_eq)
  show "list_all is_ok (demo_draws x)" by (simp add: demo_draws_def)
  have "gcd (3 + 2) mentalTotient = 1" "gcd (9 + 2) mentalTotient = 1" by code_simp+
  then show "coprime (3 + 2) mentalTotient" "coprime (9 + 2) mentalTotient"
    by (simp_all add: coprime_iff_gcd_eq_1)
qed

theorem generated_keys_invert_witness:
  "\<exists>k e d. GenerateMentalKeyPair (demo_draws 3) = Some (Inr k)
     \<and> decodeMentalValue (kp_PublicExponentHex k) = Inr e \<and> decodeMentalValue (kp_PrivateExponentHex k) = Inr d
     \<and> e * d mod mentalTotient = 1"
proof -
  have "Inr 3 \<in> set (demo_draws 3)" by (simp add: demo_draws_def)
  from generated_keys_invert [OF demo_draws_ok(1,3) this demo_draws_ok(4)] show ?thesis by blast
qed

lemma demo_keys:
  obtains k k' where "GenerateMentalKeyPair (demo_draws 3) = Some (Inr k)"
    "GenerateMentalKeyPair (demo_draws 9) = Some (Inr k')" "generated k" "generated k'"
proof -
  have "Inr 3 \<in> set (demo_draws 3)" "Inr 9 \<in> set (demo_draws 9)" by (simp_all add: demo_draws_def)
  then obtain k k' where "GenerateMentalKeyPair (demo_draws 3) = Some (Inr k)"
    "GenerateMentalKeyPair (demo_draws 9) = Some (Inr k')"
    using generation_ends demo_draws_ok by blast
  then show ?thesis using that demo_draws_ok(1,2) unfolding generated_def by blast
qed

text \<open>The locks commute. A card encoded, locked under the public exponents of any number of generated
  key pairs and then unlocked with all the private exponents, in whatever order the seats contribute
  them, decodes to the same card; no step on the way fails.\<close>

theorem unlocking_in_any_order_recovers_card:
  assumes "list_all generated pairs" and "mset ds = mset (map kp_PrivateExponentHex pairs)" and "valid_code code"
  shows "\<exists>h c h'. EncodeMentalCard code = Inr h \<and> lock_all (map kp_PublicExponentHex pairs) h = Inr c
    \<and> unlock_all ds c = Inr h' \<and> DecodeMentalCardHex h' = Inr code"
proof -
  obtain j where j: "j < 52" "code = cd_Code (CreateDeck ! j)" using valid_code_index [OF assms(3)] by blast
  have ok: "list_all key_ok pairs" by (rule all_generated_ok [OF assms(1)])
  then have "list_all lock_ok (map kp_PublicExponentHex pairs)" by (auto simp: list_all_iff key_ok_def)
  from locks_multiply [OF this card_residue [OF j(1)]]
  obtain c where c: "lock_all (map kp_PublicExponentHex pairs) (card_text j) = Inr c"
    unfolding card_text_def by blast
  then have "unlock_all ds c = Inr (card_text j)"
    using unlock_recovers [OF ok assms(2) card_residue [OF j(1)]] by (simp add: card_text_def)
  then show ?thesis using c encode_card [OF j(1)] decode_card [OF j(1)] j(2) by blast
qed

theorem unlocking_in_any_order_recovers_card_witness:
  "\<exists>k k' h c h'. GenerateMentalKeyPair (demo_draws 3) = Some (Inr k)
    \<and> GenerateMentalKeyPair (demo_draws 9) = Some (Inr k')
    \<and> EncodeMentalCard ''As'' = Inr h \<and> lock_all [kp_PublicExponentHex k, kp_PublicExponentHex k'] h = Inr c
    \<and> unlock_all [kp_PrivateExponentHex k, kp_PrivateExponentHex k'] c = Inr h' \<and> DecodeMentalCardHex h' = Inr ''As''"
proof -
  obtain k k' where k: "GenerateMentalKeyPair (demo_draws 3) = Some (Inr k)"
    "GenerateMentalKeyPair (demo_draws 9) = Some (Inr k')" "generated k" "generated k'"
    by (rule demo_keys)
  have "valid_code ''As''" by code_simp
  from unlocking_in_any_order_recovers_card [OF _ _ this, of "[k, k']" "[kp_PrivateExponentHex k, kp_PrivateExponentHex k']"]
  show ?thesis using k by auto
qed

section \<open>Replays\<close>

text \<open>C38. A replay succeeds exactly on well-formed reveals and keeps the type of the deck. \<open>ReplayMentalDeck\<close>
  returns an ordinary error unless every reveal carries an exponent that decodes and a seed that is
  hexadecimal; otherwise it records one root per reveal, and the final deck and every recorded stage
  hold 52 texts, each the canonical text of a number between 1 and the modulus.\<close>

theorem replay_is_well_formed:
  "case ReplayMentalDeck reveals of
     Inl e \<Rightarrow> \<not> list_all reveal_ok reveals \<and> (\<exists>s. e = Err s)
   | Inr replay \<Rightarrow> list_all reveal_ok reveals \<and> length (md_RevealStageRoots replay) = length reveals
       \<and> stage_ok (md_FinalDeck replay) \<and> list_all stage_ok (map snd (md_RevealStagesBySeat replay))"
proof (cases "list_all reveal_ok reveals")
  case True
  then show ?thesis by (rule replay_ok) (simp add: True locked_stage_ok final_order_permutes)
next
  case False
  then show ?thesis using replay_bad by fastforce
qed

text \<open>The card at a position, computed from the shuffle seeds of the reveals alone.\<close>

definition public_card :: "MentalDeckReveal list \<Rightarrow> nat \<Rightarrow> CardCode" where
  "public_card reveals i = cd_Code (CreateDeck ! (final_order reveals ! i))"

text \<open>C37. The reveals determine every dealt card. When the seats reveal the public exponents of their
  generated keys and hexadecimal seeds, the replay succeeds, the 52 positions hold a permutation of
  the deck, and unlocking any position with all private exponents gives the card that
  \<open>public_card\<close> computes from the seeds of the reveals alone, without any private exponent.\<close>

theorem reveals_disclose_every_card:
  assumes "list_all generated pairs"
    and "map mr_LockPublicExponentHex (by_seat reveals) = map kp_PublicExponentHex pairs"
    and "list_all (\<lambda>r. seed_ok (mr_ShuffleSeedHex r)) reveals"
    and "mset ds = mset (map kp_PrivateExponentHex pairs)" and "i < 52"
  shows "mset (map (public_card reveals) [0..<52]) = mset (map cd_Code CreateDeck)
    \<and> (\<exists>replay h. ReplayMentalDeck reveals = Inr replay \<and> unlock_all ds (md_FinalDeck replay ! i) = Inr h
        \<and> DecodeMentalCardHex h = Inr (public_card reveals i))"
proof
  have order: "map (\<lambda>i. final_order reveals ! i) [0..<52] = final_order reveals"
    using map_nth [of "final_order reveals"] by (simp add: final_order_props)
  have "map (public_card reveals) [0..<52] = map (\<lambda>j. cd_Code (CreateDeck ! j)) (map (\<lambda>i. final_order reveals ! i) [0..<52])"
    by (simp add: public_card_def)
  then have "mset (map (public_card reveals) [0..<52]) = mset (map (\<lambda>j. cd_Code (CreateDeck ! j)) [0..<52])"
    unfolding order by (simp only: mset_map final_order_permutes)
  also have "map (\<lambda>j. cd_Code (CreateDeck ! j)) [0..<52] = map cd_Code CreateDeck"
    by (rule nth_equalityI) (simp_all add: card_values(4))
  finally show "mset (map (public_card reveals) [0..<52]) = mset (map cd_Code CreateDeck)" .
  have ok: "list_all key_ok pairs" by (rule all_generated_ok [OF assms(1)])
  have locks: "list_all lock_ok (map kp_PublicExponentHex pairs)" using ok by (auto simp: list_all_iff key_ok_def)
  then have "list_all (\<lambda>r. lock_ok (mr_LockPublicExponentHex r)) (by_seat reveals)"
    using list.pred_map [of lock_ok mr_LockPublicExponentHex "by_seat reveals"] assms(2) by (simp add: comp_def)
  then have "list_all reveal_ok reveals" using assms(3) by (simp add: list_all_iff reveal_ok_def)
  then obtain replay where replay: "ReplayMentalDeck reveals = Inr replay"
    "md_FinalDeck replay = map (locked (prod_list (map (exponent \<circ> mr_LockPublicExponentHex) (by_seat reveals))))
       (final_order reveals)"
    by (rule replay_ok)
  let ?j = "final_order reveals ! i"
  have "?j \<in> set (final_order reveals)" using assms(5) by (intro nth_mem) (simp add: final_order_props)
  then have j: "?j < 52" by (simp add: final_order_props)
  have "map (exponent \<circ> mr_LockPublicExponentHex) (by_seat reveals) = map exponent (map kp_PublicExponentHex pairs)"
    using assms(2) by (metis map_map)
  then have "md_FinalDeck replay ! i = locked (prod_list (map exponent (map kp_PublicExponentHex pairs))) ?j"
    using replay(2) assms(5) by (simp add: final_order_props)
  then have "lock_all (map kp_PublicExponentHex pairs) (mental_text (int ?j + 2)) = Inr (md_FinalDeck replay ! i)"
    using locks_multiply [OF locks card_residue [OF j]] by (simp add: locked_def)
  from unlock_recovers [OF ok assms(4) card_residue [OF j] this]
  have "unlock_all ds (md_FinalDeck replay ! i) = Inr (card_text ?j)" by (simp add: card_text_def)
  then show "\<exists>replay h. ReplayMentalDeck reveals = Inr replay \<and> unlock_all ds (md_FinalDeck replay ! i) = Inr h
        \<and> DecodeMentalCardHex h = Inr (public_card reveals i)"
    using replay(1) decode_card [OF j] by (auto simp: public_card_def)
qed

definition demo_reveal :: "int \<Rightarrow> string \<Rightarrow> MentalKeyPair \<Rightarrow> MentalDeckReveal" where
  "demo_reveal seat seed k = \<lparr>mr_PlayerID = ''p'', mr_SeatIndex = seat, mr_ShuffleSeedHex = seed,
     mr_LockPublicExponentHex = kp_PublicExponentHex k\<rparr>"

theorem reveals_disclose_every_card_witness:
  "\<exists>k k' replay h. ReplayMentalDeck [demo_reveal 1 ''0b'' k, demo_reveal 0 ''0a'' k'] = Inr replay
    \<and> unlock_all [kp_PrivateExponentHex k, kp_PrivateExponentHex k'] (md_FinalDeck replay ! 7) = Inr h
    \<and> DecodeMentalCardHex h = Inr (public_card [demo_reveal 1 ''0b'' k, demo_reveal 0 ''0a'' k'] 7)"
proof -
  obtain k k' where k: "generated k" "generated k'" by (rule demo_keys)
  have seeds: "seed_ok ''0a''" "seed_ok ''0b''" by code_simp+
  let ?reveals = "[demo_reveal 1 ''0b'' k, demo_reveal 0 ''0a'' k']"
  have "list_all generated [k', k]" using k by simp
  moreover have "map mr_LockPublicExponentHex (by_seat ?reveals) = map kp_PublicExponentHex [k', k]"
    by (simp add: demo_reveal_def)
  moreover have "list_all (\<lambda>r. seed_ok (mr_ShuffleSeedHex r)) ?reveals"
    using seeds by (simp add: demo_reveal_def)
  moreover have "mset [kp_PrivateExponentHex k, kp_PrivateExponentHex k'] = mset (map kp_PrivateExponentHex [k', k])" by simp
  ultimately show ?thesis using reveals_disclose_every_card [of "[k', k]" ?reveals _ 7] by fastforce
qed

section \<open>Commitments\<close>

type_synonym fairness = "string \<times> int \<times> int \<times> string \<times> string \<times> string \<times> string"

fun fairness_value :: "fairness \<Rightarrow> goval" where
  "fairness_value (tableID, handNumber, seatIndex, playerID, phase, seed, lock) =
     fairness_payload tableID handNumber seatIndex playerID phase seed lock"

fun fairness_ok :: "fairness \<Rightarrow> bool" where
  "fairness_ok (tableID, handNumber, seatIndex, playerID, phase, seed, lock) =
     list_all valid_utf8 [tableID, playerID, phase, seed, lock]"

definition fairness_text :: "fairness \<Rightarrow> string" where
  "fairness_text f = json_text (canonicalizeValue (fairness_value f))"

lemma fairness_keys:
  "list_all valid_utf8 [''handNumber'', ''lockPublicExponentHex'', ''phase'', ''playerId'', ''seatIndex'',
     ''shuffleSeedHex'', ''tableId'', ''type'', ''dealerless-fairness-commitment'']"
  by code_simp

interpretation fairness_digest: content_digest "\<lambda>f. canonicalizeValue (fairness_value f)" "\<lambda>f. f" fairness_ok
proof
  show "wf_json (canonicalizeValue (fairness_value f))" if "fairness_ok f" for f
    using that fairness_keys
    by (cases f) (auto simp: fairness_payload_def intro!: wf_any_map)
  show "canonicalizeValue (fairness_value f) = canonicalizeValue (fairness_value g) \<longleftrightarrow> f = g" for f g
    by (cases f; cases g) (auto simp: fairness_payload_def canonical_any_map_inj JInt_inj)
qed

lemma fairness_digest_text: "fairness_digest.text_of = fairness_text"
  by (rule ext) (simp only: fairness_digest.text_of_def fairness_text_def)

lemma fairness_stringify: "StableStringify (fairness_value f) = Inr (fairness_text f)"
  unfolding fairness_text_def
  by (cases f) (auto simp: fairness_payload_def intro!: numbers_any_map)

lemma fairness_commitment:
  "BuildFairnessCommitment tableID handNumber seatIndex playerID phase seed lock
     = Inr (digest_hex (fairness_text (tableID, handNumber, seatIndex, playerID, phase, seed, lock)))"
  using fairness_stringify [of "(tableID, handNumber, seatIndex, playerID, phase, seed, lock)"]
  by (simp add: BuildFairnessCommitment_def HashStructuredDataHex_def digest_hex_def)

text \<open>A fairness commitment binds. Two reveals that \<open>VerifyFairnessReveal\<close> accepts for the same commitment
  agree in the table, the hand, the seat, the player, the phase, the shuffle seed and the lock
  exponent, unless the two texts that were hashed are a collision of SHA-256: a seat cannot choose its
  shuffle after it has seen the others.\<close>

theorem fairness_commitment_binds:
  assumes "VerifyFairnessReveal t n s p ph commitmentHash seed lock = Inr ()"
    and "VerifyFairnessReveal t' n' s' p' ph' commitmentHash seed' lock' = Inr ()"
    and "list_all valid_utf8 [t, p, ph, seed, lock]" and "list_all valid_utf8 [t', p', ph', seed', lock']"
  shows "(t, n, s, p, ph, seed, lock) = (t', n', s', p', ph', seed', lock')
    \<or> sha_collision (fairness_text (t, n, s, p, ph, seed, lock)) (fairness_text (t', n', s', p', ph', seed', lock'))"
proof -
  let ?a = "(t, n, s, p, ph, seed, lock)" and ?b = "(t', n', s', p', ph', seed', lock')"
  have "digest_hex (fairness_text ?a) = digest_hex (fairness_text ?b)"
    using assms(1,2) by (simp add: VerifyFairnessReveal_def fairness_commitment split: if_splits)
  moreover have "fairness_ok ?a" "fairness_ok ?b" using assms(3,4) by simp_all
  ultimately show ?thesis using fairness_digest.digest_eq_iff [of ?a ?b, unfolded fairness_digest_text] by blast
qed

theorem fairness_commitment_binds_witness:
  "VerifyFairnessReveal ''t'' 1 0 ''a'' ''commitment''
     (digest_hex (fairness_text (''t'', 1, 0, ''a'', ''commitment'', ''0a'', ''5''))) ''0a'' ''5'' = Inr ()
   \<and> ((''t'', 1, 0, ''a'', ''commitment'', ''0a'', ''5'') = (''t'', 1, 0, ''a'', ''commitment'', ''0a'', ''5'')
      \<or> sha_collision (fairness_text (''t'', 1, 0, ''a'', ''commitment'', ''0a'', ''5''))
           (fairness_text (''t'', 1, 0, ''a'', ''commitment'', ''0a'', ''5'')))"
proof -
  let ?h = "digest_hex (fairness_text (''t'', 1, 0, ''a'', ''commitment'', ''0a'', ''5''))"
  have v: "VerifyFairnessReveal ''t'' 1 0 ''a'' ''commitment'' ?h ''0a'' ''5'' = Inr ()"
    by (simp add: VerifyFairnessReveal_def fairness_commitment)
  have "list_all valid_utf8 [''t'', ''a'', ''commitment'', ''0a'', ''5'']" by code_simp
  from fairness_commitment_binds [OF v v this this] v show ?thesis by blast
qed

end
