(* ===== verification/Hand_Truth.thy ===== *)
theory Hand_Truth
  imports Hand_Host Mental_Properties
begin

text \<open>
  What the checks of partial decryptions, showdown reveals and board openings establish: a share that
  passes holds the right partial decryptions, a reveal that passes names the dealt cards, and the
  contribution of an honest seat passes. Two ways in which the checks fall short are stated as well.
\<close>

section \<open>Locks undone by the key\<close>

lemma decrypt_is_encrypt: "DecryptMentalValueHex c h = EncryptMentalValueHex c h"
  by (simp add: DecryptMentalValueHex_def EncryptMentalValueHex_def)

lemma encrypt_decoded:
  assumes "lock_ok h"
  shows "EncryptMentalValueHex c h =
    (case decodeMentalValue c of Inl e \<Rightarrow> Inl e
     | Inr v \<Rightarrow> Inr (mental_text (v ^ nat (exponent h) mod mentalPrime)))"
  using lock_ok_exponent [OF assms]
  by (simp add: EncryptMentalValueHex_def Exp_def mental_text_def split: sum.split)

lemma key_inverts:
  assumes "key_ok k" "residue v"
  shows "(v ^ nat (exponent (kp_PublicExponentHex k)) mod mentalPrime) ^ nat (exponent (kp_PrivateExponentHex k)) mod mentalPrime = v"
    and "(v ^ nat (exponent (kp_PrivateExponentHex k)) mod mentalPrime) ^ nat (exponent (kp_PublicExponentHex k)) mod mentalPrime = v"
proof -
  let ?e = "exponent (kp_PublicExponentHex k)" and ?d = "exponent (kp_PrivateExponentHex k)"
  have pos: "0 < ?e" "0 < ?d" and one: "?e * ?d mod (mentalPrime - 1) = 1"
    using assms(1) exponent_pos by (auto simp: key_ok_def mentalTotient_def)
  have "v ^ nat (?e * ?d) mod mentalPrime = v"
    using mental.power_inverse [of v ?e ?d] pos one assms(2) by (simp add: residue_def)
  moreover have "nat (?e * ?d) = nat ?e * nat ?d" using pos by (simp add: nat_mult_distrib)
  ultimately show "(v ^ nat ?e mod mentalPrime) ^ nat ?d mod mentalPrime = v"
    "(v ^ nat ?d mod mentalPrime) ^ nat ?e mod mentalPrime = v"
    by (simp_all add: power_mod mult.commute flip: power_mult)
qed

text \<open>A partial decryption that re-encrypts to a deck entry is the decryption of that entry.\<close>

lemma partial_iff:
  assumes "key_ok k" "residue w"
  shows "EncryptMentalValueHex c (kp_PublicExponentHex k) = Inr (mental_text w)
    \<longleftrightarrow> decodeMentalValue c = Inr (w ^ nat (exponent (kp_PrivateExponentHex k)) mod mentalPrime)"
proof -
  let ?e = "nat (exponent (kp_PublicExponentHex k))" and ?d = "nat (exponent (kp_PrivateExponentHex k))"
  have lock: "lock_ok (kp_PublicExponentHex k)" using assms(1) by (simp add: key_ok_def)
  have "mental_text (v ^ ?e mod mentalPrime) = mental_text w \<longleftrightarrow> v = w ^ ?d mod mentalPrime" if "residue v" for v
    using key_inverts [OF assms(1) that] key_inverts [OF assms] mental_text_inj [OF residue_power [OF that] assms(2)]
    by metis
  then show ?thesis
    using decode_residue [of c] encrypt_decoded [OF lock, of c] by (auto split: sum.splits)
qed

lemma decrypt_entry:
  assumes "key_ok k" "residue w"
  shows "DecryptMentalValueHex (mental_text w) (kp_PrivateExponentHex k)
    = Inr (mental_text (w ^ nat (exponent (kp_PrivateExponentHex k)) mod mentalPrime))"
  using assms encrypt_decoded [of "kp_PrivateExponentHex k" "mental_text w"]
  by (simp add: decrypt_is_encrypt key_ok_def)

section \<open>Shares\<close>

text \<open>A share entry that says the same number as the decryption of the deck entry.\<close>

definition share_entry :: "string list \<Rightarrow> string \<Rightarrow> int \<Rightarrow> string \<Rightarrow> bool" where
  "share_entry finalDeck privateExponentHex position partial \<longleftrightarrow>
     0 \<le> position \<and> position < int (length finalDeck)
     \<and> (\<exists>h. DecryptMentalValueHex (finalDeck ! nat position) privateExponentHex = Inr h
          \<and> decodeMentalValue partial = decodeMentalValue h)"

lemma stage_nth:
  assumes "stage_ok deck" "0 \<le> position" "position < int (length deck)"
  obtains w where "residue w" "deck ! nat position = mental_text w"
proof -
  have "deck ! nat position \<in> set deck" using assms(2,3) by simp
  then show ?thesis using assms(1) that by (auto simp: stage_ok_def list_all_iff)
qed

lemma share_entry_iff:
  assumes "key_ok k" "stage_ok deck" "0 \<le> position" "position < int (length deck)"
  shows "share_entry deck (kp_PrivateExponentHex k) position c
    \<longleftrightarrow> EncryptMentalValueHex c (kp_PublicExponentHex k) = Inr (deck ! nat position)"
proof -
  obtain w where w: "residue w" "deck ! nat position = mental_text w" by (rule stage_nth [OF assms(2-4)])
  show ?thesis
    using partial_iff [OF assms(1) w(1), of c] decrypt_entry [OF assms(1) w(1)] residue_power [OF w(1)] assms(3,4)
    by (simp add: share_entry_def w(2))
qed

lemma check_partials_iff:
  assumes "key_ok k" "stage_ok deck" "length positions = length partials"
  shows "check_partials deck (kp_PublicExponentHex k) positions partials = Inr ()
    \<longleftrightarrow> list_all2 (share_entry deck (kp_PrivateExponentHex k)) positions partials"
  using assms(3)
proof (induction positions partials rule: list_induct2)
  case (Cons position positions partial partials)
  show ?case
  proof (cases "0 \<le> position \<and> position < int (length deck)")
    case True
    then show ?thesis
      using Cons.IH share_entry_iff [OF assms(1,2), of position partial] by (auto split: sum.splits)
  qed (auto simp: share_entry_def)
qed simp

lemma seat_exponent_lock: "generated k \<Longrightarrow> key_ok k \<and> lock_ok (kp_PublicExponentHex k)"
  using generated_ok by (auto simp: key_ok_def)

text \<open>A share passes exactly when it holds the right partial decryptions. For a seat whose revealed public
  exponent belongs to a generated key, \<open>verifyPartialCiphertexts\<close> accepts the entries for some positions
  of a well-formed deck if and only if there is one entry per position, every position is inside the
  deck, and every entry is a text of the number that decrypting the deck at its position with the
  seat's private exponent gives. A seat cannot pass off another value.\<close>

theorem accepted_share_is_right_decryption:
  assumes "generated k" and "publicExponentForSeat active seat = Some (kp_PublicExponentHex k)" and "stage_ok deck"
  shows "verifyPartialCiphertexts deck positions partials seat active = Inr ()
    \<longleftrightarrow> list_all2 (share_entry deck (kp_PrivateExponentHex k)) positions partials"
proof (cases "length positions = length partials")
  case True
  then show ?thesis
    using check_partials_iff [OF generated_ok [OF assms(1)] assms(3) True] assms(2)
    by (simp add: verifyPartialCiphertexts_def)
next
  case False
  then show ?thesis by (auto simp: verifyPartialCiphertexts_def dest: list_all2_lengthD)
qed

section \<open>Reveals\<close>

text \<open>The text of a number as the code writes it: without sign, spaces, leading zeros or capitals.\<close>

definition canonical_text :: "string \<Rightarrow> bool" where
  "canonical_text c = (case decodeMentalValue c of Inl e \<Rightarrow> False | Inr v \<Rightarrow> c = encodeMentalValue (Some v))"

lemma canonical_iff: "decodeMentalValue c = Inr v \<Longrightarrow> canonical_text c \<longleftrightarrow> c = mental_text v"
  by (simp add: canonical_text_def mental_text_def)

lemma encode_cardD:
  assumes "EncodeMentalCard code = Inr h"
  shows "\<exists>j < 52. code = cd_Code (CreateDeck ! j) \<and> h = card_text j"
proof -
  obtain v where v: "map_of mentalCardValueByCode code = Some v"
    using assms by (auto simp: EncodeMentalCard_def split: option.splits)
  then have "(code, v) \<in> set mentalCardValueByCode" by (rule map_of_SomeD)
  then obtain j where j: "j < 52" "code = cd_Code (CreateDeck ! j)"
    by (auto simp: mentalCardValueByCode_def in_set_enumerate_eq card_values(4))
  then show ?thesis using assms encode_card [OF j(1)] by auto
qed

abbreviation deck_code :: "nat \<Rightarrow> CardCode" where
  "deck_code j \<equiv> cd_Code (CreateDeck ! j)"

text \<open>The partial decryption that remains locked by the key \<open>k\<close> alone.\<close>

definition left_locked :: "MentalKeyPair \<Rightarrow> nat \<Rightarrow> string \<Rightarrow> bool" where
  "left_locked k j partial \<longleftrightarrow> j < 52
     \<and> decodeMentalValue partial = Inr ((int j + 2) ^ nat (exponent (kp_PublicExponentHex k)) mod mentalPrime)"

lemma card_check_iff:
  assumes "key_ok k" "left_locked k j partial"
  shows "(\<exists>encoded. EncodeMentalCard code = Inr encoded
       \<and> EncryptMentalValueHex encoded (kp_PublicExponentHex k) = Inr partial)
    \<longleftrightarrow> canonical_text partial \<and> code = deck_code j"
proof -
  let ?e = "nat (exponent (kp_PublicExponentHex k))"
  have j: "j < 52" and dec: "decodeMentalValue partial = Inr ((int j + 2) ^ ?e mod mentalPrime)"
    using assms(2) by (simp_all add: left_locked_def)
  have lock: "lock_ok (kp_PublicExponentHex k)" using assms(1) by (simp add: key_ok_def)
  have enc: "EncryptMentalValueHex (card_text i) (kp_PublicExponentHex k) = Inr (mental_text ((int i + 2) ^ ?e mod mentalPrime))"
    if "i < 52" for i
    using that encrypt_decoded [OF lock, of "card_text i"] by (simp add: card_text_def)
  have inj: "(int i + 2) ^ ?e mod mentalPrime = (int j + 2) ^ ?e mod mentalPrime \<longleftrightarrow> i = j" if "i < 52" for i
  proof
    assume eq: "(int i + 2) ^ ?e mod mentalPrime = (int j + 2) ^ ?e mod mentalPrime"
    have "int i + 2 = int j + 2"
      using key_inverts(1) [OF assms(1) card_residue [OF that]] key_inverts(1) [OF assms(1) card_residue [OF j]]
      unfolding eq by (rule trans [OF sym])
    then show "i = j" by simp
  qed simp
  show ?thesis
  proof
    assume "\<exists>encoded. EncodeMentalCard code = Inr encoded
       \<and> EncryptMentalValueHex encoded (kp_PublicExponentHex k) = Inr partial"
    then obtain encoded where e: "EncodeMentalCard code = Inr encoded"
      "EncryptMentalValueHex encoded (kp_PublicExponentHex k) = Inr partial" by blast
    from encode_cardD [OF e(1)] obtain i where "i < 52" "code = deck_code i" "encoded = card_text i" by blast
    then have i: "i < 52" "code = deck_code i" "partial = mental_text ((int i + 2) ^ ?e mod mentalPrime)"
      using e(2) enc [of i] by simp_all
    moreover from this have "(int i + 2) ^ ?e mod mentalPrime = (int j + 2) ^ ?e mod mentalPrime"
      using dec residue_power [OF card_residue [OF i(1)]] by simp
    ultimately show "canonical_text partial \<and> code = deck_code j" using inj canonical_iff [OF dec] by simp
  next
    assume "canonical_text partial \<and> code = deck_code j"
    then show "\<exists>encoded. EncodeMentalCard code = Inr encoded
       \<and> EncryptMentalValueHex encoded (kp_PublicExponentHex k) = Inr partial"
      using canonical_iff [OF dec] encode_card [OF j] enc [OF j] by simp
  qed
qed

lemma check_cards_iff:
  assumes "key_ok k" "list_all2 (left_locked k) js partials" "length codes = length partials"
  shows "check_cards msg (kp_PublicExponentHex k) codes partials = Inr ()
    \<longleftrightarrow> list_all canonical_text partials \<and> codes = map deck_code js"
  using assms(2,3)
proof (induction js partials arbitrary: codes rule: list_all2_induct)
  case (Cons j js partial partials)
  then obtain code codes' where codes: "codes = code # codes'" by (cases codes) auto
  have "check_cards msg (kp_PublicExponentHex k) codes (partial # partials) = Inr ()
    \<longleftrightarrow> (\<exists>encoded. EncodeMentalCard code = Inr encoded
          \<and> EncryptMentalValueHex encoded (kp_PublicExponentHex k) = Inr partial)
        \<and> check_cards msg (kp_PublicExponentHex k) codes' partials = Inr ()"
    by (auto simp: codes split: sum.splits)
  then show ?case
    using card_check_iff [OF assms(1) Cons.hyps(1)] Cons.IH [of codes'] Cons.prems codes by auto
qed simp

section \<open>The deal of a hand\<close>

text \<open>
  A two-seat hand whose final deck is the replay of the two reveals in its transcript, and a seat whose
  revealed exponent belongs to a generated key.
\<close>

definition hand_dealt :: "nativeActiveHand \<Rightarrow> nativeSeatRecord list \<Rightarrow> MentalDeckReveal list \<Rightarrow> bool" where
  "hand_dealt hand seats reveals \<longleftrightarrow> map se_SeatIndex seats = [0, 1] \<and> seat_reveals hand seats = Inr reveals
     \<and> (\<exists>replay. ReplayMentalDeck reveals = Inr replay \<and> hd_FinalDeck (ah_Cards hand) = md_FinalDeck replay)"

definition holds_key :: "nativeActiveHand \<Rightarrow> int \<Rightarrow> MentalKeyPair \<Rightarrow> bool" where
  "holds_key hand seat k \<longleftrightarrow> generated k \<and> publicExponentForSeat (Some hand) seat = Some (kp_PublicExponentHex k)"

lemma holds_keyD: "holds_key hand seat k \<Longrightarrow> key_ok k \<and> publicExponentForSeat (Some hand) seat = Some (kp_PublicExponentHex k)"
  by (simp add: holds_key_def generated_ok)

lemma two_seats_reveals:
  assumes "map se_SeatIndex seats = [0, 1]" "seat_reveals hand seats = Inr reveals"
  shows "map Some (map mr_LockPublicExponentHex reveals) = map (publicExponentForSeat (Some hand)) [0, 1]
    \<and> map mr_SeatIndex reveals = [0, 1]"
proof -
  have "map Some (map mr_LockPublicExponentHex reveals) = map (publicExponentForSeat (Some hand)) (map se_SeatIndex seats)
    \<and> map mr_SeatIndex reveals = map se_SeatIndex seats"
    using assms(2)
    by (induction seats arbitrary: reveals)
      (auto simp: publicExponentForSeat_def reveal_of_def split: option.splits sum.splits)
  then show ?thesis by (simp only: assms(1))
qed

lemma dealt_locks:
  assumes "hand_dealt hand seats reveals" "publicExponentForSeat (Some hand) 0 = Some h0"
    "publicExponentForSeat (Some hand) 1 = Some h1"
  shows "hd_FinalDeck (ah_Cards hand) = map (locked (exponent h0 * exponent h1)) (final_order reveals)"
    and "lock_ok h0" "lock_ok h1"
proof -
  obtain replay where replay: "ReplayMentalDeck reveals = Inr replay" "hd_FinalDeck (ah_Cards hand) = md_FinalDeck replay"
    using assms(1) unfolding hand_dealt_def by blast
  have "map Some (map mr_LockPublicExponentHex reveals) = map Some [h0, h1]"
    and seats: "map mr_SeatIndex reveals = [0, 1]"
    using two_seats_reveals [of seats hand reveals] assms by (simp_all add: hand_dealt_def)
  moreover obtain r0 r1 where r: "reveals = [r0, r1]" using seats by (cases reveals; cases "tl reveals") auto
  ultimately have locks: "map mr_LockPublicExponentHex reveals = [h0, h1]" by simp
  have sorted: "by_seat reveals = reveals" using seats r by simp
  have ok: "list_all reveal_ok reveals" using replay(1) replay_bad by fastforce
  then obtain replay' where "ReplayMentalDeck reveals = Inr replay'"
    "md_FinalDeck replay' = map (locked (prod_list (map (exponent \<circ> mr_LockPublicExponentHex) (by_seat reveals))))
       (final_order reveals)"
    by (rule replay_ok)
  moreover have "map (exponent \<circ> mr_LockPublicExponentHex) reveals = map exponent [h0, h1]"
    using locks by (metis map_map)
  ultimately show "hd_FinalDeck (ah_Cards hand) = map (locked (exponent h0 * exponent h1)) (final_order reveals)"
    using replay by (simp add: sorted)
  show "lock_ok h0" "lock_ok h1" using ok locks r by (auto simp: reveal_ok_def)
qed

lemma dealt_deck:
  assumes "hand_dealt hand seats reveals" "holds_key hand 0 k0" "holds_key hand 1 k1"
  shows "hd_FinalDeck (ah_Cards hand)
      = map (locked (exponent (kp_PublicExponentHex k0) * exponent (kp_PublicExponentHex k1))) (final_order reveals)"
    and "stage_ok (hd_FinalDeck (ah_Cards hand))"
proof -
  show eq: "hd_FinalDeck (ah_Cards hand)
      = map (locked (exponent (kp_PublicExponentHex k0) * exponent (kp_PublicExponentHex k1))) (final_order reveals)"
    using dealt_locks(1) [OF assms(1)] assms(2,3) holds_keyD by blast
  show "stage_ok (hd_FinalDeck (ah_Cards hand))" unfolding eq by (rule locked_stage_ok [OF final_order_permutes])
qed

lemma share_left_locked:
  assumes "hand_dealt hand seats reveals" "holds_key hand 0 (key (0 :: int))" "holds_key hand 1 (key 1)"
    and "seat \<in> {0, 1}" "verifyPartialCiphertexts (hd_FinalDeck (ah_Cards hand)) positions partials (otherSeatIndex seat)
      (Some hand) = Inr ()"
  shows "list_all2 (left_locked (key seat)) (map (\<lambda>pos. final_order reveals ! nat pos) positions) partials"
proof -
  let ?k = "key seat" and ?o = "key (otherSeatIndex seat)" and ?deck = "hd_FinalDeck (ah_Cards hand)"
  let ?e = "exponent (kp_PublicExponentHex ?k)" and ?e' = "exponent (kp_PublicExponentHex ?o)"
  have seat_keys: "holds_key hand seat ?k" "holds_key hand (otherSeatIndex seat) ?o"
    using assms(2-4) by (auto simp: otherSeatIndex_def)
  then have ok: "key_ok ?k" "key_ok ?o" by (simp_all add: holds_keyD)
  then have pos: "0 < ?e" "0 < ?e'" by (simp_all add: key_ok_def exponent_pos)
  note deck = dealt_deck [OF assms(1-3)]
  have "exponent (kp_PublicExponentHex (key 0)) * exponent (kp_PublicExponentHex (key 1)) = ?e * ?e'"
    using assms(4) by (auto simp: otherSeatIndex_def)
  then have entries: "?deck = map (locked (?e * ?e')) (final_order reveals)" using deck(1) by simp
  have "length positions = length partials"
    using assms(5) by (auto simp: verifyPartialCiphertexts_def split: if_splits)
  then have "list_all2 (share_entry ?deck (kp_PrivateExponentHex ?o)) positions partials"
    using check_partials_iff [OF ok(2) deck(2)] holds_keyD [OF seat_keys(2)] assms(5)
    by (simp add: verifyPartialCiphertexts_def)
  then show ?thesis unfolding list.rel_map
  proof (rule list_all2_mono)
    fix position partial
    assume entry: "share_entry ?deck (kp_PrivateExponentHex ?o) position partial"
    then have range: "0 \<le> position" "nat position < 52"
      by (auto simp: share_entry_def entries final_order_props)
    let ?j = "final_order reveals ! nat position"
    have "?j \<in> set (final_order reveals)" using range by (intro nth_mem) (simp add: final_order_props)
    then have j: "?j < 52" by (simp add: final_order_props)
    let ?v = "(int ?j + 2) ^ nat ?e mod mentalPrime"
    have v: "residue ?v" by (rule residue_power [OF card_residue [OF j]])
    have "?deck ! nat position = mental_text (?v ^ nat ?e' mod mentalPrime)"
      using range pos by (simp add: entries final_order_props locked_def power_mod nat_mult_distrib flip: power_mult)
    then have "DecryptMentalValueHex (?deck ! nat position) (kp_PrivateExponentHex ?o) = Inr (mental_text ?v)"
      using decrypt_entry [OF ok(2) residue_power [OF v]] key_inverts(1) [OF ok(2) v] by simp
    then show "left_locked ?k ?j partial" using entry v j by (simp add: share_entry_def left_locked_def)
  qed
qed

lemma showdown_accepts_iff:
  assumes "hand_dealt hand seats reveals" and "holds_key hand 0 (key (0 :: int))" and "holds_key hand 1 (key 1)"
    and "seat \<in> {0, 1}"
    and "findTranscriptRecord (hand_transcript hand) nativeHandMessagePrivateDelivery (Some (otherSeatIndex seat))
      (street_str StreetPrivateDelivery) (Some seat) = Some share"
    and "verifyPartialCiphertexts (hd_FinalDeck (ah_Cards hand)) (hr_CardPositions share) (hr_PartialCiphertexts share)
      (otherSeatIndex seat) (Some hand) = Inr ()"
  shows "verifyShowdownReveal (Some hand) seat cards = Inr ()
    \<longleftrightarrow> list_all canonical_text (hr_PartialCiphertexts share)
        \<and> cards = map (\<lambda>pos. public_card reveals (nat pos)) (hr_CardPositions share)"
proof -
  have held: "key_ok (key seat)" "publicExponentForSeat (Some hand) seat = Some (kp_PublicExponentHex (key seat))"
    using assms(2-4) holds_keyD by auto
  note locked = share_left_locked [OF assms(1-4,6)]
  have len: "length (hr_CardPositions share) = length (hr_PartialCiphertexts share)"
    using list_all2_lengthD [OF locked] by simp
  have dealt: "map deck_code (map (\<lambda>pos. final_order reveals ! nat pos) (hr_CardPositions share))
      = map (\<lambda>pos. public_card reveals (nat pos)) (hr_CardPositions share)"
    by (simp add: public_card_def)
  show ?thesis
  proof (cases "length cards = length (hr_PartialCiphertexts share)")
    case True
    then show ?thesis
      using check_cards_iff [OF held(1) locked True, unfolded dealt] assms(5) held(2)
      by (simp add: verifyShowdownReveal_def)
  next
    case False
    then have "cards \<noteq> map (\<lambda>pos. public_card reveals (nat pos)) (hr_CardPositions share)" using len by auto
    then show ?thesis using False assms(5) by (simp add: verifyShowdownReveal_def)
  qed
qed

text \<open>C11. A player cannot lie at the showdown. In a two-seat hand whose deck is the replay of the seats' reveals,
  both with generated keys, and whose transcript holds a private delivery share for \<open>seat\<close> that passed
  the check of shares, \<open>verifyShowdownReveal\<close> accepts exactly one list of cards, those the reveals put at
  the delivered positions, and it accepts that one if and only if every entry of the share is written
  in the canonical form.\<close>

theorem showdown_reveal_is_truthful:
  assumes "hand_dealt hand seats reveals" and "holds_key hand 0 (key (0 :: int))" and "holds_key hand 1 (key 1)"
    and "seat \<in> {0, 1}"
    and "findTranscriptRecord (hand_transcript hand) nativeHandMessagePrivateDelivery (Some (otherSeatIndex seat))
      (street_str StreetPrivateDelivery) (Some seat) = Some share"
    and "verifyPartialCiphertexts (hd_FinalDeck (ah_Cards hand)) (hr_CardPositions share) (hr_PartialCiphertexts share)
      (otherSeatIndex seat) (Some hand) = Inr ()"
  shows "verifyShowdownReveal (Some hand) seat cards = Inr ()
    \<longleftrightarrow> list_all canonical_text (hr_PartialCiphertexts share)
        \<and> cards = map (\<lambda>pos. public_card reveals (nat pos)) (hr_CardPositions share)"
  by (rule showdown_accepts_iff [OF assms])

lemma check_board_shares_iff:
  assumes "hand_dealt hand seats reveals" "holds_key hand 0 (key (0 :: int))" "holds_key hand 1 (key 1)"
    and "\<forall>share \<in> set shares. \<exists>sender \<in> {0, 1}. hr_SeatIndex share = Some sender \<and>
      verifyPartialCiphertexts (hd_FinalDeck (ah_Cards hand)) positions (hr_PartialCiphertexts share) sender (Some hand) = Inr ()"
  shows "check_board_shares (Some hand) cards shares = Inr ()
    \<longleftrightarrow> (\<forall>share \<in> set shares. list_all canonical_text (hr_PartialCiphertexts share)
          \<and> cards = map (\<lambda>pos. public_card reveals (nat pos)) positions)"
  using assms(4)
proof (induction shares)
  case (Cons share shares)
  obtain sender where sender: "sender \<in> {0, 1}" "hr_SeatIndex share = Some sender"
    "verifyPartialCiphertexts (hd_FinalDeck (ah_Cards hand)) positions (hr_PartialCiphertexts share) sender (Some hand) = Inr ()"
    using Cons.prems by auto
  let ?seat = "otherSeatIndex sender" and ?partials = "hr_PartialCiphertexts share"
  have seat: "?seat \<in> {0, 1}" "otherSeatIndex ?seat = sender" using sender(1) by (auto simp: otherSeatIndex_def)
  have held: "key_ok (key ?seat)" "publicExponentForSeat (Some hand) ?seat = Some (kp_PublicExponentHex (key ?seat))"
    using assms(2,3) seat(1) holds_keyD by auto
  note locked = share_left_locked [OF assms(1-3) seat(1), unfolded seat(2), OF sender(3)]
  have len: "length positions = length ?partials" using list_all2_lengthD [OF locked] by simp
  have "length ?partials = length cards
      \<and> check_cards ''board open does not match share from seat %d'' (kp_PublicExponentHex (key ?seat)) cards ?partials = Inr ()
    \<longleftrightarrow> list_all canonical_text ?partials \<and> cards = map (\<lambda>pos. public_card reveals (nat pos)) positions"
    using check_cards_iff [OF held(1) locked, of cards] len by (auto simp: public_card_def)
  then show ?case
    using Cons.IH Cons.prems held(2) by (auto simp: sender(2) split: sum.splits if_splits)
qed simp

text \<open>The board is opened truthfully. When the transcript holds two board shares for a phase, each from one
  of the two seats and each passing the check of shares at the same positions, \<open>verifyBoardOpen\<close> accepts
  exactly one list of cards, those the reveals put at the positions, provided both shares are written
  in the canonical form; otherwise it accepts none.\<close>

theorem board_open_is_truthful:
  assumes "hand_dealt hand seats reveals" and "holds_key hand 0 (key (0 :: int))" and "holds_key hand 1 (key 1)"
    and "transcriptRecordsByKind (hand_transcript hand) nativeHandMessageBoardShare phase = [share, share']"
    and "\<forall>s \<in> {share, share'}. \<exists>sender \<in> {0, 1}. hr_SeatIndex s = Some sender \<and>
      verifyPartialCiphertexts (hd_FinalDeck (ah_Cards hand)) positions (hr_PartialCiphertexts s) sender (Some hand) = Inr ()"
  shows "verifyBoardOpen (Some hand) phase cards = Inr ()
    \<longleftrightarrow> list_all canonical_text (hr_PartialCiphertexts share @ hr_PartialCiphertexts share')
        \<and> cards = map (\<lambda>pos. public_card reveals (nat pos)) positions"
proof -
  have "\<forall>s \<in> set [share, share']. \<exists>sender \<in> {0, 1}. hr_SeatIndex s = Some sender \<and>
      verifyPartialCiphertexts (hd_FinalDeck (ah_Cards hand)) positions (hr_PartialCiphertexts s) sender (Some hand) = Inr ()"
    using assms(5) by simp
  from check_board_shares_iff [OF assms(1-3) this, of cards]
  show ?thesis by (auto simp: verifyBoardOpen_def assms(4) simp del: check_board_shares.simps)
qed

end
