(* ===== verification/Hand_Slots.thy ===== *)
theory Hand_Slots
  imports Hand_Host Holdem_Hands
begin

text \<open>
  The transcript as a log with slots: every participant record belongs to a slot (its kind, seat, phase and
  recipient), the host fills a slot at most once, and delivering a message again changes nothing. The
  protocol steps of a table are a relation; its reachable tables keep a valid transcript and a hand
  that the hand engine can reach.
\<close>

section \<open>Slots\<close>

definition participant_kinds :: "string list" where
  "participant_kinds = [nativeHandMessageFairnessCommit, nativeHandMessageFairnessReveal,
     nativeHandMessagePrivateDelivery, nativeHandMessageBoardShare, nativeHandMessageBoardOpen,
     nativeHandMessageShowdownReveal]"

text \<open>The phase a record of a kind belongs to; the board records are told apart by their own phase.\<close>

definition slot_phase :: "HandTranscriptRecord \<Rightarrow> string" where
  "slot_phase r =
     (if hr_Kind r = nativeHandMessageFairnessCommit then street_str StreetCommitment
      else if hr_Kind r = nativeHandMessageFairnessReveal then street_str StreetReveal
      else if hr_Kind r = nativeHandMessagePrivateDelivery then street_str StreetPrivateDelivery
      else if hr_Kind r = nativeHandMessageShowdownReveal then street_str StreetShowdownReveal
      else hr_Phase r)"

definition same_slot :: "HandTranscriptRecord \<Rightarrow> HandTranscriptRecord \<Rightarrow> bool" where
  "same_slot r = record_matches (hr_Kind r)
     (if hr_Kind r = nativeHandMessageBoardOpen then None else hr_SeatIndex r) (slot_phase r)
     (if hr_Kind r = nativeHandMessagePrivateDelivery then hr_RecipientSeatIndex r else None)"

definition participant :: "HandTranscriptRecord \<Rightarrow> bool" where
  "participant r \<longleftrightarrow> hr_Kind r \<in> set participant_kinds \<and> (hr_Kind r \<noteq> nativeHandMessageBoardOpen \<longrightarrow> hr_SeatIndex r \<noteq> None)
     \<and> (hr_Kind r = nativeHandMessagePrivateDelivery \<longrightarrow> hr_RecipientSeatIndex r \<noteq> None)"

lemma slot_lookup:
  "hr_Kind r \<in> set participant_kinds \<Longrightarrow> findParticipantHandMessageSlotRecord t r = Inr found
    \<Longrightarrow> participant r \<and> found = find (same_slot r) (ht_Records t)"
  by (auto simp: findParticipantHandMessageSlotRecord_def findTranscriptRecord_def participant_kinds_def Let_def
      same_slot_def slot_phase_def participant_def kind_defs split: option.splits if_splits)

lemma slot_lookup_iff:
  "participant r \<Longrightarrow> findParticipantHandMessageSlotRecord t r = Inr (find (same_slot r) (ht_Records t))"
  by (auto simp: findParticipantHandMessageSlotRecord_def findTranscriptRecord_def participant_kinds_def Let_def
      same_slot_def slot_phase_def participant_def kind_defs split: option.splits if_splits)

section \<open>Appending\<close>

definition seal :: "HandTranscript \<Rightarrow> HandTranscriptRecord \<Rightarrow> HandTranscriptRecord" where
  "seal t r = (let i = length (ht_Records t) in
     r\<lparr>hr_Index := int i, hr_StepHash := step_digest t i r, hr_RootHash := link_digest t i (ht_RootHash t) r\<rparr>)"

definition extended :: "HandTranscript \<Rightarrow> HandTranscriptRecord \<Rightarrow> HandTranscript" where
  "extended t r = t\<lparr>ht_Records := ht_Records t @ [seal t r], ht_RootHash := hr_RootHash (seal t r)\<rparr>"

lemma append_extends: "AppendTranscriptRecord t r = Inr (extended t r, seal t r)"
  by (simp add: append_record extended_def seal_def Let_def)

lemma append_hand:
  "ts_ActiveHand table = Some hand \<Longrightarrow>
   appendHandTranscriptRecord table r = Inr (table\<lparr>ts_ActiveHand := Some (set_transcript (extended (hand_transcript hand) r) hand)\<rparr>)"
  by (simp add: appendHandTranscriptRecord_def append_extends)

lemma seal_fields [simp]:
  "hr_Kind (seal t r) = hr_Kind r" "hr_Phase (seal t r) = hr_Phase r" "hr_SeatIndex (seal t r) = hr_SeatIndex r"
  "hr_RecipientSeatIndex (seal t r) = hr_RecipientSeatIndex r" "hr_PlayerID (seal t r) = hr_PlayerID r"
  "hr_Cards (seal t r) = hr_Cards r"
  by (simp_all add: seal_def Let_def)

lemma seal_keeps_slot [simp]:
  "same_slot (seal t r) = same_slot r" "same_slot q (seal t r) = same_slot q r" "participant (seal t r) = participant r"
  by (simp_all add: same_slot_def slot_phase_def participant_def record_matches_def)

lemma seal_keeps_key: "handMessageRecordKey a b n (seal t r) = handMessageRecordKey a b n r"
  by (simp add: handMessageRecordKey_def handMessageRecordPayload_def seal_def Let_def)

lemma set_transcript_simps [simp]:
  "ah_State (set_transcript t hand) = ah_State hand" "hand_transcript (set_transcript t hand) = t"
  "hd_FinalDeck (ah_Cards (set_transcript t hand)) = hd_FinalDeck (ah_Cards hand)"
  by (simp_all add: set_transcript_def)

lemma find_append: "find P (xs @ [y]) = (case find P xs of None \<Rightarrow> if P y then Some y else None | Some x \<Rightarrow> Some x)"
  by (induction xs) auto

text \<open>A valid transcript: its root replays, and no record sits in the slot of an earlier one.\<close>

definition transcript_ok :: "HandTranscript \<Rightarrow> bool" where
  "transcript_ok t \<longleftrightarrow> ReplayTranscriptRoot t = Inr (ht_RootHash t)
     \<and> sorted_wrt (\<lambda>earlier later. participant later \<longrightarrow> \<not> same_slot later earlier) (ht_Records t)"

lemma extended_ok:
  assumes "transcript_ok t" "participant r \<longrightarrow> find (same_slot r) (ht_Records t) = None"
  shows "transcript_ok (extended t r)"
proof -
  have "ReplayTranscriptRoot (extended t r) = Inr (ht_RootHash (extended t r))"
    using append_keeps_replay [OF _ append_extends] assms(1) by (simp add: transcript_ok_def)
  moreover have "sorted_wrt (\<lambda>earlier later. participant later \<longrightarrow> \<not> same_slot later earlier) (ht_Records t @ [seal t r])"
    using assms by (auto simp: transcript_ok_def sorted_wrt_append find_None_iff)
  ultimately show ?thesis by (simp add: transcript_ok_def extended_def)
qed

section \<open>Accepting a message\<close>

lemma accept_cases:
  assumes "accept_hand_message curve self table m = Inr (table', receipt)"
  obtains (duplicate) hand seat r existing key where "ts_ActiveHand table = Some hand"
      "seatRecordForPlayer table (hm_PlayerID m) = Some seat"
      "validateHandMessageRequestIdentity curve table seat m = Inr r"
      "handMessageRecordKey (hm_TableID m) (hm_HandID m) (hm_HandNumber m) r = Inr key"
      "findParticipantHandMessageSlotRecord (hand_transcript hand) r = Inr (Some existing)"
      "handMessageRecordKey (tc_TableID (ts_Config table)) (st_HandID (ah_State hand)) (st_HandNumber (ah_State hand)) existing
        = Inr key"
      "table' = table" "receipt = \<lparr>rc_AcceptedTranscriptRoot = hr_RootHash existing, rc_Duplicate = True, rc_RecordKey = key\<rparr>"
    | (new) hand seat r key where "ts_ActiveHand table = Some hand"
      "seatRecordForPlayer table (hm_PlayerID m) = Some seat"
      "validateHandMessageRequestIdentity curve table seat m = Inr r"
      "handMessageRecordKey (hm_TableID m) (hm_HandID m) (hm_HandNumber m) r = Inr key"
      "findParticipantHandMessageSlotRecord (hand_transcript hand) r = Inr None"
      "validateNewHandMessageRequest table seat m r = Inr ()"
      "table' = table\<lparr>ts_ActiveHand := Some (set_transcript (extended (hand_transcript hand) r) hand)\<rparr>"
      "receipt = \<lparr>rc_AcceptedTranscriptRoot = hr_RootHash (seal (hand_transcript hand) r), rc_Duplicate = False,
         rc_RecordKey = key\<rparr>"
proof -
  note accept = assms [unfolded accept_hand_message_def]
  have self: "pa_PeerID (kn_Peer (ts_CurrentHost table)) = self" using accept by (simp split: if_splits)
  note accept = accept [unfolded self, simplified]
  obtain hand where hand: "ts_ActiveHand table = Some hand" using accept by (cases "ts_ActiveHand table") simp_all
  obtain seat where seat: "seatRecordForPlayer table (hm_PlayerID m) = Some seat"
    using accept hand by (cases "seatRecordForPlayer table (hm_PlayerID m)") simp_all
  obtain r where r: "validateHandMessageRequestIdentity curve table seat m = Inr r"
    using accept hand seat by (cases "validateHandMessageRequestIdentity curve table seat m") simp_all
  obtain key where key: "handMessageRecordKey (hm_TableID m) (hm_HandID m) (hm_HandNumber m) r = Inr key"
    using accept hand seat r by (cases "handMessageRecordKey (hm_TableID m) (hm_HandID m) (hm_HandNumber m) r") simp_all
  obtain found where found: "findParticipantHandMessageSlotRecord (hand_transcript hand) r = Inr found"
    using accept hand seat r key
    by (cases "findParticipantHandMessageSlotRecord (hand_transcript hand) r") simp_all
  note accept = accept [simplified hand seat r key found sum.case option.case]
  show thesis
  proof (cases found)
    case None
    have v: "validateNewHandMessageRequest table seat m r = Inr ()"
      using accept None by (cases "validateNewHandMessageRequest table seat m r") simp_all
    show thesis
      using accept None v
      by (intro new [OF hand seat r key _ v]) (auto simp: found append_hand [OF hand] handTranscriptRoot_def extended_def)
  next
    case (Some existing)
    then show thesis
      using accept by (intro duplicate [OF hand seat r key]) (auto simp: found split: sum.splits if_splits)
  qed
qed

lemma identity_ok:
  assumes "validateHandMessageRequestIdentity curve table seat m = Inr r" "ts_ActiveHand table = Some hand"
  shows "transcriptRecordFromHandMessage m = Inr r" "hm_TableID m = tc_TableID (ts_Config table)"
    "hm_HandID m = st_HandID (ah_State hand)" "hm_HandNumber m = st_HandNumber (ah_State hand)"
    "validateTranscriptRecordPlaintext r = Inr ()"
  using assms by (auto simp: validateHandMessageRequestIdentity_def split: if_splits sum.splits bool.splits)

lemma identity_cong:
  assumes "ts_ActiveHand table = Some hand" "ts_ActiveHand table' = Some hand'" "ts_Config table' = ts_Config table"
    "ah_State hand' = ah_State hand"
  shows "validateHandMessageRequestIdentity curve table' seat m = validateHandMessageRequestIdentity curve table seat m"
  by (simp add: validateHandMessageRequestIdentity_def assms)

lemma message_record:
  assumes "transcriptRecordFromHandMessage m = Inr r"
  shows "hr_Kind r = hm_Kind m" "hr_Phase r = hm_Phase m" "hr_SeatIndex r = Some (hm_SeatIndex m)"
    "hr_RecipientSeatIndex r = hm_RecipientSeatIndex m" "hr_Cards r = hm_Cards m"
    "hr_CardPositions r = hm_CardPositions m" "hr_PartialCiphertexts r = hm_PartialCiphertexts m"
  using assms by (auto simp: transcriptRecordFromHandMessage_def decodeCardCodes_def empty_record_def Let_def split: if_splits)

lemma first_error_Inr: "first_error checks = Inr () \<longleftrightarrow> list_all (\<lambda>c. c = Inr ()) checks"
  by (induction checks) (auto split: sum.splits)

lemma new_message_slot:
  assumes "validateNewHandMessageRequest table seat m r = Inr ()" "hr_Kind r = hm_Kind m" "hr_Phase r = hm_Phase m"
  shows "hr_Kind r \<in> set participant_kinds" and "hr_Phase r = slot_phase r"
  using assms kinds_distinct
  by (auto simp: validateNewHandMessageRequest_def participant_kinds_def slot_phase_def check_new_commit_def
      check_new_reveal_def check_new_delivery_def check_new_showdown_def first_error_Inr fail_if_def
      split: if_splits sum.splits)

lemma self_slot: "hr_Phase r = slot_phase r \<Longrightarrow> same_slot r r"
  by (auto simp: same_slot_def record_matches_def)


end
