(* ===== verification/Hand_Lifecycle.thy ===== *)
theory Hand_Lifecycle
  imports Hand_Slots Hand_Start
begin

text \<open>
  The life of a hand on the host: the hand is started, then messages of peers, the host's own records,
  phase changes, actions and forced folds follow in any order. The relation \<open>host_step\<close> has one rule per way
  the code changes the active hand; every table it reaches holds a hand the engine reaches and a valid
  transcript.
\<close>

section \<open>Steps\<close>

inductive host_step ::
    "('sk, 'pk) secp256k1 \<Rightarrow> string \<Rightarrow> nativeTableState \<Rightarrow> nativeTableState \<Rightarrow> bool" for curve self where
  message: "accept_hand_message curve self table m = Inr (table', receipt) \<Longrightarrow> host_step curve self table table'"
| own: "buildLocalContributionRecord ensured wallet table = Inr (Some r) \<Longrightarrow> appendHandTranscriptRecord table r = Inr table'
    \<Longrightarrow> host_step curve self table table'"
| phase: "advance_phase deadline table = Inr (table', outcome) \<Longrightarrow> host_step curve self table table'"
| action: "ts_ActiveHand table = Some hand \<Longrightarrow> ApplyHoldemAction (ah_State hand) seat a = Inr s
    \<Longrightarrow> host_step curve self table (set_state s table)"
| fold_seat: "ts_ActiveHand table = Some hand \<Longrightarrow> ForceFoldSeat (ah_State hand) seat = Inr s
    \<Longrightarrow> host_step curve self table (set_state s table)"

inductive host_reachable ::
    "('sk, 'pk) secp256k1 \<Rightarrow> string \<Rightarrow> HoldemHandConfig \<Rightarrow> nativeTableState \<Rightarrow> bool" for curve self c where
  start: "start_next_hand elapsed later deadline handID table0 = Inr (Some table)
    \<Longrightarrow> c = next_hand_config handID (reactivateContinuingSeatsForNextHand (releaseCompletedActiveHandForNextStart table0))
    \<Longrightarrow> host_reachable curve self c table"
| step: "host_reachable curve self c table \<Longrightarrow> host_step curve self table table' \<Longrightarrow> host_reachable curve self c table'"

section \<open>What each step keeps\<close>

lemma set_state_hand [simp]:
  "ts_ActiveHand table = Some hand \<Longrightarrow> ts_ActiveHand (set_state s table) = Some (hand\<lparr>ah_State := s\<rparr>)"
  by (simp add: set_state_def)

lemma deadline_keeps:
  assumes "ts_ActiveHand table = Some hand"
  shows "\<exists>d. ts_ActiveHand (setProtocolDeadline deadline table) = Some (set_deadline d hand)"
    and "ts_Config (setProtocolDeadline deadline table) = ts_Config table"
  by (auto simp: setProtocolDeadline_def assms)

lemma set_deadline_simps [simp]:
  "ah_State (set_deadline d hand) = ah_State hand" "hand_transcript (set_deadline d hand) = hand_transcript hand"
  by (simp_all add: set_deadline_def)

lemma stepped_keeps:
  assumes "stepped deadline table next1 = Inr (table', outcome)" "ts_ActiveHand table = Some hand"
  shows "\<exists>hand' s. next1 = Inr s \<and> ts_ActiveHand table' = Some hand' \<and> ah_State hand' = s
    \<and> hand_transcript hand' = hand_transcript hand"
proof -
  obtain s where s: "next1 = Inr s" "table' = setProtocolDeadline deadline (set_state s table)"
    using assms(1) by (auto simp: stepped_def split: sum.splits)
  moreover obtain d where "ts_ActiveHand table' = Some (set_deadline d (hand\<lparr>ah_State := s\<rparr>))"
    using deadline_keeps(1) [OF set_state_hand [OF assms(2)]] s(2) by blast
  ultimately show ?thesis by simp
qed

lemma finish_reveal_keeps:
  assumes "finish_reveal deadline table hand = Inr (table', outcome)" "ts_ActiveHand table = Some hand"
  shows "\<exists>hand' r. ts_ActiveHand table' = Some hand' \<and> ah_State hand' = (ah_State hand)\<lparr>st_Phase := StreetPrivateDelivery\<rparr>
    \<and> \<not> participant r \<and> hand_transcript hand' = extended (hand_transcript hand) r"
proof -
  obtain replay root where "buildMentalReplay table = Inr replay" "MentalDeckStageRoot (md_FinalDeck replay) = Inr root"
    using assms(1) by (auto simp: finish_reveal_def split: sum.splits)
  moreover define hand1 where "hand1 = hand\<lparr>ah_Cards := (ah_Cards hand)\<lparr>hd_FinalDeck := md_FinalDeck replay\<rparr>\<rparr>"
  moreover define r where "r = empty_record\<lparr>hr_DeckStage := md_FinalDeck replay, hr_DeckStageRoot := root,
      hr_Kind := ''finalization'', hr_Phase := street_str StreetFinalization\<rparr>"
  moreover have "ts_ActiveHand (set_final_deck (md_FinalDeck replay) table) = Some hand1"
    by (simp add: set_final_deck_def assms(2) hand1_def)
  ultimately have "stepped deadline ((set_final_deck (md_FinalDeck replay) table)
        \<lparr>ts_ActiveHand := Some (set_transcript (extended (hand_transcript hand1) r) hand1)\<rparr>)
      (Inr ((ah_State hand)\<lparr>st_Phase := StreetPrivateDelivery\<rparr>)) = Inr (table', outcome)"
    using assms(1) by (simp add: finish_reveal_def append_hand)
  from stepped_keeps [OF this] have "\<exists>hand'. ts_ActiveHand table' = Some hand'
    \<and> ah_State hand' = (ah_State hand)\<lparr>st_Phase := StreetPrivateDelivery\<rparr>
    \<and> hand_transcript hand' = extended (hand_transcript hand) r"
    by (simp add: hand1_def)
  moreover have "\<not> participant r" by (simp add: participant_def participant_kinds_def kind_defs r_def)
  ultimately show ?thesis by blast
qed

text \<open>A change of phase is a step of the hand engine, and adds at most the finalization record.\<close>

lemma advance_keeps:
  assumes "advance_phase deadline table = Inr (table', outcome)" "ts_ActiveHand table = Some hand"
  shows "\<exists>hand'. ts_ActiveHand table' = Some hand'
    \<and> (ah_State hand' = ah_State hand \<or> hand_step (ah_State hand) (ah_State hand'))
    \<and> (hand_transcript hand' = hand_transcript hand
       \<or> (\<exists>r. \<not> participant r \<and> hand_transcript hand' = extended (hand_transcript hand) r))"
proof -
  note adv = assms(1) [unfolded advance_phase_def assms(2) option.case Let_def]
  have same: ?thesis if "table' = table" using that assms(2) by blast
  have step: ?thesis if "stepped deadline table next1 = Inr (table', o1)" "\<And>s. next1 = Inr s \<Longrightarrow> hand_step (ah_State hand) s"
    for next1 o1
    using stepped_keeps [OF that(1) assms(2)] that(2) by blast
  show ?thesis
  proof (cases "st_Phase (ah_State hand)")
    case StreetCommitment
    then show ?thesis
      using adv same step [of "Inr ((ah_State hand)\<lparr>st_Phase := StreetReveal\<rparr>)"] hand_step.reveal
      by (auto split: if_splits)
  next
    case StreetReveal
    then show ?thesis
      using adv same finish_reveal_keeps [OF _ assms(2), of deadline table' outcome] hand_step.deliver [OF StreetReveal]
      by (auto split: if_splits)
  next
    case StreetPrivateDelivery
    then show ?thesis
      using adv same step [of "ActivateHoldemHand (ah_State hand)"] hand_step.activate by (auto split: if_splits)
  next
    case StreetFlopReveal
    then show ?thesis
      using adv same step hand_step.board by (auto split: if_splits option.splits)
  next
    case StreetTurnReveal
    then show ?thesis
      using adv same step hand_step.board by (auto split: if_splits option.splits)
  next
    case StreetRiverReveal
    then show ?thesis
      using adv same step hand_step.board by (auto split: if_splits option.splits)
  next
    case StreetShowdownReveal
    then show ?thesis
      using adv same step hand_step.showdown by (auto split: if_splits sum.splits)
  qed (use adv same in auto)
qed

text \<open>A daemon contributes only to a slot that is still empty.\<close>

abbreviation free_slot :: "nativeActiveHand \<Rightarrow> HandTranscriptRecord \<Rightarrow> bool" where
  "free_slot hand r \<equiv> participant r \<and> find (same_slot r) (ht_Records (hand_transcript hand)) = None"

lemmas slot_simps = seat_record_def empty_record_def participant_def participant_kinds_def same_slot_def slot_phase_def
  findTranscriptRecord_def fairnessRevealForSeat_def transcriptHasBoardOpen_def kind_defs Let_def

lemma commit_slot: "commit_contribution table hand seat secrets = Inr (Some r) \<Longrightarrow> free_slot hand r"
  by (auto simp: commit_contribution_def slot_simps split: sum.splits if_splits)

lemma reveal_slot: "reveal_contribution table hand seat secrets = Inr (Some r) \<Longrightarrow> free_slot hand r"
  by (auto simp: reveal_contribution_def slot_simps split: option.splits sum.splits if_splits)

lemma delivery_slot: "delivery_contribution table hand seat secrets = Inr (Some r) \<Longrightarrow> free_slot hand r"
  by (auto simp: delivery_contribution_def slot_simps split: sum.splits if_splits)

lemma board_slot:
  assumes "board_contribution table hand seat secrets = Inr (Some r)"
  shows "free_slot hand r"
  using assms by (auto simp: board_contribution_def slot_simps split: option.splits sum.splits if_splits)

lemma showdown_slot: "showdown_contribution hand seat secrets = Inr (Some r) \<Longrightarrow> free_slot hand r"
  by (auto simp: showdown_contribution_def slot_simps split: option.splits sum.splits if_splits)

lemma contribution_slot:
  assumes "buildLocalContributionRecord ensured wallet table = Inr (Some r)" "ts_ActiveHand table = Some hand"
  shows "free_slot hand r"
proof -
  obtain seat secrets where "seatRecordForPlayer table wallet = Some seat" "ensured = Inr (Some secrets)"
    using assms by (auto simp: buildLocalContributionRecord_def split: option.splits sum.splits)
  then show ?thesis
    using assms commit_slot reveal_slot delivery_slot board_slot showdown_slot
    by (cases "st_Phase (ah_State hand)") (auto simp: buildLocalContributionRecord_def)
qed

section \<open>Reachable tables\<close>

lemma started_hand:
  assumes "start_next_hand elapsed later deadline handID table0 = Inr (Some table)"
    and "c = next_hand_config handID (reactivateContinuingSeatsForNextHand (releaseCompletedActiveHandForNextStart table0))"
  shows "\<exists>hand. ts_ActiveHand table = Some hand \<and> CreateHoldemHand c = Inr (ah_State hand)
    \<and> ht_Records (hand_transcript hand) = [] \<and> ht_RootHash (hand_transcript hand) = []"
proof -
  have "next_hand_config handID (t\<lparr>ts_ActiveHandStartAt := x\<rparr>) = next_hand_config handID t" for t x
    by (simp add: next_hand_config_def start_chips_def latestCommittedHandNumber_def Let_def split: option.split)
  then show ?thesis
    using assms by (auto simp: start_next_hand_def Let_def new_hand_cards_def split: if_splits sum.splits)
qed

definition hand_consistent :: "HoldemHandConfig \<Rightarrow> nativeTableState \<Rightarrow> bool" where
  "hand_consistent c table \<longleftrightarrow> (\<exists>hand. ts_ActiveHand table = Some hand \<and> reachable c (ah_State hand)
     \<and> transcript_ok (hand_transcript hand))"

lemma host_step_consistent:
  assumes "host_step curve self table table'" "hand_consistent c table"
  shows "hand_consistent c table'"
proof -
  obtain hand where hand: "ts_ActiveHand table = Some hand" "reachable c (ah_State hand)" "transcript_ok (hand_transcript hand)"
    using assms(2) by (auto simp: hand_consistent_def)
  have grow: "hand_consistent c (table\<lparr>ts_ActiveHand := Some (set_transcript (extended (hand_transcript hand) r) hand)\<rparr>)"
    if "participant r \<longrightarrow> find (same_slot r) (ht_Records (hand_transcript hand)) = None" for r
    using hand extended_ok [OF hand(3) that] by (simp add: hand_consistent_def)
  have act: "hand_consistent c (set_state s table)" if "hand_step (ah_State hand) s" for s
    using hand reachable.step [OF hand(2) that] by (simp add: hand_consistent_def)
  show ?thesis using assms(1)
  proof cases
    case (message m receipt)
    then show ?thesis
    proof (cases rule: accept_cases)
      case (new hand' seat r key)
      then have "findParticipantHandMessageSlotRecord (hand_transcript hand) r = Inr None" "hand' = hand"
        using hand(1) by auto
      then show ?thesis using new(7) grow [of r] slot_lookup_iff [of r "hand_transcript hand"] by auto
    qed (use assms(2) in simp)
  next
    case (own ensured wallet r)
    then show ?thesis using contribution_slot [OF own(1) hand(1)] grow [of r] append_hand [OF hand(1), of r] by simp
  next
    case (phase deadline outcome)
    obtain hand' where hand': "ts_ActiveHand table' = Some hand'"
      "ah_State hand' = ah_State hand \<or> hand_step (ah_State hand) (ah_State hand')"
      "hand_transcript hand' = hand_transcript hand
       \<or> (\<exists>r. \<not> participant r \<and> hand_transcript hand' = extended (hand_transcript hand) r)"
      using advance_keeps [OF phase hand(1)] by blast
    then have "reachable c (ah_State hand')" "transcript_ok (hand_transcript hand')"
      using hand(2,3) reachable.step extended_ok [OF hand(3)] by auto
    then show ?thesis using hand'(1) by (simp add: hand_consistent_def)
  next
    case (action hand' seat a s)
    then show ?thesis using act hand_step.act hand(1) by simp
  next
    case (fold_seat hand' seat s)
    then show ?thesis using act hand_step.force_fold hand(1) by simp
  qed
qed

text \<open>C10. The host's table is a refinement of the hand engine. From the moment \<open>startNextHandLocked\<close> creates a hand,
  whatever hand messages the host accepts, records it contributes itself, phases it advances, actions it
  applies and seats it folds, in any order: the table's hand is one the engine reaches from the configuration
  of that hand, the transcript replays to its stored root, and no two records fill the same slot.\<close>

theorem host_table_refines_engine:
  assumes "host_reachable curve self c table"
  shows "\<exists>hand. ts_ActiveHand table = Some hand \<and> reachable c (ah_State hand)
    \<and> ReplayTranscriptRoot (hand_transcript hand) = Inr (ht_RootHash (hand_transcript hand))
    \<and> sorted_wrt (\<lambda>earlier later. participant later \<longrightarrow> \<not> same_slot later earlier) (ht_Records (hand_transcript hand))"
proof -
  have "hand_consistent c table"
    using assms
  proof (induction rule: host_reachable.induct)
    case (start elapsed later deadline handID table0 table)
    obtain hand where hand: "ts_ActiveHand table = Some hand" "CreateHoldemHand c = Inr (ah_State hand)"
      "ht_Records (hand_transcript hand) = []" "ht_RootHash (hand_transcript hand) = []"
      using started_hand [OF start] by blast
    then have "transcript_ok (hand_transcript hand)" by (simp add: transcript_ok_def ReplayTranscriptRoot_def)
    then show ?case using hand reachable.create by (auto simp: hand_consistent_def)
  next
    case (step table table')
    then show ?case using host_step_consistent by blast
  qed
  then show ?thesis by (auto simp: hand_consistent_def transcript_ok_def)
qed

end
