(* ===== verification/Hand_Delivery.thy ===== *)
theory Hand_Delivery
  imports Hand_Truth Hand_Lifecycle
begin

text \<open>
  The way of a contribution from a seat to the transcript: the record a seat builds, the signed message that
  carries it, the host's checks, and the record in the transcript, after which the phase no longer
  waits for the seat.
\<close>

section \<open>Signed messages are accepted\<close>

text \<open>A wallet created from a seed, seated with its public key at the table whose host is \<open>self\<close>.\<close>

definition seated ::
    "('sk, 'pk) secp256k1 \<Rightarrow> LocalIdentity \<Rightarrow> string \<Rightarrow> nativeTableState \<Rightarrow> nativeSeatRecord \<Rightarrow> bool" where
  "seated curve wallet self table seat \<longleftrightarrow>
     curve_laws curve \<and> (\<exists>random seedHex. seedHex \<noteq> [] \<and> CreateLocalIdentity curve random seedHex = Inr wallet)
     \<and> pa_PeerID (kn_Peer (ts_CurrentHost table)) = self
     \<and> seatRecordForPlayer table (li_PlayerID wallet) = Some seat \<and> se_WalletPubkeyHex seat = li_PublicKeyHex wallet"

lemma auth_payload_text: "\<exists>text. StableStringify (nativeHandMessageAuthPayload m) = Inr text"
proof -
  have "StableStringify (nativeHandMessageAuthPayload m) = Inr (json_text (canonicalizeValue (nativeHandMessageAuthPayload m)))"
    unfolding nativeHandMessageAuthPayload_def
    by (intro numbers_any_map)
      (auto simp: set_string_def set_list_def list_all_iff option.pred_map option.pred_True comp_def)
  then show ?thesis ..
qed

lemma record_key_ok: "\<exists>key. handMessageRecordKey a b n r = Inr key"
proof -
  have "StableStringify (handMessageRecordPayload a b n r) = Inr (json_text (canonicalizeValue (handMessageRecordPayload a b n r)))"
    unfolding handMessageRecordPayload_def
    by (intro numbers_any_map)
      (auto simp: set_string_def set_list_def list_all_iff option.pred_map option.pred_True comp_def)
  then show ?thesis by (simp add: handMessageRecordKey_def HashStructuredDataHex_def)
qed

lemma verify_needs_signature: "VerifyStructuredData curve pub v [] \<noteq> Inr True"
proof -
  have "DecodeString [] = Inr []" by code_simp
  then show ?thesis
    by (auto simp: VerifyStructuredData_def verify_digest_def parseCompactSignature_def split: sum.splits)
qed

lemma wallet_signs:
  assumes "seated curve wallet self table seat"
  shows "\<exists>sig. SignStructuredData curve random (li_PrivateKeyHex wallet) (nativeHandMessageAuthPayload m) = Inr sig
    \<and> VerifyStructuredData curve (se_WalletPubkeyHex seat) (nativeHandMessageAuthPayload m) sig = Inr True \<and> sig \<noteq> []"
proof -
  obtain random' seedHex where w: "seedHex \<noteq> []" "CreateLocalIdentity curve random' seedHex = Inr wallet"
    and s: "curve_laws curve" "se_WalletPubkeyHex seat = li_PublicKeyHex wallet"
    using assms by (auto simp: seated_def)
  obtain sk where key: "privateKeyAndPublicKeyHex curve random' seedHex = Inr (li_PrivateKeyHex wallet, sk, li_PublicKeyHex wallet)"
    using local_identityD [OF w(2)] .
  have "li_PrivateKeyHex wallet \<noteq> []" using seed_kept [OF key w(1)] w(1) by simp
  then obtain sig where "SignStructuredData curve random (li_PrivateKeyHex wallet) (nativeHandMessageAuthPayload m) = Inr sig"
    "VerifyStructuredData curve (li_PublicKeyHex wallet) (nativeHandMessageAuthPayload m) sig = Inr True"
    using sign_then_verify [OF s(1) key] auth_payload_text [of m]
    by (fastforce simp: SignStructuredData_def VerifyStructuredData_def)
  then show ?thesis using verify_needs_signature s(2) by metis
qed

text \<open>A record that has not been sealed yet, as a seat builds it.\<close>

definition unsealed :: "HandTranscriptRecord \<Rightarrow> bool" where
  "unsealed r \<longleftrightarrow> hr_Index r = 0 \<and> hr_Reason r = [] \<and> hr_StepHash r = [] \<and> hr_RootHash r = []"

lemma auth_ignores_signature: "nativeHandMessageAuthPayload (m\<lparr>hm_SignatureHex := sig\<rparr>) = nativeHandMessageAuthPayload m"
  by (simp add: nativeHandMessageAuthPayload_def)

lemma signed_message:
  assumes "seated curve wallet self table seat" "ts_ActiveHand table = Some hand" "unsealed r"
    "hr_PlayerID r = se_PlayerID seat" "hr_SeatIndex r = Some (se_SeatIndex seat)"
  obtains m where "buildSignedHandMessageRequest curve random now wallet profile table r = Inr m"
    "transcriptRecordFromHandMessage m = Inr r" "hm_Epoch m = ts_CurrentEpoch table" "hm_SignedAt m = now"
    "hm_PlayerID m = li_PlayerID wallet" "hm_SeatIndex m = se_SeatIndex seat" "hm_ProtocolVersion m = nativeProtocolVersion"
    "hm_TableID m = tc_TableID (ts_Config table)" "hm_HandID m = st_HandID (ah_State hand)"
    "hm_HandNumber m = st_HandNumber (ah_State hand)" "hm_SignatureHex m \<noteq> []"
    "VerifyStructuredData curve (se_WalletPubkeyHex seat) (nativeHandMessageAuthPayload m) (hm_SignatureHex m) = Inr True"
    "hm_CommitmentHash m = hr_CommitmentHash r" "hm_ShuffleSeedHex m = hr_ShuffleSeedHex r"
    "hm_LockPublicExponentHex m = hr_LockPublicExponentHex r"
proof -
  have seat: "seatRecordForPlayer table (li_PlayerID wallet) = Some seat" using assms(1) by (simp add: seated_def)
  then have player: "se_PlayerID seat = li_PlayerID wallet"
    by (auto simp: seatRecordForPlayer_def find_Some_iff)
  define m0 where "m0 = \<lparr>hm_CardPositions = hr_CardPositions r, hm_Cards = handMessageCards (hr_Cards r),
     hm_CommitmentHash = hr_CommitmentHash r, hm_DeckStage = hr_DeckStage r, hm_DeckStageRoot = hr_DeckStageRoot r,
     hm_Epoch = ts_CurrentEpoch table, hm_HandID = st_HandID (ah_State hand), hm_HandNumber = st_HandNumber (ah_State hand),
     hm_Kind = hr_Kind r, hm_LockPublicExponentHex = hr_LockPublicExponentHex r,
     hm_PartialCiphertexts = hr_PartialCiphertexts r, hm_Phase = hr_Phase r, hm_PlayerID = li_PlayerID wallet,
     hm_ProfileName = profile, hm_ProtocolVersion = nativeProtocolVersion,
     hm_RecipientSeatIndex = copyOptionalInt (hr_RecipientSeatIndex r), hm_SeatIndex = se_SeatIndex seat,
     hm_ShuffleSeedHex = hr_ShuffleSeedHex r, hm_SignatureHex = [], hm_SignedAt = now,
     hm_TableID = tc_TableID (ts_Config table)\<rparr>"
  obtain sig where sig: "SignStructuredData curve random (li_PrivateKeyHex wallet) (nativeHandMessageAuthPayload m0) = Inr sig"
    "VerifyStructuredData curve (se_WalletPubkeyHex seat) (nativeHandMessageAuthPayload m0) sig = Inr True" "sig \<noteq> []"
    using wallet_signs [OF assms(1)] by blast
  let ?m = "m0\<lparr>hm_SignatureHex := sig\<rparr>"
  have build: "buildSignedHandMessageRequest curve random now wallet profile table r = Inr ?m"
    using sig(1) by (simp add: buildSignedHandMessageRequest_def seat assms(2) Let_def m0_def)
  have rebuilt: "transcriptRecordFromHandMessage ?m = Inr r"
    using assms(3-5) player
    by (cases r) (auto simp: transcriptRecordFromHandMessage_def decodeCardCodes_def empty_record_def m0_def Let_def
        handMessageCards_def unsealed_def)
  have verify: "VerifyStructuredData curve (se_WalletPubkeyHex seat) (nativeHandMessageAuthPayload ?m) (hm_SignatureHex ?m) = Inr True"
    using sig(2) by (simp add: auth_ignores_signature)
  show thesis
    by (rule that [OF build rebuilt]) (use verify sig(3) in \<open>simp_all add: m0_def\<close>)
qed

lemma version_trimmed: "TrimSpace nativeProtocolVersion = nativeProtocolVersion"
  by code_simp

lemma signed_message_accepted:
  assumes "seated curve wallet self table seat" "ts_ActiveHand table = Some hand" "unsealed r"
    "hr_PlayerID r = se_PlayerID seat" "hr_SeatIndex r = Some (se_SeatIndex seat)"
    and "st_HandID (ah_State hand) \<noteq> []" "now \<noteq> []" "validateTranscriptRecordPlaintext r = Inr ()"
    and "participant r" "find (same_slot r) (ht_Records (hand_transcript hand)) = None"
    and new: "\<And>m. transcriptRecordFromHandMessage m = Inr r \<Longrightarrow> hm_Epoch m = ts_CurrentEpoch table \<Longrightarrow>
      hm_CommitmentHash m = hr_CommitmentHash r \<Longrightarrow> hm_ShuffleSeedHex m = hr_ShuffleSeedHex r \<Longrightarrow>
      hm_LockPublicExponentHex m = hr_LockPublicExponentHex r \<Longrightarrow> validateNewHandMessageRequest table seat m r = Inr ()"
  shows "\<exists>m key. buildSignedHandMessageRequest curve random now wallet profile table r = Inr m
    \<and> accept_hand_message curve self table m =
        Inr (table\<lparr>ts_ActiveHand := Some (set_transcript (extended (hand_transcript hand) r) hand)\<rparr>,
          \<lparr>rc_AcceptedTranscriptRoot = hr_RootHash (seal (hand_transcript hand) r), rc_Duplicate = False, rc_RecordKey = key\<rparr>)"
proof -
  obtain m where m: "buildSignedHandMessageRequest curve random now wallet profile table r = Inr m"
    "transcriptRecordFromHandMessage m = Inr r" "hm_Epoch m = ts_CurrentEpoch table" "hm_SignedAt m = now"
    "hm_PlayerID m = li_PlayerID wallet" "hm_SeatIndex m = se_SeatIndex seat" "hm_ProtocolVersion m = nativeProtocolVersion"
    "hm_TableID m = tc_TableID (ts_Config table)" "hm_HandID m = st_HandID (ah_State hand)"
    "hm_HandNumber m = st_HandNumber (ah_State hand)" "hm_SignatureHex m \<noteq> []"
    "VerifyStructuredData curve (se_WalletPubkeyHex seat) (nativeHandMessageAuthPayload m) (hm_SignatureHex m) = Inr True"
    "hm_CommitmentHash m = hr_CommitmentHash r" "hm_ShuffleSeedHex m = hr_ShuffleSeedHex r"
    "hm_LockPublicExponentHex m = hr_LockPublicExponentHex r"
    by (rule signed_message [OF assms(1-5)])
  have seat: "seatRecordForPlayer table (li_PlayerID wallet) = Some seat"
    and self: "pa_PeerID (kn_Peer (ts_CurrentHost table)) = self" using assms(1) by (simp_all add: seated_def)
  then have player: "se_PlayerID seat = li_PlayerID wallet" by (auto simp: seatRecordForPlayer_def find_Some_iff)
  have "validateHandMessageRequestIdentity curve table seat m = Inr r"
    using m assms(2,6-8) player by (simp add: validateHandMessageRequestIdentity_def version_trimmed)
  moreover obtain key where "handMessageRecordKey (hm_TableID m) (hm_HandID m) (hm_HandNumber m) r = Inr key"
    using record_key_ok by blast
  moreover have "findParticipantHandMessageSlotRecord (hand_transcript hand) r = Inr None"
    using slot_lookup_iff [OF assms(9)] assms(10) by simp
  moreover have "validateNewHandMessageRequest table seat m r = Inr ()" by (rule new) (use m in auto)
  ultimately have "accept_hand_message curve self table m =
        Inr (table\<lparr>ts_ActiveHand := Some (set_transcript (extended (hand_transcript hand) r) hand)\<rparr>,
          \<lparr>rc_AcceptedTranscriptRoot = hr_RootHash (seal (hand_transcript hand) r), rc_Duplicate = False, rc_RecordKey = key\<rparr>)"
    using m seat self assms(2)
    by (simp add: accept_hand_message_def append_hand handTranscriptRoot_def extended_def)
  then show ?thesis using m(1) by blast
qed

section \<open>Honest shares\<close>

text \<open>The share of a seat with a generated key: right entries, written in the canonical form.\<close>

lemma honest_partials:
  assumes "key_ok k" "stage_ok deck" "list_all (\<lambda>p. 0 \<le> p \<and> p < int (length deck)) positions"
  shows "\<exists>partials. decrypt_positions deck (kp_PrivateExponentHex k) positions = Inr partials
    \<and> list_all2 (share_entry deck (kp_PrivateExponentHex k)) positions partials \<and> list_all canonical_text partials"
  using assms(3)
proof (induction positions)
  case (Cons position positions)
  then obtain partials where rest: "decrypt_positions deck (kp_PrivateExponentHex k) positions = Inr partials"
    "list_all2 (share_entry deck (kp_PrivateExponentHex k)) positions partials" "list_all canonical_text partials" by auto
  have range: "0 \<le> position" "position < int (length deck)" using Cons.prems by simp_all
  obtain w where w: "residue w" "deck ! nat position = mental_text w" by (rule stage_nth [OF assms(2) range])
  let ?v = "w ^ nat (exponent (kp_PrivateExponentHex k)) mod mentalPrime"
  have v: "decodeMentalValue (mental_text ?v) = Inr ?v" using residue_power [OF w(1)] by simp
  have "go_index deck position = Inr (mental_text w)" using range w(2) by (simp add: go_index_def)
  moreover have "share_entry deck (kp_PrivateExponentHex k) position (mental_text ?v)"
    using range w(2) decrypt_entry [OF assms(1) w(1)] by (simp add: share_entry_def)
  moreover have "canonical_text (mental_text ?v)" using canonical_iff [OF v] by simp
  ultimately show ?case using rest decrypt_entry [OF assms(1) w(1)] by simp
qed simp

lemma dealt_length: "hand_dealt hand seats reveals \<Longrightarrow> holds_key hand 0 k0 \<Longrightarrow> holds_key hand 1 k1
    \<Longrightarrow> length (hd_FinalDeck (ah_Cards hand)) = 52"
  by (simp add: dealt_deck(1) final_order_props)

text \<open>The positions a share covers lie in the deck.\<close>

lemma required_positions:
  assumes "ts_ActiveHand table = Some hand" "st_DealerSeatIndex (ah_State hand) \<in> {0, 1}"
    and "phase = StreetPrivateDelivery \<or> is_board_reveal phase"
  shows "\<exists>positions. requiredCardPositionsForPhase table phase seat = Inr positions
    \<and> list_all (\<lambda>p. 0 \<le> p \<and> p < 52) positions"
proof -
  have "holdEmPlanFromTable table = Inr (deal_plan (st_DealerSeatIndex (ah_State hand)))"
    using deal_plan [OF assms(2)] by (simp add: holdEmPlanFromTable_def assms(1))
  then show ?thesis
    using assms(3) by (auto simp: requiredCardPositionsForPhase_def is_board_reveal_def Let_def deal_plan_def)
qed

text \<open>The share a seat contributes in a phase: hole cards go to the other seat, board cards to both.\<close>

definition share_of :: "nativeActiveHand \<Rightarrow> nativeSeatRecord \<Rightarrow> string list \<Rightarrow> int list \<Rightarrow> HandTranscriptRecord" where
  "share_of hand seat partials positions =
     (let phase = st_Phase (ah_State hand) in
      if phase = StreetPrivateDelivery
      then (seat_record nativeHandMessagePrivateDelivery phase seat)\<lparr>hr_CardPositions := positions,
        hr_PartialCiphertexts := partials, hr_RecipientSeatIndex := Some (otherSeatIndex (se_SeatIndex seat))\<rparr>
      else (seat_record nativeHandMessageBoardShare phase seat)\<lparr>hr_CardPositions := positions,
        hr_PartialCiphertexts := partials\<rparr>)"

definition share_seat :: "nativeActiveHand \<Rightarrow> nativeSeatRecord \<Rightarrow> int" where
  "share_seat hand seat =
     (if st_Phase (ah_State hand) = StreetPrivateDelivery then otherSeatIndex (se_SeatIndex seat) else se_SeatIndex seat)"

abbreviation share_phase :: "nativeActiveHand \<Rightarrow> bool" where
  "share_phase hand \<equiv> st_Phase (ah_State hand) = StreetPrivateDelivery \<or> is_board_reveal (st_Phase (ah_State hand))"

lemma share_of_transcript [simp]: "share_of (set_transcript t hand) = share_of hand"
  by (simp add: share_of_def fun_eq_iff)

lemma missing_share_iff:
  assumes "ts_ActiveHand table = Some hand" "share_phase hand" "seat \<in> set (ts_Seats table)"
  shows "se_SeatIndex seat \<in> set (missingProtocolSeatIndexes table)
    \<longleftrightarrow> find (same_slot (share_of hand seat partials positions)) (ht_Records (hand_transcript hand)) = None"
  using assms
  by (auto simp: missingProtocolSeatIndexes_def missingProtocolSeatIndexesForPhase_def missing_records_def is_board_reveal_def
      runtimeSeatIndexes_def share_of_def slot_simps)

lemma share_fields:
  "unsealed (share_of hand seat partials positions)"
  "hr_PlayerID (share_of hand seat partials positions) = se_PlayerID seat"
  "hr_SeatIndex (share_of hand seat partials positions) = Some (se_SeatIndex seat)"
  "validateTranscriptRecordPlaintext (share_of hand seat partials positions) = Inr ()"
  "participant (share_of hand seat partials positions)"
  "same_slot (share_of hand seat partials positions) (share_of hand seat partials positions)"
  by (auto simp: share_of_def unsealed_def validateTranscriptRecordPlaintext_def slot_simps record_matches_def)

lemma share_built:
  assumes "ts_ActiveHand table = Some hand" "seatRecordForPlayer table player = Some seat" "share_phase hand"
    and "find (same_slot (share_of hand seat partials positions)) (ht_Records (hand_transcript hand)) = None"
    and "requiredCardPositionsForPhase table (st_Phase (ah_State hand)) (share_seat hand seat) = Inr positions"
    and "decrypt_positions (hd_FinalDeck (ah_Cards hand)) (ls_LockPrivateExponentHex secrets) positions = Inr partials"
  shows "buildLocalContributionRecord (Inr (Some secrets)) player table = Inr (Some (share_of hand seat partials positions))"
proof (cases "st_Phase (ah_State hand) = StreetPrivateDelivery")
  case True
  then show ?thesis
    using assms by (simp add: buildLocalContributionRecord_def delivery_contribution_def share_of_def share_seat_def slot_simps)
next
  case False
  then show ?thesis
    using assms
    by (auto simp: buildLocalContributionRecord_def board_contribution_def share_of_def share_seat_def slot_simps is_board_reveal_def)
qed

lemma share_validates:
  assumes "ts_ActiveHand table = Some hand" "share_phase hand" "hm_Epoch m = ts_CurrentEpoch table"
    and "transcriptRecordFromHandMessage m = Inr (share_of hand seat partials positions)"
    and "requiredCardPositionsForPhase table (st_Phase (ah_State hand)) (share_seat hand seat) = Inr positions"
    and "verifyPartialCiphertexts (hd_FinalDeck (ah_Cards hand)) positions partials (se_SeatIndex seat) (Some hand) = Inr ()"
  shows "validateNewHandMessageRequest table seat m (share_of hand seat partials positions) = Inr ()"
  using message_record [OF assms(4)] assms(1-3,5,6)
  by (cases "st_Phase (ah_State hand) = StreetPrivateDelivery")
    (auto simp: validateNewHandMessageRequest_def check_new_delivery_def check_new_board_share_def check_new_share_def share_of_def
      share_seat_def slot_simps deref_def)

lemma seated_seat: "seated curve wallet self table seat \<Longrightarrow>
    seat \<in> set (ts_Seats table) \<and> seatRecordForPlayer table (li_PlayerID wallet) = Some seat"
  by (auto simp: seated_def seatRecordForPlayer_def find_Some_iff)

lemma honest_share_accepted:
  assumes "seated curve wallet self table seat" and "ts_ActiveHand table = Some hand"
    and "hand_dealt hand (ts_Seats table) reveals" and "holds_key hand 0 (key (0 :: int))" and "holds_key hand 1 (key 1)"
    and "st_DealerSeatIndex (ah_State hand) \<in> {0, 1}" and "st_HandID (ah_State hand) \<noteq> []" and "now \<noteq> []"
    and "st_Phase (ah_State hand) = StreetPrivateDelivery \<or> is_board_reveal (st_Phase (ah_State hand))"
    and "se_SeatIndex seat \<in> set (missingProtocolSeatIndexes table)"
    and "ls_LockPrivateExponentHex secrets = kp_PrivateExponentHex (key (se_SeatIndex seat))"
  shows "\<exists>r m table' receipt. buildLocalContributionRecord (Inr (Some secrets)) (li_PlayerID wallet) table = Inr (Some r)
    \<and> buildSignedHandMessageRequest curve random now wallet profile table r = Inr m
    \<and> accept_hand_message curve self table m = Inr (table', receipt) \<and> \<not> rc_Duplicate receipt
    \<and> se_SeatIndex seat \<notin> set (missingProtocolSeatIndexes table')"
proof -
  let ?i = "se_SeatIndex seat" and ?deck = "hd_FinalDeck (ah_Cards hand)"
  note seat = seated_seat [OF assms(1)]
  have "map se_SeatIndex (ts_Seats table) = [0, 1]" using assms(3) unfolding hand_dealt_def by (rule conjunct1)
  then have "se_SeatIndex ` set (ts_Seats table) = {0, 1}" by (metis list.set_map list.simps(15) empty_set)
  then have "?i \<in> {0, 1}" using seat by (metis imageI)
  then have "holds_key hand ?i (key ?i)" using assms(4,5) by (metis insertE singletonD)
  then have held: "key_ok (key ?i)" "publicExponentForSeat (Some hand) ?i = Some (kp_PublicExponentHex (key ?i))"
    using holds_keyD by blast+
  have deck: "stage_ok ?deck" "length ?deck = 52" using dealt_deck(2) [OF assms(3-5)] dealt_length [OF assms(3-5)] .
  obtain positions where pos: "requiredCardPositionsForPhase table (st_Phase (ah_State hand)) (share_seat hand seat) = Inr positions"
    "list_all (\<lambda>p. 0 \<le> p \<and> p < 52) positions"
    using required_positions [OF assms(2,6,9)] by blast
  then obtain partials where part: "decrypt_positions ?deck (kp_PrivateExponentHex (key ?i)) positions = Inr partials"
    "list_all2 (share_entry ?deck (kp_PrivateExponentHex (key ?i))) positions partials"
    using honest_partials [OF held(1) deck(1)] deck(2) by auto
  have verify: "verifyPartialCiphertexts ?deck positions partials ?i (Some hand) = Inr ()"
    using check_partials_iff [OF held(1) deck(1) list_all2_lengthD [OF part(2)]] part(2) held(2) list_all2_lengthD [OF part(2)]
    by (simp add: verifyPartialCiphertexts_def)
  let ?r = "share_of hand seat partials positions" and ?t = "hand_transcript hand"
  have free: "find (same_slot ?r) (ht_Records ?t) = None"
    using missing_share_iff [OF assms(2,9)] seat assms(10) by blast
  have built: "buildLocalContributionRecord (Inr (Some secrets)) (li_PlayerID wallet) table = Inr (Some ?r)"
    using share_built [OF assms(2) _ assms(9) free pos(1)] seat part(1) assms(11) by simp
  have new: "validateNewHandMessageRequest table seat m ?r = Inr ()"
    if "transcriptRecordFromHandMessage m = Inr ?r" "hm_Epoch m = ts_CurrentEpoch table" for m
    by (rule share_validates [OF assms(2,9) that(2,1) pos(1) verify])
  obtain m key where m: "buildSignedHandMessageRequest curve random now wallet profile table ?r = Inr m"
    "accept_hand_message curve self table m =
        Inr (table\<lparr>ts_ActiveHand := Some (set_transcript (extended ?t ?r) hand)\<rparr>,
          \<lparr>rc_AcceptedTranscriptRoot = hr_RootHash (seal ?t ?r), rc_Duplicate = False, rc_RecordKey = key\<rparr>)"
    using signed_message_accepted [OF assms(1,2) share_fields(1-3) assms(7,8) share_fields(4,5) free new] by blast
  define table' where "table' = table\<lparr>ts_ActiveHand := Some (set_transcript (extended ?t ?r) hand)\<rparr>"
  have "find (same_slot ?r) (ht_Records (extended ?t ?r)) \<noteq> None"
    using share_fields(6) by (simp add: extended_def find_append free)
  then have "?i \<notin> set (missingProtocolSeatIndexes table')"
    using missing_share_iff [of table' "set_transcript (extended ?t ?r) hand" seat partials positions] seat assms(9)
    by (simp add: table'_def)
  moreover have "accept_hand_message curve self table m = Inr (table', \<lparr>rc_AcceptedTranscriptRoot = hr_RootHash (seal ?t ?r),
      rc_Duplicate = False, rc_RecordKey = key\<rparr>)"
    using m(2) by (simp only: table'_def)
  ultimately show ?thesis using built m(1) by (intro exI conjI) (assumption | simp)+
qed

text \<open>C13. A seat that follows the protocol is never blocked. In a two-seat hand whose deck is the replay of the
  seats' reveals, both with generated keys, a seat that still owes its hole card or board share builds one
  from its secrets, signs it, the host accepts it as a new record, and the phase no longer waits for the
  seat. No step of the way can fail, whatever else the transcript holds.\<close>

theorem honest_share_is_accepted:
  assumes "seated curve wallet self table seat" and "ts_ActiveHand table = Some hand"
    and "hand_dealt hand (ts_Seats table) reveals" and "holds_key hand 0 (key (0 :: int))" and "holds_key hand 1 (key 1)"
    and "st_DealerSeatIndex (ah_State hand) \<in> {0, 1}" and "st_HandID (ah_State hand) \<noteq> []" and "now \<noteq> []"
    and "st_Phase (ah_State hand) = StreetPrivateDelivery \<or> is_board_reveal (st_Phase (ah_State hand))"
    and "se_SeatIndex seat \<in> set (missingProtocolSeatIndexes table)"
    and "ls_LockPrivateExponentHex secrets = kp_PrivateExponentHex (key (se_SeatIndex seat))"
  shows "\<exists>r m table' receipt. buildLocalContributionRecord (Inr (Some secrets)) (li_PlayerID wallet) table = Inr (Some r)
    \<and> buildSignedHandMessageRequest curve random now wallet profile table r = Inr m
    \<and> accept_hand_message curve self table m = Inr (table', receipt) \<and> \<not> rc_Duplicate receipt
    \<and> se_SeatIndex seat \<notin> set (missingProtocolSeatIndexes table')"
  by (rule honest_share_accepted [OF assms])

end
