(* ===== verification/Turn_Locks.thy ===== *)
theory Turn_Locks
  imports Turn_Selection Hand_Delivery
begin

text \<open>
  What a locked selection is worth: after the host has locked a candidate, no other candidate of the turn can be
  locked and the player cannot be timed out.
\<close>

text \<open>Nothing the checks of a selection read depends on the lock.\<close>

definition lock_menu :: "string \<Rightarrow> SelectionAuth \<Rightarrow> NativeTurnCandidateBundle \<Rightarrow> string \<Rightarrow> string \<Rightarrow> PendingTurnMenuPublic \<Rightarrow> PendingTurnMenuPublic" where
  "lock_menu hash auth bundle at deadline menu = menu
     \<lparr>tm_SelectedCandidateHash := hash, tm_SelectionAuth := Some auth, tm_LockedAt := at,
      tm_SettlementDeadlineAt := deadline, tm_SelectedBundle := Some bundle, tm_SettledRequest := None\<rparr>"

lemma locked_simps [simp]:
  "tm_SelectedCandidateHash (lock_menu hash auth bundle at deadline menu) = hash"
  "tm_SelectionAuth (lock_menu hash auth bundle at deadline menu) = Some auth"
  "tm_SelectedBundle (lock_menu hash auth bundle at deadline menu) = Some bundle"
  "tm_SettledRequest (lock_menu hash auth bundle at deadline menu) = None"
  "tm_ActionDeadlineAt (lock_menu hash auth bundle at deadline menu) = tm_ActionDeadlineAt menu"
  "tm_TurnAnchorHash (lock_menu hash auth bundle at deadline menu) = tm_TurnAnchorHash menu"
  "tm_Epoch (lock_menu hash auth bundle at deadline menu) = tm_Epoch menu"
  "tm_Options (lock_menu hash auth bundle at deadline menu) = tm_Options menu"
  "tm_PrevCustodyStateHash (lock_menu hash auth bundle at deadline menu) = tm_PrevCustodyStateHash menu"
  "tm_HandID (lock_menu hash auth bundle at deadline menu) = tm_HandID menu"
  "tm_DecisionIndex (lock_menu hash auth bundle at deadline menu) = tm_DecisionIndex menu"
  "tm_ActingPlayerID (lock_menu hash auth bundle at deadline menu) = tm_ActingPlayerID menu"
  by (simp_all add: lock_menu_def)

lemma with_menu [simp]:
  "seatPlayerID (table\<lparr>ts_PendingTurnMenu := menu\<rparr>) seat = seatPlayerID table seat"
  "acting_player_id (table\<lparr>ts_PendingTurnMenu := menu\<rparr>) hand = acting_player_id table hand"
  "tableHasActionableTurn (table\<lparr>ts_PendingTurnMenu := menu\<rparr>) = tableHasActionableTurn table"
  "seatRecordForPlayer (table\<lparr>ts_PendingTurnMenu := menu\<rparr>) player = seatRecordForPlayer table player"
  "latestCustodyStateHash (table\<lparr>ts_PendingTurnMenu := menu\<rparr>) = latestCustodyStateHash table"
  by (simp_all add: acting_player_id_def seatPlayerID_def tableHasActionableTurn_def seatRecordForPlayer_def
      latestCustodyStateHash_def split: option.split)

lemma with_menu_options [simp]:
  "deriveFiniteMenuOptions hand (table\<lparr>ts_PendingTurnMenu := menu\<rparr>) = deriveFiniteMenuOptions hand table"
  "actionMenuOptionsHashForTable (table\<lparr>ts_PendingTurnMenu := menu\<rparr>) = actionMenuOptionsHashForTable table"
proof -
  show options: "deriveFiniteMenuOptions hand (table\<lparr>ts_PendingTurnMenu := menu\<rparr>) = deriveFiniteMenuOptions hand table" for hand
    by (simp add: deriveFiniteMenuOptions_def actionMenuPolicyForTable_def Let_def split: option.split)
  show "actionMenuOptionsHashForTable (table\<lparr>ts_PendingTurnMenu := menu\<rparr>) = actionMenuOptionsHashForTable table"
    by (simp add: actionMenuOptionsHashForTable_def options split: option.split)
qed

lemma locked_challenge:
  assumes "ts_PendingTurnMenu table = Some menu"
  shows "turnChallengeMatchesTable (table\<lparr>ts_PendingTurnMenu := Some (lock_menu hash auth bundle at deadline menu)\<rparr>)
      challenge = turnChallengeMatchesTable table challenge"
  by (cases challenge; cases "ts_ActiveHand table")
    (simp_all add: turnChallengeMatchesTable_def pendingTurnEpoch_def Let_def assms)

lemma locked_source:
  assumes "ts_PendingTurnMenu table = Some menu"
  shows "turnMenuSourceStateHash (table\<lparr>ts_PendingTurnMenu := Some (lock_menu hash auth bundle at deadline menu)\<rparr>)
      = turnMenuSourceStateHash table"
  by (simp add: turnMenuSourceStateHash_def locked_challenge [OF assms] split: option.split)

lemma locked_anchor:
  assumes "ts_PendingTurnMenu table = Some menu"
  shows "turnAnchorHashForEpoch (table\<lparr>ts_PendingTurnMenu := Some (lock_menu hash auth bundle at deadline menu)\<rparr>) epoch
      = turnAnchorHashForEpoch table epoch"
  using locked_source [OF assms]
  by (simp add: turnAnchorHashForEpoch_def turnAnchorPayloadForEpoch_def split: option.split)

lemma locked_matches:
  assumes "ts_PendingTurnMenu table = Some menu" "turnMenuMatchesTable table (Some menu)"
  shows "turnMenuMatchesTable (table\<lparr>ts_PendingTurnMenu := Some (lock_menu hash auth bundle at deadline menu)\<rparr>)
      (Some (lock_menu hash auth bundle at deadline menu))"
  using assms(2) by (simp add: turnMenuMatchesTable_def locked_source [OF assms(1)] locked_anchor [OF assms(1)] split: option.splits)

lemma locked_auth:
  assumes "ts_PendingTurnMenu table = Some menu"
  shows "verifySelectionAuth curve env (table\<lparr>ts_PendingTurnMenu := Some (lock_menu hash auth bundle at deadline menu)\<rparr>)
      = verifySelectionAuth curve env table"
  by (rule ext) (simp add: verifySelectionAuth_def validateSelectionAuthMetadata_def assms locked_source [OF assms]
      findTurnMenuOptionByCandidateHash_def)

lemma found_hash:
  assumes "findTurnCandidateByHashFromCache menu cache hash = Some bundle"
  shows "tb_CandidateHash bundle = hash"
  using assms
  by (auto simp: findTurnCandidateByHashFromCache_def findTurnCandidateByHash_def find_candidate_def Let_def find_Some_iff
      split: option.splits if_splits)

text \<open>What the host knows once it has locked a candidate.\<close>

lemma lock_candidateE:
  assumes "lock_candidate curve random env self key cache table request = Inr (table', ack)"
  obtains menu expected where "ts_PendingTurnMenu table = Some menu"
    "verifySelectionAuth curve env table (cr_SelectionAuth request) = Inr ()"
    "cr_CandidateHash request = sa_CandidateHash (cr_SelectionAuth request)" "tb_CandidateHash expected = cr_CandidateHash request"
    "TrimSpace (tm_SelectedCandidateHash menu) = [] \<or> tm_SelectedCandidateHash menu = cr_CandidateHash request"
    "buildActionLockedAck curve random self key (cr_SelectionAuth request) (me_Now env) = Inr ack"
    "table' = table\<lparr>ts_PendingTurnMenu := Some (lock_menu (cr_CandidateHash request) (cr_SelectionAuth request) expected (me_Now env)
        (me_Later env (me_Now env) (selectionSettlementTimeoutMSForTable env table)) menu)\<rparr>"
proof -
  obtain menu expected where found: "ts_PendingTurnMenu table = Some menu"
      "findTurnCandidateByHashFromCache (Some menu) cache (cr_CandidateHash request) = Some expected"
    and rest: "verifySelectionAuth curve env table (cr_SelectionAuth request) = Inr ()"
      "cr_CandidateHash request = sa_CandidateHash (cr_SelectionAuth request)"
      "TrimSpace (tm_SelectedCandidateHash menu) = [] \<or> tm_SelectedCandidateHash menu = tb_CandidateHash expected"
      "buildActionLockedAck curve random self key (cr_SelectionAuth request) (me_Now env) = Inr ack"
      "table' = table\<lparr>ts_PendingTurnMenu := Some (lock_menu (tb_CandidateHash expected) (cr_SelectionAuth request) expected (me_Now env)
        (me_Later env (me_Now env) (selectionSettlementTimeoutMSForTable env table)) menu)\<rparr>"
    using assms
    by (auto simp: lock_candidate_def bind_res_ok deref_def lock_menu_def split: if_splits option.splits)
  show ?thesis using that [OF found(1) rest(1,2) found_hash [OF found(2)]] rest(3-5) found_hash [OF found(2)] by simp
qed

lemma verified_auth:
  assumes "verifySelectionAuth curve env table auth = Inr ()" "ts_PendingTurnMenu table = Some menu"
  shows "TrimSpace (sa_CandidateHash auth) \<noteq> []" "sa_ActionDeadlineAt auth = tm_ActionDeadlineAt menu"
    "acceptedBeforeOrAtDeadline env (sa_SignedAt auth) (sa_ActionDeadlineAt auth)"
    "sa_TableID auth = tc_TableID (ts_Config table)" "sa_Epoch auth = tm_Epoch menu" "sa_TurnAnchorHash auth = tm_TurnAnchorHash menu"
  using assms by (auto simp: verifySelectionAuth_def validateSelectionAuthMetadata_def bind_res_ok split: if_splits)

lemma locked_binding:
  assumes "sa_CandidateHash auth = hash" "tb_CandidateHash bundle = hash"
  shows "validateLockedCandidateBinding (Some (lock_menu hash auth bundle at deadline menu)) = Inr ()"
  using assms by (simp add: validateLockedCandidateBinding_def)

lemma lock_is_timely:
  assumes lock: "lock_candidate curve random env self key cache table request = Inr (table', ack)"
    and "turnMenuMatchesTable table (ts_PendingTurnMenu table)"
  shows "hasTimelySelectedCandidate curve env table'"
proof -
  obtain menu expected where l: "ts_PendingTurnMenu table = Some menu"
    "verifySelectionAuth curve env table (cr_SelectionAuth request) = Inr ()"
    "cr_CandidateHash request = sa_CandidateHash (cr_SelectionAuth request)" "tb_CandidateHash expected = cr_CandidateHash request"
    and table': "table' = table\<lparr>ts_PendingTurnMenu := Some (lock_menu (cr_CandidateHash request) (cr_SelectionAuth request) expected
        (me_Now env) (me_Later env (me_Now env) (selectionSettlementTimeoutMSForTable env table)) menu)\<rparr>"
    by (rule lock_candidateE [OF lock]) blast
  note facts = verified_auth [OF l(2,1)]
  show ?thesis
    using assms(2) facts l(2) unfolding table' l(1) hasTimelySelectedCandidate_def
    by (simp add: locked_matches [OF l(1)] locked_auth [OF l(1)] locked_binding l(3,4))
qed

section \<open>A lock stands\<close>


section \<open>An honest selection is locked\<close>

lemma encoded_chars: "set (EncodeToString bytes) \<subseteq> set lower_hex"
proof -
  have "(of_char c :: nat) div 16 < 16" for c using nat_of_char_less_256 [of c] by linarith
  then show ?thesis by (auto simp: EncodeToString_def hex_byte_def hex_digit_lower)
qed

lemma signature_not_blank:
  assumes "SignStructuredData curve random key payload = Inr sig" "VerifyStructuredData curve pub payload sig = Inr True"
  shows "TrimSpace sig \<noteq> []"
proof -
  obtain bytes where "sig = EncodeToString bytes"
    using assms(1) by (auto simp: SignStructuredData_def signCompactHex_def split: sum.splits option.splits)
  then have "TrimSpace sig = sig" using encoded_chars [of bytes] by (simp add: TrimSpace_hex)
  then show ?thesis using assms(2) verify_needs_signature by metis
qed

lemma key_signs:
  assumes "curve_laws curve" "privateKeyAndPublicKeyHex curve random0 seed = Inr (key, sk, pub)" "key \<noteq> []"
    and "StableStringify payload = Inr text"
  shows "\<exists>sig. SignStructuredData curve random key payload = Inr sig \<and> VerifyStructuredData curve pub payload sig = Inr True
    \<and> TrimSpace sig \<noteq> []"
proof -
  obtain sig where "SignStructuredData curve random key payload = Inr sig" "VerifyStructuredData curve pub payload sig = Inr True"
    using sign_then_verify [OF assms(1-3), of random "HashMessage text"] assms(4)
    by (auto simp: SignStructuredData_def VerifyStructuredData_def)
  then show ?thesis using signature_not_blank by blast
qed

lemma payload_texts:
  "\<exists>text. StableStringify (selectionAuthPayload auth) = Inr text" "\<exists>text. StableStringify (actionLockedAckPayload ack) = Inr text"
proof -
  have "StableStringify (selectionAuthPayload auth) = Inr (json_text (canonicalizeValue (selectionAuthPayload auth)))"
    unfolding selectionAuthPayload_def by (intro numbers_any_map) (simp_all add: str_member_def int_member_def)
  moreover have "StableStringify (actionLockedAckPayload ack) = Inr (json_text (canonicalizeValue (actionLockedAckPayload ack)))"
    unfolding actionLockedAckPayload_def by (intro numbers_any_map) (simp_all add: str_member_def int_member_def)
  ultimately show "\<exists>text. StableStringify (selectionAuthPayload auth) = Inr text"
    "\<exists>text. StableStringify (actionLockedAckPayload ack) = Inr text" by blast+
qed

lemma unsigned_payloads [simp]:
  "selectionAuthPayload (auth\<lparr>sa_SignatureHex := sig\<rparr>) = selectionAuthPayload auth"
  "actionLockedAckPayload (ack\<lparr>al_SignatureHex := sig\<rparr>) = actionLockedAckPayload ack"
  by (simp_all add: selectionAuthPayload_def actionLockedAckPayload_def)

text \<open>A turn that waits for a selection: the menu is that of the turn, nothing is locked, the player to act is
  seated with the key of the wallet, and \<open>hash\<close> is a candidate of the menu.\<close>

definition selection_open :: "nativeTableState \<Rightarrow> PendingTurnMenuPublic \<Rightarrow> nativeActiveHand \<Rightarrow> LocalIdentity \<Rightarrow> string \<Rightarrow> bool" where
  "selection_open table menu active wallet hash \<longleftrightarrow>
     ts_ActiveHand table = Some active \<and> ts_PendingTurnMenu table = Some menu \<and> turnMenuMatchesTable table (Some menu)
     \<and> 0 < tm_Epoch menu \<and> TrimSpace (tm_SelectedCandidateHash menu) = []
     \<and> (\<exists>seat. seatRecordForPlayer table (acting_player_id table (ah_State active)) = Some seat
          \<and> se_WalletPubkeyHex seat = li_PublicKeyHex wallet)
     \<and> TrimSpace hash \<noteq> [] \<and> findTurnMenuOptionByCandidateHash (Some menu) hash \<noteq> None
     \<and> findTurnCandidateByHash (Some menu) hash \<noteq> None"

lemma honest_auth:
  assumes "curve_laws curve" "seed \<noteq> []" "CreateLocalIdentity curve random0 seed = Inr (me_WalletID player)"
    and "selection_open table menu active (me_WalletID player) hash"
    and "TrimSpace (me_Now player) \<noteq> []" "acceptedBeforeOrAtDeadline host (me_Now player) (tm_ActionDeadlineAt menu)"
  obtains auth where "buildSelectionAuth curve random player table hash = Inr auth"
    "verifySelectionAuth curve host table auth = Inr ()" "sa_CandidateHash auth = hash"
proof -
  obtain sk where key: "privateKeyAndPublicKeyHex curve random0 seed
      = Inr (li_PrivateKeyHex (me_WalletID player), sk, li_PublicKeyHex (me_WalletID player))"
    using local_identityD [OF assms(3)] .
  have "li_PrivateKeyHex (me_WalletID player) \<noteq> []" using seed_kept [OF key assms(2)] assms(2) by simp
  note signs = key_signs [OF assms(1) key this]
  let ?auth = "unsigned_selection player table menu (ah_State active) hash"
  obtain seat where s: "seatRecordForPlayer table (acting_player_id table (ah_State active)) = Some seat"
      "se_WalletPubkeyHex seat = li_PublicKeyHex (me_WalletID player)"
    and table: "ts_ActiveHand table = Some active" "ts_PendingTurnMenu table = Some menu" "turnMenuMatchesTable table (Some menu)"
    and hash: "TrimSpace hash \<noteq> []" "findTurnMenuOptionByCandidateHash (Some menu) hash \<noteq> None" "0 < tm_Epoch menu"
    using assms(4) unfolding selection_open_def by blast
  have acting: "st_ActingSeatIndex (ah_State active) \<noteq> None"
    using table(1,3) by (simp add: turnMenuMatchesTable_def tableHasActionableTurn_def)
  obtain sig where sig: "SignStructuredData curve random (li_PrivateKeyHex (me_WalletID player)) (selectionAuthPayload ?auth) = Inr sig"
      "VerifyStructuredData curve (li_PublicKeyHex (me_WalletID player)) (selectionAuthPayload ?auth) sig = Inr True"
      "TrimSpace sig \<noteq> []"
    using payload_texts(1) [of ?auth] signs by metis
  have fields: "sa_PlayerID ?auth = acting_player_id table (ah_State active)" by (simp add: unsigned_selection_def)
  have "buildSelectionAuth curve random player table hash = Inr (?auth\<lparr>sa_SignatureHex := sig\<rparr>)"
    using acting sig(1) by (simp add: buildSelectionAuth_def table deref_def)
  moreover have "validateSelectionAuthMetadata host table (?auth\<lparr>sa_SignatureHex := sig\<rparr>) = Inr ()"
    using acting hash assms(5,6)
    by (simp add: validateSelectionAuthMetadata_def table deref_def unsigned_selection_def pendingTurnEpoch_def)
  then have "verifySelectionAuth curve host table (?auth\<lparr>sa_SignatureHex := sig\<rparr>) = Inr ()"
    using sig(2,3) s by (simp add: verifySelectionAuth_def fields check_signature_def)
  moreover have "sa_CandidateHash (?auth\<lparr>sa_SignatureHex := sig\<rparr>) = hash" by (simp add: unsigned_selection_def)
  ultimately show ?thesis using that by blast
qed

lemma honest_ack:
  assumes "curve_laws curve" "privateKeyAndPublicKeyHex curve random1 key
      = Inr (key, sk, pa_ProtocolPubkeyHex (kn_Peer (ts_CurrentHost table)))" "key \<noteq> []"
    and "ts_PendingTurnMenu table = Some menu" "verifySelectionAuth curve host table auth = Inr ()" "sa_CandidateHash auth = hash"
  obtains ack where
    "buildActionLockedAck curve random (pa_PeerID (kn_Peer (ts_CurrentHost table))) key auth at = Inr ack"
    "\<forall>bundle deadline. verifyActionLockedAck curve
       (table\<lparr>ts_PendingTurnMenu := Some (lock_menu hash auth bundle at deadline menu)\<rparr>) ack = Inr ()"
proof -
  let ?ack = "unsigned_locked_ack (pa_PeerID (kn_Peer (ts_CurrentHost table))) auth at"
  obtain sig where sig: "SignStructuredData curve random key (actionLockedAckPayload ?ack) = Inr sig"
      "VerifyStructuredData curve (pa_ProtocolPubkeyHex (kn_Peer (ts_CurrentHost table))) (actionLockedAckPayload ?ack) sig = Inr True"
    using payload_texts(2) [of ?ack] key_signs [OF assms(1-3)] by metis
  note auth = verified_auth [OF assms(5,4)]
  have "buildActionLockedAck curve random (pa_PeerID (kn_Peer (ts_CurrentHost table))) key auth at = Inr (?ack\<lparr>al_SignatureHex := sig\<rparr>)"
    using sig(1) by (simp add: buildActionLockedAck_def Let_def)
  moreover have "verifyActionLockedAck curve (table\<lparr>ts_PendingTurnMenu := Some (lock_menu hash auth cand at deadline menu)\<rparr>)
      (?ack\<lparr>al_SignatureHex := sig\<rparr>) = Inr ()" for cand deadline
  proof -
    have "check_signature curve failure (pa_ProtocolPubkeyHex (kn_Peer (ts_CurrentHost table))) (actionLockedAckPayload ?ack) sig = Inr ()"
      for failure using sig(2) by (simp add: check_signature_def)
    moreover have "al_CandidateHash ?ack = hash" "al_TableID ?ack = tc_TableID (ts_Config table)" "al_Epoch ?ack = tm_Epoch menu"
        "al_TurnAnchorHash ?ack = tm_TurnAnchorHash menu" "al_ActionDeadlineAt ?ack = tm_ActionDeadlineAt menu"
        "al_HostPeerID ?ack = pa_PeerID (kn_Peer (ts_CurrentHost table))"
      using auth assms(6) by (simp_all add: unsigned_locked_ack_def)
    ultimately show ?thesis using assms(6) by (simp add: verifyActionLockedAck_def)
  qed
  ultimately show ?thesis using that by blast
qed

lemma honest_lock:
  assumes "curve_laws curve" and "seed \<noteq> []" and "CreateLocalIdentity curve random0 seed = Inr (me_WalletID player)"
    and "privateKeyAndPublicKeyHex curve random1 key = Inr (key, sk, pa_ProtocolPubkeyHex (kn_Peer (ts_CurrentHost table)))"
    and "key \<noteq> []" and "selection_open table menu active (me_WalletID player) hash"
    and "TrimSpace (me_Now player) \<noteq> []" and "acceptedBeforeOrAtDeadline host (me_Now player) (tm_ActionDeadlineAt menu)"
  shows "\<exists>auth table' ack. buildSelectionAuth curve random player table hash = Inr auth
    \<and> lock_candidate curve random' host (pa_PeerID (kn_Peer (ts_CurrentHost table))) key cache table
        \<lparr>cr_CandidateHash = hash, cr_SelectionAuth = auth, cr_TableID = tc_TableID (ts_Config table)\<rparr> = Inr (table', ack)
    \<and> verifyActionLockedAck curve table' ack = Inr () \<and> hasTimelySelectedCandidate curve host table'"
proof -
  let ?self = "pa_PeerID (kn_Peer (ts_CurrentHost table))"
  obtain auth where auth: "buildSelectionAuth curve random player table hash = Inr auth"
    "verifySelectionAuth curve host table auth = Inr ()" "sa_CandidateHash auth = hash"
    by (rule honest_auth [OF assms(1-3,6-8)])
  have menu: "ts_PendingTurnMenu table = Some menu" "turnMenuMatchesTable table (ts_PendingTurnMenu table)"
      "TrimSpace (tm_SelectedCandidateHash menu) = []" "findTurnCandidateByHash (Some menu) hash \<noteq> None"
    using assms(6) by (auto simp: selection_open_def)
  obtain ack where ack: "buildActionLockedAck curve random' ?self key auth (me_Now host) = Inr ack"
    "\<forall>bundle deadline. verifyActionLockedAck curve
       (table\<lparr>ts_PendingTurnMenu := Some (lock_menu hash auth bundle (me_Now host) deadline menu)\<rparr>) ack = Inr ()"
    by (rule honest_ack [OF assms(1,4,5) menu(1) auth(2,3), where random = random' and at = "me_Now host"])
  have "findTurnCandidateByHashFromCache (Some menu) cache hash \<noteq> None"
    using menu(4) by (simp add: findTurnCandidateByHashFromCache_def Let_def split: option.split)
  then obtain expected where found: "findTurnCandidateByHashFromCache (Some menu) cache hash = Some expected" by blast
  let ?request = "\<lparr>cr_CandidateHash = hash, cr_SelectionAuth = auth, cr_TableID = tc_TableID (ts_Config table)\<rparr>"
  let ?locked = "table\<lparr>ts_PendingTurnMenu := Some (lock_menu hash auth expected (me_Now host)
      (me_Later host (me_Now host) (selectionSettlementTimeoutMSForTable host table)) menu)\<rparr>"
  have lock: "lock_candidate curve random' host ?self key cache table ?request = Inr (?locked, ack)"
    using auth(2,3) menu(1,3) found found_hash [OF found] ack(1) by (simp add: lock_candidate_def deref_def lock_menu_def)
  show ?thesis using auth(1) lock ack(2) lock_is_timely [OF lock menu(2)] by blast
qed


end
