(* ===== verification/Event_Log.thy ===== *)
theory Event_Log
  imports Turn_Locks
begin

text \<open>
  The event log of a table, from \<open>internal/meshruntime/runtime.go\<close>: appending a signed event, checking the log of a
  table received from a peer, and the lookups in a log. An event is signed and hashed as the map \<open>rawJSONMap\<close> makes
  of it, so values pass through JSON: a number becomes a float64, a text loses its invalid bytes. The kinds of values a
  body holds are texts, numbers, truth values, nil, lists and maps. A daemon is what it signs with; the times of the
  two calls of \<open>nowISO\<close> are arguments.
\<close>

section \<open>Values through JSON\<close>

fun utf8_clean :: "string \<Rightarrow> string" where
  "utf8_clean [] = []"
| "utf8_clean (c # s) =
     (let n = rune_size (c # s) in
      if n = 0 then [CHR 0xEF, CHR 0xBF, CHR 0xBD] @ utf8_clean s
      else take n (c # s) @ utf8_clean (drop (n - 1) s))"

declare utf8_clean.simps(2) [simp del]

text \<open>The float64 nearest to a natural number, ties to even, and the decimal of the fewest digits that reads back as
  it: \<open>ParseFloat\<close> and \<open>FormatFloat\<close> on integers.\<close>

definition round53 :: "nat \<Rightarrow> nat" where
  "round53 n =
     (if n < 2 ^ 53 then n
      else
        (let e = length (takeWhile (\<lambda>i. 2 ^ (53 + i) \<le> n) [0..<64]);
             q = n div 2 ^ e; r = 2 * (n mod 2 ^ e) in
         (if r > 2 ^ e \<or> r = 2 ^ e \<and> odd q then q + 1 else q) * 2 ^ e))"

fun shortest_decimal :: "nat \<Rightarrow> nat \<Rightarrow> nat" where
  "shortest_decimal f 0 = f"
| "shortest_decimal f (Suc k) =
     (let p = 10 ^ Suc k; lo = f div p * p; hi = lo + p;
          nearer_lo = (f - lo < hi - f \<or> f - lo = hi - f \<and> even (f div p)) in
      if round53 lo = f \<and> (nearer_lo \<or> round53 hi \<noteq> f) then lo
      else if round53 hi = f then hi
      else shortest_decimal f k)"

definition float_text :: "bool \<Rightarrow> nat \<Rightarrow> string" where
  "float_text neg n =
     (if neg then ''-'' else []) @ nat_digits (if n \<le> 2 ^ 53 then n else shortest_decimal (round53 n) 19)"

text \<open>A number that is no integer is the text of a float64, which reads and prints as itself.\<close>

definition decoded_number :: "string \<Rightarrow> string" where
  "decoded_number s =
     (let neg = (s \<noteq> [] \<and> hd s = CHR ''-''); digits = (if neg then tl s else s) in
      if digits \<noteq> [] \<and> list_all is_digit digits then float_text neg (digits_value digits) else s)"

text \<open>\<open>json.Unmarshal\<close> into a value of type \<open>any\<close>.\<close>

fun json_decoded :: "json \<Rightarrow> goval" where
  "json_decoded JNull = VInvalid"
| "json_decoded (JBool b) = VBool b"
| "json_decoded (JNum n) = VFloat (Some (decoded_number n))"
| "json_decoded (JStr s) = VString (utf8_clean s)"
| "json_decoded (JArr vs) = VSlice (Some (map json_decoded vs))"
| "json_decoded (JObj kvs) = VMap (Some (map (\<lambda>(k, v). (KString k, v))
     (fold (\<lambda>(k, v). AList.update k v) (map (\<lambda>(k, v). (utf8_clean k, json_decoded v)) kvs) [])))"

text \<open>On the values a body holds the canonical form is what \<open>json.Marshal\<close> writes.\<close>

definition json_any :: "goval \<Rightarrow> goval" where
  "json_any v = json_decoded (canonicalizeValue v)"

definition body_value :: "(string, goval) gomap option \<Rightarrow> goval" where
  "body_value body = VMap (map_option (map (\<lambda>(k, v). (KString k, v))) body)"

definition decoded_body :: "goval \<Rightarrow> (string, goval) gomap option" where
  "decoded_body v = (case v of VMap (Some m) \<Rightarrow> Some (map (\<lambda>(k, v). (keyToString k, v)) m) | _ \<Rightarrow> None)"

text \<open>\<open>event.Body[key]\<close>, nil when the key or the body is missing.\<close>

definition body_at :: "NativeSignedTableEvent \<Rightarrow> string \<Rightarrow> goval" where
  "body_at event key = (case ev_Body event of None \<Rightarrow> VInvalid | Some body \<Rightarrow>
     (case map_of body key of None \<Rightarrow> VInvalid | Some v \<Rightarrow> v))"

definition event_type :: "NativeSignedTableEvent \<Rightarrow> string" where
  "event_type event = stringValue (body_at event ''type'')"

section \<open>Signing and appending events\<close>

text \<open>The members of the map, in the order of their keys.\<close>

definition unsignedSignedTableEvent :: "NativeSignedTableEvent \<Rightarrow> goval" where
  "unsignedSignedTableEvent event =
     json_decoded (JObj
      [(''body'', canonicalizeValue (body_value (ev_Body event))),
       (''epoch'', JInt (ev_Epoch event)),
       (''handId'', canonicalizeValue (ev_HandID event)),
       (''messageType'', JStr (ev_MessageType event)),
       (''networkId'', JStr (ev_NetworkID event)),
       (''prevEventHash'', canonicalizeValue (ev_PrevEventHash event)),
       (''protocolVersion'', JStr (ev_ProtocolVersion event)),
       (''senderPeerId'', JStr (ev_SenderPeerID event)),
       (''senderProtocolPubkeyHex'', JStr (ev_SenderProtocolPubkeyHex event)),
       (''senderRole'', JStr (ev_SenderRole event)),
       (''seq'', JInt (ev_Seq event)),
       (''tableId'', JStr (ev_TableID event)),
       (''timestamp'', JStr (ev_Timestamp event))])"

record daemon =
  da_Network :: string
  da_Peer :: NativePeerAddress
  da_ProtocolPrivateKeyHex :: string
  da_ProtocolPublicKeyHex :: string
  da_Mode :: string
  da_ProfileName :: string
  da_WalletPlayerID :: string

definition new_event :: "daemon \<Rightarrow> string \<Rightarrow> nativeTableState \<Rightarrow> (string, goval) gomap \<Rightarrow> NativeSignedTableEvent" where
  "new_event daemon at table body =
     \<lparr>ev_Body = Some body,
      ev_Epoch = ts_CurrentEpoch table,
      ev_HandID = (case ts_PublicState table of None \<Rightarrow> VInvalid | Some public \<Rightarrow>
        if is_nil (pu_HandID public) then VInvalid else pu_HandID public),
      ev_MessageType = stringValue (case map_of body ''type'' of None \<Rightarrow> VInvalid | Some v \<Rightarrow> v),
      ev_NetworkID = da_Network daemon,
      ev_PrevEventHash = (if ts_LastEventHash table \<noteq> [] then VString (ts_LastEventHash table) else VInvalid),
      ev_ProtocolVersion = nativeProtocolVersion,
      ev_Seq = int (length (ts_Events table)),
      ev_SenderPeerID = pa_PeerID (da_Peer daemon),
      ev_SenderProtocolPubkeyHex = da_ProtocolPublicKeyHex daemon,
      ev_SenderRole = da_Mode daemon,
      ev_Signature = [],
      ev_TableID = tc_TableID (ts_Config table),
      ev_Timestamp = at\<rparr>"

definition appendEvent ::
    "('sk, 'pk) secp256k1 \<Rightarrow> (nat \<Rightarrow> string res) \<Rightarrow> daemon \<Rightarrow> string \<Rightarrow> string \<Rightarrow> nativeTableState \<Rightarrow> (string, goval) gomap
     \<Rightarrow> nativeTableState res" where
  "appendEvent curve random daemon at at' table body =
     (let event = new_event daemon at table body; unsigned = unsignedSignedTableEvent event in
      bind_res (SignStructuredData curve random (da_ProtocolPrivateKeyHex daemon) unsigned) (\<lambda>signatureHex.
      bind_res (HashStructuredDataHex unsigned) (\<lambda>eventHash.
      Inr (table\<lparr>ts_LastEventHash := eventHash,
        ts_Events := ts_Events table @ [event\<lparr>ev_Signature := signatureHex\<rparr>],
        ts_PublicState := map_option (\<lambda>public. public\<lparr>pu_LatestEventHash := VString eventHash, pu_UpdatedAt := at'\<rparr>)
          (ts_PublicState table)\<rparr>))))"

section \<open>Checking the log of a received table\<close>

record nativeAcceptedEventHistory =
  eh_ByHash :: "(string, NativeSignedTableEvent) gomap"
  eh_Hashes :: "string list"
  eh_LastHash :: string

definition check_event ::
    "('sk, 'pk) secp256k1 \<Rightarrow> nativeTableState \<Rightarrow> nat \<Rightarrow> string \<Rightarrow> NativeSignedTableEvent \<Rightarrow> string res" where
  "check_event curve table index expectedPrevHash event =
     (if ev_TableID event \<noteq> tc_TableID (ts_Config table) then Inl (Err ''event %d table id mismatch'')
      else if ev_NetworkID event \<noteq> tc_NetworkID (ts_Config table) then Inl (Err ''event %d network mismatch'')
      else if ev_ProtocolVersion event \<noteq> nativeProtocolVersion then Inl (Err ''event %d protocol version mismatch'')
      else if ev_Seq event \<noteq> int index then Inl (Err ''event %d sequence mismatch'')
      else if ev_MessageType event \<noteq> event_type event then Inl (Err ''event %d message type mismatch'')
      else if TrimSpace (stringValue (ev_PrevEventHash event)) \<noteq> expectedPrevHash
        then Inl (Err ''event %d previous hash mismatch'')
      else bind_res (VerifyStructuredData curve (ev_SenderProtocolPubkeyHex event) (unsignedSignedTableEvent event)
          (ev_Signature event)) (\<lambda>ok.
        if \<not> ok then Inl (Err ''event %d signature is invalid'')
        else HashStructuredDataHex (unsignedSignedTableEvent event)))"

fun check_events ::
    "('sk, 'pk) secp256k1 \<Rightarrow> nativeTableState \<Rightarrow> nat \<Rightarrow> nativeAcceptedEventHistory \<Rightarrow> NativeSignedTableEvent list
     \<Rightarrow> nativeAcceptedEventHistory res" where
  "check_events curve table index history [] = Inr history"
| "check_events curve table index history (event # events) =
     bind_res (check_event curve table index (eh_LastHash history) event) (\<lambda>eventHash.
       check_events curve table (Suc index)
         \<lparr>eh_ByHash = AList.update eventHash event (eh_ByHash history), eh_Hashes = eh_Hashes history @ [eventHash],
          eh_LastHash = eventHash\<rparr> events)"

definition acceptedEventHistory :: "('sk, 'pk) secp256k1 \<Rightarrow> nativeTableState \<Rightarrow> nativeAcceptedEventHistory res" where
  "acceptedEventHistory curve table =
     bind_res (check_events curve table 0 \<lparr>eh_ByHash = [], eh_Hashes = [], eh_LastHash = []\<rparr> (ts_Events table)) (\<lambda>history.
       if TrimSpace (ts_LastEventHash table) \<noteq> eh_LastHash history
       then Inl (Err ''table last event hash does not match accepted event history'')
       else Inr history)"

definition validateAcceptedEventHistory :: "('sk, 'pk) secp256k1 \<Rightarrow> nativeTableState \<Rightarrow> unit res" where
  "validateAcceptedEventHistory curve table = bind_res (acceptedEventHistory curve table) (\<lambda>_. Inr ())"

definition validateAcceptedEventAnchor :: "goval \<Rightarrow> nativeAcceptedEventHistory \<Rightarrow> unit res" where
  "validateAcceptedEventAnchor anchor history =
     (let anchorHash = TrimSpace (stringValue anchor) in
      if anchorHash = [] then fail_if (eh_Hashes history \<noteq> []) ''%s latest event hash is missing''
      else fail_if (map_of (eh_ByHash history) anchorHash = None)
        ''%s latest event hash does not match accepted event history'')"

section \<open>Lookups\<close>

definition findEventByType :: "NativeSignedTableEvent list \<Rightarrow> string \<Rightarrow> NativeSignedTableEvent option" where
  "findEventByType events eventType = find (\<lambda>event. event_type event = eventType) events"

definition handHasAcceptedResultEvent :: "nativeTableState \<Rightarrow> string \<Rightarrow> bool" where
  "handHasAcceptedResultEvent table handID \<longleftrightarrow>
     TrimSpace handID \<noteq> [] \<and> list_ex (\<lambda>event. event_type event = ''HandResult''
       \<and> TrimSpace (stringValue (body_at event ''handId'')) = TrimSpace handID) (ts_Events table)"

definition findHandResultEventByCheckpoint ::
    "NativeSignedTableEvent list \<Rightarrow> string \<Rightarrow> NativeSignedTableEvent option" where
  "findHandResultEventByCheckpoint events checkpointHash =
     find (\<lambda>event. event_type event = ''HandResult''
       \<and> TrimSpace (stringValue (body_at event ''checkpointHash'')) = checkpointHash) events"

definition findCheckpointAnchorEventByCheckpoint ::
    "NativeSignedTableEvent list \<Rightarrow> string \<Rightarrow> NativeSignedTableEvent option" where
  "findCheckpointAnchorEventByCheckpoint events checkpointHash =
     find (\<lambda>event. event_type event \<in> {''HandResult'', ''CashOut'', ''EmergencyExit''}
       \<and> TrimSpace (stringValue (body_at event ''checkpointHash'')) = checkpointHash) events"

definition eventTransitionHash :: "NativeSignedTableEvent \<Rightarrow> string" where
  "eventTransitionHash event = TrimSpace (stringValue (body_at event ''transitionHash''))"

definition linkedCustodyTransitionByHashSeq ::
    "nativeTableState \<Rightarrow> string \<Rightarrow> int \<Rightarrow> (CustodyTransition \<times> nat) option" where
  "linkedCustodyTransitionByHashSeq table transitionHash custodySeq =
     find (\<lambda>(transition, index). ct_CustodySeq transition = custodySeq
       \<and> cp_TransitionHash (ct_Proof transition) = transitionHash)
       (zip (ts_CustodyTransitions table) [0..<length (ts_CustodyTransitions table)])"

definition previousCustodyStateForTransition :: "nativeTableState \<Rightarrow> int \<Rightarrow> CustodyState option" where
  "previousCustodyStateForTransition table index =
     (if index \<le> 0 \<or> index > int (length (ts_CustodyTransitions table)) - 1 then None
      else Some (ct_NextState (ts_CustodyTransitions table ! nat (index - 1))))"

section \<open>Texts and numbers through JSON\<close>

lemma rune_size_take:
  assumes "rune_size (c # s) \<noteq> 0"
  shows "rune_size (take (rune_size (c # s)) (c # s) @ t) = rune_size (c # s)"
proof -
  obtain rs where rs: "continuation_ranges c = Some rs" "rune_size (c # s) = Suc (length rs)"
    "list_all2 (\<lambda>(lo, hi) d. byte_in lo hi d) rs (take (length rs) s)"
    using rune_sizeE [OF assms] .
  have "length (take (length rs) s) = length rs" using rs(3) list_all2_lengthD by metis
  then have "length rs \<le> length s" by (metis length_take min.cobounded1)
  with rs show ?thesis by (simp add: rune_size.simps min_absorb2)
qed

lemma valid_utf8_rune:
  assumes "rune_size (c # s) \<noteq> 0"
  shows "valid_utf8 (take (rune_size (c # s)) (c # s) @ t) = valid_utf8 t"
proof -
  obtain n where n: "rune_size (c # s) = Suc n" using assms not0_implies_Suc by blast
  have len: "length (take n s) = n"
  proof -
    obtain rs where "rune_size (c # s) = Suc (length rs)" "list_all2 (\<lambda>(lo, hi) d. byte_in lo hi d) rs (take (length rs) s)"
      using rune_sizeE [OF assms] by metis
    with n show ?thesis using list_all2_lengthD by fastforce
  qed
  have "rune_size (c # take n s @ t) = Suc n" using rune_size_take [OF assms, of t] n by simp
  with n len show ?thesis by (simp add: valid_utf8.simps Let_def)
qed

lemma valid_replacement: "valid_utf8 ([CHR 0xEF, CHR 0xBF, CHR 0xBD] @ t) = valid_utf8 t"
  by (simp add: valid_utf8.simps rune_size.simps continuation_ranges_def byte_in_def Let_def)

lemma valid_utf8_clean [simp]: "valid_utf8 (utf8_clean s)"
proof (induction s rule: utf8_clean.induct)
  case (2 c s)
  show ?case
  proof (cases "rune_size (c # s) = 0")
    case True
    with 2 valid_replacement [of "utf8_clean s"] show ?thesis by (simp add: utf8_clean.simps Let_def)
  next
    case False
    with 2 show ?thesis using valid_utf8_rune [OF False] by (simp add: utf8_clean.simps Let_def)
  qed
qed simp

lemma utf8_clean_valid [simp]: "valid_utf8 s \<Longrightarrow> utf8_clean s = s"
proof (induction s rule: utf8_clean.induct)
  case (2 c s)
  obtain n where n: "rune_size (c # s) = Suc n" using 2 by (cases "rune_size (c # s)") (auto simp: valid_utf8.simps Let_def)
  with 2 show ?case by (simp add: utf8_clean.simps valid_utf8.simps Let_def)
qed simp

lemma updates_distinct:
  assumes "distinct (map fst kvs)"
  shows "fold (\<lambda>(k, v). AList.update k v) kvs [] = kvs"
proof -
  have "fold (\<lambda>(k, v). AList.update k v) kvs m = m @ kvs"
    if "distinct (map fst kvs)" "fst ` set m \<inter> fst ` set kvs = {}" for m
    using that
  proof (induction kvs arbitrary: m)
    case (Cons kv kvs)
    obtain k v where kv: "kv = (k, v)" by (cases kv)
    with Cons.prems have "AList.update k v m = m @ [(k, v)]"
      by (intro map_snd_update_new) auto
    with Cons kv show ?case by auto
  qed simp
  with assms show ?thesis by simp
qed

lemma set_update: "set (AList.update k v m) \<subseteq> insert (k, v) (set m)"
  by (induction m) auto

lemma set_fold_update: "set (fold (\<lambda>(k, v). AList.update k v) kvs m) \<subseteq> set m \<union> set kvs"
proof (induction kvs arbitrary: m)
  case (Cons kv kvs)
  obtain k v where kv: "kv = (k, v)" by (cases kv)
  show ?case using Cons.IH [of "AList.update k v m"] set_update [of k v m] kv by auto
qed simp

lemma object_members:
  assumes "object_of kvs = JObj members"
  shows "set members \<subseteq> set kvs"
  using assms set_fold_update [of kvs "[]"] by (auto simp: object_of_def)

text \<open>An object written with its keys in order is read and written again member by member.\<close>

lemma canonical_decoded_object:
  assumes "sorted_wrt (<) (map fst kvs)" "list_all valid_utf8 (map fst kvs)"
  shows "canonicalizeValue (json_decoded (JObj kvs)) = JObj (map (\<lambda>(k, v). (k, canonicalizeValue (json_decoded v))) kvs)"
proof -
  have dist: "distinct (map fst kvs)" using assms(1) strict_sorted_iff by blast
  have keys: "map (\<lambda>(k, v). (utf8_clean k, json_decoded v)) kvs = map (\<lambda>(k, v). (k, json_decoded v)) kvs"
    using assms(2) by (auto simp: list_all_iff)
  let ?entries = "map (\<lambda>(k, v). (KString k, json_decoded v)) kvs"
  have decoded: "json_decoded (JObj kvs) = VMap (Some ?entries)"
  proof -
    have "distinct (map fst (map (\<lambda>(k, v). (k, json_decoded v)) kvs))" using dist by (simp add: comp_def split_beta)
    from updates_distinct [OF this] show ?thesis
      unfolding json_decoded.simps keys by (simp add: comp_def split_beta)
  qed
  have "sorted_wrt (\<lambda>a b. \<not> keyToString (fst b) < keyToString (fst a)) ?entries"
    using assms(1) by (auto simp: sorted_wrt_map sorted_wrt_iff_nth_less split_beta dest: order.asym)
  then have entries: "slice_stable (\<lambda>a b. keyToString (fst a) < keyToString (fst b)) ?entries = ?entries"
    by (intro strict_weak.slice_sorted_id [OF strict_weak_key [of "keyToString \<circ> fst", unfolded comp_def]])
  let ?members = "map (\<lambda>(k, v). (k, canonicalizeValue (json_decoded v))) kvs"
  have "sorted_wrt (\<lambda>a b. \<not> fst b < fst a) ?members"
    using assms(1) by (auto simp: sorted_wrt_map sorted_wrt_iff_nth_less split_beta dest: order.asym)
  then have "slice_stable (\<lambda>a b. fst a < fst b) ?members = ?members"
    by (intro strict_weak.slice_sorted_id [OF strict_weak_key])
  moreover have "distinct (map fst ?members)" using dist by (simp add: comp_def split_beta)
  ultimately have "object_of ?members = JObj ?members" using object_of_distinct [of ?members] by metis
  moreover have "map (\<lambda>(k, v). (keyToString k, canonicalizeValue v)) ?entries = ?members" by (simp add: split_beta)
  ultimately show ?thesis unfolding decoded canonicalizeValue.simps entries by metis
qed

section \<open>What an event says\<close>

definition event_content :: "NativeSignedTableEvent \<Rightarrow> json" where
  "event_content event = canonicalizeValue (unsignedSignedTableEvent event)"

definition event_text :: "NativeSignedTableEvent \<Rightarrow> string" where
  "event_text event = json_text (event_content event)"

lemma event_members:
  "event_content event = JObj (map (\<lambda>(k, v). (k, canonicalizeValue (json_decoded v)))
      [(''body'', canonicalizeValue (body_value (ev_Body event))),
       (''epoch'', JInt (ev_Epoch event)),
       (''handId'', canonicalizeValue (ev_HandID event)),
       (''messageType'', JStr (ev_MessageType event)),
       (''networkId'', JStr (ev_NetworkID event)),
       (''prevEventHash'', canonicalizeValue (ev_PrevEventHash event)),
       (''protocolVersion'', JStr (ev_ProtocolVersion event)),
       (''senderPeerId'', JStr (ev_SenderPeerID event)),
       (''senderProtocolPubkeyHex'', JStr (ev_SenderProtocolPubkeyHex event)),
       (''senderRole'', JStr (ev_SenderRole event)),
       (''seq'', JInt (ev_Seq event)),
       (''tableId'', JStr (ev_TableID event)),
       (''timestamp'', JStr (ev_Timestamp event))])"
proof -
  let ?names = "[''body'', ''epoch'', ''handId'', ''messageType'', ''networkId'', ''prevEventHash'', ''protocolVersion'',
      ''senderPeerId'', ''senderProtocolPubkeyHex'', ''senderRole'', ''seq'', ''tableId'', ''timestamp'']"
  have "sorted_wrt (<) ?names" "list_all valid_utf8 ?names" by code_simp+
  then show ?thesis unfolding event_content_def unsignedSignedTableEvent_def
    by (intro canonical_decoded_object) simp_all
qed

lemma same_content_prev:
  assumes "event_content e = event_content f"
  shows "canonicalizeValue (json_decoded (canonicalizeValue (ev_PrevEventHash e)))
    = canonicalizeValue (json_decoded (canonicalizeValue (ev_PrevEventHash f)))"
  using assms unfolding event_members by simp

lemma valid_number_json:
  assumes "valid_number n"
  shows "wf_json (JNum n)"
proof -
  have digits: "is_digit c \<Longrightarrow> number_char c" "is_digit c \<Longrightarrow> c \<in> set ''-0123456789''" for c
    by (auto simp: is_digit_def number_char_def)
  have all: "list_all number_char s" if "digits_then rest s" "\<And>t. rest t \<Longrightarrow> list_all number_char t" for rest s
  proof -
    have "list_all number_char (takeWhile is_digit s)" using digits(1) by (auto simp: list_all_iff dest: set_takeWhileD)
    moreover have "list_all number_char (dropWhile is_digit s)" using that by (simp add: digits_then_def)
    ultimately show ?thesis by (metis list_all_append takeWhile_dropWhile_id)
  qed
  have e: "list_all number_char s" if "exponent_part s" for s
  proof (cases s)
    case (Cons c r)
    have c: "c \<in> set ''eE''" and d: "digits_then (\<lambda>x. x = []) (if r \<noteq> [] \<and> hd r \<in> set ''+-'' then tl r else r)"
      using that Cons by (auto simp: exponent_part_def)
    have "list_all number_char (if r \<noteq> [] \<and> hd r \<in> set ''+-'' then tl r else r)" using all [OF d] by simp
    then have "list_all number_char r" by (cases r) (auto simp: number_char_def split: if_splits)
    with c Cons show ?thesis by (auto simp: number_char_def)
  qed simp
  have f: "list_all number_char s" if "fraction_part s" for s
  proof (cases s)
    case (Cons c r)
    then show ?thesis using that e [of s] all [of exponent_part r, OF _ e]
      by (auto simp: fraction_part_def number_char_def split: if_splits)
  qed simp
  show ?thesis
  proof (cases n)
    case Nil
    with assms show ?thesis by (simp add: valid_number_def)
  next
    case (Cons c r)
    let ?t = "if c = CHR ''-'' then r else n"
    have t: "?t \<noteq> [] \<and> (if hd ?t = CHR ''0'' then fraction_part (tl ?t) else digits_then fraction_part ?t)"
      using assms Cons by (cases "c = CHR ''-''"; cases r) (simp_all add: valid_number_def)
    have "list_all number_char ?t"
    proof (cases "hd ?t = CHR ''0''")
      case True
      then have "list_all number_char (tl ?t)" "number_char (hd ?t)" using t f by (simp_all add: number_char_def)
      then show ?thesis using t by (cases ?t) simp_all
    next
      case False
      then show ?thesis using t all [of fraction_part ?t, OF _ f] by simp
    qed
    moreover have "hd n \<in> set ''-0123456789''"
    proof (cases "c = CHR ''-''")
      case False
      then show ?thesis using t Cons digits(2) [of c] by (auto simp: digits_then_def split: if_splits)
    qed (simp add: Cons)
    ultimately show ?thesis using Cons by (auto simp: number_char_def split: if_splits)
  qed
qed

lemma decoded_members:
  obtains members where "canonicalizeValue (json_decoded (JObj kvs)) = JObj members"
    "\<And>k v. (k, v) \<in> set members \<Longrightarrow> \<exists>k0 v0. (k0, v0) \<in> set kvs \<and> k = utf8_clean k0 \<and> v = canonicalizeValue (json_decoded v0)"
proof -
  let ?m = "fold (\<lambda>(k, v). AList.update k v) (map (\<lambda>(k, v). (utf8_clean k, json_decoded v)) kvs) []"
  let ?entries = "map (\<lambda>(k, v). (keyToString k, canonicalizeValue v))
      (slice_stable (\<lambda>a b. keyToString (fst a) < keyToString (fst b)) (map (\<lambda>(k, v). (KString k, v)) ?m))"
  obtain members where obj: "object_of ?entries = JObj members" by (simp add: object_of_def)
  have canon: "canonicalizeValue (json_decoded (JObj kvs)) = JObj members" using obj by simp
  have "\<exists>k0 v0. (k0, v0) \<in> set kvs \<and> k = utf8_clean k0 \<and> v = canonicalizeValue (json_decoded v0)"
    if kv: "(k, v) \<in> set members" for k v
  proof -
    have "(k, v) \<in> set ?entries" using object_members [OF obj] kv by blast
    then obtain k' v' where "(k', v') \<in> set ?m" "k = k'" "v = canonicalizeValue v'" by auto
    moreover have "set ?m \<subseteq> set (map (\<lambda>(k, v). (utf8_clean k, json_decoded v)) kvs)"
      using set_fold_update [of "map (\<lambda>(k, v). (utf8_clean k, json_decoded v)) kvs" "[]"] by simp
    ultimately obtain k0 v0 where "(k0, v0) \<in> set kvs" "k = utf8_clean k0" "v = canonicalizeValue (json_decoded v0)"
      by auto
    then show ?thesis by blast
  qed
  with canon that show ?thesis by blast
qed

lemma wf_decoded: "numbers_ok (canonicalizeValue (json_decoded j)) \<Longrightarrow> wf_json (canonicalizeValue (json_decoded j))"
proof (induction j)
  case (JNum n)
  then show ?case using valid_number_json by simp
next
  case (JArr vs)
  then show ?case by (auto simp: list_all_iff)
next
  case (JObj kvs)
  obtain members where canon: "canonicalizeValue (json_decoded (JObj kvs)) = JObj members" and
    members: "\<And>k v. (k, v) \<in> set members \<Longrightarrow> \<exists>k0 v0. (k0, v0) \<in> set kvs \<and> k = utf8_clean k0 \<and> v = canonicalizeValue (json_decoded v0)"
    using decoded_members [of kvs] by metis
  have "valid_utf8 k \<and> wf_json v" if kv: "(k, v) \<in> set members" for k v
  proof -
    obtain k0 v0 where kv0: "(k0, v0) \<in> set kvs" "k = utf8_clean k0" "v = canonicalizeValue (json_decoded v0)"
      using members [OF kv] by blast
    have "numbers_ok v" using JObj.prems kv unfolding canon by (auto simp: list_all_iff)
    then have "wf_json v" using JObj.IH [of "(k0, v0)" v0] kv0 by simp
    then show ?thesis using kv0 by simp
  qed
  then show ?case unfolding canon by (auto simp: list_all_iff)
qed simp_all

text \<open>A value whose numbers are integers is written again without an error.\<close>

fun integers :: "json \<Rightarrow> bool" where
  "integers (JNum n) = (\<exists>i. n = itoa i)"
| "integers (JArr vs) = list_all integers vs"
| "integers (JObj kvs) = list_all (\<lambda>(_, v). integers v) kvs"
| "integers _ = True"

lemma integers_JInt [simp]: "integers (JInt i)"
  by (auto simp: JInt_def)

lemma decoded_integer: "valid_number (decoded_number (itoa i))"
proof -
  have digits: "list_all is_digit (nat_digits n)" for n
    using nat_digits_chars [of n] by (auto simp: list_all_iff is_digit_def)
  have minus: "nat_digits n = c # r \<Longrightarrow> c \<noteq> CHR ''-''" for n c r using nat_digits_no_sign by metis
  have decoded: "\<exists>neg m. decoded_number (itoa i) = float_text neg m"
  proof (cases "i < 0")
    case True
    then show ?thesis using digits by (auto simp: decoded_number_def itoa_def Let_def)
  next
    case False
    then have "itoa i = nat_digits (nat i)" by (simp add: itoa_def)
    moreover have "hd (nat_digits (nat i)) \<noteq> CHR ''-''" using minus by (cases "nat_digits (nat i)") auto
    ultimately show ?thesis using digits by (auto simp: decoded_number_def Let_def)
  qed
  have "valid_number (CHR ''-'' # nat_digits m)" for m
  proof -
    obtain c r where "nat_digits m = c # r" by (cases "nat_digits m") auto
    with valid_nat_digits [of m] minus [of m c r] show ?thesis by (simp add: valid_number_def)
  qed
  with decoded valid_nat_digits show ?thesis by (auto simp: float_text_def)
qed

lemma integers_ok: "integers j \<Longrightarrow> numbers_ok (canonicalizeValue (json_decoded j))"
proof (induction j)
  case (JNum n)
  then show ?case using decoded_integer by auto
next
  case (JArr vs)
  then show ?case by (auto simp: list_all_iff)
next
  case (JObj kvs)
  obtain members where canon: "canonicalizeValue (json_decoded (JObj kvs)) = JObj members" and
    members: "\<And>k v. (k, v) \<in> set members \<Longrightarrow> \<exists>k0 v0. (k0, v0) \<in> set kvs \<and> k = utf8_clean k0 \<and> v = canonicalizeValue (json_decoded v0)"
    using decoded_members [of kvs] by metis
  have "numbers_ok v" if "(k, v) \<in> set members" for k v
    using members [OF that] JObj by (fastforce simp: list_all_iff)
  then show ?case unfolding canon by (auto simp: list_all_iff)
qed simp_all

lemma wf_content:
  assumes "numbers_ok (event_content e)"
  shows "wf_json (event_content e)"
proof -
  obtain j where "unsignedSignedTableEvent e = json_decoded j" by (simp add: unsignedSignedTableEvent_def del: json_decoded.simps)
  with assms show ?thesis using wf_decoded [of j] by (simp add: event_content_def)
qed

lemma event_hash:
  "HashStructuredDataHex (unsignedSignedTableEvent e) = Inr h
    \<longleftrightarrow> numbers_ok (event_content e) \<and> h = digest_hex (event_text e)"
  by (auto simp: HashStructuredDataHex_def StableStringify_def CanonicalizeStructuredData_def event_content_def
      event_text_def digest_hex_def Let_def)

lemma trim_digest [simp]: "TrimSpace (digest_hex s) = digest_hex s"
  using encoded_chars by (simp add: TrimSpace_hex digest_hex_def)

section \<open>A log grown by appending\<close>

lemma check_events_snoc:
  "check_events curve table i history (events @ [event]) =
     bind_res (check_events curve table i history events) (\<lambda>h.
       bind_res (check_event curve table (i + length events) (eh_LastHash h) event) (\<lambda>eventHash.
         Inr \<lparr>eh_ByHash = AList.update eventHash event (eh_ByHash h), eh_Hashes = eh_Hashes h @ [eventHash],
           eh_LastHash = eventHash\<rparr>))"
proof (induction events arbitrary: i history)
  case Nil
  then show ?case by (cases "check_event curve table i (eh_LastHash history) event") simp_all
next
  case (Cons e events)
  then show ?case by (cases "check_event curve table i (eh_LastHash history) e") simp_all
qed

text \<open>Only the configuration of a table is read when its events are checked.\<close>

lemma check_events_config:
  "ts_Config table = ts_Config table' \<Longrightarrow> check_events curve table i history events = check_events curve table' i history events"
  by (induction events arbitrary: i history) (simp_all add: check_event_def)

text \<open>A daemon whose public key belongs to its private key.\<close>

definition daemon_keys :: "('sk, 'pk) secp256k1 \<Rightarrow> daemon \<Rightarrow> bool" where
  "daemon_keys curve daemon \<longleftrightarrow> da_ProtocolPrivateKeyHex daemon \<noteq> [] \<and>
     (\<exists>random sk. privateKeyAndPublicKeyHex curve random (da_ProtocolPrivateKeyHex daemon)
       = Inr (da_ProtocolPrivateKeyHex daemon, sk, da_ProtocolPublicKeyHex daemon))"

lemma unsigned_ignores_signature [simp]:
  "unsignedSignedTableEvent (event\<lparr>ev_Signature := sig\<rparr>) = unsignedSignedTableEvent event"
  by (simp add: unsignedSignedTableEvent_def)

text \<open>The values a body holds: no floats and nothing that JSON cannot write.\<close>

definition plain :: "goval \<Rightarrow> bool" where
  "plain v \<longleftrightarrow> integers (canonicalizeValue v)"

definition plain_event :: "NativeSignedTableEvent \<Rightarrow> bool" where
  "plain_event event \<longleftrightarrow> plain (body_value (ev_Body event)) \<and> plain (ev_HandID event) \<and> plain (ev_PrevEventHash event)"

lemma plain_numbers: "plain_event event \<Longrightarrow> numbers_ok (event_content event)"
  using integers_ok unfolding event_members plain_event_def plain_def by (simp add: integers_ok del: json_decoded.simps canonicalizeValue.simps)

lemma append_succeeds:
  assumes "curve_laws curve" "daemon_keys curve daemon" "plain_event (new_event daemon at table body)"
  shows "\<exists>table'. appendEvent curve random daemon at at' table body = Inr table'"
proof -
  let ?u = "unsignedSignedTableEvent (new_event daemon at table body)"
  have h: "HashStructuredDataHex ?u = Inr (digest_hex (event_text (new_event daemon at table body)))"
    using plain_numbers [OF assms(3)] by (simp add: event_hash)
  then obtain stable_text where "StableStringify ?u = Inr stable_text" by (auto simp: HashStructuredDataHex_def split: sum.splits)
  moreover obtain random0 sk where "da_ProtocolPrivateKeyHex daemon \<noteq> []"
      "privateKeyAndPublicKeyHex curve random0 (da_ProtocolPrivateKeyHex daemon)
        = Inr (da_ProtocolPrivateKeyHex daemon, sk, da_ProtocolPublicKeyHex daemon)"
    using assms(2) unfolding daemon_keys_def by blast
  ultimately obtain sig where "SignStructuredData curve random (da_ProtocolPrivateKeyHex daemon) ?u = Inr sig"
    using key_signs [OF assms(1)] by blast
  with h show ?thesis by (simp add: appendEvent_def Let_def)
qed

lemma appended_event_checks:
  assumes "curve_laws curve" "daemon_keys curve daemon" "da_Network daemon = tc_NetworkID (ts_Config table)"
    and "TrimSpace (ts_LastEventHash table) = expected"
    and "SignStructuredData curve random (da_ProtocolPrivateKeyHex daemon) (unsignedSignedTableEvent (new_event daemon at table body))
      = Inr sig"
    and "HashStructuredDataHex (unsignedSignedTableEvent (new_event daemon at table body)) = Inr eventHash"
  shows "check_event curve table (length (ts_Events table)) expected ((new_event daemon at table body)\<lparr>ev_Signature := sig\<rparr>)
    = Inr eventHash"
proof -
  let ?event = "new_event daemon at table body"
  obtain stable_text where stable_text: "StableStringify (unsignedSignedTableEvent ?event) = Inr stable_text"
    using assms(6) by (auto simp: HashStructuredDataHex_def split: sum.splits)
  obtain random0 sk where key: "da_ProtocolPrivateKeyHex daemon \<noteq> []"
      "privateKeyAndPublicKeyHex curve random0 (da_ProtocolPrivateKeyHex daemon)
        = Inr (da_ProtocolPrivateKeyHex daemon, sk, da_ProtocolPublicKeyHex daemon)"
    using assms(2) unfolding daemon_keys_def by blast
  have "VerifyStructuredData curve (da_ProtocolPublicKeyHex daemon) (unsignedSignedTableEvent ?event) sig = Inr True"
    using key_signs [OF assms(1) key(2,1) stable_text, of random] assms(5) by auto
  moreover have "TrimSpace [] = []" by code_simp
  then have "TrimSpace (stringValue (ev_PrevEventHash ?event)) = expected" using assms(4) by (auto simp: new_event_def)
  moreover have "ev_TableID ?event = tc_TableID (ts_Config table)" "ev_NetworkID ?event = tc_NetworkID (ts_Config table)"
      "ev_ProtocolVersion ?event = nativeProtocolVersion" "ev_Seq ?event = int (length (ts_Events table))"
      "ev_SenderProtocolPubkeyHex ?event = da_ProtocolPublicKeyHex daemon"
      "event_type (?event\<lparr>ev_Signature := sig\<rparr>) = ev_MessageType ?event"
    using assms(3) by (simp_all add: new_event_def event_type_def body_at_def)
  ultimately show ?thesis using assms(6) by (simp add: check_event_def)
qed

lemma append_keeps_history:
  assumes "curve_laws curve" "daemon_keys curve daemon" "da_Network daemon = tc_NetworkID (ts_Config table)"
    and "acceptedEventHistory curve table = Inr history" "appendEvent curve random daemon at at' table body = Inr table'"
  shows "\<exists>history'. acceptedEventHistory curve table' = Inr history'
    \<and> eh_Hashes history' = eh_Hashes history @ [ts_LastEventHash table']
    \<and> (\<exists>event. ts_Events table' = ts_Events table @ [event] \<and> ev_Body event = Some body
        \<and> ev_SenderPeerID event = pa_PeerID (da_Peer daemon))
    \<and> ts_Config table' = ts_Config table"
proof -
  let ?event = "new_event daemon at table body"
  obtain sig eventHash where sig: "SignStructuredData curve random (da_ProtocolPrivateKeyHex daemon) (unsignedSignedTableEvent ?event)
        = Inr sig" and h: "HashStructuredDataHex (unsignedSignedTableEvent ?event) = Inr eventHash"
      and table': "table' = table\<lparr>ts_LastEventHash := eventHash, ts_Events := ts_Events table @ [?event\<lparr>ev_Signature := sig\<rparr>],
        ts_PublicState := map_option (\<lambda>public. public\<lparr>pu_LatestEventHash := VString eventHash, pu_UpdatedAt := at'\<rparr>)
          (ts_PublicState table)\<rparr>"
    using assms(5) by (auto simp: appendEvent_def Let_def bind_res_ok)
  have hist: "check_events curve table 0 \<lparr>eh_ByHash = [], eh_Hashes = [], eh_LastHash = []\<rparr> (ts_Events table) = Inr history"
      "TrimSpace (ts_LastEventHash table) = eh_LastHash history"
    using assms(4) by (auto simp: acceptedEventHistory_def bind_res_ok split: if_splits)
  note checks = appended_event_checks [OF assms(1-3) hist(2) sig h]
  let ?history = "\<lparr>eh_ByHash = AList.update eventHash (?event\<lparr>ev_Signature := sig\<rparr>) (eh_ByHash history),
      eh_Hashes = eh_Hashes history @ [eventHash], eh_LastHash = eventHash\<rparr>"
  have "check_events curve table' 0 \<lparr>eh_ByHash = [], eh_Hashes = [], eh_LastHash = []\<rparr> (ts_Events table')
      = check_events curve table 0 \<lparr>eh_ByHash = [], eh_Hashes = [], eh_LastHash = []\<rparr> (ts_Events table')"
    by (rule check_events_config) (simp add: table')
  moreover have "ts_Events table' = ts_Events table @ [?event\<lparr>ev_Signature := sig\<rparr>]" by (simp add: table')
  ultimately have "check_events curve table' 0 \<lparr>eh_ByHash = [], eh_Hashes = [], eh_LastHash = []\<rparr> (ts_Events table')
      = Inr ?history"
    using checks by (simp add: check_events_snoc hist)
  moreover have "TrimSpace eventHash = eventHash" using h by (simp add: event_hash)
  ultimately have "acceptedEventHistory curve table' = Inr ?history" by (simp add: acceptedEventHistory_def table')
  moreover have "ev_Body (?event\<lparr>ev_Signature := sig\<rparr>) = Some body" "ev_SenderPeerID (?event\<lparr>ev_Signature := sig\<rparr>) = pa_PeerID (da_Peer daemon)"
    by (simp_all add: new_event_def)
  ultimately show ?thesis by (auto simp: table')
qed

text \<open>Several daemons appending in turn, each with its own clock.\<close>

fun append_all ::
    "('sk, 'pk) secp256k1 \<Rightarrow> (nat \<Rightarrow> string res) \<Rightarrow> nativeTableState
     \<Rightarrow> (daemon \<times> string \<times> string \<times> (string, goval) gomap) list \<Rightarrow> nativeTableState res" where
  "append_all curve random table [] = Inr table"
| "append_all curve random table ((daemon, at, at', body) # rest) =
     bind_res (appendEvent curve random daemon at at' table body) (\<lambda>table'. append_all curve random table' rest)"

lemma append_all_accepted:
  assumes "curve_laws curve" "acceptedEventHistory curve table = Inr history" "append_all curve random table steps = Inr table'"
    and "\<forall>(daemon, _) \<in> set steps. daemon_keys curve daemon \<and> da_Network daemon = tc_NetworkID (ts_Config table)"
  shows "\<exists>history' events. acceptedEventHistory curve table' = Inr history' \<and> ts_Events table' = ts_Events table @ events
    \<and> map ev_Body events = map (\<lambda>(_, _, _, body). Some body) steps
    \<and> map ev_SenderPeerID events = map (\<lambda>(daemon, _). pa_PeerID (da_Peer daemon)) steps
    \<and> (\<exists>hashes. eh_Hashes history' = eh_Hashes history @ hashes)"
  using assms(2-4)
proof (induction steps arbitrary: table history)
  case (Cons step steps)
  obtain daemon at at' body where step: "step = (daemon, at, at', body)" by (cases step)
  obtain table1 where t1: "appendEvent curve random daemon at at' table body = Inr table1" "append_all curve random table1 steps = Inr table'"
    using Cons.prems(2) by (auto simp: step bind_res_ok)
  obtain history1 event where h1: "acceptedEventHistory curve table1 = Inr history1"
      "eh_Hashes history1 = eh_Hashes history @ [ts_LastEventHash table1]" "ts_Events table1 = ts_Events table @ [event]"
      "ev_Body event = Some body" "ev_SenderPeerID event = pa_PeerID (da_Peer daemon)" "ts_Config table1 = ts_Config table"
    using append_keeps_history [OF assms(1) _ _ Cons.prems(1) t1(1)] Cons.prems(3) step by auto
  have "\<forall>(daemon, _) \<in> set steps. daemon_keys curve daemon \<and> da_Network daemon = tc_NetworkID (ts_Config table1)"
    using Cons.prems(3) h1(6) by auto
  then obtain history' events where h': "acceptedEventHistory curve table' = Inr history'" "ts_Events table' = ts_Events table1 @ events"
      "map ev_Body events = map (\<lambda>(_, _, _, body). Some body) steps"
      "map ev_SenderPeerID events = map (\<lambda>(daemon, _). pa_PeerID (da_Peer daemon)) steps"
      "\<exists>hashes. eh_Hashes history' = eh_Hashes history1 @ hashes"
    using Cons.IH [OF h1(1) t1(2)] by blast
  then show ?case using h1 step by (intro exI [of _ history'] exI [of _ "event # events"]) auto
qed simp

section \<open>The head of a log binds it\<close>

text \<open>A value as the JSON decoder leaves it in a field of type \<open>any\<close>.\<close>

fun json_kind :: "goval \<Rightarrow> bool" where
  "json_kind VInvalid = True"
| "json_kind (VBool b) = True"
| "json_kind (VFloat f) = True"
| "json_kind (VString s) = valid_utf8 s"
| "json_kind (VSlice vs) = (vs \<noteq> None)"
| "json_kind (VMap m) = (m \<noteq> None)"
| "json_kind _ = False"

lemma string_from_content:
  assumes "json_kind v" "json_kind w"
    and "canonicalizeValue (json_decoded (canonicalizeValue v)) = canonicalizeValue (json_decoded (canonicalizeValue w))"
  shows "stringValue v = stringValue w"
proof -
  have shape: "(\<exists>s. v = VString s \<and> canonicalizeValue (json_decoded (canonicalizeValue v)) = JStr s)
      \<or> stringValue v = [] \<and> (\<forall>s. canonicalizeValue (json_decoded (canonicalizeValue v)) \<noteq> JStr s)"
    if v: "json_kind v" for v
  proof (cases v)
    case (VFloat f)
    then show ?thesis by (cases f) simp_all
  next
    case (VMap m)
    then obtain kvs where "v = VMap (Some kvs)" using v by auto
    then show ?thesis by (simp add: object_of_def)
  qed (use v in auto)
  show ?thesis using shape [OF assms(1)] shape [OF assms(2)] assms(3) by auto
qed

lemma check_events_Nil [simp]: "check_events curve table i history [] = Inr h \<longleftrightarrow> h = history"
  by auto

lemma accepted_snoc:
  assumes "check_events curve table 0 start (events @ [event]) = Inr h"
  obtains h0 where "check_events curve table 0 start events = Inr h0" "eh_LastHash h = digest_hex (event_text event)"
    "numbers_ok (event_content event)" "TrimSpace (stringValue (ev_PrevEventHash event)) = eh_LastHash h0"
  using assms that by (auto simp: check_events_snoc bind_res_ok check_event_def event_hash split: if_splits)

abbreviation empty_history :: nativeAcceptedEventHistory where
  "empty_history \<equiv> \<lparr>eh_ByHash = [], eh_Hashes = [], eh_LastHash = []\<rparr>"

lemma same_head_same_events:
  assumes "check_events curve t 0 empty_history es = Inr h" "check_events curve' u 0 empty_history fs = Inr h'"
    and "eh_LastHash h = eh_LastHash h'" "\<forall>e \<in> set es \<union> set fs. json_kind (ev_PrevEventHash e)"
  shows "map event_content es = map event_content fs
    \<or> (\<exists>x \<in> event_text ` set es. \<exists>y \<in> event_text ` set fs. sha_collision x y)"
  using assms
proof (induction es arbitrary: fs h h' rule: rev_induct)
  case Nil
  then show ?case by (cases fs rule: rev_cases) (auto elim!: accepted_snoc)
next
  case (snoc e es)
  obtain h0 where e: "check_events curve t 0 empty_history es = Inr h0" "eh_LastHash h = digest_hex (event_text e)"
      "numbers_ok (event_content e)" "TrimSpace (stringValue (ev_PrevEventHash e)) = eh_LastHash h0"
    using accepted_snoc [OF snoc.prems(1)] .
  obtain f fs' where fs: "fs = fs' @ [f]"
    using snoc.prems(2,3) e(2) by (cases fs rule: rev_cases) auto
  obtain h0' where f: "check_events curve' u 0 empty_history fs' = Inr h0'" "eh_LastHash h' = digest_hex (event_text f)"
      "numbers_ok (event_content f)" "TrimSpace (stringValue (ev_PrevEventHash f)) = eh_LastHash h0'"
    using accepted_snoc [OF snoc.prems(2) [unfolded fs]] .
  show ?case
  proof (cases "sha_collision (event_text e) (event_text f)")
    case False
    then have "event_text e = event_text f" using digest_hex_binds snoc.prems(3) e(2) f(2) by metis
    then have content: "event_content e = event_content f"
      using json_text_inj wf_content [OF e(3)] wf_content [OF f(3)] by (simp add: event_text_def)
    have "stringValue (ev_PrevEventHash e) = stringValue (ev_PrevEventHash f)"
      using string_from_content [OF _ _ same_content_prev [OF content]] snoc.prems(4) by (simp add: fs)
    then have "eh_LastHash h0 = eh_LastHash h0'" using e(4) f(4) by simp
    from snoc.IH [OF e(1) f(1) this] snoc.prems(4) content show ?thesis by (auto simp: fs)
  qed (auto simp: fs)
qed

end
