(* ===== verification/Custody_Approvals.thy ===== *)
theory Custody_Approvals
  imports Event_Log
begin

text \<open>
  What a daemon checks of the custody transitions of a table it receives: the approvals of the players and the
  references that back stacks and pots. From \<open>internal/meshruntime/runtime.go\<close>, \<open>custody.go\<close>,
  \<open>custody_ark_exec.go\<close>, \<open>custody_ark_verify.go\<close> and \<open>turn_challenge.go\<close>.
\<close>

section \<open>Approvals\<close>

definition custodyTransitionRequestHash :: "(TxTreeNode \<Rightarrow> json) \<Rightarrow> CustodyTransition \<Rightarrow> string" where
  "custodyTransitionRequestHash node_json transition = HashCustodyRequest node_json transition"

definition custodyApprovalPayload :: "string \<Rightarrow> string \<Rightarrow> string \<Rightarrow> string \<Rightarrow> int \<Rightarrow> string \<Rightarrow> goval" where
  "custodyApprovalPayload tableID playerID prevStateHash approvalHash custodySeq signedAt =
     any_map
      [(''approvalHash'', Some (VString approvalHash)),
       (''custodySeq'', Some (VInt custodySeq)),
       (''playerId'', Some (VString playerID)),
       (''prevStateHash'', Some (VString prevStateHash)),
       (''signedAt'', Some (VString signedAt)),
       (''tableId'', Some (VString tableID)),
       (''type'', Some (VString ''custody-approval''))]"

definition custodyApprovalTargetHash :: "(TxTreeNode \<Rightarrow> json) \<Rightarrow> CustodyTransition \<Rightarrow> string" where
  "custodyApprovalTargetHash node_json transition =
     firstNonEmptyString [TrimSpace (cp_RequestHash (ct_Proof transition)), custodyTransitionRequestHash node_json transition]"

definition localCustodyApproval ::
    "(TxTreeNode \<Rightarrow> json) \<Rightarrow> ('sk, 'pk) secp256k1 \<Rightarrow> (nat \<Rightarrow> string res) \<Rightarrow> mesh_env \<Rightarrow> CustodyTransition
     \<Rightarrow> CustodySignature res" where
  "localCustodyApproval node_json curve random env transition =
     (let signedAt = me_Now env; approvalHash = custodyApprovalTargetHash node_json transition in
      bind_res (SignStructuredData curve random (li_PrivateKeyHex (me_WalletID env))
        (custodyApprovalPayload (ct_TableID transition) (li_PlayerID (me_WalletID env)) (ct_PrevStateHash transition)
          approvalHash (ct_CustodySeq transition) signedAt)) (\<lambda>signatureHex.
      Inr \<lparr>cg_ApprovalHash = approvalHash, cg_PlayerID = li_PlayerID (me_WalletID env), cg_SignatureHex = signatureHex,
        cg_SignedAt = signedAt, cg_WalletPubkeyHex = li_PublicKeyHex (me_WalletID env)\<rparr>))"

definition verifyCustodyApproval ::
    "(TxTreeNode \<Rightarrow> json) \<Rightarrow> ('sk, 'pk) secp256k1 \<Rightarrow> nativeSeatRecord \<Rightarrow> CustodyTransition \<Rightarrow> CustodySignature \<Rightarrow> unit res" where
  "verifyCustodyApproval node_json curve seat transition approval =
     check_signature curve ''custody approval signature is invalid'' (se_WalletPubkeyHex seat)
       (custodyApprovalPayload (ct_TableID transition) (cg_PlayerID approval) (ct_PrevStateHash transition)
         (custodyApprovalTargetHash node_json transition) (ct_CustodySeq transition) (cg_SignedAt approval))
       (cg_SignatureHex approval)"

text \<open>The opening of a challenge a transition resolves: the latest transition that opened one and led to the state
  before it, with the state before the opening.\<close>

definition acceptedChallengeOpenContextForTransition ::
    "nativeTableState \<Rightarrow> CustodyTransition
     \<Rightarrow> (CustodyTransition \<times> CustodyState option \<times> CustodyChallengeBundle) res" where
  "acceptedChallengeOpenContextForTransition table transition =
     (let chain = ts_CustodyTransitions table in
      case find (\<lambda>index. ct_Kind (chain ! index) = TransitionKindTurnChallengeOpen
          \<and> ct_NextStateHash (chain ! index) = ct_PrevStateHash transition) (rev [0..<length chain]) of
        None \<Rightarrow> Inl (Err ''turn challenge source transition is missing'')
      | Some index \<Rightarrow>
         (let candidate = chain ! index in
          case cp_ChallengeBundle (ct_Proof candidate) of
            None \<Rightarrow> Inl (Err ''turn challenge source transition is missing its challenge bundle'')
          | Some opening \<Rightarrow>
              if cp_ChallengeWitness (ct_Proof candidate) = None
              then Inl (Err ''turn challenge source transition is missing its challenge witness'')
              else Inr (candidate, if index > 0 then Some (ct_NextState (chain ! (index - 1))) else None, opening)))"

definition challengeResolutionApprovalSource ::
    "nativeTableState \<Rightarrow> CustodyTransition \<Rightarrow> (nativeTableState \<times> CustodyTransition) option res" where
  "challengeResolutionApprovalSource table transition =
     (if ct_Kind transition \<noteq> TransitionKindAction \<and> ct_Kind transition \<noteq> TransitionKindTimeout then Inr None
      else if cp_ChallengeBundle (ct_Proof transition) = None \<and> cp_ChallengeWitness (ct_Proof transition) = None
      then Inr None
      else bind_res (acceptedChallengeOpenContextForTransition table transition) (\<lambda>(openTransition, openPrevious, _).
        Inr (Some (table\<lparr>ts_LatestCustodyState := openPrevious\<rparr>,
          transition\<lparr>ct_CustodySeq := ct_CustodySeq openTransition, ct_PrevStateHash := ct_PrevStateHash openTransition,
            ct_NextState := (ct_NextState transition)
              \<lparr>cs_CustodySeq := cs_CustodySeq (ct_NextState openTransition),
               cs_PrevStateHash := cs_PrevStateHash (ct_NextState openTransition)\<rparr>\<rparr>))))"

definition check_approval ::
    "(TxTreeNode \<Rightarrow> json) \<Rightarrow> ('sk, 'pk) secp256k1 \<Rightarrow> nativeTableState \<Rightarrow> CustodyTransition \<Rightarrow> string
     \<Rightarrow> (string, CustodySignature) gomap \<Rightarrow> CustodySignature \<Rightarrow> unit res" where
  "check_approval node_json curve table approvalTransition requestHash approvalByPlayer approval =
     (if cg_PlayerID approval = [] then Inl (Err ''custody approval is missing player id'')
      else if cg_SignatureHex approval = [] \<or> cg_SignedAt approval = []
      then Inl (Err ''custody approval for %s is incomplete'')
      else if cg_ApprovalHash approval \<noteq> requestHash
      then Inl (Err ''custody approval for %s targets the wrong request'')
      else if map_of approvalByPlayer (cg_PlayerID approval) \<noteq> None
      then Inl (Err ''custody approval for %s is duplicated'')
      else case seatRecordForPlayer table (cg_PlayerID approval) of
          None \<Rightarrow> Inl (Err ''custody approval for unknown player %s'')
        | Some seat \<Rightarrow>
            if cg_WalletPubkeyHex approval \<noteq> [] \<and> cg_WalletPubkeyHex approval \<noteq> se_WalletPubkeyHex seat
            then Inl (Err ''custody approval pubkey mismatch for %s'')
            else wrap_err ''custody approval verification failed for %s: %w''
              (verifyCustodyApproval node_json curve seat approvalTransition approval))"

fun collect_approvals ::
    "(TxTreeNode \<Rightarrow> json) \<Rightarrow> ('sk, 'pk) secp256k1 \<Rightarrow> nativeTableState \<Rightarrow> CustodyTransition \<Rightarrow> string
     \<Rightarrow> (string, CustodySignature) gomap \<Rightarrow> CustodySignature list \<Rightarrow> (string, CustodySignature) gomap res" where
  "collect_approvals node_json curve table approvalTransition requestHash approvalByPlayer [] = Inr approvalByPlayer"
| "collect_approvals node_json curve table approvalTransition requestHash approvalByPlayer (approval # approvals) =
     bind_res (check_approval node_json curve table approvalTransition requestHash approvalByPlayer approval) (\<lambda>_.
       collect_approvals node_json curve table approvalTransition requestHash
         (AList.update (cg_PlayerID approval) approval approvalByPlayer) approvals)"

definition validateCustodyApprovals ::
    "(TxTreeNode \<Rightarrow> json) \<Rightarrow> ('sk, 'pk) secp256k1 \<Rightarrow> nativeTableState \<Rightarrow> CustodyTransition \<Rightarrow> string list \<Rightarrow> unit res" where
  "validateCustodyApprovals node_json curve table0 transition required =
     bind_res (challengeResolutionApprovalSource table0 transition) (\<lambda>source.
     (let (table, approvalTransition) = (case source of
            None \<Rightarrow> (table0, transition)
          | Some (sourceTable, sourceTransition) \<Rightarrow> (sourceTable, sourceTransition\<lparr>ct_Proof := (ct_Proof sourceTransition)
              \<lparr>cp_RequestHash := TrimSpace (cp_RequestHash (ct_Proof transition))\<rparr>\<rparr>));
          requestHash = TrimSpace (cp_RequestHash (ct_Proof approvalTransition)) in
      if requestHash = [] then Inl (Err ''custody proof request hash is missing'')
      else bind_res (collect_approvals node_json curve table approvalTransition requestHash [] (ct_Approvals transition))
        (\<lambda>approvalByPlayer. first_error
          ((if required = [] then []
            else fail_if (length approvalByPlayer \<noteq> length required) ''custody approval set is incomplete''
              # map (\<lambda>playerID. fail_if (map_of approvalByPlayer playerID = None) ''missing custody approval for %s'') required)
           @ fail_if (length (cp_Signatures (ct_Proof transition)) \<noteq> length (ct_Approvals transition))
               ''custody proof signatures do not match approvals''
           # map (\<lambda>signature. fail_if (map_of approvalByPlayer (cg_PlayerID signature) \<noteq> Some signature)
               ''custody proof signature mismatch for %s'') (cp_Signatures (ct_Proof transition))))))"

section \<open>References\<close>

definition canonicalVTXORefs :: "VTXORef list \<Rightarrow> VTXORef list" where
  "canonicalVTXORefs refs = slice_stable (\<lambda>l r.
     if vr_TxID l \<noteq> vr_TxID r then vr_TxID l < vr_TxID r
     else if vr_VOut l \<noteq> vr_VOut r then vr_VOut l < vr_VOut r
     else if vr_ArkTxID l \<noteq> vr_ArkTxID r then vr_ArkTxID l < vr_ArkTxID r
     else if vr_ArkIntentID l \<noteq> vr_ArkIntentID r then vr_ArkIntentID l < vr_ArkIntentID r
     else if vr_AmountSats l \<noteq> vr_AmountSats r then vr_AmountSats l < vr_AmountSats r
     else vr_OwnerPlayerID l < vr_OwnerPlayerID r) refs"

definition sameCanonicalVTXORefs :: "VTXORef list \<Rightarrow> VTXORef list \<Rightarrow> bool" where
  "sameCanonicalVTXORefs left right \<longleftrightarrow> canonicalVTXORefs left = canonicalVTXORefs right"

definition previousCustodyRefSet :: "CustodyState option \<Rightarrow> (string, VTXORef) gomap" where
  "previousCustodyRefSet state = (case state of None \<Rightarrow> [] | Some s \<Rightarrow>
     fold (\<lambda>ref m. AList.update (fundingRefKey ref) ref m)
       (concat (map sc_VTXORefs (cs_StackClaims s)) @ concat (map ps_VTXORefs (cs_PotSlices s))) [])"

definition nextCustodyRefs :: "CustodyTransition \<Rightarrow> VTXORef list" where
  "nextCustodyRefs transition = concat (map sc_VTXORefs (cs_StackClaims (ct_NextState transition)))
     @ concat (map ps_VTXORefs (cs_PotSlices (ct_NextState transition)))"

fun unique_refs :: "string list \<Rightarrow> VTXORef list \<Rightarrow> VTXORef list" where
  "unique_refs seen [] = []"
| "unique_refs seen (ref # refs) =
     (if fundingRefKey ref \<in> set seen then unique_refs seen refs
      else ref # unique_refs (fundingRefKey ref # seen) refs)"

definition uniqueCustodyRefs :: "VTXORef list list \<Rightarrow> VTXORef list" where
  "uniqueCustodyRefs refs = unique_refs [] (concat refs)"

text \<open>The checks of one reference of a stack or a pot; \<open>owner\<close> is the claim's player, for a stack.\<close>

definition ref_label :: "string option \<Rightarrow> string" where
  "ref_label owner = (if owner = None then ''custody pot'' else ''custody stack'')"

definition check_next_ref ::
    "(string, VTXORef) gomap \<Rightarrow> CustodyTransition \<Rightarrow> bool \<Rightarrow> string option \<Rightarrow> (string, VTXORef) gomap \<Rightarrow> VTXORef \<Rightarrow> unit res" where
  "check_next_ref previousRefs transition requireArkProof owner seenRefs ref =
     first_error
      ((if \<not> requireArkProof then []
        else
         [fail_if (TrimSpace (vr_ArkIntentID ref) = []) (ref_label owner @ '' ref is missing Ark intent for %s''),
          fail_if (map_of previousRefs (fundingRefKey ref) \<noteq> Some ref \<and> vr_ArkIntentID ref \<noteq> ct_ArkIntentID transition)
            (ref_label owner @ '' ref Ark intent does not match transition for %s''),
          fail_if (TrimSpace (vr_Script ref) = [] \<or> vr_Tapscripts ref = [])
            (ref_label owner @ '' ref is missing script material for %s'')])
       @ [fail_if (case owner of None \<Rightarrow> False | Some player \<Rightarrow>
              vr_OwnerPlayerID ref \<noteq> [] \<and> vr_OwnerPlayerID ref \<noteq> player) ''custody stack ref owner mismatch for %s'',
          fail_if (case map_of seenRefs (fundingRefKey ref) of None \<Rightarrow> False | Some existing \<Rightarrow> existing \<noteq> ref)
            ''custody ref %s is reused inconsistently''])"

fun check_next_refs ::
    "(string, VTXORef) gomap \<Rightarrow> CustodyTransition \<Rightarrow> bool \<Rightarrow> string option \<Rightarrow> (string, VTXORef) gomap \<Rightarrow> VTXORef list
     \<Rightarrow> (string, VTXORef) gomap res" where
  "check_next_refs previousRefs transition requireArkProof owner seenRefs [] = Inr seenRefs"
| "check_next_refs previousRefs transition requireArkProof owner seenRefs (ref # refs) =
     bind_res (check_next_ref previousRefs transition requireArkProof owner seenRefs ref) (\<lambda>_.
       check_next_refs previousRefs transition requireArkProof owner (AList.update (fundingRefKey ref) ref seenRefs) refs)"

text \<open>The claims, then the pots: the owner if any, what the references have to add up to, the references.\<close>

fun check_backing ::
    "(string, VTXORef) gomap \<Rightarrow> CustodyTransition \<Rightarrow> bool \<Rightarrow> (string, VTXORef) gomap
     \<Rightarrow> (string option \<times> int \<times> VTXORef list) list \<Rightarrow> unit res" where
  "check_backing previousRefs transition requireArkProof seenRefs [] = Inr ()"
| "check_backing previousRefs transition requireArkProof seenRefs ((owner, amount, refs) # rest) =
     (if sumVTXORefs refs \<noteq> amount then Inl (Err (ref_label owner
        @ (if owner = None then '' slice refs do not match total for %s'' else '' refs do not match amount for %s'')))
      else bind_res (check_next_refs previousRefs transition requireArkProof owner seenRefs refs) (\<lambda>seenRefs'.
        check_backing previousRefs transition requireArkProof seenRefs' rest))"

definition backings :: "CustodyState \<Rightarrow> (string option \<times> int \<times> VTXORef list) list" where
  "backings state =
     map (\<lambda>claim. (Some (sc_PlayerID claim), stackClaimBackedAmount claim, sc_VTXORefs claim)) (cs_StackClaims state)
     @ map (\<lambda>pot. (None, ps_TotalSats pot, ps_VTXORefs pot)) (cs_PotSlices state)"

definition validateAcceptedCustodyRefs :: "CustodyState option \<Rightarrow> CustodyTransition \<Rightarrow> bool \<Rightarrow> unit res" where
  "validateAcceptedCustodyRefs previous transition requireArkProof =
     (let stackRefs = concat (map sc_VTXORefs (cs_StackClaims (ct_NextState transition)));
          stackRefByKey = fold (\<lambda>ref m. AList.update (fundingRefKey ref) ref m) stackRefs [];
          proofRefs = cp_VTXORefs (ct_Proof transition) in
      bind_res (check_backing (previousCustodyRefSet previous) transition requireArkProof [] (backings (ct_NextState transition)))
        (\<lambda>_. first_error
          (fail_if (length proofRefs < length stackRefs) ''custody proof vtxo refs do not cover stack claims''
           # map (\<lambda>ref. fail_if (case map_of stackRefByKey (fundingRefKey ref) of None \<Rightarrow> False | Some existing \<Rightarrow> existing \<noteq> ref)
               ''custody proof references unknown vtxo %s'') proofRefs
           @ map (\<lambda>ref. fail_if (\<not> list_ex (\<lambda>proofRef. fundingRefKey proofRef = fundingRefKey ref \<and> proofRef = ref) proofRefs)
               ''custody proof is missing stack ref %s'') stackRefs)))"

section \<open>Money\<close>

definition refs_by_key :: "VTXORef list \<Rightarrow> VTXORef list" where
  "refs_by_key refs = slice_stable (\<lambda>l r. fundingRefKey l < fundingRefKey r) refs"

definition sort_strings :: "string list \<Rightarrow> string list" where
  "sort_strings s = slice_stable (<) s"

definition canonicalCustodyMoneyStacks :: "CustodyState option \<Rightarrow> StackClaim list" where
  "canonicalCustodyMoneyStacks state = (case state of None \<Rightarrow> [] | Some s \<Rightarrow>
     map (\<lambda>claim. claim\<lparr>sc_VTXORefs := refs_by_key (sc_VTXORefs claim)\<rparr>)
       (slice_stable (\<lambda>l r. if sc_SeatIndex l \<noteq> sc_SeatIndex r then sc_SeatIndex l < sc_SeatIndex r
          else sc_PlayerID l < sc_PlayerID r) (cs_StackClaims s)))"

definition canonicalCustodyMoneyPots :: "CustodyState option \<Rightarrow> PotSlice list" where
  "canonicalCustodyMoneyPots state = (case state of None \<Rightarrow> [] | Some s \<Rightarrow>
     map (\<lambda>pot. pot\<lparr>ps_EligiblePlayerIDs := sort_strings (ps_EligiblePlayerIDs pot),
         ps_ContributedPlayerIDs := sort_strings (ps_ContributedPlayerIDs pot),
         ps_WinnerPlayerIDs := sort_strings (ps_WinnerPlayerIDs pot),
         ps_OddChipPlayerIDs := sort_strings (ps_OddChipPlayerIDs pot),
         ps_VTXORefs := refs_by_key (ps_VTXORefs pot)\<rparr>)
       (slice_stable (\<lambda>l r. if ps_Sequence l \<noteq> ps_Sequence r then ps_Sequence l < ps_Sequence r
          else ps_PotID l < ps_PotID r) (cs_PotSlices s)))"

definition custodyTransitionRequiresArkSettlement :: "CustodyState option \<Rightarrow> CustodyTransition \<Rightarrow> bool" where
  "custodyTransitionRequiresArkSettlement previous transition \<longleftrightarrow>
     previous = None
     \<or> canonicalCustodyMoneyStacks previous \<noteq> canonicalCustodyMoneyStacks (Some (ct_NextState transition))
     \<or> canonicalCustodyMoneyPots previous \<noteq> canonicalCustodyMoneyPots (Some (ct_NextState transition))"

definition custodyTransitionUsesMockSettlement :: "CustodyTransition \<Rightarrow> bool" where
  "custodyTransitionUsesMockSettlement transition \<longleftrightarrow>
     take 12 (firstNonEmptyString [cp_ArkIntentID (ct_Proof transition), ct_ArkIntentID transition]) = ''mock-intent-''"

definition acceptedCustodyTransitionComparable :: "CustodyTransition \<Rightarrow> CustodyTransition" where
  "acceptedCustodyTransitionComparable transition =
     (case cp_ChallengeWitness (ct_Proof transition) of
        None \<Rightarrow> transition
      | Some witness \<Rightarrow> transition\<lparr>ct_Proof := (ct_Proof transition)
          \<lparr>cp_ChallengeWitness := Some (witness\<lparr>cw_BroadcastTxIDs := [], cw_ExecutedAt := []\<rparr>),
           cp_FinalizedAt := [], cp_TransitionHash := []\<rparr>\<rparr>)"

definition custodyStateRefsForPlayer :: "CustodyState option \<Rightarrow> string \<Rightarrow> VTXORef list" where
  "custodyStateRefsForPlayer state playerID = (case state of None \<Rightarrow> [] | Some s \<Rightarrow>
     (case find (\<lambda>claim. sc_PlayerID claim = playerID) (cs_StackClaims s) of
        None \<Rightarrow> [] | Some claim \<Rightarrow> canonicalVTXORefs (sc_VTXORefs claim)))"

definition validateCustodySettlementWitnessSummary :: "CustodyTransition \<Rightarrow> CustodySettlementWitness option \<Rightarrow> unit res" where
  "validateCustodySettlementWitnessSummary transition witness =
     (case witness of
        None \<Rightarrow> Inl (Err ''custody settlement witness is missing'')
      | Some w \<Rightarrow>
         (let p = ct_Proof transition in
          first_error
           [fail_if (TrimSpace (sw_ArkIntentID w) = []) ''custody settlement witness is missing Ark intent id'',
            fail_if (TrimSpace (sw_ArkTxID w) = []) ''custody settlement witness is missing Ark txid'',
            fail_if (TrimSpace (sw_FinalizedAt w) = []) ''custody settlement witness is missing finalized timestamp'',
            fail_if (ct_ArkIntentID transition \<noteq> [] \<and> sw_ArkIntentID w \<noteq> ct_ArkIntentID transition)
              ''custody settlement witness intent id mismatch'',
            fail_if (cp_ArkIntentID p \<noteq> [] \<and> sw_ArkIntentID w \<noteq> cp_ArkIntentID p)
              ''custody proof witness intent id mismatch'',
            fail_if (ct_ArkTxID transition \<noteq> [] \<and> sw_ArkTxID w \<noteq> ct_ArkTxID transition)
              ''custody settlement witness txid mismatch'',
            fail_if (cp_ArkTxID p \<noteq> [] \<and> sw_ArkTxID w \<noteq> cp_ArkTxID p) ''custody proof witness txid mismatch'',
            fail_if (cp_FinalizedAt p \<noteq> [] \<and> sw_FinalizedAt w \<noteq> cp_FinalizedAt p)
              ''custody proof witness finalized timestamp mismatch'']))"

text \<open>The statuses of a received table, set back to those of a custody state: the last claim of a player that has
  a status counts.\<close>

definition restoreAcceptedSeatStatusesFromCustodyState :: "nativeTableState \<Rightarrow> CustodyState option \<Rightarrow> nativeTableState" where
  "restoreAcceptedSeatStatusesFromCustodyState table state =
     (case state of
        None \<Rightarrow> table
      | Some s \<Rightarrow>
         (let statusByPlayerID = fold (\<lambda>claim m. if TrimSpace (sc_Status claim) = [] then m
                else AList.update (sc_PlayerID claim) (TrimSpace (sc_Status claim)) m) (cs_StackClaims s) [] in
          table\<lparr>ts_Seats := map (\<lambda>seat. case map_of statusByPlayerID (se_PlayerID seat) of
              None \<Rightarrow> seat | Some status \<Rightarrow> seat\<lparr>se_Status := status\<rparr>) (ts_Seats table)\<rparr>))"

section \<open>Approvals are unanimous\<close>

text \<open>An approval a player has signed for the request of a transition, under the key of its seat.\<close>

definition approval_ok ::
    "(TxTreeNode \<Rightarrow> json) \<Rightarrow> ('sk, 'pk) secp256k1 \<Rightarrow> nativeTableState \<Rightarrow> CustodyTransition \<Rightarrow> CustodySignature \<Rightarrow> bool" where
  "approval_ok node_json curve table transition approval \<longleftrightarrow>
     cg_PlayerID approval \<noteq> [] \<and> cg_SignatureHex approval \<noteq> [] \<and> cg_SignedAt approval \<noteq> []
     \<and> cg_ApprovalHash approval = TrimSpace (cp_RequestHash (ct_Proof transition))
     \<and> (\<exists>seat. seatRecordForPlayer table (cg_PlayerID approval) = Some seat
         \<and> (cg_WalletPubkeyHex approval = [] \<or> cg_WalletPubkeyHex approval = se_WalletPubkeyHex seat)
         \<and> VerifyStructuredData curve (se_WalletPubkeyHex seat)
             (custodyApprovalPayload (ct_TableID transition) (cg_PlayerID approval) (ct_PrevStateHash transition)
               (custodyApprovalTargetHash node_json transition) (ct_CustodySeq transition) (cg_SignedAt approval))
             (cg_SignatureHex approval) = Inr True)"

lemma check_signature_ok [simp]:
  "check_signature curve failure key payload sig = Inr () \<longleftrightarrow> VerifyStructuredData curve key payload sig = Inr True"
  by (auto simp: check_signature_def bind_res_ok)

lemma first_error_fail_if [simp]:
  "first_error (map (\<lambda>x. fail_if (P x) msg) xs) = Inr () \<longleftrightarrow> (\<forall>x \<in> set xs. \<not> P x)"
  by (auto simp: first_error_ok)

lemma check_approval_ok:
  "check_approval node_json curve table transition (TrimSpace (cp_RequestHash (ct_Proof transition))) seen approval = Inr ()
    \<longleftrightarrow> approval_ok node_json curve table transition approval \<and> map_of seen (cg_PlayerID approval) = None"
  by (auto simp: check_approval_def approval_ok_def verifyCustodyApproval_def split: option.splits if_splits)

lemma collect_approvals_ok:
  assumes "distinct (map fst seen)"
  shows "collect_approvals node_json curve table transition (TrimSpace (cp_RequestHash (ct_Proof transition))) seen approvals = Inr m
    \<longleftrightarrow> (\<forall>approval \<in> set approvals. approval_ok node_json curve table transition approval)
      \<and> distinct (map fst seen @ map cg_PlayerID approvals) \<and> m = seen @ map (\<lambda>a. (cg_PlayerID a, a)) approvals"
  using assms
proof (induction approvals arbitrary: seen)
  case (Cons a approvals)
  show ?case
  proof (cases "map_of seen (cg_PlayerID a)")
    case None
    then have new: "cg_PlayerID a \<notin> fst ` set seen" by (simp add: map_of_eq_None_iff)
    then have "AList.update (cg_PlayerID a) a seen = seen @ [(cg_PlayerID a, a)]" by (rule map_snd_update_new)
    moreover have "distinct (map fst (seen @ [(cg_PlayerID a, a)]))" using Cons.prems new by auto
    ultimately show ?thesis
      using Cons.IH [of "seen @ [(cg_PlayerID a, a)]"] None by (auto simp: bind_res_ok check_approval_ok)
  next
    case (Some b)
    then have "cg_PlayerID a \<in> fst ` set seen" by (metis map_of_eq_None_iff option.distinct(1))
    with Some show ?thesis by (auto simp: bind_res_ok check_approval_ok)
  qed
qed auto

lemma approvals_accepted_iff:
  assumes "cp_ChallengeBundle (ct_Proof transition) = None" "cp_ChallengeWitness (ct_Proof transition) = None"
    and "required \<noteq> []" "distinct required"
  shows "validateCustodyApprovals node_json curve table transition required = Inr ()
    \<longleftrightarrow> TrimSpace (cp_RequestHash (ct_Proof transition)) \<noteq> []
      \<and> distinct (map cg_PlayerID (ct_Approvals transition))
      \<and> set (map cg_PlayerID (ct_Approvals transition)) = set required
      \<and> (\<forall>approval \<in> set (ct_Approvals transition). approval_ok node_json curve table transition approval)
      \<and> length (cp_Signatures (ct_Proof transition)) = length (ct_Approvals transition)
      \<and> set (cp_Signatures (ct_Proof transition)) \<subseteq> set (ct_Approvals transition)"
    (is "?accepted \<longleftrightarrow> ?hash \<and> ?dist \<and> ?players \<and> ?ok \<and> ?len \<and> ?sigs")
proof -
  let ?m = "map (\<lambda>a. (cg_PlayerID a, a)) (ct_Approvals transition)"
  have "challengeResolutionApprovalSource table transition = Inr None"
    using assms(1,2) by (simp add: challengeResolutionApprovalSource_def)
  then have accepted: "?accepted \<longleftrightarrow> ?hash \<and> ?dist \<and> ?ok \<and> length ?m = length required
      \<and> (\<forall>player \<in> set required. map_of ?m player \<noteq> None) \<and> ?len
      \<and> (\<forall>s \<in> set (cp_Signatures (ct_Proof transition)). map_of ?m (cg_PlayerID s) = Some s)"
    using assms(3) by (simp add: validateCustodyApprovals_def Let_def bind_res_ok collect_approvals_ok) blast
  have players: "length ?m = length required \<and> (\<forall>player \<in> set required. map_of ?m player \<noteq> None) \<longleftrightarrow> ?players" if ?dist
  proof -
    have card: "card (cg_PlayerID ` set (ct_Approvals transition)) = length ?m" using that distinct_card by fastforce
    have some: "map_of ?m player \<noteq> None \<longleftrightarrow> player \<in> cg_PlayerID ` set (ct_Approvals transition)" for player
      by (simp add: map_of_eq_None_iff image_image)
    show ?thesis
    proof
      assume *: "length ?m = length required \<and> (\<forall>player \<in> set required. map_of ?m player \<noteq> None)"
      then have "set required \<subseteq> cg_PlayerID ` set (ct_Approvals transition)" using some by blast
      moreover have "card (set required) = card (cg_PlayerID ` set (ct_Approvals transition))"
        using * card distinct_card [OF assms(4)] by simp
      ultimately have "set required = cg_PlayerID ` set (ct_Approvals transition)"
        using card_subset_eq [of "cg_PlayerID ` set (ct_Approvals transition)" "set required"] by simp
      then show ?players by simp
    next
      assume ?players
      then show "length ?m = length required \<and> (\<forall>player \<in> set required. map_of ?m player \<noteq> None)"
        using card some distinct_card [OF assms(4)] by auto
    qed
  qed
  have signed: "(map_of ?m (cg_PlayerID s) = Some s) \<longleftrightarrow> s \<in> set (ct_Approvals transition)" if ?dist for s
  proof -
    have "distinct (map fst ?m)" using that by (simp add: comp_def)
    from map_of_eq_Some_iff [OF this, of "cg_PlayerID s" s] show ?thesis by auto
  qed
  show ?thesis
  proof (cases ?dist)
    case True
    have "(\<forall>s \<in> set (cp_Signatures (ct_Proof transition)). map_of ?m (cg_PlayerID s) = Some s) \<longleftrightarrow> ?sigs"
      using signed [OF True] by blast
    then show ?thesis using accepted players [OF True] True by argo
  qed (use accepted in argo)
qed

end
