(* ===== verification/Menu_Properties.thy ===== *)
theory Menu_Properties
  imports Action_Menu Holdem_Properties
begin

text \<open>
  The menu of a turn against the hand engine: which of the offered actions the engine accepts, that the options
  cannot be confused, and the turn for which no menu can be built.
\<close>

section \<open>Labels\<close>

lemma normalize_fractions_ok:
  "distinct (normalize_fractions seen xs) \<and> set (normalize_fractions seen xs) \<inter> set seen = {}
   \<and> (\<forall>b \<in> set (normalize_fractions seen xs). 0 < b \<and> b \<le> actionMenuDefaultPotBps)"
proof (induction xs arbitrary: seen)
  case (Cons raw rest)
  define b where "b = (if raw > actionMenuDefaultPotBps then actionMenuDefaultPotBps else raw)"
  have b: "0 < b \<and> b \<le> actionMenuDefaultPotBps" if "\<not> raw \<le> 0"
    using that by (auto simp: b_def actionMenuDefaultPotBps_def)
  show ?case using Cons.IH [of seen] Cons.IH [of "b # seen"] b by (auto simp: Let_def simp flip: b_def)
qed simp

lemma policy_fractions:
  "distinct (mp_PotFractionBps (actionMenuPolicyForTable table))"
  "\<forall>b \<in> set (mp_PotFractionBps (actionMenuPolicyForTable table)). 0 < b \<and> b \<le> 10000"
proof -
  have "distinct (mp_PotFractionBps p) \<and> (\<forall>b \<in> set (mp_PotFractionBps p). 0 < b \<and> b \<le> 10000)"
    if "p = normalizeActionMenuPolicy q" for p q
    using that normalize_fractions_ok [of "[]"]
    by (auto simp: normalizeActionMenuPolicy_def Let_def defaultActionMenuPolicy_def actionMenuDefaultHalfPotBps_def
        actionMenuDefaultPotBps_def)
  then show "distinct (mp_PotFractionBps (actionMenuPolicyForTable table))"
    "\<forall>b \<in> set (mp_PotFractionBps (actionMenuPolicyForTable table)). 0 < b \<and> b \<le> 10000"
    by (auto simp: actionMenuPolicyForTable_def)
qed

section \<open>Sized options\<close>

lemma append_options_props:
  "set (map mo_OptionID (append_options k lo hi seen xs)) \<subseteq> (\<lambda>(label, _). actionMenuOptionID k label) ` set xs"
  "distinct (map fst xs) \<Longrightarrow> distinct (map mo_OptionID (append_options k lo hi seen xs))"
  "distinct (map mo_Action (append_options k lo hi seen xs))"
  "\<forall>opt \<in> set (append_options k lo hi seen xs). ac_Type (mo_Action opt) = k \<and> ac_TotalSats (mo_Action opt) \<notin> set seen
     \<and> (\<exists>raw. ac_TotalSats (mo_Action opt) = clampActionMenuTotal raw lo hi)"
proof (induction xs arbitrary: seen)
  case (Cons x xs)
  obtain label raw where x: "x = (label, raw)" by (cases x)
  define t where "t = clampActionMenuTotal raw lo hi"
  note simps = x append_options.simps Let_def t_def [symmetric]
  { case 1
    show ?case using Cons.IH(1) [of seen] Cons.IH(1) [of "t # seen"] by (auto simp: simps menu_option_def)
  next
    case 2
    then have "label \<notin> fst ` set xs" by (simp add: x)
    then have "actionMenuOptionID k label \<notin> (\<lambda>(label, _). actionMenuOptionID k label) ` set xs"
      by (auto simp: actionMenuOptionID_def image_iff)
    then show ?case using 2 Cons.IH(1) [of "t # seen"] Cons.IH(2) [of seen] Cons.IH(2) [of "t # seen"]
      by (auto simp: simps menu_option_def)
  next
    case 3
    have "\<lparr>ac_Type = k, ac_TotalSats = t\<rparr> \<notin> mo_Action ` set (append_options k lo hi (t # seen) xs)"
    proof
      assume "\<lparr>ac_Type = k, ac_TotalSats = t\<rparr> \<in> mo_Action ` set (append_options k lo hi (t # seen) xs)"
      then obtain opt where opt: "opt \<in> set (append_options k lo hi (t # seen) xs)"
        "\<lparr>ac_Type = k, ac_TotalSats = t\<rparr> = mo_Action opt" by (rule imageE)
      then have "ac_TotalSats (mo_Action opt) = t" by (metis Action.select_convs(2))
      then show False using Cons.IH(4) [of "t # seen"] opt(1) by auto
    qed
    then show ?case using Cons.IH(3) [of seen] Cons.IH(3) [of "t # seen"] by (auto simp: simps menu_option_def)
  next
    case 4
    have "\<exists>raw. t = clampActionMenuTotal raw lo hi" by (auto simp: t_def)
    then show ?case using Cons.IH(4) [of seen] Cons.IH(4) [of "t # seen"] by (auto simp: simps menu_option_def) }
qed simp_all

text \<open>Every labelled total is offered, up to the clamping.\<close>

lemma append_options_cover:
  "(label, raw) \<in> set xs \<Longrightarrow> clampActionMenuTotal raw lo hi \<notin> set seen
    \<Longrightarrow> \<exists>opt \<in> set (append_options k lo hi seen xs). mo_Action opt = \<lparr>ac_Type = k, ac_TotalSats = clampActionMenuTotal raw lo hi\<rparr>"
proof (induction xs arbitrary: seen)
  case (Cons x xs)
  obtain label' raw' where x: "x = (label', raw')" by (cases x)
  show ?case
  proof (cases "clampActionMenuTotal raw lo hi = clampActionMenuTotal raw' lo hi")
    case True
    then show ?thesis using Cons.prems(2) by (simp add: x Let_def menu_option_def)
  next
    case False
    then have "(label, raw) \<in> set xs" using Cons.prems(1) x by auto
    then show ?thesis
      using Cons.IH [of seen] Cons.IH [of "clampActionMenuTotal raw' lo hi # seen"] Cons.prems(2) False by (auto simp: x Let_def)
  qed
qed simp

lemma clamp_range: "clampActionMenuTotal raw lo hi \<in> {lo..hi} \<longleftrightarrow> lo \<le> hi"
  by (auto simp: clampActionMenuTotal_def)

lemma bucket_totals_ok:
  assumes "0 \<le> i" "i < int (length (st_Players hand))"
  shows "\<exists>buckets. bucket_totals hand i fractions = Inr buckets \<and> map fst buckets = map (\<lambda>b. ''pot-'' @ itoa b) fractions"
  using assms by (induction fractions) (auto simp: actionMenuBucketTotal_def Let_def)

section \<open>The options of a turn\<close>

text \<open>The stack of the player who is up is below the smallest bet, and there is nothing to call.\<close>

definition short_stack :: "HoldemState \<Rightarrow> bool" where
  "short_stack s =
     (case st_ActingSeatIndex s of
        None \<Rightarrow> False
      | Some i \<Rightarrow>
         (let player = st_Players s ! nat i in
          st_CurrentBetSats s \<le> hp_RoundContributionSats player \<and> 0 < hp_StackSats player
          \<and> hp_StackSats player < maxInt (st_BigBlindSats s) 1))"

lemma options_of_plain:
  "options_of_legal hand i policy (plain_action k) =
    (if k \<in> {ActionFold, ActionCheck, ActionCall} then Inr [menu_option k 0 (action_type_str k)]
     else if k \<in> {ActionBet, ActionRaise} then Inl (Err ''action %s is missing its total range'') else Inr [])"
  by (simp add: options_of_legal_def plain_action_def)

definition sized_options ::
    "ActionType \<Rightarrow> int \<Rightarrow> int \<Rightarrow> (string \<times> int) list \<Rightarrow> NativeActionMenuOption list" where
  "sized_options k lo hi buckets = append_options k lo hi [] ((''min'', lo) # buckets @ [(''all-in'', hi)])"

lemma options_of_sized:
  "k \<in> {ActionBet, ActionRaise} \<Longrightarrow> bucket_totals hand i (mp_PotFractionBps policy) = Inr buckets \<Longrightarrow>
   options_of_legal hand i policy (sized_action k lo hi) = Inr (sized_options k lo hi buckets)"
  by (auto simp: options_of_legal_def sized_action_def sized_options_def)

lemma labels_distinct:
  assumes "distinct bs" "map fst buckets = map (\<lambda>b. ''pot-'' @ itoa b) bs"
  shows "distinct (map fst ((''min'', lo) # buckets @ [(''all-in'', hi)]))"
proof -
  have "distinct (map fst buckets)" using assms by (simp add: distinct_map inj_on_def)
  moreover have "''min'' \<notin> set (map fst buckets)" "''all-in'' \<notin> set (map fst buckets)" unfolding assms(2) by auto
  ultimately show ?thesis by simp
qed

lemma sized_options_props:
  assumes "distinct bs" "map fst buckets = map (\<lambda>b. ''pot-'' @ itoa b) bs"
  shows "distinct (map mo_OptionID (sized_options k lo hi buckets))" "distinct (map mo_Action (sized_options k lo hi buckets))"
    "\<forall>opt \<in> set (sized_options k lo hi buckets). ac_Type (mo_Action opt) = k
       \<and> (ac_TotalSats (mo_Action opt) \<in> {lo..hi} \<longleftrightarrow> lo \<le> hi)"
    "\<exists>opt \<in> set (sized_options k lo hi buckets). mo_Action opt = \<lparr>ac_Type = k, ac_TotalSats = clampActionMenuTotal lo lo hi\<rparr>"
    "\<exists>opt \<in> set (sized_options k lo hi buckets). mo_Action opt = \<lparr>ac_Type = k, ac_TotalSats = clampActionMenuTotal hi lo hi\<rparr>"
    "\<forall>opt \<in> set (sized_options k lo hi buckets). \<exists>label. mo_OptionID opt = actionMenuOptionID k label"
proof -
  let ?xs = "(''min'', lo) # buckets @ [(''all-in'', hi)]"
  show "distinct (map mo_OptionID (sized_options k lo hi buckets))"
    unfolding sized_options_def by (rule append_options_props(2) [OF labels_distinct [OF assms]])
  show "distinct (map mo_Action (sized_options k lo hi buckets))" unfolding sized_options_def by (rule append_options_props(3))
  show "\<forall>opt \<in> set (sized_options k lo hi buckets). ac_Type (mo_Action opt) = k
       \<and> (ac_TotalSats (mo_Action opt) \<in> {lo..hi} \<longleftrightarrow> lo \<le> hi)"
    unfolding sized_options_def using append_options_props(4) clamp_range by metis
  show "\<exists>opt \<in> set (sized_options k lo hi buckets). mo_Action opt = \<lparr>ac_Type = k, ac_TotalSats = clampActionMenuTotal lo lo hi\<rparr>"
    unfolding sized_options_def by (rule append_options_cover [where label = "''min''"]) simp_all
  show "\<exists>opt \<in> set (sized_options k lo hi buckets). mo_Action opt = \<lparr>ac_Type = k, ac_TotalSats = clampActionMenuTotal hi lo hi\<rparr>"
    unfolding sized_options_def by (rule append_options_cover [where label = "''all-in''"]) simp_all
  show "\<forall>opt \<in> set (sized_options k lo hi buckets). \<exists>label. mo_OptionID opt = actionMenuOptionID k label"
  proof
    fix opt
    assume "opt \<in> set (sized_options k lo hi buckets)"
    then have "mo_OptionID opt \<in> set (map mo_OptionID (append_options k lo hi [] ?xs))"
      unfolding sized_options_def by (simp only: set_map imageI)
    then have "mo_OptionID opt \<in> (\<lambda>(label, _). actionMenuOptionID k label) ` set ?xs" by (rule subsetD [OF append_options_props(1)])
    then show "\<exists>label. mo_OptionID opt = actionMenuOptionID k label" by (elim imageE) (auto split: prod.splits)
  qed
qed

section \<open>The legal actions of a turn\<close>

definition plain_kinds :: "HoldemState \<Rightarrow> HoldemPlayerState \<Rightarrow> ActionType list" where
  "plain_kinds s p = (if st_CurrentBetSats s \<le> hp_RoundContributionSats p then [ActionCheck] else [ActionFold, ActionCall])"

definition sized_kinds :: "HoldemState \<Rightarrow> int \<Rightarrow> HoldemPlayerState \<Rightarrow> (ActionType \<times> int \<times> int) list" where
  "sized_kinds s i p =
     (if st_CurrentBetSats s \<le> hp_RoundContributionSats p
      then if hp_StackSats p > 0
        then [(ActionBet, hp_RoundContributionSats p + maxInt (st_BigBlindSats s) 1, hp_RoundContributionSats p + hp_StackSats p)]
        else []
      else if hp_StackSats p > st_CurrentBetSats s - hp_RoundContributionSats p \<and> st_RaiseLockedSeatIndex s \<noteq> Some i
        then [(ActionRaise, minInt (st_MinRaiseToSats s) (hp_RoundContributionSats p + hp_StackSats p),
               hp_RoundContributionSats p + hp_StackSats p)]
        else [])"

lemma legal_shape:
  assumes "PhaseAllowsActions (st_Phase s)" "0 \<le> i" "i < seat_count s" "hp_Status (st_Players s ! nat i) = PlayerStatusActive"
  shows "GetLegalActions s (Some i) = map plain_action (plain_kinds s (st_Players s ! nat i))
    @ map (\<lambda>(k, lo, hi). sized_action k lo hi) (sized_kinds s i (st_Players s ! nat i))"
  using assms by (auto simp: GetLegalActions_def Let_def plain_kinds_def sized_kinds_def maxInt_def)

lemma plain_kinds_ok: "set (plain_kinds s p) \<subseteq> {ActionFold, ActionCheck, ActionCall}" "distinct (plain_kinds s p)" "plain_kinds s p \<noteq> []"
  by (simp_all add: plain_kinds_def)

lemma sized_kinds_ok:
  "(k, lo, hi) \<in> set (sized_kinds s i p) \<Longrightarrow> k \<in> {ActionBet, ActionRaise} \<and> sized_kinds s i p = [(k, lo, hi)]
    \<and> (lo \<le> hi \<longleftrightarrow> \<not> (k = ActionBet \<and> hp_StackSats p < maxInt (st_BigBlindSats s) 1))"
  by (auto simp: sized_kinds_def minInt_def split: if_splits)

lemma options_of_plains:
  "set ks \<subseteq> {ActionFold, ActionCheck, ActionCall} \<Longrightarrow> options_of_all hand i policy rest = Inr others \<Longrightarrow>
   options_of_all hand i policy (map plain_action ks @ rest) = Inr (map (\<lambda>k. menu_option k 0 (action_type_str k)) ks @ others)"
  by (induction ks) (auto simp: options_of_plain)

definition menu_of :: "HoldemState \<Rightarrow> int \<Rightarrow> (string \<times> int) list \<Rightarrow> NativeActionMenuOption list" where
  "menu_of s i buckets = map (\<lambda>k. menu_option k 0 (action_type_str k)) (plain_kinds s (st_Players s ! nat i))
     @ concat (map (\<lambda>(k, lo, hi). sized_options k lo hi buckets) (sized_kinds s i (st_Players s ! nat i)))"

lemma derive_menu:
  assumes "PhaseAllowsActions (st_Phase s)" "st_ActingSeatIndex s = Some i" "0 \<le> i" "i < seat_count s"
    "hp_Status (st_Players s ! nat i) = PlayerStatusActive"
  obtains buckets bs where "deriveFiniteMenuOptions s table = Inr (menu_of s i buckets)"
    "map fst buckets = map (\<lambda>b. ''pot-'' @ itoa b) bs" "distinct bs"
proof -
  let ?policy = "actionMenuPolicyForTable table" and ?p = "st_Players s ! nat i"
  obtain buckets where b: "bucket_totals s i (mp_PotFractionBps ?policy) = Inr buckets"
    "map fst buckets = map (\<lambda>b. ''pot-'' @ itoa b) (mp_PotFractionBps ?policy)"
    using bucket_totals_ok [of i s] assms(3,4) by blast
  have "options_of_all s i ?policy (map (\<lambda>(k, lo, hi). sized_action k lo hi) (sized_kinds s i ?p))
      = Inr (concat (map (\<lambda>(k, lo, hi). sized_options k lo hi buckets) (sized_kinds s i ?p)))"
    using options_of_sized [OF _ b(1)] by (auto simp: sized_kinds_def)
  then have "deriveFiniteMenuOptions s table = Inr (menu_of s i buckets)"
    using options_of_plains [OF plain_kinds_ok(1)] legal_shape [OF assms(1,3-5)] plain_kinds_ok(3) [of s ?p]
    by (simp add: deriveFiniteMenuOptions_def assms(2) menu_of_def Let_def)
  then show thesis using that b(2) policy_fractions(1) by blast
qed

section \<open>The menu against the engine\<close>

lemma turn_facts:
  assumes "config_ok c" "reachable c s" "st_ActingSeatIndex s = Some i"
  shows "PhaseAllowsActions (st_Phase s)" "0 \<le> i" "i < seat_count s" "hp_Status (st_Players s ! nat i) = PlayerStatusActive"
proof -
  have "st_Phase s \<noteq> StreetSettled"
    using reachable_inv [OF assms(1,2)] assms(3) by (auto simp: hand_inv_def settled_def)
  then have "turn_ok s" using reachable_running [OF assms(1,2)] by simp
  then show "PhaseAllowsActions (st_Phase s)" "0 \<le> i" "i < seat_count s" "hp_Status (st_Players s ! nat i) = PlayerStatusActive"
    using assms(3) by (simp_all add: turn_ok_def)
qed

lemma plain_accepted:
  assumes "config_ok c" "reachable c s" "st_ActingSeatIndex s = Some i" "k \<in> set (plain_kinds s (st_Players s ! nat i))"
  shows "is_ok (ApplyHoldemAction s i (mo_Action (menu_option k 0 label)))"
proof -
  note turn = turn_facts [OF assms(1-3)]
  have "plain_action k \<in> set (GetLegalActions s (Some i))" using legal_shape [OF turn] assms(4) by simp
  then show ?thesis
    using accepted_iff_listed [OF assms(1,2) turn(1), of i "mo_Action (menu_option k 0 label)"] assms(3)
    by (force simp: menu_option_def plain_action_def)
qed

lemma sized_accepted:
  assumes "config_ok c" "reachable c s" "st_ActingSeatIndex s = Some i"
    "(k, lo, hi) \<in> set (sized_kinds s i (st_Players s ! nat i))" "ac_Type a = k"
  shows "is_ok (ApplyHoldemAction s i a) \<longleftrightarrow> ac_TotalSats a \<in> {lo..hi}"
proof -
  note turn = turn_facts [OF assms(1-3)]
  have k: "k \<in> {ActionBet, ActionRaise}" "sized_kinds s i (st_Players s ! nat i) = [(k, lo, hi)]"
    using sized_kinds_ok [OF assms(4)] by auto
  have "k \<notin> set (plain_kinds s (st_Players s ! nat i))" using k(1) plain_kinds_ok(1) by blast
  then have "(\<exists>l \<in> set (GetLegalActions s (Some i)). la_Type l = k \<and> P l) \<longleftrightarrow> P (sized_action k lo hi)" for P
    using legal_shape [OF turn] k(2) by (auto simp: plain_action_def sized_action_def)
  then show ?thesis
    using accepted_iff_listed [OF assms(1,2) turn(1), of i a] assms(3,5) by (simp add: sized_action_def)
qed

lemma short_stack_iff:
  "st_ActingSeatIndex s = Some i \<Longrightarrow> (k, lo, hi) \<in> set (sized_kinds s i (st_Players s ! nat i))
    \<Longrightarrow> lo \<le> hi \<longleftrightarrow> \<not> (k = ActionBet \<and> short_stack s)"
  by (auto simp: short_stack_def sized_kinds_def minInt_def Let_def split: if_splits)

lemma menu_actions:
  assumes "config_ok c" "reachable c s" "st_ActingSeatIndex s = Some i"
    "map fst buckets = map (\<lambda>b. ''pot-'' @ itoa b) bs" "distinct bs" "opt \<in> set (menu_of s i buckets)"
  shows "is_ok (ApplyHoldemAction s i (mo_Action opt)) \<longleftrightarrow> \<not> (ac_Type (mo_Action opt) = ActionBet \<and> short_stack s)"
proof -
  let ?p = "st_Players s ! nat i"
  consider (plain) k where "k \<in> set (plain_kinds s ?p)" "opt = menu_option k 0 (action_type_str k)"
    | (sized) k lo hi where "(k, lo, hi) \<in> set (sized_kinds s i ?p)" "opt \<in> set (sized_options k lo hi buckets)"
    using assms(6) by (auto simp: menu_of_def)
  then show ?thesis
  proof cases
    case plain
    then have "ac_Type (mo_Action opt) \<noteq> ActionBet" using plain_kinds_ok(1) by (auto simp: menu_option_def)
    then show ?thesis using plain plain_accepted [OF assms(1-3)] by simp
  next
    case sized
    then have "ac_Type (mo_Action opt) = k" "ac_TotalSats (mo_Action opt) \<in> {lo..hi} \<longleftrightarrow> lo \<le> hi"
      using sized_options_props(3) [OF assms(5,4)] by blast+
    then show ?thesis using sized_accepted [OF assms(1-3) sized(1)] short_stack_iff [OF assms(3) sized(1)] by simp
  qed
qed

lemma option_id_sized: "k \<in> {ActionBet, ActionRaise} \<Longrightarrow> k' \<in> {ActionFold, ActionCheck, ActionCall} \<Longrightarrow>
    actionMenuOptionID k label \<noteq> action_type_str k'"
  by (auto simp: actionMenuOptionID_def)

lemma menu_distinct:
  assumes "map fst buckets = map (\<lambda>b. ''pot-'' @ itoa b) bs" "distinct bs"
  shows "distinct (map mo_OptionID (menu_of s i buckets))" "distinct (map mo_Action (menu_of s i buckets))"
proof -
  let ?p = "st_Players s ! nat i"
  let ?plain = "map (\<lambda>k. menu_option k 0 (action_type_str k)) (plain_kinds s ?p)"
  have plain: "distinct (map mo_OptionID ?plain)" "distinct (map mo_Action ?plain)"
    by (simp_all add: plain_kinds_def menu_option_def)
  have "distinct (map mo_OptionID (menu_of s i buckets)) \<and> distinct (map mo_Action (menu_of s i buckets))"
  proof (cases "sized_kinds s i ?p")
    case Nil
    then show ?thesis using plain by (simp add: menu_of_def)
  next
    case (Cons kind rest)
    then obtain k lo hi where k: "(k, lo, hi) \<in> set (sized_kinds s i ?p)" by (cases kind) auto
    note single = sized_kinds_ok [OF k] and sized = sized_options_props [OF assms(2,1), of k lo hi]
    have menu: "menu_of s i buckets = ?plain @ sized_options k lo hi buckets" using single by (simp add: menu_of_def)
    have "mo_OptionID opt \<noteq> action_type_str k' \<and> mo_Action opt \<noteq> mo_Action (menu_option k' 0 label)"
      if opt: "opt \<in> set (sized_options k lo hi buckets)" "k' \<in> set (plain_kinds s ?p)" for opt k' label
    proof -
      obtain l where "mo_OptionID opt = actionMenuOptionID k l" using sized(6) opt(1) by blast
      moreover have "k' \<in> {ActionFold, ActionCheck, ActionCall}" using plain_kinds_ok(1) opt(2) by blast
      moreover have "ac_Type (mo_Action opt) = k" using sized(3) opt(1) by blast
      ultimately show ?thesis using single option_id_sized by (auto simp: menu_option_def)
    qed
    then show ?thesis
      unfolding menu map_append distinct_append using plain sized(1,2) by (force simp: menu_option_def)
  qed
  then show "distinct (map mo_OptionID (menu_of s i buckets))" "distinct (map mo_Action (menu_of s i buckets))" by auto
qed

lemma menu_covers:
  assumes "map fst buckets = map (\<lambda>b. ''pot-'' @ itoa b) bs" "distinct bs"
    and "(k, lo, hi) \<in> set (sized_kinds s i (st_Players s ! nat i))" "lo \<le> hi" "t \<in> {lo, hi}"
  shows "\<lparr>ac_Type = k, ac_TotalSats = t\<rparr> \<in> mo_Action ` set (menu_of s i buckets)"
proof -
  have "clampActionMenuTotal t lo hi = t" using assms(4,5) by (auto simp: clampActionMenuTotal_def)
  then obtain opt where "opt \<in> set (sized_options k lo hi buckets)" "mo_Action opt = \<lparr>ac_Type = k, ac_TotalSats = t\<rparr>"
    using sized_options_props(4,5) [OF assms(2,1), of k lo hi] assms(5) by (metis insertE singletonD)
  moreover from this have "opt \<in> set (menu_of s i buckets)" using assms(3) by (force simp: menu_of_def)
  ultimately show ?thesis by (metis imageI)
qed

text \<open>C31. A menu offers what the engine accepts. On every turn of a hand the menu can be derived; no two of its
  options have the same id or the same action; every option is accepted by the engine, with one
  exception: a bet offered to a player who has less than the smallest bet left. The limits of every bet
  and raise the engine would accept are among the options.\<close>

theorem menu_offers_accepted_actions:
  assumes "config_ok c" and "reachable c s" and "st_ActingSeatIndex s = Some i"
  shows "\<exists>options. deriveFiniteMenuOptions s table = Inr options
    \<and> distinct (map mo_OptionID options) \<and> distinct (map mo_Action options)
    \<and> (\<forall>opt \<in> set options. is_ok (ApplyHoldemAction s i (mo_Action opt))
          \<longleftrightarrow> \<not> (ac_Type (mo_Action opt) = ActionBet \<and> short_stack s))
    \<and> (\<forall>l \<in> set (GetLegalActions s (Some i)). \<forall>lo hi. la_MinTotalSats l = Some lo \<and> la_MaxTotalSats l = Some hi \<and> lo \<le> hi \<longrightarrow>
          (\<forall>t \<in> {lo, hi}. \<lparr>ac_Type = la_Type l, ac_TotalSats = t\<rparr> \<in> mo_Action ` set options))"
proof -
  note turn = turn_facts [OF assms]
  obtain buckets bs where menu: "deriveFiniteMenuOptions s table = Inr (menu_of s i buckets)"
    "map fst buckets = map (\<lambda>b. ''pot-'' @ itoa b) bs" "distinct bs"
    by (rule derive_menu [OF turn(1) assms(3) turn(2-4)])
  have "(la_Type l, lo, hi) \<in> set (sized_kinds s i (st_Players s ! nat i))"
    if "l \<in> set (GetLegalActions s (Some i))" "la_MinTotalSats l = Some lo" "la_MaxTotalSats l = Some hi" for l lo hi
    using that legal_shape [OF turn] by (auto simp: plain_action_def sized_action_def)
  then have "\<forall>l \<in> set (GetLegalActions s (Some i)). \<forall>lo hi. la_MinTotalSats l = Some lo \<and> la_MaxTotalSats l = Some hi \<and> lo \<le> hi \<longrightarrow>
          (\<forall>t \<in> {lo, hi}. \<lparr>ac_Type = la_Type l, ac_TotalSats = t\<rparr> \<in> mo_Action ` set (menu_of s i buckets))"
    using menu_covers [OF menu(2,3)] by blast
  moreover have "\<forall>opt \<in> set (menu_of s i buckets). is_ok (ApplyHoldemAction s i (mo_Action opt))
          \<longleftrightarrow> \<not> (ac_Type (mo_Action opt) = ActionBet \<and> short_stack s)"
    using menu_actions [OF assms menu(2,3)] by blast
  ultimately show ?thesis using menu(1) menu_distinct [OF menu(2,3)] by blast
qed

lemma apply_options_ok: "is_ok (apply_options s i options) \<longleftrightarrow> (\<forall>opt \<in> set options. is_ok (ApplyHoldemAction s i (mo_Action opt)))"
  by (induction options) (auto split: sum.splits)


section \<open>Examples\<close>

text \<open>A big blind of 100 out of 130: after a limp and a check, the big blind has 30 left and is up on the flop.\<close>

definition shallow_config :: HoldemHandConfig where
  "shallow_config = demo_config\<lparr>hc_Seats := [\<lparr>hsc_PlayerID = ''alice'', hsc_StackSats = 1000\<rparr>, \<lparr>hsc_PlayerID = ''bob'', hsc_StackSats = 130\<rparr>]\<rparr>"

definition shallow_new :: HoldemState where
  "shallow_new = ok_of (CreateHoldemHand shallow_config) (initial_hand shallow_config)"

definition shallow_flop :: HoldemState where
  "shallow_flop =
     (let s = move ActionCheck 0 1 (move ActionCall 0 0 (ok_of (ActivateHoldemHand shallow_new) shallow_new))
      in ok_of (ApplyBoardCards s [''2c'', ''7d'', ''Th'']) s)"

lemma shallow_reachable: "config_ok shallow_config" "reachable shallow_config shallow_flop" "st_ActingSeatIndex shallow_flop = Some 1"
proof -
  show "config_ok shallow_config" by (simp add: config_ok_def shallow_config_def)
  have "CreateHoldemHand shallow_config = Inr shallow_new" by code_simp
  then have new: "reachable shallow_config shallow_new" by (rule reachable.create)
  show "reachable shallow_config shallow_flop"
    unfolding shallow_flop_def Let_def move_def by (intro reachable_ok_of new)
  show "st_ActingSeatIndex shallow_flop = Some 1" by code_simp
qed


theorem menu_offers_accepted_actions_witness:
  "\<forall>table. \<exists>options. deriveFiniteMenuOptions demo_open table = Inr options \<and> distinct (map mo_OptionID options)
    \<and> (\<forall>opt \<in> set options. is_ok (ApplyHoldemAction demo_open 0 (mo_Action opt)))
    \<and> \<lparr>ac_Type = ActionRaise, ac_TotalSats = 1000\<rparr> \<in> mo_Action ` set options"
proof
  fix table
  have no: "\<not> short_stack demo_open"
    and legal: "sized_action ActionRaise 200 1000 \<in> set (GetLegalActions demo_open (Some 0))" by code_simp+
  from menu_offers_accepted_actions [OF demo_config_ok demo_reachable(2) demo_phases(2), of table]
  obtain options where opts: "deriveFiniteMenuOptions demo_open table = Inr options" "distinct (map mo_OptionID options)"
    "\<forall>opt \<in> set options. is_ok (ApplyHoldemAction demo_open 0 (mo_Action opt))
      \<longleftrightarrow> \<not> (ac_Type (mo_Action opt) = ActionBet \<and> short_stack demo_open)"
    "\<forall>l \<in> set (GetLegalActions demo_open (Some 0)). \<forall>lo hi. la_MinTotalSats l = Some lo \<and> la_MaxTotalSats l = Some hi \<and> lo \<le> hi \<longrightarrow>
          (\<forall>t \<in> {lo, hi}. \<lparr>ac_Type = la_Type l, ac_TotalSats = t\<rparr> \<in> mo_Action ` set options)"
    by blast
  have "\<lparr>ac_Type = ActionRaise, ac_TotalSats = 1000\<rparr> \<in> mo_Action ` set options"
    using bspec [OF opts(4) legal] by (simp add: sized_action_def)
  then show "\<exists>options. deriveFiniteMenuOptions demo_open table = Inr options \<and> distinct (map mo_OptionID options)
    \<and> (\<forall>opt \<in> set options. is_ok (ApplyHoldemAction demo_open 0 (mo_Action opt)))
    \<and> \<lparr>ac_Type = ActionRaise, ac_TotalSats = 1000\<rparr> \<in> mo_Action ` set options"
    using opts no by blast
qed

end
