(* ===== verification/Action_Requests.thy ===== *)
theory Action_Requests
  imports Event_Log Menu_Properties
begin

text \<open>
  The action a player asks for, from \<open>internal/meshruntime/runtime.go\<close>: the request is built on the table the player
  has, signed with the key of its wallet, and checked by the host on the table it has. The request of a host that asks
  a player to sign is checked the same way before it is signed.
\<close>

section \<open>Building and signing a request\<close>

definition nativeActionDecisionIndex :: "nativeTableState \<Rightarrow> int res" where
  "nativeActionDecisionIndex table =
     (case ts_ActiveHand table of
        None \<Rightarrow> Inl (Err ''hand is not active'')
      | Some hand \<Rightarrow>
          if \<not> PhaseAllowsActions (st_Phase (ah_State hand)) then Inl (Err ''hand is still starting'')
          else Inr (int (length (st_ActionLog (ah_State hand)))))"

text \<open>\<open>rawJSONMap\<close> of an action, whose fields have no JSON names of their own.\<close>

definition raw_action :: "Action \<Rightarrow> goval" where
  "raw_action action = json_decoded (JObj
     [(''Type'', JStr (action_type_str (ac_Type action))), (''TotalSats'', JInt (ac_TotalSats action))])"

definition nativeActionAuthPayload :: "nativeActionRequest \<Rightarrow> goval" where
  "nativeActionAuthPayload request = any_map
     [(''action'', Some (raw_action (aq_Action request))),
      str_member ''actionDeadlineAt'' (aq_ActionDeadlineAt request),
      str_member ''challengeAnchor'' (aq_ChallengeAnchor request),
      int_member ''decisionIndex'' (aq_DecisionIndex request),
      int_member ''epoch'' (aq_Epoch request),
      str_member ''handId'' (aq_HandID request),
      str_member ''optionId'' (aq_OptionID request),
      str_member ''playerId'' (aq_PlayerID request),
      str_member ''signedAt'' (aq_SignedAt request),
      str_member ''tableId'' (aq_TableID request),
      str_member ''transcriptRoot'' (aq_TranscriptRoot request),
      str_member ''turnAnchorHash'' (aq_TurnAnchorHash request),
      str_member ''type'' ''table-action'',
      str_member ''prevCustodyStateHash'' (aq_PrevCustodyStateHash request)]"

text \<open>The hand of a request: that of the active hand, else that of the public state.\<close>

definition request_hand_id :: "nativeTableState \<Rightarrow> string" where
  "request_hand_id table =
     (let handID = activeHandID table in
      if handID = [] then (case ts_PublicState table of None \<Rightarrow> [] | Some public \<Rightarrow> stringValue (pu_HandID public)) else handID)"

definition request_player :: "mesh_env \<Rightarrow> nativeTableState \<Rightarrow> string" where
  "request_player env table =
     (case ts_ActiveHand table of
        None \<Rightarrow> li_PlayerID (me_WalletID env)
      | Some hand \<Rightarrow> (case st_ActingSeatIndex (ah_State hand) of
          None \<Rightarrow> li_PlayerID (me_WalletID env) | Some seat \<Rightarrow> seatPlayerID table seat))"

definition fits_action :: "Action \<Rightarrow> NativeActionMenuOption \<Rightarrow> bool" where
  "fits_action action option \<longleftrightarrow> ac_Type (mo_Action option) = ac_Type action
     \<and> (ac_Type action = ActionBet \<or> ac_Type action = ActionRaise \<longrightarrow> ac_TotalSats (mo_Action option) = ac_TotalSats action)"

text \<open>The id of the option the action is, empty when there is none: that of the menu of the turn, else that of the
  menu derived from the hand.\<close>

definition request_option :: "nativeTableState \<Rightarrow> HoldemState \<Rightarrow> Action \<Rightarrow> string res" where
  "request_option table hand action =
     (let found = (if turnMenuMatchesTable table (ts_PendingTurnMenu table)
            then (case findTurnMenuOptionByAction (ts_PendingTurnMenu table) action of None \<Rightarrow> [] | Some option \<Rightarrow> mo_OptionID option)
            else []) in
      if found \<noteq> [] then Inr found
      else bind_res (deriveFiniteMenuOptions hand table) (\<lambda>options.
        Inr (case find (fits_action action) options of None \<Rightarrow> [] | Some option \<Rightarrow> mo_OptionID option)))"

definition unsignedActionRequest :: "mesh_env \<Rightarrow> nativeTableState \<Rightarrow> Action \<Rightarrow> nativeActionRequest res" where
  "unsignedActionRequest env table action =
     bind_res (nativeActionDecisionIndex table) (\<lambda>decisionIndex.
     if request_hand_id table = [] then Inl (Err ''hand is not active'')
     else bind_res (deref (ts_ActiveHand table)) (\<lambda>hand.
     bind_res (request_option table (ah_State hand) action) (\<lambda>optionID.
     if optionID = [] then Inl (Err ''action is not one of the deterministic menu options for this turn'')
     else
       (let (challengeAnchor, transcriptRoot) = currentCustodyTranscriptBindings table;
            requestEpoch = pendingTurnEpoch table (ts_PendingTurnMenu table);
            (actionDeadlineAt, currentTurnAnchorHash) = (case ts_PendingTurnMenu table of
              Some menu \<Rightarrow>
                if turnMenuMatchesTable table (Some menu) then (tm_ActionDeadlineAt menu, pendingTurnAnchorHash table (Some menu))
                else (currentCustodyActionDeadline env table, turnAnchorHashForEpoch table requestEpoch)
            | None \<Rightarrow> (currentCustodyActionDeadline env table, turnAnchorHashForEpoch table requestEpoch)) in
        Inr \<lparr>aq_Action = action, aq_ActionDeadlineAt = actionDeadlineAt, aq_ChallengeAnchor = challengeAnchor,
          aq_DecisionIndex = decisionIndex, aq_Epoch = requestEpoch, aq_HandID = request_hand_id table, aq_OptionID = optionID,
          aq_PlayerID = request_player env table, aq_PrevCustodyStateHash = latestCustodyStateHash table,
          aq_ProfileName = [], aq_SignatureHex = [], aq_SignedAt = [], aq_TableID = tc_TableID (ts_Config table),
          aq_TurnAnchorHash = currentTurnAnchorHash, aq_TranscriptRoot = transcriptRoot\<rparr>))))"

definition signActionRequest ::
    "('sk, 'pk) secp256k1 \<Rightarrow> (nat \<Rightarrow> string res) \<Rightarrow> mesh_env \<Rightarrow> string \<Rightarrow> nativeActionRequest \<Rightarrow> nativeActionRequest res" where
  "signActionRequest curve random env profileName request0 =
     (let request = request0\<lparr>aq_ProfileName := profileName, aq_SignedAt := me_Now env\<rparr> in
      bind_res (SignStructuredData curve random (li_PrivateKeyHex (me_WalletID env)) (nativeActionAuthPayload request))
        (\<lambda>signatureHex. Inr (request\<lparr>aq_SignatureHex := signatureHex\<rparr>)))"

definition buildSignedActionRequest ::
    "('sk, 'pk) secp256k1 \<Rightarrow> (nat \<Rightarrow> string res) \<Rightarrow> mesh_env \<Rightarrow> string \<Rightarrow> nativeTableState \<Rightarrow> Action \<Rightarrow> nativeActionRequest res" where
  "buildSignedActionRequest curve random env profileName table action =
     bind_res (unsignedActionRequest env table action) (signActionRequest curve random env profileName)"

section \<open>Checking a request\<close>

definition verifyNativeActionRequestSignature ::
    "('sk, 'pk) secp256k1 \<Rightarrow> nativeSeatRecord \<Rightarrow> nativeActionRequest \<Rightarrow> unit res" where
  "verifyNativeActionRequestSignature curve seat request =
     (if aq_SignedAt request = [] \<or> aq_SignatureHex request = []
      then Inl (Err ''action request is missing player signature'')
      else check_signature curve ''action request signature is invalid'' (se_WalletPubkeyHex seat)
        (nativeActionAuthPayload request) (aq_SignatureHex request))"

text \<open>The epoch and the turn anchor a request has to carry, and the deadline if the turn has a menu.\<close>

definition expected_turn :: "nativeTableState \<Rightarrow> int \<times> string \<times> string option" where
  "expected_turn table =
     (case ts_PendingTurnMenu table of
        Some menu \<Rightarrow>
          if turnMenuMatchesTable table (Some menu)
          then (pendingTurnEpoch table (Some menu), pendingTurnAnchorHash table (Some menu), Some (tm_ActionDeadlineAt menu))
          else (ts_CurrentEpoch table, turnAnchorHash table, None)
      | None \<Rightarrow> (ts_CurrentEpoch table, turnAnchorHash table, None))"

definition check_request_option :: "HoldemState \<Rightarrow> nativeTableState \<Rightarrow> nativeActionRequest \<Rightarrow> unit res" where
  "check_request_option hand table request =
     bind_res (deriveFiniteMenuOptions hand table) (\<lambda>options.
     case find (\<lambda>option. mo_OptionID option = aq_OptionID request) options of
       None \<Rightarrow> Inl (Err ''action request option mismatch'')
     | Some matched \<Rightarrow>
         fail_if (ac_Type (mo_Action matched) \<noteq> ac_Type (aq_Action request)
             \<or> ac_TotalSats (mo_Action matched) \<noteq> ac_TotalSats (aq_Action request))
           ''action request action does not match the deterministic turn menu'')"

definition validateActionRequestFields ::
    "('sk, 'pk) secp256k1 \<Rightarrow> nativeTableState \<Rightarrow> nativeSeatRecord \<Rightarrow> nativeActionRequest \<Rightarrow> bool \<Rightarrow> unit res" where
  "validateActionRequestFields curve table seat request requireSignature =
     (case ts_ActiveHand table of
        None \<Rightarrow> Inl (Err ''action request requires an active hand'')
      | Some active \<Rightarrow>
         (let hand = ah_State active; (expectedEpoch, expectedTurnAnchorHash, deadline) = expected_turn table;
              (expectedChallengeAnchor, expectedTranscriptRoot) = currentCustodyTranscriptBindings table in
          first_error
            [fail_if (aq_TableID request \<noteq> tc_TableID (ts_Config table)) ''action request table mismatch'',
             fail_if (aq_PlayerID request \<noteq> se_PlayerID seat) ''action request player mismatch'',
             fail_if (aq_HandID request = [] \<or> aq_HandID request \<noteq> st_HandID hand) ''action request hand mismatch'',
             fail_if (aq_Epoch request \<noteq> expectedEpoch) ''action request epoch mismatch'',
             bind_res (nativeActionDecisionIndex table) (\<lambda>expectedDecisionIndex.
               fail_if (aq_DecisionIndex request \<noteq> expectedDecisionIndex) ''action request decision mismatch''),
             fail_if (aq_PrevCustodyStateHash request \<noteq> latestCustodyStateHash table) ''action request custody mismatch'',
             fail_if (TrimSpace (aq_ActionDeadlineAt request) = []) ''action request deadline is missing'',
             fail_if (\<exists>at \<in> set_option deadline. aq_ActionDeadlineAt request \<noteq> at) ''action request deadline mismatch'',
             fail_if (TrimSpace (aq_OptionID request) = []) ''action request option id is missing'',
             fail_if (aq_TurnAnchorHash request \<noteq> expectedTurnAnchorHash) ''action request turn anchor mismatch'',
             fail_if (aq_ChallengeAnchor request \<noteq> expectedChallengeAnchor) ''action request challenge anchor mismatch'',
             fail_if (aq_TranscriptRoot request \<noteq> expectedTranscriptRoot) ''action request transcript root mismatch'',
             check_request_option hand table request,
             if requireSignature then verifyNativeActionRequestSignature curve seat request else Inr ()]))"

definition validateActionRequest ::
    "('sk, 'pk) secp256k1 \<Rightarrow> nativeTableState \<Rightarrow> nativeSeatRecord \<Rightarrow> nativeActionRequest \<Rightarrow> unit res" where
  "validateActionRequest curve table seat request = validateActionRequestFields curve table seat request True"

text \<open>The host asks the player to act to sign a request it has built; \<open>stored\<close> is the player's table.\<close>

definition handleActionSignRequest ::
    "('sk, 'pk) secp256k1 \<Rightarrow> (nat \<Rightarrow> string res) \<Rightarrow> mesh_env \<Rightarrow> string \<Rightarrow> nativeTableState res \<Rightarrow> nativeActionRequest
     \<Rightarrow> nativeActionRequest res" where
  "handleActionSignRequest curve random env profileName stored request =
     bind_res stored (\<lambda>table.
     case ts_ActiveHand table of
       None \<Rightarrow> Inl (Err ''action signing requires an actionable hand'')
     | Some active \<Rightarrow>
        (case st_ActingSeatIndex (ah_State active) of
           None \<Rightarrow> Inl (Err ''action signing requires an actionable hand'')
         | Some acting \<Rightarrow>
            if \<not> PhaseAllowsActions (st_Phase (ah_State active)) then Inl (Err ''action signing requires an actionable hand'')
            else if seatPlayerID table acting \<noteq> li_PlayerID (me_WalletID env)
            then Inl (Err ''action signing request is not addressed to the acting player'')
            else case seatRecordForPlayer table (li_PlayerID (me_WalletID env)) of
                None \<Rightarrow> Inl (Err ''action signing request is not addressed to the acting player'')
              | Some seat \<Rightarrow>
                  if aq_PlayerID request \<noteq> li_PlayerID (me_WalletID env)
                  then Inl (Err ''action signing request player mismatch'')
                  else if TrimSpace (aq_SignatureHex request) \<noteq> []
                  then Inl (Err ''action signing request unexpectedly includes a signature'')
                  else
                    (let unsigned_request = request\<lparr>aq_SignatureHex := [], aq_ProfileName := [], aq_SignedAt := []\<rparr> in
                     bind_res (validateActionRequestFields curve (actionRequestValidationTable table unsigned_request) seat
                         unsigned_request False) (\<lambda>_.
                       signActionRequest curve random env profileName unsigned_request))))"

section \<open>What a request says\<close>

lemma trim_front_keeps:
  assumes "\<forall>w \<in> set ws. w \<noteq> [] \<longrightarrow> List.last w \<noteq> c"
  shows "trim_front ws (xs @ [c]) \<noteq> []"
proof (induction "length xs" arbitrary: xs rule: less_induct)
  case less
  show ?case
  proof (cases "find (\<lambda>w. w \<noteq> [] \<and> take (length w) (xs @ [c]) = w) ws")
    case None
    then show ?thesis by (simp add: trim_front.simps)
  next
    case (Some w)
    then have w: "w \<in> set ws" "w \<noteq> []" "take (length w) (xs @ [c]) = w" by (auto simp: find_Some_iff)
    have "length w \<le> length xs"
    proof (rule ccontr)
      assume "\<not> length w \<le> length xs"
      then have "w = xs @ [c]" using w(3) by simp
      then show False using assms w(1) by auto
    qed
    then have "trim_front ws (xs @ [c]) = trim_front ws (drop (length w) xs @ [c])"
      using Some by (subst trim_front.simps) simp
    moreover have "length xs - length w < length xs"
      using w(2) \<open>length w \<le> length xs\<close> length_greater_0_conv [of w] by linarith
    ultimately show ?thesis using less [of "drop (length w) xs"] by simp
  qed
qed

lemma TrimSpace_empty: "TrimSpace [] = []"
  by code_simp

lemma TrimSpace_letter:
  assumes "c \<in> set ''bcfr''"
  shows "TrimSpace (c # s) \<noteq> []"
proof -
  have first: "\<forall>w \<in> set space_encodings. w \<noteq> [] \<longrightarrow> hd w \<noteq> c"
  proof -
    have "list_all (\<lambda>c. list_all (\<lambda>w. w = [] \<or> hd w \<noteq> c) space_encodings) ''bcfr''" by code_simp
    then show ?thesis using assms unfolding list_all_iff by blast
  qed
  have "find (\<lambda>w. w \<noteq> [] \<and> take (length w) (c # s) = w) space_encodings = None"
    using first unfolding find_None_iff by (metis hd_take length_greater_0_conv list.sel(1))
  then have "trim_front space_encodings (c # s) = c # s" by (simp add: trim_front.simps)
  moreover have "\<forall>w \<in> set (map rev space_encodings). w \<noteq> [] \<longrightarrow> List.last w \<noteq> c" using first by (auto simp: last_rev)
  ultimately show ?thesis using trim_front_keeps [of "map rev space_encodings" c "rev s"] by (simp add: TrimSpace_def)
qed

lemma action_kind_text:
  assumes "k \<in> {ActionFold, ActionCheck, ActionCall, ActionBet, ActionRaise}"
  shows "TrimSpace (action_type_str k @ s) \<noteq> []"
proof -
  have "hd (action_type_str k) \<in> set ''bcfr''" "action_type_str k \<noteq> []" using assms by auto
  then show ?thesis using TrimSpace_letter [of "hd (action_type_str k)" "tl (action_type_str k) @ s"] by (metis append_Cons hd_Cons_tl)
qed

lemma action_payload_text: "\<exists>text. StableStringify (nativeActionAuthPayload request) = Inr text"
proof -
  have "numbers_ok (canonicalizeValue (raw_action action))" for action
    unfolding raw_action_def by (intro integers_ok) simp
  then have "StableStringify (nativeActionAuthPayload request) = Inr (json_text (canonicalizeValue (nativeActionAuthPayload request)))"
    unfolding nativeActionAuthPayload_def by (intro numbers_any_map) (simp_all add: str_member_def int_member_def)
  then show ?thesis by blast
qed

lemma action_payload_unsigned [simp]:
  "nativeActionAuthPayload (request\<lparr>aq_SignatureHex := sig\<rparr>) = nativeActionAuthPayload request"
  by (simp add: nativeActionAuthPayload_def)

text \<open>What a menu of a turn looks like: an option that is no bet or raise has no amount, and no id is blank.\<close>

lemma menu_of_options:
  assumes "map fst buckets = map (\<lambda>b. ''pot-'' @ itoa b) bs" "distinct bs" "opt \<in> set (menu_of s i buckets)"
  shows "ac_Type (mo_Action opt) \<notin> {ActionBet, ActionRaise} \<Longrightarrow> ac_TotalSats (mo_Action opt) = 0"
    and "TrimSpace (mo_OptionID opt) \<noteq> []"
proof -
  let ?p = "st_Players s ! nat i"
  consider (plain) k where "k \<in> set (plain_kinds s ?p)" "opt = menu_option k 0 (action_type_str k)"
    | (sized) k lo hi where "(k, lo, hi) \<in> set (sized_kinds s i ?p)" "opt \<in> set (sized_options k lo hi buckets)"
    using assms(3) by (auto simp: menu_of_def)
  then have "(ac_Type (mo_Action opt) \<notin> {ActionBet, ActionRaise} \<longrightarrow> ac_TotalSats (mo_Action opt) = 0) \<and> TrimSpace (mo_OptionID opt) \<noteq> []"
  proof cases
    case plain
    then have "k \<in> {ActionFold, ActionCheck, ActionCall, ActionBet, ActionRaise}" using plain_kinds_ok(1) by blast
    then show ?thesis using plain action_kind_text [of k "[]"] by (simp add: menu_option_def)
  next
    case sized
    have k: "k \<in> {ActionBet, ActionRaise}" using sized_kinds_ok [OF sized(1)] by blast
    have "ac_Type (mo_Action opt) = k" using sized_options_props(3) [OF assms(2,1)] sized(2) by blast
    moreover obtain label where "mo_OptionID opt = actionMenuOptionID k label"
      using sized_options_props(6) [OF assms(2,1)] sized(2) by blast
    ultimately show ?thesis using k action_kind_text [of k "''-'' @ label"] by (auto simp: actionMenuOptionID_def)
  qed
  then show "ac_Type (mo_Action opt) \<notin> {ActionBet, ActionRaise} \<Longrightarrow> ac_TotalSats (mo_Action opt) = 0"
    "TrimSpace (mo_OptionID opt) \<noteq> []" by blast+
qed

section \<open>Honest requests are valid\<close>

text \<open>A turn that waits for an action: the menu of the table, if there is one, is the menu of the turn with a deadline
  and the options of the hand; without a menu there is a deadline all the same. The wallet is that of the player to act.\<close>

definition same_options :: "NativeActionMenuOption list \<Rightarrow> NativeActionMenuOption list \<Rightarrow> bool" where
  "same_options xs ys \<longleftrightarrow> map (\<lambda>o1. (mo_Action o1, mo_OptionID o1)) xs = map (\<lambda>o1. (mo_Action o1, mo_OptionID o1)) ys"

definition action_open :: "mesh_env \<Rightarrow> nativeTableState \<Rightarrow> nativeActiveHand \<Rightarrow> NativeActionMenuOption list \<Rightarrow> nativeSeatRecord \<Rightarrow> bool" where
  "action_open env table active options seat \<longleftrightarrow>
     ts_ActiveHand table = Some active \<and> st_HandID (ah_State active) \<noteq> []
     \<and> deriveFiniteMenuOptions (ah_State active) table = Inr options
     \<and> (case ts_PendingTurnMenu table of
          None \<Rightarrow> TrimSpace (currentCustodyActionDeadline env table) \<noteq> []
        | Some menu \<Rightarrow> turnMenuMatchesTable table (Some menu) \<and> TrimSpace (tm_ActionDeadlineAt menu) \<noteq> []
            \<and> same_options (tm_Options menu) options)
     \<and> seatRecordForPlayer table (acting_player_id table (ah_State active)) = Some seat
     \<and> se_WalletPubkeyHex seat = li_PublicKeyHex (me_WalletID env)"

lemma same_options_find:
  assumes "same_options xs ys"
  shows "(case find (fits_action action) xs of None \<Rightarrow> [] | Some opt \<Rightarrow> mo_OptionID opt)
    = (case find (fits_action action) ys of None \<Rightarrow> [] | Some opt \<Rightarrow> mo_OptionID opt)"
  using assms
proof (induction xs arbitrary: ys)
  case (Cons x xs)
  then obtain y ys' where "ys = y # ys'" "mo_Action x = mo_Action y" "mo_OptionID x = mo_OptionID y" "same_options xs ys'"
    by (cases ys) (auto simp: same_options_def)
  then show ?case using Cons.IH by (auto simp: fits_action_def)
qed (simp add: same_options_def)

lemma request_option_found:
  assumes "action_open env table active options seat"
  shows "request_option table (ah_State active) action
    = Inr (case find (fits_action action) options of None \<Rightarrow> [] | Some opt \<Rightarrow> mo_OptionID opt)"
proof -
  have derived: "deriveFiniteMenuOptions (ah_State active) table = Inr options" using assms by (simp add: action_open_def)
  have "findTurnMenuOptionByAction (Some menu) action = find (fits_action action) (tm_Options menu)" for menu
    unfolding findTurnMenuOptionByAction_def option.case by (rule arg_cong2 [where f = find]) (auto simp: fits_action_def)
  then show ?thesis
    using assms same_options_find derived
    by (cases "ts_PendingTurnMenu table") (auto simp: request_option_def action_open_def Let_def turnMenuMatchesTable_def)
qed

lemma expected_request:
  assumes "action_open env table active options seat" "PhaseAllowsActions (st_Phase (ah_State active))"
    and "st_ActingSeatIndex (ah_State active) = Some i" "find (fits_action action) options = Some opt" "mo_OptionID opt \<noteq> []"
  obtains request where "unsignedActionRequest env table action = Inr request"
    "aq_Action request = action" "aq_OptionID request = mo_OptionID opt"
    "\<And>profileName at sig. validateActionRequest curve table seat
        (request\<lparr>aq_ProfileName := profileName, aq_SignedAt := at, aq_SignatureHex := sig\<rparr>) = Inr ()
      \<longleftrightarrow> TrimSpace (mo_OptionID opt) \<noteq> [] \<and> check_request_option (ah_State active) table request = Inr ()
        \<and> verifyNativeActionRequestSignature curve seat
            (request\<lparr>aq_ProfileName := profileName, aq_SignedAt := at, aq_SignatureHex := sig\<rparr>) = Inr ()"
proof -
  have active: "ts_ActiveHand table = Some active" and hand: "st_HandID (ah_State active) \<noteq> []"
    and seat: "seatRecordForPlayer table (acting_player_id table (ah_State active)) = Some seat"
    using assms(1) by (simp_all add: action_open_def)
  have player: "se_PlayerID seat = seatPlayerID table i"
    using seat by (auto simp: seatRecordForPlayer_def acting_player_id_def assms(3) find_Some_iff)
  have optionID: "request_option table (ah_State active) action = Inr (mo_OptionID opt)"
    using request_option_found [OF assms(1)] assms(4) by simp
  define deadline anchor where "deadline = (case ts_PendingTurnMenu table of
      None \<Rightarrow> currentCustodyActionDeadline env table | Some menu \<Rightarrow> tm_ActionDeadlineAt menu)"
    and "anchor = fst (snd (expected_turn table))"
  define request where "request = \<lparr>aq_Action = action, aq_ActionDeadlineAt = deadline,
      aq_ChallengeAnchor = fst (currentCustodyTranscriptBindings table),
      aq_DecisionIndex = int (length (st_ActionLog (ah_State active))), aq_Epoch = pendingTurnEpoch table (ts_PendingTurnMenu table),
      aq_HandID = st_HandID (ah_State active), aq_OptionID = mo_OptionID opt, aq_PlayerID = seatPlayerID table i,
      aq_PrevCustodyStateHash = latestCustodyStateHash table, aq_ProfileName = [], aq_SignatureHex = [], aq_SignedAt = [],
      aq_TableID = tc_TableID (ts_Config table), aq_TurnAnchorHash = anchor,
      aq_TranscriptRoot = snd (currentCustodyTranscriptBindings table)\<rparr>"
  have fields: "aq_TableID request = tc_TableID (ts_Config table)" "aq_PlayerID request = seatPlayerID table i"
      "aq_HandID request = st_HandID (ah_State active)" "aq_DecisionIndex request = int (length (st_ActionLog (ah_State active)))"
      "aq_PrevCustodyStateHash request = latestCustodyStateHash table" "aq_ActionDeadlineAt request = deadline"
      "aq_OptionID request = mo_OptionID opt" "aq_TurnAnchorHash request = anchor"
      "currentCustodyTranscriptBindings table = (aq_ChallengeAnchor request, aq_TranscriptRoot request)" "aq_Action request = action"
    by (simp_all add: request_def)
  have index: "nativeActionDecisionIndex table = Inr (int (length (st_ActionLog (ah_State active))))"
    using active assms(2) by (simp add: nativeActionDecisionIndex_def)
  have names: "request_hand_id table = st_HandID (ah_State active)" "request_player env table = seatPlayerID table i"
    using active hand assms(3) by (simp_all add: request_hand_id_def activeHandID_def request_player_def)
  have turn: "expected_turn table = (aq_Epoch request, anchor, map_option tm_ActionDeadlineAt (ts_PendingTurnMenu table))"
    "TrimSpace deadline \<noteq> []"
    using assms(1) unfolding request_def deadline_def anchor_def
    by (auto simp: expected_turn_def action_open_def pendingTurnEpoch_def split: option.splits)
  have "unsignedActionRequest env table action = Inr request"
    using assms(1,5) index optionID names hand active turn(1)
    by (cases "ts_PendingTurnMenu table")
      (auto simp: unsignedActionRequest_def deref_def request_def deadline_def anchor_def expected_turn_def action_open_def
        turnAnchorHash_def pendingTurnEpoch_def Let_def split: prod.split)
  moreover have same: "check_request_option (ah_State active) table (request\<lparr>aq_ProfileName := profileName, aq_SignedAt := at, aq_SignatureHex := sig\<rparr>)
      = check_request_option (ah_State active) table request" for profileName at sig
    by (simp add: check_request_option_def cong: option.case_cong)
  moreover have "validateActionRequest curve table seat (request\<lparr>aq_ProfileName := profileName, aq_SignedAt := at, aq_SignatureHex := sig\<rparr>) = Inr ()
      \<longleftrightarrow> TrimSpace (mo_OptionID opt) \<noteq> [] \<and> check_request_option (ah_State active) table request = Inr ()
        \<and> verifyNativeActionRequestSignature curve seat
            (request\<lparr>aq_ProfileName := profileName, aq_SignedAt := at, aq_SignatureHex := sig\<rparr>) = Inr ()" for profileName at sig
    unfolding validateActionRequest_def validateActionRequestFields_def active option.case Let_def turn(1) fields(9) prod.case first_error_ok
    using player hand turn(2) index same by (cases "ts_PendingTurnMenu table") (auto simp: fields deadline_def)
  ultimately show ?thesis using that [of request] fields(7,10) by blast
qed

lemma signed_request:
  assumes "curve_laws curve" "seed \<noteq> []" "CreateLocalIdentity curve random0 seed = Inr (me_WalletID env)" "me_Now env \<noteq> []"
  obtains sig where "signActionRequest curve random env profileName request
      = Inr (request\<lparr>aq_ProfileName := profileName, aq_SignedAt := me_Now env, aq_SignatureHex := sig\<rparr>)"
    "\<And>seat. se_WalletPubkeyHex seat = li_PublicKeyHex (me_WalletID env) \<Longrightarrow> verifyNativeActionRequestSignature curve seat
      (request\<lparr>aq_ProfileName := profileName, aq_SignedAt := me_Now env, aq_SignatureHex := sig\<rparr>) = Inr ()"
proof -
  obtain sk where key: "privateKeyAndPublicKeyHex curve random0 seed
      = Inr (li_PrivateKeyHex (me_WalletID env), sk, li_PublicKeyHex (me_WalletID env))"
    using local_identityD [OF assms(3)] .
  have "li_PrivateKeyHex (me_WalletID env) \<noteq> []" using seed_kept [OF key assms(2)] assms(2) by simp
  note signs = key_signs [OF assms(1) key this]
  let ?request = "request\<lparr>aq_ProfileName := profileName, aq_SignedAt := me_Now env\<rparr>"
  obtain sig where sig: "SignStructuredData curve random (li_PrivateKeyHex (me_WalletID env)) (nativeActionAuthPayload ?request) = Inr sig"
      "VerifyStructuredData curve (li_PublicKeyHex (me_WalletID env)) (nativeActionAuthPayload ?request) sig = Inr True"
      "TrimSpace sig \<noteq> []"
    using action_payload_text [of ?request] signs by metis
  have "sig \<noteq> []" using sig(3) TrimSpace_empty by metis
  then have "verifyNativeActionRequestSignature curve seat (?request\<lparr>aq_SignatureHex := sig\<rparr>) = Inr ()"
    if "se_WalletPubkeyHex seat = li_PublicKeyHex (me_WalletID env)" for seat
    using sig(2) that assms(4) by (simp add: verifyNativeActionRequestSignature_def check_signature_def)
  moreover have "signActionRequest curve random env profileName request = Inr (?request\<lparr>aq_SignatureHex := sig\<rparr>)"
    using sig(1) by (simp add: signActionRequest_def)
  ultimately show ?thesis using that by simp
qed

lemma option_checked_iff:
  assumes "deriveFiniteMenuOptions hand table = Inr options" "distinct (map mo_OptionID options)"
    and "opt \<in> set options" "aq_OptionID request = mo_OptionID opt"
  shows "check_request_option hand table request = Inr () \<longleftrightarrow> aq_Action request = mo_Action opt"
proof -
  have "find (\<lambda>option. mo_OptionID option = mo_OptionID opt) options = Some opt"
    using assms(2,3) by (induction options) auto
  then show ?thesis using assms(1,4) by (auto simp: check_request_option_def intro: Action.equality)
qed

text \<open>The actions a player can have: exactly those of the menu.\<close>

lemma honest_request_iff:
  assumes "config_ok c" "reachable c (ah_State active)" "st_ActingSeatIndex (ah_State active) = Some i"
    and "action_open env table active options seat"
    and "curve_laws curve" "seed \<noteq> []" "CreateLocalIdentity curve random0 seed = Inr (me_WalletID env)" "me_Now env \<noteq> []"
  shows "is_ok (buildSignedActionRequest curve random env profileName table action) \<longleftrightarrow> (\<exists>opt \<in> set options. fits_action action opt)"
    and "(\<exists>request. buildSignedActionRequest curve random env profileName table action = Inr request
        \<and> validateActionRequest curve table seat request = Inr ()) \<longleftrightarrow> action \<in> mo_Action ` set options"
proof -
  note turn = turn_facts [OF assms(1-3)]
  obtain buckets bs where menu: "deriveFiniteMenuOptions (ah_State active) table = Inr (menu_of (ah_State active) i buckets)"
    "map fst buckets = map (\<lambda>b. ''pot-'' @ itoa b) bs" "distinct bs"
    by (rule derive_menu [OF turn(1) assms(3) turn(2-4)])
  have options: "options = menu_of (ah_State active) i buckets" "deriveFiniteMenuOptions (ah_State active) table = Inr options"
    using menu(1) assms(4) by (simp_all add: action_open_def)
  note shape = menu_of_options [OF menu(2,3), of _ "ah_State active" i, folded options(1)]
  note dist = menu_distinct [OF menu(2,3), of "ah_State active" i, folded options(1)]
  have none: "buildSignedActionRequest curve random env profileName table action
      = Inl (Err ''action is not one of the deterministic menu options for this turn'')" if "find (fits_action action) options = None"
    using that assms(4) turn(1) request_option_found [OF assms(4), of action]
    by (auto simp: buildSignedActionRequest_def unsignedActionRequest_def nativeActionDecisionIndex_def action_open_def request_hand_id_def
        activeHandID_def deref_def)
  have blank: "mo_OptionID opt \<noteq> []" if "opt \<in> set options" for opt
    using shape(2) [OF that] TrimSpace_empty by metis
  have found: "\<exists>request. buildSignedActionRequest curve random env profileName table action = Inr request
      \<and> (validateActionRequest curve table seat request = Inr () \<longleftrightarrow> action = mo_Action opt)"
    if opt: "find (fits_action action) options = Some opt" for opt
  proof -
    have mem: "opt \<in> set options" using opt by (auto simp: find_Some_iff)
    obtain request where request: "unsignedActionRequest env table action = Inr request"
      "aq_Action request = action" "aq_OptionID request = mo_OptionID opt"
      "\<And>profileName at sig. validateActionRequest curve table seat
          (request\<lparr>aq_ProfileName := profileName, aq_SignedAt := at, aq_SignatureHex := sig\<rparr>) = Inr ()
        \<longleftrightarrow> TrimSpace (mo_OptionID opt) \<noteq> [] \<and> check_request_option (ah_State active) table request = Inr ()
          \<and> verifyNativeActionRequestSignature curve seat
              (request\<lparr>aq_ProfileName := profileName, aq_SignedAt := at, aq_SignatureHex := sig\<rparr>) = Inr ()"
      by (rule expected_request [OF assms(4) turn(1) assms(3) opt blank [OF mem], of curve]) blast
    obtain sig where sig: "signActionRequest curve random env profileName request
        = Inr (request\<lparr>aq_ProfileName := profileName, aq_SignedAt := me_Now env, aq_SignatureHex := sig\<rparr>)"
      "\<And>seat. se_WalletPubkeyHex seat = li_PublicKeyHex (me_WalletID env) \<Longrightarrow> verifyNativeActionRequestSignature curve seat
        (request\<lparr>aq_ProfileName := profileName, aq_SignedAt := me_Now env, aq_SignatureHex := sig\<rparr>) = Inr ()"
      by (rule signed_request [OF assms(5-8), of random profileName request]) blast
    have "se_WalletPubkeyHex seat = li_PublicKeyHex (me_WalletID env)" using assms(4) by (simp add: action_open_def)
    then show ?thesis
      using request(1) sig shape(2) [OF mem] option_checked_iff [OF options(2) dist(1) mem request(3)]
      by (simp add: buildSignedActionRequest_def request(2,4))
  qed
  have exact: "opt = opt'" if "opt \<in> set options" "opt' \<in> set options" "fits_action (mo_Action opt) opt'" for opt opt'
  proof -
    have "ac_TotalSats (mo_Action opt') = ac_TotalSats (mo_Action opt)" "ac_Type (mo_Action opt') = ac_Type (mo_Action opt)"
      using that shape(1) by (auto simp: fits_action_def)
    then have "mo_Action opt = mo_Action opt'" by (simp add: Action.equality)
    then show ?thesis using dist(2) that(1,2) by (auto simp: distinct_map inj_on_def)
  qed
  show "is_ok (buildSignedActionRequest curve random env profileName table action) \<longleftrightarrow> (\<exists>opt \<in> set options. fits_action action opt)"
    using none found by (cases "find (fits_action action) options") (fastforce simp: is_ok_def find_None_iff find_Some_iff)+
  show "(\<exists>request. buildSignedActionRequest curve random env profileName table action = Inr request
      \<and> validateActionRequest curve table seat request = Inr ()) \<longleftrightarrow> action \<in> mo_Action ` set options"
  proof (cases "find (fits_action action) options")
    case None
    then have "action \<notin> mo_Action ` set options" by (auto simp: find_None_iff fits_action_def)
    then show ?thesis using none [OF None] by simp
  next
    case (Some opt)
    have "opt \<in> set options" "fits_action action opt" using Some by (auto simp: find_Some_iff)
    then have "action = mo_Action opt \<longleftrightarrow> action \<in> mo_Action ` set options" using exact by auto
    then show ?thesis using found [OF Some] by auto
  qed
qed

section \<open>Properties\<close>

text \<open>A request the host accepts is the seat's own: it verifies under the wallet key of the seat and names the table, the
  hand, the decision and the custody state of the turn. The engine then plays it exactly when it is the turn of that
  seat, with the one exception of a bet of a player who has less than the smallest bet left.\<close>

theorem validated_request_is_playable:
  assumes "config_ok c" "reachable c (ah_State active)" "st_ActingSeatIndex (ah_State active) = Some i"
    and "ts_ActiveHand table = Some active" "validateActionRequest curve table seat request = Inr ()"
  shows "VerifyStructuredData curve (se_WalletPubkeyHex seat) (nativeActionAuthPayload request) (aq_SignatureHex request) = Inr True
    \<and> aq_TableID request = tc_TableID (ts_Config table) \<and> aq_HandID request = st_HandID (ah_State active)
    \<and> aq_DecisionIndex request = int (length (st_ActionLog (ah_State active)))
    \<and> aq_PrevCustodyStateHash request = latestCustodyStateHash table
    \<and> (is_ok (ApplyHoldemAction (ah_State active) (se_SeatIndex seat) (aq_Action request))
        \<longleftrightarrow> se_SeatIndex seat = i \<and> \<not> (ac_Type (aq_Action request) = ActionBet \<and> short_stack (ah_State active)))"
proof -
  note turn = turn_facts [OF assms(1-3)]
  obtain buckets bs where menu: "deriveFiniteMenuOptions (ah_State active) table = Inr (menu_of (ah_State active) i buckets)"
    "map fst buckets = map (\<lambda>b. ''pot-'' @ itoa b) bs" "distinct bs"
    by (rule derive_menu [OF turn(1) assms(3) turn(2-4)])
  have checks: "verifyNativeActionRequestSignature curve seat request = Inr ()"
      "aq_TableID request = tc_TableID (ts_Config table)" "aq_HandID request = st_HandID (ah_State active)"
      "aq_PrevCustodyStateHash request = latestCustodyStateHash table" "check_request_option (ah_State active) table request = Inr ()"
      "nativeActionDecisionIndex table = Inr (aq_DecisionIndex request)"
    using assms(4,5) unfolding validateActionRequest_def validateActionRequestFields_def
    by (auto simp: first_error_ok bind_res_ok Let_def split: prod.splits)
  obtain opt where opt: "opt \<in> set (menu_of (ah_State active) i buckets)" "mo_Action opt = aq_Action request"
  proof -
    obtain opt where "find (\<lambda>option. mo_OptionID option = aq_OptionID request) (menu_of (ah_State active) i buckets) = Some opt"
      "ac_Type (mo_Action opt) = ac_Type (aq_Action request)" "ac_TotalSats (mo_Action opt) = ac_TotalSats (aq_Action request)"
      using checks(5) menu(1) by (auto simp: check_request_option_def split: option.splits)
    then show ?thesis using that [of opt] Action.equality [of "mo_Action opt" "aq_Action request"] by (auto simp: find_Some_iff)
  qed
  have "is_ok (ApplyHoldemAction (ah_State active) i (aq_Action request))
      \<longleftrightarrow> \<not> (ac_Type (aq_Action request) = ActionBet \<and> short_stack (ah_State active))"
    using menu_actions [OF assms(1-3) menu(2,3) opt(1)] opt(2) by simp
  moreover have "\<not> is_ok (ApplyHoldemAction (ah_State active) j (aq_Action request))" if "j \<noteq> i" for j
    using accepted_iff_listed [OF assms(1,2) turn(1), of j "aq_Action request"] assms(3) that by simp
  moreover have "VerifyStructuredData curve (se_WalletPubkeyHex seat) (nativeActionAuthPayload request) (aq_SignatureHex request) = Inr True"
    using checks(1) by (auto simp: verifyNativeActionRequestSignature_def check_signature_def bind_res_ok split: if_splits)
  moreover have "aq_DecisionIndex request = int (length (st_ActionLog (ah_State active)))"
    using checks(6) assms(4) turn(1) by (simp add: nativeActionDecisionIndex_def)
  ultimately show ?thesis using checks(2-4) by metis
qed

text \<open>C36. A player can have exactly the actions of the menu. On a turn of a hand whose player to act is seated with the key
  of its wallet, the request the player builds and signs for an action of the menu is accepted by the host; for any
  other action either no request is built or the host refuses the request. The latter happens: a request is also built
  for a check, call or fold that carries an amount, as if it were the option without one.\<close>

theorem menu_actions_are_requestable:
  assumes "config_ok c" "reachable c (ah_State active)" "st_ActingSeatIndex (ah_State active) = Some i"
    and "action_open env table active options seat"
    and "curve_laws curve" "seed \<noteq> []" "CreateLocalIdentity curve random0 seed = Inr (me_WalletID env)" "me_Now env \<noteq> []"
  shows "((\<exists>request. buildSignedActionRequest curve random env profileName table action = Inr request
        \<and> validateActionRequest curve table seat request = Inr ()) \<longleftrightarrow> action \<in> mo_Action ` set options)
    \<and> (is_ok (buildSignedActionRequest curve random env profileName table action)
        \<longleftrightarrow> (\<exists>opt \<in> set options. ac_Type (mo_Action opt) = ac_Type action
          \<and> (ac_Type action = ActionBet \<or> ac_Type action = ActionRaise \<longrightarrow> ac_TotalSats (mo_Action opt) = ac_TotalSats action)))"
  using honest_request_iff [OF assms] by (simp add: fits_action_def)

end
