(* ===== verification/Accepted_Intents.thy ===== *)
theory Accepted_Intents
  imports Custody_Approvals Action_Requests
begin

text \<open>
  Who asked for what is in the log, from \<open>internal/meshruntime/accepted_intents.go\<close>: an event of type \<open>PlayerAction\<close> of a
  received table names a custody transition and carries the signed request of the player, or records a timeout. The
  values of an event body are read by \<open>decodeJSONValue\<close>, \<open>json.Marshal\<close> followed by \<open>json.Unmarshal\<close> into a Go type: members
  are matched with the names of the fields, first exactly and then up to case; later members overwrite earlier ones; null
  leaves a field as it is and unknown members are skipped. The one thing left out is that a null element of a list
  written twice under names that differ in case keeps the element of the first list; it is read as empty.
\<close>

section \<open>Reading values into Go types\<close>

type_synonym 'a decoder = "json \<Rightarrow> 'a \<Rightarrow> 'a res"

definition mismatch :: "'a res" where
  "mismatch = Inl (Err ''json: cannot unmarshal %s into Go value of type %s'')"

definition decode_string :: "string decoder" where
  "decode_string v old = (case v of JNull \<Rightarrow> Inr old | JStr s \<Rightarrow> Inr (utf8_clean s) | _ \<Rightarrow> mismatch)"

definition decode_int :: "int decoder" where
  "decode_int v old =
     (case v of JNull \<Rightarrow> Inr old | JNum n \<Rightarrow> (case Atoi n of Inl _ \<Rightarrow> mismatch | Inr i \<Rightarrow> Inr i) | _ \<Rightarrow> mismatch)"

definition decode_strings :: "string list decoder" where
  "decode_strings v old =
     (case v of JNull \<Rightarrow> Inr [] | JArr vs \<Rightarrow> map_res (\<lambda>v. decode_string v []) vs | _ \<Rightarrow> mismatch)"

text \<open>\<open>foldName\<close>: letters become capitals, and the Kelvin sign and the long s fold to letters, the only runes beyond ASCII that
  do. The names of fields are ASCII, so how other runes fold does not matter.\<close>

definition fold_letter :: "char \<Rightarrow> char" where
  "fold_letter c = (let n = (of_char c :: nat) in if 97 \<le> n \<and> n \<le> 122 then char_of (n - 32) else c)"

fun foldName :: "string \<Rightarrow> string" where
  "foldName [] = []"
| "foldName (c # s) =
     (if take 3 (c # s) = [CHR 0xE2, CHR 0x84, CHR 0xAA] then CHR ''K'' # foldName (drop 2 s)
      else if take 2 (c # s) = [CHR 0xC5, CHR 0xBF] then CHR ''S'' # foldName (drop 1 s)
      else fold_letter c # foldName s)"

definition field_for :: "(string \<times> 'a decoder) list \<Rightarrow> string \<Rightarrow> 'a decoder option" where
  "field_for fs key =
     (case map_of fs key of
        Some decode \<Rightarrow> Some decode
      | None \<Rightarrow> map_option snd (find (\<lambda>(name, _). foldName name = foldName key) fs))"

fun decode_members :: "(string \<times> 'a decoder) list \<Rightarrow> (string \<times> json) list \<Rightarrow> 'a \<Rightarrow> 'a res" where
  "decode_members fs [] old = Inr old"
| "decode_members fs ((key, v) # members) old =
     (case field_for fs (utf8_clean key) of
        None \<Rightarrow> decode_members fs members old
      | Some decode \<Rightarrow> bind_res (decode v old) (decode_members fs members))"

definition decode_struct :: "(string \<times> 'a decoder) list \<Rightarrow> 'a decoder" where
  "decode_struct fs v old = (case v of JNull \<Rightarrow> Inr old | JObj members \<Rightarrow> decode_members fs members old | _ \<Rightarrow> mismatch)"

text \<open>A field of a struct: how it is read, and how it is taken from and put into the struct.\<close>

definition field :: "'b decoder \<Rightarrow> ('a \<Rightarrow> 'b) \<Rightarrow> (('b \<Rightarrow> 'b) \<Rightarrow> 'a \<Rightarrow> 'a) \<Rightarrow> 'a decoder" where
  "field decode get update v old = bind_res (decode v (get old)) (\<lambda>new. Inr (update (\<lambda>_. new) old))"

definition decodeJSONValue :: "'a decoder \<Rightarrow> 'a \<Rightarrow> goval \<Rightarrow> 'a res" where
  "decodeJSONValue decode zero input =
     (if \<not> numbers_ok (canonicalizeValue input) then Inl (Err ''json: invalid number literal %q'')
      else decode (canonicalizeValue input) zero)"

section \<open>Requests and resolutions\<close>

definition action_type_of :: "string \<Rightarrow> ActionType" where
  "action_type_of s =
     (if s = ''fold'' then ActionFold else if s = ''check'' then ActionCheck else if s = ''call'' then ActionCall
      else if s = ''bet'' then ActionBet else if s = ''raise'' then ActionRaise else ActionOther s)"

definition timeout_policy_of :: "string \<Rightarrow> TimeoutPolicy" where
  "timeout_policy_of s =
     (if s = ''auto-check-or-fold'' then TimeoutPolicyAutoCheckOrFold else if s = ''auto-fold'' then TimeoutPolicyAutoFold
      else TimeoutPolicyOther s)"

definition decode_action :: "Action decoder" where
  "decode_action = decode_struct
     [(''Type'', field decode_string (\<lambda>a. action_type_str (ac_Type a)) (\<lambda>f a. a\<lparr>ac_Type := action_type_of (f [])\<rparr>)),
      (''TotalSats'', field decode_int ac_TotalSats ac_TotalSats_update)]"

definition action_request_fields :: "(string \<times> nativeActionRequest decoder) list" where
  "action_request_fields =
     [(''action'', field decode_action aq_Action aq_Action_update),
      (''actionDeadlineAt'', field decode_string aq_ActionDeadlineAt aq_ActionDeadlineAt_update),
      (''challengeAnchor'', field decode_string aq_ChallengeAnchor aq_ChallengeAnchor_update),
      (''decisionIndex'', field decode_int aq_DecisionIndex aq_DecisionIndex_update),
      (''epoch'', field decode_int aq_Epoch aq_Epoch_update),
      (''handId'', field decode_string aq_HandID aq_HandID_update),
      (''optionId'', field decode_string aq_OptionID aq_OptionID_update),
      (''playerId'', field decode_string aq_PlayerID aq_PlayerID_update),
      (''prevCustodyStateHash'', field decode_string aq_PrevCustodyStateHash aq_PrevCustodyStateHash_update),
      (''profileName'', field decode_string aq_ProfileName aq_ProfileName_update),
      (''signatureHex'', field decode_string aq_SignatureHex aq_SignatureHex_update),
      (''signedAt'', field decode_string aq_SignedAt aq_SignedAt_update),
      (''tableId'', field decode_string aq_TableID aq_TableID_update),
      (''turnAnchorHash'', field decode_string aq_TurnAnchorHash aq_TurnAnchorHash_update),
      (''transcriptRoot'', field decode_string aq_TranscriptRoot aq_TranscriptRoot_update)]"

definition decode_action_request :: "nativeActionRequest decoder" where
  "decode_action_request = decode_struct action_request_fields"

definition empty_action_request :: nativeActionRequest where
  "empty_action_request = \<lparr>aq_Action = \<lparr>ac_Type = ActionOther [], ac_TotalSats = 0\<rparr>, aq_ActionDeadlineAt = [], aq_ChallengeAnchor = [],
     aq_DecisionIndex = 0, aq_Epoch = 0, aq_HandID = [], aq_OptionID = [], aq_PlayerID = [], aq_PrevCustodyStateHash = [],
     aq_ProfileName = [], aq_SignatureHex = [], aq_SignedAt = [], aq_TableID = [], aq_TurnAnchorHash = [], aq_TranscriptRoot = []\<rparr>"

definition decode_timeout_resolution :: "TimeoutResolution decoder" where
  "decode_timeout_resolution = decode_struct
     [(''actionType'', field decode_string tr_ActionType tr_ActionType_update),
      (''actingPlayerId'', field decode_string tr_ActingPlayerID tr_ActingPlayerID_update),
      (''deadPlayerIds'', field decode_strings tr_DeadPlayerIDs tr_DeadPlayerIDs_update),
      (''lostEligibilityPlayerIds'', field decode_strings tr_LostEligibilityPlayerIDs tr_LostEligibilityPlayerIDs_update),
      (''policy'', field decode_string (\<lambda>r. timeout_policy_str (tr_Policy r)) (\<lambda>f r. r\<lparr>tr_Policy := timeout_policy_of (f [])\<rparr>)),
      (''reason'', field decode_string tr_Reason tr_Reason_update)]"

definition empty_resolution :: TimeoutResolution where
  "empty_resolution = \<lparr>tr_ActionType = [], tr_ActingPlayerID = [], tr_DeadPlayerIDs = [], tr_LostEligibilityPlayerIDs = [],
     tr_Policy = TimeoutPolicyOther [], tr_Reason = []\<rparr>"

text \<open>An optional member of an event body.\<close>

definition optional_member :: "'a decoder \<Rightarrow> 'a \<Rightarrow> NativeSignedTableEvent \<Rightarrow> string \<Rightarrow> 'a option res" where
  "optional_member decode zero event key =
     (if body_at event key = VInvalid then Inr None
      else bind_res (decodeJSONValue decode zero (body_at event key)) (\<lambda>v. Inr (Some v)))"

definition actionRequestFromEvent :: "NativeSignedTableEvent \<Rightarrow> nativeActionRequest option res" where
  "actionRequestFromEvent event = optional_member decode_action_request empty_action_request event ''actionRequest''"

definition timeoutResolutionFromEvent :: "NativeSignedTableEvent \<Rightarrow> TimeoutResolution option res" where
  "timeoutResolutionFromEvent event = optional_member decode_timeout_resolution empty_resolution event ''timeoutResolution''"

definition eventCustodySeq :: "NativeSignedTableEvent \<Rightarrow> int res" where
  "eventCustodySeq event = decodeJSONValue decode_int 0 (body_at event ''custodySeq'')"

definition actionEventHandID :: "NativeSignedTableEvent \<Rightarrow> string res" where
  "actionEventHandID event = bind_res (actionRequestFromEvent event) (\<lambda>request.
     Inr (case request of Some r \<Rightarrow> aq_HandID r | None \<Rightarrow> stringValue (ev_HandID event)))"

section \<open>The transition of an event\<close>

definition linkedCustodyTransitionForEvent ::
    "nativeTableState \<Rightarrow> NativeSignedTableEvent \<Rightarrow> (CustodyTransition \<times> nat) res" where
  "linkedCustodyTransitionForEvent table event =
     (if eventTransitionHash event = [] then Inl (Err ''%s event is missing transition hash'')
      else bind_res (wrap_err ''%s event custody seq is invalid: %w'' (eventCustodySeq event)) (\<lambda>custodySeq.
        case linkedCustodyTransitionByHashSeq table (eventTransitionHash event) custodySeq of
          None \<Rightarrow> Inl (Err ''%s event does not match accepted custody history'')
        | Some linked \<Rightarrow> Inr linked))"

text \<open>The blinds of a hand: the transition, the state before it and the event before the event of the start.\<close>

definition handStartTransitionForHand ::
    "nativeTableState \<Rightarrow> string \<Rightarrow> (CustodyTransition \<times> CustodyState option \<times> string) option res" where
  "handStartTransitionForHand table handID =
     (case find (\<lambda>event. event_type event = ''HandStart'' \<and> TrimSpace (stringValue (body_at event ''handId'')) = handID) (ts_Events table) of
        Some event \<Rightarrow>
          bind_res (linkedCustodyTransitionForEvent table event) (\<lambda>(transition, index).
            if ct_Kind transition \<noteq> TransitionKindBlindPost then Inl (Err ''hand %s start event links %s instead of blind-post'')
            else Inr (Some (transition, previousCustodyStateForTransition table (int index),
              TrimSpace (stringValue (ev_PrevEventHash event)))))
      | None \<Rightarrow>
          if list_ex (\<lambda>transition. ct_Kind transition = TransitionKindBlindPost \<and> cs_HandID (ct_NextState transition) = handID)
            (ts_CustodyTransitions table)
          then Inl (Err ''hand %s is missing HandStart event'')
          else Inr None)"

section \<open>The initiator of an action\<close>

text \<open>The state a request was made on: the one before the transition, or the one before the challenge the transition
  resolves.\<close>

definition request_state :: "nativeTableState \<Rightarrow> CustodyTransition \<Rightarrow> nat \<Rightarrow> CustodyState res" where
  "request_state table transition index =
     (case previousCustodyStateForTransition table (int index) of
        None \<Rightarrow> Inl (Err ''event %d action request is missing its previous custody state'')
      | Some previousState \<Rightarrow>
          if cp_ChallengeWitness (ct_Proof transition) = None then Inr previousState
          else bind_res (wrap_err ''event %d challenge action request is missing its source turn context: %w''
              (acceptedChallengeOpenContextForTransition table transition)) (\<lambda>(_, openPrevious, _).
            case openPrevious of
              None \<Rightarrow> Inl (Err ''event %d challenge action request is missing its source custody state'')
            | Some state \<Rightarrow> Inr state))"

definition check_action_request ::
    "('sk, 'pk) secp256k1 \<Rightarrow> nativeTableState \<Rightarrow> CustodyTransition \<Rightarrow> nat \<Rightarrow> nativeActionRequest \<Rightarrow> unit res" where
  "check_action_request curve table transition index request =
     (case seatRecordForPlayer table (aq_PlayerID request) of
        None \<Rightarrow> Inl (Err ''event %d action request player %s is not seated'')
      | Some seat \<Rightarrow>
          bind_res (wrap_err ''event %d action request verification failed: %w'' (verifyNativeActionRequestSignature curve seat request)) (\<lambda>_.
          if ct_Kind transition \<noteq> TransitionKindAction then Inl (Err ''event %d action request links %s instead of action'')
          else bind_res (request_state table transition index) (\<lambda>state. first_error
            [fail_if (aq_PrevCustodyStateHash request \<noteq> cs_StateHash state) ''event %d action request prev custody hash mismatch'',
             fail_if (aq_Epoch request \<noteq> cs_Epoch (ct_NextState transition)) ''event %d action request epoch mismatch'',
             fail_if (aq_DecisionIndex request \<noteq> cs_DecisionIndex state) ''event %d action request decision index mismatch'',
             fail_if (aq_HandID request \<noteq> cs_HandID state) ''event %d action request hand mismatch'',
             fail_if (TrimSpace (cs_ActingPlayerID state) \<noteq> [] \<and> aq_PlayerID request \<noteq> TrimSpace (cs_ActingPlayerID state))
               ''event %d action request player mismatch'',
             case ct_Action transition of
               None \<Rightarrow> Inl (Err ''event %d action transition is missing its action descriptor'')
             | Some descriptor \<Rightarrow> fail_if (ad_Type descriptor \<noteq> action_type_str (ac_Type (aq_Action request))
                   \<or> ad_TotalSats descriptor \<noteq> ac_TotalSats (aq_Action request))
                 ''event %d action request does not match custody transition''])))"

definition check_timeout_event :: "CustodyTransition \<Rightarrow> NativeSignedTableEvent \<Rightarrow> unit res" where
  "check_timeout_event transition event =
     (if ct_Kind transition \<noteq> TransitionKindTimeout then Inl (Err ''event %d player action is missing its signed action request'')
      else bind_res (wrap_err ''event %d timeout resolution is invalid: %w'' (timeoutResolutionFromEvent event)) (\<lambda>resolution.
        fail_if (resolution \<noteq> None \<and> sortTimeoutResolution (cloneTimeoutResolution resolution)
            \<noteq> sortTimeoutResolution (cloneTimeoutResolution (ct_TimeoutResolution transition)))
          ''event %d timeout resolution does not match custody transition''))"

text \<open>What \<open>validateAcceptedInitiatorHistory\<close> asks of an event of type \<open>PlayerAction\<close>.\<close>

definition check_player_action ::
    "('sk, 'pk) secp256k1 \<Rightarrow> nativeTableState \<Rightarrow> NativeSignedTableEvent \<Rightarrow> unit res" where
  "check_player_action curve table event =
     bind_res (wrap_err ''event %d player action link is invalid: %w'' (linkedCustodyTransitionForEvent table event)) (\<lambda>(transition, index).
     bind_res (wrap_err ''event %d action request is invalid: %w'' (actionRequestFromEvent event)) (\<lambda>request.
     case request of
       Some r \<Rightarrow> check_action_request curve table transition index r
     | None \<Rightarrow> check_timeout_event transition event))"

text \<open>The actions of a hand, in the order of the log.\<close>

fun replay_events :: "string \<Rightarrow> NativeSignedTableEvent list \<Rightarrow> NativeSignedTableEvent list res" where
  "replay_events handID [] = Inr []"
| "replay_events handID (event # events) =
     (if event_type event \<noteq> ''PlayerAction'' then replay_events handID events
      else bind_res (wrap_err ''event %d hand id is invalid: %w'' (actionEventHandID event)) (\<lambda>eventHandID.
        bind_res (replay_events handID events) (\<lambda>rest. Inr (if eventHandID \<noteq> handID then rest else event # rest))))"

definition acceptedReplayActionEvents :: "nativeTableState \<Rightarrow> string \<Rightarrow> NativeSignedTableEvent list res" where
  "acceptedReplayActionEvents table handID = replay_events handID (ts_Events table)"

definition seatIndexForPlayerID :: "nativeTableState \<Rightarrow> string \<Rightarrow> int" where
  "seatIndexForPlayerID table playerID = (case seatRecordForPlayer table playerID of None \<Rightarrow> - 1 | Some seat \<Rightarrow> se_SeatIndex seat)"

section \<open>What an accepted action is\<close>

text \<open>A request as the log has to show it: signed by the seat of its player, made on a custody state of the chain in
  which that player was to act, and carried out by the transition.\<close>

definition action_backed ::
    "('sk, 'pk) secp256k1 \<Rightarrow> nativeTableState \<Rightarrow> CustodyTransition \<Rightarrow> CustodyState \<Rightarrow> nativeActionRequest \<Rightarrow> bool" where
  "action_backed curve table transition state request \<longleftrightarrow>
     (\<exists>seat. seatRecordForPlayer table (aq_PlayerID request) = Some seat
       \<and> VerifyStructuredData curve (se_WalletPubkeyHex seat) (nativeActionAuthPayload request) (aq_SignatureHex request) = Inr True)
     \<and> aq_PrevCustodyStateHash request = cs_StateHash state \<and> aq_DecisionIndex request = cs_DecisionIndex state
     \<and> aq_HandID request = cs_HandID state
     \<and> (TrimSpace (cs_ActingPlayerID state) \<noteq> [] \<longrightarrow> aq_PlayerID request = TrimSpace (cs_ActingPlayerID state))
     \<and> ct_Kind transition = TransitionKindAction \<and> aq_Epoch request = cs_Epoch (ct_NextState transition)
     \<and> ct_Action transition = Some \<lparr>ad_TotalSats = ac_TotalSats (aq_Action request), ad_Type = action_type_str (ac_Type (aq_Action request))\<rparr>"

lemma signature_checked:
  "verifyNativeActionRequestSignature curve seat request = Inr () \<longleftrightarrow> aq_SignedAt request \<noteq> [] \<and> aq_SignatureHex request \<noteq> []
    \<and> VerifyStructuredData curve (se_WalletPubkeyHex seat) (nativeActionAuthPayload request) (aq_SignatureHex request) = Inr True"
  by (auto simp: verifyNativeActionRequestSignature_def)

lemma action_request_checked:
  "check_action_request curve table transition index request = Inr () \<longleftrightarrow>
    aq_SignedAt request \<noteq> [] \<and> aq_SignatureHex request \<noteq> []
    \<and> (\<exists>state. request_state table transition index = Inr state \<and> action_backed curve table transition state request)"
  by (cases "ct_Action transition")
    (auto simp: check_action_request_def action_backed_def bind_res_ok first_error_ok signature_checked ActionDescriptor.equality
      split: option.splits if_splits)

lemma linked_by_hash:
  assumes "linkedCustodyTransitionByHashSeq table hash custodySeq = Some (transition, index)"
  shows "index < length (ts_CustodyTransitions table)" "ts_CustodyTransitions table ! index = transition"
    "cp_TransitionHash (ct_Proof transition) = hash" "ct_CustodySeq transition = custodySeq"
  using assms by (auto simp: linkedCustodyTransitionByHashSeq_def find_Some_iff)

lemma linked_transition:
  assumes "linkedCustodyTransitionForEvent table event = Inr (transition, index)"
  shows "index < length (ts_CustodyTransitions table)" "ts_CustodyTransitions table ! index = transition"
    "cp_TransitionHash (ct_Proof transition) = eventTransitionHash event"
  using assms
  by (auto simp: linkedCustodyTransitionForEvent_def bind_res_ok dest: linked_by_hash split: if_splits option.splits)

text \<open>The state of a request is a state of the chain; outside a challenge it is the one before the transition.\<close>

lemma request_state_of_chain:
  assumes "request_state table transition index = Inr state" "index < length (ts_CustodyTransitions table)"
  shows "state \<in> ct_NextState ` set (ts_CustodyTransitions table)"
    and "cp_ChallengeWitness (ct_Proof transition) = None \<Longrightarrow> 0 < index \<and> state = ct_NextState (ts_CustodyTransitions table ! (index - 1))"
proof -
  obtain previous where previous: "previousCustodyStateForTransition table (int index) = Some previous"
    using assms(1) by (auto simp: request_state_def split: option.splits)
  then have p: "0 < index" "previous = ct_NextState (ts_CustodyTransitions table ! (index - 1))"
    using assms(2) by (auto simp: previousCustodyStateForTransition_def nat_diff_distrib split: if_splits)
  show "0 < index \<and> state = ct_NextState (ts_CustodyTransitions table ! (index - 1))" if "cp_ChallengeWitness (ct_Proof transition) = None"
    using assms(1) that previous p by (simp add: request_state_def)
  show "state \<in> ct_NextState ` set (ts_CustodyTransitions table)"
  proof (cases "cp_ChallengeWitness (ct_Proof transition)")
    case None
    then have "state = previous" using assms(1) previous by (simp add: request_state_def)
    moreover have "index - 1 < length (ts_CustodyTransitions table)" using p(1) assms(2) by simp
    ultimately show ?thesis using p(2) nth_mem by blast
  next
    case (Some witness)
    then obtain opened found where source: "acceptedChallengeOpenContextForTransition table transition = Inr (opened, Some state, found)"
      using assms(1) previous by (auto simp: request_state_def bind_res_ok split: option.splits)
    then show ?thesis
      by (auto simp: acceptedChallengeOpenContextForTransition_def find_Some_iff Let_def rev_nth split: option.splits if_splits
          intro!: imageI nth_mem)
  qed
qed

text \<open>The numbers that survive a float64 come back as they were.\<close>

definition exact_number :: "int \<Rightarrow> bool" where
  "exact_number i \<longleftrightarrow> \<bar>i\<bar> \<le> 2 ^ 53"

lemma digits_of: "list_all is_digit (nat_digits n)" "nat_digits n \<noteq> []" "hd (nat_digits n) \<noteq> CHR ''-''" "hd (nat_digits n) \<noteq> CHR ''+''"
proof -
  show all: "list_all is_digit (nat_digits n)" using nat_digits_chars [of n] by (auto simp: list_all_iff is_digit_def)
  show nonempty: "nat_digits n \<noteq> []" by simp
  then have "is_digit (hd (nat_digits n))" using all by (simp add: list_all_iff)
  then show "hd (nat_digits n) \<noteq> CHR ''-''" "hd (nat_digits n) \<noteq> CHR ''+''" by (auto simp: is_digit_def)
qed

lemma decoded_exact:
  assumes "exact_number i"
  shows "decoded_number (itoa i) = itoa i"
proof (cases "i < 0")
  case True
  then have "nat (- i) \<le> 2 ^ 53" using assms by (simp add: exact_number_def nat_le_iff)
  then show ?thesis using True digits_of by (simp add: decoded_number_def itoa_def float_text_def)
next
  case False
  then have "nat i \<le> 2 ^ 53" using assms by (simp add: exact_number_def nat_le_iff)
  then show ?thesis using False digits_of by (simp add: decoded_number_def itoa_def float_text_def)
qed

lemma Atoi_itoa:
  assumes "exact_number i"
  shows "Atoi (itoa i) = Inr i"
proof -
  have range: "- (2 ^ 63) \<le> i" "i < 2 ^ 63" using assms by (auto simp: exact_number_def)
  have "split_sign (nat_digits n) = (False, nat_digits n)" for n
    using digits_of [of n] by (auto simp: split_sign_def split: list.split)
  then have "split_sign (itoa i) = (i < 0, nat_digits (nat \<bar>i\<bar>))" by (simp add: itoa_def split_sign_def)
  moreover have "signed_value (i < 0) (nat_digits (nat \<bar>i\<bar>)) = i" by (simp add: signed_value_def)
  ultimately show ?thesis using range digits_of [of "nat \<bar>i\<bar>"] by (simp add: Atoi_def Let_def)
qed

lemma canonical_decoded [simp]:
  "valid_utf8 s \<Longrightarrow> canonicalizeValue (json_decoded (JStr s)) = JStr s"
  "exact_number i \<Longrightarrow> canonicalizeValue (json_decoded (JInt i)) = JInt i"
  by (simp_all add: JInt_def decoded_exact)

section \<open>A recorded request is read back\<close>

text \<open>\<open>rawJSONMap\<close> of a request, its members in the order of their keys.\<close>

definition action_request_members :: "nativeActionRequest \<Rightarrow> (string \<times> json option) list" where
  "action_request_members r =
     [(''action'', Some (JObj [(''TotalSats'', JInt (ac_TotalSats (aq_Action r))), (''Type'', JStr (action_type_str (ac_Type (aq_Action r))))])),
      (''actionDeadlineAt'', str_omit (aq_ActionDeadlineAt r)),
      (''challengeAnchor'', str_omit (aq_ChallengeAnchor r)),
      (''decisionIndex'', Some (JInt (aq_DecisionIndex r))),
      (''epoch'', Some (JInt (aq_Epoch r))),
      (''handId'', Some (JStr (aq_HandID r))),
      (''optionId'', str_omit (aq_OptionID r)),
      (''playerId'', Some (JStr (aq_PlayerID r))),
      (''prevCustodyStateHash'', str_omit (aq_PrevCustodyStateHash r)),
      (''profileName'', Some (JStr (aq_ProfileName r))),
      (''signatureHex'', Some (JStr (aq_SignatureHex r))),
      (''signedAt'', Some (JStr (aq_SignedAt r))),
      (''tableId'', Some (JStr (aq_TableID r))),
      (''transcriptRoot'', str_omit (aq_TranscriptRoot r)),
      (''turnAnchorHash'', str_omit (aq_TurnAnchorHash r))]"

definition raw_action_request :: "nativeActionRequest \<Rightarrow> goval" where
  "raw_action_request r = json_decoded (struct_json (action_request_members r))"

text \<open>The texts of the request are valid and its numbers survive a float64.\<close>

definition request_exact :: "nativeActionRequest \<Rightarrow> bool" where
  "request_exact r \<longleftrightarrow> list_all valid_utf8 [action_type_str (ac_Type (aq_Action r)), aq_ActionDeadlineAt r, aq_ChallengeAnchor r, aq_HandID r,
       aq_OptionID r, aq_PlayerID r, aq_PrevCustodyStateHash r, aq_ProfileName r, aq_SignatureHex r, aq_SignedAt r, aq_TableID r,
       aq_TranscriptRoot r, aq_TurnAnchorHash r]
     \<and> list_all exact_number [ac_TotalSats (aq_Action r), aq_DecisionIndex r, aq_Epoch r]
     \<and> action_type_of (action_type_str (ac_Type (aq_Action r))) = ac_Type (aq_Action r)"

lemma decode_members_append:
  "decode_members fs (a @ b) old = bind_res (decode_members fs a old) (decode_members fs b)"
proof (induction a arbitrary: old)
  case (Cons m a)
  obtain k v where "m = (k, v)" by (cases m)
  with Cons show ?case by (auto simp: bind_res_def split: option.splits sum.splits)
qed (simp add: bind_res_def)

lemma decode_one:
  assumes "map_of fs k = Some (field decode get upd)" "valid_utf8 k" "decode v (get old) = Inr x"
  shows "decode_members fs ((k, v) # members) old = decode_members fs members (upd (\<lambda>_. x) old)"
  using assms by (simp add: field_for_def field_def bind_res_def)

lemma decode_string_text [simp]: "valid_utf8 s \<Longrightarrow> decode_string (JStr s) old = Inr s"
  by (simp add: decode_string_def)

lemma decode_number [simp]: "exact_number i \<Longrightarrow> decode_int (JInt i) old = Inr i"
  by (simp add: decode_int_def JInt_def Atoi_itoa)

lemma sorted_present:
  assumes "sorted_wrt (<) (map fst fs)"
  shows "sorted_wrt (<) (map fst (present fs))" "list_all P (map fst fs) \<Longrightarrow> list_all P (map fst (present fs))"
proof -
  show "sorted_wrt (<) (map fst (present fs))" using assms
  proof (induction fs)
    case (Cons f fs)
    obtain k v where f: "f = (k, v)" by (cases f)
    have "present (f # fs) = (case v of None \<Rightarrow> [] | Some j \<Rightarrow> [(k, j)]) @ present fs" by (simp add: present_def f)
    then show ?case using Cons present_keys [of fs] f by (cases v) (auto, force)
  qed (simp add: present_def)
  show "list_all P (map fst (present fs))" if "list_all P (map fst fs)"
    using that present_keys [of fs] by (simp add: list_all_iff) (metis image_eqI in_mono imageE)
qed

lemma decode_omitted:
  assumes "map_of fs k = Some (field decode_string get upd)" "valid_utf8 k" "valid_utf8 s" "s = [] \<Longrightarrow> upd (\<lambda>_. []) old = old"
  shows "decode_members fs (present ((k, str_omit s) # members)) old = decode_members fs (present members) (upd (\<lambda>_. s) old)"
  using decode_one [OF assms(1,2) decode_string_text [OF assms(3)]] assms(4) by (simp add: present_def str_omit_def)

lemma decode_raw_action:
  assumes "exact_number (ac_TotalSats a)" "valid_utf8 (action_type_str (ac_Type a))" "action_type_of (action_type_str (ac_Type a)) = ac_Type a"
  shows "decode_action (JObj [(''TotalSats'', JInt (ac_TotalSats a)), (''Type'', JStr (action_type_str (ac_Type a)))]) old = Inr a"
proof -
  have "utf8_clean ''TotalSats'' = ''TotalSats''" "utf8_clean ''Type'' = ''Type''" by code_simp+
  then show ?thesis
    using assms by (simp add: decode_action_def decode_struct_def field_for_def field_def bind_res_def)
qed

lemma decode_recorded:
  assumes "request_exact r"
  shows "decode_members action_request_fields (present (action_request_members r)) empty_action_request = Inr r"
proof -
  let ?fs = action_request_fields
  have names: "list_all (\<lambda>(k, _). valid_utf8 k) [(''action'', ()), (''actionDeadlineAt'', ()), (''challengeAnchor'', ()), (''decisionIndex'', ()),
      (''epoch'', ()), (''handId'', ()), (''optionId'', ()), (''playerId'', ()), (''prevCustodyStateHash'', ()), (''profileName'', ()),
      (''signatureHex'', ()), (''signedAt'', ()), (''tableId'', ()), (''transcriptRoot'', ()), (''turnAnchorHash'', ())]" by code_simp
  have look:
    "map_of ?fs ''action'' = Some (field decode_action aq_Action aq_Action_update)"
    "map_of ?fs ''actionDeadlineAt'' = Some (field decode_string aq_ActionDeadlineAt aq_ActionDeadlineAt_update)"
    "map_of ?fs ''challengeAnchor'' = Some (field decode_string aq_ChallengeAnchor aq_ChallengeAnchor_update)"
    "map_of ?fs ''decisionIndex'' = Some (field decode_int aq_DecisionIndex aq_DecisionIndex_update)"
    "map_of ?fs ''epoch'' = Some (field decode_int aq_Epoch aq_Epoch_update)"
    "map_of ?fs ''handId'' = Some (field decode_string aq_HandID aq_HandID_update)"
    "map_of ?fs ''optionId'' = Some (field decode_string aq_OptionID aq_OptionID_update)"
    "map_of ?fs ''playerId'' = Some (field decode_string aq_PlayerID aq_PlayerID_update)"
    "map_of ?fs ''prevCustodyStateHash'' = Some (field decode_string aq_PrevCustodyStateHash aq_PrevCustodyStateHash_update)"
    "map_of ?fs ''profileName'' = Some (field decode_string aq_ProfileName aq_ProfileName_update)"
    "map_of ?fs ''signatureHex'' = Some (field decode_string aq_SignatureHex aq_SignatureHex_update)"
    "map_of ?fs ''signedAt'' = Some (field decode_string aq_SignedAt aq_SignedAt_update)"
    "map_of ?fs ''tableId'' = Some (field decode_string aq_TableID aq_TableID_update)"
    "map_of ?fs ''transcriptRoot'' = Some (field decode_string aq_TranscriptRoot aq_TranscriptRoot_update)"
    "map_of ?fs ''turnAnchorHash'' = Some (field decode_string aq_TurnAnchorHash aq_TurnAnchorHash_update)"
    by (simp_all add: action_request_fields_def)
  note steps = decode_one [OF look(1)] decode_omitted [OF look(2)] decode_omitted [OF look(3)] decode_one [OF look(4)]
    decode_one [OF look(5)] decode_one [OF look(6)] decode_omitted [OF look(7)] decode_one [OF look(8)]
    decode_omitted [OF look(9)] decode_one [OF look(10)] decode_one [OF look(11)] decode_one [OF look(12)]
    decode_one [OF look(13)] decode_omitted [OF look(14)] decode_omitted [OF look(15)]
  have action: "decode_action (JObj [(''TotalSats'', JInt (ac_TotalSats (aq_Action r))), (''Type'', JStr (action_type_str (ac_Type (aq_Action r))))]) old
      = Inr (aq_Action r)" for old
    using assms by (intro decode_raw_action) (simp_all add: request_exact_def)
  show ?thesis
    using assms names unfolding action_request_members_def request_exact_def
    by (simp add: steps action empty_action_request_def del: decode_members.simps(2))
qed

lemma canonical_recorded:
  assumes "request_exact r"
  shows "canonicalizeValue (raw_action_request r) = JObj (present (action_request_members r))"
proof -
  let ?names = "[''action'', ''actionDeadlineAt'', ''challengeAnchor'', ''decisionIndex'', ''epoch'', ''handId'', ''optionId'', ''playerId'',
      ''prevCustodyStateHash'', ''profileName'', ''signatureHex'', ''signedAt'', ''tableId'', ''transcriptRoot'', ''turnAnchorHash'']"
  have "sorted_wrt (<) ?names" "list_all valid_utf8 ?names" "map fst (action_request_members r) = ?names"
    by (code_simp, code_simp, simp add: action_request_members_def)
  then have names: "sorted_wrt (<) (map fst (present (action_request_members r)))" "list_all valid_utf8 (map fst (present (action_request_members r)))"
    using sorted_present [of "action_request_members r"] by metis+
  have "''TotalSats'' < ''Type''" "valid_utf8 ''TotalSats''" "valid_utf8 ''Type''" by code_simp+
  then have "sorted_wrt (<) (map fst [(''TotalSats'', JInt i), (''Type'', JStr t)])" "list_all valid_utf8 (map fst [(''TotalSats'', JInt i), (''Type'', JStr t)])" for i t
    by simp_all
  note action = canonical_decoded_object [OF this]
  have "list_all (\<lambda>(k, m). case m of None \<Rightarrow> True | Some v \<Rightarrow> canonicalizeValue (json_decoded v) = v) (action_request_members r)"
    using assms by (simp add: action_request_members_def request_exact_def str_omit_def action
        del: json_decoded.simps canonicalizeValue.simps)
  then have "canonicalizeValue (json_decoded v) = v" if "(k, v) \<in> set (present (action_request_members r))" for k v
    using that unfolding present_members list_all_iff by fastforce
  then have "map (\<lambda>(k, v). (k, canonicalizeValue (json_decoded v))) (present (action_request_members r)) = present (action_request_members r)"
    by (auto intro!: map_idI)
  then show ?thesis
    unfolding raw_action_request_def struct_json_def canonical_decoded_object [OF names] by simp
qed

lemma recorded_integers: "integers (struct_json (action_request_members r))"
proof -
  have "list_all (\<lambda>(k, m). case m of None \<Rightarrow> True | Some v \<Rightarrow> integers v) (action_request_members r)"
    by (simp add: action_request_members_def str_omit_def)
  then show ?thesis
    unfolding struct_json_def integers.simps list_all_iff using present_members [of _ _ "action_request_members r"] by fastforce
qed

text \<open>What the host records of a request is what every peer reads.\<close>

lemma recorded_request_is_read:
  assumes "request_exact r" "body_at event ''actionRequest'' = raw_action_request r"
  shows "actionRequestFromEvent event = Inr (Some r)"
proof -
  have "numbers_ok (canonicalizeValue (raw_action_request r))" unfolding raw_action_request_def by (rule integers_ok [OF recorded_integers])
  moreover have "raw_action_request r \<noteq> VInvalid" by (simp add: raw_action_request_def struct_json_def)
  ultimately show ?thesis
    using decode_recorded [OF assms(1)] canonical_recorded [OF assms(1)] assms(2)
    by (simp add: actionRequestFromEvent_def optional_member_def decodeJSONValue_def decode_action_request_def decode_struct_def)
qed

section \<open>The host's record of an action is accepted\<close>

text \<open>The body of the event the host writes after the transition of an action.\<close>

definition player_action_body :: "nativeActionRequest \<Rightarrow> CustodyTransition \<Rightarrow> int \<Rightarrow> (string, goval) gomap" where
  "player_action_body request transition seatIndex =
     [(''actionRequest'', raw_action_request request), (''custodySeq'', VInt (ct_CustodySeq transition)),
      (''playerId'', VString (aq_PlayerID request)), (''seatIndex'', VInt seatIndex),
      (''transitionHash'', VString (cp_TransitionHash (ct_Proof transition))), (''type'', VString ''PlayerAction'')]"

text \<open>The custody state of a turn: it names the hand, the decision and the player to act.\<close>

definition state_of_turn :: "CustodyState \<Rightarrow> HoldemState \<Rightarrow> string \<Rightarrow> bool" where
  "state_of_turn state hand player \<longleftrightarrow> cs_HandID state = st_HandID hand \<and> cs_DecisionIndex state = int (length (st_ActionLog hand))
     \<and> TrimSpace (cs_ActingPlayerID state) \<in> {[], player}"

text \<open>A transition that carries out a request, with a sequence number the chain has not had.\<close>

definition carries_out :: "CustodyTransition \<Rightarrow> nativeActionRequest \<Rightarrow> CustodyTransition list \<Rightarrow> bool" where
  "carries_out transition request chain \<longleftrightarrow>
     ct_Kind transition = TransitionKindAction \<and> cp_ChallengeWitness (ct_Proof transition) = None
     \<and> cs_Epoch (ct_NextState transition) = aq_Epoch request
     \<and> ct_Action transition = Some \<lparr>ad_TotalSats = ac_TotalSats (aq_Action request), ad_Type = action_type_str (ac_Type (aq_Action request))\<rparr>
     \<and> cp_TransitionHash (ct_Proof transition) \<noteq> []
     \<and> TrimSpace (cp_TransitionHash (ct_Proof transition)) = cp_TransitionHash (ct_Proof transition)
     \<and> exact_number (ct_CustodySeq transition) \<and> ct_CustodySeq transition \<notin> ct_CustodySeq ` set chain"

lemma linked_last:
  assumes "ct_CustodySeq transition \<notin> ct_CustodySeq ` set chain" "ts_CustodyTransitions table = chain @ [transition]"
  shows "linkedCustodyTransitionByHashSeq table (cp_TransitionHash (ct_Proof transition)) (ct_CustodySeq transition)
    = Some (transition, length chain)"
proof -
  let ?P = "\<lambda>(t, i). ct_CustodySeq t = ct_CustodySeq transition \<and> cp_TransitionHash (ct_Proof t) = cp_TransitionHash (ct_Proof transition)"
  have "find ?P (zip chain [0..<length chain]) = None"
    using assms(1) unfolding find_None_iff by (metis (mono_tags, lifting) case_prodE imageI set_zip_leftD)
  then show ?thesis
    using assms(2) by (simp add: linkedCustodyTransitionByHashSeq_def zip_append find_append)
qed

lemma validated_request:
  assumes "validateActionRequest curve table seat request = Inr ()" "ts_ActiveHand table = Some active"
  shows "verifyNativeActionRequestSignature curve seat request = Inr ()" "aq_HandID request = st_HandID (ah_State active)"
    "aq_PrevCustodyStateHash request = latestCustodyStateHash table"
    "aq_DecisionIndex request = int (length (st_ActionLog (ah_State active)))" "aq_PlayerID request = se_PlayerID seat"
  using assms unfolding validateActionRequest_def validateActionRequestFields_def
  by (auto simp: first_error_ok bind_res_ok Let_def nativeActionDecisionIndex_def split: prod.splits if_splits)

text \<open>The record of a request that is signed and made on the last state of the chain.\<close>

lemma recorded_event_ok:
  assumes "request_exact request" "ev_Body event = Some (player_action_body request transition seatIndex)"
    and "chain \<noteq> []" "carries_out transition request chain" "ts_CustodyTransitions later = chain @ [transition]"
    and "seatRecordForPlayer later (aq_PlayerID request) = Some seat" "verifyNativeActionRequestSignature curve seat request = Inr ()"
    and "aq_PrevCustodyStateHash request = cs_StateHash (ct_NextState (List.last chain))"
    and "aq_DecisionIndex request = cs_DecisionIndex (ct_NextState (List.last chain))" "aq_HandID request = cs_HandID (ct_NextState (List.last chain))"
    and "TrimSpace (cs_ActingPlayerID (ct_NextState (List.last chain))) \<in> {[], aq_PlayerID request}"
  shows "check_player_action curve later event = Inr ()"
proof -
  let ?state = "ct_NextState (List.last chain)"
  have body: "body_at event ''actionRequest'' = raw_action_request request" "body_at event ''custodySeq'' = VInt (ct_CustodySeq transition)"
    "body_at event ''transitionHash'' = VString (cp_TransitionHash (ct_Proof transition))"
    using assms(2) by (simp_all add: body_at_def player_action_body_def)
  have t: "ct_CustodySeq transition \<notin> ct_CustodySeq ` set chain" "exact_number (ct_CustodySeq transition)"
    "eventTransitionHash event = cp_TransitionHash (ct_Proof transition)" "cp_TransitionHash (ct_Proof transition) \<noteq> []"
    using assms(4) by (simp_all add: carries_out_def eventTransitionHash_def body(3))
  have "eventCustodySeq event = Inr (ct_CustodySeq transition)"
    using decode_number [OF t(2)] by (simp add: eventCustodySeq_def decodeJSONValue_def body(2) JInt_def)
  then have linked: "linkedCustodyTransitionForEvent later event = Inr (transition, length chain)"
    using linked_last [OF t(1) assms(5)] t(3,4) by (simp add: linkedCustodyTransitionForEvent_def wrap_err_def)
  have "nat (int (length chain) - 1) = length chain - 1" "length chain - 1 < length chain" using assms(3) by auto
  then have "previousCustodyStateForTransition later (int (length chain)) = Some ?state"
    using assms(3,5) by (simp add: previousCustodyStateForTransition_def nth_append last_conv_nth)
  then have state: "request_state later transition (length chain) = Inr ?state"
    using assms(4) by (simp add: request_state_def carries_out_def)
  have "check_action_request curve later transition (length chain) request = Inr ()"
    unfolding action_request_checked action_backed_def
    using state assms(4,6-11) by (auto simp: signature_checked carries_out_def)
  then show ?thesis
    using linked recorded_request_is_read [OF assms(1) body(1)] by (simp add: check_player_action_def wrap_err_def)
qed

text \<open>When the host has validated a request on a turn, carried it out and recorded it, every peer accepts the record.\<close>

theorem recorded_action_is_accepted:
  assumes "validateActionRequest curve table seat request = Inr ()" "seatRecordForPlayer table (aq_PlayerID request) = Some seat"
    and "request_exact request" "ts_ActiveHand table = Some active" "ts_LatestCustodyState table = Some state"
    and "ts_CustodyTransitions table \<noteq> []" "ct_NextState (List.last (ts_CustodyTransitions table)) = state"
    and "state_of_turn state (ah_State active) (aq_PlayerID request)" "carries_out transition request (ts_CustodyTransitions table)"
    and "ev_Body event = Some (player_action_body request transition seatIndex)"
    and "ts_CustodyTransitions later = ts_CustodyTransitions table @ [transition]" "ts_Seats later = ts_Seats table"
  shows "check_player_action curve later event = Inr ()"
proof (rule recorded_event_ok [OF assms(3,10,6,9,11)])
  note valid = validated_request [OF assms(1,4)]
  show "seatRecordForPlayer later (aq_PlayerID request) = Some seat" using assms(2,12) by (simp add: seatRecordForPlayer_def)
  show "verifyNativeActionRequestSignature curve seat request = Inr ()" by (rule valid(1))
qed (use validated_request [OF assms(1,4)] assms(5,7,8) in \<open>auto simp: latestCustodyStateHash_def state_of_turn_def\<close>)

end
