(* ===== verification/Table_Ledger.thy ===== *)
theory Table_Ledger
  imports Accepted_Intents "HOL-Library.Sublist"
begin

text \<open>
  The ledger a daemon accepts from a peer, from \<open>internal/meshruntime/runtime.go\<close>: signed snapshots and their chain,
  the anchors of snapshots and public states in the event log, the custody chain, the transcript of the hand in
  progress, and the comparison with the ledger the daemon already has. \<open>reflect.DeepEqual\<close> on copies made by
  \<open>cloneJSON\<close> is equality of the copies: a field of type \<open>any\<close> is read back from its JSON text, a map is its members in
  the order of their keys, and an empty list is nil. Two checks of the ledger are arguments of the definitions:
  \<open>validateAcceptedCustodyTransition\<close>, and what \<open>validateAcceptedInitiatorHistory\<close> asks of an event of type \<open>CashOut\<close> or
  \<open>EmergencyExit\<close>; both look into Bitcoin transactions.
\<close>

section \<open>Snapshots\<close>

definition NativeSeatedPlayer_json :: "NativeSeatedPlayer \<Rightarrow> json" where
  "NativeSeatedPlayer_json p = struct_json
     [(''arkAddress'', Some (JStr (se_ArkAddress p))),
      (''buyInSats'', Some (JInt (se_BuyInSats p))),
      (''fundingRefs'', list_omit VTXORef_json (se_FundingRefs p)),
      (''nickname'', Some (JStr (se_Nickname p))),
      (''peerId'', Some (JStr (se_PeerID p))),
      (''playerId'', Some (JStr (se_PlayerID p))),
      (''protocolPubkeyHex'', Some (JStr (se_ProtocolPubkeyHex p))),
      (''seatIndex'', Some (JInt (se_SeatIndex p))),
      (''status'', Some (JStr (se_Status p))),
      (''walletPubkeyHex'', Some (JStr (se_WalletPubkeyHex p)))]"

definition by_key :: "(string, 'v) gomap \<Rightarrow> (string, 'v) gomap" where
  "by_key m = slice_stable (\<lambda>a b. fst a < fst b) m"

definition unsignedSnapshot :: "NativeCooperativeTableSnapshot \<Rightarrow> goval" where
  "unsignedSnapshot s =
     json_decoded (JObj
      [(''chipBalances'', JObj (map (\<lambda>(k, v). (k, JInt v)) (by_key (sn_ChipBalances s)))),
       (''createdAt'', JStr (sn_CreatedAt s)),
       (''dealerCommitmentRoot'', canonicalizeValue (sn_DealerCommitmentRoot s)),
       (''epoch'', JInt (sn_Epoch s)),
       (''foldedPlayerIds'', JArr (map JStr (sn_FoldedPlayerIDs s))),
       (''handId'', canonicalizeValue (sn_HandID s)),
       (''handNumber'', JInt (sn_HandNumber s)),
       (''latestEventHash'', canonicalizeValue (sn_LatestEventHash s)),
       (''livePlayerIds'', JArr (map JStr (sn_LivePlayerIDs s))),
       (''phase'', canonicalizeValue (sn_Phase s)),
       (''potSats'', JInt (sn_PotSats s)),
       (''previousSnapshotHash'', canonicalizeValue (sn_PreviousSnapshotHash s)),
       (''protocolVersion'', JStr (sn_ProtocolVersion s)),
       (''seatedPlayers'', JArr (map NativeSeatedPlayer_json (sn_SeatedPlayers s))),
       (''sidePots'', JArr (map JInt (sn_SidePots s))),
       (''snapshotId'', JStr (sn_SnapshotID s)),
       (''tableId'', JStr (sn_TableID s)),
       (''turnIndex'', canonicalizeValue (sn_TurnIndex s))])"

definition snapshotHash :: "NativeCooperativeTableSnapshot \<Rightarrow> string" where
  "snapshotHash s = (case HashStructuredDataHex (unsignedSnapshot s) of Inl _ \<Rightarrow> [] | Inr h \<Rightarrow> h)"

definition previousSnapshotHash :: "nativeTableState \<Rightarrow> goval" where
  "previousSnapshotHash table = (case ts_LatestSnapshot table of None \<Rightarrow> VInvalid | Some s \<Rightarrow>
     if sn_SnapshotID s = [] then VInvalid else VString (sn_SnapshotID s))"

text \<open>\<open>snapshotID\<close> is the fresh identifier, \<open>at\<close> and \<open>at'\<close> are the times of creation and of signing.\<close>

definition buildSnapshot ::
    "('sk, 'pk) secp256k1 \<Rightarrow> (nat \<Rightarrow> string res) \<Rightarrow> daemon \<Rightarrow> string \<Rightarrow> string \<Rightarrow> string \<Rightarrow> nativeTableState
     \<Rightarrow> NativePublicTableState \<Rightarrow> NativeCooperativeTableSnapshot res" where
  "buildSnapshot curve random daemon snapshotID at at' table public =
     (let s = \<lparr>sn_CreatedAt = at, sn_ChipBalances = pu_ChipBalances public,
            sn_DealerCommitmentRoot = (case pu_DealerCommitment public of None \<Rightarrow> VInvalid | Some c \<Rightarrow> VString (dc_RootHash c)),
            sn_Epoch = ts_CurrentEpoch table, sn_FoldedPlayerIDs = pu_FoldedPlayerIDs public,
            sn_HandID = pu_HandID public, sn_HandNumber = pu_HandNumber public,
            sn_LatestEventHash = pu_LatestEventHash public, sn_LivePlayerIDs = pu_LivePlayerIDs public,
            sn_Phase = pu_Phase public, sn_PotSats = pu_PotSats public,
            sn_PreviousSnapshotHash = previousSnapshotHash table, sn_ProtocolVersion = nativeProtocolVersion,
            sn_SeatedPlayers = pu_SeatedPlayers public, sn_SidePots = [], sn_Signatures = [], sn_SnapshotID = snapshotID,
            sn_TableID = tc_TableID (ts_Config table), sn_TurnIndex = pu_ActingSeatIndex public\<rparr> in
      bind_res (SignStructuredData curve random (da_ProtocolPrivateKeyHex daemon) (unsignedSnapshot s)) (\<lambda>signatureHex.
      Inr (s\<lparr>sn_Signatures := [\<lparr>ss_SignatureHex = signatureHex, ss_SignedAt = at', ss_SignerPeerID = pa_PeerID (da_Peer daemon),
        ss_SignerPubkeyHex = da_ProtocolPublicKeyHex daemon, ss_SignerRole = da_Mode daemon\<rparr>]\<rparr>)))"

section \<open>Copies that are compared\<close>

definition clone_snapshot :: "NativeCooperativeTableSnapshot \<Rightarrow> NativeCooperativeTableSnapshot" where
  "clone_snapshot s = s\<lparr>sn_ChipBalances := by_key (sn_ChipBalances s),
     sn_DealerCommitmentRoot := json_any (sn_DealerCommitmentRoot s), sn_HandID := json_any (sn_HandID s),
     sn_LatestEventHash := json_any (sn_LatestEventHash s), sn_Phase := json_any (sn_Phase s),
     sn_PreviousSnapshotHash := json_any (sn_PreviousSnapshotHash s), sn_TurnIndex := json_any (sn_TurnIndex s)\<rparr>"

definition comparableSnapshotForReplay :: "NativeCooperativeTableSnapshot \<Rightarrow> NativeCooperativeTableSnapshot" where
  "comparableSnapshotForReplay s = (clone_snapshot s)
     \<lparr>sn_CreatedAt := [], sn_LatestEventHash := VInvalid, sn_Signatures := [], sn_SnapshotID := []\<rparr>"

definition comparableSnapshotForHistory :: "NativeCooperativeTableSnapshot \<Rightarrow> NativeCooperativeTableSnapshot" where
  "comparableSnapshotForHistory s = (clone_snapshot s)\<lparr>sn_CreatedAt := [], sn_Signatures := []\<rparr>"

definition comparableSnapshotForRollbackAnchor :: "NativeCooperativeTableSnapshot \<Rightarrow> NativeCooperativeTableSnapshot" where
  "comparableSnapshotForRollbackAnchor s = (clone_snapshot s)
     \<lparr>sn_CreatedAt := [], sn_PreviousSnapshotHash := VInvalid, sn_Signatures := [], sn_SnapshotID := []\<rparr>"

definition comparableDealerCommitment :: "NativeDealerCommitment option \<Rightarrow> NativeDealerCommitment option" where
  "comparableDealerCommitment commitment =
     (case commitment of
        None \<Rightarrow> None
      | Some c \<Rightarrow> if TrimSpace (dc_RootHash c) = [] then None else Some (c\<lparr>dc_CommittedAt := []\<rparr>))"

definition comparablePublicState :: "NativePublicTableState \<Rightarrow> NativePublicTableState" where
  "comparablePublicState p = p\<lparr>pu_ActingSeatIndex := json_any (pu_ActingSeatIndex p), pu_ChipBalances := by_key (pu_ChipBalances p),
     pu_DealerCommitment := comparableDealerCommitment (pu_DealerCommitment p),
     pu_DealerSeatIndex := json_any (pu_DealerSeatIndex p), pu_HandID := json_any (pu_HandID p),
     pu_LatestEventHash := json_any (pu_LatestEventHash p), pu_Phase := json_any (pu_Phase p),
     pu_PreviousSnapshotHash := json_any (pu_PreviousSnapshotHash p),
     pu_RoundContributions := by_key (pu_RoundContributions p), pu_SnapshotID := [],
     pu_TotalContributions := by_key (pu_TotalContributions p), pu_UpdatedAt := []\<rparr>"

definition comparableSignedEvent :: "NativeSignedTableEvent \<Rightarrow> NativeSignedTableEvent" where
  "comparableSignedEvent event =
     (let copy = event\<lparr>ev_Body := decoded_body (json_any (body_value (ev_Body event))), ev_HandID := json_any (ev_HandID event),
            ev_PrevEventHash := json_any (ev_PrevEventHash event)\<rparr> in
      if event_type copy = ''TurnChallengeOpened''
      then copy\<lparr>ev_SenderPeerID := [], ev_SenderProtocolPubkeyHex := [], ev_SenderRole := [], ev_Signature := [], ev_Timestamp := [],
        ev_Body := map_option (\<lambda>body. AList.delete ''transitionHash'' (AList.delete ''openedAt''
          (AList.delete ''escapeEligibleAt'' body))) (ev_Body copy)\<rparr>
      else copy)"

section \<open>The chain of snapshots\<close>

fun check_snapshot_signatures ::
    "('sk, 'pk) secp256k1 \<Rightarrow> goval \<Rightarrow> NativeTableSnapshotSignature list \<Rightarrow> unit res" where
  "check_snapshot_signatures curve payload [] = Inr ()"
| "check_snapshot_signatures curve payload (signature # signatures) =
     bind_res (check_signature curve ''snapshot %d signature is invalid'' (ss_SignerPubkeyHex signature) payload
       (ss_SignatureHex signature)) (\<lambda>_. check_snapshot_signatures curve payload signatures)"

definition check_snapshot ::
    "('sk, 'pk) secp256k1 \<Rightarrow> nativeTableState \<Rightarrow> string \<Rightarrow> string list \<Rightarrow> NativeCooperativeTableSnapshot \<Rightarrow> unit res" where
  "check_snapshot curve table expectedPreviousSnapshotID seenSnapshotIDs s = first_error
     [fail_if (sn_TableID s \<noteq> tc_TableID (ts_Config table)) ''snapshot %d table id mismatch'',
      fail_if (sn_ProtocolVersion s \<noteq> nativeProtocolVersion) ''snapshot %d protocol version mismatch'',
      fail_if (sn_Epoch s > ts_CurrentEpoch table) ''snapshot %d epoch exceeds table epoch'',
      fail_if (TrimSpace (stringValue (sn_PreviousSnapshotHash s)) \<noteq> expectedPreviousSnapshotID)
        ''snapshot %d previous snapshot id mismatch'',
      fail_if (TrimSpace (sn_SnapshotID s) = []) ''snapshot %d is missing snapshot id'',
      fail_if (sn_SnapshotID s \<in> set seenSnapshotIDs) ''duplicate snapshot id %q'',
      fail_if (sn_Signatures s = []) ''snapshot %d is missing signatures'',
      check_snapshot_signatures curve (unsignedSnapshot s) (sn_Signatures s)]"

fun check_snapshots ::
    "('sk, 'pk) secp256k1 \<Rightarrow> nativeTableState \<Rightarrow> string \<Rightarrow> string list \<Rightarrow> NativeCooperativeTableSnapshot list \<Rightarrow> unit res" where
  "check_snapshots curve table expectedPreviousSnapshotID seenSnapshotIDs [] = Inr ()"
| "check_snapshots curve table expectedPreviousSnapshotID seenSnapshotIDs (s # snapshots) =
     bind_res (check_snapshot curve table expectedPreviousSnapshotID seenSnapshotIDs s) (\<lambda>_.
       check_snapshots curve table (sn_SnapshotID s) (sn_SnapshotID s # seenSnapshotIDs) snapshots)"

definition check_pointer :: "string \<Rightarrow> NativeCooperativeTableSnapshot list \<Rightarrow> NativeCooperativeTableSnapshot \<Rightarrow> unit res" where
  "check_pointer label snapshots pointer =
     (case find (\<lambda>s. sn_SnapshotID s = sn_SnapshotID pointer) snapshots of
        None \<Rightarrow> Inl (Err (label @ '' does not belong to accepted snapshot history''))
      | Some s \<Rightarrow> fail_if (comparableSnapshotForHistory pointer \<noteq> comparableSnapshotForHistory s)
          (label @ '' does not match accepted snapshot history''))"

definition validateAcceptedSnapshotHistory :: "('sk, 'pk) secp256k1 \<Rightarrow> nativeTableState \<Rightarrow> unit res" where
  "validateAcceptedSnapshotHistory curve table =
     bind_res (check_snapshots curve table [] [] (ts_Snapshots table)) (\<lambda>_.
     if ts_Snapshots table = []
     then fail_if (ts_LatestSnapshot table \<noteq> None \<or> ts_LatestFullySignedSnapshot table \<noteq> None)
       ''latest snapshot pointers cannot be set without snapshot history''
     else case ts_LatestSnapshot table of
         None \<Rightarrow> Inl (Err ''latest snapshot is missing from accepted snapshot history'')
       | Some latest \<Rightarrow>
           bind_res (check_pointer ''latest snapshot'' (ts_Snapshots table) latest) (\<lambda>_.
             case ts_LatestFullySignedSnapshot table of
               None \<Rightarrow> Inr ()
             | Some fully \<Rightarrow> check_pointer ''latest fully signed snapshot'' (ts_Snapshots table) fully))"

section \<open>Anchors in the event log\<close>

definition readyPublicStateMatchesLatestSnapshot :: "mesh_env \<Rightarrow> nativeTableState \<Rightarrow> string \<Rightarrow> bool" where
  "readyPublicStateMatchesLatestSnapshot env table latestEventHash =
     (case (ts_PublicState table, ts_LatestSnapshot table) of
        (Some public, Some latest) \<Rightarrow>
          ts_ActiveHand table = None \<and> TrimSpace (tc_Status (ts_Config table)) = ''ready''
          \<and> comparablePublicState public = comparablePublicState
              ((publicStateFromSnapshot [] env table latest)\<lparr>pu_LatestEventHash := VString latestEventHash\<rparr>)
      | _ \<Rightarrow> False)"

definition trimmed :: "goval \<Rightarrow> string" where
  "trimmed v = TrimSpace (stringValue v)"

definition check_snapshot_anchor ::
    "nativeTableState \<Rightarrow> nativeAcceptedEventHistory \<Rightarrow> NativeCooperativeTableSnapshot option
     \<Rightarrow> NativeCooperativeTableSnapshot \<Rightarrow> unit res" where
  "check_snapshot_anchor table history previous s =
     bind_res (validateAcceptedEventAnchor (sn_LatestEventHash s) history) (\<lambda>_.
     case findCheckpointAnchorEventByCheckpoint (ts_Events table) (snapshotHash s) of
       Some anchorEvent \<Rightarrow> fail_if (trimmed (sn_LatestEventHash s) \<noteq> trimmed (ev_PrevEventHash anchorEvent))
         ''snapshot %d latest event hash does not match its %s anchor''
     | None \<Rightarrow>
        if sn_HandNumber s = 0 \<and> stringValue (sn_HandID s) = []
        then (case findEventByType (ts_Events table) ''TableReady'' of
            None \<Rightarrow> Inl (Err ''snapshot %d is missing its table-ready event anchor'')
          | Some readyEvent \<Rightarrow> fail_if (trimmed (sn_LatestEventHash s) \<noteq> trimmed (ev_PrevEventHash readyEvent))
              ''snapshot %d latest event hash does not match its table-ready anchor'')
        else case previous of
            None \<Rightarrow> Inl (Err ''snapshot %d is not anchored by accepted event history'')
          | Some p \<Rightarrow>
              if comparableSnapshotForRollbackAnchor s \<noteq> comparableSnapshotForRollbackAnchor p
              then Inl (Err ''snapshot %d is not anchored by accepted event history'')
              else fail_if (trimmed (sn_LatestEventHash s) \<noteq> trimmed (sn_LatestEventHash p))
                ''snapshot %d latest event hash does not match its rollback anchor'')"

fun check_snapshot_anchors ::
    "nativeTableState \<Rightarrow> nativeAcceptedEventHistory \<Rightarrow> NativeCooperativeTableSnapshot option
     \<Rightarrow> NativeCooperativeTableSnapshot list \<Rightarrow> unit res" where
  "check_snapshot_anchors table history previous [] = Inr ()"
| "check_snapshot_anchors table history previous (s # snapshots) =
     bind_res (check_snapshot_anchor table history previous s) (\<lambda>_.
       check_snapshot_anchors table history (Some s) snapshots)"

definition check_public_anchor :: "nativeTableState \<Rightarrow> nativeAcceptedEventHistory \<Rightarrow> unit res" where
  "check_public_anchor table history =
     (case ts_PublicState table of
        None \<Rightarrow> Inr ()
      | Some public \<Rightarrow> first_error
          [validateAcceptedEventAnchor (pu_LatestEventHash public) history,
           fail_if (ts_ActiveHand table \<noteq> None \<and> trimmed (pu_LatestEventHash public) \<noteq> eh_LastHash history)
             ''active hand public state latest event hash does not match accepted event history''])"

definition check_latest_anchor :: "mesh_env \<Rightarrow> nativeTableState \<Rightarrow> nativeAcceptedEventHistory \<Rightarrow> unit res" where
  "check_latest_anchor env table history =
     (case (ts_ActiveHand table, ts_PublicState table, ts_LatestSnapshot table) of
        (None, Some public, Some latest) \<Rightarrow>
          if sn_HandNumber latest = 0 \<and> stringValue (sn_HandID latest) = []
          then fail_if (trimmed (pu_LatestEventHash public) \<noteq> eh_LastHash history)
            ''ready public state latest event hash does not match accepted event history''
          else if readyPublicStateMatchesLatestSnapshot env table (eh_LastHash history) then Inr ()
          else fail_if (trimmed (pu_LatestEventHash public) \<noteq> trimmed (sn_LatestEventHash latest))
            ''public state latest event hash does not match latest snapshot''
      | _ \<Rightarrow> Inr ())"

definition validateAcceptedEventAnchors :: "mesh_env \<Rightarrow> nativeTableState \<Rightarrow> nativeAcceptedEventHistory \<Rightarrow> unit res" where
  "validateAcceptedEventAnchors env table history =
     bind_res (check_public_anchor table history) (\<lambda>_.
     bind_res (check_snapshot_anchors table history None (ts_Snapshots table)) (\<lambda>_.
     check_latest_anchor env table history))"

section \<open>The custody chain and the transcript\<close>

definition transcriptExtends :: "HandTranscript \<Rightarrow> HandTranscript \<Rightarrow> bool" where
  "transcriptExtends pre full \<longleftrightarrow>
     ht_TableID pre = ht_TableID full \<and> ht_HandID pre = ht_HandID full \<and> ht_HandNumber pre = ht_HandNumber full
     \<and> length (ht_Records pre) \<le> length (ht_Records full)
     \<and> list_all (\<lambda>index. ht_Records pre ! index = ht_Records full ! index) [0..<length (ht_Records pre)]"

definition validateAcceptedActiveHandTranscriptHistory :: "nativeTableState option \<Rightarrow> nativeTableState \<Rightarrow> unit res" where
  "validateAcceptedActiveHandTranscriptHistory existing incoming =
     (case (existing, ts_ActiveHand incoming) of
        (Some table, Some new_hand) \<Rightarrow>
          (case ts_ActiveHand table of
             None \<Rightarrow> Inr ()
           | Some old_hand \<Rightarrow>
               if st_HandID (ah_State old_hand) \<noteq> st_HandID (ah_State new_hand)
                 \<or> st_HandNumber (ah_State old_hand) \<noteq> st_HandNumber (ah_State new_hand)
               then Inr ()
               else if transcriptExtends (hand_transcript old_hand) (hand_transcript new_hand) then Inr ()
               else if transcriptExtends (hand_transcript new_hand) (hand_transcript old_hand)
               then Inl (Err ''accepted active hand transcript would roll back'')
               else Inl (Err ''accepted active hand transcript was rewritten''))
      | _ \<Rightarrow> Inr ())"

type_synonym transition_check = "nativeTableState \<Rightarrow> CustodyState option \<Rightarrow> CustodyTransition \<Rightarrow> unit res"

fun check_custody_chain ::
    "(TxTreeNode \<Rightarrow> json) \<Rightarrow> transition_check \<Rightarrow> nativeTableState \<Rightarrow> CustodyState option \<Rightarrow> CustodyTransition list
     \<Rightarrow> CustodyState option res" where
  "check_custody_chain node_json check_proof incoming previous [] = Inr previous"
| "check_custody_chain node_json check_proof incoming previous (transition # transitions) =
     bind_res (wrap_err ''custody transition %d is invalid: %w'' (ValidateTransition node_json previous transition)) (\<lambda>_.
     bind_res (wrap_err ''custody transition %d proof is invalid: %w'' (check_proof incoming previous transition)) (\<lambda>_.
     check_custody_chain node_json check_proof incoming (Some (ct_NextState transition)) transitions))"

definition same_prefix :: "('a \<Rightarrow> 'b) \<Rightarrow> string \<Rightarrow> 'a list \<Rightarrow> 'a list \<Rightarrow> unit res" where
  "same_prefix comparable msg old new =
     first_error (map (\<lambda>index. fail_if (comparable (old ! index) \<noteq> comparable (new ! index)) msg) [0..<length old])"

definition validateAcceptedCustodyHistory ::
    "(TxTreeNode \<Rightarrow> json) \<Rightarrow> transition_check \<Rightarrow> nativeTableState option \<Rightarrow> nativeTableState \<Rightarrow> unit res" where
  "validateAcceptedCustodyHistory node_json check_proof existing incoming =
     (if ts_CustodyTransitions incoming = []
      then fail_if (ts_LatestCustodyState incoming \<noteq> None) ''latest custody state is not anchored by custody history''
      else bind_res (check_custody_chain node_json check_proof incoming None (ts_CustodyTransitions incoming)) (\<lambda>previous.
        if ts_LatestCustodyState incoming = None
        then Inl (Err ''latest custody state is missing from accepted custody history'')
        else if previous \<noteq> None \<and> ts_LatestCustodyState incoming \<noteq> previous
        then Inl (Err ''latest custody state does not match accepted custody history'')
        else case existing of
            None \<Rightarrow> Inr ()
          | Some table \<Rightarrow>
              if length (ts_CustodyTransitions incoming) < length (ts_CustodyTransitions table)
              then Inl (Err ''accepted history would roll back custody transitions'')
              else same_prefix acceptedCustodyTransitionComparable ''historical custody transition %d was rewritten''
                (ts_CustodyTransitions table) (ts_CustodyTransitions incoming)))"

section \<open>The ledger\<close>

record ledger_checks =
  lc_transition :: transition_check
  lc_funds :: "nativeTableState \<Rightarrow> NativeSignedTableEvent \<Rightarrow> unit res"

definition check_initiator ::
    "('sk, 'pk) secp256k1 \<Rightarrow> ledger_checks \<Rightarrow> nativeTableState \<Rightarrow> NativeSignedTableEvent \<Rightarrow> unit res" where
  "check_initiator curve checks table event =
     (if event_type event = ''PlayerAction'' then check_player_action curve table event
      else if event_type event = ''CashOut'' \<or> event_type event = ''EmergencyExit'' then lc_funds checks table event
      else Inr ())"

definition validateAcceptedInitiatorHistory ::
    "('sk, 'pk) secp256k1 \<Rightarrow> ledger_checks \<Rightarrow> nativeTableState \<Rightarrow> unit res" where
  "validateAcceptedInitiatorHistory curve checks table = first_error (map (check_initiator curve checks table) (ts_Events table))"

definition validateAcceptedHistoricalLedger ::
    "(TxTreeNode \<Rightarrow> json) \<Rightarrow> ('sk, 'pk) secp256k1 \<Rightarrow> mesh_env \<Rightarrow> ledger_checks \<Rightarrow> nativeTableState option \<Rightarrow> nativeTableState \<Rightarrow> unit res" where
  "validateAcceptedHistoricalLedger node_json curve env checks existing incoming =
     bind_res (acceptedEventHistory curve incoming) (\<lambda>history.
     bind_res (validateAcceptedCustodyHistory node_json (lc_transition checks) existing incoming) (\<lambda>_.
     bind_res (validateAcceptedInitiatorHistory curve checks incoming) (\<lambda>_.
     bind_res (validateAcceptedSnapshotHistory curve incoming) (\<lambda>_.
     bind_res (validateAcceptedEventAnchors env incoming history) (\<lambda>_.
     bind_res (validateAcceptedActiveHandTranscriptHistory existing incoming) (\<lambda>_.
     case existing of
       None \<Rightarrow> Inr ()
     | Some table \<Rightarrow>
        if length (ts_Events incoming) < length (ts_Events table)
        then Inl (Err ''accepted history would roll back table events'')
        else if length (ts_Snapshots incoming) < length (ts_Snapshots table)
        then Inl (Err ''accepted history would roll back table snapshots'')
        else bind_res (same_prefix comparableSignedEvent ''historical event %d was rewritten''
              (ts_Events table) (ts_Events incoming)) (\<lambda>_.
          same_prefix comparableSnapshotForHistory ''historical snapshot %d was rewritten''
            (ts_Snapshots table) (ts_Snapshots incoming))))))))"

section \<open>What an accepted ledger keeps\<close>

lemma same_prefix_ok:
  assumes "length old \<le> length new"
  shows "same_prefix comparable msg old new = Inr () \<longleftrightarrow> prefix (map comparable old) (map comparable new)"
proof -
  have "same_prefix comparable msg old new = Inr () \<longleftrightarrow> (\<forall>i < length old. comparable (old ! i) = comparable (new ! i))"
    by (auto simp: same_prefix_def)
  also have "\<dots> \<longleftrightarrow> map comparable old = take (length old) (map comparable new)"
    using assms by (auto simp: list_eq_iff_nth_eq)
  also have "\<dots> \<longleftrightarrow> prefix (map comparable old) (map comparable new)"
    by (metis append_eq_conv_conj length_map prefix_def)
  finally show ?thesis .
qed

lemma same_prefix_refl [simp]: "same_prefix comparable msg xs xs = Inr ()"
  by (simp add: same_prefix_ok)

lemma custody_history_kept:
  assumes "validateAcceptedCustodyHistory node_json check_proof (Some old) new = Inr ()"
  shows "ts_CustodyTransitions new = [] \<and> ts_LatestCustodyState new = None
    \<or> prefix (map acceptedCustodyTransitionComparable (ts_CustodyTransitions old))
        (map acceptedCustodyTransitionComparable (ts_CustodyTransitions new))
      \<and> ts_LatestCustodyState new = Some (ct_NextState (last (ts_CustodyTransitions new)))"
proof (cases "ts_CustodyTransitions new = []")
  case True
  with assms show ?thesis by (simp add: validateAcceptedCustodyHistory_def)
next
  case False
  have last_state: "transitions \<noteq> [] \<Longrightarrow> check_custody_chain node_json check_proof new previous transitions = Inr s
      \<Longrightarrow> s = Some (ct_NextState (last transitions))" for transitions previous s
  proof (induction transitions arbitrary: previous)
    case (Cons t ts)
    then show ?case by (cases ts) (auto simp: bind_res_ok)
  qed simp
  from False assms obtain s where "check_custody_chain node_json check_proof new None (ts_CustodyTransitions new) = Inr s"
      "ts_LatestCustodyState new = s" "length (ts_CustodyTransitions old) \<le> length (ts_CustodyTransitions new)"
      "same_prefix acceptedCustodyTransitionComparable ''historical custody transition %d was rewritten''
        (ts_CustodyTransitions old) (ts_CustodyTransitions new) = Inr ()"
    using last_state [OF False, of None]
    by (auto simp: validateAcceptedCustodyHistory_def bind_res_ok not_less split: if_splits)
  then show ?thesis using same_prefix_ok last_state [OF False] by metis
qed

lemma ledger_kept:
  assumes "validateAcceptedHistoricalLedger node_json curve env checks (Some old) new = Inr ()"
  shows "prefix (map comparableSignedEvent (ts_Events old)) (map comparableSignedEvent (ts_Events new))"
    and "prefix (map comparableSnapshotForHistory (ts_Snapshots old)) (map comparableSnapshotForHistory (ts_Snapshots new))"
    and "ts_CustodyTransitions new = [] \<and> ts_LatestCustodyState new = None
      \<or> prefix (map acceptedCustodyTransitionComparable (ts_CustodyTransitions old))
          (map acceptedCustodyTransitionComparable (ts_CustodyTransitions new))
        \<and> ts_LatestCustodyState new = Some (ct_NextState (last (ts_CustodyTransitions new)))"
    and "\<exists>history. acceptedEventHistory curve new = Inr history"
proof -
  have *: "\<not> length (ts_Events new) < length (ts_Events old)" "\<not> length (ts_Snapshots new) < length (ts_Snapshots old)"
      "same_prefix comparableSignedEvent ''historical event %d was rewritten'' (ts_Events old) (ts_Events new) = Inr ()"
      "same_prefix comparableSnapshotForHistory ''historical snapshot %d was rewritten'' (ts_Snapshots old) (ts_Snapshots new) = Inr ()"
      "validateAcceptedCustodyHistory node_json (lc_transition checks) (Some old) new = Inr ()"
      and history: "\<exists>history. acceptedEventHistory curve new = Inr history"
    using assms by (auto simp: validateAcceptedHistoricalLedger_def bind_res_ok split: if_splits)
  from same_prefix_ok [of "ts_Events old" "ts_Events new" comparableSignedEvent] *(1,3)
  show "prefix (map comparableSignedEvent (ts_Events old)) (map comparableSignedEvent (ts_Events new))" by simp
  from same_prefix_ok [of "ts_Snapshots old" "ts_Snapshots new" comparableSnapshotForHistory] *(2,4)
  show "prefix (map comparableSnapshotForHistory (ts_Snapshots old)) (map comparableSnapshotForHistory (ts_Snapshots new))" by simp
  show "ts_CustodyTransitions new = [] \<and> ts_LatestCustodyState new = None
      \<or> prefix (map acceptedCustodyTransitionComparable (ts_CustodyTransitions old))
          (map acceptedCustodyTransitionComparable (ts_CustodyTransitions new))
        \<and> ts_LatestCustodyState new = Some (ct_NextState (last (ts_CustodyTransitions new)))"
    by (rule custody_history_kept [OF *(5)])
  show "\<exists>history. acceptedEventHistory curve new = Inr history" by (rule history)
qed

text \<open>A table that a peer may send in place of another: the same, without its custody chain.\<close>

definition without_custody :: "nativeTableState \<Rightarrow> nativeTableState" where
  "without_custody table = table\<lparr>ts_CustodyTransitions := [], ts_LatestCustodyState := None\<rparr>"

lemma without_custody_fields [simp]:
  "ts_Events (without_custody table) = ts_Events table" "ts_Snapshots (without_custody table) = ts_Snapshots table"
  "ts_ActiveHand (without_custody table) = ts_ActiveHand table" "ts_Config (without_custody table) = ts_Config table"
  "ts_PublicState (without_custody table) = ts_PublicState table" "ts_LatestSnapshot (without_custody table) = ts_LatestSnapshot table"
  "ts_LatestFullySignedSnapshot (without_custody table) = ts_LatestFullySignedSnapshot table"
  "ts_LastEventHash (without_custody table) = ts_LastEventHash table" "ts_CurrentEpoch (without_custody table) = ts_CurrentEpoch table"
  "ts_CurrentHost (without_custody table) = ts_CurrentHost table" "ts_Seats (without_custody table) = ts_Seats table"
  "ts_Witnesses (without_custody table) = ts_Witnesses table" "ts_PendingTurnMenu (without_custody table) = ts_PendingTurnMenu table"
  "ts_PendingTurnChallenge (without_custody table) = ts_PendingTurnChallenge table"
  by (simp_all add: without_custody_def)

lemma check_events_only_config: "check_events curve (without_custody table) i history events = check_events curve table i history events"
  by (rule check_events_config) (simp add: without_custody_def)

lemma without_custody_checks:
  "acceptedEventHistory curve (without_custody table) = acceptedEventHistory curve table"
  "check_snapshots curve (without_custody table) p seen snapshots = check_snapshots curve table p seen snapshots"
  "check_snapshot_anchors (without_custody table) history previous snapshots = check_snapshot_anchors table history previous snapshots"
proof -
  show "acceptedEventHistory curve (without_custody table) = acceptedEventHistory curve table"
    unfolding acceptedEventHistory_def check_events_only_config by simp
  show "check_snapshots curve (without_custody table) p seen snapshots = check_snapshots curve table p seen snapshots"
    by (induction snapshots arbitrary: p seen) (simp_all add: check_snapshot_def)
  show "check_snapshot_anchors (without_custody table) history previous snapshots = check_snapshot_anchors table history previous snapshots"
  proof (induction snapshots arbitrary: previous)
    case (Cons s snapshots)
    have "check_snapshot_anchor (without_custody table) history previous s = check_snapshot_anchor table history previous s"
      unfolding check_snapshot_anchor_def without_custody_fields ..
    with Cons show ?case by simp
  qed simp
qed

lemma without_custody_anchors:
  "validateAcceptedSnapshotHistory curve (without_custody table) = validateAcceptedSnapshotHistory curve table"
  "validateAcceptedEventAnchors env (without_custody table) history = validateAcceptedEventAnchors env table history"
proof -
  show "validateAcceptedSnapshotHistory curve (without_custody table) = validateAcceptedSnapshotHistory curve table"
    unfolding validateAcceptedSnapshotHistory_def without_custody_checks without_custody_fields ..
  have "publicStateFromSnapshot i env (without_custody table) s = publicStateFromSnapshot i env table s" for i s
    by (simp add: publicStateFromSnapshot_def)
  then have ready: "readyPublicStateMatchesLatestSnapshot env (without_custody table) h
      = readyPublicStateMatchesLatestSnapshot env table h" for h
    unfolding readyPublicStateMatchesLatestSnapshot_def without_custody_fields by presburger
  show "validateAcceptedEventAnchors env (without_custody table) history = validateAcceptedEventAnchors env table history"
    unfolding validateAcceptedEventAnchors_def without_custody_checks check_latest_anchor_def check_public_anchor_def
      without_custody_fields ready ..
qed

text \<open>No player has acted and nobody has cashed out: the log has no event whose initiator is checked.\<close>

definition no_initiators :: "nativeTableState \<Rightarrow> bool" where
  "no_initiators table \<longleftrightarrow> (\<forall>event \<in> set (ts_Events table). event_type event \<notin> {''PlayerAction'', ''CashOut'', ''EmergencyExit''})"

lemma transcript_extends_refl [simp]: "transcriptExtends t t"
  by (simp add: transcriptExtends_def list_all_iff)

lemma ledger_without_custody:
  assumes "validateAcceptedHistoricalLedger node_json curve env checks None table = Inr ()" "no_initiators table"
  shows "validateAcceptedHistoricalLedger node_json curve env checks (Some table) (without_custody table) = Inr ()"
proof -
  have "validateAcceptedCustodyHistory node_json check (Some table) (without_custody table) = Inr ()" for check
    by (simp add: validateAcceptedCustodyHistory_def without_custody_def)
  moreover have "validateAcceptedInitiatorHistory curve checks (without_custody table) = Inr ()"
    using assms(2) by (auto simp: validateAcceptedInitiatorHistory_def first_error_ok check_initiator_def no_initiators_def)
  moreover have "validateAcceptedActiveHandTranscriptHistory (Some table) (without_custody table) = Inr ()"
    by (simp add: validateAcceptedActiveHandTranscriptHistory_def split: option.split)
  ultimately show ?thesis
    using assms(1) by (auto simp: validateAcceptedHistoricalLedger_def without_custody_checks without_custody_anchors bind_res_ok)
qed

end
