(* ===== verification/Hand_Acceptance.thy ===== *)
theory Hand_Acceptance
  imports Table_Ledger
begin

text \<open>
  The hand in progress of a table received from a peer, from \<open>internal/meshruntime/hand.go\<close>: the copy of it a daemon
  makes its own, and the checks of its transcript, record by record, against the commitments, the replayed deck and
  the shares. The deadline is the daemon's own, by its clock.
\<close>

section \<open>Public roots\<close>

definition publicTranscriptRoot :: "nativeTableState \<Rightarrow> string" where
  "publicTranscriptRoot table =
     (case ts_PublicState table of
        None \<Rightarrow> []
      | Some public \<Rightarrow> (case pu_DealerCommitment public of None \<Rightarrow> [] | Some c \<Rightarrow> TrimSpace (dc_RootHash c)))"

definition nativeDealerMode :: string where
  "nativeDealerMode = ''dealerless-transcript-v1''"

definition normalizePublicTranscriptRoot :: "nativeTableState \<Rightarrow> nativeTableState" where
  "normalizePublicTranscriptRoot table =
     (case (ts_PublicState table, ts_ActiveHand table) of
        (Some public, Some hand) \<Rightarrow>
          (let rootHash = TrimSpace (handTranscriptRoot table);
               commitment = (if rootHash = [] then None
                 else Some \<lparr>dc_CommittedAt = (case pu_DealerCommitment public of None \<Rightarrow> [] | Some c \<Rightarrow> dc_CommittedAt c),
                   dc_Mode = nativeDealerMode, dc_RootHash = rootHash\<rparr>) in
           table\<lparr>ts_PublicState := Some (public\<lparr>pu_DealerCommitment := commitment\<rparr>)\<rparr>)
      | _ \<Rightarrow> table)"

definition validateSnapshotTranscriptRoot ::
    "NativeCooperativeTableSnapshot option \<Rightarrow> string \<Rightarrow> string \<Rightarrow> unit res" where
  "validateSnapshotTranscriptRoot snapshot handID rootHash =
     (case snapshot of
        None \<Rightarrow> Inr ()
      | Some s \<Rightarrow>
          if stringValue (sn_HandID s) \<noteq> handID then Inr ()
          else
            (let snapshotRoot = TrimSpace (stringValue (sn_DealerCommitmentRoot s)) in
             if rootHash = [] then fail_if (snapshotRoot \<noteq> []) ''snapshot transcript root unexpectedly set for hand %s''
             else fail_if (snapshotRoot \<noteq> [] \<and> snapshotRoot \<noteq> rootHash)
               ''snapshot transcript root mismatch for hand %s''))"

section \<open>The records of a transcript\<close>

definition check_record_seat :: "nativeTableState \<Rightarrow> HandTranscriptRecord \<Rightarrow> unit res" where
  "check_record_seat table r =
     (case hr_SeatIndex r of
        None \<Rightarrow> Inr ()
      | Some seatIndex \<Rightarrow>
         (case seatRecordByIndex table seatIndex of
            None \<Rightarrow> Inl (Err ''hand transcript references unknown seat %d'')
          | Some seat \<Rightarrow> fail_if (hr_PlayerID r \<noteq> [] \<and> hr_PlayerID r \<noteq> se_PlayerID seat)
              ''hand transcript player mismatch for seat %d''))"

definition check_record_fields :: "HandTranscriptRecord \<Rightarrow> unit res" where
  "check_record_fields r =
     (if hr_Kind r \<in> {nativeHandMessageFairnessCommit, nativeHandMessageFairnessReveal, nativeHandMessageBoardShare,
          nativeHandMessageShowdownReveal}
      then fail_if (hr_SeatIndex r = None) ''hand transcript %s is missing seat index''
      else if hr_Kind r = nativeHandMessagePrivateDelivery
      then fail_if (hr_SeatIndex r = None \<or> hr_RecipientSeatIndex r = None)
        ''hand transcript private delivery share is missing seat indexes''
      else if hr_Kind r = nativeHandMessageBoardOpen
      then fail_if (hr_Cards r = []) ''hand transcript board open is missing cards''
      else Inr ())"

text \<open>The key a record is told apart by, \<open>None\<close> for a kind that may repeat. The seats a kind needs are there.\<close>

definition seen_key :: "HandTranscriptRecord \<Rightarrow> string option" where
  "seen_key r =
     (let kind = hr_Kind r; seat = itoa (the (hr_SeatIndex r)) in
      if kind = nativeHandMessageFairnessCommit \<or> kind = nativeHandMessageFairnessReveal
        \<or> kind = nativeHandMessageShowdownReveal
      then Some (kind @ '':'' @ seat)
      else if kind = nativeHandMessagePrivateDelivery
      then Some (kind @ '':'' @ seat @ '':'' @ itoa (the (hr_RecipientSeatIndex r)))
      else if kind = nativeHandMessageBoardShare then Some (kind @ '':'' @ hr_Phase r @ '':'' @ seat)
      else if kind = nativeHandMessageBoardOpen \<or> kind = nativeHandMessageFinalization
      then Some (kind @ '':'' @ hr_Phase r)
      else None)"

definition duplicate_message :: "HandTranscriptRecord \<Rightarrow> string" where
  "duplicate_message r =
     (let kind = hr_Kind r in
      if kind = nativeHandMessageFairnessCommit then ''duplicate fairness commit for seat %d''
      else if kind = nativeHandMessageFairnessReveal then ''duplicate fairness reveal for seat %d''
      else if kind = nativeHandMessagePrivateDelivery then ''duplicate private delivery share for seat %d''
      else if kind = nativeHandMessageBoardShare then ''duplicate board share for seat %d during %s''
      else if kind = nativeHandMessageBoardOpen then ''duplicate board open during %s''
      else if kind = nativeHandMessageShowdownReveal then ''duplicate showdown reveal for seat %d''
      else ''duplicate finalization record'')"

fun check_transcript_records :: "nativeTableState \<Rightarrow> string list \<Rightarrow> HandTranscriptRecord list \<Rightarrow> unit res" where
  "check_transcript_records table seenKeys [] = Inr ()"
| "check_transcript_records table seenKeys (r # records) =
     bind_res (first_error
       [validateTranscriptRecordPlaintext r, check_record_seat table r, check_record_fields r,
        (case seen_key r of None \<Rightarrow> Inr () | Some key \<Rightarrow> fail_if (key \<in> set seenKeys) (duplicate_message r)),
        fail_if (hr_Kind r = nativeHandMessageFairnessCommit \<and> TrimSpace (hr_CommitmentHash r) = [])
          ''fairness commit for seat %d is missing commitment hash'']) (\<lambda>_.
     check_transcript_records table (case seen_key r of None \<Rightarrow> seenKeys | Some key \<Rightarrow> key # seenKeys) records)"

section \<open>Commitments and reveals\<close>

definition check_seat_fairness :: "nativeTableState \<Rightarrow> nativeActiveHand \<Rightarrow> nativeSeatRecord \<Rightarrow> unit res" where
  "check_seat_fairness table hand seat =
     (let commit = findTranscriptRecord (hand_transcript hand) nativeHandMessageFairnessCommit (Some (se_SeatIndex seat))
            (street_str StreetCommitment) None in
      if (case commit of None \<Rightarrow> False | Some c \<Rightarrow> TrimSpace (hr_CommitmentHash c) = [])
      then Inl (Err ''fairness commit for seat %d is missing commitment hash'')
      else case fairnessRevealForSeat (Some hand) (se_SeatIndex seat) of
          None \<Rightarrow> Inr ()
        | Some reveal \<Rightarrow>
           (case commit of
              None \<Rightarrow> Inl (Err ''missing fairness commit for reveal seat %d'')
            | Some c \<Rightarrow>
                bind_res (wrap_err ''invalid fairness reveal for seat %d: %w''
                  (VerifyFairnessReveal (tc_TableID (ts_Config table)) (st_HandNumber (ah_State hand)) (se_SeatIndex seat)
                    (se_PlayerID seat) (street_str StreetCommitment) (hr_CommitmentHash c) (hr_ShuffleSeedHex reveal)
                    (hr_LockPublicExponentHex reveal))) (\<lambda>_.
                case lower_reveals hand seat (reveal_of (se_PlayerID seat) (se_SeatIndex seat) reveal) (ts_Seats table) of
                  None \<Rightarrow> Inl (Err ''missing lower-seat reveal for seat %d'')
                | Some reveals \<Rightarrow>
                    bind_res (ReplayMentalDeck reveals) (\<lambda>replay.
                    fail_if (\<not> sameStrings (stage_of_seat replay (se_SeatIndex seat)) (hr_DeckStage reveal)
                        \<or> stage_root_of_seat replay (se_SeatIndex seat) \<noteq> hr_DeckStageRoot reveal)
                      ''reveal stage mismatch for seat %d''))))"

text \<open>With all reveals present: the finalization record is the replayed deck, and so is the deck of the table, which
  is filled in when it is empty.\<close>

definition check_final_deck :: "nativeTableState \<Rightarrow> nativeActiveHand \<Rightarrow> string list res" where
  "check_final_deck table hand =
     bind_res (buildMentalReplay table) (\<lambda>replay.
     case findTranscriptRecord (hand_transcript hand) nativeHandMessageFinalization None (street_str StreetFinalization) None of
       None \<Rightarrow> Inl (Err ''missing finalization transcript record'')
     | Some finalization \<Rightarrow>
         bind_res (MentalDeckStageRoot (md_FinalDeck replay)) (\<lambda>finalDeckRoot.
         if \<not> sameStrings (hr_DeckStage finalization) (md_FinalDeck replay) \<or> hr_DeckStageRoot finalization \<noteq> finalDeckRoot
         then Inl (Err ''finalization record does not match replayed deck'')
         else if hd_FinalDeck (ah_Cards hand) = [] then Inr (md_FinalDeck replay)
         else if \<not> sameStrings (hd_FinalDeck (ah_Cards hand)) (md_FinalDeck replay)
         then Inl (Err ''active hand final deck does not match replayed transcript deck'')
         else Inr (hd_FinalDeck (ah_Cards hand))))"

section \<open>Shares, openings and reveals of cards\<close>

definition check_share_record ::
    "nativeTableState \<Rightarrow> nativeActiveHand \<Rightarrow> Street \<Rightarrow> int \<Rightarrow> string \<Rightarrow> string \<Rightarrow> HandTranscriptRecord \<Rightarrow> unit res" where
  "check_share_record table hand phase cardSeat positions_msg share_msg r =
     bind_res (requiredCardPositionsForPhase table phase cardSeat) (\<lambda>expectedPositions.
     if \<not> sameInts (hr_CardPositions r) expectedPositions then Inl (Err positions_msg)
     else wrap_err share_msg (verifyPartialCiphertexts (hd_FinalDeck (ah_Cards hand)) (hr_CardPositions r)
       (hr_PartialCiphertexts r) (the (hr_SeatIndex r)) (Some hand)))"

definition check_card_record :: "nativeTableState \<Rightarrow> nativeActiveHand \<Rightarrow> HandTranscriptRecord \<Rightarrow> unit res" where
  "check_card_record table hand r =
     (if hr_Kind r = nativeHandMessagePrivateDelivery
      then check_share_record table hand StreetPrivateDelivery (the (hr_RecipientSeatIndex r))
        ''private delivery positions do not match hand plan'' ''invalid private delivery share for seat %d: %w'' r
      else if hr_Kind r = nativeHandMessageBoardShare
      then check_share_record table hand (street_of (hr_Phase r)) (the (hr_SeatIndex r))
        ''board share positions do not match hand plan'' ''invalid board share for seat %d: %w'' r
      else if hr_Kind r = nativeHandMessageBoardOpen
      then wrap_err ''invalid board open for %s: %w'' (verifyBoardOpen (Some hand) (hr_Phase r) (handMessageCards (hr_Cards r)))
      else if hr_Kind r = nativeHandMessageShowdownReveal
      then wrap_err ''invalid showdown reveal for seat %d: %w''
        (verifyShowdownReveal (Some hand) (the (hr_SeatIndex r)) (handMessageCards (hr_Cards r)))
      else Inr ())"

definition check_transcript_ids :: "nativeTableState \<Rightarrow> nativeActiveHand \<Rightarrow> unit res" where
  "check_transcript_ids table hand =
     (let transcript = hand_transcript hand in
      if ht_TableID transcript \<noteq> tc_TableID (ts_Config table) then Inl (Err ''hand transcript table mismatch'')
      else if ht_HandID transcript \<noteq> st_HandID (ah_State hand) then Inl (Err ''hand transcript hand mismatch'')
      else if ht_HandNumber transcript \<noteq> st_HandNumber (ah_State hand)
      then Inl (Err ''hand transcript hand number mismatch'')
      else bind_res (wrap_err ''invalid hand transcript: %w'' (ReplayTranscriptRoot transcript)) (\<lambda>replayedRoot.
        first_error
          [fail_if (replayedRoot \<noteq> ht_RootHash transcript) ''hand transcript root mismatch'',
           fail_if (publicTranscriptRoot table \<noteq> [] \<and> publicTranscriptRoot table \<noteq> replayedRoot)
             ''public transcript root mismatch'',
           validateSnapshotTranscriptRoot (ts_LatestSnapshot table) (ht_HandID transcript) replayedRoot,
           validateSnapshotTranscriptRoot (ts_LatestFullySignedSnapshot table) (ht_HandID transcript) replayedRoot]))"

text \<open>\<open>validateAcceptedHandTranscript\<close>, with the table it leaves to its caller.\<close>

definition validateAcceptedHandTranscript :: "nativeTableState \<Rightarrow> nativeTableState res" where
  "validateAcceptedHandTranscript table =
     (case ts_ActiveHand table of
        None \<Rightarrow> Inr table
      | Some hand \<Rightarrow>
         (let transcript = hand_transcript hand; phase = st_Phase (ah_State hand);
              allRevealsPresent = (length (transcriptRecordsByKind transcript nativeHandMessageFairnessReveal
                (street_str StreetReveal)) = length (ts_Seats table));
              abortedHand = (acceptedAbortSeatIndex table \<noteq> None) in
          bind_res (check_transcript_ids table hand) (\<lambda>_.
          bind_res (check_transcript_records table [] (ht_Records transcript)) (\<lambda>_.
          bind_res (first_error (map (check_seat_fairness table hand) (ts_Seats table))) (\<lambda>_.
          if phase \<noteq> StreetCommitment \<and> phase \<noteq> StreetReveal \<and> \<not> allRevealsPresent
          then (if abortedHand \<and> phase = StreetSettled then Inr table
            else Inl (Err ''missing fairness reveals for active hand''))
          else bind_res (if allRevealsPresent then check_final_deck table hand else Inr (hd_FinalDeck (ah_Cards hand))) (\<lambda>finalDeck.
            (let hand' = hand\<lparr>ah_Cards := (ah_Cards hand)\<lparr>hd_FinalDeck := finalDeck\<rparr>\<rparr>;
                 table' = table\<lparr>ts_ActiveHand := Some hand'\<rparr> in
             if abortedHand \<and> phase = StreetSettled then Inr table'
             else if requiresCompletedPrivateDelivery phase \<and> missingProtocolSeatIndexesForPhase table' StreetPrivateDelivery \<noteq> []
             then Inl (Err ''missing private delivery shares for active hand'')
             else bind_res (first_error (map (check_card_record table' hand') (ht_Records transcript))) (\<lambda>_. Inr table'))))))))"

section \<open>Making a received hand one's own\<close>

definition protocolPhaseTranscriptProgressed :: "nativeTableState option \<Rightarrow> nativeTableState \<Rightarrow> bool" where
  "protocolPhaseTranscriptProgressed existing incoming =
     (case (existing, ts_ActiveHand incoming) of
        (Some table, Some new_hand) \<Rightarrow>
          (case ts_ActiveHand table of
             None \<Rightarrow> False
           | Some old_hand \<Rightarrow>
               pa_PeerID (kn_Peer (ts_CurrentHost table)) = pa_PeerID (kn_Peer (ts_CurrentHost incoming))
               \<and> st_HandID (ah_State old_hand) = st_HandID (ah_State new_hand)
               \<and> st_HandNumber (ah_State old_hand) = st_HandNumber (ah_State new_hand)
               \<and> st_Phase (ah_State old_hand) = st_Phase (ah_State new_hand)
               \<and> shouldTrackProtocolDeadline (st_Phase (ah_State new_hand))
               \<and> length (ht_Records (hand_transcript new_hand)) > length (ht_Records (hand_transcript old_hand))
               \<and> transcriptExtends (hand_transcript old_hand) (hand_transcript new_hand))
      | _ \<Rightarrow> False)"

definition deriveLocalProtocolDeadline :: "mesh_env \<Rightarrow> nativeTableState option \<Rightarrow> nativeTableState \<Rightarrow> string" where
  "deriveLocalProtocolDeadline env existing incoming =
     (case ts_ActiveHand incoming of
        None \<Rightarrow> []
      | Some new_hand \<Rightarrow>
         (let fresh = me_Later env (me_Now env) (handProtocolTimeoutMSForTable env incoming) in
          if \<not> shouldTrackProtocolDeadline (st_Phase (ah_State new_hand)) then []
          else case existing of
              None \<Rightarrow> fresh
            | Some table \<Rightarrow>
               (case ts_ActiveHand table of
                  None \<Rightarrow> fresh
                | Some old_hand \<Rightarrow>
                    if pa_PeerID (kn_Peer (ts_CurrentHost table)) = pa_PeerID (kn_Peer (ts_CurrentHost incoming))
                      \<and> st_HandID (ah_State old_hand) = st_HandID (ah_State new_hand)
                      \<and> st_Phase (ah_State old_hand) = st_Phase (ah_State new_hand)
                      \<and> hd_PhaseDeadlineAt (ah_Cards old_hand) \<noteq> []
                      \<and> shouldTrackProtocolDeadline (st_Phase (ah_State old_hand))
                    then (if protocolPhaseTranscriptProgressed existing incoming then fresh
                      else hd_PhaseDeadlineAt (ah_Cards old_hand))
                    else fresh)))"

definition normalizeAcceptedActiveHand :: "mesh_env \<Rightarrow> nativeTableState option \<Rightarrow> nativeTableState \<Rightarrow> nativeTableState res" where
  "normalizeAcceptedActiveHand env existing incoming =
     (case ts_ActiveHand incoming of
        None \<Rightarrow> Inr (incoming\<lparr>ts_ActiveHandStartAt := []\<rparr>)
      | Some hand \<Rightarrow>
          bind_res (if allFairnessRevealsPresent incoming
            then bind_res (buildMentalReplay incoming) (\<lambda>replay. Inr (md_FinalDeck replay)) else Inr []) (\<lambda>finalDeck.
          (let hand1 = hand\<lparr>ah_Cards := (ah_Cards hand)\<lparr>hd_FinalDeck := finalDeck\<rparr>\<rparr>;
               deadline = deriveLocalProtocolDeadline env existing (incoming\<lparr>ts_ActiveHand := Some hand1\<rparr>);
               hand2 = hand1\<lparr>ah_Cards := (ah_Cards hand1)\<lparr>hd_PhaseDeadlineAt := deadline\<rparr>\<rparr> in
           Inr (normalizePublicTranscriptRoot (incoming\<lparr>ts_ActiveHand := Some hand2\<rparr>)))))"

end
