(* ===== verification/Table_Sync.thy ===== *)
theory Table_Sync
  imports Hand_Acceptance
begin

text \<open>
  The replication of a table between its peers, from \<open>internal/meshruntime/runtime.go\<close>: who may become the host, how a
  daemon takes over from a host that is gone, and which tables a daemon accepts from its peers. What a peer answers at
  its address (\<open>fetchPeerInfo\<close>) and whether a witness can be reached are arguments, and so is what remains of three checks
  on a hand in progress: its replay, its turn menu and its challenge.
\<close>

section \<open>Hosts\<close>

definition seatIndexForPlayer :: "daemon \<Rightarrow> nativeTableState \<Rightarrow> int" where
  "seatIndexForPlayer daemon table =
     (case find (\<lambda>seat. se_PlayerID seat = da_WalletPlayerID daemon) (ts_Seats table) of
        None \<Rightarrow> - 1 | Some seat \<Rightarrow> se_SeatIndex seat)"

abbreviation host_id :: "nativeTableState \<Rightarrow> string" where
  "host_id table \<equiv> pa_PeerID (kn_Peer (ts_CurrentHost table))"

definition isLocalTableParticipant :: "daemon \<Rightarrow> nativeTableState \<Rightarrow> bool" where
  "isLocalTableParticipant daemon table \<longleftrightarrow>
     host_id table = pa_PeerID (da_Peer daemon)
     \<or> list_ex (\<lambda>witness. pa_PeerID (kn_Peer witness) = pa_PeerID (da_Peer daemon)) (ts_Witnesses table)
     \<or> seatIndexForPlayer daemon table \<ge> 0"

definition canAcceptIncomingTableAsPreviousHost :: "daemon \<Rightarrow> nativeTableState option \<Rightarrow> nativeTableState \<Rightarrow> bool" where
  "canAcceptIncomingTableAsPreviousHost daemon existing incoming =
     (case existing of
        None \<Rightarrow> False
      | Some table \<Rightarrow> host_id table = pa_PeerID (da_Peer daemon) \<and> ts_CurrentEpoch incoming > ts_CurrentEpoch table)"

fun lowest_seat :: "nativeTableState \<Rightarrow> nativeSeatRecord option \<Rightarrow> nativeSeatRecord list \<Rightarrow> nativeSeatRecord option" where
  "lowest_seat table lowest [] = lowest"
| "lowest_seat table lowest (seat # seats) =
     (if se_PeerID seat = [] \<or> se_PeerID seat = host_id table then lowest_seat table lowest seats
      else if se_Status seat = ''pending-join'' \<or> terminalCustodySeatStatus (se_Status seat)
      then lowest_seat table lowest seats
      else if (case lowest of None \<Rightarrow> True | Some best \<Rightarrow> se_PeerID seat < se_PeerID best)
      then lowest_seat table (Some seat) seats
      else lowest_seat table lowest seats)"

definition lowestEligibleFailoverSeat :: "nativeTableState \<Rightarrow> nativeSeatRecord option" where
  "lowestEligibleFailoverSeat table = lowest_seat table None (ts_Seats table)"

definition authorizedRemoteHostPeer :: "nativeTableState option \<Rightarrow> string \<Rightarrow> NativePeerAddress option" where
  "authorizedRemoteHostPeer existing candidatePeerID =
     (case existing of
        None \<Rightarrow> None
      | Some table \<Rightarrow>
          if candidatePeerID = [] then None
          else if candidatePeerID = host_id table then Some (kn_Peer (ts_CurrentHost table))
          else case find (\<lambda>witness. pa_PeerID (kn_Peer witness) = candidatePeerID) (ts_Witnesses table) of
              Some witness \<Rightarrow> Some (kn_Peer witness)
            | None \<Rightarrow>
               (case lowestEligibleFailoverSeat table of
                  None \<Rightarrow> None
                | Some seat \<Rightarrow>
                    if candidatePeerID \<noteq> se_PeerID seat then None
                    else Some \<lparr>pa_Alias = se_Nickname seat, pa_LastSeenAt = [], pa_PeerID = se_PeerID seat,
                      pa_PeerURL = se_PeerURL seat, pa_ProtocolPubkeyHex = se_ProtocolPubkeyHex seat,
                      pa_RelayPeerID = [], pa_Roles = []\<rparr>))"

definition isAuthorizedRemoteHost :: "nativeTableState option \<Rightarrow> string \<Rightarrow> bool" where
  "isAuthorizedRemoteHost table candidatePeerID \<longleftrightarrow> authorizedRemoteHostPeer table candidatePeerID \<noteq> None"

definition validateAcceptedHostTransition ::
    "(string \<Rightarrow> NativePeerAddress res) \<Rightarrow> nativeTableState option \<Rightarrow> nativeTableState \<Rightarrow> unit res" where
  "validateAcceptedHostTransition fetchPeerInfo existing incoming =
     (case existing of
        None \<Rightarrow> Inr ()
      | Some table \<Rightarrow>
         (let host = kn_Peer (ts_CurrentHost incoming) in
          if ts_CurrentEpoch incoming = ts_CurrentEpoch table \<and> pa_PeerID host \<noteq> host_id table
          then Inl (Err ''%s changed host without advancing epoch'')
          else if ts_CurrentEpoch incoming > ts_CurrentEpoch table \<and> pa_PeerID host = host_id table
          then Inl (Err ''%s advanced epoch without rotating host'')
          else if ts_CurrentEpoch incoming > ts_CurrentEpoch table
          then (case authorizedRemoteHostPeer existing (pa_PeerID host) of
              None \<Rightarrow> Inl (Err ''%s advanced to an unauthorized host'')
            | Some expectedHost \<Rightarrow>
                if TrimSpace (pa_ProtocolPubkeyHex expectedHost) = [] \<or> TrimSpace (pa_PeerURL expectedHost) = []
                then Inl (Err ''%s advanced to host without a verifiable endpoint identity'')
                else if pa_ProtocolPubkeyHex host \<noteq> pa_ProtocolPubkeyHex expectedHost
                then Inl (Err ''%s advanced to host with unexpected protocol key'')
                else if pa_PeerURL host \<noteq> pa_PeerURL expectedHost
                then Inl (Err ''%s advanced to host with unexpected endpoint'')
                else bind_res (wrap_err ''%s host endpoint verification failed: %w'' (fetchPeerInfo (pa_PeerURL host))) (\<lambda>peerSelf.
                  first_error
                    [fail_if (pa_PeerID peerSelf \<noteq> pa_PeerID host) ''%s host endpoint peer id mismatch'',
                     fail_if (pa_ProtocolPubkeyHex peerSelf \<noteq> pa_ProtocolPubkeyHex host)
                       ''%s host endpoint protocol key mismatch'']))
          else Inr ()))"

section \<open>Taking over\<close>

definition hostFailureTimeoutMS :: "mesh_env \<Rightarrow> int" where
  "hostFailureTimeoutMS env = (if \<not> me_UseMockSettlement env then 120000 else 3500)"

text \<open>\<open>available\<close> is what \<open>failoverWitnessAvailable\<close> finds out about a witness.\<close>

definition shouldHandleFailover :: "(nativeKnownParticipant \<Rightarrow> bool) \<Rightarrow> daemon \<Rightarrow> nativeTableState \<Rightarrow> bool" where
  "shouldHandleFailover available daemon table =
     (if host_id table = pa_PeerID (da_Peer daemon) then False
      else if list_ex (\<lambda>witness. pa_PeerID (kn_Peer witness) = pa_PeerID (da_Peer daemon)) (ts_Witnesses table) then True
      else if list_ex available (ts_Witnesses table) then False
      else if seatIndexForPlayer daemon table < 0 then False
      else case lowestEligibleFailoverSeat table of
          None \<Rightarrow> False
        | Some candidate \<Rightarrow> se_PeerID candidate = pa_PeerID (da_Peer daemon))"

definition peerIDsFromParticipants :: "nativeKnownParticipant list \<Rightarrow> string list" where
  "peerIDsFromParticipants participants = map (\<lambda>participant. pa_PeerID (kn_Peer participant)) participants"

definition rotation_body :: "mesh_env \<Rightarrow> string \<Rightarrow> nativeTableState \<Rightarrow> (string, goval) gomap" where
  "rotation_body env previousHostPeerID table =
     [(''type'', VString ''HostRotated''),
      (''lease'', any_map
        [(''epoch'', Some (VInt (ts_CurrentEpoch table))),
         (''hostPeerId'', Some (VString (host_id table))),
         (''leaseExpiry'', Some (VString (me_Later env (me_Now env) (hostFailureTimeoutMS env)))),
         (''leaseStart'', Some (VString (me_Now env))),
         (''signatures'', Some (VSlice (Some []))),
         (''tableId'', Some (VString (tc_TableID (ts_Config table)))),
         (''witnessSet'', Some (VSlice (Some (map VString (peerIDsFromParticipants (ts_Witnesses table))))))]),
      (''newEpoch'', VInt (ts_CurrentEpoch table)),
      (''newHostPeerId'', VString (host_id table)),
      (''previousHostPeerId'', VString previousHostPeerID)]"

text \<open>The new host's table: \<open>rotateHostTable\<close> after its guards and up to the event of the rotation; what follows is the
  hand protocol's.\<close>

definition rotated :: "daemon \<Rightarrow> mesh_env \<Rightarrow> nativeTableState \<Rightarrow> nativeTableState" where
  "rotated daemon env table =
     (let table1 = table\<lparr>ts_CurrentEpoch := ts_CurrentEpoch table + 1,
            ts_CurrentHost := \<lparr>kn_ProfileName = da_ProfileName daemon, kn_Peer = da_Peer daemon\<rparr>,
            ts_Config := (ts_Config table)\<lparr>tc_HostPeerID := pa_PeerID (da_Peer daemon)\<rparr>,
            ts_LastHostHeartbeatAt := me_Now env\<rparr> in
      if turnMenuMatchesTable table1 (ts_PendingTurnMenu table1) then table1 else table1\<lparr>ts_PendingTurnMenu := None\<rparr>)"

definition rotate_host ::
    "('sk, 'pk) secp256k1 \<Rightarrow> (nat \<Rightarrow> string res) \<Rightarrow> (nativeKnownParticipant \<Rightarrow> bool) \<Rightarrow> daemon \<Rightarrow> mesh_env \<Rightarrow> bool \<Rightarrow> bool
     \<Rightarrow> nativeTableState \<Rightarrow> nativeTableState option res" where
  "rotate_host curve random available daemon env requireHostFailure observedHostFailure table =
     (if requireHostFailure \<and> \<not> observedHostFailure
        \<and> me_Elapsed env (ts_LastHostHeartbeatAt table) \<le> hostFailureTimeoutMS env then Inr None
      else if \<not> shouldHandleFailover available daemon table then Inr None
      else bind_res (appendEvent curve random daemon (me_Now env) (me_Now env) (rotated daemon env table)
          (rotation_body env (host_id table) (rotated daemon env table))) (\<lambda>table'. Inr (Some table')))"

section \<open>Accepting a table\<close>

record sync_checks = ledger_checks +
  ck_replay :: "nativeTableState \<Rightarrow> nativeActiveHand \<Rightarrow> unit res"
  ck_menu :: "nativeTableState \<Rightarrow> PendingTurnMenuPublic \<Rightarrow> unit res"
  ck_challenge :: "nativeTableState \<Rightarrow> NativePendingTurnChallenge \<Rightarrow> unit res"

definition validateAcceptedPublicReplay :: "sync_checks \<Rightarrow> nativeTableState \<Rightarrow> unit res" where
  "validateAcceptedPublicReplay checks table =
     (case ts_ActiveHand table of None \<Rightarrow> Inr () | Some hand \<Rightarrow> ck_replay checks table hand)"

definition validateAcceptedPendingTurnMenu :: "sync_checks \<Rightarrow> nativeTableState \<Rightarrow> unit res" where
  "validateAcceptedPendingTurnMenu checks table =
     (case ts_PendingTurnMenu table of
        None \<Rightarrow> Inr ()
      | Some menu \<Rightarrow>
          if \<not> tableHasActionableTurn table then Inr ()
          else if \<not> turnMenuMatchesTable table (Some menu)
          then Inl (Err ''pending turn menu does not match the current turn'')
          else ck_menu checks table menu)"

definition validateAcceptedPendingTurnChallenge :: "sync_checks \<Rightarrow> nativeTableState \<Rightarrow> unit res" where
  "validateAcceptedPendingTurnChallenge checks table =
     (case ts_PendingTurnChallenge table of
        None \<Rightarrow> fail_if (ts_CustodyTransitions table \<noteq> []
            \<and> ct_Kind (last (ts_CustodyTransitions table)) = TransitionKindTurnChallengeOpen)
          ''accepted turn challenge open transition is missing pending turn challenge state''
      | Some challenge \<Rightarrow>
          if \<not> turnChallengeMatchesTable table (Some challenge)
          then Inl (Err ''pending turn challenge does not match the current turn'')
          else if \<not> turnMenuMatchesTable table (ts_PendingTurnMenu table)
          then Inl (Err ''pending turn challenge requires its matching pending turn menu'')
          else ck_challenge checks table challenge)"

definition validateAcceptedTableProtocolVersion :: "nativeTableState \<Rightarrow> unit res" where
  "validateAcceptedTableProtocolVersion table = first_error
     [fail_if (TrimSpace (tc_ProtocolVersion (ts_Config table)) \<noteq> nativeProtocolVersion) ''table protocol version mismatch'',
      fail_if (case ts_Advertisement table of None \<Rightarrow> False | Some ad \<Rightarrow> TrimSpace (ad_ProtocolVersion ad) \<noteq> nativeProtocolVersion)
        ''advertisement protocol version mismatch'']"

definition stripReplicatedPendingTurnBundles :: "nativeTableState \<Rightarrow> nativeTableState" where
  "stripReplicatedPendingTurnBundles table = table\<lparr>ts_PendingTurnMenu := map_option (\<lambda>menu.
     menu\<lparr>tm_Candidates := [], tm_ChallengeEnvelope := None, tm_TimeoutCandidate := None\<rparr>) (ts_PendingTurnMenu table)\<rparr>"

definition merged_menu :: "PendingTurnMenuPublic \<Rightarrow> PendingTurnMenuPublic \<Rightarrow> PendingTurnMenuPublic" where
  "merged_menu old new =
     (let blank = (\<lambda>s. TrimSpace s = []);
          hash = (if blank (tm_SelectedCandidateHash new) \<and> \<not> blank (tm_SelectedCandidateHash old)
            then tm_SelectedCandidateHash old else tm_SelectedCandidateHash new);
          same = (firstNonEmptyString [hash, tm_SelectedCandidateHash old] = tm_SelectedCandidateHash old) in
      new\<lparr>tm_SelectedCandidateHash := hash,
        tm_SelectionAuth := (if tm_SelectionAuth new = None \<and> same then tm_SelectionAuth old else tm_SelectionAuth new),
        tm_LockedAt := (if blank (tm_LockedAt new) \<and> \<not> blank (tm_LockedAt old) then tm_LockedAt old else tm_LockedAt new),
        tm_SettlementDeadlineAt := (if blank (tm_SettlementDeadlineAt new) \<and> \<not> blank (tm_SettlementDeadlineAt old)
          then tm_SettlementDeadlineAt old else tm_SettlementDeadlineAt new),
        tm_SelectedBundle := (if tm_SelectedBundle new = None \<and> same then tm_SelectedBundle old else tm_SelectedBundle new),
        tm_SettledRequest := (if tm_SettledRequest new = None \<and> same then tm_SettledRequest old else tm_SettledRequest new)\<rparr>)"

definition mergeAcceptedPendingTurnMenu :: "nativeTableState option \<Rightarrow> nativeTableState \<Rightarrow> nativeTableState" where
  "mergeAcceptedPendingTurnMenu existing accepted =
     (case existing of
        None \<Rightarrow> accepted
      | Some table \<Rightarrow>
         (let existingValid = turnMenuMatchesTable table (ts_PendingTurnMenu table);
              incomingValid = turnMenuMatchesTable accepted (ts_PendingTurnMenu accepted);
              sameHostAndEpoch = (ts_CurrentEpoch accepted = ts_CurrentEpoch table \<and> host_id accepted = host_id table) in
          if existingValid \<and> sameHostAndEpoch \<and> ts_PendingTurnMenu accepted = None
            \<and> turnMenuMatchesTable accepted (ts_PendingTurnMenu table)
          then accepted\<lparr>ts_PendingTurnMenu := ts_PendingTurnMenu table\<rparr>
          else case (ts_PendingTurnMenu table, ts_PendingTurnMenu accepted) of
              (Some old, Some new) \<Rightarrow>
                if existingValid \<and> incomingValid \<and> tm_TurnAnchorHash old = tm_TurnAnchorHash new
                then accepted\<lparr>ts_PendingTurnMenu := Some (merged_menu old new)\<rparr>
                else accepted
            | _ \<Rightarrow> accepted))"

definition validateAcceptedRemoteTable ::
    "(TxTreeNode \<Rightarrow> json) \<Rightarrow> ('sk, 'pk) secp256k1 \<Rightarrow> mesh_env \<Rightarrow> sync_checks \<Rightarrow> (string \<Rightarrow> NativePeerAddress res) \<Rightarrow> daemon
     \<Rightarrow> nativeTableState option \<Rightarrow> nativeTableState \<Rightarrow> unit res" where
  "validateAcceptedRemoteTable node_json curve env checks fetchPeerInfo daemon existing incoming0 =
     (if \<not> isLocalTableParticipant daemon incoming0 \<and> \<not> canAcceptIncomingTableAsPreviousHost daemon existing incoming0
      then Inl (Err ''remote table does not target this daemon'')
      else bind_res (validateAcceptedTableProtocolVersion incoming0) (\<lambda>_.
        bind_res (validateAcceptedHandTranscript (stripReplicatedPendingTurnBundles incoming0)) (\<lambda>incoming.
        bind_res (validateAcceptedPublicReplay checks incoming) (\<lambda>_.
        bind_res (validateAcceptedHistoricalLedger node_json curve env (ledger_checks.truncate checks) existing incoming) (\<lambda>_.
        bind_res (case existing of
            None \<Rightarrow> Inr ()
          | Some table \<Rightarrow>
              if ts_CurrentEpoch incoming < ts_CurrentEpoch table
              then Inl (Err ''remote table would roll back table epoch'')
              else if ts_CurrentEpoch incoming = ts_CurrentEpoch table \<and> length (ts_Events incoming) < length (ts_Events table)
              then Inl (Err ''remote table would roll back table events'')
              else if ts_CurrentEpoch incoming = ts_CurrentEpoch table
                \<and> length (ts_Snapshots incoming) < length (ts_Snapshots table)
              then Inl (Err ''remote table would roll back table snapshots'')
              else validateAcceptedHostTransition fetchPeerInfo existing incoming) (\<lambda>_.
        bind_res (validateAcceptedPendingTurnMenu checks incoming) (\<lambda>_.
        validateAcceptedPendingTurnChallenge checks incoming)))))))"

text \<open>A panic on the way is caught and becomes an error.\<close>

definition recovered :: "'a res \<Rightarrow> 'a res" where
  "recovered r = (case r of Inl (Panic _) \<Rightarrow> Inl (Err ''accept remote table: %v'') | _ \<Rightarrow> r)"

text \<open>\<open>acceptRemoteTable\<close> up to the table it stores; \<open>existing\<close> is the stored one.\<close>

definition accept_remote_table ::
    "(TxTreeNode \<Rightarrow> json) \<Rightarrow> ('sk, 'pk) secp256k1 \<Rightarrow> mesh_env \<Rightarrow> sync_checks \<Rightarrow> (string \<Rightarrow> NativePeerAddress res) \<Rightarrow> daemon
     \<Rightarrow> nativeTableState option \<Rightarrow> nativeTableState \<Rightarrow> nativeTableState res" where
  "accept_remote_table node_json curve env checks fetchPeerInfo daemon existing table =
     recovered (bind_res (normalizeAcceptedActiveHand env existing (stripReplicatedPendingTurnBundles table)) (\<lambda>normal.
       (let accepted = mergeAcceptedPendingTurnMenu existing normal in
        bind_res (validateAcceptedRemoteTable node_json curve env checks fetchPeerInfo daemon existing accepted)
          (\<lambda>_. Inr accepted))))"

section \<open>Peers that may send a table\<close>

definition isSeatedPeer :: "nativeTableState \<Rightarrow> string \<Rightarrow> bool" where
  "isSeatedPeer table peerID \<longleftrightarrow> TrimSpace peerID \<noteq> [] \<and> list_ex (\<lambda>seat. se_PeerID seat = TrimSpace peerID) (ts_Seats table)"

definition participantProtocolPubkeyForPeer :: "nativeTableState \<Rightarrow> string \<Rightarrow> string option" where
  "participantProtocolPubkeyForPeer table peerID =
     (let trimmedPeerID = TrimSpace peerID; host = kn_Peer (ts_CurrentHost table) in
      if trimmedPeerID = [] then None
      else if pa_PeerID host = trimmedPeerID \<and> TrimSpace (pa_ProtocolPubkeyHex host) \<noteq> [] then Some (pa_ProtocolPubkeyHex host)
      else case find (\<lambda>seat. se_PeerID seat = trimmedPeerID \<and> TrimSpace (se_ProtocolPubkeyHex seat) \<noteq> []) (ts_Seats table) of
          Some seat \<Rightarrow> Some (se_ProtocolPubkeyHex seat)
        | None \<Rightarrow> map_option (\<lambda>witness. pa_ProtocolPubkeyHex (kn_Peer witness))
            (find (\<lambda>witness. pa_PeerID (kn_Peer witness) = trimmedPeerID
              \<and> TrimSpace (pa_ProtocolPubkeyHex (kn_Peer witness)) \<noteq> []) (ts_Witnesses table)))"

definition challengeSyncTransitionKindsOnly :: "CustodyTransition list \<Rightarrow> bool" where
  "challengeSyncTransitionKindsOnly transitions \<longleftrightarrow>
     transitions \<noteq> [] \<and> list_all (\<lambda>transition. cp_ChallengeWitness (ct_Proof transition) \<noteq> None
       \<and> ct_Kind transition \<in> {TransitionKindTurnChallengeOpen, TransitionKindAction, TransitionKindTimeout,
         TransitionKindTurnChallengeEscape}) transitions"

definition challengeSyncEventKindsOnly :: "NativeSignedTableEvent list \<Rightarrow> bool" where
  "challengeSyncEventKindsOnly events \<longleftrightarrow>
     list_all (\<lambda>event. TrimSpace (event_type event) \<in> {''TurnChallengeOpened'', ''PlayerAction'', ''HandAbort''}) events"

definition allowNonHostChallengeSync :: "nativeTableState option \<Rightarrow> nativeTableState \<Rightarrow> string \<Rightarrow> bool" where
  "allowNonHostChallengeSync existing incoming senderPeerID =
     (case existing of
        None \<Rightarrow> False
      | Some table \<Rightarrow>
          TrimSpace senderPeerID \<noteq> [] \<and> senderPeerID \<noteq> host_id table \<and> isSeatedPeer incoming senderPeerID
          \<and> ts_CurrentEpoch incoming = ts_CurrentEpoch table \<and> host_id incoming = host_id table
          \<and> length (ts_CustodyTransitions incoming) > length (ts_CustodyTransitions table)
          \<and> length (ts_Events incoming) \<ge> length (ts_Events table)
          \<and> challengeSyncTransitionKindsOnly (drop (length (ts_CustodyTransitions table)) (ts_CustodyTransitions incoming))
          \<and> challengeSyncEventKindsOnly (drop (length (ts_Events table)) (ts_Events incoming)))"

definition validateSyncTransition ::
    "(TxTreeNode \<Rightarrow> json) \<Rightarrow> ('sk, 'pk) secp256k1 \<Rightarrow> mesh_env \<Rightarrow> sync_checks \<Rightarrow> (string \<Rightarrow> NativePeerAddress res) \<Rightarrow> daemon
     \<Rightarrow> nativeTableState option \<Rightarrow> nativeTableState \<Rightarrow> string \<Rightarrow> unit res" where
  "validateSyncTransition node_json curve env checks fetchPeerInfo daemon existing incoming senderPeerID =
     (if \<not> isLocalTableParticipant daemon incoming \<and> \<not> canAcceptIncomingTableAsPreviousHost daemon existing incoming
      then Inl (Err ''sync request does not target this daemon'')
      else bind_res (validateAcceptedTableProtocolVersion incoming) (\<lambda>_.
        bind_res (normalizeAcceptedActiveHand env existing (stripReplicatedPendingTurnBundles incoming)) (\<lambda>normalized0.
        bind_res (validateAcceptedHandTranscript normalized0) (\<lambda>normalized.
        bind_res (validateAcceptedPublicReplay checks normalized) (\<lambda>_.
        bind_res (validateAcceptedHistoricalLedger node_json curve env (ledger_checks.truncate checks) existing normalized) (\<lambda>_.
        bind_res (case existing of
            None \<Rightarrow> Inr ()
          | Some table \<Rightarrow>
              if ts_CurrentEpoch incoming < ts_CurrentEpoch table
              then Inl (Err ''sync request would roll back table epoch'')
              else if ts_CurrentEpoch incoming = ts_CurrentEpoch table \<and> senderPeerID \<noteq> host_id table
                \<and> \<not> allowNonHostChallengeSync existing incoming senderPeerID
              then Inl (Err ''sync request sender does not match the current host'')
              else if ts_CurrentEpoch incoming = ts_CurrentEpoch table \<and> length (ts_Events incoming) < length (ts_Events table)
              then Inl (Err ''sync request would roll back table events'')
              else if ts_CurrentEpoch incoming = ts_CurrentEpoch table
                \<and> length (ts_Snapshots incoming) < length (ts_Snapshots table)
              then Inl (Err ''sync request would roll back table snapshots'')
              else validateAcceptedHostTransition fetchPeerInfo existing incoming) (\<lambda>_.
        bind_res (validateAcceptedPendingTurnMenu checks normalized) (\<lambda>_.
        validateAcceptedPendingTurnChallenge checks normalized))))))))"

end
