(* ===== verification/Custody_Acceptance.thy ===== *)
theory Custody_Acceptance
  imports Table_Ledger
begin

text \<open>
  The check of one custody transition of a received table, from \<open>internal/meshruntime/runtime.go\<close>, and the request its
  players approve, from \<open>custody_ark_exec.go\<close>: the transition without its proof, with the references of its settlement
  plan in place of the outputs it will have. What the check asks of Bitcoin transactions is an argument: the stored
  recovery bundles, and the witnesses of settlements, recoveries, challenges and exits.
\<close>

section \<open>The request of a transition\<close>

definition reset_claim :: "nativeTableState \<Rightarrow> CustodyTransition \<Rightarrow> StackClaim \<Rightarrow> StackClaim" where
  "reset_claim table transition claim =
     (case map_of (prev_stacks (ts_LatestCustodyState table)) (sc_PlayerID claim) of
        Some prevClaim \<Rightarrow>
          if comparableStackClaim prevClaim = comparableStackClaim claim
          then claim\<lparr>sc_VTXORefs := sc_VTXORefs prevClaim\<rparr> else claim
      | None \<Rightarrow> if ct_Kind transition \<noteq> TransitionKindBuyInLock then claim\<lparr>sc_VTXORefs := []\<rparr> else claim)"

definition reset_pot :: "nativeTableState \<Rightarrow> PotSlice \<Rightarrow> PotSlice" where
  "reset_pot table pot =
     (case map_of (prev_pots (ts_LatestCustodyState table)) (ps_PotID pot) of
        Some prevSlice \<Rightarrow>
          if comparablePotSlice prevSlice = comparablePotSlice pot
            \<and> sameCanonicalVTXORefs (ps_VTXORefs prevSlice) (ps_VTXORefs pot)
          then pot\<lparr>ps_VTXORefs := ps_VTXORefs prevSlice\<rparr> else pot
      | None \<Rightarrow> pot\<lparr>ps_VTXORefs := []\<rparr>)"

definition resetCustodyRequestTransition :: "nativeTableState \<Rightarrow> CustodyTransition \<Rightarrow> CustodyTransition" where
  "resetCustodyRequestTransition table transition = transition
     \<lparr>ct_NextState := (ct_NextState transition)
        \<lparr>cs_StackClaims := map (reset_claim table transition) (cs_StackClaims (ct_NextState transition)),
         cs_PotSlices := map (reset_pot table) (cs_PotSlices (ct_NextState transition))\<rparr>,
      ct_Approvals := [], ct_ArkIntentID := [], ct_ArkTxID := [],
      ct_Proof := (ct_Proof transition)
        \<lparr>cp_ArkIntentID := [], cp_ArkTxID := [], cp_ExitProofRef := [], cp_FinalizedAt := [], cp_RequestHash := [],
         cp_RecoveryBundles := [], cp_RecoveryWitness := None, cp_ReplayValidated := False, cp_SettlementWitness := None,
         cp_StateHash := [], cp_Signatures := [], cp_VTXORefs := [], cp_TransitionHash := []\<rparr>\<rparr>"

text \<open>The references that stand for the outputs of a plan, by claim. The index of an output within its claim counts
  the references already there.\<close>

fun placeholder_refs ::
    "CustodyTransition \<Rightarrow> (string, VTXORef list) gomap \<Rightarrow> custodyOutputSpec list \<Rightarrow> (string, VTXORef list) gomap" where
  "placeholder_refs transition refsByClaimKey [] = refsByClaimKey"
| "placeholder_refs transition refsByClaimKey (output # outputs) =
     (let refs = (case map_of refsByClaimKey (os_ClaimKey output) of None \<Rightarrow> [] | Some refs \<Rightarrow> refs);
          index = length refs;
          txID = HashValue (map_json (\<lambda>j. j)
            [(''claimKey'', JStr (os_ClaimKey output)), (''custodySeq'', JInt (ct_CustodySeq transition)),
             (''output'', JInt (int index)), (''tableId'', JStr (ct_TableID transition))]);
          ref = \<lparr>vr_AmountSats = os_AmountSats output, vr_ArkIntentID = [], vr_ArkTxID = [], vr_ExpiresAt = [],
            vr_OwnerPlayerID = os_OwnerPlayerID output, vr_Script = os_Script output, vr_Tapscripts = os_Tapscripts output,
            vr_TxID = txID, vr_VOut = of_nat index\<rparr> in
      placeholder_refs transition (AList.update (os_ClaimKey output) (refs @ [ref]) refsByClaimKey) outputs)"

definition signingPlaceholderRefs ::
    "custodySettlementPlan option \<Rightarrow> CustodyTransition \<Rightarrow> (string, VTXORef list) gomap" where
  "signingPlaceholderRefs plan transition =
     (case plan of None \<Rightarrow> [] | Some p \<Rightarrow> placeholder_refs transition [] (pl_Outputs p))"

definition planned_refs :: "string set \<Rightarrow> (string, VTXORef list) gomap \<Rightarrow> string \<Rightarrow> VTXORef list \<Rightarrow> VTXORef list" where
  "planned_refs changed outputRefs key refs =
     (case map_of outputRefs key of Some planned \<Rightarrow> planned | None \<Rightarrow> if key \<in> changed then [] else refs)"

definition applyTransitionSettlementPlan ::
    "CustodyTransition \<Rightarrow> custodySettlementPlan option \<Rightarrow> (string, VTXORef list) gomap \<Rightarrow> CustodyTransition" where
  "applyTransitionSettlementPlan transition plan outputRefs =
     (let changed = (case plan of None \<Rightarrow> {} | Some p \<Rightarrow>
            set (map in_ClaimKey (pl_Inputs p)) \<union> set (map os_ClaimKey (pl_Outputs p))) in
      transition\<lparr>ct_NextState := (ct_NextState transition)
        \<lparr>cs_StackClaims := map (\<lambda>claim. claim\<lparr>sc_VTXORefs :=
            planned_refs changed outputRefs (stackClaimKey (sc_PlayerID claim)) (sc_VTXORefs claim)\<rparr>)
           (cs_StackClaims (ct_NextState transition)),
         cs_PotSlices := map (\<lambda>pot. pot\<lparr>ps_VTXORefs :=
            planned_refs changed outputRefs (potClaimKey (ps_PotID pot)) (ps_VTXORefs pot)\<rparr>)
           (cs_PotSlices (ct_NextState transition))\<rparr>\<rparr>)"

definition applyTransitionPlannedRefs :: "CustodyTransition \<Rightarrow> custodySettlementPlan option \<Rightarrow> CustodyTransition" where
  "applyTransitionPlannedRefs transition plan =
     (let sealed = seal_state (applyTransitionSettlementPlan transition plan (signingPlaceholderRefs plan transition)) in
      sealed\<lparr>ct_Proof := (ct_Proof sealed)\<lparr>cp_TransitionHash := []\<rparr>\<rparr>)"

definition challenge_kind :: "CustodyTransition \<Rightarrow> bool" where
  "challenge_kind transition \<longleftrightarrow>
     ct_Kind transition = TransitionKindTurnChallengeOpen \<or> ct_Kind transition = TransitionKindTurnChallengeEscape"

definition normalizedCustodySigningTransition ::
    "mesh_env \<Rightarrow> nativeTableState \<Rightarrow> CustodyTransition \<Rightarrow> (CustodyTransition \<times> custodySettlementPlan option) res" where
  "normalizedCustodySigningTransition env table transition =
     (if challenge_kind transition then Inr (transition, None)
      else bind_res (buildCustodySettlementPlan env table transition) (\<lambda>plan.
        Inr (applyTransitionPlannedRefs transition (Some plan), Some plan)))"

definition with_request_hash :: "(TxTreeNode \<Rightarrow> json) \<Rightarrow> CustodyTransition \<Rightarrow> CustodyTransition" where
  "with_request_hash node_json transition = transition\<lparr>ct_Proof := (ct_Proof transition)
     \<lparr>cp_RequestHash := custodyTransitionRequestHash node_json transition\<rparr>\<rparr>"

definition normalizedCustodyApprovalTransition ::
    "(TxTreeNode \<Rightarrow> json) \<Rightarrow> mesh_env \<Rightarrow> nativeTableState \<Rightarrow> CustodyTransition
     \<Rightarrow> (CustodyTransition \<times> custodySettlementPlan option) res" where
  "normalizedCustodyApprovalTransition node_json env table0 transition0 =
     (if challenge_kind transition0 then Inr (with_request_hash node_json transition0, None)
      else bind_res (challengeResolutionApprovalSource table0 transition0) (\<lambda>source.
        (let (table, transition) = (case source of None \<Rightarrow> (table0, transition0) | Some s \<Rightarrow> s) in
         bind_res (normalizedCustodySigningTransition env table (resetCustodyRequestTransition table transition))
           (\<lambda>(normalized, plan). Inr (with_request_hash node_json normalized, plan)))))"

section \<open>Finishing a transition that moves no money\<close>

text \<open>\<open>collect\<close> gathers the approvals of the required signers, \<open>collectCustodyApprovals\<close>.\<close>

definition finalizeNonSettlementCustodyTransition ::
    "(TxTreeNode \<Rightarrow> json) \<Rightarrow> (nativeTableState \<Rightarrow> CustodyTransition \<Rightarrow> string list \<Rightarrow> CustodySignature list res) \<Rightarrow> mesh_env
     \<Rightarrow> nativeTableState \<Rightarrow> CustodyTransition \<Rightarrow> CustodyTransition res" where
  "finalizeNonSettlementCustodyTransition node_json collect env table transition =
     bind_res (normalizedCustodyApprovalTransition node_json env table transition) (\<lambda>(approvalTransition, _).
     bind_res (collect table approvalTransition (requiredCustodySigners table approvalTransition)) (\<lambda>approvals.
     (let hash = HashCustodyState (ct_NextState transition);
          state = (ct_NextState transition)\<lparr>cs_StateHash := hash\<rparr>;
          approved = transition\<lparr>ct_Approvals := approvals, ct_NextState := state, ct_NextStateHash := hash,
            ct_Proof := empty_proof\<lparr>cp_FinalizedAt := me_Now env, cp_RequestHash := cp_RequestHash (ct_Proof approvalTransition),
              cp_ReplayValidated := True, cp_Signatures := approvals, cp_StateHash := hash,
              cp_VTXORefs := stackProofRefs state\<rparr>\<rparr>;
          final = approved\<lparr>ct_Proof := (ct_Proof approved)\<lparr>cp_TransitionHash := HashCustodyTransition node_json approved\<rparr>\<rparr> in
      bind_res (ValidateTransition node_json (ts_LatestCustodyState table) final) (\<lambda>_. Inr final))))"

section \<open>Checking a transition\<close>

definition sourcePotRecoveryRefs :: "CustodyState option \<Rightarrow> VTXORef list" where
  "sourcePotRecoveryRefs state =
     (case state of None \<Rightarrow> [] | Some s \<Rightarrow> canonicalVTXORefs (concat (map ps_VTXORefs (cs_PotSlices s))))"

record CustodyExitWitnessSummary =
  es_BroadcastTxIDs :: "string list"
  es_SweepTxID :: string

definition fundsExitWitnessTxIDs :: "CustodyExitWitnessSummary \<Rightarrow> string list" where
  "fundsExitWitnessTxIDs summary =
     es_BroadcastTxIDs summary @ (if TrimSpace (es_SweepTxID summary) \<noteq> [] then [es_SweepTxID summary] else [])"

definition fundsExitWitnessArkTxID :: "CustodyExitWitnessSummary \<Rightarrow> string" where
  "fundsExitWitnessArkTxID summary =
     (if TrimSpace (es_SweepTxID summary) \<noteq> [] then es_SweepTxID summary
      else case es_BroadcastTxIDs summary of [] \<Rightarrow> [] | txID # _ \<Rightarrow> txID)"

record witness_checks =
  wc_bundle :: "nativeTableState \<Rightarrow> CustodyRecoveryBundle \<Rightarrow> unit res"
  wc_challenge :: transition_check
  wc_recovery :: transition_check
  wc_settlement :: transition_check
  wc_exit :: "VTXORef list \<Rightarrow> CustodyExitWitness \<Rightarrow> CustodyExitWitnessSummary res"

definition validateAcceptedCustodyExitWitness ::
    "witness_checks \<Rightarrow> mesh_env \<Rightarrow> CustodyState option \<Rightarrow> CustodyTransition \<Rightarrow> CustodyExitWitnessSummary res" where
  "validateAcceptedCustodyExitWitness wc env previous transition =
     (let refs = custodyStateRefsForPlayer previous (ct_ActingPlayerID transition); pr = ct_Proof transition in
      if refs = [] then Inl (Err ''custody exit is missing source refs from the previous custody state'')
      else case cp_ExitWitness pr of
          None \<Rightarrow> if me_UseMockSettlement env then Inr \<lparr>es_BroadcastTxIDs = [], es_SweepTxID = []\<rparr>
            else Inl (Err ''custody exit witness is missing'')
        | Some witness \<Rightarrow>
            bind_res (wc_exit wc refs witness) (\<lambda>verified.
            (let txIDs = fundsExitWitnessTxIDs verified; finalTxID = fundsExitWitnessArkTxID verified in
             bind_res (first_error
               ([fail_if (cp_ExitProofRef pr \<noteq> BuildExitProofRef (the previous) (ct_ActingPlayerID transition) (Some refs)
                    (if txIDs = [] then None else Some txIDs)) ''custody exit proof ref mismatch'',
                 fail_if (finalTxID = []) ''custody exit witness is missing a final txid'',
                 fail_if (ct_ArkTxID transition \<noteq> [] \<and> ct_ArkTxID transition \<noteq> finalTxID) ''custody exit witness txid mismatch'',
                 fail_if (cp_ArkTxID pr \<noteq> [] \<and> cp_ArkTxID pr \<noteq> finalTxID) ''custody proof witness txid mismatch'']
                @ map (\<lambda>ref. fail_if (ref \<notin> set (cp_VTXORefs pr)) ''custody proof is missing exit source ref %s'') refs))
               (\<lambda>_. Inr verified))))"

text \<open>The table a transition is checked against: the state before it, and the statuses its claims give the seats.\<close>

definition validation_table :: "nativeTableState \<Rightarrow> CustodyState option \<Rightarrow> nativeTableState" where
  "validation_table table previous =
     restoreAcceptedSeatStatusesFromCustodyState (table\<lparr>ts_LatestCustodyState := previous\<rparr>) previous"

definition check_proof_fields :: "mesh_env \<Rightarrow> bool \<Rightarrow> CustodyTransition \<Rightarrow> unit res" where
  "check_proof_fields env requireArkSettlement transition =
     (let p = ct_Proof transition in
      first_error
       [fail_if (cp_StateHash p \<noteq> ct_NextStateHash transition) ''custody proof state hash mismatch'',
        fail_if (TrimSpace (cp_RequestHash p) = []) ''custody proof request hash is missing'',
        fail_if (cp_TransitionHash p = []) ''custody proof transition hash is missing'',
        fail_if (\<not> cp_ReplayValidated p) ''custody proof must mark replay validation'',
        fail_if (ct_ArkIntentID transition \<noteq> [] \<and> cp_ArkIntentID p \<noteq> [] \<and> cp_ArkIntentID p \<noteq> ct_ArkIntentID transition)
          ''custody proof intent id mismatch'',
        fail_if (ct_ArkTxID transition \<noteq> [] \<and> cp_ArkTxID p \<noteq> [] \<and> cp_ArkTxID p \<noteq> ct_ArkTxID transition)
          ''custody proof txid mismatch'',
        fail_if (requireArkSettlement \<and> cp_RecoveryWitness p = None \<and> cp_ChallengeWitness p = None
            \<and> ct_Kind transition \<noteq> TransitionKindEmergencyExit
            \<and> (TrimSpace (ct_ArkIntentID transition) = [] \<or> TrimSpace (ct_ArkTxID transition) = []))
          ''custody proof is missing Ark settlement ids''])"

definition check_bundle :: "witness_checks \<Rightarrow> nativeTableState \<Rightarrow> VTXORef list \<Rightarrow> CustodyRecoveryBundle \<Rightarrow> unit res" where
  "check_bundle wc table expectedRecoverySourceRefs recovery = first_error
     [fail_if (\<not> sameCanonicalVTXORefs (rb_SourcePotRefs recovery) expectedRecoverySourceRefs)
        ''custody recovery bundle %d source refs do not match the accepted transition'',
      wrap_err ''custody recovery bundle %d is invalid: %w'' (wc_bundle wc table recovery)]"

definition validateAcceptedCustodyTransition ::
    "(TxTreeNode \<Rightarrow> json) \<Rightarrow> ('sk, 'pk) secp256k1 \<Rightarrow> mesh_env \<Rightarrow> witness_checks \<Rightarrow> transition_check" where
  "validateAcceptedCustodyTransition node_json curve env wc table previous transition =
     (let requireArkSettlement = (\<not> me_UseMockSettlement env \<and> custodyTransitionRequiresArkSettlement previous transition
            \<and> \<not> custodyTransitionUsesMockSettlement transition);
          validationTable = validation_table table previous;
          hasRecoveryWitness = (cp_RecoveryWitness (ct_Proof transition) \<noteq> None);
          hasChallengeWitness = (cp_ChallengeWitness (ct_Proof transition) \<noteq> None) in
      bind_res (check_proof_fields env requireArkSettlement transition) (\<lambda>_.
      bind_res (normalizedCustodyApprovalTransition node_json env validationTable transition) (\<lambda>(approvalTransition, _).
      if \<not> hasChallengeWitness \<and> cp_RequestHash (ct_Proof transition) \<noteq> cp_RequestHash (ct_Proof approvalTransition)
      then Inl (Err ''custody proof request hash mismatch'')
      else
        bind_res (first_error (map (check_bundle wc validationTable (sourcePotRecoveryRefs (Some (ct_NextState transition))))
          (cp_RecoveryBundles (ct_Proof transition)))) (\<lambda>_.
        bind_res
          (if \<not> (hasChallengeWitness \<and> ct_Kind transition = TransitionKindTurnChallengeEscape) \<and> \<not> hasRecoveryWitness
           then validateCustodyApprovals node_json curve validationTable transition
             (requiredCustodySigners validationTable transition) else Inr ()) (\<lambda>_.
        bind_res
          (if \<not> hasChallengeWitness
           then validateAcceptedCustodyRefs previous transition (requireArkSettlement \<and> \<not> hasRecoveryWitness) else Inr ()) (\<lambda>_.
        if hasChallengeWitness then wc_challenge wc validationTable previous transition
        else if hasRecoveryWitness then wc_recovery wc validationTable previous transition
        else if ct_Kind transition = TransitionKindEmergencyExit
        then bind_res (validateAcceptedCustodyExitWitness wc env previous transition) (\<lambda>_. Inr ())
        else if \<not> requireArkSettlement then Inr ()
        else wc_settlement wc validationTable previous transition))))))"

section \<open>Every transition of an accepted chain is approved\<close>

lemma approvals_sound:
  assumes "cp_ChallengeBundle (ct_Proof transition) = None" "cp_ChallengeWitness (ct_Proof transition) = None"
    and "validateCustodyApprovals node_json curve table transition required = Inr ()" "player \<in> set required"
  shows "\<exists>approval \<in> set (ct_Approvals transition). cg_PlayerID approval = player \<and> approval_ok node_json curve table transition approval"
proof -
  let ?m = "map (\<lambda>a. (cg_PlayerID a, a)) (ct_Approvals transition)"
  have "challengeResolutionApprovalSource table transition = Inr None"
    using assms(1,2) by (simp add: challengeResolutionApprovalSource_def)
  moreover have "required \<noteq> []" using assms(4) by auto
  ultimately have ok: "\<forall>approval \<in> set (ct_Approvals transition). approval_ok node_json curve table transition approval"
      and "map_of ?m player \<noteq> None"
    using assms(3,4) by (auto simp: validateCustodyApprovals_def Let_def bind_res_ok collect_approvals_ok split: if_splits)
  then have "player \<in> cg_PlayerID ` set (ct_Approvals transition)" by (simp add: map_of_eq_None_iff image_image)
  with ok show ?thesis by blast
qed

lemma normal_hash:
  assumes "normalizedCustodyApprovalTransition node_json env table transition = Inr (approval, plan)"
  obtains request where "cp_RequestHash (ct_Proof approval) = HashCustodyRequest node_json request"
    "approval = request\<lparr>ct_Proof := (ct_Proof request)\<lparr>cp_RequestHash := HashCustodyRequest node_json request\<rparr>\<rparr>"
  using assms
  by (auto simp: normalizedCustodyApprovalTransition_def with_request_hash_def custodyTransitionRequestHash_def bind_res_ok
      split: if_splits option.splits)

lemma transition_approved:
  assumes "validateAcceptedCustodyTransition node_json curve env wc table previous transition = Inr ()"
    and "cp_ChallengeBundle (ct_Proof transition) = None" "cp_ChallengeWitness (ct_Proof transition) = None"
    and "cp_RecoveryWitness (ct_Proof transition) = None"
  shows "\<exists>approval plan. normalizedCustodyApprovalTransition node_json env (validation_table table previous) transition
      = Inr (approval, plan) \<and> cp_RequestHash (ct_Proof transition) = cp_RequestHash (ct_Proof approval)"
    and "validateCustodyApprovals node_json curve (validation_table table previous) transition
      (requiredCustodySigners (validation_table table previous) transition) = Inr ()"
    and "TrimSpace (cp_RequestHash (ct_Proof transition)) \<noteq> []"
  using assms by (auto simp: validateAcceptedCustodyTransition_def check_proof_fields_def Let_def bind_res_ok split: if_splits)

lemma chain_checked:
  assumes "check_custody_chain node_json check_proof incoming previous chain = Inr s" "i < length chain"
  shows "ValidateTransition node_json (if i = 0 then previous else Some (ct_NextState (chain ! (i - 1)))) (chain ! i) = Inr ()"
    and "check_proof incoming (if i = 0 then previous else Some (ct_NextState (chain ! (i - 1)))) (chain ! i) = Inr ()"
proof -
  have "ValidateTransition node_json (if i = 0 then previous else Some (ct_NextState (chain ! (i - 1)))) (chain ! i) = Inr ()
      \<and> check_proof incoming (if i = 0 then previous else Some (ct_NextState (chain ! (i - 1)))) (chain ! i) = Inr ()"
    using assms
  proof (induction chain arbitrary: previous i)
    case (Cons t chain)
    then show ?case
    proof (cases i)
      case (Suc j)
      have tail: "check_custody_chain node_json check_proof incoming (Some (ct_NextState t)) chain = Inr s" "j < length chain"
        using Cons.prems Suc by (simp_all add: bind_res_ok)
      show ?thesis using Cons.IH [OF tail] Suc by (cases j) simp_all
    qed (simp add: bind_res_ok)
  qed simp
  then show "ValidateTransition node_json (if i = 0 then previous else Some (ct_NextState (chain ! (i - 1)))) (chain ! i) = Inr ()"
    "check_proof incoming (if i = 0 then previous else Some (ct_NextState (chain ! (i - 1)))) (chain ! i) = Inr ()" by blast+
qed

lemma history_checked:
  assumes "validateAcceptedCustodyHistory node_json check_proof existing table = Inr ()" "i < length (ts_CustodyTransitions table)"
  shows "check_proof table (if i = 0 then None else Some (ct_NextState (ts_CustodyTransitions table ! (i - 1))))
    (ts_CustodyTransitions table ! i) = Inr ()"
proof -
  have "ts_CustodyTransitions table \<noteq> []" using assms(2) by auto
  then obtain s where "check_custody_chain node_json check_proof table None (ts_CustodyTransitions table) = Inr s"
    using assms(1) by (auto simp: validateAcceptedCustodyHistory_def bind_res_ok)
  from chain_checked(2) [OF this assms(2)] show ?thesis .
qed

section \<open>An honest approval counts\<close>

lemma approval_payload_text: "\<exists>stable. StableStringify (custodyApprovalPayload t p h a q d) = Inr stable"
proof -
  have "StableStringify (custodyApprovalPayload t p h a q d) = Inr (json_text (canonicalizeValue (custodyApprovalPayload t p h a q d)))"
    unfolding custodyApprovalPayload_def by (intro numbers_any_map) (simp_all add: str_member_def int_member_def)
  then show ?thesis by blast
qed

lemma honest_approval:
  assumes "curve_laws curve"
    and "privateKeyAndPublicKeyHex curve random0 seed = Inr (li_PrivateKeyHex (me_WalletID env), sk, li_PublicKeyHex (me_WalletID env))"
    and "li_PrivateKeyHex (me_WalletID env) \<noteq> []" "li_PlayerID (me_WalletID env) \<noteq> []" "me_Now env \<noteq> []"
    and "seatRecordForPlayer table (li_PlayerID (me_WalletID env)) = Some seat"
    and "se_WalletPubkeyHex seat = li_PublicKeyHex (me_WalletID env)"
    and "ct_TableID request = ct_TableID transition" "ct_PrevStateHash request = ct_PrevStateHash transition"
    and "ct_CustodySeq request = ct_CustodySeq transition"
    and "cp_RequestHash (ct_Proof request) = cp_RequestHash (ct_Proof transition)"
    and "TrimSpace (cp_RequestHash (ct_Proof transition)) = cp_RequestHash (ct_Proof transition)"
    and "cp_RequestHash (ct_Proof transition) \<noteq> []"
  obtains approval where "localCustodyApproval node_json curve random env request = Inr approval"
    "cg_PlayerID approval = li_PlayerID (me_WalletID env)" "approval_ok node_json curve table transition approval"
proof -
  let ?h = "cp_RequestHash (ct_Proof transition)"
  have target: "custodyApprovalTargetHash node_json request = ?h" "custodyApprovalTargetHash node_json transition = ?h"
    using assms(11-13) by (simp_all add: custodyApprovalTargetHash_def firstNonEmptyString_def)
  let ?payload = "custodyApprovalPayload (ct_TableID transition) (li_PlayerID (me_WalletID env)) (ct_PrevStateHash transition) ?h
      (ct_CustodySeq transition) (me_Now env)"
  obtain stable_text where "StableStringify ?payload = Inr stable_text" using approval_payload_text by blast
  from key_signs [OF assms(1-3) this, of random] obtain sig where sig:
      "SignStructuredData curve random (li_PrivateKeyHex (me_WalletID env)) ?payload = Inr sig"
      "VerifyStructuredData curve (li_PublicKeyHex (me_WalletID env)) ?payload sig = Inr True" "TrimSpace sig \<noteq> []" by blast
  have "TrimSpace [] = []" by code_simp
  then have "sig \<noteq> []" using sig(3) by auto
  let ?a = "\<lparr>cg_ApprovalHash = ?h, cg_PlayerID = li_PlayerID (me_WalletID env), cg_SignatureHex = sig, cg_SignedAt = me_Now env,
      cg_WalletPubkeyHex = li_PublicKeyHex (me_WalletID env)\<rparr>"
  have "localCustodyApproval node_json curve random env request = Inr ?a"
    using sig(1) by (simp add: localCustodyApproval_def target assms(8-10) Let_def)
  moreover have "approval_ok node_json curve table transition ?a"
    using sig(2) \<open>sig \<noteq> []\<close> assms(4-7,12) by (simp add: approval_ok_def target)
  ultimately show ?thesis using that by simp
qed

end
