(* ===== verification/Sync_Properties.thy ===== *)
theory Sync_Properties
  imports Table_Sync Custody_Acceptance
begin

text \<open>
  What the replication of a table keeps: a stored table only grows while its daemon accepts tables from its peers, with
  the one exception of the custody chain; who takes over from a host and how the other peers recognise it.
\<close>

section \<open>The table that is checked is the table that is stored\<close>

text \<open>The parts of a table that acceptance leaves as they were sent.\<close>

definition ledger_part :: "nativeTableState \<Rightarrow> int \<times> nativeKnownParticipant \<times> NativeSignedTableEvent list
    \<times> NativeCooperativeTableSnapshot list \<times> CustodyTransition list \<times> CustodyState option \<times> nativeSeatRecord list" where
  "ledger_part table = (ts_CurrentEpoch table, ts_CurrentHost table, ts_Events table, ts_Snapshots table,
     ts_CustodyTransitions table, ts_LatestCustodyState table, ts_Seats table)"

lemma strip_ledger [simp]: "ledger_part (stripReplicatedPendingTurnBundles table) = ledger_part table"
  by (simp add: stripReplicatedPendingTurnBundles_def ledger_part_def)

lemma merge_ledger [simp]: "ledger_part (mergeAcceptedPendingTurnMenu existing table) = ledger_part table"
  by (simp add: mergeAcceptedPendingTurnMenu_def ledger_part_def Let_def split: option.split)

lemma normalize_root_ledger: "ledger_part (normalizePublicTranscriptRoot table) = ledger_part table"
  by (simp add: normalizePublicTranscriptRoot_def ledger_part_def Let_def split: option.split)

lemma normalize_ledger:
  assumes "normalizeAcceptedActiveHand env existing table = Inr table'"
  shows "ledger_part table' = ledger_part table"
  using assms normalize_root_ledger
  by (auto simp: normalizeAcceptedActiveHand_def bind_res_ok Let_def ledger_part_def split: option.splits)

lemma transcript_ledger:
  assumes "validateAcceptedHandTranscript table = Inr table'"
  shows "ledger_part table' = ledger_part table"
  using assms
  by (auto simp: validateAcceptedHandTranscript_def bind_res_ok Let_def ledger_part_def split: option.splits if_splits)

lemma recovered_ok: "recovered r = Inr x \<longleftrightarrow> r = Inr x"
  by (auto simp: recovered_def split: sum.splits go_error.splits)

lemma accepted_table:
  assumes "accept_remote_table node_json curve env checks fetchPeerInfo daemon existing table = Inr table'"
  shows "ledger_part table' = ledger_part table"
    and "validateAcceptedRemoteTable node_json curve env checks fetchPeerInfo daemon existing table' = Inr ()"
  using assms by (auto simp: accept_remote_table_def recovered_ok bind_res_ok Let_def dest: normalize_ledger)

lemma accepted_ledger:
  assumes "accept_remote_table node_json curve env checks fetchPeerInfo daemon existing table = Inr table'"
  obtains checked where "ledger_part checked = ledger_part table'"
    "validateAcceptedHistoricalLedger node_json curve env (ledger_checks.truncate checks) existing checked = Inr ()"
proof -
  obtain checked where checked: "validateAcceptedHandTranscript (stripReplicatedPendingTurnBundles table') = Inr checked"
      "validateAcceptedHistoricalLedger node_json curve env (ledger_checks.truncate checks) existing checked = Inr ()"
    using accepted_table(2) [OF assms] by (auto simp: validateAcceptedRemoteTable_def bind_res_ok split: if_splits)
  from that [OF _ checked(2)] transcript_ledger [OF checked(1)] show ?thesis by simp
qed

lemma accepted_remote:
  assumes "validateAcceptedRemoteTable node_json curve env checks fetchPeerInfo daemon (Some old) new = Inr ()"
  obtains checked where "ledger_part checked = ledger_part new"
    "validateAcceptedHistoricalLedger node_json curve env (ledger_checks.truncate checks) (Some old) checked = Inr ()"
    "ts_CurrentEpoch old \<le> ts_CurrentEpoch new" "validateAcceptedHostTransition fetchPeerInfo (Some old) checked = Inr ()"
proof -
  obtain checked where checked: "validateAcceptedHandTranscript (stripReplicatedPendingTurnBundles new) = Inr checked"
      "validateAcceptedHistoricalLedger node_json curve env (ledger_checks.truncate checks) (Some old) checked = Inr ()"
      "\<not> ts_CurrentEpoch checked < ts_CurrentEpoch old" "validateAcceptedHostTransition fetchPeerInfo (Some old) checked = Inr ()"
    using assms by (auto simp: validateAcceptedRemoteTable_def bind_res_ok split: if_splits)
  have "ledger_part checked = ledger_part new" using transcript_ledger [OF checked(1)] by simp
  with checked that show ?thesis by (auto simp: ledger_part_def)
qed

section \<open>A stored table only grows\<close>

text \<open>The relation between a table and a later one.\<close>

definition grown :: "nativeTableState \<Rightarrow> nativeTableState \<Rightarrow> bool" where
  "grown old new \<longleftrightarrow>
     prefix (map comparableSignedEvent (ts_Events old)) (map comparableSignedEvent (ts_Events new))
     \<and> prefix (map comparableSnapshotForHistory (ts_Snapshots old)) (map comparableSnapshotForHistory (ts_Snapshots new))
     \<and> ts_CurrentEpoch old \<le> ts_CurrentEpoch new
     \<and> (ts_CurrentEpoch new = ts_CurrentEpoch old \<longrightarrow> host_id new = host_id old)"

definition custody_grown :: "nativeTableState \<Rightarrow> nativeTableState \<Rightarrow> bool" where
  "custody_grown old new \<longleftrightarrow> prefix (map acceptedCustodyTransitionComparable (ts_CustodyTransitions old))
     (map acceptedCustodyTransitionComparable (ts_CustodyTransitions new))"

lemma grown_refl [simp]: "grown table table" "custody_grown table table"
  by (simp_all add: grown_def custody_grown_def)

lemma grown_trans: "grown a b \<Longrightarrow> grown b c \<Longrightarrow> grown a c" "custody_grown a b \<Longrightarrow> custody_grown b c \<Longrightarrow> custody_grown a c"
  by (force simp: grown_def custody_grown_def intro: prefix_order.trans)+

lemma accepted_grown:
  assumes "accept_remote_table node_json curve env checks fetchPeerInfo daemon (Some old) table = Inr new"
  shows "grown old new" "ts_CustodyTransitions table \<noteq> [] \<Longrightarrow> custody_grown old new"
proof -
  have new: "ledger_part new = ledger_part table" using accepted_table [OF assms] by simp
  obtain checked where checked: "ledger_part checked = ledger_part new"
    "validateAcceptedHistoricalLedger node_json curve env (ledger_checks.truncate checks) (Some old) checked = Inr ()"
    "ts_CurrentEpoch old \<le> ts_CurrentEpoch new" "validateAcceptedHostTransition fetchPeerInfo (Some old) checked = Inr ()"
    using accepted_remote [OF accepted_table(2) [OF assms]] .
  note kept = ledger_kept [OF checked(2)]
  have "ts_CurrentEpoch checked = ts_CurrentEpoch old \<longrightarrow> host_id checked = host_id old"
    using checked(4) by (auto simp: validateAcceptedHostTransition_def Let_def split: if_splits)
  with kept checked(1,3) show "grown old new" by (simp add: grown_def ledger_part_def)
  show "custody_grown old new" if "ts_CustodyTransitions table \<noteq> []"
    using that kept(3) checked(1) new by (auto simp: custody_grown_def ledger_part_def)
qed

text \<open>A daemon that holds a table and is sent others, one after the other: a table it refuses changes nothing.\<close>

fun receive ::
    "(TxTreeNode \<Rightarrow> json) \<Rightarrow> ('sk, 'pk) secp256k1 \<Rightarrow> sync_checks \<Rightarrow> daemon \<Rightarrow> nativeTableState
     \<Rightarrow> (mesh_env \<times> (string \<Rightarrow> NativePeerAddress res) \<times> nativeTableState) list \<Rightarrow> nativeTableState" where
  "receive node_json curve checks daemon stored [] = stored"
| "receive node_json curve checks daemon stored ((env, fetchPeerInfo, table) # deliveries) =
     receive node_json curve checks daemon
       (case accept_remote_table node_json curve env checks fetchPeerInfo daemon (Some stored) table of
          Inl _ \<Rightarrow> stored | Inr accepted \<Rightarrow> accepted) deliveries"

lemma receive_grown: "grown stored (receive node_json curve checks daemon stored deliveries)"
proof (induction deliveries arbitrary: stored)
  case (Cons delivery deliveries)
  obtain env fetchPeerInfo table where delivery: "delivery = (env, fetchPeerInfo, table)" by (cases delivery)
  show ?case
  proof (cases "accept_remote_table node_json curve env checks fetchPeerInfo daemon (Some stored) table")
    case (Inr accepted)
    show ?thesis using grown_trans(1) [OF accepted_grown(1) [OF Inr] Cons.IH] by (simp add: delivery Inr)
  qed (simp add: delivery Cons.IH)
qed simp

lemma receive_custody_grown:
  assumes "\<forall>(env, fetchPeerInfo, table) \<in> set deliveries. ts_CustodyTransitions table \<noteq> []"
  shows "custody_grown stored (receive node_json curve checks daemon stored deliveries)"
  using assms
proof (induction deliveries arbitrary: stored)
  case (Cons delivery deliveries)
  obtain env fetchPeerInfo table where delivery: "delivery = (env, fetchPeerInfo, table)" by (cases delivery)
  with Cons.prems have "ts_CustodyTransitions table \<noteq> []" by simp
  note grows = accepted_grown(2) [OF _ this]
  have IH: "custody_grown stored' (receive node_json curve checks daemon stored' deliveries)" for stored'
    using Cons.IH Cons.prems by simp
  show ?case
  proof (cases "accept_remote_table node_json curve env checks fetchPeerInfo daemon (Some stored) table")
    case (Inr accepted)
    show ?thesis using grown_trans(2) [OF grows [OF Inr] IH] by (simp add: delivery Inr)
  qed (simp add: delivery IH)
qed simp

section \<open>Taking over from a host\<close>

lemma failover_authorized:
  assumes "shouldHandleFailover available daemon table" "pa_PeerID (da_Peer daemon) \<noteq> []"
  shows "\<exists>peer. authorizedRemoteHostPeer (Some table) (pa_PeerID (da_Peer daemon)) = Some peer"
    and "host_id table \<noteq> pa_PeerID (da_Peer daemon)"
proof -
  let ?me = "pa_PeerID (da_Peer daemon)"
  show "host_id table \<noteq> ?me" using assms(1) by (auto simp: shouldHandleFailover_def split: if_splits)
  show "\<exists>peer. authorizedRemoteHostPeer (Some table) ?me = Some peer"
  proof (cases "find (\<lambda>witness. pa_PeerID (kn_Peer witness) = ?me) (ts_Witnesses table)")
    case None
    then have "\<not> list_ex (\<lambda>witness. pa_PeerID (kn_Peer witness) = ?me) (ts_Witnesses table)"
      by (auto simp: find_None_iff list_ex_iff)
    with assms(1) obtain seat where "lowestEligibleFailoverSeat table = Some seat" "se_PeerID seat = ?me"
      by (auto simp: shouldHandleFailover_def split: if_splits option.splits)
    with None assms(2) show ?thesis by (simp add: authorizedRemoteHostPeer_def)
  qed (use assms(2) in \<open>simp add: authorizedRemoteHostPeer_def\<close>)
qed

text \<open>A daemon at the address and with the key the table lists for it.\<close>

definition listed :: "nativeTableState \<Rightarrow> daemon \<Rightarrow> bool" where
  "listed table daemon \<longleftrightarrow>
     (let me = da_Peer daemon in
      pa_PeerID me \<noteq> [] \<and> TrimSpace (pa_ProtocolPubkeyHex me) \<noteq> [] \<and> TrimSpace (pa_PeerURL me) \<noteq> []
      \<and> (case authorizedRemoteHostPeer (Some table) (pa_PeerID me) of
           None \<Rightarrow> True
         | Some peer \<Rightarrow> pa_ProtocolPubkeyHex peer = pa_ProtocolPubkeyHex me \<and> pa_PeerURL peer = pa_PeerURL me))"

lemma rotated_fields:
  "ts_CurrentEpoch (rotated daemon env table) = ts_CurrentEpoch table + 1"
  "ts_CurrentHost (rotated daemon env table) = \<lparr>kn_ProfileName = da_ProfileName daemon, kn_Peer = da_Peer daemon\<rparr>"
  "ts_Events (rotated daemon env table) = ts_Events table" "ts_LastEventHash (rotated daemon env table) = ts_LastEventHash table"
  "ts_Seats (rotated daemon env table) = ts_Seats table" "ts_Witnesses (rotated daemon env table) = ts_Witnesses table"
  "tc_TableID (ts_Config (rotated daemon env table)) = tc_TableID (ts_Config table)"
  "tc_NetworkID (ts_Config (rotated daemon env table)) = tc_NetworkID (ts_Config table)"
  by (simp_all add: rotated_def Let_def)

lemma check_events_ids:
  assumes "tc_TableID (ts_Config table) = tc_TableID (ts_Config table')" "tc_NetworkID (ts_Config table) = tc_NetworkID (ts_Config table')"
  shows "check_events curve table i history events = check_events curve table' i history events"
  using assms by (induction events arbitrary: i history) (simp_all add: check_event_def)

lemma rotated_history: "acceptedEventHistory curve (rotated daemon env table) = acceptedEventHistory curve table"
proof -
  have "check_events curve (rotated daemon env table) i history events = check_events curve table i history events" for i history events
    by (rule check_events_ids) (simp_all add: rotated_fields)
  then show ?thesis by (simp add: acceptedEventHistory_def rotated_fields)
qed

lemma append_host:
  assumes "appendEvent curve random daemon at at' table body = Inr table'"
  shows "ts_CurrentEpoch table' = ts_CurrentEpoch table" "ts_CurrentHost table' = ts_CurrentHost table"
  using assms by (auto simp: appendEvent_def Let_def bind_res_ok)

lemma rotation:
  assumes "rotate_host curve random available daemon env requireHostFailure observed table = Inr (Some table')"
  shows "shouldHandleFailover available daemon table"
    and "appendEvent curve random daemon (me_Now env) (me_Now env) (rotated daemon env table)
      (rotation_body env (host_id table) (rotated daemon env table)) = Inr table'"
    and "ts_CurrentEpoch table' = ts_CurrentEpoch table + 1" "kn_Peer (ts_CurrentHost table') = da_Peer daemon"
proof -
  show *: "shouldHandleFailover available daemon table"
    "appendEvent curve random daemon (me_Now env) (me_Now env) (rotated daemon env table)
      (rotation_body env (host_id table) (rotated daemon env table)) = Inr table'"
    using assms by (auto simp: rotate_host_def bind_res_ok split: if_splits)
  show "ts_CurrentEpoch table' = ts_CurrentEpoch table + 1" "kn_Peer (ts_CurrentHost table') = da_Peer daemon"
    using append_host [OF *(2)] by (simp_all add: rotated_fields)
qed

lemma rotation_accepted:
  assumes "rotate_host curve random available daemon env requireHostFailure observed table = Inr (Some table')"
    and "listed table daemon" "fetchPeerInfo (pa_PeerURL (da_Peer daemon)) = Inr self"
    and "pa_PeerID self = pa_PeerID (da_Peer daemon)" "pa_ProtocolPubkeyHex self = pa_ProtocolPubkeyHex (da_Peer daemon)"
  shows "validateAcceptedHostTransition fetchPeerInfo (Some table) table' = Inr ()"
proof -
  note r = rotation [OF assms(1)]
  have id: "pa_PeerID (da_Peer daemon) \<noteq> []" using assms(2) by (simp add: listed_def Let_def)
  obtain peer where peer: "authorizedRemoteHostPeer (Some table) (pa_PeerID (da_Peer daemon)) = Some peer"
    using failover_authorized(1) [OF r(1) id] by blast
  then show ?thesis
    using assms(2-5) r(3,4) failover_authorized(2) [OF r(1) id]
    by (simp add: validateAcceptedHostTransition_def listed_def Let_def wrap_err_def)
qed

lemma rotation_history:
  assumes "rotate_host curve random available daemon env requireHostFailure observed table = Inr (Some table')"
    and "curve_laws curve" "daemon_keys curve daemon" "da_Network daemon = tc_NetworkID (ts_Config table)"
    and "acceptedEventHistory curve table = Inr history"
  shows "\<exists>history' event. acceptedEventHistory curve table' = Inr history' \<and> ts_Events table' = ts_Events table @ [event]
    \<and> event_type event = ''HostRotated'' \<and> ev_SenderPeerID event = pa_PeerID (da_Peer daemon)"
proof -
  let ?body = "rotation_body env (host_id table) (rotated daemon env table)"
  have "da_Network daemon = tc_NetworkID (ts_Config (rotated daemon env table))"
    "acceptedEventHistory curve (rotated daemon env table) = Inr history"
    using assms(4,5) by (simp_all add: rotated_fields rotated_history)
  from append_keeps_history [OF assms(2,3) this rotation(2) [OF assms(1)]]
  obtain history' event where *: "acceptedEventHistory curve table' = Inr history'" "ts_Events table' = ts_Events table @ [event]"
      "ev_Body event = Some ?body" "ev_SenderPeerID event = pa_PeerID (da_Peer daemon)"
    by (auto simp: rotated_fields)
  moreover have "event_type event = ''HostRotated''" using *(3) by (simp add: event_type_def body_at_def rotation_body_def)
  ultimately show ?thesis by blast
qed

text \<open>Without a witness at hand one seat takes over.\<close>

lemma one_seat_takes_over:
  assumes "shouldHandleFailover available a table" "shouldHandleFailover available' b table" "ts_Witnesses table = []"
  shows "pa_PeerID (da_Peer a) = pa_PeerID (da_Peer b)"
  using assms by (auto simp: shouldHandleFailover_def split: if_splits option.splits)

section \<open>Tables without their custody chain\<close>

lemma erased_accepted:
  assumes "ts_ActiveHand table = None" "ts_ActiveHandStartAt table = []" "ts_PendingTurnMenu table = None"
    and "ts_PendingTurnChallenge table = None" "no_initiators table"
    and "validateAcceptedHistoricalLedger node_json curve env (ledger_checks.truncate checks) None table = Inr ()"
    and "isLocalTableParticipant daemon table" "validateAcceptedTableProtocolVersion table = Inr ()"
  shows "accept_remote_table node_json curve env checks fetchPeerInfo daemon (Some table) (without_custody table)
    = Inr (without_custody table)"
proof -
  let ?t = "without_custody table"
  have none: "ts_ActiveHand ?t = None" "ts_PendingTurnMenu ?t = None" "ts_PendingTurnChallenge ?t = None" using assms(1,3,4) by simp_all
  then have strip: "stripReplicatedPendingTurnBundles ?t = ?t"
    by (simp add: stripReplicatedPendingTurnBundles_def)
  have normal: "normalizeAcceptedActiveHand env (Some table) ?t = Inr ?t"
    using none assms(2) by (simp add: normalizeAcceptedActiveHand_def without_custody_def)
  have merge: "mergeAcceptedPendingTurnMenu (Some table) ?t = ?t"
    using none assms(3) by (simp add: mergeAcceptedPendingTurnMenu_def turnMenuMatchesTable_def Let_def)
  have host: "validateAcceptedHostTransition fetchPeerInfo (Some table) ?t = Inr ()"
    by (simp add: validateAcceptedHostTransition_def Let_def)
  have "isLocalTableParticipant daemon ?t" using assms(7) by (simp add: isLocalTableParticipant_def seatIndexForPlayer_def)
  moreover have "validateAcceptedTableProtocolVersion ?t = Inr ()"
    using assms(8) by (simp add: validateAcceptedTableProtocolVersion_def without_custody_def)
  moreover have "validateAcceptedHandTranscript ?t = Inr ?t" using none by (simp add: validateAcceptedHandTranscript_def)
  moreover have "validateAcceptedPublicReplay checks ?t = Inr ()" "validateAcceptedPendingTurnMenu checks ?t = Inr ()"
    "validateAcceptedPendingTurnChallenge checks ?t = Inr ()"
    using none by (simp_all add: validateAcceptedPublicReplay_def validateAcceptedPendingTurnMenu_def
        validateAcceptedPendingTurnChallenge_def without_custody_def)
  ultimately have "validateAcceptedRemoteTable node_json curve env checks fetchPeerInfo daemon (Some table) ?t = Inr ()"
    using ledger_without_custody [OF assms(6,5)] host by (simp add: validateAcceptedRemoteTable_def strip)
  then show ?thesis by (simp add: accept_remote_table_def strip normal merge recovered_def)
qed

section \<open>Approvals of an accepted table\<close>

lemma validation_seats:
  assumes "ts_Seats table = ts_Seats table'"
  shows "ts_Seats (validation_table table previous) = ts_Seats (validation_table table' previous)"
  using assms by (simp add: validation_table_def restoreAcceptedSeatStatusesFromCustodyState_def Let_def split: option.split)

lemma approval_seats:
  assumes "ts_Seats table = ts_Seats table'"
  shows "approval_ok node_json curve table transition approval = approval_ok node_json curve table' transition approval"
    "requiredCustodySigners table transition = requiredCustodySigners table' transition"
  using assms by (simp_all add: approval_ok_def seatRecordForPlayer_def requiredCustodySigners_def Let_def)

lemma accepted_approval:
  assumes "accept_remote_table node_json curve env checks fetchPeerInfo daemon existing table = Inr table'"
    and "lc_transition checks = validateAcceptedCustodyTransition node_json curve env wc"
    and "i < length (ts_CustodyTransitions table')" "ts_CustodyTransitions table' ! i = transition"
    and "previous = (if i = 0 then None else Some (ct_NextState (ts_CustodyTransitions table' ! (i - 1))))"
    and "cp_ChallengeBundle (ct_Proof transition) = None" "cp_ChallengeWitness (ct_Proof transition) = None"
    and "cp_RecoveryWitness (ct_Proof transition) = None"
    and "player \<in> set (requiredCustodySigners (validation_table table' previous) transition)"
  shows "\<exists>approval \<in> set (ct_Approvals transition). cg_PlayerID approval = player
      \<and> approval_ok node_json curve (validation_table table' previous) transition approval"
    and "\<exists>view request plan. ledger_part view = ledger_part table'
      \<and> normalizedCustodyApprovalTransition node_json env (validation_table view previous) transition = Inr (request, plan)
      \<and> cp_RequestHash (ct_Proof transition) = cp_RequestHash (ct_Proof request)"
proof -
  obtain checked where checked: "ledger_part checked = ledger_part table'"
    "validateAcceptedHistoricalLedger node_json curve env (ledger_checks.truncate checks) existing checked = Inr ()"
    using accepted_ledger [OF assms(1)] .
  have chain: "ts_CustodyTransitions checked = ts_CustodyTransitions table'" and seats: "ts_Seats checked = ts_Seats table'"
    using checked(1) by (simp_all add: ledger_part_def)
  have "lc_transition (ledger_checks.truncate checks) = validateAcceptedCustodyTransition node_json curve env wc"
    using assms(2) by (simp add: ledger_checks.defs)
  then have "validateAcceptedCustodyHistory node_json (validateAcceptedCustodyTransition node_json curve env wc) existing checked = Inr ()"
    using checked(2) by (auto simp: validateAcceptedHistoricalLedger_def bind_res_ok)
  note ok = history_checked [OF this, of i, unfolded chain, OF assms(3), unfolded assms(4), folded assms(5)]
  note same = validation_seats [OF seats, of previous]
  note approved = transition_approved [OF ok assms(6-8)]
  show "\<exists>approval \<in> set (ct_Approvals transition). cg_PlayerID approval = player
      \<and> approval_ok node_json curve (validation_table table' previous) transition approval"
    using approvals_sound [OF assms(6,7) approved(2), unfolded approval_seats [OF same], OF assms(9)] .
  show "\<exists>view request plan. ledger_part view = ledger_part table'
      \<and> normalizedCustodyApprovalTransition node_json env (validation_table view previous) transition = Inr (request, plan)
      \<and> cp_RequestHash (ct_Proof transition) = cp_RequestHash (ct_Proof request)"
    using checked(1) approved(1) by blast
qed

section \<open>Accepted actions\<close>

lemma backed_seats:
  assumes "ts_Seats table = ts_Seats table'"
  shows "action_backed curve table transition state request = action_backed curve table' transition state request"
  using assms by (simp add: action_backed_def seatRecordForPlayer_def)

lemma checked_action:
  assumes "check_player_action curve table event = Inr ()"
  obtains index transition where "index < length (ts_CustodyTransitions table)" "ts_CustodyTransitions table ! index = transition"
    "cp_TransitionHash (ct_Proof transition) = eventTransitionHash event"
    "(\<exists>request state. actionRequestFromEvent event = Inr (Some request) \<and> action_backed curve table transition state request
        \<and> state \<in> ct_NextState ` set (ts_CustodyTransitions table)
        \<and> (cp_ChallengeWitness (ct_Proof transition) = None \<longrightarrow>
            0 < index \<and> state = ct_NextState (ts_CustodyTransitions table ! (index - 1))))
      \<or> actionRequestFromEvent event = Inr None \<and> ct_Kind transition = TransitionKindTimeout"
proof -
  obtain transition index request where linked: "linkedCustodyTransitionForEvent table event = Inr (transition, index)"
    and request: "actionRequestFromEvent event = Inr request"
    and checked: "case request of Some r \<Rightarrow> check_action_request curve table transition index r = Inr ()
      | None \<Rightarrow> check_timeout_event transition event = Inr ()"
    using assms by (auto simp: check_player_action_def bind_res_ok split: option.splits)
  note link = linked_transition [OF linked]
  show ?thesis
  proof (cases request)
    case None
    then have "ct_Kind transition = TransitionKindTimeout" using checked by (auto simp: check_timeout_event_def split: if_splits)
    then show ?thesis using that [OF link] request None by simp
  next
    case (Some r)
    then obtain state where state: "request_state table transition index = Inr state" "action_backed curve table transition state r"
      using checked unfolding Some option.case action_request_checked by blast
    note chain = request_state_of_chain [OF state(1) link(1)]
    have "actionRequestFromEvent event = Inr (Some r)" using request Some by simp
    then show ?thesis by (intro that [OF link] disjI1 exI [of _ r] exI [of _ state] conjI impI) (use state(2) chain in auto)
  qed
qed

lemma accepted_action:
  assumes "accept_remote_table node_json curve env checks fetchPeerInfo daemon existing table = Inr table'"
    and "event \<in> set (ts_Events table')" "event_type event = ''PlayerAction''"
  obtains checked where "ledger_part checked = ledger_part table'" "check_player_action curve checked event = Inr ()"
proof -
  obtain checked where checked: "ledger_part checked = ledger_part table'"
    "validateAcceptedHistoricalLedger node_json curve env (ledger_checks.truncate checks) existing checked = Inr ()"
    using accepted_ledger [OF assms(1)] .
  have "ts_Events checked = ts_Events table'" using checked(1) by (simp add: ledger_part_def)
  moreover have "validateAcceptedInitiatorHistory curve (ledger_checks.truncate checks) checked = Inr ()"
    using checked(2) by (auto simp: validateAcceptedHistoricalLedger_def bind_res_ok)
  ultimately have "check_player_action curve checked event = Inr ()"
    using assms(2,3) by (auto simp: validateAcceptedInitiatorHistory_def first_error_ok check_initiator_def)
  with checked(1) that show ?thesis by blast
qed

section \<open>Properties\<close>

text \<open>C12. Nobody acts for another player. Every action in the log of a table that a daemon has accepted belongs to a
  transition of its custody chain, and either records a timeout or carries a request that verifies under the wallet key
  of the seat of its player. The request was made for the hand, the decision and the very hash of a custody state of the
  chain, outside a challenge the one just before the transition; if that state names a player to act, it is the one
  who signed; and the action of the transition is the one that was signed.\<close>

theorem accepted_actions_are_signed:
  assumes "accept_remote_table node_json curve env checks fetchPeerInfo daemon existing table = Inr table'"
    and "event \<in> set (ts_Events table')" "event_type event = ''PlayerAction''"
  shows "\<exists>index transition. index < length (ts_CustodyTransitions table') \<and> ts_CustodyTransitions table' ! index = transition
    \<and> cp_TransitionHash (ct_Proof transition) = eventTransitionHash event
    \<and> (actionRequestFromEvent event = Inr None \<and> ct_Kind transition = TransitionKindTimeout
      \<or> (\<exists>request state seat. actionRequestFromEvent event = Inr (Some request)
          \<and> seatRecordForPlayer table' (aq_PlayerID request) = Some seat
          \<and> VerifyStructuredData curve (se_WalletPubkeyHex seat) (nativeActionAuthPayload request) (aq_SignatureHex request) = Inr True
          \<and> aq_HandID request = cs_HandID state \<and> aq_DecisionIndex request = cs_DecisionIndex state
          \<and> aq_PrevCustodyStateHash request = cs_StateHash state
          \<and> state \<in> ct_NextState ` set (ts_CustodyTransitions table')
          \<and> (cp_ChallengeWitness (ct_Proof transition) = None \<longrightarrow>
              0 < index \<and> state = ct_NextState (ts_CustodyTransitions table' ! (index - 1)))
          \<and> (TrimSpace (cs_ActingPlayerID state) \<noteq> [] \<longrightarrow> aq_PlayerID request = TrimSpace (cs_ActingPlayerID state))
          \<and> ct_Kind transition = TransitionKindAction
          \<and> ct_Action transition = Some \<lparr>ad_TotalSats = ac_TotalSats (aq_Action request),
              ad_Type = action_type_str (ac_Type (aq_Action request))\<rparr>))"
proof (rule accepted_action [OF assms])
  fix checked
  assume checked: "ledger_part checked = ledger_part table'" "check_player_action curve checked event = Inr ()"
  then have same: "ts_CustodyTransitions checked = ts_CustodyTransitions table'" "ts_Seats checked = ts_Seats table'"
    by (simp_all add: ledger_part_def)
  obtain index transition where chain: "index < length (ts_CustodyTransitions table')" "ts_CustodyTransitions table' ! index = transition"
      "cp_TransitionHash (ct_Proof transition) = eventTransitionHash event"
    and cases: "(\<exists>request state. actionRequestFromEvent event = Inr (Some request) \<and> action_backed curve table' transition state request
        \<and> state \<in> ct_NextState ` set (ts_CustodyTransitions table')
        \<and> (cp_ChallengeWitness (ct_Proof transition) = None \<longrightarrow>
            0 < index \<and> state = ct_NextState (ts_CustodyTransitions table' ! (index - 1))))
      \<or> actionRequestFromEvent event = Inr None \<and> ct_Kind transition = TransitionKindTimeout"
    by (rule checked_action [OF checked(2), unfolded same(1) backed_seats [OF same(2)]])
  from cases show ?thesis
  proof
    assume "\<exists>request state. actionRequestFromEvent event = Inr (Some request) \<and> action_backed curve table' transition state request
        \<and> state \<in> ct_NextState ` set (ts_CustodyTransitions table')
        \<and> (cp_ChallengeWitness (ct_Proof transition) = None \<longrightarrow>
            0 < index \<and> state = ct_NextState (ts_CustodyTransitions table' ! (index - 1)))"
    then obtain request state where request: "actionRequestFromEvent event = Inr (Some request)"
      and backed: "action_backed curve table' transition state request"
      and state: "state \<in> ct_NextState ` set (ts_CustodyTransitions table')"
        "cp_ChallengeWitness (ct_Proof transition) = None \<longrightarrow>
          0 < index \<and> state = ct_NextState (ts_CustodyTransitions table' ! (index - 1))" by (elim exE conjE)
    obtain seat where seat: "seatRecordForPlayer table' (aq_PlayerID request) = Some seat"
      "VerifyStructuredData curve (se_WalletPubkeyHex seat) (nativeActionAuthPayload request) (aq_SignatureHex request) = Inr True"
      using backed unfolding action_backed_def by (elim exE conjE)
    show ?thesis
      by (rule exI [of _ index], rule exI [of _ transition], intro conjI chain disjI2 exI [of _ request] exI [of _ state] exI [of _ seat]
          request seat state) (use backed in \<open>simp_all add: action_backed_def\<close>)
  next
    assume "actionRequestFromEvent event = Inr None \<and> ct_Kind transition = TransitionKindTimeout"
    with chain show ?thesis by (intro exI [of _ index] exI [of _ transition] conjI disjI1) simp_all
  qed
qed

text \<open>C20. A log that daemons write is a log that peers accept. Start from a table whose event log is accepted and let any
  daemons of its network, whoever they are, each with a key pair of its own, append any events in turn: the log is then
  accepted by every peer, its old events are still there, and the new ones carry the bodies and senders of the appends, in order.\<close>

theorem written_log_is_accepted:
  assumes "curve_laws curve" "acceptedEventHistory curve table = Inr history" "append_all curve random table steps = Inr table'"
    and "\<forall>(daemon, _) \<in> set steps. daemon_keys curve daemon \<and> da_Network daemon = tc_NetworkID (ts_Config table)"
  shows "validateAcceptedEventHistory curve table' = Inr ()
    \<and> (\<exists>events. ts_Events table' = ts_Events table @ events
        \<and> map ev_Body events = map (\<lambda>(_, _, _, body). Some body) steps
        \<and> map ev_SenderPeerID events = map (\<lambda>(daemon, _). pa_PeerID (da_Peer daemon)) steps)"
  using append_all_accepted [OF assms] by (auto simp: validateAcceptedEventHistory_def)

text \<open>C21. The last hash of a log binds all its events. If two accepted tables, whose logs hold decoded JSON, have the
  same last event hash, then their logs have the same number of events and the events say the same, one by one, or two
  different event texts with the same SHA-256 digest are in them.\<close>

theorem log_head_binds_events:
  assumes "acceptedEventHistory curve t = Inr h" "acceptedEventHistory curve' u = Inr h'" "ts_LastEventHash t = ts_LastEventHash u"
    and "\<forall>e \<in> set (ts_Events t) \<union> set (ts_Events u). json_kind (ev_PrevEventHash e)"
  shows "map event_content (ts_Events t) = map event_content (ts_Events u)
    \<or> (\<exists>x \<in> event_text ` set (ts_Events t). \<exists>y \<in> event_text ` set (ts_Events u). sha_collision x y)"
proof (rule same_head_same_events)
  show "check_events curve t 0 empty_history (ts_Events t) = Inr h" "check_events curve' u 0 empty_history (ts_Events u) = Inr h'"
    "eh_LastHash h = eh_LastHash h'"
    using assms(1-3) by (auto simp: acceptedEventHistory_def bind_res_ok split: if_splits)
qed (rule assms(4))

text \<open>C17. No money moves without its owners. Take a transition of the custody chain of a table that a daemon has accepted,
  one without a recovery witness and outside a challenge. Every player who has to sign it has signed it: the
  transition carries an approval of that player that verifies under the wallet key of its seat and signs the table,
  the previous state, the sequence number and the request hash; and the request hash is the digest of the transition
  itself, normalized with its settlement plan.\<close>

theorem accepted_transitions_are_approved:
  assumes "accept_remote_table node_json curve env checks fetchPeerInfo daemon existing table = Inr table'"
    and "lc_transition checks = validateAcceptedCustodyTransition node_json curve env wc"
    and "i < length (ts_CustodyTransitions table')" "ts_CustodyTransitions table' ! i = transition"
    and "previous = (if i = 0 then None else Some (ct_NextState (ts_CustodyTransitions table' ! (i - 1))))"
    and "cp_ChallengeBundle (ct_Proof transition) = None" "cp_ChallengeWitness (ct_Proof transition) = None"
    and "cp_RecoveryWitness (ct_Proof transition) = None"
    and "player \<in> set (requiredCustodySigners (validation_table table' previous) transition)"
  shows "(\<exists>seat approval. seatRecordForPlayer (validation_table table' previous) player = Some seat
      \<and> approval \<in> set (ct_Approvals transition)
      \<and> VerifyStructuredData curve (se_WalletPubkeyHex seat)
          (custodyApprovalPayload (ct_TableID transition) player (ct_PrevStateHash transition)
            (custodyApprovalTargetHash node_json transition) (ct_CustodySeq transition) (cg_SignedAt approval))
          (cg_SignatureHex approval) = Inr True)
    \<and> (\<exists>view request plan. ledger_part view = ledger_part table'
      \<and> normalizedCustodyApprovalTransition node_json env (validation_table view previous) transition = Inr (request, plan)
      \<and> cp_RequestHash (ct_Proof transition) = cp_RequestHash (ct_Proof request))"
  using accepted_approval [OF assms] unfolding approval_ok_def by blast


text \<open>C22. The custody chain can be erased. Between hands, before anybody has acted or cashed out, a daemon that holds a table
  with a valid ledger accepts and stores the same table without its custody chain and custody state: the comparison with
  the stored chain is not reached when the chain received is empty.\<close>

theorem custody_chain_can_be_erased:
  assumes "ts_ActiveHand table = None" "ts_ActiveHandStartAt table = []" "ts_PendingTurnMenu table = None"
    and "ts_PendingTurnChallenge table = None" "no_initiators table"
    and "validateAcceptedHistoricalLedger node_json curve env (ledger_checks.truncate checks) None table = Inr ()"
    and "isLocalTableParticipant daemon table" "validateAcceptedTableProtocolVersion table = Inr ()"
  shows "accept_remote_table node_json curve env checks fetchPeerInfo daemon (Some table)
      (table\<lparr>ts_CustodyTransitions := [], ts_LatestCustodyState := None\<rparr>)
    = Inr (table\<lparr>ts_CustodyTransitions := [], ts_LatestCustodyState := None\<rparr>)"
  using erased_accepted [OF assms] by (simp add: without_custody_def)

text \<open>C19. A takeover is recognised. When a daemon takes over from a host, the table it makes passes the check of the host
  transition at every peer that still holds the old table, if the daemon answers at the address and with the key that
  table lists for it; the epoch has advanced by one, and the log is still accepted and ends with the event of the
  rotation, signed by the new host. Without witnesses no other seat takes over from the same table.\<close>

theorem takeover_is_recognised:
  assumes "rotate_host curve random available daemon env requireHostFailure observed table = Inr (Some table')"
    and "listed table daemon" "fetchPeerInfo (pa_PeerURL (da_Peer daemon)) = Inr self"
    and "pa_PeerID self = pa_PeerID (da_Peer daemon)" "pa_ProtocolPubkeyHex self = pa_ProtocolPubkeyHex (da_Peer daemon)"
    and "curve_laws curve" "daemon_keys curve daemon" "da_Network daemon = tc_NetworkID (ts_Config table)"
    and "acceptedEventHistory curve table = Inr history"
  shows "validateAcceptedHostTransition fetchPeerInfo (Some table) table' = Inr ()
    \<and> ts_CurrentEpoch table' = ts_CurrentEpoch table + 1 \<and> host_id table' = pa_PeerID (da_Peer daemon)
    \<and> (\<exists>event. ts_Events table' = ts_Events table @ [event] \<and> event_type event = ''HostRotated''
        \<and> ev_SenderPeerID event = pa_PeerID (da_Peer daemon)) \<and> validateAcceptedEventHistory curve table' = Inr ()
    \<and> (ts_Witnesses table = [] \<longrightarrow> (\<forall>other available' env' r o'. pa_PeerID (da_Peer other) \<noteq> pa_PeerID (da_Peer daemon) \<longrightarrow>
        rotate_host curve random available' other env' r o' table = Inr None))"
proof -
  note rot = rotation [OF assms(1)]
  have "rotate_host curve random available' other env' r o' table = Inr None"
    if "ts_Witnesses table = []" "pa_PeerID (da_Peer other) \<noteq> pa_PeerID (da_Peer daemon)" for other available' env' r o'
    using one_seat_takes_over [OF rot(1) _ that(1), of available' other] that(2) by (auto simp: rotate_host_def)
  moreover have "\<exists>event. ts_Events table' = ts_Events table @ [event] \<and> event_type event = ''HostRotated''
      \<and> ev_SenderPeerID event = pa_PeerID (da_Peer daemon)" "validateAcceptedEventHistory curve table' = Inr ()"
    using rotation_history [OF assms(1,6-9)] by (auto simp: validateAcceptedEventHistory_def)
  ultimately show ?thesis using rotation_accepted [where fetchPeerInfo = fetchPeerInfo, OF assms(1-5)] rot(3,4) by simp
qed

text \<open>A daemon that misses two takeovers is left behind. After a host has lost a table to another daemon and taken it back,
  a peer that still holds the table from before refuses every table of the new epoch: the epoch has advanced and the
  host is the one it knows.\<close>

theorem missed_takeovers_are_refused:
  assumes "rotate_host curve random available daemon env requireHostFailure observed table = Inr (Some table1)"
    and "rotate_host curve random available' daemon' env' requireHostFailure' observed' table1 = Inr (Some table2)"
    and "pa_PeerID (da_Peer daemon') = host_id table" "ts_CurrentEpoch sent = ts_CurrentEpoch table2" "host_id sent = host_id table2"
  shows "\<not> is_ok (accept_remote_table node_json curve env'' checks fetchPeerInfo peer (Some table) sent)"
proof
  assume "is_ok (accept_remote_table node_json curve env'' checks fetchPeerInfo peer (Some table) sent)"
  then obtain new where new: "accept_remote_table node_json curve env'' checks fetchPeerInfo peer (Some table) sent = Inr new"
    by (cases "accept_remote_table node_json curve env'' checks fetchPeerInfo peer (Some table) sent") auto
  obtain checked where "ledger_part checked = ledger_part new" "validateAcceptedHostTransition fetchPeerInfo (Some table) checked = Inr ()"
    using accepted_remote [OF accepted_table(2) [OF new]] by metis
  moreover have "ledger_part new = ledger_part sent" using accepted_table(1) [OF new] .
  moreover have "ts_CurrentEpoch table2 > ts_CurrentEpoch table" "host_id table2 = host_id table"
    using rotation(3,4) [OF assms(1)] rotation(3,4) [OF assms(2)] assms(3) by simp_all
  ultimately show False
    using assms(4,5) by (simp add: ledger_part_def validateAcceptedHostTransition_def Let_def)
qed

end
