(* ===== verification/Custody_Fees.thy ===== *)
theory Custody_Fees
  imports Custody_Plan
begin

text \<open>
  The fee of a settlement: the reserves of the payers pay it exactly, or nothing is charged.
\<close>

text \<open>Two lists of claims that differ in their reserves only, which have not grown.\<close>

definition charged :: "StackClaim \<Rightarrow> StackClaim \<Rightarrow> bool" where
  "charged c c' \<longleftrightarrow> (\<exists>r. 0 \<le> r \<and> r \<le> sc_ReservedFeeSats c \<and> c' = c\<lparr>sc_ReservedFeeSats := r\<rparr>)"

abbreviation fee_reserves :: "StackClaim list \<Rightarrow> int" where
  "fee_reserves claims \<equiv> (\<Sum>c\<leftarrow>claims. sc_ReservedFeeSats c)"

lemma charged_refl: "0 \<le> sc_ReservedFeeSats c \<Longrightarrow> charged c c"
  unfolding charged_def by (rule exI [of _ "sc_ReservedFeeSats c"]) simp

text \<open>The records of the payers that \<open>deduct\<close> works through match the claims it changes.\<close>

definition reserve_of :: "StackClaim list \<Rightarrow> payerReserve \<Rightarrow> bool" where
  "reserve_of claims r \<longleftrightarrow> py_Index r < length claims \<and> py_ReservedSats r = sc_ReservedFeeSats (claims ! py_Index r)
     \<and> 0 \<le> py_ReservedSats r"

lemma sum_list_update_diff:
  "i < length xs \<Longrightarrow> (\<Sum>x\<leftarrow>xs[i := y]. (f x :: int)) = (\<Sum>x\<leftarrow>xs. f x) + f y - f (xs ! i)"
  by (induction xs arbitrary: i) (auto split: nat.split simp: nth_Cons')

lemma deduct_spec:
  assumes "list_all (reserve_of claims) rs" "distinct (map py_Index rs)" "0 \<le> remaining"
    "deduct rs remaining claims = (remaining', claims')"
  shows "remaining' = max 0 (remaining - (\<Sum>r\<leftarrow>rs. py_ReservedSats r))
    \<and> fee_reserves claims' = fee_reserves claims - (remaining - remaining')
    \<and> length claims' = length claims
    \<and> (\<forall>i < length claims. if i \<in> py_Index ` set rs then charged (claims ! i) (claims' ! i) else claims' ! i = claims ! i)"
  using assms
proof (induction rs remaining claims rule: deduct.induct)
  case (1 remaining claims)
  then show ?case by auto
next
  case (2 r rest remaining claims)
  show ?case
  proof (cases "remaining = 0")
    case True
    have "0 \<le> (\<Sum>r\<leftarrow>rest. py_ReservedSats r)"
      using 2(2) by (intro sum_list_nonneg) (auto simp: list_all_iff reserve_of_def)
    moreover have "charged (claims ! py_Index q) (claims ! py_Index q)" if "q \<in> set (r # rest)" for q
      using 2(2) that by (intro charged_refl) (auto simp: list_all_iff reserve_of_def)
    ultimately show ?thesis using 2(2,5) True by (auto simp: reserve_of_def)
  next
    case False
    define d where "d = minInt (py_ReservedSats r) remaining"
    define c where "c = claims ! py_Index r"
    define mid where "mid = claims[py_Index r := c\<lparr>sc_ReservedFeeSats := sc_ReservedFeeSats c - d\<rparr>]"
    have r: "py_Index r < length claims" "py_ReservedSats r = sc_ReservedFeeSats c" "0 \<le> py_ReservedSats r"
      using 2(2) by (auto simp: reserve_of_def c_def)
    have d: "0 \<le> d" "d \<le> remaining" "d \<le> py_ReservedSats r" "d = py_ReservedSats r \<or> d = remaining"
      using r(3) 2(4) by (auto simp: d_def minInt_def)
    have fresh: "py_Index q \<noteq> py_Index r" if "q \<in> set rest" for q using 2(3) that by (auto simp: image_iff)
    have kept: "mid ! py_Index q = claims ! py_Index q" if "q \<in> set rest" for q
      using fresh [OF that] by (simp add: mid_def)
    have rest: "list_all (reserve_of mid) rest" "distinct (map py_Index rest)" "0 \<le> remaining - d"
      using 2(2,3) d(2) kept by (auto simp: list_all_iff reserve_of_def) (simp add: mid_def)
    have run: "deduct rest (remaining - d) mid = (remaining', claims')"
      using 2(5) False by (simp add: d_def c_def mid_def Let_def)
    have IH: "remaining' = max 0 (remaining - d - (\<Sum>r\<leftarrow>rest. py_ReservedSats r))"
      "fee_reserves claims' = fee_reserves mid - (remaining - d - remaining')" "length claims' = length mid"
      "\<forall>i < length mid. if i \<in> py_Index ` set rest then charged (mid ! i) (claims' ! i) else claims' ! i = mid ! i"
      using 2(1) [OF False d_def c_def rest [unfolded mid_def] run [unfolded mid_def]] by (simp_all add: mid_def)
    have "0 \<le> (\<Sum>r\<leftarrow>rest. py_ReservedSats r)"
      using 2(2) by (intro sum_list_nonneg) (auto simp: list_all_iff reserve_of_def)
    moreover have "fee_reserves mid = fee_reserves claims - d"
      using sum_list_update_diff [OF r(1), of sc_ReservedFeeSats] by (simp add: mid_def c_def)
    moreover have "py_Index r \<notin> py_Index ` set rest" using fresh by fastforce
    then have "claims' ! py_Index r = mid ! py_Index r" using IH(4) r(1) by (simp add: mid_def)
    then have first: "charged c (claims' ! py_Index r)" unfolding charged_def using r d(1,3)
      by (intro exI [of _ "sc_ReservedFeeSats c - d"]) (simp add: mid_def)
    have "if i \<in> py_Index ` set (r # rest) then charged (claims ! i) (claims' ! i) else claims' ! i = claims ! i"
      if i: "i < length claims" for i
    proof (cases "i = py_Index r")
      case True
      then show ?thesis using first by (simp add: c_def)
    next
      case False
      then have "mid ! i = claims ! i" by (simp add: mid_def)
      moreover have "i < length mid" using i by (simp add: mid_def)
      ultimately show ?thesis using IH(4) [rule_format, of i] False by auto
    qed
    ultimately show ?thesis using IH(1-3) d by (auto simp: mid_def max_def)
  qed
qed

text \<open>The payers' records, one for every claim of a payer, carry the positions of the claims.\<close>

lemma payer_reserves_ok:
  assumes "list_all (\<lambda>c. 0 \<le> sc_ReservedFeeSats c) claims"
  shows "list_all (reserve_of claims) (payer_reserves payerIDs claims)"
    "distinct (map py_Index (payer_reserves payerIDs claims))"
    "py_Index ` set (payer_reserves payerIDs claims) = {i. i < length claims \<and> sc_PlayerID (claims ! i) \<in> set payerIDs}"
    "(\<Sum>r\<leftarrow>payer_reserves payerIDs claims. py_ReservedSats r)
      = fee_reserves (filter (\<lambda>c. sc_PlayerID c \<in> set payerIDs) claims)"
proof -
  let ?picked = "filter (\<lambda>(index, claim). sc_PlayerID claim \<in> set payerIDs) (enumerate 0 claims)"
  have positions: "map py_Index (payer_reserves payerIDs claims) = map fst ?picked"
    by (simp add: payer_reserves_def split_beta comp_def)
  have "distinct (map fst (enumerate 0 claims))" by simp
  then show "distinct (map py_Index (payer_reserves payerIDs claims))" unfolding positions by (rule distinct_map_filter)
  have "py_Index ` set (payer_reserves payerIDs claims) = fst ` set ?picked"
    using arg_cong [OF positions, of set] by simp
  also have "\<dots> = {i. i < length claims \<and> sc_PlayerID (claims ! i) \<in> set payerIDs}"
    by (auto simp: in_set_enumerate_eq image_iff)
  finally show "py_Index ` set (payer_reserves payerIDs claims)
      = {i. i < length claims \<and> sc_PlayerID (claims ! i) \<in> set payerIDs}" .
  show "list_all (reserve_of claims) (payer_reserves payerIDs claims)"
    using assms by (auto simp: payer_reserves_def reserve_of_def list_all_iff in_set_enumerate_eq)
  have "map py_ReservedSats (payer_reserves payerIDs claims) = map (sc_ReservedFeeSats \<circ> snd) ?picked"
    by (simp add: payer_reserves_def split_beta comp_def)
  also have "\<dots> = map sc_ReservedFeeSats (filter (\<lambda>c. sc_PlayerID c \<in> set payerIDs) (map snd (enumerate 0 claims)))"
    unfolding filter_map by (simp add: comp_def case_prod_unfold del: map_snd_enumerate)
  finally show "(\<Sum>r\<leftarrow>payer_reserves payerIDs claims. py_ReservedSats r)
      = fee_reserves (filter (\<lambda>c. sc_PlayerID c \<in> set payerIDs) claims)" by simp
qed

text \<open>C27. The fee is taken exactly or not at all. Allocating a positive fee succeeds exactly when the payers' reserves
  cover it. Then the reserves shrink by the fee, no sat more or less; a payer's reserve does not fall below zero,
  and nothing else of any claim, and no claim of another player, is touched.\<close>

theorem fee_is_taken_exactly:
  assumes "0 < feeSats" and "list_all (\<lambda>c. 0 \<le> sc_ReservedFeeSats c) (cs_StackClaims (ct_NextState t))"
  shows "(case allocateCustodyFeeReserve t payerIDs feeSats of
      Inl e \<Rightarrow> (\<Sum>c\<leftarrow>filter (\<lambda>c. sc_PlayerID c \<in> set payerIDs) (cs_StackClaims (ct_NextState t)). sc_ReservedFeeSats c) < feeSats
    | Inr t' \<Rightarrow>
        (\<Sum>c\<leftarrow>filter (\<lambda>c. sc_PlayerID c \<in> set payerIDs) (cs_StackClaims (ct_NextState t)). sc_ReservedFeeSats c) \<ge> feeSats
        \<and> (\<Sum>c\<leftarrow>cs_StackClaims (ct_NextState t'). sc_ReservedFeeSats c)
            = (\<Sum>c\<leftarrow>cs_StackClaims (ct_NextState t). sc_ReservedFeeSats c) - feeSats
        \<and> list_all2 (\<lambda>c c'. if sc_PlayerID c \<in> set payerIDs then charged c c' else c' = c)
            (cs_StackClaims (ct_NextState t)) (cs_StackClaims (ct_NextState t'))
        \<and> t' = with_claims (\<lambda>_. cs_StackClaims (ct_NextState t')) t)"
proof -
  let ?claims = "cs_StackClaims (ct_NextState t)"
  let ?reserves = "payer_reserves payerIDs ?claims"
  let ?sorted = "slice_stable reserve_less ?reserves"
  note ok = payer_reserves_ok [OF assms(2), of payerIDs]
  have sorted: "list_all (reserve_of ?claims) ?sorted" "py_Index ` set ?sorted = py_Index ` set ?reserves"
    using ok(1) by (simp_all add: list_all_iff)
  have "mset (map py_Index ?sorted) = mset (map py_Index ?reserves)" by simp
  then have distinct: "distinct (map py_Index ?sorted)" using ok(2) mset_eq_imp_distinct_iff by blast
  have "mset (map py_ReservedSats ?sorted) = mset (map py_ReservedSats ?reserves)" by simp
  then have total: "(\<Sum>r\<leftarrow>?sorted. py_ReservedSats r) = (\<Sum>r\<leftarrow>?reserves. py_ReservedSats r)"
    by (metis sum_mset_sum_list)
  obtain remaining paid where run: "deduct ?sorted feeSats ?claims = (remaining, paid)" by fastforce
  note spec = deduct_spec [OF sorted(1) distinct less_imp_le [OF assms(1)] run, unfolded sorted(2) ok(3) total]
  show ?thesis
  proof (cases "(\<Sum>r\<leftarrow>?reserves. py_ReservedSats r) < feeSats")
    case True
    then show ?thesis using assms(1) ok(4) by (simp add: allocateCustodyFeeReserve_def Let_def)
  next
    case False
    then have "remaining = 0" using spec by simp
    moreover have "list_all2 (\<lambda>c c'. if sc_PlayerID c \<in> set payerIDs then charged c c' else c' = c) ?claims paid"
      using spec by (auto simp: list_all2_conv_all_nth split: if_splits)
    moreover have "allocateCustodyFeeReserve t payerIDs feeSats = Inr (with_claims (\<lambda>_. paid) t)"
      using assms(1) False run \<open>remaining = 0\<close> by (simp add: allocateCustodyFeeReserve_def Let_def)
    ultimately show ?thesis using spec False ok(4) by (simp add: with_claims_def)
  qed
qed

end
