(* ===== verification/Custody_Scripts.thy ===== *)
theory Custody_Scripts
  imports Custody_Outputs
begin

text \<open>
  Who can spend the output of a pot before its exit delay: the players of the hand together, without the one player
  whose turn it is once the deadline has passed.
\<close>

fun closure_keys :: "closure \<Rightarrow> pubkey list" where
  "closure_keys (MultisigClosure pks) = pks"
| "closure_keys (CLTVMultisigClosure _ pks) = pks"
| "closure_keys (CSVMultisigClosure _ pks) = pks"

fun is_exit :: "closure \<Rightarrow> bool" where
  "is_exit (CSVMultisigClosure _ _) = True"
| "is_exit _ = False"

lemma map_res_key:
  assumes "map_res (player_pubkey env table) ids = Inr pks" "player \<in> set ids"
  shows "\<exists>key. player_pubkey env table player = Inr key \<and> key \<in> set pks"
  using assms unfolding map_res_ok by (induction rule: list_all2_induct) auto

lemma map_res_source:
  assumes "map_res f xs = Inr ys" "y \<in> set ys"
  obtains x where "x \<in> set xs" "f x = Inr y"
  using assms unfolding map_res_ok by (auto simp: list_all2_conv_all_nth in_set_conv_nth) blast

lemma set_uniqueSorted [simp]: "set (uniqueSortedPlayerIDs ids) = {player \<in> set ids. TrimSpace player \<noteq> []}"
  by (auto simp: uniqueSortedPlayerIDs_def)

lemma set_first_sets: "set (first_sets seen sets) \<subseteq> set sets"
  by (induction seen sets rule: first_sets.induct) (auto simp: Let_def)

text \<open>Everybody who has to sign a transition is asked by the challenge of the turn as well.\<close>

lemma signers_challenge:
  assumes "player \<in> set (requiredCustodySigners table t)"
    and "ct_Kind t \<notin> {TransitionKindCashOut, TransitionKindEmergencyExit}"
  shows "player \<in> set (activeTurnChallengePlayerIDsForState table (Some (ct_NextState t)))"
proof -
  have "ct_Kind t \<noteq> TransitionKindBuyInLock" using assms(1) by (auto simp: requiredCustodySigners_def)
  then obtain seat where seat: "seat \<in> set (ts_Seats table)" "se_PlayerID seat = player"
      "\<not> (case map_of (claim_statuses (cs_StackClaims (ct_NextState t))) (se_PlayerID seat) of
            Some status \<Rightarrow> terminalCustodySeatStatus status | None \<Rightarrow> se_Status seat \<noteq> [] \<and> se_Status seat \<noteq> ''active'')"
    using assms by (auto simp: requiredCustodySigners_def Let_def)
  have "\<not> terminalCustodySeatStatus []" "\<not> terminalCustodySeatStatus ''active''" by code_simp+
  with seat have "\<not> terminalCustodySeatStatus (case map_of (claim_statuses (cs_StackClaims (ct_NextState t))) (se_PlayerID seat) of
      Some status \<Rightarrow> status | None \<Rightarrow> se_Status seat)"
    by (auto split: option.splits)
  with seat(1,2) show ?thesis by (auto simp: activeTurnChallengePlayerIDsForState_def Let_def)
qed

lemma timeout_sets:
  assumes "ids \<in> set (timeoutSignerSets t signers)" "ct_Kind t \<noteq> TransitionKindShowdownPayout"
    "TrimSpace (cs_ActingPlayerID (ct_NextState t)) \<noteq> []"
  shows "set ids = {player \<in> set signers. TrimSpace player \<noteq> []} - {cs_ActingPlayerID (ct_NextState t)}"
  using assms by (auto simp: timeoutSignerSets_def Let_def split: if_splits)

text \<open>C26. Before its exit delay a pot is spent by all players of the hand but at most the one whose turn it is. While a
  player is to act, every way to spend the output of a pot other than the delayed exit asks for the key of every
  player who signs the transition and is not that player, the challenge of the turn included.\<close>

theorem pot_spend_needs_the_others:
  assumes "pot_closures env table t pot (potSpendSignerIDsForTransition table t) = Inr closures"
    and "ct_Kind t \<notin> {TransitionKindCashOut, TransitionKindEmergencyExit, TransitionKindShowdownPayout}"
    and "TrimSpace (cs_ActingPlayerID (ct_NextState t)) \<noteq> []"
    and "player \<in> set (requiredCustodySigners table t)" and "TrimSpace player \<noteq> []"
    and "player \<noteq> cs_ActingPlayerID (ct_NextState t)"
    and "closure \<in> set closures" and "\<not> is_exit closure"
  shows "\<exists>key. player_pubkey env table player = Inr key \<and> key \<in> set (closure_keys closure)"
proof -
  let ?signers = "potSpendSignerIDsForTransition table t"
  have member: "player \<in> set ?signers" using assms(4,5) by (auto simp: potSpendSignerIDsForTransition_def Let_def)
  obtain delay operator pks leaf timeouts exitKeys where parts: "map_res (player_pubkey env table) ?signers = Inr pks"
      "turnChallengeOpenLeaf env table (ct_NextState t) = Inr leaf" "timeout_closures env table t ?signers operator = Inr timeouts"
      "closures = [MultisigClosure (pks @ [operator])] @ (case leaf of None \<Rightarrow> [] | Some challengeOpenLeaf \<Rightarrow> [challengeOpenLeaf])
         @ timeouts @ (if exitKeys = [] then [] else [CSVMultisigClosure delay exitKeys])"
    using assms(1) unfolding pot_closures_def bind_res_ok sum.inject by metis
  consider (all) "closure = MultisigClosure (pks @ [operator])" | (challenge) "leaf = Some closure" | (timeout) "closure \<in> set timeouts"
    using assms(7,8) unfolding parts(4) by (auto split: option.splits if_splits)
  then show ?thesis
  proof cases
    case all
    then show ?thesis using map_res_key [OF parts(1) member] by auto
  next
    case challenge
    then obtain locktime ks where "closure = CLTVMultisigClosure locktime ks"
        "map_res (player_pubkey env table) (activeTurnChallengePlayerIDsForState table (Some (ct_NextState t))) = Inr ks"
      using parts(2) by (auto simp: turnChallengeOpenLeaf_def bind_res_ok Let_def split: if_splits option.splits)
    then show ?thesis using map_res_key signers_challenge assms(2,4) by fastforce
  next
    case timeout
    then obtain locktime keySets timeoutKeys where sets: "map_res (map_res (player_pubkey env table))
          (first_sets [] (timeoutSignerSets t ?signers)) = Inr keySets"
        "timeoutKeys \<in> set keySets" "closure = CLTVMultisigClosure locktime (timeoutKeys @ [operator])"
      using parts(3) by (auto simp: timeout_closures_def bind_res_ok split: if_splits)
    then obtain ids where ids: "ids \<in> set (first_sets [] (timeoutSignerSets t ?signers))"
        "map_res (player_pubkey env table) ids = Inr timeoutKeys"
      by (elim map_res_source [OF sets(1,2)])
    then have "player \<in> set ids" using timeout_sets [of ids t ?signers] set_first_sets assms(2,3,5,6) member by blast
    then show ?thesis using map_res_key [OF ids(2)] sets(3) by auto
  qed
qed

end
