(* ===== verification/Custody_Accounting.thy ===== *)
theory Custody_Accounting
  imports Custody_State
begin

text \<open>
  What the validation of a custody state amounts to, and that a state built from balances always
  passes it and conserves their value. \<open>state_rules\<close> is the specification: a conjunction of rules
  on the claims and the pot slices, with no order of evaluation and no accumulators.
\<close>

section \<open>The rules a valid state obeys\<close>

definition claim_rules :: "StackClaim \<Rightarrow> bool" where
  "claim_rules c \<longleftrightarrow> sc_PlayerID c \<noteq> [] \<and> 0 \<le> sc_AmountSats c \<and> 0 \<le> sc_ReservedFeeSats c
     \<and> 0 \<le> sc_RoundContributionSats c \<and> sc_RoundContributionSats c \<le> sc_TotalContributionSats c"

definition slice_rules :: "string set \<Rightarrow> PotSlice \<Rightarrow> bool" where
  "slice_rules players p \<longleftrightarrow> 0 \<le> ps_CapSats p \<and> (0 < ps_TotalSats p \<longrightarrow> ps_EligiblePlayerIDs p \<noteq> [])
     \<and> (\<forall>(k, v) \<in> set (ps_Contributions p). 0 \<le> v \<and> k \<in> players)
     \<and> msum (ps_Contributions p) = ps_TotalSats p"

definition paid_by :: "string \<Rightarrow> (string, int) gomap \<Rightarrow> int" where
  "paid_by k m = (\<Sum>e\<leftarrow>m. if fst e = k then snd e else 0)"

definition paid_into :: "PotSlice list \<Rightarrow> string \<Rightarrow> int" where
  "paid_into ps k = (\<Sum>p\<leftarrow>ps. paid_by k (ps_Contributions p))"

definition state_rules :: "CustodyState \<Rightarrow> bool" where
  "state_rules s \<longleftrightarrow>
     cs_TableID s \<noteq> [] \<and> cs_StackClaims s \<noteq> []
     \<and> distinct (map sc_PlayerID (cs_StackClaims s)) \<and> list_all claim_rules (cs_StackClaims s)
     \<and> list_all (slice_rules (sc_PlayerID ` set (cs_StackClaims s))) (cs_PotSlices s)
     \<and> (cs_StateHash s = [] \<or> cs_StateHash s = HashCustodyState s)
     \<and> list_all (\<lambda>c. paid_into (cs_PotSlices s) (sc_PlayerID c) \<le> sc_TotalContributionSats c
           \<and> sc_TotalContributionSats c - paid_into (cs_PotSlices s) (sc_PlayerID c) \<le> sc_AmountSats c)
         (cs_StackClaims s)"

section \<open>The loops compute the rules\<close>

lemma scan_claims_ok:
  "scan_claims cs seen = Inr out \<longleftrightarrow>
     list_all claim_rules cs \<and> distinct (map sc_PlayerID cs)
     \<and> sc_PlayerID ` set cs \<inter> set seen = {} \<and> out = rev (map sc_PlayerID cs) @ seen"
proof (induction cs arbitrary: seen)
  case (Cons c cs)
  then show ?case by (auto simp: claim_rules_def)
qed auto

lemma scan_contributions_ok:
  "scan_contributions seen m acc matched = Inr r \<longleftrightarrow>
     (\<forall>(k, v) \<in> set m. 0 \<le> v \<and> k \<in> set seen)
     \<and> r = (acc + msum m, fold (\<lambda>(k, v). madd k v) m matched)"
  by (induction seen m acc matched rule: scan_contributions.induct) (auto simp: msum_def)

lemma mget_fold_entries [simp]: "mget (fold (\<lambda>(k, v). madd k v) m matched) k = mget matched k + paid_by k m"
  by (induction m arbitrary: matched) (auto simp: paid_by_def)

lemma msum_nonneg: "(\<forall>(k, v) \<in> set m. 0 \<le> v) \<Longrightarrow> 0 \<le> msum m"
  unfolding msum_def by (rule sum_list_nonneg) auto

lemma scan_slices_ok:
  "scan_slices seen ps matched = Inr r \<longleftrightarrow>
     list_all (slice_rules (set seen)) ps
     \<and> r = fold (\<lambda>p. fold (\<lambda>(k, v). madd k v) (ps_Contributions p)) ps matched"
proof (induction ps arbitrary: matched)
  case (Cons p ps)
  have "slice_rules (set seen) p \<Longrightarrow> 0 \<le> ps_TotalSats p"
    using msum_nonneg [of "ps_Contributions p"] by (auto simp: slice_rules_def)
  note nonneg = this
  let ?entries = "fold (\<lambda>(k, v). madd k v) (ps_Contributions p) matched"
  show ?case
  proof (cases "\<forall>(k, v) \<in> set (ps_Contributions p). 0 \<le> v \<and> k \<in> set seen")
    case True
    then have "scan_contributions seen (ps_Contributions p) 0 matched = Inr (msum (ps_Contributions p), ?entries)"
      by (simp add: scan_contributions_ok)
    moreover have "slice_rules (set seen) p \<longleftrightarrow> 0 \<le> ps_TotalSats p \<and> 0 \<le> ps_CapSats p
        \<and> \<not> (ps_EligiblePlayerIDs p = [] \<and> 0 < ps_TotalSats p) \<and> msum (ps_Contributions p) = ps_TotalSats p"
      using True nonneg by (auto simp: slice_rules_def)
    ultimately show ?thesis using Cons.IH [of ?entries] by auto
  next
    case False
    then have "scan_contributions seen (ps_Contributions p) 0 matched \<noteq> Inr q" for q
      unfolding scan_contributions_ok by blast
    then obtain e where "scan_contributions seen (ps_Contributions p) 0 matched = Inl e"
      by (cases "scan_contributions seen (ps_Contributions p) 0 matched") auto
    moreover have "\<not> slice_rules (set seen) p" using False by (simp add: slice_rules_def)
    ultimately show ?thesis by simp
  qed
qed auto

lemma mget_fold_slices [simp]:
  "mget (fold (\<lambda>p. fold (\<lambda>(k, v). madd k v) (ps_Contributions p)) ps matched) k
     = mget matched k + paid_into ps k"
  by (induction ps arbitrary: matched) (auto simp: paid_into_def)

lemma check_floor_ok:
  "check_floor matched c = Inr () \<longleftrightarrow> mget matched (sc_PlayerID c) \<le> sc_TotalContributionSats c
     \<and> sc_TotalContributionSats c - mget matched (sc_PlayerID c) \<le> sc_AmountSats c"
  by (auto simp: check_floor_def Let_def)

lemma validate_state_rules: "ValidateState s = Inr () \<longleftrightarrow> state_rules s"
proof -
  let ?seen = "rev (map sc_PlayerID (cs_StackClaims s))"
  let ?matched = "fold (\<lambda>p. fold (\<lambda>(k, v). madd k v) (ps_Contributions p)) (cs_PotSlices s) []"
  have claims: "scan_claims (cs_StackClaims s) [] = Inr out \<longleftrightarrow>
      (list_all claim_rules (cs_StackClaims s) \<and> distinct (map sc_PlayerID (cs_StackClaims s))) \<and> out = ?seen" for out
    by (simp add: scan_claims_ok)
  have slices: "scan_slices ?seen (cs_PotSlices s) [] = Inr out \<longleftrightarrow>
      list_all (slice_rules (sc_PlayerID ` set (cs_StackClaims s))) (cs_PotSlices s) \<and> out = ?matched" for out
    by (simp add: scan_slices_ok)
  have floors: "first_error (map (check_floor ?matched) (cs_StackClaims s)) = Inr () \<longleftrightarrow>
      list_all (\<lambda>c. paid_into (cs_PotSlices s) (sc_PlayerID c) \<le> sc_TotalContributionSats c
           \<and> sc_TotalContributionSats c - paid_into (cs_PotSlices s) (sc_PlayerID c) \<le> sc_AmountSats c)
         (cs_StackClaims s)"
    by (simp add: first_error_ok check_floor_ok list_all_iff)
  show ?thesis
  proof (cases "scan_claims (cs_StackClaims s) []")
    case (Inl e)
    then show ?thesis using claims by (auto simp: ValidateState_def state_rules_def)
  next
    case (Inr out)
    then have out: "out = ?seen" using claims by simp
    show ?thesis
    proof (cases "scan_slices ?seen (cs_PotSlices s) []")
      case (Inl e)
      then show ?thesis using Inr out slices by (auto simp: ValidateState_def state_rules_def)
    next
      case m: (Inr m)
      then have "m = ?matched" using slices by simp
      with m Inr out have scans: "scan_claims (cs_StackClaims s) [] = Inr ?seen"
        "scan_slices ?seen (cs_PotSlices s) [] = Inr ?matched" by simp_all
      show ?thesis
        using scans claims [of ?seen] slices [of ?matched] floors
        by (auto simp: ValidateState_def state_rules_def)
    qed
  qed
qed

section \<open>States built from balances\<close>

definition balance_rules :: "PlayerBalance \<Rightarrow> bool" where
  "balance_rules b \<longleftrightarrow> pb_PlayerID b \<noteq> [] \<and> 0 \<le> pb_SeatIndex b \<and> 0 \<le> pb_StackSats b
     \<and> 0 \<le> pb_ReservedFeeSats b \<and> 0 \<le> pb_TotalContributionSats b \<and> 0 \<le> pb_RoundContributionSats b"

definition slice_participant :: "PlayerBalance \<Rightarrow> SliceParticipant" where
  "slice_participant b = \<lparr>sp_ContributionSats = pb_TotalContributionSats b, sp_Folded = pb_Folded b,
     sp_PlayerID = pb_PlayerID b, sp_SeatIndex = pb_SeatIndex b\<rparr>"

definition balance_value :: "PlayerBalance \<Rightarrow> int" where
  "balance_value b = pb_StackSats b + pb_ReservedFeeSats b + pb_TotalContributionSats b"

text \<open>The balances a state can be built from: beside the rules on each balance, the players are
  distinct, and someone who has not folded has paid up to the level that two players reach.\<close>

definition balances_rules :: "PlayerBalance list \<Rightarrow> bool" where
  "balances_rules bs \<longleftrightarrow> bs \<noteq> [] \<and> distinct (map pb_PlayerID bs) \<and> list_all balance_rules bs
     \<and> list_all (\<lambda>b. pb_RoundContributionSats b \<le> pb_TotalContributionSats b) bs
     \<and> (let level = matched_cap (map slice_participant bs) in
        level = 0 \<or> list_ex (\<lambda>b. \<not> pb_Folded b \<and> level \<le> pb_TotalContributionSats b) bs)"

lemma slice_participant_simps [simp]:
  "sp_ContributionSats (slice_participant b) = pb_TotalContributionSats b"
  "sp_Folded (slice_participant b) = pb_Folded b"
  "sp_PlayerID (slice_participant b) = pb_PlayerID b"
  by (simp_all add: slice_participant_def)

lemma scan_balances_ok:
  "scan_balances bs ps tv = Inr r \<longleftrightarrow>
     list_all balance_rules bs \<and> r = (ps @ map slice_participant bs, tv + (\<Sum>b\<leftarrow>bs. balance_value b))"
proof (induction bs arbitrary: ps tv)
  case (Cons b bs)
  then show ?case
    by (auto simp: balance_rules_def slice_participant_def balance_value_def algebra_simps)
qed auto

lemma paid_by_keyed:
  assumes "distinct (map sp_PlayerID qs)"
  shows "paid_by k (map (\<lambda>q. (sp_PlayerID q, v)) qs) = (if k \<in> sp_PlayerID ` set qs then v else 0)"
  using assms by (induction qs) (auto simp: paid_by_def)

lemma layered_slice:
  assumes "layered ps lo n (s # ss) hi" "distinct (map sp_PlayerID ps)"
  shows "ps_Contributions s = map (\<lambda>q. (sp_PlayerID q, ps_CapSats s - lo)) (reaching ps (ps_CapSats s))"
    and "ps_TotalSats s = (ps_CapSats s - lo) * int (length (reaching ps (ps_CapSats s)))"
    and "set (ps_EligiblePlayerIDs s)
      = sp_PlayerID ` {p \<in> set ps. ps_CapSats s \<le> sp_ContributionSats p \<and> \<not> sp_Folded p}"
proof -
  have s: "s = slice_of (reaching ps (ps_CapSats s)) (ps_CapSats s) lo n" using assms(1) by simp
  have ids: "distinct (map sp_PlayerID (reaching ps (ps_CapSats s)))"
    using assms(2) by (rule distinct_map_filter)
  show "ps_Contributions s = map (\<lambda>q. (sp_PlayerID q, ps_CapSats s - lo)) (reaching ps (ps_CapSats s))"
    by (subst s) (simp add: ids)
  show "ps_TotalSats s = (ps_CapSats s - lo) * int (length (reaching ps (ps_CapSats s)))"
    by (subst s) simp
  show "set (ps_EligiblePlayerIDs s)
      = sp_PlayerID ` {p \<in> set ps. ps_CapSats s \<le> sp_ContributionSats p \<and> \<not> sp_Folded p}"
    by (subst s) auto
qed

lemma layered_paid:
  assumes "distinct (map sp_PlayerID ps)" "p \<in> set ps"
  shows "layered ps lo n ss hi \<Longrightarrow> paid_into ss (sp_PlayerID p)
     = min (sp_ContributionSats p) hi - min (sp_ContributionSats p) lo"
proof (induction ss arbitrary: lo n)
  case (Cons s ss)
  let ?cap = "ps_CapSats s"
  have "sp_PlayerID p \<in> sp_PlayerID ` set (reaching ps ?cap) \<longleftrightarrow> ?cap \<le> sp_ContributionSats p"
    using assms by (auto simp: distinct_map inj_on_def)
  then have "paid_by (sp_PlayerID p) (ps_Contributions s)
      = (if ?cap \<le> sp_ContributionSats p then ?cap - lo else 0)"
    using layered_slice(1) [OF Cons.prems assms(1)] distinct_map_filter [OF assms(1)]
    by (simp add: paid_by_keyed)
  moreover have "lo < ?cap" "sp_ContributionSats p < ?cap \<longrightarrow> sp_ContributionSats p \<le> lo"
    using Cons.prems assms(2) by auto
  ultimately show ?case using Cons by (auto simp: paid_into_def)
qed (simp add: paid_into_def)

lemma layered_caps:
  "layered ps lo n ss hi \<Longrightarrow> lo = hi \<and> ss = [] \<or> lo < hi \<and> ss \<noteq> [] \<and> ps_CapSats (last ss) = hi
     \<and> (\<forall>s \<in> set ss. ps_CapSats s \<le> hi)"
  by (induction ss arbitrary: lo n) fastforce+

lemma layered_rules:
  assumes ids: "distinct (map sp_PlayerID ps)" and "0 \<le> lo"
  shows "layered ps lo n ss hi \<Longrightarrow> s \<in> set ss \<Longrightarrow>
    slice_rules (sp_PlayerID ` set ps) s \<longleftrightarrow>
      (\<exists>p \<in> set ps. ps_CapSats s \<le> sp_ContributionSats p \<and> \<not> sp_Folded p)"
  using assms(2)
proof (induction ss arbitrary: lo n)
  case (Cons s' ss)
  show ?case
  proof (cases "s = s'")
    case True
    have "layered ps lo n (s # ss) hi" using Cons.prems True by simp
    note sl = layered_slice [OF this ids]
    have "lo < ps_CapSats s" "reaching ps (ps_CapSats s) \<noteq> []" using Cons.prems True by auto
    then have "0 < ps_TotalSats s" "0 \<le> ps_CapSats s" using Cons.prems(3) by (simp_all add: sl(2))
    moreover have "ps_EligiblePlayerIDs s \<noteq> []
        \<longleftrightarrow> (\<exists>p \<in> set ps. ps_CapSats s \<le> sp_ContributionSats p \<and> \<not> sp_Folded p)"
      using sl(3) by (metis (mono_tags, lifting) empty_set image_is_empty mem_Collect_eq empty_iff ex_in_conv set_empty)
    ultimately show ?thesis
      using \<open>lo < ps_CapSats s\<close> by (auto simp: slice_rules_def sl(1,2) msum_const)
  next
    case False
    then show ?thesis using Cons by (intro Cons.IH [of "ps_CapSats s'" "Suc n"]) auto
  qed
qed simp

lemma derive_participants:
  assumes "list_all balance_rules bs"
  obtains d where "DerivePotStructure (map slice_participant bs) = Inr d"
proof -
  have "\<forall>p \<in> set (map slice_participant bs). sp_PlayerID p \<noteq> [] \<and> 0 \<le> sp_ContributionSats p"
    using assms by (auto simp: list_all_iff balance_rules_def)
  from distinct_caps_total [OF this, of "[]"]
  obtain caps where caps: "distinct_caps (map slice_participant bs) [] = Inr caps" ..
  have "\<exists>d. DerivePotStructure (map slice_participant bs) = Inr d"
    by (cases "bs = []") (simp_all add: DerivePotStructure_def Let_def caps)
  then show ?thesis using that by blast
qed

text \<open>The derivation for distinct players, seen from their balances.\<close>

definition derives :: "PlayerBalance list \<Rightarrow> PotDerivation \<Rightarrow> bool" where
  "derives bs d \<longleftrightarrow> distinct (map pb_PlayerID bs) \<and> list_all balance_rules bs
     \<and> DerivePotStructure (map slice_participant bs) = Inr d"

abbreviation level_of :: "PlayerBalance list \<Rightarrow> int" where
  "level_of bs \<equiv> matched_cap (map slice_participant bs)"

lemma derivesD:
  assumes "derives bs d"
  shows "distinct (map sp_PlayerID (map slice_participant bs))" "list_all balance_rules bs"
    "DerivePotStructure (map slice_participant bs) = Inr d"
    "b \<in> set bs \<Longrightarrow> 0 \<le> pb_TotalContributionSats b"
  using assms by (auto simp: derives_def comp_def list_all_iff balance_rules_def)

lemma derived_layers: "derives bs d \<Longrightarrow> layered (map slice_participant bs) 0 0 (pd_Slices d) (level_of bs)"
  using derive_structure(2) derivesD(1,3) by blast

lemma derived_unmatched:
  assumes d: "derives bs d" and "b \<in> set bs"
  shows "mget (pd_UnmatchedContributionSats d) (pb_PlayerID b)
    = pb_TotalContributionSats b - min (pb_TotalContributionSats b) (level_of bs)"
proof -
  have b: "slice_participant b \<in> set (map slice_participant bs)" using assms by simp
  note facts = derive_structure [OF derivesD(3,1) [OF d]]
  show ?thesis
    using facts(3) [OF b] facts(4) unmatched_spec [OF derivesD(1) [OF d] b, of "pd_MatchedContributionSats d"]
    by simp
qed

lemma derived_paid:
  "derives bs d \<Longrightarrow> b \<in> set bs \<Longrightarrow>
   paid_into (pd_Slices d) (pb_PlayerID b) = min (pb_TotalContributionSats b) (level_of bs)"
  using layered_paid [OF derivesD(1) _ derived_layers, of bs d "slice_participant b"] derivesD(4) [of bs d b]
  by simp

lemma derived_slice_rules:
  assumes d: "derives bs d"
  shows "list_all (slice_rules (pb_PlayerID ` set bs)) (pd_Slices d)
     \<longleftrightarrow> level_of bs = 0 \<or> list_ex (\<lambda>b. \<not> pb_Folded b \<and> level_of bs \<le> pb_TotalContributionSats b) bs"
    (is "?rules \<longleftrightarrow> ?paid")
proof -
  have reach: "slice_rules (pb_PlayerID ` set bs) s
      \<longleftrightarrow> (\<exists>b \<in> set bs. ps_CapSats s \<le> pb_TotalContributionSats b \<and> \<not> pb_Folded b)"
    if "s \<in> set (pd_Slices d)" for s
    using layered_rules [OF derivesD(1) [OF d] _ derived_layers [OF d] that] by (auto simp: image_image)
  consider (none) "level_of bs = 0" "pd_Slices d = []"
    | (some) "0 < level_of bs" "last (pd_Slices d) \<in> set (pd_Slices d)"
        "ps_CapSats (last (pd_Slices d)) = level_of bs"
        "\<forall>s \<in> set (pd_Slices d). ps_CapSats s \<le> level_of bs"
    using layered_caps [OF derived_layers [OF d]] by auto
  then show ?thesis
  proof cases
    case some
    have "?paid" if ?rules
      using that reach [OF some(2)] some(2,3) by (auto simp: list_all_iff list_ex_iff)
    moreover have "?rules" if paid: ?paid
    proof -
      obtain b where "b \<in> set bs" "\<not> pb_Folded b" "level_of bs \<le> pb_TotalContributionSats b"
        using paid some(1) by (auto simp: list_ex_iff)
      then show ?thesis using reach some(4) by (force simp: list_all_iff)
    qed
    ultimately show ?thesis by blast
  qed simp
qed

lemma derived_value:
  assumes d: "derives bs d"
  shows "totalPotFromSlices (pd_Slices d)
     + (\<Sum>c\<leftarrow>map (claim_of (pd_UnmatchedContributionSats d)) bs. sc_AmountSats c + sc_ReservedFeeSats c)
   = (\<Sum>b\<leftarrow>bs. balance_value b)"
proof -
  have "(\<Sum>c\<leftarrow>map (claim_of (pd_UnmatchedContributionSats d)) bs. sc_AmountSats c + sc_ReservedFeeSats c)
      = (\<Sum>b\<leftarrow>bs. balance_value b - min (pb_TotalContributionSats b) (level_of bs))"
    unfolding map_map
    by (intro arg_cong [where f = sum_list] map_cong)
      (auto simp: derived_unmatched [OF d] claim_of_def balance_value_def)
  moreover have "(\<Sum>b\<leftarrow>bs. min (pb_TotalContributionSats b) 0) = (\<Sum>b\<leftarrow>bs. 0)"
    using derivesD(4) [OF d] by (intro arg_cong [where f = sum_list] map_cong) auto
  ultimately show ?thesis
    using layered_total [OF derived_layers [OF d]]
    by (simp add: totalPotFromSlices_def sum_list_subtractf comp_def)
qed

lemma derived_state_rules:
  assumes d: "derives bs d" and "sb_TableID binding \<noteq> []"
  shows "state_rules (state_of binding (map (claim_of (pd_UnmatchedContributionSats d)) bs) (pd_Slices d) previous)
    \<longleftrightarrow> balances_rules bs"
proof -
  have rules: "balance_rules b" if "b \<in> set bs" for b
    using derivesD(2) [OF d] that by (simp add: list_all_iff)
  have claims: "claim_rules (claim_of (pd_UnmatchedContributionSats d) b)
      \<longleftrightarrow> pb_RoundContributionSats b \<le> pb_TotalContributionSats b" if "b \<in> set bs" for b
    using rules [OF that] derived_unmatched [OF d that]
    by (auto simp: claim_rules_def claim_of_def balance_rules_def)
  have floor: "paid_into (pd_Slices d) (pb_PlayerID b) \<le> pb_TotalContributionSats b
      \<and> pb_TotalContributionSats b - paid_into (pd_Slices d) (pb_PlayerID b)
        \<le> pb_StackSats b + mget (pd_UnmatchedContributionSats d) (pb_PlayerID b)" if "b \<in> set bs" for b
    using rules [OF that] derived_unmatched [OF d that] derived_paid [OF d that]
    by (auto simp: balance_rules_def)
  have "sc_PlayerID (claim_of m b) = pb_PlayerID b" for m b by (simp add: claim_of_def)
  moreover have "distinct (map pb_PlayerID bs)" using d by (simp add: derives_def)
  ultimately show ?thesis
    using assms(2) claims floor derived_slice_rules [OF d] rules
    by (auto simp: state_rules_def state_of_def balances_rules_def comp_def image_image list_all_iff
        Let_def claim_of_def)
qed

lemma build_state_iff:
  fixes previous :: "CustodyState option"
  assumes "sb_TableID binding \<noteq> []" "list_all balance_rules bs"
    "DerivePotStructure (map slice_participant bs) = Inr d"
  defines "state \<equiv> state_of binding (map (claim_of (pd_UnmatchedContributionSats d)) bs) (pd_Slices d) previous"
  shows "BuildState binding bs previous = Inr s
    \<longleftrightarrow> balances_rules bs \<and> s = state\<lparr>cs_StateHash := HashCustodyState state\<rparr>"
proof -
  have scan: "scan_balances bs [] 0 = Inr (map slice_participant bs, \<Sum>b\<leftarrow>bs. balance_value b)"
    using assms(2) by (simp add: scan_balances_ok)
  have rules: "state_rules state \<longleftrightarrow> balances_rules bs"
  proof (cases "derives bs d")
    case False
    then show ?thesis
      using assms(2,3) by (auto simp: derives_def balances_rules_def state_rules_def state_def state_of_def
          comp_def claim_of_def)
  qed (simp add: state_def derived_state_rules assms(1))
  have "validateConservedValue (state\<lparr>cs_StateHash := h\<rparr>) (\<Sum>b\<leftarrow>bs. balance_value b) = Inr ()"
    if "balances_rules bs" for h
    using derived_value [of bs d] that assms(2,3)
    by (simp add: derives_def balances_rules_def validateConservedValue_def Let_def state_def state_of_def)
  then show ?thesis
    using assms(1,3) scan rules validate_state_rules [of state]
    by (auto simp: BuildState_def Let_def state_def [symmetric] split: sum.splits)
qed

lemma build_state_needs:
  "BuildState binding bs previous = Inr s \<Longrightarrow> sb_TableID binding \<noteq> [] \<and> list_all balance_rules bs"
  using scan_balances_ok [of bs "[]" 0] by (auto simp: BuildState_def split: if_splits sum.splits)

section \<open>Digests do not cover themselves\<close>

lemma hash_ignores_stored_hash [simp]: "HashCustodyState (s\<lparr>cs_StateHash := h\<rparr>) = HashCustodyState s"
  by (simp add: HashCustodyState_def unsigned_state_def canonicalState_def)

lemma transition_hash_ignores_itself [simp]:
  "HashCustodyTransition node_json (t\<lparr>ct_Proof := (ct_Proof t)\<lparr>cp_TransitionHash := h\<rparr>\<rparr>)
     = HashCustodyTransition node_json t"
  by (simp add: HashCustodyTransition_def canonicalTransition_def canonical_proof_def Let_def)

lemma state_rules_sealed:
  "cs_StateHash s = [] \<Longrightarrow> state_rules (s\<lparr>cs_StateHash := HashCustodyState s\<rparr>) \<longleftrightarrow> state_rules s"
  by (simp add: state_rules_def)

lemma build_state_ex:
  "(\<exists>s. BuildState binding bs previous = Inr s) \<longleftrightarrow> sb_TableID binding \<noteq> [] \<and> balances_rules bs"
proof (cases "sb_TableID binding \<noteq> [] \<and> list_all balance_rules bs")
  case True
  then obtain d where "DerivePotStructure (map slice_participant bs) = Inr d"
    using derive_participants by blast
  from build_state_iff [OF _ _ this, of binding previous] True show ?thesis by auto
next
  case False
  then show ?thesis using build_state_needs by (auto simp: balances_rules_def)
qed

lemma build_stateE:
  assumes "BuildState binding bs previous = Inr s"
  obtains d where "derives bs d" "balances_rules bs" "sb_TableID binding \<noteq> []"
    "s = (let state = state_of binding (map (claim_of (pd_UnmatchedContributionSats d)) bs) (pd_Slices d) previous
          in state\<lparr>cs_StateHash := HashCustodyState state\<rparr>)"
proof -
  have need: "sb_TableID binding \<noteq> []" "list_all balance_rules bs"
    using build_state_needs [OF assms] by auto
  then obtain d where d: "DerivePotStructure (map slice_participant bs) = Inr d"
    using derive_participants by blast
  from build_state_iff [OF need d, of previous] assms need d that show ?thesis
    by (auto simp: derives_def balances_rules_def Let_def)
qed

lemma build_state_rules:
  assumes "BuildState binding bs previous = Inr s"
  shows "state_rules s" and "cs_StateHash s = HashCustodyState s"
proof -
  obtain d where d: "derives bs d" "balances_rules bs" "sb_TableID binding \<noteq> []"
    and s: "s = (let state = state_of binding (map (claim_of (pd_UnmatchedContributionSats d)) bs) (pd_Slices d) previous
          in state\<lparr>cs_StateHash := HashCustodyState state\<rparr>)"
    using build_stateE [OF assms] .
  show "state_rules s"
    using derived_state_rules [OF d(1,3), of previous] d(2)
    by (simp add: s Let_def state_rules_sealed state_of_def [THEN arg_cong, of cs_StateHash])
  show "cs_StateHash s = HashCustodyState s" by (simp add: s Let_def)
qed

lemma build_state_fields:
  assumes "BuildState binding bs previous = Inr s"
  shows "cs_TableID s = sb_TableID binding" "cs_ActingPlayerID s = sb_ActingPlayerID binding"
    "cs_DecisionIndex s = sb_DecisionIndex binding" "cs_CustodySeq s = nextCustodySeq previous"
    "cs_PrevStateHash s = previousStateHash previous"
  by (rule build_stateE [OF assms], simp add: Let_def state_of_def)+

section \<open>Properties of states\<close>


text \<open>A custody state can be built exactly from lawful balances. \<open>BuildState\<close> succeeds when and only
  when the table has an id, there is at least one balance, the players are distinct and named,
  seats and amounts are not negative, no round contribution exceeds its total, and a player who
  has not folded has paid up to the highest level that two players reach; the check that value is
  conserved never fails.\<close>

theorem state_built_exactly_from_lawful_balances:
  "(\<exists>s. BuildState binding bs previous = Inr s) \<longleftrightarrow> sb_TableID binding \<noteq> [] \<and> balances_rules bs"
  by (rule build_state_ex)

text \<open>A built state conserves value and is sealed. The pot slices and the players' claims with their
  reserved fees add up to the stacks, fees and contributions of the balances; each player's claim
  is its stack and the part of its contribution that nobody matched; the state keeps every
  accounting rule, carries its own digest, and follows its predecessor in sequence and hash.\<close>

theorem built_state_conserves_value:
  assumes "BuildState binding bs previous = Inr s"
  shows "totalPotFromSlices (cs_PotSlices s)
        + (\<Sum>c\<leftarrow>cs_StackClaims s. sc_AmountSats c + sc_ReservedFeeSats c)
      = (\<Sum>b\<leftarrow>bs. pb_StackSats b + pb_ReservedFeeSats b + pb_TotalContributionSats b)
    \<and> map sc_PlayerID (cs_StackClaims s) = map pb_PlayerID bs
    \<and> map sc_AmountSats (cs_StackClaims s)
      = map (\<lambda>b. pb_StackSats b + max 0 (pb_TotalContributionSats b - matched_cap (map slice_participant bs))) bs
    \<and> ValidateState s = Inr () \<and> cs_StateHash s = HashCustodyState s
    \<and> cs_CustodySeq s = nextCustodySeq previous \<and> cs_PrevStateHash s = previousStateHash previous"
proof -
  obtain d where d: "derives bs d" "balances_rules bs" "sb_TableID binding \<noteq> []"
    and s: "s = (let state = state_of binding (map (claim_of (pd_UnmatchedContributionSats d)) bs) (pd_Slices d) previous
          in state\<lparr>cs_StateHash := HashCustodyState state\<rparr>)"
    using build_stateE [OF assms] .
  have fields: "cs_PotSlices s = pd_Slices d"
    "cs_StackClaims s = map (claim_of (pd_UnmatchedContributionSats d)) bs"
    "cs_CustodySeq s = nextCustodySeq previous" "cs_PrevStateHash s = previousStateHash previous"
    by (simp_all add: s Let_def state_of_def)
  have "map sc_AmountSats (cs_StackClaims s)
      = map (\<lambda>b. pb_StackSats b + max 0 (pb_TotalContributionSats b - level_of bs)) bs"
    by (auto simp: fields claim_of_def derived_unmatched [OF d(1)])
  moreover have "map sc_PlayerID (cs_StackClaims s) = map pb_PlayerID bs"
    by (simp add: fields claim_of_def)
  ultimately show ?thesis
    using derived_value [OF d(1)] build_state_rules [OF assms] fields(3,4)
    by (simp add: fields(1,2) balance_value_def validate_state_rules)
qed

definition demo_balances :: "PlayerBalance list" where
  "demo_balances =
     [\<lparr>pb_AllIn = False, pb_Folded = False, pb_PlayerID = ''a'', pb_ReservedFeeSats = 5,
       pb_RoundContributionSats = 40, pb_SeatIndex = 0, pb_StackSats = 900, pb_Status = ''active'',
       pb_TotalContributionSats = 100, pb_VTXORefs = []\<rparr>,
      \<lparr>pb_AllIn = True, pb_Folded = False, pb_PlayerID = ''b'', pb_ReservedFeeSats = 5,
       pb_RoundContributionSats = 0, pb_SeatIndex = 1, pb_StackSats = 0, pb_Status = ''all-in'',
       pb_TotalContributionSats = 70, pb_VTXORefs = []\<rparr>]"

definition demo_binding :: StateBinding where
  "demo_binding = \<lparr>sb_ActionDeadlineAt = [], sb_ActingPlayerID = ''a'', sb_ChallengeAnchor = [],
     sb_CreatedAt = [], sb_DecisionIndex = 3, sb_Epoch = 0, sb_HandID = ''h'', sb_HandNumber = 1,
     sb_LegalActionsHash = [], sb_PublicStateHash = [], sb_TableID = ''t'',
     sb_TimeoutPolicy = TimeoutPolicyAutoFold, sb_TranscriptRoot = []\<rparr>"

lemma demo_balances_rules: "balances_rules demo_balances"
  by code_simp

theorem built_state_conserves_value_witness:
  "\<exists>s. BuildState demo_binding demo_balances None = Inr s
     \<and> map sc_AmountSats (cs_StackClaims s) = [930, 0]
     \<and> totalPotFromSlices (cs_PotSlices s)
        + (\<Sum>c\<leftarrow>cs_StackClaims s. sc_AmountSats c + sc_ReservedFeeSats c) = 1080"
proof -
  have "sb_TableID demo_binding \<noteq> []" by (simp add: demo_binding_def)
  then obtain s where s: "BuildState demo_binding demo_balances None = Inr s"
    using build_state_ex demo_balances_rules by blast
  have "matched_cap (map slice_participant demo_balances) = 70" by code_simp
  with built_state_conserves_value [OF s] s show ?thesis by (simp add: demo_balances_def)
qed

end
