(* ===== verification/Custody_Transitions.thy ===== *)
theory Custody_Transitions
  imports Custody_Accounting
begin

text \<open>
  Transitions between custody states: when the transition built from balances is valid, what a
  validated chain of transitions guarantees, and which witnesses a validated transition may carry.
\<close>

section \<open>Reading a successful validation\<close>

lemmas transition_checks =
  check_previous_def check_links_def check_settlement_witness_def check_recovery_witness_def
  check_challenge_bundle_def check_challenge_witness_def check_exit_witness_def

lemma validate_transitionD:
  assumes "ValidateTransition node_json previous t = Inr ()"
  shows "ct_TableID t \<noteq> []" "state_rules (ct_NextState t)"
    "previous = Some p \<Longrightarrow> ct_PrevStateHash t = cs_StateHash p \<and> cs_CustodySeq p < ct_CustodySeq t
       \<and> cs_TableID (ct_NextState t) = cs_TableID p"
    "ct_NextStateHash t = cs_StateHash (ct_NextState t)" "cs_TableID (ct_NextState t) = ct_TableID t"
    "cs_PrevStateHash (ct_NextState t) = ct_PrevStateHash t"
    "cs_CustodySeq (ct_NextState t) = ct_CustodySeq t"
    "count_witnesses (ct_Proof t) \<le> 1"
    "cp_TransitionHash (ct_Proof t) \<noteq> [] \<Longrightarrow> cp_TransitionHash (ct_Proof t) = HashCustodyTransition node_json t"
  using assms
  by (auto simp: ValidateTransition_def validate_state_rules check_previous_def check_links_def Let_def
      split: option.splits)

lemma scan_broadcast_ok:
  "scan_broadcast txs seen = Inr out \<longleftrightarrow>
     list_all (\<lambda>tx. et_TransactionID tx \<noteq> [] \<and> et_TransactionHex tx \<noteq> []) txs
     \<and> distinct (map et_TransactionID txs) \<and> et_TransactionID ` set txs \<inter> set seen = {}
     \<and> out = rev (map et_TransactionID txs) @ seen"
  by (induction txs arbitrary: seen) auto

lemma validate_recovery:
  assumes "ValidateTransition node_json previous t = Inr ()" "cp_RecoveryWitness (ct_Proof t) = Some w"
  shows "kind_in (ct_Kind t) [TransitionKindTimeout, TransitionKindShowdownPayout]
    \<and> rw_BundleHash w \<noteq> [] \<and> rw_RecoveryTxID w \<noteq> [] \<and> rw_BroadcastTxIDs w \<noteq> [] \<and> no_ark_ids t"
  using assms by (simp add: ValidateTransition_def check_recovery_witness_def Let_def)

lemma validate_challenge:
  assumes "ValidateTransition node_json previous t = Inr ()" "cp_ChallengeWitness (ct_Proof t) = Some w"
  shows "kind_in (ct_Kind t) [TransitionKindAction, TransitionKindTimeout,
        TransitionKindTurnChallengeOpen, TransitionKindTurnChallengeEscape]
    \<and> no_ark_ids t
    \<and> (\<exists>b. cp_ChallengeBundle (ct_Proof t) = Some b \<and> cb_SourceRefs b \<noteq> [] \<and> cb_AuthorizedOutputs b \<noteq> []
         \<and> (cb_BundleHash b = [] \<or> cb_BundleHash b = cw_BundleHash w \<and> cw_BundleHash w = HashCustodyChallengeBundle b))"
  using assms
  by (auto simp: ValidateTransition_def check_challenge_witness_def check_challenge_bundle_def Let_def)

lemma validate_exit:
  assumes "ValidateTransition node_json previous t = Inr ()" "cp_ExitWitness (ct_Proof t) = Some w"
  shows "kind_in (ct_Kind t) [TransitionKindEmergencyExit]
    \<and> ew_BroadcastTransactions w \<noteq> []
    \<and> distinct (map et_TransactionID
         (ew_BroadcastTransactions w @ (case ew_SweepTransaction w of None \<Rightarrow> [] | Some x \<Rightarrow> [x])))"
proof -
  have checks: "first_error (check_exit_witness t) = Inr ()"
    using assms(1) by (simp add: ValidateTransition_def)
  then obtain seen where seen: "scan_broadcast (ew_BroadcastTransactions w) [] = Inr seen"
    using assms(2) by (auto simp: check_exit_witness_def split: sum.splits)
  then have "distinct (map et_TransactionID (ew_BroadcastTransactions w))
      \<and> seen = rev (map et_TransactionID (ew_BroadcastTransactions w))"
    by (simp add: scan_broadcast_ok)
  with checks assms(2) seen show ?thesis
    by (auto simp: check_exit_witness_def split: option.splits)
qed

section \<open>Chains of transitions\<close>

text \<open>Transitions accepted one after the other, each against the state the one before it led to.\<close>

fun accepted_chain :: "(TxTreeNode \<Rightarrow> json) \<Rightarrow> CustodyState option \<Rightarrow> CustodyTransition list \<Rightarrow> bool" where
  "accepted_chain node_json previous [] = True"
| "accepted_chain node_json previous (t # ts) =
     (ValidateTransition node_json previous t = Inr () \<and> accepted_chain node_json (Some (ct_NextState t)) ts)"

lemma accepted_chain_step:
  "accepted_chain node_json previous ts \<Longrightarrow> Suc i < length ts \<Longrightarrow>
   ValidateTransition node_json (Some (ct_NextState (ts ! i))) (ts ! Suc i) = Inr ()"
proof (induction ts arbitrary: previous i)
  case (Cons t ts)
  then show ?case by (cases i; cases ts) auto
qed simp

lemma accepted_chain_later:
  assumes "accepted_chain node_json previous ts"
  shows "i < j \<Longrightarrow> j < length ts \<Longrightarrow>
    ct_CustodySeq (ts ! i) < ct_CustodySeq (ts ! j) \<and> ct_TableID (ts ! j) = ct_TableID (ts ! i)"
proof (induction j)
  case (Suc j)
  have step: "ValidateTransition node_json (Some (ct_NextState (ts ! j))) (ts ! Suc j) = Inr ()"
    using accepted_chain_step [OF assms] Suc.prems by simp
  have "\<exists>p. ValidateTransition node_json p (ts ! j) = Inr ()"
    using assms Suc.prems(2)
  proof (induction ts arbitrary: previous j)
    case (Cons t ts)
    then show ?case by (cases j) auto
  qed simp
  then obtain p where here: "ValidateTransition node_json p (ts ! j) = Inr ()" ..
  have "ct_CustodySeq (ts ! j) < ct_CustodySeq (ts ! Suc j) \<and> ct_TableID (ts ! Suc j) = ct_TableID (ts ! j)"
    using validate_transitionD(3,5) [OF step] validate_transitionD(5,7) [OF here] by simp
  with Suc show ?case by (cases "i = j") auto
qed simp

section \<open>Building transitions\<close>

lemma build_transition_ok:
  "snd (BuildTransition node_json kind binding bs previous action timeout) = Inr ()
     \<longleftrightarrow> sb_TableID binding \<noteq> [] \<and> balances_rules bs
       \<and> (\<forall>p. previous = Some p \<longrightarrow> cs_TableID p = sb_TableID binding)"
proof (cases "BuildState binding bs previous")
  case (Inl e)
  then show ?thesis
    using build_state_ex [of binding bs previous] by (auto simp: BuildTransition_def)
next
  case (Inr s)
  then have ok: "sb_TableID binding \<noteq> []" "balances_rules bs"
    using build_state_ex [of binding bs previous] by blast+
  note fields = build_state_fields [OF Inr]
  define t where "t = the (fst (BuildTransition node_json kind binding bs previous action timeout))"
  have t: "ct_TableID t = sb_TableID binding" "ct_NextState t = s" "ct_PrevStateHash t = cs_PrevStateHash s"
    "ct_CustodySeq t = cs_CustodySeq s" "ct_NextStateHash t = cs_StateHash s"
    "ct_DecisionIndex t = sb_DecisionIndex binding" "ct_ActingPlayerID t = sb_ActingPlayerID binding"
    "ct_ArkIntentID t = []" "ct_ArkTxID t = []"
    and p: "cp_StateHash (ct_Proof t) = cs_StateHash s" "cp_ArkIntentID (ct_Proof t) = []"
    "cp_ArkTxID (ct_Proof t) = []" "cp_SettlementWitness (ct_Proof t) = None"
    "cp_RecoveryWitness (ct_Proof t) = None" "cp_ChallengeWitness (ct_Proof t) = None"
    "cp_ChallengeBundle (ct_Proof t) = None" "cp_ExitWitness (ct_Proof t) = None"
    "cp_RecoveryBundles (ct_Proof t) = []"
    by (simp_all add: t_def BuildTransition_def Inr Let_def transition_of_def empty_proof_def)
  have sealed: "cp_TransitionHash (ct_Proof t) = HashCustodyTransition node_json t"
    by (simp add: t_def BuildTransition_def Inr Let_def)
  have "snd (BuildTransition node_json kind binding bs previous action timeout)
      = ValidateTransition node_json previous t"
    by (simp add: t_def BuildTransition_def Inr Let_def)
  moreover have "ValidateTransition node_json previous t = Inr ()
      \<longleftrightarrow> (\<forall>p. previous = Some p \<longrightarrow> cs_TableID p = sb_TableID binding)"
    using build_state_rules(1) [OF Inr]
    by (auto simp: ValidateTransition_def validate_state_rules transition_checks t p sealed fields ok Let_def
        count_witnesses_def nextCustodySeq_def previousStateHash_def split: option.splits)
  ultimately show ?thesis using ok by simp
qed

section \<open>Properties of transitions\<close>

text \<open>A transition built by the code is valid whenever it can be: \<open>BuildTransition\<close> returns a
  transition that its own validation accepts exactly when the table has an id, the balances are
  lawful and the previous state, if there is one, belongs to the same table.\<close>

theorem built_transition_validates:
  "(\<exists>t. BuildTransition node_json kind binding bs previous action timeout = (Some t, Inr ())
       \<and> ValidateTransition node_json previous t = Inr ())
     \<longleftrightarrow> sb_TableID binding \<noteq> [] \<and> balances_rules bs
       \<and> (case previous of None \<Rightarrow> True | Some p \<Rightarrow> cs_TableID p = sb_TableID binding)"
proof -
  have "(\<exists>t. BuildTransition node_json kind binding bs previous action timeout = (Some t, Inr ())
       \<and> ValidateTransition node_json previous t = Inr ())
     \<longleftrightarrow> snd (BuildTransition node_json kind binding bs previous action timeout) = Inr ()"
    by (auto simp: BuildTransition_def Let_def split: sum.splits)
  also have "\<dots> \<longleftrightarrow> sb_TableID binding \<noteq> [] \<and> balances_rules bs
       \<and> (case previous of None \<Rightarrow> True | Some p \<Rightarrow> cs_TableID p = sb_TableID binding)"
    by (simp add: build_transition_ok split: option.split)
  finally show ?thesis .
qed


definition demo_transition :: "CustodyState option \<Rightarrow> CustodyTransition" where
  "demo_transition previous = the (fst (BuildTransition (\<lambda>_. JNull) TransitionKindAction demo_binding
     demo_balances previous None None))"

lemma demo_transition_ok:
  assumes "\<And>p. previous = Some p \<Longrightarrow> cs_TableID p = ''t''"
  shows "ValidateTransition (\<lambda>_. JNull) previous (demo_transition previous) = Inr ()"
    and "cs_TableID (ct_NextState (demo_transition previous)) = ''t''"
proof -
  have "\<exists>s. BuildState demo_binding demo_balances previous = Inr s"
    using build_state_ex demo_balances_rules by (simp add: demo_binding_def)
  then obtain s where s: "BuildState demo_binding demo_balances previous = Inr s" ..
  have table: "cs_TableID s = ''t''"
    using build_state_fields(1) [OF s] by (simp add: demo_binding_def)
  have "snd (BuildTransition (\<lambda>_. JNull) TransitionKindAction demo_binding demo_balances previous None None) = Inr ()"
    using build_transition_ok demo_balances_rules assms by (simp add: demo_binding_def)
  then show "ValidateTransition (\<lambda>_. JNull) previous (demo_transition previous) = Inr ()"
    by (simp add: demo_transition_def BuildTransition_def s Let_def)
  show "cs_TableID (ct_NextState (demo_transition previous)) = ''t''"
    by (simp add: demo_transition_def BuildTransition_def transition_of_def s Let_def table)
qed


text \<open>A witness fits its transition. A validated transition carries at most one kind of witness: a
  recovery witness only for a timeout or a showdown payout and without Ark settlement ids; a
  challenge witness only for an action, a timeout or the opening or escape of a turn challenge,
  with a bundle that names sources and outputs and whose hash, when given, is the bundle's digest
  and the one the witness quotes; an exit witness only for an emergency exit, with at least one
  broadcast transaction and no transaction id twice, the sweep included.\<close>

theorem accepted_witness_fits_transition:
  assumes "ValidateTransition node_json previous t = Inr ()"
  shows "count_witnesses (ct_Proof t) \<le> 1
    \<and> (\<forall>w. cp_RecoveryWitness (ct_Proof t) = Some w \<longrightarrow>
        kind_in (ct_Kind t) [TransitionKindTimeout, TransitionKindShowdownPayout]
        \<and> rw_BundleHash w \<noteq> [] \<and> rw_RecoveryTxID w \<noteq> [] \<and> rw_BroadcastTxIDs w \<noteq> [] \<and> no_ark_ids t)
    \<and> (\<forall>w. cp_ChallengeWitness (ct_Proof t) = Some w \<longrightarrow>
        kind_in (ct_Kind t) [TransitionKindAction, TransitionKindTimeout,
          TransitionKindTurnChallengeOpen, TransitionKindTurnChallengeEscape]
        \<and> no_ark_ids t
        \<and> (\<exists>b. cp_ChallengeBundle (ct_Proof t) = Some b \<and> cb_SourceRefs b \<noteq> [] \<and> cb_AuthorizedOutputs b \<noteq> []
            \<and> (cb_BundleHash b = []
               \<or> cb_BundleHash b = cw_BundleHash w \<and> cw_BundleHash w = HashCustodyChallengeBundle b)))
    \<and> (\<forall>w. cp_ExitWitness (ct_Proof t) = Some w \<longrightarrow>
        kind_in (ct_Kind t) [TransitionKindEmergencyExit] \<and> ew_BroadcastTransactions w \<noteq> []
        \<and> distinct (map et_TransactionID (ew_BroadcastTransactions w
             @ (case ew_SweepTransaction w of None \<Rightarrow> [] | Some x \<Rightarrow> [x]))))"
  using validate_transitionD(8) [OF assms] validate_recovery [OF assms] validate_challenge [OF assms]
    validate_exit [OF assms]
  by simp

definition demo_exit :: CustodyTransition where
  "demo_exit = (let t = transition_of TransitionKindEmergencyExit demo_binding
       (demo_custody [demo_claim 0 ''a'' []] []) None None in
     t\<lparr>ct_PrevStateHash := [], ct_CustodySeq := 1, ct_DecisionIndex := 0, ct_ActingPlayerID := [],
       ct_Proof := (ct_Proof t)\<lparr>cp_StateHash := [],
         cp_ExitWitness := Some \<lparr>ew_BroadcastTransactions = [\<lparr>et_TransactionHex = ''00'', et_TransactionID = ''x''\<rparr>],
           ew_SweepTransaction = Some \<lparr>et_TransactionHex = ''01'', et_TransactionID = ''y''\<rparr>\<rparr>\<rparr>\<rparr>)"

lemma demo_exit_ok: "ValidateTransition (\<lambda>_. JNull) None demo_exit = Inr ()"
  by (simp add: ValidateTransition_def transition_checks validate_state_rules state_rules_def claim_rules_def
      paid_into_def demo_exit_def transition_of_def demo_binding_def demo_custody_def demo_claim_def empty_proof_def
      Let_def count_witnesses_def kind_in_def no_ark_ids_def)

theorem accepted_witness_fits_transition_witness:
  "ValidateTransition (\<lambda>_. JNull) None demo_exit = Inr () \<and> count_witnesses (ct_Proof demo_exit) = 1
    \<and> kind_in (ct_Kind demo_exit) [TransitionKindEmergencyExit]"
proof -
  obtain w where "cp_ExitWitness (ct_Proof demo_exit) = Some w"
    by (simp add: demo_exit_def Let_def)
  moreover have "count_witnesses (ct_Proof demo_exit) = 1"
    by (simp add: demo_exit_def Let_def transition_of_def empty_proof_def count_witnesses_def)
  ultimately show ?thesis
    using accepted_witness_fits_transition [OF demo_exit_ok] demo_exit_ok by blast
qed

end
