(* ===== verification/Holdem_Players.thy ===== *)
theory Holdem_Players
  imports Holdem_Payouts
begin

text \<open>Who plays a hand never changes: the players of every reachable state are those of its configuration.\<close>

abbreviation ids_of :: "HoldemState \<Rightarrow> string list" where
  "ids_of s \<equiv> player_ids (st_Players s)"

lemma settled_ids [simp]: "ids_of (settled_state share d winners s) = ids_of s"
  by (simp add: settled_state_def comp_def)

lemma close_ids:
  assumes "running t" "closeActionRoundIfNeeded t i = Inr s'"
  shows "ids_of s' = ids_of t"
proof (cases "length (getActivePlayers t) = 1")
  case True
  then have "settleByFold t = Inr s'" using assms(2) by (simp add: closeActionRoundIfNeeded_def)
  then show ?thesis using settle_by_fold [OF running_settleable [OF assms(1)] True] by auto
next
  case False
  then show ?thesis
    using assms(2) by (auto simp: closeActionRoundIfNeeded_def close_round_def Let_def split: if_splits sum.splits)
qed

lemma action_ids:
  assumes inv: "hand_inv s" and fin: "ApplyHoldemAction s i a = Inr s'"
  shows "ids_of s' = ids_of s"
proof -
  note A = apply_holdem_action_Inr [OF inv fin]
  have ns: "st_Phase s \<noteq> StreetSettled" using A(1) by (auto simp: PhaseAllowsActions_def)
  have run: "running s" "2 \<le> length (getActivePlayers s)" and i: "0 \<le> i" "i < seat_count s"
    and act: "hp_Status (st_Players s ! nat i) = PlayerStatusActive"
    using inv A(2) ns by (auto simp: hand_inv_def turn_ok_def)
  obtain l where close: "closeActionRoundIfNeeded (with_pot (apply_action (s\<lparr>st_ActionLog := l\<rparr>) i a)) i = Inr s'"
    using action_unfold [OF fin] by blast
  let ?t = "apply_action (s\<lparr>st_ActionLog := l\<rparr>) i a"
  have "running (with_pot ?t)"
    using apply_action_running [of "s\<lparr>st_ActionLog := l\<rparr>" i a] run i act A(3) by (simp add: log_running)
  from close_ids [OF this close] show ?thesis
    using apply_action_same [OF i(1), of hp_PlayerID a "s\<lparr>st_ActionLog := l\<rparr>"] i(2) by simp
qed

lemma board_ids:
  assumes inv: "hand_inv s" and fin: "ApplyBoardCards s cards = Inr s'"
  shows "ids_of s' = ids_of s"
proof -
  obtain phase board where deal: "deals s cards = Some (phase, board)"
    using fin deal_board_error [of s cards] by (cases "deals s cards") (auto simp: ApplyBoardCards_def)
  let ?s = "new_street s phase board"
  have "st_Phase s \<noteq> StreetSettled" using deal by (auto simp: deals.simps)
  then have run: "running s" "2 \<le> length (getActivePlayers s)" using inv by (auto simp: hand_inv_def)
  have "board_size phase = Some (length board)" using deals_phase [OF deal] run(1) by (auto simp: running_def)
  note ok = new_street_ok [OF run this]
  obtain t where dealt: "open_street ?s phase = Inr t"
    and t: "(if getPlayersAbleToAct t = [] then closeActionRoundIfNeeded t (st_DealerSeatIndex t) else Inr t) = Inr s'"
    using fin deal by (subst (asm) ApplyBoardCards_def, subst (asm) deal_board_eq) (auto split: sum.splits)
  obtain r where r: "t = ?s\<lparr>st_ActingSeatIndex := r\<rparr>" using open_street_Inr [OF dealt] by blast
  have "ids_of t = ids_of s" by (simp add: r comp_def)
  then show ?thesis
    using t close_ids [of t "st_DealerSeatIndex t" s'] ok(1) by (auto simp: r acting_irrelevant split: if_splits)
qed

lemma step_ids:
  assumes "hand_step s s'" "hand_inv s"
  shows "ids_of s' = ids_of s"
  using assms
proof (induction rule: hand_step.induct)
  case (activate s s')
  then show ?case using open_street_Inr by (fastforce simp: ActivateHoldemHand_def split: if_splits)
next
  case (act s i a s')
  then show ?case using action_ids by blast
next
  case (board s cards s')
  then show ?case using board_ids by blast
next
  case (force_fold s i s')
  let ?t = "s\<lparr>st_Players := update_seat i (\<lambda>p. p\<lparr>hp_Status := PlayerStatusFolded, hp_ActedThisRound := True\<rparr>)
      (st_Players s), st_ActingSeatIndex := None\<rparr>"
  have i: "0 \<le> i" "i < seat_count s" and ns: "st_Phase s \<noteq> StreetSettled" and t: "settleByFold ?t = Inr s'"
    using force_fold(1) by (auto simp: ForceFoldSeat_def Let_def split: if_splits)
  have one: "length (getActivePlayers ?t) = 1" using t by (auto simp: settleByFold_def Let_def split: if_splits)
  then have ne: "getActivePlayers ?t \<noteq> []" by force
  have "running s" using force_fold(2) ns by (simp add: hand_inv_def)
  then have "running ?t" by (rule folded_seat_running(1) [OF _ i ne])
  moreover have "ids_of ?t = ids_of s" using i by (simp add: map_update list_update_same_conv)
  ultimately show ?case using settle_by_fold [OF running_settleable one] t by auto
next
  case (showdown s holeCards s')
  have ph: "st_Phase s = StreetShowdownReveal" and t: "settleShowdown s holeCards = Inr s'"
    using showdown(1) by (auto simp: SettleHoldemShowdown_def split: if_splits)
  note F = showdown_facts [OF showdown(2) ph]
  from settle_showdown_Inr [OF F(1,2) t] show ?case by auto
qed simp_all

lemma reachable_ids:
  assumes "config_ok c" and "reachable c s"
  shows "ids_of s = map hsc_PlayerID (hc_Seats c)"
  using assms(2)
proof (induction rule: reachable.induct)
  case (create s)
  show ?case
  proof (rule create_hand_eq [OF assms(1) create_accepted [OF create]])
    fix sb bb x y
    let ?ps = "posted (st_Players (initial_hand c)) sb x bb y"
    assume b: "0 \<le> sb" "sb < int (length (hc_Seats c))" "0 \<le> bb" "bb < int (length (hc_Seats c))" "sb \<noteq> bb"
      and eq: "CreateHoldemHand c = Inr ((initial_hand c)\<lparr>st_Players := ?ps, st_CurrentBetSats := y,
        st_MinRaiseToSats := y + hc_BigBlindSats c, st_LastFullRaiseSats := hc_BigBlindSats c, st_PotSats := x + y\<rparr>)"
    have "player_ids ?ps = player_ids (st_Players (initial_hand c))"
      using b by (auto intro!: nth_equalityI simp: nth_posted)
    moreover have "player_ids (st_Players (initial_hand c)) = map hsc_PlayerID (hc_Seats c)"
      by (rule map_initial_players) simp
    ultimately show ?thesis using create eq by auto
  qed
next
  case (step s s')
  then show ?case using step_ids [OF step(2)] reachable_inv [OF assms(1) step(1)] by simp
qed

end
