(* ===== verification/Custody_Cover.thy ===== *)
theory Custody_Cover
  imports Turn_Selection Menu_Properties Custody_Transitions Holdem_Players
begin

text \<open>
  The hold'em engine and the custody chain together: every state a hand can reach can be written into a custody
  state, which holds exactly the chips of the hand, and when a player is silent the timeout always has an action
  the engine accepts. \<open>hand_seated\<close> says that the seats of the table are the players a hand was started with, \<open>custody_ready\<close>
  that the chain the table has so far belongs to it.
\<close>

definition hand_seated :: "nativeTableState \<Rightarrow> HoldemHandConfig \<Rightarrow> bool" where
  "hand_seated table c \<longleftrightarrow>
     map se_PlayerID (ts_Seats table) = map hsc_PlayerID (hc_Seats c) \<and> map se_SeatIndex (ts_Seats table) = [0, 1]"

definition custody_ready :: "nativeTableState \<Rightarrow> bool" where
  "custody_ready table \<longleftrightarrow> tc_TableID (ts_Config table) \<noteq> []
     \<and> (case ts_LatestCustodyState table of
          None \<Rightarrow> True
        | Some state \<Rightarrow> cs_TableID state = tc_TableID (ts_Config table)
            \<and> list_all (\<lambda>claim. 0 \<le> sc_ReservedFeeSats claim) (cs_StackClaims state))"

section \<open>The balances of a hand\<close>

definition hand_balance :: "nativeTableState \<Rightarrow> nativeSeatRecord \<Rightarrow> HoldemPlayerState \<Rightarrow> PlayerBalance" where
  "hand_balance table seat player =
     \<lparr>pb_AllIn = (hp_Status player = PlayerStatusAllIn), pb_Folded = (hp_Status player = PlayerStatusFolded),
      pb_PlayerID = se_PlayerID seat, pb_ReservedFeeSats = mget (reserve_by_player table) (se_PlayerID seat),
      pb_RoundContributionSats = hp_RoundContributionSats player, pb_SeatIndex = se_SeatIndex seat,
      pb_StackSats = hp_StackSats player, pb_Status = player_status_str (hp_Status player),
      pb_TotalContributionSats = hp_TotalContributionSats player,
      pb_VTXORefs = firstNonEmptyRefs
        [(case map_of (currentCustodyRefsByPlayer table) (se_PlayerID seat) of None \<Rightarrow> [] | Some refs \<Rightarrow> refs),
         se_FundingRefs seat]\<rparr>"

lemma hand_balance_simps [simp]:
  "pb_PlayerID (hand_balance table seat p) = se_PlayerID seat"
  "pb_Folded (hand_balance table seat p) \<longleftrightarrow> hp_Status p = PlayerStatusFolded"
  "pb_StackSats (hand_balance table seat p) = hp_StackSats p"
  "pb_TotalContributionSats (hand_balance table seat p) = hp_TotalContributionSats p"
  "pb_RoundContributionSats (hand_balance table seat p) = hp_RoundContributionSats p"
  "pb_ReservedFeeSats (hand_balance table seat p) = mget (reserve_by_player table) (se_PlayerID seat)"
  "pb_SeatIndex (hand_balance table seat p) = se_SeatIndex seat"
  by (simp_all add: hand_balance_def)

lemma seatedE:
  assumes "config_ok c" "reachable c hand" "hand_seated table c"
  obtains a b p q where "ts_Seats table = [a, b]" "st_Players hand = [p, q]" "se_SeatIndex a = 0" "se_SeatIndex b = 1"
    "se_PlayerID a = hp_PlayerID p" "se_PlayerID b = hp_PlayerID q"
proof -
  have idx: "map se_SeatIndex (ts_Seats table) = [0, 1]"
    and ids: "map se_PlayerID (ts_Seats table) = player_ids (st_Players hand)"
    using assms(3) reachable_ids [OF assms(1,2)] by (simp_all add: hand_seated_def)
  from idx obtain a b where ab: "ts_Seats table = [a, b]" "se_SeatIndex a = 0" "se_SeatIndex b = 1"
    by (auto simp: map_eq_Cons_conv)
  from ids ab(1) obtain p q where "st_Players hand = [p, q]" "se_PlayerID a = hp_PlayerID p" "se_PlayerID b = hp_PlayerID q"
    by (auto simp: Cons_eq_map_conv)
  with ab that show ?thesis by blast
qed

lemma hand_balances:
  assumes "ts_Seats table = [a, b]" "st_Players hand = [p, q]" "se_SeatIndex a = 0" "se_SeatIndex b = 1"
  shows "custodyBalancesFromHand table (Some hand) = Inr [hand_balance table a p, hand_balance table b q]"
  using assms by (simp add: custodyBalancesFromHand_def balance_in_hand_def go_index_def hand_balance_def)

lemma reserve_nonneg:
  assumes "custody_ready table"
  shows "0 \<le> mget (reserve_by_player table) k"
proof (cases "ts_LatestCustodyState table")
  case (Some state)
  have "list_all (\<lambda>claim. 0 \<le> sc_ReservedFeeSats claim) claims \<Longrightarrow> (\<forall>k. 0 \<le> mget m k) \<Longrightarrow>
      0 \<le> mget (fold (\<lambda>claim m. AList.update (sc_PlayerID claim) (sc_ReservedFeeSats claim) m) claims m) k" for claims m
    by (induction claims arbitrary: m) (auto simp: mget_def update_conv)
  from this [of "cs_StackClaims state" "[]"] show ?thesis
    using assms Some by (simp add: reserve_by_player_def custody_ready_def mget_def)
qed (simp add: reserve_by_player_def mget_def)

lemma level_reached: "level_of bs = 0 \<or> (\<exists>b \<in> set bs. pb_TotalContributionSats b = level_of bs)"
proof -
  let ?S = "insert 0 (set (filter (\<lambda>c. 2 \<le> length (reaching (map slice_participant bs) c))
    (map sp_ContributionSats (map slice_participant bs))))"
  have "level_of bs \<in> ?S" unfolding matched_cap_def by (rule Max_in) simp_all
  then show ?thesis by auto
qed

lemma level_zero:
  assumes "\<forall>b \<in> set bs. pb_TotalContributionSats b = 0"
  shows "level_of bs = 0"
  using level_reached [of bs] assms by auto

lemma hand_balances_rules:
  assumes c: "config_ok c" "reachable c hand" and t: "custody_ready table" "hand_seated table c"
    and bs: "custodyBalancesFromHand table (Some hand) = Inr bs"
  shows "balances_rules bs" and "(\<Sum>b\<leftarrow>bs. pb_StackSats b + pb_TotalContributionSats b) = buy_ins c"
    and "map pb_PlayerID bs = map se_PlayerID (ts_Seats table)"
    and "map pb_ReservedFeeSats bs = map (\<lambda>seat. mget (reserve_by_player table) (se_PlayerID seat)) (ts_Seats table)"
proof -
  obtain a b p q where ab: "ts_Seats table = [a, b]" "st_Players hand = [p, q]" "se_SeatIndex a = 0" "se_SeatIndex b = 1"
    "se_PlayerID a = hp_PlayerID p" "se_PlayerID b = hp_PlayerID q" by (rule seatedE [OF c t(2)])
  have bs_eq: "bs = [hand_balance table a p, hand_balance table b q]" using hand_balances [OF ab(1-4)] bs by simp
  have inv: "hand_inv hand" and total: "chips hand = buy_ins c" using reachable_inv [OF c] by auto
  have ok: "player_ok p" "player_ok q" and seats: "seats_ok hand"
    using inv ab(2) by (auto simp: hand_inv_def running_def settled_def split: if_splits)
  have ids: "hp_PlayerID p \<noteq> []" "hp_PlayerID q \<noteq> []" "hp_PlayerID p \<noteq> hp_PlayerID q"
    using seats ab(2) by (auto simp: seats_ok_def)
  have "level_of bs = 0 \<or> list_ex (\<lambda>b. \<not> pb_Folded b \<and> level_of bs \<le> pb_TotalContributionSats b) bs"
  proof (cases "st_Phase hand = StreetSettled")
    case True
    then have "level_of bs = 0" using inv ab(2) by (intro level_zero) (auto simp: bs_eq hand_inv_def settled_def)
    then show ?thesis ..
  next
    case False
    then have "2 \<le> length (getActivePlayers hand)" using inv by (simp add: hand_inv_def)
    then have "hp_Status p \<noteq> PlayerStatusFolded" "hp_Status q \<noteq> PlayerStatusFolded"
      using ab(2) by (auto simp: getActivePlayers_def split: if_splits)
    then have live: "\<forall>b \<in> set bs. \<not> pb_Folded b" by (simp add: bs_eq)
    from level_reached [of bs] show ?thesis
    proof
      assume "\<exists>b \<in> set bs. pb_TotalContributionSats b = level_of bs"
      then obtain b where "b \<in> set bs" "pb_TotalContributionSats b = level_of bs" by blast
      with live have "list_ex (\<lambda>b. \<not> pb_Folded b \<and> level_of bs \<le> pb_TotalContributionSats b) bs"
        unfolding list_ex_iff by (intro bexI [of _ b]) simp_all
      then show ?thesis ..
    qed simp
  qed
  then show "balances_rules bs"
    using ok ids ab reserve_nonneg [OF t(1)] unfolding balances_rules_def Let_def
    by (auto simp: bs_eq balance_rules_def player_ok_def)
  show "(\<Sum>b\<leftarrow>bs. pb_StackSats b + pb_TotalContributionSats b) = buy_ins c"
    using total ab(2) by (simp add: bs_eq chips_def stacks_def contributions_def)
  show "map pb_PlayerID bs = map se_PlayerID (ts_Seats table)"
    "map pb_ReservedFeeSats bs = map (\<lambda>seat. mget (reserve_by_player table) (se_PlayerID seat)) (ts_Seats table)"
    by (simp_all add: bs_eq ab(1))
qed

section \<open>Transitions built from a hand\<close>

text \<open>Carrying refs forward and sealing change nothing but refs and hashes.\<close>

lemma own_refs: "\<exists>refs. c = c\<lparr>sc_VTXORefs := refs\<rparr>" "\<exists>refs. p = p\<lparr>ps_VTXORefs := refs\<rparr>"
proof -
  have "c = c\<lparr>sc_VTXORefs := sc_VTXORefs c\<rparr>" "p = p\<lparr>ps_VTXORefs := ps_VTXORefs p\<rparr>" by simp_all
  then show "\<exists>refs. c = c\<lparr>sc_VTXORefs := refs\<rparr>" "\<exists>refs. p = p\<lparr>ps_VTXORefs := refs\<rparr>" by blast+
qed

lemma carried_refs:
  "\<exists>refs. carry_claim env table t previous c = c\<lparr>sc_VTXORefs := refs\<rparr>"
  "\<exists>refs. carry_pot env table t previous p = p\<lparr>ps_VTXORefs := refs\<rparr>"
  using own_refs(1) [of c] own_refs(2) [of p] by (auto simp: carry_claim_def carry_pot_def split: option.split)

definition same_money :: "CustodyState \<Rightarrow> CustodyState \<Rightarrow> bool" where
  "same_money s s' \<longleftrightarrow>
     list_all2 (\<lambda>c c'. \<exists>refs. c' = c\<lparr>sc_VTXORefs := refs\<rparr>) (cs_StackClaims s) (cs_StackClaims s')
     \<and> list_all2 (\<lambda>p p'. \<exists>refs. p' = p\<lparr>ps_VTXORefs := refs\<rparr>) (cs_PotSlices s) (cs_PotSlices s')
     \<and> cs_TableID s' = cs_TableID s \<and> cs_ActingPlayerID s' = cs_ActingPlayerID s
     \<and> cs_DecisionIndex s' = cs_DecisionIndex s \<and> cs_CustodySeq s' = cs_CustodySeq s
     \<and> cs_PrevStateHash s' = cs_PrevStateHash s"

lemma list_all2_self: "(\<And>x. R x (f x)) \<Longrightarrow> list_all2 R xs (map f xs)"
  by (induction xs) auto

lemma carried_money: "same_money (ct_NextState t) (ct_NextState (carryForwardUnchangedCustodyRefs env table t))"
proof (cases "ts_LatestCustodyState table")
  case None
  have "list_all2 (\<lambda>c c'. \<exists>refs. c' = c\<lparr>sc_VTXORefs := refs\<rparr>) cs cs" for cs :: "StackClaim list"
    by (rule list_all2_refl) (rule own_refs)
  moreover have "list_all2 (\<lambda>p p'. \<exists>refs. p' = p\<lparr>ps_VTXORefs := refs\<rparr>) ps ps" for ps :: "PotSlice list"
    by (rule list_all2_refl) (rule own_refs)
  ultimately show ?thesis using None by (simp add: same_money_def carryForwardUnchangedCustodyRefs_def)
next
  case (Some previous)
  have "list_all2 (\<lambda>c c'. \<exists>refs. c' = c\<lparr>sc_VTXORefs := refs\<rparr>) cs (map (carry_claim env table t previous) cs)" for cs
    by (rule list_all2_self) (rule carried_refs)
  moreover have "list_all2 (\<lambda>p p'. \<exists>refs. p' = p\<lparr>ps_VTXORefs := refs\<rparr>) ps (map (carry_pot env table t previous) ps)" for ps
    by (rule list_all2_self) (rule carried_refs)
  ultimately show ?thesis using Some by (simp add: same_money_def carryForwardUnchangedCustodyRefs_def)
qed

lemma list_all2_map_eq: "list_all2 R xs ys \<Longrightarrow> (\<And>x y. R x y \<Longrightarrow> f y = f x) \<Longrightarrow> map f ys = map f xs"
  by (induction rule: list_all2_induct) auto

lemma same_money_maps:
  assumes "same_money s s'"
  shows "(\<And>c refs. f (c\<lparr>sc_VTXORefs := refs\<rparr>) = f c) \<Longrightarrow> map f (cs_StackClaims s') = map f (cs_StackClaims s)"
    and "(\<And>p refs. g (p\<lparr>ps_VTXORefs := refs\<rparr>) = g p) \<Longrightarrow> map g (cs_PotSlices s') = map g (cs_PotSlices s)"
proof -
  show "map f (cs_StackClaims s') = map f (cs_StackClaims s)" if "\<And>c refs. f (c\<lparr>sc_VTXORefs := refs\<rparr>) = f c"
    using assms by (auto simp: same_money_def that intro: list_all2_map_eq)
  show "map g (cs_PotSlices s') = map g (cs_PotSlices s)" if "\<And>p refs. g (p\<lparr>ps_VTXORefs := refs\<rparr>) = g p"
    using assms by (auto simp: same_money_def that intro: list_all2_map_eq)
qed

text \<open>The rules of a state are rules on its table id and on lists of ids and amounts.\<close>

definition claim_money where
  "claim_money c = (sc_PlayerID c, sc_AmountSats c, sc_ReservedFeeSats c, sc_RoundContributionSats c, sc_TotalContributionSats c)"

definition slice_money where
  "slice_money p = (ps_CapSats p, ps_TotalSats p, ps_EligiblePlayerIDs p, ps_Contributions p)"

lemma map_eq_list_all: "map f xs = map f ys \<Longrightarrow> (\<And>x. P x = Q (f x)) \<Longrightarrow> list_all P xs = list_all P ys"
  by (metis (mono_tags, lifting) list.pred_cong list.pred_map comp_apply)

lemma state_rules_money:
  assumes claims: "map claim_money (cs_StackClaims s') = map claim_money (cs_StackClaims s)"
    and slices: "map slice_money (cs_PotSlices s') = map slice_money (cs_PotSlices s)"
    and "cs_TableID s' = cs_TableID s" "cs_StateHash s' = HashCustodyState s'" "state_rules s"
  shows "state_rules s'"
proof -
  have ids: "map sc_PlayerID (cs_StackClaims s') = map sc_PlayerID (cs_StackClaims s)"
    using arg_cong [OF claims, of "map fst"] by (simp add: claim_money_def comp_def)
  have players: "sc_PlayerID ` set (cs_StackClaims s') = sc_PlayerID ` set (cs_StackClaims s)"
    using arg_cong [OF ids, of set] by simp
  have paid: "map ps_Contributions (cs_PotSlices s') = map ps_Contributions (cs_PotSlices s)"
    using arg_cong [OF slices, of "map (\<lambda>(_, _, _, x). x)"] by (simp add: slice_money_def comp_def)
  have "paid_into ps k = sum_list (map (paid_by k) (map ps_Contributions ps))" for ps k
    by (simp add: paid_into_def comp_def)
  then have into: "paid_into (cs_PotSlices s') = paid_into (cs_PotSlices s)" using paid by presburger
  have 1: "list_all claim_rules (cs_StackClaims s') = list_all claim_rules (cs_StackClaims s)"
    by (rule map_eq_list_all [OF claims, where Q = "\<lambda>(i, a, r, ro, t). i \<noteq> [] \<and> 0 \<le> a \<and> 0 \<le> r \<and> 0 \<le> ro \<and> ro \<le> t"])
      (simp add: claim_rules_def claim_money_def)
  have 2: "list_all (slice_rules P) (cs_PotSlices s') = list_all (slice_rules P) (cs_PotSlices s)" for P
    by (rule map_eq_list_all [OF slices, where Q = "\<lambda>(cap, t, e, m). 0 \<le> cap \<and> (0 < t \<longrightarrow> e \<noteq> [])
        \<and> (\<forall>(k, v) \<in> set m. 0 \<le> v \<and> k \<in> P) \<and> msum m = t"]) (simp add: slice_rules_def slice_money_def)
  have 3: "list_all (\<lambda>c. f (sc_PlayerID c) \<le> sc_TotalContributionSats c \<and> sc_TotalContributionSats c - f (sc_PlayerID c) \<le> sc_AmountSats c)
      (cs_StackClaims s') = list_all (\<lambda>c. f (sc_PlayerID c) \<le> sc_TotalContributionSats c
        \<and> sc_TotalContributionSats c - f (sc_PlayerID c) \<le> sc_AmountSats c) (cs_StackClaims s)" for f
    by (rule map_eq_list_all [OF claims, where Q = "\<lambda>(i, a, r, ro, t). f i \<le> t \<and> t - f i \<le> a"]) (simp add: claim_money_def)
  have "cs_StackClaims s' = [] \<longleftrightarrow> cs_StackClaims s = []" using ids by (metis map_is_Nil_conv)
  then show ?thesis
    using assms(3-5) unfolding state_rules_def ids players into 1 2 3 by simp
qed

definition no_witness :: "CustodyTransition \<Rightarrow> bool" where
  "no_witness t \<longleftrightarrow> cp_ArkIntentID (ct_Proof t) = [] \<and> cp_ArkTxID (ct_Proof t) = []
     \<and> cp_SettlementWitness (ct_Proof t) = None \<and> cp_RecoveryWitness (ct_Proof t) = None
     \<and> cp_ChallengeWitness (ct_Proof t) = None \<and> cp_ChallengeBundle (ct_Proof t) = None
     \<and> cp_ExitWitness (ct_Proof t) = None \<and> cp_RecoveryBundles (ct_Proof t) = []"

definition resealed :: "mesh_env \<Rightarrow> nativeTableState \<Rightarrow> CustodyTransition \<Rightarrow> CustodyTransition" where
  "resealed env table t =
     (let u = seal_state (carryForwardUnchangedCustodyRefs env table t) in
      u\<lparr>ct_Proof := (ct_Proof u)\<lparr>cp_TransitionHash := HashCustodyTransition (ark_NodeJson (me_Ark env)) u\<rparr>\<rparr>)"

lemma carry_fields [simp]:
  "ct_TableID (carryForwardUnchangedCustodyRefs env table t) = ct_TableID t"
  "ct_PrevStateHash (carryForwardUnchangedCustodyRefs env table t) = ct_PrevStateHash t"
  "ct_CustodySeq (carryForwardUnchangedCustodyRefs env table t) = ct_CustodySeq t"
  "ct_DecisionIndex (carryForwardUnchangedCustodyRefs env table t) = ct_DecisionIndex t"
  "ct_ActingPlayerID (carryForwardUnchangedCustodyRefs env table t) = ct_ActingPlayerID t"
  "ct_Proof (carryForwardUnchangedCustodyRefs env table t) = ct_Proof t"
  by (simp_all add: carryForwardUnchangedCustodyRefs_def split: option.split)

lemma resealed_state: "same_money (ct_NextState t) (ct_NextState (resealed env table t))"
    "cs_StateHash (ct_NextState (resealed env table t)) = HashCustodyState (ct_NextState (resealed env table t))"
  using carried_money [of t env table]
  by (simp_all add: resealed_def seal_state_def Let_def same_money_def)

lemma resealed_fields:
  "ct_NextStateHash (resealed env table t) = cs_StateHash (ct_NextState (resealed env table t))"
  "ct_TableID (resealed env table t) = ct_TableID t" "ct_PrevStateHash (resealed env table t) = ct_PrevStateHash t"
  "ct_CustodySeq (resealed env table t) = ct_CustodySeq t" "ct_DecisionIndex (resealed env table t) = ct_DecisionIndex t"
  "ct_ActingPlayerID (resealed env table t) = ct_ActingPlayerID t"
  "cp_StateHash (ct_Proof (resealed env table t)) = ct_NextStateHash (resealed env table t)"
  "no_witness (resealed env table t) \<longleftrightarrow> no_witness t"
  by (simp_all add: resealed_def seal_state_def Let_def no_witness_def)

lemma resealed_hash:
  "cp_TransitionHash (ct_Proof (resealed env table t)) = HashCustodyTransition (ark_NodeJson (me_Ark env)) (resealed env table t)"
  by (simp add: resealed_def Let_def)

lemma resealed_valid:
  assumes valid: "ValidateTransition (ark_NodeJson (me_Ark env)) previous t = Inr ()" and "no_witness t"
  shows "ValidateTransition (ark_NodeJson (me_Ark env)) previous (resealed env table t) = Inr ()"
proof -
  let ?r = "resealed env table t"
  have "state_rules (ct_NextState t)" using valid by (simp add: ValidateTransition_def validate_state_rules)
  moreover have money: "same_money (ct_NextState t) (ct_NextState ?r)" by (rule resealed_state)
  moreover have "map claim_money (cs_StackClaims (ct_NextState ?r)) = map claim_money (cs_StackClaims (ct_NextState t))"
    by (rule same_money_maps(1) [OF money]) (simp add: claim_money_def)
  moreover have "map slice_money (cs_PotSlices (ct_NextState ?r)) = map slice_money (cs_PotSlices (ct_NextState t))"
    by (rule same_money_maps(2) [OF money]) (simp add: slice_money_def)
  moreover have "cs_TableID (ct_NextState ?r) = cs_TableID (ct_NextState t)" using money by (simp add: same_money_def)
  ultimately have rules: "state_rules (ct_NextState ?r)" using state_rules_money resealed_state(2) by blast
  have none: "no_witness ?r" using assms(2) by (simp add: resealed_fields)
  then have count: "count_witnesses (ct_Proof ?r) = 0" by (simp add: no_witness_def count_witnesses_def)
  have was: "first_error (check_previous previous t) = Inr ()" "first_error (check_links t) = Inr ()" "ct_TableID t \<noteq> []"
    using valid unfolding ValidateTransition_def by simp_all
  have state: "cs_TableID (ct_NextState ?r) = cs_TableID (ct_NextState t)"
    "cs_ActingPlayerID (ct_NextState ?r) = cs_ActingPlayerID (ct_NextState t)"
    "cs_DecisionIndex (ct_NextState ?r) = cs_DecisionIndex (ct_NextState t)"
    "cs_CustodySeq (ct_NextState ?r) = cs_CustodySeq (ct_NextState t)"
    "cs_PrevStateHash (ct_NextState ?r) = cs_PrevStateHash (ct_NextState t)"
    using money by (simp_all add: same_money_def)
  have "first_error (check_previous previous ?r) = Inr ()"
    using was(1) by (cases previous) (simp_all add: check_previous_def resealed_fields state)
  moreover have "first_error (check_links ?r) = Inr ()"
    using was(2) none count by (simp add: check_links_def resealed_fields state no_witness_def Let_def)
  moreover have "ct_TableID ?r \<noteq> []" using was(3) by (simp add: resealed_fields)
  moreover note none
  ultimately show ?thesis
    using rules by (simp add: ValidateTransition_def validate_state_rules resealed_hash no_witness_def
        check_settlement_witness_def check_recovery_witness_def check_challenge_bundle_def check_challenge_witness_def
        check_exit_witness_def Let_def)
qed

lemma built_ok:
  assumes "sb_TableID binding \<noteq> []" "balances_rules bs" "\<forall>p. previous = Some p \<longrightarrow> cs_TableID p = sb_TableID binding"
  obtains t where "built env kind binding bs previous action timeout = Inr t"
    "BuildState binding bs previous = Inr (ct_NextState t)" "no_witness t" "ct_Kind t = kind" "ct_TimeoutResolution t = timeout"
    "ValidateTransition (ark_NodeJson (me_Ark env)) previous t = Inr ()"
proof -
  obtain s where s: "BuildState binding bs previous = Inr s" using build_state_ex assms(1,2) by blast
  obtain t where t: "BuildTransition (ark_NodeJson (me_Ark env)) kind binding bs previous action timeout
      = (Some t, ValidateTransition (ark_NodeJson (me_Ark env)) previous t)" "ct_NextState t = s" "no_witness t"
    "ct_Kind t = kind" "ct_TimeoutResolution t = timeout"
    using s by (simp add: BuildTransition_def Let_def transition_of_def empty_proof_def no_witness_def)
  have valid: "ValidateTransition (ark_NodeJson (me_Ark env)) previous t = Inr ()"
    using build_transition_ok [of "ark_NodeJson (me_Ark env)" kind binding bs previous action timeout] assms t(1) by simp
  have "built env kind binding bs previous action timeout = Inr t"
    using t(1) valid by (simp add: built_def)
  then show ?thesis using that [of t] s t valid by simp
qed

lemma binding_table [simp]: "sb_TableID (custodyStateBinding env table kind hand overrides) = tc_TableID (ts_Config table)"
  by (simp add: custodyStateBinding_def Let_def split: prod.split)

text \<open>What a state built from balances holds, summed up.\<close>

lemma built_state_money:
  assumes "BuildState binding bs previous = Inr s"
  shows "map sc_PlayerID (cs_StackClaims s) = map pb_PlayerID bs"
    and "map sc_ReservedFeeSats (cs_StackClaims s) = map pb_ReservedFeeSats bs"
    and "(\<Sum>c\<leftarrow>cs_StackClaims s. sc_AmountSats c) + (\<Sum>p\<leftarrow>cs_PotSlices s. ps_TotalSats p)
      = (\<Sum>b\<leftarrow>bs. pb_StackSats b + pb_TotalContributionSats b)"
proof -
  obtain d where d: "derives bs d"
    and s: "s = (let state = state_of binding (map (claim_of (pd_UnmatchedContributionSats d)) bs) (pd_Slices d) previous
          in state\<lparr>cs_StateHash := HashCustodyState state\<rparr>)"
    using build_stateE [OF assms] .
  have claims: "cs_StackClaims s = map (claim_of (pd_UnmatchedContributionSats d)) bs" "cs_PotSlices s = pd_Slices d"
    by (simp_all add: s Let_def state_of_def)
  show "map sc_PlayerID (cs_StackClaims s) = map pb_PlayerID bs"
    "map sc_ReservedFeeSats (cs_StackClaims s) = map pb_ReservedFeeSats bs"
    by (simp_all add: claims claim_of_def)
  show "(\<Sum>c\<leftarrow>cs_StackClaims s. sc_AmountSats c) + (\<Sum>p\<leftarrow>cs_PotSlices s. ps_TotalSats p)
      = (\<Sum>b\<leftarrow>bs. pb_StackSats b + pb_TotalContributionSats b)"
    using derived_value [OF d]
    by (simp add: claims totalPotFromSlices_def comp_def claim_of_def balance_value_def sum_list_addf)
qed

section \<open>Custody covers every hand\<close>

lemma hand_transition:
  assumes c: "config_ok c" "reachable c hand" and t: "custody_ready table" "hand_seated table c"
    and mock: "me_UseMockSettlement env"
  obtains t0 bs where "custodyBalancesFromHand table (Some hand) = Inr bs" "balances_rules bs"
    "ct_Kind t0 = kind" "ct_TimeoutResolution t0 = timeout"
    "BuildState (custodyStateBinding env table kind (Some hand) overrides) bs (ts_LatestCustodyState table) = Inr (ct_NextState t0)"
    "buildCustodyTransitionWithOverrides env table kind (Some hand) action timeout overrides = Inr (resealed env table t0)"
    "ValidateTransition (ark_NodeJson (me_Ark env)) (ts_LatestCustodyState table) (resealed env table t0) = Inr ()"
proof -
  obtain bs where bs: "custodyBalancesFromHand table (Some hand) = Inr bs"
    using hand_balances by (metis seatedE [OF c t(2)])
  note rules = hand_balances_rules [OF c t bs]
  let ?descriptor = "map_option (\<lambda>a. \<lparr>ad_TotalSats = ac_TotalSats a, ad_Type = action_type_str (ac_Type a)\<rparr>) action"
  let ?binding = "custodyStateBinding env table kind (Some hand) overrides"
  have ready: "sb_TableID ?binding \<noteq> []"
    "\<forall>p. ts_LatestCustodyState table = Some p \<longrightarrow> cs_TableID p = sb_TableID ?binding"
    using t(1) by (auto simp: custody_ready_def)
  obtain t0 where t0: "built env kind ?binding bs (ts_LatestCustodyState table) ?descriptor timeout = Inr t0"
      "BuildState ?binding bs (ts_LatestCustodyState table) = Inr (ct_NextState t0)"
      "no_witness t0" "ct_Kind t0 = kind" "ct_TimeoutResolution t0 = timeout"
      "ValidateTransition (ark_NodeJson (me_Ark env)) (ts_LatestCustodyState table) t0 = Inr ()"
    by (rule built_ok [OF ready(1) rules(1) ready(2)])
  have "buildCustodyTransitionWithOverrides env table kind (Some hand) action timeout overrides = Inr (resealed env table t0)"
    using mock by (simp add: buildCustodyTransitionWithOverrides_def bs t0(1) applyRealCustodyFeeReserve_def resealed_def Let_def)
  then show ?thesis using that [OF bs rules(1) t0(4,5,2)] resealed_valid [OF t0(6,3)] by blast
qed

lemma resealed_kind [simp]:
  "ct_Kind (resealed env table t) = ct_Kind t" "ct_TimeoutResolution (resealed env table t) = ct_TimeoutResolution t"
  by (simp_all add: resealed_def seal_state_def carryForwardUnchangedCustodyRefs_def Let_def split: option.split)

lemma custody_cover:
  assumes "config_ok c" and "reachable c hand" and "hand_seated table c" and "custody_ready table"
    and "me_UseMockSettlement env"
  shows "\<exists>t. buildCustodyTransitionWithOverrides env table kind (Some hand) action timeout overrides = Inr t
    \<and> ValidateTransition (ark_NodeJson (me_Ark env)) (ts_LatestCustodyState table) t = Inr ()
    \<and> map sc_PlayerID (cs_StackClaims (ct_NextState t)) = map se_PlayerID (ts_Seats table)
    \<and> map sc_ReservedFeeSats (cs_StackClaims (ct_NextState t))
        = map (\<lambda>seat. mget (reserve_by_player table) (se_PlayerID seat)) (ts_Seats table)
    \<and> (\<Sum>claim\<leftarrow>cs_StackClaims (ct_NextState t). sc_AmountSats claim) + (\<Sum>pot\<leftarrow>cs_PotSlices (ct_NextState t). ps_TotalSats pot)
        = (\<Sum>seat\<leftarrow>hc_Seats c. hsc_StackSats seat)
    \<and> ct_Kind t = kind \<and> ct_TimeoutResolution t = timeout"
proof -
  obtain t0 bs where t: "custodyBalancesFromHand table (Some hand) = Inr bs" "balances_rules bs"
    "ct_Kind t0 = kind" "ct_TimeoutResolution t0 = timeout"
    "BuildState (custodyStateBinding env table kind (Some hand) overrides) bs (ts_LatestCustodyState table) = Inr (ct_NextState t0)"
    "buildCustodyTransitionWithOverrides env table kind (Some hand) action timeout overrides = Inr (resealed env table t0)"
    "ValidateTransition (ark_NodeJson (me_Ark env)) (ts_LatestCustodyState table) (resealed env table t0) = Inr ()"
    by (rule hand_transition [OF assms(1,2,4,3,5)])
  note rules = hand_balances_rules [OF assms(1,2,4,3) t(1)] and money = built_state_money [OF t(5)]
  have same: "same_money (ct_NextState t0) (ct_NextState (resealed env table t0))" by (rule resealed_state)
  let ?s = "ct_NextState (resealed env table t0)"
  have ids: "map sc_PlayerID (cs_StackClaims ?s) = map se_PlayerID (ts_Seats table)"
    unfolding same_money_maps(1) [OF same, of sc_PlayerID, simplified] money(1) by (rule rules(3))
  have fees: "map sc_ReservedFeeSats (cs_StackClaims ?s)
      = map (\<lambda>seat. mget (reserve_by_player table) (se_PlayerID seat)) (ts_Seats table)"
    unfolding same_money_maps(1) [OF same, of sc_ReservedFeeSats, simplified] money(2) by (rule rules(4))
  have chips: "(\<Sum>claim\<leftarrow>cs_StackClaims ?s. sc_AmountSats claim) + (\<Sum>pot\<leftarrow>cs_PotSlices ?s. ps_TotalSats pot)
      = (\<Sum>seat\<leftarrow>hc_Seats c. hsc_StackSats seat)"
    unfolding same_money_maps(1) [OF same, of sc_AmountSats, simplified]
      same_money_maps(2) [OF same, of ps_TotalSats, simplified] money(3) rules(2) by (rule buy_ins_def)
  have "ct_Kind (resealed env table t0) = kind" "ct_TimeoutResolution (resealed env table t0) = timeout" using t(3,4) by simp_all
  with t(6,7) ids fees chips show ?thesis by blast
qed


section \<open>A silent player\<close>

lemma legal_types:
  assumes "PhaseAllowsActions (st_Phase s)" "0 \<le> i" "i < seat_count s" "hp_Status (st_Players s ! nat i) = PlayerStatusActive"
  shows "map la_Type (GetLegalActions s (Some i))
      = plain_kinds s (st_Players s ! nat i) @ map fst (sized_kinds s i (st_Players s ! nat i))"
    and "set (map fst (sized_kinds s i (st_Players s ! nat i))) \<subseteq> {ActionBet, ActionRaise}"
  unfolding legal_shape [OF assms] by (auto simp: plain_action_def sized_action_def sized_kinds_def split_beta comp_def)

lemma plain_listed:
  assumes "config_ok c" "reachable c s" "st_ActingSeatIndex s = Some i" "k \<in> {ActionFold, ActionCheck, ActionCall}"
  shows "is_ok (ApplyHoldemAction s i (plain_act k)) \<longleftrightarrow> k \<in> set (plain_kinds s (st_Players s ! nat i))"
proof -
  note turn = turn_facts [OF assms(1-3)]
  have "k \<in> set (map la_Type (GetLegalActions s (Some i))) \<longleftrightarrow> k \<in> set (plain_kinds s (st_Players s ! nat i))"
    using legal_types [OF turn] assms(4) by auto
  moreover have "is_ok (ApplyHoldemAction s i (plain_act k))"
    if "k \<in> set (plain_kinds s (st_Players s ! nat i))"
    using plain_accepted [OF assms(1-3) that] by (simp add: plain_act_def menu_option_def)
  moreover have "k \<in> set (map la_Type (GetLegalActions s (Some i)))" if "is_ok (ApplyHoldemAction s i (plain_act k))"
    using accepted_iff_listed [OF assms(1,2) turn(1), of i "plain_act k"] that by (auto simp: plain_act_def)
  ultimately show ?thesis by blast
qed

text \<open>The action of a timeout is accepted unless the policy folds a hand that may check.\<close>

lemma timeout_act_eq:
  assumes "config_ok c" "reachable c s" "st_ActingSeatIndex s = Some i"
  shows "timeout_act (turn_timeout_resolution policy table s i) = plain_act
      (if timeout_policy_str policy = ''auto-check-or-fold'' \<and> st_CurrentBetSats s \<le> hp_RoundContributionSats (st_Players s ! nat i)
       then ActionCheck else ActionFold)"
proof -
  let ?p = "st_Players s ! nat i"
  note turn = turn_facts [OF assms]
  have types: "map (\<lambda>l. action_type_str (la_Type l)) (GetLegalActions s (st_ActingSeatIndex s))
      = map action_type_str (plain_kinds s ?p @ map fst (sized_kinds s i ?p))"
    using arg_cong [OF legal_types(1) [OF turn], of "map action_type_str"] assms(3) by (simp add: comp_def)
  have bets: "''check'' \<notin> set (map action_type_str (map fst (sized_kinds s i ?p)))"
    using legal_types(2) [OF turn] by (auto dest!: subsetD)
  have check: "list_ex (\<lambda>t. t = ''check'') (map (\<lambda>l. action_type_str (la_Type l)) (GetLegalActions s (st_ActingSeatIndex s)))
      \<longleftrightarrow> st_CurrentBetSats s \<le> hp_RoundContributionSats ?p"
    unfolding types map_append list_ex_append using bets by (auto simp: plain_kinds_def list_ex_iff)
  show ?thesis
    unfolding turn_timeout_resolution_def BuildTimeoutResolution_def Let_def check by (simp add: timeout_act_def)
qed

lemma timeout_act_accepted:
  assumes "config_ok c" "reachable c s" "st_ActingSeatIndex s = Some i"
  shows "is_ok (ApplyHoldemAction s i (timeout_act (turn_timeout_resolution policy table s i))) \<longleftrightarrow>
    timeout_policy_str policy = ''auto-check-or-fold'' \<or> hp_RoundContributionSats (st_Players s ! nat i) < st_CurrentBetSats s"
  unfolding timeout_act_eq [OF assms]
  using plain_listed [OF assms, of ActionCheck] plain_listed [OF assms, of ActionFold] by (auto simp: plain_kinds_def)


end
