(* ===== verification/Custody_Balance.thy ===== *)
theory Custody_Balance
  imports Custody_Plan
begin

text \<open>
  The settlement plan of a transition moves exactly the money that the two custody states say: what the batch
  takes in and does not pay out is the difference of their values, and it spends outputs of the previous state only.
\<close>

section \<open>Values\<close>

definition custody_value :: "CustodyState \<Rightarrow> int" where
  "custody_value s = (\<Sum>c\<leftarrow>cs_StackClaims s. stackClaimRefAmount c) + (\<Sum>p\<leftarrow>cs_PotSlices s. ps_TotalSats p)"

abbreviation refs_value :: "VTXORef list \<Rightarrow> int" where
  "refs_value refs \<equiv> (\<Sum>r\<leftarrow>refs. vr_AmountSats r)"

definition custody_refs :: "CustodyState \<Rightarrow> VTXORef list" where
  "custody_refs s = concat (map sc_VTXORefs (cs_StackClaims s)) @ concat (map ps_VTXORefs (cs_PotSlices s))"

text \<open>A state whose money is there: every claim and every pot is backed by outputs of its amount.\<close>

definition backed :: "CustodyState \<Rightarrow> bool" where
  "backed s \<longleftrightarrow>
     list_all (\<lambda>c. refs_value (sc_VTXORefs c) = stackClaimRefAmount c) (cs_StackClaims s)
     \<and> list_all (\<lambda>p. refs_value (ps_VTXORefs p) = ps_TotalSats p) (cs_PotSlices s)
     \<and> distinct (map sc_PlayerID (cs_StackClaims s)) \<and> distinct (map ps_PotID (cs_PotSlices s))"

section \<open>Lookups by key\<close>

abbreviation keyed :: "('a \<Rightarrow> 'k) \<Rightarrow> 'a list \<Rightarrow> ('k \<times> 'a) list" where
  "keyed k xs \<equiv> map (\<lambda>x. (k x, x)) xs"

lemma update_absent: "k \<notin> fst ` set m \<Longrightarrow> AList.update k v m = m @ [(k, v)]"
  by (induction m) auto

lemma fold_update_distinct:
  "distinct (map k xs) \<Longrightarrow> k ` set xs \<inter> fst ` set m = {} \<Longrightarrow>
     fold (\<lambda>x m. AList.update (k x) (v x) m) xs m = m @ map (\<lambda>x. (k x, v x)) xs"
proof (induction xs arbitrary: m)
  case (Cons x xs)
  then have "AList.update (k x) (v x) m = m @ [(k x, v x)]" by (intro update_absent) auto
  moreover have "k ` set xs \<inter> fst ` set (m @ [(k x, v x)]) = {}" using Cons.prems by auto
  ultimately show ?case using Cons by simp
qed simp

lemma keyed_lookup: "distinct (map k xs) \<Longrightarrow> x \<in> set xs \<Longrightarrow> map_of (keyed k xs) (k x) = Some x"
  by (intro map_of_is_SomeI) (auto simp: comp_def)

lemma keyed_SomeD: "map_of (keyed k xs) i = Some x \<Longrightarrow> x \<in> set xs \<and> k x = i"
  using map_of_SomeD [of "keyed k xs" i x] by auto

text \<open>Summing over the old entries of the new keys and over the entries that are gone is summing over the old entries.\<close>

lemma sum_keyed:
  fixes F :: "'a \<Rightarrow> 'b::comm_monoid_add" and l :: "'c \<Rightarrow> 'k"
  assumes "distinct (map k xs)" "distinct (map l ys)"
  shows "(\<Sum>y\<leftarrow>ys. case map_of (keyed k xs) (l y) of None \<Rightarrow> 0 | Some x \<Rightarrow> F x)
      + (\<Sum>x\<leftarrow>filter (\<lambda>x. k x \<notin> l ` set ys) xs. F x) = (\<Sum>x\<leftarrow>xs. F x)"
proof -
  define G where "G i = (case map_of (keyed k xs) i of None \<Rightarrow> 0 | Some x \<Rightarrow> F x)" for i
  have entries: "(\<Sum>x\<leftarrow>zs. F x) = sum G (k ` set zs)" if "distinct (map k zs)" "set zs \<subseteq> set xs" for zs
  proof -
    have "F x = G (k x)" if "x \<in> set zs" for x
      using keyed_lookup [OF assms(1)] \<open>set zs \<subseteq> set xs\<close> that by (auto simp: G_def)
    then have "(\<Sum>x\<leftarrow>zs. F x) = (\<Sum>i\<leftarrow>map k zs. G i)" by (simp add: comp_def cong: map_cong)
    also have "\<dots> = sum G (set (map k zs))" by (rule sum_list_distinct_conv_sum_set [OF that(1)])
    finally show ?thesis by simp
  qed
  have "(\<Sum>y\<leftarrow>ys. G (l y)) = (\<Sum>i\<leftarrow>map l ys. G i)" by (simp add: comp_def)
  also have "\<dots> = sum G (set (map l ys))" by (rule sum_list_distinct_conv_sum_set [OF assms(2)])
  also have "\<dots> = sum G (l ` set ys)" by simp
  also have "\<dots> = sum G (k ` set xs \<inter> l ` set ys)"
    by (rule sum.mono_neutral_right) (auto simp: G_def split: option.split dest!: keyed_SomeD intro: rev_image_eqI)
  finally have kept: "(\<Sum>y\<leftarrow>ys. G (l y)) = sum G (k ` set xs \<inter> l ` set ys)" .
  have gone: "(\<Sum>x\<leftarrow>filter (\<lambda>x. k x \<notin> l ` set ys) xs. F x) = sum G (k ` set xs - l ` set ys)"
    using assms(1) by (subst entries) (auto intro: distinct_map_filter arg_cong [where f = "sum G"])
  have "sum G (k ` set xs \<inter> l ` set ys) + sum G (k ` set xs - l ` set ys) = sum G (k ` set xs)"
    by (subst sum.union_disjoint [symmetric]) (auto intro: arg_cong [where f = "sum G"])
  then show ?thesis unfolding entries [OF assms(1) subset_refl] using kept gone by (simp add: G_def)
qed

section \<open>One claim, one pot\<close>

abbreviation inputs_value :: "custodyInputSpec list \<Rightarrow> int" where
  "inputs_value inputs \<equiv> (\<Sum>i\<leftarrow>inputs. vr_AmountSats (in_Ref i))"

abbreviation outputs_value :: "custodyOutputSpec list \<Rightarrow> int" where
  "outputs_value outputs \<equiv> (\<Sum>o1\<leftarrow>outputs. os_AmountSats o1)"

lemma inputs_of_refs:
  assumes "inputs_of env table failure key owner signers timeout refs = Inr inputs"
  shows "map in_Ref inputs = refs"
proof -
  have "list_all2 (\<lambda>ref i. in_Ref i = ref) refs inputs"
    using assms unfolding inputs_of_def map_res_ok by (rule list_all2_mono) (auto split: sum.splits)
  then show ?thesis by (induction rule: list_all2_induct) auto
qed

lemma spec_amounts:
  "stackOutputSpecForTransition env table t player amount = Inr spec \<Longrightarrow> os_AmountSats spec = amount"
  "potOutputSpec env table t' pot signers = Inr spec \<Longrightarrow> os_AmountSats spec = ps_TotalSats pot"
  by (auto simp: stackOutputSpecForTransition_def potOutputSpec_def encode_output_def bind_res_ok)

lemma in_Ref_sum: "map in_Ref inputs = refs \<Longrightarrow> inputs_value inputs = refs_value refs"
  by (auto simp: comp_def)

lemma plan_claim_balance:
  assumes plan: "plan_claim env table t c = Inr (inputs, outputs)"
    and prev: "map_of (prev_stacks (ts_LatestCustodyState table)) (sc_PlayerID c) = Some p"
    and backed: "refs_value (sc_VTXORefs p) = stackClaimRefAmount p"
    and nonneg: "0 \<le> sc_AmountSats c" "0 \<le> sc_ReservedFeeSats c"
  shows "inputs_value inputs + stackClaimRefAmount c = outputs_value outputs + stackClaimRefAmount p"
    "mset (map in_Ref inputs) \<subseteq># mset (sc_VTXORefs p)"
proof -
  have "inputs_value inputs + stackClaimRefAmount c = outputs_value outputs + stackClaimRefAmount p
      \<and> mset (map in_Ref inputs) \<subseteq># mset (sc_VTXORefs p)"
  proof (cases "stackClaimRefsReusableForTransition env table t p c")
    case True
    then show ?thesis using plan prev
      by (auto simp: plan_claim_def stackClaimRefsReusableForTransition_def)
  next
    case False
    have refs: "claim_input_refs table t c = sc_VTXORefs p" using prev by (simp add: claim_input_refs_def)
    obtain spent where spent: "inputs_of env table ''select stack spend path for %s: %w'' (stackClaimKey (sc_PlayerID c))
        (sc_PlayerID c) [sc_PlayerID c] False (sc_VTXORefs p) = Inr spent"
      using plan prev False by (auto simp: plan_claim_def refs bind_res_ok)
    note ins = inputs_of_refs [OF spent]
    have "inputs = spent \<and> outputs_value outputs = stackClaimRefAmount c"
      using plan prev False spent nonneg
      by (auto simp: plan_claim_def refs bind_res_ok stackClaimRefAmount_def dest: spec_amounts split: if_splits)
    then show ?thesis using in_Ref_sum [OF ins] backed ins by simp
  qed
  then show "inputs_value inputs + stackClaimRefAmount c = outputs_value outputs + stackClaimRefAmount p"
    "mset (map in_Ref inputs) \<subseteq># mset (sc_VTXORefs p)" by blast+
qed

lemma plan_pot_balance:
  assumes plan: "plan_pot env table t s = Inr (inputs, outputs)"
    and backed: "\<And>p. map_of (prev_pots (ts_LatestCustodyState table)) (ps_PotID s) = Some p \<Longrightarrow>
      refs_value (ps_VTXORefs p) = ps_TotalSats p"
    and nonneg: "0 \<le> ps_TotalSats s"
  shows "inputs_value inputs + ps_TotalSats s = outputs_value outputs
      + (case map_of (prev_pots (ts_LatestCustodyState table)) (ps_PotID s) of None \<Rightarrow> 0 | Some p \<Rightarrow> ps_TotalSats p)"
    "mset (map in_Ref inputs) \<subseteq># (case map_of (prev_pots (ts_LatestCustodyState table)) (ps_PotID s) of
        None \<Rightarrow> 0 | Some p \<Rightarrow> mset (ps_VTXORefs p))"
proof -
  let ?prev = "map_of (prev_pots (ts_LatestCustodyState table)) (ps_PotID s)"
  have "inputs_value inputs + ps_TotalSats s = outputs_value outputs + (case ?prev of None \<Rightarrow> 0 | Some p \<Rightarrow> ps_TotalSats p)
      \<and> mset (map in_Ref inputs) \<subseteq># (case ?prev of None \<Rightarrow> 0 | Some p \<Rightarrow> mset (ps_VTXORefs p))"
  proof (cases "\<exists>p. ?prev = Some p \<and> potSliceRefsReusableForTransition env table t p s")
    case True
    then obtain p where p: "?prev = Some p" "potSliceRefsReusableForTransition env table t p s" by blast
    then have "comparablePotSlice p\<lparr>ps_Contributions := []\<rparr> = comparablePotSlice s\<lparr>ps_Contributions := []\<rparr>"
      by (simp add: potSliceRefsReusableForTransition_def same_pot_slice_def)
    from arg_cong [OF this, of ps_TotalSats] have "ps_TotalSats p = ps_TotalSats s" by (simp add: comparablePotSlice_def)
    then show ?thesis using plan p by (simp add: plan_pot_def Let_def)
  next
    case False
    define refs where "refs = (case ?prev of Some previous \<Rightarrow> ps_VTXORefs previous | None \<Rightarrow> [])"
    have fresh: "\<not> (case ?prev of Some previous \<Rightarrow> potSliceRefsReusableForTransition env table t previous s | None \<Rightarrow> False)"
      using False by (auto split: option.splits)
    obtain spent where spent: "inputs_of env table ''select pot spend path for %s: %w'' (potClaimKey (ps_PotID s)) []
        (potSpendSignerIDsForTransition table t) (ct_TimeoutResolution t \<noteq> None) refs = Inr spent"
      using plan fresh unfolding plan_pot_def Let_def refs_def by (simp only: if_False bind_res_ok) blast
    note ins = inputs_of_refs [OF spent]
    have "inputs = spent \<and> outputs_value outputs = ps_TotalSats s"
      using plan fresh spent nonneg
      unfolding plan_pot_def Let_def refs_def [symmetric]
      by (auto simp: bind_res_ok dest: spec_amounts split: if_splits)
    moreover have "refs_value refs = (case ?prev of None \<Rightarrow> 0 | Some p \<Rightarrow> ps_TotalSats p)"
      using backed by (auto simp: refs_def split: option.split)
    ultimately show ?thesis using in_Ref_sum [OF ins] ins by (auto simp: refs_def split: option.split)
  qed
  then show "inputs_value inputs + ps_TotalSats s = outputs_value outputs
      + (case ?prev of None \<Rightarrow> 0 | Some p \<Rightarrow> ps_TotalSats p)"
    "mset (map in_Ref inputs) \<subseteq># (case ?prev of None \<Rightarrow> 0 | Some p \<Rightarrow> mset (ps_VTXORefs p))" by blast+
qed

section \<open>The plan\<close>

lemma prev_keyed:
  assumes "ts_LatestCustodyState table = Some s" "backed s"
  shows "prev_stacks (ts_LatestCustodyState table) = keyed sc_PlayerID (cs_StackClaims s)"
    "prev_pots (ts_LatestCustodyState table) = keyed ps_PotID (cs_PotSlices s)"
  using assms fold_update_distinct [of sc_PlayerID "cs_StackClaims s" "[]" "\<lambda>x. x"]
    fold_update_distinct [of ps_PotID "cs_PotSlices s" "[]" "\<lambda>x. x"]
  by (simp_all add: prev_stacks_def prev_pots_def backed_def)

lemma sum_list_all2:
  fixes a :: "'a \<Rightarrow> 'c::comm_monoid_add"
  assumes "list_all2 (\<lambda>x y. a x + b y = c y + d x) xs ys"
  shows "(\<Sum>x\<leftarrow>xs. a x) + (\<Sum>y\<leftarrow>ys. b y) = (\<Sum>y\<leftarrow>ys. c y) + (\<Sum>x\<leftarrow>xs. d x)"
  using assms by (induction rule: list_all2_induct) (simp_all, metis (no_types, lifting) add.assoc add.left_commute)

lemma sum_concat: "(\<Sum>x\<leftarrow>concat xss. f x) = (\<Sum>xs\<leftarrow>xss. \<Sum>x\<leftarrow>xs. (f x :: 'a::comm_monoid_add))"
  by (induction xss) simp_all

lemma mset_concat_sum: "mset (concat xss) = (\<Sum>xs\<leftarrow>xss. mset xs)"
  by (induction xss) auto

lemma image_mset_sum: "image_mset f (\<Sum>x\<leftarrow>xs. g x) = (\<Sum>x\<leftarrow>xs. image_mset f (g x))"
  by (induction xs) auto

lemma mset_sum_mono:
  assumes "list_all2 (\<lambda>x y. f x \<subseteq># g y) xs ys"
  shows "(\<Sum>x\<leftarrow>xs. f x) \<subseteq># (\<Sum>y\<leftarrow>ys. g y)"
  using assms by (induction rule: list_all2_induct) (auto intro: subset_mset.add_mono)

text \<open>The claims of the plan: the values balance, and the inputs are refs of the previous claims.\<close>

lemma claims_balance:
  assumes "ts_LatestCustodyState table = Some prev" "backed prev"
    and "map_res (plan_claim env table t) claims = Inr parts"
    and "mset (map sc_PlayerID claims) = mset (map sc_PlayerID (cs_StackClaims prev))"
    and "list_all (\<lambda>c. 0 \<le> sc_AmountSats c \<and> 0 \<le> sc_ReservedFeeSats c) claims"
  shows "(\<Sum>part\<leftarrow>parts. inputs_value (fst part)) + (\<Sum>c\<leftarrow>claims. stackClaimRefAmount c)
      = (\<Sum>part\<leftarrow>parts. outputs_value (snd part)) + (\<Sum>c\<leftarrow>cs_StackClaims prev. stackClaimRefAmount c)"
    "(\<Sum>part\<leftarrow>parts. mset (map in_Ref (fst part))) \<subseteq># mset (concat (map sc_VTXORefs (cs_StackClaims prev)))"
proof -
  let ?look = "\<lambda>c. map_of (keyed sc_PlayerID (cs_StackClaims prev)) (sc_PlayerID c)"
  note keyed = prev_keyed [OF assms(1,2)]
  have dist: "distinct (map sc_PlayerID (cs_StackClaims prev))" using assms(2) by (simp add: backed_def)
  then have dist': "distinct (map sc_PlayerID claims)" using assms(4) mset_eq_imp_distinct_iff by blast
  have ids: "sc_PlayerID ` set claims = sc_PlayerID ` set (cs_StackClaims prev)"
    using mset_eq_setD [OF assms(4)] by simp
  then have none: "filter (\<lambda>x. sc_PlayerID x \<notin> sc_PlayerID ` set claims) (cs_StackClaims prev) = []" by auto
  have part: "inputs_value (fst y) + stackClaimRefAmount c
        = outputs_value (snd y) + (case ?look c of None \<Rightarrow> 0 | Some p \<Rightarrow> stackClaimRefAmount p)"
      "mset (map in_Ref (fst y)) \<subseteq># (case ?look c of None \<Rightarrow> 0 | Some p \<Rightarrow> mset (sc_VTXORefs p))"
    if c: "c \<in> set claims" and y: "plan_claim env table t c = Inr y" for c y
  proof -
    obtain q where q: "q \<in> set (cs_StackClaims prev)" "sc_PlayerID q = sc_PlayerID c" using ids c by (metis imageE imageI)
    then have look: "?look c = Some q" using keyed_lookup [OF dist q(1)] by simp
    have "refs_value (sc_VTXORefs q) = stackClaimRefAmount q" using assms(2) q(1) by (simp add: backed_def list_all_iff)
    moreover have "0 \<le> sc_AmountSats c" "0 \<le> sc_ReservedFeeSats c" using assms(5) c by (simp_all add: list_all_iff)
    ultimately have "inputs_value (fst y) + stackClaimRefAmount c = outputs_value (snd y) + stackClaimRefAmount q"
      "mset (map in_Ref (fst y)) \<subseteq># mset (sc_VTXORefs q)"
      using plan_claim_balance [of env table t c "fst y" "snd y" q] y look keyed(1) by simp_all
    then show "inputs_value (fst y) + stackClaimRefAmount c
        = outputs_value (snd y) + (case ?look c of None \<Rightarrow> 0 | Some p \<Rightarrow> stackClaimRefAmount p)"
      "mset (map in_Ref (fst y)) \<subseteq># (case ?look c of None \<Rightarrow> 0 | Some p \<Rightarrow> mset (sc_VTXORefs p))" by (simp_all add: look)
  qed
  have parts: "list_all2 (\<lambda>c y. c \<in> set claims \<and> plan_claim env table t c = Inr y) claims parts"
    using assms(3) unfolding map_res_ok by (auto simp: list_all2_conv_all_nth)
  have "list_all2 (\<lambda>c y. stackClaimRefAmount c + inputs_value (fst y)
      = outputs_value (snd y) + (case ?look c of None \<Rightarrow> 0 | Some p \<Rightarrow> stackClaimRefAmount p)) claims parts"
    using parts by (rule list_all2_mono) (auto simp: add.commute dest: part(1))
  from sum_list_all2 [OF this] sum_keyed [OF dist dist', of stackClaimRefAmount]
  show "(\<Sum>part\<leftarrow>parts. inputs_value (fst part)) + (\<Sum>c\<leftarrow>claims. stackClaimRefAmount c)
      = (\<Sum>part\<leftarrow>parts. outputs_value (snd part)) + (\<Sum>c\<leftarrow>cs_StackClaims prev. stackClaimRefAmount c)"
    unfolding none by simp
  have "list_all2 (\<lambda>y c. mset (map in_Ref (fst y)) \<subseteq># (case ?look c of None \<Rightarrow> 0 | Some p \<Rightarrow> mset (sc_VTXORefs p))) parts claims"
    using parts [unfolded list_all2_conv_all_nth] part(2) by (simp add: list_all2_conv_all_nth)
  from mset_sum_mono [OF this] sum_keyed [OF dist dist', of "\<lambda>p. mset (sc_VTXORefs p)"]
  show "(\<Sum>part\<leftarrow>parts. mset (map in_Ref (fst part))) \<subseteq># mset (concat (map sc_VTXORefs (cs_StackClaims prev)))"
    unfolding none by (simp add: mset_concat_sum comp_def)
qed

lemma pots_balance:
  assumes "ts_LatestCustodyState table = Some prev" "backed prev"
    and "map_res (plan_pot env table t) (cs_PotSlices (ct_NextState t)) = Inr parts"
    and "removed_inputs env table t = Inr removed"
    and "distinct (map ps_PotID (cs_PotSlices (ct_NextState t)))"
    and "list_all (\<lambda>p. 0 \<le> ps_TotalSats p) (cs_PotSlices (ct_NextState t))"
  shows "(\<Sum>part\<leftarrow>parts. inputs_value (fst part)) + inputs_value removed + (\<Sum>p\<leftarrow>cs_PotSlices (ct_NextState t). ps_TotalSats p)
      = (\<Sum>part\<leftarrow>parts. outputs_value (snd part)) + (\<Sum>p\<leftarrow>cs_PotSlices prev. ps_TotalSats p)"
    "(\<Sum>part\<leftarrow>parts. mset (map in_Ref (fst part))) + mset (map in_Ref removed)
      \<subseteq># mset (concat (map ps_VTXORefs (cs_PotSlices prev)))"
proof -
  let ?pots = "cs_PotSlices (ct_NextState t)"
  let ?look = "\<lambda>p. map_of (keyed ps_PotID (cs_PotSlices prev)) (ps_PotID p)"
  let ?gone = "filter (\<lambda>x. ps_PotID x \<notin> ps_PotID ` set ?pots) (cs_PotSlices prev)"
  note keyed = prev_keyed [OF assms(1,2)]
  have dist: "distinct (map ps_PotID (cs_PotSlices prev))" using assms(2) by (simp add: backed_def)
  have worth: "refs_value (ps_VTXORefs p) = ps_TotalSats p" if "p \<in> set (cs_PotSlices prev)" for p
    using assms(2) that by (simp add: backed_def list_all_iff)
  have removed_pots: "removed_pots table t = keyed ps_PotID ?gone"
    by (simp add: removed_pots_def keyed(2) filter_map comp_def)
  obtain per_pot where removed: "removed = concat per_pot"
      "list_all2 (\<lambda>p ins. inputs_of env table ''select removed-pot spend path for %s: %w'' (potClaimKey (ps_PotID p)) []
         (potSpendSignerIDsForTransition table t) (ct_TimeoutResolution t \<noteq> None) (ps_VTXORefs p) = Inr ins) ?gone per_pot"
    using assms(4) unfolding removed_inputs_def removed_pots bind_res_ok map_res_ok list_all2_map1 by auto
  have per_pot: "list_all2 (\<lambda>p ins. map in_Ref ins = ps_VTXORefs p) ?gone per_pot"
    using removed(2) by (rule list_all2_mono) (rule inputs_of_refs)
  have removed_refs: "map in_Ref removed = concat (map ps_VTXORefs ?gone)"
    using per_pot unfolding removed(1) by (induction rule: list_all2_induct) auto
  have "refs_value (concat (map ps_VTXORefs ps)) = (\<Sum>p\<leftarrow>ps. ps_TotalSats p)" if "set ps \<subseteq> set (cs_PotSlices prev)" for ps
    using that worth by (induction ps) auto
  then have removed_value: "inputs_value removed = (\<Sum>p\<leftarrow>?gone. ps_TotalSats p)"
    unfolding in_Ref_sum [OF removed_refs] by (metis filter_is_subset)
  have part: "inputs_value (fst y) + ps_TotalSats p
        = outputs_value (snd y) + (case ?look p of None \<Rightarrow> 0 | Some q \<Rightarrow> ps_TotalSats q)"
      "mset (map in_Ref (fst y)) \<subseteq># (case ?look p of None \<Rightarrow> 0 | Some q \<Rightarrow> mset (ps_VTXORefs q))"
    if p: "p \<in> set ?pots" and y: "plan_pot env table t p = Inr y" for p y
  proof -
    have "0 \<le> ps_TotalSats p" using assms(6) p by (simp add: list_all_iff)
    moreover have "refs_value (ps_VTXORefs q) = ps_TotalSats q" if "?look p = Some q" for q
      using keyed_SomeD [OF that] worth by blast
    ultimately show "inputs_value (fst y) + ps_TotalSats p
        = outputs_value (snd y) + (case ?look p of None \<Rightarrow> 0 | Some q \<Rightarrow> ps_TotalSats q)"
      "mset (map in_Ref (fst y)) \<subseteq># (case ?look p of None \<Rightarrow> 0 | Some q \<Rightarrow> mset (ps_VTXORefs q))"
      using plan_pot_balance [of env table t p "fst y" "snd y", unfolded keyed(2)] y by simp_all
  qed
  have parts: "list_all2 (\<lambda>p y. p \<in> set ?pots \<and> plan_pot env table t p = Inr y) ?pots parts"
    using assms(3) unfolding map_res_ok by (auto simp: list_all2_conv_all_nth)
  have "list_all2 (\<lambda>p y. ps_TotalSats p + inputs_value (fst y)
      = outputs_value (snd y) + (case ?look p of None \<Rightarrow> 0 | Some q \<Rightarrow> ps_TotalSats q)) ?pots parts"
    using parts by (rule list_all2_mono) (auto simp: add.commute dest: part(1))
  from sum_list_all2 [OF this] sum_keyed [OF dist assms(5), of ps_TotalSats] removed_value
  show "(\<Sum>part\<leftarrow>parts. inputs_value (fst part)) + inputs_value removed + (\<Sum>p\<leftarrow>?pots. ps_TotalSats p)
      = (\<Sum>part\<leftarrow>parts. outputs_value (snd part)) + (\<Sum>p\<leftarrow>cs_PotSlices prev. ps_TotalSats p)" by simp
  have "list_all2 (\<lambda>y p. mset (map in_Ref (fst y)) \<subseteq># (case ?look p of None \<Rightarrow> 0 | Some q \<Rightarrow> mset (ps_VTXORefs q))) parts ?pots"
    using parts [unfolded list_all2_conv_all_nth] part(2) by (simp add: list_all2_conv_all_nth)
  from mset_sum_mono [OF this] sum_keyed [OF dist assms(5), of "\<lambda>p. mset (ps_VTXORefs p)"]
  show "(\<Sum>part\<leftarrow>parts. mset (map in_Ref (fst part))) + mset (map in_Ref removed)
      \<subseteq># mset (concat (map ps_VTXORefs (cs_PotSlices prev)))"
    unfolding removed_refs mset_concat_sum map_map comp_def
    by (metis (no_types, lifting) subset_mset.add_right_mono)
qed

text \<open>C23. A settlement moves exactly the money the custody states say. The plan for a transition between the players of
  a state whose money is there takes in exactly what it pays out plus the loss of value from the previous state to
  the next (the fee that was charged; nothing, when the values agree), and it spends only outputs of the previous
  state, none of them twice.\<close>

theorem settlement_plan_balances:
  assumes "buildCustodySettlementPlan env table t = Inr plan"
    and "ts_LatestCustodyState table = Some prev" and "backed prev"
    and "mset (map sc_PlayerID (cs_StackClaims (ct_NextState t))) = mset (map sc_PlayerID (cs_StackClaims prev))"
    and "distinct (map ps_PotID (cs_PotSlices (ct_NextState t)))"
    and "list_all (\<lambda>c. 0 \<le> sc_AmountSats c \<and> 0 \<le> sc_ReservedFeeSats c) (cs_StackClaims (ct_NextState t))"
    and "list_all (\<lambda>p. 0 \<le> ps_TotalSats p) (cs_PotSlices (ct_NextState t))"
  shows "(\<Sum>input\<leftarrow>pl_Inputs plan. vr_AmountSats (in_Ref input))
      = (\<Sum>output\<leftarrow>pl_Outputs plan. os_AmountSats output) + (custody_value prev - custody_value (ct_NextState t))
    \<and> mset (map in_Ref (pl_Inputs plan)) \<subseteq># mset (custody_refs prev)"
proof -
  obtain claims pots removed where parts: "map_res (plan_claim env table t) (cs_StackClaims (ct_NextState t)) = Inr claims"
      "map_res (plan_pot env table t) (cs_PotSlices (ct_NextState t)) = Inr pots" "removed_inputs env table t = Inr removed"
    and inputs: "mset (pl_Inputs plan) = mset (concat (map fst claims) @ concat (map fst pots) @ removed)"
    and outputs: "pl_Outputs plan = concat (map snd claims) @ concat (map snd pots)"
    using assms(1) by (auto simp: buildCustodySettlementPlan_def bind_res_ok Let_def)
  note c = claims_balance [OF assms(2,3) parts(1) assms(4,6)] and p = pots_balance [OF assms(2,3) parts(2,3) assms(5,7)]
  have ins: "inputs_value (pl_Inputs plan) = (\<Sum>part\<leftarrow>claims. inputs_value (fst part)) + (\<Sum>part\<leftarrow>pots. inputs_value (fst part))
      + inputs_value removed"
    using arg_cong [OF inputs, of "\<lambda>m. sum_mset (image_mset (\<lambda>i. vr_AmountSats (in_Ref i)) m)"]
    by (simp add: sum_mset_sum_list sum_concat comp_def flip: mset_map)
  have outs: "outputs_value (pl_Outputs plan) = (\<Sum>part\<leftarrow>claims. outputs_value (snd part)) + (\<Sum>part\<leftarrow>pots. outputs_value (snd part))"
    by (simp add: outputs sum_concat comp_def)
  have refs: "mset (map in_Ref (pl_Inputs plan)) = (\<Sum>part\<leftarrow>claims. mset (map in_Ref (fst part)))
      + ((\<Sum>part\<leftarrow>pots. mset (map in_Ref (fst part))) + mset (map in_Ref removed))"
    unfolding mset_map inputs by (simp add: mset_concat_sum image_mset_sum comp_def flip: mset_map)
  show ?thesis
    using c(1) p(1) subset_mset.add_mono [OF c(2) p(2)]
    unfolding ins outs refs custody_value_def custody_refs_def mset_append by simp
qed

end
