(* ===== verification/Hand_Abort.thy ===== *)
theory Hand_Abort
  imports Custody_Cover Custody_Balance
begin

text \<open>
  What becomes of the chips of a hand that is aborted without blaming a seat: the hand that starts next has the
  stacks of the custody state, without the pots.
\<close>

lemma claim_amounts_lookup:
  assumes "distinct (map sc_PlayerID claims)" "c \<in> set claims"
  shows "mget (claim_amounts claims) (sc_PlayerID c) = sc_AmountSats c"
proof -
  have "claim_amounts claims = map (\<lambda>c. (sc_PlayerID c, sc_AmountSats c)) claims"
    using fold_update_distinct [of sc_PlayerID claims "[]" sc_AmountSats] assms(1) by (simp add: claim_amounts_def)
  moreover have "map_of (map (\<lambda>c. (sc_PlayerID c, sc_AmountSats c)) claims) (sc_PlayerID c) = Some (sc_AmountSats c)"
    using assms by (intro map_of_is_SomeI) (auto simp: comp_def)
  ultimately show ?thesis by (simp add: mget_def)
qed

text \<open>The buy-ins of the next hand are the stacks of the custody state.\<close>

lemma next_hand_stacks:
  assumes "ts_LatestCustodyState table = Some state" "map sc_PlayerID (cs_StackClaims state) = map se_PlayerID (ts_Seats table)"
    and "distinct (map se_PlayerID (ts_Seats table))" "length (ts_Seats table) = 2"
  shows "(\<Sum>seat\<leftarrow>hc_Seats (next_hand_config handID table). hsc_StackSats seat) = (\<Sum>claim\<leftarrow>cs_StackClaims state. sc_AmountSats claim)"
proof -
  obtain a b where ab: "ts_Seats table = [a, b]" using assms(4) by (auto simp: length_Suc_conv numeral_2_eq_2)
  obtain c d where cd: "cs_StackClaims state = [c, d]" "sc_PlayerID c = se_PlayerID a" "sc_PlayerID d = se_PlayerID b"
    using assms(2) ab by (auto simp: map_eq_Cons_conv)
  have "mget (claim_amounts (cs_StackClaims state)) (se_PlayerID a) = sc_AmountSats c"
    "mget (claim_amounts (cs_StackClaims state)) (se_PlayerID b) = sc_AmountSats d"
    using claim_amounts_lookup [of "cs_StackClaims state"] assms(2,3) cd by (metis list.set_intros)+
  then show ?thesis by (simp add: next_hand_config_def start_chips_def assms(1) ab cd Let_def)
qed

lemma hand_number_nonneg: "0 \<le> latestCommittedHandNumber table"
proof -
  have "0 \<le> latest \<Longrightarrow> 0 \<le> fold (\<lambda>candidate latest. if candidate > latest then candidate else latest) xs latest" for xs and latest :: int
    by (induction xs arbitrary: latest) auto
  then show ?thesis by (simp add: latestCommittedHandNumber_def)
qed

text \<open>The next hand starts when both players have chips and stay at the table.\<close>

lemma next_hand_starts:
  assumes "ts_LatestCustodyState table = Some state" "map sc_PlayerID (cs_StackClaims state) = map se_PlayerID (ts_Seats table)"
    and "distinct (map se_PlayerID (ts_Seats table))" "length (ts_Seats table) = 2"
    and "list_all (\<lambda>seat. se_PlayerID seat \<noteq> [] \<and> \<not> terminalCustodySeatStatus (se_Status seat)) (ts_Seats table)"
    and "list_all (\<lambda>claim. 0 < sc_AmountSats claim \<and> \<not> terminalCustodySeatStatus (sc_Status claim)) (cs_StackClaims state)"
    and "ts_ActiveHand table = None" "0 < tc_SmallBlindSats (ts_Config table)" "0 < tc_BigBlindSats (ts_Config table)"
    and "ts_NextHandAt table = [] \<or> 0 \<le> elapsed (ts_NextHandAt table)"
  obtains started hand where "start_next_hand elapsed later deadline handID table = Inr (Some started)"
    "map_option ah_State (ts_ActiveHand started) = Some hand" "chips hand = (\<Sum>claim\<leftarrow>cs_StackClaims state. sc_AmountSats claim)"
proof -
  obtain a b where ab: "ts_Seats table = [a, b]" using assms(4) by (auto simp: length_Suc_conv numeral_2_eq_2)
  obtain c d where cd: "cs_StackClaims state = [c, d]" "sc_PlayerID c = se_PlayerID a" "sc_PlayerID d = se_PlayerID b"
    using assms(2) ab by (auto simp: map_eq_Cons_conv)
  have pos: "0 < sc_AmountSats c" "0 < sc_AmountSats d" "\<not> terminalCustodySeatStatus (sc_Status c)"
      "\<not> terminalCustodySeatStatus (sc_Status d)" "\<not> terminalCustodySeatStatus (se_Status a)" "\<not> terminalCustodySeatStatus (se_Status b)"
    using assms(5,6) by (simp_all add: ab cd)
  let ?table1 = "table\<lparr>ts_Seats := [a\<lparr>se_Status := ''active''\<rparr>, b\<lparr>se_Status := ''active''\<rparr>]\<rparr>"
  have seats: "reactivateContinuingSeatsForNextHand table = ?table1"
    using pos by (simp add: reactivateContinuingSeatsForNextHand_def active_players_def assms(1) ab cd)
  let ?table2 = "?table1\<lparr>ts_ActiveHandStartAt := canonicalNextHandAt later ?table1\<rparr>"
  let ?config = "next_hand_config handID ?table2"
  have total: "buy_ins ?config = (\<Sum>claim\<leftarrow>cs_StackClaims state. sc_AmountSats claim)"
    unfolding buy_ins_def using assms(1,3) cd ab by (intro next_hand_stacks) simp_all
  have amounts: "mget (claim_amounts (cs_StackClaims state)) (se_PlayerID a) = sc_AmountSats c"
    "mget (claim_amounts (cs_StackClaims state)) (se_PlayerID b) = sc_AmountSats d"
    using claim_amounts_lookup [of "cs_StackClaims state"] assms(2,3) cd by (metis list.set_intros)+
  have "config_ok ?config"
    using pos(1,2) assms(3,5) amounts by (simp add: config_ok_def next_hand_config_def start_chips_def assms(1) ab Let_def)
  moreover have "0 \<le> hc_DealerSeatIndex ?config \<and> hc_DealerSeatIndex ?config < 2"
    using hand_number_nonneg [of ?table2] by (simp add: next_hand_config_def Let_def)
  then have "config_accepted ?config" using assms(8,9) by (simp add: config_accepted_def next_hand_config_def Let_def)
  ultimately obtain hand where hand: "CreateHoldemHand ?config = Inr hand" "chips hand = buy_ins ?config"
    using create_hand_ok by blast
  have due: "\<not> (ts_NextHandAt table \<noteq> [] \<and> elapsed (ts_NextHandAt table) < 0)" using assms(10) by auto
  have two: "length (ts_Seats ?table1) = 2" "activeCustodySeatCount ?table1 = 2"
    using pos(1,2) by (simp_all add: activeCustodySeatCount_def assms(1) cd)
  let ?started = "?table2\<lparr>ts_ActiveHand := Some \<lparr>ah_Cards = new_hand_cards deadline ?table2 hand, ah_State = hand\<rparr>\<rparr>"
  have "releaseCompletedActiveHandForNextStart table = table"
    using assms(7) by (simp add: releaseCompletedActiveHandForNextStart_def)
  then have "start_next_hand elapsed later deadline handID table = Inr (Some ?started)"
    unfolding start_next_hand_def using due assms(7) seats two hand(1) by (simp add: Let_def)
  then show ?thesis using that hand(2) total by simp
qed

section \<open>The abort\<close>

lemma covered_claims:
  assumes c: "config_ok c" "reachable c hand" and t: "custody_ready table" "hand_seated table c" and mock: "me_UseMockSettlement env"
    and pos: "list_all (\<lambda>p. 0 < hp_StackSats p) (st_Players hand)"
    and build: "buildCustodyTransition env table kind (Some hand) action timeout = Inr t"
  shows "list_all (\<lambda>claim. 0 < sc_AmountSats claim \<and> \<not> terminalCustodySeatStatus (sc_Status claim)) (cs_StackClaims (ct_NextState t))"
proof -
  obtain a b p q where ab: "ts_Seats table = [a, b]" "st_Players hand = [p, q]" "se_SeatIndex a = 0" "se_SeatIndex b = 1"
    by (rule seatedE [OF c t(2)])
  obtain t0 bs where t0: "custodyBalancesFromHand table (Some hand) = Inr bs"
    "BuildState (custodyStateBinding env table kind (Some hand) None) bs (ts_LatestCustodyState table) = Inr (ct_NextState t0)"
    "buildCustodyTransitionWithOverrides env table kind (Some hand) action timeout None = Inr (resealed env table t0)"
    by (rule hand_transition [OF c t mock, where kind = kind and action = action and timeout = timeout and overrides = None]) blast
  have bs: "bs = [hand_balance table a p, hand_balance table b q]" using hand_balances [OF ab] t0(1) by simp
  obtain d where d: "derives bs d"
    and built: "ct_NextState t0 = (let state = state_of (custodyStateBinding env table kind (Some hand) None)
        (map (claim_of (pd_UnmatchedContributionSats d)) bs) (pd_Slices d) (ts_LatestCustodyState table)
      in state\<lparr>cs_StateHash := HashCustodyState state\<rparr>)"
    by (rule build_stateE [OF t0(2)])
  have unmatched: "0 \<le> mget (pd_UnmatchedContributionSats d) (pb_PlayerID x)" if "x \<in> set bs" for x
    using derived_unmatched [OF d that] by simp
  have statuses: "player_status_str (hp_Status x) \<in> {''active'', ''folded'', ''all-in''}" if "x \<in> set (st_Players hand)" for x
    using reachable_inv [OF c] that by (fastforce simp: hand_inv_def running_def settled_def player_ok_def list_all_iff split: if_splits)
  have same: "map (\<lambda>claim. (sc_AmountSats claim, sc_Status claim)) (cs_StackClaims (ct_NextState (resealed env table t0)))
      = map (\<lambda>claim. (sc_AmountSats claim, sc_Status claim)) (cs_StackClaims (ct_NextState t0))"
    by (rule same_money_maps(1) [OF resealed_state(1)]) simp
  have "ct_NextState t = ct_NextState (resealed env table t0)" using build t0(3) by (simp add: buildCustodyTransition_def)
  moreover have "\<not> terminalCustodySeatStatus status" if "status \<in> {''active'', ''folded'', ''all-in''}" for status
    using that by (auto simp: terminalCustodySeatStatus_def) (code_simp+)
  moreover have "map (\<lambda>claim. (sc_AmountSats claim, sc_Status claim)) (cs_StackClaims (ct_NextState t0))
      = [(hp_StackSats p + mget (pd_UnmatchedContributionSats d) (se_PlayerID a), player_status_str (hp_Status p)),
         (hp_StackSats q + mget (pd_UnmatchedContributionSats d) (se_PlayerID b), player_status_str (hp_Status q))]"
    by (simp add: built Let_def state_of_def) (simp add: bs hand_balance_def claim_of_def)
  moreover have "0 < hp_StackSats p" "0 < hp_StackSats q" using pos ab(2) by simp_all
  moreover have "0 \<le> mget (pd_UnmatchedContributionSats d) (se_PlayerID a)" "0 \<le> mget (pd_UnmatchedContributionSats d) (se_PlayerID b)"
    using unmatched [of "hand_balance table a p"] unmatched [of "hand_balance table b q"] by (simp_all add: bs)
  moreover have "p \<in> set (st_Players hand)" "q \<in> set (st_Players hand)" using ab(2) by simp_all
  ultimately show ?thesis using same statuses by (auto simp: map_eq_Cons_conv)
qed


end
