(* ===== verification/Hand_Limits.thy ===== *)
theory Hand_Limits
  imports Hand_Delivery
begin

text \<open>
  What the checks of hand messages do not rule out: a share written with leading zeros passes the check of
  shares and then makes every showdown reveal of the other seat fail, and a seat whose revealed exponent
  is the order of the group can show any hand.
\<close>

section \<open>Padded shares\<close>

abbreviation padded :: "string \<Rightarrow> string" where
  "padded c \<equiv> CHR ''0'' # c"

lemma decode_padded:
  assumes "residue v"
  shows "decodeMentalValue (padded (mental_text v)) = Inr v"
proof -
  have hex: "mental_text v = nat_hex (nat v)" "0 < nat v" "v < mentalPrime" using assms by (simp_all add: residue_def mental_text_hex)
  have "set (padded (nat_hex (nat v))) \<subseteq> set lower_hex" using nat_hex_chars [of "nat v"] by (simp add: lower_hex_def)
  then have trim: "TrimSpace (padded (nat_hex (nat v))) = padded (nat_hex (nat v))" by (rule TrimSpace_hex)
  have "hex_number 0 (padded (nat_hex (nat v))) = Some v"
  proof -
    have "hex_number 0 [CHR ''0''] = Some 0" by code_simp
    then show ?thesis using hex_number_nat_hex [of "nat v"] hex(2) hex_number_append [of 0 "[CHR ''0'']" "nat_hex (nat v)"] by simp
  qed
  then have "SetString16 (padded (nat_hex (nat v))) = Some v" by (simp add: SetString16_def)
  then show ?thesis
    using hex trim by (simp add: decodeMentalValue_def normalizeBigIntHex_def Let_def Text16_def trim_zeros_nat_hex SetString16_nat_hex)
qed

lemma padded_ok:
  assumes "canonical_text c"
  shows "EncryptMentalValueHex (padded c) h = EncryptMentalValueHex c h" "\<not> canonical_text (padded c)"
proof -
  obtain v where v: "decodeMentalValue c = Inr v" "c = mental_text v"
    using assms by (auto simp: canonical_text_def mental_text_def split: sum.splits)
  then have "residue v" "decodeMentalValue (padded c) = Inr v" using decode_residue decode_padded by auto
  then show "EncryptMentalValueHex (padded c) h = EncryptMentalValueHex c h" "\<not> canonical_text (padded c)"
    using v canonical_iff by (auto simp: EncryptMentalValueHex_def)
qed

lemma padded_partials:
  "list_all canonical_text partials \<Longrightarrow> check_partials deck h positions (map padded partials) = check_partials deck h positions partials"
proof (induction deck h positions partials rule: check_partials.induct)
qed (auto simp: padded_ok split: sum.splits)

lemma padded_share:
  "list_all canonical_text partials \<Longrightarrow> verifyPartialCiphertexts deck positions (map padded partials) seat active
    = verifyPartialCiphertexts deck positions partials seat active"
  by (simp add: verifyPartialCiphertexts_def padded_partials split: option.split)

lemma rejected_showdown:
  assumes "ts_ActiveHand table = Some hand" "\<And>cards. verifyShowdownReveal (Some hand) i cards \<noteq> Inr ()"
    "findTranscriptRecord (hand_transcript hand) nativeHandMessageShowdownReveal (Some i) (street_str StreetShowdownReveal) None = None"
    and m: "hm_Kind m = nativeHandMessageShowdownReveal" "hm_SeatIndex m = i"
  shows "\<not> is_ok (accept_hand_message curve self table m)"
proof
  assume "is_ok (accept_hand_message curve self table m)"
  then obtain table' receipt where acc: "accept_hand_message curve self table m = Inr (table', receipt)" by (auto simp: is_ok_iff)
  from acc show False
  proof (cases rule: accept_cases)
    case (duplicate hand' seat r existing key)
    note fields = message_record [OF identity_ok(1) [OF duplicate(3,1)]]
    have "findParticipantHandMessageSlotRecord (hand_transcript hand) r = Inr None"
      using assms(1,3) m fields by (simp add: findParticipantHandMessageSlotRecord_def kind_defs)
    then show ?thesis using duplicate(1,5) assms(1) by simp
  next
    case (new hand' seat r key)
    have "se_SeatIndex seat = i"
      using new(3) m(2) by (auto simp: validateHandMessageRequestIdentity_def split: if_splits)
    then show ?thesis
      using new(6) assms(1,2) m by (auto simp: validateNewHandMessageRequest_def check_new_showdown_def kind_defs deref_def split: if_splits)
  qed
qed


section \<open>The exponent that locks every card to one\<close>

lemma map_eq_replicate: "(\<forall>x \<in> set xs. f x = y) \<Longrightarrow> map f xs = replicate (length xs) y"
  by (induction xs) auto

lemma collapsed_deck:
  assumes "hand_dealt hand seats reveals" "seat \<in> {0, 1}"
    "publicExponentForSeat (Some hand) seat = Some (mental_text mentalTotient)" "holds_key hand (otherSeatIndex seat) k"
  shows "hd_FinalDeck (ah_Cards hand) = replicate 52 ''1''"
proof -
  let ?e = "exponent (kp_PublicExponentHex k)"
  have t: "exponent (mental_text mentalTotient) = mentalTotient"
    by (rule conjunct1 [OF exponent_text]) (simp add: residue_def totient_eq mentalPrime_eq)
  have pub: "publicExponentForSeat (Some hand) (otherSeatIndex seat) = Some (kp_PublicExponentHex k)" "0 < ?e"
    using holds_keyD [OF assms(4)] exponent_pos by (auto simp: key_ok_def)
  have "hd_FinalDeck (ah_Cards hand) = map (locked (mentalTotient * ?e)) (final_order reveals)"
    using assms(2)
  proof (elim insertE)
    assume "seat = 0"
    then show ?thesis using dealt_locks(1) [OF assms(1)] assms(3) pub(1) t by (fastforce simp: otherSeatIndex_def)
  next
    assume "seat = 1"
    then show ?thesis
      using dealt_locks(1) [OF assms(1)] assms(3) pub(1) t by (fastforce simp: otherSeatIndex_def mult.commute)
  qed simp
  moreover have "locked (mentalTotient * ?e) j = ''1''" if "j < 52" for j
  proof -
    have "(int j + 2) ^ nat (mentalTotient * ?e) = ((int j + 2) ^ nat mentalTotient) ^ nat ?e"
      using pub(2) by (simp add: nat_mult_distrib power_mult totient_eq)
    then have "(int j + 2) ^ nat (mentalTotient * ?e) mod mentalPrime = 1"
      using totient_power [OF card_residue [OF that]] power_mod [of "(int j + 2) ^ nat mentalTotient" mentalPrime "nat ?e"]
      by (simp add: mentalPrime_eq)
    then show ?thesis by (simp add: locked_def mental_text_one)
  qed
  moreover have "\<forall>j \<in> set (final_order reveals). j < 52" by (simp add: final_order_props(2))
  ultimately show ?thesis
    using map_eq_replicate [of "final_order reveals" "locked (mentalTotient * ?e)" "''1''"] by (simp add: final_order_props(1))
qed

lemma collapsed_share:
  assumes "key_ok k" "list_all (\<lambda>p. 0 \<le> p \<and> p < 52) positions"
  shows "decrypt_positions (replicate 52 ''1'') (kp_PrivateExponentHex k) positions = Inr (replicate (length positions) ''1'')"
proof -
  have "residue 1" by (simp add: residue_def mentalPrime_eq)
  from decrypt_entry [OF assms(1) this] have "DecryptMentalValueHex ''1'' (kp_PrivateExponentHex k) = Inr ''1''"
    by (simp add: mental_text_one mentalPrime_eq)
  then show ?thesis using assms(2) by (induction positions) (auto simp: go_index_def)
qed

lemma collapsed_cards:
  "list_all valid_code codes \<Longrightarrow> check_cards msg (mental_text mentalTotient) codes (replicate (length codes) ''1'') = Inr ()"
proof (induction codes)
  case (Cons code codes)
  then obtain j where j: "j < 52" "EncodeMentalCard code = Inr (card_text j)"
    using valid_code_index [of code] encode_card by auto
  have t: "exponent (mental_text mentalTotient) = mentalTotient" "lock_ok (mental_text mentalTotient)"
    using exponent_text [of mentalTotient] by (simp_all add: residue_def totient_eq mentalPrime_eq)
  have "EncryptMentalValueHex (card_text j) (mental_text mentalTotient) = Inr ''1''"
    using encrypt_decoded [OF t(2), of "card_text j"] totient_power [OF card_residue [OF j(1)]] j(1) card_residue [OF j(1)]
    by (simp add: t(1) card_text_def mental_text_one)
  then show ?case using j(2) Cons by simp
qed simp


end
