(* ===== verification/Hand_Examples.thy ===== *)
theory Hand_Examples
  imports Hand_Limits
begin

text \<open>
  A table of two seats with a hand whose deck has been dealt, and the theorems on hand messages applied to it.
  The keys come from key generation on fixed draws, the wallet of seat 0 from a fixed seed.
\<close>

section \<open>A dealt table\<close>

definition example_seat :: "int \<Rightarrow> string \<Rightarrow> string \<Rightarrow> nativeSeatRecord" where
  "example_seat seat player pubkey = \<lparr>se_ArkAddress = [], se_BuyInSats = 4000, se_FundingRefs = [], se_Nickname = [],
     se_PeerID = [], se_PlayerID = player, se_ProtocolPubkeyHex = [], se_SeatIndex = seat, se_Status = ''active'',
     se_WalletPubkeyHex = pubkey, se_PeerURL = [], se_ProfileName = []\<rparr>"

definition example_seats :: "LocalIdentity \<Rightarrow> nativeSeatRecord list" where
  "example_seats wallet = [example_seat 0 (li_PlayerID wallet) (li_PublicKeyHex wallet),
     example_seat 1 (CHR ''x'' # li_PlayerID wallet) []]"

definition example_config :: NativeMeshTableConfig where
  "example_config = \<lparr>tc_ActionMenuPolicy = \<lparr>mp_PotFractionBps = []\<rparr>, tc_ActionTimeoutMS = 0, tc_BigBlindSats = 100,
     tc_BuyInMaxSats = 4000, tc_BuyInMinSats = 4000, tc_CreatedAt = [], tc_DealerMode = [], tc_HandProtocolTimeoutMS = 0,
     tc_HostPeerID = [], tc_HostPlaysAllowed = True, tc_Name = [], tc_NetworkID = [], tc_NextHandDelayMS = 0,
     tc_OccupiedSeats = 2, tc_ProtocolVersion = [], tc_PublicSpectatorDelayHands = 0, tc_SeatCount = 2,
     tc_SmallBlindSats = 50, tc_SpectatorsAllowed = False, tc_Status = ''seating'', tc_TableID = ''table-1'',
     tc_TurnChallengeWindowMS = 0, tc_TurnTimeoutMode = [], tc_Visibility = []\<rparr>"

definition example_table :: "nativeSeatRecord list \<Rightarrow> nativeActiveHand option \<Rightarrow> nativeTableState" where
  "example_table seats active = \<lparr>ts_Advertisement = None, ts_ActiveHand = active, ts_Config = example_config,
     ts_CurrentHost = \<lparr>kn_ProfileName = [], kn_Peer = \<lparr>pa_Alias = [], pa_LastSeenAt = [], pa_PeerID = ''host'', pa_PeerURL = [],
       pa_ProtocolPubkeyHex = [], pa_RelayPeerID = [], pa_Roles = []\<rparr>\<rparr>,
     ts_CurrentEpoch = 1, ts_CustodyTransitions = [], ts_Events = [], ts_LastEventHash = [], ts_LastHostHeartbeatAt = [], ts_LatestCustodyState = None,
     ts_LatestFullySignedSnapshot = None, ts_LatestSnapshot = None, ts_ActiveHandStartAt = [], ts_NextHandAt = [],
     ts_PendingTurnChallenge = None, ts_PendingTurnMenu = None, ts_PublicState = None, ts_Seats = seats, ts_Snapshots = [],
     ts_Witnesses = []\<rparr>"

definition reveal_record :: "int \<Rightarrow> string \<Rightarrow> string \<Rightarrow> HandTranscriptRecord" where
  "reveal_record seat seed exponentHex = empty_record\<lparr>hr_Kind := nativeHandMessageFairnessReveal,
     hr_Phase := street_str StreetReveal, hr_SeatIndex := Some seat, hr_ShuffleSeedHex := seed,
     hr_LockPublicExponentHex := exponentHex\<rparr>"

definition share_record :: "string \<Rightarrow> Street \<Rightarrow> int \<Rightarrow> int option \<Rightarrow> int list \<Rightarrow> string list \<Rightarrow> HandTranscriptRecord" where
  "share_record kind phase seat recipient positions partials = empty_record\<lparr>hr_Kind := kind, hr_Phase := street_str phase,
     hr_SeatIndex := Some seat, hr_RecipientSeatIndex := recipient, hr_CardPositions := positions,
     hr_PartialCiphertexts := partials\<rparr>"

definition example_reveals :: "LocalIdentity \<Rightarrow> string \<Rightarrow> string \<Rightarrow> MentalDeckReveal list" where
  "example_reveals wallet h h' = [
     \<lparr>mr_PlayerID = li_PlayerID wallet, mr_SeatIndex = 0, mr_ShuffleSeedHex = ''0a'', mr_LockPublicExponentHex = h\<rparr>,
     \<lparr>mr_PlayerID = CHR ''x'' # li_PlayerID wallet, mr_SeatIndex = 1, mr_ShuffleSeedHex = ''0b'', mr_LockPublicExponentHex = h'\<rparr>]"

text \<open>A hand in \<open>phase\<close> whose transcript holds the two reveals and then \<open>records\<close>.\<close>

definition example_hand ::
    "LocalIdentity \<Rightarrow> string \<Rightarrow> string \<Rightarrow> Street \<Rightarrow> HandTranscriptRecord list \<Rightarrow> nativeActiveHand" where
  "example_hand wallet h h' phase records =
     \<lparr>ah_Cards = \<lparr>hd_FinalDeck = (case ReplayMentalDeck (example_reveals wallet h h') of Inl e \<Rightarrow> [] | Inr replay \<Rightarrow> md_FinalDeck replay),
        hd_PhaseDeadlineAt = [],
        hd_Transcript = \<lparr>ht_HandID = ''hand-1'', ht_HandNumber = 1,
          ht_Records = [reveal_record 0 ''0a'' h, reveal_record 1 ''0b'' h'] @ records, ht_RootHash = [], ht_TableID = ''table-1''\<rparr>\<rparr>,
      ah_State = demo_new\<lparr>st_Phase := phase\<rparr>\<rparr>"

definition example_identity :: LocalIdentity where
  "example_identity = \<lparr>li_PlayerID = ''player-1'', li_PrivateKeyHex = [], li_PublicKeyHex = []\<rparr>"

lemma example_wallet:
  obtains wallet where "CreateLocalIdentity demo_curve (\<lambda>_. Inl (Err [])) ''0a'' = Inr wallet"
proof -
  have "DecodeString ''0a'' = Inr [CHR 0x0a]" by code_simp
  then have "\<exists>wallet. CreateLocalIdentity demo_curve (\<lambda>_. Inl (Err [])) ''0a'' = Inr wallet"
    by (simp add: CreateLocalIdentity_def privateKeyAndPublicKeyHex_def DerivePlayerID_def demo_curve_def Let_def)
  then show ?thesis using that by blast
qed

lemma example_exponents:
  "publicExponentForSeat (Some (example_hand wallet h h' phase records)) 0 = Some h"
  "publicExponentForSeat (Some (example_hand wallet h h' phase records)) 1 = Some h'"
  by (simp_all add: publicExponentForSeat_def fairnessRevealForSeat_def findTranscriptRecord_def example_hand_def
      reveal_record_def record_matches_def empty_record_def)

lemma example_dealt:
  assumes "lock_ok h" "lock_ok h'"
  shows "hand_dealt (example_hand wallet h h' phase records) (example_seats wallet) (example_reveals wallet h h')"
proof -
  have "seed_ok ''0a''" "seed_ok ''0b''" by code_simp+
  then have "list_all reveal_ok (example_reveals wallet h h')" using assms by (simp add: example_reveals_def reveal_ok_def)
  then obtain replay where "ReplayMentalDeck (example_reveals wallet h h') = Inr replay" by (rule replay_ok)
  moreover have "seat_reveals (example_hand wallet h h' phase records) (example_seats wallet) = Inr (example_reveals wallet h h')"
    by (simp add: example_seats_def example_seat_def example_reveals_def reveal_of_def fairnessRevealForSeat_def
        findTranscriptRecord_def example_hand_def reveal_record_def record_matches_def empty_record_def)
  ultimately show ?thesis by (simp add: hand_dealt_def example_seats_def example_seat_def example_hand_def)
qed

abbreviation keyed_hand ::
    "LocalIdentity \<Rightarrow> MentalKeyPair \<Rightarrow> MentalKeyPair \<Rightarrow> Street \<Rightarrow> HandTranscriptRecord list \<Rightarrow> nativeActiveHand" where
  "keyed_hand wallet k k' \<equiv> example_hand wallet (kp_PublicExponentHex k) (kp_PublicExponentHex k')"

abbreviation keyed_reveals :: "LocalIdentity \<Rightarrow> MentalKeyPair \<Rightarrow> MentalKeyPair \<Rightarrow> MentalDeckReveal list" where
  "keyed_reveals wallet k k' \<equiv> example_reveals wallet (kp_PublicExponentHex k) (kp_PublicExponentHex k')"

definition two_keys :: "MentalKeyPair \<Rightarrow> MentalKeyPair \<Rightarrow> int \<Rightarrow> MentalKeyPair" where
  "two_keys k k' seat = (if seat = 0 then k else k')"

lemma example_keys:
  assumes "generated k" "generated k'"
  shows "hand_dealt (keyed_hand wallet k k' phase records) (example_seats wallet) (keyed_reveals wallet k k')"
    "holds_key (keyed_hand wallet k k' phase records) 0 (two_keys k k' 0)"
    "holds_key (keyed_hand wallet k k' phase records) 1 (two_keys k k' 1)"
  using assms example_dealt generated_ok example_exponents by (auto simp: key_ok_def holds_key_def two_keys_def)

text \<open>What an honest seat sends for some positions of the deck.\<close>

definition honest_share ::
    "LocalIdentity \<Rightarrow> MentalKeyPair \<Rightarrow> MentalKeyPair \<Rightarrow> int \<Rightarrow> int list \<Rightarrow> string list" where
  "honest_share wallet k k' seat positions =
     (case decrypt_positions (hd_FinalDeck (ah_Cards (keyed_hand wallet k k' StreetFlop [])))
        (kp_PrivateExponentHex (two_keys k k' seat)) positions of Inl e \<Rightarrow> [] | Inr partials \<Rightarrow> partials)"

lemma example_deck:
  "hd_FinalDeck (ah_Cards (example_hand w h h' phase records)) = hd_FinalDeck (ah_Cards (example_hand w h h' StreetFlop []))"
  by (simp add: example_hand_def)

lemma example_share:
  assumes "generated k" "generated k'" "list_all (\<lambda>p. 0 \<le> p \<and> p < 52) positions" "seat \<in> {0, 1}"
  shows "list_all canonical_text (honest_share w k k' seat positions)"
    "length (honest_share w k k' seat positions) = length positions"
    "verifyPartialCiphertexts (hd_FinalDeck (ah_Cards (keyed_hand w k k' phase records)))
       positions (honest_share w k k' seat positions) seat (Some (keyed_hand w k k' phase records)) = Inr ()"
proof -
  let ?deck = "hd_FinalDeck (ah_Cards (keyed_hand w k k' StreetFlop []))" and ?k = "two_keys k k' seat"
  have deck: "stage_ok ?deck" "length ?deck = 52" using dealt_deck(2) dealt_length example_keys [OF assms(1,2)] by blast+
  have k: "key_ok ?k" using generated_ok assms(1,2) by (simp add: two_keys_def)
  obtain partials where p: "decrypt_positions ?deck (kp_PrivateExponentHex ?k) positions = Inr partials"
    "list_all2 (share_entry ?deck (kp_PrivateExponentHex ?k)) positions partials" "list_all canonical_text partials"
    using honest_partials [OF k deck(1)] deck(2) assms(3) by auto
  have share: "honest_share w k k' seat positions = partials" by (simp add: honest_share_def p(1))
  have len: "length positions = length partials" using p(2) by (rule list_all2_lengthD)
  have "publicExponentForSeat (Some (keyed_hand w k k' phase records)) seat = Some (kp_PublicExponentHex ?k)"
    using assms(4) example_exponents by (auto simp: two_keys_def)
  then have "verifyPartialCiphertexts ?deck positions partials seat (Some (keyed_hand w k k' phase records)) = Inr ()"
    using check_partials_iff [OF k deck(1) len] p(2) len by (simp add: verifyPartialCiphertexts_def)
  then show "verifyPartialCiphertexts (hd_FinalDeck (ah_Cards (keyed_hand w k k' phase records)))
       positions (honest_share w k k' seat positions) seat (Some (keyed_hand w k k' phase records)) = Inr ()"
    unfolding share by (subst example_deck)
  show "list_all canonical_text (honest_share w k k' seat positions)"
    "length (honest_share w k k' seat positions) = length positions" using p(3) len share by simp_all
qed

abbreviation delivery :: "string list \<Rightarrow> HandTranscriptRecord" where
  "delivery \<equiv> share_record nativeHandMessagePrivateDelivery StreetPrivateDelivery 1 (Some 0) [0, 2]"

lemma delivery_found:
  "findTranscriptRecord (hand_transcript (example_hand w h h' phase [delivery partials])) nativeHandMessagePrivateDelivery
     (Some (otherSeatIndex 0)) (street_str StreetPrivateDelivery) (Some 0) = Some (delivery partials)"
  "hr_CardPositions (delivery partials) = [0, 2]" "hr_PartialCiphertexts (delivery partials) = partials"
  by (simp_all add: findTranscriptRecord_def example_hand_def reveal_record_def share_record_def
      record_matches_def empty_record_def otherSeatIndex_def kind_defs)

lemma seat_positions: "list_all (\<lambda>p. 0 \<le> p \<and> p < 52) [0, 2 :: int]" "(0 :: int) \<in> {0, 1}" "(1 :: int) \<in> {0, 1}"
    "otherSeatIndex 0 = 1"
  by (simp_all add: otherSeatIndex_def)

section \<open>Shares, reveals and openings on the table\<close>

theorem accepted_share_is_right_decryption_witness:
  "\<exists>k. generated k \<and> list_all2 (share_entry (hd_FinalDeck (ah_Cards (keyed_hand example_identity k k StreetFlop [])))
     (kp_PrivateExponentHex k)) [0, 2] (honest_share example_identity k k 0 [0, 2])"
proof -
  obtain k where k: "generated k" by (rule demo_keys)
  let ?hand = "keyed_hand example_identity k k StreetFlop []"
  have "stage_ok (hd_FinalDeck (ah_Cards ?hand))" by (rule dealt_deck(2) [OF example_keys [OF k k]])
  from accepted_share_is_right_decryption [OF k example_exponents(1) this] example_share(3) [OF k k seat_positions(1,2)]
  show ?thesis using k by blast
qed

theorem showdown_reveal_is_truthful_witness:
  "\<exists>k k'. generated k \<and> generated k' \<and> verifyShowdownReveal
     (Some (keyed_hand example_identity k k' StreetShowdownReveal [delivery (honest_share example_identity k k' 1 [0, 2])])) 0
     [public_card (keyed_reveals example_identity k k') 0, public_card (keyed_reveals example_identity k k') 2] = Inr ()"
proof -
  obtain k k' where k: "generated k" "generated k'" by (rule demo_keys)
  let ?share = "honest_share example_identity k k' 1 [0, 2]"
  note share = example_share [OF k seat_positions(1,3)]
  from showdown_reveal_is_truthful [OF example_keys [OF k] seat_positions(2) delivery_found(1),
      unfolded delivery_found(2,3) seat_positions(4), OF share(3)]
  have "verifyShowdownReveal (Some (keyed_hand example_identity k k' StreetShowdownReveal [delivery ?share])) 0
     (map (\<lambda>pos. public_card (keyed_reveals example_identity k k') (nat pos)) [0, 2]) = Inr ()"
    using share(1) by blast
  then show ?thesis using k by (simp only: list.map nat_0 nat_numeral) blast
qed

abbreviation board_share :: "int \<Rightarrow> string list \<Rightarrow> HandTranscriptRecord" where
  "board_share seat \<equiv> share_record nativeHandMessageBoardShare StreetTurnReveal seat None [9]"

lemma board_shares_found:
  "transcriptRecordsByKind (hand_transcript (example_hand w h h' phase [board_share 0 p, board_share 1 q]))
     nativeHandMessageBoardShare (street_str StreetTurnReveal) = [board_share 0 p, board_share 1 q]"
  "hr_SeatIndex (board_share seat p) = Some seat" "hr_PartialCiphertexts (board_share seat p) = p"
  by (simp_all add: transcriptRecordsByKind_def example_hand_def reveal_record_def share_record_def empty_record_def kind_defs)

theorem board_open_is_truthful_witness:
  "\<exists>k k'. generated k \<and> generated k' \<and> verifyBoardOpen
     (Some (keyed_hand example_identity k k' StreetTurnReveal
        [board_share 0 (honest_share example_identity k k' 0 [9]), board_share 1 (honest_share example_identity k k' 1 [9])]))
     (street_str StreetTurnReveal) [public_card (keyed_reveals example_identity k k') 9] = Inr ()"
proof -
  obtain k k' where k: "generated k" "generated k'" by (rule demo_keys)
  have nine: "list_all (\<lambda>p. 0 \<le> p \<and> p < 52) [9 :: int]" by simp
  note share0 = example_share [OF k nine seat_positions(2)] and share1 = example_share [OF k nine seat_positions(3)]
  let ?hand = "keyed_hand example_identity k k' StreetTurnReveal
        [board_share 0 (honest_share example_identity k k' 0 [9]), board_share 1 (honest_share example_identity k k' 1 [9])]"
  have "\<forall>s \<in> {board_share 0 (honest_share example_identity k k' 0 [9]), board_share 1 (honest_share example_identity k k' 1 [9])}.
      \<exists>sender \<in> {0, 1}. hr_SeatIndex s = Some sender \<and>
      verifyPartialCiphertexts (hd_FinalDeck (ah_Cards ?hand)) [9] (hr_PartialCiphertexts s) sender (Some ?hand) = Inr ()"
    unfolding ball_simps board_shares_found(2,3) using share0(3) share1(3) by blast
  from board_open_is_truthful [OF example_keys [OF k] board_shares_found(1) this]
  have "verifyBoardOpen (Some ?hand) (street_str StreetTurnReveal)
      (map (\<lambda>pos. public_card (keyed_reveals example_identity k k') (nat pos)) [9]) = Inr ()"
    unfolding board_shares_found(3) using share0(1) share1(1) by (simp only: list_all_append)
  then show ?thesis using k by (simp only: list.map nat_numeral) blast
qed


lemma totient_text: "lock_ok (mental_text mentalTotient)"
  using exponent_text [of mentalTotient] by (simp add: residue_def totient_eq mentalPrime_eq)


section \<open>Messages to the host\<close>

lemma demo_new_fields: "st_DealerSeatIndex demo_new \<in> {0, 1}" "st_HandID demo_new \<noteq> []"
  by code_simp+

lemma example_seated:
  assumes "CreateLocalIdentity demo_curve (\<lambda>_. Inl (Err [])) ''0a'' = Inr wallet"
  shows "seated demo_curve wallet ''host'' (example_table (example_seats wallet) active) (hd (example_seats wallet))"
  using assms demo_curve_laws
  by (auto simp: seated_def example_table_def example_seats_def seatRecordForPlayer_def example_seat_def
      intro!: exI [of _ "\<lambda>_. Inl (Err [])"] exI [of _ "''0a''"])

lemma example_missing:
  "se_SeatIndex (hd (example_seats wallet)) \<in> set (missingProtocolSeatIndexes
     (example_table (example_seats wallet) (Some (example_hand wallet h h' StreetPrivateDelivery []))))"
  by (simp add: missingProtocolSeatIndexes_def missingProtocolSeatIndexesForPhase_def missing_records_def runtimeSeatIndexes_def
      example_table_def example_seats_def example_seat_def findTranscriptRecord_def example_hand_def reveal_record_def
      record_matches_def empty_record_def kind_defs)

text \<open>The secrets of seat 0.\<close>

definition example_secrets :: "MentalKeyPair \<Rightarrow> nativeLocalHandSecrets" where
  "example_secrets k = \<lparr>ls_HandID = [], ls_HandNumber = 1, ls_LockPrivateExponentHex = kp_PrivateExponentHex k,
     ls_LockPublicExponentHex = kp_PublicExponentHex k, ls_PlayerID = [], ls_SeatIndex = 0, ls_ShuffleSeedHex = ''0a''\<rparr>"

abbreviation delivery_table :: "LocalIdentity \<Rightarrow> MentalKeyPair \<Rightarrow> MentalKeyPair \<Rightarrow> nativeTableState" where
  "delivery_table wallet k k' \<equiv>
     example_table (example_seats wallet) (Some (keyed_hand wallet k k' StreetPrivateDelivery []))"

lemma delivery_table_facts:
  assumes "generated k" "generated k'"
  shows "ts_ActiveHand (delivery_table wallet k k') = Some (keyed_hand wallet k k' StreetPrivateDelivery [])"
    "hand_dealt (keyed_hand wallet k k' StreetPrivateDelivery []) (ts_Seats (delivery_table wallet k k')) (keyed_reveals wallet k k')"
    "holds_key (keyed_hand wallet k k' StreetPrivateDelivery []) 0 (two_keys k k' 0)"
    "holds_key (keyed_hand wallet k k' StreetPrivateDelivery []) 1 (two_keys k k' 1)"
    "st_DealerSeatIndex (ah_State (keyed_hand wallet k k' StreetPrivateDelivery [])) \<in> {0, 1}"
    "st_HandID (ah_State (keyed_hand wallet k k' StreetPrivateDelivery [])) \<noteq> []"
    "st_Phase (ah_State (keyed_hand wallet k k' StreetPrivateDelivery [])) = StreetPrivateDelivery
     \<or> is_board_reveal (st_Phase (ah_State (keyed_hand wallet k k' StreetPrivateDelivery [])))"
    "ls_LockPrivateExponentHex (example_secrets k) = kp_PrivateExponentHex (two_keys k k' (se_SeatIndex (hd (example_seats wallet))))"
proof -
  show "hand_dealt (keyed_hand wallet k k' StreetPrivateDelivery []) (ts_Seats (delivery_table wallet k k')) (keyed_reveals wallet k k')"
    using example_keys(1) [OF assms] by (simp add: example_table_def)
  show "holds_key (keyed_hand wallet k k' StreetPrivateDelivery []) 0 (two_keys k k' 0)"
    "holds_key (keyed_hand wallet k k' StreetPrivateDelivery []) 1 (two_keys k k' 1)"
    by (rule example_keys [OF assms])+
qed (use demo_new_fields in \<open>simp_all add: example_table_def example_hand_def example_secrets_def two_keys_def
      example_seats_def example_seat_def\<close>)

theorem honest_share_is_accepted_witness:
  "\<exists>wallet k k' r m table' receipt. CreateLocalIdentity demo_curve (\<lambda>_. Inl (Err [])) ''0a'' = Inr wallet
    \<and> generated k \<and> generated k'
    \<and> buildLocalContributionRecord (Inr (Some (example_secrets k))) (li_PlayerID wallet) (delivery_table wallet k k') = Inr (Some r)
    \<and> buildSignedHandMessageRequest demo_curve (\<lambda>_. Inl (Err [])) ''now'' wallet [] (delivery_table wallet k k') r = Inr m
    \<and> accept_hand_message demo_curve ''host'' (delivery_table wallet k k') m = Inr (table', receipt)
    \<and> (0 :: int) \<notin> set (missingProtocolSeatIndexes table')"
proof -
  obtain wallet where w: "CreateLocalIdentity demo_curve (\<lambda>_. Inl (Err [])) ''0a'' = Inr wallet" by (rule example_wallet)
  obtain k k' where k: "generated k" "generated k'" by (rule demo_keys)
  note facts = delivery_table_facts [OF k, of wallet]
  have now: "''now'' \<noteq> []" and zero: "se_SeatIndex (hd (example_seats wallet)) = 0"
    by (simp_all add: example_seats_def example_seat_def)
  from honest_share_is_accepted [where random = "\<lambda>_. Inl (Err [])" and profile = "[]", OF example_seated [OF w] facts(1-6) now
      facts(7) example_missing facts(8), unfolded zero] w k
  show ?thesis by blast
qed


section \<open>A started table\<close>

definition example_start :: "nativeTableState option res" where
  "example_start = start_next_hand (\<lambda>_. 0) (\<lambda>_ _. ''later'') ''deadline'' ''hand-1''
     (example_table (example_seats example_identity) None)"

lemma example_starts: "(case example_start of Inr (Some table) \<Rightarrow> True | _ \<Rightarrow> False)"
  by code_simp

lemma example_advances: "(case example_start of Inr (Some table) \<Rightarrow> is_ok (advance_phase ''deadline'' table) | _ \<Rightarrow> False)"
  by code_simp

theorem host_table_refines_engine_witness:
  "\<exists>table table' c hand. example_start = Inr (Some table) \<and> host_step demo_curve ''host'' table table'
    \<and> ts_ActiveHand table' = Some hand \<and> reachable c (ah_State hand)
    \<and> ReplayTranscriptRoot (hand_transcript hand) = Inr (ht_RootHash (hand_transcript hand))"
proof -
  obtain table where t: "example_start = Inr (Some table)" using example_starts by (auto split: sum.splits option.splits)
  have "is_ok (advance_phase ''deadline'' table)" using example_advances unfolding t by simp
  then obtain table' outcome where "advance_phase ''deadline'' table = Inr (table', outcome)" by (auto simp: is_ok_iff)
  then have step: "host_step demo_curve ''host'' table table'" by (rule host_step.phase)
  have "host_reachable demo_curve ''host'' (next_hand_config ''hand-1'' (reactivateContinuingSeatsForNextHand
      (releaseCompletedActiveHandForNextStart (example_table (example_seats example_identity) None)))) table"
    using host_reachable.start [OF t [unfolded example_start_def] refl] .
  from host_table_refines_engine [OF host_reachable.step [OF this step]] t step show ?thesis by blast
qed

end
