(* ===== verification/Custody_Examples.thy ===== *)
theory Custody_Examples
  imports Turn_Locks Custody_Fees Custody_Scripts Hand_Abort Hand_Examples
begin

text \<open>
  The table of two seats again, with the players of the demonstration hand and a custody state, an environment
  with a trivial Ark library, and the theorems on custody applied to them.
\<close>

definition example_ark :: ark_lib where
  "example_ark = \<lparr>ark_ParsePubKey = Inr, ark_SerializePubKey = (\<lambda>key. key),
     ark_NewDefaultVtxoScript = (\<lambda>owner signer delay. [MultisigClosure [owner, signer], CSVMultisigClosure delay [owner]]),
     ark_Encode = (\<lambda>closures. Inr (map (\<lambda>_. [CHR 0x0A]) closures)), ark_P2TRScript = (\<lambda>_. Inr ''key''),
     ark_ParseVtxoScript = (\<lambda>leaves. Inr (map (\<lambda>key. MultisigClosure [key, [CHR 0x0C]]) leaves)), ark_ForfeitClosures = (\<lambda>closures. closures), ark_Script = (\<lambda>_. Inr ''leaf''),
     ark_MerkleProof = (\<lambda>_ _. Inr []), ark_ToTxOut = (\<lambda>_ _. Inr ([], False)), ark_NodeJson = (\<lambda>_. JNull)\<rparr>"

text \<open>The clock stands still after every deadline; \<open>mock\<close> turns the Ark server off.\<close>

definition example_env :: "bool \<Rightarrow> mesh_env" where
  "example_env mock = \<lparr>me_UseMockSettlement = mock, me_WalletID = example_identity, me_ProtocolPublicKeyHex = ''0c'',
     me_ArkConfig = Inr \<lparr>ka_ArkServerURL = [], ka_CheckpointTapscript = [], ka_DustSats = 330, ka_ExplorerURL = [], ka_ForfeitAddress = [],
       ka_ForfeitPubkeyHex = [], ka_Network = ''regtest'', ka_OffchainInputFeeSats = 1, ka_OffchainOutputFeeSats = 2,
       ka_OnchainInputFeeSats = 0, ka_OnchainOutputFeeSats = 0, ka_SignerPubkeyHex = ''0c'',
       ka_UnilateralExitDelay = \<lparr>rl_Type = LocktimeTypeBlock, rl_Value = 144\<rparr>\<rparr>,
     me_FeeReserveOverride = [], me_ParseTime = (\<lambda>_. Inr 0), me_Now = ''now'', me_Later = (\<lambda>_ _. ''later''),
     me_Elapsed = (\<lambda>_. 1), me_Ark = example_ark\<rparr>"

definition example_claim :: "int \<Rightarrow> string \<Rightarrow> int \<Rightarrow> int \<Rightarrow> StackClaim" where
  "example_claim seat player amount reserve = \<lparr>sc_AllIn = False, sc_AmountSats = amount, sc_Folded = False, sc_PlayerID = player,
     sc_ReservedFeeSats = reserve, sc_RoundContributionSats = 0, sc_SeatIndex = seat, sc_Status = ''active'',
     sc_TotalContributionSats = 0, sc_VTXORefs = []\<rparr>"

definition example_custody :: CustodyState where
  "example_custody = \<lparr>cs_ActionDeadlineAt = ''soon'', cs_ActingPlayerID = [], cs_ChallengeAnchor = [], cs_CreatedAt = [],
     cs_CustodySeq = 1, cs_DecisionIndex = 0, cs_Epoch = 1, cs_HandID = [], cs_HandNumber = 0, cs_LegalActionsHash = [],
     cs_PotSlices = [], cs_PrevStateHash = [], cs_PublicStateHash = [],
     cs_StackClaims = [example_claim 0 ''alice'' 1000 5, example_claim 1 ''bob'' 600 7], cs_StateHash = [],
     cs_TableID = ''table-1'', cs_TimeoutPolicy = TimeoutPolicyAutoCheckOrFold, cs_TranscriptRoot = []\<rparr>"

definition example_active :: "HoldemState \<Rightarrow> nativeActiveHand" where
  "example_active hand = \<lparr>ah_Cards = \<lparr>hd_FinalDeck = [], hd_PhaseDeadlineAt = [],
     hd_Transcript = \<lparr>ht_HandID = ''hand-1'', ht_HandNumber = 1, ht_Records = [], ht_RootHash = [], ht_TableID = ''table-1''\<rparr>\<rparr>,
     ah_State = hand\<rparr>"

definition custody_table :: "HoldemState \<Rightarrow> nativeTableState" where
  "custody_table hand = (example_table [example_seat 0 ''alice'' ''0a'', example_seat 1 ''bob'' ''0b''] (Some (example_active hand)))
     \<lparr>ts_LatestCustodyState := Some example_custody\<rparr>"

lemma custody_table_ok:
  "hand_seated (custody_table hand) demo_config" "custody_ready (custody_table hand)"
  "ts_ActiveHand (custody_table hand) = Some (example_active hand)" "ah_State (example_active hand) = hand"
  "ts_LatestCustodyState (custody_table hand) = Some example_custody"
  "ts_PendingTurnMenu (custody_table hand) = None"
  by (simp_all add: custody_table_def example_table_def hand_seated_def custody_ready_def demo_config_def example_seat_def
      example_config_def example_custody_def example_claim_def example_active_def)

lemma example_env_simps [simp]:
  "me_UseMockSettlement (example_env mock) = mock" "me_Elapsed (example_env mock) at = 1"
  "me_Ark (example_env mock) = example_ark"
  by (simp_all add: example_env_def)



section \<open>Fees and plans\<close>

definition example_ref :: "string \<Rightarrow> char \<Rightarrow> int \<Rightarrow> VTXORef" where
  "example_ref tx key amount = \<lparr>vr_AmountSats = amount, vr_ArkIntentID = [], vr_ArkTxID = [], vr_ExpiresAt = [], vr_OwnerPlayerID = [],
     vr_Script = [], vr_Tapscripts = [[key]], vr_TxID = tx, vr_VOut = 0\<rparr>"

text \<open>Both stacks are there, and then each player puts 100 into a pot.\<close>

definition funded_custody :: CustodyState where
  "funded_custody = example_custody\<lparr>cs_StackClaims :=
     [(example_claim 0 ''alice'' 1000 5)\<lparr>sc_VTXORefs := [example_ref ''t1'' (CHR 0x0A) 1005]\<rparr>,
      (example_claim 1 ''bob'' 600 7)\<lparr>sc_VTXORefs := [example_ref ''t2'' (CHR 0x0B) 607]\<rparr>]\<rparr>"

definition example_transition :: CustodyTransition where
  "example_transition = \<lparr>ct_Action = None, ct_ActingPlayerID = ''alice'', ct_Approvals = [], ct_ArkIntentID = [], ct_ArkTxID = [],
     ct_CustodySeq = 2, ct_DecisionIndex = 0, ct_Kind = TransitionKindAction,
     ct_NextState = example_custody\<lparr>cs_ActingPlayerID := ''alice'',
       cs_StackClaims := [example_claim 0 ''alice'' 900 5, example_claim 1 ''bob'' 500 7],
       cs_PotSlices := [\<lparr>ps_CapSats = 100, ps_ContributedPlayerIDs = [''alice'', ''bob''], ps_Contributions = [(''alice'', 100), (''bob'', 100)],
         ps_EligiblePlayerIDs = [''alice'', ''bob''], ps_OddChipPlayerIDs = [], ps_PotID = ''pot-0'', ps_Sequence = 0, ps_Status = [],
         ps_TotalSats = 200, ps_VTXORefs = [], ps_WinnerPlayerIDs = []\<rparr>]\<rparr>,
     ct_NextStateHash = [], ct_PrevStateHash = [], ct_Proof = empty_proof, ct_ProposedAt = [], ct_ProposedBy = [],
     ct_TableID = ''table-1'', ct_TimeoutResolution = None, ct_TransitionID = []\<rparr>"

theorem fee_is_taken_exactly_witness:
  "\<exists>t'. allocateCustodyFeeReserve example_transition [''bob''] 3 = Inr t'
    \<and> (\<Sum>c\<leftarrow>cs_StackClaims (ct_NextState t'). sc_ReservedFeeSats c) = 9"
proof -
  have facts: "0 < (3 :: int)" "list_all (\<lambda>c. 0 \<le> sc_ReservedFeeSats c) (cs_StackClaims (ct_NextState example_transition))"
    by (simp_all add: example_transition_def example_claim_def)
  show ?thesis
    using fee_is_taken_exactly [OF facts, of "[''bob'']"]
    by (simp add: example_transition_def example_claim_def split: sum.splits)
qed

definition funded_table :: nativeTableState where
  "funded_table = (custody_table demo_open)\<lparr>ts_LatestCustodyState := Some funded_custody\<rparr>"

lemma example_plan: "is_ok (buildCustodySettlementPlan (example_env False) funded_table example_transition)"
  by code_simp

theorem settlement_plan_balances_witness:
  "\<exists>plan. buildCustodySettlementPlan (example_env False) funded_table example_transition = Inr plan
    \<and> (\<Sum>input\<leftarrow>pl_Inputs plan. vr_AmountSats (in_Ref input)) = (\<Sum>output\<leftarrow>pl_Outputs plan. os_AmountSats output)"
proof -
  obtain plan where plan: "buildCustodySettlementPlan (example_env False) funded_table example_transition = Inr plan"
    using example_plan by (auto simp: is_ok_def split: sum.splits)
  have state: "ts_LatestCustodyState funded_table = Some funded_custody" by (simp add: funded_table_def)
  have facts: "backed funded_custody"
    "mset (map sc_PlayerID (cs_StackClaims (ct_NextState example_transition))) = mset (map sc_PlayerID (cs_StackClaims funded_custody))"
    "distinct (map ps_PotID (cs_PotSlices (ct_NextState example_transition)))"
    "list_all (\<lambda>c. 0 \<le> sc_AmountSats c \<and> 0 \<le> sc_ReservedFeeSats c) (cs_StackClaims (ct_NextState example_transition))"
    "list_all (\<lambda>p. 0 \<le> ps_TotalSats p) (cs_PotSlices (ct_NextState example_transition))"
    "custody_value funded_custody = custody_value (ct_NextState example_transition)"
    by (simp_all add: backed_def custody_value_def funded_custody_def example_custody_def example_transition_def example_claim_def
        example_ref_def stackClaimRefAmount_def)
  show ?thesis using settlement_plan_balances [OF plan state facts(1-5)] plan facts(6) by auto
qed

lemma example_closures:
  "pot_closures (example_env False) funded_table example_transition (cs_PotSlices (ct_NextState example_transition) ! 0)
     (potSpendSignerIDsForTransition funded_table example_transition)
   = Inr [MultisigClosure [[CHR 0x0A], [CHR 0x0B], [CHR 0x0C]], CLTVMultisigClosure (word_of_int (- 120)) [[CHR 0x0B], [CHR 0x0C]],
       CSVMultisigClosure \<lparr>rl_Type = LocktimeTypeBlock, rl_Value = 144\<rparr> [[CHR 0x0A], [CHR 0x0B]]]"
  by code_simp

theorem pot_spend_needs_the_others_witness:
  "\<exists>key. player_pubkey (example_env False) funded_table ''bob'' = Inr key
    \<and> key \<in> set (closure_keys (CLTVMultisigClosure (word_of_int (- 120)) [[CHR 0x0B], [CHR 0x0C]]))"
proof -
  have facts: "ct_Kind example_transition \<notin> {TransitionKindCashOut, TransitionKindEmergencyExit, TransitionKindShowdownPayout}"
    "TrimSpace (cs_ActingPlayerID (ct_NextState example_transition)) \<noteq> []"
    "''bob'' \<in> set (requiredCustodySigners funded_table example_transition)" "TrimSpace ''bob'' \<noteq> []"
    "''bob'' \<noteq> cs_ActingPlayerID (ct_NextState example_transition)"
    by code_simp+
  from pot_spend_needs_the_others [OF example_closures facts, of "CLTVMultisigClosure (word_of_int (- 120)) [[CHR 0x0B], [CHR 0x0C]]"]
  show ?thesis by simp
qed


section \<open>Selections\<close>

text \<open>A turn whose menu has one option; the seats have the keys \<open>0a\<close> and \<open>0b\<close>, the host the key \<open>0d\<close>.\<close>

definition menu_table :: "NativeTurnCandidateBundle \<Rightarrow> nativeTableState" where
  "menu_table candidate =
     (let table = (custody_table demo_open)\<lparr>ts_CurrentHost := \<lparr>kn_ProfileName = [], kn_Peer = \<lparr>pa_Alias = [], pa_LastSeenAt = [],
            pa_PeerID = ''host'', pa_PeerURL = [], pa_ProtocolPubkeyHex = ''0d'', pa_RelayPeerID = [], pa_Roles = []\<rparr>\<rparr>\<rparr> in
      table\<lparr>ts_PendingTurnMenu := Some ((bare_menu ''soon'' table demo_open)\<lparr>
        tm_Options := [\<lparr>mo_Action = plain_act ActionFold, mo_CandidateHash = ''c1'', mo_OptionID = ''fold''\<rparr>],
        tm_Candidates := [candidate]\<rparr>)\<rparr>)"

lemma other_menu:
  assumes "ts_PendingTurnChallenge table = None"
  shows "turnMenuSourceStateHash (table\<lparr>ts_PendingTurnMenu := menu\<rparr>) = turnMenuSourceStateHash table"
    "turnAnchorHashForEpoch (table\<lparr>ts_PendingTurnMenu := menu\<rparr>) epoch = turnAnchorHashForEpoch table epoch"
proof -
  show hash: "turnMenuSourceStateHash (table\<lparr>ts_PendingTurnMenu := menu\<rparr>) = turnMenuSourceStateHash table"
    using assms by (simp add: turnMenuSourceStateHash_def)
  show "turnAnchorHashForEpoch (table\<lparr>ts_PendingTurnMenu := menu\<rparr>) epoch = turnAnchorHashForEpoch table epoch"
    by (simp add: turnAnchorHashForEpoch_def turnAnchorPayloadForEpoch_def hash split: option.split)
qed

lemma menu_open:
  assumes "tb_CandidateHash candidate = ''c1''" "li_PublicKeyHex wallet = ''0a''"
  shows "\<exists>menu. selection_open (menu_table candidate) menu (example_active demo_open) wallet ''c1''
    \<and> tm_ActionDeadlineAt menu = ''soon''"
proof -
  let ?table = "(custody_table demo_open)\<lparr>ts_CurrentHost := \<lparr>kn_ProfileName = [], kn_Peer = \<lparr>pa_Alias = [], pa_LastSeenAt = [],
            pa_PeerID = ''host'', pa_PeerURL = [], pa_ProtocolPubkeyHex = ''0d'', pa_RelayPeerID = [], pa_Roles = []\<rparr>\<rparr>\<rparr>"
  have acting: "PhaseAllowsActions (st_Phase demo_open)" "st_ActingSeatIndex demo_open = Some 0"
    by code_simp+
  have hash: "TrimSpace ''c1'' \<noteq> []" "TrimSpace [] = []" by code_simp+
  have table: "ts_PendingTurnChallenge ?table = None" "ts_PendingTurnMenu ?table = None" "ts_CurrentEpoch ?table = 1"
      "ts_ActiveHand ?table = Some (example_active demo_open)" "ah_State (example_active demo_open) = demo_open"
      "ts_LatestCustodyState ?table = Some example_custody"
      "seatRecordForPlayer ?table (acting_player_id ?table demo_open) = Some (example_seat 0 ''alice'' ''0a'')"
    by (simp_all add: custody_table_def example_table_def example_active_def seatRecordForPlayer_def acting_player_id_def
        seatPlayerID_def acting(2) example_seat_def)
  show ?thesis
    unfolding menu_table_def Let_def selection_open_def
    using assms hash acting table
    by (simp add: turnMenuMatchesTable_def bare_menu_def tableHasActionableTurn_def pendingTurnEpoch_def pendingTurnAnchorHash_def
        other_menu [OF table(1)] findTurnMenuOptionByCandidateHash_def findTurnCandidateByHash_def find_candidate_def
        turnMenuSourceStateHash_def example_seat_def)
qed

text \<open>Everything an honest selection needs, on the table above.\<close>

lemma selection_ready:
  obtains wallet candidate menu where "li_PublicKeyHex wallet = ''0a''" "tb_CandidateHash candidate = ''c1''"
    "CreateLocalIdentity demo_curve (\<lambda>_. Inl (Err [])) ''0a'' = Inr (me_WalletID ((example_env True)\<lparr>me_WalletID := wallet\<rparr>))"
    "privateKeyAndPublicKeyHex demo_curve (\<lambda>_. Inl (Err [])) ''0d''
      = Inr (''0d'', [CHR 0x0D], pa_ProtocolPubkeyHex (kn_Peer (ts_CurrentHost (menu_table candidate))))"
    "selection_open (menu_table candidate) menu (example_active demo_open) (me_WalletID ((example_env True)\<lparr>me_WalletID := wallet\<rparr>)) ''c1''"
    "TrimSpace (me_Now ((example_env True)\<lparr>me_WalletID := wallet\<rparr>)) \<noteq> []"
    "acceptedBeforeOrAtDeadline (example_env True) (me_Now ((example_env True)\<lparr>me_WalletID := wallet\<rparr>)) (tm_ActionDeadlineAt menu)"
proof -
  have decode: "DecodeString ''0a'' = Inr [CHR 0x0A]" "EncodeToString [CHR 0x0A] = ''0a''"
    "DecodeString ''0d'' = Inr [CHR 0x0D]" "EncodeToString [CHR 0x0D] = ''0d''" by code_simp+
  obtain wallet where w: "CreateLocalIdentity demo_curve (\<lambda>_. Inl (Err [])) ''0a'' = Inr wallet" by (rule example_wallet)
  obtain sk where "privateKeyAndPublicKeyHex demo_curve (\<lambda>_. Inl (Err [])) ''0a'' = Inr (li_PrivateKeyHex wallet, sk, li_PublicKeyHex wallet)"
    by (rule local_identityD [OF w])
  then have pub: "li_PublicKeyHex wallet = ''0a''"
    using decode(1,2) by (auto simp: privateKeyAndPublicKeyHex_def demo_curve_def Let_def)
  obtain candidate :: NativeTurnCandidateBundle where candidate: "tb_CandidateHash candidate = ''c1''"
    using NativeTurnCandidateBundle.select_convs(3) by metis
  obtain menu where menu: "selection_open (menu_table candidate) menu (example_active demo_open) wallet ''c1''"
      "tm_ActionDeadlineAt menu = ''soon''" using menu_open [OF candidate pub] by blast
  have "pa_ProtocolPubkeyHex (kn_Peer (ts_CurrentHost (menu_table candidate))) = ''0d''" by (simp add: menu_table_def Let_def)
  then have host: "privateKeyAndPublicKeyHex demo_curve (\<lambda>_. Inl (Err [])) ''0d''
      = Inr (''0d'', [CHR 0x0D], pa_ProtocolPubkeyHex (kn_Peer (ts_CurrentHost (menu_table candidate))))"
    using decode(3,4) by (simp add: privateKeyAndPublicKeyHex_def demo_curve_def Let_def)
  have now: "TrimSpace ''now'' \<noteq> []" "TrimSpace ''soon'' \<noteq> []" by code_simp+
  have timely: "acceptedBeforeOrAtDeadline (example_env True) (me_Now ((example_env True)\<lparr>me_WalletID := wallet\<rparr>)) (tm_ActionDeadlineAt menu)"
    unfolding menu(2) using now by (simp add: acceptedBeforeOrAtDeadline_def example_env_def)
  have "me_WalletID ((example_env True)\<lparr>me_WalletID := wallet\<rparr>) = wallet" "me_Now ((example_env True)\<lparr>me_WalletID := wallet\<rparr>) = ''now''"
    by (simp_all add: example_env_def)
  then show ?thesis using that [OF pub candidate _ host _ _ timely] w menu(1) now(1) by simp
qed

lemma menu_table_host:
  "pa_PeerID (kn_Peer (ts_CurrentHost (menu_table candidate))) = ''host''" "tc_TableID (ts_Config (menu_table candidate)) = ''table-1''"
  by (simp_all add: menu_table_def custody_table_def example_table_def example_config_def Let_def)

lemma keys_given: "''0a'' \<noteq> []" "''0d'' \<noteq> []"
  by simp_all



end
