(* ===== verification/Sync_Examples.thy ===== *)
theory Sync_Examples
  imports Sync_Properties Custody_Examples
begin

text \<open>
  A table of two seats whose custody chain has one approved transition, a peer that takes the table over, and the
  theorems on replication applied to them. The curve and the Ark library are the trivial ones of the other examples.
\<close>

section \<open>A daemon with a key\<close>

definition sync_peer :: NativePeerAddress where
  "sync_peer = \<lparr>pa_Alias = [], pa_LastSeenAt = [], pa_PeerID = ''peer-a'', pa_PeerURL = ''parker://peer-a'', pa_ProtocolPubkeyHex = ''0d'',
     pa_RelayPeerID = [], pa_Roles = []\<rparr>"

definition sync_daemon :: daemon where
  "sync_daemon = \<lparr>da_Network = [], da_Peer = sync_peer, da_ProtocolPrivateKeyHex = ''0d'', da_ProtocolPublicKeyHex = ''0d'',
     da_Mode = ''player'', da_ProfileName = ''a'', da_WalletPlayerID = ''a''\<rparr>"

lemma peer_keys:
  "privateKeyAndPublicKeyHex demo_curve random ''0a'' = Inr (''0a'', [CHR 0x0A], ''0a'')"
  "privateKeyAndPublicKeyHex demo_curve random ''0d'' = Inr (''0d'', [CHR 0x0D], ''0d'')"
proof -
  have decode: "DecodeString ''0a'' = Inr [CHR 0x0A]" "EncodeToString [CHR 0x0A] = ''0a''"
    "DecodeString ''0d'' = Inr [CHR 0x0D]" "EncodeToString [CHR 0x0D] = ''0d''" by code_simp+
  then show "privateKeyAndPublicKeyHex demo_curve random ''0a'' = Inr (''0a'', [CHR 0x0A], ''0a'')"
    "privateKeyAndPublicKeyHex demo_curve random ''0d'' = Inr (''0d'', [CHR 0x0D], ''0d'')"
    by (simp_all add: privateKeyAndPublicKeyHex_def demo_curve_def Let_def)
qed

lemma sync_daemon_keys: "daemon_keys demo_curve sync_daemon" "da_Network sync_daemon = []"
  using peer_keys(2) by (auto simp: daemon_keys_def sync_daemon_def)

definition sync_seats :: "nativeSeatRecord list" where
  "sync_seats = [(example_seat 0 ''a'' ''0a'')\<lparr>se_PeerID := ''peer-a'', se_PeerURL := ''parker://peer-a'', se_ProtocolPubkeyHex := ''0d''\<rparr>,
     (example_seat 1 ''b'' ''0d'')\<lparr>se_PeerID := ''peer-b''\<rparr>]"

definition sync_table :: nativeTableState where
  "sync_table = (example_table sync_seats None)\<lparr>ts_Config := example_config\<lparr>tc_ProtocolVersion := nativeProtocolVersion\<rparr>\<rparr>"

lemma sync_table_history:
  "acceptedEventHistory demo_curve sync_table = Inr \<lparr>eh_ByHash = [], eh_Hashes = [], eh_LastHash = []\<rparr>"
proof -
  have "TrimSpace [] = []" by code_simp
  then show ?thesis by (simp add: acceptedEventHistory_def sync_table_def example_table_def)
qed

definition ready_body :: "(string, goval) gomap" where
  "ready_body = [(''type'', VString ''TableReady''), (''seats'', VInt 2)]"

lemma ready_plain: "plain_event (new_event sync_daemon ''now'' sync_table ready_body)"
proof -
  have "canonicalizeValue (body_value (Some ready_body)) = JObj [(''seats'', JInt 2), (''type'', JStr ''TableReady'')]" by code_simp
  then have "plain (body_value (Some ready_body))" by (simp add: plain_def)
  then show ?thesis by (simp add: plain_event_def new_event_def sync_table_def example_table_def plain_def)
qed

theorem written_log_is_accepted_witness:
  "\<exists>table'. append_all demo_curve (\<lambda>_. Inl (Err [])) sync_table [(sync_daemon, ''now'', ''now'', ready_body)] = Inr table'
    \<and> validateAcceptedEventHistory demo_curve table' = Inr () \<and> length (ts_Events table') = 1"
proof -
  obtain table' where "appendEvent demo_curve (\<lambda>_. Inl (Err [])) sync_daemon ''now'' ''now'' sync_table ready_body = Inr table'"
    using append_succeeds [OF demo_curve_laws sync_daemon_keys(1) ready_plain] by blast
  then have t: "append_all demo_curve (\<lambda>_. Inl (Err [])) sync_table [(sync_daemon, ''now'', ''now'', ready_body)] = Inr table'" by simp
  have "\<forall>(daemon, _) \<in> set [(sync_daemon, ''now'', ''now'', ready_body)].
      daemon_keys demo_curve daemon \<and> da_Network daemon = tc_NetworkID (ts_Config sync_table)"
    using sync_daemon_keys by (simp add: sync_table_def example_config_def)
  from written_log_is_accepted [OF demo_curve_laws sync_table_history t this] t
  show ?thesis by (auto simp: sync_table_def example_table_def)
qed

theorem log_head_binds_events_witness:
  "\<exists>table'. appendEvent demo_curve (\<lambda>_. Inl (Err [])) sync_daemon ''now'' ''now'' sync_table ready_body = Inr table'
    \<and> map event_content (ts_Events table') = map event_content (ts_Events (without_custody table'))"
proof -
  obtain table' where t: "appendEvent demo_curve (\<lambda>_. Inl (Err [])) sync_daemon ''now'' ''now'' sync_table ready_body = Inr table'"
    using append_succeeds [OF demo_curve_laws sync_daemon_keys(1) ready_plain] by blast
  have network: "da_Network sync_daemon = tc_NetworkID (ts_Config sync_table)"
    using sync_daemon_keys(2) by (simp add: sync_table_def example_config_def)
  obtain history where h: "acceptedEventHistory demo_curve table' = Inr history"
    using append_keeps_history [OF demo_curve_laws sync_daemon_keys(1) network sync_table_history t] by blast
  have "json_kind (ev_PrevEventHash e)" if "e \<in> set (ts_Events table')" for e
    using t that by (auto simp: appendEvent_def Let_def bind_res_ok sync_table_def example_table_def new_event_def)
  then have kinds: "\<forall>e \<in> set (ts_Events table') \<union> set (ts_Events (without_custody table')). json_kind (ev_PrevEventHash e)" by simp
  have h': "acceptedEventHistory demo_curve (without_custody table') = Inr history" using h by (simp add: without_custody_checks)
  have "\<not> sha_collision x x" for x by (simp add: sha_collision_def)
  with log_head_binds_events [OF h h' _ kinds] t show ?thesis by simp
qed

section \<open>A takeover\<close>

lemma sync_candidate: "lowestEligibleFailoverSeat sync_table = Some (hd sync_seats)"
proof -
  have "\<not> ''peer-b'' < ''peer-a''" "\<not> terminalCustodySeatStatus ''active''" by code_simp+
  then show ?thesis
    by (simp add: lowestEligibleFailoverSeat_def sync_table_def example_table_def sync_seats_def example_seat_def)
qed

lemma sync_failover: "shouldHandleFailover (\<lambda>_. False) sync_daemon sync_table"
  using sync_candidate by (simp add: shouldHandleFailover_def sync_daemon_def sync_peer_def sync_table_def example_table_def
      seatIndexForPlayer_def sync_seats_def example_seat_def)

lemma sync_listed: "listed sync_table sync_daemon"
proof -
  have "TrimSpace ''0d'' \<noteq> []" "TrimSpace ''parker://peer-a'' \<noteq> []" by code_simp+
  then show ?thesis
    using sync_candidate by (simp add: listed_def authorizedRemoteHostPeer_def sync_daemon_def sync_peer_def sync_table_def
        example_table_def sync_seats_def example_seat_def)
qed

lemma sync_rotation_plain:
  "plain_event (new_event sync_daemon ''now'' (rotated sync_daemon (example_env True) sync_table)
    (rotation_body (example_env True) (host_id sync_table) (rotated sync_daemon (example_env True) sync_table)))"
  (is "plain_event (new_event _ _ ?t ?body)")
proof -
  have t: "ts_PublicState ?t = None" "ts_LastEventHash ?t = []" "ts_CurrentEpoch ?t = 2" "host_id ?t = ''peer-a''"
      "tc_TableID (ts_Config ?t) = ''table-1''" "ts_Witnesses ?t = []"
    by (simp_all add: rotated_def Let_def sync_table_def example_table_def sync_daemon_def sync_peer_def example_config_def)
  have "?body = [(''type'', VString ''HostRotated''),
      (''lease'', any_map [(''epoch'', Some (VInt 2)), (''hostPeerId'', Some (VString ''peer-a'')), (''leaseExpiry'', Some (VString ''later'')),
        (''leaseStart'', Some (VString ''now'')), (''signatures'', Some (VSlice (Some []))), (''tableId'', Some (VString ''table-1'')),
        (''witnessSet'', Some (VSlice (Some [])))]),
      (''newEpoch'', VInt 2), (''newHostPeerId'', VString ''peer-a''), (''previousHostPeerId'', VString ''host'')]"
    unfolding rotation_body_def t by (simp add: peerIDsFromParticipants_def example_env_def sync_table_def example_table_def)
  moreover have "canonicalizeValue (body_value (Some [(''type'', VString ''HostRotated''),
      (''lease'', any_map [(''epoch'', Some (VInt 2)), (''hostPeerId'', Some (VString ''peer-a'')), (''leaseExpiry'', Some (VString ''later'')),
        (''leaseStart'', Some (VString ''now'')), (''signatures'', Some (VSlice (Some []))), (''tableId'', Some (VString ''table-1'')),
        (''witnessSet'', Some (VSlice (Some [])))]),
      (''newEpoch'', VInt 2), (''newHostPeerId'', VString ''peer-a''), (''previousHostPeerId'', VString ''host'')]))
    = JObj [(''lease'', JObj [(''epoch'', JInt 2), (''hostPeerId'', JStr ''peer-a''), (''leaseExpiry'', JStr ''later''),
        (''leaseStart'', JStr ''now''), (''signatures'', JArr []), (''tableId'', JStr ''table-1''), (''witnessSet'', JArr [])]),
      (''newEpoch'', JInt 2), (''newHostPeerId'', JStr ''peer-a''), (''previousHostPeerId'', JStr ''host''), (''type'', JStr ''HostRotated'')]"
    by code_simp
  ultimately have "plain (body_value (Some ?body))" by (simp add: plain_def)
  then show ?thesis by (simp add: plain_event_def new_event_def plain_def t)
qed

theorem takeover_is_recognised_witness:
  "\<exists>table'. rotate_host demo_curve (\<lambda>_. Inl (Err [])) (\<lambda>_. False) sync_daemon (example_env True) True True sync_table = Inr (Some table')
    \<and> validateAcceptedHostTransition (\<lambda>_. Inr sync_peer) (Some sync_table) table' = Inr ()
    \<and> ts_CurrentEpoch table' = 2 \<and> validateAcceptedEventHistory demo_curve table' = Inr ()"
proof -
  have now: "me_Now (example_env True) = ''now''" by (simp add: example_env_def)
  obtain table' where "appendEvent demo_curve (\<lambda>_. Inl (Err [])) sync_daemon ''now'' ''now'' (rotated sync_daemon (example_env True) sync_table)
      (rotation_body (example_env True) (host_id sync_table) (rotated sync_daemon (example_env True) sync_table)) = Inr table'"
    using append_succeeds [OF demo_curve_laws sync_daemon_keys(1) sync_rotation_plain] by blast
  then have "rotate_host demo_curve (\<lambda>_. Inl (Err [])) (\<lambda>_. False) sync_daemon (example_env True) True True sync_table
      = Inr (Some table')"
    using sync_failover by (simp add: rotate_host_def now)
  moreover have "pa_PeerID sync_peer = pa_PeerID (da_Peer sync_daemon)" "pa_ProtocolPubkeyHex sync_peer = pa_ProtocolPubkeyHex (da_Peer sync_daemon)"
    "da_Network sync_daemon = tc_NetworkID (ts_Config sync_table)" "ts_CurrentEpoch sync_table = 1"
    by (simp_all add: sync_daemon_def sync_table_def example_table_def example_config_def)
  ultimately show ?thesis
    using takeover_is_recognised [where fetchPeerInfo = "\<lambda>_. Inr sync_peer", OF _ sync_listed refl _ _ demo_curve_laws
        sync_daemon_keys(1) _ sync_table_history] by fastforce
qed

section \<open>An approved transition\<close>

definition empty_claim :: "int \<Rightarrow> string \<Rightarrow> StackClaim" where
  "empty_claim seat player = (demo_claim seat player [])\<lparr>sc_AmountSats := 0\<rparr>"

definition sync_state :: CustodyState where
  "sync_state = (demo_custody [empty_claim 0 ''a'', empty_claim 1 ''b''] [])\<lparr>cs_TableID := ''table-1''\<rparr>"

text \<open>The transition to it, with a request hash, approvals and a transition hash.\<close>

definition sync_transition :: "string \<Rightarrow> CustodySignature list \<Rightarrow> string \<Rightarrow> CustodyTransition" where
  "sync_transition request approvals hash =
     (let t = transition_of TransitionKindAction (demo_binding\<lparr>sb_TableID := ''table-1''\<rparr>) sync_state None None in
      t\<lparr>ct_PrevStateHash := [], ct_CustodySeq := 1, ct_DecisionIndex := 0, ct_ActingPlayerID := [], ct_Approvals := approvals,
        ct_Proof := (ct_Proof t)\<lparr>cp_RequestHash := request, cp_Signatures := approvals, cp_TransitionHash := hash\<rparr>\<rparr>)"

definition with_chain :: "CustodyTransition \<Rightarrow> nativeTableState" where
  "with_chain transition = sync_table\<lparr>ts_CustodyTransitions := [transition], ts_LatestCustodyState := Some (ct_NextState transition)\<rparr>"

lemma sync_transition_fields:
  "ct_NextState (sync_transition request approvals hash) = sync_state" "ct_TimeoutResolution (sync_transition request approvals hash) = None"
  "ct_Kind (sync_transition request approvals hash) = TransitionKindAction" "ct_TableID (sync_transition request approvals hash) = ''table-1''"
  "ct_Approvals (sync_transition request approvals hash) = approvals" "ct_CustodySeq (sync_transition request approvals hash) = 1"
  "ct_PrevStateHash (sync_transition request approvals hash) = []"  "ct_ArkIntentID (sync_transition request approvals hash) = []"
  "ct_DecisionIndex (sync_transition request approvals hash) = 0" "ct_ActingPlayerID (sync_transition request approvals hash) = []"
  "ct_NextStateHash (sync_transition request approvals hash) = []" "ct_ArkTxID (sync_transition request approvals hash) = []"
  "ct_Proof (sync_transition request approvals hash) = empty_proof\<lparr>cp_ReplayValidated := True, cp_RequestHash := request,
     cp_Signatures := approvals, cp_TransitionHash := hash\<rparr>"
  by (simp_all add: sync_transition_def transition_of_def demo_binding_def sync_state_def demo_custody_def empty_proof_def Let_def)

lemma sync_transition_valid:
  "hash = HashCustodyTransition (\<lambda>_. JNull) (sync_transition request approvals [])
    \<Longrightarrow> ValidateTransition (\<lambda>_. JNull) None (sync_transition request approvals hash) = Inr ()"
proof -
  assume hash: "hash = HashCustodyTransition (\<lambda>_. JNull) (sync_transition request approvals [])"
  have "sync_transition request approvals hash = (sync_transition request approvals [])
      \<lparr>ct_Proof := (ct_Proof (sync_transition request approvals []))\<lparr>cp_TransitionHash := hash\<rparr>\<rparr>"
    by (simp add: sync_transition_def Let_def)
  then have same: "HashCustodyTransition (\<lambda>_. JNull) (sync_transition request approvals hash) = hash"
    using hash transition_hash_ignores_itself by metis
  show ?thesis
    by (simp add: ValidateTransition_def transition_checks validate_state_rules state_rules_def claim_rules_def paid_into_def
        sync_transition_fields same sync_state_def demo_custody_def empty_claim_def demo_claim_def empty_proof_def
        Let_def count_witnesses_def kind_in_def no_ark_ids_def)
qed

text \<open>The request it stands for does not depend on them, nor on the table.\<close>

definition sync_reset :: CustodyTransition where
  "sync_reset = resetCustodyRequestTransition sync_table (sync_transition [] [] [])"

lemma sync_reset_any:
  assumes "ts_LatestCustodyState table = None"
  shows "resetCustodyRequestTransition table (sync_transition h approvals hash) = sync_reset"
proof -
  have "ts_LatestCustodyState sync_table = None" by (simp add: sync_table_def example_table_def)
  then show ?thesis
    using assms by (simp add: sync_reset_def resetCustodyRequestTransition_def sync_transition_def sync_state_def reset_claim_def
        prev_stacks_def transition_of_def empty_proof_def demo_binding_def demo_custody_def Let_def)
qed

definition sync_request :: CustodyTransition where
  "sync_request = with_request_hash (\<lambda>_. JNull) (applyTransitionPlannedRefs sync_reset
     (Some \<lparr>pl_AuthorizedOutputs = [], pl_Inputs = [], pl_Outputs = [], pl_ProofSignerIDs = [], pl_TreeSignerIDs = []\<rparr>))"

lemma sync_reset_fields:
  "cs_StackClaims (ct_NextState sync_reset) = [empty_claim 0 ''a'', empty_claim 1 ''b'']" "cs_PotSlices (ct_NextState sync_reset) = []"
  "ct_Kind sync_reset = TransitionKindAction" "ct_TableID sync_reset = ''table-1''" "ct_PrevStateHash sync_reset = []"
  "ct_CustodySeq sync_reset = 1"
  by (simp_all add: sync_reset_def resetCustodyRequestTransition_def sync_transition_fields sync_state_def demo_custody_def reset_claim_def
      prev_stacks_def empty_claim_def demo_claim_def sync_table_def example_table_def)

lemma sync_request_fields:
  "ct_TableID sync_request = ''table-1''" "ct_PrevStateHash sync_request = []" "ct_CustodySeq sync_request = 1"
  "TrimSpace (cp_RequestHash (ct_Proof sync_request)) = cp_RequestHash (ct_Proof sync_request)"
  "cp_RequestHash (ct_Proof sync_request) \<noteq> []"
  by (simp_all add: sync_request_def with_request_hash_def applyTransitionPlannedRefs_def seal_state_def applyTransitionSettlementPlan_def
      sync_reset_fields custodyTransitionRequestHash_def HashCustodyRequest_def HashValue_digest Let_def)

lemma sync_normalized:
  assumes "ts_LatestCustodyState table = None"
  shows "\<exists>plan. normalizedCustodyApprovalTransition (\<lambda>_. JNull) (example_env True) table (sync_transition h approvals hash)
    = Inr (sync_request, plan)"
proof -
  have plan: "buildCustodySettlementPlan (example_env True) table sync_reset = Inr \<lparr>pl_AuthorizedOutputs = [], pl_Inputs = [], pl_Outputs = [],
      pl_ProofSignerIDs = [], pl_TreeSignerIDs = tree_signers table sync_reset\<rparr>" (is "_ = Inr ?plan")
    unfolding buildCustodySettlementPlan_def sync_reset_fields
    using assms by (simp add: plan_claim_def prev_stacks_def prev_pots_def claim_input_refs_def sync_reset_fields inputs_of_def empty_claim_def
        demo_claim_def removed_inputs_def removed_pots_def authorizedCustodyBatchOutputs_def Let_def)
  have "with_request_hash (\<lambda>_. JNull) (applyTransitionPlannedRefs sync_reset (Some ?plan)) = sync_request"
    by (simp add: sync_request_def applyTransitionPlannedRefs_def applyTransitionSettlementPlan_def signingPlaceholderRefs_def)
  moreover have "normalizedCustodySigningTransition (example_env True) table sync_reset
      = Inr (applyTransitionPlannedRefs sync_reset (Some ?plan), Some ?plan)"
    using plan by (simp add: normalizedCustodySigningTransition_def challenge_kind_def sync_reset_fields)
  moreover have "challengeResolutionApprovalSource table (sync_transition h approvals hash) = Inr None"
    by (simp add: challengeResolutionApprovalSource_def sync_transition_fields empty_proof_def)
  ultimately show ?thesis
    by (simp add: normalizedCustodyApprovalTransition_def challenge_kind_def sync_transition_fields sync_reset_any [OF assms])
qed

definition example_wc :: witness_checks where
  "example_wc = \<lparr>wc_bundle = (\<lambda>_ _. Inr ()), wc_challenge = (\<lambda>_ _ _. Inr ()), wc_recovery = (\<lambda>_ _ _. Inr ()),
     wc_settlement = (\<lambda>_ _ _. Inr ()), wc_exit = (\<lambda>_ _. Inr \<lparr>es_BroadcastTxIDs = [], es_SweepTxID = []\<rparr>)\<rparr>"

definition sync_checks_of :: sync_checks where
  "sync_checks_of = \<lparr>lc_transition = validateAcceptedCustodyTransition (\<lambda>_. JNull) demo_curve (example_env True) example_wc,
     lc_funds = (\<lambda>_ _. Inr ()), ck_replay = (\<lambda>_ _. Inr ()), ck_menu = (\<lambda>_ _. Inr ()),
     ck_challenge = (\<lambda>_ _. Inr ())\<rparr>"

definition wallet_env :: "string \<Rightarrow> string \<Rightarrow> mesh_env" where
  "wallet_env player key = (example_env True)\<lparr>me_WalletID := \<lparr>li_PlayerID = player, li_PrivateKeyHex = key, li_PublicKeyHex = key\<rparr>\<rparr>"

lemma with_chain_fields [simp]:
  "ts_CustodyTransitions (with_chain t) = [t]" "ts_LatestCustodyState (with_chain t) = Some (ct_NextState t)"
  "ts_Seats (with_chain t) = sync_seats" "ts_Events (with_chain t) = []" "ts_Snapshots (with_chain t) = []"
  "ts_ActiveHand (with_chain t) = None" "ts_PendingTurnMenu (with_chain t) = None" "ts_PendingTurnChallenge (with_chain t) = None"
  "ts_PublicState (with_chain t) = None" "ts_LatestSnapshot (with_chain t) = None" "ts_LatestFullySignedSnapshot (with_chain t) = None"
  "ts_LastEventHash (with_chain t) = []" "ts_ActiveHandStartAt (with_chain t) = []" "ts_Advertisement (with_chain t) = None"
  "tc_ProtocolVersion (ts_Config (with_chain t)) = nativeProtocolVersion"
  by (simp_all add: with_chain_def sync_table_def example_table_def)

lemma first_validation: "validation_table table None = table\<lparr>ts_LatestCustodyState := None\<rparr>"
  by (simp add: validation_table_def restoreAcceptedSeatStatusesFromCustodyState_def)

lemma sync_required:
  assumes "ts_Seats table = sync_seats"
  shows "requiredCustodySigners table (sync_transition h approvals hash) = [''a'', ''b'']"
proof -
  have "\<not> terminalCustodySeatStatus ''active''" "''a'' < ''b''" by code_simp+
  moreover have "claim_statuses (cs_StackClaims sync_state) = [(''a'', ''active''), (''b'', ''active'')]"
    by (simp add: claim_statuses_def sync_state_def demo_custody_def empty_claim_def demo_claim_def)
  ultimately show ?thesis
    using assms by (simp add: requiredCustodySigners_def sync_transition_fields excludedCustodySignerIDs_def sync_seats_def
        example_seat_def Let_def insort_key.simps)
qed

lemma sync_approval:
  assumes "player = ''a'' \<and> key = ''0a'' \<or> player = ''b'' \<and> key = ''0d''" "ts_Seats table = sync_seats"
    and "h = cp_RequestHash (ct_Proof sync_request)"
  obtains approval where "cg_PlayerID approval = player"
    "\<And>approvals hash. approval_ok (\<lambda>_. JNull) demo_curve table (sync_transition h approvals hash) approval"
proof -
  obtain seat where seat: "seatRecordForPlayer table player = Some seat" "se_WalletPubkeyHex seat = key"
    using assms(1,2) by (auto simp: seatRecordForPlayer_def sync_seats_def example_seat_def)
  have id: "me_WalletID (wallet_env player key) = \<lparr>li_PlayerID = player, li_PrivateKeyHex = key, li_PublicKeyHex = key\<rparr>"
    "me_Now (wallet_env player key) \<noteq> []" by (simp_all add: wallet_env_def example_env_def)
  obtain sk where key: "privateKeyAndPublicKeyHex demo_curve (\<lambda>_. Inl (Err [])) key
      = Inr (li_PrivateKeyHex (me_WalletID (wallet_env player key)), sk, li_PublicKeyHex (me_WalletID (wallet_env player key)))"
    using assms(1) peer_keys id by auto
  have names: "player \<noteq> []" "key \<noteq> []" using assms(1) by auto
  obtain approval where "cg_PlayerID approval = li_PlayerID (me_WalletID (wallet_env player key))"
      "approval_ok (\<lambda>_. JNull) demo_curve table (sync_transition h [] []) approval"
    by (rule honest_approval [where request = sync_request and transition = "sync_transition h [] []" and table = table
          and random = "\<lambda>_. Inl (Err [])", OF demo_curve_laws key])
      (use names id seat sync_request_fields in \<open>simp_all add: sync_transition_fields assms(3)\<close>)
  moreover have "approval_ok (\<lambda>_. JNull) demo_curve table (sync_transition h approvals hash) approval
      = approval_ok (\<lambda>_. JNull) demo_curve table (sync_transition h [] []) approval" for approvals hash
    using sync_request_fields(4,5)
    by (simp add: approval_ok_def sync_transition_fields custodyApprovalTargetHash_def firstNonEmptyString_def assms(3))
  ultimately show ?thesis using that id by simp
qed

lemma sync_approved:
  obtains t where "ValidateTransition (\<lambda>_. JNull) None t = Inr ()"
    "validateAcceptedCustodyTransition (\<lambda>_. JNull) demo_curve (example_env True) example_wc (with_chain t) None t = Inr ()"
    "\<exists>h approvals hash. t = sync_transition h approvals hash"
proof -
  let ?table = "sync_table\<lparr>ts_LatestCustodyState := None\<rparr>"
  define h where "h = cp_RequestHash (ct_Proof sync_request)"
  have seats: "ts_Seats sync_table = sync_seats" by (simp add: sync_table_def example_table_def)
  obtain a where a: "cg_PlayerID a = ''a''" "\<And>approvals hash. approval_ok (\<lambda>_. JNull) demo_curve sync_table (sync_transition h approvals hash) a"
    using sync_approval [OF _ seats h_def, of "''a''" "''0a''"] by auto
  obtain b where b: "cg_PlayerID b = ''b''" "\<And>approvals hash. approval_ok (\<lambda>_. JNull) demo_curve sync_table (sync_transition h approvals hash) b"
    using sync_approval [OF _ seats h_def, of "''b''" "''0d''"] by auto
  define hash where "hash = HashCustodyTransition (\<lambda>_. JNull) (sync_transition h [a, b] [])"
  define t where "t = sync_transition h [a, b] hash"
  let ?view = "(with_chain t)\<lparr>ts_LatestCustodyState := None\<rparr>"
  have "ts_Seats ?view = ts_Seats sync_table" using seats by simp
  then have ok: "approval_ok (\<lambda>_. JNull) demo_curve ?view t a" "approval_ok (\<lambda>_. JNull) demo_curve ?view t b"
    using a(2) b(2) approval_seats(1) unfolding t_def by metis+
  have required: "requiredCustodySigners ?view t = [''a'', ''b'']" unfolding t_def by (rule sync_required) simp
  have proof_parts: "cp_ChallengeBundle (ct_Proof t) = None" "cp_ChallengeWitness (ct_Proof t) = None" "cp_RecoveryWitness (ct_Proof t) = None"
      "cp_RecoveryBundles (ct_Proof t) = []" "cp_Signatures (ct_Proof t) = [a, b]" "ct_Approvals t = [a, b]" "cp_RequestHash (ct_Proof t) = h"
      "cp_TransitionHash (ct_Proof t) = hash" "ct_Kind t = TransitionKindAction" "cp_StateHash (ct_Proof t) = ct_NextStateHash t"
      "cp_ReplayValidated (ct_Proof t)" "ct_ArkIntentID t = []" "ct_ArkTxID t = []" "ct_NextState t = sync_state" "cp_VTXORefs (ct_Proof t) = []"
    by (simp_all add: t_def sync_transition_fields empty_proof_def)
  have h: "TrimSpace h = h" "h \<noteq> []" using sync_request_fields(4,5) by (simp_all add: h_def)
  have approvals: "validateCustodyApprovals (\<lambda>_. JNull) demo_curve ?view t [''a'', ''b''] = Inr ()"
    by (subst approvals_accepted_iff) (use ok a(1) b(1) h proof_parts in auto)
  have refs: "validateAcceptedCustodyRefs None t False = Inr ()"
    by (simp add: validateAcceptedCustodyRefs_def proof_parts sync_state_def demo_custody_def empty_claim_def demo_claim_def backings_def
        stackClaimBackedAmount_def sumVTXORefs_def Let_def)
  obtain plan where plan: "normalizedCustodyApprovalTransition (\<lambda>_. JNull) (example_env True) ?view t = Inr (sync_request, plan)"
    using sync_normalized [of ?view h "[a, b]" hash] by (auto simp: t_def)
  have fields: "check_proof_fields (example_env True) False t = Inr ()"
    using h by (simp add: check_proof_fields_def proof_parts hash_def HashCustodyTransition_def Let_def)
  have "validateAcceptedCustodyTransition (\<lambda>_. JNull) demo_curve (example_env True) example_wc (with_chain t) None t = Inr ()"
    using plan fields approvals refs by (simp add: validateAcceptedCustodyTransition_def first_validation required proof_parts h_def Let_def)
  moreover have "ValidateTransition (\<lambda>_. JNull) None t = Inr ()" unfolding t_def by (rule sync_transition_valid [OF hash_def])
  ultimately show ?thesis using that t_def by blast
qed

section \<open>A table with the transition, sent and erased\<close>

lemma sync_ledger:
  assumes "ValidateTransition (\<lambda>_. JNull) None t = Inr ()"
    and "validateAcceptedCustodyTransition (\<lambda>_. JNull) demo_curve (example_env True) example_wc (with_chain t) None t = Inr ()"
  shows "validateAcceptedHistoricalLedger (\<lambda>_. JNull) demo_curve (example_env True) (ledger_checks.truncate sync_checks_of) None (with_chain t)
    = Inr ()"
proof -
  have "TrimSpace [] = []" by code_simp
  then have "acceptedEventHistory demo_curve (with_chain t) = Inr \<lparr>eh_ByHash = [], eh_Hashes = [], eh_LastHash = []\<rparr>"
    by (simp add: acceptedEventHistory_def)
  moreover have "validateAcceptedCustodyHistory (\<lambda>_. JNull) (lc_transition (ledger_checks.truncate sync_checks_of)) None (with_chain t) = Inr ()"
    using assms by (simp add: validateAcceptedCustodyHistory_def sync_checks_of_def ledger_checks.defs wrap_err_def)
  moreover have "validateAcceptedInitiatorHistory demo_curve checks (with_chain t) = Inr ()" "validateAcceptedSnapshotHistory demo_curve (with_chain t) = Inr ()"
    "validateAcceptedEventAnchors (example_env True) (with_chain t) history = Inr ()"
    "validateAcceptedActiveHandTranscriptHistory None (with_chain t) = Inr ()" for checks history
    by (simp_all add: validateAcceptedInitiatorHistory_def validateAcceptedSnapshotHistory_def validateAcceptedEventAnchors_def
        check_public_anchor_def check_latest_anchor_def validateAcceptedActiveHandTranscriptHistory_def)
  ultimately show ?thesis by (simp add: validateAcceptedHistoricalLedger_def)
qed

lemma sync_participant: "isLocalTableParticipant sync_daemon (with_chain t)" "validateAcceptedTableProtocolVersion (with_chain t) = Inr ()"
proof -
  show "isLocalTableParticipant sync_daemon (with_chain t)"
    by (simp add: isLocalTableParticipant_def seatIndexForPlayer_def sync_seats_def example_seat_def sync_daemon_def)
  have "TrimSpace nativeProtocolVersion = nativeProtocolVersion" by code_simp
  then show "validateAcceptedTableProtocolVersion (with_chain t) = Inr ()" by (simp add: validateAcceptedTableProtocolVersion_def)
qed

lemma sync_accepted:
  assumes "ValidateTransition (\<lambda>_. JNull) None t = Inr ()" "\<exists>h approvals hash. t = sync_transition h approvals hash"
    and "validateAcceptedCustodyTransition (\<lambda>_. JNull) demo_curve (example_env True) example_wc (with_chain t) None t = Inr ()"
  shows "accept_remote_table (\<lambda>_. JNull) demo_curve (example_env True) sync_checks_of (\<lambda>_. Inr sync_peer) sync_daemon None (with_chain t)
    = Inr (with_chain t)"
proof -
  let ?t = "with_chain t"
  have "ct_Kind t \<noteq> TransitionKindTurnChallengeOpen" using assms(2) by (auto simp: sync_transition_fields)
  then have "validateAcceptedHandTranscript ?t = Inr ?t" "validateAcceptedPublicReplay sync_checks_of ?t = Inr ()"
    "validateAcceptedPendingTurnMenu sync_checks_of ?t = Inr ()" "validateAcceptedPendingTurnChallenge sync_checks_of ?t = Inr ()"
    by (simp_all add: validateAcceptedHandTranscript_def validateAcceptedPublicReplay_def validateAcceptedPendingTurnMenu_def
        validateAcceptedPendingTurnChallenge_def)
  moreover have strip: "stripReplicatedPendingTurnBundles ?t = ?t" by (simp add: stripReplicatedPendingTurnBundles_def with_chain_def sync_table_def example_table_def)
  ultimately have "validateAcceptedRemoteTable (\<lambda>_. JNull) demo_curve (example_env True) sync_checks_of (\<lambda>_. Inr sync_peer) sync_daemon None ?t = Inr ()"
    using sync_ledger [OF assms(1,3)] sync_participant by (simp add: validateAcceptedRemoteTable_def)
  moreover have "normalizeAcceptedActiveHand (example_env True) None ?t = Inr ?t"
    by (simp add: normalizeAcceptedActiveHand_def with_chain_def sync_table_def example_table_def)
  ultimately show ?thesis by (simp add: accept_remote_table_def strip mergeAcceptedPendingTurnMenu_def recovered_def)
qed

theorem accepted_transitions_are_approved_witness:
  "\<exists>t approval. accept_remote_table (\<lambda>_. JNull) demo_curve (example_env True) sync_checks_of (\<lambda>_. Inr sync_peer) sync_daemon None (with_chain t)
      = Inr (with_chain t) \<and> approval \<in> set (ct_Approvals t)
    \<and> VerifyStructuredData demo_curve ''0d'' (custodyApprovalPayload ''table-1'' ''b'' [] (custodyApprovalTargetHash (\<lambda>_. JNull) t) 1
        (cg_SignedAt approval)) (cg_SignatureHex approval) = Inr True"
proof (rule sync_approved)
  fix t
  assume t: "ValidateTransition (\<lambda>_. JNull) None t = Inr ()"
    "validateAcceptedCustodyTransition (\<lambda>_. JNull) demo_curve (example_env True) example_wc (with_chain t) None t = Inr ()"
    and form: "\<exists>h approvals hash. t = sync_transition h approvals hash"
  note accepted = sync_accepted [OF t(1) form t(2)]
  have checks: "lc_transition sync_checks_of = validateAcceptedCustodyTransition (\<lambda>_. JNull) demo_curve (example_env True) example_wc"
    by (simp add: sync_checks_of_def)
  have parts: "cp_ChallengeBundle (ct_Proof t) = None" "cp_ChallengeWitness (ct_Proof t) = None" "cp_RecoveryWitness (ct_Proof t) = None"
    "ct_TableID t = ''table-1''" "ct_PrevStateHash t = []" "ct_CustodySeq t = 1"
    using form by (auto simp: sync_transition_fields empty_proof_def)
  have signer: "''b'' \<in> set (requiredCustodySigners (validation_table (with_chain t) None) t)"
    using form sync_required [of "validation_table (with_chain t) None"] by (auto simp: first_validation)
  have seat: "seatRecordForPlayer (validation_table (with_chain t) None) ''b'' = Some seat \<Longrightarrow> se_WalletPubkeyHex seat = ''0d''" for seat
    by (auto simp: first_validation seatRecordForPlayer_def sync_seats_def example_seat_def)
  from accepted_transitions_are_approved [OF accepted checks, of 0 t None "''b''"] signer parts
  obtain seat approval where "seatRecordForPlayer (validation_table (with_chain t) None) ''b'' = Some seat"
      "approval \<in> set (ct_Approvals t)"
      "VerifyStructuredData demo_curve (se_WalletPubkeyHex seat) (custodyApprovalPayload ''table-1'' ''b'' []
        (custodyApprovalTargetHash (\<lambda>_. JNull) t) 1 (cg_SignedAt approval)) (cg_SignatureHex approval) = Inr True"
    by auto
  with seat accepted show ?thesis by metis
qed

theorem custody_chain_can_be_erased_witness:
  "\<exists>t. accept_remote_table (\<lambda>_. JNull) demo_curve (example_env True) sync_checks_of (\<lambda>_. Inr sync_peer) sync_daemon (Some (with_chain t))
      ((with_chain t)\<lparr>ts_CustodyTransitions := [], ts_LatestCustodyState := None\<rparr>)
    = Inr ((with_chain t)\<lparr>ts_CustodyTransitions := [], ts_LatestCustodyState := None\<rparr>) \<and> ts_CustodyTransitions (with_chain t) \<noteq> []"
proof (rule sync_approved)
  fix t
  assume t: "ValidateTransition (\<lambda>_. JNull) None t = Inr ()"
    "validateAcceptedCustodyTransition (\<lambda>_. JNull) demo_curve (example_env True) example_wc (with_chain t) None t = Inr ()"
  have "no_initiators (with_chain t)" by (simp add: no_initiators_def)
  then show ?thesis
    using custody_chain_can_be_erased [of "with_chain t", OF _ _ _ _ _ sync_ledger [OF t] sync_participant] by fastforce
qed


end
