(* ===== verification/Intent_Examples.thy ===== *)
theory Intent_Examples
  imports Sync_Examples
begin

text \<open>
  A player who asks to fold, and the record of it in the log of a table with two custody transitions: the theorems on
  requests and on accepted actions applied to them.
\<close>

section \<open>Asking to fold\<close>

definition fold_action :: Action where
  "fold_action = \<lparr>ac_Type = ActionFold, ac_TotalSats = 0\<rparr>"

lemma fold_offered:
  obtains options where "deriveFiniteMenuOptions demo_open (custody_table demo_open) = Inr options" "fold_action \<in> mo_Action ` set options"
proof -
  have "st_ActingSeatIndex demo_open = Some 0" "ActionFold \<in> set (plain_kinds demo_open (st_Players demo_open ! nat 0))" by code_simp+
  note acting = this
  note turn = turn_facts [OF demo_config_ok demo_reachable(2) acting(1)]
  obtain buckets bs where menu: "deriveFiniteMenuOptions demo_open (custody_table demo_open) = Inr (menu_of demo_open 0 buckets)"
    by (rule derive_menu [OF turn(1) acting(1) turn(2-4)])
  have "menu_option ActionFold 0 (action_type_str ActionFold) \<in> set (menu_of demo_open 0 buckets)" using acting(2) by (force simp: menu_of_def)
  then have "mo_Action (menu_option ActionFold 0 (action_type_str ActionFold)) \<in> mo_Action ` set (menu_of demo_open 0 buckets)" by (rule imageI)
  then show ?thesis using that [OF menu] by (simp add: menu_option_def fold_action_def)
qed

lemma fold_open:
  assumes "deriveFiniteMenuOptions demo_open (custody_table demo_open) = Inr options" "li_PublicKeyHex wallet = ''0a''"
  shows "action_open ((example_env True)\<lparr>me_WalletID := wallet\<rparr>) (custody_table demo_open) (example_active demo_open) options
    (example_seat 0 ''alice'' ''0a'')"
proof -
  have hand: "st_HandID demo_open \<noteq> []" "st_ActingSeatIndex demo_open = Some 0" "TrimSpace ''soon'' = ''soon''" by code_simp+
  have later: "TrimSpace ''later'' = ''later''" by code_simp
  have "seatRecordForPlayer (custody_table demo_open) (acting_player_id (custody_table demo_open) demo_open) = Some (example_seat 0 ''alice'' ''0a'')"
    by (simp add: custody_table_def example_table_def seatRecordForPlayer_def acting_player_id_def seatPlayerID_def hand(2) example_seat_def)
  moreover have "TrimSpace (currentCustodyActionDeadline ((example_env True)\<lparr>me_WalletID := wallet\<rparr>) (custody_table demo_open)) \<noteq> []"
    using hand(3) later by (simp add: currentCustodyActionDeadline_def custody_table_ok custody_deadline_def Let_def example_custody_def example_env_def)
  ultimately show ?thesis
    using assms hand custody_table_ok [of demo_open] by (simp add: action_open_def example_seat_def)
qed

lemma fold_wallet:
  obtains wallet where "CreateLocalIdentity demo_curve (\<lambda>_. Inl (Err [])) ''0a'' = Inr wallet" "li_PublicKeyHex wallet = ''0a''"
proof -
  obtain wallet where w: "CreateLocalIdentity demo_curve (\<lambda>_. Inl (Err [])) ''0a'' = Inr wallet" by (rule example_wallet)
  obtain sk where "privateKeyAndPublicKeyHex demo_curve (\<lambda>_. Inl (Err [])) ''0a'' = Inr (li_PrivateKeyHex wallet, sk, li_PublicKeyHex wallet)"
    by (rule local_identityD [OF w])
  then have "li_PublicKeyHex wallet = ''0a''" using peer_keys(1) by (metis sum.inject(2) prod.inject)
  with w that show ?thesis by blast
qed

theorem menu_actions_are_requestable_witness:
  "\<exists>wallet request. buildSignedActionRequest demo_curve (\<lambda>_. Inl (Err [])) ((example_env True)\<lparr>me_WalletID := wallet\<rparr>) ''p'' (custody_table demo_open)
      fold_action = Inr request
    \<and> validateActionRequest demo_curve (custody_table demo_open) (example_seat 0 ''alice'' ''0a'') request = Inr ()"
proof -
  obtain options where options: "deriveFiniteMenuOptions demo_open (custody_table demo_open) = Inr options" "fold_action \<in> mo_Action ` set options"
    by (rule fold_offered)
  obtain wallet where wallet: "CreateLocalIdentity demo_curve (\<lambda>_. Inl (Err [])) ''0a'' = Inr wallet" "li_PublicKeyHex wallet = ''0a''"
    by (rule fold_wallet)
  let ?env = "(example_env True)\<lparr>me_WalletID := wallet\<rparr>"
  have hand: "ah_State (example_active demo_open) = demo_open" "st_ActingSeatIndex demo_open = Some 0"
    by (simp add: example_active_def) code_simp
  have env: "CreateLocalIdentity demo_curve (\<lambda>_. Inl (Err [])) ''0a'' = Inr (me_WalletID ?env)" "me_Now ?env \<noteq> []"
    using wallet(1) by (simp_all add: example_env_def)
  from menu_actions_are_requestable [OF demo_config_ok _ _ fold_open [OF options(1) wallet(2)] demo_curve_laws keys_given(1) env,
      unfolded hand(1), OF demo_reachable(2) hand(2), of "\<lambda>_. Inl (Err [])" "''p''" fold_action] options(2)
  show ?thesis by blast
qed

section \<open>A recorded action\<close>

text \<open>A second transition after the one of the other example, and the request it carries out.\<close>

definition fold_transition :: "string \<Rightarrow> CustodyTransition" where
  "fold_transition hash = (sync_transition [] [] hash)
     \<lparr>ct_CustodySeq := 2, ct_NextState := sync_state\<lparr>cs_CustodySeq := 2\<rparr>, ct_Action := Some \<lparr>ad_TotalSats = 0, ad_Type = ''fold''\<rparr>\<rparr>"

definition fold_request :: nativeActionRequest where
  "fold_request = empty_action_request\<lparr>aq_Action := fold_action, aq_PlayerID := ''a''\<rparr>"

lemma fold_transition_valid:
  assumes "hash = HashCustodyTransition (\<lambda>_. JNull) (fold_transition [])"
  shows "ValidateTransition (\<lambda>_. JNull) (Some sync_state) (fold_transition hash) = Inr ()"
proof -
  have "fold_transition hash = (fold_transition [])\<lparr>ct_Proof := (ct_Proof (fold_transition []))\<lparr>cp_TransitionHash := hash\<rparr>\<rparr>"
    by (simp add: fold_transition_def sync_transition_def Let_def)
  then have same: "HashCustodyTransition (\<lambda>_. JNull) (fold_transition hash) = hash"
    using assms transition_hash_ignores_itself by metis
  show ?thesis
    using same
    by (simp add: ValidateTransition_def transition_checks validate_state_rules state_rules_def claim_rules_def paid_into_def
        fold_transition_def sync_transition_fields sync_state_def demo_custody_def empty_claim_def demo_claim_def empty_proof_def
        Let_def count_witnesses_def kind_in_def no_ark_ids_def)
qed

definition fold_chain :: "string \<Rightarrow> string \<Rightarrow> nativeTableState" where
  "fold_chain hash hash' = sync_table\<lparr>ts_CustodyTransitions := [sync_transition [] [] hash, fold_transition hash'],
     ts_LatestCustodyState := Some (ct_NextState (fold_transition hash'))\<rparr>"

definition open_checks :: sync_checks where
  "open_checks = sync_checks_of\<lparr>lc_transition := (\<lambda>_ _ _. Inr ())\<rparr>"

lemma fold_signed:
  obtains request where "request_exact request" "aq_PlayerID request = ''a''" "aq_Action request = fold_action"
    "aq_HandID request = []" "aq_DecisionIndex request = 0" "aq_Epoch request = 0" "aq_PrevCustodyStateHash request = []"
    "\<And>seat. se_WalletPubkeyHex seat = ''0a'' \<Longrightarrow> verifyNativeActionRequestSignature demo_curve seat request = Inr ()"
proof -
  obtain wallet where wallet: "CreateLocalIdentity demo_curve (\<lambda>_. Inl (Err [])) ''0a'' = Inr wallet" "li_PublicKeyHex wallet = ''0a''"
    by (rule fold_wallet)
  let ?env = "(example_env True)\<lparr>me_WalletID := wallet\<rparr>"
  have env: "CreateLocalIdentity demo_curve (\<lambda>_. Inl (Err [])) ''0a'' = Inr (me_WalletID ?env)" "me_Now ?env \<noteq> []" "me_Now ?env = ''now''"
    using wallet(1) by (simp_all add: example_env_def)
  obtain sig where sig: "signActionRequest demo_curve (\<lambda>_. Inl (Err [])) ?env [] fold_request
      = Inr (fold_request\<lparr>aq_ProfileName := [], aq_SignedAt := ''now'', aq_SignatureHex := sig\<rparr>)"
    "\<And>seat. se_WalletPubkeyHex seat = li_PublicKeyHex (me_WalletID ?env) \<Longrightarrow> verifyNativeActionRequestSignature demo_curve seat
      (fold_request\<lparr>aq_ProfileName := [], aq_SignedAt := ''now'', aq_SignatureHex := sig\<rparr>) = Inr ()"
    using signed_request [OF demo_curve_laws keys_given(1) env(1,2), of "\<lambda>_. Inl (Err [])" "[]" fold_request] unfolding env(3) by blast
  have "\<exists>bytes. sig = EncodeToString bytes"
    using sig(1) by (auto simp: signActionRequest_def Let_def bind_res_ok SignStructuredData_def signCompactHex_def
        fold_request_def empty_action_request_def split: sum.splits option.splits)
  then have "valid_utf8 sig" using valid_utf8_hex by blast
  moreover have "list_all valid_utf8 [''fold'', [], ''a'', ''now'']" by code_simp
  ultimately have "request_exact (fold_request\<lparr>aq_ProfileName := [], aq_SignedAt := ''now'', aq_SignatureHex := sig\<rparr>)"
    by (simp add: request_exact_def fold_request_def empty_action_request_def fold_action_def exact_number_def action_type_of_def)
  moreover have "verifyNativeActionRequestSignature demo_curve seat
      (fold_request\<lparr>aq_ProfileName := [], aq_SignedAt := ''now'', aq_SignatureHex := sig\<rparr>) = Inr ()"
    if "se_WalletPubkeyHex seat = ''0a''" for seat using sig(2) that wallet(2) by simp
  moreover have "aq_PlayerID fold_request = ''a''" "aq_Action fold_request = fold_action" "aq_HandID fold_request = []"
    "aq_DecisionIndex fold_request = 0" "aq_Epoch fold_request = 0" "aq_PrevCustodyStateHash fold_request = []"
    by (simp_all add: fold_request_def empty_action_request_def)
  ultimately show ?thesis
    using that [of "fold_request\<lparr>aq_ProfileName := [], aq_SignedAt := ''now'', aq_SignatureHex := sig\<rparr>"] by simp
qed

lemma fold_body_plain:
  assumes "request_exact request"
  shows "plain (body_value (Some (player_action_body request transition seat)))"
proof -
  have "integers (canonicalizeValue (raw_action_request request))"
    unfolding canonical_recorded [OF assms] using recorded_integers [of request] by (simp add: struct_json_def)
  moreover have "canonicalizeValue (body_value (Some (player_action_body request transition seat))) =
      JObj [(''actionRequest'', canonicalizeValue (raw_action_request request)), (''custodySeq'', JInt (ct_CustodySeq transition)),
        (''playerId'', JStr (aq_PlayerID request)), (''seatIndex'', JInt seat), (''transitionHash'', JStr (cp_TransitionHash (ct_Proof transition))),
        (''type'', JStr ''PlayerAction'')]"
  proof -
    let ?fs = "[(''actionRequest'', Some (raw_action_request request)), int_member ''custodySeq'' (ct_CustodySeq transition),
        str_member ''playerId'' (aq_PlayerID request), int_member ''seatIndex'' seat,
        str_member ''transitionHash'' (cp_TransitionHash (ct_Proof transition)), str_member ''type'' ''PlayerAction'']"
    have "body_value (Some (player_action_body request transition seat)) = any_map ?fs"
      by (simp add: body_value_def player_action_body_def any_map_def str_member_def int_member_def)
    moreover have "sorted_wrt (<) [''actionRequest'', ''custodySeq'', ''playerId'', ''seatIndex'', ''transitionHash'', ''type'']" by code_simp
    then have "sorted_wrt (\<lambda>a b. \<not> fst b < fst a) (member_values ?fs)"
      by (auto simp: member_values_def str_member_def int_member_def dest: order.asym simp del: less_list_code)
    then have "slice_stable (\<lambda>a b. fst a < fst b) (member_values ?fs) = member_values ?fs"
      by (intro strict_weak.slice_sorted_id [OF strict_weak_key])
    moreover have "distinct (map fst ?fs)" by (simp add: str_member_def int_member_def)
    ultimately show ?thesis by (simp add: canonical_any_map member_values_def str_member_def int_member_def)
  qed
  ultimately show ?thesis by (simp add: plain_def)
qed

text \<open>The table after the host has recorded the fold, and its acceptance by a daemon that has no table yet.\<close>

lemma fold_recorded:
  assumes "hash' = HashCustodyTransition (\<lambda>_. JNull) (fold_transition [])"
  obtains table event request where
    "appendEvent demo_curve (\<lambda>_. Inl (Err [])) sync_daemon ''now'' ''now'' (fold_chain hash hash')
      (player_action_body request (fold_transition hash') 0) = Inr table"
    "ts_Events table = [event]" "event_type event = ''PlayerAction''" "is_ok (acceptedEventHistory demo_curve table)"
    "check_player_action demo_curve table event = Inr ()"
proof -
  obtain request where request: "request_exact request" "aq_PlayerID request = ''a''" "aq_Action request = fold_action"
    "aq_HandID request = []" "aq_DecisionIndex request = 0" "aq_Epoch request = 0" "aq_PrevCustodyStateHash request = []"
    "\<And>seat. se_WalletPubkeyHex seat = ''0a'' \<Longrightarrow> verifyNativeActionRequestSignature demo_curve seat request = Inr ()"
    by (rule fold_signed) blast
  let ?body = "player_action_body request (fold_transition hash') 0"
  have empty: "ts_PublicState (fold_chain hash hash') = None" "ts_LastEventHash (fold_chain hash hash') = []" "ts_Events (fold_chain hash hash') = []"
    by (simp_all add: fold_chain_def sync_table_def example_table_def)
  have "plain_event (new_event sync_daemon ''now'' (fold_chain hash hash') ?body)"
    using fold_body_plain [OF request(1)] by (simp add: plain_event_def new_event_def empty plain_def)
  then obtain table where t: "appendEvent demo_curve (\<lambda>_. Inl (Err [])) sync_daemon ''now'' ''now'' (fold_chain hash hash') ?body = Inr table"
    using append_succeeds [OF demo_curve_laws sync_daemon_keys(1)] by blast
  have history: "acceptedEventHistory demo_curve (fold_chain hash hash') = Inr \<lparr>eh_ByHash = [], eh_Hashes = [], eh_LastHash = []\<rparr>"
    using TrimSpace_empty by (simp add: acceptedEventHistory_def empty)
  have network: "da_Network sync_daemon = tc_NetworkID (ts_Config (fold_chain hash hash'))"
    using sync_daemon_keys(2) by (simp add: fold_chain_def sync_table_def example_config_def)
  obtain event where event: "ts_Events table = [event]" "ev_Body event = Some ?body" "is_ok (acceptedEventHistory demo_curve table)"
    using append_keeps_history [OF demo_curve_laws sync_daemon_keys(1) network history t] empty(3) by auto
  have later: "ts_CustodyTransitions table = [sync_transition [] [] hash] @ [fold_transition hash']" "ts_Seats table = sync_seats"
    using t by (auto simp: appendEvent_def Let_def bind_res_ok fold_chain_def sync_table_def example_table_def)
  have "hash' \<noteq> []" "TrimSpace hash' = hash'" unfolding assms by (simp_all add: HashCustodyTransition_def HashValue_digest Let_def)
  then have carried: "carries_out (fold_transition hash') request [sync_transition [] [] hash]"
    using request(3,6) by (simp add: carries_out_def fold_transition_def sync_transition_fields sync_state_def demo_custody_def
        empty_proof_def fold_action_def exact_number_def)
  have "check_player_action demo_curve table event = Inr ()"
  proof (rule recorded_event_ok [OF request(1) event(2) _ carried later(1)])
    show "seatRecordForPlayer table (aq_PlayerID request) = Some (hd sync_seats)"
      using later(2) request(2) by (simp add: seatRecordForPlayer_def sync_seats_def example_seat_def)
    show "verifyNativeActionRequestSignature demo_curve (hd sync_seats) request = Inr ()"
      by (rule request(8)) (simp add: sync_seats_def example_seat_def)
  qed (use request TrimSpace_empty in \<open>simp_all add: sync_transition_fields sync_state_def demo_custody_def\<close>)
  moreover have "event_type event = ''PlayerAction''"
    using event(2) by (simp add: event_type_def body_at_def player_action_body_def)
  ultimately show ?thesis using that [OF t event(1) _ event(3)] by blast
qed

lemma appended_fields:
  assumes "appendEvent curve random daemon at at' (fold_chain hash hash') body = Inr table"
  shows "ts_CustodyTransitions table = [sync_transition [] [] hash, fold_transition hash']"
    "ts_LatestCustodyState table = Some (ct_NextState (fold_transition hash'))" "ts_Seats table = sync_seats" "ts_Snapshots table = []"
    "ts_ActiveHand table = None" "ts_PendingTurnMenu table = None" "ts_PendingTurnChallenge table = None" "ts_PublicState table = None"
    "ts_LatestSnapshot table = None" "ts_LatestFullySignedSnapshot table = None" "ts_ActiveHandStartAt table = []"
    "ts_Advertisement table = None" "tc_ProtocolVersion (ts_Config table) = nativeProtocolVersion"
  using assms by (auto simp: appendEvent_def Let_def bind_res_ok fold_chain_def sync_table_def example_table_def)

lemma recorded_ledger:
  assumes "hash = HashCustodyTransition (\<lambda>_. JNull) (sync_transition [] [] [])" "hash' = HashCustodyTransition (\<lambda>_. JNull) (fold_transition [])"
    and "appendEvent curve random daemon at at' (fold_chain hash hash') body = Inr table"
    and "ts_Events table = [event]" "event_type event = ''PlayerAction''" "is_ok (acceptedEventHistory demo_curve table)"
    and "check_player_action demo_curve table event = Inr ()"
  shows "validateAcceptedHistoricalLedger (\<lambda>_. JNull) demo_curve (example_env True) (ledger_checks.truncate open_checks) None table = Inr ()"
proof -
  note fields = appended_fields [OF assms(3)]
  obtain history where "acceptedEventHistory demo_curve table = Inr history"
    using assms(6) by (auto simp: is_ok_def split: sum.splits)
  moreover have "validateAcceptedCustodyHistory (\<lambda>_. JNull) (lc_transition (ledger_checks.truncate open_checks)) None table = Inr ()"
    using sync_transition_valid [OF assms(1)] fold_transition_valid [OF assms(2)]
    by (simp add: validateAcceptedCustodyHistory_def fields open_checks_def ledger_checks.defs wrap_err_def sync_transition_fields)
  moreover have "validateAcceptedInitiatorHistory demo_curve checks table = Inr ()" for checks
    using assms(4,5,7) by (simp add: validateAcceptedInitiatorHistory_def check_initiator_def)
  moreover have "validateAcceptedSnapshotHistory demo_curve table = Inr ()"
    "validateAcceptedEventAnchors (example_env True) table h = Inr ()" "validateAcceptedActiveHandTranscriptHistory None table = Inr ()" for h
    by (simp_all add: validateAcceptedSnapshotHistory_def validateAcceptedEventAnchors_def fields
        check_public_anchor_def check_latest_anchor_def validateAcceptedActiveHandTranscriptHistory_def)
  ultimately show ?thesis by (simp add: validateAcceptedHistoricalLedger_def)
qed

lemma recorded_accepted:
  assumes "appendEvent curve random daemon at at' (fold_chain hash hash') body = Inr table"
    and "validateAcceptedHistoricalLedger (\<lambda>_. JNull) demo_curve (example_env True) (ledger_checks.truncate open_checks) None table = Inr ()"
  shows "accept_remote_table (\<lambda>_. JNull) demo_curve (example_env True) open_checks (\<lambda>_. Inr sync_peer) sync_daemon None table = Inr table"
proof -
  note fields = appended_fields [OF assms(1)]
  have strip: "stripReplicatedPendingTurnBundles table = table" by (simp add: stripReplicatedPendingTurnBundles_def fields)
  have "TrimSpace nativeProtocolVersion = nativeProtocolVersion" by code_simp
  then have "validateAcceptedTableProtocolVersion table = Inr ()" by (simp add: validateAcceptedTableProtocolVersion_def fields)
  moreover have "isLocalTableParticipant sync_daemon table"
    by (simp add: isLocalTableParticipant_def seatIndexForPlayer_def fields sync_seats_def example_seat_def sync_daemon_def)
  moreover have "validateAcceptedHandTranscript table = Inr table" "validateAcceptedPublicReplay open_checks table = Inr ()"
    "validateAcceptedPendingTurnMenu open_checks table = Inr ()" "validateAcceptedPendingTurnChallenge open_checks table = Inr ()"
    by (simp_all add: validateAcceptedHandTranscript_def validateAcceptedPublicReplay_def validateAcceptedPendingTurnMenu_def
        validateAcceptedPendingTurnChallenge_def fields fold_transition_def sync_transition_fields)
  ultimately have "validateAcceptedRemoteTable (\<lambda>_. JNull) demo_curve (example_env True) open_checks (\<lambda>_. Inr sync_peer) sync_daemon None table = Inr ()"
    using assms(2) by (simp add: validateAcceptedRemoteTable_def strip)
  moreover have "normalizeAcceptedActiveHand (example_env True) None table = Inr table"
    by (simp add: normalizeAcceptedActiveHand_def fields)
  ultimately show ?thesis by (simp add: accept_remote_table_def strip mergeAcceptedPendingTurnMenu_def recovered_def)
qed

theorem accepted_actions_are_signed_witness:
  "\<exists>table event index. accept_remote_table (\<lambda>_. JNull) demo_curve (example_env True) open_checks (\<lambda>_. Inr sync_peer) sync_daemon None table = Inr table
    \<and> ts_Events table = [event] \<and> event_type event = ''PlayerAction''
    \<and> cp_TransitionHash (ct_Proof (ts_CustodyTransitions table ! index)) = eventTransitionHash event"
proof -
  define hash where "hash = HashCustodyTransition (\<lambda>_. JNull) (sync_transition [] [] [])"
  define hash' where "hash' = HashCustodyTransition (\<lambda>_. JNull) (fold_transition [])"
  obtain table event request where t: "appendEvent demo_curve (\<lambda>_. Inl (Err [])) sync_daemon ''now'' ''now'' (fold_chain hash hash')
      (player_action_body request (fold_transition hash') 0) = Inr table"
    and event: "ts_Events table = [event]" "event_type event = ''PlayerAction''" "is_ok (acceptedEventHistory demo_curve table)"
      "check_player_action demo_curve table event = Inr ()"
    by (rule fold_recorded [OF hash'_def, of hash])
  note accepted = recorded_accepted [OF t recorded_ledger [OF hash_def hash'_def t event]]
  have "event \<in> set (ts_Events table)" using event(1) by simp
  from accepted_actions_are_signed [OF accepted this event(2)] accepted event(1,2) show ?thesis by blast
qed

end
